(* ===== verification/Prelude.thy ===== *)
theory Prelude
  imports Main "HOL-Library.Word"
begin

text \<open>
  The prelude of the Token-2022 development: the machine types of the program, Rust's
  \<open>Result\<close> as a sum with its propagation operator \<open>?\<close>, checked and saturating arithmetic on
  fixed-width integers, byte slices, little-endian encodings, and the contract of a plain-old-data
  type (a fixed-size value that is reinterpreted from and to bytes).  Everything here is shared by
  the component theories; nothing here models a source file of its own.
\<close>

section \<open>Machine types\<close>

type_synonym u8 = "8 word"
type_synonym u16 = "16 word"
type_synonym u32 = "32 word"
type_synonym u64 = "64 word"
type_synonym u128 = "128 word"

text \<open>A \<open>Pubkey\<close> is \<open>[u8; 32]\<close>; it is kept as the 256-bit word with these little-endian bytes.\<close>

type_synonym pubkey = "256 word"
type_synonym bytes = "u8 list"

section \<open>Results\<close>

text \<open>
  \<open>Result<T, E>\<close> is the sum \<open>'e + 'a\<close>.  \<open>and_then m f\<close> is Rust's \<open>Result::and_then\<close>, and
  models \<open>let x = m?; f(x)\<close>: the first error is the result of the whole function.
\<close>

abbreviation Ok :: "'a \<Rightarrow> 'e + 'a" where "Ok \<equiv> Inr"
abbreviation Err :: "'e \<Rightarrow> 'e + 'a" where "Err \<equiv> Inl"

definition and_then :: "'e + 'a \<Rightarrow> ('a \<Rightarrow> 'e + 'b) \<Rightarrow> 'e + 'b" where
  "and_then m f = (case m of Inl e \<Rightarrow> Inl e | Inr x \<Rightarrow> f x)"

definition ok_or :: "'a option \<Rightarrow> 'e \<Rightarrow> 'e + 'a" where
  "ok_or v e = (case v of None \<Rightarrow> Inl e | Some x \<Rightarrow> Inr x)"

definition map_err :: "('e \<Rightarrow> 'f) \<Rightarrow> 'e + 'a \<Rightarrow> 'f + 'a" where
  "map_err f m = (case m of Inl e \<Rightarrow> Inl (f e) | Inr x \<Rightarrow> Inr x)"

definition ok :: "'e + 'a \<Rightarrow> 'a option" where
  "ok m = (case m of Inl _ \<Rightarrow> None | Inr x \<Rightarrow> Some x)"

definition is_ok :: "'e + 'a \<Rightarrow> bool" where
  "is_ok m = (case m of Inl _ \<Rightarrow> False | Inr _ \<Rightarrow> True)"

text \<open>\<open>ensure c e\<close> is the guard \<open>if !c { return Err(e) }\<close>.\<close>

definition ensure :: "bool \<Rightarrow> 'e \<Rightarrow> 'e + unit" where
  "ensure c e = (if c then Inr () else Inl e)"

text \<open>
  \<open>res_simps\<close> turns the success of a handler into the conjunction of what each of its steps
  returned, and evaluates handlers on known steps.
\<close>

named_theorems res_simps

lemma and_then_simps [simp]:
  "and_then (Inl e) f = Inl e" "and_then (Inr x) f = f x"
  by (simp_all add: and_then_def)

lemma ok_or_simps [simp]: "ok_or None e = Inl e" "ok_or (Some x) e = Inr x"
  by (simp_all add: ok_or_def)

lemma map_err_simps [simp]: "map_err f (Inl e) = Inl (f e)" "map_err f (Inr x) = Inr x"
  by (simp_all add: map_err_def)

lemma ok_simps [simp]: "ok (Inl e) = None" "ok (Inr x) = Some x"
  by (simp_all add: ok_def)

lemma is_ok_simps [simp]: "\<not> is_ok (Inl e)" "is_ok (Inr x)"
  by (simp_all add: is_ok_def)

lemma ensure_simps [simp]: "ensure True e = Inr ()" "ensure False e = Inl e"
  by (simp_all add: ensure_def)

lemma is_ok_iff: "is_ok m \<longleftrightarrow> (\<exists>x. m = Inr x)"
  by (cases m) simp_all

lemma and_then_Ok [res_simps]: "and_then m f = Inr y \<longleftrightarrow> (\<exists>x. m = Inr x \<and> f x = Inr y)"
  by (cases m) simp_all

lemma ok_or_Ok [res_simps]: "ok_or v e = Inr x \<longleftrightarrow> v = Some x"
  by (cases v) simp_all

lemma map_err_Ok [res_simps]: "map_err f m = Inr x \<longleftrightarrow> m = Inr x"
  by (cases m) simp_all

lemma ok_Some [res_simps]: "ok m = Some x \<longleftrightarrow> m = Inr x"
  by (cases m) simp_all

lemma ok_None: "ok m = None \<longleftrightarrow> \<not> is_ok m"
  by (cases m) simp_all

lemma ensure_Ok [res_simps]: "ensure c e = Inr u \<longleftrightarrow> c"
  by (simp add: ensure_def)

lemma if_Err_Ok [res_simps]: "(if c then Inl e else m) = Inr y \<longleftrightarrow> \<not> c \<and> m = Inr y"
  by simp

lemma if_Ok_Err [res_simps]: "(if c then m else Inl e) = Inr y \<longleftrightarrow> c \<and> m = Inr y"
  by simp

section \<open>Words as natural numbers\<close>

lemma unat_less: "unat w < 2 ^ LENGTH('a)" for w :: "'a::len word"
  by (rule unsigned_less)

lemma unat_ucast_up: "LENGTH('a) \<le> LENGTH('b) \<Longrightarrow> unat (ucast (x :: 'a::len word) :: 'b::len word) = unat x"
proof -
  assume "LENGTH('a) \<le> LENGTH('b)"
  then have "(2::nat) ^ LENGTH('a) \<le> 2 ^ LENGTH('b)" by (simp add: power_increasing)
  then have "unat x < 2 ^ LENGTH('b)" using unat_less [of x] by linarith
  then show ?thesis by (simp add: unsigned_ucast_eq take_bit_nat_eq_self)
qed

lemma unat_of_nat_eq: "n < 2 ^ LENGTH('a) \<Longrightarrow> unat (of_nat n :: 'a::len word) = n"
  by (simp add: unat_of_nat)

lemma word_eqI_unat: "unat v = unat w \<Longrightarrow> v = w" for v w :: "'a::len word"
  by (simp add: unsigned_word_eqI)

lemma word_eq_of_nat_iff: "n < 2 ^ LENGTH('a) \<Longrightarrow> w = of_nat n \<longleftrightarrow> unat w = n" for w :: "'a::len word"
  using unat_of_nat_eq by auto

lemma unat_min: "unat (min a b) = min (unat a) (unat b)" for a b :: "'a::len word"
  by (simp add: min_def word_le_nat_alt)

section \<open>Checked and saturating arithmetic\<close>

definition checked_add :: "'a::len word \<Rightarrow> 'a word \<Rightarrow> 'a word option" where
  "checked_add a b = (if unat a + unat b < 2 ^ LENGTH('a) then Some (a + b) else None)"

definition checked_sub :: "'a::len word \<Rightarrow> 'a word \<Rightarrow> 'a word option" where
  "checked_sub a b = (if b \<le> a then Some (a - b) else None)"

definition checked_mul :: "'a::len word \<Rightarrow> 'a word \<Rightarrow> 'a word option" where
  "checked_mul a b = (if unat a * unat b < 2 ^ LENGTH('a) then Some (a * b) else None)"

definition checked_div :: "'a::len word \<Rightarrow> 'a word \<Rightarrow> 'a word option" where
  "checked_div a b = (if b = 0 then None else Some (a div b))"

definition saturating_sub :: "'a::len word \<Rightarrow> 'a word \<Rightarrow> 'a word" where
  "saturating_sub a b = (if b \<le> a then a - b else 0)"

definition saturating_add :: "'a::len word \<Rightarrow> 'a word \<Rightarrow> 'a word" where
  "saturating_add a b = (if unat a + unat b < 2 ^ LENGTH('a) then a + b else - 1)"

lemma checked_add_Some:
  "checked_add a b = Some c \<longleftrightarrow> unat a + unat b < 2 ^ LENGTH('a) \<and> c = a + b"
  for a b c :: "'a::len word"
  by (auto simp: checked_add_def)

lemma checked_add_unat:
  "checked_add a b = Some c \<Longrightarrow> unat c = unat a + unat b"
  for a b c :: "'a::len word"
  by (auto simp: checked_add_def unat_word_ariths split: if_splits)

lemma checked_sub_Some: "checked_sub a b = Some c \<longleftrightarrow> b \<le> a \<and> c = a - b"
  by (auto simp: checked_sub_def)

lemma checked_sub_unat: "checked_sub a b = Some c \<Longrightarrow> unat c + unat b = unat a"
proof -
  assume "checked_sub a b = Some c"
  then have "b \<le> a" "c = a - b" by (simp_all add: checked_sub_Some)
  then show ?thesis by (simp add: unat_sub word_le_nat_alt)
qed

lemma checked_mul_unat:
  "checked_mul a b = Some c \<Longrightarrow> unat c = unat a * unat b"
  for a b c :: "'a::len word"
  by (auto simp: checked_mul_def unat_word_ariths split: if_splits)

lemma checked_mul_Some_unat:
  "unat a * unat b < 2 ^ LENGTH('a) \<Longrightarrow> \<exists>c. checked_mul a b = Some c \<and> unat c = unat a * unat b"
  for a b :: "'a::len word"
  by (simp add: checked_mul_def unat_word_ariths)

lemma saturating_sub_unat: "unat (saturating_sub a b) = unat a - unat b"
  by (simp add: saturating_sub_def unat_sub word_le_nat_alt)

lemma saturating_add_unat:
  "unat (saturating_add a b) = min (unat a + unat b) (2 ^ LENGTH('a) - 1)"
  for a b :: "'a::len word"
proof (cases "unat a + unat b < 2 ^ LENGTH('a)")
  case True
  then show ?thesis by (simp add: saturating_add_def unat_word_ariths)
next
  case False
  have "unat (- 1 :: 'a word) = 2 ^ LENGTH('a) - 1"
    by (simp add: unsigned_minus_1_eq_mask mask_eq_exp_minus_1)
  with False show ?thesis by (simp add: saturating_add_def)
qed

section \<open>Slices\<close>

text \<open>\<open>subslice off n bs\<close> is \<open>bs[off..off + n]\<close>; the callers check the range first.\<close>

definition subslice :: "nat \<Rightarrow> nat \<Rightarrow> 'a list \<Rightarrow> 'a list" where
  "subslice off n xs = take n (drop off xs)"

text \<open>\<open>overwrite off ys xs\<close> is \<open>xs[off..off + ys.len()].copy_from_slice(ys)\<close>.\<close>

definition overwrite :: "nat \<Rightarrow> 'a list \<Rightarrow> 'a list \<Rightarrow> 'a list" where
  "overwrite off ys xs = take off xs @ ys @ drop (off + length ys) xs"

named_theorems subslice_simps

lemma length_subslice [simp]: "off + n \<le> length xs \<Longrightarrow> length (subslice off n xs) = n"
  by (simp add: subslice_def)

lemma length_overwrite [simp]: "off + length ys \<le> length xs \<Longrightarrow> length (overwrite off ys xs) = length xs"
  by (simp add: overwrite_def)

lemma subslice_all [subslice_simps]: "n = length xs \<Longrightarrow> subslice 0 n xs = xs"
  by (simp add: subslice_def)

lemma subslice_append_left [subslice_simps]:
  "off + n \<le> length xs \<Longrightarrow> subslice off n (xs @ ys) = subslice off n xs"
  by (simp add: subslice_def)

lemma subslice_append_right [subslice_simps]:
  "length xs \<le> off \<Longrightarrow> subslice off n (xs @ ys) = subslice (off - length xs) n ys"
  by (simp add: subslice_def)

lemma subslice_Cons [subslice_simps]: "0 < off \<Longrightarrow> subslice off n (x # xs) = subslice (off - 1) n xs"
  by (cases off) (simp_all add: subslice_def)

lemma subslice_one: "i < length bs \<Longrightarrow> [bs ! i] = subslice i (Suc 0) bs"
  by (simp add: subslice_def take_Suc hd_drop_conv_nth)

lemma subslice_join: "subslice off n xs @ subslice (off + n) m xs = subslice off (n + m) xs"
proof -
  have "drop (off + n) xs = drop n (drop off xs)" by (simp add: add.commute)
  then show ?thesis by (simp add: subslice_def take_add)
qed

lemma subslice_overwrite_same:
  "off + length ys \<le> length xs \<Longrightarrow> n = length ys \<Longrightarrow> subslice off n (overwrite off ys xs) = ys"
  by (simp add: subslice_def overwrite_def)

lemma subslice_overwrite_before:
  "i + n \<le> off \<Longrightarrow> off + length ys \<le> length xs \<Longrightarrow> subslice i n (overwrite off ys xs) = subslice i n xs"
  by (simp add: subslice_def overwrite_def take_drop min_def)

lemma subslice_overwrite_after:
  assumes "off + length ys \<le> i" "off + length ys \<le> length xs"
  shows "subslice i n (overwrite off ys xs) = subslice i n xs"
proof -
  have "drop i (take off xs @ ys @ drop (off + length ys) xs) =
      drop (i - (off + length ys)) (drop (off + length ys) xs)"
    using assms by (simp add: min_def)
  also have "\<dots> = drop i xs" using assms by simp
  finally show ?thesis by (simp add: subslice_def overwrite_def)
qed

lemma overwrite_subslice_id: "off + n \<le> length xs \<Longrightarrow> overwrite off (subslice off n xs) xs = xs"
  by (simp add: subslice_def overwrite_def)
     (metis append.assoc append_take_drop_id take_add)

lemma take_overwrite: "off \<le> length xs \<Longrightarrow> take off (overwrite off ys xs) = take off xs"
  by (simp add: overwrite_def)

lemma drop_overwrite:
  "off + length ys \<le> i \<Longrightarrow> off + length ys \<le> length xs \<Longrightarrow> drop i (overwrite off ys xs) = drop i xs"
  by (simp add: overwrite_def min_def)

section \<open>Little-endian encodings\<close>

fun le_bytes :: "nat \<Rightarrow> nat \<Rightarrow> bytes" where
  "le_bytes 0 v = []"
| "le_bytes (Suc n) v = word_of_nat (v mod 256) # le_bytes n (v div 256)"

fun le_nat :: "bytes \<Rightarrow> nat" where
  "le_nat [] = 0"
| "le_nat (b # bs) = unat b + 256 * le_nat bs"

lemma length_le_bytes [simp]: "length (le_bytes n v) = n"
  by (induction n arbitrary: v) auto

lemma le_nat_le_bytes: "le_nat (le_bytes n v) = v mod 256 ^ n"
proof (induction n arbitrary: v)
  case 0
  then show ?case by simp
next
  case (Suc n)
  have "unat (word_of_nat (v mod 256) :: u8) = v mod 256"
    by (simp add: unat_of_nat)
  then have "le_nat (le_bytes (Suc n) v) = v mod 256 + 256 * (v div 256 mod 256 ^ n)"
    using Suc by simp
  also have "\<dots> = v mod (256 * 256 ^ n)"
    by (simp only: mod_mult2_eq add.commute)
  finally show ?case by simp
qed

lemma le_nat_bound: "le_nat bs < 256 ^ length bs"
proof (induction bs)
  case Nil
  then show ?case by simp
next
  case (Cons b bs)
  have "unat b < 256" using unsigned_less [of b, where ?'a = nat] by simp
  with Cons show ?case by simp
qed

lemma le_bytes_le_nat: "le_bytes (length bs) (le_nat bs) = bs"
proof (induction bs)
  case Nil
  then show ?case by simp
next
  case (Cons b bs)
  have "unat b < 256" using unsigned_less [of b, where ?'a = nat] by simp
  with Cons show ?case by simp
qed

text \<open>\<open>to_le_bytes\<close> and \<open>from_le_bytes\<close> of a word of \<open>n\<close> bytes.\<close>

definition to_le :: "nat \<Rightarrow> 'a::len word \<Rightarrow> bytes" where
  "to_le n w = le_bytes n (unat w)"

definition from_le :: "bytes \<Rightarrow> 'a::len word" where
  "from_le bs = word_of_nat (le_nat bs)"

lemma length_to_le [simp]: "length (to_le n w) = n"
  by (simp add: to_le_def)

lemma from_le_to_le:
  assumes "LENGTH('a) = 8 * n"
  shows "from_le (to_le n w) = (w :: 'a::len word)"
proof -
  have "(256::nat) ^ n = 2 ^ LENGTH('a)"
    using assms by (simp add: power_mult)
  then have "unat w mod 256 ^ n = unat w"
    by simp
  then show ?thesis by (simp add: from_le_def to_le_def le_nat_le_bytes)
qed

lemma to_le_from_le:
  assumes "LENGTH('a) = 8 * n" "length bs = n"
  shows "to_le n (from_le bs :: 'a::len word) = bs"
proof -
  have "le_nat bs < 2 ^ LENGTH('a)"
    using le_nat_bound [of bs] assms by (simp add: power_mult)
  then have "unat (from_le bs :: 'a word) = le_nat bs"
    by (simp add: from_le_def unat_of_nat)
  then show ?thesis using assms(2) le_bytes_le_nat [of bs] by (simp add: to_le_def)
qed

section \<open>Plain-old-data types\<close>

text \<open>
  The contract of a \<open>Pod\<close> type: a value is exactly its bytes.  Reading back what was written
  gives the value, and writing back what was read leaves the bytes as they were.
\<close>

locale pod =
  fixes size :: nat
    and enc :: "'a \<Rightarrow> bytes"
    and dec :: "bytes \<Rightarrow> 'a"
  assumes length_enc: "length (enc x) = size"
    and dec_enc: "dec (enc x) = x"
    and enc_dec: "length bs = size \<Longrightarrow> enc (dec bs) = bs"
begin

lemma enc_inj: "enc x = enc y \<longleftrightarrow> x = y"
  using dec_enc by metis

lemma dec_inj: "length bs = size \<Longrightarrow> length cs = size \<Longrightarrow> dec bs = dec cs \<longleftrightarrow> bs = cs"
  using enc_dec by metis

end

interpretation u16_pod: pod 2 "to_le 2" "from_le :: bytes \<Rightarrow> u16"
  by unfold_locales (simp_all add: from_le_to_le to_le_from_le)

interpretation u32_pod: pod 4 "to_le 4" "from_le :: bytes \<Rightarrow> u32"
  by unfold_locales (simp_all add: from_le_to_le to_le_from_le)

interpretation u64_pod: pod 8 "to_le 8" "from_le :: bytes \<Rightarrow> u64"
  by unfold_locales (simp_all add: from_le_to_le to_le_from_le)

interpretation pubkey_pod: pod 32 "to_le 32" "from_le :: bytes \<Rightarrow> pubkey"
  by unfold_locales (simp_all add: from_le_to_le to_le_from_le)

lemmas le_pod_simps [simp] =
  u16_pod.dec_enc u32_pod.dec_enc u64_pod.dec_enc pubkey_pod.dec_enc
  u16_pod.enc_dec u32_pod.enc_dec u64_pod.enc_dec pubkey_pod.enc_dec

end
