(* ===== verification/Token_Error.thy ===== *)
theory Token_Error
  imports Prelude
begin

text \<open>
  The error values of the program: \<open>TokenError\<close> (src/interface/src/error.rs) with its numeric
  codes, and the variants of \<open>ProgramError\<close> the program returns.  Three variants have no
  counterpart in the enum of the source.  \<open>PodCast\<close> is the error with which \<open>pod_from_bytes\<close>
  rejects a slice of the wrong length (which \<open>ProgramError\<close> that is belongs to the library that
  declares it, and nothing here depends on it).  \<open>Panicked\<close> is a Rust panic, which aborts the
  instruction exactly as an error does.  \<open>External\<close> carries an error that comes back from
  code outside the repository (a cross-program invocation, a system call).
\<close>

section \<open>Token errors\<close>

datatype (plugins only: code) TokenError =
    NotRentExempt | InsufficientFunds | InvalidMint | MintMismatch | OwnerMismatch
  | FixedSupply | AlreadyInUse | InvalidNumberOfProvidedSigners
  | InvalidNumberOfRequiredSigners | UninitializedState | NativeNotSupported
  | NonNativeHasBalance | InvalidInstruction | InvalidState | Overflow
  | AuthorityTypeNotSupported | MintCannotFreeze | AccountFrozen | MintDecimalsMismatch
  | NonNativeNotSupported | ExtensionTypeMismatch | ExtensionBaseMismatch
  | ExtensionAlreadyInitialized | ConfidentialTransferAccountHasBalance
  | ConfidentialTransferAccountNotApproved | ConfidentialTransferDepositsAndTransfersDisabled
  | ConfidentialTransferElGamalPubkeyMismatch | ConfidentialTransferBalanceMismatch
  | MintHasSupply | NoAuthorityExists | TransferFeeExceedsMaximum | MintRequiredForTransfer
  | FeeMismatch | FeeParametersMismatch | ImmutableOwner | AccountHasWithheldTransferFees
  | NoMemo | NonTransferable | NonTransferableNeedsImmutableOwnership
  | MaximumPendingBalanceCreditCounterExceeded | MaximumDepositAmountExceeded
  | CpiGuardSettingsLocked | CpiGuardTransferBlocked | CpiGuardBurnBlocked
  | CpiGuardCloseAccountBlocked | CpiGuardApproveBlocked | CpiGuardSetAuthorityBlocked
  | CpiGuardOwnerChangeBlocked | ExtensionNotFound | NonConfidentialTransfersDisabled
  | ConfidentialTransferFeeAccountHasWithheldFee | InvalidExtensionCombination
  | InvalidLengthForAlloc | AccountDecryption | ProofGeneration | InvalidProofInstructionOffset
  | HarvestToMintDisabled | SplitProofContextStateAccountsNotSupported
  | NotEnoughProofContextStateAccounts | MalformedCiphertext | CiphertextArithmeticFailed
  | PedersenCommitmentMismatch | RangeProofLengthMismatch | IllegalBitLength | FeeCalculation
  | IllegalMintBurnConversion | InvalidScale | MintPaused | PendingBalanceNonZero

text \<open>\<open>e as u32\<close>: the discriminants count the variants from 0 in declaration order.\<close>

primrec token_error_code :: "TokenError \<Rightarrow> u32" where
  "token_error_code NotRentExempt = 0"
| "token_error_code InsufficientFunds = 1"
| "token_error_code InvalidMint = 2"
| "token_error_code MintMismatch = 3"
| "token_error_code OwnerMismatch = 4"
| "token_error_code FixedSupply = 5"
| "token_error_code AlreadyInUse = 6"
| "token_error_code InvalidNumberOfProvidedSigners = 7"
| "token_error_code InvalidNumberOfRequiredSigners = 8"
| "token_error_code UninitializedState = 9"
| "token_error_code NativeNotSupported = 10"
| "token_error_code NonNativeHasBalance = 11"
| "token_error_code InvalidInstruction = 12"
| "token_error_code InvalidState = 13"
| "token_error_code Overflow = 14"
| "token_error_code AuthorityTypeNotSupported = 15"
| "token_error_code MintCannotFreeze = 16"
| "token_error_code AccountFrozen = 17"
| "token_error_code MintDecimalsMismatch = 18"
| "token_error_code NonNativeNotSupported = 19"
| "token_error_code ExtensionTypeMismatch = 20"
| "token_error_code ExtensionBaseMismatch = 21"
| "token_error_code ExtensionAlreadyInitialized = 22"
| "token_error_code ConfidentialTransferAccountHasBalance = 23"
| "token_error_code ConfidentialTransferAccountNotApproved = 24"
| "token_error_code ConfidentialTransferDepositsAndTransfersDisabled = 25"
| "token_error_code ConfidentialTransferElGamalPubkeyMismatch = 26"
| "token_error_code ConfidentialTransferBalanceMismatch = 27"
| "token_error_code MintHasSupply = 28"
| "token_error_code NoAuthorityExists = 29"
| "token_error_code TransferFeeExceedsMaximum = 30"
| "token_error_code MintRequiredForTransfer = 31"
| "token_error_code FeeMismatch = 32"
| "token_error_code FeeParametersMismatch = 33"
| "token_error_code ImmutableOwner = 34"
| "token_error_code AccountHasWithheldTransferFees = 35"
| "token_error_code NoMemo = 36"
| "token_error_code NonTransferable = 37"
| "token_error_code NonTransferableNeedsImmutableOwnership = 38"
| "token_error_code MaximumPendingBalanceCreditCounterExceeded = 39"
| "token_error_code MaximumDepositAmountExceeded = 40"
| "token_error_code CpiGuardSettingsLocked = 41"
| "token_error_code CpiGuardTransferBlocked = 42"
| "token_error_code CpiGuardBurnBlocked = 43"
| "token_error_code CpiGuardCloseAccountBlocked = 44"
| "token_error_code CpiGuardApproveBlocked = 45"
| "token_error_code CpiGuardSetAuthorityBlocked = 46"
| "token_error_code CpiGuardOwnerChangeBlocked = 47"
| "token_error_code ExtensionNotFound = 48"
| "token_error_code NonConfidentialTransfersDisabled = 49"
| "token_error_code ConfidentialTransferFeeAccountHasWithheldFee = 50"
| "token_error_code InvalidExtensionCombination = 51"
| "token_error_code InvalidLengthForAlloc = 52"
| "token_error_code AccountDecryption = 53"
| "token_error_code ProofGeneration = 54"
| "token_error_code InvalidProofInstructionOffset = 55"
| "token_error_code HarvestToMintDisabled = 56"
| "token_error_code SplitProofContextStateAccountsNotSupported = 57"
| "token_error_code NotEnoughProofContextStateAccounts = 58"
| "token_error_code MalformedCiphertext = 59"
| "token_error_code CiphertextArithmeticFailed = 60"
| "token_error_code PedersenCommitmentMismatch = 61"
| "token_error_code RangeProofLengthMismatch = 62"
| "token_error_code IllegalBitLength = 63"
| "token_error_code FeeCalculation = 64"
| "token_error_code IllegalMintBurnConversion = 65"
| "token_error_code InvalidScale = 66"
| "token_error_code MintPaused = 67"
| "token_error_code PendingBalanceNonZero = 68"

text \<open>The variants in declaration order, as \<open>FromPrimitive\<close> derives them.\<close>

definition token_errors :: "TokenError list" where
  "token_errors = [
    NotRentExempt , InsufficientFunds , InvalidMint , MintMismatch , OwnerMismatch
    , FixedSupply , AlreadyInUse , InvalidNumberOfProvidedSigners
    , InvalidNumberOfRequiredSigners , UninitializedState , NativeNotSupported
    , NonNativeHasBalance , InvalidInstruction , InvalidState , Overflow
    , AuthorityTypeNotSupported , MintCannotFreeze , AccountFrozen , MintDecimalsMismatch
    , NonNativeNotSupported , ExtensionTypeMismatch , ExtensionBaseMismatch
    , ExtensionAlreadyInitialized , ConfidentialTransferAccountHasBalance
    , ConfidentialTransferAccountNotApproved , ConfidentialTransferDepositsAndTransfersDisabled
    , ConfidentialTransferElGamalPubkeyMismatch , ConfidentialTransferBalanceMismatch
    , MintHasSupply , NoAuthorityExists , TransferFeeExceedsMaximum , MintRequiredForTransfer
    , FeeMismatch , FeeParametersMismatch , ImmutableOwner , AccountHasWithheldTransferFees
    , NoMemo , NonTransferable , NonTransferableNeedsImmutableOwnership
    , MaximumPendingBalanceCreditCounterExceeded , MaximumDepositAmountExceeded
    , CpiGuardSettingsLocked , CpiGuardTransferBlocked , CpiGuardBurnBlocked
    , CpiGuardCloseAccountBlocked , CpiGuardApproveBlocked , CpiGuardSetAuthorityBlocked
    , CpiGuardOwnerChangeBlocked , ExtensionNotFound , NonConfidentialTransfersDisabled
    , ConfidentialTransferFeeAccountHasWithheldFee , InvalidExtensionCombination
    , InvalidLengthForAlloc , AccountDecryption , ProofGeneration
    , InvalidProofInstructionOffset , HarvestToMintDisabled
    , SplitProofContextStateAccountsNotSupported , NotEnoughProofContextStateAccounts
    , MalformedCiphertext , CiphertextArithmeticFailed , PedersenCommitmentMismatch
    , RangeProofLengthMismatch , IllegalBitLength , FeeCalculation , IllegalMintBurnConversion
    , InvalidScale , MintPaused , PendingBalanceNonZero]"

section \<open>Program errors\<close>

datatype ProgramError =
    Custom u32
  | InvalidArgument | InvalidInstructionData | InvalidAccountData | AccountDataTooSmall
  | InsufficientFundsLamports | IncorrectProgramId | MissingRequiredSignature
  | AccountAlreadyInitialized | UninitializedAccount | NotEnoughAccountKeys
  | AccountBorrowFailed | UnsupportedSysvar | InvalidSeeds | InvalidRealloc | IllegalOwner
  | InvalidAccountOwner | AccountNotRentExempt
  | PodCast | Panicked | External u32

text \<open>\<open>impl From<TokenError> for ProgramError\<close>.\<close>

definition token_error :: "TokenError \<Rightarrow> ProgramError" where
  "token_error e = Custom (token_error_code e)"

text \<open>\<open>impl TryFrom<u32> for TokenError\<close>.\<close>

definition token_error_try_from :: "u32 \<Rightarrow> ProgramError + TokenError" where
  "token_error_try_from code =
     (if unat code < length token_errors then Ok (token_errors ! unat code)
      else Err InvalidArgument)"

lemma token_error_try_from_code: "token_error_try_from (token_error_code e) = Ok e"
  by (cases e) (simp_all add: token_error_try_from_def token_errors_def)

lemma token_error_code_inj: "token_error_code d = token_error_code e \<longleftrightarrow> d = e"
  by (metis token_error_try_from_code sum.inject(2))

lemma token_error_inj [simp]: "token_error d = token_error e \<longleftrightarrow> d = e"
  by (simp add: token_error_def token_error_code_inj)

lemma token_error_distinct [simp]:
  "token_error e \<noteq> InvalidArgument" "token_error e \<noteq> InvalidAccountData"
  "token_error e \<noteq> MissingRequiredSignature" "token_error e \<noteq> IncorrectProgramId"
  "token_error e \<noteq> NotEnoughAccountKeys" "token_error e \<noteq> UninitializedAccount"
  "token_error e \<noteq> Panicked" "token_error e \<noteq> PodCast" "token_error e \<noteq> External x"
  by (simp_all add: token_error_def)

type_synonym 'a result = "ProgramError + 'a"

abbreviation TErr :: "TokenError \<Rightarrow> 'a result" where
  "TErr e \<equiv> Err (token_error e)"

end
