(* ===== verification/Pod_State.thy ===== *)
theory Pod_State
  imports Token_Error
begin

text \<open>
  The base state of the program as it lies in account data (src/interface/src/pod.rs):
  \<open>PodMint\<close> (82 bytes), \<open>PodAccount\<close> (165 bytes), \<open>PodMultisig\<close> (355 bytes) and
  \<open>PodCOption\<close>.  Each is a record with the fields in the order of the \<open>repr(C)\<close> struct, and
  \<open>enc_\<close>/\<open>dec_\<close> give the bytes of the struct and the struct of the bytes, field by field at the
  offsets of the struct.  \<open>PodBool\<close> is the byte it is stored as, true when it is not 0;
  \<open>OptionalNonZeroPubkey\<close> is the key it is stored as, absent when it is the default (zero) key.
\<close>

section \<open>Scalars\<close>

type_synonym PodBool = u8
type_synonym OptionalNonZeroPubkey = pubkey

definition pod_bool :: "PodBool \<Rightarrow> bool" where
  "pod_bool b = (b \<noteq> 0)"

definition pod_bool_from :: "bool \<Rightarrow> PodBool" where
  "pod_bool_from b = (if b then 1 else 0)"

lemma pod_bool_from [simp]: "pod_bool (pod_bool_from b) = b"
  by (simp add: pod_bool_def pod_bool_from_def)

text \<open>\<open>Option::<Pubkey>::from(OptionalNonZeroPubkey)\<close>.\<close>

definition opt_key :: "OptionalNonZeroPubkey \<Rightarrow> pubkey option" where
  "opt_key k = (if k = 0 then None else Some k)"

text \<open>\<open>OptionalNonZeroPubkey::try_from(Option<Pubkey>)\<close> and of a \<open>COption\<close>.\<close>

definition opt_key_try_from :: "pubkey option \<Rightarrow> OptionalNonZeroPubkey result" where
  "opt_key_try_from v =
     (case v of None \<Rightarrow> Ok 0 | Some k \<Rightarrow> if k = 0 then Err InvalidArgument else Ok k)"

lemma opt_key_try_from_Ok: "opt_key_try_from v = Ok k \<Longrightarrow> opt_key k = v"
  by (auto simp: opt_key_try_from_def opt_key_def split: option.splits if_splits)

section \<open>Account states\<close>

datatype AccountState = Uninitialized | Initialized | Frozen

primrec account_state_code :: "AccountState \<Rightarrow> u8" where
  "account_state_code AccountState.Uninitialized = 0"
| "account_state_code Initialized = 1"
| "account_state_code Frozen = 2"

definition account_state_try_from :: "u8 \<Rightarrow> AccountState option" where
  "account_state_try_from b =
     (if b = 0 then Some AccountState.Uninitialized else if b = 1 then Some Initialized
      else if b = 2 then Some Frozen else None)"

lemma account_state_try_from_code [simp]: "account_state_try_from (account_state_code s) = Some s"
  by (cases s) (simp_all add: account_state_try_from_def)

lemma account_state_try_from_Some:
  "account_state_try_from b = Some s \<longleftrightarrow> b = account_state_code s"
  by (cases s) (auto simp: account_state_try_from_def)

section \<open>PodCOption\<close>

text \<open>The tag \<open>[u8; 4]\<close> is kept as the little-endian word of its bytes: \<open>NONE\<close> is 0, \<open>SOME\<close> is 1.\<close>

record 'a PodCOption =
  co_option :: u32
  co_value :: 'a

definition coption_none :: "'a::zero PodCOption" where
  "coption_none = \<lparr>co_option = 0, co_value = 0\<rparr>"

definition coption_some :: "'a \<Rightarrow> 'a PodCOption" where
  "coption_some v = \<lparr>co_option = 1, co_value = v\<rparr>"

definition coption_is_some :: "'a PodCOption \<Rightarrow> bool" where
  "coption_is_some c = (co_option c = 1)"

definition coption_is_none :: "'a PodCOption \<Rightarrow> bool" where
  "coption_is_none c = (co_option c = 0)"

definition coption_unwrap_or :: "'a PodCOption \<Rightarrow> 'a \<Rightarrow> 'a" where
  "coption_unwrap_or c d = (if co_option c = 0 then d else co_value c)"

definition coption_ok_or :: "'a PodCOption \<Rightarrow> 'e \<Rightarrow> 'e + 'a" where
  "coption_ok_or c e = (if co_option c = 1 then Ok (co_value c) else Err e)"

text \<open>\<open>impl TryFrom<PodCOption<Pubkey>> for OptionalNonZeroPubkey\<close>, its last arm \<open>unreachable!()\<close>.\<close>

definition coption_try_into :: "pubkey PodCOption \<Rightarrow> OptionalNonZeroPubkey result" where
  "coption_try_into c =
     (if co_option c = 1 \<and> co_value c = 0 then Err InvalidArgument
      else if co_option c = 1 then Ok (co_value c)
      else if co_option c = 0 then Ok 0
      else Err Panicked)"

text \<open>\<open>impl From<COption<T>> for PodCOption<T>\<close>.\<close>

definition coption_from :: "'a::zero option \<Rightarrow> 'a PodCOption" where
  "coption_from v = (case v of None \<Rightarrow> \<lparr>co_option = 0, co_value = 0\<rparr>
     | Some x \<Rightarrow> \<lparr>co_option = 1, co_value = x\<rparr>)"

text \<open>What the handlers see of a \<open>PodCOption\<close>: a value when the tag is \<open>SOME\<close>.\<close>

definition coption :: "'a PodCOption \<Rightarrow> 'a option" where
  "coption c = (if co_option c = 1 then Some (co_value c) else None)"

lemma coption_simps [simp]:
  "coption coption_none = None" "coption (coption_some v) = Some v" "coption (coption_from w) = w"
  by (auto simp: coption_def coption_none_def coption_some_def coption_from_def split: option.splits)

lemma coption_is_some_iff: "coption_is_some c \<longleftrightarrow> coption c \<noteq> None"
  by (simp add: coption_is_some_def coption_def)

lemma coption_ok_or_eq: "coption_ok_or c e = ok_or (coption c) e"
  by (simp add: coption_ok_or_def coption_def)

lemma coption_try_into_Ok: "coption_try_into c = Ok k \<Longrightarrow> opt_key k = coption c"
  by (auto simp: coption_try_into_def opt_key_def coption_def split: if_splits)

definition enc_coption :: "nat \<Rightarrow> 'a::len word PodCOption \<Rightarrow> bytes" where
  "enc_coption n c = to_le 4 (co_option c) @ to_le n (co_value c)"

definition dec_coption :: "nat \<Rightarrow> bytes \<Rightarrow> 'a::len word PodCOption" where
  "dec_coption n bs = \<lparr>co_option = from_le (subslice 0 4 bs), co_value = from_le (subslice 4 n bs)\<rparr>"

section \<open>Base states\<close>

record PodMint =
  m_mint_authority :: "pubkey PodCOption"
  m_supply :: u64
  m_decimals :: u8
  m_is_initialized :: PodBool
  m_freeze_authority :: "pubkey PodCOption"

record PodAccount =
  a_mint :: pubkey
  a_owner :: pubkey
  a_amount :: u64
  a_delegate :: "pubkey PodCOption"
  a_state :: u8
  a_is_native :: "u64 PodCOption"
  a_delegated_amount :: u64
  a_close_authority :: "pubkey PodCOption"

record PodMultisig =
  ms_m :: u8
  ms_n :: u8
  ms_is_initialized :: PodBool
  ms_signers :: "pubkey list"

text \<open>The public keys the account predicates compare with; declared by the SDK.\<close>

record sdk_ids =
  system_program_id :: pubkey
  incinerator_id :: pubkey

definition mint_is_initialized :: "PodMint \<Rightarrow> bool" where
  "mint_is_initialized m = pod_bool (m_is_initialized m)"

definition account_is_frozen :: "PodAccount \<Rightarrow> bool" where
  "account_is_frozen a = (a_state a = account_state_code Frozen)"

definition account_is_native :: "PodAccount \<Rightarrow> bool" where
  "account_is_native a = coption_is_some (a_is_native a)"

definition account_is_initialized :: "PodAccount \<Rightarrow> bool" where
  "account_is_initialized a =
     (a_state a = account_state_code Initialized \<or> a_state a = account_state_code Frozen)"

definition is_owned_by_system_program_or_incinerator :: "sdk_ids \<Rightarrow> PodAccount \<Rightarrow> bool" where
  "is_owned_by_system_program_or_incinerator ids a =
     (a_owner a = system_program_id ids \<or> a_owner a = incinerator_id ids)"

definition MINT_LEN :: nat where "MINT_LEN = 82"
definition ACCOUNT_LEN :: nat where "ACCOUNT_LEN = 165"
definition MULTISIG_LEN :: nat where "MULTISIG_LEN = 355"
definition MAX_SIGNERS :: nat where "MAX_SIGNERS = 11"
definition MIN_SIGNERS :: nat where "MIN_SIGNERS = 1"

lemmas base_lens = MINT_LEN_def ACCOUNT_LEN_def MULTISIG_LEN_def

definition enc_mint :: "PodMint \<Rightarrow> bytes" where
  "enc_mint m = enc_coption 32 (m_mint_authority m) @ to_le 8 (m_supply m)
     @ [m_decimals m, m_is_initialized m] @ enc_coption 32 (m_freeze_authority m)"

definition dec_mint :: "bytes \<Rightarrow> PodMint" where
  "dec_mint bs = \<lparr>m_mint_authority = dec_coption 32 (subslice 0 36 bs),
     m_supply = from_le (subslice 36 8 bs), m_decimals = bs ! 44, m_is_initialized = bs ! 45,
     m_freeze_authority = dec_coption 32 (subslice 46 36 bs)\<rparr>"

definition enc_account :: "PodAccount \<Rightarrow> bytes" where
  "enc_account a = to_le 32 (a_mint a) @ to_le 32 (a_owner a) @ to_le 8 (a_amount a)
     @ enc_coption 32 (a_delegate a) @ [a_state a] @ enc_coption 8 (a_is_native a)
     @ to_le 8 (a_delegated_amount a) @ enc_coption 32 (a_close_authority a)"

definition dec_account :: "bytes \<Rightarrow> PodAccount" where
  "dec_account bs = \<lparr>a_mint = from_le (subslice 0 32 bs), a_owner = from_le (subslice 32 32 bs),
     a_amount = from_le (subslice 64 8 bs), a_delegate = dec_coption 32 (subslice 72 36 bs),
     a_state = bs ! 108, a_is_native = dec_coption 8 (subslice 109 12 bs),
     a_delegated_amount = from_le (subslice 121 8 bs),
     a_close_authority = dec_coption 32 (subslice 129 36 bs)\<rparr>"

text \<open>The signer array: \<open>n\<close> keys of 32 bytes each.\<close>

fun dec_keys :: "nat \<Rightarrow> bytes \<Rightarrow> pubkey list" where
  "dec_keys 0 bs = []"
| "dec_keys (Suc n) bs = from_le (subslice 0 32 bs) # dec_keys n (drop 32 bs)"

definition enc_multisig :: "PodMultisig \<Rightarrow> bytes" where
  "enc_multisig ms = [ms_m ms, ms_n ms, ms_is_initialized ms] @ concat (map (to_le 32) (ms_signers ms))"

definition dec_multisig :: "bytes \<Rightarrow> PodMultisig" where
  "dec_multisig bs = \<lparr>ms_m = bs ! 0, ms_n = bs ! 1, ms_is_initialized = bs ! 2,
     ms_signers = dec_keys MAX_SIGNERS (drop 3 bs)\<rparr>"

section \<open>The layouts are plain old data\<close>

lemma length_enc_coption [simp]: "length (enc_coption n c) = 4 + n"
  by (simp add: enc_coption_def)

lemma dec_enc_coption:
  "LENGTH('a::len) = 8 * n \<Longrightarrow> dec_coption n (enc_coption n c) = (c :: 'a word PodCOption)"
  by (simp add: dec_coption_def enc_coption_def subslice_simps subslice_def from_le_to_le)

lemma enc_dec_coption:
  assumes "LENGTH('a::len) = 8 * n" "length bs = 4 + n"
  shows "enc_coption n (dec_coption n bs :: 'a word PodCOption) = bs"
proof -
  have "subslice 0 4 bs @ subslice 4 n bs = bs"
    using subslice_join [of 0 4 bs n] assms(2) by (simp add: subslice_all)
  then show ?thesis using assms by (simp add: dec_coption_def enc_coption_def to_le_from_le)
qed

interpretation coption_key_pod: pod 36 "enc_coption 32" "dec_coption 32 :: bytes \<Rightarrow> pubkey PodCOption"
  by unfold_locales (simp_all add: dec_enc_coption enc_dec_coption)

interpretation coption_u64_pod: pod 12 "enc_coption 8" "dec_coption 8 :: bytes \<Rightarrow> u64 PodCOption"
  by unfold_locales (simp_all add: dec_enc_coption enc_dec_coption)

lemmas coption_pod_simps [simp] =
  coption_key_pod.dec_enc coption_key_pod.enc_dec coption_u64_pod.dec_enc coption_u64_pod.enc_dec

lemma enc_dec_mint:
  assumes "length bs = 82"
  shows "enc_mint (dec_mint bs) = bs"
proof -
  have "[bs ! 44, bs ! 45] = subslice 44 2 bs"
    using subslice_join [of 44 1 bs 1] assms
    by (simp add: subslice_one [symmetric] numeral_2_eq_2)
  then have "enc_mint (dec_mint bs) =
      subslice 0 36 bs @ subslice 36 8 bs @ subslice 44 2 bs @ subslice 46 36 bs"
    using assms by (simp add: enc_mint_def dec_mint_def)
  also have "\<dots> = subslice 0 82 bs"
    using subslice_join [of 44 2 bs 36] subslice_join [of 36 8 bs 38] subslice_join [of 0 36 bs 46] by simp
  finally show ?thesis using assms by (simp add: subslice_all)
qed

lemma enc_dec_account:
  assumes "length bs = 165"
  shows "enc_account (dec_account bs) = bs"
proof -
  have "enc_account (dec_account bs) = subslice 0 32 bs @ subslice 32 32 bs @ subslice 64 8 bs @
      subslice 72 36 bs @ subslice 108 1 bs @ subslice 109 12 bs @ subslice 121 8 bs @ subslice 129 36 bs"
    using assms by (simp add: enc_account_def dec_account_def subslice_one)
  also have "\<dots> = subslice 0 165 bs"
    using subslice_join [of 121 8 bs 36] subslice_join [of 109 12 bs 44] subslice_join [of 108 1 bs 56]
      subslice_join [of 72 36 bs 57] subslice_join [of 64 8 bs 93] subslice_join [of 32 32 bs 101]
      subslice_join [of 0 32 bs 133] by simp
  finally show ?thesis using assms by (simp add: subslice_all)
qed

lemma dec_enc_mint: "dec_mint (enc_mint m) = m"
  by (simp add: dec_mint_def enc_mint_def subslice_simps nth_append)

lemma dec_enc_account: "dec_account (enc_account a) = a"
  by (simp add: dec_account_def enc_account_def subslice_simps nth_append)

interpretation mint_pod: pod 82 enc_mint dec_mint
proof unfold_locales
  show "length (enc_mint m) = 82" for m by (simp add: enc_mint_def)
qed (simp_all add: enc_dec_mint dec_enc_mint)

interpretation account_pod: pod 165 enc_account dec_account
proof unfold_locales
  show "length (enc_account a) = 165" for a by (simp add: enc_account_def)
qed (simp_all add: enc_dec_account dec_enc_account)

lemmas base_pod_simps [simp] =
  mint_pod.dec_enc mint_pod.enc_dec mint_pod.length_enc
  account_pod.dec_enc account_pod.enc_dec account_pod.length_enc

lemma length_dec_keys [simp]: "length (dec_keys n bs) = n"
  by (induction n arbitrary: bs) simp_all

lemma dec_keys_concat: "dec_keys (length ks) (concat (map (to_le 32) ks)) = ks"
  by (induction ks) (simp_all add: subslice_append_left subslice_all)

lemma concat_dec_keys: "length bs = 32 * n \<Longrightarrow> concat (map (to_le 32) (dec_keys n bs)) = bs"
proof (induction n arbitrary: bs)
  case 0
  then show ?case by simp
next
  case (Suc n)
  then have "concat (map (to_le 32) (dec_keys n (drop 32 bs))) = drop 32 bs" by simp
  with Suc.prems show ?case by (simp add: subslice_def)
qed

lemma dec_enc_multisig:
  "length (ms_signers ms) = MAX_SIGNERS \<Longrightarrow> dec_multisig (enc_multisig ms) = ms"
  using dec_keys_concat [of "ms_signers ms"] by (simp add: dec_multisig_def enc_multisig_def)

lemma length_concat_keys [simp]: "length (concat (map (to_le 32) ks)) = 32 * length ks"
  by (induction ks) simp_all

lemma length_enc_multisig:
  "length (ms_signers ms) = MAX_SIGNERS \<Longrightarrow> length (enc_multisig ms) = MULTISIG_LEN"
  by (simp add: enc_multisig_def MAX_SIGNERS_def MULTISIG_LEN_def)

end
