(* ===== verification/Extension_Type.thy ===== *)
theory Extension_Type
  imports Pod_State
begin

text \<open>
  Account and extension types and the sizes they need (src/interface/src/extension/mod.rs):
  the enums with their discriminants, the account type an extension belongs to, the length of the
  account data that holds a set of extensions, the extensions a token account must carry for its
  mint, and the rule on combinations of mint extensions.  The test-only variants of the enum
  (\<open>cfg(test)\<close>) are left out.  A \<open>usize\<close> is a natural number: account data is far
  shorter than \<open>usize::MAX\<close>, so the saturating additions of the source never saturate.
\<close>

section \<open>Account types\<close>

datatype AccountType = Uninitialized | Mint | Account

primrec account_type_code :: "AccountType \<Rightarrow> u8" where
  "account_type_code AccountType.Uninitialized = 0"
| "account_type_code Mint = 1"
| "account_type_code Account = 2"

definition account_type_try_from :: "u8 \<Rightarrow> AccountType option" where
  "account_type_try_from b =
     (if b = 0 then Some AccountType.Uninitialized else if b = 1 then Some Mint
      else if b = 2 then Some Account else None)"

lemma account_type_try_from_Some:
  "account_type_try_from b = Some t \<longleftrightarrow> b = account_type_code t"
  by (cases t) (auto simp: account_type_try_from_def)

text \<open>
  The two instances of the trait \<open>BaseState\<close>: generic functions over \<open>S: BaseState\<close> take
  the instance as an argument.
\<close>

datatype BaseState = MintBase | AccountBase

primrec SIZE_OF :: "BaseState \<Rightarrow> nat" where
  "SIZE_OF MintBase = MINT_LEN"
| "SIZE_OF AccountBase = ACCOUNT_LEN"

primrec ACCOUNT_TYPE :: "BaseState \<Rightarrow> AccountType" where
  "ACCOUNT_TYPE MintBase = Mint"
| "ACCOUNT_TYPE AccountBase = Account"

section \<open>Extension types\<close>

datatype ExtensionType =
    Uninitialized | TransferFeeConfig | TransferFeeAmount | MintCloseAuthority
  | ConfidentialTransferMint | ConfidentialTransferAccount | DefaultAccountState
  | ImmutableOwner | MemoTransfer | NonTransferable | InterestBearingConfig | CpiGuard
  | PermanentDelegate | NonTransferableAccount | TransferHook | TransferHookAccount
  | ConfidentialTransferFeeConfig | ConfidentialTransferFeeAmount | MetadataPointer
  | TokenMetadata | GroupPointer | TokenGroup | GroupMemberPointer | TokenGroupMember
  | ConfidentialMintBurn | ScaledUiAmount | Pausable | PausableAccount

primrec extension_type_code :: "ExtensionType \<Rightarrow> u16" where
  "extension_type_code ExtensionType.Uninitialized = 0"
| "extension_type_code TransferFeeConfig = 1"
| "extension_type_code TransferFeeAmount = 2"
| "extension_type_code MintCloseAuthority = 3"
| "extension_type_code ConfidentialTransferMint = 4"
| "extension_type_code ConfidentialTransferAccount = 5"
| "extension_type_code DefaultAccountState = 6"
| "extension_type_code ExtensionType.ImmutableOwner = 7"
| "extension_type_code MemoTransfer = 8"
| "extension_type_code ExtensionType.NonTransferable = 9"
| "extension_type_code InterestBearingConfig = 10"
| "extension_type_code CpiGuard = 11"
| "extension_type_code PermanentDelegate = 12"
| "extension_type_code NonTransferableAccount = 13"
| "extension_type_code TransferHook = 14"
| "extension_type_code TransferHookAccount = 15"
| "extension_type_code ConfidentialTransferFeeConfig = 16"
| "extension_type_code ConfidentialTransferFeeAmount = 17"
| "extension_type_code MetadataPointer = 18"
| "extension_type_code TokenMetadata = 19"
| "extension_type_code GroupPointer = 20"
| "extension_type_code TokenGroup = 21"
| "extension_type_code GroupMemberPointer = 22"
| "extension_type_code TokenGroupMember = 23"
| "extension_type_code ConfidentialMintBurn = 24"
| "extension_type_code ScaledUiAmount = 25"
| "extension_type_code Pausable = 26"
| "extension_type_code PausableAccount = 27"

text \<open>The variants in declaration order, as \<open>TryFromPrimitive\<close> derives them.\<close>

definition extension_types :: "ExtensionType list" where
  "extension_types = [
    ExtensionType.Uninitialized , TransferFeeConfig , TransferFeeAmount , MintCloseAuthority
    , ConfidentialTransferMint , ConfidentialTransferAccount , DefaultAccountState
    , ExtensionType.ImmutableOwner , MemoTransfer , ExtensionType.NonTransferable
    , InterestBearingConfig , CpiGuard , PermanentDelegate , NonTransferableAccount
    , TransferHook , TransferHookAccount , ConfidentialTransferFeeConfig
    , ConfidentialTransferFeeAmount , MetadataPointer , TokenMetadata , GroupPointer
    , TokenGroup , GroupMemberPointer , TokenGroupMember , ConfidentialMintBurn
    , ScaledUiAmount , Pausable , PausableAccount]"

definition extension_type_try_from :: "u16 \<Rightarrow> ExtensionType option" where
  "extension_type_try_from c =
     (if unat c < length extension_types then Some (extension_types ! unat c) else None)"

text \<open>\<open>impl TryFrom<&[u8]> for ExtensionType\<close>.\<close>

definition extension_type_from_bytes :: "bytes \<Rightarrow> ExtensionType result" where
  "extension_type_from_bytes bs =
     (if length bs \<noteq> 2 then Err InvalidAccountData
      else ok_or (extension_type_try_from (from_le bs)) InvalidAccountData)"

text \<open>\<open>impl From<ExtensionType> for [u8; 2]\<close>.\<close>

definition extension_type_bytes :: "ExtensionType \<Rightarrow> bytes" where
  "extension_type_bytes t = to_le 2 (extension_type_code t)"

definition sized :: "ExtensionType \<Rightarrow> bool" where
  "sized t = (t \<noteq> TokenMetadata)"

text \<open>
  \<open>pod_get_packed_len\<close> of each extension struct, from the sizes of its fields.  Encrypted
  amounts are 64 bytes (ElGamal) or 36 bytes (authenticated encryption); \<open>TokenGroup\<close> (80) and
  \<open>TokenGroupMember\<close> (72) are structs of the token-group interface.
\<close>

primrec type_len :: "ExtensionType \<Rightarrow> nat" where
  "type_len ExtensionType.Uninitialized = 0"
| "type_len TransferFeeConfig = 108"
| "type_len TransferFeeAmount = 8"
| "type_len MintCloseAuthority = 32"
| "type_len ConfidentialTransferMint = 65"
| "type_len ConfidentialTransferAccount = 295"
| "type_len DefaultAccountState = 1"
| "type_len ExtensionType.ImmutableOwner = 0"
| "type_len MemoTransfer = 1"
| "type_len ExtensionType.NonTransferable = 0"
| "type_len InterestBearingConfig = 52"
| "type_len CpiGuard = 1"
| "type_len PermanentDelegate = 32"
| "type_len NonTransferableAccount = 0"
| "type_len TransferHook = 64"
| "type_len TransferHookAccount = 1"
| "type_len ConfidentialTransferFeeConfig = 129"
| "type_len ConfidentialTransferFeeAmount = 64"
| "type_len MetadataPointer = 64"
| "type_len TokenMetadata = 0"
| "type_len GroupPointer = 64"
| "type_len TokenGroup = 80"
| "type_len GroupMemberPointer = 64"
| "type_len TokenGroupMember = 72"
| "type_len ConfidentialMintBurn = 196"
| "type_len ScaledUiAmount = 56"
| "type_len Pausable = 33"
| "type_len PausableAccount = 0"

definition try_get_type_len :: "ExtensionType \<Rightarrow> nat result" where
  "try_get_type_len t = (if \<not> sized t then Err InvalidArgument else Ok (type_len t))"

definition add_type_and_length_to_len :: "nat \<Rightarrow> nat" where
  "add_type_and_length_to_len value_len = value_len + 2 + 2"

definition adjust_len_for_multisig :: "nat \<Rightarrow> nat" where
  "adjust_len_for_multisig account_len =
     (if account_len = MULTISIG_LEN then account_len + 2 else account_len)"

definition try_get_tlv_len :: "ExtensionType \<Rightarrow> nat result" where
  "try_get_tlv_len t = and_then (try_get_type_len t) (\<lambda>n. Ok (add_type_and_length_to_len n))"

text \<open>The loop that drops repeated types, keeping the first of each.\<close>

fun dedupe :: "ExtensionType list \<Rightarrow> ExtensionType list \<Rightarrow> ExtensionType list" where
  "dedupe extensions [] = extensions"
| "dedupe extensions (t # ts) =
     (if t \<in> set extensions then dedupe extensions ts else dedupe (extensions @ [t]) ts)"

text \<open>\<open>Iterator::sum\<close> over results: the first error, or the sum.\<close>

fun sum_tlv_len :: "ExtensionType list \<Rightarrow> nat result" where
  "sum_tlv_len [] = Ok 0"
| "sum_tlv_len (t # ts) =
     and_then (try_get_tlv_len t) (\<lambda>n. and_then (sum_tlv_len ts) (\<lambda>m. Ok (n + m)))"

definition try_get_total_tlv_len :: "ExtensionType list \<Rightarrow> nat result" where
  "try_get_total_tlv_len ts = sum_tlv_len (dedupe [] ts)"

definition BASE_ACCOUNT_LENGTH :: nat where
  "BASE_ACCOUNT_LENGTH = ACCOUNT_LEN"

definition BASE_ACCOUNT_AND_TYPE_LENGTH :: nat where
  "BASE_ACCOUNT_AND_TYPE_LENGTH = BASE_ACCOUNT_LENGTH + 1"

definition try_calculate_account_len :: "BaseState \<Rightarrow> ExtensionType list \<Rightarrow> nat result" where
  "try_calculate_account_len S ts =
     (if ts = [] then Ok (SIZE_OF S)
      else and_then (try_get_total_tlv_len ts) (\<lambda>extension_size.
        Ok (adjust_len_for_multisig (extension_size + BASE_ACCOUNT_AND_TYPE_LENGTH))))"

primrec get_account_type :: "ExtensionType \<Rightarrow> AccountType" where
  "get_account_type ExtensionType.Uninitialized = AccountType.Uninitialized"
| "get_account_type TransferFeeConfig = Mint"
| "get_account_type TransferFeeAmount = Account"
| "get_account_type MintCloseAuthority = Mint"
| "get_account_type ConfidentialTransferMint = Mint"
| "get_account_type ConfidentialTransferAccount = Account"
| "get_account_type DefaultAccountState = Mint"
| "get_account_type ExtensionType.ImmutableOwner = Account"
| "get_account_type MemoTransfer = Account"
| "get_account_type ExtensionType.NonTransferable = Mint"
| "get_account_type InterestBearingConfig = Mint"
| "get_account_type CpiGuard = Account"
| "get_account_type PermanentDelegate = Mint"
| "get_account_type NonTransferableAccount = Account"
| "get_account_type TransferHook = Mint"
| "get_account_type TransferHookAccount = Account"
| "get_account_type ConfidentialTransferFeeConfig = Mint"
| "get_account_type ConfidentialTransferFeeAmount = Account"
| "get_account_type MetadataPointer = Mint"
| "get_account_type TokenMetadata = Mint"
| "get_account_type GroupPointer = Mint"
| "get_account_type TokenGroup = Mint"
| "get_account_type GroupMemberPointer = Mint"
| "get_account_type TokenGroupMember = Mint"
| "get_account_type ConfidentialMintBurn = Mint"
| "get_account_type ScaledUiAmount = Mint"
| "get_account_type Pausable = Mint"
| "get_account_type PausableAccount = Account"

fun required_for :: "ExtensionType \<Rightarrow> ExtensionType list" where
  "required_for TransferFeeConfig = [TransferFeeAmount]"
| "required_for ExtensionType.NonTransferable = [NonTransferableAccount, ExtensionType.ImmutableOwner]"
| "required_for TransferHook = [TransferHookAccount]"
| "required_for Pausable = [PausableAccount]"
| "required_for _ = []"

definition get_required_init_account_extensions :: "ExtensionType list \<Rightarrow> ExtensionType list" where
  "get_required_init_account_extensions ts = concat (map required_for ts)"

text \<open>
  The loop of the source raises one flag per listed type it meets; a flag is raised exactly when
  the type occurs.
\<close>

definition check_for_invalid_mint_extension_combinations ::
  "ExtensionType list \<Rightarrow> TokenError + unit" where
  "check_for_invalid_mint_extension_combinations ts =
     (let transfer_fee_config = TransferFeeConfig \<in> set ts;
          confidential_transfer_mint = ConfidentialTransferMint \<in> set ts;
          confidential_transfer_fee_config = ConfidentialTransferFeeConfig \<in> set ts;
          confidential_mint_burn = ConfidentialMintBurn \<in> set ts;
          interest_bearing = InterestBearingConfig \<in> set ts;
          scaled_ui_amount = ScaledUiAmount \<in> set ts
      in if confidential_transfer_fee_config \<and> \<not> (transfer_fee_config \<and> confidential_transfer_mint)
         then Err InvalidExtensionCombination
         else if transfer_fee_config \<and> confidential_transfer_mint \<and> \<not> confidential_transfer_fee_config
         then Err InvalidExtensionCombination
         else if confidential_mint_burn \<and> \<not> confidential_transfer_mint
         then Err InvalidExtensionCombination
         else if scaled_ui_amount \<and> interest_bearing
         then Err InvalidExtensionCombination
         else Ok ())"

section \<open>Laws of the enums\<close>

lemma extension_type_try_from_code [simp]:
  "extension_type_try_from (extension_type_code t) = Some t"
  by (cases t) (simp_all add: extension_type_try_from_def extension_types_def)

lemma extension_type_code_inj [simp]: "extension_type_code s = extension_type_code t \<longleftrightarrow> s = t"
  by (metis extension_type_try_from_code option.inject)

lemma extension_type_code_0 [simp]:
  "extension_type_code t = 0 \<longleftrightarrow> t = ExtensionType.Uninitialized"
  "0 = extension_type_code t \<longleftrightarrow> t = ExtensionType.Uninitialized"
  using extension_type_code_inj [of t ExtensionType.Uninitialized] by auto

lemma extension_type_try_from_0 [simp]:
  "extension_type_try_from 0 = Some ExtensionType.Uninitialized"
  using extension_type_try_from_code [of ExtensionType.Uninitialized] by simp

lemma extension_types_code: "n < 28 \<Longrightarrow> extension_type_code (extension_types ! n) = word_of_nat n"
proof -
  have "list_all (\<lambda>n. extension_type_code (extension_types ! n) = word_of_nat n) [0..<28]"
    by (simp add: upt_rec extension_types_def)
  then show "n < 28 \<Longrightarrow> ?thesis" by (simp add: list_all_iff)
qed

lemma extension_type_try_from_Some:
  "extension_type_try_from c = Some t \<longleftrightarrow> c = extension_type_code t"
proof
  assume *: "extension_type_try_from c = Some t"
  have len: "length extension_types = 28" by (simp add: extension_types_def)
  from * have "t = extension_types ! unat c" "unat c < 28"
    by (auto simp: extension_type_try_from_def len split: if_splits)
  then show "c = extension_type_code t" by (simp add: extension_types_code)
qed simp

lemma length_extension_type_bytes [simp]: "length (extension_type_bytes t) = 2"
  by (simp add: extension_type_bytes_def)

lemma extension_type_from_bytes_bytes [simp]:
  "extension_type_from_bytes (extension_type_bytes t) = Ok t"
  by (simp add: extension_type_from_bytes_def extension_type_bytes_def)

lemma get_account_type_Mint_sized: "get_account_type t = Account \<Longrightarrow> sized t"
  by (cases t) (simp_all add: sized_def)

section \<open>Account lengths\<close>

lemma set_dedupe: "set (dedupe es ts) = set es \<union> set ts"
  by (induction es ts rule: dedupe.induct) auto

lemma distinct_dedupe: "distinct es \<Longrightarrow> distinct (dedupe es ts)"
  by (induction es ts rule: dedupe.induct) auto

lemma sum_tlv_len_Ok:
  "sum_tlv_len ts = Ok n \<longleftrightarrow> (\<forall>t \<in> set ts. sized t) \<and> n = (\<Sum>t\<leftarrow>ts. type_len t + 4)"
  by (induction ts arbitrary: n)
     (auto simp: try_get_tlv_len_def try_get_type_len_def add_type_and_length_to_len_def res_simps)

lemma try_get_total_tlv_len_Ok:
  "try_get_total_tlv_len ts = Ok n \<longleftrightarrow>
     (\<forall>t \<in> set ts. sized t) \<and> n = (\<Sum>t \<in> set ts. type_len t + 4)"
proof -
  have "distinct (dedupe [] ts)" "set (dedupe [] ts) = set ts"
    by (simp_all add: distinct_dedupe set_dedupe)
  then have "(\<Sum>t\<leftarrow>dedupe [] ts. type_len t + 4) = (\<Sum>t \<in> set ts. type_len t + 4)"
    by (metis sum.distinct_set_conv_list)
  then show ?thesis by (simp add: try_get_total_tlv_len_def sum_tlv_len_Ok set_dedupe)
qed

lemma adjust_len_not_multisig: "adjust_len_for_multisig n \<noteq> MULTISIG_LEN"
  by (simp add: adjust_len_for_multisig_def MULTISIG_LEN_def)

lemma try_calculate_account_len_not_multisig:
  "try_calculate_account_len S ts = Ok n \<Longrightarrow> n \<noteq> MULTISIG_LEN"
  by (cases S) (auto simp: try_calculate_account_len_def res_simps adjust_len_for_multisig_def
      base_lens split: if_splits)

lemma try_calculate_account_len_cong:
  assumes "set ts = set us"
  shows "try_calculate_account_len S ts = try_calculate_account_len S us"
proof -
  have eq: "try_get_total_tlv_len ts = Ok n \<longleftrightarrow> try_get_total_tlv_len us = Ok n" for n
    using assms by (simp add: try_get_total_tlv_len_Ok)
  have err: "sum_tlv_len vs = Err e \<Longrightarrow> e = InvalidArgument" for vs e
    by (induction vs) (auto simp: try_get_tlv_len_def try_get_type_len_def and_then_def
        split: sum.splits if_splits)
  have "try_get_total_tlv_len ts = try_get_total_tlv_len us"
  proof (cases "try_get_total_tlv_len ts")
    case (Inr n)
    with eq [of n] show ?thesis by simp
  next
    case (Inl e)
    then have "\<nexists>n. try_get_total_tlv_len us = Ok n" using eq by force
    then obtain d where d: "try_get_total_tlv_len us = Err d"
      by (cases "try_get_total_tlv_len us") simp_all
    from Inl have "e = InvalidArgument" unfolding try_get_total_tlv_len_def by (rule err)
    moreover from d have "d = InvalidArgument" unfolding try_get_total_tlv_len_def by (rule err)
    ultimately show ?thesis using Inl d by simp
  qed
  moreover have "ts = [] \<longleftrightarrow> us = []" using assms by auto
  ultimately show ?thesis by (simp add: try_calculate_account_len_def)
qed

lemma required_init_account_type:
  "t \<in> set (get_required_init_account_extensions ts) \<Longrightarrow> get_account_type t = Account"
proof -
  have "u \<in> set (required_for s) \<Longrightarrow> get_account_type u = Account" for s u
    by (cases s) auto
  then show "t \<in> set (get_required_init_account_extensions ts) \<Longrightarrow> ?thesis"
    by (auto simp: get_required_init_account_extensions_def)
qed

end
