(* ===== verification/Tlv.thy ===== *)
theory Tlv
  imports Extension_Type
begin

text \<open>
  The type-length-value buffer behind the base state (src/interface/src/extension/mod.rs).  An
  entry is two bytes of type, two bytes of length and the value; nothing is written after an
  entry of type \<open>Uninitialized\<close>.  A shared slice is its bytes; a mutable slice into the buffer
  is its range \<open>(start, length)\<close>, and writing through it overwrites that range.  The trait
  \<open>Extension\<close> is a record of what an implementation gives: its type, its \<open>Pod\<close> layout and its
  default.
\<close>

section \<open>Entries\<close>

record TlvIndices =
  type_start :: nat
  length_start :: nat
  value_start :: nat

definition get_tlv_indices :: "nat \<Rightarrow> TlvIndices" where
  "get_tlv_indices start =
     \<lparr>type_start = start, length_start = start + 2, value_start = start + 2 + 2\<rparr>"

definition u16_at :: "bytes \<Rightarrow> nat \<Rightarrow> u16" where
  "u16_at bs i = from_le (subslice i 2 bs)"

text \<open>\<open>impl TryFrom<usize> for Length\<close>.\<close>

definition length_try_from :: "nat \<Rightarrow> u16 result" where
  "length_try_from n = (if n < 2 ^ 16 then Ok (word_of_nat n) else Err AccountDataTooSmall)"

function get_extension_indices_from ::
  "ExtensionType \<Rightarrow> bool \<Rightarrow> bytes \<Rightarrow> nat \<Rightarrow> TlvIndices result" where
  "get_extension_indices_from V init tlv start_index =
     (if start_index < length tlv then
        (let ix = get_tlv_indices start_index
         in if length tlv < value_start ix then Err InvalidAccountData
            else let extension_type = u16_at tlv (type_start ix)
            in if extension_type = extension_type_code V then Ok ix
               else if extension_type = extension_type_code ExtensionType.Uninitialized
               then (if init then Ok ix else TErr ExtensionNotFound)
               else get_extension_indices_from V init tlv
                      (value_start ix + unat (u16_at tlv (length_start ix))))
      else Err InvalidAccountData)"
  by pat_completeness auto
termination
  by (relation "measure (\<lambda>(V, init, tlv, s). length tlv - s)") (auto simp: get_tlv_indices_def)

declare get_extension_indices_from.simps [simp del]

definition get_extension_indices :: "ExtensionType \<Rightarrow> bool \<Rightarrow> bytes \<Rightarrow> TlvIndices result" where
  "get_extension_indices V init tlv = get_extension_indices_from V init tlv 0"

record TlvDataInfo =
  info_extension_types :: "ExtensionType list"
  info_used_len :: nat

function get_tlv_data_info_from ::
  "bytes \<Rightarrow> ExtensionType list \<Rightarrow> nat \<Rightarrow> TlvDataInfo result" where
  "get_tlv_data_info_from tlv types start_index =
     (if start_index < length tlv then
        (let ix = get_tlv_indices start_index
         in if length tlv < length_start ix
            then Ok \<lparr>info_extension_types = types, info_used_len = type_start ix\<rparr>
            else and_then (extension_type_from_bytes (subslice (type_start ix) 2 tlv))
              (\<lambda>extension_type.
                 if extension_type = ExtensionType.Uninitialized
                 then Ok \<lparr>info_extension_types = types, info_used_len = type_start ix\<rparr>
                 else if length tlv < value_start ix then Err InvalidAccountData
                 else let value_end_index = value_start ix + unat (u16_at tlv (length_start ix))
                 in if value_end_index > length tlv then Err InvalidAccountData
                    else get_tlv_data_info_from tlv (types @ [extension_type]) value_end_index))
      else Ok \<lparr>info_extension_types = types, info_used_len = start_index\<rparr>)"
  by pat_completeness auto
termination
  by (relation "measure (\<lambda>(tlv, types, s). length tlv - s)") (auto simp: get_tlv_indices_def)

declare get_tlv_data_info_from.simps [simp del]

definition get_tlv_data_info :: "bytes \<Rightarrow> TlvDataInfo result" where
  "get_tlv_data_info tlv = get_tlv_data_info_from tlv [] 0"

definition get_extension_types :: "bytes \<Rightarrow> ExtensionType list result" where
  "get_extension_types tlv = and_then (get_tlv_data_info tlv) (\<lambda>i. Ok (info_extension_types i))"

definition get_first_extension_type :: "bytes \<Rightarrow> ExtensionType option result" where
  "get_first_extension_type tlv =
     (if tlv = [] then Ok None
      else let ix = get_tlv_indices 0
      in if length tlv \<le> length_start ix then Ok None
         else and_then (extension_type_from_bytes (subslice (type_start ix) 2 tlv))
           (\<lambda>t. if t = ExtensionType.Uninitialized then Ok None else Ok (Some t)))"

section \<open>Reading an extension\<close>

definition get_extension_bytes :: "BaseState \<Rightarrow> ExtensionType \<Rightarrow> bytes \<Rightarrow> bytes result" where
  "get_extension_bytes S V tlv =
     (if get_account_type V \<noteq> ACCOUNT_TYPE S then Err InvalidAccountData
      else and_then (get_extension_indices V False tlv) (\<lambda>ix.
        let len = unat (u16_at tlv (length_start ix));
            value_end = value_start ix + len
        in if length tlv < value_end then Err InvalidAccountData
           else Ok (subslice (value_start ix) len tlv)))"

definition get_extension_bytes_mut ::
  "BaseState \<Rightarrow> ExtensionType \<Rightarrow> bytes \<Rightarrow> (nat \<times> nat) result" where
  "get_extension_bytes_mut S V tlv =
     (if get_account_type V \<noteq> ACCOUNT_TYPE S then Err InvalidAccountData
      else and_then (get_extension_indices V False tlv) (\<lambda>ix.
        let len = unat (u16_at tlv (length_start ix));
            value_end = value_start ix + len
        in if length tlv < value_end then Err InvalidAccountData
           else Ok (value_start ix, len)))"

record 'a Extension =
  EXT_TYPE :: ExtensionType
  pod_len :: nat
  ext_enc :: "'a \<Rightarrow> bytes"
  ext_dec :: "bytes \<Rightarrow> 'a"
  ext_default :: 'a

definition pod_from_bytes :: "'a Extension \<Rightarrow> bytes \<Rightarrow> 'a result" where
  "pod_from_bytes E bs = (if length bs = pod_len E then Ok (ext_dec E bs) else Err PodCast)"

definition get_extension :: "BaseState \<Rightarrow> 'a Extension \<Rightarrow> bytes \<Rightarrow> 'a result" where
  "get_extension S E tlv = and_then (get_extension_bytes S (EXT_TYPE E) tlv) (pod_from_bytes E)"

text \<open>
  \<open>get_extension_mut\<close> gives the value (as \<open>get_extension\<close>) and the place to write it back to.
\<close>

definition get_extension_mut :: "BaseState \<Rightarrow> 'a Extension \<Rightarrow> bytes \<Rightarrow> ('a \<times> nat) result" where
  "get_extension_mut S E tlv =
     and_then (get_extension_bytes_mut S (EXT_TYPE E) tlv) (\<lambda>(start, len).
     and_then (pod_from_bytes E (subslice start len tlv)) (\<lambda>v. Ok (v, start)))"

text \<open>Assigning through the reference that \<open>get_extension_mut\<close> returned.\<close>

definition set_extension :: "BaseState \<Rightarrow> 'a Extension \<Rightarrow> 'a \<Rightarrow> bytes \<Rightarrow> bytes" where
  "set_extension S E v tlv =
     (case get_extension_mut S E tlv of Inl _ \<Rightarrow> tlv | Inr (_, start) \<Rightarrow> overwrite start (ext_enc E v) tlv)"

section \<open>Allocating an extension\<close>

definition alloc ::
  "BaseState \<Rightarrow> ExtensionType \<Rightarrow> nat \<Rightarrow> bool \<Rightarrow> bytes \<Rightarrow> (bytes \<times> nat) result" where
  "alloc S V len overwr tlv =
     (if get_account_type V \<noteq> ACCOUNT_TYPE S then Err InvalidAccountData
      else and_then (get_extension_indices V True tlv) (\<lambda>ix.
        if length tlv - type_start ix < add_type_and_length_to_len len then Err InvalidAccountData
        else and_then (extension_type_from_bytes (subslice (type_start ix) 2 tlv)) (\<lambda>extension_type.
          if extension_type = ExtensionType.Uninitialized \<or> overwr
          then let tlv1 = overwrite (type_start ix) (extension_type_bytes V) tlv
            in if overwr \<and> extension_type = V \<and> unat (u16_at tlv1 (length_start ix)) \<noteq> len
               then TErr InvalidLengthForAlloc
               else and_then (length_try_from len) (\<lambda>l.
                 Ok (overwrite (length_start ix) (to_le 2 l) tlv1, value_start ix))
          else TErr ExtensionAlreadyInitialized)))"

definition init_extension :: "BaseState \<Rightarrow> 'a Extension \<Rightarrow> bool \<Rightarrow> bytes \<Rightarrow> bytes result" where
  "init_extension S E overwr tlv =
     and_then (alloc S (EXT_TYPE E) (pod_len E) overwr tlv) (\<lambda>(tlv', start).
     Ok (overwrite start (ext_enc E (ext_default E)) tlv'))"

text \<open>
  \<open>realloc\<close> moves the rest of the used buffer with \<open>copy_within\<close> and zeroes the gap or the
  freed end; it returns the buffer and the range of the resized value.
\<close>

definition realloc :: "ExtensionType \<Rightarrow> nat \<Rightarrow> bytes \<Rightarrow> (bytes \<times> nat \<times> nat) result" where
  "realloc V len tlv =
     and_then (get_extension_indices V False tlv) (\<lambda>ix.
     and_then (get_tlv_data_info tlv) (\<lambda>info.
       let tlv_len = info_used_len info; old_length = unat (u16_at tlv (length_start ix))
       in if old_length < len \<and> tlv_len + (len - old_length) > length tlv
          then Err InvalidAccountData
          else and_then (length_try_from len) (\<lambda>l.
            let tlv1 = overwrite (length_start ix) (to_le 2 l) tlv;
                old_value_end = value_start ix + old_length;
                new_value_end = value_start ix + len;
                tlv2 = overwrite new_value_end
                         (subslice old_value_end (tlv_len - old_value_end) tlv1) tlv1;
                tlv3 = (if old_length > len
                        then overwrite (tlv_len - (old_length - len)) (replicate (old_length - len) 0) tlv2
                        else if old_length < len
                        then overwrite old_value_end (replicate (len - old_length) 0) tlv2
                        else tlv2)
            in Ok (tlv3, value_start ix, len))))"

definition try_get_new_account_len_for_extension_len ::
  "BaseState \<Rightarrow> ExtensionType \<Rightarrow> bytes \<Rightarrow> nat \<Rightarrow> nat result" where
  "try_get_new_account_len_for_extension_len S V tlv new_extension_len =
     (let new_extension_tlv_len = add_type_and_length_to_len new_extension_len
      in and_then (get_tlv_data_info tlv) (\<lambda>info.
        let current_len = info_used_len info + BASE_ACCOUNT_AND_TYPE_LENGTH;
            current_extension_len = (case get_extension_bytes S V tlv of
              Inl _ \<Rightarrow> 0 | Inr x \<Rightarrow> add_type_and_length_to_len (length x));
            new_len = current_len - current_extension_len + new_extension_tlv_len
        in Ok (adjust_len_for_multisig new_len)))"

definition try_get_account_len :: "BaseState \<Rightarrow> bytes \<Rightarrow> nat result" where
  "try_get_account_len S tlv =
     and_then (get_tlv_data_info tlv) (\<lambda>info.
       if info_extension_types info = [] then Ok (SIZE_OF S)
       else Ok (adjust_len_for_multisig (info_used_len info + BASE_ACCOUNT_AND_TYPE_LENGTH)))"

end
