(* ===== verification/Tlv_Laws.thy ===== *)
theory Tlv_Laws
  imports Tlv
begin

text \<open>
  Laws of the type-length-value buffer.  Every loop over the buffer visits the same chain of
  entry positions, and what it returns depends only on the headers at these positions; entries of
  the chain do not overlap.  So writing a value through a mutable reference changes that extension
  and nothing else, on any buffer whatever (well formed or not).
\<close>

lemma get_tlv_indices_sel [simp]:
  "type_start (get_tlv_indices t) = t" "length_start (get_tlv_indices t) = t + 2"
  "value_start (get_tlv_indices t) = t + 4"
  by (simp_all add: get_tlv_indices_def)

section \<open>The chain of entries\<close>

definition entry_end :: "bytes \<Rightarrow> nat \<Rightarrow> nat" where
  "entry_end tlv t = t + 4 + unat (u16_at tlv (t + 2))"

lemma entry_end_ge: "t + 4 \<le> entry_end tlv t"
  by (simp add: entry_end_def)

inductive chain :: "bytes \<Rightarrow> nat \<Rightarrow> nat \<Rightarrow> bool" for tlv s where
  chain_refl: "chain tlv s s"
| chain_step: "chain tlv s t \<Longrightarrow> t + 4 \<le> length tlv \<Longrightarrow> chain tlv s (entry_end tlv t)"

lemma chain_le: "chain tlv s t \<Longrightarrow> s \<le> t"
proof (induction rule: chain.induct)
  case (chain_step t)
  then show ?case using entry_end_ge [of t tlv] by simp
qed simp

lemma chain_head: "chain tlv (entry_end tlv s) t \<Longrightarrow> s + 4 \<le> length tlv \<Longrightarrow> chain tlv s t"
  by (induction rule: chain.induct) (auto intro: chain.intros)

lemma chain_headD:
  "chain tlv s u \<Longrightarrow> s = u \<or> s + 4 \<le> length tlv \<and> chain tlv (entry_end tlv s) u"
proof (induction rule: chain.induct)
  case (chain_step t)
  then show ?case by (auto intro: chain.intros)
qed simp

lemma chain_linear: "chain tlv s t \<Longrightarrow> chain tlv s u \<Longrightarrow> chain tlv t u \<or> chain tlv u t"
proof (induction rule: chain.induct)
  case (chain_step t)
  then consider "chain tlv t u" | "chain tlv u t" by blast
  then show ?case
  proof cases
    case 1
    then show ?thesis using chain_headD [OF 1] chain_step.hyps by (auto intro: chain.intros)
  next
    case 2
    then show ?thesis using chain_step.hyps by (blast intro: chain.intros)
  qed
qed simp

text \<open>Of two entries one comes first and ends before the other begins.\<close>

lemma chain_disjoint:
  assumes "chain tlv s t" "chain tlv s u" "t \<noteq> u"
  shows "entry_end tlv t \<le> u \<or> entry_end tlv u \<le> t"
  using chain_linear [OF assms(1,2)] chain_headD chain_le assms(3) by blast

section \<open>One step of each loop\<close>

lemma get_extension_indices_step:
  "get_extension_indices_from V init tlv s =
     (if length tlv \<le> s \<or> length tlv < s + 4 then Err InvalidAccountData
      else if u16_at tlv s = extension_type_code V then Ok (get_tlv_indices s)
      else if u16_at tlv s = 0 then (if init then Ok (get_tlv_indices s) else TErr ExtensionNotFound)
      else get_extension_indices_from V init tlv (entry_end tlv s))"
proof -
  have "s + 2 + 2 + unat (u16_at tlv (s + 2)) = entry_end tlv s"
    by (simp add: entry_end_def del: add_2_eq_Suc')
  then show ?thesis
    by (subst get_extension_indices_from.simps) (auto simp: get_tlv_indices_def Let_def)
qed

lemma get_tlv_data_info_step:
  "get_tlv_data_info_from tlv ts s =
     (if length tlv \<le> s \<or> length tlv < s + 2
      then Ok \<lparr>info_extension_types = ts, info_used_len = s\<rparr>
      else and_then (extension_type_from_bytes (subslice s 2 tlv)) (\<lambda>t.
        if t = ExtensionType.Uninitialized
        then Ok \<lparr>info_extension_types = ts, info_used_len = s\<rparr>
        else if length tlv < s + 4 \<or> length tlv < entry_end tlv s then Err InvalidAccountData
        else get_tlv_data_info_from tlv (ts @ [t]) (entry_end tlv s)))"
proof -
  have "s + 2 + 2 + unat (u16_at tlv (s + 2)) = entry_end tlv s"
    by (simp add: entry_end_def del: add_2_eq_Suc')
  then show ?thesis
    by (subst get_tlv_data_info_from.simps)
       (auto simp: get_tlv_indices_def Let_def intro!: arg_cong [where f = "and_then _"])
qed

text \<open>The induction rules that go with these steps.\<close>

lemma entry_end_induct [case_names step]:
  assumes "\<And>s. (s + 4 \<le> length tlv \<Longrightarrow> P (entry_end tlv s)) \<Longrightarrow> P s"
  shows "P s"
proof (induction "length tlv - s" arbitrary: s rule: less_induct)
  case less
  show ?case
  proof (rule assms)
    assume "s + 4 \<le> length tlv"
    then show "P (entry_end tlv s)" using entry_end_ge [of s tlv] by (intro less) linarith
  qed
qed

section \<open>The loops depend on the headers only\<close>

text \<open>Two buffers agree on the headers of the chain from \<open>s\<close>.\<close>

definition same_headers :: "bytes \<Rightarrow> bytes \<Rightarrow> nat \<Rightarrow> bool" where
  "same_headers tlv tlv' s \<longleftrightarrow>
     length tlv' = length tlv \<and> (\<forall>t. chain tlv s t \<longrightarrow> subslice t 4 tlv' = subslice t 4 tlv)"

lemma subslice_sub:
  assumes "subslice t n xs = subslice t n ys" "i + m \<le> n"
  shows "subslice (t + i) m xs = subslice (t + i) m ys"
proof -
  have "subslice (t + i) m zs = take m (drop i (subslice t n zs))" for zs :: "'a list"
    using assms(2) by (simp add: subslice_def take_drop min_def add.commute)
  then show ?thesis using assms(1) by simp
qed

lemma same_headers_at:
  assumes "same_headers tlv tlv' s" "chain tlv s t"
  shows "subslice t 2 tlv' = subslice t 2 tlv" "u16_at tlv' t = u16_at tlv t"
    "u16_at tlv' (t + 2) = u16_at tlv (t + 2)" "entry_end tlv' t = entry_end tlv t"
proof -
  have h: "subslice t 4 tlv' = subslice t 4 tlv"
    using assms by (simp add: same_headers_def)
  show "subslice t 2 tlv' = subslice t 2 tlv" using subslice_sub [OF h, of 0 2] by simp
  then show "u16_at tlv' t = u16_at tlv t" by (simp add: u16_at_def)
  have "subslice (t + 2) 2 tlv' = subslice (t + 2) 2 tlv" using subslice_sub [OF h, of 2 2] by simp
  then show u: "u16_at tlv' (t + 2) = u16_at tlv (t + 2)" by (simp add: u16_at_def)
  then show "entry_end tlv' t = entry_end tlv t" by (simp add: entry_end_def)
qed

lemma same_headers_next:
  "same_headers tlv tlv' s \<Longrightarrow> s + 4 \<le> length tlv \<Longrightarrow> same_headers tlv tlv' (entry_end tlv s)"
  by (auto simp: same_headers_def intro: chain_head)

lemma get_extension_indices_same_headers:
  "same_headers tlv tlv' s \<Longrightarrow>
   get_extension_indices_from V init tlv' s = get_extension_indices_from V init tlv s"
proof (induction s rule: entry_end_induct [where tlv = tlv])
  case (step s)
  note h = same_headers_at [OF step.prems chain_refl]
  have len: "length tlv' = length tlv" using step.prems by (simp add: same_headers_def)
  have "s + 4 \<le> length tlv \<Longrightarrow> get_extension_indices_from V init tlv' (entry_end tlv s) =
      get_extension_indices_from V init tlv (entry_end tlv s)"
    using step.IH step.prems by (blast intro: same_headers_next)
  then show ?case
    using h len
    by (simp add: get_extension_indices_step [of V init tlv s]
        get_extension_indices_step [of V init tlv' s])
qed

lemma get_tlv_data_info_same_headers:
  "same_headers tlv tlv' s \<Longrightarrow> get_tlv_data_info_from tlv' ts s = get_tlv_data_info_from tlv ts s"
proof (induction s arbitrary: ts rule: entry_end_induct [where tlv = tlv])
  case (step s)
  note h = same_headers_at [OF step.prems chain_refl]
  have len: "length tlv' = length tlv" using step.prems by (simp add: same_headers_def)
  have "s + 4 \<le> length tlv \<Longrightarrow> get_tlv_data_info_from tlv' us (entry_end tlv s) =
      get_tlv_data_info_from tlv us (entry_end tlv s)" for us
    using step.IH step.prems by (blast intro: same_headers_next)
  then show ?case
    using h len
    by (auto simp: get_tlv_data_info_step [of tlv ts s] get_tlv_data_info_step [of tlv' ts s]
        intro!: arg_cong [where f = "and_then _"])
qed

text \<open>What a successful search found: an entry of the chain with the type that was searched.\<close>

lemma get_extension_indices_Ok:
  "get_extension_indices_from V init tlv s = Ok ix \<Longrightarrow>
   \<exists>t. ix = get_tlv_indices t \<and> chain tlv s t \<and> t + 4 \<le> length tlv \<and>
     (u16_at tlv t = extension_type_code V \<or> init \<and> u16_at tlv t = 0)"
proof (induction s rule: entry_end_induct [where tlv = tlv])
  case (step s)
  show ?case
  proof (cases "u16_at tlv s = extension_type_code V \<or> u16_at tlv s = 0")
    case True
    then show ?thesis using step.prems
      by (auto simp: get_extension_indices_step [of V init tlv s] intro: chain_refl split: if_splits)
  next
    case False
    with step.prems have s: "s + 4 \<le> length tlv"
      and r: "get_extension_indices_from V init tlv (entry_end tlv s) = Ok ix"
      by (auto simp: get_extension_indices_step [of V init tlv s] split: if_splits)
    from step.IH [OF s r] show ?thesis using chain_head s by blast
  qed
qed

section \<open>Writing a value through a reference\<close>

lemma overwrite_same_headers:
  assumes "chain tlv 0 t" "t + 4 + length ys \<le> entry_end tlv t" "entry_end tlv t \<le> length tlv"
  shows "same_headers tlv (overwrite (t + 4) ys tlv) 0"
proof -
  have "subslice u 4 (overwrite (t + 4) ys tlv) = subslice u 4 tlv" if u: "chain tlv 0 u" for u
  proof -
    consider "u = t" | "entry_end tlv t \<le> u" | "entry_end tlv u \<le> t"
      using chain_disjoint [OF assms(1) u] by blast
    then show ?thesis
    proof cases
      case 1
      then show ?thesis using assms by (intro subslice_overwrite_before) simp_all
    next
      case 2
      then show ?thesis using assms by (intro subslice_overwrite_after) simp_all
    next
      case 3
      then show ?thesis using assms entry_end_ge [of u tlv]
        by (intro subslice_overwrite_before) simp_all
    qed
  qed
  then show ?thesis using assms by (simp add: same_headers_def)
qed

text \<open>A successful lookup, as the entry of the chain it comes from.\<close>

lemma get_extension_bytes_mut_Ok:
  assumes "get_extension_bytes_mut S V tlv = Ok (start, len)"
  shows "\<exists>t. get_extension_indices V False tlv = Ok (get_tlv_indices t) \<and> chain tlv 0 t \<and>
    u16_at tlv t = extension_type_code V \<and> start = t + 4 \<and> t + 4 + len = entry_end tlv t \<and>
    entry_end tlv t \<le> length tlv \<and> get_account_type V = ACCOUNT_TYPE S"
proof -
  from assms obtain ix where ix: "get_extension_indices V False tlv = Ok ix"
    and st: "start = value_start ix" "len = unat (u16_at tlv (length_start ix))"
      "value_start ix + len \<le> length tlv" "get_account_type V = ACCOUNT_TYPE S"
    by (auto simp: get_extension_bytes_mut_def res_simps Let_def split: if_splits)
  from get_extension_indices_Ok [of V False tlv 0 ix] ix
  obtain t where t: "ix = get_tlv_indices t" "chain tlv 0 t" "u16_at tlv t = extension_type_code V"
    by (auto simp: get_extension_indices_def)
  have "value_start ix = t + 4" "length_start ix = t + 2"
    by (simp_all add: t(1) get_tlv_indices_def)
  with ix st t show ?thesis by (auto simp: entry_end_def)
qed

lemma get_extension_bytes_eq:
  "get_extension_bytes S V tlv =
     and_then (get_extension_bytes_mut S V tlv) (\<lambda>(start, len). Ok (subslice start len tlv))"
  by (simp add: get_extension_bytes_def get_extension_bytes_mut_def and_then_def Let_def
      split: sum.splits)

lemma get_extension_eq:
  "get_extension S E tlv = and_then (get_extension_mut S E tlv) (\<lambda>(v, start). Ok v)"
  by (auto simp: get_extension_def get_extension_mut_def get_extension_bytes_eq and_then_def
      pod_from_bytes_def split: sum.splits)

lemma get_extension_bytes_mut_same_headers:
  "same_headers tlv tlv' 0 \<Longrightarrow> get_extension_bytes_mut S V tlv' = get_extension_bytes_mut S V tlv"
proof (cases "get_extension_indices V False tlv")
  case (Inl e)
  moreover assume *: "same_headers tlv tlv' 0"
  ultimately have "get_extension_indices V False tlv' = Inl e"
    using get_extension_indices_same_headers [OF *] by (simp add: get_extension_indices_def)
  with Inl show ?thesis by (simp add: get_extension_bytes_mut_def)
next
  case (Inr ix)
  assume *: "same_headers tlv tlv' 0"
  from Inr have "get_extension_indices V False tlv' = Inr ix"
    using get_extension_indices_same_headers [OF *] by (simp add: get_extension_indices_def)
  moreover obtain t where "ix = get_tlv_indices t" "chain tlv 0 t"
    using get_extension_indices_Ok Inr unfolding get_extension_indices_def by blast
  then have "u16_at tlv' (length_start ix) = u16_at tlv (length_start ix)"
    using same_headers_at(3) [OF *] by (simp add: get_tlv_indices_def)
  moreover have "length tlv' = length tlv" using * by (simp add: same_headers_def)
  ultimately show ?thesis using Inr by (simp add: get_extension_bytes_mut_def)
qed

text \<open>
  The contract of an extension type: its layout is plain old data.  From it, what a client of the
  buffer may rely on when it reads and writes this extension.
\<close>

locale extension = pod "pod_len E" "ext_enc E" "ext_dec E" for E :: "'a Extension"
begin

lemma get_extension_mut_Ok:
  assumes "get_extension_mut S E tlv = Ok (v, start)"
  shows "get_extension_bytes_mut S (EXT_TYPE E) tlv = Ok (start, pod_len E)"
    and "v = ext_dec E (subslice start (pod_len E) tlv)"
    and "start + pod_len E \<le> length tlv"
proof -
  from assms obtain len where *: "get_extension_bytes_mut S (EXT_TYPE E) tlv = Ok (start, len)"
    "pod_from_bytes E (subslice start len tlv) = Ok v"
    by (auto simp: get_extension_mut_def res_simps)
  from get_extension_bytes_mut_Ok [OF *(1)] have le: "start + len \<le> length tlv" by auto
  with *(2) have "len = pod_len E" "v = ext_dec E (subslice start len tlv)"
    by (auto simp: pod_from_bytes_def split: if_splits)
  with * le show "get_extension_bytes_mut S (EXT_TYPE E) tlv = Ok (start, pod_len E)"
    "v = ext_dec E (subslice start (pod_len E) tlv)" "start + pod_len E \<le> length tlv"
    by auto
qed

lemma set_extension_Ok:
  assumes "get_extension S E tlv = Ok v0"
  shows "\<exists>start. get_extension_bytes_mut S (EXT_TYPE E) tlv = Ok (start, pod_len E) \<and>
    set_extension S E v tlv = overwrite start (ext_enc E v) tlv \<and>
    start + pod_len E \<le> length tlv \<and> same_headers tlv (set_extension S E v tlv) 0"
proof -
  from assms obtain start where m: "get_extension_mut S E tlv = Ok (v0, start)"
    by (auto simp: get_extension_eq res_simps)
  note g = get_extension_mut_Ok [OF m]
  obtain t where t: "chain tlv 0 t" "start = t + 4" "t + 4 + pod_len E = entry_end tlv t"
    "entry_end tlv t \<le> length tlv"
    using get_extension_bytes_mut_Ok [OF g(1)] by auto
  have "same_headers tlv (overwrite start (ext_enc E v) tlv) 0"
    using overwrite_same_headers [OF t(1)] t by (simp add: length_enc)
  with m g(1,3) show ?thesis by (simp add: set_extension_def)
qed

lemma get_set_same:
  assumes "get_extension S E tlv = Ok v0"
  shows "get_extension S E (set_extension S E v tlv) = Ok v"
proof -
  obtain start where s: "get_extension_bytes_mut S (EXT_TYPE E) tlv = Ok (start, pod_len E)"
    "set_extension S E v tlv = overwrite start (ext_enc E v) tlv" "start + pod_len E \<le> length tlv"
    "same_headers tlv (set_extension S E v tlv) 0"
    using set_extension_Ok [OF assms] by blast
  have "get_extension_bytes_mut S (EXT_TYPE E) (set_extension S E v tlv) = Ok (start, pod_len E)"
    using get_extension_bytes_mut_same_headers [OF s(4)] s(1) by simp
  moreover have "subslice start (pod_len E) (set_extension S E v tlv) = ext_enc E v"
    using s(2,3) by (simp add: subslice_overwrite_same length_enc)
  ultimately show ?thesis
    by (simp add: get_extension_def get_extension_bytes_eq pod_from_bytes_def length_enc dec_enc)
qed

lemma length_set_extension [simp]: "length (set_extension S E v tlv) = length tlv"
proof (cases "get_extension_mut S E tlv")
  case (Inr p)
  then show ?thesis using get_extension_mut_Ok(3)
    by (cases p) (simp add: set_extension_def length_enc)
qed (simp add: set_extension_def)

lemma set_extension_same_headers: "same_headers tlv (set_extension S E v tlv) 0"
proof (cases "get_extension S E tlv")
  case (Inl e)
  then show ?thesis
    by (auto simp: set_extension_def get_extension_eq and_then_def same_headers_def
        split: sum.splits prod.splits)
next
  case (Inr v0)
  then show ?thesis using set_extension_Ok by blast
qed

lemma get_set_other_bytes:
  assumes "V \<noteq> EXT_TYPE E"
  shows "get_extension_bytes S' V (set_extension S E v tlv) = get_extension_bytes S' V tlv"
proof (cases "get_extension_bytes_mut S' V tlv")
  case (Inl e)
  then show ?thesis
    using get_extension_bytes_mut_same_headers [OF set_extension_same_headers]
    by (simp add: get_extension_bytes_eq)
next
  case (Inr p)
  obtain start' len where p: "p = (start', len)" by (cases p)
  with Inr obtain u where u: "chain tlv 0 u" "u16_at tlv u = extension_type_code V"
    "start' = u + 4" "u + 4 + len = entry_end tlv u" "entry_end tlv u \<le> length tlv"
    using get_extension_bytes_mut_Ok [of S' V tlv start' len] by auto
  have "subslice start' len (set_extension S E v tlv) = subslice start' len tlv"
  proof (cases "get_extension_mut S E tlv")
    case (Inr q)
    obtain v0 start where q: "q = (v0, start)" by (cases q)
    note g = get_extension_mut_Ok [OF Inr [unfolded q]]
    obtain t where t: "chain tlv 0 t" "u16_at tlv t = extension_type_code (EXT_TYPE E)"
      "start = t + 4" "t + 4 + pod_len E = entry_end tlv t"
      using get_extension_bytes_mut_Ok [OF g(1)] by auto
    have "t \<noteq> u" using t(2) u(2) assms by auto
    then consider "entry_end tlv t \<le> u" | "entry_end tlv u \<le> t"
      using chain_disjoint [OF t(1) u(1)] by blast
    then have "subslice start' len (overwrite start (ext_enc E v) tlv) = subslice start' len tlv"
    proof cases
      case 1
      then show ?thesis using u t g(3) by (intro subslice_overwrite_after) (simp_all add: length_enc)
    next
      case 2
      then show ?thesis using u t g(3) by (intro subslice_overwrite_before) (simp_all add: length_enc)
    qed
    then show ?thesis using Inr q by (simp add: set_extension_def)
  qed (simp add: set_extension_def)
  then show ?thesis
    using Inr p get_extension_bytes_mut_same_headers [OF set_extension_same_headers]
    by (simp add: get_extension_bytes_eq)
qed

lemma get_set_other:
  "EXT_TYPE F \<noteq> EXT_TYPE E \<Longrightarrow> get_extension S' F (set_extension S E v tlv) = get_extension S' F tlv"
  by (simp add: get_extension_def get_set_other_bytes)

lemma types_set_extension: "get_extension_types (set_extension S E v tlv) = get_extension_types tlv"
  using get_tlv_data_info_same_headers [OF set_extension_same_headers]
  by (simp add: get_extension_types_def get_tlv_data_info_def)

end

section \<open>Allocating an entry\<close>

text \<open>A search that ends at an entry depends only on the bytes up to that entry.\<close>

lemma take_eq_subslice:
  assumes "take n xs = take n ys" "i + m \<le> n"
  shows "subslice i m xs = subslice i m ys"
proof -
  have "subslice i m zs = take m (drop i (take n zs))" for zs :: "'a list"
    using assms(2) by (simp add: subslice_def take_drop min_def)
  then show ?thesis using assms(1) by simp
qed

lemma entry_end_take:
  assumes "take n tlv = take n tlv'" "t + 4 \<le> n"
  shows "u16_at tlv' t = u16_at tlv t" "entry_end tlv' t = entry_end tlv t"
proof -
  have "subslice t 2 tlv = subslice t 2 tlv'" "subslice (t + 2) 2 tlv = subslice (t + 2) 2 tlv'"
    using take_eq_subslice [OF assms(1)] assms(2) by simp_all
  then show "u16_at tlv' t = u16_at tlv t" "entry_end tlv' t = entry_end tlv t"
    by (simp_all add: u16_at_def entry_end_def)
qed

lemma get_extension_indices_take:
  assumes "take n tlv = take n tlv'" "length tlv' = length tlv" "u + 4 \<le> n"
    and "get_extension_indices_from V init tlv s = Ok (get_tlv_indices u)"
  shows "get_extension_indices_from V init tlv' s = Ok (get_tlv_indices u)"
  using assms(4)
proof (induction s rule: entry_end_induct [where tlv = tlv])
  case (step s)
  then have s: "s \<le> u"
    using get_extension_indices_Ok [OF step.prems] chain_le by (auto simp: get_tlv_indices_def)
  note h = entry_end_take [OF assms(1), of s]
  show ?case
    using step.IH step.prems h s assms(2,3)
    by (auto simp: get_extension_indices_step [of V init tlv s]
        get_extension_indices_step [of V init tlv' s] split: if_splits)
qed

text \<open>
  A search with \<open>init\<close> that stops at a free slot passed every written entry: any type that can be
  found is found before that slot, and the type itself is found at the slot once it is written
  there.
\<close>

lemma found_before_free:
  assumes "get_extension_indices_from V True tlv s = Ok (get_tlv_indices t)" "u16_at tlv t = 0"
    and "get_extension_indices_from V' False tlv s = Ok (get_tlv_indices u)"
    and "V' \<noteq> ExtensionType.Uninitialized"
  shows "entry_end tlv u \<le> t"
  using assms(1,3)
proof (induction s rule: entry_end_induct [where tlv = tlv])
  case (step s)
  show ?case
  proof (cases "u16_at tlv s = extension_type_code V'")
    case True
    then have u: "u = s" using step.prems(2)
      by (auto simp: get_extension_indices_step [of V' False tlv s] get_tlv_indices_def
          split: if_splits)
    have "chain tlv s t"
      using get_extension_indices_Ok [OF step.prems(1)] by (auto simp: get_tlv_indices_def)
    moreover have "s \<noteq> t" using True assms(2,4) by auto
    ultimately have "chain tlv (entry_end tlv s) t" using chain_headD by blast
    then show ?thesis using chain_le u by blast
  next
    case False
    with step.prems(2) have "u16_at tlv s \<noteq> 0" "s + 4 \<le> length tlv"
      "get_extension_indices_from V' False tlv (entry_end tlv s) = Ok (get_tlv_indices u)"
      by (auto simp: get_extension_indices_step [of V' False tlv s] split: if_splits)
    moreover from this step.prems(1) assms(2)
    have "get_extension_indices_from V True tlv (entry_end tlv s) = Ok (get_tlv_indices t)"
      by (auto simp: get_extension_indices_step [of V True tlv s] get_tlv_indices_def split: if_splits)
    ultimately show ?thesis using step.IH by blast
  qed
qed

lemma found_at_slot:
  assumes "get_extension_indices_from V True tlv s = Ok (get_tlv_indices t)"
    and "take t tlv' = take t tlv" "length tlv' = length tlv" "u16_at tlv' t = extension_type_code V"
  shows "get_extension_indices_from V False tlv' s = Ok (get_tlv_indices t)"
  using assms(1)
proof (induction s rule: entry_end_induct [where tlv = tlv])
  case (step s)
  obtain c: "chain tlv s t" "t + 4 \<le> length tlv"
    using get_extension_indices_Ok [OF step.prems] by (auto simp: get_tlv_indices_def)
  show ?case
  proof (cases "s = t")
    case True
    then show ?thesis using assms(3,4) c
      by (simp add: get_extension_indices_step [of V False tlv' t])
  next
    case False
    with chain_headD [OF c(1)] have s: "s + 4 \<le> length tlv" "chain tlv (entry_end tlv s) t" by auto
    then have "s + 4 \<le> t" using chain_le [OF s(2)] entry_end_ge [of s tlv] by linarith
    note h = entry_end_take [OF assms(2) [symmetric] this]
    from step.prems False s
    have "u16_at tlv s \<noteq> extension_type_code V" "u16_at tlv s \<noteq> 0"
      "get_extension_indices_from V True tlv (entry_end tlv s) = Ok (get_tlv_indices t)"
      by (auto simp: get_extension_indices_step [of V True tlv s] get_tlv_indices_def split: if_splits)
    then show ?thesis using step.IH s h assms(3)
      by (simp add: get_extension_indices_step [of V False tlv' s])
  qed
qed

lemma u16_at_overwrite:
  "i + 2 \<le> length bs \<Longrightarrow> u16_at (overwrite i (to_le 2 w) bs) i = w"
  by (simp add: u16_at_def subslice_overwrite_same)

lemma overwrite_u16_at:
  "i + 2 \<le> length bs \<Longrightarrow> overwrite i (to_le 2 (u16_at bs i)) bs = bs"
  by (simp add: u16_at_def overwrite_subslice_id)

text \<open>
  What \<open>alloc\<close> with \<open>overwrite\<close> set does: it either finds the entry and leaves the buffer as it
  is, or takes the free slot \<open>t\<close> and writes the header there.
\<close>

lemma alloc_Ok:
  assumes "alloc S V len overwr tlv = Ok (tlv', start)"
  shows "\<exists>t. get_extension_indices_from V True tlv 0 = Ok (get_tlv_indices t) \<and> start = t + 4 \<and>
    t + 4 + len \<le> length tlv \<and> get_account_type V = ACCOUNT_TYPE S \<and> len < 2 ^ 16 \<and>
    tlv' = overwrite (t + 2) (to_le 2 (word_of_nat len :: u16)) (overwrite t (extension_type_bytes V) tlv) \<and>
    (u16_at tlv t = 0 \<or>
     overwr \<and> u16_at tlv t = extension_type_code V \<and> u16_at tlv (t + 2) = word_of_nat len)"
proof -
  from assms obtain ix where ix: "get_extension_indices V True tlv = Ok ix"
    "get_account_type V = ACCOUNT_TYPE S"
    by (auto simp: alloc_def res_simps split: if_splits)
  from get_extension_indices_Ok [of V True tlv 0 ix] ix(1)
  obtain t where t: "ix = get_tlv_indices t" "t + 4 \<le> length tlv"
    "u16_at tlv t = extension_type_code V \<or> u16_at tlv t = 0"
    by (auto simp: get_extension_indices_def)
  have f: "type_start ix = t" "length_start ix = t + 2" "value_start ix = t + 4"
    by (simp_all add: t(1) get_tlv_indices_def)
  have ty: "extension_type_from_bytes (subslice t 2 tlv) =
      Ok (if u16_at tlv t = 0 then ExtensionType.Uninitialized else V)"
    using t(2,3) by (auto simp: extension_type_from_bytes_def u16_at_def)
  have l1: "u16_at (overwrite t (extension_type_bytes V) tlv) (t + 2) = u16_at tlv (t + 2)"
    using t(2) by (simp add: u16_at_def subslice_overwrite_after del: add_2_eq_Suc')
  have vu: "V \<noteq> ExtensionType.Uninitialized" using ix(2) by (cases S) auto
  from assms ix ty f l1 vu
  have "t + 4 + len \<le> length tlv" "len < 2 ^ 16" "start = t + 4"
    "tlv' = overwrite (t + 2) (to_le 2 (word_of_nat len :: u16)) (overwrite t (extension_type_bytes V) tlv)"
    "u16_at tlv t = 0 \<or> overwr"
    "u16_at tlv t \<noteq> 0 \<Longrightarrow> unat (u16_at tlv (t + 2)) = len"
    by (auto simp: alloc_def res_simps length_try_from_def add_type_and_length_to_len_def Let_def
        simp del: add_2_eq_Suc' split: if_splits)
  moreover from this(6) t(3) have "u16_at tlv t \<noteq> 0 \<Longrightarrow>
      u16_at tlv t = extension_type_code V \<and> u16_at tlv (t + 2) = word_of_nat len"
    by auto
  ultimately show ?thesis using ix t unfolding get_extension_indices_def by blast
qed

text \<open>
  The buffer after \<open>alloc\<close> and after any bytes of the right length were written to the value:
  the header of the slot names the type and the length, what lies before the slot is unchanged,
  and if the entry was already there only the value can have changed.
\<close>

lemma alloc_written:
  assumes "alloc S V len overwr tlv = Ok (tlv1, start)" "length ys = len"
  shows "\<exists>t. get_extension_indices_from V True tlv 0 = Ok (get_tlv_indices t) \<and>
    start = t + 4 \<and> t + 4 + len \<le> length tlv \<and> get_account_type V = ACCOUNT_TYPE S \<and>
    length tlv1 = length tlv \<and> length (overwrite start ys tlv1) = length tlv \<and>
    take t (overwrite start ys tlv1) = take t tlv \<and>
    u16_at (overwrite start ys tlv1) t = extension_type_code V \<and>
    unat (u16_at (overwrite start ys tlv1) (t + 2)) = len \<and>
    subslice (t + 4) len (overwrite start ys tlv1) = ys \<and>
    (u16_at tlv t = 0 \<or> tlv1 = tlv \<and> u16_at tlv t = extension_type_code V \<and>
       unat (u16_at tlv (t + 2)) = len)"
proof -
  obtain t where t: "get_extension_indices_from V True tlv 0 = Ok (get_tlv_indices t)"
    "start = t + 4" "t + 4 + len \<le> length tlv" "get_account_type V = ACCOUNT_TYPE S" "len < 2 ^ 16"
    "tlv1 = overwrite (t + 2) (to_le 2 (word_of_nat len :: u16)) (overwrite t (extension_type_bytes V) tlv)"
    "u16_at tlv t = 0 \<or> u16_at tlv t = extension_type_code V \<and> u16_at tlv (t + 2) = word_of_nat len"
    using alloc_Ok [OF assms(1)] by blast
  have len1: "length tlv1 = length tlv" using t(3,6) by simp
  have "subslice t 2 tlv1 = extension_type_bytes V"
    unfolding t(6) using t(3)
    by (subst subslice_overwrite_before) (simp_all add: subslice_overwrite_same)
  then have ty1: "u16_at tlv1 t = extension_type_code V"
    by (simp add: u16_at_def extension_type_bytes_def)
  have ln1: "u16_at tlv1 (t + 2) = word_of_nat len"
    unfolding t(6) using t(3) by (intro u16_at_overwrite) simp
  have tk4: "take (t + 4) (overwrite start ys tlv1) = take (t + 4) tlv1"
    unfolding t(2) using t(3) len1 by (intro take_overwrite) simp
  moreover have "take t tlv1 = take t tlv"
    unfolding t(6) using t(3) by (simp add: overwrite_def)
  ultimately have tk: "take t (overwrite start ys tlv1) = take t tlv"
    by (metis le_add1 min.absorb1 take_take)
  have nn: "unat (word_of_nat len :: u16) = len" using t(5) by (simp add: unat_of_nat)
  have h: "u16_at (overwrite start ys tlv1) t = extension_type_code V"
    "unat (u16_at (overwrite start ys tlv1) (t + 2)) = len"
    using take_eq_subslice [OF tk4, of t 2] take_eq_subslice [OF tk4, of "t + 2" 2] ty1 ln1 nn
    by (simp_all add: u16_at_def)
  have "tlv1 = tlv" if s: "u16_at tlv t = extension_type_code V" "u16_at tlv (t + 2) = word_of_nat len"
    unfolding t(6) extension_type_bytes_def s [symmetric] using t(3)
    by (simp add: overwrite_u16_at del: add_2_eq_Suc')
  with t len1 tk h nn assms(2) show ?thesis
    by (auto simp: subslice_overwrite_same simp del: add_2_eq_Suc')
qed

text \<open>An entry that was found before the allocation is found after it, with the same value.\<close>

lemma alloc_free_other:
  assumes "get_extension_indices_from V True tlv 0 = Ok (get_tlv_indices t)" "u16_at tlv t = 0"
    and "take t tlv' = take t tlv" "length tlv' = length tlv"
    and "get_extension_bytes_mut S V' tlv = Ok (start, n)"
  shows "get_extension_bytes S V' tlv' = get_extension_bytes S V' tlv"
proof -
  obtain u where u: "get_extension_indices V' False tlv = Ok (get_tlv_indices u)"
    "start = u + 4" "u + 4 + n = entry_end tlv u" "entry_end tlv u \<le> length tlv"
    "get_account_type V' = ACCOUNT_TYPE S"
    using get_extension_bytes_mut_Ok [OF assms(5)] by blast
  have "V' \<noteq> ExtensionType.Uninitialized" using u(5) by (cases S) auto
  then have before: "entry_end tlv u \<le> t"
    using found_before_free [OF assms(1,2)] u(1) unfolding get_extension_indices_def by blast
  then have u4: "u + 4 \<le> t" using entry_end_ge [of u tlv] by simp
  have "get_extension_indices V' False tlv' = Ok (get_tlv_indices u)"
    using get_extension_indices_take [OF assms(3) [symmetric] assms(4) u4] u(1)
    unfolding get_extension_indices_def by blast
  moreover have "u16_at tlv' (u + 2) = u16_at tlv (u + 2)"
    using take_eq_subslice [OF assms(3), of "u + 2" 2] u4 by (simp add: u16_at_def)
  moreover have "subslice (u + 4) n tlv' = subslice (u + 4) n tlv" "n = unat (u16_at tlv (u + 2))"
    using take_eq_subslice [OF assms(3)] before u(3) by (simp_all add: entry_end_def)
  ultimately show ?thesis using u assms(4)
    by (simp add: get_extension_bytes_def Let_def del: add_2_eq_Suc')
qed

context extension
begin

lemma init_extension_Ok:
  assumes "init_extension S E overwr tlv = Ok tlv'"
  shows "get_extension S E tlv' = Ok (ext_default E)" and "length tlv' = length tlv"
    and "get_account_type (EXT_TYPE E) = ACCOUNT_TYPE S"
proof -
  from assms obtain tlv1 start where a: "alloc S (EXT_TYPE E) (pod_len E) overwr tlv = Ok (tlv1, start)"
    and tlv': "tlv' = overwrite start (ext_enc E (ext_default E)) tlv1"
    by (auto simp: init_extension_def res_simps)
  obtain t where t: "get_extension_indices_from (EXT_TYPE E) True tlv 0 = Ok (get_tlv_indices t)"
    "t + 4 + pod_len E \<le> length tlv" "get_account_type (EXT_TYPE E) = ACCOUNT_TYPE S"
    "length tlv' = length tlv" "take t tlv' = take t tlv"
    "u16_at tlv' t = extension_type_code (EXT_TYPE E)" "unat (u16_at tlv' (t + 2)) = pod_len E"
    "subslice (t + 4) (pod_len E) tlv' = ext_enc E (ext_default E)"
    using alloc_written [OF a length_enc [of "ext_default E"]] unfolding tlv' by auto
  show "length tlv' = length tlv" "get_account_type (EXT_TYPE E) = ACCOUNT_TYPE S"
    by (fact t)+
  have "get_extension_indices (EXT_TYPE E) False tlv' = Ok (get_tlv_indices t)"
    unfolding get_extension_indices_def by (rule found_at_slot [OF t(1) t(5,4,6)])
  then show "get_extension S E tlv' = Ok (ext_default E)" using t
    by (simp add: get_extension_def get_extension_bytes_def pod_from_bytes_def length_enc dec_enc
        Let_def del: add_2_eq_Suc')
qed

lemma init_extension_other_bytes:
  assumes "init_extension S E overwr tlv = Ok tlv'" "V \<noteq> EXT_TYPE E"
    and "get_extension_bytes S V tlv = Ok v"
  shows "get_extension_bytes S V tlv' = Ok v"
proof -
  from assms(1) obtain tlv1 start where a: "alloc S (EXT_TYPE E) (pod_len E) overwr tlv = Ok (tlv1, start)"
    and tlv': "tlv' = overwrite start (ext_enc E (ext_default E)) tlv1"
    by (auto simp: init_extension_def res_simps)
  obtain t where t: "get_extension_indices_from (EXT_TYPE E) True tlv 0 = Ok (get_tlv_indices t)"
    "start = t + 4" "t + 4 + pod_len E \<le> length tlv" "get_account_type (EXT_TYPE E) = ACCOUNT_TYPE S"
    "length tlv' = length tlv" "take t tlv' = take t tlv"
    "u16_at tlv t = 0 \<or> tlv1 = tlv \<and> u16_at tlv t = extension_type_code (EXT_TYPE E) \<and>
      unat (u16_at tlv (t + 2)) = pod_len E"
    using alloc_written [OF a length_enc [of "ext_default E"]] unfolding tlv' by auto
  show ?thesis
  proof (cases "u16_at tlv t = 0")
    case True
    from assms(3) obtain p where "get_extension_bytes_mut S V tlv = Ok p"
      by (auto simp: get_extension_bytes_eq res_simps)
    then show ?thesis
      using alloc_free_other [OF t(1) True t(6,5)] assms(3) by (cases p) simp
  next
    case False
    then have "get_extension_indices (EXT_TYPE E) False tlv = Ok (get_tlv_indices t)"
      unfolding get_extension_indices_def using found_at_slot [OF t(1) refl refl] t(7) by blast
    then have "get_extension_mut S E tlv = Ok (ext_dec E (subslice (t + 4) (pod_len E) tlv), t + 4)"
      using t False by (auto simp: get_extension_mut_def get_extension_bytes_mut_def
          pod_from_bytes_def Let_def simp del: add_2_eq_Suc')
    then have "tlv' = set_extension S E (ext_default E) tlv"
      using tlv' t(2,7) False by (simp add: set_extension_def)
    then show ?thesis using get_set_other_bytes [OF assms(2)] assms(3) by simp
  qed
qed

lemma init_extension_other:
  assumes "init_extension S E overwr tlv = Ok tlv'" "EXT_TYPE F \<noteq> EXT_TYPE E"
    and "get_extension S F tlv = Ok v"
  shows "get_extension S F tlv' = Ok v"
  using init_extension_other_bytes [OF assms(1)] assms(2,3)
  by (auto simp: get_extension_def res_simps)

end

end
