(* ===== verification/State_With_Extensions.thy ===== *)
theory State_With_Extensions
  imports Tlv_Laws
begin

text \<open>
  Base state with extensions (src/interface/src/extension/mod.rs): how account data is split into
  the base struct, the account-type byte and the extension buffer, for reading
  (\<open>PodStateWithExtensions\<close>) and for writing (\<open>PodStateWithExtensionsMut\<close>).  The trait
  \<open>BaseState + Pod\<close> is a record of what an implementation gives.  The references of a mutable
  state point into the account data; \<open>pack_state\<close> is the data they point into, after the
  assignments made through them.
\<close>

section \<open>Splitting account data\<close>

definition check_min_len_and_not_multisig :: "bytes \<Rightarrow> nat \<Rightarrow> unit result" where
  "check_min_len_and_not_multisig input minimum_len =
     (if length input = MULTISIG_LEN \<or> length input < minimum_len then Err InvalidAccountData
      else Ok ())"

definition check_account_type :: "BaseState \<Rightarrow> AccountType \<Rightarrow> unit result" where
  "check_account_type S account_type =
     (if account_type \<noteq> ACCOUNT_TYPE S then Err InvalidAccountData else Ok ())"

definition type_and_tlv_indices :: "BaseState \<Rightarrow> bytes \<Rightarrow> (nat \<times> nat) option result" where
  "type_and_tlv_indices S rest_input =
     (if rest_input = [] then Ok None
      else let account_type_index = BASE_ACCOUNT_LENGTH - SIZE_OF S;
               tlv_start_index = account_type_index + 1
      in if length rest_input < tlv_start_index then Err InvalidAccountData
         else if take account_type_index rest_input \<noteq> replicate account_type_index 0
         then Err InvalidAccountData
         else Ok (Some (account_type_index, tlv_start_index)))"

definition unpack_tlv_data :: "BaseState \<Rightarrow> bytes \<Rightarrow> bytes result" where
  "unpack_tlv_data S rest =
     and_then (type_and_tlv_indices S rest) (\<lambda>indices. case indices of
       Some (account_type_index, tlv_start_index) \<Rightarrow>
         and_then (ok_or (account_type_try_from (rest ! account_type_index)) InvalidAccountData)
           (\<lambda>account_type.
         and_then (check_account_type S account_type) (\<lambda>_. Ok (drop tlv_start_index rest)))
     | None \<Rightarrow> Ok [])"

text \<open>The two mutable slices: the account-type byte (or nothing) and the extension buffer.\<close>

definition unpack_type_and_tlv_data_with_check_mut ::
  "BaseState \<Rightarrow> bytes \<Rightarrow> (AccountType \<Rightarrow> unit result) \<Rightarrow> (bytes \<times> bytes) result" where
  "unpack_type_and_tlv_data_with_check_mut S rest check_fn =
     and_then (type_and_tlv_indices S rest) (\<lambda>indices. case indices of
       Some (account_type_index, tlv_start_index) \<Rightarrow>
         and_then (ok_or (account_type_try_from (rest ! account_type_index)) InvalidAccountData)
           (\<lambda>account_type.
         and_then (check_fn account_type) (\<lambda>_.
           Ok (subslice account_type_index (tlv_start_index - account_type_index) rest,
               drop tlv_start_index rest)))
     | None \<Rightarrow> Ok ([], []))"

definition unpack_type_and_tlv_data_mut :: "BaseState \<Rightarrow> bytes \<Rightarrow> (bytes \<times> bytes) result" where
  "unpack_type_and_tlv_data_mut S rest =
     unpack_type_and_tlv_data_with_check_mut S rest (check_account_type S)"

definition unpack_uninitialized_type_and_tlv_data_mut ::
  "BaseState \<Rightarrow> bytes \<Rightarrow> (bytes \<times> bytes) result" where
  "unpack_uninitialized_type_and_tlv_data_mut S rest =
     unpack_type_and_tlv_data_with_check_mut S rest (\<lambda>account_type.
       if account_type \<noteq> AccountType.Uninitialized then Err InvalidAccountData else Ok ())"

definition is_initialized_account :: "bytes \<Rightarrow> bool result" where
  "is_initialized_account input =
     (if length input \<noteq> BASE_ACCOUNT_LENGTH then Err InvalidAccountData else Ok (input ! 108 \<noteq> 0))"

text \<open>\<open>set_account_type\<close> writes into its argument; the result is the data after the call.\<close>

definition set_account_type :: "BaseState \<Rightarrow> bytes \<Rightarrow> bytes result" where
  "set_account_type S input =
     and_then (check_min_len_and_not_multisig input (SIZE_OF S)) (\<lambda>_.
     let base_data = take (SIZE_OF S) input; rest = drop (SIZE_OF S) input
     in and_then (if ACCOUNT_TYPE S = Account
                  then and_then (is_initialized_account base_data) (\<lambda>i.
                         if \<not> i then Err InvalidAccountData else Ok ())
                  else Ok ()) (\<lambda>_.
        and_then (type_and_tlv_indices S rest) (\<lambda>indices. case indices of
          Some (account_type_index, tlv_start_index) \<Rightarrow>
            and_then (ok_or (account_type_try_from (rest ! account_type_index)) InvalidAccountData)
              (\<lambda>account_type.
                 if account_type = AccountType.Uninitialized
                 then and_then (check_account_type S (ACCOUNT_TYPE S)) (\<lambda>_.
                   Ok (base_data @ rest[account_type_index := account_type_code (ACCOUNT_TYPE S)]))
                 else and_then (check_account_type S account_type) (\<lambda>_. Ok input))
        | None \<Rightarrow> Err InvalidAccountData)))"

section \<open>States\<close>

record 'b Base =
  base_state :: BaseState
  base_enc :: "'b \<Rightarrow> bytes"
  base_dec :: "bytes \<Rightarrow> 'b"
  base_is_initialized :: "'b \<Rightarrow> bool"

definition PodMintB :: "PodMint Base" where
  "PodMintB = \<lparr>base_state = MintBase, base_enc = enc_mint, base_dec = dec_mint,
     base_is_initialized = mint_is_initialized\<rparr>"

definition PodAccountB :: "PodAccount Base" where
  "PodAccountB = \<lparr>base_state = AccountBase, base_enc = enc_account, base_dec = dec_account,
     base_is_initialized = account_is_initialized\<rparr>"

record 'b PodStateWithExtensions =
  base :: 'b
  tlv_data :: bytes

record 'b PodStateWithExtensionsMut = "'b PodStateWithExtensions" +
  account_type :: bytes

definition base_from_bytes :: "'b Base \<Rightarrow> bytes \<Rightarrow> 'b result" where
  "base_from_bytes B bs =
     (if length bs = SIZE_OF (base_state B) then Ok (base_dec B bs) else Err PodCast)"

definition unpack :: "'b Base \<Rightarrow> bytes \<Rightarrow> 'b PodStateWithExtensions result" where
  "unpack B input =
     and_then (check_min_len_and_not_multisig input (SIZE_OF (base_state B))) (\<lambda>_.
     let base_data = take (SIZE_OF (base_state B)) input; rest = drop (SIZE_OF (base_state B)) input
     in and_then (base_from_bytes B base_data) (\<lambda>b.
        if \<not> base_is_initialized B b then Err UninitializedAccount
        else and_then (unpack_tlv_data (base_state B) rest) (\<lambda>tlv.
          Ok \<lparr>base = b, tlv_data = tlv\<rparr>)))"

definition unpack_mut :: "'b Base \<Rightarrow> bytes \<Rightarrow> 'b PodStateWithExtensionsMut result" where
  "unpack_mut B input =
     and_then (check_min_len_and_not_multisig input (SIZE_OF (base_state B))) (\<lambda>_.
     let base_data = take (SIZE_OF (base_state B)) input; rest = drop (SIZE_OF (base_state B)) input
     in and_then (base_from_bytes B base_data) (\<lambda>b.
        if \<not> base_is_initialized B b then Err UninitializedAccount
        else and_then (unpack_type_and_tlv_data_mut (base_state B) rest) (\<lambda>(ty, tlv).
          Ok \<lparr>base = b, tlv_data = tlv, account_type = ty\<rparr>)))"

definition check_account_type_matches_extension_type :: "BaseState \<Rightarrow> bytes \<Rightarrow> unit result" where
  "check_account_type_matches_extension_type S tlv =
     and_then (get_first_extension_type tlv) (\<lambda>first. case first of
       Some extension_type \<Rightarrow>
         if get_account_type extension_type \<noteq> ACCOUNT_TYPE S then TErr ExtensionBaseMismatch else Ok ()
     | None \<Rightarrow> Ok ())"

definition unpack_uninitialized :: "'b Base \<Rightarrow> bytes \<Rightarrow> 'b PodStateWithExtensionsMut result" where
  "unpack_uninitialized B input =
     and_then (check_min_len_and_not_multisig input (SIZE_OF (base_state B))) (\<lambda>_.
     let base_data = take (SIZE_OF (base_state B)) input; rest = drop (SIZE_OF (base_state B)) input
     in and_then (base_from_bytes B base_data) (\<lambda>b.
        if base_is_initialized B b then TErr AlreadyInUse
        else and_then (unpack_uninitialized_type_and_tlv_data_mut (base_state B) rest) (\<lambda>(ty, tlv).
          and_then (check_account_type_matches_extension_type (base_state B) tlv) (\<lambda>_.
          Ok \<lparr>base = b, tlv_data = tlv, account_type = ty\<rparr>))))"

definition init_account_type ::
  "BaseState \<Rightarrow> 'b PodStateWithExtensionsMut \<Rightarrow> 'b PodStateWithExtensionsMut result" where
  "init_account_type S st =
     and_then (get_first_extension_type (tlv_data st)) (\<lambda>first.
       if account_type st \<noteq> []
       then (case first of
              Some extension_type \<Rightarrow>
                if get_account_type extension_type \<noteq> ACCOUNT_TYPE S then TErr ExtensionBaseMismatch
                else Ok (st\<lparr>account_type := (account_type st)[0 := account_type_code (ACCOUNT_TYPE S)]\<rparr>)
            | None \<Rightarrow> Ok (st\<lparr>account_type := (account_type st)[0 := account_type_code (ACCOUNT_TYPE S)]\<rparr>))
       else Ok st)"

definition pack_state :: "'b Base \<Rightarrow> 'b PodStateWithExtensionsMut \<Rightarrow> bytes" where
  "pack_state B st = base_enc B (base st) @
     (if account_type st = [] then []
      else replicate (BASE_ACCOUNT_LENGTH - SIZE_OF (base_state B)) 0 @ account_type st @ tlv_data st)"

section \<open>Unpacking inverts packing\<close>

lemma SIZE_OF_le: "SIZE_OF S \<le> BASE_ACCOUNT_LENGTH"
  by (cases S) (simp_all add: BASE_ACCOUNT_LENGTH_def base_lens)

lemma type_and_tlv_indices_Ok:
  "type_and_tlv_indices S rest = Ok ix \<longleftrightarrow>
     (rest = [] \<and> ix = None \<or>
      (\<exists>ty tlv. rest = replicate (BASE_ACCOUNT_LENGTH - SIZE_OF S) 0 @ [ty] @ tlv \<and>
        ix = Some (BASE_ACCOUNT_LENGTH - SIZE_OF S, BASE_ACCOUNT_LENGTH - SIZE_OF S + 1)))"
  (is "_ \<longleftrightarrow> ?R")
proof
  let ?k = "BASE_ACCOUNT_LENGTH - SIZE_OF S"
  assume *: "type_and_tlv_indices S rest = Ok ix"
  show ?R
  proof (cases "rest = []")
    case True
    with * show ?thesis by (simp add: type_and_tlv_indices_def)
  next
    case False
    with * have k: "?k < length rest" "take ?k rest = replicate ?k 0" "ix = Some (?k, ?k + 1)"
      by (auto simp: type_and_tlv_indices_def Let_def split: if_splits)
    have "rest = replicate ?k 0 @ [rest ! ?k] @ drop (Suc ?k) rest"
      using id_take_nth_drop [OF k(1)] k(2) by simp
    with k(3) show ?thesis by blast
  qed
next
  assume ?R
  then show "type_and_tlv_indices S rest = Ok ix" by (auto simp: type_and_tlv_indices_def Let_def)
qed

text \<open>The shape of the account-type slice and the buffer of a state, for a given type byte.\<close>

definition tail_ok :: "AccountType \<Rightarrow> bytes \<Rightarrow> bytes \<Rightarrow> bool" where
  "tail_ok T ty tlv \<longleftrightarrow> ty = [] \<and> tlv = [] \<or> ty = [account_type_code T]"

definition tail_bytes :: "BaseState \<Rightarrow> bytes \<Rightarrow> bytes \<Rightarrow> bytes" where
  "tail_bytes S ty tlv =
     (if ty = [] then [] else replicate (BASE_ACCOUNT_LENGTH - SIZE_OF S) 0 @ ty @ tlv)"

lemma pack_state_eq:
  "pack_state B st = base_enc B (base st) @ tail_bytes (base_state B) (account_type st) (tlv_data st)"
  by (simp add: pack_state_def tail_bytes_def)

lemma nth_append_replicate: "(replicate k a @ x # xs) ! k = x"
  by (simp add: nth_append)

lemma subslice_append_replicate:
  "subslice k (Suc 0) (replicate k a @ x # xs) = [x]" "drop k (replicate k a @ x # xs) = x # xs"
  "drop (Suc k) (replicate k a @ x # xs) = xs"
  by (simp_all add: subslice_def)

lemma unpack_with_check_Ok:
  assumes "\<And>a. check_fn a = Ok () \<longleftrightarrow> a = T"
  shows "unpack_type_and_tlv_data_with_check_mut S rest check_fn = Ok (ty, tlv) \<longleftrightarrow>
    tail_ok T ty tlv \<and> rest = tail_bytes S ty tlv"
proof
  assume "unpack_type_and_tlv_data_with_check_mut S rest check_fn = Ok (ty, tlv)"
  then show "tail_ok T ty tlv \<and> rest = tail_bytes S ty tlv"
    by (auto simp: unpack_type_and_tlv_data_with_check_mut_def res_simps type_and_tlv_indices_Ok
        account_type_try_from_Some assms tail_ok_def tail_bytes_def nth_append_replicate
        subslice_append_replicate)
next
  assume "tail_ok T ty tlv \<and> rest = tail_bytes S ty tlv"
  then show "unpack_type_and_tlv_data_with_check_mut S rest check_fn = Ok (ty, tlv)"
  proof (cases "ty = []")
    case True
    with \<open>tail_ok T ty tlv \<and> rest = tail_bytes S ty tlv\<close> show ?thesis
      by (simp add: tail_ok_def tail_bytes_def unpack_type_and_tlv_data_with_check_mut_def
          type_and_tlv_indices_def)
  next
    case False
    with \<open>tail_ok T ty tlv \<and> rest = tail_bytes S ty tlv\<close>
    have r: "ty = [account_type_code T]"
      "rest = replicate (BASE_ACCOUNT_LENGTH - SIZE_OF S) 0 @ account_type_code T # tlv"
      by (auto simp: tail_ok_def tail_bytes_def)
    have "account_type_try_from (account_type_code T) = Some T" "check_fn T = Ok ()"
      by (simp_all add: account_type_try_from_Some assms)
    with r show ?thesis
      by (simp add: unpack_type_and_tlv_data_with_check_mut_def type_and_tlv_indices_def Let_def
          nth_append_replicate subslice_append_replicate)
  qed
qed

lemmas unpack_type_and_tlv_Ok =
  unpack_with_check_Ok [of "check_account_type S" "ACCOUNT_TYPE S" S for S,
    folded unpack_type_and_tlv_data_mut_def]

lemma unpack_type_and_tlv_data_mut_Ok:
  "unpack_type_and_tlv_data_mut S rest = Ok (ty, tlv) \<longleftrightarrow>
     tail_ok (ACCOUNT_TYPE S) ty tlv \<and> rest = tail_bytes S ty tlv"
  by (rule unpack_type_and_tlv_Ok) (simp add: check_account_type_def)

lemma unpack_uninitialized_type_and_tlv_data_mut_Ok:
  "unpack_uninitialized_type_and_tlv_data_mut S rest = Ok (ty, tlv) \<longleftrightarrow>
     tail_ok AccountType.Uninitialized ty tlv \<and> rest = tail_bytes S ty tlv"
  unfolding unpack_uninitialized_type_and_tlv_data_mut_def by (rule unpack_with_check_Ok) simp

lemma unpack_tlv_data_eq:
  "unpack_tlv_data S rest = and_then (unpack_type_and_tlv_data_mut S rest) (\<lambda>(ty, tlv). Ok tlv)"
  by (auto simp: unpack_tlv_data_def unpack_type_and_tlv_data_mut_def and_then_def ok_or_def
      unpack_type_and_tlv_data_with_check_mut_def split: sum.splits option.splits)

text \<open>Reading gives what a mutable view of the same data shows.\<close>

lemma unpack_eq:
  "unpack B input =
     and_then (unpack_mut B input) (\<lambda>st. Ok \<lparr>base = base st, tlv_data = tlv_data st\<rparr>)"
  by (auto simp: unpack_def unpack_mut_def unpack_tlv_data_eq and_then_def Let_def
      split: sum.splits prod.splits)

locale base_pod = pod "SIZE_OF (base_state B)" "base_enc B" "base_dec B" for B :: "'b Base"
begin

lemma length_pack_state:
  "length (pack_state B st) = SIZE_OF (base_state B) + length (tail_bytes (base_state B) (account_type st) (tlv_data st))"
  by (simp add: pack_state_eq length_enc)

lemma pack_state_split:
  "take (SIZE_OF (base_state B)) (pack_state B st) = base_enc B (base st)"
  "drop (SIZE_OF (base_state B)) (pack_state B st) =
     tail_bytes (base_state B) (account_type st) (tlv_data st)"
  by (simp_all add: pack_state_eq length_enc)

lemma pack_state_joinI:
  assumes "SIZE_OF (base_state B) \<le> length input"
    and "base st = base_dec B (take (SIZE_OF (base_state B)) input)"
    and "drop (SIZE_OF (base_state B)) input =
      tail_bytes (base_state B) (account_type st) (tlv_data st)"
  shows "input = pack_state B st"
proof -
  have "base_enc B (base st) = take (SIZE_OF (base_state B)) input"
    using assms(1,2) by (simp add: enc_dec)
  then have "pack_state B st =
      take (SIZE_OF (base_state B)) input @ drop (SIZE_OF (base_state B)) input"
    by (simp only: pack_state_eq assms(3))
  then show ?thesis by simp
qed

lemma unpack_mut_Ok:
  "unpack_mut B input = Ok st \<longleftrightarrow>
     length input \<noteq> MULTISIG_LEN \<and> input = pack_state B st \<and> base_is_initialized B (base st) \<and>
     tail_ok (ACCOUNT_TYPE (base_state B)) (account_type st) (tlv_data st)"
  (is "_ \<longleftrightarrow> ?R")
proof
  let ?n = "SIZE_OF (base_state B)"
  assume "unpack_mut B input = Ok st"
  then have h: "length input \<noteq> MULTISIG_LEN" "?n \<le> length input" "base st = base_dec B (take ?n input)"
    "base_is_initialized B (base st)"
    "unpack_type_and_tlv_data_mut (base_state B) (drop ?n input) = Ok (account_type st, tlv_data st)"
    by (auto simp: unpack_mut_def res_simps base_from_bytes_def check_min_len_and_not_multisig_def
        Let_def split: if_splits)
  have t: "tail_ok (ACCOUNT_TYPE (base_state B)) (account_type st) (tlv_data st)"
    "drop ?n input = tail_bytes (base_state B) (account_type st) (tlv_data st)"
    using h(5) by (simp_all add: unpack_type_and_tlv_data_mut_Ok)
  show ?R using h(1,4) t(1) pack_state_joinI [OF h(2,3) t(2)] by blast
next
  assume r: ?R
  then have i: "input = pack_state B st" by blast
  have "unpack_type_and_tlv_data_mut (base_state B)
      (tail_bytes (base_state B) (account_type st) (tlv_data st)) = Ok (account_type st, tlv_data st)"
    using r by (simp add: unpack_type_and_tlv_data_mut_Ok)
  moreover have "length (pack_state B st) \<noteq> MULTISIG_LEN" "base_is_initialized B (base st)"
    using r unfolding i by blast+
  moreover have "\<not> length (pack_state B st) < SIZE_OF (base_state B)"
    by (simp add: length_pack_state)
  ultimately show "unpack_mut B input = Ok st"
    unfolding i by (simp add: unpack_mut_def check_min_len_and_not_multisig_def base_from_bytes_def
        length_enc dec_enc Let_def pack_state_split)
qed

text \<open>
  Writing back a state whose base was changed (still initialized) and whose buffer kept its length
  gives data that unpacks to exactly that state.
\<close>

lemma unpack_pack_state:
  assumes "unpack_mut B input = Ok st" "base_is_initialized B (base st')"
    and "account_type st' = account_type st" "length (tlv_data st') = length (tlv_data st)"
  shows "unpack_mut B (pack_state B st') = Ok st'" "length (pack_state B st') = length input"
proof -
  have u: "length input \<noteq> MULTISIG_LEN" "input = pack_state B st"
    "tail_ok (ACCOUNT_TYPE (base_state B)) (account_type st) (tlv_data st)"
    using assms(1) unfolding unpack_mut_Ok by blast+
  show l: "length (pack_state B st') = length input"
    using assms(3,4) u(2) by (simp add: length_pack_state tail_bytes_def)
  have "tail_ok (ACCOUNT_TYPE (base_state B)) (account_type st') (tlv_data st')"
    using u(3) assms(3,4) by (auto simp: tail_ok_def)
  then show "unpack_mut B (pack_state B st') = Ok st'"
    using l u(1) assms(2) by (simp add: unpack_mut_Ok)
qed

lemma unpack_uninitialized_Ok:
  "unpack_uninitialized B input = Ok st \<Longrightarrow>
     length input \<noteq> MULTISIG_LEN \<and> input = pack_state B st \<and> \<not> base_is_initialized B (base st) \<and>
     tail_ok AccountType.Uninitialized (account_type st) (tlv_data st)"
proof -
  let ?n = "SIZE_OF (base_state B)"
  assume "unpack_uninitialized B input = Ok st"
  then have h: "length input \<noteq> MULTISIG_LEN" "?n \<le> length input" "base st = base_dec B (take ?n input)"
    "\<not> base_is_initialized B (base st)"
    "unpack_uninitialized_type_and_tlv_data_mut (base_state B) (drop ?n input) =
      Ok (account_type st, tlv_data st)"
    by (auto simp: unpack_uninitialized_def res_simps base_from_bytes_def
        check_min_len_and_not_multisig_def Let_def split: if_splits)
  have t: "tail_ok AccountType.Uninitialized (account_type st) (tlv_data st)"
    "drop ?n input = tail_bytes (base_state B) (account_type st) (tlv_data st)"
    using h(5) by (simp_all add: unpack_uninitialized_type_and_tlv_data_mut_Ok)
  show ?thesis using h(1,4) t(1) pack_state_joinI [OF h(2,3) t(2)] by blast
qed

end

interpretation mint_base: base_pod PodMintB
  by unfold_locales (simp_all add: PodMintB_def MINT_LEN_def)

interpretation account_base: base_pod PodAccountB
  by unfold_locales (simp_all add: PodAccountB_def ACCOUNT_LEN_def)

lemma base_sel [simp]:
  "base_state PodMintB = MintBase" "base_is_initialized PodMintB = mint_is_initialized"
  "base_state PodAccountB = AccountBase" "base_is_initialized PodAccountB = account_is_initialized"
  by (simp_all add: PodMintB_def PodAccountB_def)

section \<open>Mints and accounts cannot be confused\<close>

lemma unpack_disjoint:
  assumes "unpack_mut PodMintB data = Ok m" "unpack_mut PodAccountB data = Ok a"
  shows False
proof -
  have m: "data = pack_state PodMintB m" "tail_ok Mint (account_type m) (tlv_data m)"
    using assms(1) unfolding mint_base.unpack_mut_Ok by simp_all
  have a: "data = pack_state PodAccountB a" "tail_ok Account (account_type a) (tlv_data a)"
    using assms(2) unfolding account_base.unpack_mut_Ok by simp_all
  have la: "length data = 165 + length (tail_bytes AccountBase (account_type a) (tlv_data a))"
    using a(1) account_base.length_pack_state [of a] by (simp add: ACCOUNT_LEN_def)
  then have "account_type m \<noteq> []"
    using m(1) mint_base.length_pack_state [of m] by (auto simp: MINT_LEN_def tail_bytes_def)
  then have am: "account_type m = [1]" using m(2) by (auto simp: tail_ok_def)
  then have lm: "length data = 166 + length (tlv_data m)"
    using m(1) mint_base.length_pack_state [of m]
    by (simp add: tail_bytes_def base_lens BASE_ACCOUNT_LENGTH_def)
  have m165: "data ! 165 = 1"
    using am unfolding m(1) pack_state_def
    by (simp add: PodMintB_def nth_append base_lens BASE_ACCOUNT_LENGTH_def)
  have "account_type a \<noteq> []" using la lm by (auto simp: tail_bytes_def)
  then have aa: "account_type a = [2]" using a(2) by (auto simp: tail_ok_def)
  then have "data ! 165 = 2"
    unfolding a(1) pack_state_def
    by (simp add: PodAccountB_def nth_append base_lens BASE_ACCOUNT_LENGTH_def)
  with m165 show False by simp
qed

end
