(* ===== verification/Extension_Data.thy ===== *)
theory Extension_Data
  imports State_With_Extensions
begin

text \<open>
  The data of the fixed-size extensions (src/interface/src/extension/*): one record per struct, its
  \<open>repr(C)\<close> byte layout, and the extension instance with its type tag and its \<open>Default\<close>.  Every
  instance interprets the locale of extensions, which gives it the laws of reading and writing
  through the extension buffer.  Encrypted values are opaque: an ElGamal public key is 32 bytes, an
  ElGamal ciphertext 64, an authenticated-encryption ciphertext 36.  A \<open>PodF64\<close> is its 8 bytes.
\<close>

type_synonym ciphertext = "512 word"
type_synonym ae_ciphertext = "288 word"

interpretation ciphertext_pod: pod 64 "to_le 64" "from_le :: bytes \<Rightarrow> ciphertext"
  by unfold_locales (simp_all add: from_le_to_le to_le_from_le)

interpretation ae_ciphertext_pod: pod 36 "to_le 36" "from_le :: bytes \<Rightarrow> ae_ciphertext"
  by unfold_locales (simp_all add: from_le_to_le to_le_from_le)

lemmas ciphertext_pod_simps [simp] =
  ciphertext_pod.dec_enc ciphertext_pod.enc_dec ae_ciphertext_pod.dec_enc ae_ciphertext_pod.enc_dec

text \<open>Adjacent slices glue together: how a layout is read back whole.\<close>

lemma subslice_glue:
  "b = a + n \<Longrightarrow> subslice a n bs @ subslice b m bs = subslice a (n + m) bs"
  "b = a + n \<Longrightarrow> subslice a n bs @ subslice b m bs @ rest = subslice a (n + m) bs @ rest"
  using subslice_join [of a n bs m] by (simp_all flip: append_assoc)

lemma subslice_byte: "i < length bs \<Longrightarrow> bs ! i # xs = subslice i 1 bs @ xs"
  by (simp add: subslice_one [symmetric])

lemmas layout_simps = subslice_simps nth_append
lemmas glue_simps = subslice_byte subslice_glue subslice_all

section \<open>Structs and layouts\<close>

record MintCloseAuthority =
  mca_close_authority :: pubkey

definition enc_MintCloseAuthority :: "MintCloseAuthority \<Rightarrow> bytes" where
  "enc_MintCloseAuthority x = to_le 32 (mca_close_authority x)"

definition dec_MintCloseAuthority :: "bytes \<Rightarrow> MintCloseAuthority" where
  "dec_MintCloseAuthority bs = \<lparr>mca_close_authority = from_le (subslice 0 32 bs)\<rparr>"

definition MintCloseAuthorityX :: "MintCloseAuthority Extension" where
  "MintCloseAuthorityX = \<lparr>EXT_TYPE = ExtensionType.MintCloseAuthority, pod_len = 32,
     ext_enc = enc_MintCloseAuthority, ext_dec = dec_MintCloseAuthority,
     ext_default = \<lparr>mca_close_authority = 0\<rparr>\<rparr>"

record PermanentDelegate =
  pd_delegate :: pubkey

definition enc_PermanentDelegate :: "PermanentDelegate \<Rightarrow> bytes" where
  "enc_PermanentDelegate x = to_le 32 (pd_delegate x)"

definition dec_PermanentDelegate :: "bytes \<Rightarrow> PermanentDelegate" where
  "dec_PermanentDelegate bs = \<lparr>pd_delegate = from_le (subslice 0 32 bs)\<rparr>"

definition PermanentDelegateX :: "PermanentDelegate Extension" where
  "PermanentDelegateX = \<lparr>EXT_TYPE = ExtensionType.PermanentDelegate, pod_len = 32,
     ext_enc = enc_PermanentDelegate, ext_dec = dec_PermanentDelegate,
     ext_default = \<lparr>pd_delegate = 0\<rparr>\<rparr>"

record CpiGuard =
  cg_lock_cpi :: u8

definition enc_CpiGuard :: "CpiGuard \<Rightarrow> bytes" where
  "enc_CpiGuard x = [cg_lock_cpi x]"

definition dec_CpiGuard :: "bytes \<Rightarrow> CpiGuard" where
  "dec_CpiGuard bs = \<lparr>cg_lock_cpi = bs ! 0\<rparr>"

definition CpiGuardX :: "CpiGuard Extension" where
  "CpiGuardX = \<lparr>EXT_TYPE = ExtensionType.CpiGuard, pod_len = 1, ext_enc = enc_CpiGuard,
     ext_dec = dec_CpiGuard, ext_default = \<lparr>cg_lock_cpi = 0\<rparr>\<rparr>"

record MemoTransfer =
  mt_require_incoming_transfer_memos :: u8

definition enc_MemoTransfer :: "MemoTransfer \<Rightarrow> bytes" where
  "enc_MemoTransfer x = [mt_require_incoming_transfer_memos x]"

definition dec_MemoTransfer :: "bytes \<Rightarrow> MemoTransfer" where
  "dec_MemoTransfer bs = \<lparr>mt_require_incoming_transfer_memos = bs ! 0\<rparr>"

definition MemoTransferX :: "MemoTransfer Extension" where
  "MemoTransferX = \<lparr>EXT_TYPE = ExtensionType.MemoTransfer, pod_len = 1,
     ext_enc = enc_MemoTransfer, ext_dec = dec_MemoTransfer,
     ext_default = \<lparr>mt_require_incoming_transfer_memos = 0\<rparr>\<rparr>"

record DefaultAccountState =
  das_state :: u8

definition enc_DefaultAccountState :: "DefaultAccountState \<Rightarrow> bytes" where
  "enc_DefaultAccountState x = [das_state x]"

definition dec_DefaultAccountState :: "bytes \<Rightarrow> DefaultAccountState" where
  "dec_DefaultAccountState bs = \<lparr>das_state = bs ! 0\<rparr>"

definition DefaultAccountStateX :: "DefaultAccountState Extension" where
  "DefaultAccountStateX = \<lparr>EXT_TYPE = ExtensionType.DefaultAccountState, pod_len = 1,
     ext_enc = enc_DefaultAccountState, ext_dec = dec_DefaultAccountState,
     ext_default = \<lparr>das_state = 0\<rparr>\<rparr>"

record PausableConfig =
  pc_authority :: pubkey
  pc_paused :: u8

definition enc_PausableConfig :: "PausableConfig \<Rightarrow> bytes" where
  "enc_PausableConfig x = to_le 32 (pc_authority x) @ [pc_paused x]"

definition dec_PausableConfig :: "bytes \<Rightarrow> PausableConfig" where
  "dec_PausableConfig bs = \<lparr>pc_authority = from_le (subslice 0 32 bs), pc_paused = bs ! 32\<rparr>"

definition PausableConfigX :: "PausableConfig Extension" where
  "PausableConfigX = \<lparr>EXT_TYPE = ExtensionType.Pausable, pod_len = 33,
     ext_enc = enc_PausableConfig, ext_dec = dec_PausableConfig,
     ext_default = \<lparr>pc_authority = 0, pc_paused = 0\<rparr>\<rparr>"

record TransferHook =
  th_authority :: pubkey
  th_program_id :: pubkey

definition enc_TransferHook :: "TransferHook \<Rightarrow> bytes" where
  "enc_TransferHook x = to_le 32 (th_authority x) @ to_le 32 (th_program_id x)"

definition dec_TransferHook :: "bytes \<Rightarrow> TransferHook" where
  "dec_TransferHook bs = \<lparr>th_authority = from_le (subslice 0 32 bs),
     th_program_id = from_le (subslice 32 32 bs)\<rparr>"

definition TransferHookX :: "TransferHook Extension" where
  "TransferHookX = \<lparr>EXT_TYPE = ExtensionType.TransferHook, pod_len = 64,
     ext_enc = enc_TransferHook, ext_dec = dec_TransferHook,
     ext_default = \<lparr>th_authority = 0, th_program_id = 0\<rparr>\<rparr>"

record TransferHookAccount =
  tha_transferring :: u8

definition enc_TransferHookAccount :: "TransferHookAccount \<Rightarrow> bytes" where
  "enc_TransferHookAccount x = [tha_transferring x]"

definition dec_TransferHookAccount :: "bytes \<Rightarrow> TransferHookAccount" where
  "dec_TransferHookAccount bs = \<lparr>tha_transferring = bs ! 0\<rparr>"

definition TransferHookAccountX :: "TransferHookAccount Extension" where
  "TransferHookAccountX = \<lparr>EXT_TYPE = ExtensionType.TransferHookAccount, pod_len = 1,
     ext_enc = enc_TransferHookAccount, ext_dec = dec_TransferHookAccount,
     ext_default = \<lparr>tha_transferring = 0\<rparr>\<rparr>"

record MetadataPointer =
  mp_authority :: pubkey
  mp_metadata_address :: pubkey

definition enc_MetadataPointer :: "MetadataPointer \<Rightarrow> bytes" where
  "enc_MetadataPointer x = to_le 32 (mp_authority x) @ to_le 32 (mp_metadata_address x)"

definition dec_MetadataPointer :: "bytes \<Rightarrow> MetadataPointer" where
  "dec_MetadataPointer bs = \<lparr>mp_authority = from_le (subslice 0 32 bs),
     mp_metadata_address = from_le (subslice 32 32 bs)\<rparr>"

definition MetadataPointerX :: "MetadataPointer Extension" where
  "MetadataPointerX = \<lparr>EXT_TYPE = ExtensionType.MetadataPointer, pod_len = 64,
     ext_enc = enc_MetadataPointer, ext_dec = dec_MetadataPointer,
     ext_default = \<lparr>mp_authority = 0, mp_metadata_address = 0\<rparr>\<rparr>"

record GroupPointer =
  gp_authority :: pubkey
  gp_group_address :: pubkey

definition enc_GroupPointer :: "GroupPointer \<Rightarrow> bytes" where
  "enc_GroupPointer x = to_le 32 (gp_authority x) @ to_le 32 (gp_group_address x)"

definition dec_GroupPointer :: "bytes \<Rightarrow> GroupPointer" where
  "dec_GroupPointer bs = \<lparr>gp_authority = from_le (subslice 0 32 bs),
     gp_group_address = from_le (subslice 32 32 bs)\<rparr>"

definition GroupPointerX :: "GroupPointer Extension" where
  "GroupPointerX = \<lparr>EXT_TYPE = ExtensionType.GroupPointer, pod_len = 64,
     ext_enc = enc_GroupPointer, ext_dec = dec_GroupPointer,
     ext_default = \<lparr>gp_authority = 0, gp_group_address = 0\<rparr>\<rparr>"

record GroupMemberPointer =
  gmp_authority :: pubkey
  gmp_member_address :: pubkey

definition enc_GroupMemberPointer :: "GroupMemberPointer \<Rightarrow> bytes" where
  "enc_GroupMemberPointer x = to_le 32 (gmp_authority x) @ to_le 32 (gmp_member_address x)"

definition dec_GroupMemberPointer :: "bytes \<Rightarrow> GroupMemberPointer" where
  "dec_GroupMemberPointer bs = \<lparr>gmp_authority = from_le (subslice 0 32 bs),
     gmp_member_address = from_le (subslice 32 32 bs)\<rparr>"

definition GroupMemberPointerX :: "GroupMemberPointer Extension" where
  "GroupMemberPointerX = \<lparr>EXT_TYPE = ExtensionType.GroupMemberPointer, pod_len = 64,
     ext_enc = enc_GroupMemberPointer, ext_dec = dec_GroupMemberPointer,
     ext_default = \<lparr>gmp_authority = 0, gmp_member_address = 0\<rparr>\<rparr>"

record InterestBearingConfig =
  ib_rate_authority :: pubkey
  ib_initialization_timestamp :: u64
  ib_pre_update_average_rate :: u16
  ib_last_update_timestamp :: u64
  ib_current_rate :: u16

definition enc_InterestBearingConfig :: "InterestBearingConfig \<Rightarrow> bytes" where
  "enc_InterestBearingConfig x = to_le 32 (ib_rate_authority x) @
     to_le 8 (ib_initialization_timestamp x) @ to_le 2 (ib_pre_update_average_rate x) @
     to_le 8 (ib_last_update_timestamp x) @ to_le 2 (ib_current_rate x)"

definition dec_InterestBearingConfig :: "bytes \<Rightarrow> InterestBearingConfig" where
  "dec_InterestBearingConfig bs = \<lparr>ib_rate_authority = from_le (subslice 0 32 bs),
     ib_initialization_timestamp = from_le (subslice 32 8 bs),
     ib_pre_update_average_rate = from_le (subslice 40 2 bs),
     ib_last_update_timestamp = from_le (subslice 42 8 bs),
     ib_current_rate = from_le (subslice 50 2 bs)\<rparr>"

definition InterestBearingConfigX :: "InterestBearingConfig Extension" where
  "InterestBearingConfigX = \<lparr>EXT_TYPE = ExtensionType.InterestBearingConfig, pod_len = 52,
     ext_enc = enc_InterestBearingConfig, ext_dec = dec_InterestBearingConfig,
     ext_default = \<lparr>ib_rate_authority = 0, ib_initialization_timestamp = 0,
     ib_pre_update_average_rate = 0, ib_last_update_timestamp = 0, ib_current_rate = 0\<rparr>\<rparr>"

record ScaledUiAmountConfig =
  su_authority :: pubkey
  su_multiplier :: u64
  su_new_multiplier_effective_timestamp :: u64
  su_new_multiplier :: u64

definition enc_ScaledUiAmountConfig :: "ScaledUiAmountConfig \<Rightarrow> bytes" where
  "enc_ScaledUiAmountConfig x = to_le 32 (su_authority x) @ to_le 8 (su_multiplier x) @
     to_le 8 (su_new_multiplier_effective_timestamp x) @ to_le 8 (su_new_multiplier x)"

definition dec_ScaledUiAmountConfig :: "bytes \<Rightarrow> ScaledUiAmountConfig" where
  "dec_ScaledUiAmountConfig bs = \<lparr>su_authority = from_le (subslice 0 32 bs),
     su_multiplier = from_le (subslice 32 8 bs),
     su_new_multiplier_effective_timestamp = from_le (subslice 40 8 bs),
     su_new_multiplier = from_le (subslice 48 8 bs)\<rparr>"

definition ScaledUiAmountConfigX :: "ScaledUiAmountConfig Extension" where
  "ScaledUiAmountConfigX = \<lparr>EXT_TYPE = ExtensionType.ScaledUiAmount, pod_len = 56,
     ext_enc = enc_ScaledUiAmountConfig, ext_dec = dec_ScaledUiAmountConfig,
     ext_default = \<lparr>su_authority = 0, su_multiplier = 0,
     su_new_multiplier_effective_timestamp = 0, su_new_multiplier = 0\<rparr>\<rparr>"

record ConfidentialTransferMint =
  ctm_authority :: pubkey
  ctm_auto_approve_new_accounts :: u8
  ctm_auditor_elgamal_pubkey :: pubkey

definition enc_ConfidentialTransferMint :: "ConfidentialTransferMint \<Rightarrow> bytes" where
  "enc_ConfidentialTransferMint x = to_le 32 (ctm_authority x) @
     [ctm_auto_approve_new_accounts x] @ to_le 32 (ctm_auditor_elgamal_pubkey x)"

definition dec_ConfidentialTransferMint :: "bytes \<Rightarrow> ConfidentialTransferMint" where
  "dec_ConfidentialTransferMint bs = \<lparr>ctm_authority = from_le (subslice 0 32 bs),
     ctm_auto_approve_new_accounts = bs ! 32,
     ctm_auditor_elgamal_pubkey = from_le (subslice 33 32 bs)\<rparr>"

definition ConfidentialTransferMintX :: "ConfidentialTransferMint Extension" where
  "ConfidentialTransferMintX = \<lparr>EXT_TYPE = ExtensionType.ConfidentialTransferMint,
     pod_len = 65, ext_enc = enc_ConfidentialTransferMint,
     ext_dec = dec_ConfidentialTransferMint, ext_default = \<lparr>ctm_authority = 0,
     ctm_auto_approve_new_accounts = 0, ctm_auditor_elgamal_pubkey = 0\<rparr>\<rparr>"

record ConfidentialTransferAccount =
  cta_approved :: u8
  cta_elgamal_pubkey :: pubkey
  cta_pending_balance_lo :: ciphertext
  cta_pending_balance_hi :: ciphertext
  cta_available_balance :: ciphertext
  cta_decryptable_available_balance :: ae_ciphertext
  cta_allow_confidential_credits :: u8
  cta_allow_non_confidential_credits :: u8
  cta_pending_balance_credit_counter :: u64
  cta_maximum_pending_balance_credit_counter :: u64
  cta_expected_pending_balance_credit_counter :: u64
  cta_actual_pending_balance_credit_counter :: u64

definition enc_ConfidentialTransferAccount :: "ConfidentialTransferAccount \<Rightarrow> bytes" where
  "enc_ConfidentialTransferAccount x = [cta_approved x] @ to_le 32 (cta_elgamal_pubkey x) @
     to_le 64 (cta_pending_balance_lo x) @ to_le 64 (cta_pending_balance_hi x) @
     to_le 64 (cta_available_balance x) @ to_le 36 (cta_decryptable_available_balance x) @
     [cta_allow_confidential_credits x] @ [cta_allow_non_confidential_credits x] @
     to_le 8 (cta_pending_balance_credit_counter x) @
     to_le 8 (cta_maximum_pending_balance_credit_counter x) @
     to_le 8 (cta_expected_pending_balance_credit_counter x) @
     to_le 8 (cta_actual_pending_balance_credit_counter x)"

definition dec_ConfidentialTransferAccount :: "bytes \<Rightarrow> ConfidentialTransferAccount" where
  "dec_ConfidentialTransferAccount bs = \<lparr>cta_approved = bs ! 0,
     cta_elgamal_pubkey = from_le (subslice 1 32 bs),
     cta_pending_balance_lo = from_le (subslice 33 64 bs),
     cta_pending_balance_hi = from_le (subslice 97 64 bs),
     cta_available_balance = from_le (subslice 161 64 bs),
     cta_decryptable_available_balance = from_le (subslice 225 36 bs),
     cta_allow_confidential_credits = bs ! 261, cta_allow_non_confidential_credits = bs ! 262,
     cta_pending_balance_credit_counter = from_le (subslice 263 8 bs),
     cta_maximum_pending_balance_credit_counter = from_le (subslice 271 8 bs),
     cta_expected_pending_balance_credit_counter = from_le (subslice 279 8 bs),
     cta_actual_pending_balance_credit_counter = from_le (subslice 287 8 bs)\<rparr>"

definition ConfidentialTransferAccountX :: "ConfidentialTransferAccount Extension" where
  "ConfidentialTransferAccountX = \<lparr>EXT_TYPE = ExtensionType.ConfidentialTransferAccount,
     pod_len = 295, ext_enc = enc_ConfidentialTransferAccount,
     ext_dec = dec_ConfidentialTransferAccount, ext_default = \<lparr>cta_approved = 0,
     cta_elgamal_pubkey = 0, cta_pending_balance_lo = 0, cta_pending_balance_hi = 0,
     cta_available_balance = 0, cta_decryptable_available_balance = 0,
     cta_allow_confidential_credits = 0, cta_allow_non_confidential_credits = 0,
     cta_pending_balance_credit_counter = 0, cta_maximum_pending_balance_credit_counter = 0,
     cta_expected_pending_balance_credit_counter = 0,
     cta_actual_pending_balance_credit_counter = 0\<rparr>\<rparr>"

record ConfidentialTransferFeeConfig =
  ctf_authority :: pubkey
  ctf_withdraw_withheld_authority_elgamal_pubkey :: pubkey
  ctf_harvest_to_mint_enabled :: u8
  ctf_withheld_amount :: ciphertext

definition enc_ConfidentialTransferFeeConfig :: "ConfidentialTransferFeeConfig \<Rightarrow> bytes" where
  "enc_ConfidentialTransferFeeConfig x = to_le 32 (ctf_authority x) @
     to_le 32 (ctf_withdraw_withheld_authority_elgamal_pubkey x) @
     [ctf_harvest_to_mint_enabled x] @ to_le 64 (ctf_withheld_amount x)"

definition dec_ConfidentialTransferFeeConfig :: "bytes \<Rightarrow> ConfidentialTransferFeeConfig" where
  "dec_ConfidentialTransferFeeConfig bs = \<lparr>ctf_authority = from_le (subslice 0 32 bs),
     ctf_withdraw_withheld_authority_elgamal_pubkey = from_le (subslice 32 32 bs),
     ctf_harvest_to_mint_enabled = bs ! 64, ctf_withheld_amount = from_le (subslice 65 64 bs)\<rparr>"

definition ConfidentialTransferFeeConfigX :: "ConfidentialTransferFeeConfig Extension" where
  "ConfidentialTransferFeeConfigX = \<lparr>
     EXT_TYPE = ExtensionType.ConfidentialTransferFeeConfig, pod_len = 129,
     ext_enc = enc_ConfidentialTransferFeeConfig, ext_dec = dec_ConfidentialTransferFeeConfig,
     ext_default = \<lparr>ctf_authority = 0, ctf_withdraw_withheld_authority_elgamal_pubkey = 0,
     ctf_harvest_to_mint_enabled = 0, ctf_withheld_amount = 0\<rparr>\<rparr>"

record ConfidentialTransferFeeAmount =
  cfa_withheld_amount :: ciphertext

definition enc_ConfidentialTransferFeeAmount :: "ConfidentialTransferFeeAmount \<Rightarrow> bytes" where
  "enc_ConfidentialTransferFeeAmount x = to_le 64 (cfa_withheld_amount x)"

definition dec_ConfidentialTransferFeeAmount :: "bytes \<Rightarrow> ConfidentialTransferFeeAmount" where
  "dec_ConfidentialTransferFeeAmount bs = \<lparr>cfa_withheld_amount = from_le (subslice 0 64 bs)\<rparr>"

definition ConfidentialTransferFeeAmountX :: "ConfidentialTransferFeeAmount Extension" where
  "ConfidentialTransferFeeAmountX = \<lparr>
     EXT_TYPE = ExtensionType.ConfidentialTransferFeeAmount, pod_len = 64,
     ext_enc = enc_ConfidentialTransferFeeAmount, ext_dec = dec_ConfidentialTransferFeeAmount,
     ext_default = \<lparr>cfa_withheld_amount = 0\<rparr>\<rparr>"

record ConfidentialMintBurn =
  cmb_confidential_supply :: ciphertext
  cmb_decryptable_supply :: ae_ciphertext
  cmb_supply_elgamal_pubkey :: pubkey
  cmb_pending_burn :: ciphertext

definition enc_ConfidentialMintBurn :: "ConfidentialMintBurn \<Rightarrow> bytes" where
  "enc_ConfidentialMintBurn x = to_le 64 (cmb_confidential_supply x) @
     to_le 36 (cmb_decryptable_supply x) @ to_le 32 (cmb_supply_elgamal_pubkey x) @
     to_le 64 (cmb_pending_burn x)"

definition dec_ConfidentialMintBurn :: "bytes \<Rightarrow> ConfidentialMintBurn" where
  "dec_ConfidentialMintBurn bs = \<lparr>cmb_confidential_supply = from_le (subslice 0 64 bs),
     cmb_decryptable_supply = from_le (subslice 64 36 bs),
     cmb_supply_elgamal_pubkey = from_le (subslice 100 32 bs),
     cmb_pending_burn = from_le (subslice 132 64 bs)\<rparr>"

definition ConfidentialMintBurnX :: "ConfidentialMintBurn Extension" where
  "ConfidentialMintBurnX = \<lparr>EXT_TYPE = ExtensionType.ConfidentialMintBurn, pod_len = 196,
     ext_enc = enc_ConfidentialMintBurn, ext_dec = dec_ConfidentialMintBurn,
     ext_default = \<lparr>cmb_confidential_supply = 0, cmb_decryptable_supply = 0,
     cmb_supply_elgamal_pubkey = 0, cmb_pending_burn = 0\<rparr>\<rparr>"

definition ImmutableOwnerX :: "unit Extension" where
  "ImmutableOwnerX = \<lparr>EXT_TYPE = ExtensionType.ImmutableOwner, pod_len = 0, ext_enc = (\<lambda>_. []),
     ext_dec = (\<lambda>_. ()), ext_default = ()\<rparr>"

definition NonTransferableX :: "unit Extension" where
  "NonTransferableX = \<lparr>EXT_TYPE = ExtensionType.NonTransferable, pod_len = 0, ext_enc = (\<lambda>_. []),
     ext_dec = (\<lambda>_. ()), ext_default = ()\<rparr>"

definition NonTransferableAccountX :: "unit Extension" where
  "NonTransferableAccountX = \<lparr>EXT_TYPE = ExtensionType.NonTransferableAccount, pod_len = 0, ext_enc = (\<lambda>_. []),
     ext_dec = (\<lambda>_. ()), ext_default = ()\<rparr>"

definition PausableAccountX :: "unit Extension" where
  "PausableAccountX = \<lparr>EXT_TYPE = ExtensionType.PausableAccount, pod_len = 0, ext_enc = (\<lambda>_. []),
     ext_dec = (\<lambda>_. ()), ext_default = ()\<rparr>"

section \<open>Reading extensions of a state\<close>

definition cta_is_approved :: "ConfidentialTransferAccount \<Rightarrow> unit result" where
  "cta_is_approved self =
     (if pod_bool (cta_approved self) then Ok () else TErr ConfidentialTransferAccountNotApproved)"

definition cta_closable :: "ConfidentialTransferAccount \<Rightarrow> unit result" where
  "cta_closable self =
     (if cta_pending_balance_lo self = 0 \<and> cta_pending_balance_hi self = 0 \<and>
         cta_available_balance self = 0 then Ok ()
      else TErr ConfidentialTransferAccountHasBalance)"

definition non_confidential_transfer_allowed :: "ConfidentialTransferAccount \<Rightarrow> unit result" where
  "non_confidential_transfer_allowed self =
     (if pod_bool (cta_allow_non_confidential_credits self) then Ok ()
      else TErr NonConfidentialTransfersDisabled)"

definition valid_as_source :: "ConfidentialTransferAccount \<Rightarrow> unit result" where
  "valid_as_source self = cta_is_approved self"

definition valid_as_destination :: "ConfidentialTransferAccount \<Rightarrow> unit result" where
  "valid_as_destination self =
     and_then (cta_is_approved self) (\<lambda>_.
     if \<not> pod_bool (cta_allow_confidential_credits self)
     then TErr ConfidentialTransferDepositsAndTransfersDisabled
     else and_then (ok_or (checked_add (cta_pending_balance_credit_counter self) 1)
            (token_error Overflow)) (\<lambda>new_counter.
          if new_counter > cta_maximum_pending_balance_credit_counter self
          then TErr MaximumPendingBalanceCreditCounterExceeded else Ok ()))"

definition increment_pending_balance_credit_counter ::
  "ConfidentialTransferAccount \<Rightarrow> ConfidentialTransferAccount result" where
  "increment_pending_balance_credit_counter self =
     and_then (ok_or (checked_add (cta_pending_balance_credit_counter self) 1) (token_error Overflow))
       (\<lambda>c. Ok (self\<lparr>cta_pending_balance_credit_counter := c\<rparr>))"

definition cfa_closable :: "ConfidentialTransferFeeAmount \<Rightarrow> unit result" where
  "cfa_closable self =
     (if cfa_withheld_amount self = 0 then Ok () else TErr ConfidentialTransferFeeAccountHasWithheldFee)"

definition get_permanent_delegate :: "BaseState \<Rightarrow> bytes \<Rightarrow> pubkey option" where
  "get_permanent_delegate S tlv =
     Option.bind (ok (get_extension S PermanentDelegateX tlv)) (\<lambda>e. opt_key (pd_delegate e))"

definition get_program_id :: "BaseState \<Rightarrow> bytes \<Rightarrow> pubkey option" where
  "get_program_id S tlv =
     Option.bind (ok (get_extension S TransferHookX tlv)) (\<lambda>e. opt_key (th_program_id e))"

definition memo_required :: "BaseState \<Rightarrow> bytes \<Rightarrow> bool" where
  "memo_required S tlv =
     (case get_extension S MemoTransferX tlv of
        Ok e \<Rightarrow> pod_bool (mt_require_incoming_transfer_memos e) | Err _ \<Rightarrow> False)"

definition cpi_guard_enabled :: "bytes \<Rightarrow> bool" where
  "cpi_guard_enabled tlv =
     (case get_extension AccountBase CpiGuardX tlv of
        Ok e \<Rightarrow> pod_bool (cg_lock_cpi e) | Err _ \<Rightarrow> False)"

section \<open>The layouts are plain old data\<close>

interpretation mca: extension MintCloseAuthorityX
  by unfold_locales (simp_all add: MintCloseAuthorityX_def enc_MintCloseAuthority_def dec_MintCloseAuthority_def layout_simps glue_simps)

interpretation pd: extension PermanentDelegateX
  by unfold_locales (simp_all add: PermanentDelegateX_def enc_PermanentDelegate_def dec_PermanentDelegate_def layout_simps glue_simps)

interpretation cg: extension CpiGuardX
  by unfold_locales (simp_all add: CpiGuardX_def enc_CpiGuard_def dec_CpiGuard_def layout_simps glue_simps)

interpretation mt: extension MemoTransferX
  by unfold_locales (simp_all add: MemoTransferX_def enc_MemoTransfer_def dec_MemoTransfer_def layout_simps glue_simps)

interpretation das: extension DefaultAccountStateX
  by unfold_locales (simp_all add: DefaultAccountStateX_def enc_DefaultAccountState_def dec_DefaultAccountState_def layout_simps glue_simps)

interpretation pc: extension PausableConfigX
  by unfold_locales (simp_all add: PausableConfigX_def enc_PausableConfig_def dec_PausableConfig_def layout_simps glue_simps)

interpretation th: extension TransferHookX
  by unfold_locales (simp_all add: TransferHookX_def enc_TransferHook_def dec_TransferHook_def layout_simps glue_simps)

interpretation tha: extension TransferHookAccountX
  by unfold_locales (simp_all add: TransferHookAccountX_def enc_TransferHookAccount_def dec_TransferHookAccount_def layout_simps glue_simps)

interpretation mp: extension MetadataPointerX
  by unfold_locales (simp_all add: MetadataPointerX_def enc_MetadataPointer_def dec_MetadataPointer_def layout_simps glue_simps)

interpretation gp: extension GroupPointerX
  by unfold_locales (simp_all add: GroupPointerX_def enc_GroupPointer_def dec_GroupPointer_def layout_simps glue_simps)

interpretation gmp: extension GroupMemberPointerX
  by unfold_locales (simp_all add: GroupMemberPointerX_def enc_GroupMemberPointer_def dec_GroupMemberPointer_def layout_simps glue_simps)

interpretation ib: extension InterestBearingConfigX
  by unfold_locales (simp_all add: InterestBearingConfigX_def enc_InterestBearingConfig_def dec_InterestBearingConfig_def layout_simps glue_simps)

interpretation su: extension ScaledUiAmountConfigX
  by unfold_locales (simp_all add: ScaledUiAmountConfigX_def enc_ScaledUiAmountConfig_def dec_ScaledUiAmountConfig_def layout_simps glue_simps)

interpretation ctm: extension ConfidentialTransferMintX
  by unfold_locales (simp_all add: ConfidentialTransferMintX_def enc_ConfidentialTransferMint_def dec_ConfidentialTransferMint_def layout_simps glue_simps)

interpretation cta: extension ConfidentialTransferAccountX
  by unfold_locales (simp_all add: ConfidentialTransferAccountX_def enc_ConfidentialTransferAccount_def dec_ConfidentialTransferAccount_def layout_simps glue_simps)

interpretation ctf: extension ConfidentialTransferFeeConfigX
  by unfold_locales (simp_all add: ConfidentialTransferFeeConfigX_def enc_ConfidentialTransferFeeConfig_def dec_ConfidentialTransferFeeConfig_def layout_simps glue_simps)

interpretation cfa: extension ConfidentialTransferFeeAmountX
  by unfold_locales (simp_all add: ConfidentialTransferFeeAmountX_def enc_ConfidentialTransferFeeAmount_def dec_ConfidentialTransferFeeAmount_def layout_simps glue_simps)

interpretation cmb: extension ConfidentialMintBurnX
  by unfold_locales (simp_all add: ConfidentialMintBurnX_def enc_ConfidentialMintBurn_def dec_ConfidentialMintBurn_def layout_simps glue_simps)

interpretation immutable_owner: extension ImmutableOwnerX
  by unfold_locales (simp_all add: ImmutableOwnerX_def)

interpretation non_transferable: extension NonTransferableX
  by unfold_locales (simp_all add: NonTransferableX_def)

interpretation non_transferable_account: extension NonTransferableAccountX
  by unfold_locales (simp_all add: NonTransferableAccountX_def)

interpretation pausable_account: extension PausableAccountX
  by unfold_locales (simp_all add: PausableAccountX_def)

lemmas ext_defs = MintCloseAuthorityX_def PermanentDelegateX_def CpiGuardX_def MemoTransferX_def
  DefaultAccountStateX_def PausableConfigX_def TransferHookX_def TransferHookAccountX_def
  MetadataPointerX_def GroupPointerX_def GroupMemberPointerX_def InterestBearingConfigX_def
  ScaledUiAmountConfigX_def ConfidentialTransferMintX_def ConfidentialTransferAccountX_def
  ConfidentialTransferFeeConfigX_def ConfidentialTransferFeeAmountX_def ConfidentialMintBurnX_def
  ImmutableOwnerX_def NonTransferableX_def NonTransferableAccountX_def PausableAccountX_def

text \<open>The sizes of the layouts are the sizes \<open>ExtensionType\<close> computes account lengths with.\<close>

lemma pod_len_type_len:
  "type_len (EXT_TYPE MintCloseAuthorityX) = pod_len MintCloseAuthorityX"
  "type_len (EXT_TYPE PermanentDelegateX) = pod_len PermanentDelegateX"
  "type_len (EXT_TYPE CpiGuardX) = pod_len CpiGuardX"
  "type_len (EXT_TYPE MemoTransferX) = pod_len MemoTransferX"
  "type_len (EXT_TYPE DefaultAccountStateX) = pod_len DefaultAccountStateX"
  "type_len (EXT_TYPE PausableConfigX) = pod_len PausableConfigX"
  "type_len (EXT_TYPE TransferHookX) = pod_len TransferHookX"
  "type_len (EXT_TYPE TransferHookAccountX) = pod_len TransferHookAccountX"
  "type_len (EXT_TYPE MetadataPointerX) = pod_len MetadataPointerX"
  "type_len (EXT_TYPE GroupPointerX) = pod_len GroupPointerX"
  "type_len (EXT_TYPE GroupMemberPointerX) = pod_len GroupMemberPointerX"
  "type_len (EXT_TYPE InterestBearingConfigX) = pod_len InterestBearingConfigX"
  "type_len (EXT_TYPE ScaledUiAmountConfigX) = pod_len ScaledUiAmountConfigX"
  "type_len (EXT_TYPE ConfidentialTransferMintX) = pod_len ConfidentialTransferMintX"
  "type_len (EXT_TYPE ConfidentialTransferAccountX) = pod_len ConfidentialTransferAccountX"
  "type_len (EXT_TYPE ConfidentialTransferFeeConfigX) = pod_len ConfidentialTransferFeeConfigX"
  "type_len (EXT_TYPE ConfidentialTransferFeeAmountX) = pod_len ConfidentialTransferFeeAmountX"
  "type_len (EXT_TYPE ConfidentialMintBurnX) = pod_len ConfidentialMintBurnX"
  "type_len (EXT_TYPE ImmutableOwnerX) = pod_len ImmutableOwnerX"
  "type_len (EXT_TYPE NonTransferableX) = pod_len NonTransferableX"
  "type_len (EXT_TYPE NonTransferableAccountX) = pod_len NonTransferableAccountX"
  "type_len (EXT_TYPE PausableAccountX) = pod_len PausableAccountX"
  by (simp_all add: ext_defs)

end
