(* ===== verification/Transfer_Fee.thy ===== *)
theory Transfer_Fee
  imports Extension_Data
begin

text \<open>
  Transfer fees (src/interface/src/extension/transfer_fee/mod.rs): the fee configuration, the fee
  of an amount, the amount left after the fee and the amount to send so that a given amount
  arrives, with the 128-bit intermediate arithmetic and its overflow checks.  The arithmetic is
  compared with a specification on natural numbers.
\<close>

section \<open>Configuration\<close>

record TransferFee =
  tf_epoch :: u64
  tf_maximum_fee :: u64
  tf_transfer_fee_basis_points :: u16

record TransferFeeConfig =
  tfc_transfer_fee_config_authority :: pubkey
  tfc_withdraw_withheld_authority :: pubkey
  tfc_withheld_amount :: u64
  tfc_older_transfer_fee :: TransferFee
  tfc_newer_transfer_fee :: TransferFee

record TransferFeeAmount =
  tfa_withheld_amount :: u64

definition MAX_FEE_BASIS_POINTS :: u16 where "MAX_FEE_BASIS_POINTS = 10000"
definition ONE_IN_BASIS_POINTS :: u128 where "ONE_IN_BASIS_POINTS = ucast MAX_FEE_BASIS_POINTS"

definition enc_TransferFee :: "TransferFee \<Rightarrow> bytes" where
  "enc_TransferFee x = to_le 8 (tf_epoch x) @ to_le 8 (tf_maximum_fee x) @
     to_le 2 (tf_transfer_fee_basis_points x)"

definition dec_TransferFee :: "bytes \<Rightarrow> TransferFee" where
  "dec_TransferFee bs = \<lparr>tf_epoch = from_le (subslice 0 8 bs),
     tf_maximum_fee = from_le (subslice 8 8 bs),
     tf_transfer_fee_basis_points = from_le (subslice 16 2 bs)\<rparr>"

definition enc_TransferFeeConfig :: "TransferFeeConfig \<Rightarrow> bytes" where
  "enc_TransferFeeConfig x = to_le 32 (tfc_transfer_fee_config_authority x) @
     to_le 32 (tfc_withdraw_withheld_authority x) @ to_le 8 (tfc_withheld_amount x) @
     enc_TransferFee (tfc_older_transfer_fee x) @ enc_TransferFee (tfc_newer_transfer_fee x)"

definition dec_TransferFeeConfig :: "bytes \<Rightarrow> TransferFeeConfig" where
  "dec_TransferFeeConfig bs = \<lparr>tfc_transfer_fee_config_authority = from_le (subslice 0 32 bs),
     tfc_withdraw_withheld_authority = from_le (subslice 32 32 bs),
     tfc_withheld_amount = from_le (subslice 64 8 bs),
     tfc_older_transfer_fee = dec_TransferFee (subslice 72 18 bs),
     tfc_newer_transfer_fee = dec_TransferFee (subslice 90 18 bs)\<rparr>"

definition TransferFee_default :: TransferFee where
  "TransferFee_default = \<lparr>tf_epoch = 0, tf_maximum_fee = 0, tf_transfer_fee_basis_points = 0\<rparr>"

definition TransferFeeConfigX :: "TransferFeeConfig Extension" where
  "TransferFeeConfigX = \<lparr>EXT_TYPE = ExtensionType.TransferFeeConfig, pod_len = 108,
     ext_enc = enc_TransferFeeConfig, ext_dec = dec_TransferFeeConfig,
     ext_default = \<lparr>tfc_transfer_fee_config_authority = 0, tfc_withdraw_withheld_authority = 0,
       tfc_withheld_amount = 0, tfc_older_transfer_fee = TransferFee_default,
       tfc_newer_transfer_fee = TransferFee_default\<rparr>\<rparr>"

definition TransferFeeAmountX :: "TransferFeeAmount Extension" where
  "TransferFeeAmountX = \<lparr>EXT_TYPE = ExtensionType.TransferFeeAmount, pod_len = 8,
     ext_enc = (\<lambda>x. to_le 8 (tfa_withheld_amount x)),
     ext_dec = (\<lambda>bs. \<lparr>tfa_withheld_amount = from_le bs\<rparr>),
     ext_default = \<lparr>tfa_withheld_amount = 0\<rparr>\<rparr>"

section \<open>Fees\<close>

definition ceil_div :: "u128 \<Rightarrow> u128 \<Rightarrow> u128 option" where
  "ceil_div numerator denominator =
     Option.bind (checked_add numerator denominator) (\<lambda>s.
     Option.bind (checked_sub s 1) (\<lambda>d. checked_div d denominator))"

definition u64_try_from :: "u128 \<Rightarrow> u64 option" where
  "u64_try_from x = (if unat x < 2 ^ 64 then Some (ucast x) else None)"

definition calculate_fee :: "TransferFee \<Rightarrow> u64 \<Rightarrow> u64 option" where
  "calculate_fee self pre_fee_amount =
     (let transfer_fee_basis_points = (ucast (tf_transfer_fee_basis_points self) :: u128)
      in if transfer_fee_basis_points = 0 \<or> pre_fee_amount = 0 then Some 0
         else Option.bind (checked_mul (ucast pre_fee_amount) transfer_fee_basis_points) (\<lambda>numerator.
              Option.bind (Option.bind (ceil_div numerator ONE_IN_BASIS_POINTS) u64_try_from) (\<lambda>raw_fee.
              Some (min raw_fee (tf_maximum_fee self)))))"

definition calculate_post_fee_amount :: "TransferFee \<Rightarrow> u64 \<Rightarrow> u64 option" where
  "calculate_post_fee_amount self pre_fee_amount =
     Option.bind (calculate_fee self pre_fee_amount) (checked_sub pre_fee_amount)"

definition calculate_pre_fee_amount :: "TransferFee \<Rightarrow> u64 \<Rightarrow> u64 option" where
  "calculate_pre_fee_amount self post_fee_amount =
     (let maximum_fee = tf_maximum_fee self;
          transfer_fee_basis_points = (ucast (tf_transfer_fee_basis_points self) :: u128)
      in if transfer_fee_basis_points = 0 then Some post_fee_amount
         else if post_fee_amount = 0 then Some 0
         else if transfer_fee_basis_points = ONE_IN_BASIS_POINTS
         then checked_add maximum_fee post_fee_amount
         else Option.bind (checked_mul (ucast post_fee_amount) ONE_IN_BASIS_POINTS) (\<lambda>numerator.
              Option.bind (checked_sub ONE_IN_BASIS_POINTS transfer_fee_basis_points) (\<lambda>denominator.
              Option.bind (ceil_div numerator denominator) (\<lambda>raw_pre_fee_amount.
              Option.bind (checked_sub raw_pre_fee_amount (ucast post_fee_amount)) (\<lambda>raw_fee.
              if raw_fee \<ge> ucast maximum_fee then checked_add post_fee_amount maximum_fee
              else u64_try_from raw_pre_fee_amount)))))"

definition calculate_inverse_fee :: "TransferFee \<Rightarrow> u64 \<Rightarrow> u64 option" where
  "calculate_inverse_fee self post_fee_amount =
     Option.bind (calculate_pre_fee_amount self post_fee_amount) (calculate_fee self)"

definition get_epoch_fee :: "TransferFeeConfig \<Rightarrow> u64 \<Rightarrow> TransferFee" where
  "get_epoch_fee self epoch =
     (if epoch \<ge> tf_epoch (tfc_newer_transfer_fee self) then tfc_newer_transfer_fee self
      else tfc_older_transfer_fee self)"

definition calculate_epoch_fee :: "TransferFeeConfig \<Rightarrow> u64 \<Rightarrow> u64 \<Rightarrow> u64 option" where
  "calculate_epoch_fee self epoch pre_fee_amount =
     calculate_fee (get_epoch_fee self epoch) pre_fee_amount"

definition calculate_inverse_epoch_fee :: "TransferFeeConfig \<Rightarrow> u64 \<Rightarrow> u64 \<Rightarrow> u64 option" where
  "calculate_inverse_epoch_fee self epoch post_fee_amount =
     calculate_inverse_fee (get_epoch_fee self epoch) post_fee_amount"

definition transfer_fee_amount_closable :: "TransferFeeAmount \<Rightarrow> unit result" where
  "transfer_fee_amount_closable self =
     (if tfa_withheld_amount self = 0 then Ok () else TErr AccountHasWithheldTransferFees)"

section \<open>The configuration is plain old data\<close>

interpretation transfer_fee_pod: pod 18 enc_TransferFee dec_TransferFee
  by unfold_locales
    (simp_all add: enc_TransferFee_def dec_TransferFee_def layout_simps glue_simps)

lemmas transfer_fee_pod_simps [simp] =
  transfer_fee_pod.length_enc transfer_fee_pod.dec_enc transfer_fee_pod.enc_dec

interpretation tfc: extension TransferFeeConfigX
  by unfold_locales (simp_all add: TransferFeeConfigX_def enc_TransferFeeConfig_def
      dec_TransferFeeConfig_def layout_simps glue_simps)

interpretation tfa: extension TransferFeeAmountX
  by unfold_locales (simp_all add: TransferFeeAmountX_def)

section \<open>Specification on natural numbers\<close>

text \<open>The fee of \<open>x\<close> at \<open>b\<close> basis points, capped at \<open>m\<close>, rounded up.\<close>

definition fee_spec :: "nat \<Rightarrow> nat \<Rightarrow> nat \<Rightarrow> nat" where
  "fee_spec b m x = min ((x * b + 9999) div 10000) m"

definition post_spec :: "nat \<Rightarrow> nat \<Rightarrow> nat \<Rightarrow> nat" where
  "post_spec b m x = x - fee_spec b m x"

lemma fee_spec_mono: "x \<le> y \<Longrightarrow> fee_spec b m x \<le> fee_spec b m y"
  unfolding fee_spec_def by (intro min.mono div_le_mono add_mono mult_le_mono1 order_refl)

lemma ceil_le_iff: "(n + (d - 1)) div d \<le> k \<longleftrightarrow> n \<le> k * d" if "0 < d" for n d k :: nat
proof -
  have "(n + (d - 1)) div d \<le> k \<longleftrightarrow> n + (d - 1) < Suc k * d"
    using that by (metis div_less_iff_less_mult less_Suc_eq_le)
  then show ?thesis using that by auto
qed

lemma fee_spec_le: "b \<le> 10000 \<Longrightarrow> fee_spec b m x \<le> x"
  using ceil_le_iff [of 10000 "x * b" x] by (simp add: fee_spec_def min.coboundedI1)

text \<open>What arrives, without a subtraction: the proportional part or the amount less the cap.\<close>

lemma post_spec_ge_iff:
  assumes "b \<le> 10000" "0 < p"
  shows "p \<le> post_spec b m x \<longleftrightarrow> p + m \<le> x \<or> p * 10000 \<le> x * (10000 - b)"
proof -
  have "p \<le> post_spec b m x \<longleftrightarrow> p \<le> x \<and> fee_spec b m x \<le> x - p"
    using assms fee_spec_le [of b m x] by (auto simp: post_spec_def)
  also have "\<dots> \<longleftrightarrow> p \<le> x \<and> (x * b \<le> (x - p) * 10000 \<or> m \<le> x - p)"
    using ceil_le_iff [of 10000 "x * b" "x - p"] by (auto simp: fee_spec_def min_le_iff_disj)
  also have "\<dots> \<longleftrightarrow> p + m \<le> x \<or> p * 10000 \<le> x * (10000 - b)"
  proof (cases "p \<le> x")
    case True
    then obtain d where x: "x = p + d" using le_Suc_ex by blast
    have "x * (10000 - b) = x * 10000 - x * b" by (simp add: diff_mult_distrib2)
    moreover have "x * b \<le> x * 10000" using assms(1) by simp
    ultimately show ?thesis using True x by auto
  next
    case False
    have "x * (10000 - b) \<le> x * 10000" by (rule mult_le_mono2) simp
    with False have "\<not> p * 10000 \<le> x * (10000 - b)" by linarith
    with False show ?thesis by simp
  qed
  finally show ?thesis .
qed

lemma post_spec_Suc: "post_spec b m (Suc x) \<le> Suc (post_spec b m x)"
  using fee_spec_mono [of x "Suc x" b m] by (simp add: post_spec_def)

text \<open>The least amount of which \<open>p\<close> arrives.\<close>

definition pre_spec :: "nat \<Rightarrow> nat \<Rightarrow> nat \<Rightarrow> nat" where
  "pre_spec b m p =
     (if b = 0 \<or> p = 0 then p
      else if b = 10000 then m + p
      else min ((p * 10000 + (10000 - b - 1)) div (10000 - b)) (p + m))"

lemma pre_post_galois:
  assumes "b \<le> 10000"
  shows "pre_spec b m p \<le> x \<longleftrightarrow> p \<le> post_spec b m x"
proof (cases "b = 0 \<or> p = 0")
  case True
  then show ?thesis by (auto simp: pre_spec_def post_spec_def fee_spec_def)
next
  case False
  then have "pre_spec b m p \<le> x \<longleftrightarrow> p + m \<le> x \<or> p * 10000 \<le> x * (10000 - b)"
    using assms ceil_le_iff [of "10000 - b" "p * 10000" x]
    by (auto simp: pre_spec_def min_le_iff_disj add.commute)
  then show ?thesis using False assms by (simp add: post_spec_ge_iff)
qed

lemma post_pre:
  assumes "b \<le> 10000"
  shows "post_spec b m (pre_spec b m p) = p"
proof (cases "pre_spec b m p")
  case 0
  then have "p \<le> post_spec b m 0" using pre_post_galois [OF assms, of m p 0] by simp
  then have "p = 0" by (simp add: post_spec_def)
  then show ?thesis by (simp add: pre_spec_def post_spec_def)
next
  case (Suc k)
  have "\<not> p \<le> post_spec b m k" "p \<le> post_spec b m (Suc k)"
    using pre_post_galois [OF assms, of m p k] pre_post_galois [OF assms, of m p "Suc k"]
    unfolding Suc by simp_all
  then show ?thesis using post_spec_Suc [of b m k] Suc by simp
qed

section \<open>The code computes the specification\<close>

lemma ceil_div_Some:
  assumes "unat n + unat d < 2 ^ 128" "0 < unat d"
  shows "\<exists>r. ceil_div n d = Some r \<and> unat r = (unat n + (unat d - 1)) div unat d"
proof -
  have s: "checked_add n d = Some (n + d)" "unat (n + d) = unat n + unat d"
    using assms(1) by (simp_all add: checked_add_def unat_word_ariths)
  have "1 \<le> n + d" using s(2) assms(2) by (simp add: word_le_nat_alt)
  moreover have "d \<noteq> 0" using assms(2) by auto
  ultimately have "ceil_div n d = Some ((n + d - 1) div d)"
    using s(1) by (simp add: ceil_div_def checked_sub_def checked_div_def)
  moreover have "unat ((n + d - 1) div d) = (unat n + (unat d - 1)) div unat d"
    using s(2) \<open>1 \<le> n + d\<close> assms(2) by (simp add: unat_div unat_sub word_le_nat_alt)
  ultimately show ?thesis by blast
qed

lemma u64_try_from_eq: "u64_try_from x = (if unat x < 2 ^ 64 then Some (of_nat (unat x)) else None)"
  by (simp add: u64_try_from_def)

abbreviation bps :: "TransferFee \<Rightarrow> nat" where
  "bps F \<equiv> unat (tf_transfer_fee_basis_points F)"

abbreviation cap :: "TransferFee \<Rightarrow> nat" where
  "cap F \<equiv> unat (tf_maximum_fee F)"

lemma unat_ONE: "unat ONE_IN_BASIS_POINTS = 10000"
  by (simp add: ONE_IN_BASIS_POINTS_def MAX_FEE_BASIS_POINTS_def)

lemma calculate_fee_eq:
  "calculate_fee F x =
     (if (unat x * bps F + 9999) div 10000 < 2 ^ 64 then Some (of_nat (fee_spec (bps F) (cap F) (unat x)))
      else None)"
proof (cases "tf_transfer_fee_basis_points F = 0 \<or> x = 0")
  case True
  then show ?thesis by (auto simp: calculate_fee_def fee_spec_def)
next
  case False
  let ?b = "ucast (tf_transfer_fee_basis_points F) :: u128" and ?x = "ucast x :: u128"
  have u: "unat ?b = bps F" "unat ?x = unat x" by (simp_all add: unat_ucast_up)
  have lt: "unat x < 2 ^ 64" "bps F < 2 ^ 16"
    using unat_less [of x] unat_less [of "tf_transfer_fee_basis_points F"] by simp_all
  then have "unat x * bps F < 2 ^ 64 * 2 ^ 16" by (intro mult_strict_mono) auto
  then have small: "unat x * bps F < 2 ^ 80" by (simp flip: power_add)
  then obtain n where n: "checked_mul ?x ?b = Some n" "unat n = unat x * bps F"
    using checked_mul_Some_unat [of ?x ?b] u by auto
  obtain r where r: "ceil_div n ONE_IN_BASIS_POINTS = Some r" "unat r = (unat x * bps F + 9999) div 10000"
    using ceil_div_Some [of n ONE_IN_BASIS_POINTS] n(2) small by (auto simp: unat_ONE)
  have "?b \<noteq> 0" using False u(1) by (metis unat_0 unat_eq_zero ucast_0 unat_0_iff)
  moreover have "min (of_nat (unat r)) (tf_maximum_fee F) = (of_nat (fee_spec (bps F) (cap F) (unat x)) :: u64)"
    if "unat r < 2 ^ 64"
    using that r(2) by (intro word_eqI_unat)
      (simp add: unat_min fee_spec_def unat_of_nat_eq min.strict_coboundedI1)
  ultimately show ?thesis
    using False n(1) r by (simp add: calculate_fee_def Let_def u64_try_from_eq)
qed

lemmas fee_eval = calculate_fee_def calculate_pre_fee_amount_def calculate_post_fee_amount_def
  ceil_div_def checked_add_def checked_sub_def checked_mul_def checked_div_def u64_try_from_def
  word_le_nat_alt ONE_IN_BASIS_POINTS_def MAX_FEE_BASIS_POINTS_def Let_def

lemma calculate_fee_Some:
  assumes "tf_transfer_fee_basis_points F \<le> MAX_FEE_BASIS_POINTS"
  shows "\<exists>f. calculate_fee F x = Some f \<and> unat f = fee_spec (bps F) (cap F) (unat x)"
proof -
  have b: "bps F \<le> 10000" using assms by (simp add: word_le_nat_alt MAX_FEE_BASIS_POINTS_def)
  then have "(unat x * bps F + 9999) div 10000 \<le> unat x"
    using ceil_le_iff [of 10000 "unat x * bps F" "unat x"] by simp
  moreover have "unat x < 2 ^ 64" using unat_less [of x] by simp
  ultimately have "(unat x * bps F + 9999) div 10000 < 2 ^ 64" by linarith
  then show ?thesis
    by (auto simp: calculate_fee_eq fee_spec_def unat_of_nat_eq min.strict_coboundedI1)
qed

lemma calculate_pre_fee_amount_eq:
  assumes "tf_transfer_fee_basis_points F \<le> MAX_FEE_BASIS_POINTS"
  shows "calculate_pre_fee_amount F p =
    (let x = pre_spec (bps F) (cap F) (unat p) in if x < 2 ^ 64 then Some (of_nat x) else None)"
proof -
  let ?b = "ucast (tf_transfer_fee_basis_points F) :: u128" and ?p = "ucast p :: u128"
    and ?m = "ucast (tf_maximum_fee F) :: u128"
  have u: "unat ?b = bps F" "unat ?p = unat p" "unat ?m = cap F" by (simp_all add: unat_ucast_up)
  have lt: "unat p < 2 ^ 64" using unat_less [of p] by simp
  have b: "bps F \<le> 10000" using assms by (simp add: word_le_nat_alt MAX_FEE_BASIS_POINTS_def)
  have b0: "?b = 0 \<longleftrightarrow> bps F = 0" and b1: "?b = ONE_IN_BASIS_POINTS \<longleftrightarrow> bps F = 10000"
    using u(1) unat_ONE by (auto intro: word_eqI_unat simp: unat_eq_zero)
  have p0: "p = 0 \<longleftrightarrow> unat p = 0" by (simp add: unat_eq_zero)
  show ?thesis
  proof (cases "bps F = 0 \<or> unat p = 0 \<or> bps F = 10000")
    case True
    then show ?thesis using lt
      by (auto simp: calculate_pre_fee_amount_def pre_spec_def b0 b1 p0 checked_add_def Let_def)
  next
    case False
    obtain n where n: "checked_mul ?p ONE_IN_BASIS_POINTS = Some n" "unat n = unat p * 10000"
      using checked_mul_Some_unat [of ?p ONE_IN_BASIS_POINTS] u(2) lt by (auto simp: unat_ONE)
    have d: "checked_sub ONE_IN_BASIS_POINTS ?b = Some (ONE_IN_BASIS_POINTS - ?b)"
      "unat (ONE_IN_BASIS_POINTS - ?b) = 10000 - bps F"
      using b u(1) unat_ONE by (simp_all add: checked_sub_def word_le_nat_alt unat_sub)
    have "unat n + unat (ONE_IN_BASIS_POINTS - ?b) < 2 ^ 128" "0 < unat (ONE_IN_BASIS_POINTS - ?b)"
      using n(2) d(2) lt b False by simp_all
    from ceil_div_Some [OF this] obtain r where r: "ceil_div n (ONE_IN_BASIS_POINTS - ?b) = Some r"
      "unat r = (unat p * 10000 + (10000 - bps F - 1)) div (10000 - bps F)"
      unfolding n(2) d(2) by blast
    have pr: "unat p \<le> unat r"
    proof -
      have "(unat p - 1) * (10000 - bps F) \<le> (unat p - 1) * 10000" by (rule mult_le_mono2) simp
      also have "\<dots> < unat p * 10000" using False by simp
      finally have "\<not> unat r \<le> unat p - 1"
        using ceil_le_iff [of "10000 - bps F" "unat p * 10000" "unat p - 1"] False b
        unfolding r(2) by (simp add: not_le)
      then show ?thesis by simp
    qed
    then have s: "checked_sub r ?p = Some (r - ?p)" "unat (r - ?p) = unat r - unat p"
      using u(2) by (simp_all add: checked_sub_def word_le_nat_alt unat_sub)
    have "pre_spec (bps F) (cap F) (unat p) = min (unat r) (unat p + cap F)"
      using False r(2) by (simp add: pre_spec_def)
    moreover have "?m \<le> r - ?p \<longleftrightarrow> unat p + cap F \<le> unat r"
      using s(2) u(3) pr by (auto simp: word_le_nat_alt)
    ultimately show ?thesis
      using False n(1) d(1) r(1) s(1)
      by (auto simp: calculate_pre_fee_amount_def b0 b1 p0 Let_def checked_add_def u64_try_from_eq
          min_def)
  qed
qed

lemma calculate_post_fee_amount_eq:
  assumes "tf_transfer_fee_basis_points F \<le> MAX_FEE_BASIS_POINTS"
  shows "calculate_post_fee_amount F x = Some (of_nat (post_spec (bps F) (cap F) (unat x)))"
proof -
  obtain f where f: "calculate_fee F x = Some f" "unat f = fee_spec (bps F) (cap F) (unat x)"
    using calculate_fee_Some [OF assms] by blast
  have "bps F \<le> 10000" using assms by (simp add: word_le_nat_alt MAX_FEE_BASIS_POINTS_def)
  then have "f \<le> x" using f(2) fee_spec_le by (simp add: word_le_nat_alt)
  moreover have "x - f = of_nat (unat x - unat f)"
    using \<open>f \<le> x\<close> by (simp add: of_nat_diff word_le_nat_alt)
  ultimately show ?thesis
    using f by (simp add: calculate_post_fee_amount_def checked_sub_def post_spec_def)
qed

section \<open>Properties\<close>

text \<open>
  C5: with a rate of at most 100 percent, which is what the program lets into a mint, the
  fee of every amount is computed without overflow; it is the amount times the rate rounded up,
  capped at the maximum fee, so it never exceeds the amount or the maximum.
\<close>

theorem calculate_fee_correct:
  assumes "tf_transfer_fee_basis_points F \<le> MAX_FEE_BASIS_POINTS"
  shows "\<exists>f. calculate_fee F x = Some f \<and> f \<le> x \<and> f \<le> tf_maximum_fee F \<and>
    unat f = min ((unat x * unat (tf_transfer_fee_basis_points F) + 9999) div 10000)
      (unat (tf_maximum_fee F))"
proof -
  have "bps F \<le> 10000" using assms by (simp add: word_le_nat_alt MAX_FEE_BASIS_POINTS_def)
  then show ?thesis
    using calculate_fee_Some [OF assms, of x] fee_spec_le [of "bps F" "cap F" "unat x"]
    by (auto simp: word_le_nat_alt fee_spec_def)
qed

theorem calculate_fee_correct_witness:
  "\<exists>f. calculate_fee \<lparr>tf_epoch = 0, tf_maximum_fee = 5000, tf_transfer_fee_basis_points = 1\<rparr> 10001 = Some f
     \<and> unat f = 2"
  using calculate_fee_correct
    [of "\<lparr>tf_epoch = 0, tf_maximum_fee = 5000, tf_transfer_fee_basis_points = 1\<rparr>" 10001]
  by (auto simp: MAX_FEE_BASIS_POINTS_def)

text \<open>
  C6: the amount computed for a given net amount is exactly the least amount whose
  post-fee amount is the net amount, and it is missing only if no 64-bit amount has that net amount.
\<close>

theorem calculate_pre_fee_amount_least:
  assumes "tf_transfer_fee_basis_points F \<le> MAX_FEE_BASIS_POINTS"
  shows "calculate_pre_fee_amount F p = Some x \<longleftrightarrow>
    calculate_post_fee_amount F x = Some p \<and>
    (\<forall>y. calculate_post_fee_amount F y = Some p \<longrightarrow> x \<le> y)" (is "?L \<longleftrightarrow> ?R")
proof -
  let ?post = "post_spec (bps F) (cap F)" and ?pre = "pre_spec (bps F) (cap F)"
  have b: "bps F \<le> 10000" using assms by (simp add: word_le_nat_alt MAX_FEE_BASIS_POINTS_def)
  have post: "calculate_post_fee_amount F y = Some p \<longleftrightarrow> ?post (unat y) = unat p" for y
  proof -
    have "?post (unat y) < 2 ^ 64" using unat_less [of y] by (simp add: post_spec_def less_imp_diff_less)
    then show ?thesis
      using word_eq_of_nat_iff [of "?post (unat y)" p] calculate_post_fee_amount_eq [OF assms, of y]
      by auto
  qed
  have pre: "?L \<longleftrightarrow> ?pre (unat p) = unat x"
  proof (cases "?pre (unat p) < 2 ^ 64")
    case True
    then show ?thesis
      by (auto simp: calculate_pre_fee_amount_eq [OF assms] Let_def unat_of_nat_eq)
  next
    case False
    then have "?pre (unat p) \<noteq> unat x" using unat_less [of x] by auto
    then show ?thesis using False by (simp add: calculate_pre_fee_amount_eq [OF assms] Let_def)
  qed
  have least: "?pre (unat p) \<le> unat y" if "?post (unat y) = unat p" for y :: u64
    using pre_post_galois [OF b] that by simp
  show ?thesis
  proof
    assume ?L
    then have x: "unat x = ?pre (unat p)" using pre by simp
    have "calculate_post_fee_amount F x = Some p" by (simp add: post x post_pre [OF b])
    moreover have "x \<le> y" if "calculate_post_fee_amount F y = Some p" for y
      using least [of y] that by (simp add: word_le_nat_alt post x)
    ultimately show ?R by blast
  next
    assume r: ?R
    then have le: "?pre (unat p) \<le> unat x" using post least by blast
    have "?pre (unat p) < 2 ^ 64" using le unat_less [of x] by simp
    then have "unat (of_nat (?pre (unat p)) :: u64) = ?pre (unat p)" by (simp add: unat_of_nat_eq)
    moreover from this have "calculate_post_fee_amount F (of_nat (?pre (unat p))) = Some p"
      by (simp add: post post_pre [OF b])
    ultimately have "x \<le> of_nat (?pre (unat p))" "unat (of_nat (?pre (unat p)) :: u64) = ?pre (unat p)"
      using r by blast+
    then have "unat x \<le> ?pre (unat p)" by (simp add: word_le_nat_alt)
    with le show ?L by (simp add: pre)
  qed
qed

theorem calculate_pre_fee_amount_least_witness:
  "calculate_post_fee_amount
     \<lparr>tf_epoch = 0, tf_maximum_fee = 1000, tf_transfer_fee_basis_points = 1000\<rparr> 10 = Some 9"
proof -
  let ?F = "\<lparr>tf_epoch = 0, tf_maximum_fee = 1000, tf_transfer_fee_basis_points = 1000\<rparr>"
  have "calculate_pre_fee_amount ?F 9 = Some 10" by (simp add: fee_eval)
  then show ?thesis
    using calculate_pre_fee_amount_least [of ?F 9 10] by (simp add: MAX_FEE_BASIS_POINTS_def)
qed

text \<open>
  The relation the documentation states between the two directions.  Charging the
  amount that arrives with the inverse fee never gives more than the fee that was taken, and the
  inverse fee is always defined there.
\<close>

theorem calculate_inverse_fee_le:
  assumes "tf_transfer_fee_basis_points F \<le> MAX_FEE_BASIS_POINTS" "calculate_fee F x = Some f"
  shows "\<exists>g. calculate_inverse_fee F (x - f) = Some g \<and> g \<le> f"
proof -
  let ?p = "post_spec (bps F) (cap F) (unat x)" and ?pre = "pre_spec (bps F) (cap F)"
  have b: "bps F \<le> 10000" using assms(1) by (simp add: word_le_nat_alt MAX_FEE_BASIS_POINTS_def)
  have f: "unat f = fee_spec (bps F) (cap F) (unat x)" using calculate_fee_Some [OF assms(1), of x] assms(2) by simp
  then have p: "unat (x - f) = ?p"
    using fee_spec_le [OF b] by (simp add: unat_sub word_le_nat_alt post_spec_def)
  have le: "?pre ?p \<le> unat x" using pre_post_galois [OF b] by simp
  then have lt: "?pre ?p < 2 ^ 64" using unat_less [of x] by simp
  then have pre: "calculate_pre_fee_amount F (x - f) = Some (of_nat (?pre ?p))"
    using p by (simp add: calculate_pre_fee_amount_eq [OF assms(1)])
  obtain g where g: "calculate_fee F (of_nat (?pre ?p)) = Some g"
    "unat g = fee_spec (bps F) (cap F) (?pre ?p)"
    using calculate_fee_Some [OF assms(1), of "of_nat (?pre ?p)"] lt by (auto simp: unat_of_nat_eq)
  then have "g \<le> f" using f fee_spec_mono [OF le] by (simp add: word_le_nat_alt)
  then show ?thesis using pre g(1) by (simp add: calculate_inverse_fee_def)
qed

theorem calculate_inverse_fee_le_witness:
  "\<exists>g. calculate_inverse_fee
     \<lparr>tf_epoch = 0, tf_maximum_fee = 1000, tf_transfer_fee_basis_points = 1000\<rparr> (11 - 2) = Some g \<and> g \<le> 2"
  by (rule calculate_inverse_fee_le [of _ 11 2]) (simp_all add: fee_eval)

end
