(* ===== verification/Ledger.thy ===== *)
theory Ledger
  imports Transfer_Fee
begin

text \<open>
  What an instruction handler works on: the accounts of the ledger, the list of accounts passed to
  the instruction, and the runtime around it.  Two entries of the list with the same key are the
  same account, so the mutable content is a function of the key.  The sysvars, the stack height,
  the previous sibling instruction and calls into other programs are the fields of the environment.
  A handler returns the ledger it leaves, or an error, which discards its changes.  The section on
  owners models \<open>Processor::validate_owner\<close> (src/program/src/processor.rs).
\<close>

section \<open>Accounts and environment\<close>

record account =
  ac_lamports :: u64
  ac_data :: bytes
  ac_owner :: pubkey

type_synonym ledger = "pubkey \<Rightarrow> account"

record AccountInfo =
  ai_key :: pubkey
  ai_is_signer :: bool

record Rent =
  is_exempt :: "u64 \<Rightarrow> nat \<Rightarrow> bool"
  minimum_balance :: "nat \<Rightarrow> u64"

record Clock =
  clk_epoch :: u64
  clk_unix_timestamp :: u64

record Env =
  env_ids :: sdk_ids
  env_rent :: "Rent result"
  env_rent_from_account_info :: "pubkey \<Rightarrow> account \<Rightarrow> Rent result"
  env_clock :: "Clock result"
  env_in_cpi :: bool
  env_sibling :: "pubkey option"
  env_memo_v1_id :: pubkey
  env_memo_v3_id :: pubkey
  env_invoke_execute :: "pubkey \<Rightarrow> AccountInfo list \<Rightarrow> u64 \<Rightarrow> ledger \<Rightarrow> ledger result"
  env_system_transfer :: "AccountInfo \<Rightarrow> AccountInfo \<Rightarrow> u64 \<Rightarrow> ledger \<Rightarrow> ledger result"

definition token_program_id :: pubkey where
  "token_program_id = 0xfc8ba1d828f9bdfe270db9834dfc1ab6dacd6ce4bc5d4218de8f75eee1f6dd06"

definition inline_spl_token_id :: pubkey where
  "inline_spl_token_id = 0xa900ff7e85f58c3a91375b5fed85b41cac79ebce46e1cbd993a165d7e1f6dd06"

definition native_mint_id :: pubkey where
  "native_mint_id = 0x5e5b3e5cd849dfc919fa90ad4a26bbc68a1ee976a4047caab8e65fde9ffc0d83"

definition check_program_account :: "pubkey \<Rightarrow> unit result" where
  "check_program_account k = (if k \<noteq> token_program_id then Err IncorrectProgramId else Ok ())"

definition check_spl_token_program_account :: "pubkey \<Rightarrow> unit result" where
  "check_spl_token_program_account k =
     (if k \<noteq> token_program_id \<and> k \<noteq> inline_spl_token_id then Err IncorrectProgramId else Ok ())"

definition cmp_pubkeys :: "pubkey \<Rightarrow> pubkey \<Rightarrow> bool" where
  "cmp_pubkeys a b = (a = b)"

definition next_account_info :: "AccountInfo list \<Rightarrow> (AccountInfo \<times> AccountInfo list) result" where
  "next_account_info iter = (case iter of [] \<Rightarrow> Err NotEnoughAccountKeys | a # rest \<Rightarrow> Ok (a, rest))"

definition set_data :: "pubkey \<Rightarrow> bytes \<Rightarrow> ledger \<Rightarrow> ledger" where
  "set_data k d L = L(k := (L k)\<lparr>ac_data := d\<rparr>)"

definition set_lamports :: "pubkey \<Rightarrow> u64 \<Rightarrow> ledger \<Rightarrow> ledger" where
  "set_lamports k v L = L(k := (L k)\<lparr>ac_lamports := v\<rparr>)"

definition data_len :: "ledger \<Rightarrow> AccountInfo \<Rightarrow> nat" where
  "data_len L a = length (ac_data (L (ai_key a)))"

definition get_rent :: "Env \<Rightarrow> bool \<Rightarrow> ledger \<Rightarrow> AccountInfo list \<Rightarrow> (Rent \<times> AccountInfo list) result" where
  "get_rent env rent_sysvar_account L iter =
     (if rent_sysvar_account
      then and_then (next_account_info iter) (\<lambda>(a, iter).
           and_then (env_rent_from_account_info env (ai_key a) (L (ai_key a))) (\<lambda>rent. Ok (rent, iter)))
      else and_then (env_rent env) (\<lambda>rent. Ok (rent, iter)))"

definition check_previous_sibling_instruction_is_memo :: "Env \<Rightarrow> unit result" where
  "check_previous_sibling_instruction_is_memo env =
     (case env_sibling env of
        Some program_id \<Rightarrow>
          if program_id = env_memo_v3_id env \<or> program_id = env_memo_v1_id env then Ok ()
          else TErr NoMemo
      | None \<Rightarrow> TErr NoMemo)"

lemma set_data_simps [simp]:
  "set_data k d L k = (L k)\<lparr>ac_data := d\<rparr>" "k' \<noteq> k \<Longrightarrow> set_data k d L k' = L k'"
  "ac_lamports (set_data k d L k') = ac_lamports (L k')" "ac_owner (set_data k d L k') = ac_owner (L k')"
  by (simp_all add: set_data_def)

lemma set_lamports_simps [simp]:
  "set_lamports k v L k = (L k)\<lparr>ac_lamports := v\<rparr>" "k' \<noteq> k \<Longrightarrow> set_lamports k v L k' = L k'"
  "ac_data (set_lamports k v L k') = ac_data (L k')" "ac_owner (set_lamports k v L k') = ac_owner (L k')"
  by (simp_all add: set_lamports_def)

lemma next_account_info_Ok [res_simps]:
  "next_account_info iter = Ok (a, rest) \<longleftrightarrow> iter = a # rest"
  by (auto simp: next_account_info_def split: list.splits)

lemma next_account_info_Cons [simp]: "next_account_info (a # rest) = Ok (a, rest)"
  by (simp add: next_account_info_def)

lemma check_program_account_Ok [res_simps]: "check_program_account k = Ok u \<longleftrightarrow> k = token_program_id"
  by (simp add: check_program_account_def)

section \<open>Borrowing account data\<close>

text \<open>
  Data of an account that is borrowed mutably under another name: \<open>try_borrow_data\<close> returns an
  error, \<open>data.borrow()\<close> panics.
\<close>

definition try_borrow_data :: "pubkey \<Rightarrow> ledger \<Rightarrow> AccountInfo \<Rightarrow> bytes result" where
  "try_borrow_data borrowed L info =
     (if ai_key info = borrowed then Err AccountBorrowFailed else Ok (ac_data (L (ai_key info))))"

definition borrow_data :: "pubkey \<Rightarrow> ledger \<Rightarrow> AccountInfo \<Rightarrow> bytes result" where
  "borrow_data borrowed L info =
     (if ai_key info = borrowed then Err Panicked else Ok (ac_data (L (ai_key info))))"

lemma borrow_Ok [res_simps]:
  "try_borrow_data b L info = Ok d \<longleftrightarrow> ai_key info \<noteq> b \<and> d = ac_data (L (ai_key info))"
  "borrow_data b L info = Ok d \<longleftrightarrow> ai_key info \<noteq> b \<and> d = ac_data (L (ai_key info))"
  by (auto simp: try_borrow_data_def borrow_data_def)

section \<open>Writing one extension\<close>

definition modify_extension ::
  "BaseState \<Rightarrow> 'a Extension \<Rightarrow> ('a \<Rightarrow> 'a) \<Rightarrow> bytes \<Rightarrow> bytes result" where
  "modify_extension S E f tlv =
     and_then (get_extension_mut S E tlv) (\<lambda>(v, _). Ok (set_extension S E (f v) tlv))"

definition check_not_paused :: "bytes \<Rightarrow> unit result" where
  "check_not_paused mint_tlv =
     (case get_extension MintBase PausableConfigX mint_tlv of
        Ok e \<Rightarrow> if pod_bool (pc_paused e) then TErr MintPaused else Ok ()
      | Err _ \<Rightarrow> Ok ())"

lemma ext_type_simps [simp]:
  "EXT_TYPE MintCloseAuthorityX = ExtensionType.MintCloseAuthority"
  "EXT_TYPE PermanentDelegateX = ExtensionType.PermanentDelegate"
  "EXT_TYPE CpiGuardX = ExtensionType.CpiGuard"
  "EXT_TYPE MemoTransferX = ExtensionType.MemoTransfer"
  "EXT_TYPE DefaultAccountStateX = ExtensionType.DefaultAccountState"
  "EXT_TYPE TransferHookX = ExtensionType.TransferHook"
  "EXT_TYPE TransferHookAccountX = ExtensionType.TransferHookAccount"
  "EXT_TYPE MetadataPointerX = ExtensionType.MetadataPointer"
  "EXT_TYPE GroupPointerX = ExtensionType.GroupPointer"
  "EXT_TYPE GroupMemberPointerX = ExtensionType.GroupMemberPointer"
  "EXT_TYPE InterestBearingConfigX = ExtensionType.InterestBearingConfig"
  "EXT_TYPE ConfidentialTransferMintX = ExtensionType.ConfidentialTransferMint"
  "EXT_TYPE ConfidentialTransferAccountX = ExtensionType.ConfidentialTransferAccount"
  "EXT_TYPE ConfidentialTransferFeeConfigX = ExtensionType.ConfidentialTransferFeeConfig"
  "EXT_TYPE ConfidentialTransferFeeAmountX = ExtensionType.ConfidentialTransferFeeAmount"
  "EXT_TYPE ConfidentialMintBurnX = ExtensionType.ConfidentialMintBurn"
  "EXT_TYPE ImmutableOwnerX = ExtensionType.ImmutableOwner"
  "EXT_TYPE NonTransferableX = ExtensionType.NonTransferable"
  "EXT_TYPE NonTransferableAccountX = ExtensionType.NonTransferableAccount"
  "EXT_TYPE PausableAccountX = ExtensionType.PausableAccount"
  "EXT_TYPE TransferFeeConfigX = ExtensionType.TransferFeeConfig"
  "EXT_TYPE TransferFeeAmountX = ExtensionType.TransferFeeAmount"
  "EXT_TYPE PausableConfigX = ExtensionType.Pausable"
  "EXT_TYPE ScaledUiAmountConfigX = ExtensionType.ScaledUiAmount"
  by (simp_all add: ext_defs TransferFeeConfigX_def TransferFeeAmountX_def)

lemma get_extension_mut_eq:
  "get_extension S E tlv = and_then (get_extension_mut S E tlv) (\<lambda>(v, _). Ok v)"
  by (auto simp: get_extension_def get_extension_mut_def get_extension_bytes_def
      get_extension_bytes_mut_def and_then_def Let_def split: sum.splits)

lemma get_extension_mut_Ok_get: "get_extension_mut S E tlv = Ok (v, i) \<Longrightarrow> get_extension S E tlv = Ok v"
  by (simp add: get_extension_mut_eq)

context extension
begin

lemma modify_extension_Ok:
  assumes "modify_extension S E f tlv = Ok tlv'"
  shows "\<exists>v. get_extension S E tlv = Ok v \<and> get_extension S E tlv' = Ok (f v)"
    and "length tlv' = length tlv" "get_extension_types tlv' = get_extension_types tlv"
  using assms get_set_same
  by (auto simp: modify_extension_def res_simps types_set_extension dest!: get_extension_mut_Ok_get)

lemma modify_extension_other:
  assumes "modify_extension S E f tlv = Ok tlv'" "EXT_TYPE F \<noteq> EXT_TYPE E"
  shows "get_extension S' F tlv' = get_extension S' F tlv"
  using assms by (auto simp: modify_extension_def res_simps get_set_other)

end

section \<open>Owners\<close>

definition multisig_from_bytes :: "bytes \<Rightarrow> PodMultisig result" where
  "multisig_from_bytes bs = (if length bs = MULTISIG_LEN then Ok (dec_multisig bs) else Err PodCast)"

text \<open>The inner loop: the positions of the owner list against one signer.\<close>

fun match_signer ::
  "AccountInfo \<Rightarrow> nat \<Rightarrow> pubkey list \<Rightarrow> bool list \<times> u8 \<Rightarrow> (bool list \<times> u8) result" where
  "match_signer signer position [] st = Ok st"
| "match_signer signer position (key # keys) (matched, num_signers) =
     (if key = ai_key signer \<and> \<not> matched ! position
      then if \<not> ai_is_signer signer then Err MissingRequiredSignature
           else match_signer signer (position + 1) keys (matched[position := True], num_signers + 1)
      else match_signer signer (position + 1) keys (matched, num_signers))"

fun match_signers :: "PodMultisig \<Rightarrow> AccountInfo list \<Rightarrow> bool list \<times> u8 \<Rightarrow> (bool list \<times> u8) result" where
  "match_signers ms [] st = Ok st"
| "match_signers ms (signer # signers) st =
     (if unat (ms_n ms) > MAX_SIGNERS then Err Panicked
      else and_then (match_signer signer 0 (take (unat (ms_n ms)) (ms_signers ms)) st)
             (match_signers ms signers))"

definition validate_owner ::
  "pubkey \<Rightarrow> ledger \<Rightarrow> pubkey \<Rightarrow> AccountInfo \<Rightarrow> nat \<Rightarrow> AccountInfo list \<Rightarrow> unit result" where
  "validate_owner program_id L expected_owner owner_account_info owner_account_data_len signers =
     (let own = L (ai_key owner_account_info)
      in if expected_owner \<noteq> ai_key owner_account_info then TErr OwnerMismatch
         else if program_id = ac_owner own \<and> owner_account_data_len = MULTISIG_LEN
         then and_then (multisig_from_bytes (ac_data own)) (\<lambda>ms.
              and_then (match_signers ms signers (replicate MAX_SIGNERS False, 0)) (\<lambda>(_, num_signers).
              if num_signers < ms_m ms then Err MissingRequiredSignature else Ok ()))
         else if \<not> ai_is_signer owner_account_info then Err MissingRequiredSignature
         else Ok ())"

subsection \<open>The loops count the distinct owners that signed\<close>

lemma match_signer_spec:
  "match_signer s (length pre) ks
     (map (\<lambda>k. k \<in> insert (ai_key s) S) pre @ map (\<lambda>k. k \<in> S) ks @ rest,
      of_nat (a + length (filter (\<lambda>k. k \<in> S) ks))) =
   (if ai_key s \<in> set ks \<and> ai_key s \<notin> S \<and> \<not> ai_is_signer s then Err MissingRequiredSignature
    else Ok (map (\<lambda>k. k \<in> insert (ai_key s) S) (pre @ ks) @ rest,
             of_nat (a + length (filter (\<lambda>k. k \<in> insert (ai_key s) S) ks))))"
proof (induction ks arbitrary: pre a)
  case Nil
  then show ?case by simp
next
  case (Cons k ks)
  note IH0 = Cons.IH [of "pre @ [k]" a] and IH1 = Cons.IH [of "pre @ [k]" "Suc a"]
  show ?case
  proof (cases "k \<in> S")
    case True
    with IH1 show ?thesis by (simp add: nth_append algebra_simps)
  next
    case False
    then show ?thesis
    proof (cases "k = ai_key s")
      case True
      with False IH1 show ?thesis by (simp add: nth_append list_update_append algebra_simps)
    next
      case neq: False
      with False IH0 show ?thesis by (simp add: nth_append)
    qed
  qed
qed

text \<open>The first account with an owner's key must have signed; later ones are not looked at.\<close>

definition signers_ok :: "pubkey set \<Rightarrow> pubkey list \<Rightarrow> AccountInfo list \<Rightarrow> bool" where
  "signers_ok S keys sigs \<longleftrightarrow>
     (\<forall>k\<in>set keys. k \<in> S \<or>
        (case find (\<lambda>s. ai_key s = k) sigs of None \<Rightarrow> True | Some s \<Rightarrow> ai_is_signer s))"

lemma signers_ok_Cons:
  "signers_ok S keys (s # sigs) \<longleftrightarrow>
     (ai_key s \<in> set keys \<longrightarrow> ai_key s \<in> S \<or> ai_is_signer s) \<and> signers_ok (insert (ai_key s) S) keys sigs"
  by (auto simp: signers_ok_def)

lemma match_signers_spec:
  assumes "unat (ms_n ms) \<le> MAX_SIGNERS" "keys = take (unat (ms_n ms)) (ms_signers ms)"
  shows "match_signers ms sigs
     (map (\<lambda>k. k \<in> S) keys @ rest, of_nat (length (filter (\<lambda>k. k \<in> S) keys))) =
   (if signers_ok S keys sigs
    then Ok (map (\<lambda>k. k \<in> S \<union> ai_key ` set sigs) keys @ rest,
             of_nat (length (filter (\<lambda>k. k \<in> S \<union> ai_key ` set sigs) keys)))
    else Err MissingRequiredSignature)"
proof (induction sigs arbitrary: S)
  case Nil
  then show ?case by (auto simp: signers_ok_def)
next
  case (Cons s sigs)
  have "match_signer s 0 keys (map (\<lambda>k. k \<in> S) keys @ rest, of_nat (length (filter (\<lambda>k. k \<in> S) keys))) =
    (if ai_key s \<in> set keys \<and> ai_key s \<notin> S \<and> \<not> ai_is_signer s then Err MissingRequiredSignature
     else Ok (map (\<lambda>k. k \<in> insert (ai_key s) S) keys @ rest,
              of_nat (length (filter (\<lambda>k. k \<in> insert (ai_key s) S) keys))))"
    using match_signer_spec [of s "[]" keys S rest 0] by simp
  moreover have "insert (ai_key s) S \<union> ai_key ` set sigs = S \<union> ai_key ` set (s # sigs)" by auto
  ultimately show ?case
    using Cons.IH [of "insert (ai_key s) S"] assms by (simp add: signers_ok_Cons)
qed

definition owner_keys :: "PodMultisig \<Rightarrow> pubkey list" where
  "owner_keys ms = take (unat (ms_n ms)) (ms_signers ms)"

definition signed_count :: "PodMultisig \<Rightarrow> AccountInfo list \<Rightarrow> nat" where
  "signed_count ms sigs = length (filter (\<lambda>k. k \<in> ai_key ` set sigs) (owner_keys ms))"

lemma length_signers_dec [simp]: "length (ms_signers (dec_multisig bs)) = MAX_SIGNERS"
  by (simp add: dec_multisig_def)

lemma signed_count_le: "signed_count (dec_multisig bs) sigs \<le> MAX_SIGNERS"
  unfolding signed_count_def owner_keys_def
  by (rule order_trans [OF length_filter_le]) simp

lemma match_signers_dec:
  fixes bs :: bytes
  defines "ms \<equiv> dec_multisig bs"
  assumes "sigs = [] \<or> unat (ms_n ms) \<le> MAX_SIGNERS"
  shows "\<exists>M. match_signers ms sigs (replicate MAX_SIGNERS False, 0) =
    (if signers_ok {} (owner_keys ms) sigs then Ok (M, of_nat (signed_count ms sigs))
     else Err MissingRequiredSignature)"
proof (cases "sigs = []")
  case True
  then show ?thesis by (auto simp: signers_ok_def signed_count_def)
next
  case False
  with assms(2) have n: "unat (ms_n ms) \<le> MAX_SIGNERS" by simp
  let ?r = "replicate (MAX_SIGNERS - unat (ms_n ms)) False"
  have "replicate MAX_SIGNERS False = map (\<lambda>k. k \<in> {}) (owner_keys ms) @ ?r"
    using n by (auto simp: owner_keys_def ms_def map_replicate_const simp flip: replicate_add)
  then show ?thesis
    using match_signers_spec [OF n, of "owner_keys ms" sigs "{}" ?r]
    by (auto simp: owner_keys_def signed_count_def)
qed

text \<open>What \<open>validate_owner\<close> accepts, for the length the callers pass.\<close>

definition owner_signed ::
  "pubkey \<Rightarrow> ledger \<Rightarrow> AccountInfo \<Rightarrow> AccountInfo list \<Rightarrow> bool" where
  "owner_signed program_id L info signers \<longleftrightarrow>
     (let own = L (ai_key info); ms = dec_multisig (ac_data own)
      in if program_id = ac_owner own \<and> length (ac_data own) = MULTISIG_LEN
         then (signers = [] \<or> unat (ms_n ms) \<le> MAX_SIGNERS) \<and>
              signers_ok {} (owner_keys ms) signers \<and> unat (ms_m ms) \<le> signed_count ms signers
         else ai_is_signer info)"

lemma match_signers_panic: "sigs \<noteq> [] \<Longrightarrow> unat (ms_n ms) > MAX_SIGNERS \<Longrightarrow> match_signers ms sigs st = Err Panicked"
  by (cases sigs) simp_all

lemma validate_owner_Ok [res_simps]:
  "validate_owner program_id L expected info (data_len L info) signers = Ok u \<longleftrightarrow>
     expected = ai_key info \<and> owner_signed program_id L info signers"
proof (cases "program_id = ac_owner (L (ai_key info)) \<and> length (ac_data (L (ai_key info))) = MULTISIG_LEN")
  case False
  then show ?thesis
    by (auto simp: validate_owner_def owner_signed_def data_len_def Let_def)
next
  case multi: True
  let ?ms = "dec_multisig (ac_data (L (ai_key info)))"
  have c: "(of_nat (signed_count ?ms signers) :: u8) < ms_m ?ms \<longleftrightarrow> signed_count ?ms signers < unat (ms_m ?ms)"
    using signed_count_le [of "ac_data (L (ai_key info))" signers]
    by (simp add: word_less_nat_alt unat_of_nat_eq MAX_SIGNERS_def)
  show ?thesis
  proof (cases "signers = [] \<or> unat (ms_n ?ms) \<le> MAX_SIGNERS")
    case True
    then obtain M where "match_signers ?ms signers (replicate MAX_SIGNERS False, 0) =
      (if signers_ok {} (owner_keys ?ms) signers then Ok (M, of_nat (signed_count ?ms signers))
       else Err MissingRequiredSignature)"
      using match_signers_dec [of signers "ac_data (L (ai_key info))"] by auto
    with multi True c show ?thesis
      by (auto simp: validate_owner_def owner_signed_def data_len_def Let_def multisig_from_bytes_def)
  next
    case False
    then have "match_signers ?ms signers (replicate MAX_SIGNERS False, 0) = Err Panicked"
      by (intro match_signers_panic) auto
    with multi False show ?thesis
      by (auto simp: validate_owner_def owner_signed_def data_len_def Let_def multisig_from_bytes_def)
  qed
qed

section \<open>What accounts hold\<close>

abbreviation token_account :: "bytes \<Rightarrow> PodAccount PodStateWithExtensionsMut result" where
  "token_account \<equiv> unpack_mut PodAccountB"

definition withheld :: "bytes \<Rightarrow> nat" where
  "withheld tlv = (case get_extension AccountBase TransferFeeAmountX tlv of
     Ok e \<Rightarrow> unat (tfa_withheld_amount e) | Err _ \<Rightarrow> 0)"

text \<open>The tokens of a state: its balance and the fees withheld on it.\<close>

definition state_holdings :: "PodAccount PodStateWithExtensionsMut \<Rightarrow> nat" where
  "state_holdings st = unat (a_amount (base st)) + withheld (tlv_data st)"

definition holdings :: "pubkey \<Rightarrow> bytes \<Rightarrow> nat" where
  "holdings mint d = (case token_account d of
     Ok st \<Rightarrow> if a_mint (base st) = mint then state_holdings st else 0 | Err _ \<Rightarrow> 0)"

definition total_holdings :: "pubkey \<Rightarrow> pubkey set \<Rightarrow> ledger \<Rightarrow> nat" where
  "total_holdings mint A L = (\<Sum>k\<in>A. holdings mint (ac_data (L k)))"

text \<open>Writing a state back and reading the account again.\<close>

lemma token_account_write:
  assumes "token_account d = Ok st" "account_is_initialized (base st')"
    "account_type st' = account_type st" "length (tlv_data st') = length (tlv_data st)"
  shows "token_account (pack_state PodAccountB st') = Ok st'"
    "length (pack_state PodAccountB st') = length d"
  using account_base.unpack_pack_state [OF assms(1) _ assms(3,4)] assms(2) by simp_all

lemma token_account_pack: "token_account d = Ok st \<Longrightarrow> pack_state PodAccountB st = d"
  unfolding account_base.unpack_mut_Ok by simp

lemma token_account_initialized: "token_account d = Ok st \<Longrightarrow> account_is_initialized (base st)"
  unfolding account_base.unpack_mut_Ok by simp

lemma account_is_initialized_upd [simp]:
  "account_is_initialized (b\<lparr>a_amount := x\<rparr>) = account_is_initialized b"
  "account_is_initialized (b\<lparr>a_delegate := y\<rparr>) = account_is_initialized b"
  "account_is_initialized (b\<lparr>a_delegated_amount := x\<rparr>) = account_is_initialized b"
  "account_is_initialized (b\<lparr>a_owner := k\<rparr>) = account_is_initialized b"
  "account_is_initialized (b\<lparr>a_close_authority := y\<rparr>) = account_is_initialized b"
  by (simp_all add: account_is_initialized_def)

lemma total_holdings_move:
  assumes "finite A" "s \<in> A" "d \<in> A" "s \<noteq> d"
    and "\<And>k. k \<in> A \<Longrightarrow> k \<noteq> s \<Longrightarrow> k \<noteq> d \<Longrightarrow> ac_data (L' k) = ac_data (L k)"
    and "holdings m (ac_data (L' s)) + holdings m (ac_data (L' d)) =
         holdings m (ac_data (L s)) + holdings m (ac_data (L d))"
  shows "total_holdings m A L' = total_holdings m A L"
proof -
  have split: "(\<Sum>k\<in>A. f k) = f s + (f d + (\<Sum>k\<in>A - {s, d}. f k))" for f :: "pubkey \<Rightarrow> nat"
    using assms(1-4) sum.remove [of A s f] sum.remove [of "A - {s}" d f]
    by (simp add: Diff_insert [of A d "{s}", symmetric] insert_commute)
  show ?thesis unfolding total_holdings_def split using assms(5,6) by (auto intro!: sum.cong)
qed

section \<open>Properties of owner validation\<close>

text \<open>
  C4: an authority is accepted exactly if it is the expected owner and signed; for a multisignature
  account of the program this means that the first account passed for each owner key is a signer
  and that at least \<open>m\<close> of the \<open>n\<close> owner keys are among the passed accounts.  The two loops with
  their matched flags and 8-bit counter compute this.
\<close>

theorem validate_owner_correct:
  "validate_owner program_id L expected info (data_len L info) signers = Ok () \<longleftrightarrow>
     expected = ai_key info \<and>
     (let own = L (ai_key info); ms = dec_multisig (ac_data own); keys = take (unat (ms_n ms)) (ms_signers ms)
      in if program_id = ac_owner own \<and> length (ac_data own) = MULTISIG_LEN
         then (signers = [] \<or> unat (ms_n ms) \<le> MAX_SIGNERS) \<and> signers_ok {} keys signers \<and>
              unat (ms_m ms) \<le> length (filter (\<lambda>k. k \<in> ai_key ` set signers) keys)
         else ai_is_signer info)"
  by (simp add: validate_owner_Ok owner_signed_def signed_count_def owner_keys_def Let_def)

lemma find_signed:
  assumes "signers_ok {} keys signers" "k \<in> set keys" "k \<in> ai_key ` set signers"
  shows "\<exists>s\<in>set signers. ai_key s = k \<and> ai_is_signer s"
proof -
  obtain s where s: "find (\<lambda>s. ai_key s = k) signers = Some s"
    using assms(3) by (cases "find (\<lambda>s. ai_key s = k) signers") (auto simp: find_None_iff)
  then have "s \<in> set signers" "ai_key s = k" by (auto simp: find_Some_iff)
  moreover have "ai_is_signer s" using assms(1,2) s by (auto simp: signers_ok_def)
  ultimately show ?thesis by blast
qed

text \<open>
  Nobody passes as a multisignature owner without the signatures: at least \<open>m\<close> positions
  of the owner list hold keys of accounts that signed the transaction.
\<close>

theorem multisig_needs_signatures:
  assumes "validate_owner program_id L expected info (data_len L info) signers = Ok ()"
    and "ac_owner (L (ai_key info)) = program_id" "length (ac_data (L (ai_key info))) = MULTISIG_LEN"
  shows "let ms = dec_multisig (ac_data (L (ai_key info)))
    in unat (ms_m ms) \<le> length (filter (\<lambda>k. \<exists>s\<in>set signers. ai_key s = k \<and> ai_is_signer s)
         (take (unat (ms_n ms)) (ms_signers ms)))"
proof -
  let ?ms = "dec_multisig (ac_data (L (ai_key info)))"
  have ok: "signers_ok {} (owner_keys ?ms) signers" "unat (ms_m ?ms) \<le> signed_count ?ms signers"
    using assms by (auto simp: validate_owner_Ok owner_signed_def Let_def)
  have "filter (\<lambda>k. k \<in> ai_key ` set signers) (owner_keys ?ms) =
      filter (\<lambda>k. \<exists>s\<in>set signers. ai_key s = k \<and> ai_is_signer s) (owner_keys ?ms)"
    using find_signed [OF ok(1)] by (intro filter_cong) auto
  with ok(2) show ?thesis by (simp add: Let_def signed_count_def owner_keys_def)
qed

definition demo_multisig :: PodMultisig where
  "demo_multisig = \<lparr>ms_m = 2, ms_n = 3, ms_is_initialized = 1, ms_signers = [41, 42, 43, 0, 0, 0, 0, 0, 0, 0, 0]\<rparr>"

definition demo_multisig_ledger :: ledger where
  "demo_multisig_ledger = (\<lambda>_. \<lparr>ac_lamports = 0, ac_data = enc_multisig demo_multisig, ac_owner = token_program_id\<rparr>)"

lemma demo_multisig_dec: "dec_multisig (enc_multisig demo_multisig) = demo_multisig"
  by (rule dec_enc_multisig) (simp add: demo_multisig_def MAX_SIGNERS_def)

lemma demo_multisig_simps:
  "ms_m demo_multisig = 2" "ms_n demo_multisig = 3"
  "ms_signers demo_multisig = [41, 42, 43, 0, 0, 0, 0, 0, 0, 0, 0]"
  by (simp_all add: demo_multisig_def)

lemma demo_multisig_len: "length (enc_multisig demo_multisig) = MULTISIG_LEN"
  by (simp add: enc_multisig_def demo_multisig_def base_lens)

theorem multisig_needs_signatures_witness:
  "2 \<le> length (filter (\<lambda>k. \<exists>s\<in>{\<lparr>ai_key = 43, ai_is_signer = True\<rparr>, \<lparr>ai_key = 41, ai_is_signer = True\<rparr>}.
      ai_key s = k \<and> ai_is_signer s) [41, 42, 43 :: pubkey])"
proof -
  let ?info = "\<lparr>ai_key = 9, ai_is_signer = False\<rparr>"
    and ?signers = "[\<lparr>ai_key = 43, ai_is_signer = True\<rparr>, \<lparr>ai_key = 41, ai_is_signer = True\<rparr>]"
  have "validate_owner token_program_id demo_multisig_ledger 9 ?info (data_len demo_multisig_ledger ?info) ?signers = Ok ()"
    by (simp add: validate_owner_Ok owner_signed_def demo_multisig_ledger_def demo_multisig_dec
        demo_multisig_len signed_count_def owner_keys_def demo_multisig_simps signers_ok_def Let_def MAX_SIGNERS_def)
  from multisig_needs_signatures [OF this] show ?thesis
    by (simp add: demo_multisig_ledger_def demo_multisig_dec demo_multisig_len demo_multisig_simps)
qed

text \<open>
  The initialized flag of a multisignature account is not consulted.  An account of the
  program of that length whose bytes are all zero passes as the owner without any signature.
\<close>

theorem uninitialized_multisig_accepted:
  assumes "ac_owner (L (ai_key info)) = program_id" "ac_data (L (ai_key info)) = replicate MULTISIG_LEN 0"
  shows "validate_owner program_id L (ai_key info) info (data_len L info) [] = Ok () \<and>
    ms_is_initialized (dec_multisig (ac_data (L (ai_key info)))) = 0"
  using assms by (simp add: validate_owner_def data_len_def multisig_from_bytes_def dec_multisig_def
      MULTISIG_LEN_def Let_def)

theorem uninitialized_multisig_accepted_witness:
  "validate_owner 7 (\<lambda>_. \<lparr>ac_lamports = 0, ac_data = replicate MULTISIG_LEN 0, ac_owner = 7\<rparr>) 9
     \<lparr>ai_key = 9, ai_is_signer = False\<rparr>
     (data_len (\<lambda>_. \<lparr>ac_lamports = 0, ac_data = replicate MULTISIG_LEN 0, ac_owner = 7\<rparr>)
        \<lparr>ai_key = 9, ai_is_signer = False\<rparr>) [] = Ok ()"
  using uninitialized_multisig_accepted
    [of "\<lambda>_. \<lparr>ac_lamports = 0, ac_data = replicate MULTISIG_LEN 0, ac_owner = 7\<rparr>"
      "\<lparr>ai_key = 9, ai_is_signer = False\<rparr>" 7] by simp

end
