(* ===== verification/Scenario.thy ===== *)
theory Scenario
  imports Ledger
begin

text \<open>
  A small ledger the properties are applied to: a mint without extensions, two token accounts of
  it, their owner and a mint authority, with an environment in which nothing fails.
\<close>

definition plain_account :: "pubkey \<Rightarrow> pubkey \<Rightarrow> u64 \<Rightarrow> PodAccount" where
  "plain_account mint owner amount =
     \<lparr>a_mint = mint, a_owner = owner, a_amount = amount, a_delegate = coption_none,
      a_state = account_state_code Initialized, a_is_native = coption_none,
      a_delegated_amount = 0, a_close_authority = coption_none\<rparr>"

definition plain_mint :: "pubkey \<Rightarrow> u64 \<Rightarrow> PodMint" where
  "plain_mint authority supply =
     \<lparr>m_mint_authority = coption_some authority, m_supply = supply, m_decimals = 2,
      m_is_initialized = pod_bool_from True, m_freeze_authority = coption_some authority\<rparr>"

definition demo_ledger :: ledger where
  "demo_ledger =
     (\<lambda>_. \<lparr>ac_lamports = 0, ac_data = [], ac_owner = 0\<rparr>)
       (1 := \<lparr>ac_lamports = 10, ac_data = enc_mint (plain_mint 30 150), ac_owner = token_program_id\<rparr>,
        10 := \<lparr>ac_lamports = 10, ac_data = enc_account (plain_account 1 20 100), ac_owner = token_program_id\<rparr>,
        11 := \<lparr>ac_lamports = 10, ac_data = enc_account (plain_account 1 21 50), ac_owner = token_program_id\<rparr>)"

definition demo_env :: Env where
  "demo_env =
     \<lparr>env_ids = \<lparr>system_program_id = 0, incinerator_id = 5\<rparr>,
      env_rent = Ok \<lparr>is_exempt = (\<lambda>l n. True), minimum_balance = (\<lambda>n. 1)\<rparr>,
      env_rent_from_account_info = (\<lambda>_ _. Ok \<lparr>is_exempt = (\<lambda>l n. True), minimum_balance = (\<lambda>n. 1)\<rparr>),
      env_clock = Ok \<lparr>clk_epoch = 3, clk_unix_timestamp = 1000\<rparr>,
      env_in_cpi = False, env_sibling = None, env_memo_v1_id = 6, env_memo_v3_id = 7,
      env_invoke_execute = (\<lambda>_ _ _ L. Ok L), env_system_transfer = (\<lambda>_ _ _ L. Ok L)\<rparr>"

abbreviation signed_key :: "pubkey \<Rightarrow> AccountInfo" where
  "signed_key k \<equiv> \<lparr>ai_key = k, ai_is_signer = True\<rparr>"

abbreviation unsigned_key :: "pubkey \<Rightarrow> AccountInfo" where
  "unsigned_key k \<equiv> \<lparr>ai_key = k, ai_is_signer = False\<rparr>"

lemma plain_state [simp]:
  "account_is_initialized (plain_account m ow x)" "\<not> account_is_frozen (plain_account m ow x)"
  "\<not> account_is_native (plain_account m ow x)" "mint_is_initialized (plain_mint au s)"
  by (simp_all add: plain_account_def plain_mint_def account_is_initialized_def account_is_frozen_def
      account_is_native_def mint_is_initialized_def coption_none_def coption_is_some_def)

lemma token_account_plain [simp]:
  "account_is_initialized a \<Longrightarrow>
     token_account (enc_account a) = Ok \<lparr>base = a, tlv_data = [], account_type = []\<rparr>"
  unfolding account_base.unpack_mut_Ok by (simp add: pack_state_def PodAccountB_def tail_ok_def base_lens)

lemma unpack_mint_plain [simp]:
  "mint_is_initialized m \<Longrightarrow>
     unpack_mut PodMintB (enc_mint m) = Ok \<lparr>base = m, tlv_data = [], account_type = []\<rparr>"
  unfolding mint_base.unpack_mut_Ok by (simp add: pack_state_def PodMintB_def tail_ok_def base_lens)

lemma unpack_mint_plain_ro [simp]:
  "mint_is_initialized m \<Longrightarrow> unpack PodMintB (enc_mint m) = Ok \<lparr>base = m, tlv_data = []\<rparr>"
  by (simp add: unpack_eq)

lemma get_extension_Nil [simp]:
  "get_extension S E [] = Err InvalidAccountData"
  "get_extension_mut S E [] = Err InvalidAccountData"
  by (simp_all add: get_extension_def get_extension_mut_def get_extension_bytes_def
      get_extension_bytes_mut_def get_extension_indices_def get_extension_indices_from.simps)

lemma pack_plain [simp]:
  "pack_state PodAccountB \<lparr>base = a, tlv_data = t, account_type = []\<rparr> = enc_account a"
  "pack_state PodMintB \<lparr>base = m, tlv_data = t, account_type = []\<rparr> = enc_mint m"
  by (simp_all add: pack_state_def PodAccountB_def PodMintB_def)

lemma demo_ledger_simps [simp]:
  "demo_ledger 1 = \<lparr>ac_lamports = 10, ac_data = enc_mint (plain_mint 30 150), ac_owner = token_program_id\<rparr>"
  "demo_ledger 10 = \<lparr>ac_lamports = 10, ac_data = enc_account (plain_account 1 20 100), ac_owner = token_program_id\<rparr>"
  "demo_ledger 11 = \<lparr>ac_lamports = 10, ac_data = enc_account (plain_account 1 21 50), ac_owner = token_program_id\<rparr>"
  "demo_ledger 20 = \<lparr>ac_lamports = 0, ac_data = [], ac_owner = 0\<rparr>"
  "demo_ledger 21 = \<lparr>ac_lamports = 0, ac_data = [], ac_owner = 0\<rparr>"
  "demo_ledger 30 = \<lparr>ac_lamports = 0, ac_data = [], ac_owner = 0\<rparr>"
  by (simp_all add: demo_ledger_def)

lemma owner_signed_plain [simp]:
  "ac_data (L (ai_key i)) = [] \<Longrightarrow> owner_signed p L i rest = ai_is_signer i"
  by (simp add: owner_signed_def Let_def base_lens)

lemma plain_account_simps [simp]:
  "a_mint (plain_account m ow x) = m" "a_owner (plain_account m ow x) = ow"
  "a_amount (plain_account m ow x) = x" "a_delegate (plain_account m ow x) = coption_none"
  "a_delegated_amount (plain_account m ow x) = 0" "a_close_authority (plain_account m ow x) = coption_none"
  "a_is_native (plain_account m ow x) = coption_none"
  by (simp_all add: plain_account_def)

lemma plain_mint_simps [simp]:
  "m_mint_authority (plain_mint au s) = coption_some au" "m_supply (plain_mint au s) = s"
  "m_decimals (plain_mint au s) = 2" "m_freeze_authority (plain_mint au s) = coption_some au"
  by (simp_all add: plain_mint_def)

end
