(* ===== verification/Token_Transfer.thy ===== *)
theory Token_Transfer
  imports Scenario
begin

text \<open>
  Transfers (\<open>Processor::process_transfer\<close> of src/program/src/processor.rs) with the transfer hook
  flags of src/interface/src/extension/transfer_hook/mod.rs.  The handler is split where the code
  has a block: what the mint says, who may move the tokens, moving them, and the call of the hook.
  The source state is the one behind the mutable borrow; it is written back to the ledger where
  the borrow ends.
\<close>

datatype TransferInstruction = Unchecked | Checked u8 | CheckedWithFee u8 u64

section \<open>Hook flags\<close>

definition set_transferring :: "PodAccount PodStateWithExtensionsMut \<Rightarrow> PodAccount PodStateWithExtensionsMut result" where
  "set_transferring st =
     and_then (modify_extension AccountBase TransferHookAccountX
       (\<lambda>e. e\<lparr>tha_transferring := pod_bool_from True\<rparr>) (tlv_data st)) (\<lambda>tlv. Ok (st\<lparr>tlv_data := tlv\<rparr>))"

definition unset_transferring :: "AccountInfo \<Rightarrow> ledger \<Rightarrow> ledger result" where
  "unset_transferring info L =
     and_then (unpack_mut PodAccountB (ac_data (L (ai_key info)))) (\<lambda>st.
     and_then (modify_extension AccountBase TransferHookAccountX
       (\<lambda>e. e\<lparr>tha_transferring := pod_bool_from False\<rparr>) (tlv_data st)) (\<lambda>tlv.
     Ok (set_data (ai_key info) (pack_state PodAccountB (st\<lparr>tlv_data := tlv\<rparr>)) L)))"

section \<open>Transfer\<close>

definition transfer_mint_checks ::
  "Env \<Rightarrow> ledger \<Rightarrow> AccountInfo \<Rightarrow> PodAccount PodStateWithExtensionsMut \<Rightarrow> (AccountInfo \<times> u8) option \<Rightarrow> u64
     \<Rightarrow> (u64 \<times> pubkey option \<times> pubkey option) result" where
  "transfer_mint_checks env L source_account_info source_account expected_mint_info amount =
     (case expected_mint_info of
        Some (mint_info, expected_decimals) \<Rightarrow>
          if a_mint (base source_account) \<noteq> ai_key mint_info then TErr MintMismatch
          else and_then (try_borrow_data (ai_key source_account_info) L mint_info) (\<lambda>mint_data.
               and_then (unpack PodMintB mint_data) (\<lambda>mint.
               if expected_decimals \<noteq> m_decimals (base mint) then TErr MintDecimalsMismatch
               else and_then
                 (case get_extension MintBase TransferFeeConfigX (tlv_data mint) of
                    Ok transfer_fee_config \<Rightarrow>
                      and_then (env_clock env) (\<lambda>clock.
                      ok_or (calculate_epoch_fee transfer_fee_config (clk_epoch clock) amount)
                        (token_error Overflow))
                  | Err _ \<Rightarrow> Ok 0) (\<lambda>fee.
               and_then (check_not_paused (tlv_data mint)) (\<lambda>_.
               Ok (fee, get_permanent_delegate MintBase (tlv_data mint),
                   get_program_id MintBase (tlv_data mint))))))
      | None \<Rightarrow>
          if is_ok (get_extension AccountBase TransferHookAccountX (tlv_data source_account))
          then TErr MintRequiredForTransfer
          else if is_ok (get_extension_mut AccountBase TransferFeeAmountX (tlv_data source_account))
          then TErr MintRequiredForTransfer
          else if is_ok (get_extension AccountBase PausableAccountX (tlv_data source_account))
          then TErr MintRequiredForTransfer
          else Ok (0, None, None))"

text \<open>A delegation that was used up is removed.\<close>

definition set_delegated_amount :: "PodAccount \<Rightarrow> u64 \<Rightarrow> PodAccount" where
  "set_delegated_amount b d =
     (let b = b\<lparr>a_delegated_amount := d\<rparr> in if d = 0 then b\<lparr>a_delegate := coption_none\<rparr> else b)"

definition transfer_authority ::
  "pubkey \<Rightarrow> Env \<Rightarrow> ledger \<Rightarrow> PodAccount PodStateWithExtensionsMut \<Rightarrow> AccountInfo \<Rightarrow> AccountInfo list \<Rightarrow>
     u64 \<Rightarrow> bool \<Rightarrow> pubkey option \<Rightarrow> PodAccount PodStateWithExtensionsMut result" where
  "transfer_authority program_id env L source_account authority_info signers amount self_transfer
       maybe_permanent_delegate =
     (let b = base source_account; len = data_len L authority_info
      in if cpi_guard_enabled (tlv_data source_account) \<and> ai_key authority_info = a_owner b \<and> env_in_cpi env
         then TErr CpiGuardTransferBlocked
         else if maybe_permanent_delegate = Some (ai_key authority_info)
         then and_then (validate_owner program_id L (ai_key authority_info) authority_info len signers)
                (\<lambda>_. Ok source_account)
         else if coption_is_some (a_delegate b) \<and> co_value (a_delegate b) = ai_key authority_info
         then and_then (validate_owner program_id L (co_value (a_delegate b)) authority_info len signers) (\<lambda>_.
              if a_delegated_amount b < amount then TErr InsufficientFunds
              else if self_transfer then Ok source_account
              else and_then (ok_or (checked_sub (a_delegated_amount b) amount) (token_error Overflow))
                (\<lambda>d. Ok (source_account\<lparr>base := set_delegated_amount b d\<rparr>)))
         else and_then (validate_owner program_id L (a_owner b) authority_info len signers)
                (\<lambda>_. Ok source_account))"

text \<open>The fee withheld on the destination, and the lamports that back native tokens.\<close>

definition withhold_fee :: "u64 \<Rightarrow> bytes \<Rightarrow> bytes result" where
  "withhold_fee calculated_fee tlv =
     (if calculated_fee > 0
      then (case get_extension_mut AccountBase TransferFeeAmountX tlv of
              Ok (e, _) \<Rightarrow>
                and_then (ok_or (checked_add (tfa_withheld_amount e) calculated_fee) (token_error Overflow))
                  (\<lambda>new_withheld_amount. Ok (set_extension AccountBase TransferFeeAmountX
                     (e\<lparr>tfa_withheld_amount := new_withheld_amount\<rparr>) tlv))
            | Err _ \<Rightarrow> TErr InvalidState)
      else Ok tlv)"

definition transfer_lamports :: "AccountInfo \<Rightarrow> AccountInfo \<Rightarrow> u64 \<Rightarrow> ledger \<Rightarrow> ledger result" where
  "transfer_lamports source_account_info destination_account_info amount L =
     and_then (ok_or (checked_sub (ac_lamports (L (ai_key source_account_info))) amount)
       (token_error Overflow)) (\<lambda>sl.
     let L1 = set_lamports (ai_key source_account_info) sl L
     in and_then (ok_or (checked_add (ac_lamports (L1 (ai_key destination_account_info))) amount)
          (token_error Overflow)) (\<lambda>dl.
        Ok (set_lamports (ai_key destination_account_info) dl L1)))"

definition transfer_amounts ::
  "ledger \<Rightarrow> AccountInfo \<Rightarrow> AccountInfo \<Rightarrow> PodAccount PodStateWithExtensionsMut \<Rightarrow>
     PodAccount PodStateWithExtensionsMut \<Rightarrow> u64 \<Rightarrow> u64 \<Rightarrow>
     (PodAccount PodStateWithExtensionsMut \<times> PodAccount PodStateWithExtensionsMut \<times> ledger) result" where
  "transfer_amounts L source_account_info destination_account_info source_account destination_account
       amount calculated_fee =
     and_then (ok_or (checked_sub (a_amount (base source_account)) amount) (token_error Overflow)) (\<lambda>s.
     and_then (ok_or (checked_sub amount calculated_fee) (token_error Overflow)) (\<lambda>credited_amount.
     and_then (ok_or (checked_add (a_amount (base destination_account)) credited_amount)
       (token_error Overflow)) (\<lambda>d.
     and_then (withhold_fee calculated_fee (tlv_data destination_account)) (\<lambda>tlv.
     and_then (if account_is_native (base source_account)
       then transfer_lamports source_account_info destination_account_info amount L else Ok L) (\<lambda>L'.
     Ok (source_account\<lparr>base := (base source_account)\<lparr>a_amount := s\<rparr>\<rparr>,
         destination_account\<lparr>base := (base destination_account)\<lparr>a_amount := d\<rparr>, tlv_data := tlv\<rparr>,
         L'))))))"

definition transfer_hook_call ::
  "Env \<Rightarrow> ledger \<Rightarrow> AccountInfo \<Rightarrow> AccountInfo \<Rightarrow> AccountInfo \<Rightarrow> AccountInfo list \<Rightarrow> u64 \<Rightarrow>
     PodAccount PodStateWithExtensionsMut \<Rightarrow> PodAccount PodStateWithExtensionsMut \<Rightarrow>
     (AccountInfo \<times> u8) option \<Rightarrow> pubkey option \<Rightarrow> ledger result" where
  "transfer_hook_call env L source_account_info destination_account_info authority_info rest amount
       source_account destination_account expected_mint_info maybe_transfer_hook_program_id =
     (let write = (\<lambda>s d. set_data (ai_key destination_account_info) (pack_state PodAccountB d)
                    (set_data (ai_key source_account_info) (pack_state PodAccountB s) L))
      in case maybe_transfer_hook_program_id of
        Some program_id \<Rightarrow>
          (case expected_mint_info of
             Some (mint_info, _) \<Rightarrow>
               and_then (set_transferring source_account) (\<lambda>s.
               and_then (set_transferring destination_account) (\<lambda>d.
               and_then (env_invoke_execute env program_id
                 ([source_account_info, mint_info, destination_account_info, authority_info] @ rest)
                 amount (write s d)) (\<lambda>L2.
               and_then (unset_transferring source_account_info L2) (\<lambda>L3.
               unset_transferring destination_account_info L3))))
           | None \<Rightarrow> TErr MintRequiredForTransfer)
      | None \<Rightarrow> Ok (write source_account destination_account))"

text \<open>After the authority was checked: a transfer to itself ends, any other moves the tokens.\<close>

definition transfer_settle ::
  "Env \<Rightarrow> ledger \<Rightarrow> AccountInfo \<Rightarrow> (AccountInfo \<times> u8) option \<Rightarrow> AccountInfo \<Rightarrow> AccountInfo \<Rightarrow>
     AccountInfo list \<Rightarrow> u64 \<Rightarrow> PodAccount PodStateWithExtensionsMut \<Rightarrow> u64 \<Rightarrow> pubkey option \<Rightarrow> ledger result" where
  "transfer_settle env L source_account_info expected_mint_info destination_account_info authority_info
       rest amount source_account calculated_fee maybe_transfer_hook_program_id =
     (if ai_key source_account_info = ai_key destination_account_info
      then and_then (if memo_required AccountBase (tlv_data source_account)
                     then check_previous_sibling_instruction_is_memo env else Ok ()) (\<lambda>_.
             Ok (set_data (ai_key source_account_info) (pack_state PodAccountB source_account) L))
      else
      and_then (unpack_mut PodAccountB (ac_data (L (ai_key destination_account_info)))) (\<lambda>destination_account.
      if account_is_frozen (base destination_account) then TErr AccountFrozen
      else if a_mint (base source_account) \<noteq> a_mint (base destination_account) then TErr MintMismatch
      else
      and_then (if memo_required AccountBase (tlv_data destination_account)
                then check_previous_sibling_instruction_is_memo env else Ok ()) (\<lambda>_.
      and_then (case get_extension AccountBase ConfidentialTransferAccountX (tlv_data destination_account) of
                  Ok confidential_transfer_state \<Rightarrow>
                    non_confidential_transfer_allowed confidential_transfer_state
                | Err _ \<Rightarrow> Ok ()) (\<lambda>_.
      and_then (transfer_amounts L source_account_info destination_account_info source_account
        destination_account amount calculated_fee) (\<lambda>(source_account, destination_account, L').
      transfer_hook_call env L' source_account_info destination_account_info authority_info rest amount
        source_account destination_account expected_mint_info maybe_transfer_hook_program_id)))))"

definition transfer_parties ::
  "TransferInstruction \<Rightarrow> AccountInfo list \<Rightarrow>
     (AccountInfo \<times> (AccountInfo \<times> u8) option \<times> AccountInfo \<times> AccountInfo \<times> AccountInfo list) result" where
  "transfer_parties transfer_instruction accounts =
     and_then (next_account_info accounts) (\<lambda>(source_account_info, iter).
     and_then (case transfer_instruction of
                 Unchecked \<Rightarrow> Ok (None, iter)
               | Checked decimals \<Rightarrow>
                   and_then (next_account_info iter) (\<lambda>(m, iter). Ok (Some (m, decimals), iter))
               | CheckedWithFee decimals _ \<Rightarrow>
                   and_then (next_account_info iter) (\<lambda>(m, iter). Ok (Some (m, decimals), iter)))
       (\<lambda>(expected_mint_info, iter).
     and_then (next_account_info iter) (\<lambda>(destination_account_info, iter).
     and_then (next_account_info iter) (\<lambda>(authority_info, rest).
     Ok (source_account_info, expected_mint_info, destination_account_info, authority_info, rest)))))"

definition process_transfer ::
  "pubkey \<Rightarrow> Env \<Rightarrow> AccountInfo list \<Rightarrow> u64 \<Rightarrow> TransferInstruction \<Rightarrow> ledger \<Rightarrow> ledger result" where
  "process_transfer program_id env accounts amount transfer_instruction L =
     and_then (transfer_parties transfer_instruction accounts)
       (\<lambda>(source_account_info, expected_mint_info, destination_account_info, authority_info, rest).
     and_then (unpack_mut PodAccountB (ac_data (L (ai_key source_account_info)))) (\<lambda>source_account.
     if account_is_frozen (base source_account) then TErr AccountFrozen
     else if a_amount (base source_account) < amount then TErr InsufficientFunds
     else if is_ok (get_extension AccountBase NonTransferableAccountX (tlv_data source_account))
     then TErr TokenError.NonTransferable
     else
     and_then (transfer_mint_checks env L source_account_info source_account expected_mint_info amount)
       (\<lambda>(calculated_fee, maybe_permanent_delegate, maybe_transfer_hook_program_id).
     and_then (case transfer_instruction of
                 CheckedWithFee _ fee \<Rightarrow> if calculated_fee \<noteq> fee then TErr FeeMismatch else Ok ()
               | _ \<Rightarrow> Ok ()) (\<lambda>_.
     and_then (transfer_authority program_id env L source_account authority_info rest amount
       (ai_key source_account_info = ai_key destination_account_info) maybe_permanent_delegate)
       (\<lambda>source_account.
     and_then (check_program_account (ac_owner (L (ai_key source_account_info)))) (\<lambda>_.
     and_then (check_program_account (ac_owner (L (ai_key destination_account_info)))) (\<lambda>_.
     transfer_settle env L source_account_info expected_mint_info destination_account_info authority_info
       rest amount source_account calculated_fee maybe_transfer_hook_program_id)))))))"

section \<open>Moving the amounts\<close>

lemma withheld_set:
  assumes "get_extension_mut AccountBase TransferFeeAmountX tlv = Ok (e, i)"
  shows "withheld (set_extension AccountBase TransferFeeAmountX e' tlv) = unat (tfa_withheld_amount e')"
    and "withheld tlv = unat (tfa_withheld_amount e)"
  using get_extension_mut_Ok_get [OF assms] tfa.get_set_same by (simp_all add: withheld_def)

lemma withhold_fee_Ok:
  assumes "withhold_fee fee tlv = Ok tlv'"
  shows "withheld tlv' = withheld tlv + unat fee" "length tlv' = length tlv"
    "get_extension_types tlv' = get_extension_types tlv"
  using assms
  by (auto simp: withhold_fee_def res_simps withheld_set tfa.types_set_extension word_gt_0
      split: if_splits sum.splits dest!: checked_add_unat)

lemma transfer_lamports_Ok:
  assumes "transfer_lamports s d amount L = Ok L1"
  shows "ac_data (L1 k) = ac_data (L k)" "ac_owner (L1 k) = ac_owner (L k)"
    and "k \<noteq> ai_key s \<Longrightarrow> k \<noteq> ai_key d \<Longrightarrow> L1 k = L k"
    and "ai_key s \<noteq> ai_key d \<Longrightarrow>
      unat (ac_lamports (L1 (ai_key s))) + unat amount = unat (ac_lamports (L (ai_key s)))"
    and "ai_key s \<noteq> ai_key d \<Longrightarrow>
      unat (ac_lamports (L1 (ai_key d))) = unat (ac_lamports (L (ai_key d))) + unat amount"
  using assms
  by (auto simp: transfer_lamports_def res_simps Let_def dest: checked_sub_unat checked_add_unat)

lemma transfer_amounts_Ok:
  assumes "transfer_amounts L s d src dst amount fee = Ok (src', dst', L1)"
  shows "src' = src\<lparr>base := (base src)\<lparr>a_amount := a_amount (base src) - amount\<rparr>\<rparr>"
    and "amount \<le> a_amount (base src)"
    and "\<exists>x tlv. dst' = dst\<lparr>base := (base dst)\<lparr>a_amount := x\<rparr>, tlv_data := tlv\<rparr> \<and>
      withhold_fee fee (tlv_data dst) = Ok tlv \<and> unat x + unat fee = unat (a_amount (base dst)) + unat amount"
    and "(if account_is_native (base src) then transfer_lamports s d amount L else Ok L) = Ok L1"
  using assms unfolding transfer_amounts_def
  by (auto simp: res_simps checked_sub_Some dest!: checked_add_unat)
    (auto simp: unat_sub word_le_nat_alt)

lemma transfer_amounts_holdings:
  assumes "transfer_amounts L s d src dst amount fee = Ok (src', dst', L1)"
  shows "state_holdings src' + unat amount = state_holdings src"
    and "state_holdings dst' = state_holdings dst + unat amount"
  using transfer_amounts_Ok [OF assms]
  by (auto simp: state_holdings_def withhold_fee_Ok unat_sub word_le_nat_alt)

section \<open>Successful transfers\<close>

definition mint_arg :: "TransferInstruction \<Rightarrow> AccountInfo \<Rightarrow> (AccountInfo \<times> u8) option" where
  "mint_arg ti m = (case ti of Unchecked \<Rightarrow> None | Checked dec \<Rightarrow> Some (m, dec)
     | CheckedWithFee dec _ \<Rightarrow> Some (m, dec))"

definition transfer_accounts ::
  "TransferInstruction \<Rightarrow> AccountInfo \<Rightarrow> AccountInfo \<Rightarrow> AccountInfo \<Rightarrow> AccountInfo \<Rightarrow> AccountInfo list \<Rightarrow> AccountInfo list" where
  "transfer_accounts ti s m d a rest =
     s # (case ti of Unchecked \<Rightarrow> [] | _ \<Rightarrow> [m]) @ d # a # rest"

lemma transfer_parties_Ok:
  "transfer_parties ti accounts = Ok (s, mi, d, a, rest) \<longleftrightarrow>
     (\<exists>m. accounts = transfer_accounts ti s m d a rest \<and> mi = mint_arg ti m)"
  by (cases ti) (auto simp: transfer_parties_def transfer_accounts_def mint_arg_def res_simps)

text \<open>What holds whenever a transfer succeeds.\<close>

lemma process_transfer_Ok:
  "process_transfer program_id env (transfer_accounts ti s m d a rest) amount ti L = Ok L' \<longleftrightarrow>
   (\<exists>src fee pd hook src1.
    token_account (ac_data (L (ai_key s))) = Ok src \<and>
    \<not> account_is_frozen (base src) \<and> amount \<le> a_amount (base src) \<and>
    \<not> is_ok (get_extension AccountBase NonTransferableAccountX (tlv_data src)) \<and>
    transfer_mint_checks env L s src (mint_arg ti m) amount = Ok (fee, pd, hook) \<and>
    (\<forall>dec f. ti = CheckedWithFee dec f \<longrightarrow> fee = f) \<and>
    transfer_authority program_id env L src a rest amount (ai_key s = ai_key d) pd = Ok src1 \<and>
    ac_owner (L (ai_key s)) = token_program_id \<and> ac_owner (L (ai_key d)) = token_program_id \<and>
    transfer_settle env L s (mint_arg ti m) d a rest amount src1 fee hook = Ok L')"
proof -
  have "transfer_parties ti (transfer_accounts ti s m d a rest) = Ok (s, mint_arg ti m, d, a, rest)"
    by (auto simp: transfer_parties_Ok)
  moreover have "(case ti of CheckedWithFee _ f \<Rightarrow> if fee \<noteq> f then TErr FeeMismatch else Ok ()
     | _ \<Rightarrow> Ok ()) = Ok () \<longleftrightarrow> (\<forall>dec f. ti = CheckedWithFee dec f \<longrightarrow> fee = f)" for fee
    by (cases ti) auto
  ultimately show ?thesis
    by (auto simp: process_transfer_def res_simps not_less; fastforce)
qed

lemma transfer_settle_Ok:
  assumes "transfer_settle env L s mi d a rest amount src1 fee hook = Ok L'" "ai_key s \<noteq> ai_key d"
  obtains dst src2 dst2 L1 where
      "token_account (ac_data (L (ai_key d))) = Ok dst" "\<not> account_is_frozen (base dst)"
      "a_mint (base src1) = a_mint (base dst)"
      "memo_required AccountBase (tlv_data dst) \<Longrightarrow> check_previous_sibling_instruction_is_memo env = Ok ()"
      "transfer_amounts L s d src1 dst amount fee = Ok (src2, dst2, L1)"
      "transfer_hook_call env L1 s d a rest amount src2 dst2 mi hook = Ok L'"
  using assms by (auto simp: transfer_settle_def res_simps split: if_splits)

section \<open>The hook\<close>

text \<open>A hook gets the accounts of a transfer read-only: the data of token accounts survive it.\<close>

definition hook_keeps_data :: "Env \<Rightarrow> bool" where
  "hook_keeps_data env \<longleftrightarrow> (\<forall>p as n L L2. env_invoke_execute env p as n L = Ok L2 \<longrightarrow>
     (\<forall>k. ac_owner (L k) = token_program_id \<longrightarrow> L2 k = L k))"

lemma set_transferring_Ok:
  assumes "set_transferring st = Ok st'"
  shows "\<exists>tlv. st' = st\<lparr>tlv_data := tlv\<rparr> \<and> length tlv = length (tlv_data st) \<and> withheld tlv = withheld (tlv_data st)"
proof -
  obtain tlv where t: "modify_extension AccountBase TransferHookAccountX
      (\<lambda>e. e\<lparr>tha_transferring := pod_bool_from True\<rparr>) (tlv_data st) = Ok tlv" "st' = st\<lparr>tlv_data := tlv\<rparr>"
    using assms by (auto simp: set_transferring_def res_simps)
  then show ?thesis
    using tha.modify_extension_Ok [OF t(1)] tha.modify_extension_other [OF t(1), of TransferFeeAmountX]
    by (auto simp: withheld_def TransferHookAccountX_def TransferFeeAmountX_def)
qed

lemma unset_transferring_Ok:
  assumes "unset_transferring i L = Ok L'" "token_account (ac_data (L (ai_key i))) = Ok st"
  shows "\<exists>tlv. token_account (ac_data (L' (ai_key i))) = Ok (st\<lparr>tlv_data := tlv\<rparr>) \<and>
      length tlv = length (tlv_data st) \<and> withheld tlv = withheld (tlv_data st)"
    and "k \<noteq> ai_key i \<Longrightarrow> L' k = L k" "ac_lamports (L' k) = ac_lamports (L k)" "ac_owner (L' k) = ac_owner (L k)"
proof -
  obtain tlv where t: "modify_extension AccountBase TransferHookAccountX
      (\<lambda>e. e\<lparr>tha_transferring := pod_bool_from False\<rparr>) (tlv_data st) = Ok tlv"
    "L' = set_data (ai_key i) (pack_state PodAccountB (st\<lparr>tlv_data := tlv\<rparr>)) L"
    using assms by (auto simp: unset_transferring_def res_simps)
  have l: "length tlv = length (tlv_data st)" using tha.modify_extension_Ok [OF t(1)] by simp
  have "token_account (pack_state PodAccountB (st\<lparr>tlv_data := tlv\<rparr>)) = Ok (st\<lparr>tlv_data := tlv\<rparr>)"
    using token_account_initialized [OF assms(2)] l by (intro token_account_write [OF assms(2)]) simp_all
  then show "\<exists>tlv. token_account (ac_data (L' (ai_key i))) = Ok (st\<lparr>tlv_data := tlv\<rparr>) \<and>
      length tlv = length (tlv_data st) \<and> withheld tlv = withheld (tlv_data st)"
    using t l tha.modify_extension_other [OF t(1), of TransferFeeAmountX]
    by (auto simp: withheld_def TransferHookAccountX_def TransferFeeAmountX_def)
  show "k \<noteq> ai_key i \<Longrightarrow> L' k = L k" "ac_lamports (L' k) = ac_lamports (L k)" "ac_owner (L' k) = ac_owner (L k)"
    using t(2) by simp_all
qed

text \<open>The state of an account after the call is the state handed to it, up to the hook flag.\<close>

definition same_up_to_flag ::
  "PodAccount PodStateWithExtensionsMut \<Rightarrow> PodAccount PodStateWithExtensionsMut \<Rightarrow> bool" where
  "same_up_to_flag st st' \<longleftrightarrow> base st' = base st \<and> account_type st' = account_type st \<and>
     length (tlv_data st') = length (tlv_data st) \<and> withheld (tlv_data st') = withheld (tlv_data st)"

lemma transfer_hook_call_Ok:
  assumes call: "transfer_hook_call env L s d a rest amount src2 dst2 mi hook = Ok L'"
    and neq: "ai_key s \<noteq> ai_key d" and keeps: "hook_keeps_data env"
    and own: "ac_owner (L (ai_key s)) = token_program_id" "ac_owner (L (ai_key d)) = token_program_id"
    and src: "\<And>tlv. length tlv = length (tlv_data src2) \<Longrightarrow>
      token_account (pack_state PodAccountB (src2\<lparr>tlv_data := tlv\<rparr>)) = Ok (src2\<lparr>tlv_data := tlv\<rparr>)"
    and dst: "\<And>tlv. length tlv = length (tlv_data dst2) \<Longrightarrow>
      token_account (pack_state PodAccountB (dst2\<lparr>tlv_data := tlv\<rparr>)) = Ok (dst2\<lparr>tlv_data := tlv\<rparr>)"
  shows "(\<exists>src3 dst3. token_account (ac_data (L' (ai_key s))) = Ok src3 \<and> same_up_to_flag src2 src3 \<and>
      token_account (ac_data (L' (ai_key d))) = Ok dst3 \<and> same_up_to_flag dst2 dst3) \<and>
    ac_lamports (L' (ai_key s)) = ac_lamports (L (ai_key s)) \<and>
    ac_lamports (L' (ai_key d)) = ac_lamports (L (ai_key d)) \<and>
    (\<forall>k. k \<noteq> ai_key s \<longrightarrow> k \<noteq> ai_key d \<longrightarrow> ac_owner (L k) = token_program_id \<longrightarrow> L' k = L k)"
proof (cases hook)
  case None
  with call have "L' = set_data (ai_key d) (pack_state PodAccountB dst2)
      (set_data (ai_key s) (pack_state PodAccountB src2) L)"
    by (simp add: transfer_hook_call_def Let_def)
  then show ?thesis
    using neq src [of "tlv_data src2"] dst [of "tlv_data dst2"] by (simp add: same_up_to_flag_def)
next
  case (Some p)
  then obtain mint_info dec where mi: "mi = Some (mint_info, dec)"
    using call by (auto simp: transfer_hook_call_def Let_def split: option.splits)
  define W where "W s' d' = set_data (ai_key d) (pack_state PodAccountB d')
      (set_data (ai_key s) (pack_state PodAccountB s') L)" for s' d'
  obtain s' d' L2 L3 where st: "set_transferring src2 = Ok s'" "set_transferring dst2 = Ok d'"
    and ex: "env_invoke_execute env p ([s, mint_info, d, a] @ rest) amount (W s' d') = Ok L2"
    and un: "unset_transferring s L2 = Ok L3" "unset_transferring d L3 = Ok L'"
    using call by (auto simp: transfer_hook_call_def Let_def mi Some res_simps W_def)
  obtain ts where s': "s' = src2\<lparr>tlv_data := ts\<rparr>" "length ts = length (tlv_data src2)" "withheld ts = withheld (tlv_data src2)"
    using set_transferring_Ok [OF st(1)] by blast
  obtain td where d': "d' = dst2\<lparr>tlv_data := td\<rparr>" "length td = length (tlv_data dst2)" "withheld td = withheld (tlv_data dst2)"
    using set_transferring_Ok [OF st(2)] by blast
  have kept: "L2 k = W s' d' k" if "ac_owner (L k) = token_program_id" for k
    using keeps ex that unfolding hook_keeps_data_def by (auto simp: W_def)
  have a2: "token_account (ac_data (L2 (ai_key s))) = Ok s'" "token_account (ac_data (L2 (ai_key d))) = Ok d'"
    using kept own neq src [OF s'(2)] dst [OF d'(2)] by (simp_all add: W_def s'(1) d'(1))
  note u1 = unset_transferring_Ok [OF un(1) a2(1)]
  have a3: "token_account (ac_data (L3 (ai_key d))) = Ok d'" using u1(2) [of "ai_key d"] neq a2(2) by simp
  note u2 = unset_transferring_Ok [OF un(2) a3]
  have sL: "L' (ai_key s) = L3 (ai_key s)" using u2(2) [OF neq] .
  obtain ts2 where "token_account (ac_data (L' (ai_key s))) = Ok (s'\<lparr>tlv_data := ts2\<rparr>)"
    "length ts2 = length (tlv_data s')" "withheld ts2 = withheld (tlv_data s')"
    using u1(1) sL by auto
  moreover obtain td2 where "token_account (ac_data (L' (ai_key d))) = Ok (d'\<lparr>tlv_data := td2\<rparr>)"
    "length td2 = length (tlv_data d')" "withheld td2 = withheld (tlv_data d')"
    using u2(1) by auto
  moreover have "ac_lamports (L' k) = ac_lamports (L k)" if "ac_owner (L k) = token_program_id" for k
    using u2(3) u1(3) kept [OF that] by (simp add: W_def)
  moreover have "L' k = L k" if "k \<noteq> ai_key s" "k \<noteq> ai_key d" "ac_owner (L k) = token_program_id" for k
    using u2(2) [OF that(2)] u1(2) [OF that(1)] kept [OF that(3)] that by (simp add: W_def)
  ultimately show ?thesis
    using own s' d' by (auto simp: same_up_to_flag_def)
qed

section \<open>Who may transfer, and what a transfer does\<close>

text \<open>The authority signed, and it is the permanent delegate, a delegate with enough allowance, or the owner.\<close>

definition may_transfer ::
  "pubkey \<Rightarrow> ledger \<Rightarrow> PodAccount \<Rightarrow> AccountInfo \<Rightarrow> AccountInfo list \<Rightarrow> u64 \<Rightarrow> pubkey option \<Rightarrow> bool" where
  "may_transfer program_id L b a rest amount pd \<longleftrightarrow> owner_signed program_id L a rest \<and>
     (pd = Some (ai_key a) \<or>
      coption (a_delegate b) = Some (ai_key a) \<and> amount \<le> a_delegated_amount b \<or>
      a_owner b = ai_key a)"

text \<open>The allowance after the transfer: only a transfer by the delegate to another account uses it up.\<close>

definition allowance_used :: "PodAccount \<Rightarrow> PodAccount \<Rightarrow> pubkey \<Rightarrow> u64 \<Rightarrow> pubkey option \<Rightarrow> bool" where
  "allowance_used b b' k amount pd \<longleftrightarrow>
     (if pd \<noteq> Some k \<and> coption (a_delegate b) = Some k
      then unat (a_delegated_amount b') + unat amount = unat (a_delegated_amount b) \<and>
           coption (a_delegate b') = (if a_delegated_amount b' = 0 then None else Some k)
      else a_delegate b' = a_delegate b \<and> a_delegated_amount b' = a_delegated_amount b)"

text \<open>The fields no transfer changes.\<close>

definition same_identity :: "PodAccount \<Rightarrow> PodAccount \<Rightarrow> bool" where
  "same_identity b b' \<longleftrightarrow> a_mint b' = a_mint b \<and> a_owner b' = a_owner b \<and> a_state b' = a_state b \<and>
     a_is_native b' = a_is_native b \<and> a_close_authority b' = a_close_authority b"

lemma same_identityD:
  assumes "same_identity b b'"
  shows "account_is_initialized b' = account_is_initialized b" "account_is_native b' = account_is_native b"
    "account_is_frozen b' = account_is_frozen b"
  using assms by (simp_all add: same_identity_def account_is_initialized_def account_is_native_def
      account_is_frozen_def)

lemma coption_Some_iff: "coption c = Some k \<longleftrightarrow> coption_is_some c \<and> co_value c = k"
  by (auto simp: coption_def coption_is_some_def)

lemma set_delegated_amount_simps [simp]:
  "a_delegated_amount (set_delegated_amount b d) = d" "a_amount (set_delegated_amount b d) = a_amount b"
  "a_delegate (set_delegated_amount b d) = (if d = 0 then coption_none else a_delegate b)"
  "same_identity b (set_delegated_amount b d)"
  by (simp_all add: set_delegated_amount_def same_identity_def Let_def)

lemma same_identity_refl [simp]: "same_identity b b"
  by (simp add: same_identity_def)

lemma transfer_authority_Ok:
  assumes "transfer_authority program_id env L src a rest amount self pd = Ok src1"
  shows "may_transfer program_id L (base src) a rest amount pd"
    and "\<not> (cpi_guard_enabled (tlv_data src) \<and> ai_key a = a_owner (base src) \<and> env_in_cpi env)"
    and "tlv_data src1 = tlv_data src" "account_type src1 = account_type src"
    and "same_identity (base src) (base src1) \<and> a_amount (base src1) = a_amount (base src)"
    and "self \<Longrightarrow> src1 = src"
    and "\<not> self \<Longrightarrow> allowance_used (base src) (base src1) (ai_key a) amount pd"
proof -
  show m: "may_transfer program_id L (base src) a rest amount pd"
    using assms by (auto simp: transfer_authority_def may_transfer_def Let_def res_simps
        coption_Some_iff not_less split: if_splits)
  show "\<not> (cpi_guard_enabled (tlv_data src) \<and> ai_key a = a_owner (base src) \<and> env_in_cpi env)"
    using assms by (auto simp: transfer_authority_def Let_def)
  show "tlv_data src1 = tlv_data src" "account_type src1 = account_type src" "self \<Longrightarrow> src1 = src"
    using assms by (auto simp: transfer_authority_def Let_def res_simps split: if_splits)
  show "same_identity (base src) (base src1) \<and> a_amount (base src1) = a_amount (base src)"
    using assms by (auto simp: transfer_authority_def Let_def res_simps split: if_splits)
  show "allowance_used (base src) (base src1) (ai_key a) amount pd" if "\<not> self"
    using assms that
    by (auto simp: transfer_authority_def allowance_used_def Let_def res_simps coption_Some_iff
        not_less split: if_splits dest: checked_sub_unat)
qed

text \<open>The tokens that moved: what the source lost is what the destination and its withheld fees gained.\<close>

definition moved ::
  "PodAccount PodStateWithExtensionsMut \<Rightarrow> PodAccount PodStateWithExtensionsMut \<Rightarrow>
   PodAccount PodStateWithExtensionsMut \<Rightarrow> PodAccount PodStateWithExtensionsMut \<Rightarrow> u64 \<Rightarrow> u64 \<Rightarrow> bool" where
  "moved src dst src' dst' amount fee \<longleftrightarrow>
     a_mint (base dst) = a_mint (base src) \<and>
     unat (a_amount (base src')) + unat amount = unat (a_amount (base src)) \<and>
     withheld (tlv_data src') = withheld (tlv_data src) \<and>
     unat (a_amount (base dst')) + unat fee = unat (a_amount (base dst)) + unat amount \<and>
     withheld (tlv_data dst') = withheld (tlv_data dst) + unat fee \<and>
     same_identity (base src) (base src') \<and> same_identity (base dst) (base dst')"

lemma moved_holdings:
  assumes "moved src dst src' dst' amount fee"
    and "token_account ds = Ok src" "token_account dd = Ok dst" "token_account ds' = Ok src'" "token_account dd' = Ok dst'"
  shows "holdings mint ds' + holdings mint dd' = holdings mint ds + holdings mint dd"
  using assms by (auto simp: moved_def holdings_def state_holdings_def same_identity_def)

lemma process_transfer_effect:
  assumes ok: "process_transfer program_id env (transfer_accounts ti s m d a rest) amount ti L = Ok L'"
    and neq: "ai_key s \<noteq> ai_key d" and keeps: "hook_keeps_data env"
  obtains src dst src' dst' fee pd hook where
    "token_account (ac_data (L (ai_key s))) = Ok src" "token_account (ac_data (L (ai_key d))) = Ok dst"
    "token_account (ac_data (L' (ai_key s))) = Ok src'" "token_account (ac_data (L' (ai_key d))) = Ok dst'"
    "transfer_mint_checks env L s src (mint_arg ti m) amount = Ok (fee, pd, hook)"
    "may_transfer program_id L (base src) a rest amount pd"
    "moved src dst src' dst' amount fee"
    "allowance_used (base src) (base src') (ai_key a) amount pd"
    "\<And>k. k \<noteq> ai_key s \<Longrightarrow> k \<noteq> ai_key d \<Longrightarrow> ac_owner (L k) = token_program_id \<Longrightarrow> L' k = L k"
    "account_is_native (base src) \<Longrightarrow>
      unat (ac_lamports (L' (ai_key s))) + unat amount = unat (ac_lamports (L (ai_key s))) \<and>
      unat (ac_lamports (L' (ai_key d))) = unat (ac_lamports (L (ai_key d))) + unat amount"
    "\<not> account_is_native (base src) \<Longrightarrow> ac_lamports (L' (ai_key s)) = ac_lamports (L (ai_key s)) \<and>
      ac_lamports (L' (ai_key d)) = ac_lamports (L (ai_key d))"
proof -
  obtain src fee pd hook src1 where
    src: "token_account (ac_data (L (ai_key s))) = Ok src" and
    mc: "transfer_mint_checks env L s src (mint_arg ti m) amount = Ok (fee, pd, hook)" and
    au: "transfer_authority program_id env L src a rest amount False pd = Ok src1" and
    own: "ac_owner (L (ai_key s)) = token_program_id" "ac_owner (L (ai_key d)) = token_program_id" and
    se: "transfer_settle env L s (mint_arg ti m) d a rest amount src1 fee hook = Ok L'"
    using ok neq unfolding process_transfer_Ok by auto
  obtain dst src2 dst2 L1 where
    dst: "token_account (ac_data (L (ai_key d))) = Ok dst" and
    mint: "a_mint (base src1) = a_mint (base dst)" and
    ta: "transfer_amounts L s d src1 dst amount fee = Ok (src2, dst2, L1)" and
    hc: "transfer_hook_call env L1 s d a rest amount src2 dst2 (mint_arg ti m) hook = Ok L'"
    by (rule transfer_settle_Ok [OF se neq])
  note aut = transfer_authority_Ok [OF au] and amt = transfer_amounts_Ok [OF ta]
  have i1: "same_identity (base src) (base src1)" "a_amount (base src1) = a_amount (base src)" using aut(5) by auto
  obtain x tlv where d2: "dst2 = dst\<lparr>base := (base dst)\<lparr>a_amount := x\<rparr>, tlv_data := tlv\<rparr>"
    "withhold_fee fee (tlv_data dst) = Ok tlv" "unat x + unat fee = unat (a_amount (base dst)) + unat amount"
    using amt(3) by blast
  have lam: "ac_owner (L1 k) = ac_owner (L k)" "k \<noteq> ai_key s \<Longrightarrow> k \<noteq> ai_key d \<Longrightarrow> L1 k = L k" for k
    using amt(4) transfer_lamports_Ok [of s d amount L L1] by (auto split: if_splits)
  have "token_account (pack_state PodAccountB (src2\<lparr>tlv_data := t\<rparr>)) = Ok (src2\<lparr>tlv_data := t\<rparr>)"
    if "length t = length (tlv_data src2)" for t
    using that token_account_initialized [OF src]
    by (intro token_account_write [OF src]) (simp_all add: amt(1) aut(3,4) same_identityD [OF i1(1)])
  moreover have "token_account (pack_state PodAccountB (dst2\<lparr>tlv_data := t\<rparr>)) = Ok (dst2\<lparr>tlv_data := t\<rparr>)"
    if "length t = length (tlv_data dst2)" for t
    using that token_account_initialized [OF dst] withhold_fee_Ok(2) [OF d2(2)]
    by (intro token_account_write [OF dst]) (simp_all add: d2(1))
  moreover have "ac_owner (L1 (ai_key s)) = token_program_id" "ac_owner (L1 (ai_key d)) = token_program_id"
    using own lam(1) by simp_all
  ultimately have h: "\<exists>src3 dst3. token_account (ac_data (L' (ai_key s))) = Ok src3 \<and> same_up_to_flag src2 src3 \<and>
      token_account (ac_data (L' (ai_key d))) = Ok dst3 \<and> same_up_to_flag dst2 dst3"
    "ac_lamports (L' (ai_key s)) = ac_lamports (L1 (ai_key s))"
    "ac_lamports (L' (ai_key d)) = ac_lamports (L1 (ai_key d))"
    "\<forall>k. k \<noteq> ai_key s \<longrightarrow> k \<noteq> ai_key d \<longrightarrow> ac_owner (L1 k) = token_program_id \<longrightarrow> L' k = L1 k"
    using transfer_hook_call_Ok [OF hc neq keeps] by blast+
  from h(1) obtain src3 dst3 where
    s3: "token_account (ac_data (L' (ai_key s))) = Ok src3" "same_up_to_flag src2 src3" and
    d3: "token_account (ac_data (L' (ai_key d))) = Ok dst3" "same_up_to_flag dst2 dst3" by blast
  have b3: "base src3 = (base src1)\<lparr>a_amount := a_amount (base src) - amount\<rparr>"
    using s3(2) amt(1) i1(2) by (simp add: same_up_to_flag_def)
  have le: "amount \<le> a_amount (base src)" using amt(2) i1(2) by simp
  show ?thesis
  proof (rule that [OF src dst s3(1) d3(1) mc aut(1)])
    have "withheld (tlv_data src3) = withheld (tlv_data src)"
      using s3(2) amt(1) aut(3) by (simp add: same_up_to_flag_def)
    moreover have "unat (a_amount (base dst3)) + unat fee = unat (a_amount (base dst)) + unat amount"
      "same_identity (base dst) (base dst3)"
      using d3(2) d2 by (auto simp: same_up_to_flag_def same_identity_def)
    moreover have "withheld (tlv_data dst3) = withheld (tlv_data dst) + unat fee"
      using d3(2) d2(1) withhold_fee_Ok(1) [OF d2(2)] by (simp add: same_up_to_flag_def)
    ultimately show "moved src dst src3 dst3 amount fee"
      using mint i1(1) le by (simp add: moved_def b3 unat_sub word_le_nat_alt same_identity_def)
    have "allowance_used (base src) (base src1) (ai_key a) amount pd" using aut(7) by simp
    then show "allowance_used (base src) (base src3) (ai_key a) amount pd"
      by (simp add: allowance_used_def b3)
    show "L' k = L k" if "k \<noteq> ai_key s" "k \<noteq> ai_key d" "ac_owner (L k) = token_program_id" for k
      using h(4) lam [of k] that by simp
    show "unat (ac_lamports (L' (ai_key s))) + unat amount = unat (ac_lamports (L (ai_key s))) \<and>
      unat (ac_lamports (L' (ai_key d))) = unat (ac_lamports (L (ai_key d))) + unat amount"
      if "account_is_native (base src)"
      using that amt(4) transfer_lamports_Ok(4,5) [OF _ neq, of amount L L1] h(2,3)
      by (simp add: same_identityD [OF i1(1)])
    show "ac_lamports (L' (ai_key s)) = ac_lamports (L (ai_key s)) \<and>
      ac_lamports (L' (ai_key d)) = ac_lamports (L (ai_key d))" if "\<not> account_is_native (base src)"
      using that amt(4) h(2,3) by (simp add: same_identityD [OF i1(1)])
  qed
qed

section \<open>Properties\<close>

lemmas transfer_eval = process_transfer_def transfer_parties_def transfer_mint_checks_def
  transfer_authority_def transfer_settle_def transfer_amounts_def transfer_hook_call_def
  withhold_fee_def cpi_guard_enabled_def memo_required_def mint_arg_def

abbreviation demo_accounts :: "AccountInfo list" where
  "demo_accounts \<equiv> [unsigned_key 10, unsigned_key 11, signed_key 20]"

definition demo_transferred :: ledger where
  "demo_transferred = set_data 11 (enc_account (plain_account 1 21 90))
     (set_data 10 (enc_account (plain_account 1 20 60)) demo_ledger)"

lemma plain_account_amount: "(plain_account m ow x)\<lparr>a_amount := y\<rparr> = plain_account m ow y"
  by (simp add: plain_account_def)

lemma validate_owner_plain:
  "ac_data (L k) = [] \<Longrightarrow> validate_owner p L k (signed_key k) (data_len L (signed_key k)) rest = Ok ()"
  by (simp add: validate_owner_Ok)

lemma demo_transfer:
  "process_transfer token_program_id demo_env demo_accounts 40 Unchecked demo_ledger = Ok demo_transferred"
  by (simp add: transfer_eval demo_transferred_def plain_account_amount validate_owner_plain
      check_program_account_def checked_sub_def checked_add_def word_less_nat_alt word_le_nat_alt
      coption_none_def coption_is_some_def Let_def)

lemma demo_accounts_eq: "demo_accounts = transfer_accounts Unchecked (unsigned_key 10) m (unsigned_key 11) (signed_key 20) []"
  by (simp add: transfer_accounts_def)

lemma demo_hook: "hook_keeps_data demo_env"
  by (simp add: hook_keeps_data_def demo_env_def)

text \<open>
  C1: a successful transfer between two accounts takes exactly the amount from the source, gives
  the destination the amount less the fee of the mint and adds the fee to what is withheld on it.
  The mints agree and the authority was allowed to move the tokens; the allowance of a delegate
  shrinks by the amount; owner, state, native reserve and close authority stay, and no other
  account of the program changes.
\<close>

theorem transfer_effect:
  assumes "process_transfer program_id env (transfer_accounts ti s m d a rest) amount ti L = Ok L'"
    and "ai_key s \<noteq> ai_key d" "hook_keeps_data env"
  shows "\<exists>src dst src' dst' fee pd hook.
    token_account (ac_data (L (ai_key s))) = Ok src \<and> token_account (ac_data (L (ai_key d))) = Ok dst \<and>
    token_account (ac_data (L' (ai_key s))) = Ok src' \<and> token_account (ac_data (L' (ai_key d))) = Ok dst' \<and>
    transfer_mint_checks env L s src (mint_arg ti m) amount = Ok (fee, pd, hook) \<and>
    may_transfer program_id L (base src) a rest amount pd \<and>
    moved src dst src' dst' amount fee \<and>
    allowance_used (base src) (base src') (ai_key a) amount pd \<and>
    (\<forall>k. k \<noteq> ai_key s \<and> k \<noteq> ai_key d \<and> ac_owner (L k) = token_program_id \<longrightarrow> L' k = L k)"
  by (rule process_transfer_effect [OF assms]) blast

theorem transfer_effect_witness:
  "\<exists>dst'. token_account (ac_data (demo_transferred 11)) = Ok dst' \<and> unat (a_amount (base dst')) = 90"
  using transfer_effect [of token_program_id demo_env Unchecked "unsigned_key 10" "signed_key 0" "unsigned_key 11"
      "signed_key 20" "[]" 40 demo_ledger demo_transferred] demo_transfer demo_hook
  by (auto simp: demo_accounts_eq [symmetric] transfer_mint_checks_def mint_arg_def moved_def split: if_splits)

text \<open>
  C2: transfers neither create nor destroy tokens.  For every mint, balances plus withheld
  fees over any set of token accounts that contains the two parties have the same sum before and
  after, whatever fee, delegate or hook is involved.
\<close>

theorem transfer_conserves:
  assumes "process_transfer program_id env (transfer_accounts ti s m d a rest) amount ti L = Ok L'"
    and "hook_keeps_data env" "finite A" "ai_key s \<in> A" "ai_key d \<in> A"
    and "\<forall>k\<in>A. ac_owner (L k) = token_program_id"
  shows "total_holdings mint A L' = total_holdings mint A L"
proof (cases "ai_key s = ai_key d")
  case True
  obtain src src1 pd fee hook where "token_account (ac_data (L (ai_key s))) = Ok src"
    "transfer_authority program_id env L src a rest amount True pd = Ok src1"
    "transfer_settle env L s (mint_arg ti m) d a rest amount src1 fee hook = Ok L'"
    using assms(1) True unfolding process_transfer_Ok by auto
  then have "src1 = src" "L' = set_data (ai_key s) (pack_state PodAccountB src1) L"
    "pack_state PodAccountB src = ac_data (L (ai_key s))"
    using transfer_authority_Ok(6) [of program_id env L src a rest amount True] token_account_pack True
    by (auto simp: transfer_settle_def res_simps split: if_splits)
  then show ?thesis by (simp add: set_data_def)
next
  case False
  obtain src dst src' dst' fee where e:
    "token_account (ac_data (L (ai_key s))) = Ok src" "token_account (ac_data (L (ai_key d))) = Ok dst"
    "token_account (ac_data (L' (ai_key s))) = Ok src'" "token_account (ac_data (L' (ai_key d))) = Ok dst'"
    "moved src dst src' dst' amount fee"
    "\<And>k. k \<noteq> ai_key s \<Longrightarrow> k \<noteq> ai_key d \<Longrightarrow> ac_owner (L k) = token_program_id \<Longrightarrow> L' k = L k"
    by (rule process_transfer_effect [OF assms(1) False assms(2)]) blast
  show ?thesis
    using moved_holdings [OF e(5,1-4)] e(6) assms(6)
    by (intro total_holdings_move [OF assms(3-5) False]) simp_all
qed

theorem transfer_conserves_witness:
  "total_holdings 1 {10, 11} demo_transferred = total_holdings 1 {10, 11} demo_ledger"
  using demo_transfer demo_hook unfolding demo_accounts_eq [of "signed_key 0"]
  by (rule transfer_conserves) simp_all

text \<open>The side that receives: not frozen, of the same mint, with a memo and open to plain transfers where it asks for it.\<close>

definition open_to_transfer :: "Env \<Rightarrow> PodAccount PodStateWithExtensionsMut \<Rightarrow> PodAccount PodStateWithExtensionsMut \<Rightarrow> bool \<Rightarrow> bool" where
  "open_to_transfer env src dst self \<longleftrightarrow> \<not> account_is_frozen (base dst) \<and> a_mint (base dst) = a_mint (base src) \<and>
     (memo_required AccountBase (tlv_data dst) \<longrightarrow> check_previous_sibling_instruction_is_memo env = Ok ()) \<and>
     (\<forall>c. get_extension AccountBase ConfidentialTransferAccountX (tlv_data dst) = Ok c \<longrightarrow>
        self \<or> non_confidential_transfer_allowed c = Ok ())"

lemma transfer_settle_receives:
  assumes "transfer_settle env L s mi d a rest amount src1 fee hook = Ok L'"
    and "token_account (ac_data (L (ai_key s))) = Ok src" "\<not> account_is_frozen (base src)"
    and "tlv_data src1 = tlv_data src" "a_mint (base src1) = a_mint (base src)"
  shows "\<exists>dst. token_account (ac_data (L (ai_key d))) = Ok dst \<and> open_to_transfer env src dst (ai_key s = ai_key d)"
proof (cases "ai_key s = ai_key d")
  case True
  then show ?thesis
    using assms by (auto simp: transfer_settle_def open_to_transfer_def res_simps split: if_splits)
next
  case False
  then show ?thesis
    using assms by (auto simp: transfer_settle_def open_to_transfer_def res_simps split: if_splits sum.splits)
qed

text \<open>
  C3: a transfer succeeds only if the authority signed for it and may move the tokens, the source holds
  the amount, neither account is frozen, the tokens are transferable, both accounts belong to the token
  program and to the same mint, the receiving account gets the memo it asks for and accepts plain transfers,
  and the authority is not the owner acting through a cross-program call that a CPI guard
  forbids.  A transfer without the mint is refused for accounts whose mint has a fee, a hook or can
  be paused; one with the mint is refused while the mint is paused and when the decimals are not those of the mint.
\<close>

theorem transfer_guards:
  assumes "process_transfer program_id env (transfer_accounts ti s m d a rest) amount ti L = Ok L'"
  shows "\<exists>src dst pd. token_account (ac_data (L (ai_key s))) = Ok src \<and> token_account (ac_data (L (ai_key d))) = Ok dst \<and>
    may_transfer program_id L (base src) a rest amount pd \<and>
    \<not> account_is_frozen (base src) \<and> open_to_transfer env src dst (ai_key s = ai_key d) \<and> amount \<le> a_amount (base src) \<and>
    \<not> is_ok (get_extension AccountBase NonTransferableAccountX (tlv_data src)) \<and>
    ac_owner (L (ai_key s)) = token_program_id \<and> ac_owner (L (ai_key d)) = token_program_id \<and>
    \<not> (cpi_guard_enabled (tlv_data src) \<and> ai_key a = a_owner (base src) \<and> env_in_cpi env) \<and>
    (if ti = Unchecked
     then pd = None \<and> \<not> is_ok (get_extension AccountBase TransferHookAccountX (tlv_data src)) \<and>
       \<not> is_ok (get_extension AccountBase TransferFeeAmountX (tlv_data src)) \<and>
       \<not> is_ok (get_extension AccountBase PausableAccountX (tlv_data src))
     else \<exists>mint. a_mint (base src) = ai_key m \<and> unpack PodMintB (ac_data (L (ai_key m))) = Ok mint \<and>
       pd = get_permanent_delegate MintBase (tlv_data mint) \<and>
       mint_arg ti m = Some (m, m_decimals (base mint)) \<and> check_not_paused (tlv_data mint) = Ok ())"
proof -
  obtain src fee pd hook src1 where
    src: "token_account (ac_data (L (ai_key s))) = Ok src" "\<not> account_is_frozen (base src)"
      "amount \<le> a_amount (base src)"
      "\<not> is_ok (get_extension AccountBase NonTransferableAccountX (tlv_data src))" and
    mc: "transfer_mint_checks env L s src (mint_arg ti m) amount = Ok (fee, pd, hook)" and
    au: "transfer_authority program_id env L src a rest amount (ai_key s = ai_key d) pd = Ok src1" and
    own: "ac_owner (L (ai_key s)) = token_program_id" "ac_owner (L (ai_key d)) = token_program_id" and
    se: "transfer_settle env L s (mint_arg ti m) d a rest amount src1 fee hook = Ok L'"
    using assms unfolding process_transfer_Ok by blast
  obtain dst where dst: "token_account (ac_data (L (ai_key d))) = Ok dst" "open_to_transfer env src dst (ai_key s = ai_key d)"
    using transfer_settle_receives [OF se src(1,2)] transfer_authority_Ok(3,5) [OF au] by (auto simp: same_identity_def)
  have fee: "is_ok (get_extension_mut AccountBase TransferFeeAmountX t) = is_ok (get_extension AccountBase TransferFeeAmountX t)" for t
    by (auto simp: get_extension_mut_eq is_ok_def and_then_def split: sum.splits)
  have "if ti = Unchecked
     then pd = None \<and> \<not> is_ok (get_extension AccountBase TransferHookAccountX (tlv_data src)) \<and>
       \<not> is_ok (get_extension AccountBase TransferFeeAmountX (tlv_data src)) \<and>
       \<not> is_ok (get_extension AccountBase PausableAccountX (tlv_data src))
     else \<exists>mint. a_mint (base src) = ai_key m \<and> unpack PodMintB (ac_data (L (ai_key m))) = Ok mint \<and>
       pd = get_permanent_delegate MintBase (tlv_data mint) \<and>
       mint_arg ti m = Some (m, m_decimals (base mint)) \<and> check_not_paused (tlv_data mint) = Ok ()"
    using mc by (cases ti) (auto simp: transfer_mint_checks_def mint_arg_def res_simps fee split: if_splits)
  then show ?thesis using src dst own transfer_authority_Ok(1,2) [OF au] by blast
qed

theorem transfer_guards_witness:
  "\<exists>src. token_account (ac_data (demo_ledger 10)) = Ok src \<and> 40 \<le> a_amount (base src)"
  using transfer_guards [of token_program_id demo_env Unchecked "unsigned_key 10" "signed_key 0" "unsigned_key 11"
      "signed_key 20" "[]" 40 demo_ledger demo_transferred] demo_transfer
  by (auto simp: demo_accounts_eq [symmetric])

text \<open>
  Transferring wrapped native tokens moves as many lamports as tokens, so the lamports that back
  the two accounts follow the balances; no other transfer moves lamports of the two accounts.
\<close>

theorem transfer_native_lamports:
  assumes "process_transfer program_id env (transfer_accounts ti s m d a rest) amount ti L = Ok L'"
    and "ai_key s \<noteq> ai_key d" "hook_keeps_data env" "token_account (ac_data (L (ai_key s))) = Ok src"
  shows "if account_is_native (base src)
    then unat (ac_lamports (L' (ai_key s))) + unat amount = unat (ac_lamports (L (ai_key s))) \<and>
      unat (ac_lamports (L' (ai_key d))) = unat (ac_lamports (L (ai_key d))) + unat amount
    else ac_lamports (L' (ai_key s)) = ac_lamports (L (ai_key s)) \<and>
      ac_lamports (L' (ai_key d)) = ac_lamports (L (ai_key d))"
  by (rule process_transfer_effect [OF assms(1-3)]) (use assms(4) in auto)

theorem transfer_native_lamports_witness:
  "ac_lamports (demo_transferred 11) = ac_lamports (demo_ledger 11)"
  using transfer_native_lamports [of token_program_id demo_env Unchecked "unsigned_key 10" "signed_key 0" "unsigned_key 11"
      "signed_key 20" "[]" 40 demo_ledger demo_transferred
      "\<lparr>base = plain_account 1 20 100, tlv_data = [], account_type = []\<rparr>"] demo_transfer demo_hook
  by (simp add: demo_accounts_eq [symmetric])

end
