(* ===== verification/Authority.thy ===== *)
theory Authority
  imports Token_Transfer
begin

text \<open>
  Changing authorities (\<open>Processor::process_set_authority\<close> of src/program/src/processor.rs).  The
  branches for the authorities kept in extensions of a mint differ only in the extension and its
  field; they are one definition, and a locale states what a field of an extension gives.
\<close>

datatype AuthorityType =
    MintTokens | FreezeAccount | AccountOwner | CloseAccount | TransferFeeConfig | WithheldWithdraw
  | CloseMint | InterestRate | PermanentDelegate | ConfidentialTransferMint | TransferHookProgramId
  | ConfidentialTransferFeeConfig | MetadataPointer | GroupPointer | GroupMemberPointer
  | ScaledUiAmount | Pause

section \<open>The handler\<close>

definition set_extension_authority ::
  "'a Extension \<Rightarrow> ('a \<Rightarrow> pubkey) \<Rightarrow> (pubkey \<Rightarrow> 'a \<Rightarrow> 'a) \<Rightarrow> pubkey \<Rightarrow> ledger \<Rightarrow> AccountInfo \<Rightarrow> AccountInfo list \<Rightarrow>
     pubkey PodCOption \<Rightarrow> bytes \<Rightarrow> bytes result" where
  "set_extension_authority E get upd program_id L authority_info rest new_authority tlv =
     and_then (get_extension_mut MintBase E tlv) (\<lambda>(e, _).
     and_then (ok_or (opt_key (get e)) (token_error AuthorityTypeNotSupported)) (\<lambda>authority.
     and_then (validate_owner program_id L authority authority_info (data_len L authority_info) rest) (\<lambda>_.
     and_then (coption_try_into new_authority) (\<lambda>k. Ok (set_extension MintBase E (upd k e) tlv)))))"

definition set_mint_authority ::
  "pubkey \<Rightarrow> ledger \<Rightarrow> AccountInfo \<Rightarrow> AccountInfo list \<Rightarrow> AuthorityType \<Rightarrow> pubkey PodCOption \<Rightarrow>
     PodMint PodStateWithExtensionsMut \<Rightarrow> PodMint PodStateWithExtensionsMut result" where
  "set_mint_authority program_id L authority_info rest authority_type new_authority mint =
     (let in_extension = (\<lambda>m. and_then m (\<lambda>tlv. Ok (mint\<lparr>tlv_data := tlv\<rparr>)));
          b = base mint; len = data_len L authority_info; tlv = tlv_data mint
      in case authority_type of
        MintTokens \<Rightarrow>
          and_then (coption_ok_or (m_mint_authority b) (token_error FixedSupply)) (\<lambda>mint_authority.
          and_then (validate_owner program_id L mint_authority authority_info len rest) (\<lambda>_.
          Ok (mint\<lparr>base := b\<lparr>m_mint_authority := new_authority\<rparr>\<rparr>)))
      | FreezeAccount \<Rightarrow>
          and_then (coption_ok_or (m_freeze_authority b) (token_error MintCannotFreeze)) (\<lambda>freeze_authority.
          and_then (validate_owner program_id L freeze_authority authority_info len rest) (\<lambda>_.
          Ok (mint\<lparr>base := b\<lparr>m_freeze_authority := new_authority\<rparr>\<rparr>)))
      | CloseMint \<Rightarrow> in_extension (set_extension_authority MintCloseAuthorityX mca_close_authority
          (\<lambda>k e. e\<lparr>mca_close_authority := k\<rparr>) program_id L authority_info rest new_authority tlv)
      | TransferFeeConfig \<Rightarrow> in_extension (set_extension_authority TransferFeeConfigX
          tfc_transfer_fee_config_authority (\<lambda>k e. e\<lparr>tfc_transfer_fee_config_authority := k\<rparr>)
          program_id L authority_info rest new_authority tlv)
      | WithheldWithdraw \<Rightarrow> in_extension (set_extension_authority TransferFeeConfigX
          tfc_withdraw_withheld_authority (\<lambda>k e. e\<lparr>tfc_withdraw_withheld_authority := k\<rparr>)
          program_id L authority_info rest new_authority tlv)
      | InterestRate \<Rightarrow> in_extension (set_extension_authority InterestBearingConfigX ib_rate_authority
          (\<lambda>k e. e\<lparr>ib_rate_authority := k\<rparr>) program_id L authority_info rest new_authority tlv)
      | PermanentDelegate \<Rightarrow> in_extension (set_extension_authority PermanentDelegateX pd_delegate
          (\<lambda>k e. e\<lparr>pd_delegate := k\<rparr>) program_id L authority_info rest new_authority tlv)
      | ConfidentialTransferMint \<Rightarrow> in_extension (set_extension_authority ConfidentialTransferMintX
          ctm_authority (\<lambda>k e. e\<lparr>ctm_authority := k\<rparr>) program_id L authority_info rest new_authority tlv)
      | TransferHookProgramId \<Rightarrow> in_extension (set_extension_authority TransferHookX th_authority
          (\<lambda>k e. e\<lparr>th_authority := k\<rparr>) program_id L authority_info rest new_authority tlv)
      | ConfidentialTransferFeeConfig \<Rightarrow> in_extension (set_extension_authority
          ConfidentialTransferFeeConfigX ctf_authority (\<lambda>k e. e\<lparr>ctf_authority := k\<rparr>)
          program_id L authority_info rest new_authority tlv)
      | MetadataPointer \<Rightarrow> in_extension (set_extension_authority MetadataPointerX mp_authority
          (\<lambda>k e. e\<lparr>mp_authority := k\<rparr>) program_id L authority_info rest new_authority tlv)
      | GroupPointer \<Rightarrow> in_extension (set_extension_authority GroupPointerX gp_authority
          (\<lambda>k e. e\<lparr>gp_authority := k\<rparr>) program_id L authority_info rest new_authority tlv)
      | GroupMemberPointer \<Rightarrow> in_extension (set_extension_authority GroupMemberPointerX gmp_authority
          (\<lambda>k e. e\<lparr>gmp_authority := k\<rparr>) program_id L authority_info rest new_authority tlv)
      | ScaledUiAmount \<Rightarrow> in_extension (set_extension_authority ScaledUiAmountConfigX su_authority
          (\<lambda>k e. e\<lparr>su_authority := k\<rparr>) program_id L authority_info rest new_authority tlv)
      | Pause \<Rightarrow> in_extension (set_extension_authority PausableConfigX pc_authority
          (\<lambda>k e. e\<lparr>pc_authority := k\<rparr>) program_id L authority_info rest new_authority tlv)
      | AccountOwner \<Rightarrow> TErr AuthorityTypeNotSupported
      | CloseAccount \<Rightarrow> TErr AuthorityTypeNotSupported)"

definition set_account_authority ::
  "pubkey \<Rightarrow> Env \<Rightarrow> ledger \<Rightarrow> AccountInfo \<Rightarrow> AccountInfo list \<Rightarrow> AuthorityType \<Rightarrow> pubkey PodCOption \<Rightarrow>
     PodAccount PodStateWithExtensionsMut \<Rightarrow> PodAccount PodStateWithExtensionsMut result" where
  "set_account_authority program_id env L authority_info rest authority_type new_authority account =
     (let b = base account; len = data_len L authority_info; tlv = tlv_data account
      in if account_is_frozen b then TErr AccountFrozen
         else case authority_type of
           AccountOwner \<Rightarrow>
             and_then (validate_owner program_id L (a_owner b) authority_info len rest) (\<lambda>_.
             if is_ok (get_extension_mut AccountBase ImmutableOwnerX tlv) then TErr TokenError.ImmutableOwner
             else if cpi_guard_enabled tlv \<and> env_in_cpi env then TErr CpiGuardSetAuthorityBlocked
             else if cpi_guard_enabled tlv then TErr CpiGuardOwnerChangeBlocked
             else if coption_is_some new_authority
             then let b1 = b\<lparr>a_owner := co_value new_authority, a_delegate := coption_none,
                              a_delegated_amount := 0\<rparr>
                  in Ok (account\<lparr>base := if account_is_native b1 then b1\<lparr>a_close_authority := coption_none\<rparr> else b1\<rparr>)
             else TErr InvalidInstruction)
         | CloseAccount \<Rightarrow>
             and_then (validate_owner program_id L (coption_unwrap_or (a_close_authority b) (a_owner b))
               authority_info len rest) (\<lambda>_.
             if cpi_guard_enabled tlv \<and> env_in_cpi env \<and> coption_is_some new_authority
             then TErr CpiGuardSetAuthorityBlocked
             else Ok (account\<lparr>base := b\<lparr>a_close_authority := new_authority\<rparr>\<rparr>))
         | _ \<Rightarrow> TErr AuthorityTypeNotSupported)"

definition process_set_authority ::
  "pubkey \<Rightarrow> Env \<Rightarrow> AccountInfo list \<Rightarrow> AuthorityType \<Rightarrow> pubkey PodCOption \<Rightarrow> ledger \<Rightarrow> ledger result" where
  "process_set_authority program_id env accounts authority_type new_authority L =
     and_then (next_account_info accounts) (\<lambda>(account_info, iter).
     and_then (next_account_info iter) (\<lambda>(authority_info, rest).
     let d = ac_data (L (ai_key account_info))
     in case unpack_mut PodAccountB d of
          Ok account \<Rightarrow>
            and_then (set_account_authority program_id env L authority_info rest authority_type
              new_authority account) (\<lambda>account.
            Ok (set_data (ai_key account_info) (pack_state PodAccountB account) L))
        | Err _ \<Rightarrow>
            (case unpack_mut PodMintB d of
               Ok mint \<Rightarrow>
                 and_then (set_mint_authority program_id L authority_info rest authority_type
                   new_authority mint) (\<lambda>mint.
                 Ok (set_data (ai_key account_info) (pack_state PodMintB mint) L))
             | Err _ \<Rightarrow> Err InvalidAccountData)))"

section \<open>Authorities as fields\<close>

definition ext_authority :: "'a Extension \<Rightarrow> ('a \<Rightarrow> pubkey) \<Rightarrow> bytes \<Rightarrow> pubkey option" where
  "ext_authority E get tlv = Option.bind (ok (get_extension MintBase E tlv)) (\<lambda>e. opt_key (get e))"

locale authority_field = extension E for E :: "'a Extension" +
  fixes get :: "'a \<Rightarrow> pubkey" and upd :: "pubkey \<Rightarrow> 'a \<Rightarrow> 'a"
  assumes get_upd: "get (upd k e) = k"
begin

lemma set_extension_authority_Ok:
  assumes "set_extension_authority E get upd program_id L authority_info rest new_authority tlv = Ok tlv'"
  shows "ext_authority E get tlv = Some (ai_key authority_info)"
    and "owner_signed program_id L authority_info rest"
    and "ext_authority E get tlv' = coption new_authority"
    and "length tlv' = length tlv" "get_extension_types tlv' = get_extension_types tlv"
proof -
  obtain e i authority k where h: "get_extension_mut MintBase E tlv = Ok (e, i)"
    "opt_key (get e) = Some authority" "authority = ai_key authority_info"
    "owner_signed program_id L authority_info rest"
    "coption_try_into new_authority = Ok k" "tlv' = set_extension MintBase E (upd k e) tlv"
    using assms by (auto simp: set_extension_authority_def res_simps)
  then show "ext_authority E get tlv = Some (ai_key authority_info)"
    "owner_signed program_id L authority_info rest" "length tlv' = length tlv"
    "get_extension_types tlv' = get_extension_types tlv"
    by (auto simp: ext_authority_def types_set_extension dest: get_extension_mut_Ok_get)
  have "get_extension MintBase E tlv' = Ok (upd k e)"
    using h(6) get_set_same [OF get_extension_mut_Ok_get [OF h(1)]] by simp
  then show "ext_authority E get tlv' = coption new_authority"
    using coption_try_into_Ok [OF h(5)] by (simp add: ext_authority_def get_upd)
qed

lemma set_extension_authority_other:
  assumes "set_extension_authority E get upd program_id L authority_info rest new_authority tlv = Ok tlv'"
  shows "V = EXT_TYPE E \<or> get_extension_bytes S V tlv' = get_extension_bytes S V tlv"
proof (cases "V = EXT_TYPE E")
  case False
  then show ?thesis using assms by (auto simp: set_extension_authority_def res_simps get_set_other_bytes)
qed simp

lemma set_extension_authority_same:
  assumes "set_extension_authority E get upd program_id L authority_info rest new_authority tlv = Ok tlv'"
    and "\<And>k e. g (upd k e) = g e"
  shows "ext_authority E g tlv' = ext_authority E g tlv"
proof -
  obtain e i k where h: "get_extension_mut MintBase E tlv = Ok (e, i)" "tlv' = set_extension MintBase E (upd k e) tlv"
    using assms by (auto simp: set_extension_authority_def res_simps)
  then show ?thesis
    using get_extension_mut_Ok_get [OF h(1)] get_set_same [OF get_extension_mut_Ok_get [OF h(1)]] assms(2)
    by (simp add: ext_authority_def)
qed

end

interpretation af_close: authority_field MintCloseAuthorityX mca_close_authority "\<lambda>k e. e\<lparr>mca_close_authority := k\<rparr>"
  by unfold_locales simp
interpretation af_fee: authority_field TransferFeeConfigX tfc_transfer_fee_config_authority
  "\<lambda>k e. e\<lparr>tfc_transfer_fee_config_authority := k\<rparr>"
  by unfold_locales simp
interpretation af_withdraw: authority_field TransferFeeConfigX tfc_withdraw_withheld_authority
  "\<lambda>k e. e\<lparr>tfc_withdraw_withheld_authority := k\<rparr>"
  by unfold_locales simp
interpretation af_rate: authority_field InterestBearingConfigX ib_rate_authority "\<lambda>k e. e\<lparr>ib_rate_authority := k\<rparr>"
  by unfold_locales simp
interpretation af_delegate: authority_field PermanentDelegateX pd_delegate "\<lambda>k e. e\<lparr>pd_delegate := k\<rparr>"
  by unfold_locales simp
interpretation af_ct: authority_field ConfidentialTransferMintX ctm_authority "\<lambda>k e. e\<lparr>ctm_authority := k\<rparr>"
  by unfold_locales simp
interpretation af_hook: authority_field TransferHookX th_authority "\<lambda>k e. e\<lparr>th_authority := k\<rparr>"
  by unfold_locales simp
interpretation af_ctf: authority_field ConfidentialTransferFeeConfigX ctf_authority "\<lambda>k e. e\<lparr>ctf_authority := k\<rparr>"
  by unfold_locales simp
interpretation af_mp: authority_field MetadataPointerX mp_authority "\<lambda>k e. e\<lparr>mp_authority := k\<rparr>"
  by unfold_locales simp
interpretation af_gp: authority_field GroupPointerX gp_authority "\<lambda>k e. e\<lparr>gp_authority := k\<rparr>"
  by unfold_locales simp
interpretation af_gmp: authority_field GroupMemberPointerX gmp_authority "\<lambda>k e. e\<lparr>gmp_authority := k\<rparr>"
  by unfold_locales simp
interpretation af_su: authority_field ScaledUiAmountConfigX su_authority "\<lambda>k e. e\<lparr>su_authority := k\<rparr>"
  by unfold_locales simp
interpretation af_pause: authority_field PausableConfigX pc_authority "\<lambda>k e. e\<lparr>pc_authority := k\<rparr>"
  by unfold_locales simp

lemmas authority_field_Ok =
  af_close.set_extension_authority_Ok af_fee.set_extension_authority_Ok af_withdraw.set_extension_authority_Ok
  af_rate.set_extension_authority_Ok af_delegate.set_extension_authority_Ok af_ct.set_extension_authority_Ok
  af_hook.set_extension_authority_Ok af_ctf.set_extension_authority_Ok af_mp.set_extension_authority_Ok
  af_gp.set_extension_authority_Ok af_gmp.set_extension_authority_Ok af_su.set_extension_authority_Ok
  af_pause.set_extension_authority_Ok

lemmas authority_field_other =
  af_close.set_extension_authority_other af_fee.set_extension_authority_other
  af_withdraw.set_extension_authority_other af_rate.set_extension_authority_other
  af_delegate.set_extension_authority_other af_ct.set_extension_authority_other
  af_hook.set_extension_authority_other af_ctf.set_extension_authority_other
  af_mp.set_extension_authority_other af_gp.set_extension_authority_other
  af_gmp.set_extension_authority_other af_su.set_extension_authority_other
  af_pause.set_extension_authority_other

lemmas authority_field_same =
  af_fee.set_extension_authority_same [where g = tfc_withdraw_withheld_authority]
  af_withdraw.set_extension_authority_same [where g = tfc_transfer_fee_config_authority]

section \<open>Specification: a mint is a table of authorities\<close>

definition mint_authority_of :: "PodMint PodStateWithExtensionsMut \<Rightarrow> AuthorityType \<Rightarrow> pubkey option" where
  "mint_authority_of mint ty = (let tlv = tlv_data mint in case ty of
     MintTokens \<Rightarrow> coption (m_mint_authority (base mint))
   | FreezeAccount \<Rightarrow> coption (m_freeze_authority (base mint))
   | CloseMint \<Rightarrow> ext_authority MintCloseAuthorityX mca_close_authority tlv
   | TransferFeeConfig \<Rightarrow> ext_authority TransferFeeConfigX tfc_transfer_fee_config_authority tlv
   | WithheldWithdraw \<Rightarrow> ext_authority TransferFeeConfigX tfc_withdraw_withheld_authority tlv
   | InterestRate \<Rightarrow> ext_authority InterestBearingConfigX ib_rate_authority tlv
   | PermanentDelegate \<Rightarrow> ext_authority PermanentDelegateX pd_delegate tlv
   | ConfidentialTransferMint \<Rightarrow> ext_authority ConfidentialTransferMintX ctm_authority tlv
   | TransferHookProgramId \<Rightarrow> ext_authority TransferHookX th_authority tlv
   | ConfidentialTransferFeeConfig \<Rightarrow> ext_authority ConfidentialTransferFeeConfigX ctf_authority tlv
   | MetadataPointer \<Rightarrow> ext_authority MetadataPointerX mp_authority tlv
   | GroupPointer \<Rightarrow> ext_authority GroupPointerX gp_authority tlv
   | GroupMemberPointer \<Rightarrow> ext_authority GroupMemberPointerX gmp_authority tlv
   | ScaledUiAmount \<Rightarrow> ext_authority ScaledUiAmountConfigX su_authority tlv
   | Pause \<Rightarrow> ext_authority PausableConfigX pc_authority tlv
   | AccountOwner \<Rightarrow> None | CloseAccount \<Rightarrow> None)"

lemma coption_ok_or_Ok [res_simps]: "coption_ok_or c e = Ok k \<longleftrightarrow> coption c = Some k"
  by (simp add: coption_ok_or_eq ok_or_Ok)

lemma set_mint_authority_Ok:
  assumes "set_mint_authority program_id L a rest ty new mint = Ok mint'"
  shows "mint_authority_of mint ty = Some (ai_key a)" "owner_signed program_id L a rest"
    and "mint_authority_of mint' ty = coption new"
    and "account_type mint' = account_type mint" "length (tlv_data mint') = length (tlv_data mint)"
    and "m_supply (base mint') = m_supply (base mint)" "m_decimals (base mint') = m_decimals (base mint)"
    and "m_is_initialized (base mint') = m_is_initialized (base mint)"
    and "get_extension_types (tlv_data mint') = get_extension_types (tlv_data mint)"
  using assms
  by (cases ty; auto simp: set_mint_authority_def mint_authority_of_def res_simps Let_def
      dest: authority_field_Ok)+

text \<open>The extension an authority is kept in.\<close>

primrec authority_extension :: "AuthorityType \<Rightarrow> ExtensionType option" where
  "authority_extension MintTokens = None"
| "authority_extension FreezeAccount = None"
| "authority_extension AccountOwner = None"
| "authority_extension CloseAccount = None"
| "authority_extension TransferFeeConfig = Some ExtensionType.TransferFeeConfig"
| "authority_extension WithheldWithdraw = Some ExtensionType.TransferFeeConfig"
| "authority_extension CloseMint = Some ExtensionType.MintCloseAuthority"
| "authority_extension InterestRate = Some ExtensionType.InterestBearingConfig"
| "authority_extension PermanentDelegate = Some ExtensionType.PermanentDelegate"
| "authority_extension ConfidentialTransferMint = Some ExtensionType.ConfidentialTransferMint"
| "authority_extension TransferHookProgramId = Some ExtensionType.TransferHook"
| "authority_extension ConfidentialTransferFeeConfig = Some ExtensionType.ConfidentialTransferFeeConfig"
| "authority_extension MetadataPointer = Some ExtensionType.MetadataPointer"
| "authority_extension GroupPointer = Some ExtensionType.GroupPointer"
| "authority_extension GroupMemberPointer = Some ExtensionType.GroupMemberPointer"
| "authority_extension ScaledUiAmount = Some ExtensionType.ScaledUiAmount"
| "authority_extension Pause = Some ExtensionType.Pausable"

lemma mint_authority_of_cong:
  assumes "m_mint_authority (base m') = m_mint_authority (base m) \<or> ty \<noteq> MintTokens"
    and "m_freeze_authority (base m') = m_freeze_authority (base m) \<or> ty \<noteq> FreezeAccount"
    and "\<And>V. authority_extension ty = Some V \<Longrightarrow>
      get_extension_bytes MintBase V (tlv_data m') = get_extension_bytes MintBase V (tlv_data m)"
  shows "mint_authority_of m' ty = mint_authority_of m ty"
  using assms
  by (cases ty)
    (simp_all add: mint_authority_of_def ext_authority_def get_extension_def)

lemma set_mint_authority_base:
  assumes "set_mint_authority program_id L a rest ty new mint = Ok mint'"
  shows "m_mint_authority (base mint') = m_mint_authority (base mint) \<or> ty = MintTokens"
    and "m_freeze_authority (base mint') = m_freeze_authority (base mint) \<or> ty = FreezeAccount"
  using assms by (cases ty; auto simp: set_mint_authority_def res_simps Let_def)+

lemma set_mint_authority_bytes:
  assumes "set_mint_authority program_id L a rest ty new mint = Ok mint'" "authority_extension ty \<noteq> Some V"
  shows "get_extension_bytes S V (tlv_data mint') = get_extension_bytes S V (tlv_data mint)"
  using assms
  by (cases ty; auto simp: set_mint_authority_def res_simps Let_def
      dest: authority_field_other [where V = V and S = S])

lemma set_mint_authority_other:
  assumes "set_mint_authority program_id L a rest ty new mint = Ok mint'" "ty' \<noteq> ty"
  shows "mint_authority_of mint' ty' = mint_authority_of mint ty'"
proof (cases "authority_extension ty \<noteq> None \<and> authority_extension ty' = authority_extension ty")
  case False
  then show ?thesis
    using set_mint_authority_base [OF assms(1)] set_mint_authority_bytes [OF assms(1)] assms(2)
    by (intro mint_authority_of_cong) auto
next
  case True
  then consider "ty = TransferFeeConfig" "ty' = WithheldWithdraw" | "ty = WithheldWithdraw" "ty' = TransferFeeConfig"
    using assms(2) by (cases ty; cases ty'; simp)
  then show ?thesis
    using assms(1) by cases (auto simp: set_mint_authority_def mint_authority_of_def res_simps Let_def
        dest: authority_field_same)
qed

section \<open>Properties\<close>

text \<open>
  C9: on a mint, \<open>SetAuthority\<close> is an update of its table of authorities: it succeeds only with the
  signature of the present authority of the given type, it replaces that entry, and it leaves every
  other entry, the supply, the decimals, the initialized flag and every other account as they were.
  In particular an authority that was given up never comes back.
\<close>

theorem set_authority_mint_refines:
  assumes "process_set_authority program_id env (i # a # rest) ty new L = Ok L'"
    and "unpack_mut PodMintB (ac_data (L (ai_key i))) = Ok mint"
  shows "\<exists>mint'. unpack_mut PodMintB (ac_data (L' (ai_key i))) = Ok mint' \<and>
    mint_authority_of mint ty = Some (ai_key a) \<and> owner_signed program_id L a rest \<and>
    mint_authority_of mint' = (mint_authority_of mint)(ty := coption new) \<and>
    m_supply (base mint') = m_supply (base mint) \<and> m_decimals (base mint') = m_decimals (base mint) \<and>
    (\<forall>k. k \<noteq> ai_key i \<longrightarrow> L' k = L k)"
proof -
  have "\<not> is_ok (token_account (ac_data (L (ai_key i))))"
    using unpack_disjoint [OF assms(2)] by (auto simp: is_ok_iff)
  then obtain e where "token_account (ac_data (L (ai_key i))) = Err e"
    by (cases "token_account (ac_data (L (ai_key i)))") auto
  then obtain mint' where m: "set_mint_authority program_id L a rest ty new mint = Ok mint'"
    "L' = set_data (ai_key i) (pack_state PodMintB mint') L"
    using assms by (auto simp: process_set_authority_def Let_def res_simps)
  note s = set_mint_authority_Ok [OF m(1)]
  have "unpack_mut PodMintB (pack_state PodMintB mint') = Ok mint'"
    using assms(2) s(4,5,8) by (intro mint_base.unpack_pack_state [OF assms(2)])
      (auto simp: mint_base.unpack_mut_Ok mint_is_initialized_def)
  then show ?thesis
    using s m(2) set_mint_authority_other [OF m(1)] by (auto simp: fun_eq_iff)
qed

lemma pack_mint_plain [simp]:
  "unpack_mut PodAccountB (enc_mint m) = Err InvalidAccountData"
  by (simp add: unpack_mut_def check_min_len_and_not_multisig_def base_lens)

theorem set_authority_mint_refines_witness:
  "\<exists>L' mint'. process_set_authority token_program_id demo_env [unsigned_key 1, signed_key 30] FreezeAccount
     coption_none demo_ledger = Ok L' \<and> unpack_mut PodMintB (ac_data (L' 1)) = Ok mint' \<and>
     mint_authority_of mint' FreezeAccount = None"
proof -
  obtain L' where l: "process_set_authority token_program_id demo_env [unsigned_key 1, signed_key 30]
      FreezeAccount coption_none demo_ledger = Ok L'"
    by (simp add: process_set_authority_def set_mint_authority_def validate_owner_plain
        coption_ok_or_eq Let_def)
  then show ?thesis
    using set_authority_mint_refines [OF l, of "\<lparr>base = plain_mint 30 150, tlv_data = [], account_type = []\<rparr>"]
    by auto
qed

lemma set_account_authority_Ok:
  assumes "set_account_authority program_id env L a rest ty new account = Ok account'"
  shows "\<not> account_is_frozen (base account)" "owner_signed program_id L a rest"
    and "tlv_data account' = tlv_data account" "account_type account' = account_type account"
    and "a_mint (base account') = a_mint (base account)" "a_amount (base account') = a_amount (base account)"
    and "a_state (base account') = a_state (base account)" "a_is_native (base account') = a_is_native (base account)"
    and "ty = AccountOwner \<and> a_owner (base account) = ai_key a \<and> \<not> cpi_guard_enabled (tlv_data account) \<and>
        \<not> is_ok (get_extension_mut AccountBase ImmutableOwnerX (tlv_data account)) \<and>
        coption new = Some (a_owner (base account')) \<and> a_delegate (base account') = coption_none \<and>
        a_delegated_amount (base account') = 0 \<and>
        a_close_authority (base account') =
          (if account_is_native (base account) then coption_none else a_close_authority (base account)) \<or>
      ty = CloseAccount \<and> coption_unwrap_or (a_close_authority (base account)) (a_owner (base account)) = ai_key a \<and>
        \<not> (cpi_guard_enabled (tlv_data account) \<and> env_in_cpi env \<and> coption_is_some new) \<and>
        a_close_authority (base account') = new \<and> a_owner (base account') = a_owner (base account) \<and>
        a_delegate (base account') = a_delegate (base account) \<and>
        a_delegated_amount (base account') = a_delegated_amount (base account)"
  using assms
  by (cases ty; auto simp: set_account_authority_def res_simps Let_def coption_Some_iff account_is_native_def
      split: if_splits)+

text \<open>
  C10: on a token account, \<open>SetAuthority\<close> changes the owner or the close authority, each only with
  the signature of the present one, never while the account is frozen.  A change of owner is refused
  for an immutable owner or an enabled CPI guard; it clears the delegation and, for a native
  account, the close authority.  Mint, balance and extensions stay.
\<close>

theorem set_authority_account:
  assumes "process_set_authority program_id env (i # a # rest) ty new L = Ok L'"
    and "token_account (ac_data (L (ai_key i))) = Ok account"
  shows "\<exists>account'. token_account (ac_data (L' (ai_key i))) = Ok account' \<and>
    \<not> account_is_frozen (base account) \<and> owner_signed program_id L a rest \<and>
    a_mint (base account') = a_mint (base account) \<and> a_amount (base account') = a_amount (base account) \<and>
    a_state (base account') = a_state (base account) \<and> tlv_data account' = tlv_data account \<and>
    (ty = AccountOwner \<and> a_owner (base account) = ai_key a \<and> \<not> cpi_guard_enabled (tlv_data account) \<and>
        \<not> is_ok (get_extension_mut AccountBase ImmutableOwnerX (tlv_data account)) \<and>
        coption new = Some (a_owner (base account')) \<and> a_delegate (base account') = coption_none \<and>
        a_delegated_amount (base account') = 0 \<and>
        a_close_authority (base account') =
          (if account_is_native (base account) then coption_none else a_close_authority (base account)) \<or>
      ty = CloseAccount \<and> coption_unwrap_or (a_close_authority (base account)) (a_owner (base account)) = ai_key a \<and>
        \<not> (cpi_guard_enabled (tlv_data account) \<and> env_in_cpi env \<and> coption_is_some new) \<and>
        a_close_authority (base account') = new \<and> a_owner (base account') = a_owner (base account) \<and>
        a_delegate (base account') = a_delegate (base account) \<and>
        a_delegated_amount (base account') = a_delegated_amount (base account)) \<and>
    (\<forall>k. k \<noteq> ai_key i \<longrightarrow> L' k = L k)"
proof -
  obtain account' where m: "set_account_authority program_id env L a rest ty new account = Ok account'"
    "L' = set_data (ai_key i) (pack_state PodAccountB account') L"
    using assms by (auto simp: process_set_authority_def Let_def res_simps)
  note s = set_account_authority_Ok [OF m(1)]
  have "token_account (pack_state PodAccountB account') = Ok account'"
    using token_account_initialized [OF assms(2)] s(3,4,7)
    by (intro token_account_write [OF assms(2)]) (simp_all add: account_is_initialized_def)
  then have "token_account (ac_data (L' (ai_key i))) = Ok account'" "\<forall>k. k \<noteq> ai_key i \<longrightarrow> L' k = L k"
    using m(2) by simp_all
  then show ?thesis using s by blast
qed

theorem set_authority_account_witness:
  "\<exists>L' account'. process_set_authority token_program_id demo_env [unsigned_key 10, signed_key 20] AccountOwner
     (coption_some 22) demo_ledger = Ok L' \<and> token_account (ac_data (L' 10)) = Ok account' \<and>
     coption (coption_some 22) = Some (a_owner (base account'))"
proof -
  obtain L' where l: "process_set_authority token_program_id demo_env [unsigned_key 10, signed_key 20] AccountOwner
     (coption_some 22) demo_ledger = Ok L'"
    by (simp add: process_set_authority_def set_account_authority_def validate_owner_plain
        cpi_guard_enabled_def coption_is_some_def coption_some_def Let_def)
  then show ?thesis
    using set_authority_account [OF l, of "\<lparr>base = plain_account 1 20 100, tlv_data = [], account_type = []\<rparr>"]
    by auto
qed

end
