(* ===== verification/Supply.thy ===== *)
theory Supply
  imports Authority
begin

text \<open>
  Minting and burning (\<open>process_mint_to\<close>, \<open>process_burn\<close> of src/program/src/processor.rs): the only two
  handlers on plain accounts that change the supply of a mint.  The section on backing states the
  invariant that ties the supply to the balances.
\<close>

datatype InstructionVariant = UncheckedVariant | CheckedVariant u8

section \<open>Handlers\<close>

definition check_decimals :: "InstructionVariant \<Rightarrow> u8 \<Rightarrow> unit result" where
  "check_decimals instruction_variant mint_decimals = (case instruction_variant of
     CheckedVariant decimals \<Rightarrow> if decimals \<noteq> mint_decimals then TErr MintDecimalsMismatch else Ok ()
   | UncheckedVariant \<Rightarrow> Ok ())"

definition process_mint_to ::
  "pubkey \<Rightarrow> AccountInfo list \<Rightarrow> u64 \<Rightarrow> InstructionVariant \<Rightarrow> ledger \<Rightarrow> ledger result" where
  "process_mint_to program_id accounts amount instruction_variant L =
     and_then (next_account_info accounts) (\<lambda>(mint_info, iter).
     and_then (next_account_info iter) (\<lambda>(destination_account_info, iter).
     and_then (next_account_info iter) (\<lambda>(owner_info, rest).
     and_then (unpack_mut PodAccountB (ac_data (L (ai_key destination_account_info)))) (\<lambda>destination_account.
     if account_is_frozen (base destination_account) then TErr AccountFrozen
     else if account_is_native (base destination_account) then TErr NativeNotSupported
     else if ai_key mint_info \<noteq> a_mint (base destination_account) then TErr MintMismatch
     else
     and_then (borrow_data (ai_key destination_account_info) L mint_info) (\<lambda>mint_data.
     and_then (unpack_mut PodMintB mint_data) (\<lambda>mint.
     if is_ok (get_extension MintBase NonTransferableX (tlv_data mint)) \<and>
        \<not> is_ok (get_extension AccountBase ImmutableOwnerX (tlv_data destination_account))
     then TErr NonTransferableNeedsImmutableOwnership
     else
     and_then (check_not_paused (tlv_data mint)) (\<lambda>_.
     if is_ok (get_extension MintBase ConfidentialMintBurnX (tlv_data mint))
     then TErr IllegalMintBurnConversion
     else
     and_then (check_decimals instruction_variant (m_decimals (base mint))) (\<lambda>_.
     and_then (if coption_is_some (m_mint_authority (base mint))
               then validate_owner program_id L (co_value (m_mint_authority (base mint))) owner_info
                      (data_len L owner_info) rest
               else TErr FixedSupply) (\<lambda>_.
     and_then (check_program_account (ac_owner (L (ai_key mint_info)))) (\<lambda>_.
     and_then (check_program_account (ac_owner (L (ai_key destination_account_info)))) (\<lambda>_.
     and_then (ok_or (checked_add (a_amount (base destination_account)) amount) (token_error Overflow)) (\<lambda>x.
     and_then (ok_or (checked_add (m_supply (base mint)) amount) (token_error Overflow)) (\<lambda>y.
     Ok (set_data (ai_key mint_info) (pack_state PodMintB (mint\<lparr>base := (base mint)\<lparr>m_supply := y\<rparr>\<rparr>))
          (set_data (ai_key destination_account_info) (pack_state PodAccountB
             (destination_account\<lparr>base := (base destination_account)\<lparr>a_amount := x\<rparr>\<rparr>)) L))
     )))))))))))))"

definition burn_authority ::
  "pubkey \<Rightarrow> Env \<Rightarrow> ledger \<Rightarrow> PodAccount PodStateWithExtensionsMut \<Rightarrow> AccountInfo \<Rightarrow> AccountInfo list \<Rightarrow>
     u64 \<Rightarrow> pubkey option \<Rightarrow> PodAccount PodStateWithExtensionsMut result" where
  "burn_authority program_id env L source_account authority_info rest amount maybe_permanent_delegate =
     (let b = base source_account; len = data_len L authority_info
      in if is_owned_by_system_program_or_incinerator (env_ids env) b then Ok source_account
         else if maybe_permanent_delegate = Some (ai_key authority_info)
         then and_then (validate_owner program_id L (ai_key authority_info) authority_info len rest)
                (\<lambda>_. Ok source_account)
         else if coption_is_some (a_delegate b) \<and> co_value (a_delegate b) = ai_key authority_info
         then and_then (validate_owner program_id L (co_value (a_delegate b)) authority_info len rest) (\<lambda>_.
              if a_delegated_amount b < amount then TErr InsufficientFunds
              else and_then (ok_or (checked_sub (a_delegated_amount b) amount) (token_error Overflow))
                     (\<lambda>d. Ok (source_account\<lparr>base := set_delegated_amount b d\<rparr>)))
         else and_then (validate_owner program_id L (a_owner b) authority_info len rest)
                (\<lambda>_. Ok source_account))"

definition process_burn ::
  "pubkey \<Rightarrow> Env \<Rightarrow> AccountInfo list \<Rightarrow> u64 \<Rightarrow> InstructionVariant \<Rightarrow> ledger \<Rightarrow> ledger result" where
  "process_burn program_id env accounts amount instruction_variant L =
     and_then (next_account_info accounts) (\<lambda>(source_account_info, iter).
     and_then (next_account_info iter) (\<lambda>(mint_info, iter).
     and_then (next_account_info iter) (\<lambda>(authority_info, rest).
     and_then (unpack_mut PodAccountB (ac_data (L (ai_key source_account_info)))) (\<lambda>source_account.
     and_then (borrow_data (ai_key source_account_info) L mint_info) (\<lambda>mint_data.
     and_then (unpack_mut PodMintB mint_data) (\<lambda>mint.
     if account_is_frozen (base source_account) then TErr AccountFrozen
     else if account_is_native (base source_account) then TErr NativeNotSupported
     else if a_amount (base source_account) < amount then TErr InsufficientFunds
     else if ai_key mint_info \<noteq> a_mint (base source_account) then TErr MintMismatch
     else
     and_then (check_decimals instruction_variant (m_decimals (base mint))) (\<lambda>_.
     and_then (check_not_paused (tlv_data mint)) (\<lambda>_.
     if ai_key authority_info = a_owner (base source_account) \<and>
        cpi_guard_enabled (tlv_data source_account) \<and> env_in_cpi env
     then TErr CpiGuardBurnBlocked
     else
     and_then (burn_authority program_id env L source_account authority_info rest amount
       (get_permanent_delegate MintBase (tlv_data mint))) (\<lambda>source_account.
     and_then (check_program_account (ac_owner (L (ai_key source_account_info)))) (\<lambda>_.
     and_then (check_program_account (ac_owner (L (ai_key mint_info)))) (\<lambda>_.
     and_then (ok_or (checked_sub (a_amount (base source_account)) amount) (token_error Overflow)) (\<lambda>x.
     and_then (ok_or (checked_sub (m_supply (base mint)) amount) (token_error Overflow)) (\<lambda>y.
     Ok (set_data (ai_key mint_info) (pack_state PodMintB (mint\<lparr>base := (base mint)\<lparr>m_supply := y\<rparr>\<rparr>))
          (set_data (ai_key source_account_info) (pack_state PodAccountB
             (source_account\<lparr>base := (base source_account)\<lparr>a_amount := x\<rparr>\<rparr>)) L))
     )))))))))))))"

section \<open>What they do\<close>

abbreviation token_mint :: "bytes \<Rightarrow> PodMint PodStateWithExtensionsMut result" where
  "token_mint \<equiv> unpack_mut PodMintB"

lemma token_mint_write:
  assumes "token_mint d = Ok st" "mint_is_initialized (base st')"
    "account_type st' = account_type st" "length (tlv_data st') = length (tlv_data st)"
  shows "token_mint (pack_state PodMintB st') = Ok st'" "length (pack_state PodMintB st') = length d"
  using mint_base.unpack_pack_state [OF assms(1) _ assms(3,4)] assms(2) by simp_all

lemma token_mint_initialized: "token_mint d = Ok st \<Longrightarrow> mint_is_initialized (base st)"
  unfolding mint_base.unpack_mut_Ok by simp

lemma mint_is_initialized_upd [simp]:
  "mint_is_initialized (b\<lparr>m_supply := x\<rparr>) = mint_is_initialized b"
  "mint_is_initialized (b\<lparr>m_mint_authority := y\<rparr>) = mint_is_initialized b"
  "mint_is_initialized (b\<lparr>m_freeze_authority := y\<rparr>) = mint_is_initialized b"
  by (simp_all add: mint_is_initialized_def)

lemma write_mint_account:
  assumes "token_account (ac_data (L d)) = Ok dst" "token_mint (ac_data (L m)) = Ok mint" "d \<noteq> m"
    and "L' = set_data m (pack_state PodMintB (mint\<lparr>base := (base mint)\<lparr>m_supply := y\<rparr>\<rparr>))
          (set_data d (pack_state PodAccountB st') L)"
    and "same_identity (base dst) (base st')" "account_type st' = account_type dst" "tlv_data st' = tlv_data dst"
  shows "token_account (ac_data (L' d)) = Ok st'"
    "token_mint (ac_data (L' m)) = Ok (mint\<lparr>base := (base mint)\<lparr>m_supply := y\<rparr>\<rparr>)"
    "\<And>k. k \<noteq> d \<Longrightarrow> k \<noteq> m \<Longrightarrow> L' k = L k"
proof -
  have "token_account (pack_state PodAccountB st') = Ok st'"
    using token_account_initialized [OF assms(1)] assms(5-7)
    by (intro token_account_write [OF assms(1)]) (simp_all add: same_identityD(1) [OF assms(5)])
  moreover have "token_mint (pack_state PodMintB (mint\<lparr>base := (base mint)\<lparr>m_supply := y\<rparr>\<rparr>)) =
      Ok (mint\<lparr>base := (base mint)\<lparr>m_supply := y\<rparr>\<rparr>)"
    using token_mint_initialized [OF assms(2)] by (intro token_mint_write [OF assms(2)]) simp_all
  ultimately show "token_account (ac_data (L' d)) = Ok st'"
    "token_mint (ac_data (L' m)) = Ok (mint\<lparr>base := (base mint)\<lparr>m_supply := y\<rparr>\<rparr>)"
    "\<And>k. k \<noteq> d \<Longrightarrow> k \<noteq> m \<Longrightarrow> L' k = L k"
    using assms(3,4) by simp_all
qed

lemma same_identity_fields:
  "same_identity b b' \<Longrightarrow> b' = b\<lparr>a_amount := a_amount b', a_delegate := a_delegate b', a_delegated_amount := a_delegated_amount b'\<rparr>"
  by (cases b; cases b') (simp add: same_identity_def)

lemma process_mint_to_effect:
  assumes "process_mint_to program_id (m # d # ow # rest) amount variant L = Ok L'"
  obtains dst mint dst' mint' where
    "token_account (ac_data (L (ai_key d))) = Ok dst" "token_mint (ac_data (L (ai_key m))) = Ok mint"
    "token_account (ac_data (L' (ai_key d))) = Ok dst'" "token_mint (ac_data (L' (ai_key m))) = Ok mint'"
    "ai_key d \<noteq> ai_key m" "a_mint (base dst) = ai_key m"
    "\<not> account_is_frozen (base dst)" "\<not> account_is_native (base dst)" "check_not_paused (tlv_data mint) = Ok ()"
    "coption (m_mint_authority (base mint)) = Some (ai_key ow)" "owner_signed program_id L ow rest"
    "same_identity (base dst) (base dst')" "tlv_data dst' = tlv_data dst" "tlv_data mint' = tlv_data mint"
    "unat (a_amount (base dst')) = unat (a_amount (base dst)) + unat amount"
    "base dst' = (base dst)\<lparr>a_amount := a_amount (base dst')\<rparr>"
    "\<And>k. ac_lamports (L' k) = ac_lamports (L k) \<and> ac_owner (L' k) = ac_owner (L k)"
    "base mint' = (base mint)\<lparr>m_supply := m_supply (base mint')\<rparr>"
    "unat (m_supply (base mint')) = unat (m_supply (base mint)) + unat amount"
    "\<And>k. k \<noteq> ai_key d \<Longrightarrow> k \<noteq> ai_key m \<Longrightarrow> L' k = L k"
proof -
  obtain dst mint x y where
    h: "token_account (ac_data (L (ai_key d))) = Ok dst" "token_mint (ac_data (L (ai_key m))) = Ok mint"
      "ai_key m \<noteq> ai_key d" "ai_key m = a_mint (base dst)" "check_not_paused (tlv_data mint) = Ok ()"
      "\<not> account_is_frozen (base dst)" "\<not> account_is_native (base dst)"
      "coption_is_some (m_mint_authority (base mint))" "co_value (m_mint_authority (base mint)) = ai_key ow"
      "owner_signed program_id L ow rest"
      "checked_add (a_amount (base dst)) amount = Some x" "checked_add (m_supply (base mint)) amount = Some y"
    and L': "set_data (ai_key m) (pack_state PodMintB (mint\<lparr>base := (base mint)\<lparr>m_supply := y\<rparr>\<rparr>))
          (set_data (ai_key d) (pack_state PodAccountB (dst\<lparr>base := (base dst)\<lparr>a_amount := x\<rparr>\<rparr>)) L) = L'"
    using assms by (simp add: process_mint_to_def res_simps) (elim exE conjE, rule that, assumption+)
  let ?st' = "dst\<lparr>base := (base dst)\<lparr>a_amount := x\<rparr>\<rparr>"
  have i: "same_identity (base dst) (base ?st')" by (simp add: same_identity_def)
  note w = write_mint_account [OF h(1,2) h(3) [symmetric] L' [symmetric] i]
  show ?thesis
    by (rule that [OF h(1,2) w(1,2)])
      (use h w(3) checked_add_unat [OF h(11)] checked_add_unat [OF h(12)] L' in
        \<open>auto simp: coption_Some_iff same_identity_def\<close>)
qed

text \<open>Who may burn: like a transfer, and anybody for accounts owned by the system program or the incinerator.\<close>

definition may_burn ::
  "pubkey \<Rightarrow> Env \<Rightarrow> ledger \<Rightarrow> PodAccount \<Rightarrow> AccountInfo \<Rightarrow> AccountInfo list \<Rightarrow> u64 \<Rightarrow> pubkey option \<Rightarrow> bool" where
  "may_burn program_id env L b a rest amount pd \<longleftrightarrow>
     is_owned_by_system_program_or_incinerator (env_ids env) b \<or> may_transfer program_id L b a rest amount pd"

definition burn_allowance_used ::
  "Env \<Rightarrow> PodAccount \<Rightarrow> PodAccount \<Rightarrow> pubkey \<Rightarrow> u64 \<Rightarrow> pubkey option \<Rightarrow> bool" where
  "burn_allowance_used env b b' k amount pd \<longleftrightarrow>
     (if is_owned_by_system_program_or_incinerator (env_ids env) b
      then a_delegate b' = a_delegate b \<and> a_delegated_amount b' = a_delegated_amount b
      else allowance_used b b' k amount pd)"

lemma burn_authority_allowance:
  assumes "burn_authority program_id env L src a rest amount pd = Ok src1"
  shows "burn_allowance_used env (base src) ((base src1)\<lparr>a_amount := x\<rparr>) (ai_key a) amount pd"
  using assms
  by (auto simp: burn_authority_def burn_allowance_used_def allowance_used_def Let_def res_simps coption_Some_iff
      not_less split: if_splits dest: checked_sub_unat)

lemma burn_authority_Ok:
  assumes "burn_authority program_id env L src a rest amount pd = Ok src1"
  shows "may_burn program_id env L (base src) a rest amount pd"
    and "tlv_data src1 = tlv_data src" "account_type src1 = account_type src"
    and "same_identity (base src) (base src1) \<and> a_amount (base src1) = a_amount (base src)"
proof -
  show "may_burn program_id env L (base src) a rest amount pd"
    using assms by (auto simp: burn_authority_def may_burn_def may_transfer_def Let_def res_simps
        coption_Some_iff not_less split: if_splits)
qed (use assms in \<open>auto simp: burn_authority_def Let_def res_simps split: if_splits\<close>)

lemma process_burn_effect:
  assumes "process_burn program_id env (s # m # a # rest) amount variant L = Ok L'"
  obtains src mint src' mint' where
    "token_account (ac_data (L (ai_key s))) = Ok src" "token_mint (ac_data (L (ai_key m))) = Ok mint"
    "token_account (ac_data (L' (ai_key s))) = Ok src'" "token_mint (ac_data (L' (ai_key m))) = Ok mint'"
    "ai_key s \<noteq> ai_key m" "a_mint (base src) = ai_key m"
    "\<not> account_is_frozen (base src)" "\<not> account_is_native (base src)" "check_not_paused (tlv_data mint) = Ok ()"
    "may_burn program_id env L (base src) a rest amount (get_permanent_delegate MintBase (tlv_data mint))"
    "\<not> (ai_key a = a_owner (base src) \<and> cpi_guard_enabled (tlv_data src) \<and> env_in_cpi env)"
    "same_identity (base src) (base src')" "tlv_data src' = tlv_data src" "tlv_data mint' = tlv_data mint"
    "base src' = (base src)\<lparr>a_amount := a_amount (base src'), a_delegate := a_delegate (base src'),
      a_delegated_amount := a_delegated_amount (base src')\<rparr>"
    "\<And>k. ac_lamports (L' k) = ac_lamports (L k) \<and> ac_owner (L' k) = ac_owner (L k)"
    "unat (a_amount (base src')) + unat amount = unat (a_amount (base src))"
    "base mint' = (base mint)\<lparr>m_supply := m_supply (base mint')\<rparr>"
    "unat (m_supply (base mint')) + unat amount = unat (m_supply (base mint))"
    "burn_allowance_used env (base src) (base src') (ai_key a) amount (get_permanent_delegate MintBase (tlv_data mint))"
    "\<And>k. k \<noteq> ai_key s \<Longrightarrow> k \<noteq> ai_key m \<Longrightarrow> L' k = L k"
proof -
  obtain src mint src1 x y where
    h: "token_account (ac_data (L (ai_key s))) = Ok src" "token_mint (ac_data (L (ai_key m))) = Ok mint"
      "ai_key m \<noteq> ai_key s" "ai_key m = a_mint (base src)" "check_not_paused (tlv_data mint) = Ok ()"
      "\<not> account_is_frozen (base src)" "\<not> account_is_native (base src)"
      "cpi_guard_enabled (tlv_data src) \<longrightarrow> ai_key a = a_owner (base src) \<longrightarrow> \<not> env_in_cpi env"
      "burn_authority program_id env L src a rest amount (get_permanent_delegate MintBase (tlv_data mint)) = Ok src1"
      "checked_sub (a_amount (base src1)) amount = Some x" "checked_sub (m_supply (base mint)) amount = Some y"
    and L': "set_data (ai_key m) (pack_state PodMintB (mint\<lparr>base := (base mint)\<lparr>m_supply := y\<rparr>\<rparr>))
          (set_data (ai_key s) (pack_state PodAccountB (src1\<lparr>base := (base src1)\<lparr>a_amount := x\<rparr>\<rparr>)) L) = L'"
    using assms by (simp add: process_burn_def res_simps) (elim exE conjE, rule that, assumption+)
  let ?st' = "src1\<lparr>base := (base src1)\<lparr>a_amount := x\<rparr>\<rparr>"
  note b = burn_authority_Ok [OF h(9)]
  have i: "same_identity (base src) (base ?st')" using b(4) by (simp add: same_identity_def)
  note w = write_mint_account [OF h(1,2) h(3) [symmetric] L' [symmetric] i]
  have lo: "ac_lamports (L' k) = ac_lamports (L k) \<and> ac_owner (L' k) = ac_owner (L k)" for k
    unfolding L' [symmetric] by simp
  show ?thesis
    by (rule that [OF h(1,2) w(1,2)])
      (use h(3-8) b w(3) i lo same_identity_fields [OF i] checked_sub_unat [OF h(10)] checked_sub_unat [OF h(11)] burn_authority_allowance [OF h(9), where x = x] in auto)
qed

section \<open>The supply is backed\<close>

definition mint_withheld :: "bytes \<Rightarrow> nat" where
  "mint_withheld tlv = (case get_extension MintBase TransferFeeConfigX tlv of
     Ok e \<Rightarrow> unat (tfc_withheld_amount e) | Err _ \<Rightarrow> 0)"

text \<open>
  The accounts in \<open>A\<close> are the token accounts of the program.  The supply of a mint is the sum of the
  balances and withheld fees of its accounts and of the fees withheld on the mint.
\<close>

definition backed :: "pubkey \<Rightarrow> pubkey set \<Rightarrow> ledger \<Rightarrow> bool" where
  "backed mint A L \<longleftrightarrow> (\<exists>st. token_mint (ac_data (L mint)) = Ok st \<and>
     unat (m_supply (base st)) = total_holdings mint A L + mint_withheld (tlv_data st))"

lemma total_holdings_add:
  assumes "finite A" "d \<in> A" "\<And>k. k \<in> A \<Longrightarrow> k \<noteq> d \<Longrightarrow> ac_data (L' k) = ac_data (L k)"
  shows "total_holdings mint A L' + holdings mint (ac_data (L d)) =
    total_holdings mint A L + holdings mint (ac_data (L' d))"
proof -
  have "(\<Sum>k\<in>A - {d}. holdings mint (ac_data (L' k))) = (\<Sum>k\<in>A - {d}. holdings mint (ac_data (L k)))"
    using assms(3) by (intro sum.cong) auto
  then show ?thesis
    unfolding total_holdings_def
    using sum.remove [OF assms(1,2), of "\<lambda>k. holdings mint (ac_data (L' k))"]
      sum.remove [OF assms(1,2), of "\<lambda>k. holdings mint (ac_data (L k))"] by simp
qed

text \<open>A mint is no token account, so it holds nothing and never is among the accounts.\<close>

lemma holdings_mint: "token_mint d = Ok st \<Longrightarrow> holdings mint d = 0"
proof -
  assume "token_mint d = Ok st"
  then have "\<nexists>a. token_account d = Ok a" using unpack_disjoint by blast
  then show ?thesis by (cases "token_account d") (auto simp: holdings_def)
qed

lemma total_holdings_step:
  assumes "finite A" "d \<in> A" "d \<noteq> m"
    and "token_mint (ac_data (L m)) = Ok st" "token_mint (ac_data (L' m)) = Ok st'"
    and "\<And>k. k \<noteq> d \<Longrightarrow> k \<noteq> m \<Longrightarrow> L' k = L k"
  shows "total_holdings mint A L' + holdings mint (ac_data (L d)) =
    total_holdings mint A L + holdings mint (ac_data (L' d))"
proof -
  have "total_holdings mint (A - {m}) L'' = total_holdings mint A L''" if "holdings mint (ac_data (L'' m)) = 0" for L''
    using that assms(1) unfolding total_holdings_def
    by (cases "m \<in> A") (simp_all add: sum.remove [of A m])
  moreover have "total_holdings mint (A - {m}) L' + holdings mint (ac_data (L d)) =
    total_holdings mint (A - {m}) L + holdings mint (ac_data (L' d))"
    using assms(1-3,6) by (intro total_holdings_add) auto
  ultimately show ?thesis
    using holdings_mint [OF assms(4)] holdings_mint [OF assms(5)] by simp
qed

section \<open>Properties\<close>

lemma mint_holdings:
  assumes "token_account (ac_data d) = Ok st" "token_account (ac_data d') = Ok st'"
    and "same_identity (base st) (base st')" "tlv_data st' = tlv_data st" "a_mint (base st) = m"
  shows "holdings m (ac_data d') + unat (a_amount (base st)) =
    holdings m (ac_data d) + unat (a_amount (base st'))"
  using assms by (simp add: holdings_def state_holdings_def same_identity_def)

lemma backed_step:
  assumes "backed m A L" "finite A" "d \<in> A" "d \<noteq> m"
    and "token_account (ac_data (L d)) = Ok dst" "token_account (ac_data (L' d)) = Ok dst'"
    and "token_mint (ac_data (L m)) = Ok mint" "token_mint (ac_data (L' m)) = Ok mint'"
    and "same_identity (base dst) (base dst')" "tlv_data dst' = tlv_data dst" "tlv_data mint' = tlv_data mint"
    and "a_mint (base dst) = m" "\<And>k. k \<noteq> d \<Longrightarrow> k \<noteq> m \<Longrightarrow> L' k = L k"
    and "unat (m_supply (base mint')) + unat (a_amount (base dst)) =
      unat (m_supply (base mint)) + unat (a_amount (base dst'))"
  shows "backed m A L'"
proof -
  have "unat (m_supply (base mint)) = total_holdings m A L + mint_withheld (tlv_data mint)"
    using assms(1,7) by (auto simp: backed_def)
  moreover have "total_holdings m A L' + holdings m (ac_data (L d)) = total_holdings m A L + holdings m (ac_data (L' d))"
    by (rule total_holdings_step [where L = L and L' = L' and m = m, OF assms(2-4,7,8,13)])
  moreover have "holdings m (ac_data (L' d)) + unat (a_amount (base dst)) =
      holdings m (ac_data (L d)) + unat (a_amount (base dst'))"
    by (rule mint_holdings [OF assms(5,6,9,10,12)])
  ultimately have "unat (m_supply (base mint')) = total_holdings m A L' + mint_withheld (tlv_data mint')"
    using assms(11,14) by simp
  then show ?thesis using assms(8) by (auto simp: backed_def)
qed

text \<open>
  C7: minting raises the supply and the balance of the destination by the amount, without overflow.
  It needs the signature of the mint authority, so a mint without one has a fixed supply; the
  destination is an account of that mint, not frozen and not native, and the mint is not paused.
  Nothing else changes: the balance is the only field of the destination and the supply the only field of the mint
  that differ, their extensions and lamports stay, and so does every other account.
\<close>

theorem mint_to_correct:
  assumes "process_mint_to program_id (m # d # ow # rest) amount variant L = Ok L'"
  shows "\<exists>dst mint dst' mint'.
    token_account (ac_data (L (ai_key d))) = Ok dst \<and> token_mint (ac_data (L (ai_key m))) = Ok mint \<and>
    token_account (ac_data (L' (ai_key d))) = Ok dst' \<and> token_mint (ac_data (L' (ai_key m))) = Ok mint' \<and>
    a_mint (base dst) = ai_key m \<and> \<not> account_is_frozen (base dst) \<and> \<not> account_is_native (base dst) \<and>
    check_not_paused (tlv_data mint) = Ok () \<and>
    coption (m_mint_authority (base mint)) = Some (ai_key ow) \<and> owner_signed program_id L ow rest \<and>
    base dst' = (base dst)\<lparr>a_amount := a_amount (base dst')\<rparr> \<and> tlv_data dst' = tlv_data dst \<and>
    base mint' = (base mint)\<lparr>m_supply := m_supply (base mint')\<rparr> \<and> tlv_data mint' = tlv_data mint \<and>
    unat (a_amount (base dst')) = unat (a_amount (base dst)) + unat amount \<and>
    unat (m_supply (base mint')) = unat (m_supply (base mint)) + unat amount \<and>
    (\<forall>k. ac_lamports (L' k) = ac_lamports (L k) \<and> ac_owner (L' k) = ac_owner (L k)) \<and>
    (\<forall>k. k \<noteq> ai_key d \<and> k \<noteq> ai_key m \<longrightarrow> L' k = L k)"
  by (rule process_mint_to_effect [OF assms], intro exI conjI) (assumption | force)+

text \<open>
  C8: burning lowers the supply and the balance of the source by the amount.  The owner, a delegate with
  enough allowance or the permanent delegate must sign, except that anybody may burn the tokens of
  an account owned by the system program or the incinerator.  What a delegate burns is taken off the
  allowance, and the delegation ends when nothing of it is left.  Nothing else changes: of the source only the
  balance and the delegation, of the mint only the supply, no extension, no lamports, and no other account.
\<close>

theorem burn_correct:
  assumes "process_burn program_id env (s # m # a # rest) amount variant L = Ok L'"
  shows "\<exists>src mint src' mint'.
    token_account (ac_data (L (ai_key s))) = Ok src \<and> token_mint (ac_data (L (ai_key m))) = Ok mint \<and>
    token_account (ac_data (L' (ai_key s))) = Ok src' \<and> token_mint (ac_data (L' (ai_key m))) = Ok mint' \<and>
    a_mint (base src) = ai_key m \<and> \<not> account_is_frozen (base src) \<and> \<not> account_is_native (base src) \<and>
    check_not_paused (tlv_data mint) = Ok () \<and>
    may_burn program_id env L (base src) a rest amount (get_permanent_delegate MintBase (tlv_data mint)) \<and>
    \<not> (ai_key a = a_owner (base src) \<and> cpi_guard_enabled (tlv_data src) \<and> env_in_cpi env) \<and>
    base src' = (base src)\<lparr>a_amount := a_amount (base src'), a_delegate := a_delegate (base src'),
      a_delegated_amount := a_delegated_amount (base src')\<rparr> \<and> tlv_data src' = tlv_data src \<and>
    base mint' = (base mint)\<lparr>m_supply := m_supply (base mint')\<rparr> \<and> tlv_data mint' = tlv_data mint \<and>
    (\<forall>k. ac_lamports (L' k) = ac_lamports (L k) \<and> ac_owner (L' k) = ac_owner (L k)) \<and>
    unat (a_amount (base src')) + unat amount = unat (a_amount (base src)) \<and>
    unat (m_supply (base mint')) + unat amount = unat (m_supply (base mint)) \<and>
    burn_allowance_used env (base src) (base src') (ai_key a) amount
      (get_permanent_delegate MintBase (tlv_data mint)) \<and>
    (\<forall>k. k \<noteq> ai_key s \<and> k \<noteq> ai_key m \<longrightarrow> L' k = L k)"
  by (rule process_burn_effect [OF assms], intro exI conjI) (assumption | force)+

lemma demo_mint_to:
  "\<exists>L'. process_mint_to token_program_id [unsigned_key 1, unsigned_key 11, signed_key 30] 7 (CheckedVariant 2) demo_ledger = Ok L'"
  by (simp add: process_mint_to_def borrow_data_def check_not_paused_def check_decimals_def
      validate_owner_plain coption_some_def coption_is_some_def check_program_account_def checked_add_def)

lemma demo_burn:
  "\<exists>L'. process_burn token_program_id demo_env [unsigned_key 11, unsigned_key 1, signed_key 21] 7 UncheckedVariant demo_ledger = Ok L'"
  by (simp add: process_burn_def burn_authority_def borrow_data_def check_not_paused_def check_decimals_def
      validate_owner_plain coption_none_def coption_is_some_def check_program_account_def checked_sub_def
      word_less_nat_alt word_le_nat_alt get_permanent_delegate_def demo_env_def
      is_owned_by_system_program_or_incinerator_def cpi_guard_enabled_def Let_def)

theorem mint_to_correct_witness:
  "\<exists>L' mint'. process_mint_to token_program_id [unsigned_key 1, unsigned_key 11, signed_key 30] 7 (CheckedVariant 2)
     demo_ledger = Ok L' \<and> token_mint (ac_data (L' 1)) = Ok mint' \<and> unat (m_supply (base mint')) = 157"
proof -
  obtain L' where l: "process_mint_to token_program_id [unsigned_key 1, unsigned_key 11, signed_key 30] 7
      (CheckedVariant 2) demo_ledger = Ok L'" using demo_mint_to by blast
  then show ?thesis using mint_to_correct [OF l] by auto
qed

theorem burn_correct_witness:
  "\<exists>L' mint'. process_burn token_program_id demo_env [unsigned_key 11, unsigned_key 1, signed_key 21] 7 UncheckedVariant
     demo_ledger = Ok L' \<and> token_mint (ac_data (L' 1)) = Ok mint' \<and> unat (m_supply (base mint')) + 7 = 150"
proof -
  obtain L' where l: "process_burn token_program_id demo_env [unsigned_key 11, unsigned_key 1, signed_key 21] 7
      UncheckedVariant demo_ledger = Ok L'" using demo_burn by blast
  then show ?thesis using burn_correct [OF l] by auto
qed

lemma process_mint_to_backed:
  assumes "process_mint_to program_id (m # d # ow # rest) amount variant L = Ok L'"
    and "backed (ai_key m) A L" "finite A" "ai_key d \<in> A"
  shows "backed (ai_key m) A L'"
  by (rule process_mint_to_effect [OF assms(1)], rule backed_step [OF assms(2-4)]) (assumption | force)+

lemma process_burn_backed:
  assumes "process_burn program_id env (s # m # a # rest) amount variant L = Ok L'"
    and "backed (ai_key m) A L" "finite A" "ai_key s \<in> A"
  shows "backed (ai_key m) A L'"
  by (rule process_burn_effect [OF assms(1)], rule backed_step [OF assms(2-4)]) (assumption | force)+

end
