(* ===== verification/Lifecycle.thy ===== *)
theory Lifecycle
  imports Supply
begin

text \<open>
  The rest of an account's life after it was initialized (src/program/src/processor.rs): closing,
  freezing and thawing, synchronizing a native account with its lamports, and withdrawing lamports
  beyond the rent reserve; approving and revoking a delegate.
\<close>

section \<open>Delegation\<close>

definition process_approve ::
  "pubkey \<Rightarrow> Env \<Rightarrow> AccountInfo list \<Rightarrow> u64 \<Rightarrow> InstructionVariant \<Rightarrow> ledger \<Rightarrow> ledger result" where
  "process_approve program_id env accounts amount instruction_variant L =
     and_then (next_account_info accounts) (\<lambda>(source_account_info, iter).
     and_then (case instruction_variant of
                 CheckedVariant decimals \<Rightarrow>
                   and_then (next_account_info iter) (\<lambda>(m, iter). Ok (Some (m, decimals), iter))
               | UncheckedVariant \<Rightarrow> Ok (None, iter)) (\<lambda>(expected_mint_info, iter).
     and_then (next_account_info iter) (\<lambda>(delegate_info, iter).
     and_then (next_account_info iter) (\<lambda>(owner_info, rest).
     and_then (unpack_mut PodAccountB (ac_data (L (ai_key source_account_info)))) (\<lambda>source_account.
     if account_is_frozen (base source_account) then TErr AccountFrozen
     else
     and_then (case expected_mint_info of
                 Some (mint_info, expected_decimals) \<Rightarrow>
                   if a_mint (base source_account) \<noteq> ai_key mint_info then TErr MintMismatch
                   else and_then (borrow_data (ai_key source_account_info) L mint_info) (\<lambda>mint_data.
                        and_then (unpack PodMintB mint_data) (\<lambda>mint.
                        if expected_decimals \<noteq> m_decimals (base mint) then TErr MintDecimalsMismatch
                        else Ok ()))
               | None \<Rightarrow> Ok ()) (\<lambda>_.
     and_then (validate_owner program_id L (a_owner (base source_account)) owner_info
       (data_len L owner_info) rest) (\<lambda>_.
     if cpi_guard_enabled (tlv_data source_account) \<and> env_in_cpi env then TErr CpiGuardApproveBlocked
     else Ok (set_data (ai_key source_account_info) (pack_state PodAccountB
       (source_account\<lparr>base := (base source_account)\<lparr>a_delegate := coption_some (ai_key delegate_info),
          a_delegated_amount := amount\<rparr>\<rparr>)) L))))))))"

definition process_revoke :: "pubkey \<Rightarrow> AccountInfo list \<Rightarrow> ledger \<Rightarrow> ledger result" where
  "process_revoke program_id accounts L =
     and_then (next_account_info accounts) (\<lambda>(source_account_info, iter).
     and_then (next_account_info iter) (\<lambda>(authority_info, rest).
     and_then (unpack_mut PodAccountB (ac_data (L (ai_key source_account_info)))) (\<lambda>source_account.
     let b = base source_account
     in if account_is_frozen b then TErr AccountFrozen
        else and_then (validate_owner program_id L
               (if coption_is_some (a_delegate b) \<and> ai_key authority_info = co_value (a_delegate b)
                then co_value (a_delegate b) else a_owner b)
               authority_info (data_len L authority_info) rest) (\<lambda>_.
             Ok (set_data (ai_key source_account_info) (pack_state PodAccountB
               (source_account\<lparr>base := b\<lparr>a_delegate := coption_none, a_delegated_amount := 0\<rparr>\<rparr>)) L)))))"

section \<open>Closing\<close>

definition delete_account :: "Env \<Rightarrow> pubkey \<Rightarrow> ledger \<Rightarrow> ledger" where
  "delete_account env k L =
     L(k := (L k)\<lparr>ac_data := [], ac_owner := system_program_id (env_ids env)\<rparr>)"

text \<open>May this account be closed by this authority?  Mints need a close authority and no supply.\<close>

definition close_account_checks ::
  "pubkey \<Rightarrow> Env \<Rightarrow> ledger \<Rightarrow> AccountInfo \<Rightarrow> AccountInfo \<Rightarrow> AccountInfo list \<Rightarrow>
     PodAccount PodStateWithExtensions \<Rightarrow> unit result" where
  "close_account_checks program_id env L destination_account_info authority_info rest source_account =
     (let b = base source_account; tlv = tlv_data source_account;
          authority = coption_unwrap_or (a_close_authority b) (a_owner b)
      in if \<not> account_is_native b \<and> a_amount b \<noteq> 0 then TErr NonNativeHasBalance
         else
         and_then (if \<not> is_owned_by_system_program_or_incinerator (env_ids env) b
                   then if cpi_guard_enabled tlv \<and> env_in_cpi env \<and> ai_key destination_account_info \<noteq> a_owner b
                        then TErr CpiGuardCloseAccountBlocked
                        else validate_owner program_id L authority authority_info (data_len L authority_info) rest
                   else if ai_key destination_account_info \<noteq> incinerator_id (env_ids env)
                   then Err InvalidAccountData else Ok ()) (\<lambda>_.
         and_then (case get_extension AccountBase ConfidentialTransferAccountX tlv of
                     Ok e \<Rightarrow> cta_closable e | Err _ \<Rightarrow> Ok ()) (\<lambda>_.
         and_then (case get_extension AccountBase ConfidentialTransferFeeAmountX tlv of
                     Ok e \<Rightarrow> cfa_closable e | Err _ \<Rightarrow> Ok ()) (\<lambda>_.
         (case get_extension AccountBase TransferFeeAmountX tlv of
            Ok e \<Rightarrow> transfer_fee_amount_closable e | Err _ \<Rightarrow> Ok ())))))"

definition close_mint_checks ::
  "pubkey \<Rightarrow> ledger \<Rightarrow> AccountInfo \<Rightarrow> AccountInfo list \<Rightarrow> PodMint PodStateWithExtensions \<Rightarrow> unit result" where
  "close_mint_checks program_id L authority_info rest mint =
     and_then (get_extension MintBase MintCloseAuthorityX (tlv_data mint)) (\<lambda>e.
     and_then (ok_or (opt_key (mca_close_authority e)) (token_error AuthorityTypeNotSupported)) (\<lambda>authority.
     and_then (validate_owner program_id L authority authority_info (data_len L authority_info) rest) (\<lambda>_.
     if m_supply (base mint) \<noteq> 0 then TErr MintHasSupply else Ok ())))"

definition process_close_account ::
  "pubkey \<Rightarrow> Env \<Rightarrow> AccountInfo list \<Rightarrow> ledger \<Rightarrow> ledger result" where
  "process_close_account program_id env accounts L =
     and_then (next_account_info accounts) (\<lambda>(source_account_info, iter).
     and_then (next_account_info iter) (\<lambda>(destination_account_info, iter).
     and_then (next_account_info iter) (\<lambda>(authority_info, rest).
     if ai_key source_account_info = ai_key destination_account_info then Err InvalidAccountData
     else
     let d = ac_data (L (ai_key source_account_info))
     in and_then (case unpack PodAccountB d of
          Ok source_account \<Rightarrow>
            close_account_checks program_id env L destination_account_info authority_info rest source_account
        | Err _ \<Rightarrow>
            (case unpack PodMintB d of
               Ok mint \<Rightarrow> close_mint_checks program_id L authority_info rest mint
             | Err _ \<Rightarrow> Err UninitializedAccount)) (\<lambda>_.
     and_then (ok_or (checked_add (ac_lamports (L (ai_key destination_account_info)))
       (ac_lamports (L (ai_key source_account_info)))) (token_error Overflow)) (\<lambda>dl.
     Ok (delete_account env (ai_key source_account_info)
          (set_lamports (ai_key source_account_info) 0
             (set_lamports (ai_key destination_account_info) dl L))))))))"

section \<open>Freezing\<close>

definition process_toggle_freeze_account ::
  "pubkey \<Rightarrow> AccountInfo list \<Rightarrow> bool \<Rightarrow> ledger \<Rightarrow> ledger result" where
  "process_toggle_freeze_account program_id accounts freeze L =
     and_then (next_account_info accounts) (\<lambda>(source_account_info, iter).
     and_then (next_account_info iter) (\<lambda>(mint_info, iter).
     and_then (next_account_info iter) (\<lambda>(authority_info, rest).
     and_then (unpack_mut PodAccountB (ac_data (L (ai_key source_account_info)))) (\<lambda>source_account.
     if freeze \<and> account_is_frozen (base source_account) \<or> \<not> freeze \<and> \<not> account_is_frozen (base source_account)
     then TErr InvalidState
     else if account_is_native (base source_account) then TErr NativeNotSupported
     else if ai_key mint_info \<noteq> a_mint (base source_account) then TErr MintMismatch
     else
     and_then (borrow_data (ai_key source_account_info) L mint_info) (\<lambda>mint_data.
     and_then (unpack PodMintB mint_data) (\<lambda>mint.
     and_then (if coption_is_some (m_freeze_authority (base mint))
               then validate_owner program_id L (co_value (m_freeze_authority (base mint))) authority_info
                      (data_len L authority_info) rest
               else TErr MintCannotFreeze) (\<lambda>_.
     Ok (set_data (ai_key source_account_info) (pack_state PodAccountB
       (source_account\<lparr>base := (base source_account)\<lparr>a_state :=
          account_state_code (if freeze then Frozen else Initialized)\<rparr>\<rparr>)) L))))))))"

section \<open>Lamports\<close>

definition process_sync_native :: "AccountInfo list \<Rightarrow> ledger \<Rightarrow> ledger result" where
  "process_sync_native accounts L =
     and_then (next_account_info accounts) (\<lambda>(native_account_info, _).
     and_then (check_program_account (ac_owner (L (ai_key native_account_info)))) (\<lambda>_.
     and_then (unpack_mut PodAccountB (ac_data (L (ai_key native_account_info)))) (\<lambda>native_account.
     if coption_is_some (a_is_native (base native_account))
     then and_then (ok_or (checked_sub (ac_lamports (L (ai_key native_account_info)))
            (co_value (a_is_native (base native_account)))) (token_error Overflow)) (\<lambda>new_amount.
          if new_amount < a_amount (base native_account) then TErr InvalidState
          else Ok (set_data (ai_key native_account_info) (pack_state PodAccountB
                 (native_account\<lparr>base := (base native_account)\<lparr>a_amount := new_amount\<rparr>\<rparr>)) L))
     else TErr NonNativeNotSupported)))"

definition withdraw_excess_checks ::
  "pubkey \<Rightarrow> ledger \<Rightarrow> AccountInfo \<Rightarrow> AccountInfo \<Rightarrow> AccountInfo list \<Rightarrow> unit result" where
  "withdraw_excess_checks program_id L source_info authority_info rest =
     (let d = ac_data (L (ai_key source_info)); len = data_len L authority_info
      in case unpack PodAccountB d of
           Ok account \<Rightarrow>
             if account_is_native (base account) then TErr NativeNotSupported
             else validate_owner program_id L (a_owner (base account)) authority_info len rest
         | Err _ \<Rightarrow>
             (case unpack PodMintB d of
                Ok mint \<Rightarrow>
                  if coption_is_some (m_mint_authority (base mint))
                  then validate_owner program_id L (co_value (m_mint_authority (base mint))) authority_info len rest
                  else if coption_is_none (m_mint_authority (base mint)) \<and> ai_key source_info = ai_key authority_info
                  then if \<not> ai_is_signer authority_info then Err MissingRequiredSignature else Ok ()
                  else TErr AuthorityTypeNotSupported
              | Err _ \<Rightarrow>
                  if length d = MULTISIG_LEN
                  then validate_owner program_id L (ai_key source_info) authority_info len rest
                  else TErr InvalidState))"

definition process_withdraw_excess_lamports ::
  "pubkey \<Rightarrow> Env \<Rightarrow> AccountInfo list \<Rightarrow> ledger \<Rightarrow> ledger result" where
  "process_withdraw_excess_lamports program_id env accounts L =
     and_then (next_account_info accounts) (\<lambda>(source_info, iter).
     and_then (next_account_info iter) (\<lambda>(destination_info, iter).
     and_then (next_account_info iter) (\<lambda>(authority_info, rest).
     and_then (withdraw_excess_checks program_id L source_info authority_info rest) (\<lambda>_.
     and_then (env_rent env) (\<lambda>rent.
     let reserve = minimum_balance rent (data_len L source_info)
     in and_then (ok_or (checked_sub (ac_lamports (L (ai_key source_info))) reserve)
          (token_error NotRentExempt)) (\<lambda>transfer_amount.
        and_then (ok_or (checked_sub (ac_lamports (L (ai_key source_info))) transfer_amount)
          (token_error Overflow)) (\<lambda>sl.
        let L1 = set_lamports (ai_key source_info) sl L
        in and_then (ok_or (checked_add (ac_lamports (L1 (ai_key destination_info))) transfer_amount)
             (token_error Overflow)) (\<lambda>dl.
           Ok (set_lamports (ai_key destination_info) dl L1)))))))))"

section \<open>Properties of delegation\<close>

lemma unpack_Ok: "unpack B d = Ok r \<longleftrightarrow> (\<exists>st. unpack_mut B d = Ok st \<and> base r = base st \<and> tlv_data r = tlv_data st)"
  by (auto simp: unpack_eq res_simps)

lemma write_account:
  assumes "token_account (ac_data (L k)) = Ok st" "L' = set_data k (pack_state PodAccountB st') L"
    and "a_state (base st') = a_state (base st) \<or> account_is_initialized (base st')"
    and "account_type st' = account_type st" "tlv_data st' = tlv_data st"
  shows "token_account (ac_data (L' k)) = Ok st'" "\<And>j. j \<noteq> k \<Longrightarrow> L' j = L j"
proof -
  have "account_is_initialized (base st')"
    using assms(3) token_account_initialized [OF assms(1)] by (auto simp: account_is_initialized_def)
  then have "token_account (pack_state PodAccountB st') = Ok st'"
    using assms(4,5) by (intro token_account_write [OF assms(1)]) simp_all
  then show "token_account (ac_data (L' k)) = Ok st'" "\<And>j. j \<noteq> k \<Longrightarrow> L' j = L j"
    using assms(2) by simp_all
qed

definition approve_accounts ::
  "InstructionVariant \<Rightarrow> AccountInfo \<Rightarrow> AccountInfo \<Rightarrow> AccountInfo \<Rightarrow> AccountInfo \<Rightarrow> AccountInfo list \<Rightarrow> AccountInfo list" where
  "approve_accounts v s m dl ow rest = s # (case v of UncheckedVariant \<Rightarrow> [] | _ \<Rightarrow> [m]) @ dl # ow # rest"

text \<open>
  the owner, and nobody else, delegates: a successful approval makes the delegate the given account with
  the given allowance, needs the owner's signature, and is refused on a frozen account and, under a
  CPI guard, through a cross-program call.  Nothing else changes.
\<close>

theorem approve_correct:
  assumes "process_approve program_id env (approve_accounts v s m dl ow rest) amount v L = Ok L'"
  shows "\<exists>src. token_account (ac_data (L (ai_key s))) = Ok src \<and> \<not> account_is_frozen (base src) \<and>
    a_owner (base src) = ai_key ow \<and> owner_signed program_id L ow rest \<and>
    \<not> (cpi_guard_enabled (tlv_data src) \<and> env_in_cpi env) \<and>
    token_account (ac_data (L' (ai_key s))) = Ok (src\<lparr>base := (base src)\<lparr>
      a_delegate := coption_some (ai_key dl), a_delegated_amount := amount\<rparr>\<rparr>) \<and>
    (\<forall>k. k \<noteq> ai_key s \<longrightarrow> L' k = L k)"
proof -
  obtain src where h: "token_account (ac_data (L (ai_key s))) = Ok src" "\<not> account_is_frozen (base src)"
    "a_owner (base src) = ai_key ow" "owner_signed program_id L ow rest"
    "\<not> (cpi_guard_enabled (tlv_data src) \<and> env_in_cpi env)"
    and L': "L' = set_data (ai_key s) (pack_state PodAccountB (src\<lparr>base := (base src)\<lparr>
      a_delegate := coption_some (ai_key dl), a_delegated_amount := amount\<rparr>\<rparr>)) L"
    using assms by (cases v) (auto simp: process_approve_def approve_accounts_def res_simps split: if_splits)
  show ?thesis using h write_account [OF h(1) L'] by auto
qed

theorem approve_correct_witness:
  "\<exists>L' src'. process_approve token_program_id demo_env [unsigned_key 10, unsigned_key 40, signed_key 20] 25 UncheckedVariant
     demo_ledger = Ok L' \<and> token_account (ac_data (L' 10)) = Ok src' \<and> a_delegated_amount (base src') = 25"
proof -
  have "\<exists>L'. process_approve token_program_id demo_env (approve_accounts UncheckedVariant (unsigned_key 10)
      (unsigned_key 0) (unsigned_key 40) (signed_key 20) []) 25 UncheckedVariant demo_ledger = Ok L'"
    by (simp add: process_approve_def approve_accounts_def validate_owner_plain cpi_guard_enabled_def)
  then obtain L' where l: "process_approve token_program_id demo_env (approve_accounts UncheckedVariant (unsigned_key 10)
      (unsigned_key 0) (unsigned_key 40) (signed_key 20) []) 25 UncheckedVariant demo_ledger = Ok L'" ..
  then show ?thesis using approve_correct [OF l] by (auto simp: approve_accounts_def)
qed

text \<open>
  Revoking removes the delegate and its allowance; it needs the signature of the owner or of the
  delegate itself and leaves everything else unchanged.
\<close>

theorem revoke_correct:
  assumes "process_revoke program_id (s # a # rest) L = Ok L'"
  shows "\<exists>src. token_account (ac_data (L (ai_key s))) = Ok src \<and> \<not> account_is_frozen (base src) \<and>
    (a_owner (base src) = ai_key a \<or> coption (a_delegate (base src)) = Some (ai_key a)) \<and>
    owner_signed program_id L a rest \<and>
    token_account (ac_data (L' (ai_key s))) = Ok (src\<lparr>base := (base src)\<lparr>
      a_delegate := coption_none, a_delegated_amount := 0\<rparr>\<rparr>) \<and>
    (\<forall>k. k \<noteq> ai_key s \<longrightarrow> L' k = L k)"
proof -
  obtain src where h: "token_account (ac_data (L (ai_key s))) = Ok src" "\<not> account_is_frozen (base src)"
    "a_owner (base src) = ai_key a \<or> coption (a_delegate (base src)) = Some (ai_key a)"
    "owner_signed program_id L a rest"
    and L': "L' = set_data (ai_key s) (pack_state PodAccountB (src\<lparr>base := (base src)\<lparr>
      a_delegate := coption_none, a_delegated_amount := 0\<rparr>\<rparr>)) L"
    using assms by (auto simp: process_revoke_def res_simps coption_Some_iff Let_def split: if_splits)
  show ?thesis using h write_account [OF h(1) L'] by auto
qed

theorem revoke_correct_witness:
  "\<exists>L' src'. process_revoke token_program_id [unsigned_key 10, signed_key 20] demo_ledger = Ok L' \<and>
     token_account (ac_data (L' 10)) = Ok src' \<and> a_delegate (base src') = coption_none"
proof -
  have "\<exists>L'. process_revoke token_program_id [unsigned_key 10, signed_key 20] demo_ledger = Ok L'"
    by (simp add: process_revoke_def validate_owner_plain coption_is_some_def coption_none_def Let_def)
  then obtain L' where l: "process_revoke token_program_id [unsigned_key 10, signed_key 20] demo_ledger = Ok L'" ..
  then show ?thesis using revoke_correct [OF l] by auto
qed

section \<open>Properties of freezing\<close>

text \<open>
  freezing and thawing are the signed decision of the freeze authority of the account's mint; they
  switch exactly the state of that one account, and only from the other state.
\<close>

theorem toggle_freeze_correct:
  assumes "process_toggle_freeze_account program_id (s # m # a # rest) freeze L = Ok L'"
  shows "\<exists>src mint. token_account (ac_data (L (ai_key s))) = Ok src \<and> unpack PodMintB (ac_data (L (ai_key m))) = Ok mint \<and>
    a_mint (base src) = ai_key m \<and> coption (m_freeze_authority (base mint)) = Some (ai_key a) \<and>
    owner_signed program_id L a rest \<and> \<not> account_is_native (base src) \<and>
    account_is_frozen (base src) = (\<not> freeze) \<and>
    token_account (ac_data (L' (ai_key s))) = Ok (src\<lparr>base := (base src)\<lparr>
      a_state := account_state_code (if freeze then Frozen else Initialized)\<rparr>\<rparr>) \<and>
    (\<forall>k. k \<noteq> ai_key s \<longrightarrow> L' k = L k)"
proof -
  obtain src mint where h: "token_account (ac_data (L (ai_key s))) = Ok src"
    "unpack PodMintB (ac_data (L (ai_key m))) = Ok mint" "ai_key m = a_mint (base src)"
    "coption_is_some (m_freeze_authority (base mint))" "co_value (m_freeze_authority (base mint)) = ai_key a"
    "owner_signed program_id L a rest" "\<not> account_is_native (base src)"
    "account_is_frozen (base src) = (\<not> freeze)"
    and L': "L' = set_data (ai_key s) (pack_state PodAccountB (src\<lparr>base := (base src)\<lparr>
      a_state := account_state_code (if freeze then Frozen else Initialized)\<rparr>\<rparr>)) L"
    using assms by (cases freeze) (auto simp: process_toggle_freeze_account_def res_simps)
  have "account_is_initialized ((base src)\<lparr>a_state := account_state_code (if freeze then Frozen else Initialized)\<rparr>)"
    by (simp add: account_is_initialized_def)
  then show ?thesis using h write_account [OF h(1) L'] by (auto simp: coption_Some_iff)
qed

theorem toggle_freeze_correct_witness:
  "\<exists>L'. process_toggle_freeze_account token_program_id [unsigned_key 10, unsigned_key 1, signed_key 30] True demo_ledger = Ok L' \<and>
     (\<exists>src'. token_account (ac_data (L' 10)) = Ok src' \<and> account_is_frozen (base src'))"
proof -
  have "\<exists>L'. process_toggle_freeze_account token_program_id [unsigned_key 10, unsigned_key 1, signed_key 30] True demo_ledger = Ok L'"
    by (simp add: process_toggle_freeze_account_def borrow_data_def validate_owner_plain coption_is_some_def coption_some_def)
  then obtain L' where l: "process_toggle_freeze_account token_program_id
      [unsigned_key 10, unsigned_key 1, signed_key 30] True demo_ledger = Ok L'" ..
  then show ?thesis using toggle_freeze_correct [OF l] by (auto simp: account_is_frozen_def)
qed

section \<open>Properties of closing\<close>

definition total_lamports :: "pubkey set \<Rightarrow> ledger \<Rightarrow> nat" where
  "total_lamports A L = (\<Sum>k\<in>A. unat (ac_lamports (L k)))"

lemma total_lamports_move:
  assumes "finite A" "s \<in> A" "d \<in> A" "s \<noteq> d"
    and "\<And>k. k \<noteq> s \<Longrightarrow> k \<noteq> d \<Longrightarrow> ac_lamports (L' k) = ac_lamports (L k)"
    and "unat (ac_lamports (L' s)) + unat (ac_lamports (L' d)) =
      unat (ac_lamports (L s)) + unat (ac_lamports (L d))"
  shows "total_lamports A L' = total_lamports A L"
proof -
  have split: "(\<Sum>k\<in>A. f k) = f s + (f d + (\<Sum>k\<in>A - {s, d}. f k))" for f :: "pubkey \<Rightarrow> nat"
    using assms(1-4) sum.remove [of A s f] sum.remove [of "A - {s}" d f]
    by (simp add: Diff_insert [of A d "{s}", symmetric] insert_commute)
  show ?thesis unfolding total_lamports_def split using assms(5,6) by (auto intro!: sum.cong)
qed

definition effective_close_authority :: "PodAccount \<Rightarrow> pubkey" where
  "effective_close_authority b = coption_unwrap_or (a_close_authority b) (a_owner b)"

text \<open>Nothing confidential is left: the three encrypted balances and the encrypted withheld fee are the zero ciphertext.\<close>

definition no_confidential_balance :: "bytes \<Rightarrow> bool" where
  "no_confidential_balance tlv \<longleftrightarrow>
     (\<forall>c. get_extension AccountBase ConfidentialTransferAccountX tlv = Ok c \<longrightarrow>
        cta_pending_balance_lo c = 0 \<and> cta_pending_balance_hi c = 0 \<and> cta_available_balance c = 0) \<and>
     (\<forall>f. get_extension AccountBase ConfidentialTransferFeeAmountX tlv = Ok f \<longrightarrow> cfa_withheld_amount f = 0)"

lemma close_account_checks_Ok:
  assumes "close_account_checks program_id env L d a rest src = Ok ()"
  shows "account_is_native (base src) \<or> a_amount (base src) = 0" "withheld (tlv_data src) = 0"
    "no_confidential_balance (tlv_data src)"
    and "if is_owned_by_system_program_or_incinerator (env_ids env) (base src)
      then ai_key d = incinerator_id (env_ids env)
      else effective_close_authority (base src) = ai_key a \<and> owner_signed program_id L a rest \<and>
        \<not> (cpi_guard_enabled (tlv_data src) \<and> env_in_cpi env \<and> ai_key d \<noteq> a_owner (base src))"
  using assms
  by (auto simp: close_account_checks_def effective_close_authority_def res_simps Let_def withheld_def
      transfer_fee_amount_closable_def no_confidential_balance_def cta_closable_def cfa_closable_def
      split: if_splits sum.splits)

lemma close_mint_checks_Ok:
  assumes "close_mint_checks program_id L a rest mint = Ok ()"
  shows "m_supply (base mint) = 0" "owner_signed program_id L a rest"
    and "ext_authority MintCloseAuthorityX mca_close_authority (tlv_data mint) = Some (ai_key a)"
  using assms by (auto simp: close_mint_checks_def res_simps ext_authority_def split: if_splits)

text \<open>
  C11: closing removes an account and pays out all its lamports, with none lost.  A token account can be
  closed only when no token is left on it, native tokens apart, whose lamports are the tokens, and
  no withheld fee, no encrypted balance, pending or available, and no encrypted withheld fee, and under a CPI guard
  a cross-program call must pay the lamports to the owner; its close authority (by default the owner) signs, except for accounts of the
  system program or the incinerator, whose lamports go to the incinerator.  A mint can be closed
  only by its close authority and only with no supply.
\<close>

theorem close_account_correct:
  assumes "process_close_account program_id env (s # d # a # rest) L = Ok L'"
  shows "ai_key s \<noteq> ai_key d \<and>
    ac_data (L' (ai_key s)) = [] \<and> ac_owner (L' (ai_key s)) = system_program_id (env_ids env) \<and>
    ac_lamports (L' (ai_key s)) = 0 \<and>
    unat (ac_lamports (L' (ai_key d))) = unat (ac_lamports (L (ai_key d))) + unat (ac_lamports (L (ai_key s))) \<and>
    ac_data (L' (ai_key d)) = ac_data (L (ai_key d)) \<and> (\<forall>k. k \<noteq> ai_key s \<and> k \<noteq> ai_key d \<longrightarrow> L' k = L k) \<and>
    (case token_account (ac_data (L (ai_key s))) of
       Ok src \<Rightarrow> (account_is_native (base src) \<or> a_amount (base src) = 0) \<and> withheld (tlv_data src) = 0 \<and>
         no_confidential_balance (tlv_data src) \<and>
         (if is_owned_by_system_program_or_incinerator (env_ids env) (base src)
          then ai_key d = incinerator_id (env_ids env)
          else effective_close_authority (base src) = ai_key a \<and> owner_signed program_id L a rest \<and>
            \<not> (cpi_guard_enabled (tlv_data src) \<and> env_in_cpi env \<and> ai_key d \<noteq> a_owner (base src)))
     | Err _ \<Rightarrow> \<exists>mint. token_mint (ac_data (L (ai_key s))) = Ok mint \<and> m_supply (base mint) = 0 \<and>
         mint_authority_of mint CloseMint = Some (ai_key a) \<and> owner_signed program_id L a rest)"
proof -
  let ?D = "ac_data (L (ai_key s))"
  obtain dl where neq: "ai_key s \<noteq> ai_key d" and
    chk: "(case unpack PodAccountB ?D of
          Ok source_account \<Rightarrow> close_account_checks program_id env L d a rest source_account
        | Err _ \<Rightarrow>
            (case unpack PodMintB ?D of
               Ok mint \<Rightarrow> close_mint_checks program_id L a rest mint
             | Err _ \<Rightarrow> Err UninitializedAccount)) = Ok ()" and
    add: "checked_add (ac_lamports (L (ai_key d))) (ac_lamports (L (ai_key s))) = Some dl" and
    L': "L' = delete_account env (ai_key s) (set_lamports (ai_key s) 0 (set_lamports (ai_key d) dl L))"
    using assms by (auto simp: process_close_account_def res_simps Let_def)
  have "case token_account ?D of
       Ok src \<Rightarrow> (account_is_native (base src) \<or> a_amount (base src) = 0) \<and> withheld (tlv_data src) = 0 \<and>
         no_confidential_balance (tlv_data src) \<and>
         (if is_owned_by_system_program_or_incinerator (env_ids env) (base src)
          then ai_key d = incinerator_id (env_ids env)
          else effective_close_authority (base src) = ai_key a \<and> owner_signed program_id L a rest \<and>
            \<not> (cpi_guard_enabled (tlv_data src) \<and> env_in_cpi env \<and> ai_key d \<noteq> a_owner (base src)))
     | Err _ \<Rightarrow> \<exists>mint. token_mint ?D = Ok mint \<and> m_supply (base mint) = 0 \<and>
         mint_authority_of mint CloseMint = Some (ai_key a) \<and> owner_signed program_id L a rest"
  proof (cases "token_account ?D")
    case (Inr src)
    with chk have "close_account_checks program_id env L d a rest \<lparr>base = base src, tlv_data = tlv_data src\<rparr> = Ok ()"
      by (simp add: unpack_eq)
    from close_account_checks_Ok [OF this] show ?thesis
      using Inr by (auto simp: state_holdings_def)
  next
    case (Inl e)
    then obtain mint where m: "token_mint ?D = Ok mint"
      "close_mint_checks program_id L a rest \<lparr>base = base mint, tlv_data = tlv_data mint\<rparr> = Ok ()"
      using chk by (auto simp: unpack_eq and_then_def split: sum.splits)
    from close_mint_checks_Ok [OF m(2)] show ?thesis
      using Inl m(1) by (simp add: mint_authority_of_def)
  qed
  then show ?thesis
    using neq L' checked_add_unat [OF add] by (simp add: delete_account_def)
qed

lemma demo_close:
  "\<exists>L'. process_close_account token_program_id demo_env [unsigned_key 10, unsigned_key 11, signed_key 20]
     (set_data 10 (enc_account (plain_account 1 20 0)) demo_ledger) = Ok L'"
  by (simp add: process_close_account_def close_account_checks_def unpack_eq Let_def validate_owner_plain
      is_owned_by_system_program_or_incinerator_def demo_env_def cpi_guard_enabled_def
      coption_unwrap_or_def coption_none_def checked_add_def)

theorem close_account_correct_witness:
  "\<exists>L'. process_close_account token_program_id demo_env [unsigned_key 10, unsigned_key 11, signed_key 20]
     (set_data 10 (enc_account (plain_account 1 20 0)) demo_ledger) = Ok L' \<and>
     unat (ac_lamports (L' 11)) = 20"
proof -
  obtain L' where l: "process_close_account token_program_id demo_env [unsigned_key 10, unsigned_key 11, signed_key 20]
      (set_data 10 (enc_account (plain_account 1 20 0)) demo_ledger) = Ok L'" using demo_close by blast
  then show ?thesis using close_account_correct [OF l] by auto
qed

section \<open>Properties of lamports\<close>

text \<open>
  After synchronizing, a native account is backed exactly: its balance plus its reserve are its
  lamports.  The balance never decreases and only native accounts of the program are accepted.
\<close>

theorem sync_native_correct:
  assumes "process_sync_native (i # rest) L = Ok L'"
  shows "\<exists>st st'. token_account (ac_data (L (ai_key i))) = Ok st \<and> token_account (ac_data (L' (ai_key i))) = Ok st' \<and>
    ac_owner (L (ai_key i)) = token_program_id \<and>
    (\<exists>reserve. coption (a_is_native (base st)) = Some reserve \<and>
      unat (a_amount (base st')) + unat reserve = unat (ac_lamports (L' (ai_key i)))) \<and>
    a_amount (base st) \<le> a_amount (base st') \<and> same_identity (base st) (base st') \<and>
    ac_lamports (L' (ai_key i)) = ac_lamports (L (ai_key i)) \<and> (\<forall>k. k \<noteq> ai_key i \<longrightarrow> L' k = L k)"
proof -
  obtain st x where h: "token_account (ac_data (L (ai_key i))) = Ok st" "ac_owner (L (ai_key i)) = token_program_id"
    "coption_is_some (a_is_native (base st))"
    "checked_sub (ac_lamports (L (ai_key i))) (co_value (a_is_native (base st))) = Some x"
    "\<not> x < a_amount (base st)"
    and L': "L' = set_data (ai_key i) (pack_state PodAccountB (st\<lparr>base := (base st)\<lparr>a_amount := x\<rparr>\<rparr>)) L"
    using assms by (auto simp: process_sync_native_def res_simps split: if_splits)
  have "coption (a_is_native (base st)) = Some (co_value (a_is_native (base st)))"
    using h(3) by (auto simp: coption_def coption_is_some_def)
  moreover have "ac_lamports (L' (ai_key i)) = ac_lamports (L (ai_key i))" using L' by simp
  ultimately show ?thesis
    using h write_account [OF h(1) L'] checked_sub_unat [OF h(4)]
    by (auto simp: same_identity_def not_less)
qed

definition native_ledger :: ledger where
  "native_ledger = demo_ledger(12 := \<lparr>ac_lamports = 90,
     ac_data = enc_account ((plain_account native_mint_id 20 5)\<lparr>a_is_native := coption_some 40\<rparr>),
     ac_owner = token_program_id\<rparr>)"

theorem sync_native_correct_witness:
  "\<exists>L' st'. process_sync_native [unsigned_key 12] native_ledger = Ok L' \<and>
     token_account (ac_data (L' 12)) = Ok st' \<and> unat (a_amount (base st')) + 40 = 90"
proof -
  have i: "account_is_initialized ((plain_account native_mint_id 20 5)\<lparr>a_is_native := coption_some 40\<rparr>)"
    by (simp add: account_is_initialized_def plain_account_def)
  then have "\<exists>L'. process_sync_native [unsigned_key 12] native_ledger = Ok L'"
    by (simp add: process_sync_native_def native_ledger_def check_program_account_def coption_some_def
        coption_is_some_def checked_sub_def)
  then obtain L' where l: "process_sync_native [unsigned_key 12] native_ledger = Ok L'" ..
  then show ?thesis using sync_native_correct [OF l] i by (auto simp: native_ledger_def)
qed

definition may_withdraw_excess ::
  "pubkey \<Rightarrow> ledger \<Rightarrow> AccountInfo \<Rightarrow> AccountInfo \<Rightarrow> AccountInfo list \<Rightarrow> bool" where
  "may_withdraw_excess program_id L s a rest \<longleftrightarrow>
     (let d = ac_data (L (ai_key s)) in
      (\<exists>st. token_account d = Ok st \<and> \<not> account_is_native (base st) \<and> a_owner (base st) = ai_key a \<and>
         owner_signed program_id L a rest) \<or>
      (\<exists>mint. token_mint d = Ok mint \<and> mint_authority_of mint MintTokens = Some (ai_key a) \<and>
         owner_signed program_id L a rest) \<or>
      (\<exists>mint. token_mint d = Ok mint \<and> mint_authority_of mint MintTokens = None \<and> ai_key s = ai_key a \<and>
         ai_is_signer a) \<or>
      length d = MULTISIG_LEN \<and> ai_key s = ai_key a \<and> owner_signed program_id L a rest)"

lemma withdraw_excess_checks_Ok:
  assumes "withdraw_excess_checks program_id L s a rest = Ok ()"
  shows "may_withdraw_excess program_id L s a rest"
proof (cases "token_account (ac_data (L (ai_key s)))")
  case (Inr st)
  then show ?thesis using assms
    by (auto simp: withdraw_excess_checks_def may_withdraw_excess_def unpack_eq res_simps Let_def split: if_splits)
next
  case e: (Inl e)
  show ?thesis
  proof (cases "token_mint (ac_data (L (ai_key s)))")
    case (Inr mint)
    then show ?thesis using assms e
      by (auto simp: withdraw_excess_checks_def may_withdraw_excess_def unpack_eq res_simps Let_def
          mint_authority_of_def coption_Some_iff coption_is_none_def coption_is_some_def coption_def
          split: if_splits)
  next
    case (Inl e')
    then show ?thesis using assms e
      by (auto simp: withdraw_excess_checks_def may_withdraw_excess_def unpack_eq res_simps Let_def split: if_splits)
  qed
qed

text \<open>
  Withdrawing excess lamports leaves exactly the rent reserve on the source, pays the rest to the
  destination and loses no lamport; no account's data changes.  The owner, the mint authority (or a
  mint without one itself) or the multisignature itself has to sign, and native accounts, whose
  lamports are tokens, are refused.
\<close>

theorem withdraw_excess_correct:
  assumes "process_withdraw_excess_lamports program_id env (s # d # a # rest) L = Ok L'"
    and "ai_key s \<noteq> ai_key d" "env_rent env = Ok rent" "finite A" "ai_key s \<in> A" "ai_key d \<in> A"
  shows "ac_lamports (L' (ai_key s)) = minimum_balance rent (data_len L s) \<and>
    unat (ac_lamports (L' (ai_key d))) + unat (ac_lamports (L' (ai_key s))) =
      unat (ac_lamports (L (ai_key d))) + unat (ac_lamports (L (ai_key s))) \<and>
    total_lamports A L' = total_lamports A L \<and>
    may_withdraw_excess program_id L s a rest \<and>
    (\<forall>k. ac_data (L' k) = ac_data (L k) \<and> ac_owner (L' k) = ac_owner (L k)) \<and>
    (\<forall>k. k \<noteq> ai_key s \<and> k \<noteq> ai_key d \<longrightarrow> L' k = L k)"
proof -
  let ?r = "minimum_balance rent (data_len L s)"
  obtain x sl dl where chk: "withdraw_excess_checks program_id L s a rest = Ok ()"
    and x: "checked_sub (ac_lamports (L (ai_key s))) ?r = Some x"
    and sl: "checked_sub (ac_lamports (L (ai_key s))) x = Some sl"
    and dl: "checked_add (ac_lamports (L (ai_key d))) x = Some dl"
    and L': "L' = set_lamports (ai_key d) dl (set_lamports (ai_key s) sl L)"
    using assms(1-3) by (auto simp: process_withdraw_excess_lamports_def res_simps Let_def)
  have "unat sl = unat ?r" using checked_sub_unat [OF x] checked_sub_unat [OF sl] by simp
  then have "sl = ?r" by (rule word_eqI_unat)
  moreover have sum: "unat (ac_lamports (L' (ai_key s))) + unat (ac_lamports (L' (ai_key d))) =
      unat (ac_lamports (L (ai_key s))) + unat (ac_lamports (L (ai_key d)))"
    using assms(2) L' checked_sub_unat [OF sl] checked_add_unat [OF dl] by simp
  moreover have "total_lamports A L' = total_lamports A L"
    using L' sum by (intro total_lamports_move [OF assms(4-6,2)]) simp_all
  ultimately show ?thesis
    using assms(2) L' withdraw_excess_checks_Ok [OF chk] by (auto simp: add.commute)
qed

theorem withdraw_excess_correct_witness:
  "\<exists>L'. process_withdraw_excess_lamports token_program_id demo_env [unsigned_key 10, unsigned_key 11, signed_key 20]
     demo_ledger = Ok L' \<and> ac_lamports (L' 10) = 1"
proof -
  have "\<exists>L'. process_withdraw_excess_lamports token_program_id demo_env
      [unsigned_key 10, unsigned_key 11, signed_key 20] demo_ledger = Ok L'"
    by (simp add: process_withdraw_excess_lamports_def withdraw_excess_checks_def unpack_eq validate_owner_plain
        demo_env_def checked_sub_def checked_add_def Let_def)
  then obtain L' where l: "process_withdraw_excess_lamports token_program_id demo_env
      [unsigned_key 10, unsigned_key 11, signed_key 20] demo_ledger = Ok L'" ..
  then show ?thesis
    using withdraw_excess_correct [OF l, of _ "{10, 11}"] by (simp add: demo_env_def)
qed

end
