(* ===== verification/Initialization.thy ===== *)
theory Initialization
  imports Lifecycle
begin

text \<open>
  Initializing mints, token accounts and multisignature accounts (src/program/src/processor.rs), and
  the extensions that must be in place before (\<open>init_account_extension_from_type\<close> of
  src/interface/src/extension/mod.rs and the initialize handlers of single extensions).
\<close>

section \<open>Extensions of a new account\<close>

definition init_account_extension_from_type :: "ExtensionType \<Rightarrow> bytes \<Rightarrow> bytes result" where
  "init_account_extension_from_type extension_type tlv =
     (if get_account_type extension_type \<noteq> Account then Ok tlv
      else case extension_type of
        ExtensionType.TransferFeeAmount \<Rightarrow> init_extension AccountBase TransferFeeAmountX True tlv
      | ExtensionType.ImmutableOwner \<Rightarrow> init_extension AccountBase ImmutableOwnerX True tlv
      | ExtensionType.NonTransferableAccount \<Rightarrow> init_extension AccountBase NonTransferableAccountX True tlv
      | ExtensionType.TransferHookAccount \<Rightarrow> init_extension AccountBase TransferHookAccountX True tlv
      | ExtensionType.ConfidentialTransferAccount \<Rightarrow> Ok tlv
      | ExtensionType.PausableAccount \<Rightarrow> init_extension AccountBase PausableAccountX True tlv
      | _ \<Rightarrow> Err Panicked)"

fun init_account_extensions :: "ExtensionType list \<Rightarrow> bytes \<Rightarrow> bytes result" where
  "init_account_extensions [] tlv = Ok tlv"
| "init_account_extensions (e # es) tlv =
     and_then (init_account_extension_from_type e tlv) (init_account_extensions es)"

definition get_required_account_extensions_from_unpacked_mint ::
  "pubkey \<Rightarrow> PodMint PodStateWithExtensions \<Rightarrow> ExtensionType list result" where
  "get_required_account_extensions_from_unpacked_mint token_program state =
     and_then (check_program_account token_program) (\<lambda>_.
     and_then (get_extension_types (tlv_data state)) (\<lambda>mint_extensions.
     Ok (get_required_init_account_extensions mint_extensions)))"

definition get_required_account_extensions :: "ledger \<Rightarrow> AccountInfo \<Rightarrow> ExtensionType list result" where
  "get_required_account_extensions L mint_account_info =
     and_then (map_err (\<lambda>_. token_error InvalidMint) (unpack PodMintB (ac_data (L (ai_key mint_account_info)))))
       (get_required_account_extensions_from_unpacked_mint (ac_owner (L (ai_key mint_account_info))))"

section \<open>Mints\<close>

definition process_initialize_mint_with ::
  "Env \<Rightarrow> AccountInfo list \<Rightarrow> u8 \<Rightarrow> pubkey \<Rightarrow> pubkey PodCOption \<Rightarrow> bool \<Rightarrow> ledger \<Rightarrow> ledger result" where
  "process_initialize_mint_with env accounts decimals mint_authority freeze_authority rent_sysvar_account L =
     and_then (next_account_info accounts) (\<lambda>(mint_info, iter).
     and_then (get_rent env rent_sysvar_account L iter) (\<lambda>(rent, _).
     let mint_data_len = data_len L mint_info
     in if \<not> is_exempt rent (ac_lamports (L (ai_key mint_info))) mint_data_len then TErr NotRentExempt
     else
     and_then (unpack_uninitialized PodMintB (ac_data (L (ai_key mint_info)))) (\<lambda>mint.
     and_then (get_extension_types (tlv_data mint)) (\<lambda>extension_types.
     and_then (try_calculate_account_len MintBase extension_types) (\<lambda>len.
     if len \<noteq> mint_data_len then Err InvalidAccountData
     else
     and_then (map_err token_error (check_for_invalid_mint_extension_combinations extension_types)) (\<lambda>_.
     and_then (case get_extension_mut MintBase DefaultAccountStateX (tlv_data mint) of
                 Ok (e, _) \<Rightarrow>
                   and_then (ok_or (account_state_try_from (das_state e)) InvalidAccountData) (\<lambda>s.
                   if s = Frozen \<and> coption_is_none freeze_authority then TErr MintCannotFreeze else Ok ())
               | Err _ \<Rightarrow> Ok ()) (\<lambda>_.
     let mint = mint\<lparr>base := (base mint)\<lparr>m_mint_authority := coption_some mint_authority,
           m_decimals := decimals, m_is_initialized := pod_bool_from True,
           m_freeze_authority := freeze_authority\<rparr>\<rparr>
     in and_then (init_account_type MintBase mint) (\<lambda>mint.
        Ok (set_data (ai_key mint_info) (pack_state PodMintB mint) L)))))))))"

definition process_initialize_mint ::
  "Env \<Rightarrow> AccountInfo list \<Rightarrow> u8 \<Rightarrow> pubkey \<Rightarrow> pubkey PodCOption \<Rightarrow> ledger \<Rightarrow> ledger result" where
  "process_initialize_mint env accounts decimals mint_authority freeze_authority L =
     process_initialize_mint_with env accounts decimals mint_authority freeze_authority True L"

definition process_initialize_mint2 ::
  "Env \<Rightarrow> AccountInfo list \<Rightarrow> u8 \<Rightarrow> pubkey \<Rightarrow> pubkey PodCOption \<Rightarrow> ledger \<Rightarrow> ledger result" where
  "process_initialize_mint2 env accounts decimals mint_authority freeze_authority L =
     process_initialize_mint_with env accounts decimals mint_authority freeze_authority False L"

section \<open>Token accounts\<close>

definition starting_state :: "bytes \<Rightarrow> AccountState result" where
  "starting_state mint_tlv = (case get_extension MintBase DefaultAccountStateX mint_tlv of
     Ok e \<Rightarrow> ok_or (account_state_try_from (das_state e)) InvalidAccountData
   | Err _ \<Rightarrow> Ok Initialized)"

text \<open>The base of a new account; a native one starts with the lamports beyond the reserve.\<close>

definition new_account_base ::
  "pubkey \<Rightarrow> pubkey \<Rightarrow> AccountState \<Rightarrow> Rent \<Rightarrow> u64 \<Rightarrow> nat \<Rightarrow> PodAccount \<Rightarrow> PodAccount result" where
  "new_account_base mint_key owner state rent lamports len b =
     (let b = b\<lparr>a_mint := mint_key, a_owner := owner, a_close_authority := coption_none,
            a_delegate := coption_none, a_delegated_amount := 0, a_state := account_state_code state\<rparr>
      in if mint_key = native_mint_id
         then let reserve = minimum_balance rent len
              in and_then (ok_or (checked_sub lamports reserve) (token_error Overflow)) (\<lambda>amount.
                 Ok (b\<lparr>a_is_native := coption_some reserve, a_amount := amount\<rparr>))
         else Ok (b\<lparr>a_is_native := coption_none, a_amount := 0\<rparr>))"

definition initialize_account_state ::
  "Rent \<Rightarrow> AccountInfo \<Rightarrow> AccountInfo \<Rightarrow> pubkey \<Rightarrow> ledger \<Rightarrow> ledger result" where
  "initialize_account_state rent new_account_info mint_info owner L =
     (let len = data_len L new_account_info
      in and_then (unpack_uninitialized PodAccountB (ac_data (L (ai_key new_account_info)))) (\<lambda>account.
         if \<not> is_exempt rent (ac_lamports (L (ai_key new_account_info))) len then TErr NotRentExempt
         else
         and_then (borrow_data (ai_key new_account_info) L mint_info) (\<lambda>mint_data.
         and_then (map_err (\<lambda>_. token_error InvalidMint) (unpack PodMintB mint_data)) (\<lambda>mint.
         and_then (get_required_account_extensions_from_unpacked_mint (ac_owner (L (ai_key mint_info))) mint)
           (\<lambda>required_extensions.
         and_then (try_calculate_account_len AccountBase required_extensions) (\<lambda>needed.
         if needed > len then Err InvalidAccountData
         else
         and_then (init_account_extensions required_extensions (tlv_data account)) (\<lambda>tlv.
         and_then (starting_state (tlv_data mint)) (\<lambda>state.
         and_then (new_account_base (ai_key mint_info) owner state rent
           (ac_lamports (L (ai_key new_account_info))) len (base account)) (\<lambda>b.
         and_then (init_account_type AccountBase (account\<lparr>base := b, tlv_data := tlv\<rparr>)) (\<lambda>account.
         Ok (set_data (ai_key new_account_info) (pack_state PodAccountB account) L)))))))))))"

definition process_initialize_account_with ::
  "Env \<Rightarrow> AccountInfo list \<Rightarrow> pubkey option \<Rightarrow> bool \<Rightarrow> ledger \<Rightarrow> ledger result" where
  "process_initialize_account_with env accounts owner rent_sysvar_account L =
     and_then (next_account_info accounts) (\<lambda>(new_account_info, iter).
     and_then (next_account_info iter) (\<lambda>(mint_info, iter).
     and_then (case owner of
                 Some owner \<Rightarrow> Ok (owner, iter)
               | None \<Rightarrow> and_then (next_account_info iter) (\<lambda>(a, iter). Ok (ai_key a, iter))) (\<lambda>(owner, iter).
     and_then (get_rent env rent_sysvar_account L iter) (\<lambda>(rent, _).
     initialize_account_state rent new_account_info mint_info owner L))))"

definition process_initialize_account :: "Env \<Rightarrow> AccountInfo list \<Rightarrow> ledger \<Rightarrow> ledger result" where
  "process_initialize_account env accounts L = process_initialize_account_with env accounts None True L"

definition process_initialize_account2 :: "Env \<Rightarrow> AccountInfo list \<Rightarrow> pubkey \<Rightarrow> ledger \<Rightarrow> ledger result" where
  "process_initialize_account2 env accounts owner L = process_initialize_account_with env accounts (Some owner) True L"

definition process_initialize_account3 :: "Env \<Rightarrow> AccountInfo list \<Rightarrow> pubkey \<Rightarrow> ledger \<Rightarrow> ledger result" where
  "process_initialize_account3 env accounts owner L = process_initialize_account_with env accounts (Some owner) False L"

section \<open>Multisignature accounts\<close>

definition is_valid_signer_index :: "nat \<Rightarrow> bool" where
  "is_valid_signer_index index = (MIN_SIGNERS \<le> index \<and> index \<le> MAX_SIGNERS)"

text \<open>Writing past the eleven signer slots would panic; the count is the 8-bit length of the list.\<close>

definition process_initialize_multisig_with ::
  "Env \<Rightarrow> AccountInfo list \<Rightarrow> u8 \<Rightarrow> bool \<Rightarrow> ledger \<Rightarrow> ledger result" where
  "process_initialize_multisig_with env accounts m rent_sysvar_account L =
     and_then (next_account_info accounts) (\<lambda>(multisig_info, iter).
     and_then (get_rent env rent_sysvar_account L iter) (\<lambda>(rent, signer_infos).
     and_then (multisig_from_bytes (ac_data (L (ai_key multisig_info)))) (\<lambda>multisig.
     if pod_bool (ms_is_initialized multisig) then TErr AlreadyInUse
     else if \<not> is_exempt rent (ac_lamports (L (ai_key multisig_info))) (data_len L multisig_info)
     then TErr NotRentExempt
     else let n = (of_nat (length signer_infos) :: u8)
       in if \<not> is_valid_signer_index (unat n) then TErr InvalidNumberOfProvidedSigners
          else if \<not> is_valid_signer_index (unat m) then TErr InvalidNumberOfRequiredSigners
          else if length signer_infos > MAX_SIGNERS then Err Panicked
          else Ok (set_data (ai_key multisig_info) (enc_multisig
                 \<lparr>ms_m = m, ms_n = n, ms_is_initialized = pod_bool_from True,
                  ms_signers = overwrite 0 (map ai_key signer_infos) (ms_signers multisig)\<rparr>) L))))"

definition process_initialize_multisig :: "Env \<Rightarrow> AccountInfo list \<Rightarrow> u8 \<Rightarrow> ledger \<Rightarrow> ledger result" where
  "process_initialize_multisig env accounts m L = process_initialize_multisig_with env accounts m True L"

definition process_initialize_multisig2 :: "Env \<Rightarrow> AccountInfo list \<Rightarrow> u8 \<Rightarrow> ledger \<Rightarrow> ledger result" where
  "process_initialize_multisig2 env accounts m L = process_initialize_multisig_with env accounts m False L"

section \<open>Single extensions\<close>

text \<open>
  The handlers that add one extension to a mint or account before it is initialized: they put the
  default in place and then assign fields through the returned reference.
\<close>

definition initialize_extension ::
  "'b Base \<Rightarrow> 'a Extension \<Rightarrow> bool \<Rightarrow> 'a result \<Rightarrow> AccountInfo \<Rightarrow> ledger \<Rightarrow> ledger result" where
  "initialize_extension B E overwr v info L =
     and_then (unpack_uninitialized B (ac_data (L (ai_key info)))) (\<lambda>st.
     and_then (init_extension (base_state B) E overwr (tlv_data st)) (\<lambda>tlv.
     and_then v (\<lambda>v.
     Ok (set_data (ai_key info) (pack_state B
       (st\<lparr>tlv_data := set_extension (base_state B) E v tlv\<rparr>)) L))))"

definition process_initialize_mint_close_authority ::
  "AccountInfo list \<Rightarrow> pubkey PodCOption \<Rightarrow> ledger \<Rightarrow> ledger result" where
  "process_initialize_mint_close_authority accounts close_authority L =
     and_then (next_account_info accounts) (\<lambda>(mint_account_info, _).
     initialize_extension PodMintB MintCloseAuthorityX True
       (and_then (coption_try_into close_authority) (\<lambda>k. Ok \<lparr>mca_close_authority = k\<rparr>)) mint_account_info L)"

definition process_initialize_immutable_owner :: "AccountInfo list \<Rightarrow> ledger \<Rightarrow> ledger result" where
  "process_initialize_immutable_owner accounts L =
     and_then (next_account_info accounts) (\<lambda>(token_account_info, _).
     initialize_extension PodAccountB ImmutableOwnerX True (Ok ()) token_account_info L)"

definition process_initialize_non_transferable_mint :: "AccountInfo list \<Rightarrow> ledger \<Rightarrow> ledger result" where
  "process_initialize_non_transferable_mint accounts L =
     and_then (next_account_info accounts) (\<lambda>(mint_account_info, _).
     initialize_extension PodMintB NonTransferableX True (Ok ()) mint_account_info L)"

definition process_initialize_permanent_delegate ::
  "AccountInfo list \<Rightarrow> pubkey \<Rightarrow> ledger \<Rightarrow> ledger result" where
  "process_initialize_permanent_delegate accounts delegate L =
     and_then (next_account_info accounts) (\<lambda>(mint_account_info, _).
     initialize_extension PodMintB PermanentDelegateX True
       (and_then (opt_key_try_from (Some delegate)) (\<lambda>k. Ok \<lparr>pd_delegate = k\<rparr>)) mint_account_info L)"

text \<open>The length is the return data of the instruction.\<close>

definition process_get_account_data_size ::
  "AccountInfo list \<Rightarrow> ExtensionType list \<Rightarrow> ledger \<Rightarrow> nat result" where
  "process_get_account_data_size accounts new_extension_types L =
     (if \<exists>t\<in>set new_extension_types. get_account_type t \<noteq> Account then TErr ExtensionTypeMismatch
      else and_then (next_account_info accounts) (\<lambda>(mint_account_info, _).
           and_then (get_required_account_extensions L mint_account_info) (\<lambda>account_extensions.
           try_calculate_account_len AccountBase (account_extensions @ new_extension_types))))"

section \<open>The extensions a mint requires are there\<close>

context extension
begin

lemma init_extension_step:
  assumes "init_extension S E overwr tlv = Ok tlv'"
  shows "length tlv' = length tlv" "\<exists>v. get_extension_bytes S (EXT_TYPE E) tlv' = Ok v"
    and "V \<noteq> EXT_TYPE E \<Longrightarrow> get_extension_bytes S V tlv = Ok v \<Longrightarrow> get_extension_bytes S V tlv' = Ok v"
  using init_extension_Ok [OF assms] init_extension_other_bytes [OF assms]
  by (auto simp: get_extension_def res_simps)

end

lemmas init_extension_steps =
  tfa.init_extension_step immutable_owner.init_extension_step non_transferable_account.init_extension_step
  tha.init_extension_step pausable_account.init_extension_step

lemma init_account_extension_from_type_Ok:
  assumes "init_account_extension_from_type e tlv = Ok tlv'"
  shows "length tlv' = length tlv"
    and "get_account_type e = Account \<Longrightarrow> e \<noteq> ExtensionType.ConfidentialTransferAccount \<Longrightarrow>
      \<exists>v. get_extension_bytes AccountBase e tlv' = Ok v"
    and "V \<noteq> e \<Longrightarrow> get_extension_bytes AccountBase V tlv = Ok v \<Longrightarrow>
      get_extension_bytes AccountBase V tlv' = Ok v"
proof -
  show "length tlv' = length tlv"
    using assms by (cases e) (auto simp: init_account_extension_from_type_def dest: init_extension_steps(1,4,7,10,13))
  show "\<exists>v. get_extension_bytes AccountBase e tlv' = Ok v"
    if "get_account_type e = Account" "e \<noteq> ExtensionType.ConfidentialTransferAccount"
    using assms that
    by (cases e) (auto simp: init_account_extension_from_type_def dest: init_extension_steps(2,5,8,11,14))
  show "get_extension_bytes AccountBase V tlv' = Ok v" if "V \<noteq> e" "get_extension_bytes AccountBase V tlv = Ok v"
    using assms that
    by (cases e) (auto simp: init_account_extension_from_type_def dest: init_extension_steps(3,6,9,12,15))
qed

lemma init_account_extensions_Ok:
  assumes "init_account_extensions es tlv = Ok tlv'"
  shows "length tlv' = length tlv"
    and "V \<notin> set es \<Longrightarrow> get_extension_bytes AccountBase V tlv = Ok v \<Longrightarrow>
      get_extension_bytes AccountBase V tlv' = Ok v"
    and "\<exists>v. get_extension_bytes AccountBase V tlv = Ok v \<Longrightarrow> \<exists>v. get_extension_bytes AccountBase V tlv' = Ok v"
    and "e \<in> set es \<Longrightarrow> get_account_type e = Account \<Longrightarrow> e \<noteq> ExtensionType.ConfidentialTransferAccount \<Longrightarrow>
      \<exists>v. get_extension_bytes AccountBase e tlv' = Ok v"
proof -
  have *: "length tlv' = length tlv \<and>
    (\<forall>V v. V \<notin> set es \<longrightarrow> get_extension_bytes AccountBase V tlv = Ok v \<longrightarrow> get_extension_bytes AccountBase V tlv' = Ok v) \<and>
    (\<forall>e. get_account_type e = Account \<and> e \<noteq> ExtensionType.ConfidentialTransferAccount \<and>
      (e \<in> set es \<or> is_ok (get_extension_bytes AccountBase e tlv)) \<longrightarrow> is_ok (get_extension_bytes AccountBase e tlv')) \<and>
    (is_ok (get_extension_bytes AccountBase ExtensionType.ConfidentialTransferAccount tlv) \<longrightarrow>
      is_ok (get_extension_bytes AccountBase ExtensionType.ConfidentialTransferAccount tlv'))"
    using assms
  proof (induction es arbitrary: tlv)
    case (Cons x es)
    then obtain t where x: "init_account_extension_from_type x tlv = Ok t" and r: "init_account_extensions es t = Ok tlv'"
      by (auto simp: res_simps)
    note s = init_account_extension_from_type_Ok [OF x] and IH = Cons.IH [OF r]
    have ct: "is_ok (get_extension_bytes AccountBase ExtensionType.ConfidentialTransferAccount t)"
      if "is_ok (get_extension_bytes AccountBase ExtensionType.ConfidentialTransferAccount tlv)"
      using that s(3) [of ExtensionType.ConfidentialTransferAccount] x
      by (cases "x = ExtensionType.ConfidentialTransferAccount")
        (auto simp: is_ok_iff init_account_extension_from_type_def)
    have st: "is_ok (get_extension_bytes AccountBase e t)"
      if "get_account_type e = Account" "e \<noteq> ExtensionType.ConfidentialTransferAccount"
        "e = x \<or> is_ok (get_extension_bytes AccountBase e tlv)" for e
      using that s(2) s(3) [of e] by (cases "e = x") (auto simp: is_ok_iff)
    show ?case using IH s(1,3) ct st by auto
  qed simp
  have kind: "get_account_type V = Account" if "get_extension_bytes AccountBase V tlv = Ok v" for V v
    using that by (simp add: get_extension_bytes_def split: if_splits)
  show "length tlv' = length tlv" using * by blast
  show "get_extension_bytes AccountBase V tlv' = Ok v" if "V \<notin> set es" "get_extension_bytes AccountBase V tlv = Ok v"
    using * that by blast
  show "\<exists>v. get_extension_bytes AccountBase V tlv' = Ok v" if "\<exists>v. get_extension_bytes AccountBase V tlv = Ok v"
  proof -
    from that obtain v where v: "get_extension_bytes AccountBase V tlv = Ok v" ..
    then have "is_ok (get_extension_bytes AccountBase V tlv)" by (simp add: is_ok_iff)
    with * kind [OF v] show ?thesis
      by (cases "V = ExtensionType.ConfidentialTransferAccount") (auto simp: is_ok_iff)
  qed
  show "\<exists>v. get_extension_bytes AccountBase e tlv' = Ok v"
    if "e \<in> set es" "get_account_type e = Account" "e \<noteq> ExtensionType.ConfidentialTransferAccount"
    using * that by (auto simp: is_ok_iff)
qed

lemma init_account_type_Ok:
  assumes "init_account_type S st = Ok st'" "tail_ok AccountType.Uninitialized (account_type st) (tlv_data st)"
  shows "base st' = base st" "tlv_data st' = tlv_data st" "tail_ok (ACCOUNT_TYPE S) (account_type st') (tlv_data st')"
    and "length (account_type st') = length (account_type st)"
  using assms by (auto simp: init_account_type_def tail_ok_def res_simps split: if_splits option.splits)

lemma new_account_base_Ok:
  assumes "new_account_base k owner state rent lamports len b = Ok b'"
  shows "a_mint b' = k" "a_owner b' = owner" "a_delegate b' = coption_none" "a_close_authority b' = coption_none"
    "a_delegated_amount b' = 0" "a_state b' = account_state_code state"
    and "if k = native_mint_id
      then a_is_native b' = coption_some (minimum_balance rent len) \<and>
        unat (a_amount b') + unat (minimum_balance rent len) = unat lamports
      else a_is_native b' = coption_none \<and> a_amount b' = 0"
  using assms by (auto simp: new_account_base_def Let_def res_simps split: if_splits dest: checked_sub_unat)

lemma write_new:
  assumes "unpack_uninitialized PodAccountB d = Ok st" "account_is_initialized (base st')"
    and "tail_ok Account (account_type st') (tlv_data st')" "length (account_type st') = length (account_type st)"
    and "length (tlv_data st') = length (tlv_data st)"
  shows "token_account (pack_state PodAccountB st') = Ok st'" "length (pack_state PodAccountB st') = length d"
proof -
  have d: "length d \<noteq> MULTISIG_LEN" "d = pack_state PodAccountB st"
    using account_base.unpack_uninitialized_Ok [OF assms(1)] by blast+
  have "account_type st' = [] \<longleftrightarrow> account_type st = []" using assms(4) by auto
  then show l: "length (pack_state PodAccountB st') = length d"
    unfolding d(2) account_base.length_pack_state using assms(4,5) by (simp add: tail_bytes_def)
  then show "token_account (pack_state PodAccountB st') = Ok st'"
    using assms(2,3) d(1) by (simp add: account_base.unpack_mut_Ok)
qed

lemma initialize_account_state_Ok:
  assumes "initialize_account_state rent i m ow L = Ok L'" "unpack PodMintB (ac_data (L (ai_key m))) = Ok mint"
    and "starting_state (tlv_data mint) \<noteq> Ok AccountState.Uninitialized"
  obtains st0 st types state where
    "unpack_uninitialized PodAccountB (ac_data (L (ai_key i))) = Ok st0"
    "ac_owner (L (ai_key m)) = token_program_id" "get_extension_types (tlv_data mint) = Ok types"
    "starting_state (tlv_data mint) = Ok state" "is_exempt rent (ac_lamports (L (ai_key i))) (data_len L i)"
    "token_account (ac_data (L' (ai_key i))) = Ok st" "data_len L' i = data_len L i"
    "new_account_base (ai_key m) ow state rent (ac_lamports (L (ai_key i))) (data_len L i) (base st0) = Ok (base st)"
    "\<And>e. e \<in> set (get_required_init_account_extensions types) \<Longrightarrow>
      \<exists>v. get_extension_bytes AccountBase e (tlv_data st) = Ok v"
    "\<And>k. k \<noteq> ai_key i \<Longrightarrow> L' k = L k" "ac_lamports (L' (ai_key i)) = ac_lamports (L (ai_key i))"
    "ac_owner (L' (ai_key i)) = ac_owner (L (ai_key i))"
    "\<And>V v. V \<notin> set (get_required_init_account_extensions types) \<Longrightarrow>
      get_extension_bytes AccountBase V (tlv_data st0) = Ok v \<Longrightarrow> get_extension_bytes AccountBase V (tlv_data st) = Ok v"
proof -
  obtain st0 types tlv state b st where
    un: "unpack_uninitialized PodAccountB (ac_data (L (ai_key i))) = Ok st0" and
    ex: "is_exempt rent (ac_lamports (L (ai_key i))) (data_len L i)" and
    req: "ac_owner (L (ai_key m)) = token_program_id" "get_extension_types (tlv_data mint) = Ok types" and
    ini: "init_account_extensions (get_required_init_account_extensions types) (tlv_data st0) = Ok tlv" and
    sst: "starting_state (tlv_data mint) = Ok state" and
    nb: "new_account_base (ai_key m) ow state rent (ac_lamports (L (ai_key i))) (data_len L i) (base st0) = Ok b" and
    ia: "init_account_type AccountBase (st0\<lparr>base := b, tlv_data := tlv\<rparr>) = Ok st" and
    L': "L' = set_data (ai_key i) (pack_state PodAccountB st) L"
    using assms(1,2)
    by (auto simp: initialize_account_state_def get_required_account_extensions_from_unpacked_mint_def
        res_simps Let_def)
  note i = init_account_extensions_Ok [OF ini]
  have t0: "tail_ok AccountType.Uninitialized (account_type st0) (tlv_data st0)"
    using account_base.unpack_uninitialized_Ok [OF un] by simp
  then have "tail_ok AccountType.Uninitialized (account_type st0) tlv" using i(1) by (auto simp: tail_ok_def)
  then have st: "base st = b" "tlv_data st = tlv" "tail_ok Account (account_type st) (tlv_data st)"
    "length (account_type st) = length (account_type st0)"
    using init_account_type_Ok [OF ia] by simp_all
  have "state \<noteq> AccountState.Uninitialized" using assms(3) sst by auto
  then have "account_is_initialized (base st)"
    using st(1) new_account_base_Ok(6) [OF nb] by (cases state) (simp_all add: account_is_initialized_def)
  then have w: "token_account (pack_state PodAccountB st) = Ok st" "length (pack_state PodAccountB st) = data_len L i"
    using write_new [OF un _ st(3,4)] st(2) i(1) by (simp_all add: data_len_def)
  have ct: "e \<noteq> ExtensionType.ConfidentialTransferAccount" if "e \<in> set (get_required_init_account_extensions types)" for e
  proof -
    have "e \<in> set (required_for x) \<Longrightarrow> e \<noteq> ExtensionType.ConfidentialTransferAccount" for x by (cases x) auto
    then show ?thesis using that by (auto simp: get_required_init_account_extensions_def)
  qed
  show ?thesis
  proof (rule that [OF un req sst ex])
    show "token_account (ac_data (L' (ai_key i))) = Ok st" "data_len L' i = data_len L i"
      using w L' by (simp_all add: data_len_def)
    show "\<exists>v. get_extension_bytes AccountBase e (tlv_data st) = Ok v"
      if "e \<in> set (get_required_init_account_extensions types)" for e
      using i(4) [OF that required_init_account_type [OF that] ct [OF that]] st(2) by simp
    show "get_extension_bytes AccountBase V (tlv_data st) = Ok v"
      if "V \<notin> set (get_required_init_account_extensions types)" "get_extension_bytes AccountBase V (tlv_data st0) = Ok v" for V v
      using i(2) [OF that] st(2) by simp
  qed (use nb st(1) L' in simp_all)
qed

section \<open>Properties\<close>

text \<open>
  C12: a new token account is a well-formed account of its mint: it belongs to the given owner, has no
  delegate and no close authority, starts in the state the mint asks for and empty, a native one
  with exactly the lamports beyond the reserve.  Every extension the extensions of the mint require
  is present and the other extensions stay.  Its length, lamports and owner stay, it is exempt from the rent that the sysvar or the runtime gives, it was not
  initialized before, and no other account changes.
\<close>

theorem initialize_account_correct:
  assumes "process_initialize_account_with env (i # m # iter) owner sysvar L = Ok L'"
    and "unpack PodMintB (ac_data (L (ai_key m))) = Ok mint"
    and "starting_state (tlv_data mint) \<noteq> Ok AccountState.Uninitialized"
  shows "\<exists>st st0 types state rent rest.
    get_rent env sysvar L (case owner of Some _ \<Rightarrow> iter | None \<Rightarrow> tl iter) = Ok (rent, rest) \<and> unpack_uninitialized PodAccountB (ac_data (L (ai_key i))) = Ok st0 \<and>
    token_account (ac_data (L' (ai_key i))) = Ok st \<and> data_len L' i = data_len L i \<and>
    is_exempt rent (ac_lamports (L (ai_key i))) (data_len L i) \<and>
    ac_owner (L (ai_key m)) = token_program_id \<and> get_extension_types (tlv_data mint) = Ok types \<and>
    starting_state (tlv_data mint) = Ok state \<and>
    a_mint (base st) = ai_key m \<and> a_owner (base st) = (case owner of Some ow \<Rightarrow> ow | None \<Rightarrow> ai_key (hd iter)) \<and>
    a_delegate (base st) = coption_none \<and> a_delegated_amount (base st) = 0 \<and> a_close_authority (base st) = coption_none \<and>
    a_state (base st) = account_state_code state \<and>
    (if ai_key m = native_mint_id
     then a_is_native (base st) = coption_some (minimum_balance rent (data_len L i)) \<and>
       unat (a_amount (base st)) + unat (minimum_balance rent (data_len L i)) = unat (ac_lamports (L (ai_key i)))
     else a_is_native (base st) = coption_none \<and> a_amount (base st) = 0) \<and>
    (\<forall>e\<in>set (get_required_init_account_extensions types).
       \<exists>v. get_extension_bytes AccountBase e (tlv_data st) = Ok v) \<and>
    (\<forall>e v. e \<notin> set (get_required_init_account_extensions types) \<longrightarrow>
       get_extension_bytes AccountBase e (tlv_data st0) = Ok v \<longrightarrow> get_extension_bytes AccountBase e (tlv_data st) = Ok v) \<and>
    ac_lamports (L' (ai_key i)) = ac_lamports (L (ai_key i)) \<and> ac_owner (L' (ai_key i)) = ac_owner (L (ai_key i)) \<and>
    (\<forall>k. k \<noteq> ai_key i \<longrightarrow> L' k = L k)"
proof -
  obtain ow and rent :: Rent and rest where ow: "ow = (case owner of Some ow \<Rightarrow> ow | None \<Rightarrow> ai_key (hd iter))"
    and rent: "get_rent env sysvar L (case owner of Some _ \<Rightarrow> iter | None \<Rightarrow> tl iter) = Ok (rent, rest)"
    and s: "initialize_account_state rent i m ow L = Ok L'"
    using assms(1) by (auto simp: process_initialize_account_with_def res_simps split: option.splits)
  obtain st0 st types state where
    "unpack_uninitialized PodAccountB (ac_data (L (ai_key i))) = Ok st0"
    "ac_owner (L (ai_key m)) = token_program_id" "get_extension_types (tlv_data mint) = Ok types"
    "starting_state (tlv_data mint) = Ok state" "is_exempt rent (ac_lamports (L (ai_key i))) (data_len L i)"
    "token_account (ac_data (L' (ai_key i))) = Ok st" "data_len L' i = data_len L i"
    "new_account_base (ai_key m) ow state rent (ac_lamports (L (ai_key i))) (data_len L i) (base st0) = Ok (base st)"
    "\<And>e. e \<in> set (get_required_init_account_extensions types) \<Longrightarrow>
      \<exists>v. get_extension_bytes AccountBase e (tlv_data st) = Ok v"
    "\<And>k. k \<noteq> ai_key i \<Longrightarrow> L' k = L k" "ac_lamports (L' (ai_key i)) = ac_lamports (L (ai_key i))"
    "ac_owner (L' (ai_key i)) = ac_owner (L (ai_key i))"
    "\<And>V v. V \<notin> set (get_required_init_account_extensions types) \<Longrightarrow>
      get_extension_bytes AccountBase V (tlv_data st0) = Ok v \<Longrightarrow> get_extension_bytes AccountBase V (tlv_data st) = Ok v"
    by (rule initialize_account_state_Ok [OF s assms(2,3)]) blast
  note r = this
  show ?thesis
    by (rule exI [of _ st], rule exI [of _ st0], rule exI [of _ types], rule exI [of _ state], rule exI [of _ rent],
        rule exI [of _ rest])
      (use new_account_base_Ok [OF r(8)] r ow rent in auto)
qed

definition blank_account :: PodAccount where
  "blank_account = (plain_account 0 0 0)\<lparr>a_state := account_state_code AccountState.Uninitialized\<rparr>"

definition new_ledger :: ledger where
  "new_ledger = demo_ledger(13 := \<lparr>ac_lamports = 10, ac_data = enc_account blank_account, ac_owner = token_program_id\<rparr>)"

lemma unpack_uninitialized_plain:
  "unpack_uninitialized PodAccountB (enc_account blank_account) =
     Ok \<lparr>base = blank_account, tlv_data = [], account_type = []\<rparr>"
  by (simp add: unpack_uninitialized_def check_min_len_and_not_multisig_def base_lens base_from_bytes_def
      unpack_uninitialized_type_and_tlv_data_mut_def unpack_type_and_tlv_data_with_check_mut_def
      type_and_tlv_indices_def check_account_type_matches_extension_type_def get_first_extension_type_def
      blank_account_def account_is_initialized_def PodAccountB_def Let_def)

lemma demo_initialize_account:
  "\<exists>L'. process_initialize_account_with demo_env [unsigned_key 13, unsigned_key 1] (Some 22) False new_ledger = Ok L'"
  by (simp add: process_initialize_account_with_def get_rent_def initialize_account_state_def new_ledger_def
      unpack_uninitialized_plain borrow_data_def get_required_account_extensions_from_unpacked_mint_def
      check_program_account_def get_extension_types_def get_tlv_data_info_def get_tlv_data_info_from.simps
      get_required_init_account_extensions_def try_calculate_account_len_def data_len_def starting_state_def
      new_account_base_def init_account_type_def get_first_extension_type_def demo_env_def base_lens native_mint_id_def Let_def)

theorem initialize_account_correct_witness:
  "\<exists>L' st. process_initialize_account_with demo_env [unsigned_key 13, unsigned_key 1] (Some 22) False new_ledger = Ok L' \<and>
     token_account (ac_data (L' 13)) = Ok st \<and> a_owner (base st) = 22 \<and> a_mint (base st) = 1"
proof -
  obtain L' where l: "process_initialize_account_with demo_env [unsigned_key 13, unsigned_key 1] (Some 22) False new_ledger = Ok L'"
    using demo_initialize_account by blast
  then show ?thesis
    using initialize_account_correct [OF l, of "\<lparr>base = plain_mint 30 150, tlv_data = []\<rparr>"]
    by (auto simp: new_ledger_def starting_state_def)
qed

text \<open>
  C13: a new mint has the given authority, freeze authority and decimals, and keeps the extensions that were
  put in place before.  Its account has exactly the length of those extensions, their combination
  is valid, accounts frozen by default come only with a freeze authority, the account is exempt from the rent
  that the sysvar or the runtime gives, and the mint was not initialized before.  The supply is not written: it is
  what the bytes of the uninitialized account hold.  No other account changes.
\<close>

theorem initialize_mint_correct:
  assumes "process_initialize_mint_with env (m # iter) decimals mint_auth freeze_auth sysvar L = Ok L'"
  shows "\<exists>st0 mint types. unpack_uninitialized PodMintB (ac_data (L (ai_key m))) = Ok st0 \<and>
    token_mint (ac_data (L' (ai_key m))) = Ok mint \<and> data_len L' m = data_len L m \<and>
    base mint = (base st0)\<lparr>m_mint_authority := coption_some mint_auth, m_decimals := decimals,
      m_is_initialized := 1, m_freeze_authority := freeze_auth\<rparr> \<and>
    tlv_data mint = tlv_data st0 \<and> get_extension_types (tlv_data mint) = Ok types \<and>
    try_calculate_account_len MintBase types = Ok (data_len L m) \<and>
    check_for_invalid_mint_extension_combinations types = Ok () \<and>
    (starting_state (tlv_data mint) = Ok Frozen \<longrightarrow> \<not> coption_is_none freeze_auth) \<and>
    (\<exists>rent rest. get_rent env sysvar L iter = Ok (rent, rest) \<and>
       is_exempt rent (ac_lamports (L (ai_key m))) (data_len L m)) \<and>
    (\<forall>k. k \<noteq> ai_key m \<longrightarrow> L' k = L k)"
proof -
  obtain rent :: Rent and rest where
    rent: "get_rent env sysvar L iter = Ok (rent, rest)" "is_exempt rent (ac_lamports (L (ai_key m))) (data_len L m)"
    using assms by (auto simp: process_initialize_mint_with_def and_then_Ok Let_def split: if_splits)
  obtain st0 types mint where
    un: "unpack_uninitialized PodMintB (ac_data (L (ai_key m))) = Ok st0" and
    ty: "get_extension_types (tlv_data st0) = Ok types" "try_calculate_account_len MintBase types = Ok (data_len L m)"
      "check_for_invalid_mint_extension_combinations types = Ok ()" and
    fr: "(case get_extension_mut MintBase DefaultAccountStateX (tlv_data st0) of
                 Ok (e, _) \<Rightarrow>
                   and_then (ok_or (account_state_try_from (das_state e)) InvalidAccountData) (\<lambda>s.
                   if s = Frozen \<and> coption_is_none freeze_auth then TErr MintCannotFreeze else Ok ())
               | Err _ \<Rightarrow> Ok ()) = Ok ()" and
    ia: "init_account_type MintBase (st0\<lparr>base := (base st0)\<lparr>m_mint_authority := coption_some mint_auth,
           m_decimals := decimals, m_is_initialized := pod_bool_from True, m_freeze_authority := freeze_auth\<rparr>\<rparr>) = Ok mint" and
    L': "L' = set_data (ai_key m) (pack_state PodMintB mint) L"
    using assms by (auto simp: process_initialize_mint_with_def res_simps Let_def)
  have d: "length (ac_data (L (ai_key m))) \<noteq> MULTISIG_LEN" "ac_data (L (ai_key m)) = pack_state PodMintB st0"
    "tail_ok AccountType.Uninitialized (account_type st0) (tlv_data st0)"
    using mint_base.unpack_uninitialized_Ok [OF un] by blast+
  then have st: "base mint = (base st0)\<lparr>m_mint_authority := coption_some mint_auth, m_decimals := decimals,
      m_is_initialized := 1, m_freeze_authority := freeze_auth\<rparr>" "tlv_data mint = tlv_data st0"
    "tail_ok Mint (account_type mint) (tlv_data mint)" "length (account_type mint) = length (account_type st0)"
    using init_account_type_Ok [OF ia] by (simp_all add: pod_bool_from_def)
  then have "account_type mint = [] \<longleftrightarrow> account_type st0 = []" by auto
  then have l: "length (pack_state PodMintB mint) = length (ac_data (L (ai_key m)))"
    unfolding d(2) mint_base.length_pack_state using st(2,4) by (simp add: tail_bytes_def)
  have "token_mint (pack_state PodMintB mint) = Ok mint"
    unfolding mint_base.unpack_mut_Ok using st l d(1) by (simp add: mint_is_initialized_def pod_bool_def)
  moreover have "starting_state (tlv_data mint) = Ok Frozen \<longrightarrow> \<not> coption_is_none freeze_auth"
    using fr st(2)
    by (auto simp: starting_state_def get_extension_mut_eq and_then_def split: sum.splits if_splits)
  ultimately show ?thesis
    using un ty st(1,2) l L' rent by (auto simp: data_len_def)
qed

definition blank_mint :: PodMint where
  "blank_mint = (plain_mint 0 0)\<lparr>m_mint_authority := coption_none, m_is_initialized := 0,
     m_freeze_authority := coption_none\<rparr>"

definition new_mint_ledger :: ledger where
  "new_mint_ledger = demo_ledger(2 := \<lparr>ac_lamports = 10, ac_data = enc_mint blank_mint, ac_owner = token_program_id\<rparr>)"

lemma unpack_uninitialized_plain_mint:
  "unpack_uninitialized PodMintB (enc_mint blank_mint) =
     Ok \<lparr>base = blank_mint, tlv_data = [], account_type = []\<rparr>"
  by (simp add: unpack_uninitialized_def check_min_len_and_not_multisig_def base_lens base_from_bytes_def
      unpack_uninitialized_type_and_tlv_data_mut_def unpack_type_and_tlv_data_with_check_mut_def
      type_and_tlv_indices_def check_account_type_matches_extension_type_def get_first_extension_type_def
      blank_mint_def mint_is_initialized_def pod_bool_def PodMintB_def Let_def)

theorem initialize_mint_correct_witness:
  "\<exists>L' mint. process_initialize_mint_with demo_env [unsigned_key 2] 9 33 coption_none False new_mint_ledger = Ok L' \<and>
     token_mint (ac_data (L' 2)) = Ok mint \<and> m_decimals (base mint) = 9"
proof -
  have "\<exists>L'. process_initialize_mint_with demo_env [unsigned_key 2] 9 33 coption_none False new_mint_ledger = Ok L'"
    by (simp add: process_initialize_mint_with_def get_rent_def new_mint_ledger_def unpack_uninitialized_plain_mint
        get_extension_types_def get_tlv_data_info_def get_tlv_data_info_from.simps try_calculate_account_len_def
        data_len_def base_lens check_for_invalid_mint_extension_combinations_def init_account_type_def
        get_first_extension_type_def demo_env_def Let_def)
  then obtain L' where l: "process_initialize_mint_with demo_env [unsigned_key 2] 9 33 coption_none False new_mint_ledger = Ok L'" ..
  then show ?thesis using initialize_mint_correct [OF l] by auto
qed

text \<open>
  A new multisignature account records the signers in the order they were passed, between one and
  eleven of them, with a threshold between one and eleven; it was not initialized before.  The
  owner list validation reads back is the list of their keys.
\<close>

theorem initialize_multisig_correct:
  assumes "process_initialize_multisig_with env (i # iter) m sysvar L = Ok L'"
    and "get_rent env sysvar L iter = Ok (rent, signers)"
  shows "let ms = dec_multisig (ac_data (L' (ai_key i)))
    in length (ac_data (L' (ai_key i))) = MULTISIG_LEN \<and> ms_m ms = m \<and> pod_bool (ms_is_initialized ms) \<and>
       unat (ms_n ms) = length signers \<and> 1 \<le> length signers \<and> length signers \<le> 11 \<and>
       1 \<le> unat m \<and> unat m \<le> 11 \<and>
       take (unat (ms_n ms)) (ms_signers ms) = map ai_key signers \<and>
       \<not> pod_bool (ms_is_initialized (dec_multisig (ac_data (L (ai_key i))))) \<and>
       (\<forall>k. k \<noteq> ai_key i \<longrightarrow> L' k = L k)"
proof -
  let ?old = "dec_multisig (ac_data (L (ai_key i)))"
  let ?ms = "\<lparr>ms_m = m, ms_n = of_nat (length signers), ms_is_initialized = pod_bool_from True,
    ms_signers = overwrite 0 (map ai_key signers) (ms_signers ?old)\<rparr>"
  have h: "\<not> pod_bool (ms_is_initialized ?old)" "is_valid_signer_index (unat (of_nat (length signers) :: u8))"
    "is_valid_signer_index (unat m)" "length signers \<le> 11" "L' = set_data (ai_key i) (enc_multisig ?ms) L"
    using assms by (auto simp: process_initialize_multisig_with_def multisig_from_bytes_def res_simps Let_def
        MAX_SIGNERS_def not_less split: if_splits)
  have n: "unat (of_nat (length signers) :: u8) = length signers"
    using h(4) by (intro unat_of_nat_eq) simp
  have len: "length (ms_signers ?ms) = MAX_SIGNERS"
    using h(4) by (simp add: overwrite_def MAX_SIGNERS_def)
  then have dec: "dec_multisig (enc_multisig ?ms) = ?ms" by (rule dec_enc_multisig)
  have "length (enc_multisig ?ms) = MULTISIG_LEN" using len by (rule length_enc_multisig)
  moreover have "take (length signers) (ms_signers ?ms) = map ai_key signers" by (simp add: overwrite_def)
  ultimately show ?thesis
    using h n dec by (simp add: Let_def is_valid_signer_index_def MIN_SIGNERS_def MAX_SIGNERS_def)
qed

theorem initialize_multisig_correct_witness:
  "\<exists>L'. process_initialize_multisig_with demo_env [unsigned_key 14, unsigned_key 41, unsigned_key 42, unsigned_key 43] 2 False
     (demo_ledger(14 := \<lparr>ac_lamports = 10, ac_data = replicate MULTISIG_LEN 0, ac_owner = token_program_id\<rparr>)) = Ok L' \<and>
     unat (ms_n (dec_multisig (ac_data (L' 14)))) = 3 \<and>
     take (unat (ms_n (dec_multisig (ac_data (L' 14))))) (ms_signers (dec_multisig (ac_data (L' 14)))) = [41, 42, 43]"
proof -
  let ?L = "demo_ledger(14 := \<lparr>ac_lamports = 10, ac_data = replicate MULTISIG_LEN 0, ac_owner = token_program_id\<rparr>)"
  let ?s = "[unsigned_key 41, unsigned_key 42, unsigned_key 43]"
  have z: "ms_is_initialized (dec_multisig (replicate MULTISIG_LEN 0)) = 0"
    by (simp add: dec_multisig_def MULTISIG_LEN_def)
  have r: "get_rent demo_env False ?L ?s = Ok (\<lparr>is_exempt = (\<lambda>l n. True), minimum_balance = (\<lambda>n. 1)\<rparr>, ?s)"
    by (simp add: get_rent_def demo_env_def)
  have "\<exists>L'. process_initialize_multisig_with demo_env (unsigned_key 14 # ?s) 2 False ?L = Ok L'"
    unfolding process_initialize_multisig_with_def
    by (simp add: r z multisig_from_bytes_def pod_bool_def is_valid_signer_index_def MIN_SIGNERS_def MAX_SIGNERS_def Let_def)
  then obtain L' where l: "process_initialize_multisig_with demo_env (unsigned_key 14 # ?s) 2 False ?L = Ok L'" ..
  have "unat (ms_n (dec_multisig (ac_data (L' 14)))) = 3"
    using initialize_multisig_correct [OF l r] by (simp add: Let_def)
  moreover have "take (unat (ms_n (dec_multisig (ac_data (L' 14))))) (ms_signers (dec_multisig (ac_data (L' 14)))) =
      [41, 42, 43]"
    using initialize_multisig_correct [OF l r] unfolding Let_def list.map AccountInfo.select_convs by blast
  ultimately show ?thesis using l by blast
qed

lemma unpack_uninitialized_initialized:
  assumes "unpack_mut B d = Ok st"
  shows "unpack_uninitialized B d = TErr AlreadyInUse"
  using assms by (auto simp: unpack_mut_def unpack_uninitialized_def res_simps Let_def split: if_splits)

text \<open>
  Nothing is initialized twice.  On an account that already is a token account, a mint or a
  multisignature account, the corresponding initialization never succeeds, whatever its arguments.
\<close>

theorem no_reinitialization:
  assumes "if mint then is_ok (token_mint (ac_data (L (ai_key i)))) else is_ok (token_account (ac_data (L (ai_key i))))"
  shows "(if mint then \<not> is_ok (process_initialize_mint_with env (i # iter) decimals auth freeze sysvar L)
     else \<not> is_ok (process_initialize_account_with env (i # iter) owner sysvar L))"
proof (cases mint)
  case True
  then obtain st where "token_mint (ac_data (L (ai_key i))) = Ok st" using assms by (auto simp: is_ok_iff)
  then show ?thesis
    using True by (auto simp: is_ok_iff process_initialize_mint_with_def res_simps Let_def
        unpack_uninitialized_initialized)
next
  case False
  then obtain st where "token_account (ac_data (L (ai_key i))) = Ok st" using assms by (auto simp: is_ok_iff)
  then show ?thesis
    using False by (auto simp: is_ok_iff process_initialize_account_with_def initialize_account_state_def
        res_simps Let_def unpack_uninitialized_initialized split: option.splits)
qed

theorem no_reinitialization_witness:
  "\<not> is_ok (process_initialize_mint_with demo_env [unsigned_key 1] 9 33 coption_none False demo_ledger)"
  using no_reinitialization [of True demo_ledger "unsigned_key 1" demo_env "[]" 9 33 coption_none False None] by simp

section \<open>Properties of single extensions\<close>

context extension
begin

lemma initialize_extension_Ok:
  assumes "initialize_extension B E overwr v info L = Ok L'"
    and "base_pod B" "S = base_state B"
  shows "\<exists>st tlv x. unpack_uninitialized B (ac_data (L (ai_key info))) = Ok st \<and> v = Ok x \<and>
    L' = set_data (ai_key info) (pack_state B (st\<lparr>tlv_data := tlv\<rparr>)) L \<and> length tlv = length (tlv_data st) \<and>
    get_extension S E tlv = Ok x \<and>
    (\<forall>V w. V \<noteq> EXT_TYPE E \<longrightarrow> get_extension_bytes S V (tlv_data st) = Ok w \<longrightarrow> get_extension_bytes S V tlv = Ok w)"
proof -
  obtain st t x where h: "unpack_uninitialized B (ac_data (L (ai_key info))) = Ok st"
    "init_extension S E overwr (tlv_data st) = Ok t" "v = Ok x"
    "L' = set_data (ai_key info) (pack_state B (st\<lparr>tlv_data := set_extension S E x t\<rparr>)) L"
    using assms(1,3) by (auto simp: initialize_extension_def res_simps)
  note i = init_extension_step [OF h(2)]
  have "get_extension S E t = Ok (ext_default E)" using init_extension_Ok [OF h(2)] by simp
  then have "get_extension S E (set_extension S E x t) = Ok x" by (rule get_set_same)
  then show ?thesis
    using h i get_set_other_bytes [of _ S S x t]
    by (intro exI [of _ st] exI [of _ "set_extension S E x t"] exI [of _ x]) auto
qed

end

context base_pod
begin

lemma unpack_uninitialized_pack_state:
  assumes "length (pack_state B st) \<noteq> MULTISIG_LEN" "\<not> base_is_initialized B (base st)"
    and "tail_ok AccountType.Uninitialized (account_type st) (tlv_data st)"
    and "check_account_type_matches_extension_type (base_state B) (tlv_data st) = Ok ()"
  shows "unpack_uninitialized B (pack_state B st) = Ok st"
proof -
  have "unpack_uninitialized_type_and_tlv_data_mut (base_state B)
      (tail_bytes (base_state B) (account_type st) (tlv_data st)) = Ok (account_type st, tlv_data st)"
    using assms(3) by (simp add: unpack_uninitialized_type_and_tlv_data_mut_Ok)
  moreover have "\<not> length (pack_state B st) < SIZE_OF (base_state B)" by (simp add: length_pack_state)
  ultimately show ?thesis
    using assms by (simp add: unpack_uninitialized_def check_min_len_and_not_multisig_def base_from_bytes_def
        length_enc dec_enc Let_def pack_state_split)
qed

end

text \<open>
  Initializing a permanent delegate puts exactly the given key in place, refuses the zero key,
  which would mean none, and keeps every other extension already on the mint.
\<close>

theorem initialize_permanent_delegate_correct:
  assumes "process_initialize_permanent_delegate (m # rest) delegate L = Ok L'"
  shows "delegate \<noteq> 0 \<and> (\<exists>st tlv. unpack_uninitialized PodMintB (ac_data (L (ai_key m))) = Ok st \<and>
    L' = set_data (ai_key m) (pack_state PodMintB (st\<lparr>tlv_data := tlv\<rparr>)) L \<and>
    get_permanent_delegate MintBase tlv = Some delegate \<and> length tlv = length (tlv_data st) \<and>
    (\<forall>V w. V \<noteq> ExtensionType.PermanentDelegate \<longrightarrow> get_extension_bytes MintBase V (tlv_data st) = Ok w \<longrightarrow>
       get_extension_bytes MintBase V tlv = Ok w))"
proof -
  have init: "initialize_extension PodMintB PermanentDelegateX True
      (and_then (opt_key_try_from (Some delegate)) (\<lambda>k. Ok \<lparr>pd_delegate = k\<rparr>)) m L = Ok L'"
    using assms by (simp add: process_initialize_permanent_delegate_def)
  obtain st tlv x where h: "unpack_uninitialized PodMintB (ac_data (L (ai_key m))) = Ok st"
    "and_then (opt_key_try_from (Some delegate)) (\<lambda>k. Ok \<lparr>pd_delegate = k\<rparr>) = Ok x"
    "L' = set_data (ai_key m) (pack_state PodMintB (st\<lparr>tlv_data := tlv\<rparr>)) L" "length tlv = length (tlv_data st)"
    "get_extension MintBase PermanentDelegateX tlv = Ok x"
    "\<forall>V w. V \<noteq> ExtensionType.PermanentDelegate \<longrightarrow> get_extension_bytes MintBase V (tlv_data st) = Ok w \<longrightarrow>
       get_extension_bytes MintBase V tlv = Ok w"
    using pd.initialize_extension_Ok [OF init mint_base.base_pod_axioms, of MintBase]
    by (simp add: ext_type_simps) blast
  from h(2) obtain k where k: "opt_key_try_from (Some delegate) = Ok k" "x = \<lparr>pd_delegate = k\<rparr>"
    by (auto simp: res_simps)
  have "opt_key k = Some delegate" by (rule opt_key_try_from_Ok [OF k(1)])
  then have "get_permanent_delegate MintBase tlv = Some delegate"
    using h(5) k(2) by (simp add: get_permanent_delegate_def)
  moreover have "delegate \<noteq> 0" using k(1) by (auto simp: opt_key_try_from_def)
  ultimately show ?thesis using h by blast
qed

text \<open>A mint account with room for one permanent delegate, still all zero behind the base.\<close>

definition room_mint :: "PodMint PodStateWithExtensionsMut" where
  "room_mint = \<lparr>base = blank_mint, tlv_data = replicate 36 0, account_type = [0]\<rparr>"

lemma u16_at_zeros: "u16_at (replicate 36 0) 0 = 0"
  by (simp add: u16_at_def subslice_def eval_nat_numeral from_le_def)

lemma type_of_zeros: "extension_type_from_bytes (subslice 0 2 (replicate 36 0)) = Ok ExtensionType.Uninitialized"
  by (simp add: subslice_def eval_nat_numeral extension_type_from_bytes_def from_le_def extension_type_try_from_def
      extension_types_def)

lemma unpack_room_mint: "unpack_uninitialized PodMintB (pack_state PodMintB room_mint) = Ok room_mint"
  by (rule mint_base.unpack_uninitialized_pack_state)
    (simp_all add: room_mint_def mint_base.length_pack_state tail_bytes_def base_lens blank_mint_def
      mint_is_initialized_def pod_bool_def tail_ok_def check_account_type_matches_extension_type_def
      get_first_extension_type_def type_of_zeros BASE_ACCOUNT_LENGTH_def Let_def)

lemma init_room_mint: "\<exists>t. init_extension MintBase PermanentDelegateX True (replicate 36 0) = Ok t"
  by (simp add: init_extension_def alloc_def get_extension_indices_def get_extension_indices_from.simps
      u16_at_zeros type_of_zeros length_try_from_def PermanentDelegateX_def add_type_and_length_to_len_def Let_def)

theorem initialize_permanent_delegate_correct_witness:
  "\<exists>L' st. process_initialize_permanent_delegate [unsigned_key 2] 77
     (demo_ledger(2 := \<lparr>ac_lamports = 10, ac_data = pack_state PodMintB room_mint, ac_owner = token_program_id\<rparr>)) = Ok L' \<and>
     ac_data (L' 2) = pack_state PodMintB st \<and> get_permanent_delegate MintBase (tlv_data st) = Some 77"
proof -
  let ?L = "demo_ledger(2 := \<lparr>ac_lamports = 10, ac_data = pack_state PodMintB room_mint, ac_owner = token_program_id\<rparr>)"
  obtain t where t: "init_extension MintBase PermanentDelegateX True (replicate 36 0) = Ok t"
    using init_room_mint by blast
  have "\<exists>L'. process_initialize_permanent_delegate [unsigned_key 2] 77 ?L = Ok L'"
    using t by (simp add: process_initialize_permanent_delegate_def initialize_extension_def unpack_room_mint
        room_mint_def [THEN arg_cong, of tlv_data] opt_key_try_from_def)
  then obtain L' where l: "process_initialize_permanent_delegate [unsigned_key 2] 77 ?L = Ok L'" ..
  show ?thesis
    using initialize_permanent_delegate_correct [OF l] l by fastforce
qed

end
