(* ===== verification/Extension_Update.thy ===== *)
theory Extension_Update
  imports Initialization
begin

text \<open>
  The step the extension processors of src/program/src/extension share: unpack the mint, find the
  extension, check the authority stored in it and write the extension back
  (\<open>get_extension_mut\<close>, \<open>Processor::validate_owner\<close>, assignment through the reference).  Most processors
  are this step with their own authority field and their own change.
\<close>

text \<open>
  \<open>missing\<close> is the error of an extension without an authority; \<open>f\<close> is what the processor does after
  the authority is validated, which can fail.
\<close>

definition update_mint_extension ::
  "'a Extension \<Rightarrow> ('a \<Rightarrow> pubkey) \<Rightarrow> ProgramError \<Rightarrow> ('a \<Rightarrow> 'a result) \<Rightarrow> pubkey \<Rightarrow> AccountInfo list \<Rightarrow>
     ledger \<Rightarrow> ledger result" where
  "update_mint_extension E authority missing f program_id accounts L =
     and_then (next_account_info accounts) (\<lambda>(mint_account_info, iter).
     and_then (next_account_info iter) (\<lambda>(authority_info, rest).
     and_then (unpack_mut PodMintB (ac_data (L (ai_key mint_account_info)))) (\<lambda>mint.
     and_then (get_extension_mut MintBase E (tlv_data mint)) (\<lambda>(extension, _).
     and_then (ok_or (opt_key (authority extension)) missing) (\<lambda>k.
     and_then (validate_owner program_id L k authority_info (data_len L authority_info) rest) (\<lambda>_.
     and_then (f extension) (\<lambda>extension'.
     Ok (set_data (ai_key mint_account_info) (pack_state PodMintB
       (mint\<lparr>tlv_data := set_extension MintBase E extension' (tlv_data mint)\<rparr>)) L))))))))"

text \<open>
  What such a step promises: the mint keeps its base and every other extension, the extension goes
  from \<open>e\<close> to \<open>e'\<close>, the stored authority signed, and no other account changes.
\<close>

definition mint_extension_step ::
  "'a Extension \<Rightarrow> ('a \<Rightarrow> pubkey) \<Rightarrow> pubkey \<Rightarrow> AccountInfo \<Rightarrow> AccountInfo \<Rightarrow> AccountInfo list \<Rightarrow> ledger \<Rightarrow> ledger \<Rightarrow>
     'a \<Rightarrow> 'a \<Rightarrow> bool" where
  "mint_extension_step E authority program_id m a rest L L' e e' \<longleftrightarrow>
     (\<exists>mint mint'. token_mint (ac_data (L (ai_key m))) = Ok mint \<and> token_mint (ac_data (L' (ai_key m))) = Ok mint' \<and>
        base mint' = base mint \<and>
        get_extension MintBase E (tlv_data mint) = Ok e \<and> get_extension MintBase E (tlv_data mint') = Ok e' \<and>
        get_extension_types (tlv_data mint') = get_extension_types (tlv_data mint) \<and>
        (\<forall>V. V \<noteq> EXT_TYPE E \<longrightarrow>
          get_extension_bytes MintBase V (tlv_data mint') = get_extension_bytes MintBase V (tlv_data mint))) \<and>
     opt_key (authority e) = Some (ai_key a) \<and> owner_signed program_id L a rest \<and>
     (\<forall>k. k \<noteq> ai_key m \<longrightarrow> L' k = L k) \<and>
     ac_lamports (L' (ai_key m)) = ac_lamports (L (ai_key m)) \<and> ac_owner (L' (ai_key m)) = ac_owner (L (ai_key m))"

context extension
begin

lemma update_mint_extension_Ok:
  assumes "update_mint_extension E authority missing f program_id (m # a # rest) L = Ok L'"
  shows "\<exists>e e'. f e = Ok e' \<and> mint_extension_step E authority program_id m a rest L L' e e'"
proof -
  obtain mint e i e' where
    h: "token_mint (ac_data (L (ai_key m))) = Ok mint" "get_extension_mut MintBase E (tlv_data mint) = Ok (e, i)"
      "opt_key (authority e) = Some (ai_key a)" "owner_signed program_id L a rest" "f e = Ok e'"
      "L' = set_data (ai_key m) (pack_state PodMintB
         (mint\<lparr>tlv_data := set_extension MintBase E e' (tlv_data mint)\<rparr>)) L"
    using assms by (auto simp: update_mint_extension_def res_simps)
  let ?mint' = "mint\<lparr>tlv_data := set_extension MintBase E e' (tlv_data mint)\<rparr>"
  have g: "get_extension MintBase E (tlv_data mint) = Ok e" by (rule get_extension_mut_Ok_get [OF h(2)])
  have "token_mint (pack_state PodMintB ?mint') = Ok ?mint'"
    using token_mint_initialized [OF h(1)] by (intro token_mint_write [OF h(1)]) simp_all
  then have "mint_extension_step E authority program_id m a rest L L' e e'"
    unfolding mint_extension_step_def using h(1,3,4) g get_set_same [OF g, of e'] get_set_other_bytes
    by (auto simp: h(6) types_set_extension)
  with h(5) show ?thesis by blast
qed

end

lemma update_mint_extension_accounts:
  assumes "update_mint_extension E authority missing f program_id accounts L = Ok L'"
  obtains m a rest where "accounts = m # a # rest"
  using assms by (auto simp: update_mint_extension_def res_simps)

end
