(* ===== verification/Extension_Scenario.thy ===== *)
theory Extension_Scenario
  imports Extension_Update
begin

text \<open>
  Accounts with exactly one extension, laid out by \<open>init_extension\<close> on a zeroed buffer: the concrete
  mints and accounts the properties of the extension processors are applied to.
\<close>

lemma u16_at_zero_buffer: "2 \<le> n \<Longrightarrow> u16_at (replicate n 0) 0 = 0"
  by (simp add: u16_at_def subslice_def min_def from_le_def numeral_2_eq_2)

lemma type_of_zero_buffer:
  "2 \<le> n \<Longrightarrow> extension_type_from_bytes (subslice 0 2 (replicate n 0)) = Ok ExtensionType.Uninitialized"
proof -
  assume n: "2 \<le> n"
  have "subslice 0 2 (replicate n 0) = extension_type_bytes ExtensionType.Uninitialized"
    using n by (simp add: subslice_def min_def extension_type_bytes_def to_le_def numeral_2_eq_2)
  then show ?thesis by simp
qed

definition fresh_tlv :: "BaseState \<Rightarrow> 'a Extension \<Rightarrow> 'a \<Rightarrow> bytes" where
  "fresh_tlv S E v = (case init_extension S E True (replicate (4 + pod_len E) 0) of
     Ok t \<Rightarrow> set_extension S E v t | Err _ \<Rightarrow> [])"

context extension
begin

lemma init_zero_buffer:
  assumes "get_account_type (EXT_TYPE E) = ACCOUNT_TYPE S" "pod_len E < 2 ^ 16"
  shows "\<exists>t. init_extension S E True (replicate (4 + pod_len E) 0) = Ok t"
proof -
  let ?z = "replicate (4 + pod_len E) 0 :: bytes"
  have vu: "EXT_TYPE E \<noteq> ExtensionType.Uninitialized" using assms(1) by (cases S) auto
  have "extension_type_code (EXT_TYPE E) \<noteq> 0"
    using vu by (cases "EXT_TYPE E") simp_all
  then have "get_extension_indices (EXT_TYPE E) True ?z = Ok (get_tlv_indices 0)"
    by (simp add: get_extension_indices_def get_extension_indices_from.simps u16_at_zero_buffer Let_def)
  then show ?thesis
    using assms vu type_of_zero_buffer [of "4 + pod_len E"]
    by (simp add: init_extension_def alloc_def add_type_and_length_to_len_def length_try_from_def Let_def)
qed

lemma fresh_tlv:
  assumes "get_account_type (EXT_TYPE E) = ACCOUNT_TYPE S" "pod_len E < 2 ^ 16"
  shows "get_extension S E (fresh_tlv S E v) = Ok v" "length (fresh_tlv S E v) = 4 + pod_len E"
proof -
  obtain t where t: "init_extension S E True (replicate (4 + pod_len E) 0) = Ok t"
    using init_zero_buffer [OF assms] by blast
  note i = init_extension_Ok [OF t]
  show "get_extension S E (fresh_tlv S E v) = Ok v" using get_set_same [OF i(1)] t by (simp add: fresh_tlv_def)
  show "length (fresh_tlv S E v) = 4 + pod_len E" using i(2) t by (simp add: fresh_tlv_def)
qed

end

lemma extension_mut_exists:
  assumes "get_extension S E tlv = Ok v"
  shows "\<exists>i. get_extension_mut S E tlv = Ok (v, i)"
  using assms by (auto simp: get_extension_mut_eq res_simps)

definition ext_mint :: "PodMint \<Rightarrow> bytes \<Rightarrow> PodMint PodStateWithExtensionsMut" where
  "ext_mint b t = \<lparr>base = b, tlv_data = t, account_type = [account_type_code AccountType.Mint]\<rparr>"

definition ext_account :: "PodAccount \<Rightarrow> bytes \<Rightarrow> PodAccount PodStateWithExtensionsMut" where
  "ext_account b t = \<lparr>base = b, tlv_data = t, account_type = [account_type_code AccountType.Account]\<rparr>"

lemma ext_states [simp]:
  "base (ext_mint b t) = b" "tlv_data (ext_mint b t) = t" "base (ext_account c u) = c" "tlv_data (ext_account c u) = u"
  by (simp_all add: ext_mint_def ext_account_def)

lemma unpack_ext_mint:
  assumes "mint_is_initialized b" "length t \<noteq> 189"
  shows "token_mint (pack_state PodMintB (ext_mint b t)) = Ok (ext_mint b t)"
  unfolding mint_base.unpack_mut_Ok
  using assms by (simp add: mint_base.length_pack_state tail_bytes_def ext_mint_def base_lens tail_ok_def
      BASE_ACCOUNT_LENGTH_def)

lemma unpack_ext_account:
  assumes "account_is_initialized b" "length t \<noteq> 189"
  shows "token_account (pack_state PodAccountB (ext_account b t)) = Ok (ext_account b t)"
  unfolding account_base.unpack_mut_Ok
  using assms by (simp add: account_base.length_pack_state tail_bytes_def ext_account_def base_lens tail_ok_def
      BASE_ACCOUNT_LENGTH_def)

text \<open>The demo ledger with such a mint or account in the place of its mint 1 or account 11.\<close>

definition mint_ledger :: "bytes \<Rightarrow> ledger" where
  "mint_ledger t = set_data 1 (pack_state PodMintB (ext_mint (plain_mint 30 150) t)) demo_ledger"

definition account_ledger :: "bytes \<Rightarrow> ledger \<Rightarrow> ledger" where
  "account_ledger t L = set_data 11 (pack_state PodAccountB (ext_account (plain_account 1 21 50) t)) L"

lemma mint_ledger_simps [simp]:
  "ac_owner (mint_ledger t 1) = token_program_id" "k \<noteq> 1 \<Longrightarrow> mint_ledger t k = demo_ledger k"
  "length t \<noteq> 189 \<Longrightarrow> token_mint (ac_data (mint_ledger t 1)) = Ok (ext_mint (plain_mint 30 150) t)"
  by (simp_all add: mint_ledger_def unpack_ext_mint)

lemma account_ledger_simps [simp]:
  "ac_owner (account_ledger t L 11) = ac_owner (L 11)" "k \<noteq> 11 \<Longrightarrow> account_ledger t L k = L k"
  "length t \<noteq> 189 \<Longrightarrow> token_account (ac_data (account_ledger t L 11)) = Ok (ext_account (plain_account 1 21 50) t)"
  by (simp_all add: account_ledger_def unpack_ext_account)

text \<open>An authority-guarded update succeeds on such a mint, with the key 77 as the signing authority.\<close>

context extension
begin

lemma update_mint_extension_demo:
  assumes "get_account_type (EXT_TYPE E) = AccountType.Mint" "pod_len E < 2 ^ 16" "pod_len E \<noteq> 185"
    and "authority v = 77" "is_ok (f v)"
  shows "\<exists>L'. update_mint_extension E authority missing f token_program_id [unsigned_key 1, signed_key 77]
    (mint_ledger (fresh_tlv MintBase E v)) = Ok L'"
proof -
  have a: "get_account_type (EXT_TYPE E) = ACCOUNT_TYPE MintBase" using assms(1) by simp
  note t = fresh_tlv [OF a assms(2), of v]
  obtain i where i: "get_extension_mut MintBase E (fresh_tlv MintBase E v) = Ok (v, i)"
    using extension_mut_exists [OF t(1)] by blast
  obtain v' where v': "f v = Ok v'" using assms(5) by (auto simp: is_ok_iff)
  have "validate_owner token_program_id (mint_ledger (fresh_tlv MintBase E v)) 77 (signed_key 77)
      (data_len (mint_ledger (fresh_tlv MintBase E v)) (signed_key 77)) [] = Ok ()"
    by (rule validate_owner_plain) (simp add: demo_ledger_def)
  then show ?thesis
    using t(2) assms(3,4) i v' by (simp add: update_mint_extension_def opt_key_def)
qed

end

end
