(* ===== verification/Fee_Processor.thy ===== *)
theory Fee_Processor
  imports Extension_Scenario
begin

text \<open>
  The transfer fee instructions (src/program/src/extension/transfer_fee/processor.rs): configuring the
  fee, and bringing withheld fees from the accounts to the mint or to an account of the withdraw
  authority.
\<close>

section \<open>Configuring the fee\<close>

definition process_initialize_transfer_fee_config ::
  "Env \<Rightarrow> AccountInfo list \<Rightarrow> pubkey option \<Rightarrow> pubkey option \<Rightarrow> u16 \<Rightarrow> u64 \<Rightarrow> ledger \<Rightarrow> ledger result" where
  "process_initialize_transfer_fee_config env accounts transfer_fee_config_authority withdraw_withheld_authority
       transfer_fee_basis_points maximum_fee L =
     and_then (next_account_info accounts) (\<lambda>(mint_account_info, _).
     initialize_extension PodMintB TransferFeeConfigX True
       (and_then (opt_key_try_from transfer_fee_config_authority) (\<lambda>fee_authority.
        and_then (opt_key_try_from withdraw_withheld_authority) (\<lambda>withdraw_authority.
        if transfer_fee_basis_points > MAX_FEE_BASIS_POINTS then TErr TransferFeeExceedsMaximum
        else and_then (env_clock env) (\<lambda>clock.
          let transfer_fee = \<lparr>tf_epoch = clk_epoch clock, tf_maximum_fee = maximum_fee,
                tf_transfer_fee_basis_points = transfer_fee_basis_points\<rparr>
          in Ok \<lparr>tfc_transfer_fee_config_authority = fee_authority,
                tfc_withdraw_withheld_authority = withdraw_authority, tfc_withheld_amount = 0,
                tfc_older_transfer_fee = transfer_fee, tfc_newer_transfer_fee = transfer_fee\<rparr>))))
       mint_account_info L)"

text \<open>The change of the configuration, once the authority is validated.\<close>

definition set_transfer_fee :: "Env \<Rightarrow> u16 \<Rightarrow> u64 \<Rightarrow> TransferFeeConfig \<Rightarrow> TransferFeeConfig result" where
  "set_transfer_fee env transfer_fee_basis_points maximum_fee config =
     (if transfer_fee_basis_points > MAX_FEE_BASIS_POINTS then TErr TransferFeeExceedsMaximum
      else and_then (env_clock env) (\<lambda>clock.
        let epoch = clk_epoch clock;
            config = (if tf_epoch (tfc_newer_transfer_fee config) \<le> epoch
              then config\<lparr>tfc_older_transfer_fee := tfc_newer_transfer_fee config\<rparr> else config)
        in Ok (config\<lparr>tfc_newer_transfer_fee := \<lparr>tf_epoch = saturating_add epoch 2,
             tf_maximum_fee = maximum_fee, tf_transfer_fee_basis_points = transfer_fee_basis_points\<rparr>\<rparr>)))"

definition process_set_transfer_fee ::
  "pubkey \<Rightarrow> Env \<Rightarrow> AccountInfo list \<Rightarrow> u16 \<Rightarrow> u64 \<Rightarrow> ledger \<Rightarrow> ledger result" where
  "process_set_transfer_fee program_id env accounts transfer_fee_basis_points maximum_fee L =
     update_mint_extension TransferFeeConfigX tfc_transfer_fee_config_authority (token_error NoAuthorityExists)
       (set_transfer_fee env transfer_fee_basis_points maximum_fee) program_id accounts L"

section \<open>Withdrawing what was withheld\<close>

definition process_withdraw_withheld_tokens_from_mint ::
  "pubkey \<Rightarrow> AccountInfo list \<Rightarrow> ledger \<Rightarrow> ledger result" where
  "process_withdraw_withheld_tokens_from_mint program_id accounts L =
     and_then (next_account_info accounts) (\<lambda>(mint_account_info, iter).
     and_then (next_account_info iter) (\<lambda>(destination_account_info, iter).
     and_then (next_account_info iter) (\<lambda>(authority_info, rest).
     and_then (check_program_account (ac_owner (L (ai_key mint_account_info)))) (\<lambda>_.
     and_then (unpack_mut PodMintB (ac_data (L (ai_key mint_account_info)))) (\<lambda>mint.
     and_then (get_extension_mut MintBase TransferFeeConfigX (tlv_data mint)) (\<lambda>(extension, _).
     and_then (ok_or (opt_key (tfc_withdraw_withheld_authority extension)) (token_error NoAuthorityExists))
       (\<lambda>withdraw_withheld_authority.
     and_then (validate_owner program_id L withdraw_withheld_authority authority_info
       (data_len L authority_info) rest) (\<lambda>_.
     and_then (borrow_data (ai_key mint_account_info) L destination_account_info) (\<lambda>destination_account_data.
     and_then (unpack_mut PodAccountB destination_account_data) (\<lambda>destination_account.
     if a_mint (base destination_account) \<noteq> ai_key mint_account_info then TErr MintMismatch
     else if account_is_frozen (base destination_account) then TErr AccountFrozen
     else
     and_then (ok_or (checked_add (a_amount (base destination_account)) (tfc_withheld_amount extension))
       (token_error Overflow)) (\<lambda>amount.
     Ok (set_data (ai_key mint_account_info) (pack_state PodMintB (mint\<lparr>tlv_data :=
           set_extension MintBase TransferFeeConfigX (extension\<lparr>tfc_withheld_amount := 0\<rparr>) (tlv_data mint)\<rparr>))
         (set_data (ai_key destination_account_info) (pack_state PodAccountB
           (destination_account\<lparr>base := (base destination_account)\<lparr>a_amount := amount\<rparr>\<rparr>)) L)))))))))))))"

text \<open>
  The inner result is the \<open>Result<u64, TokenError>\<close> of \<open>harvest_from_account\<close>, which its callers
  match on; the outer one is the panic of borrowing the data of the mint twice.
\<close>

definition harvest_from_account ::
  "pubkey \<Rightarrow> AccountInfo \<Rightarrow> ledger \<Rightarrow> (TokenError + u64 \<times> ledger) result" where
  "harvest_from_account mint_key token_account_info L =
     and_then (borrow_data mint_key L token_account_info) (\<lambda>token_account_data. Ok (
       and_then (map_err (\<lambda>_. InvalidState) (unpack_mut PodAccountB token_account_data)) (\<lambda>token_account.
       if a_mint (base token_account) \<noteq> mint_key then Err MintMismatch
       else
       and_then (map_err (\<lambda>_. InvalidState) (check_program_account (ac_owner (L (ai_key token_account_info))))) (\<lambda>_.
       and_then (map_err (\<lambda>_. InvalidState)
         (get_extension_mut AccountBase TransferFeeAmountX (tlv_data token_account))) (\<lambda>(e, _).
       Ok (tfa_withheld_amount e, set_data (ai_key token_account_info) (pack_state PodAccountB
         (token_account\<lparr>tlv_data := set_extension AccountBase TransferFeeAmountX
            (e\<lparr>tfa_withheld_amount := 0\<rparr>) (tlv_data token_account)\<rparr>)) L))))))"

text \<open>The loop over the accounts; a failed harvest is logged and skipped.\<close>

fun harvest_loop :: "pubkey \<Rightarrow> AccountInfo list \<Rightarrow> u64 \<Rightarrow> ledger \<Rightarrow> (u64 \<times> ledger) result" where
  "harvest_loop mint_key [] withheld_amount L = Ok (withheld_amount, L)"
| "harvest_loop mint_key (token_account_info # rest) withheld_amount L =
     and_then (harvest_from_account mint_key token_account_info L) (\<lambda>r. case r of
         Inr (amount, L') \<Rightarrow>
           and_then (ok_or (checked_add withheld_amount amount) (token_error Overflow)) (\<lambda>withheld_amount.
           harvest_loop mint_key rest withheld_amount L')
       | Inl _ \<Rightarrow> harvest_loop mint_key rest withheld_amount L)"

definition process_harvest_withheld_tokens_to_mint :: "AccountInfo list \<Rightarrow> ledger \<Rightarrow> ledger result" where
  "process_harvest_withheld_tokens_to_mint accounts L =
     and_then (next_account_info accounts) (\<lambda>(mint_account_info, token_account_infos).
     and_then (unpack_mut PodMintB (ac_data (L (ai_key mint_account_info)))) (\<lambda>mint.
     and_then (get_extension_mut MintBase TransferFeeConfigX (tlv_data mint)) (\<lambda>(mint_extension, _).
     and_then (harvest_loop (ai_key mint_account_info) token_account_infos
       (tfc_withheld_amount mint_extension) L) (\<lambda>(withheld_amount, L').
     Ok (set_data (ai_key mint_account_info) (pack_state PodMintB (mint\<lparr>tlv_data :=
       set_extension MintBase TransferFeeConfigX (mint_extension\<lparr>tfc_withheld_amount := withheld_amount\<rparr>)
         (tlv_data mint)\<rparr>)) L')))))"

text \<open>
  The loop of \<open>WithdrawWithheldTokensFromAccounts\<close>; the destination stays unpacked, and is harvested in
  place when it is in the list itself.
\<close>

fun withdraw_loop ::
  "pubkey \<Rightarrow> pubkey \<Rightarrow> AccountInfo list \<Rightarrow> PodAccount PodStateWithExtensionsMut \<Rightarrow> ledger \<Rightarrow>
     (PodAccount PodStateWithExtensionsMut \<times> ledger) result" where
  "withdraw_loop mint_key destination_key [] destination_account L = Ok (destination_account, L)"
| "withdraw_loop mint_key destination_key (account_info # rest) destination_account L =
     (if ai_key account_info = destination_key
      then and_then (map_err (\<lambda>_. token_error InvalidState)
             (get_extension_mut AccountBase TransferFeeAmountX (tlv_data destination_account))) (\<lambda>(e, _).
           and_then (ok_or (checked_add (a_amount (base destination_account)) (tfa_withheld_amount e))
             (token_error Overflow)) (\<lambda>amount.
           withdraw_loop mint_key destination_key rest
             (destination_account\<lparr>base := (base destination_account)\<lparr>a_amount := amount\<rparr>,
                tlv_data := set_extension AccountBase TransferFeeAmountX (e\<lparr>tfa_withheld_amount := 0\<rparr>)
                  (tlv_data destination_account)\<rparr>) L))
      else and_then (harvest_from_account mint_key account_info L) (\<lambda>r. case r of
             Inr (amount, L') \<Rightarrow>
               and_then (ok_or (checked_add (a_amount (base destination_account)) amount) (token_error Overflow))
                 (\<lambda>amount. withdraw_loop mint_key destination_key rest
                    (destination_account\<lparr>base := (base destination_account)\<lparr>a_amount := amount\<rparr>\<rparr>) L')
           | Inl _ \<Rightarrow> withdraw_loop mint_key destination_key rest destination_account L))"

definition process_withdraw_withheld_tokens_from_accounts ::
  "pubkey \<Rightarrow> AccountInfo list \<Rightarrow> u8 \<Rightarrow> ledger \<Rightarrow> ledger result" where
  "process_withdraw_withheld_tokens_from_accounts program_id accounts num_token_accounts L =
     and_then (next_account_info accounts) (\<lambda>(mint_account_info, iter).
     and_then (next_account_info iter) (\<lambda>(destination_account_info, iter).
     and_then (next_account_info iter) (\<lambda>(authority_info, account_infos).
     let num_signers = length account_infos - unat num_token_accounts
     in
     and_then (check_program_account (ac_owner (L (ai_key mint_account_info)))) (\<lambda>_.
     and_then (unpack PodMintB (ac_data (L (ai_key mint_account_info)))) (\<lambda>mint.
     and_then (get_extension MintBase TransferFeeConfigX (tlv_data mint)) (\<lambda>extension.
     and_then (ok_or (opt_key (tfc_withdraw_withheld_authority extension)) (token_error NoAuthorityExists))
       (\<lambda>withdraw_withheld_authority.
     and_then (validate_owner program_id L withdraw_withheld_authority authority_info
       (data_len L authority_info) (take num_signers account_infos)) (\<lambda>_.
     and_then (borrow_data (ai_key mint_account_info) L destination_account_info) (\<lambda>destination_account_data.
     and_then (unpack_mut PodAccountB destination_account_data) (\<lambda>destination_account.
     if a_mint (base destination_account) \<noteq> ai_key mint_account_info then TErr MintMismatch
     else if account_is_frozen (base destination_account) then TErr AccountFrozen
     else
     and_then (withdraw_loop (ai_key mint_account_info) (ai_key destination_account_info)
       (drop num_signers account_infos) destination_account L) (\<lambda>(destination_account, L').
     Ok (set_data (ai_key destination_account_info) (pack_state PodAccountB destination_account) L'))))))))))))"

section \<open>What harvesting does to the accounts\<close>

text \<open>
  An account is left alone, or it is a token account of the mint whose balance and base stay and whose
  withheld fees are gone.
\<close>

definition harvested :: "pubkey \<Rightarrow> ledger \<Rightarrow> ledger \<Rightarrow> pubkey \<Rightarrow> bool" where
  "harvested mint_key L L' k \<longleftrightarrow> ac_lamports (L' k) = ac_lamports (L k) \<and> ac_owner (L' k) = ac_owner (L k) \<and>
     (L' k = L k \<or> (\<exists>st st'. token_account (ac_data (L k)) = Ok st \<and> token_account (ac_data (L' k)) = Ok st' \<and>
        a_mint (base st) = mint_key \<and> ac_owner (L k) = token_program_id \<and> base st' = base st \<and>
        withheld (tlv_data st') = 0))"

lemma harvested_refl [simp]: "harvested mint_key L L k"
  by (simp add: harvested_def)

lemma harvested_trans: "harvested m L L1 k \<Longrightarrow> harvested m L1 L2 k \<Longrightarrow> harvested m L L2 k"
  by (auto simp: harvested_def)

lemma harvest_from_account_Ok:
  assumes "harvest_from_account mint_key i L = Ok (Inr (amount, L'))"
  obtains st st' where "ai_key i \<noteq> mint_key" "token_account (ac_data (L (ai_key i))) = Ok st"
    "token_account (ac_data (L' (ai_key i))) = Ok st'" "a_mint (base st) = mint_key" "base st' = base st"
    "ac_owner (L (ai_key i)) = token_program_id" "withheld (tlv_data st) = unat amount" "withheld (tlv_data st') = 0"
    "L' = set_data (ai_key i) (pack_state PodAccountB st') L" "length (tlv_data st') = length (tlv_data st)"
proof -
  obtain st e j where h: "ai_key i \<noteq> mint_key" "token_account (ac_data (L (ai_key i))) = Ok st"
    "a_mint (base st) = mint_key" "ac_owner (L (ai_key i)) = token_program_id"
    "get_extension_mut AccountBase TransferFeeAmountX (tlv_data st) = Ok (e, j)" "amount = tfa_withheld_amount e"
    "L' = set_data (ai_key i) (pack_state PodAccountB (st\<lparr>tlv_data := set_extension AccountBase TransferFeeAmountX
        (e\<lparr>tfa_withheld_amount := 0\<rparr>) (tlv_data st)\<rparr>)) L"
    using assms by (auto simp: harvest_from_account_def res_simps split: if_splits)
  let ?st' = "st\<lparr>tlv_data := set_extension AccountBase TransferFeeAmountX (e\<lparr>tfa_withheld_amount := 0\<rparr>) (tlv_data st)\<rparr>"
  have "token_account (pack_state PodAccountB ?st') = Ok ?st'"
    using token_account_initialized [OF h(2)] by (intro token_account_write [OF h(2)]) simp_all
  then show ?thesis
    using h withheld_set [OF h(5)] by (intro that [of st ?st']) simp_all
qed

lemma harvest_from_account_effect:
  assumes "harvest_from_account mint_key i L = Ok (Inr (amount, L'))" "finite A"
    and "ac_owner (L (ai_key i)) = token_program_id \<Longrightarrow> ai_key i \<in> A"
  shows "unat amount + total_holdings mint_key A L' = total_holdings mint_key A L"
    and "harvested mint_key L L' k" "k \<noteq> ai_key i \<Longrightarrow> L' k = L k" "ai_key i \<noteq> mint_key"
proof -
  obtain st st' where h: "ai_key i \<noteq> mint_key" "token_account (ac_data (L (ai_key i))) = Ok st"
    "token_account (ac_data (L' (ai_key i))) = Ok st'" "a_mint (base st) = mint_key" "base st' = base st"
    "ac_owner (L (ai_key i)) = token_program_id" "withheld (tlv_data st) = unat amount" "withheld (tlv_data st') = 0"
    "L' = set_data (ai_key i) (pack_state PodAccountB st') L" "length (tlv_data st') = length (tlv_data st)"
    by (rule harvest_from_account_Ok [OF assms(1)])
  show o: "k \<noteq> ai_key i \<Longrightarrow> L' k = L k" for k using h(9) by simp
  have "total_holdings mint_key A L' + holdings mint_key (ac_data (L (ai_key i))) =
      total_holdings mint_key A L + holdings mint_key (ac_data (L' (ai_key i)))"
    using assms(2) assms(3) [OF h(6)] o by (intro total_holdings_add) simp_all
  moreover have "holdings mint_key (ac_data (L (ai_key i))) =
      unat amount + holdings mint_key (ac_data (L' (ai_key i)))"
    using h(2-5,7,8) by (simp add: holdings_def state_holdings_def)
  ultimately show "unat amount + total_holdings mint_key A L' = total_holdings mint_key A L" by simp
  show "harvested mint_key L L' k"
    using o [of k] h by (cases "k = ai_key i") (auto simp: harvested_def)
qed (rule harvest_from_account_Ok [OF assms(1)])

lemma harvest_loop_Ok:
  assumes "harvest_loop mint_key infos w L = Ok (w', L')" "finite A"
    and "\<And>i. i \<in> set infos \<Longrightarrow> ac_owner (L (ai_key i)) = token_program_id \<Longrightarrow> ai_key i \<in> A"
  shows "unat w' + total_holdings mint_key A L' = unat w + total_holdings mint_key A L \<and>
    (\<forall>k. harvested mint_key L L' k) \<and> L' mint_key = L mint_key \<and>
    (\<forall>k. k \<notin> ai_key ` set infos \<longrightarrow> L' k = L k)"
  using assms(1,3)
proof (induction infos arbitrary: w L)
  case (Cons i rest)
  from Cons.prems(1) obtain r where r: "harvest_from_account mint_key i L = Ok r" by (auto simp: res_simps)
  show ?case
  proof (cases r)
    case (Inl e)
    then have "harvest_loop mint_key rest w L = Ok (w', L')" using Cons.prems(1) r by simp
    from Cons.IH [OF this] Cons.prems(2) show ?thesis by auto
  next
    case (Inr p)
    then obtain amount L1 w1 where p: "p = (amount, L1)" "checked_add w amount = Some w1"
      "harvest_loop mint_key rest w1 L1 = Ok (w', L')"
      using Cons.prems(1) r by (cases p) (auto simp: res_simps)
    note e = harvest_from_account_effect [OF r [unfolded Inr p(1)] assms(2)]
    have "ac_owner (L1 k) = ac_owner (L k)" for k using e(2) Cons.prems(2) by (auto simp: harvested_def)
    then have "unat w' + total_holdings mint_key A L' = unat w1 + total_holdings mint_key A L1 \<and>
      (\<forall>k. harvested mint_key L1 L' k) \<and> L' mint_key = L1 mint_key \<and>
      (\<forall>k. k \<notin> ai_key ` set rest \<longrightarrow> L' k = L1 k)"
      using Cons.prems(2) by (intro Cons.IH [OF p(3)]) auto
    moreover have "unat amount + total_holdings mint_key A L1 = total_holdings mint_key A L"
      "\<And>k. harvested mint_key L L1 k" "L1 mint_key = L mint_key" "\<And>k. k \<noteq> ai_key i \<Longrightarrow> L1 k = L k"
      using e Cons.prems(2) by auto
    ultimately show ?thesis using checked_add_unat [OF p(2)] by (auto intro: harvested_trans)
  qed
qed auto

text \<open>The destination of \<open>WithdrawWithheldTokensFromAccounts\<close> is held apart from the ledger while the loop runs.\<close>

lemma withdraw_loop_Ok:
  assumes "withdraw_loop mint_key d infos dst L = Ok (dst', L')" "finite A" "d \<notin> A"
    and "\<And>i. i \<in> set infos \<Longrightarrow> ac_owner (L (ai_key i)) = token_program_id \<Longrightarrow> ai_key i \<noteq> d \<Longrightarrow> ai_key i \<in> A"
  shows "state_holdings dst' + total_holdings mint_key A L' = state_holdings dst + total_holdings mint_key A L \<and>
    base dst' = (base dst)\<lparr>a_amount := a_amount (base dst')\<rparr> \<and> account_type dst' = account_type dst \<and>
    length (tlv_data dst') = length (tlv_data dst) \<and> (\<forall>k. harvested mint_key L L' k) \<and>
    L' mint_key = L mint_key \<and> (\<forall>k. k = d \<or> k \<notin> ai_key ` set infos \<longrightarrow> L' k = L k)"
  using assms(1,4)
proof (induction infos arbitrary: dst L)
  case (Cons i rest)
  show ?case
  proof (cases "ai_key i = d")
    case True
    then obtain e j x where h: "get_extension_mut AccountBase TransferFeeAmountX (tlv_data dst) = Ok (e, j)"
      "checked_add (a_amount (base dst)) (tfa_withheld_amount e) = Some x"
      "withdraw_loop mint_key d rest (dst\<lparr>base := (base dst)\<lparr>a_amount := x\<rparr>, tlv_data :=
         set_extension AccountBase TransferFeeAmountX (e\<lparr>tfa_withheld_amount := 0\<rparr>) (tlv_data dst)\<rparr>) L = Ok (dst', L')"
      using Cons.prems(1) by (auto simp: res_simps)
    from Cons.IH [OF h(3)] Cons.prems(2) withheld_set [OF h(1)] checked_add_unat [OF h(2)]
    show ?thesis by (auto simp: state_holdings_def)
  next
    case False
    from Cons.prems(1) False obtain r where r: "harvest_from_account mint_key i L = Ok r" by (auto simp: res_simps)
    show ?thesis
    proof (cases r)
      case (Inl e)
      then have "withdraw_loop mint_key d rest dst L = Ok (dst', L')" using Cons.prems(1) r False by simp
      from Cons.IH [OF this] Cons.prems(2) show ?thesis by auto
    next
      case (Inr p)
      then obtain amount L1 x where p: "p = (amount, L1)" "checked_add (a_amount (base dst)) amount = Some x"
        "withdraw_loop mint_key d rest (dst\<lparr>base := (base dst)\<lparr>a_amount := x\<rparr>\<rparr>) L1 = Ok (dst', L')"
        using Cons.prems(1) r False by (cases p) (auto simp: res_simps)
      note e = harvest_from_account_effect [OF r [unfolded Inr p(1)] assms(2)]
      have "ac_owner (L1 k) = ac_owner (L k)" for k using e(2) Cons.prems(2) False by (auto simp: harvested_def)
      then have "state_holdings dst' + total_holdings mint_key A L' =
          state_holdings (dst\<lparr>base := (base dst)\<lparr>a_amount := x\<rparr>\<rparr>) + total_holdings mint_key A L1 \<and>
        base dst' = (base dst)\<lparr>a_amount := a_amount (base dst')\<rparr> \<and> account_type dst' = account_type dst \<and>
        length (tlv_data dst') = length (tlv_data dst) \<and> (\<forall>k. harvested mint_key L1 L' k) \<and>
        L' mint_key = L1 mint_key \<and> (\<forall>k. k = d \<or> k \<notin> ai_key ` set rest \<longrightarrow> L' k = L1 k)"
        using Cons.IH [OF p(3)] Cons.prems(2) by simp
      moreover have "unat amount + total_holdings mint_key A L1 = total_holdings mint_key A L"
        "\<And>k. harvested mint_key L L1 k" "L1 mint_key = L mint_key" "\<And>k. k \<noteq> ai_key i \<Longrightarrow> L1 k = L k"
        using e Cons.prems(2) False by auto
      ultimately show ?thesis
        using checked_add_unat [OF p(2)] False by (auto simp: state_holdings_def intro: harvested_trans)
    qed
  qed
qed auto

section \<open>Effects on mint and accounts\<close>

lemma mint_withheld_get:
  "get_extension MintBase TransferFeeConfigX tlv = Ok c \<Longrightarrow> mint_withheld tlv = unat (tfc_withheld_amount c)"
  by (simp add: mint_withheld_def)

text \<open>Writing the fee configuration back: the mint stays the same mint with the new amount withheld on it.\<close>

lemma write_fee_config:
  assumes "token_mint (ac_data a) = Ok mint" "get_extension_mut MintBase TransferFeeConfigX (tlv_data mint) = Ok (c, i)"
    and "mint' = mint\<lparr>tlv_data := set_extension MintBase TransferFeeConfigX c' (tlv_data mint)\<rparr>"
  shows "token_mint (pack_state PodMintB mint') = Ok mint'"
    and "get_extension MintBase TransferFeeConfigX (tlv_data mint) = Ok c"
    and "get_extension MintBase TransferFeeConfigX (tlv_data mint') = Ok c'" "base mint' = base mint"
    and "mint_withheld (tlv_data mint) = unat (tfc_withheld_amount c)"
    and "mint_withheld (tlv_data mint') = unat (tfc_withheld_amount c')"
proof -
  show g: "get_extension MintBase TransferFeeConfigX (tlv_data mint) = Ok c"
    by (rule get_extension_mut_Ok_get [OF assms(2)])
  show g': "get_extension MintBase TransferFeeConfigX (tlv_data mint') = Ok c'"
    using tfc.get_set_same [OF g] by (simp add: assms(3))
  show "token_mint (pack_state PodMintB mint') = Ok mint'"
    using token_mint_initialized [OF assms(1)] unfolding assms(3) by (intro token_mint_write [OF assms(1)]) simp_all
  show "mint_withheld (tlv_data mint) = unat (tfc_withheld_amount c)"
    "mint_withheld (tlv_data mint') = unat (tfc_withheld_amount c')"
    using g g' by (simp_all add: mint_withheld_get)
qed (simp add: assms(3))

lemma withdraw_from_mint_effect:
  assumes "process_withdraw_withheld_tokens_from_mint program_id (m # d # a # rest) L = Ok L'"
  obtains mint c mint' dst dst' where
    "token_mint (ac_data (L (ai_key m))) = Ok mint" "token_account (ac_data (L (ai_key d))) = Ok dst"
    "token_mint (ac_data (L' (ai_key m))) = Ok mint'" "token_account (ac_data (L' (ai_key d))) = Ok dst'"
    "get_extension MintBase TransferFeeConfigX (tlv_data mint) = Ok c"
    "get_extension MintBase TransferFeeConfigX (tlv_data mint') = Ok (c\<lparr>tfc_withheld_amount := 0\<rparr>)"
    "base mint' = base mint" "ai_key d \<noteq> ai_key m" "a_mint (base dst) = ai_key m" "\<not> account_is_frozen (base dst)"
    "base dst' = (base dst)\<lparr>a_amount := a_amount (base dst')\<rparr>" "tlv_data dst' = tlv_data dst"
    "unat (a_amount (base dst')) = unat (a_amount (base dst)) + unat (tfc_withheld_amount c)"
    "opt_key (tfc_withdraw_withheld_authority c) = Some (ai_key a)" "owner_signed program_id L a rest"
    "ac_owner (L (ai_key m)) = token_program_id" "\<And>k. k \<noteq> ai_key m \<Longrightarrow> k \<noteq> ai_key d \<Longrightarrow> L' k = L k"
    "\<And>k. ac_owner (L' k) = ac_owner (L k)"
proof -
  obtain mint c i dst x where
    h: "ac_owner (L (ai_key m)) = token_program_id" "token_mint (ac_data (L (ai_key m))) = Ok mint"
      "get_extension_mut MintBase TransferFeeConfigX (tlv_data mint) = Ok (c, i)"
      "opt_key (tfc_withdraw_withheld_authority c) = Some (ai_key a)" "owner_signed program_id L a rest"
      "ai_key d \<noteq> ai_key m" "token_account (ac_data (L (ai_key d))) = Ok dst" "a_mint (base dst) = ai_key m"
      "\<not> account_is_frozen (base dst)"
      "checked_add (a_amount (base dst)) (tfc_withheld_amount c) = Some x" and
    L': "L' = set_data (ai_key m) (pack_state PodMintB (mint\<lparr>tlv_data :=
           set_extension MintBase TransferFeeConfigX (c\<lparr>tfc_withheld_amount := 0\<rparr>) (tlv_data mint)\<rparr>))
         (set_data (ai_key d) (pack_state PodAccountB (dst\<lparr>base := (base dst)\<lparr>a_amount := x\<rparr>\<rparr>)) L)"
    using assms by (auto simp: process_withdraw_withheld_tokens_from_mint_def res_simps split: if_splits)
  note w = write_fee_config [where c' = "c\<lparr>tfc_withheld_amount := 0\<rparr>", OF h(2,3) refl]
  have "token_account (pack_state PodAccountB (dst\<lparr>base := (base dst)\<lparr>a_amount := x\<rparr>\<rparr>)) =
      Ok (dst\<lparr>base := (base dst)\<lparr>a_amount := x\<rparr>\<rparr>)"
    using token_account_initialized [OF h(7)] by (intro token_account_write [OF h(7)]) simp_all
  then show ?thesis
    by (intro that [where dst' = "dst\<lparr>base := (base dst)\<lparr>a_amount := x\<rparr>\<rparr>", OF h(2,7) _ _ w(2,3)])
      (use h w(1) checked_add_unat [OF h(10)] in \<open>auto simp: L'\<close>)
qed

lemma withdraw_from_mint_backed:
  assumes "process_withdraw_withheld_tokens_from_mint program_id (m # d # a # rest) L = Ok L'"
    and "backed mint_key A L" "finite A" "ai_key d \<in> A" "ai_key m = mint_key"
  shows "backed mint_key A L'"
proof (rule withdraw_from_mint_effect [OF assms(1)])
  fix mint c mint' dst dst'
  assume e: "token_mint (ac_data (L (ai_key m))) = Ok mint" "token_account (ac_data (L (ai_key d))) = Ok dst"
    "token_mint (ac_data (L' (ai_key m))) = Ok mint'" "token_account (ac_data (L' (ai_key d))) = Ok dst'"
    "get_extension MintBase TransferFeeConfigX (tlv_data mint) = Ok c"
    "get_extension MintBase TransferFeeConfigX (tlv_data mint') = Ok (c\<lparr>tfc_withheld_amount := 0\<rparr>)"
    "base mint' = base mint" "ai_key d \<noteq> ai_key m" "a_mint (base dst) = ai_key m"
    "base dst' = (base dst)\<lparr>a_amount := a_amount (base dst')\<rparr>" "tlv_data dst' = tlv_data dst"
    "unat (a_amount (base dst')) = unat (a_amount (base dst)) + unat (tfc_withheld_amount c)"
    "\<And>k. k \<noteq> ai_key m \<Longrightarrow> k \<noteq> ai_key d \<Longrightarrow> L' k = L k"
  have "a_mint (base dst') = a_mint (base dst)" by (subst e(10)) simp
  then have "holdings mint_key (ac_data (L' (ai_key d))) =
      holdings mint_key (ac_data (L (ai_key d))) + unat (tfc_withheld_amount c)"
    using e assms(5) by (simp add: holdings_def state_holdings_def)
  moreover have "total_holdings mint_key A L' + holdings mint_key (ac_data (L (ai_key d))) =
      total_holdings mint_key A L + holdings mint_key (ac_data (L' (ai_key d)))"
    by (rule total_holdings_step [where m = "ai_key m" and L = L and L' = L', OF assms(3,4) e(8,1,3)]) (use e(13) in blast)
  ultimately show ?thesis
    using assms(2,5) e(1,3,5-7) by (auto simp: backed_def mint_withheld_get)
qed

lemma harvest_effect:
  assumes "process_harvest_withheld_tokens_to_mint (m # infos) L = Ok L'" "finite A"
    and "\<And>i. i \<in> set infos \<Longrightarrow> ac_owner (L (ai_key i)) = token_program_id \<Longrightarrow> ai_key i \<in> A"
  obtains mint c mint' w where
    "token_mint (ac_data (L (ai_key m))) = Ok mint" "token_mint (ac_data (L' (ai_key m))) = Ok mint'"
    "base mint' = base mint" "get_extension MintBase TransferFeeConfigX (tlv_data mint) = Ok c"
    "get_extension MintBase TransferFeeConfigX (tlv_data mint') = Ok (c\<lparr>tfc_withheld_amount := w\<rparr>)"
    "unat w + total_holdings (ai_key m) A L' = unat (tfc_withheld_amount c) + total_holdings (ai_key m) A L"
    "\<And>k. k \<noteq> ai_key m \<Longrightarrow> harvested (ai_key m) L L' k" "\<And>k. ac_owner (L' k) = ac_owner (L k)"
    "\<And>k. k \<noteq> ai_key m \<Longrightarrow> k \<notin> ai_key ` set infos \<Longrightarrow> L' k = L k"
proof -
  obtain mint c i w L1 where h: "token_mint (ac_data (L (ai_key m))) = Ok mint"
    "get_extension_mut MintBase TransferFeeConfigX (tlv_data mint) = Ok (c, i)"
    "harvest_loop (ai_key m) infos (tfc_withheld_amount c) L = Ok (w, L1)"
    "L' = set_data (ai_key m) (pack_state PodMintB (mint\<lparr>tlv_data :=
       set_extension MintBase TransferFeeConfigX (c\<lparr>tfc_withheld_amount := w\<rparr>) (tlv_data mint)\<rparr>)) L1"
    using assms(1) by (auto simp: process_harvest_withheld_tokens_to_mint_def res_simps)
  note w = write_fee_config [where c' = "c\<lparr>tfc_withheld_amount := w\<rparr>", OF h(1,2) refl]
  have l: "unat w + total_holdings (ai_key m) A L1 = unat (tfc_withheld_amount c) + total_holdings (ai_key m) A L"
    "\<And>k. harvested (ai_key m) L L1 k" "L1 (ai_key m) = L (ai_key m)"
    "\<And>k. k \<notin> ai_key ` set infos \<Longrightarrow> L1 k = L k"
    using harvest_loop_Ok [OF h(3) assms(2,3)] by auto
  have own: "ac_owner (L1 k) = ac_owner (L k)" for k using l(2) [of k] by (simp add: harvested_def)
  have hm: "holdings (ai_key m) (ac_data (L' (ai_key m))) = holdings (ai_key m) (ac_data (L1 (ai_key m)))"
    using holdings_mint w(1) h(1) by (simp add: h(4) l(3))
  have "holdings (ai_key m) (ac_data (L' k)) = holdings (ai_key m) (ac_data (L1 k))" for k
    using hm by (cases "k = ai_key m") (simp_all add: h(4))
  then have "total_holdings (ai_key m) A L' = total_holdings (ai_key m) A L1" by (simp add: total_holdings_def)
  with l(1) have t: "unat w + total_holdings (ai_key m) A L' =
      unat (tfc_withheld_amount c) + total_holdings (ai_key m) A L" by simp
  show ?thesis
    by (rule that [OF h(1) _ w(4,2,3) t])
      (use w(1) l own in \<open>auto simp: h(4) harvested_def\<close>)
qed

lemma total_holdings_remove:
  "finite A \<Longrightarrow> d \<in> A \<Longrightarrow> total_holdings mint A L = holdings mint (ac_data (L d)) + total_holdings mint (A - {d}) L"
  unfolding total_holdings_def by (rule sum.remove)

lemma withdraw_from_accounts_effect:
  assumes "process_withdraw_withheld_tokens_from_accounts program_id (m # d # a # infos) n L = Ok L'" "finite A"
    and "ai_key d \<in> A" "\<And>i. i \<in> set infos \<Longrightarrow> ac_owner (L (ai_key i)) = token_program_id \<Longrightarrow> ai_key i \<in> A"
  obtains mint c dst dst' where
    "token_mint (ac_data (L (ai_key m))) = Ok mint" "get_extension MintBase TransferFeeConfigX (tlv_data mint) = Ok c"
    "opt_key (tfc_withdraw_withheld_authority c) = Some (ai_key a)"
    "owner_signed program_id L a (take (length infos - unat n) infos)" "ac_owner (L (ai_key m)) = token_program_id"
    "token_account (ac_data (L (ai_key d))) = Ok dst" "token_account (ac_data (L' (ai_key d))) = Ok dst'"
    "a_mint (base dst) = ai_key m" "\<not> account_is_frozen (base dst)"
    "base dst' = (base dst)\<lparr>a_amount := a_amount (base dst')\<rparr>"
    "total_holdings (ai_key m) A L' = total_holdings (ai_key m) A L" "L' (ai_key m) = L (ai_key m)"
    "\<And>k. k \<noteq> ai_key d \<Longrightarrow> harvested (ai_key m) L L' k" "\<And>k. ac_owner (L' k) = ac_owner (L k)"
    "\<And>k. k \<noteq> ai_key d \<Longrightarrow> k \<notin> ai_key ` set infos \<Longrightarrow> L' k = L k"
proof -
  let ?ns = "length infos - unat n"
  obtain mint c dst dst' L1 where h: "ac_owner (L (ai_key m)) = token_program_id"
      "unpack PodMintB (ac_data (L (ai_key m))) = Ok mint" "get_extension MintBase TransferFeeConfigX (tlv_data mint) = Ok c"
      "opt_key (tfc_withdraw_withheld_authority c) = Some (ai_key a)" "owner_signed program_id L a (take ?ns infos)"
      "ai_key d \<noteq> ai_key m" "token_account (ac_data (L (ai_key d))) = Ok dst" "a_mint (base dst) = ai_key m"
      "\<not> account_is_frozen (base dst)" "withdraw_loop (ai_key m) (ai_key d) (drop ?ns infos) dst L = Ok (dst', L1)"
      "L' = set_data (ai_key d) (pack_state PodAccountB dst') L1"
    using assms(1) by (auto simp: process_withdraw_withheld_tokens_from_accounts_def res_simps Let_def split: if_splits)
  obtain mint0 where m0: "token_mint (ac_data (L (ai_key m))) = Ok mint0" "tlv_data mint = tlv_data mint0"
    using h(2) by (auto simp: unpack_Ok)
  have l: "state_holdings dst' + total_holdings (ai_key m) (A - {ai_key d}) L1 =
      state_holdings dst + total_holdings (ai_key m) (A - {ai_key d}) L"
    "base dst' = (base dst)\<lparr>a_amount := a_amount (base dst')\<rparr>" "account_type dst' = account_type dst"
    "length (tlv_data dst') = length (tlv_data dst)" "\<And>k. harvested (ai_key m) L L1 k" "L1 (ai_key m) = L (ai_key m)"
    "\<And>k. k \<notin> ai_key ` set infos \<Longrightarrow> L1 k = L k"
    using withdraw_loop_Ok [OF h(10), of "A - {ai_key d}"] assms(2,4) by (auto dest: in_set_dropD)
  have "account_is_initialized (base dst')"
    using token_account_initialized [OF h(7)] by (subst l(2)) simp
  then have w: "token_account (pack_state PodAccountB dst') = Ok dst'"
    by (rule token_account_write [OF h(7) _ l(3,4)])
  have b: "a_mint (base dst') = ai_key m" using h(8) by (subst l(2)) simp
  have "total_holdings (ai_key m) (A - {ai_key d}) L' = total_holdings (ai_key m) (A - {ai_key d}) L1"
    unfolding total_holdings_def by (intro sum.cong) (auto simp: h(11))
  moreover have "holdings (ai_key m) (ac_data (L' (ai_key d))) = state_holdings dst'"
    "holdings (ai_key m) (ac_data (L (ai_key d))) = state_holdings dst"
    using w b h(7,8) by (simp_all add: h(11) holdings_def)
  ultimately have t: "total_holdings (ai_key m) A L' = total_holdings (ai_key m) A L"
    using l(1) total_holdings_remove [OF assms(2,3), of "ai_key m"] by simp
  have own: "ac_owner (L1 k) = ac_owner (L k)" for k using l(5) [of k] by (simp add: harvested_def)
  show ?thesis
    by (rule that [OF m0(1) h(3) [unfolded m0(2)] h(4,5,1,7) _ h(8,9) l(2) t])
      (use w h(6) l own in \<open>auto simp: h(11) harvested_def\<close>)
qed

lemma harvest_backed:
  assumes "process_harvest_withheld_tokens_to_mint (m # infos) L = Ok L'" "finite A"
    and "\<And>i. i \<in> set infos \<Longrightarrow> ac_owner (L (ai_key i)) = token_program_id \<Longrightarrow> ai_key i \<in> A"
    and "backed (ai_key m) A L"
  shows "backed (ai_key m) A L'"
  by (rule harvest_effect [OF assms(1-3)], assumption)
    (use assms(4) in \<open>auto simp: backed_def mint_withheld_get\<close>)

lemma withdraw_from_accounts_backed:
  assumes "process_withdraw_withheld_tokens_from_accounts program_id (m # d # a # infos) n L = Ok L'" "finite A"
    and "ai_key d \<in> A" "\<And>i. i \<in> set infos \<Longrightarrow> ac_owner (L (ai_key i)) = token_program_id \<Longrightarrow> ai_key i \<in> A"
    and "backed (ai_key m) A L"
  shows "backed (ai_key m) A L'"
  by (rule withdraw_from_accounts_effect [OF assms(1-4)], assumption)
    (use assms(5) in \<open>auto simp: backed_def\<close>)

section \<open>Properties\<close>

text \<open>
  Setting the fee needs the signature of the fee authority and a rate of at most 100%.  It changes the
  fee of no transfer in this epoch or the next one: up to there the fee in force now stays, and from two epochs on
  it is the new one.  Authorities and withheld fees of the configuration, every other extension, the base of
  the mint and all other accounts stay.
\<close>

theorem set_transfer_fee_correct:
  assumes "process_set_transfer_fee program_id env (m # a # rest) rate maximum L = Ok L'"
    and "env_clock env = Ok clock" "unat (clk_epoch clock) + 2 < 2 ^ 64"
  shows "\<exists>c c'. mint_extension_step TransferFeeConfigX tfc_transfer_fee_config_authority program_id m a rest L L' c c' \<and>
    rate \<le> MAX_FEE_BASIS_POINTS \<and>
    c' = c\<lparr>tfc_older_transfer_fee := tfc_older_transfer_fee c', tfc_newer_transfer_fee := tfc_newer_transfer_fee c'\<rparr> \<and>
    (\<forall>e. clk_epoch clock \<le> e \<and> e < clk_epoch clock + 2 \<longrightarrow> get_epoch_fee c' e = get_epoch_fee c (clk_epoch clock)) \<and>
    (\<forall>e. clk_epoch clock + 2 \<le> e \<longrightarrow> get_epoch_fee c' e =
       \<lparr>tf_epoch = clk_epoch clock + 2, tf_maximum_fee = maximum, tf_transfer_fee_basis_points = rate\<rparr>)"
proof -
  obtain c c' where c: "set_transfer_fee env rate maximum c = Ok c'"
    "mint_extension_step TransferFeeConfigX tfc_transfer_fee_config_authority program_id m a rest L L' c c'"
    using tfc.update_mint_extension_Ok [OF assms(1) [unfolded process_set_transfer_fee_def]] by blast
  have sa: "saturating_add (clk_epoch clock) 2 = clk_epoch clock + 2"
    using assms(3) by (simp add: saturating_add_def)
  from c(1) assms(2) have s: "rate \<le> MAX_FEE_BASIS_POINTS" "c' =
      c\<lparr>tfc_older_transfer_fee := get_epoch_fee c (clk_epoch clock),
        tfc_newer_transfer_fee := \<lparr>tf_epoch = clk_epoch clock + 2, tf_maximum_fee = maximum,
          tf_transfer_fee_basis_points = rate\<rparr>\<rparr>"
    by (auto simp: set_transfer_fee_def res_simps sa get_epoch_fee_def Let_def not_less)
  show ?thesis
    using c(2) s(1) by (intro exI [of _ c] exI [of _ c']) (auto simp: s(2) get_epoch_fee_def)
qed

definition demo_fee_config :: TransferFeeConfig where
  "demo_fee_config = (let fee = \<lparr>tf_epoch = 0, tf_maximum_fee = 9, tf_transfer_fee_basis_points = 100\<rparr>
     in \<lparr>tfc_transfer_fee_config_authority = 77, tfc_withdraw_withheld_authority = 77, tfc_withheld_amount = 5,
         tfc_older_transfer_fee = fee, tfc_newer_transfer_fee = fee\<rparr>)"

lemma demo_fee_config_simps [simp]:
  "tfc_transfer_fee_config_authority demo_fee_config = 77" "tfc_withdraw_withheld_authority demo_fee_config = 77"
  "tfc_withheld_amount demo_fee_config = 5"
  by (simp_all add: demo_fee_config_def Let_def)

definition fee_mint_ledger :: ledger where
  "fee_mint_ledger = mint_ledger (fresh_tlv MintBase TransferFeeConfigX demo_fee_config)"

lemma fee_lens: "pod_len TransferFeeConfigX = 108" "pod_len TransferFeeAmountX = 8"
  by (simp_all add: TransferFeeConfigX_def TransferFeeAmountX_def)

lemma demo_fee_tlv:
  "get_extension MintBase TransferFeeConfigX (fresh_tlv MintBase TransferFeeConfigX demo_fee_config) = Ok demo_fee_config"
  "length (fresh_tlv MintBase TransferFeeConfigX demo_fee_config) = 112"
  using tfc.fresh_tlv [of MintBase demo_fee_config] by (simp_all add: fee_lens)

lemma fee_mint_ledger_simps [simp]:
  "ac_owner (fee_mint_ledger 1) = token_program_id" "k \<noteq> 1 \<Longrightarrow> fee_mint_ledger k = demo_ledger k"
  "token_mint (ac_data (fee_mint_ledger 1)) =
     Ok (ext_mint (plain_mint 30 150) (fresh_tlv MintBase TransferFeeConfigX demo_fee_config))"
  by (simp_all add: fee_mint_ledger_def demo_fee_tlv)

theorem set_transfer_fee_correct_witness:
  "\<exists>L' c c'. process_set_transfer_fee token_program_id demo_env [unsigned_key 1, signed_key 77] 250 9 fee_mint_ledger = Ok L' \<and>
     mint_extension_step TransferFeeConfigX tfc_transfer_fee_config_authority token_program_id (unsigned_key 1)
       (signed_key 77) [] fee_mint_ledger L' c c' \<and>
     get_epoch_fee c' 4 = get_epoch_fee c 3 \<and> tf_transfer_fee_basis_points (get_epoch_fee c' 5) = 250"
proof -
  have "is_ok (set_transfer_fee demo_env 250 9 demo_fee_config)"
    by (simp add: set_transfer_fee_def demo_env_def MAX_FEE_BASIS_POINTS_def Let_def)
  then obtain L' where l: "process_set_transfer_fee token_program_id demo_env [unsigned_key 1, signed_key 77] 250 9
      fee_mint_ledger = Ok L'"
    unfolding process_set_transfer_fee_def fee_mint_ledger_def
    using tfc.update_mint_extension_demo [of tfc_transfer_fee_config_authority demo_fee_config] by (auto simp: fee_lens)
  have c: "env_clock demo_env = Ok \<lparr>clk_epoch = 3, clk_unix_timestamp = 1000\<rparr>" by (simp add: demo_env_def)
  obtain c c' where h: "mint_extension_step TransferFeeConfigX tfc_transfer_fee_config_authority token_program_id (unsigned_key 1)
       (signed_key 77) [] fee_mint_ledger L' c c'"
    "\<forall>e. 3 \<le> e \<and> e < 5 \<longrightarrow> get_epoch_fee c' e = get_epoch_fee c 3"
    "\<forall>e. 5 \<le> e \<longrightarrow> get_epoch_fee c' e = \<lparr>tf_epoch = 5, tf_maximum_fee = 9, tf_transfer_fee_basis_points = 250\<rparr>"
    using set_transfer_fee_correct [OF l c] by auto
  have "get_epoch_fee c' 4 = get_epoch_fee c 3" "tf_transfer_fee_basis_points (get_epoch_fee c' 5) = 250"
    using h(2,3) by simp_all
  with l h(1) show ?thesis by blast
qed

text \<open>
  Withdrawing from the mint moves exactly the fees withheld on it to the balance of the
  destination, leaves nothing withheld there, and needs the signature of the withdraw authority.  The
  destination is an account of this mint and not frozen; nothing else changes.
\<close>

theorem withdraw_from_mint_correct:
  assumes "process_withdraw_withheld_tokens_from_mint program_id (m # d # a # rest) L = Ok L'"
  shows "\<exists>mint c mint' dst dst'.
    token_mint (ac_data (L (ai_key m))) = Ok mint \<and> token_account (ac_data (L (ai_key d))) = Ok dst \<and>
    token_mint (ac_data (L' (ai_key m))) = Ok mint' \<and> token_account (ac_data (L' (ai_key d))) = Ok dst' \<and>
    get_extension MintBase TransferFeeConfigX (tlv_data mint) = Ok c \<and>
    get_extension MintBase TransferFeeConfigX (tlv_data mint') = Ok (c\<lparr>tfc_withheld_amount := 0\<rparr>) \<and>
    base mint' = base mint \<and> a_mint (base dst) = ai_key m \<and> \<not> account_is_frozen (base dst) \<and>
    base dst' = (base dst)\<lparr>a_amount := a_amount (base dst')\<rparr> \<and> tlv_data dst' = tlv_data dst \<and>
    unat (a_amount (base dst')) = unat (a_amount (base dst)) + unat (tfc_withheld_amount c) \<and>
    opt_key (tfc_withdraw_withheld_authority c) = Some (ai_key a) \<and> owner_signed program_id L a rest \<and>
    (\<forall>k. k \<noteq> ai_key m \<and> k \<noteq> ai_key d \<longrightarrow> L' k = L k)"
  by (rule withdraw_from_mint_effect [OF assms], intro exI conjI) (assumption | blast)+

lemma validate_owner_77:
  "L 77 = demo_ledger 77 \<Longrightarrow> validate_owner token_program_id L 77 (signed_key 77) (data_len L (signed_key 77)) rest = Ok ()"
  by (rule validate_owner_plain) (simp add: demo_ledger_def)

theorem withdraw_from_mint_correct_witness:
  "\<exists>L' dst'. process_withdraw_withheld_tokens_from_mint token_program_id [unsigned_key 1, unsigned_key 10, signed_key 77]
     fee_mint_ledger = Ok L' \<and> token_account (ac_data (L' 10)) = Ok dst' \<and> unat (a_amount (base dst')) = 105"
proof -
  obtain i where "get_extension_mut MintBase TransferFeeConfigX (fresh_tlv MintBase TransferFeeConfigX demo_fee_config) =
      Ok (demo_fee_config, i)" using extension_mut_exists [OF demo_fee_tlv(1)] by blast
  then have "\<exists>L'. process_withdraw_withheld_tokens_from_mint token_program_id
      [unsigned_key 1, unsigned_key 10, signed_key 77] fee_mint_ledger = Ok L'"
    by (simp add: process_withdraw_withheld_tokens_from_mint_def check_program_account_def borrow_data_def opt_key_def
        validate_owner_77 checked_add_def)
  then obtain L' where l: "process_withdraw_withheld_tokens_from_mint token_program_id
      [unsigned_key 1, unsigned_key 10, signed_key 77] fee_mint_ledger = Ok L'" ..
  show ?thesis using withdraw_from_mint_correct [OF l] l demo_fee_tlv by auto
qed


definition fee_ledger :: ledger where
  "fee_ledger = account_ledger (fresh_tlv AccountBase TransferFeeAmountX \<lparr>tfa_withheld_amount = 3\<rparr>) fee_mint_ledger"

lemma demo_amount_tlv:
  "get_extension AccountBase TransferFeeAmountX (fresh_tlv AccountBase TransferFeeAmountX \<lparr>tfa_withheld_amount = 3\<rparr>) =
     Ok \<lparr>tfa_withheld_amount = 3\<rparr>"
  "length (fresh_tlv AccountBase TransferFeeAmountX \<lparr>tfa_withheld_amount = 3\<rparr>) = 12"
  using tfa.fresh_tlv [of AccountBase "\<lparr>tfa_withheld_amount = 3\<rparr>"] by (simp_all add: fee_lens)

lemma fee_ledger_simps [simp]:
  "ac_owner (fee_ledger 11) = token_program_id" "k \<noteq> 11 \<Longrightarrow> fee_ledger k = fee_mint_ledger k"
  "token_account (ac_data (fee_ledger 11)) = Ok (ext_account (plain_account 1 21 50)
     (fresh_tlv AccountBase TransferFeeAmountX \<lparr>tfa_withheld_amount = 3\<rparr>))"
  by (simp_all add: fee_ledger_def demo_amount_tlv)

lemma demo_harvest_account:
  "\<exists>L'. harvest_from_account 1 (unsigned_key 11) fee_ledger = Ok (Ok (3, L'))"
proof -
  obtain i where "get_extension_mut AccountBase TransferFeeAmountX
      (fresh_tlv AccountBase TransferFeeAmountX \<lparr>tfa_withheld_amount = 3\<rparr>) = Ok (\<lparr>tfa_withheld_amount = 3\<rparr>, i)"
    using extension_mut_exists [OF demo_amount_tlv(1)] by blast
  then show ?thesis by (simp add: harvest_from_account_def borrow_data_def check_program_account_def)
qed


text \<open>
  C15: withdrawing from accounts moves the fees withheld on them to the balance of the destination,
  which may be among them: over the token accounts of the mint the sum of balances and withheld fees stays, the
  mint is only read, and no other balance changes.  It needs the signature of the withdraw authority, whose
  signers are the accounts before the last \<open>n\<close>.
\<close>

theorem withdraw_from_accounts_correct:
  assumes "process_withdraw_withheld_tokens_from_accounts program_id (m # d # a # infos) n L = Ok L'" "finite A"
    and "ai_key d \<in> A" "\<And>i. i \<in> set infos \<Longrightarrow> ac_owner (L (ai_key i)) = token_program_id \<Longrightarrow> ai_key i \<in> A"
  shows "\<exists>mint c dst dst'. token_mint (ac_data (L (ai_key m))) = Ok mint \<and>
    get_extension MintBase TransferFeeConfigX (tlv_data mint) = Ok c \<and>
    opt_key (tfc_withdraw_withheld_authority c) = Some (ai_key a) \<and>
    owner_signed program_id L a (take (length infos - unat n) infos) \<and>
    token_account (ac_data (L (ai_key d))) = Ok dst \<and> token_account (ac_data (L' (ai_key d))) = Ok dst' \<and>
    a_mint (base dst) = ai_key m \<and> \<not> account_is_frozen (base dst) \<and>
    base dst' = (base dst)\<lparr>a_amount := a_amount (base dst')\<rparr> \<and>
    total_holdings (ai_key m) A L' = total_holdings (ai_key m) A L \<and> L' (ai_key m) = L (ai_key m) \<and>
    (\<forall>k. k \<noteq> ai_key d \<longrightarrow> harvested (ai_key m) L L' k) \<and>
    (\<forall>k. k \<noteq> ai_key d \<and> k \<notin> ai_key ` set infos \<longrightarrow> L' k = L k)"
proof (rule withdraw_from_accounts_effect [OF assms(1-3)])
  show "ai_key i \<in> A" if "i \<in> set infos" "ac_owner (L (ai_key i)) = token_program_id" for i
    using that by (rule assms(4))
qed (intro exI conjI, (assumption | blast)+)

theorem withdraw_from_accounts_correct_witness:
  "\<exists>L'. process_withdraw_withheld_tokens_from_accounts token_program_id
     [unsigned_key 1, unsigned_key 10, signed_key 77, unsigned_key 11] 1 fee_ledger = Ok L' \<and>
     total_holdings 1 {10, 11} L' = 153"
proof -
  obtain L1 where h: "harvest_from_account 1 (unsigned_key 11) fee_ledger = Ok (Ok (3, L1))"
    using demo_harvest_account by blast
  have u: "unpack PodMintB (ac_data (fee_mint_ledger 1)) = Ok \<lparr>base = plain_mint 30 150,
      tlv_data = fresh_tlv MintBase TransferFeeConfigX demo_fee_config\<rparr>"
    by (simp add: unpack_eq)
  have "\<exists>L'. process_withdraw_withheld_tokens_from_accounts token_program_id
      [unsigned_key 1, unsigned_key 10, signed_key 77, unsigned_key 11] 1 fee_ledger = Ok L'"
    by (simp add: process_withdraw_withheld_tokens_from_accounts_def check_program_account_def borrow_data_def
        opt_key_def validate_owner_77 checked_add_def h u demo_fee_tlv Let_def)
  then obtain L' where l: "process_withdraw_withheld_tokens_from_accounts token_program_id
      [unsigned_key 1, unsigned_key 10, signed_key 77, unsigned_key 11] 1 fee_ledger = Ok L'" ..
  have "total_holdings 1 {10, 11} fee_ledger = 153"
    by (simp add: total_holdings_def holdings_def state_holdings_def withheld_def demo_amount_tlv)
  moreover have "\<And>i. i \<in> set [unsigned_key 11] \<Longrightarrow> ac_owner (fee_ledger (ai_key i)) = token_program_id \<Longrightarrow> ai_key i \<in> {10, 11}"
    by simp
  ultimately show ?thesis
    using withdraw_from_accounts_correct [OF l, of "{10, 11}"] l by auto
qed

end
