(* ===== verification/Instruction_Data.thy ===== *)
theory Instruction_Data
  imports Extension_Scenario
begin

text \<open>
  Decoding helpers shared by the instruction processors (\<open>decode_instruction_type\<close> and
  \<open>decode_instruction_data\<close> of src/interface/src/instruction.rs).  A field-less \<open>#[repr(u8)]\<close> enum is the
  list of its variants, converted by position as the derived \<open>TryFromPrimitive\<close> does.
\<close>

definition try_from_primitive :: "'a list \<Rightarrow> u8 \<Rightarrow> 'a option" where
  "try_from_primitive variants b = (if unat b < length variants then Some (variants ! unat b) else None)"

definition decode_instruction_type :: "'a list \<Rightarrow> bytes \<Rightarrow> 'a result" where
  "decode_instruction_type variants input =
     (if input = [] then Err InvalidInstructionData
      else ok_or (try_from_primitive variants (input ! 0)) (token_error InvalidInstruction))"

text \<open>\<open>n\<close> is the size of the plain-old-data type, \<open>dec\<close> reads it from exactly that many bytes.\<close>

definition decode_instruction_data :: "nat \<Rightarrow> (bytes \<Rightarrow> 'a) \<Rightarrow> bytes \<Rightarrow> 'a result" where
  "decode_instruction_data n dec input_with_type =
     (if length input_with_type \<noteq> n + 1 then Err InvalidInstructionData else Ok (dec (drop 1 input_with_type)))"

definition dec_key :: "bytes \<Rightarrow> pubkey" where
  "dec_key bs = from_le bs"

definition dec_two_keys :: "bytes \<Rightarrow> pubkey \<times> pubkey" where
  "dec_two_keys bs = (from_le (subslice 0 32 bs), from_le (subslice 32 32 bs))"

lemma decode_instruction_data_Ok [res_simps]:
  "decode_instruction_data n dec input = Ok x \<longleftrightarrow> length input = n + 1 \<and> x = dec (drop 1 input)"
  by (auto simp: decode_instruction_data_def)

lemma decode_instruction_type_Cons [simp]:
  "decode_instruction_type variants (b # rest) =
     (if unat b < length variants then Ok (variants ! unat b) else TErr InvalidInstruction)"
  by (simp add: decode_instruction_type_def try_from_primitive_def)

lemma decode_instruction_type_Nil [simp]:
  "decode_instruction_type variants [] = Err InvalidInstructionData"
  by (simp add: decode_instruction_type_def)

lemma decode_instruction_data_Cons [simp]:
  "length rest = n \<Longrightarrow> decode_instruction_data n dec (b # rest) = Ok (dec rest)"
  by (simp add: decode_instruction_data_def)

lemma dec_keys [simp]: "dec_key (to_le 32 k) = k" "dec_two_keys (to_le 32 k @ to_le 32 l) = (k, l)"
  by (simp_all add: dec_key_def dec_two_keys_def subslice_simps)

end
