(* ===== verification/Extension_Processors.thy ===== *)
theory Extension_Processors
  imports Instruction_Data "HOL-Library.Signed_Division"
begin

text \<open>
  The processors of the small extensions (src/program/src/extension/*/processor.rs): CPI guard, required
  memos, default account state, pausing, transfer hook, the three pointers, interest rate and scaled UI
  amount.  Each has an initialization or toggle, an update, and the dispatch of its own instruction
  byte.
\<close>

section \<open>Switches on token accounts\<close>

text \<open>\<open>if let Ok(e) = account.get_extension_mut::<V>() { e } else { account.init_extension::<V>(true)? }\<close>, then \<open>*e = f(e)\<close>.\<close>

definition set_or_init_extension :: "BaseState \<Rightarrow> 'a Extension \<Rightarrow> ('a \<Rightarrow> 'a) \<Rightarrow> bytes \<Rightarrow> bytes result" where
  "set_or_init_extension S E f tlv =
     (case get_extension_mut S E tlv of
        Ok (e, _) \<Rightarrow> Ok (set_extension S E (f e) tlv)
      | Err _ \<Rightarrow> and_then (init_extension S E True tlv) (\<lambda>tlv. Ok (set_extension S E (f (ext_default E)) tlv)))"

definition process_toggle_cpi_guard :: "pubkey \<Rightarrow> Env \<Rightarrow> AccountInfo list \<Rightarrow> bool \<Rightarrow> ledger \<Rightarrow> ledger result" where
  "process_toggle_cpi_guard program_id env accounts enable L =
     and_then (next_account_info accounts) (\<lambda>(token_account_info, iter).
     and_then (next_account_info iter) (\<lambda>(owner_info, rest).
     and_then (unpack_mut PodAccountB (ac_data (L (ai_key token_account_info)))) (\<lambda>account.
     and_then (validate_owner program_id L (a_owner (base account)) owner_info (data_len L owner_info) rest) (\<lambda>_.
     if env_in_cpi env then TErr CpiGuardSettingsLocked
     else
     and_then (set_or_init_extension AccountBase CpiGuardX (\<lambda>e. e\<lparr>cg_lock_cpi := pod_bool_from enable\<rparr>)
       (tlv_data account)) (\<lambda>tlv.
     Ok (set_data (ai_key token_account_info) (pack_state PodAccountB (account\<lparr>tlv_data := tlv\<rparr>)) L))))))"

definition process_toggle_required_memo_transfers ::
  "pubkey \<Rightarrow> AccountInfo list \<Rightarrow> bool \<Rightarrow> ledger \<Rightarrow> ledger result" where
  "process_toggle_required_memo_transfers program_id accounts enable L =
     and_then (next_account_info accounts) (\<lambda>(token_account_info, iter).
     and_then (next_account_info iter) (\<lambda>(owner_info, rest).
     and_then (unpack_mut PodAccountB (ac_data (L (ai_key token_account_info)))) (\<lambda>account.
     and_then (validate_owner program_id L (a_owner (base account)) owner_info (data_len L owner_info) rest) (\<lambda>_.
     and_then (set_or_init_extension AccountBase MemoTransferX
       (\<lambda>e. e\<lparr>mt_require_incoming_transfer_memos := pod_bool_from enable\<rparr>) (tlv_data account)) (\<lambda>tlv.
     Ok (set_data (ai_key token_account_info) (pack_state PodAccountB (account\<lparr>tlv_data := tlv\<rparr>)) L))))))"

datatype CpiGuardInstruction = Enable | Disable

datatype RequiredMemoTransfersInstruction = EnableMemo | DisableMemo

definition process_cpi_guard_instruction ::
  "pubkey \<Rightarrow> Env \<Rightarrow> AccountInfo list \<Rightarrow> bytes \<Rightarrow> ledger \<Rightarrow> ledger result" where
  "process_cpi_guard_instruction program_id env accounts input L =
     and_then (check_program_account program_id) (\<lambda>_.
     and_then (decode_instruction_type [Enable, Disable] input) (\<lambda>i. case i of
       Enable \<Rightarrow> process_toggle_cpi_guard program_id env accounts True L
     | Disable \<Rightarrow> process_toggle_cpi_guard program_id env accounts False L))"

definition process_memo_transfer_instruction ::
  "pubkey \<Rightarrow> AccountInfo list \<Rightarrow> bytes \<Rightarrow> ledger \<Rightarrow> ledger result" where
  "process_memo_transfer_instruction program_id accounts input L =
     and_then (check_program_account program_id) (\<lambda>_.
     and_then (decode_instruction_type [EnableMemo, DisableMemo] input) (\<lambda>i. case i of
       EnableMemo \<Rightarrow> process_toggle_required_memo_transfers program_id accounts True L
     | DisableMemo \<Rightarrow> process_toggle_required_memo_transfers program_id accounts False L))"

section \<open>Default account state\<close>

definition check_valid_default_state :: "AccountState \<Rightarrow> unit result" where
  "check_valid_default_state state = (case state of
     AccountState.Uninitialized \<Rightarrow> TErr InvalidState | _ \<Rightarrow> Ok ())"

definition process_initialize_default_account_state ::
  "AccountInfo list \<Rightarrow> AccountState \<Rightarrow> ledger \<Rightarrow> ledger result" where
  "process_initialize_default_account_state accounts state L =
     and_then (check_valid_default_state state) (\<lambda>_.
     and_then (next_account_info accounts) (\<lambda>(mint_account_info, _).
     initialize_extension PodMintB DefaultAccountStateX True (Ok \<lparr>das_state = account_state_code state\<rparr>)
       mint_account_info L))"

definition process_update_default_account_state ::
  "pubkey \<Rightarrow> AccountInfo list \<Rightarrow> AccountState \<Rightarrow> ledger \<Rightarrow> ledger result" where
  "process_update_default_account_state program_id accounts state L =
     and_then (check_valid_default_state state) (\<lambda>_.
     and_then (next_account_info accounts) (\<lambda>(mint_account_info, iter).
     and_then (next_account_info iter) (\<lambda>(freeze_authority_info, rest).
     and_then (unpack_mut PodMintB (ac_data (L (ai_key mint_account_info)))) (\<lambda>mint.
     and_then (if coption_is_some (m_freeze_authority (base mint))
               then validate_owner program_id L (co_value (m_freeze_authority (base mint))) freeze_authority_info
                      (data_len L freeze_authority_info) rest
               else TErr NoAuthorityExists) (\<lambda>_.
     and_then (modify_extension MintBase DefaultAccountStateX (\<lambda>e. e\<lparr>das_state := account_state_code state\<rparr>)
       (tlv_data mint)) (\<lambda>tlv.
     Ok (set_data (ai_key mint_account_info) (pack_state PodMintB (mint\<lparr>tlv_data := tlv\<rparr>)) L)))))))"

datatype DefaultAccountStateInstruction = InitializeState | UpdateState

text \<open>\<open>decode_instruction\<close> of default_account_state/instruction.rs.\<close>

definition decode_default_account_state :: "bytes \<Rightarrow> (DefaultAccountStateInstruction \<times> AccountState) result" where
  "decode_default_account_state input =
     (if length input \<noteq> 2 then TErr InvalidInstruction
      else and_then (ok_or (try_from_primitive [InitializeState, UpdateState] (input ! 0)) (token_error InvalidInstruction))
        (\<lambda>i. and_then (ok_or (account_state_try_from (input ! 1)) (token_error InvalidInstruction))
        (\<lambda>state. Ok (i, state))))"

definition process_default_account_state_instruction ::
  "pubkey \<Rightarrow> AccountInfo list \<Rightarrow> bytes \<Rightarrow> ledger \<Rightarrow> ledger result" where
  "process_default_account_state_instruction program_id accounts input L =
     and_then (check_program_account program_id) (\<lambda>_.
     and_then (decode_default_account_state input) (\<lambda>(i, state). case i of
       InitializeState \<Rightarrow> process_initialize_default_account_state accounts state L
     | UpdateState \<Rightarrow> process_update_default_account_state program_id accounts state L))"

section \<open>Pausing\<close>

definition process_initialize_pausable :: "AccountInfo list \<Rightarrow> pubkey \<Rightarrow> ledger \<Rightarrow> ledger result" where
  "process_initialize_pausable accounts authority L =
     and_then (next_account_info accounts) (\<lambda>(mint_account_info, _).
     initialize_extension PodMintB PausableConfigX True
       (and_then (opt_key_try_from (Some authority)) (\<lambda>k.
        Ok ((ext_default PausableConfigX)\<lparr>pc_authority := k\<rparr>))) mint_account_info L)"

definition process_toggle_pause :: "pubkey \<Rightarrow> AccountInfo list \<Rightarrow> bool \<Rightarrow> ledger \<Rightarrow> ledger result" where
  "process_toggle_pause program_id accounts pause L =
     update_mint_extension PausableConfigX pc_authority (token_error AuthorityTypeNotSupported)
       (\<lambda>e. Ok (e\<lparr>pc_paused := pod_bool_from pause\<rparr>)) program_id accounts L"

datatype PausableInstruction = InitializePausable | PauseMint | Resume

definition process_pausable_instruction ::
  "pubkey \<Rightarrow> AccountInfo list \<Rightarrow> bytes \<Rightarrow> ledger \<Rightarrow> ledger result" where
  "process_pausable_instruction program_id accounts input L =
     and_then (check_program_account program_id) (\<lambda>_.
     and_then (decode_instruction_type [InitializePausable, PauseMint, Resume] input) (\<lambda>i. case i of
       InitializePausable \<Rightarrow> and_then (decode_instruction_data 32 dec_key input) (\<lambda>authority.
         process_initialize_pausable accounts authority L)
     | PauseMint \<Rightarrow> process_toggle_pause program_id accounts True L
     | Resume \<Rightarrow> process_toggle_pause program_id accounts False L))"

section \<open>Transfer hook\<close>

definition process_initialize_transfer_hook ::
  "pubkey \<Rightarrow> AccountInfo list \<Rightarrow> pubkey \<Rightarrow> pubkey \<Rightarrow> ledger \<Rightarrow> ledger result" where
  "process_initialize_transfer_hook program_id accounts authority transfer_hook_program_id L =
     and_then (next_account_info accounts) (\<lambda>(mint_account_info, _).
     initialize_extension PodMintB TransferHookX True
       (and_then (case opt_key transfer_hook_program_id of
           Some k \<Rightarrow> if k = program_id then Err IncorrectProgramId else Ok ()
         | None \<Rightarrow> if opt_key authority = None then TErr InvalidInstruction else Ok ()) (\<lambda>_.
        Ok \<lparr>th_authority = authority, th_program_id = transfer_hook_program_id\<rparr>)) mint_account_info L)"

definition process_update_transfer_hook :: "pubkey \<Rightarrow> AccountInfo list \<Rightarrow> pubkey \<Rightarrow> ledger \<Rightarrow> ledger result" where
  "process_update_transfer_hook program_id accounts new_program_id L =
     update_mint_extension TransferHookX th_authority (token_error NoAuthorityExists)
       (\<lambda>e. if opt_key new_program_id = Some program_id then Err IncorrectProgramId
            else Ok (e\<lparr>th_program_id := new_program_id\<rparr>)) program_id accounts L"

datatype TransferHookInstruction = InitializeHook | UpdateHook

definition process_transfer_hook_instruction ::
  "pubkey \<Rightarrow> AccountInfo list \<Rightarrow> bytes \<Rightarrow> ledger \<Rightarrow> ledger result" where
  "process_transfer_hook_instruction program_id accounts input L =
     and_then (check_program_account program_id) (\<lambda>_.
     and_then (decode_instruction_type [InitializeHook, UpdateHook] input) (\<lambda>i. case i of
       InitializeHook \<Rightarrow> and_then (decode_instruction_data 64 dec_two_keys input) (\<lambda>(authority, hook).
         process_initialize_transfer_hook program_id accounts authority hook L)
     | UpdateHook \<Rightarrow> and_then (decode_instruction_data 32 dec_key input) (\<lambda>hook.
         process_update_transfer_hook program_id accounts hook L)))"

section \<open>Pointers\<close>

text \<open>The metadata pointer initializes the extension before it checks that something is set, the other two after.\<close>

definition process_initialize_metadata_pointer ::
  "AccountInfo list \<Rightarrow> pubkey \<Rightarrow> pubkey \<Rightarrow> ledger \<Rightarrow> ledger result" where
  "process_initialize_metadata_pointer accounts authority metadata_address L =
     and_then (next_account_info accounts) (\<lambda>(mint_account_info, _).
     initialize_extension PodMintB MetadataPointerX True
       (if opt_key authority = None \<and> opt_key metadata_address = None then TErr InvalidInstruction
        else Ok \<lparr>mp_authority = authority, mp_metadata_address = metadata_address\<rparr>) mint_account_info L)"

definition process_update_metadata_pointer :: "pubkey \<Rightarrow> AccountInfo list \<Rightarrow> pubkey \<Rightarrow> ledger \<Rightarrow> ledger result" where
  "process_update_metadata_pointer program_id accounts new_metadata_address L =
     update_mint_extension MetadataPointerX mp_authority (token_error NoAuthorityExists)
       (\<lambda>e. Ok (e\<lparr>mp_metadata_address := new_metadata_address\<rparr>)) program_id accounts L"

definition process_initialize_group_pointer ::
  "AccountInfo list \<Rightarrow> pubkey \<Rightarrow> pubkey \<Rightarrow> ledger \<Rightarrow> ledger result" where
  "process_initialize_group_pointer accounts authority group_address L =
     and_then (next_account_info accounts) (\<lambda>(mint_account_info, _).
     and_then (unpack_uninitialized PodMintB (ac_data (L (ai_key mint_account_info)))) (\<lambda>_.
     if opt_key authority = None \<and> opt_key group_address = None then TErr InvalidInstruction
     else initialize_extension PodMintB GroupPointerX True
            (Ok \<lparr>gp_authority = authority, gp_group_address = group_address\<rparr>) mint_account_info L))"

definition process_update_group_pointer :: "pubkey \<Rightarrow> AccountInfo list \<Rightarrow> pubkey \<Rightarrow> ledger \<Rightarrow> ledger result" where
  "process_update_group_pointer program_id accounts new_group_address L =
     update_mint_extension GroupPointerX gp_authority (token_error NoAuthorityExists)
       (\<lambda>e. Ok (e\<lparr>gp_group_address := new_group_address\<rparr>)) program_id accounts L"

definition process_initialize_group_member_pointer ::
  "AccountInfo list \<Rightarrow> pubkey \<Rightarrow> pubkey \<Rightarrow> ledger \<Rightarrow> ledger result" where
  "process_initialize_group_member_pointer accounts authority member_address L =
     and_then (next_account_info accounts) (\<lambda>(mint_account_info, _).
     and_then (unpack_uninitialized PodMintB (ac_data (L (ai_key mint_account_info)))) (\<lambda>_.
     if opt_key authority = None \<and> opt_key member_address = None then TErr InvalidInstruction
     else initialize_extension PodMintB GroupMemberPointerX True
            (Ok \<lparr>gmp_authority = authority, gmp_member_address = member_address\<rparr>) mint_account_info L))"

definition process_update_group_member_pointer ::
  "pubkey \<Rightarrow> AccountInfo list \<Rightarrow> pubkey \<Rightarrow> ledger \<Rightarrow> ledger result" where
  "process_update_group_member_pointer program_id accounts new_member_address L =
     update_mint_extension GroupMemberPointerX gmp_authority (token_error NoAuthorityExists)
       (\<lambda>e. Ok (e\<lparr>gmp_member_address := new_member_address\<rparr>)) program_id accounts L"

datatype MetadataPointerInstruction = InitializeMetadataPointer | UpdateMetadataPointer

datatype GroupPointerInstruction = InitializeGroupPointer | UpdateGroupPointer

datatype GroupMemberPointerInstruction = InitializeGroupMemberPointer | UpdateGroupMemberPointer

definition process_metadata_pointer_instruction ::
  "pubkey \<Rightarrow> AccountInfo list \<Rightarrow> bytes \<Rightarrow> ledger \<Rightarrow> ledger result" where
  "process_metadata_pointer_instruction program_id accounts input L =
     and_then (check_program_account program_id) (\<lambda>_.
     and_then (decode_instruction_type [InitializeMetadataPointer, UpdateMetadataPointer] input) (\<lambda>i. case i of
       InitializeMetadataPointer \<Rightarrow> and_then (decode_instruction_data 64 dec_two_keys input) (\<lambda>(authority, k).
         process_initialize_metadata_pointer accounts authority k L)
     | UpdateMetadataPointer \<Rightarrow> and_then (decode_instruction_data 32 dec_key input) (\<lambda>k.
         process_update_metadata_pointer program_id accounts k L)))"

definition process_group_pointer_instruction ::
  "pubkey \<Rightarrow> AccountInfo list \<Rightarrow> bytes \<Rightarrow> ledger \<Rightarrow> ledger result" where
  "process_group_pointer_instruction program_id accounts input L =
     and_then (check_program_account program_id) (\<lambda>_.
     and_then (decode_instruction_type [InitializeGroupPointer, UpdateGroupPointer] input) (\<lambda>i. case i of
       InitializeGroupPointer \<Rightarrow> and_then (decode_instruction_data 64 dec_two_keys input) (\<lambda>(authority, k).
         process_initialize_group_pointer accounts authority k L)
     | UpdateGroupPointer \<Rightarrow> and_then (decode_instruction_data 32 dec_key input) (\<lambda>k.
         process_update_group_pointer program_id accounts k L)))"

definition process_group_member_pointer_instruction ::
  "pubkey \<Rightarrow> AccountInfo list \<Rightarrow> bytes \<Rightarrow> ledger \<Rightarrow> ledger result" where
  "process_group_member_pointer_instruction program_id accounts input L =
     and_then (check_program_account program_id) (\<lambda>_.
     and_then (decode_instruction_type [InitializeGroupMemberPointer, UpdateGroupMemberPointer] input) (\<lambda>i. case i of
       InitializeGroupMemberPointer \<Rightarrow> and_then (decode_instruction_data 64 dec_two_keys input) (\<lambda>(authority, k).
         process_initialize_group_member_pointer accounts authority k L)
     | UpdateGroupMemberPointer \<Rightarrow> and_then (decode_instruction_data 32 dec_key input) (\<lambda>k.
         process_update_group_member_pointer program_id accounts k L)))"

section \<open>Interest rate\<close>

text \<open>The \<open>i128\<close> arithmetic of \<open>time_weighted_average_rate\<close>: the exact integer if it fits 128 bits.\<close>

definition i128 :: "int \<Rightarrow> int option" where
  "i128 n = (if - (2 ^ 127) \<le> n \<and> n < 2 ^ 127 then Some n else None)"

definition i16_try_from :: "int \<Rightarrow> u16 option" where
  "i16_try_from n = (if - (2 ^ 15) \<le> n \<and> n < 2 ^ 15 then Some (word_of_int n) else None)"

definition time_weighted_average_rate :: "InterestBearingConfig \<Rightarrow> u64 \<Rightarrow> u16 option" where
  "time_weighted_average_rate self current_timestamp =
     (let initialization_timestamp = sint (ib_initialization_timestamp self);
          last_update_timestamp = sint (ib_last_update_timestamp self);
          r1 = sint (ib_pre_update_average_rate self);
          r2 = sint (ib_current_rate self)
      in Option.bind (i128 (last_update_timestamp - initialization_timestamp)) (\<lambda>t1.
         Option.bind (i128 (sint current_timestamp - last_update_timestamp)) (\<lambda>t2.
         Option.bind (i128 (t1 + t2)) (\<lambda>total_timespan.
         Option.bind (if total_timespan = 0 then Some r2
           else Option.bind (i128 (r1 * t1)) (\<lambda>a. Option.bind (i128 (r2 * t2)) (\<lambda>b.
             Option.bind (i128 (a + b)) (\<lambda>s. i128 (s sdiv total_timespan))))) i16_try_from))))"

definition process_initialize_interest_bearing ::
  "Env \<Rightarrow> AccountInfo list \<Rightarrow> pubkey \<Rightarrow> u16 \<Rightarrow> ledger \<Rightarrow> ledger result" where
  "process_initialize_interest_bearing env accounts rate_authority rate L =
     and_then (next_account_info accounts) (\<lambda>(mint_account_info, _).
     and_then (unpack_uninitialized PodMintB (ac_data (L (ai_key mint_account_info)))) (\<lambda>_.
     and_then (env_clock env) (\<lambda>clock.
     initialize_extension PodMintB InterestBearingConfigX True
       (Ok \<lparr>ib_rate_authority = rate_authority, ib_initialization_timestamp = clk_unix_timestamp clock,
            ib_pre_update_average_rate = rate, ib_last_update_timestamp = clk_unix_timestamp clock,
            ib_current_rate = rate\<rparr>) mint_account_info L)))"

definition update_rate :: "Env \<Rightarrow> u16 \<Rightarrow> InterestBearingConfig \<Rightarrow> InterestBearingConfig result" where
  "update_rate env new_rate config =
     and_then (env_clock env) (\<lambda>clock.
     and_then (ok_or (time_weighted_average_rate config (clk_unix_timestamp clock)) (token_error Overflow))
       (\<lambda>new_average_rate.
     Ok (config\<lparr>ib_pre_update_average_rate := new_average_rate,
           ib_last_update_timestamp := clk_unix_timestamp clock, ib_current_rate := new_rate\<rparr>)))"

definition process_update_rate ::
  "pubkey \<Rightarrow> Env \<Rightarrow> AccountInfo list \<Rightarrow> u16 \<Rightarrow> ledger \<Rightarrow> ledger result" where
  "process_update_rate program_id env accounts new_rate L =
     update_mint_extension InterestBearingConfigX ib_rate_authority (token_error NoAuthorityExists)
       (update_rate env new_rate) program_id accounts L"

datatype InterestBearingMintInstruction = InitializeInterest | UpdateRate

definition dec_initialize_interest :: "bytes \<Rightarrow> pubkey \<times> u16" where
  "dec_initialize_interest bs = (from_le (subslice 0 32 bs), from_le (subslice 32 2 bs))"

definition process_interest_bearing_instruction ::
  "pubkey \<Rightarrow> Env \<Rightarrow> AccountInfo list \<Rightarrow> bytes \<Rightarrow> ledger \<Rightarrow> ledger result" where
  "process_interest_bearing_instruction program_id env accounts input L =
     and_then (check_program_account program_id) (\<lambda>_.
     and_then (decode_instruction_type [InitializeInterest, UpdateRate] input) (\<lambda>i. case i of
       InitializeInterest \<Rightarrow> and_then (decode_instruction_data 34 dec_initialize_interest input) (\<lambda>(authority, rate).
         process_initialize_interest_bearing env accounts authority rate L)
     | UpdateRate \<Rightarrow> and_then (decode_instruction_data 2 from_le input) (\<lambda>rate.
         process_update_rate program_id env accounts rate L)))"

section \<open>Scaled UI amount\<close>

text \<open>
  A multiplier is an \<open>f64\<close>, kept as its IEEE 754 bits: positive sign bit, and an exponent field that is
  neither zero (zero and subnormal numbers) nor all ones (infinities and NaN).
\<close>

definition try_validate_multiplier :: "u64 \<Rightarrow> unit result" where
  "try_validate_multiplier multiplier =
     (let is_sign_positive = (drop_bit 63 multiplier = 0);
          exponent = take_bit 11 (drop_bit 52 multiplier);
          is_normal = (exponent \<noteq> 0 \<and> exponent \<noteq> 0x7ff)
      in if is_sign_positive \<and> is_normal then Ok () else TErr InvalidScale)"

definition process_initialize_scaled_ui_amount ::
  "AccountInfo list \<Rightarrow> pubkey \<Rightarrow> u64 \<Rightarrow> ledger \<Rightarrow> ledger result" where
  "process_initialize_scaled_ui_amount accounts authority multiplier L =
     and_then (next_account_info accounts) (\<lambda>(mint_account_info, _).
     initialize_extension PodMintB ScaledUiAmountConfigX True
       (and_then (try_validate_multiplier multiplier) (\<lambda>_.
        Ok \<lparr>su_authority = authority, su_multiplier = multiplier, su_new_multiplier_effective_timestamp = 0,
            su_new_multiplier = multiplier\<rparr>)) mint_account_info L)"

definition current_multiplier :: "ScaledUiAmountConfig \<Rightarrow> u64 \<Rightarrow> u64" where
  "current_multiplier self unix_timestamp =
     (if sint unix_timestamp \<ge> sint (su_new_multiplier_effective_timestamp self) then su_new_multiplier self
      else su_multiplier self)"

definition update_multiplier ::
  "Env \<Rightarrow> u64 \<Rightarrow> u64 \<Rightarrow> ScaledUiAmountConfig \<Rightarrow> ScaledUiAmountConfig result" where
  "update_multiplier env new_multiplier effective_timestamp config =
     and_then (try_validate_multiplier new_multiplier) (\<lambda>_.
     and_then (env_clock env) (\<lambda>clock.
     let now = sint (clk_unix_timestamp clock);
         config = (if now \<ge> sint (su_new_multiplier_effective_timestamp config)
           then config\<lparr>su_multiplier := su_new_multiplier config\<rparr> else config);
         config = config\<lparr>su_new_multiplier := new_multiplier\<rparr>;
         config = (if sint effective_timestamp < 0 then config\<lparr>su_new_multiplier_effective_timestamp := 0\<rparr>
           else config\<lparr>su_new_multiplier_effective_timestamp := effective_timestamp\<rparr>)
     in Ok (if now \<ge> sint effective_timestamp then config\<lparr>su_multiplier := new_multiplier\<rparr> else config)))"

definition process_update_multiplier ::
  "pubkey \<Rightarrow> Env \<Rightarrow> AccountInfo list \<Rightarrow> u64 \<Rightarrow> u64 \<Rightarrow> ledger \<Rightarrow> ledger result" where
  "process_update_multiplier program_id env accounts new_multiplier effective_timestamp L =
     update_mint_extension ScaledUiAmountConfigX su_authority (token_error NoAuthorityExists)
       (update_multiplier env new_multiplier effective_timestamp) program_id accounts L"

datatype ScaledUiAmountMintInstruction = InitializeScale | UpdateMultiplier

definition dec_initialize_scale :: "bytes \<Rightarrow> pubkey \<times> u64" where
  "dec_initialize_scale bs = (from_le (subslice 0 32 bs), from_le (subslice 32 8 bs))"

definition dec_update_multiplier :: "bytes \<Rightarrow> u64 \<times> u64" where
  "dec_update_multiplier bs = (from_le (subslice 0 8 bs), from_le (subslice 8 8 bs))"

definition process_scaled_ui_amount_instruction ::
  "pubkey \<Rightarrow> Env \<Rightarrow> AccountInfo list \<Rightarrow> bytes \<Rightarrow> ledger \<Rightarrow> ledger result" where
  "process_scaled_ui_amount_instruction program_id env accounts input L =
     and_then (check_program_account program_id) (\<lambda>_.
     and_then (decode_instruction_type [InitializeScale, UpdateMultiplier] input) (\<lambda>i. case i of
       InitializeScale \<Rightarrow> and_then (decode_instruction_data 40 dec_initialize_scale input) (\<lambda>(authority, multiplier).
         process_initialize_scaled_ui_amount accounts authority multiplier L)
     | UpdateMultiplier \<Rightarrow> and_then (decode_instruction_data 16 dec_update_multiplier input) (\<lambda>(multiplier, t).
         process_update_multiplier program_id env accounts multiplier t L)))"

section \<open>What the steps do\<close>

context extension
begin

lemma set_or_init_extension_Ok:
  assumes "set_or_init_extension S E f tlv = Ok tlv'"
  shows "\<exists>e. get_extension S E tlv' = Ok (f e)" "length tlv' = length tlv"
    and "V \<noteq> EXT_TYPE E \<Longrightarrow> get_extension_bytes S V tlv = Ok v \<Longrightarrow> get_extension_bytes S V tlv' = Ok v"
proof -
  have "(\<exists>e. get_extension S E tlv' = Ok (f e)) \<and> length tlv' = length tlv \<and>
    (V \<noteq> EXT_TYPE E \<longrightarrow> get_extension_bytes S V tlv = Ok v \<longrightarrow> get_extension_bytes S V tlv' = Ok v)"
  proof (cases "get_extension_mut S E tlv")
    case (Inr p)
    then obtain e i where p: "get_extension_mut S E tlv = Ok (e, i)" by (cases p) auto
    then have "tlv' = set_extension S E (f e) tlv" using assms by (simp add: set_or_init_extension_def)
    then show ?thesis
      using get_set_same [OF get_extension_mut_Ok_get [OF p]] get_set_other_bytes by auto
  next
    case (Inl x)
    then obtain t where t: "init_extension S E True tlv = Ok t" "tlv' = set_extension S E (f (ext_default E)) t"
      using assms by (auto simp: set_or_init_extension_def res_simps)
    note i = init_extension_step [OF t(1)]
    show ?thesis
      using get_set_same [OF init_extension_Ok(1) [OF t(1)]] get_set_other_bytes i t(2) by auto
  qed
  then show "\<exists>e. get_extension S E tlv' = Ok (f e)" "length tlv' = length tlv"
    "V \<noteq> EXT_TYPE E \<Longrightarrow> get_extension_bytes S V tlv = Ok v \<Longrightarrow> get_extension_bytes S V tlv' = Ok v"
    by blast+
qed

end

text \<open>Writing the buffer of a token account back: the account stays the same account.\<close>

lemma write_account_tlv:
  assumes "token_account (ac_data (L k)) = Ok st" "length tlv = length (tlv_data st)"
    and "L' = set_data k (pack_state PodAccountB (st\<lparr>tlv_data := tlv\<rparr>)) L"
  shows "token_account (ac_data (L' k)) = Ok (st\<lparr>tlv_data := tlv\<rparr>)"
proof -
  have "token_account (pack_state PodAccountB (st\<lparr>tlv_data := tlv\<rparr>)) = Ok (st\<lparr>tlv_data := tlv\<rparr>)"
    using token_account_initialized [OF assms(1)] assms(2) by (intro token_account_write [OF assms(1)]) simp_all
  then show ?thesis by (simp add: assms(3))
qed

lemma toggle_cpi_guard_effect:
  assumes "process_toggle_cpi_guard program_id env (k # a # rest) enable L = Ok L'"
  obtains st tlv e where "token_account (ac_data (L (ai_key k))) = Ok st"
    "token_account (ac_data (L' (ai_key k))) = Ok (st\<lparr>tlv_data := tlv\<rparr>)"
    "a_owner (base st) = ai_key a" "owner_signed program_id L a rest" "\<not> env_in_cpi env"
    "get_extension AccountBase CpiGuardX tlv = Ok (e\<lparr>cg_lock_cpi := pod_bool_from enable\<rparr>)"
    "length tlv = length (tlv_data st)"
    "\<And>V v. V \<noteq> ExtensionType.CpiGuard \<Longrightarrow> get_extension_bytes AccountBase V (tlv_data st) = Ok v \<Longrightarrow>
       get_extension_bytes AccountBase V tlv = Ok v"
    "L' = set_data (ai_key k) (ac_data (L' (ai_key k))) L"
proof -
  obtain st tlv where h: "token_account (ac_data (L (ai_key k))) = Ok st"
    "a_owner (base st) = ai_key a" "owner_signed program_id L a rest" "\<not> env_in_cpi env"
    "set_or_init_extension AccountBase CpiGuardX (\<lambda>e. e\<lparr>cg_lock_cpi := pod_bool_from enable\<rparr>) (tlv_data st) = Ok tlv"
    "L' = set_data (ai_key k) (pack_state PodAccountB (st\<lparr>tlv_data := tlv\<rparr>)) L"
    using assms by (auto simp: process_toggle_cpi_guard_def res_simps)
  note s = cg.set_or_init_extension_Ok [OF h(5)]
  from s(1) obtain e where "get_extension AccountBase CpiGuardX tlv = Ok (e\<lparr>cg_lock_cpi := pod_bool_from enable\<rparr>)" by blast
  then show ?thesis
    by (rule that [OF h(1) write_account_tlv [OF h(1) s(2) h(6)] h(2-4) _ s(2)])
      (use s(3) in \<open>auto simp: h(6)\<close>)
qed

section \<open>The average rate\<close>

text \<open>\<open>/\<close> truncates toward zero, so a weighted mean of two integers stays between them.\<close>

lemma sdiv_between:
  fixes a n lo hi :: int
  assumes "0 < n" "lo * n \<le> a" "a \<le> hi * n"
  shows "lo \<le> a sdiv n" "a sdiv n \<le> hi"
proof -
  have d: "a sdiv n = (if 0 \<le> a then a div n else - (- a div n))"
    using assms(1) by (simp add: signed_divide_int_def sgn_if)
  have "lo \<le> a div n" using assms(1,2) by (metis mult.commute nonzero_mult_div_cancel_left order_less_irrefl zdiv_mono1)
  moreover have "- a div n \<le> - lo"
    using assms(1,2) by (metis minus_le_iff mult_minus_left nonzero_mult_div_cancel_right order_less_irrefl zdiv_mono1 minus_mult_left neg_le_iff_le)
  moreover have "a div n \<le> hi" using assms(1,3) by (metis nonzero_mult_div_cancel_right order_less_irrefl zdiv_mono1)
  moreover have "- hi \<le> - a div n"
    using assms(1,3) by (metis mult_minus_left neg_le_iff_le nonzero_mult_div_cancel_right order_less_irrefl zdiv_mono1)
  ultimately show "lo \<le> a sdiv n" "a sdiv n \<le> hi" unfolding d by auto
qed

lemma i16_try_from_Some:
  "- (2 ^ 15) \<le> n \<Longrightarrow> n < 2 ^ 15 \<Longrightarrow> \<exists>r. i16_try_from n = Some r \<and> sint r = n"
  by (simp add: i16_try_from_def sint_sbintrunc' signed_take_bit_int_eq_self)

lemma abs_mult_bound:
  fixes r t :: int
  assumes "- (2 ^ 15) \<le> r" "r < 2 ^ 15" "0 \<le> t" "t < 2 ^ 65"
  shows "\<bar>r * t\<bar> \<le> 2 ^ 80"
proof -
  have "\<bar>r * t\<bar> = \<bar>r\<bar> * t" using assms(3) by (simp add: abs_mult)
  also have "\<dots> \<le> 2 ^ 15 * 2 ^ 65" using assms by (intro mult_mono) auto
  finally show ?thesis by simp
qed

text \<open>
  The average rate an update stores exists whenever time did not run backwards, never overflows the
  128-bit arithmetic or the 16 bits it is stored in, and lies between the average rate so far and the rate since
  the last update.
\<close>

theorem time_weighted_average_rate_between:
  assumes "sint (ib_initialization_timestamp c) \<le> sint (ib_last_update_timestamp c)"
    and "sint (ib_last_update_timestamp c) \<le> sint now"
  shows "\<exists>r. time_weighted_average_rate c now = Some r \<and>
    min (sint (ib_pre_update_average_rate c)) (sint (ib_current_rate c)) \<le> sint r \<and>
    sint r \<le> max (sint (ib_pre_update_average_rate c)) (sint (ib_current_rate c))"
proof -
  define t1 where "t1 = sint (ib_last_update_timestamp c) - sint (ib_initialization_timestamp c)"
  define t2 where "t2 = sint now - sint (ib_last_update_timestamp c)"
  define r1 where "r1 = sint (ib_pre_update_average_rate c)"
  define r2 where "r2 = sint (ib_current_rate c)"
  define q where "q = (if t1 + t2 = 0 then r2 else (r1 * t1 + r2 * t2) sdiv (t1 + t2))"
  have t: "0 \<le> t1" "0 \<le> t2" using assms by (simp_all add: t1_def t2_def)
  have tb: "t1 < 2 ^ 65" "t2 < 2 ^ 65"
    using sint_ge [of "ib_initialization_timestamp c"] sint_lt [of "ib_last_update_timestamp c"]
      sint_ge [of "ib_last_update_timestamp c"] sint_lt [of now] by (simp_all add: t1_def t2_def)
  have r: "- (2 ^ 15) \<le> r1" "r1 < 2 ^ 15" "- (2 ^ 15) \<le> r2" "r2 < 2 ^ 15"
    using sint_ge [of "ib_pre_update_average_rate c"] sint_lt [of "ib_pre_update_average_rate c"]
      sint_ge [of "ib_current_rate c"] sint_lt [of "ib_current_rate c"] by (simp_all add: r1_def r2_def)
  have p: "\<bar>r1 * t1\<bar> \<le> 2 ^ 80" "\<bar>r2 * t2\<bar> \<le> 2 ^ 80" using abs_mult_bound r t tb by blast+
  have q: "min r1 r2 \<le> q \<and> q \<le> max r1 r2"
  proof (cases "t1 + t2 = 0")
    case False
    have "min r1 r2 * (t1 + t2) \<le> r1 * t1 + r2 * t2" "r1 * t1 + r2 * t2 \<le> max r1 r2 * (t1 + t2)"
      using t by (auto simp: distrib_left intro!: add_mono mult_right_mono)
    then show ?thesis using False t sdiv_between [of "t1 + t2" "min r1 r2" "r1 * t1 + r2 * t2" "max r1 r2"]
      by (simp add: q_def)
  qed (simp add: q_def)
  then have qr: "- (2 ^ 15) \<le> q" "q < 2 ^ 15" using r by linarith+
  have "time_weighted_average_rate c now = i16_try_from q"
    using t tb p qr unfolding time_weighted_average_rate_def t1_def [symmetric] t2_def [symmetric] r1_def [symmetric]
      r2_def [symmetric] Let_def
    by (auto simp: i128_def q_def abs_le_iff)
  then show ?thesis using q i16_try_from_Some [OF qr] by (auto simp: r1_def r2_def)
qed

theorem time_weighted_average_rate_between_witness:
  "\<exists>r. time_weighted_average_rate \<lparr>ib_rate_authority = 77, ib_initialization_timestamp = 100,
     ib_pre_update_average_rate = 10, ib_last_update_timestamp = 200, ib_current_rate = 40\<rparr> 250 = Some r \<and>
     10 \<le> sint r \<and> sint r \<le> 40"
  using time_weighted_average_rate_between [of "\<lparr>ib_rate_authority = 77, ib_initialization_timestamp = 100,
     ib_pre_update_average_rate = 10, ib_last_update_timestamp = 200, ib_current_rate = 40\<rparr>" 250] by simp

text \<open>
  A new multiplier never applies before its effective time: from the update on, the multiplier is
  the one in force at the update until the effective time, and the new one afterwards.  The update needs
  the signature of the authority and a positive normal number.
\<close>

theorem update_multiplier_correct:
  assumes "process_update_multiplier program_id env (m # a # rest) new eff L = Ok L'"
    and "env_clock env = Ok clock" "0 \<le> sint (clk_unix_timestamp clock)"
  shows "\<exists>c c'. mint_extension_step ScaledUiAmountConfigX su_authority program_id m a rest L L' c c' \<and>
    try_validate_multiplier new = Ok () \<and> su_authority c' = su_authority c \<and>
    (\<forall>t. sint (clk_unix_timestamp clock) \<le> sint t \<longrightarrow> current_multiplier c' t =
       (if sint t < sint eff then current_multiplier c (clk_unix_timestamp clock) else new))"
proof -
  obtain c c' where c: "update_multiplier env new eff c = Ok c'"
    "mint_extension_step ScaledUiAmountConfigX su_authority program_id m a rest L L' c c'"
    using su.update_mint_extension_Ok [OF assms(1) [unfolded process_update_multiplier_def]] by blast
  have "try_validate_multiplier new = Ok ()" "su_authority c' = su_authority c"
    using c(1) assms(2) by (auto simp: update_multiplier_def res_simps Let_def)
  moreover have "current_multiplier c' t =
      (if sint t < sint eff then current_multiplier c (clk_unix_timestamp clock) else new)"
    if "sint (clk_unix_timestamp clock) \<le> sint t" for t
    using c(1) assms(2,3) that by (auto simp: update_multiplier_def res_simps Let_def current_multiplier_def)
  ultimately show ?thesis using c(2) by blast
qed

definition demo_scale :: ScaledUiAmountConfig where
  "demo_scale = \<lparr>su_authority = 77, su_multiplier = 0x3ff0000000000000,
     su_new_multiplier_effective_timestamp = 0, su_new_multiplier = 0x3ff0000000000000\<rparr>"

lemma demo_clock: "env_clock demo_env = Ok \<lparr>clk_epoch = 3, clk_unix_timestamp = 1000\<rparr>"
  by (simp add: demo_env_def)

theorem update_multiplier_correct_witness:
  "\<exists>L' c c'. process_update_multiplier token_program_id demo_env [unsigned_key 1, signed_key 77] 0x4000000000000000 5000
     (mint_ledger (fresh_tlv MintBase ScaledUiAmountConfigX demo_scale)) = Ok L' \<and>
     mint_extension_step ScaledUiAmountConfigX su_authority token_program_id (unsigned_key 1) (signed_key 77) []
       (mint_ledger (fresh_tlv MintBase ScaledUiAmountConfigX demo_scale)) L' c c' \<and>
     current_multiplier c' 4999 = current_multiplier c 1000 \<and> current_multiplier c' 5000 = 0x4000000000000000"
proof -
  let ?L = "mint_ledger (fresh_tlv MintBase ScaledUiAmountConfigX demo_scale)"
  have "is_ok (update_multiplier demo_env 0x4000000000000000 5000 demo_scale)"
    by (simp add: update_multiplier_def try_validate_multiplier_def demo_clock Let_def)
  then obtain L' where l: "process_update_multiplier token_program_id demo_env [unsigned_key 1, signed_key 77]
      0x4000000000000000 5000 ?L = Ok L'"
    unfolding process_update_multiplier_def
    using su.update_mint_extension_demo [of su_authority demo_scale]
    by (auto simp: ScaledUiAmountConfigX_def demo_scale_def)
  obtain c c' where h: "mint_extension_step ScaledUiAmountConfigX su_authority token_program_id (unsigned_key 1)
      (signed_key 77) [] ?L L' c c'"
    "\<forall>t. 1000 \<le> sint t \<longrightarrow> current_multiplier c' t = (if sint t < 5000 then current_multiplier c 1000 else 0x4000000000000000)"
    using update_multiplier_correct [OF l demo_clock] by auto
  have "current_multiplier c' 4999 = current_multiplier c 1000" "current_multiplier c' 5000 = 0x4000000000000000"
    using h(2) by simp_all
  with l h(1) show ?thesis by blast
qed

text \<open>
  The CPI guard of an account is switched exactly as asked, by the signature of the owner of the account and
  never from within a cross-program call, so no called program can switch it off.  The base of the account
  and its other extensions stay, and no other account changes.
\<close>

theorem toggle_cpi_guard_correct:
  assumes "process_toggle_cpi_guard program_id env (k # a # rest) enable L = Ok L'"
  shows "\<not> env_in_cpi env \<and> owner_signed program_id L a rest \<and>
    (\<exists>st tlv. token_account (ac_data (L (ai_key k))) = Ok st \<and>
       token_account (ac_data (L' (ai_key k))) = Ok (st\<lparr>tlv_data := tlv\<rparr>) \<and>
       a_owner (base st) = ai_key a \<and> cpi_guard_enabled tlv = enable \<and>
       (\<forall>V v. V \<noteq> ExtensionType.CpiGuard \<longrightarrow> get_extension_bytes AccountBase V (tlv_data st) = Ok v \<longrightarrow>
          get_extension_bytes AccountBase V tlv = Ok v)) \<and>
    (\<forall>k'. k' \<noteq> ai_key k \<longrightarrow> L' k' = L k')"
proof (rule toggle_cpi_guard_effect [OF assms])
  fix st tlv e
  assume e: "token_account (ac_data (L (ai_key k))) = Ok st"
    "token_account (ac_data (L' (ai_key k))) = Ok (st\<lparr>tlv_data := tlv\<rparr>)" "a_owner (base st) = ai_key a"
    "owner_signed program_id L a rest" "\<not> env_in_cpi env"
    "get_extension AccountBase CpiGuardX tlv = Ok (e\<lparr>cg_lock_cpi := pod_bool_from enable\<rparr>)"
    "\<And>V v. V \<noteq> ExtensionType.CpiGuard \<Longrightarrow> get_extension_bytes AccountBase V (tlv_data st) = Ok v \<Longrightarrow>
       get_extension_bytes AccountBase V tlv = Ok v"
    "L' = set_data (ai_key k) (ac_data (L' (ai_key k))) L"
  have "cpi_guard_enabled tlv = enable" using e(6) by (simp add: cpi_guard_enabled_def)
  moreover have "\<forall>k'. k' \<noteq> ai_key k \<longrightarrow> L' k' = L k'" by (subst e(8)) simp
  ultimately show ?thesis using e(1-5,7) by blast
qed

definition guard_ledger :: ledger where
  "guard_ledger = account_ledger (fresh_tlv AccountBase CpiGuardX \<lparr>cg_lock_cpi = 1\<rparr>) demo_ledger"

lemma demo_guard_tlv:
  "get_extension AccountBase CpiGuardX (fresh_tlv AccountBase CpiGuardX \<lparr>cg_lock_cpi = 1\<rparr>) = Ok \<lparr>cg_lock_cpi = 1\<rparr>"
  "length (fresh_tlv AccountBase CpiGuardX \<lparr>cg_lock_cpi = 1\<rparr>) = 5"
  using cg.fresh_tlv [of AccountBase "\<lparr>cg_lock_cpi = 1\<rparr>"] by (simp_all add: CpiGuardX_def)

lemma demo_toggle_cpi_guard:
  "\<exists>L'. process_toggle_cpi_guard token_program_id demo_env [unsigned_key 11, signed_key 21] False guard_ledger = Ok L'"
proof -
  obtain i where "get_extension_mut AccountBase CpiGuardX (fresh_tlv AccountBase CpiGuardX \<lparr>cg_lock_cpi = 1\<rparr>) =
      Ok (\<lparr>cg_lock_cpi = 1\<rparr>, i)" using extension_mut_exists [OF demo_guard_tlv(1)] by blast
  moreover have "validate_owner token_program_id guard_ledger 21 (signed_key 21) (data_len guard_ledger (signed_key 21)) [] = Ok ()"
    by (rule validate_owner_plain) (simp add: guard_ledger_def)
  ultimately show ?thesis
    by (simp add: process_toggle_cpi_guard_def set_or_init_extension_def guard_ledger_def demo_guard_tlv demo_env_def)
qed

theorem toggle_cpi_guard_correct_witness:
  "\<exists>L' st. process_toggle_cpi_guard token_program_id demo_env [unsigned_key 11, signed_key 21] False guard_ledger = Ok L' \<and>
     token_account (ac_data (L' 11)) = Ok st \<and> \<not> cpi_guard_enabled (tlv_data st)"
proof -
  obtain L' where l: "process_toggle_cpi_guard token_program_id demo_env [unsigned_key 11, signed_key 21] False
      guard_ledger = Ok L'" using demo_toggle_cpi_guard by blast
  show ?thesis using toggle_cpi_guard_correct [OF l] l by fastforce
qed

text \<open>Handlers that take the mint refuse a paused one.\<close>

lemma transfer_checks_paused:
  "transfer_mint_checks env L s src (Some (m, dec)) amount = Ok r \<Longrightarrow>
     \<exists>mint. unpack PodMintB (ac_data (L (ai_key m))) = Ok mint \<and> check_not_paused (tlv_data mint) = Ok ()"
  by (auto simp: transfer_mint_checks_def res_simps split: if_splits)

lemma paused_mint:
  assumes "mint_extension_step PausableConfigX authority program_id m a rest L L' e e'" "pod_bool (pc_paused e')"
    and "token_mint (ac_data (L' (ai_key m))) = Ok mint"
  shows "check_not_paused (tlv_data mint) \<noteq> Ok ()"
  using assms by (auto simp: mint_extension_step_def check_not_paused_def)

text \<open>
  Pausing, which needs the signature of the pause authority, stops the mint: as long as its data is what
  the pause left, no tokens of it are minted, burned or transferred with the mint, whatever the other
  accounts, amounts and authorities are.
\<close>

theorem paused_mint_blocks:
  assumes "process_toggle_pause program_id (m # a # rest) True L = Ok L'"
    and "ac_data (L2 (ai_key m)) = ac_data (L' (ai_key m))"
  shows "owner_signed program_id L a rest \<and>
    \<not> is_ok (process_mint_to program_id (m # d # ow # sigs) amount variant L2) \<and>
    \<not> is_ok (process_burn program_id env (s # m # ow # sigs) amount variant L2) \<and>
    (ti \<noteq> Unchecked \<longrightarrow> \<not> is_ok (process_transfer program_id env (transfer_accounts ti s m d ow sigs) amount ti L2))"
proof -
  obtain e e' where e: "e' = e\<lparr>pc_paused := pod_bool_from True\<rparr>"
    "mint_extension_step PausableConfigX pc_authority program_id m a rest L L' e e'"
    using pc.update_mint_extension_Ok [OF assms(1) [unfolded process_toggle_pause_def]] by auto
  have p: "check_not_paused (tlv_data mint) \<noteq> Ok ()" if "token_mint (ac_data (L2 (ai_key m))) = Ok mint" for mint
    using paused_mint [OF e(2)] that e(1) assms(2) by simp
  have "\<not> is_ok (process_mint_to program_id (m # d # ow # sigs) amount variant L2)"
  proof
    assume "is_ok (process_mint_to program_id (m # d # ow # sigs) amount variant L2)"
    then obtain L3 where "process_mint_to program_id (m # d # ow # sigs) amount variant L2 = Ok L3" by (auto simp: is_ok_iff)
    from process_mint_to_effect [OF this] show False using p by metis
  qed
  moreover have "\<not> is_ok (process_burn program_id env (s # m # ow # sigs) amount variant L2)"
  proof
    assume "is_ok (process_burn program_id env (s # m # ow # sigs) amount variant L2)"
    then obtain L3 where "process_burn program_id env (s # m # ow # sigs) amount variant L2 = Ok L3" by (auto simp: is_ok_iff)
    from process_burn_effect [OF this] show False using p by metis
  qed
  moreover have "\<not> is_ok (process_transfer program_id env (transfer_accounts ti s m d ow sigs) amount ti L2)"
    if ti: "ti \<noteq> Unchecked"
  proof
    assume "is_ok (process_transfer program_id env (transfer_accounts ti s m d ow sigs) amount ti L2)"
    then obtain src r where "transfer_mint_checks env L2 s src (mint_arg ti m) amount = Ok r"
      by (auto simp: is_ok_iff process_transfer_Ok)
    moreover obtain dec where "mint_arg ti m = Some (m, dec)" using ti by (cases ti) (auto simp: mint_arg_def)
    ultimately obtain mint where "unpack PodMintB (ac_data (L2 (ai_key m))) = Ok mint" "check_not_paused (tlv_data mint) = Ok ()"
      using transfer_checks_paused by metis
    then show False using p by (auto simp: unpack_Ok)
  qed
  moreover have "owner_signed program_id L a rest" using e(2) by (simp add: mint_extension_step_def)
  ultimately show ?thesis by blast
qed

theorem paused_mint_blocks_witness:
  "\<exists>L'. process_toggle_pause token_program_id [unsigned_key 1, signed_key 77] True
     (mint_ledger (fresh_tlv MintBase PausableConfigX \<lparr>pc_authority = 77, pc_paused = 0\<rparr>)) = Ok L' \<and>
     \<not> is_ok (process_mint_to token_program_id [unsigned_key 1, unsigned_key 11, signed_key 30] 7 UncheckedVariant L')"
proof -
  let ?e = "\<lparr>pc_authority = 77, pc_paused = 0\<rparr>"
  have "\<exists>L'. process_toggle_pause token_program_id [unsigned_key 1, signed_key 77] True
      (mint_ledger (fresh_tlv MintBase PausableConfigX ?e)) = Ok L'"
    unfolding process_toggle_pause_def
    by (rule pc.update_mint_extension_demo) (simp_all add: PausableConfigX_def)
  then obtain L' where l: "process_toggle_pause token_program_id [unsigned_key 1, signed_key 77] True
      (mint_ledger (fresh_tlv MintBase PausableConfigX ?e)) = Ok L'" ..
  show ?thesis using paused_mint_blocks [OF l, of L'] l by blast
qed

end
