(* ===== verification/Instruction.thy ===== *)
theory Instruction
  imports Instruction_Data "HOL-Library.Sublist"
begin

text \<open>
  The wire format of the instructions: \<open>TokenInstruction::unpack\<close> and \<open>pack\<close> of
  src/interface/src/instruction.rs with their helpers, the byte codes of \<open>AuthorityType\<close>, and the
  nested \<open>TransferFeeInstruction\<close>.  A \<open>COption<Pubkey>\<close> is \<open>pubkey option\<close>; a \<open>&str\<close> is its bytes.
\<close>

section \<open>Reading primitive fields\<close>

definition split_first :: "bytes \<Rightarrow> (u8 \<times> bytes) result" where
  "split_first input = (case input of [] \<Rightarrow> TErr InvalidInstruction | b # rest \<Rightarrow> Ok (b, rest))"

definition unpack_pubkey :: "bytes \<Rightarrow> (pubkey \<times> bytes) result" where
  "unpack_pubkey input =
     (if length input < 32 then TErr InvalidInstruction else Ok (from_le (take 32 input), drop 32 input))"

definition unpack_pubkey_option :: "bytes \<Rightarrow> (pubkey option \<times> bytes) result" where
  "unpack_pubkey_option input = (case input of
       [] \<Rightarrow> TErr InvalidInstruction
     | b # rest \<Rightarrow>
         if b = 0 then Ok (None, rest)
         else if b = 1 then and_then (unpack_pubkey rest) (\<lambda>(pk, rest). Ok (Some pk, rest))
         else TErr InvalidInstruction)"

definition pack_pubkey_option :: "pubkey option \<Rightarrow> bytes" where
  "pack_pubkey_option value = (case value of Some key \<Rightarrow> 1 # to_le 32 key | None \<Rightarrow> [0])"

definition unpack_u16 :: "bytes \<Rightarrow> (u16 \<times> bytes) result" where
  "unpack_u16 input =
     (if length input < 2 then TErr InvalidInstruction else Ok (from_le (take 2 input), drop 2 input))"

definition unpack_u64 :: "bytes \<Rightarrow> (u64 \<times> bytes) result" where
  "unpack_u64 input =
     (if length input < 8 then TErr InvalidInstruction else Ok (from_le (take 8 input), drop 8 input))"

definition unpack_amount_decimals :: "bytes \<Rightarrow> (u64 \<times> u8 \<times> bytes) result" where
  "unpack_amount_decimals input =
     and_then (unpack_u64 input) (\<lambda>(amount, rest).
     and_then (split_first rest) (\<lambda>(decimals, rest). Ok (amount, decimals, rest)))"

text \<open>\<open>rest.chunks(2)\<close>, each chunk converted to an extension type; an odd byte is a chunk of its own.\<close>

fun unpack_extension_types :: "bytes \<Rightarrow> ExtensionType list result" where
  "unpack_extension_types [] = Ok []"
| "unpack_extension_types [a] = and_then (extension_type_from_bytes [a]) (\<lambda>t. Ok [t])"
| "unpack_extension_types (a # b # rest) =
     and_then (extension_type_from_bytes [a, b]) (\<lambda>t.
     and_then (unpack_extension_types rest) (\<lambda>ts. Ok (t # ts)))"

text \<open>\<open>std::str::from_utf8\<close>: the well-formed byte sequences of UTF-8, without surrogates and overlong forms.\<close>

definition cont :: "u8 \<Rightarrow> bool" where
  "cont b \<longleftrightarrow> 0x80 \<le> b \<and> b \<le> 0xbf"

definition byte_at :: "bytes \<Rightarrow> nat \<Rightarrow> u8" where
  "byte_at bs i = (if i < length bs then bs ! i else 0)"

definition utf8_len :: "bytes \<Rightarrow> nat" where
  "utf8_len bs =
     (let a = byte_at bs 0; b = byte_at bs 1; c = byte_at bs 2; d = byte_at bs 3
      in if bs = [] then 0
         else if a < 0x80 then 1
         else if 0xc2 \<le> a \<and> a \<le> 0xdf \<and> cont b then 2
         else if (a = 0xe0 \<and> 0xa0 \<le> b \<and> b \<le> 0xbf \<or> a = 0xed \<and> 0x80 \<le> b \<and> b \<le> 0x9f \<or>
           0xe1 \<le> a \<and> a \<le> 0xef \<and> a \<noteq> 0xed \<and> cont b) \<and> cont c then 3
         else if (a = 0xf0 \<and> 0x90 \<le> b \<and> b \<le> 0xbf \<or> a = 0xf4 \<and> 0x80 \<le> b \<and> b \<le> 0x8f \<or>
           0xf1 \<le> a \<and> a \<le> 0xf3 \<and> cont b) \<and> cont c \<and> cont d then 4
         else 0)"

function valid_utf8 :: "bytes \<Rightarrow> bool" where
  "valid_utf8 bs =
     (if bs = [] then True else if utf8_len bs = 0 then False else valid_utf8 (drop (utf8_len bs) bs))"
  by pat_completeness auto
termination
  by (relation "measure length") auto

declare valid_utf8.simps [simp del]

section \<open>Authority types\<close>

fun authority_type_into :: "AuthorityType \<Rightarrow> u8" where
  "authority_type_into MintTokens = 0"
| "authority_type_into AuthorityType.FreezeAccount = 1"
| "authority_type_into AccountOwner = 2"
| "authority_type_into AuthorityType.CloseAccount = 3"
| "authority_type_into AuthorityType.TransferFeeConfig = 4"
| "authority_type_into WithheldWithdraw = 5"
| "authority_type_into CloseMint = 6"
| "authority_type_into InterestRate = 7"
| "authority_type_into AuthorityType.PermanentDelegate = 8"
| "authority_type_into AuthorityType.ConfidentialTransferMint = 9"
| "authority_type_into TransferHookProgramId = 10"
| "authority_type_into AuthorityType.ConfidentialTransferFeeConfig = 11"
| "authority_type_into AuthorityType.MetadataPointer = 12"
| "authority_type_into AuthorityType.GroupPointer = 13"
| "authority_type_into AuthorityType.GroupMemberPointer = 14"
| "authority_type_into AuthorityType.ScaledUiAmount = 15"
| "authority_type_into Pause = 16"

definition authority_type_from :: "u8 \<Rightarrow> AuthorityType result" where
  "authority_type_from index =
     ok_or (try_from_primitive [MintTokens, AuthorityType.FreezeAccount, AccountOwner, AuthorityType.CloseAccount,
       AuthorityType.TransferFeeConfig, WithheldWithdraw, CloseMint, InterestRate, AuthorityType.PermanentDelegate,
       AuthorityType.ConfidentialTransferMint, TransferHookProgramId, AuthorityType.ConfidentialTransferFeeConfig,
       AuthorityType.MetadataPointer, AuthorityType.GroupPointer, AuthorityType.GroupMemberPointer,
       AuthorityType.ScaledUiAmount, Pause] index) (token_error InvalidInstruction)"

section \<open>Token instructions\<close>

datatype TokenInstruction =
    InitializeMint u8 pubkey "pubkey option"
  | InitializeAccount
  | InitializeMultisig u8
  | Transfer u64
  | Approve u64
  | Revoke
  | SetAuthority AuthorityType "pubkey option"
  | MintTo u64
  | Burn u64
  | CloseAccount
  | FreezeAccount
  | ThawAccount
  | TransferChecked u64 u8
  | ApproveChecked u64 u8
  | MintToChecked u64 u8
  | BurnChecked u64 u8
  | InitializeAccount2 pubkey
  | SyncNative
  | InitializeAccount3 pubkey
  | InitializeMultisig2 u8
  | InitializeMint2 u8 pubkey "pubkey option"
  | GetAccountDataSize "ExtensionType list"
  | InitializeImmutableOwner
  | AmountToUiAmount u64
  | UiAmountToAmount bytes
  | InitializeMintCloseAuthority "pubkey option"
  | TransferFeeExtension
  | ConfidentialTransferExtension
  | DefaultAccountStateExtension
  | Reallocate "ExtensionType list"
  | MemoTransferExtension
  | CreateNativeMint
  | InitializeNonTransferableMint
  | InterestBearingMintExtension
  | CpiGuardExtension
  | InitializePermanentDelegate pubkey
  | TransferHookExtension
  | ConfidentialTransferFeeExtension
  | WithdrawExcessLamports
  | MetadataPointerExtension
  | GroupPointerExtension
  | GroupMemberPointerExtension
  | ConfidentialMintBurnExtension
  | ScaledUiAmountExtension
  | PausableExtension

text \<open>The fields of a mint initialization follow the tag in the order decimals, mint authority, freeze authority.\<close>

definition unpack_mint_fields :: "bytes \<Rightarrow> (u8 \<Rightarrow> pubkey \<Rightarrow> pubkey option \<Rightarrow> TokenInstruction) \<Rightarrow> TokenInstruction result" where
  "unpack_mint_fields rest build =
     and_then (split_first rest) (\<lambda>(decimals, rest).
     and_then (unpack_pubkey rest) (\<lambda>(mint_authority, rest).
     and_then (unpack_pubkey_option rest) (\<lambda>(freeze_authority, _).
     Ok (build decimals mint_authority freeze_authority))))"

definition unpack_amount :: "bytes \<Rightarrow> (u64 \<Rightarrow> TokenInstruction) \<Rightarrow> TokenInstruction result" where
  "unpack_amount rest build = and_then (unpack_u64 rest) (\<lambda>(amount, _). Ok (build amount))"

definition unpack_checked :: "bytes \<Rightarrow> (u64 \<Rightarrow> u8 \<Rightarrow> TokenInstruction) \<Rightarrow> TokenInstruction result" where
  "unpack_checked rest build =
     and_then (unpack_amount_decimals rest) (\<lambda>(amount, decimals, _). Ok (build amount decimals))"

definition unpack_key :: "bytes \<Rightarrow> (pubkey \<Rightarrow> TokenInstruction) \<Rightarrow> TokenInstruction result" where
  "unpack_key rest build = and_then (unpack_pubkey rest) (\<lambda>(key, _). Ok (build key))"

definition unpack_m :: "bytes \<Rightarrow> (u8 \<Rightarrow> TokenInstruction) \<Rightarrow> TokenInstruction result" where
  "unpack_m rest build = and_then (split_first rest) (\<lambda>(m, _). Ok (build m))"

definition unpack_token_instruction :: "bytes \<Rightarrow> TokenInstruction result" where
  "unpack_token_instruction input =
     and_then (split_first input) (\<lambda>(tag, rest).
     if tag = 0 then unpack_mint_fields rest InitializeMint
     else if tag = 1 then Ok InitializeAccount
     else if tag = 2 then unpack_m rest InitializeMultisig
     else if tag = 3 then unpack_amount rest Transfer
     else if tag = 4 then unpack_amount rest Approve
     else if tag = 7 then unpack_amount rest MintTo
     else if tag = 8 then unpack_amount rest Burn
     else if tag = 5 then Ok Revoke
     else if tag = 6 then
       and_then (split_first rest) (\<lambda>(t, rest).
       and_then (authority_type_from t) (\<lambda>authority_type.
       and_then (unpack_pubkey_option rest) (\<lambda>(new_authority, _).
       Ok (SetAuthority authority_type new_authority))))
     else if tag = 9 then Ok CloseAccount
     else if tag = 10 then Ok FreezeAccount
     else if tag = 11 then Ok ThawAccount
     else if tag = 12 then unpack_checked rest TransferChecked
     else if tag = 13 then unpack_checked rest ApproveChecked
     else if tag = 14 then unpack_checked rest MintToChecked
     else if tag = 15 then unpack_checked rest BurnChecked
     else if tag = 16 then unpack_key rest InitializeAccount2
     else if tag = 17 then Ok SyncNative
     else if tag = 18 then unpack_key rest InitializeAccount3
     else if tag = 19 then unpack_m rest InitializeMultisig2
     else if tag = 20 then unpack_mint_fields rest InitializeMint2
     else if tag = 21 then and_then (unpack_extension_types rest) (\<lambda>ts. Ok (GetAccountDataSize ts))
     else if tag = 22 then Ok InitializeImmutableOwner
     else if tag = 23 then unpack_amount rest AmountToUiAmount
     else if tag = 24 then (if valid_utf8 rest then Ok (UiAmountToAmount rest) else TErr InvalidInstruction)
     else if tag = 25 then and_then (unpack_pubkey_option rest) (\<lambda>(k, _). Ok (InitializeMintCloseAuthority k))
     else if tag = 26 then Ok TransferFeeExtension
     else if tag = 27 then Ok ConfidentialTransferExtension
     else if tag = 28 then Ok DefaultAccountStateExtension
     else if tag = 29 then and_then (unpack_extension_types rest) (\<lambda>ts. Ok (Reallocate ts))
     else if tag = 30 then Ok MemoTransferExtension
     else if tag = 31 then Ok CreateNativeMint
     else if tag = 32 then Ok InitializeNonTransferableMint
     else if tag = 33 then Ok InterestBearingMintExtension
     else if tag = 34 then Ok CpiGuardExtension
     else if tag = 35 then unpack_key rest InitializePermanentDelegate
     else if tag = 36 then Ok TransferHookExtension
     else if tag = 37 then Ok ConfidentialTransferFeeExtension
     else if tag = 38 then Ok WithdrawExcessLamports
     else if tag = 39 then Ok MetadataPointerExtension
     else if tag = 40 then Ok GroupPointerExtension
     else if tag = 41 then Ok GroupMemberPointerExtension
     else if tag = 42 then Ok ConfidentialMintBurnExtension
     else if tag = 43 then Ok ScaledUiAmountExtension
     else if tag = 44 then Ok PausableExtension
     else TErr InvalidInstruction)"

fun pack_token_instruction :: "TokenInstruction \<Rightarrow> bytes" where
  "pack_token_instruction (InitializeMint decimals mint_authority freeze_authority) =
     0 # decimals # to_le 32 mint_authority @ pack_pubkey_option freeze_authority"
| "pack_token_instruction InitializeAccount = [1]"
| "pack_token_instruction (InitializeMultisig m) = [2, m]"
| "pack_token_instruction (Transfer amount) = 3 # to_le 8 amount"
| "pack_token_instruction (Approve amount) = 4 # to_le 8 amount"
| "pack_token_instruction (MintTo amount) = 7 # to_le 8 amount"
| "pack_token_instruction (Burn amount) = 8 # to_le 8 amount"
| "pack_token_instruction Revoke = [5]"
| "pack_token_instruction (SetAuthority authority_type new_authority) =
     6 # authority_type_into authority_type # pack_pubkey_option new_authority"
| "pack_token_instruction CloseAccount = [9]"
| "pack_token_instruction FreezeAccount = [10]"
| "pack_token_instruction ThawAccount = [11]"
| "pack_token_instruction (TransferChecked amount decimals) = 12 # to_le 8 amount @ [decimals]"
| "pack_token_instruction (ApproveChecked amount decimals) = 13 # to_le 8 amount @ [decimals]"
| "pack_token_instruction (MintToChecked amount decimals) = 14 # to_le 8 amount @ [decimals]"
| "pack_token_instruction (BurnChecked amount decimals) = 15 # to_le 8 amount @ [decimals]"
| "pack_token_instruction (InitializeAccount2 own) = 16 # to_le 32 own"
| "pack_token_instruction SyncNative = [17]"
| "pack_token_instruction (InitializeAccount3 own) = 18 # to_le 32 own"
| "pack_token_instruction (InitializeMultisig2 m) = [19, m]"
| "pack_token_instruction (InitializeMint2 decimals mint_authority freeze_authority) =
     20 # decimals # to_le 32 mint_authority @ pack_pubkey_option freeze_authority"
| "pack_token_instruction (GetAccountDataSize ts) = 21 # concat (map extension_type_bytes ts)"
| "pack_token_instruction InitializeImmutableOwner = [22]"
| "pack_token_instruction (AmountToUiAmount amount) = 23 # to_le 8 amount"
| "pack_token_instruction (UiAmountToAmount ui_amount) = 24 # ui_amount"
| "pack_token_instruction (InitializeMintCloseAuthority close_authority) = 25 # pack_pubkey_option close_authority"
| "pack_token_instruction TransferFeeExtension = [26]"
| "pack_token_instruction ConfidentialTransferExtension = [27]"
| "pack_token_instruction DefaultAccountStateExtension = [28]"
| "pack_token_instruction (Reallocate ts) = 29 # concat (map extension_type_bytes ts)"
| "pack_token_instruction MemoTransferExtension = [30]"
| "pack_token_instruction CreateNativeMint = [31]"
| "pack_token_instruction InitializeNonTransferableMint = [32]"
| "pack_token_instruction InterestBearingMintExtension = [33]"
| "pack_token_instruction CpiGuardExtension = [34]"
| "pack_token_instruction (InitializePermanentDelegate delegate) = 35 # to_le 32 delegate"
| "pack_token_instruction TransferHookExtension = [36]"
| "pack_token_instruction ConfidentialTransferFeeExtension = [37]"
| "pack_token_instruction WithdrawExcessLamports = [38]"
| "pack_token_instruction MetadataPointerExtension = [39]"
| "pack_token_instruction GroupPointerExtension = [40]"
| "pack_token_instruction GroupMemberPointerExtension = [41]"
| "pack_token_instruction ConfidentialMintBurnExtension = [42]"
| "pack_token_instruction ScaledUiAmountExtension = [43]"
| "pack_token_instruction PausableExtension = [44]"

section \<open>Transfer fee instructions\<close>

text \<open>src/interface/src/extension/transfer_fee/instruction.rs, nested behind the \<open>TransferFeeExtension\<close> tag.\<close>

datatype TransferFeeInstruction =
    InitializeTransferFeeConfig "pubkey option" "pubkey option" u16 u64
  | TransferCheckedWithFee u64 u8 u64
  | WithdrawWithheldTokensFromMint
  | WithdrawWithheldTokensFromAccounts u8
  | HarvestWithheldTokensToMint
  | SetTransferFee u16 u64

definition unpack_transfer_fee_instruction :: "bytes \<Rightarrow> TransferFeeInstruction result" where
  "unpack_transfer_fee_instruction input =
     and_then (split_first input) (\<lambda>(tag, rest).
     if tag = 0 then
       and_then (unpack_pubkey_option rest) (\<lambda>(transfer_fee_config_authority, rest).
       and_then (unpack_pubkey_option rest) (\<lambda>(withdraw_withheld_authority, rest).
       and_then (unpack_u16 rest) (\<lambda>(transfer_fee_basis_points, rest).
       and_then (unpack_u64 rest) (\<lambda>(maximum_fee, _).
       Ok (InitializeTransferFeeConfig transfer_fee_config_authority withdraw_withheld_authority
             transfer_fee_basis_points maximum_fee)))))
     else if tag = 1 then
       and_then (unpack_amount_decimals rest) (\<lambda>(amount, decimals, rest).
       and_then (unpack_u64 rest) (\<lambda>(fee, _).
       Ok (TransferCheckedWithFee amount decimals fee)))
     else if tag = 2 then Ok WithdrawWithheldTokensFromMint
     else if tag = 3 then and_then (split_first rest) (\<lambda>(n, _). Ok (WithdrawWithheldTokensFromAccounts n))
     else if tag = 4 then Ok HarvestWithheldTokensToMint
     else if tag = 5 then
       and_then (unpack_u16 rest) (\<lambda>(transfer_fee_basis_points, rest).
       and_then (unpack_u64 rest) (\<lambda>(maximum_fee, _).
       Ok (SetTransferFee transfer_fee_basis_points maximum_fee)))
     else TErr InvalidInstruction)"

fun pack_transfer_fee_instruction :: "TransferFeeInstruction \<Rightarrow> bytes" where
  "pack_transfer_fee_instruction (InitializeTransferFeeConfig config_authority withdraw_authority rate maximum_fee) =
     0 # pack_pubkey_option config_authority @ pack_pubkey_option withdraw_authority @ to_le 2 rate @ to_le 8 maximum_fee"
| "pack_transfer_fee_instruction (TransferCheckedWithFee amount decimals fee) =
     1 # to_le 8 amount @ decimals # to_le 8 fee"
| "pack_transfer_fee_instruction WithdrawWithheldTokensFromMint = [2]"
| "pack_transfer_fee_instruction (WithdrawWithheldTokensFromAccounts n) = [3, n]"
| "pack_transfer_fee_instruction HarvestWithheldTokensToMint = [4]"
| "pack_transfer_fee_instruction (SetTransferFee rate maximum_fee) = 5 # to_le 2 rate @ to_le 8 maximum_fee"

section \<open>Reading inverts writing\<close>

lemma authority_type_from_into [simp]: "authority_type_from (authority_type_into t) = Ok t"
  by (cases t) (simp_all add: authority_type_from_def try_from_primitive_def)

lemma authority_type_from_Ok: "authority_type_from b = Ok t \<longleftrightarrow> b = authority_type_into t"
proof
  assume h: "authority_type_from b = Ok t"
  have "list_all (\<lambda>n. \<forall>t. authority_type_from (word_of_nat n) = Ok t \<longrightarrow> authority_type_into t = word_of_nat n) [0..<17]"
    by (simp add: upt_rec authority_type_from_def try_from_primitive_def)
  moreover have "unat b < 17"
    using h by (simp add: authority_type_from_def try_from_primitive_def split: if_splits)
  ultimately show "b = authority_type_into t"
    using h by (auto simp: list_all_iff dest: bspec [of _ _ "unat b"])
qed simp

lemma split_first_Cons [simp]: "split_first (b # rest) = Ok (b, rest)"
  by (simp add: split_first_def)

lemma unpack_pubkey_to_le [simp]: "unpack_pubkey (to_le 32 k @ rest) = Ok (k, rest)"
  by (simp add: unpack_pubkey_def)

lemma unpack_pubkey_option_pack [simp]: "unpack_pubkey_option (pack_pubkey_option k @ rest) = Ok (k, rest)"
  by (cases k) (simp_all add: unpack_pubkey_option_def pack_pubkey_option_def)

lemma unpack_u16_to_le [simp]: "unpack_u16 (to_le 2 n @ rest) = Ok (n, rest)"
  by (simp add: unpack_u16_def)

lemma unpack_u64_to_le [simp]: "unpack_u64 (to_le 8 n @ rest) = Ok (n, rest)"
  by (simp add: unpack_u64_def)

text \<open>The same readers at the end of the buffer.\<close>

lemmas unpack_at_end [simp] =
  unpack_pubkey_to_le [of _ "[]", simplified] unpack_pubkey_option_pack [of _ "[]", simplified]
  unpack_u16_to_le [of _ "[]", simplified] unpack_u64_to_le [of _ "[]", simplified]

lemma unpack_extension_types_pack [simp]: "unpack_extension_types (concat (map extension_type_bytes ts)) = Ok ts"
proof (induction ts)
  case (Cons t ts)
  obtain a b where "extension_type_bytes t = [a, b]"
    using length_extension_type_bytes [of t] by (metis length_0_conv length_Suc_conv numeral_2_eq_2)
  then show ?case using Cons extension_type_from_bytes_bytes [of t] by simp
qed simp

lemmas unpack_field_defs = unpack_mint_fields_def unpack_amount_def unpack_checked_def unpack_key_def unpack_m_def
  unpack_amount_decimals_def

text \<open>What a reader accepts is what the writer produces, followed by the rest it returns.\<close>

lemma to_le_take: "n \<le> length bs \<Longrightarrow> LENGTH('a) = 8 * n \<Longrightarrow> to_le n (from_le (take n bs) :: 'a::len word) @ drop n bs = bs"
  using to_le_from_le [of n "take n bs", where 'a = 'a] by simp

lemma split_first_Ok [res_simps]: "split_first input = Ok (b, rest) \<longleftrightarrow> input = b # rest"
  by (auto simp: split_first_def split: list.splits)

lemma unpack_pubkey_Ok [res_simps]: "unpack_pubkey input = Ok (k, rest) \<longleftrightarrow> input = to_le 32 k @ rest"
proof
  assume h: "unpack_pubkey input = Ok (k, rest)"
  then have "k = from_le (take 32 input)" "rest = drop 32 input" "32 \<le> length input"
    by (auto simp: unpack_pubkey_def split: if_splits)
  then show "input = to_le 32 k @ rest" using to_le_take [of 32 input, where 'a = 256] by simp
qed simp

lemma unpack_u64_Ok [res_simps]: "unpack_u64 input = Ok (n, rest) \<longleftrightarrow> input = to_le 8 n @ rest"
proof
  assume h: "unpack_u64 input = Ok (n, rest)"
  then have "n = from_le (take 8 input)" "rest = drop 8 input" "8 \<le> length input"
    by (auto simp: unpack_u64_def split: if_splits)
  then show "input = to_le 8 n @ rest" using to_le_take [of 8 input, where 'a = 64] by simp
qed simp

lemma unpack_u16_Ok [res_simps]: "unpack_u16 input = Ok (n, rest) \<longleftrightarrow> input = to_le 2 n @ rest"
proof
  assume h: "unpack_u16 input = Ok (n, rest)"
  then have "n = from_le (take 2 input)" "rest = drop 2 input" "2 \<le> length input"
    by (auto simp: unpack_u16_def split: if_splits)
  then show "input = to_le 2 n @ rest" using to_le_take [of 2 input, where 'a = 16] by simp
qed simp

lemma unpack_pubkey_option_Ok [res_simps]:
  "unpack_pubkey_option input = Ok (k, rest) \<longleftrightarrow> input = pack_pubkey_option k @ rest"
  by (auto simp: unpack_pubkey_option_def pack_pubkey_option_def res_simps split: list.splits if_splits option.splits)

lemma unpack_extension_types_Ok [res_simps]:
  "unpack_extension_types input = Ok ts \<longleftrightarrow> input = concat (map extension_type_bytes ts)"
proof
  have b: "extension_type_from_bytes bs = Ok t \<Longrightarrow> bs = extension_type_bytes t" for bs t
    using to_le_from_le [of 2 bs, where 'a = 16]
    by (auto simp: extension_type_from_bytes_def extension_type_bytes_def res_simps extension_type_try_from_Some
        split: if_splits)
  show "unpack_extension_types input = Ok ts \<Longrightarrow> input = concat (map extension_type_bytes ts)"
  proof (induction input arbitrary: ts rule: unpack_extension_types.induct)
    case (2 a)
    then show ?case by (simp add: extension_type_from_bytes_def)
  next
    case (3 a c rest)
    then obtain t ts' where t: "extension_type_from_bytes [a, c] = Ok t" "unpack_extension_types rest = Ok ts'" "ts = t # ts'"
      by (auto simp: res_simps)
    then have "rest = concat (map extension_type_bytes ts')" using "3.IH" by blast
    then show ?case using b [OF t(1), symmetric] t(3) by simp
  qed simp
qed simp

section \<open>Properties\<close>

text \<open>The text of \<open>UiAmountToAmount\<close> is a \<open>&str\<close>, hence valid UTF-8.\<close>

fun wf_instruction :: "TokenInstruction \<Rightarrow> bool" where
  "wf_instruction (UiAmountToAmount ui_amount) = valid_utf8 ui_amount"
| "wf_instruction _ = True"

lemma unpack_pack_token_instruction:
  "wf_instruction i \<Longrightarrow> unpack_token_instruction (pack_token_instruction i) = Ok i"
  by (cases i) (simp_all add: unpack_token_instruction_def unpack_field_defs)

lemma unpack_token_instruction_canonical:
  assumes "unpack_token_instruction input = Ok i"
  shows "wf_instruction i \<and> prefix (pack_token_instruction i) input"
  using assms unfolding unpack_token_instruction_def and_then_Ok split_first_Ok
  by (auto simp: unpack_field_defs res_simps authority_type_from_Ok split: if_splits)

text \<open>
  Every instruction is read back from the bytes it is packed into, so instructions of different
  kinds or with different arguments never share their bytes.
\<close>

theorem token_instruction_roundtrip:
  assumes "wf_instruction i"
  shows "unpack_token_instruction (pack_token_instruction i) = Ok i"
  using assms by (rule unpack_pack_token_instruction)

theorem token_instruction_roundtrip_witness:
  "unpack_token_instruction (pack_token_instruction (UiAmountToAmount [0x31, 0x2e, 0x35])) = Ok (UiAmountToAmount [0x31, 0x2e, 0x35])"
  by (rule token_instruction_roundtrip) (simp add: valid_utf8.simps utf8_len_def byte_at_def)

text \<open>
  Conversely the reader accepts only packed instructions, possibly followed by bytes it ignores: whatever
  it reads, the buffer starts with the packed form of the result, whose text is valid.
\<close>

theorem token_instruction_canonical:
  assumes "unpack_token_instruction input = Ok i"
  shows "wf_instruction i \<and> prefix (pack_token_instruction i) input"
  using assms by (rule unpack_token_instruction_canonical)

theorem token_instruction_canonical_witness:
  "prefix (pack_token_instruction (InitializeMultisig 3)) [2, 3, 9, 9]"
  using token_instruction_canonical [of "[2, 3, 9, 9]" "InitializeMultisig 3"]
  by (simp add: unpack_token_instruction_def unpack_m_def)

text \<open>
  The nested instructions of the transfer fee extension are read back from what they are packed
  into, and only from buffers that start with it.
\<close>

theorem transfer_fee_instruction_roundtrip:
  "unpack_transfer_fee_instruction input = Ok i \<longleftrightarrow>
     prefix (pack_transfer_fee_instruction i) input"
proof
  show "unpack_transfer_fee_instruction input = Ok i \<Longrightarrow> prefix (pack_transfer_fee_instruction i) input"
    unfolding unpack_transfer_fee_instruction_def and_then_Ok split_first_Ok
    by (auto simp: unpack_field_defs res_simps split: if_splits)
  have "unpack_transfer_fee_instruction (pack_transfer_fee_instruction i @ rest) = Ok i" for rest
    by (cases i) (simp_all add: unpack_transfer_fee_instruction_def unpack_field_defs)
  then show "prefix (pack_transfer_fee_instruction i) input \<Longrightarrow> unpack_transfer_fee_instruction input = Ok i"
    by (auto elim: prefixE)
qed

end
