(* ===== verification/Packed_State.thy ===== *)
theory Packed_State
  imports State_With_Extensions
begin

text \<open>
  The base states as ordinary structs (src/interface/src/state.rs): \<open>Mint\<close>, \<open>Account\<close> and
  \<open>Multisig\<close> with their \<open>Pack\<close> implementations, and the views of account data that hold such a
  struct (\<open>StateWithExtensions\<close>, \<open>StateWithExtensionsMut\<close>, \<open>StateWithExtensionsOwned\<close> of
  src/interface/src/extension/mod.rs).  They read the same bytes as the \<open>Pod\<close> structs; the contract
  \<open>packed\<close> says how the two readings are related, and what follows for whole account data.
  \<open>array_ref!\<close> and \<open>array_mut_ref!\<close> panic on a short slice.
\<close>

section \<open>Optional values\<close>

definition pack_coption_key :: "pubkey option \<Rightarrow> bytes \<Rightarrow> bytes" where
  "pack_coption_key src dst =
     (case src of Some key \<Rightarrow> [1, 0, 0, 0] @ to_le 32 key | None \<Rightarrow> [0, 0, 0, 0] @ drop 4 dst)"

definition unpack_coption_key :: "bytes \<Rightarrow> pubkey option result" where
  "unpack_coption_key src =
     (let tag = take 4 src; body = drop 4 src
      in if tag = [0, 0, 0, 0] then Ok None
         else if tag = [1, 0, 0, 0] then Ok (Some (from_le body))
         else Err InvalidAccountData)"

definition pack_coption_u64 :: "u64 option \<Rightarrow> bytes \<Rightarrow> bytes" where
  "pack_coption_u64 src dst =
     (case src of Some amount \<Rightarrow> [1, 0, 0, 0] @ to_le 8 amount | None \<Rightarrow> [0, 0, 0, 0] @ drop 4 dst)"

definition unpack_coption_u64 :: "bytes \<Rightarrow> u64 option result" where
  "unpack_coption_u64 src =
     (let tag = take 4 src; body = drop 4 src
      in if tag = [0, 0, 0, 0] then Ok None
         else if tag = [1, 0, 0, 0] then Ok (Some (from_le body))
         else Err InvalidAccountData)"

definition unpack_bool :: "u8 \<Rightarrow> bool result" where
  "unpack_bool b = (if b = 0 then Ok False else if b = 1 then Ok True else Err InvalidAccountData)"

section \<open>The structs\<close>

record Mint =
  s_mint_authority :: "pubkey option"
  s_supply :: u64
  s_decimals :: u8
  s_is_initialized :: bool
  s_freeze_authority :: "pubkey option"

record Account =
  sa_mint :: pubkey
  sa_owner :: pubkey
  sa_amount :: u64
  sa_delegate :: "pubkey option"
  sa_state :: AccountState
  sa_is_native :: "u64 option"
  sa_delegated_amount :: u64
  sa_close_authority :: "pubkey option"

record Multisig =
  sm_m :: u8
  sm_n :: u8
  sm_is_initialized :: bool
  sm_signers :: "pubkey list"

definition sa_initialized :: "Account \<Rightarrow> bool" where
  "sa_initialized a = (sa_state a \<noteq> AccountState.Uninitialized)"

definition sa_frozen :: "Account \<Rightarrow> bool" where
  "sa_frozen a = (sa_state a = Frozen)"

definition sa_native :: "Account \<Rightarrow> bool" where
  "sa_native a = (sa_is_native a \<noteq> None)"

definition sa_owned_by_system_program_or_incinerator :: "sdk_ids \<Rightarrow> Account \<Rightarrow> bool" where
  "sa_owned_by_system_program_or_incinerator ids a =
     (sa_owner a = system_program_id ids \<or> sa_owner a = incinerator_id ids)"

section \<open>Packing and unpacking\<close>

definition mint_unpack_from_slice :: "bytes \<Rightarrow> Mint result" where
  "mint_unpack_from_slice src =
     (if length src < 82 then Err Panicked
      else and_then (unpack_coption_key (subslice 0 36 src)) (\<lambda>mint_authority.
           and_then (unpack_bool (src ! 45)) (\<lambda>initialized.
           and_then (unpack_coption_key (subslice 46 36 src)) (\<lambda>freeze_authority.
           Ok \<lparr>s_mint_authority = mint_authority, s_supply = from_le (subslice 36 8 src),
               s_decimals = src ! 44, s_is_initialized = initialized,
               s_freeze_authority = freeze_authority\<rparr>))))"

definition mint_pack_into_slice :: "Mint \<Rightarrow> bytes \<Rightarrow> bytes result" where
  "mint_pack_into_slice s dst =
     (if length dst < 82 then Err Panicked
      else Ok (pack_coption_key (s_mint_authority s) (subslice 0 36 dst) @ to_le 8 (s_supply s)
             @ [s_decimals s, if s_is_initialized s then 1 else 0]
             @ pack_coption_key (s_freeze_authority s) (subslice 46 36 dst) @ drop 82 dst))"

definition account_unpack_from_slice :: "bytes \<Rightarrow> Account result" where
  "account_unpack_from_slice src =
     (if length src < 165 then Err Panicked
      else and_then (unpack_coption_key (subslice 72 36 src)) (\<lambda>delegate.
           and_then (ok_or (account_state_try_from (src ! 108)) InvalidAccountData) (\<lambda>state.
           and_then (unpack_coption_u64 (subslice 109 12 src)) (\<lambda>is_native.
           and_then (unpack_coption_key (subslice 129 36 src)) (\<lambda>close_authority.
           Ok \<lparr>sa_mint = from_le (subslice 0 32 src), sa_owner = from_le (subslice 32 32 src),
               sa_amount = from_le (subslice 64 8 src), sa_delegate = delegate, sa_state = state,
               sa_is_native = is_native, sa_delegated_amount = from_le (subslice 121 8 src),
               sa_close_authority = close_authority\<rparr>)))))"

definition account_pack_into_slice :: "Account \<Rightarrow> bytes \<Rightarrow> bytes result" where
  "account_pack_into_slice s dst =
     (if length dst < 165 then Err Panicked
      else Ok (to_le 32 (sa_mint s) @ to_le 32 (sa_owner s) @ to_le 8 (sa_amount s)
             @ pack_coption_key (sa_delegate s) (subslice 72 36 dst)
             @ [account_state_code (sa_state s)]
             @ pack_coption_u64 (sa_is_native s) (subslice 109 12 dst)
             @ to_le 8 (sa_delegated_amount s)
             @ pack_coption_key (sa_close_authority s) (subslice 129 36 dst) @ drop 165 dst))"

definition multisig_unpack_from_slice :: "bytes \<Rightarrow> Multisig result" where
  "multisig_unpack_from_slice src =
     (if length src < 355 then Err Panicked
      else and_then (unpack_bool (src ! 2)) (\<lambda>initialized.
           Ok \<lparr>sm_m = src ! 0, sm_n = src ! 1, sm_is_initialized = initialized,
               sm_signers = dec_keys MAX_SIGNERS (subslice 3 352 src)\<rparr>))"

definition multisig_pack_into_slice :: "Multisig \<Rightarrow> bytes \<Rightarrow> bytes result" where
  "multisig_pack_into_slice s dst =
     (if length dst < 355 then Err Panicked
      else Ok ([sm_m s, sm_n s, if sm_is_initialized s then 1 else 0]
             @ concat (map (to_le 32) (sm_signers s)) @ drop 355 dst))"

section \<open>Account data read as a struct\<close>

text \<open>
  What an implementation of \<open>BaseState + Pack\<close> gives.  \<open>pack_unpack\<close> and \<open>pack_unpack_unchecked\<close> are
  the provided methods \<open>unpack\<close> and \<open>unpack_unchecked\<close> of the trait.
\<close>

record 's Pack =
  pk_state :: BaseState
  pk_unpack_from_slice :: "bytes \<Rightarrow> 's result"
  pk_pack_into_slice :: "'s \<Rightarrow> bytes \<Rightarrow> bytes result"
  pk_is_initialized :: "'s \<Rightarrow> bool"

definition MintP :: "Mint Pack" where
  "MintP = \<lparr>pk_state = MintBase, pk_unpack_from_slice = mint_unpack_from_slice,
     pk_pack_into_slice = mint_pack_into_slice, pk_is_initialized = s_is_initialized\<rparr>"

definition AccountP :: "Account Pack" where
  "AccountP = \<lparr>pk_state = AccountBase, pk_unpack_from_slice = account_unpack_from_slice,
     pk_pack_into_slice = account_pack_into_slice, pk_is_initialized = sa_initialized\<rparr>"

definition pack_unpack_unchecked :: "'s Pack \<Rightarrow> bytes \<Rightarrow> 's result" where
  "pack_unpack_unchecked P input =
     (if length input \<noteq> SIZE_OF (pk_state P) then Err InvalidAccountData else pk_unpack_from_slice P input)"

definition pack_unpack :: "'s Pack \<Rightarrow> bytes \<Rightarrow> 's result" where
  "pack_unpack P input =
     and_then (pack_unpack_unchecked P input) (\<lambda>s.
       if pk_is_initialized P s then Ok s else Err UninitializedAccount)"

definition state_unpack :: "'s Pack \<Rightarrow> bytes \<Rightarrow> 's PodStateWithExtensions result" where
  "state_unpack P input =
     and_then (check_min_len_and_not_multisig input (SIZE_OF (pk_state P))) (\<lambda>_.
     and_then (pack_unpack P (take (SIZE_OF (pk_state P)) input)) (\<lambda>b.
     and_then (unpack_tlv_data (pk_state P) (drop (SIZE_OF (pk_state P)) input)) (\<lambda>tlv.
     Ok \<lparr>base = b, tlv_data = tlv\<rparr>)))"

definition state_unpack_owned :: "'s Pack \<Rightarrow> bytes \<Rightarrow> 's PodStateWithExtensions result" where
  "state_unpack_owned P input =
     and_then (check_min_len_and_not_multisig input (SIZE_OF (pk_state P))) (\<lambda>_.
     let rest = drop (SIZE_OF (pk_state P)) input
     in and_then (pack_unpack P (take (SIZE_OF (pk_state P)) input)) (\<lambda>b.
        and_then (type_and_tlv_indices (pk_state P) rest) (\<lambda>indices. case indices of
          Some (account_type_index, tlv_start_index) \<Rightarrow>
            and_then (ok_or (account_type_try_from (rest ! account_type_index)) InvalidAccountData)
              (\<lambda>account_type.
            and_then (check_account_type (pk_state P) account_type) (\<lambda>_.
            Ok \<lparr>base = b, tlv_data = drop tlv_start_index rest\<rparr>))
        | None \<Rightarrow> Ok \<lparr>base = b, tlv_data = []\<rparr>)))"

record 's StateWithExtensionsMut = "'s PodStateWithExtensionsMut" +
  base_data :: bytes

definition state_unpack_mut :: "'s Pack \<Rightarrow> bytes \<Rightarrow> 's StateWithExtensionsMut result" where
  "state_unpack_mut P input =
     and_then (check_min_len_and_not_multisig input (SIZE_OF (pk_state P))) (\<lambda>_.
     let bd = take (SIZE_OF (pk_state P)) input
     in and_then (pack_unpack P bd) (\<lambda>b.
        and_then (unpack_type_and_tlv_data_mut (pk_state P) (drop (SIZE_OF (pk_state P)) input)) (\<lambda>(ty, tlv).
        Ok \<lparr>base = b, tlv_data = tlv, account_type = ty, base_data = bd\<rparr>)))"

definition state_unpack_uninitialized :: "'s Pack \<Rightarrow> bytes \<Rightarrow> 's StateWithExtensionsMut result" where
  "state_unpack_uninitialized P input =
     and_then (check_min_len_and_not_multisig input (SIZE_OF (pk_state P))) (\<lambda>_.
     let bd = take (SIZE_OF (pk_state P)) input
     in and_then (pack_unpack_unchecked P bd) (\<lambda>b.
        if pk_is_initialized P b then TErr AlreadyInUse
        else and_then (unpack_uninitialized_type_and_tlv_data_mut (pk_state P)
               (drop (SIZE_OF (pk_state P)) input)) (\<lambda>(ty, tlv).
             and_then (check_account_type_matches_extension_type (pk_state P) tlv) (\<lambda>_.
             Ok \<lparr>base = b, tlv_data = tlv, account_type = ty, base_data = bd\<rparr>))))"

definition pack_base :: "'s Pack \<Rightarrow> 's StateWithExtensionsMut \<Rightarrow> 's StateWithExtensionsMut result" where
  "pack_base P st = and_then (pk_pack_into_slice P (base st) (base_data st)) (\<lambda>bd. Ok (st\<lparr>base_data := bd\<rparr>))"

text \<open>The account data the slices of a mutable view point into.\<close>

definition state_data :: "'s Pack \<Rightarrow> 's StateWithExtensionsMut \<Rightarrow> bytes" where
  "state_data P st = base_data st @ tail_bytes (pk_state P) (account_type st) (tlv_data st)"

section \<open>The two readings of a base state\<close>

text \<open>
  A \<open>Pod\<close> struct is canonical when its option tags are 0 or 1 and its flags are valid; \<open>_view\<close> is
  the struct it stands for, \<open>_merge s p\<close> the \<open>Pod\<close> struct whose bytes result from packing \<open>s\<close> over \<open>p\<close>
  (the value of an absent option keeps its old bytes).
\<close>

definition coption_canonical :: "'a PodCOption \<Rightarrow> bool" where
  "coption_canonical c \<longleftrightarrow> co_option c = 0 \<or> co_option c = 1"

definition coption_merge :: "'a option \<Rightarrow> 'a PodCOption \<Rightarrow> 'a PodCOption" where
  "coption_merge v c = (case v of Some x \<Rightarrow> coption_some x | None \<Rightarrow> c\<lparr>co_option := 0\<rparr>)"

definition mint_canonical :: "PodMint \<Rightarrow> bool" where
  "mint_canonical p \<longleftrightarrow> coption_canonical (m_mint_authority p) \<and>
     (m_is_initialized p = 0 \<or> m_is_initialized p = 1) \<and> coption_canonical (m_freeze_authority p)"

definition mint_view :: "PodMint \<Rightarrow> Mint" where
  "mint_view p = \<lparr>s_mint_authority = coption (m_mint_authority p), s_supply = m_supply p,
     s_decimals = m_decimals p, s_is_initialized = mint_is_initialized p,
     s_freeze_authority = coption (m_freeze_authority p)\<rparr>"

definition mint_merge :: "Mint \<Rightarrow> PodMint \<Rightarrow> PodMint" where
  "mint_merge s p = \<lparr>m_mint_authority = coption_merge (s_mint_authority s) (m_mint_authority p),
     m_supply = s_supply s, m_decimals = s_decimals s,
     m_is_initialized = pod_bool_from (s_is_initialized s),
     m_freeze_authority = coption_merge (s_freeze_authority s) (m_freeze_authority p)\<rparr>"

definition account_canonical :: "PodAccount \<Rightarrow> bool" where
  "account_canonical p \<longleftrightarrow> coption_canonical (a_delegate p) \<and> account_state_try_from (a_state p) \<noteq> None \<and>
     coption_canonical (a_is_native p) \<and> coption_canonical (a_close_authority p)"

definition account_view :: "PodAccount \<Rightarrow> Account" where
  "account_view p = \<lparr>sa_mint = a_mint p, sa_owner = a_owner p, sa_amount = a_amount p,
     sa_delegate = coption (a_delegate p),
     sa_state = (case account_state_try_from (a_state p) of Some s \<Rightarrow> s | None \<Rightarrow> AccountState.Uninitialized),
     sa_is_native = coption (a_is_native p), sa_delegated_amount = a_delegated_amount p,
     sa_close_authority = coption (a_close_authority p)\<rparr>"

definition account_merge :: "Account \<Rightarrow> PodAccount \<Rightarrow> PodAccount" where
  "account_merge s p = \<lparr>a_mint = sa_mint s, a_owner = sa_owner s, a_amount = sa_amount s,
     a_delegate = coption_merge (sa_delegate s) (a_delegate p),
     a_state = account_state_code (sa_state s),
     a_is_native = coption_merge (sa_is_native s) (a_is_native p),
     a_delegated_amount = sa_delegated_amount s,
     a_close_authority = coption_merge (sa_close_authority s) (a_close_authority p)\<rparr>"

lemma coption_merge [simp]:
  "coption (coption_merge v c) = v" "coption_canonical (coption_merge v c)"
  "coption_canonical c \<Longrightarrow> coption_merge (coption c) c = c"
  by (auto simp: coption_merge_def coption_canonical_def coption_def coption_some_def split: option.splits)

lemma tag_bytes: "[0, 0, 0, 0] = to_le 4 (0 :: u32)" "[1, 0, 0, 0] = to_le 4 (1 :: u32)"
  by code_simp+

lemma tag_eq: "length src = 4 \<Longrightarrow> src = to_le 4 (w :: u32) \<longleftrightarrow> from_le src = w"
  using u32_pod.enc_dec [of src] by auto

lemma unpack_coption_key_eq:
  assumes "length src = 36"
  shows "unpack_coption_key src =
    (let c = dec_coption 32 src in if coption_canonical c then Ok (coption c) else Err InvalidAccountData)"
  using assms
  by (simp add: unpack_coption_key_def dec_coption_def coption_canonical_def coption_def Let_def tag_bytes tag_eq
      subslice_def)

lemma unpack_coption_u64_eq:
  assumes "length src = 12"
  shows "unpack_coption_u64 src =
    (let c = dec_coption 8 src in if coption_canonical c then Ok (coption c) else Err InvalidAccountData)"
  using assms
  by (simp add: unpack_coption_u64_def dec_coption_def coption_canonical_def coption_def Let_def tag_bytes tag_eq
      subslice_def)

lemma pack_coption_key_eq:
  "length dst = 36 \<Longrightarrow> pack_coption_key v dst = enc_coption 32 (coption_merge v (dec_coption 32 dst))"
  by (simp add: pack_coption_key_def enc_coption_def coption_merge_def dec_coption_def coption_some_def
      tag_bytes subslice_def split: option.split)

lemma pack_coption_u64_eq:
  "length dst = 12 \<Longrightarrow> pack_coption_u64 v dst = enc_coption 8 (coption_merge v (dec_coption 8 dst))"
  by (simp add: pack_coption_u64_def enc_coption_def coption_merge_def dec_coption_def coption_some_def
      tag_bytes subslice_def split: option.split)

lemmas coption_eqs = unpack_coption_key_eq unpack_coption_u64_eq pack_coption_key_eq pack_coption_u64_eq


section \<open>The contract of a packed struct\<close>

locale packed = base_pod B for B :: "'p Base" +
  fixes P :: "'s Pack"
    and canonical :: "'p \<Rightarrow> bool"
    and view :: "'p \<Rightarrow> 's"
    and merge :: "'s \<Rightarrow> 'p \<Rightarrow> 'p"
  assumes pack_state: "pk_state P = base_state B"
    and unpack_from_slice: "length bs = SIZE_OF (base_state B) \<Longrightarrow> pk_unpack_from_slice P bs =
      (if canonical (base_dec B bs) then Ok (view (base_dec B bs)) else Err InvalidAccountData)"
    and pack_into_slice: "length bs = SIZE_OF (base_state B) \<Longrightarrow>
      pk_pack_into_slice P s bs = Ok (base_enc B (merge s (base_dec B bs)))"
    and view_merge: "canonical (merge s p)" "view (merge s p) = s"
    and merge_view: "canonical p \<Longrightarrow> merge (view p) p = p"
    and is_initialized: "canonical p \<Longrightarrow> pk_is_initialized P (view p) = base_is_initialized B p"
begin

text \<open>Packing and unpacking are inverse to each other, whatever the destination held.\<close>

lemma unpack_pack:
  assumes "length dst = SIZE_OF (base_state B)" "pk_pack_into_slice P s dst = Ok dst'"
  shows "pk_unpack_from_slice P dst' = Ok s" "length dst' = length dst"
  using assms by (auto simp: pack_into_slice unpack_from_slice length_enc dec_enc view_merge)

lemma pack_unpack_id:
  assumes "length src = SIZE_OF (base_state B)" "pk_unpack_from_slice P src = Ok s"
  shows "pk_pack_into_slice P s src = Ok src"
  using assms by (auto simp: pack_into_slice unpack_from_slice merge_view enc_dec split: if_splits)

lemma pack_unpack_Ok:
  "length bs = SIZE_OF (base_state B) \<Longrightarrow> pack_unpack P bs = Ok s \<longleftrightarrow>
     canonical (base_dec B bs) \<and> base_is_initialized B (base_dec B bs) \<and> s = view (base_dec B bs)"
  by (auto simp: pack_unpack_def pack_unpack_unchecked_def pack_state unpack_from_slice res_simps is_initialized
      split: if_splits)

text \<open>The struct view of account data is the \<open>Pod\<close> view of it, where that is canonical.\<close>

lemma state_unpack_mut_Ok:
  "state_unpack_mut P input = Ok st \<longleftrightarrow>
     (\<exists>p. unpack_mut B input = Ok p \<and> canonical (base p) \<and>
        st = \<lparr>base = view (base p), tlv_data = tlv_data p, account_type = account_type p,
              base_data = base_enc B (base p)\<rparr>)" (is "?L \<longleftrightarrow> ?R")
proof -
  let ?n = "SIZE_OF (base_state B)"
  show ?thesis
  proof (cases "check_min_len_and_not_multisig input ?n = Ok ()")
    case True
    then have l: "length (take ?n input) = ?n"
      by (auto simp: check_min_len_and_not_multisig_def split: if_splits)
    then have e: "base_enc B (base_dec B (take ?n input)) = take ?n input" by (rule enc_dec)
    show ?thesis
      using True l e
      by (auto simp: state_unpack_mut_def unpack_mut_def Let_def pack_state pack_unpack_Ok base_from_bytes_def
          res_simps)
  next
    case False
    then show ?thesis by (auto simp: state_unpack_mut_def unpack_mut_def pack_state res_simps)
  qed
qed

lemma state_unpack_eq:
  "state_unpack P input =
     and_then (state_unpack_mut P input) (\<lambda>st. Ok \<lparr>base = base st, tlv_data = tlv_data st\<rparr>)"
  by (auto simp: state_unpack_def state_unpack_mut_def unpack_tlv_data_eq and_then_def Let_def
      split: sum.splits prod.splits)

lemma state_unpack_Ok:
  "state_unpack P input = Ok st \<longleftrightarrow>
     (\<exists>p. unpack B input = Ok p \<and> canonical (base p) \<and> st = \<lparr>base = view (base p), tlv_data = tlv_data p\<rparr>)"
  by (auto simp: state_unpack_eq unpack_eq res_simps state_unpack_mut_Ok)

lemma state_unpack_owned_eq: "state_unpack_owned P input = state_unpack P input"
  by (auto simp: state_unpack_owned_def state_unpack_def unpack_tlv_data_def and_then_def Let_def
      split: sum.splits option.splits)

text \<open>Writing a changed base back leaves account data that unpacks to it, with the same extensions.\<close>

lemma state_unpack_pack_base:
  assumes "state_unpack_mut P input = Ok st" "pk_is_initialized P s" "pack_base P (st\<lparr>base := s\<rparr>) = Ok st'"
  shows "state_unpack P (state_data P st') = Ok \<lparr>base = s, tlv_data = tlv_data st\<rparr>"
    and "length (state_data P st') = length input"
proof -
  obtain p where p: "unpack_mut B input = Ok p" "canonical (base p)"
    and st: "st = \<lparr>base = view (base p), tlv_data = tlv_data p, account_type = account_type p,
              base_data = base_enc B (base p)\<rparr>"
    using assms(1) unfolding state_unpack_mut_Ok by blast
  let ?q = "p\<lparr>base := merge s (base p)\<rparr>"
  have d: "state_data P st' = State_With_Extensions.pack_state B ?q"
    using assms(3) st
    by (auto simp: pack_base_def pack_into_slice length_enc dec_enc state_data_def pack_state pack_state_eq)
  have i: "base_is_initialized B (base ?q)"
    using assms(2) view_merge is_initialized [of "merge s (base p)"] by simp
  have q: "unpack_mut B (State_With_Extensions.pack_state B ?q) = Ok ?q"
    and l: "length (State_With_Extensions.pack_state B ?q) = length input"
    using unpack_pack_state [OF p(1) i] by simp_all
  show "length (state_data P st') = length input" by (simp add: d l)
  show "state_unpack P (state_data P st') = Ok \<lparr>base = s, tlv_data = tlv_data st\<rparr>"
    unfolding d state_unpack_Ok unpack_eq by (auto simp: q view_merge st)
qed

end


lemma unpack_bool_eq:
  "unpack_bool b = (if b = 0 \<or> b = 1 then Ok (pod_bool b) else Err InvalidAccountData)"
  by (simp add: unpack_bool_def pod_bool_def)

interpretation packed_mint: packed PodMintB MintP mint_canonical mint_view mint_merge
proof unfold_locales
  show "pk_state MintP = base_state PodMintB" by (simp add: MintP_def)
  show "pk_unpack_from_slice MintP bs = (if mint_canonical (base_dec PodMintB bs)
      then Ok (mint_view (base_dec PodMintB bs)) else Err InvalidAccountData)"
    if "length bs = SIZE_OF (base_state PodMintB)" for bs
    using that
    by (simp add: MintP_def PodMintB_def MINT_LEN_def mint_unpack_from_slice_def dec_mint_def mint_canonical_def
        mint_view_def mint_is_initialized_def coption_eqs unpack_bool_eq Let_def)
  show "pk_pack_into_slice MintP s bs = Ok (base_enc PodMintB (mint_merge s (base_dec PodMintB bs)))"
    if "length bs = SIZE_OF (base_state PodMintB)" for s bs
    using that
    by (simp add: MintP_def PodMintB_def MINT_LEN_def mint_pack_into_slice_def dec_mint_def enc_mint_def
        mint_merge_def coption_eqs pod_bool_from_def)
  show "mint_canonical (mint_merge s p)" for s p
    by (simp add: mint_canonical_def mint_merge_def pod_bool_from_def)
  show "mint_view (mint_merge s p) = s" for s p
    by (simp add: mint_view_def mint_merge_def mint_is_initialized_def)
  show "mint_merge (mint_view p) p = p" if "mint_canonical p" for p
    using that by (auto simp: mint_canonical_def mint_view_def mint_merge_def mint_is_initialized_def
        pod_bool_from_def pod_bool_def)
  show "pk_is_initialized MintP (mint_view p) = base_is_initialized PodMintB p" for p
    by (simp add: MintP_def mint_view_def)
qed

interpretation packed_account: packed PodAccountB AccountP account_canonical account_view account_merge
proof unfold_locales
  show "pk_state AccountP = base_state PodAccountB" by (simp add: AccountP_def)
  show "pk_unpack_from_slice AccountP bs = (if account_canonical (base_dec PodAccountB bs)
      then Ok (account_view (base_dec PodAccountB bs)) else Err InvalidAccountData)"
    if "length bs = SIZE_OF (base_state PodAccountB)" for bs
    using that
    by (cases "account_state_try_from (bs ! 108)")
      (simp_all add: AccountP_def PodAccountB_def ACCOUNT_LEN_def account_unpack_from_slice_def dec_account_def
        account_canonical_def account_view_def coption_eqs Let_def)
  show "pk_pack_into_slice AccountP s bs = Ok (base_enc PodAccountB (account_merge s (base_dec PodAccountB bs)))"
    if "length bs = SIZE_OF (base_state PodAccountB)" for s bs
    using that
    by (simp add: AccountP_def PodAccountB_def ACCOUNT_LEN_def account_pack_into_slice_def dec_account_def
        enc_account_def account_merge_def coption_eqs)
  show "account_canonical (account_merge s p)" for s p
    by (simp add: account_canonical_def account_merge_def)
  show "account_view (account_merge s p) = s" for s p
    by (simp add: account_view_def account_merge_def)
  show "account_merge (account_view p) p = p" if "account_canonical p" for p
    using that by (auto simp: account_canonical_def account_view_def account_merge_def
        account_state_try_from_Some)
  show "pk_is_initialized AccountP (account_view p) = base_is_initialized PodAccountB p"
    if "account_canonical p" for p
    using that by (auto simp: AccountP_def account_view_def account_canonical_def sa_initialized_def
        account_is_initialized_def account_state_try_from_def split: if_splits)
qed

lemma multisig_unpack_pack:
  assumes "length (sm_signers s) = MAX_SIGNERS" "multisig_pack_into_slice s dst = Ok dst'"
  shows "multisig_unpack_from_slice dst' = Ok s"
proof -
  have d: "dst' = [sm_m s, sm_n s, if sm_is_initialized s then 1 else 0]
      @ concat (map (to_le 32) (sm_signers s)) @ drop 355 dst" and l: "355 \<le> length dst"
    using assms(2) by (auto simp: multisig_pack_into_slice_def split: if_splits)
  have c: "length (concat (map (to_le 32) (sm_signers s))) = 352"
    using assms(1) by (simp add: MAX_SIGNERS_def)
  have k: "subslice 3 352 dst' = concat (map (to_le 32) (sm_signers s))"
    using c by (simp add: d subslice_simps)
  have "dec_keys MAX_SIGNERS (concat (map (to_le 32) (sm_signers s))) = sm_signers s"
    using dec_keys_concat [of "sm_signers s"] assms(1) by simp
  moreover have "355 \<le> length dst'" using c by (simp add: d)
  moreover have "dst' ! 0 = sm_m s" "dst' ! 1 = sm_n s" "dst' ! 2 = (if sm_is_initialized s then 1 else 0)"
    by (simp_all add: d)
  ultimately show ?thesis using k
    by (simp add: multisig_unpack_from_slice_def unpack_bool_def)
qed


section \<open>Properties\<close>

lemma views_agree:
  shows "state_unpack MintP input = Ok m \<longleftrightarrow>
      (\<exists>p. unpack PodMintB input = Ok p \<and> mint_canonical (base p) \<and>
        m = \<lparr>base = mint_view (base p), tlv_data = tlv_data p\<rparr>)"
    and "state_unpack AccountP input = Ok a \<longleftrightarrow>
      (\<exists>p. unpack PodAccountB input = Ok p \<and> account_canonical (base p) \<and>
        a = \<lparr>base = account_view (base p), tlv_data = tlv_data p\<rparr>)"
    and "state_unpack_owned MintP input = state_unpack MintP input"
    and "state_unpack_owned AccountP input = state_unpack AccountP input"
  by (rule packed_mint.state_unpack_Ok packed_account.state_unpack_Ok
      packed_mint.state_unpack_owned_eq packed_account.state_unpack_owned_eq)+

text \<open>
  Reading account data as a \<open>Mint\<close> or \<open>Account\<close> struct succeeds exactly when the \<open>Pod\<close>
  reading succeeds and the bytes are canonical (option tags and flags are 0 or 1, the state is one of
  the three), and then gives the same values and the same extension buffer; the owned view gives the
  same as the borrowed one.
\<close>

theorem struct_and_pod_views_agree:
  "(state_unpack MintP input = Ok m \<longleftrightarrow>
      (\<exists>p. unpack PodMintB input = Ok p \<and> mint_canonical (base p) \<and>
        m = \<lparr>base = mint_view (base p), tlv_data = tlv_data p\<rparr>)) \<and>
    (state_unpack AccountP input = Ok a \<longleftrightarrow>
      (\<exists>p. unpack PodAccountB input = Ok p \<and> account_canonical (base p) \<and>
        a = \<lparr>base = account_view (base p), tlv_data = tlv_data p\<rparr>)) \<and>
    state_unpack_owned MintP input = state_unpack MintP input \<and>
    state_unpack_owned AccountP input = state_unpack AccountP input"
  by (intro conjI views_agree)

lemma base_state_roundtrips:
  assumes "length dm = MINT_LEN" "length da = ACCOUNT_LEN" "length ds = MULTISIG_LEN"
    and "length (sm_signers s) = MAX_SIGNERS"
  shows "and_then (mint_pack_into_slice m dm) mint_unpack_from_slice = Ok m"
    and "and_then (account_pack_into_slice a da) account_unpack_from_slice = Ok a"
    and "and_then (multisig_pack_into_slice s ds) multisig_unpack_from_slice = Ok s"
    and "mint_unpack_from_slice dm = Ok m' \<Longrightarrow> mint_pack_into_slice m' dm = Ok dm"
    and "account_unpack_from_slice da = Ok a' \<Longrightarrow> account_pack_into_slice a' da = Ok da"
proof -
  have ops: "pk_unpack_from_slice MintP = mint_unpack_from_slice"
    "pk_pack_into_slice MintP = mint_pack_into_slice"
    "pk_unpack_from_slice AccountP = account_unpack_from_slice"
    "pk_pack_into_slice AccountP = account_pack_into_slice"
    by (simp_all add: MintP_def AccountP_def)
  have "\<exists>dm'. mint_pack_into_slice m dm = Ok dm'" "\<exists>da'. account_pack_into_slice a da = Ok da'"
    "\<exists>ds'. multisig_pack_into_slice s ds = Ok ds'"
    using assms by (simp_all add: mint_pack_into_slice_def account_pack_into_slice_def
        multisig_pack_into_slice_def base_lens)
  then show "and_then (mint_pack_into_slice m dm) mint_unpack_from_slice = Ok m"
    "and_then (account_pack_into_slice a da) account_unpack_from_slice = Ok a"
    "and_then (multisig_pack_into_slice s ds) multisig_unpack_from_slice = Ok s"
    using packed_mint.unpack_pack [of dm m] packed_account.unpack_pack [of da a]
      multisig_unpack_pack [OF assms(4)] assms by (auto simp: ops)
  show "mint_unpack_from_slice dm = Ok m' \<Longrightarrow> mint_pack_into_slice m' dm = Ok dm"
    "account_unpack_from_slice da = Ok a' \<Longrightarrow> account_pack_into_slice a' da = Ok da"
    using packed_mint.pack_unpack_id [of dm m'] packed_account.pack_unpack_id [of da a'] assms
    by (simp_all add: ops)
qed

text \<open>
  Packing a base state over any buffer of its length and unpacking gives the state back,
  for mints, accounts and multisignature accounts; and packing an unpacked state over the bytes it
  was read from leaves them as they were.
\<close>

theorem base_state_roundtrip:
  assumes "length dm = MINT_LEN" "length da = ACCOUNT_LEN" "length ds = MULTISIG_LEN"
    and "length (sm_signers s) = MAX_SIGNERS"
  shows "and_then (mint_pack_into_slice m dm) mint_unpack_from_slice = Ok m \<and>
    and_then (account_pack_into_slice a da) account_unpack_from_slice = Ok a \<and>
    and_then (multisig_pack_into_slice s ds) multisig_unpack_from_slice = Ok s \<and>
    (mint_unpack_from_slice dm = Ok m' \<longrightarrow> mint_pack_into_slice m' dm = Ok dm) \<and>
    (account_unpack_from_slice da = Ok a' \<longrightarrow> account_pack_into_slice a' da = Ok da)"
  by (intro conjI impI base_state_roundtrips [OF assms])

definition sample_account :: Account where
  "sample_account = \<lparr>sa_mint = 1, sa_owner = 2, sa_amount = 3, sa_delegate = None, sa_state = Frozen,
     sa_is_native = Some 4, sa_delegated_amount = 5, sa_close_authority = Some 6\<rparr>"

theorem base_state_roundtrip_witness:
  "and_then (account_pack_into_slice sample_account (replicate 165 7)) account_unpack_from_slice = Ok sample_account"
  by (rule base_state_roundtrip [THEN conjunct2, THEN conjunct1, of "replicate 82 0" _ "replicate 355 0" "\<lparr>sm_m = 1, sm_n = 2,
        sm_is_initialized = True, sm_signers = replicate 11 8\<rparr>"])
    (simp_all add: base_lens MAX_SIGNERS_def)

end
