(* ===== verification/Tlv_Entries.thy ===== *)
theory Tlv_Entries
  imports Tlv_Laws "HOL-Library.AList"
begin

text \<open>
  The abstract content of an extension buffer: an association list of extension types and values,
  followed by free space that is zero.  The operations of Tlv.thy on the bytes of such a buffer are
  lookups and updates of the list: reading is \<open>map_of\<close>, allocating appends, writing and resizing
  (\<open>realloc\<close>, with its moves inside the buffer) are updates of one entry.
\<close>

section \<open>Buffers of entries\<close>

definition entry_bytes :: "ExtensionType \<times> bytes \<Rightarrow> bytes" where
  "entry_bytes e = extension_type_bytes (fst e) @ to_le 2 (word_of_nat (length (snd e)) :: u16) @ snd e"

definition entries_bytes :: "(ExtensionType \<times> bytes) list \<Rightarrow> bytes" where
  "entries_bytes es = concat (map entry_bytes es)"

definition buffer :: "(ExtensionType \<times> bytes) list \<Rightarrow> nat \<Rightarrow> bytes" where
  "buffer es n = entries_bytes es @ replicate n 0"

definition wf_entry :: "ExtensionType \<times> bytes \<Rightarrow> bool" where
  "wf_entry e \<longleftrightarrow> fst e \<noteq> ExtensionType.Uninitialized \<and> length (snd e) < 2 ^ 16"

definition wf_entries :: "(ExtensionType \<times> bytes) list \<Rightarrow> bool" where
  "wf_entries es \<longleftrightarrow> list_all wf_entry es \<and> distinct (map fst es)"

lemma length_entry_bytes [simp]: "length (entry_bytes e) = 4 + length (snd e)"
  by (simp add: entry_bytes_def extension_type_bytes_def)

lemma entries_bytes_simps [simp]:
  "entries_bytes [] = []" "entries_bytes (e # es) = entry_bytes e @ entries_bytes es"
  "entries_bytes (es @ fs) = entries_bytes es @ entries_bytes fs"
  by (simp_all add: entries_bytes_def)

lemma length_buffer [simp]: "length (buffer es n) = length (entries_bytes es) + n"
  by (simp add: buffer_def)

lemma wf_entries_simps [simp]:
  "wf_entries []"
  "wf_entries (e # es) \<longleftrightarrow> wf_entry e \<and> fst e \<notin> fst ` set es \<and> wf_entries es"
  "wf_entries (es @ fs) \<longleftrightarrow> wf_entries es \<and> wf_entries fs \<and> fst ` set es \<inter> fst ` set fs = {}"
  by (auto simp: wf_entries_def)

lemma u16_at_append: "u16_at (p @ q) (length p + i) = u16_at q i" "u16_at (p @ q) (length p) = u16_at q 0"
  by (simp_all add: u16_at_def subslice_append_right)

lemma u16_at_entry:
  "u16_at (entry_bytes e @ r) 0 = extension_type_code (fst e)"
  "length (snd e) < 2 ^ 16 \<Longrightarrow> unat (u16_at (entry_bytes e @ r) 2) = length (snd e)"
  by (simp_all add: u16_at_def entry_bytes_def extension_type_bytes_def subslice_simps unat_of_nat)

lemma subslice_entry: "subslice 0 2 (entry_bytes e @ r) = extension_type_bytes (fst e)"
  by (simp add: entry_bytes_def extension_type_bytes_def subslice_simps)

lemma subslice_append_0: "subslice (length p) k (p @ q) = subslice 0 k q"
  by (simp add: subslice_append_right)

lemma u16_at_replicate: "2 \<le> n \<Longrightarrow> u16_at (replicate n 0) 0 = 0"
  by (simp add: u16_at_def subslice_def from_le_def numeral_2_eq_2 min_def)

lemma entry_end_append:
  "length (snd e) < 2 ^ 16 \<Longrightarrow> entry_end (p @ entry_bytes e @ r) (length p) = length (p @ entry_bytes e)"
  by (simp add: entry_end_def u16_at_append u16_at_entry del: add_2_eq_Suc')

section \<open>The loops over a buffer of entries\<close>

lemma indices_at_entry:
  assumes "V \<noteq> ExtensionType.Uninitialized" "wf_entry e"
  shows "get_extension_indices_from V init (p @ entry_bytes e @ r) (length p) =
    (if fst e = V then Ok (get_tlv_indices (length p))
     else get_extension_indices_from V init ((p @ entry_bytes e) @ r) (length (p @ entry_bytes e)))"
proof -
  have "length (snd e) < 2 ^ 16" "fst e \<noteq> ExtensionType.Uninitialized"
    using assms(2) by (simp_all add: wf_entry_def)
  then show ?thesis
    by (subst get_extension_indices_step)
      (auto simp: entry_end_append u16_at_append u16_at_entry extension_type_code_0 extension_type_code_inj)
qed

lemma indices_found:
  assumes "V \<noteq> ExtensionType.Uninitialized" "list_all wf_entry pre" "V \<notin> fst ` set pre" "wf_entry (V, v)"
  shows "get_extension_indices_from V init (p @ entries_bytes pre @ entry_bytes (V, v) @ r) (length p) =
    Ok (get_tlv_indices (length p + length (entries_bytes pre)))"
  using assms(2,3)
proof (induction pre arbitrary: p)
  case Nil
  then show ?case using indices_at_entry [OF assms(1,4), of init p r] by simp
next
  case (Cons e pre)
  show ?case
    using indices_at_entry [OF assms(1), of e init p "entries_bytes pre @ entry_bytes (V, v) @ r"]
      Cons.IH [of "p @ entry_bytes e"] Cons.prems by (auto simp: add.assoc)
qed

lemma indices_free:
  assumes "V \<noteq> ExtensionType.Uninitialized" "list_all wf_entry es" "V \<notin> fst ` set es"
  shows "get_extension_indices_from V init (p @ entries_bytes es @ replicate n 0) (length p) =
    (if n < 4 then Err InvalidAccountData
     else if init then Ok (get_tlv_indices (length p + length (entries_bytes es)))
     else TErr ExtensionNotFound)"
  using assms(2,3)
proof (induction es arbitrary: p)
  case Nil
  then show ?case
    using assms(1) by (subst get_extension_indices_step)
      (auto simp: u16_at_append u16_at_replicate extension_type_code_0 dest: sym)
next
  case (Cons e es)
  show ?case
    using indices_at_entry [OF assms(1), of e init p "entries_bytes es @ replicate n 0"]
      Cons.IH [of "p @ entry_bytes e"] Cons.prems by (auto simp: add.assoc)
qed

lemma info_buffer_from:
  assumes "list_all wf_entry es"
  shows "get_tlv_data_info_from (p @ entries_bytes es @ replicate n 0) ts (length p) =
    Ok \<lparr>info_extension_types = ts @ map fst es, info_used_len = length p + length (entries_bytes es)\<rparr>"
  using assms
proof (induction es arbitrary: p ts)
  case Nil
  have "subslice (length p) 2 (p @ replicate n 0) = extension_type_bytes ExtensionType.Uninitialized"
    if "2 \<le> n"
    using that by (simp add: subslice_append_0 subslice_def extension_type_bytes_def to_le_def
        numeral_2_eq_2 min_def)
  then show ?case by (subst get_tlv_data_info_step) (simp del: add_2_eq_Suc')
next
  case (Cons e es)
  then have w: "length (snd e) < 2 ^ 16" "fst e \<noteq> ExtensionType.Uninitialized"
    by (simp_all add: wf_entry_def)
  have "get_tlv_data_info_from (p @ entry_bytes e @ entries_bytes es @ replicate n 0) ts (length p) =
    get_tlv_data_info_from ((p @ entry_bytes e) @ entries_bytes es @ replicate n 0) (ts @ [fst e])
      (length (p @ entry_bytes e))"
    using w by (subst get_tlv_data_info_step)
      (simp add: entry_end_append subslice_append_0 subslice_entry del: add_2_eq_Suc')
  then show ?case using Cons.IH [of "p @ entry_bytes e" "ts @ [fst e]"] Cons.prems by (simp add: add.assoc)
qed

lemma info_buffer:
  "wf_entries es \<Longrightarrow> get_tlv_data_info (buffer es n) =
     Ok \<lparr>info_extension_types = map fst es, info_used_len = length (entries_bytes es)\<rparr>"
  using info_buffer_from [of es "[]" n "[]"] by (simp add: get_tlv_data_info_def buffer_def wf_entries_def)

lemma split_entry:
  assumes "wf_entries es" "map_of es V = Some v"
  obtains pre post where "es = pre @ (V, v) # post" "V \<notin> fst ` set pre" "V \<notin> fst ` set post"
    "wf_entry (V, v)" "list_all wf_entry pre" "V \<noteq> ExtensionType.Uninitialized"
proof -
  obtain pre post where "es = pre @ (V, v) # post"
    using assms(2) by (meson map_of_SomeD split_list)
  then show ?thesis using that assms(1) by (auto simp: wf_entries_def wf_entry_def)
qed

lemma map_of_None_iff: "map_of es V = None \<longleftrightarrow> V \<notin> fst ` set es"
  by (rule map_of_eq_None_iff)

lemma indices_buffer_free:
  assumes "wf_entries es" "V \<noteq> ExtensionType.Uninitialized" "map_of es V = None"
  shows "get_extension_indices V init (buffer es n) =
    (if n < 4 then Err InvalidAccountData
     else if init then Ok (get_tlv_indices (length (entries_bytes es))) else TErr ExtensionNotFound)"
  using indices_free [of V es init "[]" n] assms
  by (simp add: get_extension_indices_def buffer_def map_of_None_iff wf_entries_def)

lemma indices_buffer_found:
  assumes "wf_entries (pre @ (V, v) # post)" "V \<noteq> ExtensionType.Uninitialized"
  shows "get_extension_indices V init (buffer (pre @ (V, v) # post) n) =
    Ok (get_tlv_indices (length (entries_bytes pre)))"
  using indices_found [of V pre v init "[]" "entries_bytes post @ replicate n 0"] assms
  by (auto simp: get_extension_indices_def buffer_def wf_entries_def)


section \<open>Reading, writing and allocating\<close>

lemma overwrite_middle: "length xs = length ys \<Longrightarrow> k = length p \<Longrightarrow> overwrite k ys (p @ xs @ q) = p @ ys @ q"
  by (simp add: overwrite_def)

lemma subslice_middle: "k = length p \<Longrightarrow> m = length xs \<Longrightarrow> subslice k m (p @ xs @ q) = xs"
  by (simp add: subslice_def)

definition header :: "ExtensionType \<Rightarrow> nat \<Rightarrow> bytes" where
  "header V len = extension_type_bytes V @ to_le 2 (word_of_nat len :: u16)"

lemma length_header [simp]: "length (header V len) = 4"
  by (simp add: header_def extension_type_bytes_def)

lemma buffer_split:
  "buffer (pre @ (V, v) # post) n =
     (entries_bytes pre @ header V (length v)) @ v @ (entries_bytes post @ replicate n 0)"
  by (simp add: buffer_def entry_bytes_def header_def)

lemma u16_at_header:
  "u16_at (p @ header V len @ q) (length p) = extension_type_code V"
  "len < 2 ^ 16 \<Longrightarrow> unat (u16_at (p @ header V len @ q) (length p + 2)) = len"
  by (simp_all add: u16_at_def header_def extension_type_bytes_def subslice_simps unat_of_nat)

lemma u16_at_buffer:
  assumes "length v < 2 ^ 16"
  shows "u16_at (buffer (pre @ (V, v) # post) n) (length (entries_bytes pre)) = extension_type_code V"
    and "unat (u16_at (buffer (pre @ (V, v) # post) n) (length (entries_bytes pre) + 2)) = length v"
  using u16_at_header [where p = "entries_bytes pre" and V = V and len = "length v"
      and q = "v @ entries_bytes post @ replicate n 0"] assms
  by (simp_all add: buffer_split)

lemma get_extension_bytes_buffer:
  assumes "wf_entries es" "get_account_type V = ACCOUNT_TYPE S"
  shows "get_extension_bytes S V (buffer es n) =
    (case map_of es V of Some v \<Rightarrow> Ok v
     | None \<Rightarrow> if n < 4 then Err InvalidAccountData else TErr ExtensionNotFound)"
proof -
  have V: "V \<noteq> ExtensionType.Uninitialized" using assms(2) by (cases S) auto
  show ?thesis
  proof (cases "map_of es V")
    case None
    then show ?thesis
      using indices_buffer_free [OF assms(1) V None] assms(2) by (simp add: get_extension_bytes_def)
  next
    case (Some v)
    then obtain pre post where es: "es = pre @ (V, v) # post" and w: "wf_entry (V, v)"
      using split_entry [OF assms(1) Some] by metis
    have l: "length v < 2 ^ 16" using w by (simp add: wf_entry_def)
    have "subslice (length (entries_bytes pre) + 4) (length v) (buffer es n) = v"
      unfolding es buffer_split by (rule subslice_middle) simp_all
    moreover have "length (entries_bytes pre) + 4 + length v \<le> length (buffer es n)"
      by (simp add: es)
    ultimately show ?thesis
      using indices_buffer_found [OF assms(1) [unfolded es] V, of False n] assms(2) Some
        u16_at_buffer(2) [OF l, of pre V post n]
      by (simp add: get_extension_bytes_def es Let_def del: add_2_eq_Suc')
  qed
qed

lemma get_extension_types_buffer: "wf_entries es \<Longrightarrow> get_extension_types (buffer es n) = Ok (map fst es)"
  by (simp add: get_extension_types_def info_buffer)

lemma get_first_extension_type_buffer:
  assumes "wf_entries es"
  shows "get_first_extension_type (buffer es n) = Ok (case es of [] \<Rightarrow> None | e # _ \<Rightarrow> Some (fst e))"
proof (cases es)
  case Nil
  have "subslice 0 2 (replicate n 0) = extension_type_bytes ExtensionType.Uninitialized" if "2 < n"
    using that by (simp add: subslice_def extension_type_bytes_def to_le_def numeral_2_eq_2 min_def)
  then show ?thesis using Nil by (auto simp: get_first_extension_type_def buffer_def Let_def)
next
  case (Cons e es')
  then have "fst e \<noteq> ExtensionType.Uninitialized" using assms by (simp add: wf_entry_def)
  moreover have "\<not> length (buffer es n) \<le> 2" using Cons by simp
  moreover from this have "buffer es n \<noteq> []" by (auto simp del: length_buffer)
  ultimately show ?thesis using subslice_entry [of e "entries_bytes es' @ replicate n 0"] Cons
    by (simp add: get_first_extension_type_def buffer_def Let_def)
qed

lemma update_found:
  "V \<notin> fst ` set pre \<Longrightarrow> AList.update V w (pre @ (V, v) # post) = pre @ (V, w) # post"
  by (induction pre) auto

lemma update_new: "V \<notin> fst ` set es \<Longrightarrow> AList.update V w es = es @ [(V, w)]"
  by (induction es) auto

lemma wf_entries_update:
  assumes "wf_entries es" "wf_entry (V, w)"
  shows "wf_entries (AList.update V w es)"
proof (cases "map_of es V")
  case None
  then show ?thesis using assms by (simp add: update_new map_of_None_iff)
next
  case (Some v)
  obtain pre post where es: "es = pre @ (V, v) # post" "V \<notin> fst ` set pre"
    using split_entry [OF assms(1) Some] by metis
  then show ?thesis using assms by (simp add: update_found)
qed

text \<open>Allocating: a new entry of zeros at the end, or the place of the entry that is there.\<close>

lemma alloc_new:
  assumes "wf_entries es" "get_account_type V = ACCOUNT_TYPE S" "map_of es V = None"
  shows "alloc S V len ow (buffer es n) =
    (if n < 4 + len then Err InvalidAccountData
     else if 2 ^ 16 \<le> len then Err AccountDataTooSmall
     else Ok (buffer (es @ [(V, replicate len 0)]) (n - 4 - len), length (entries_bytes es) + 4))"
proof -
  have V: "V \<noteq> ExtensionType.Uninitialized" using assms(2) by (cases S) auto
  let ?b = "buffer es n" and ?s = "length (entries_bytes es)"
  have slot: "extension_type_from_bytes (subslice ?s 2 ?b) = Ok ExtensionType.Uninitialized" if "4 \<le> n"
    using that extension_type_from_bytes_bytes [of ExtensionType.Uninitialized]
    by (simp add: buffer_def subslice_append_0 subslice_def extension_type_bytes_def to_le_def
        numeral_2_eq_2 min_def)
  have written: "overwrite (?s + 2) (to_le 2 (word_of_nat len :: u16)) (overwrite ?s (extension_type_bytes V) ?b)
      = buffer (es @ [(V, replicate len 0)]) (n - 4 - len)" if "4 + len \<le> n"
  proof -
    have "replicate n (0 :: u8) = replicate (2 + (2 + (len + (n - 4 - len)))) 0"
      using that by (intro arg_cong [where f = "\<lambda>k. replicate k 0"]) simp
    then have r: "replicate n 0 = replicate 2 0 @ replicate 2 0 @ replicate len 0 @ replicate (n - 4 - len) (0 :: u8)"
      by (simp only: replicate_add)
    have "overwrite ?s (extension_type_bytes V) ?b =
        (entries_bytes es @ extension_type_bytes V) @ replicate 2 0 @ replicate len 0 @ replicate (n - 4 - len) 0"
      unfolding buffer_def r by (subst overwrite_middle) (simp_all add: extension_type_bytes_def)
    moreover have "overwrite (?s + 2) (to_le 2 (word_of_nat len :: u16)) \<dots> =
        (entries_bytes es @ extension_type_bytes V) @ to_le 2 (word_of_nat len :: u16) @ replicate len 0
          @ replicate (n - 4 - len) 0"
      by (rule overwrite_middle) (simp_all add: extension_type_bytes_def)
    ultimately show ?thesis by (simp add: buffer_def entry_bytes_def)
  qed
  show ?thesis
    using indices_buffer_free [OF assms(1) V assms(3), of True n] assms(2) slot written V
    by (auto simp: alloc_def add_type_and_length_to_len_def length_try_from_def Let_def
        simp del: add_2_eq_Suc')
qed

lemma alloc_found:
  assumes "wf_entries (pre @ (V, v) # post)" "get_account_type V = ACCOUNT_TYPE S"
  shows "alloc S V len ow (buffer (pre @ (V, v) # post) n) =
    (if length (entry_bytes (V, v) @ entries_bytes post) + n < 4 + len then Err InvalidAccountData
     else if \<not> ow then TErr ExtensionAlreadyInitialized
     else if length v \<noteq> len then TErr InvalidLengthForAlloc
     else Ok (buffer (pre @ (V, v) # post) n, length (entries_bytes pre) + 4))"
proof -
  have V: "V \<noteq> ExtensionType.Uninitialized" using assms(2) by (cases S) auto
  let ?b = "buffer (pre @ (V, v) # post) n" and ?s = "length (entries_bytes pre)"
  have l: "length v < 2 ^ 16" using assms(1) by (simp add: wf_entry_def)
  have b: "?b = entries_bytes pre @ extension_type_bytes V @
      (to_le 2 (word_of_nat (length v) :: u16) @ v @ entries_bytes post @ replicate n 0)"
    by (simp add: buffer_def entry_bytes_def)
  have slot: "subslice ?s 2 ?b = extension_type_bytes V"
    unfolding b by (rule subslice_middle) (simp_all add: extension_type_bytes_def)
  have o1: "overwrite ?s (extension_type_bytes V) ?b = ?b"
    unfolding b by (rule overwrite_middle) simp_all
  have o2: "overwrite (?s + 2) (to_le 2 (word_of_nat (length v) :: u16)) ?b = ?b"
    unfolding b append_assoc [symmetric, of "entries_bytes pre"]
    by (rule overwrite_middle) (simp_all add: extension_type_bytes_def)
  show ?thesis
    using indices_buffer_found [OF assms(1) V, of True n] assms(2) slot o1 o2 V l
      u16_at_buffer(2) [OF l, of pre V post n]
    by (auto simp: alloc_def add_type_and_length_to_len_def length_try_from_def Let_def
        simp del: add_2_eq_Suc')
qed


section \<open>Resizing an entry\<close>

definition resize_value :: "nat \<Rightarrow> bytes \<Rightarrow> bytes" where
  "resize_value len v = take len v @ replicate (len - length v) 0"

lemma length_resize_value [simp]: "length (resize_value len v) = len"
  by (simp add: resize_value_def)

lemma overwrite_append:
  "k = length p \<Longrightarrow> length ys \<le> length q \<Longrightarrow> overwrite k ys (p @ q) = p @ ys @ drop (length ys) q"
  by (simp add: overwrite_def)

text \<open>The moves of \<open>realloc\<close>, on a header \<open>h\<close>, the value \<open>v\<close>, the entries \<open>r\<close> behind it and free space.\<close>

lemma move_shrink:
  assumes "len < length v"
  shows "overwrite (length h + len + length r) (replicate (length v - len) 0)
      (overwrite (length h + len) r (h @ v @ r @ replicate n 0)) =
    h @ take len v @ r @ replicate (n + length v - len) (0 :: u8)"
proof -
  have "h @ v @ r @ replicate n 0 = (h @ take len v) @ (drop len v @ r @ replicate n 0)" by simp
  then have "overwrite (length h + len) r (h @ v @ r @ replicate n 0) =
      (h @ take len v) @ r @ drop (length r) (drop len v @ r @ replicate n 0)"
    using assms by (simp only:) (subst overwrite_append; simp)
  also have "\<dots> = (h @ take len v @ r) @ drop (length r) (drop len v @ r @ replicate n 0)" by simp
  finally have "overwrite (length h + len + length r) (replicate (length v - len) 0)
      (overwrite (length h + len) r (h @ v @ r @ replicate n 0)) =
      (h @ take len v @ r) @ replicate (length v - len) 0
        @ drop (length v - len) (drop (length r) (drop len v @ r @ replicate n 0))"
    using assms by (simp only:) (subst overwrite_append; simp)
  also have "drop (length v - len) (drop (length r) (drop len v @ r @ replicate n 0)) = replicate n (0 :: u8)"
    using assms by simp
  also have "replicate (length v - len) 0 @ replicate n (0 :: u8) = replicate (n + length v - len) 0"
    using assms by (simp add: replicate_add [symmetric] add.commute)
  finally show ?thesis using assms by (simp add: replicate_add [symmetric])
qed

lemma move_grow:
  assumes "length v \<le> len" "len - length v \<le> n"
  shows "overwrite (length h + length v) (replicate (len - length v) 0)
      (overwrite (length h + len) r (h @ v @ r @ replicate n 0)) =
    h @ v @ replicate (len - length v) (0 :: u8) @ r @ replicate (n - (len - length v)) 0"
proof -
  define k q where "k = len - length v" and "q = r @ replicate n (0 :: u8)"
  have k: "len = length v + k" "k \<le> n" using assms by (simp_all add: k_def)
  have lt: "length (take k q) = k" using k by (simp add: q_def)
  have "h @ v @ q = (h @ v @ take k q) @ drop k q" by simp
  then have "overwrite (length h + len) r (h @ v @ q) = (h @ v @ take k q) @ r @ drop (length r) (drop k q)"
    using k lt by (simp only:) (subst overwrite_append; simp add: q_def)
  also have "drop (length r) (drop k q) = replicate (n - k) 0"
    by (simp add: q_def del: drop_append) (simp add: add.commute)
  also have "(h @ v @ take k q) @ r @ replicate (n - k) 0 = (h @ v) @ take k q @ r @ replicate (n - k) 0" by simp
  finally have "overwrite (length h + length v) (replicate k 0) (overwrite (length h + len) r (h @ v @ q)) =
      (h @ v) @ replicate k 0 @ r @ replicate (n - k) 0"
    using lt by (simp only:) (subst overwrite_middle; simp)
  then show ?thesis by (simp add: k_def q_def)
qed

lemma realloc_found:
  assumes "wf_entries (pre @ (V, v) # post)" "V \<noteq> ExtensionType.Uninitialized"
  shows "realloc V len (buffer (pre @ (V, v) # post) n) =
    (if length v < len \<and> n < len - length v then Err InvalidAccountData
     else if 2 ^ 16 \<le> len then Err AccountDataTooSmall
     else Ok (buffer (pre @ (V, resize_value len v) # post) (n + length v - len), length (entries_bytes pre) + 4, len))"
proof -
  let ?b = "buffer (pre @ (V, v) # post) n" and ?s = "length (entries_bytes pre)"
  let ?h = "entries_bytes pre @ header V len" and ?r = "entries_bytes post"
  have l: "length v < 2 ^ 16" using assms(1) by (simp add: wf_entry_def)
  have U: "length (entries_bytes (pre @ (V, v) # post)) = ?s + 4 + length v + length ?r" by simp
  have b1: "overwrite (?s + 2) (to_le 2 (word_of_nat len :: u16)) ?b = ?h @ v @ ?r @ replicate n 0"
  proof -
    have "?b = (entries_bytes pre @ extension_type_bytes V) @ to_le 2 (word_of_nat (length v) :: u16)
        @ (v @ ?r @ replicate n 0)"
      by (simp add: buffer_def entry_bytes_def)
    then show ?thesis
      by (simp only:) (subst overwrite_middle; simp add: header_def extension_type_bytes_def)
  qed
  have r: "subslice (?s + 4 + length v) (length ?r) (?h @ v @ ?r @ replicate n 0) = ?r"
    using subslice_middle [of "?s + 4 + length v" "?h @ v" "length ?r" ?r "replicate n 0"] by simp
  have e: "buffer (pre @ (V, resize_value len v) # post) m = ?h @ take len v @ replicate (len - length v) 0
      @ ?r @ replicate m 0" for m
    by (simp only: buffer_split length_resize_value) (simp add: resize_value_def)
  note ix = indices_buffer_found [OF assms, of False n]
  note un = u16_at_buffer(2) [OF l, of pre V post n]
  note info = info_buffer [OF assms(1), of n]
  consider "len < length v" | "len = length v" | "length v < len" by linarith
  then show ?thesis
  proof cases
    case 1
    then show ?thesis
      using move_shrink [OF 1, of ?h ?r n] ix un info l r
      by (simp add: realloc_def Let_def length_try_from_def U b1 e ac_simps
          del: entries_bytes_simps add_2_eq_Suc' add_2_eq_Suc)
  next
    case 2
    have "overwrite (?s + 4 + length v) ?r (?h @ v @ ?r @ replicate n 0) = ?h @ v @ ?r @ replicate n 0"
      using overwrite_middle [of ?r ?r "?s + 4 + length v" "?h @ v" "replicate n 0"] by simp
    then show ?thesis
      using 2 ix un info l r
      by (simp add: realloc_def Let_def length_try_from_def U b1 [unfolded 2] e [unfolded 2] ac_simps
          del: entries_bytes_simps add_2_eq_Suc' add_2_eq_Suc)
  next
    case 3
    then show ?thesis
      using move_grow [of v len n ?h ?r] ix un info l r
      by (simp add: realloc_def Let_def length_try_from_def U b1 e ac_simps
          del: entries_bytes_simps add_2_eq_Suc' add_2_eq_Suc)
  qed
qed


lemma realloc_Ok:
  assumes "wf_entries es" "get_account_type V = ACCOUNT_TYPE S"
    and "realloc V len (buffer es n) = Ok (tlv', start, m)"
  obtains pre v post n' where "es = pre @ (V, v) # post" "V \<notin> fst ` set pre" "map_of es V = Some v"
    "wf_entries (pre @ (V, resize_value len v) # post)" "m = len"
    "start = length (entries_bytes pre) + 4" "tlv' = buffer (pre @ (V, resize_value len v) # post) n'"
    "n' + len = n + length v"
proof -
  have V: "V \<noteq> ExtensionType.Uninitialized" using assms(2) by (cases S) auto
  obtain v where v: "map_of es V = Some v"
  proof (cases "map_of es V")
    case None
    then show ?thesis
      using assms(3) indices_buffer_free [OF assms(1) V None, of False n] by (auto simp: realloc_def split: if_splits)
  qed
  obtain pre post where es: "es = pre @ (V, v) # post" "V \<notin> fst ` set pre"
    using split_entry [OF assms(1) v] by metis
  show thesis
    using that [OF es v] assms(1,3) V realloc_found [of pre V v post len n]
    by (auto simp: es wf_entry_def split: if_splits)
qed

lemma realloc_missing:
  assumes "wf_entries es" "V \<noteq> ExtensionType.Uninitialized" "map_of es V = None"
  shows "realloc V len (buffer es n) = (if n < 4 then Err InvalidAccountData else TErr ExtensionNotFound)"
  using indices_buffer_free [OF assms, of False n] by (simp add: realloc_def)

section \<open>Lengths of account data\<close>

lemma try_get_account_len_buffer:
  "wf_entries es \<Longrightarrow> try_get_account_len S (buffer es n) =
     Ok (if es = [] then SIZE_OF S
         else adjust_len_for_multisig (length (entries_bytes es) + BASE_ACCOUNT_AND_TYPE_LENGTH))"
  by (simp add: try_get_account_len_def info_buffer)

lemma add_type_and_length_to_len_eq: "add_type_and_length_to_len n = n + 4"
  by (simp add: add_type_and_length_to_len_def)

lemma try_get_new_account_len_buffer:
  assumes "wf_entries es" "get_account_type V = ACCOUNT_TYPE S"
  shows "try_get_new_account_len_for_extension_len S V (buffer es n) len =
    Ok (adjust_len_for_multisig
      (length (entries_bytes (AList.update V (replicate len 0) es)) + BASE_ACCOUNT_AND_TYPE_LENGTH))"
proof (cases "map_of es V")
  case None
  then have "AList.update V (replicate len 0) es = es @ [(V, replicate len 0)]"
    by (simp add: update_new map_of_None_iff)
  then show ?thesis using assms None
    by (simp add: try_get_new_account_len_for_extension_len_def info_buffer get_extension_bytes_buffer
        add_type_and_length_to_len_eq ac_simps)
next
  case (Some v)
  obtain pre post where es: "es = pre @ (V, v) # post" "V \<notin> fst ` set pre"
    using split_entry [OF assms(1) Some] by metis
  then have "AList.update V (replicate len 0) es = pre @ (V, replicate len 0) # post"
    by (simp add: update_found)
  then show ?thesis using assms Some es(1)
    by (simp add: try_get_new_account_len_for_extension_len_def info_buffer get_extension_bytes_buffer
        add_type_and_length_to_len_eq ac_simps)
qed


section \<open>The operations refine the list of entries\<close>

lemma alloc_Ok_buffer:
  assumes "wf_entries es" "get_account_type V = ACCOUNT_TYPE S"
    and "alloc S V len ow (buffer es n) = Ok (tlv', start)"
  obtains pre v post n' where "V \<notin> fst ` set pre" "length v = len"
    "es = pre @ (V, v) # post \<and> ow \<or> es = pre \<and> post = [] \<and> v = replicate len 0"
    "wf_entries (pre @ (V, v) # post)" "start = length (entries_bytes pre) + 4"
    "tlv' = buffer (pre @ (V, v) # post) n'" "length tlv' = length (buffer es n)"
proof (cases "map_of es V")
  case None
  then have *: "tlv' = buffer (es @ [(V, replicate len 0)]) (n - 4 - len)" "start = length (entries_bytes es) + 4"
    "\<not> n < 4 + len" "len < 2 ^ 16"
    using assms(3) by (auto simp: alloc_new [OF assms(1,2) None] split: if_splits)
  moreover have "V \<noteq> ExtensionType.Uninitialized" using assms(2) by (cases S) auto
  ultimately show ?thesis
    using that [of es "replicate len 0" "[]" "n - 4 - len"] None assms(1)
    by (simp add: map_of_None_iff wf_entry_def)
next
  case (Some v)
  obtain pre post where es: "es = pre @ (V, v) # post" "V \<notin> fst ` set pre"
    using split_entry [OF assms(1) Some] by metis
  then show ?thesis
    using that [of pre v post n] assms
    by (auto simp: alloc_found [OF assms(1) [unfolded es(1)] assms(2)] split: if_splits)
qed

lemma overwrite_value:
  assumes "length ys = length v"
  shows "overwrite (length (entries_bytes pre) + 4) ys (buffer (pre @ (V, v) # post) n) =
    buffer (pre @ (V, ys) # post) n"
  unfolding buffer_split assms by (rule overwrite_middle) (simp_all add: assms)

lemma subslice_value:
  "k = length v \<Longrightarrow> subslice (length (entries_bytes pre) + 4) k (buffer (pre @ (V, v) # post) n) = v"
  unfolding buffer_split by (rule subslice_middle) simp_all

lemma tlv_operations:
  assumes "wf_entries es" "get_account_type V = ACCOUNT_TYPE S"
  shows "get_extension_types (buffer es n) = Ok (map fst es)"
    and "get_extension_bytes S V (buffer es n) = Ok v \<longleftrightarrow> map_of es V = Some v"
    and "realloc V len (buffer es n) = Ok (tlv', start, m) \<longleftrightarrow>
      (\<exists>v n'. map_of es V = Some v \<and> len < 2 ^ 16 \<and> n' + len = n + length v \<and> m = len \<and>
        tlv' = buffer (AList.update V (resize_value len v) es) n' \<and>
        (\<exists>pre. es ! length pre = (V, v) \<and> take (length pre) es = pre \<and> length pre < length es \<and>
           start = length (entries_bytes pre) + 4 \<and> subslice start len tlv' = resize_value len v))"
    and "map_of es V = None \<Longrightarrow> alloc S V len ow (buffer es n) = Ok (tlv', start) \<longleftrightarrow>
      4 + len \<le> n \<and> len < 2 ^ 16 \<and> start = length (entries_bytes es) + 4 \<and>
      tlv' = buffer (AList.update V (replicate len 0) es) (n - 4 - len)"
proof -
  show "get_extension_types (buffer es n) = Ok (map fst es)"
    by (rule get_extension_types_buffer [OF assms(1)])
  show "get_extension_bytes S V (buffer es n) = Ok v \<longleftrightarrow> map_of es V = Some v"
    by (auto simp: get_extension_bytes_buffer [OF assms] split: option.split)
  show "map_of es V = None \<Longrightarrow> alloc S V len ow (buffer es n) = Ok (tlv', start) \<longleftrightarrow>
      4 + len \<le> n \<and> len < 2 ^ 16 \<and> start = length (entries_bytes es) + 4 \<and>
      tlv' = buffer (AList.update V (replicate len 0) es) (n - 4 - len)"
    by (auto simp: alloc_new [OF assms] update_new map_of_None_iff)
  show "realloc V len (buffer es n) = Ok (tlv', start, m) \<longleftrightarrow>
      (\<exists>v n'. map_of es V = Some v \<and> len < 2 ^ 16 \<and> n' + len = n + length v \<and> m = len \<and>
        tlv' = buffer (AList.update V (resize_value len v) es) n' \<and>
        (\<exists>pre. es ! length pre = (V, v) \<and> take (length pre) es = pre \<and> length pre < length es \<and>
           start = length (entries_bytes pre) + 4 \<and> subslice start len tlv' = resize_value len v))"
    (is "?L \<longleftrightarrow> ?R")
  proof
    assume ?L
    then obtain pre v post n' where r: "es = pre @ (V, v) # post" "V \<notin> fst ` set pre" "map_of es V = Some v"
      "wf_entries (pre @ (V, resize_value len v) # post)" "m = len"
      "start = length (entries_bytes pre) + 4" "tlv' = buffer (pre @ (V, resize_value len v) # post) n'"
      "n' + len = n + length v"
      using realloc_Ok [OF assms] by metis
    then show ?R
      by (intro exI [of _ v] exI [of _ n'] conjI exI [of _ pre])
        (simp_all add: update_found wf_entry_def subslice_value)
  next
    assume ?R
    then obtain v n' pre where r: "map_of es V = Some v" "len < 2 ^ 16" "n' + len = n + length v" "m = len"
      "tlv' = buffer (AList.update V (resize_value len v) es) n'" "es ! length pre = (V, v)"
      "take (length pre) es = pre" "length pre < length es" "start = length (entries_bytes pre) + 4" by blast
    then have es: "es = pre @ (V, v) # drop (Suc (length pre)) es"
      using id_take_nth_drop [of "length pre" es] by simp
    then have V: "V \<notin> fst ` set pre"
      using assms(1) by (metis IntI UnCI emptyE image_eqI list.set_intros(1) prod.sel(1) wf_entries_simps(3))
    have "V \<noteq> ExtensionType.Uninitialized" using assms(2) by (cases S) auto
    then show ?L
      using realloc_found [of pre V v "drop (Suc (length pre)) es" len n] assms(1) es r update_found [OF V]
      by (metis (no_types, lifting) add_diff_cancel_right' add_diff_inverse_nat add_le_cancel_left
          diff_add_inverse leD le_add2 less_or_eq_imp_le not_less)
  qed
qed

text \<open>
  C17: on a buffer of entries, the operations on the bytes are the operations on the association
  list.  Reading an extension is looking it up and the types are the keys.  \<open>realloc\<close> succeeds
  exactly when the entry exists, the new length fits its 16-bit field and the growth fits the free
  space; it resizes the value of that entry (cut, or filled with zeros), keeps every other entry and
  the total length, and returns the range of the new value.  \<open>alloc\<close> of a type that is not there
  succeeds exactly when header and value fit, and appends an entry of zeros.
\<close>

theorem tlv_operations_refine:
  assumes "wf_entries es" "get_account_type V = ACCOUNT_TYPE S"
  shows "get_extension_types (buffer es n) = Ok (map fst es) \<and>
    (get_extension_bytes S V (buffer es n) = Ok v \<longleftrightarrow> map_of es V = Some v) \<and>
    (realloc V len (buffer es n) = Ok (tlv', start, m) \<longleftrightarrow>
      (\<exists>v n'. map_of es V = Some v \<and> len < 2 ^ 16 \<and> n' + len = n + length v \<and> m = len \<and>
        tlv' = buffer (AList.update V (resize_value len v) es) n' \<and>
        (\<exists>pre. es ! length pre = (V, v) \<and> take (length pre) es = pre \<and> length pre < length es \<and>
           start = length (entries_bytes pre) + 4 \<and> subslice start len tlv' = resize_value len v))) \<and>
    (map_of es V = None \<longrightarrow> (alloc S V len ow (buffer es n) = Ok (tlv', start) \<longleftrightarrow>
      4 + len \<le> n \<and> len < 2 ^ 16 \<and> start = length (entries_bytes es) + 4 \<and>
      tlv' = buffer (AList.update V (replicate len 0) es) (n - 4 - len)))"
  by (intro conjI impI tlv_operations [OF assms])


theorem tlv_operations_refine_witness:
  "realloc TokenMetadata 5 (buffer [(ExtensionType.MintCloseAuthority, replicate 32 1), (TokenMetadata, [1, 2, 3])] 10) =
     Ok (buffer [(ExtensionType.MintCloseAuthority, replicate 32 1), (TokenMetadata, [1, 2, 3, 0, 0])] 8, 40, 5)"
proof -
  let ?e = "(ExtensionType.MintCloseAuthority, replicate 32 1)" and ?m = "(TokenMetadata, [1, 2, 3])"
  have w: "wf_entries [?e, ?m]" "get_account_type TokenMetadata = ACCOUNT_TYPE MintBase"
    by (simp_all add: wf_entry_def)
  have s: "subslice 40 5 (buffer [?e, (TokenMetadata, [1, 2, 3, 0, 0])] 8) = [1, 2, 3, 0, 0]"
    using subslice_value [of 5 "[1, 2, 3, 0, 0]" "[?e]" TokenMetadata "[]" 8] by simp
  have z: "replicate 2 0 = [0, 0 :: u8]" by (simp add: numeral_2_eq_2)
  show ?thesis
    by (subst tlv_operations_refine [OF w, THEN conjunct2, THEN conjunct2, THEN conjunct1], intro exI [of _ "[1, 2, 3]"] exI [of _ 8] conjI exI [of _ "[?e]"])
      (simp_all add: resize_value_def s z)
qed

end
