(* ===== verification/Serialize.thy ===== *)
theory Serialize
  imports Extension_Scenario Packed_State Tlv_Entries
begin

text \<open>
  Extensions that grow the account (src/interface/src/extension/mod.rs): variable-length values in
  the extension buffer, and \<open>alloc_and_serialize\<close> / \<open>alloc_and_serialize_variable_len_extension\<close>,
  which resize the account, set its type byte and write the value.  The trait \<open>VariableLenPack\<close>
  and \<open>AccountInfo::resize\<close> belong to other crates: an implementation of the trait is a record and
  \<open>resize\<close> an argument; \<open>packs_back\<close> and \<open>resizes\<close> say what the code relies on.
\<close>

section \<open>Variable-length extensions\<close>

record 'v VariableLen =
  VL_TYPE :: ExtensionType
  get_packed_len :: "'v \<Rightarrow> nat result"
  vl_pack_into_slice :: "'v \<Rightarrow> bytes \<Rightarrow> bytes result"
  vl_unpack_from_slice :: "bytes \<Rightarrow> 'v result"

definition get_variable_len_extension :: "BaseState \<Rightarrow> 'v VariableLen \<Rightarrow> bytes \<Rightarrow> 'v result" where
  "get_variable_len_extension S E tlv =
     and_then (get_extension_bytes S (VL_TYPE E) tlv) (vl_unpack_from_slice E)"

text \<open>Writing through a mutable slice \<open>tlv[start..start + len]\<close>.\<close>

definition pack_at :: "'v VariableLen \<Rightarrow> 'v \<Rightarrow> bytes \<Rightarrow> nat \<Rightarrow> nat \<Rightarrow> bytes result" where
  "pack_at E v tlv start len =
     and_then (vl_pack_into_slice E v (subslice start len tlv)) (\<lambda>ys. Ok (overwrite start ys tlv))"

definition pack_variable_len_extension :: "BaseState \<Rightarrow> 'v VariableLen \<Rightarrow> 'v \<Rightarrow> bytes \<Rightarrow> bytes result" where
  "pack_variable_len_extension S E v tlv =
     and_then (get_extension_bytes_mut S (VL_TYPE E) tlv) (\<lambda>(start, len). pack_at E v tlv start len)"

definition realloc_variable_len_extension :: "'v VariableLen \<Rightarrow> 'v \<Rightarrow> bytes \<Rightarrow> bytes result" where
  "realloc_variable_len_extension E v tlv =
     and_then (get_packed_len E v) (\<lambda>k.
     and_then (realloc (VL_TYPE E) k tlv) (\<lambda>(tlv1, start, len). pack_at E v tlv1 start len))"

definition init_variable_len_extension ::
  "BaseState \<Rightarrow> 'v VariableLen \<Rightarrow> 'v \<Rightarrow> bool \<Rightarrow> bytes \<Rightarrow> bytes result" where
  "init_variable_len_extension S E v overwr tlv =
     and_then (get_packed_len E v) (\<lambda>k.
     and_then (alloc S (VL_TYPE E) k overwr tlv) (\<lambda>(tlv1, start). pack_at E v tlv1 start k))"

definition try_get_new_account_len :: "BaseState \<Rightarrow> 'a Extension \<Rightarrow> bytes \<Rightarrow> nat result" where
  "try_get_new_account_len S E tlv =
     try_get_new_account_len_for_extension_len S (EXT_TYPE E) tlv (pod_len E)"

definition try_get_new_account_len_for_variable_len_extension ::
  "BaseState \<Rightarrow> 'v VariableLen \<Rightarrow> 'v \<Rightarrow> bytes \<Rightarrow> nat result" where
  "try_get_new_account_len_for_variable_len_extension S E v tlv =
     and_then (get_packed_len E v) (\<lambda>k. try_get_new_account_len_for_extension_len S (VL_TYPE E) tlv k)"

section \<open>Writing an extension into an account\<close>

type_synonym resize = "pubkey \<Rightarrow> nat \<Rightarrow> ledger \<Rightarrow> ledger result"

text \<open>The type byte is written when the account had no room for it before.\<close>

definition set_type_if_new :: "BaseState \<Rightarrow> nat \<Rightarrow> bytes \<Rightarrow> bytes result" where
  "set_type_if_new S previous_account_len d =
     (if previous_account_len \<le> BASE_ACCOUNT_LENGTH then set_account_type S d else Ok d)"

definition alloc_and_serialize ::
  "resize \<Rightarrow> 'b Base \<Rightarrow> 'a Extension \<Rightarrow> 'a \<Rightarrow> bool \<Rightarrow> pubkey \<Rightarrow> ledger \<Rightarrow> ledger result" where
  "alloc_and_serialize resize B E new_extension overwr k L =
     (let previous_account_len = length (ac_data (L k)); S = base_state B
      in and_then (unpack B (ac_data (L k))) (\<lambda>state.
         and_then (try_get_new_account_len S E (tlv_data state)) (\<lambda>new_account_len.
         and_then (if new_account_len > previous_account_len then resize k new_account_len L else Ok L) (\<lambda>L.
         and_then (set_type_if_new S previous_account_len (ac_data (L k))) (\<lambda>d.
         and_then (unpack_mut B d) (\<lambda>st.
         and_then (init_extension S E overwr (tlv_data st)) (\<lambda>tlv.
         Ok (set_data k (pack_state B (st\<lparr>tlv_data := set_extension S E new_extension tlv\<rparr>)) L))))))))"

definition alloc_and_serialize_variable_len_extension ::
  "resize \<Rightarrow> 'b Base \<Rightarrow> 'v VariableLen \<Rightarrow> 'v \<Rightarrow> bool \<Rightarrow> pubkey \<Rightarrow> ledger \<Rightarrow> ledger result" where
  "alloc_and_serialize_variable_len_extension resize B E new_extension overwr k L =
     (let previous_account_len = length (ac_data (L k)); S = base_state B;
          store = (\<lambda>extension_already_exists st.
            and_then (if extension_already_exists
                      then realloc_variable_len_extension E new_extension (tlv_data st)
                      else init_variable_len_extension S E new_extension False (tlv_data st)) (\<lambda>tlv.
            Ok (st\<lparr>tlv_data := tlv\<rparr>)))
      in and_then (unpack B (ac_data (L k))) (\<lambda>state.
         and_then (try_get_new_account_len_for_variable_len_extension S E new_extension (tlv_data state))
           (\<lambda>new_account_len.
         let extension_already_exists = is_ok (get_extension_bytes S (VL_TYPE E) (tlv_data state))
         in if extension_already_exists \<and> \<not> overwr then TErr ExtensionAlreadyInitialized
            else if previous_account_len < new_account_len
            then and_then (resize k new_account_len L) (\<lambda>L.
                 and_then (if extension_already_exists then Ok (ac_data (L k))
                           else set_type_if_new S previous_account_len (ac_data (L k))) (\<lambda>d.
                 and_then (unpack_mut B d) (\<lambda>st.
                 and_then (store extension_already_exists st) (\<lambda>st.
                 Ok (set_data k (pack_state B st) L)))))
            else and_then (unpack_mut B (ac_data (L k))) (\<lambda>st.
                 and_then (store extension_already_exists st) (\<lambda>st.
                 let L1 = set_data k (pack_state B st) L; removed_bytes = previous_account_len - new_account_len
                 in if removed_bytes > 0 then resize k new_account_len L1 else Ok L1)))))"

section \<open>What the code relies on\<close>

definition packs_back :: "'v VariableLen \<Rightarrow> bool" where
  "packs_back E \<longleftrightarrow> (\<forall>v k dst dst'. get_packed_len E v = Ok k \<longrightarrow> k < 2 ^ 16 \<longrightarrow> length dst = k \<longrightarrow>
     vl_pack_into_slice E v dst = Ok dst' \<longrightarrow> length dst' = k \<and> vl_unpack_from_slice E dst' = Ok v)"

definition resizes :: "resize \<Rightarrow> bool" where
  "resizes rs \<longleftrightarrow> (\<forall>k n L L'. rs k n L = Ok L' \<longrightarrow> L' = set_data k (resize_value n (ac_data (L k))) L)"

lemma packs_backD:
  assumes "packs_back E" "get_packed_len E v = Ok k" "k < 2 ^ 16" "length dst = k"
    "vl_pack_into_slice E v dst = Ok dst'"
  shows "length dst' = k" "vl_unpack_from_slice E dst' = Ok v"
  using assms unfolding packs_back_def by blast+

lemma resizesD: "resizes rs \<Longrightarrow> rs k n L = Ok L' \<Longrightarrow> L' = set_data k (resize_value n (ac_data (L k))) L"
  unfolding resizes_def by blast

section \<open>Storing a variable-length value in a buffer\<close>

lemma store_variable_len:
  assumes "wf_entries es" "get_account_type (VL_TYPE E) = ACCOUNT_TYPE S" "packs_back E"
    and "(if map_of es (VL_TYPE E) \<noteq> None then realloc_variable_len_extension E v (buffer es n)
          else init_variable_len_extension S E v False (buffer es n)) = Ok tlv'"
  obtains k ys n' where "get_packed_len E v = Ok k" "length ys = k" "vl_unpack_from_slice E ys = Ok v"
    "tlv' = buffer (AList.update (VL_TYPE E) ys es) n'" "wf_entries (AList.update (VL_TYPE E) ys es)"
    "length tlv' = length (buffer es n)"
proof (cases "map_of es (VL_TYPE E)")
  case None
  obtain k tlv1 start ys where k: "get_packed_len E v = Ok k"
    "alloc S (VL_TYPE E) k False (buffer es n) = Ok (tlv1, start)"
    "vl_pack_into_slice E v (subslice start k tlv1) = Ok ys" "tlv' = overwrite start ys tlv1"
    using assms(4) None by (auto simp: init_variable_len_extension_def pack_at_def res_simps)
  have a: "\<not> n < 4 + k" "k < 2 ^ 16" "start = length (entries_bytes es) + 4"
    "tlv1 = buffer (es @ [(VL_TYPE E, replicate k 0)]) (n - 4 - k)"
    using k(2) unfolding alloc_new [OF assms(1,2) None] by (auto split: if_splits)
  have s: "subslice start k tlv1 = replicate k 0"
    unfolding a(3,4) by (rule subslice_value) simp
  have ys: "length ys = k" "vl_unpack_from_slice E ys = Ok v"
    using packs_backD [OF assms(3) k(1) a(2) _ k(3)] s by auto
  have "tlv' = buffer (es @ [(VL_TYPE E, ys)]) (n - 4 - k)"
    unfolding k(4) a(3,4) using ys(1) by (intro overwrite_value) simp
  moreover have "AList.update (VL_TYPE E) ys es = es @ [(VL_TYPE E, ys)]"
    using None by (simp add: update_new map_of_None_iff)
  moreover have "wf_entries (AList.update (VL_TYPE E) ys es)"
    using assms(1,2) a(2) ys(1) by (intro wf_entries_update) (cases S; auto simp: wf_entry_def)+
  ultimately show ?thesis using that [OF k(1) ys] a ys(1) by simp
next
  case (Some w)
  obtain k tlv1 start m ys where k: "get_packed_len E v = Ok k"
    "realloc (VL_TYPE E) k (buffer es n) = Ok (tlv1, start, m)"
    "vl_pack_into_slice E v (subslice start m tlv1) = Ok ys" "tlv' = overwrite start ys tlv1"
    using assms(4) Some by (auto simp: realloc_variable_len_extension_def pack_at_def res_simps)
  obtain pre w post n' where r: "es = pre @ (VL_TYPE E, w) # post" "VL_TYPE E \<notin> fst ` set pre"
    "wf_entries (pre @ (VL_TYPE E, resize_value k w) # post)" "m = k"
    "start = length (entries_bytes pre) + 4" "tlv1 = buffer (pre @ (VL_TYPE E, resize_value k w) # post) n'"
    "n' + k = n + length w"
    using realloc_Ok [OF assms(1,2) k(2)] by metis
  have k16: "k < 2 ^ 16" using r(3) by (simp add: wf_entry_def)
  have s: "length (subslice start m tlv1) = k"
    using subslice_value [of k "resize_value k w" pre "VL_TYPE E" post n'] by (simp add: r(4-6))
  have ys: "length ys = k" "vl_unpack_from_slice E ys = Ok v"
    using packs_backD [OF assms(3) k(1) k16 s k(3)] by auto
  have "tlv' = buffer (pre @ (VL_TYPE E, ys) # post) n'"
    unfolding k(4) r(5,6) using ys(1) by (intro overwrite_value) simp
  moreover have "AList.update (VL_TYPE E) ys es = pre @ (VL_TYPE E, ys) # post"
    using r(1,2) by (simp add: update_found)
  moreover have "wf_entries (pre @ (VL_TYPE E, ys) # post)"
    using r(3) ys(1) k16 by (auto simp: wf_entry_def)
  moreover have "length tlv' = length (buffer es n)"
    using r(1,7) ys(1) calculation(1) by simp
  ultimately show ?thesis using that [OF k(1) ys] by simp
qed


section \<open>Resizing the data of a mint\<close>

lemma resize_value_append:
  "length p \<le> m \<Longrightarrow> resize_value m (p @ q) = p @ resize_value (m - length p) q"
  by (simp add: resize_value_def)

lemma resize_value_zeros: "resize_value m (replicate n 0) = replicate m 0"
  by (cases "m \<le> n") (simp_all add: resize_value_def min_def replicate_add [symmetric])

lemma resize_value_buffer:
  assumes "length (entries_bytes es) \<le> m"
  shows "resize_value m (buffer es n) = buffer es (m - length (entries_bytes es))"
  using assms by (simp add: buffer_def resize_value_append resize_value_zeros)

definition mint_prefix :: "PodMint \<Rightarrow> bytes" where
  "mint_prefix m = enc_mint m @ replicate 83 0 @ [account_type_code Mint]"

lemma length_mint_prefix [simp]: "length (mint_prefix m) = 166"
  by (simp add: mint_prefix_def)

lemma pack_state_mint:
  "pack_state PodMintB st =
     (if account_type st = [] then enc_mint (base st)
      else enc_mint (base st) @ replicate 83 0 @ account_type st @ tlv_data st)"
  by (simp add: pack_state_def PodMintB_def base_lens BASE_ACCOUNT_LENGTH_def)

lemma unpack_mut_mint:
  "unpack_mut PodMintB d = Ok st \<longleftrightarrow> length d \<noteq> MULTISIG_LEN \<and> mint_is_initialized (base st) \<and>
     (d = enc_mint (base st) \<and> account_type st = [] \<and> tlv_data st = [] \<or>
      d = mint_prefix (base st) @ tlv_data st \<and> account_type st = [account_type_code Mint])"
  by (auto simp: mint_base.unpack_mut_Ok pack_state_mint tail_ok_def mint_prefix_def)

lemma unpack_mint:
  "unpack PodMintB d = Ok p \<longleftrightarrow> length d \<noteq> MULTISIG_LEN \<and> mint_is_initialized (base p) \<and>
     (d = enc_mint (base p) \<and> tlv_data p = [] \<or> d = mint_prefix (base p) @ tlv_data p)"
proof -
  have "unpack PodMintB d = Ok p \<longleftrightarrow>
      (\<exists>st. unpack_mut PodMintB d = Ok st \<and> base st = base p \<and> tlv_data st = tlv_data p)"
    by (cases p) (auto simp: unpack_eq res_simps)
  moreover have "\<exists>st :: PodMint PodStateWithExtensionsMut. base st = b \<and> tlv_data st = x \<and> account_type st = y" for b x y
    by (rule exI [of _ "\<lparr>base = b, tlv_data = x, account_type = y\<rparr>"]) simp
  ultimately show ?thesis unfolding unpack_mut_mint by metis
qed

lemma set_account_type_fresh:
  assumes "166 \<le> m" "m \<noteq> MULTISIG_LEN"
  shows "set_account_type MintBase (resize_value m (enc_mint b)) = Ok (mint_prefix b @ replicate (m - 166) 0)"
proof -
  have "replicate (m - 82) (0 :: u8) = replicate (83 + (1 + (m - 166))) 0"
    using assms(1) by (intro arg_cong [where f = "\<lambda>k. replicate k 0"]) simp
  then have r: "replicate (m - 82) (0 :: u8) = replicate 83 0 @ 0 # replicate (m - 166) 0"
    by (simp only: replicate_add) simp
  have d: "resize_value m (enc_mint b) = enc_mint b @ replicate 83 0 @ 0 # replicate (m - 166) 0"
    using assms(1) r by (simp add: resize_value_def)
  have t: "type_and_tlv_indices MintBase (replicate 83 0 @ 0 # replicate (m - 166) 0) = Ok (Some (83, 84))"
    by (simp add: type_and_tlv_indices_def base_lens BASE_ACCOUNT_LENGTH_def)
  have l: "length (resize_value m (enc_mint b)) = m" by simp
  have a: "account_type_try_from 0 = Some AccountType.Uninitialized"
    using account_type_try_from_Some [of 0 AccountType.Uninitialized] by simp
  show ?thesis
    using assms l t a
    by (simp add: set_account_type_def check_min_len_and_not_multisig_def Let_def check_account_type_def
        nth_append list_update_append mint_prefix_def d MINT_LEN_def)
qed


lemma mint_prefix_inj: "mint_prefix b @ x = mint_prefix c @ y \<longleftrightarrow> b = c \<and> x = y"
proof
  assume "mint_prefix b @ x = mint_prefix c @ y"
  then have "mint_prefix b = mint_prefix c" "x = y" by simp_all
  then have "enc_mint b = enc_mint c" by (simp add: mint_prefix_def)
  then show "b = c \<and> x = y" using \<open>x = y\<close> by (simp add: mint_pod.enc_inj)
qed simp

lemma mint_prefix_not_base: "mint_prefix b @ x \<noteq> enc_mint c" "enc_mint c \<noteq> mint_prefix b @ x"
proof -
  have "length (mint_prefix b @ x) \<noteq> length (enc_mint c)" by simp
  then show "mint_prefix b @ x \<noteq> enc_mint c" "enc_mint c \<noteq> mint_prefix b @ x" by metis+
qed

lemma unpack_mut_mint_prefix:
  assumes "unpack_mut PodMintB (mint_prefix b @ x) = Ok st"
  shows "base st = b" "tlv_data st = x" "mint_is_initialized b" "account_type st = [account_type_code Mint]"
    and "pack_state PodMintB (st\<lparr>tlv_data := y\<rparr>) = mint_prefix b @ y"
proof -
  have *: "base st = b \<and> tlv_data st = x \<and> mint_is_initialized b \<and> account_type st = [account_type_code Mint]"
    using assms unfolding unpack_mut_mint by (auto simp: mint_prefix_not_base mint_prefix_inj)
  then show "base st = b" "tlv_data st = x" "mint_is_initialized b" "account_type st = [account_type_code Mint]"
    by simp_all
  show "pack_state PodMintB (st\<lparr>tlv_data := y\<rparr>) = mint_prefix b @ y"
    using * by (simp add: pack_state_mint mint_prefix_def)
qed

lemma entries_bytes_Nil: "entries_bytes es = [] \<longleftrightarrow> es = []"
proof (cases es)
  case (Cons e es')
  then have "length (entries_bytes es) > 0" by simp
  then show ?thesis using Cons by (auto simp del: entries_bytes_simps)
qed simp

lemma length_entries_update:
  "length ys = length zs \<Longrightarrow> length (entries_bytes (AList.update V ys es)) = length (entries_bytes (AList.update V zs es))"
  by (induction es) auto

lemma length_entries_update_ge:
  "4 + length ys \<le> length (entries_bytes (AList.update V ys es))"
  by (induction es) auto

section \<open>What storing an extension does to a mint\<close>

lemma BASE_lens: "BASE_ACCOUNT_LENGTH = 165" "BASE_ACCOUNT_AND_TYPE_LENGTH = 166"
  by (simp_all add: BASE_ACCOUNT_LENGTH_def BASE_ACCOUNT_AND_TYPE_LENGTH_def base_lens)

lemma adjust_len_ge: "n \<le> adjust_len_for_multisig n"
  by (simp add: adjust_len_for_multisig_def)

text \<open>A grown mint, with its type byte, before the value is stored.\<close>

lemma grown_mint:
  assumes "unpack PodMintB d = Ok p" "tlv_data p = buffer es n" "length d < m" "166 \<le> m" "m \<noteq> MULTISIG_LEN"
    and "(if c then Ok (resize_value m d) else set_type_if_new MintBase (length d) (resize_value m d)) = Ok d'"
    and "c \<Longrightarrow> es \<noteq> []"
  shows "d' = mint_prefix (base p) @ buffer es (m - 166 - length (entries_bytes es))"
    and "length (entries_bytes es) + 166 \<le> m"
proof -
  have "d' = mint_prefix (base p) @ buffer es (m - 166 - length (entries_bytes es)) \<and>
    length (entries_bytes es) + 166 \<le> m"
  proof (cases "d = enc_mint (base p) \<and> tlv_data p = []")
    case True
    then have "length (entries_bytes es) + n = 0" using assms(2) length_buffer [of es n] by simp
    then have "es = []" by (simp add: entries_bytes_Nil)
    moreover have "length d \<le> BASE_ACCOUNT_LENGTH" using True by (simp add: BASE_lens)
    ultimately show ?thesis
      using assms(4,5,6,7) True set_account_type_fresh [OF assms(4,5), of "base p"]
      by (auto simp: set_type_if_new_def buffer_def split: if_splits)
  next
    case False
    then have d: "d = mint_prefix (base p) @ buffer es n" using assms(1,2) unfolding unpack_mint by auto
    then have "d' = resize_value m d" using assms(6) by (auto simp: set_type_if_new_def BASE_lens split: if_splits)
    moreover have "length (entries_bytes es) + 166 \<le> m" using assms(3) d by simp
    ultimately show ?thesis
      by (simp add: d resize_value_append resize_value_buffer)
  qed
  then show "d' = mint_prefix (base p) @ buffer es (m - 166 - length (entries_bytes es))"
    "length (entries_bytes es) + 166 \<le> m" by simp_all
qed

lemma alloc_and_serialize_variable_len_effect:
  assumes "resizes rs" "packs_back E" "get_account_type (VL_TYPE E) = Mint"
    and "unpack PodMintB (ac_data (L k)) = Ok p" "tlv_data p = buffer es n" "wf_entries es"
    and "alloc_and_serialize_variable_len_extension rs PodMintB E v overwr k L = Ok L'"
  obtains ys n' where "vl_unpack_from_slice E ys = Ok v"
    "L' = set_data k (mint_prefix (base p) @ buffer (AList.update (VL_TYPE E) ys es) n') L"
    "wf_entries (AList.update (VL_TYPE E) ys es)"
    "166 + length (buffer (AList.update (VL_TYPE E) ys es) n') =
      adjust_len_for_multisig (166 + length (entries_bytes (AList.update (VL_TYPE E) ys es)))"
    "overwr \<or> map_of es (VL_TYPE E) = None"
proof -
  let ?V = "VL_TYPE E" and ?d = "ac_data (L k)"
  have V: "get_account_type ?V = ACCOUNT_TYPE MintBase" using assms(3) by simp
  have ex: "is_ok (get_extension_bytes MintBase ?V (tlv_data p)) \<longleftrightarrow> map_of es ?V \<noteq> None"
    by (auto simp: assms(5) get_extension_bytes_buffer [OF assms(6) V] split: option.split)
  obtain len where len: "get_packed_len E v = Ok len"
    using assms(7) by (auto simp: alloc_and_serialize_variable_len_extension_def res_simps Let_def
        try_get_new_account_len_for_variable_len_extension_def)
  define m where "m = adjust_len_for_multisig (166 + length (entries_bytes (AList.update ?V (replicate len 0) es)))"
  have m166: "166 \<le> m"
    using adjust_len_ge [of "166 + length (entries_bytes (AList.update ?V (replicate len 0) es))"]
    unfolding m_def by linarith
  have mm: "m \<noteq> MULTISIG_LEN" unfolding m_def by (rule adjust_len_not_multisig)
  have new: "try_get_new_account_len_for_variable_len_extension MintBase E v (tlv_data p) = Ok m"
    using try_get_new_account_len_buffer [OF assms(6) V, of n len]
    by (simp add: try_get_new_account_len_for_variable_len_extension_def len assms(5) m_def BASE_lens add.commute)
  define store where "store st = and_then (if map_of es ?V \<noteq> None
      then realloc_variable_len_extension E v (tlv_data st)
      else init_variable_len_extension MintBase E v False (tlv_data st)) (\<lambda>tlv. Ok (st\<lparr>tlv_data := tlv\<rparr>))"
    for st :: "PodMint PodStateWithExtensionsMut"
  have ow: "overwr \<or> map_of es ?V = None" and run:
    "(if length ?d < m
      then and_then (rs k m L) (\<lambda>L. and_then (if map_of es ?V \<noteq> None then Ok (ac_data (L k))
             else set_type_if_new MintBase (length ?d) (ac_data (L k))) (\<lambda>d.
           and_then (unpack_mut PodMintB d) (\<lambda>st. and_then (store st) (\<lambda>st.
           Ok (set_data k (pack_state PodMintB st) L)))))
      else and_then (unpack_mut PodMintB ?d) (\<lambda>st. and_then (store st) (\<lambda>st.
           let L1 = set_data k (pack_state PodMintB st) L
           in if length ?d - m > 0 then rs k m L1 else Ok L1))) = Ok L'"
    using assms(7) unfolding alloc_and_serialize_variable_len_extension_def Let_def base_sel assms(4) and_then_simps
      new ex store_def by (auto split: if_splits)
  text \<open>The value is stored into a buffer with the same entries.\<close>
  have stored: "\<exists>ys n1. vl_unpack_from_slice E ys = Ok v \<and> length ys = len \<and>
      pack_state PodMintB st' = mint_prefix b @ buffer (AList.update ?V ys es) n1 \<and>
      wf_entries (AList.update ?V ys es) \<and>
      length (buffer (AList.update ?V ys es) n1) = length (buffer es j)"
    if u: "unpack_mut PodMintB (mint_prefix b @ buffer es j) = Ok st" "store st = Ok st'" for b j st st'
  proof -
    note st = unpack_mut_mint_prefix [OF u(1)]
    obtain tlv where tlv: "(if map_of es ?V \<noteq> None then realloc_variable_len_extension E v (buffer es j)
        else init_variable_len_extension MintBase E v False (buffer es j)) = Ok tlv" "st' = st\<lparr>tlv_data := tlv\<rparr>"
      using u(2) unfolding store_def st(2) and_then_Ok sum.inject by blast
    obtain k' ys n1 where s: "get_packed_len E v = Ok k'" "length ys = k'" "vl_unpack_from_slice E ys = Ok v"
      "tlv = buffer (AList.update ?V ys es) n1" "wf_entries (AList.update ?V ys es)"
      "length tlv = length (buffer es j)"
      by (rule store_variable_len [OF assms(6) V assms(2) tlv(1)])
    have "pack_state PodMintB st' = mint_prefix b @ buffer (AList.update ?V ys es) n1"
      unfolding tlv(2) st(5) s(4) by (rule refl)
    moreover have "length ys = len" using s(1,2) len by simp
    ultimately show ?thesis using s(3,5,6) unfolding s(4) by blast
  qed
  have lu: "m = adjust_len_for_multisig (166 + length (entries_bytes (AList.update ?V ys es)))"
    if "length ys = len" for ys
    using length_entries_update [of ys "replicate len 0" ?V es] that by (simp add: m_def)
  show thesis
  proof (cases "length ?d < m")
    case True
    then obtain L1 d1 st st' where r: "rs k m L = Ok L1" "unpack_mut PodMintB d1 = Ok st" "store st = Ok st'"
      "(if map_of es ?V \<noteq> None then Ok (ac_data (L1 k)) else set_type_if_new MintBase (length ?d) (ac_data (L1 k))) = Ok d1"
      "L' = set_data k (pack_state PodMintB st') L1"
      using run by (auto simp: res_simps)
    note L1 = resizesD [OF assms(1) r(1)]
    have d1: "d1 = mint_prefix (base p) @ buffer es (m - 166 - length (entries_bytes es))"
      "length (entries_bytes es) + 166 \<le> m"
    proof -
      have "ac_data (L1 k) = resize_value m ?d" by (simp add: L1)
      note g = r(4) [unfolded this]
      have "es \<noteq> []" if "map_of es ?V \<noteq> None" using that by auto
      then show "d1 = mint_prefix (base p) @ buffer es (m - 166 - length (entries_bytes es))"
        "length (entries_bytes es) + 166 \<le> m"
        using grown_mint [OF assms(4,5) True m166 mm g] by blast+
    qed
    obtain ys n1 where s: "vl_unpack_from_slice E ys = Ok v" "length ys = len"
      "pack_state PodMintB st' = mint_prefix (base p) @ buffer (AList.update ?V ys es) n1"
      "wf_entries (AList.update ?V ys es)"
      "length (buffer (AList.update ?V ys es) n1) = length (buffer es (m - 166 - length (entries_bytes es)))"
      using stored [OF r(2) [unfolded d1(1)] r(3)] by blast
    have "L' = set_data k (mint_prefix (base p) @ buffer (AList.update ?V ys es) n1) L"
      using r(5) s(3) L1 by (simp add: set_data_def)
    then show ?thesis using that [OF s(1)] s(4,5) lu [OF s(2)] ow d1(2) by simp
  next
    case False
    then obtain st st' where r: "unpack_mut PodMintB ?d = Ok st" "store st = Ok st'"
      "(if length ?d - m > 0 then rs k m (set_data k (pack_state PodMintB st') L)
        else Ok (set_data k (pack_state PodMintB st') L)) = Ok L'"
      using run by (auto simp: res_simps Let_def)
    have d: "?d = mint_prefix (base p) @ buffer es n"
      using assms(4,5) False m166 unfolding unpack_mint by auto
    obtain ys n1 where s: "vl_unpack_from_slice E ys = Ok v" "length ys = len"
      "pack_state PodMintB st' = mint_prefix (base p) @ buffer (AList.update ?V ys es) n1"
      "wf_entries (AList.update ?V ys es)"
      "length (buffer (AList.update ?V ys es) n1) = length (buffer es n)"
      using stored [OF r(1) [unfolded d] r(2)] by blast
    let ?u = "AList.update ?V ys es"
    have um: "166 + length (entries_bytes ?u) \<le> m"
      unfolding lu [OF s(2)] by (rule adjust_len_ge)
    have "L' = set_data k (mint_prefix (base p) @ buffer ?u (m - 166 - length (entries_bytes ?u))) L"
    proof (cases "length ?d - m > 0")
      case True
      then have "L' = set_data k (resize_value m (mint_prefix (base p) @ buffer ?u n1))
          (set_data k (mint_prefix (base p) @ buffer ?u n1) L)"
        using r(3) resizesD [OF assms(1), of k m "set_data k (pack_state PodMintB st') L" L'] s(3) by simp
      then show ?thesis using um by (simp add: set_data_def resize_value_append resize_value_buffer)
    next
      case F: False
      then have "length ?d = m" using False by simp
      then have "n1 = m - 166 - length (entries_bytes ?u)" using s(5) d by simp
      then show ?thesis using r(3) s(3) F by simp
    qed
    then show ?thesis using that [OF s(1)] s(4) lu [OF s(2)] ow um by simp
  qed
qed


section \<open>Storing a fixed-size extension\<close>

lemma get_extension_bytes_mut_buffer:
  assumes "wf_entries (pre @ (V, v) # post)" "get_account_type V = ACCOUNT_TYPE S"
  shows "get_extension_bytes_mut S V (buffer (pre @ (V, v) # post) n) =
    Ok (length (entries_bytes pre) + 4, length v)"
proof -
  have V: "V \<noteq> ExtensionType.Uninitialized" using assms(2) by (cases S) auto
  have "length v < 2 ^ 16" using assms(1) by (simp add: wf_entry_def)
  then show ?thesis
    using indices_buffer_found [OF assms(1) V, of False n] u16_at_buffer(2) [of v pre V post n] assms(2)
    by (simp add: get_extension_bytes_mut_def Let_def del: add_2_eq_Suc')
qed

context extension
begin

lemma store_extension:
  assumes "wf_entries es" "init_extension S E overwr (buffer es n) = Ok tlv"
  obtains n' where "set_extension S E v tlv = buffer (AList.update (EXT_TYPE E) (ext_enc E v) es) n'"
    "wf_entries (AList.update (EXT_TYPE E) (ext_enc E v) es)"
    "length (buffer (AList.update (EXT_TYPE E) (ext_enc E v) es) n') = length (buffer es n)"
    "overwr \<or> map_of es (EXT_TYPE E) = None"
proof -
  let ?V = "EXT_TYPE E"
  note ty = init_extension_Ok(3) [OF assms(2)]
  obtain tlv1 start where a: "alloc S ?V (pod_len E) overwr (buffer es n) = Ok (tlv1, start)"
    and tlv: "tlv = overwrite start (ext_enc E (ext_default E)) tlv1"
    using assms(2) by (auto simp: init_extension_def res_simps)
  obtain pre w post n' where r: "?V \<notin> fst ` set pre" "length w = pod_len E"
    "es = pre @ (?V, w) # post \<and> overwr \<or> es = pre \<and> post = [] \<and> w = replicate (pod_len E) 0"
    "wf_entries (pre @ (?V, w) # post)" "start = length (entries_bytes pre) + 4"
    "tlv1 = buffer (pre @ (?V, w) # post) n'" "length tlv1 = length (buffer es n)"
    by (rule alloc_Ok_buffer [OF assms(1) ty a])
  have t: "tlv = buffer (pre @ (?V, ext_enc E (ext_default E)) # post) n'"
    unfolding tlv r(5,6) by (rule overwrite_value) (simp add: length_enc r(2))
  have wf: "wf_entries (pre @ (?V, ext_enc E x) # post)" for x
    using r(2,4) by (auto simp: wf_entry_def length_enc)
  have u: "AList.update ?V (ext_enc E v) es = pre @ (?V, ext_enc E v) # post"
    using r(1,3) by (auto simp: update_found update_new)
  have "subslice (length (entries_bytes pre) + 4) (pod_len E) tlv = ext_enc E (ext_default E)"
    unfolding t by (rule subslice_value) (simp add: length_enc)
  then have "get_extension_mut S E tlv = Ok (ext_default E, length (entries_bytes pre) + 4)"
    using get_extension_bytes_mut_buffer [OF wf ty]
    by (simp add: get_extension_mut_def t length_enc pod_from_bytes_def dec_enc)
  then have "set_extension S E v tlv = buffer (pre @ (?V, ext_enc E v) # post) n'"
    by (simp add: set_extension_def t overwrite_value length_enc)
  moreover have "length (buffer (pre @ (?V, ext_enc E v) # post) n') = length (buffer es n)"
    using r(2,6,7) by (simp add: length_enc)
  moreover have "overwr \<or> map_of es ?V = None"
    using r(1,3) by (auto simp: map_of_None_iff)
  ultimately show thesis using that wf u by metis
qed

lemma alloc_and_serialize_effect:
  assumes "resizes rs" "get_account_type (EXT_TYPE E) = Mint"
    and "unpack PodMintB (ac_data (L k)) = Ok p" "tlv_data p = buffer es n" "wf_entries es"
    and "alloc_and_serialize rs PodMintB E v overwr k L = Ok L'"
  obtains n' where
    "L' = set_data k (mint_prefix (base p) @ buffer (AList.update (EXT_TYPE E) (ext_enc E v) es) n') L"
    "wf_entries (AList.update (EXT_TYPE E) (ext_enc E v) es)"
    "166 + length (buffer (AList.update (EXT_TYPE E) (ext_enc E v) es) n') =
      max (length (ac_data (L k)))
       (adjust_len_for_multisig (166 + length (entries_bytes (AList.update (EXT_TYPE E) (ext_enc E v) es))))"
    "overwr \<or> map_of es (EXT_TYPE E) = None"
proof -
  let ?V = "EXT_TYPE E" and ?d = "ac_data (L k)" and ?u = "AList.update (EXT_TYPE E) (ext_enc E v) es"
  have V: "get_account_type ?V = ACCOUNT_TYPE MintBase" using assms(2) by simp
  define m where "m = adjust_len_for_multisig (166 + length (entries_bytes ?u))"
  have m166: "166 \<le> m" using adjust_len_ge [of "166 + length (entries_bytes ?u)"] unfolding m_def by linarith
  have mm: "m \<noteq> MULTISIG_LEN" unfolding m_def by (rule adjust_len_not_multisig)
  have new: "try_get_new_account_len MintBase E (tlv_data p) = Ok m"
    using try_get_new_account_len_buffer [OF assms(5) V, of n "pod_len E"]
      length_entries_update [of "ext_enc E v" "replicate (pod_len E) 0" ?V es]
    by (simp add: try_get_new_account_len_def assms(4) m_def BASE_lens add.commute length_enc)
  obtain L1 d1 st tlv where r:
    "(if m > length ?d then rs k m L else Ok L) = Ok L1"
    "set_type_if_new MintBase (length ?d) (ac_data (L1 k)) = Ok d1"
    "unpack_mut PodMintB d1 = Ok st" "init_extension MintBase E overwr (tlv_data st) = Ok tlv"
    "L' = set_data k (pack_state PodMintB (st\<lparr>tlv_data := set_extension MintBase E v tlv\<rparr>)) L1"
    using assms(6) unfolding alloc_and_serialize_def Let_def base_sel assms(3) and_then_simps new
    by (auto simp: res_simps)
  have "\<exists>j. d1 = mint_prefix (base p) @ buffer es j \<and> length d1 = max (length ?d) m \<and>
      (\<exists>x. L1 = set_data k x L)"
  proof (cases "m > length ?d")
    case True
    then have L1: "L1 = set_data k (resize_value m ?d) L" using r(1) resizesD [OF assms(1)] by simp
    have "ac_data (L1 k) = resize_value m ?d" by (simp add: L1)
    note g = r(2) [unfolded this]
    have d1: "d1 = mint_prefix (base p) @ buffer es (m - 166 - length (entries_bytes es))"
      "length (entries_bytes es) + 166 \<le> m"
      using grown_mint [OF assms(3,4) True m166 mm, of False] g by simp_all
    then have "length d1 = m" by simp
    then show ?thesis using d1(1) L1 True by (metis max.absorb4)
  next
    case False
    then have d: "?d = mint_prefix (base p) @ buffer es n"
      using assms(3,4) m166 unfolding unpack_mint by auto
    have L1: "L1 = L" using r(1) False by simp
    then have "d1 = ?d" using r(2) d by (simp add: set_type_if_new_def BASE_lens)
    moreover have "L = set_data k ?d L" by (simp add: set_data_def)
    ultimately show ?thesis using d False L1 by (metis max.absorb1 not_less)
  qed
  then obtain j x where d1: "d1 = mint_prefix (base p) @ buffer es j" "length d1 = max (length ?d) m"
    and L1: "L1 = set_data k x L" by blast
  note st = unpack_mut_mint_prefix [OF r(3) [unfolded d1(1)]]
  obtain n' where s: "set_extension MintBase E v tlv = buffer ?u n'" "wf_entries ?u"
    "length (buffer ?u n') = length (buffer es j)" "overwr \<or> map_of es ?V = None"
    by (rule store_extension [OF assms(5) r(4) [unfolded st(2)], of v])
  have "L' = set_data k (mint_prefix (base p) @ buffer ?u n') L"
    unfolding r(5) s(1) st(5) L1 by (simp add: set_data_def)
  moreover have "166 + length (buffer ?u n') = max (length ?d) m" using d1 s(3) by simp
  ultimately show thesis using that s(2,4) m_def by metis
qed

end


section \<open>When storing succeeds\<close>

definition resize_total :: resize where
  "resize_total k n L = Ok (set_data k (resize_value n (ac_data (L k))) L)"

lemma resizes_total: "resizes resize_total"
  by (simp add: resizes_def resize_total_def)

lemma unpack_mut_prefix_Ok:
  assumes "mint_is_initialized b" "166 + length x \<noteq> MULTISIG_LEN"
  shows "unpack_mut PodMintB (mint_prefix b @ x) =
    Ok \<lparr>base = b, tlv_data = x, account_type = [account_type_code Mint]\<rparr>"
  using assms unfolding unpack_mut_mint by simp

lemma unpack_prefix_Ok:
  assumes "mint_is_initialized b" "166 + length x \<noteq> MULTISIG_LEN"
  shows "unpack PodMintB (mint_prefix b @ x) = Ok \<lparr>base = b, tlv_data = x\<rparr>"
  using assms unfolding unpack_mint by simp

lemma set_type_if_new_prefix: "set_type_if_new S (length (mint_prefix b @ x)) d = Ok d"
  by (simp add: set_type_if_new_def BASE_lens)

context extension
begin

text \<open>A mint with extensions takes any further one that it does not have.\<close>

lemma alloc_and_serialize_succeeds:
  assumes "ac_data (L k) = mint_prefix b @ buffer es n" "mint_is_initialized b" "wf_entries es"
    and "166 + length (buffer es n) \<noteq> MULTISIG_LEN" "get_account_type (EXT_TYPE E) = Mint"
    and "map_of es (EXT_TYPE E) = None" "pod_len E < 2 ^ 16"
  shows "\<exists>L'. alloc_and_serialize resize_total PodMintB E v overwr k L = Ok L'"
proof -
  let ?V = "EXT_TYPE E" and ?d = "mint_prefix b @ buffer es n"
  have V: "get_account_type ?V = ACCOUNT_TYPE MintBase" using assms(5) by simp
  define m where "m = adjust_len_for_multisig
    (length (entries_bytes (AList.update ?V (replicate (pod_len E) 0) es)) + BASE_ACCOUNT_AND_TYPE_LENGTH)"
  have u: "unpack PodMintB (ac_data (L k)) = Ok \<lparr>base = b, tlv_data = buffer es n\<rparr>"
    using assms(1,2,4) by (simp add: unpack_prefix_Ok)
  have new: "try_get_new_account_len MintBase E (buffer es n) = Ok m"
    using try_get_new_account_len_buffer [OF assms(3) V, of n "pod_len E"]
    by (simp add: try_get_new_account_len_def m_def)
  have "length (entries_bytes (AList.update ?V (replicate (pod_len E) 0) es)) = length (entries_bytes es) + 4 + pod_len E"
    using assms(6) by (simp add: update_new map_of_None_iff)
  then have m: "length (entries_bytes es) + 4 + pod_len E + 166 \<le> m"
    using adjust_len_ge [of "length (entries_bytes es) + 4 + pod_len E + 166"] by (simp add: m_def BASE_lens)
  define L1 where "L1 = (if m > length ?d then set_data k (resize_value m ?d) L else L)"
  obtain j where j: "ac_data (L1 k) = mint_prefix b @ buffer es j" "4 + pod_len E \<le> j"
    "166 + length (buffer es j) \<noteq> MULTISIG_LEN"
  proof (cases "m > length ?d")
    case True
    then have "ac_data (L1 k) = mint_prefix b @ buffer es (m - 166 - length (entries_bytes es))"
      using m by (simp add: L1_def resize_value_append resize_value_buffer)
    moreover have "166 + length (buffer es (m - 166 - length (entries_bytes es))) = m" using m by simp
    moreover have "m \<noteq> MULTISIG_LEN" unfolding m_def by (rule adjust_len_not_multisig)
    ultimately show ?thesis using m by (intro that [of "m - 166 - length (entries_bytes es)"]) linarith+
  next
    case False
    then show ?thesis using that [of n] assms(1,4) m by (simp add: L1_def)
  qed
  have r: "(if m > length (ac_data (L k)) then resize_total k m L else Ok L) = Ok L1"
    using assms(1) by (simp add: L1_def resize_total_def)
  have st: "unpack_mut PodMintB (mint_prefix b @ buffer es j) =
      Ok \<lparr>base = b, tlv_data = buffer es j, account_type = [account_type_code Mint]\<rparr>"
    using assms(2) j(3) by (rule unpack_mut_prefix_Ok)
  obtain tlv where tlv: "init_extension MintBase E overwr (buffer es j) = Ok tlv"
    using alloc_new [OF assms(3) V assms(6), of "pod_len E" overwr j] j(2) assms(7)
    by (auto simp: init_extension_def)
  have t: "set_type_if_new MintBase (length (ac_data (L k))) (ac_data (L1 k)) = Ok (mint_prefix b @ buffer es j)"
    unfolding assms(1) set_type_if_new_prefix j(1) by (rule refl)
  show ?thesis
    unfolding alloc_and_serialize_def Let_def base_sel u and_then_simps PodStateWithExtensions.select_convs new r t st
    by (simp add: tlv)
qed

end

text \<open>A mint with extensions stores any value that packs into its length, growing or shrinking as needed.\<close>

lemma alloc_and_serialize_variable_len_succeeds:
  assumes "ac_data (L k) = mint_prefix b @ buffer es n" "mint_is_initialized b" "wf_entries es"
    and "166 + length (buffer es n) \<noteq> MULTISIG_LEN" "get_account_type (VL_TYPE E) = Mint"
    and "overwr \<or> map_of es (VL_TYPE E) = None" "get_packed_len E v = Ok len" "len < 2 ^ 16"
    and "\<And>dst. length dst = len \<Longrightarrow> \<exists>dst'. vl_pack_into_slice E v dst = Ok dst'"
  shows "\<exists>L'. alloc_and_serialize_variable_len_extension resize_total PodMintB E v overwr k L = Ok L'"
proof -
  let ?V = "VL_TYPE E" and ?d = "mint_prefix b @ buffer es n"
  have V: "get_account_type ?V = ACCOUNT_TYPE MintBase" using assms(5) by simp
  let ?u = "AList.update ?V (replicate len 0) es"
  define m where "m = adjust_len_for_multisig (length (entries_bytes ?u) + BASE_ACCOUNT_AND_TYPE_LENGTH)"
  have u: "unpack PodMintB (ac_data (L k)) = Ok \<lparr>base = b, tlv_data = buffer es n\<rparr>"
    using assms(1,2,4) by (simp add: unpack_prefix_Ok)
  have new: "try_get_new_account_len_for_variable_len_extension MintBase E v (buffer es n) = Ok m"
    using try_get_new_account_len_buffer [OF assms(3) V, of n len] assms(7)
    by (simp add: try_get_new_account_len_for_variable_len_extension_def m_def)
  have ex: "is_ok (get_extension_bytes MintBase ?V (buffer es n)) \<longleftrightarrow> map_of es ?V \<noteq> None"
    by (auto simp: get_extension_bytes_buffer [OF assms(3) V] split: option.split)
  have m: "length (entries_bytes ?u) + 166 \<le> m"
    using adjust_len_ge [of "length (entries_bytes ?u) + 166"] by (simp add: m_def BASE_lens)
  have store: "\<exists>tlv. (if map_of es ?V \<noteq> None then realloc_variable_len_extension E v (buffer es j)
      else init_variable_len_extension MintBase E v False (buffer es j)) = Ok tlv"
    if j: "length (entries_bytes ?u) \<le> length (buffer es j)" for j
  proof (cases "map_of es ?V")
    case None
    then have "4 + len \<le> j" using j by (simp add: update_new map_of_None_iff)
    moreover have "length (subslice (length (entries_bytes es) + 4) len
        (buffer (es @ [(?V, replicate len 0)]) (j - 4 - len))) = len"
      using \<open>4 + len \<le> j\<close> by (intro length_subslice) simp
    ultimately obtain ys where ys: "vl_pack_into_slice E v (subslice (length (entries_bytes es) + 4) len
        (buffer (es @ [(?V, replicate len 0)]) (j - 4 - len))) = Ok ys" using assms(9) by blast
    have "alloc MintBase ?V len False (buffer es j) =
        Ok (buffer (es @ [(?V, replicate len 0)]) (j - 4 - len), length (entries_bytes es) + 4)"
      using alloc_new [OF assms(3) V None, of len False j] assms(8) \<open>4 + len \<le> j\<close> by simp
    with ys show ?thesis
      using None by (simp only: init_variable_len_extension_def pack_at_def assms(7) and_then_simps) simp
  next
    case (Some w)
    obtain pre post where es: "es = pre @ (?V, w) # post" "?V \<notin> fst ` set pre" "?V \<noteq> ExtensionType.Uninitialized"
      using split_entry [OF assms(3) Some] by metis
    then have "len \<le> length w + j" using j by (simp add: update_found)
    moreover have "length (subslice (length (entries_bytes pre) + 4) len
        (buffer (pre @ (?V, resize_value len w) # post) (j + length w - len))) = len"
      by (intro length_subslice) simp
    ultimately obtain ys where ys: "vl_pack_into_slice E v (subslice (length (entries_bytes pre) + 4) len
        (buffer (pre @ (?V, resize_value len w) # post) (j + length w - len))) = Ok ys" using assms(9) by blast
    have "realloc ?V len (buffer es j) =
        Ok (buffer (pre @ (?V, resize_value len w) # post) (j + length w - len), length (entries_bytes pre) + 4, len)"
      using realloc_found [of pre ?V w post len j] assms(3,8) es \<open>len \<le> length w + j\<close> by auto
    with ys show ?thesis
      using Some by (simp only: realloc_variable_len_extension_def pack_at_def assms(7) and_then_simps) simp
  qed
  show ?thesis
  proof (cases "length ?d < m")
    case True
    let ?L = "set_data k (resize_value m ?d) L"
    define j where "j = m - 166 - length (entries_bytes es)"
    have d: "ac_data (?L k) = mint_prefix b @ buffer es j"
      using True by (simp add: resize_value_append resize_value_buffer j_def)
    have l: "166 + length (buffer es j) = m" using True by (simp add: j_def)
    have "m \<noteq> MULTISIG_LEN" unfolding m_def by (rule adjust_len_not_multisig)
    then have "166 + length (buffer es j) \<noteq> MULTISIG_LEN" unfolding l .
    note st = unpack_mut_prefix_Ok [OF assms(2) this]
    have r: "resize_total k m L = Ok ?L" using assms(1) by (simp add: resize_total_def)
    have "length (entries_bytes ?u) \<le> length (buffer es j)" using m l by linarith
    then obtain tlv where "(if map_of es ?V \<noteq> None then realloc_variable_len_extension E v (buffer es j)
        else init_variable_len_extension MintBase E v False (buffer es j)) = Ok tlv"
      using store [of j] by blast
    moreover have t: "set_type_if_new MintBase (length (ac_data (L k))) x = Ok x" for x
      unfolding assms(1) by (rule set_type_if_new_prefix)
    ultimately show ?thesis
      using True assms(6)
      unfolding alloc_and_serialize_variable_len_extension_def Let_def base_sel u and_then_simps
        PodStateWithExtensions.select_convs new ex r t d st
      by (auto simp: assms(1) st split: if_splits)
  next
    case False
    note st = unpack_mut_prefix_Ok [OF assms(2,4)]
    have "length (entries_bytes ?u) \<le> length (buffer es n)" using m False by simp
    then obtain tlv where "(if map_of es ?V \<noteq> None then realloc_variable_len_extension E v (buffer es n)
        else init_variable_len_extension MintBase E v False (buffer es n)) = Ok tlv"
      using store [of n] by blast
    then show ?thesis
      using False assms(6)
      unfolding alloc_and_serialize_variable_len_extension_def Let_def base_sel u and_then_simps
        PodStateWithExtensions.select_convs new ex
      by (auto simp: assms(1) st resize_total_def split: if_splits)
  qed
qed


section \<open>Properties\<close>

lemma alloc_and_serialize_variable_len_facts:
  assumes "resizes rs" "packs_back E" "get_account_type (VL_TYPE E) = Mint"
    and "unpack PodMintB (ac_data (L k)) = Ok p" "tlv_data p = buffer es n" "wf_entries es"
    and "alloc_and_serialize_variable_len_extension rs PodMintB E v overwr k L = Ok L'"
  shows "\<exists>p' ys n'. unpack PodMintB (ac_data (L' k)) = Ok p' \<and> base p' = base p \<and>
      get_variable_len_extension MintBase E (tlv_data p') = Ok v \<and>
      tlv_data p' = buffer (AList.update (VL_TYPE E) ys es) n' \<and>
      try_get_account_len MintBase (tlv_data p') = Ok (length (ac_data (L' k)))"
    and "V \<noteq> VL_TYPE E \<Longrightarrow> get_account_type V = Mint \<Longrightarrow> unpack PodMintB (ac_data (L' k)) = Ok p' \<Longrightarrow>
      get_extension_bytes MintBase V (tlv_data p) = Ok w \<Longrightarrow> get_extension_bytes MintBase V (tlv_data p') = Ok w"
    and "k' \<noteq> k \<Longrightarrow> L' k' = L k'"
    and "ac_lamports (L' k) = ac_lamports (L k)" "ac_owner (L' k) = ac_owner (L k)"
    and "overwr \<or> map_of es (VL_TYPE E) = None"
proof -
  obtain ys n' where r: "vl_unpack_from_slice E ys = Ok v"
    "L' = set_data k (mint_prefix (base p) @ buffer (AList.update (VL_TYPE E) ys es) n') L"
    "wf_entries (AList.update (VL_TYPE E) ys es)"
    "166 + length (buffer (AList.update (VL_TYPE E) ys es) n') =
      adjust_len_for_multisig (166 + length (entries_bytes (AList.update (VL_TYPE E) ys es)))"
    "overwr \<or> map_of es (VL_TYPE E) = None"
    by (rule alloc_and_serialize_variable_len_effect [OF assms])
  let ?u = "AList.update (VL_TYPE E) ys es"
  have i: "mint_is_initialized (base p)" using assms(4) unfolding unpack_mint by simp
  have "166 + length (buffer ?u n') \<noteq> MULTISIG_LEN" unfolding r(4) by (rule adjust_len_not_multisig)
  note u = unpack_prefix_Ok [OF i this]
  have V: "get_account_type (VL_TYPE E) = ACCOUNT_TYPE MintBase" using assms(3) by simp
  have ne: "?u \<noteq> []" by (cases es) auto
  have "get_variable_len_extension MintBase E (buffer ?u n') = Ok v"
    using get_extension_bytes_buffer [OF r(3) V, of n'] r(1)
    by (simp add: get_variable_len_extension_def update_conv')
  moreover have "try_get_account_len MintBase (buffer ?u n') = Ok (length (ac_data (L' k)))"
    using r(2,4) ne by (simp add: try_get_account_len_buffer [OF r(3)] BASE_lens add.commute)
  ultimately show "\<exists>p' ys n'. unpack PodMintB (ac_data (L' k)) = Ok p' \<and> base p' = base p \<and>
      get_variable_len_extension MintBase E (tlv_data p') = Ok v \<and>
      tlv_data p' = buffer (AList.update (VL_TYPE E) ys es) n' \<and>
      try_get_account_len MintBase (tlv_data p') = Ok (length (ac_data (L' k)))"
    using u r(2) by (intro exI [of _ "\<lparr>base = base p, tlv_data = buffer ?u n'\<rparr>"] exI [of _ ys] exI [of _ n']) simp
  show "V \<noteq> VL_TYPE E \<Longrightarrow> get_account_type V = Mint \<Longrightarrow> unpack PodMintB (ac_data (L' k)) = Ok p' \<Longrightarrow>
      get_extension_bytes MintBase V (tlv_data p) = Ok w \<Longrightarrow> get_extension_bytes MintBase V (tlv_data p') = Ok w"
    using u r(2) assms(5)
    by (auto simp: get_extension_bytes_buffer [OF r(3)] get_extension_bytes_buffer [OF assms(6)] update_conv'
        split: option.splits if_splits)
  show "k' \<noteq> k \<Longrightarrow> L' k' = L k'" "ac_lamports (L' k) = ac_lamports (L k)" "ac_owner (L' k) = ac_owner (L k)"
    by (simp_all add: r(2))
  show "overwr \<or> map_of es (VL_TYPE E) = None" by (fact r(5))
qed

text \<open>
  C18: storing a variable-length extension in a mint whose extension buffer is a list of entries
  makes that value readable, updates exactly that entry of the list, leaves the base of the mint and
  all other accounts as they were, and leaves the account exactly as long as its entries need
  (whether it had to grow or to shrink); an existing entry is only replaced when overwriting is asked for.
\<close>

theorem alloc_and_serialize_variable_len_correct:
  assumes "resizes rs" "packs_back E" "get_account_type (VL_TYPE E) = Mint"
    and "unpack PodMintB (ac_data (L k)) = Ok p" "tlv_data p = buffer es n" "wf_entries es"
    and "alloc_and_serialize_variable_len_extension rs PodMintB E v overwr k L = Ok L'"
  shows "(\<exists>p' ys n'. unpack PodMintB (ac_data (L' k)) = Ok p' \<and> base p' = base p \<and>
      get_variable_len_extension MintBase E (tlv_data p') = Ok v \<and>
      tlv_data p' = buffer (AList.update (VL_TYPE E) ys es) n' \<and>
      try_get_account_len MintBase (tlv_data p') = Ok (length (ac_data (L' k)))) \<and>
    (V \<noteq> VL_TYPE E \<longrightarrow> get_account_type V = Mint \<longrightarrow> unpack PodMintB (ac_data (L' k)) = Ok p' \<longrightarrow>
      get_extension_bytes MintBase V (tlv_data p) = Ok w \<longrightarrow> get_extension_bytes MintBase V (tlv_data p') = Ok w) \<and>
    (k' \<noteq> k \<longrightarrow> L' k' = L k') \<and>
    ac_lamports (L' k) = ac_lamports (L k) \<and> ac_owner (L' k) = ac_owner (L k) \<and>
    (overwr \<or> map_of es (VL_TYPE E) = None)"
  using alloc_and_serialize_variable_len_facts(1,3,4,5,6) [OF assms]
    alloc_and_serialize_variable_len_facts(2) [OF assms, of V p' w] by blast

text \<open>
  The variable-length value of the tests of extension/mod.rs (\<open>VariableLenMintTest\<close>: eight bytes of
  length, then the bytes), here under the type of token metadata.
\<close>

definition VariableLenMintTest :: "bytes VariableLen" where
  "VariableLenMintTest = \<lparr>VL_TYPE = TokenMetadata, get_packed_len = (\<lambda>data. Ok (8 + length data)),
     vl_pack_into_slice = (\<lambda>data dst. if length dst < 8 + length data then Err InvalidAccountData
       else Ok (to_le 8 (word_of_nat (length data) :: u64) @ data @ drop (8 + length data) dst)),
     vl_unpack_from_slice = (\<lambda>src. let len = unat (from_le (take 8 src) :: u64)
       in if length src < 8 + len then Err Panicked else Ok (subslice 8 len src))\<rparr>"

lemma packs_back_test: "packs_back VariableLenMintTest"
  by (auto simp: packs_back_def VariableLenMintTest_def Let_def unat_of_nat subslice_simps)

definition test_mint_data :: bytes where
  "test_mint_data = mint_prefix (plain_mint 30 150)
     @ buffer [(ExtensionType.MintCloseAuthority, to_le 32 (77 :: pubkey)), (TokenMetadata, to_le 8 (3 :: u64) @ [1, 2, 3])] 0"

theorem alloc_and_serialize_variable_len_correct_witness:
  "\<exists>L' p'. alloc_and_serialize_variable_len_extension resize_total PodMintB VariableLenMintTest [9, 8, 7, 6, 5] True 1
      (set_data 1 test_mint_data demo_ledger) = Ok L' \<and>
    unpack PodMintB (ac_data (L' 1)) = Ok p' \<and>
    get_variable_len_extension MintBase VariableLenMintTest (tlv_data p') = Ok [9, 8, 7, 6, 5]"
proof -
  let ?es = "[(ExtensionType.MintCloseAuthority, to_le 32 (77 :: pubkey)), (TokenMetadata, to_le 8 (3 :: u64) @ [1, 2, 3])]"
  let ?L = "set_data 1 test_mint_data demo_ledger"
  have wf: "wf_entries ?es" by (simp add: wf_entry_def)
  have i: "mint_is_initialized (plain_mint 30 150)"
    by (simp add: plain_mint_def mint_is_initialized_def)
  have l: "166 + length (buffer ?es 0) \<noteq> MULTISIG_LEN" by (simp add: MULTISIG_LEN_def)
  have d: "ac_data (?L 1) = mint_prefix (plain_mint 30 150) @ buffer ?es 0" by (simp add: test_mint_data_def)
  note u = unpack_prefix_Ok [OF i l]
  obtain L' where L': "alloc_and_serialize_variable_len_extension resize_total PodMintB VariableLenMintTest
      [9, 8, 7, 6, 5] True 1 ?L = Ok L'"
    using alloc_and_serialize_variable_len_succeeds [where L = ?L and k = 1 and E = VariableLenMintTest and overwr = True
        and v = "[9, 8, 7, 6, 5]" and len = 13, OF d i wf l]
    by (auto simp: VariableLenMintTest_def)
  have "get_account_type (VL_TYPE VariableLenMintTest) = Mint" by (simp add: VariableLenMintTest_def)
  from alloc_and_serialize_variable_len_correct [THEN conjunct1, OF resizes_total packs_back_test this _ _ wf L',
      of "\<lparr>base = plain_mint 30 150, tlv_data = buffer ?es 0\<rparr>" 0] u
  show ?thesis using L' unfolding d by auto
qed

end
