(* ===== verification/Token_Group.thy ===== *)
theory Token_Group
  imports Serialize
begin

text \<open>
  Token groups (src/program/src/extension/token_group/processor.rs): a mint that is a group counts its
  members, and a member mint records its group.  The structs \<open>TokenGroup\<close> and \<open>TokenGroupMember\<close>, their
  methods and errors belong to the token-group interface: they are the fields of \<open>TokenGroupInterface\<close>.
\<close>

record ('g, 'm) TokenGroupInterface =
  group_ext :: "'g Extension"
  group_new :: "pubkey \<Rightarrow> OptionalNonZeroPubkey \<Rightarrow> u64 \<Rightarrow> 'g"
  group_update_authority :: "'g \<Rightarrow> OptionalNonZeroPubkey"
  group_set_update_authority :: "OptionalNonZeroPubkey \<Rightarrow> 'g \<Rightarrow> 'g"
  group_update_max_size :: "u64 \<Rightarrow> 'g \<Rightarrow> 'g result"
  group_increment_size :: "'g \<Rightarrow> (u64 \<times> 'g) result"
  member_ext :: "'m Extension"
  member_new :: "pubkey \<Rightarrow> pubkey \<Rightarrow> u64 \<Rightarrow> 'm"
  immutable_group :: ProgramError
  incorrect_update_authority :: ProgramError
  incorrect_mint_authority :: ProgramError
  member_account_is_group_account :: ProgramError

datatype TokenGroupInstruction =
    InitializeGroup OptionalNonZeroPubkey u64
  | UpdateGroupMaxSize u64
  | UpdateGroupAuthority OptionalNonZeroPubkey
  | InitializeMember

definition check_update_authority ::
  "AccountInfo \<Rightarrow> OptionalNonZeroPubkey \<Rightarrow> ProgramError \<Rightarrow> ProgramError \<Rightarrow> unit result" where
  "check_update_authority update_authority_info expected_update_authority immutable incorrect =
     (if \<not> ai_is_signer update_authority_info then Err MissingRequiredSignature
      else and_then (ok_or (opt_key expected_update_authority) immutable) (\<lambda>update_authority.
           if update_authority \<noteq> ai_key update_authority_info then Err incorrect else Ok ()))"

text \<open>
  The check before an extension that describes the mint is stored in it: the mint authority signed
  and the mint has the pointer extension \<open>P\<close>.
\<close>

definition check_described_mint ::
  "'p Extension \<Rightarrow> ProgramError \<Rightarrow> AccountInfo \<Rightarrow> AccountInfo \<Rightarrow> ledger \<Rightarrow> unit result" where
  "check_described_mint P incorrect mint_info mint_authority_info L =
     and_then (check_program_account (ac_owner (L (ai_key mint_info)))) (\<lambda>_.
     and_then (unpack PodMintB (ac_data (L (ai_key mint_info)))) (\<lambda>mint.
     if \<not> ai_is_signer mint_authority_info then Err MissingRequiredSignature
     else if m_mint_authority (base mint) \<noteq> coption_some (ai_key mint_authority_info) then Err incorrect
     else if \<not> is_ok (get_extension MintBase P (tlv_data mint)) then TErr InvalidExtensionCombination
     else Ok ()))"

definition process_initialize_group ::
  "('g, 'm) TokenGroupInterface \<Rightarrow> resize \<Rightarrow> AccountInfo list \<Rightarrow> OptionalNonZeroPubkey \<Rightarrow> u64 \<Rightarrow> ledger \<Rightarrow>
     ledger result" where
  "process_initialize_group I rs accounts update_authority max_size L =
     and_then (next_account_info accounts) (\<lambda>(group_info, iter).
     and_then (next_account_info iter) (\<lambda>(mint_info, iter).
     and_then (next_account_info iter) (\<lambda>(mint_authority_info, _).
     if ai_key group_info \<noteq> ai_key mint_info then TErr MintMismatch
     else and_then (check_described_mint GroupPointerX (incorrect_mint_authority I) mint_info
            mint_authority_info L) (\<lambda>_.
          let group = group_new I (ai_key mint_info) update_authority max_size
          in alloc_and_serialize rs PodMintB (group_ext I) group False (ai_key group_info) L))))"

text \<open>The mutable group of a mint, once its update authority is checked, under a change \<open>f\<close>.\<close>

definition update_group ::
  "('g, 'm) TokenGroupInterface \<Rightarrow> AccountInfo \<Rightarrow> AccountInfo \<Rightarrow> ('g \<Rightarrow> ('x \<times> 'g) result) \<Rightarrow> ledger \<Rightarrow>
     ('x \<times> ledger) result" where
  "update_group I group_info update_authority_info f L =
     and_then (unpack_mut PodMintB (ac_data (L (ai_key group_info)))) (\<lambda>state.
     and_then (get_extension_mut MintBase (group_ext I) (tlv_data state)) (\<lambda>(group, _).
     and_then (check_update_authority update_authority_info (group_update_authority I group)
       (immutable_group I) (incorrect_update_authority I)) (\<lambda>_.
     and_then (f group) (\<lambda>(x, group).
     Ok (x, set_data (ai_key group_info) (pack_state PodMintB
       (state\<lparr>tlv_data := set_extension MintBase (group_ext I) group (tlv_data state)\<rparr>)) L)))))"

definition process_update_group_max_size ::
  "('g, 'm) TokenGroupInterface \<Rightarrow> AccountInfo list \<Rightarrow> u64 \<Rightarrow> ledger \<Rightarrow> ledger result" where
  "process_update_group_max_size I accounts max_size L =
     and_then (next_account_info accounts) (\<lambda>(group_info, iter).
     and_then (next_account_info iter) (\<lambda>(update_authority_info, _).
     and_then (update_group I group_info update_authority_info
       (\<lambda>group. and_then (group_update_max_size I max_size group) (\<lambda>group. Ok ((), group))) L) (\<lambda>(_, L).
     Ok L)))"

definition process_update_group_authority ::
  "('g, 'm) TokenGroupInterface \<Rightarrow> AccountInfo list \<Rightarrow> OptionalNonZeroPubkey \<Rightarrow> ledger \<Rightarrow> ledger result" where
  "process_update_group_authority I accounts new_authority L =
     and_then (next_account_info accounts) (\<lambda>(group_info, iter).
     and_then (next_account_info iter) (\<lambda>(update_authority_info, _).
     and_then (update_group I group_info update_authority_info
       (\<lambda>group. Ok ((), group_set_update_authority I new_authority group)) L) (\<lambda>(_, L).
     Ok L)))"

definition process_initialize_member ::
  "('g, 'm) TokenGroupInterface \<Rightarrow> resize \<Rightarrow> AccountInfo list \<Rightarrow> ledger \<Rightarrow> ledger result" where
  "process_initialize_member I rs accounts L =
     and_then (next_account_info accounts) (\<lambda>(member_info, iter).
     and_then (next_account_info iter) (\<lambda>(member_mint_info, iter).
     and_then (next_account_info iter) (\<lambda>(member_mint_authority_info, iter).
     and_then (next_account_info iter) (\<lambda>(group_info, iter).
     and_then (next_account_info iter) (\<lambda>(group_update_authority_info, _).
     if ai_key member_info \<noteq> ai_key member_mint_info then TErr MintMismatch
     else and_then (check_described_mint GroupMemberPointerX (incorrect_mint_authority I) member_mint_info
            member_mint_authority_info L) (\<lambda>_.
          if ai_key member_info = ai_key group_info then Err (member_account_is_group_account I)
          else and_then (update_group I group_info group_update_authority_info (group_increment_size I) L)
            (\<lambda>(member_number, L).
               let member = member_new I (ai_key member_mint_info) (ai_key group_info) member_number
               in alloc_and_serialize rs PodMintB (member_ext I) member False (ai_key member_info) L)))))))"

definition process_token_group_instruction ::
  "('g, 'm) TokenGroupInterface \<Rightarrow> resize \<Rightarrow> AccountInfo list \<Rightarrow> TokenGroupInstruction \<Rightarrow> ledger \<Rightarrow> ledger result" where
  "process_token_group_instruction I rs accounts instruction L =
     (case instruction of
        InitializeGroup update_authority max_size \<Rightarrow> process_initialize_group I rs accounts update_authority max_size L
      | UpdateGroupMaxSize max_size \<Rightarrow> process_update_group_max_size I accounts max_size L
      | UpdateGroupAuthority new_authority \<Rightarrow> process_update_group_authority I accounts new_authority L
      | InitializeMember \<Rightarrow> process_initialize_member I rs accounts L)"

section \<open>What the steps do\<close>

lemma check_update_authority_Ok [res_simps]:
  "check_update_authority a k e1 e2 = Ok u \<longleftrightarrow> ai_is_signer a \<and> opt_key k = Some (ai_key a)"
  by (auto simp: check_update_authority_def res_simps)

lemma check_described_mint_Ok [res_simps]:
  "check_described_mint P e m a L = Ok u \<longleftrightarrow>
     ac_owner (L (ai_key m)) = token_program_id \<and> ai_is_signer a \<and>
     (\<exists>mint v. unpack PodMintB (ac_data (L (ai_key m))) = Ok mint \<and>
        m_mint_authority (base mint) = coption_some (ai_key a) \<and> get_extension MintBase P (tlv_data mint) = Ok v)"
  by (auto simp: check_described_mint_def res_simps is_ok_iff)

text \<open>What the code relies on: the two structs are plain old data stored under their own types.\<close>

definition group_interface :: "('g, 'm) TokenGroupInterface \<Rightarrow> bool" where
  "group_interface I \<longleftrightarrow> extension (group_ext I) \<and> EXT_TYPE (group_ext I) = TokenGroup \<and>
     extension (member_ext I) \<and> EXT_TYPE (member_ext I) = TokenGroupMember"

lemma update_group_effect:
  assumes "group_interface I" "update_group I g a f L = Ok (x, L')"
  obtains mint mint' group group' where
    "unpack_mut PodMintB (ac_data (L (ai_key g))) = Ok mint"
    "get_extension MintBase (group_ext I) (tlv_data mint) = Ok group" "f group = Ok (x, group')"
    "ai_is_signer a" "opt_key (group_update_authority I group) = Some (ai_key a)"
    "L' = set_data (ai_key g) (pack_state PodMintB mint') L"
    "unpack_mut PodMintB (ac_data (L' (ai_key g))) = Ok mint'" "base mint' = base mint"
    "get_extension MintBase (group_ext I) (tlv_data mint') = Ok group'"
    "\<forall>V. V \<noteq> TokenGroup \<longrightarrow>
      get_extension_bytes MintBase V (tlv_data mint') = get_extension_bytes MintBase V (tlv_data mint)"
proof -
  have E: "extension (group_ext I)" "EXT_TYPE (group_ext I) = TokenGroup"
    using assms(1) by (simp_all add: group_interface_def)
  obtain mint group i group' where
    h: "unpack_mut PodMintB (ac_data (L (ai_key g))) = Ok mint"
      "get_extension_mut MintBase (group_ext I) (tlv_data mint) = Ok (group, i)" "f group = Ok (x, group')"
      "ai_is_signer a" "opt_key (group_update_authority I group) = Some (ai_key a)"
      "L' = set_data (ai_key g) (pack_state PodMintB
         (mint\<lparr>tlv_data := set_extension MintBase (group_ext I) group' (tlv_data mint)\<rparr>)) L"
    using assms(2) by (auto simp: update_group_def res_simps)
  let ?mint' = "mint\<lparr>tlv_data := set_extension MintBase (group_ext I) group' (tlv_data mint)\<rparr>"
  have g: "get_extension MintBase (group_ext I) (tlv_data mint) = Ok group" by (rule get_extension_mut_Ok_get [OF h(2)])
  have u: "unpack_mut PodMintB (pack_state PodMintB ?mint') = Ok ?mint'"
    using h(1) extension.length_set_extension [OF E(1)]
    by (intro mint_base.unpack_pack_state [OF h(1)]) (auto simp: unpack_mut_mint)
  show thesis
  proof (rule that [OF h(1) g h(3-6)])
    show "unpack_mut PodMintB (ac_data (L' (ai_key g))) = Ok ?mint'" using u by (simp add: h(6))
    show "base ?mint' = base mint" by simp
    show "get_extension MintBase (group_ext I) (tlv_data ?mint') = Ok group'"
      using extension.get_set_same [OF E(1) g] by simp
    show "\<forall>V. V \<noteq> TokenGroup \<longrightarrow>
        get_extension_bytes MintBase V (tlv_data ?mint') = get_extension_bytes MintBase V (tlv_data mint)"
      using extension.get_set_other_bytes [OF E(1)] E(2) by simp
  qed
qed

lemma get_extension_buffer:
  assumes "extension E" "get_account_type (EXT_TYPE E) = Mint" "wf_entries es"
    and "map_of es (EXT_TYPE E) = Some (ext_enc E v)"
  shows "get_extension MintBase E (buffer es n) = Ok v"
proof -
  have "pod (pod_len E) (ext_enc E) (ext_dec E)" using assms(1) by (simp add: extension_def)
  then have "length (ext_enc E v) = pod_len E" "ext_dec E (ext_enc E v) = v"
    by (simp_all add: pod_def)
  then show ?thesis
    using get_extension_bytes_buffer [OF assms(3), of "EXT_TYPE E" MintBase n] assms(2,4)
    by (simp add: get_extension_def pod_from_bytes_def)
qed

lemma initialize_member_effect:
  assumes "group_interface I" "resizes rs"
    and "unpack PodMintB (ac_data (L (ai_key m))) = Ok p" "tlv_data p = buffer es n" "wf_entries es"
    and "process_initialize_member I rs (m # mm # ma # g # ga # rest) L = Ok L'"
  obtains mint mint' group group' number n' where
    "ai_key mm = ai_key m" "ai_is_signer ma" "m_mint_authority (base p) = coption_some (ai_key ma)"
    "ai_key g \<noteq> ai_key m" "ai_is_signer ga" "opt_key (group_update_authority I group) = Some (ai_key ga)"
    "group_increment_size I group = Ok (number, group')"
    "unpack_mut PodMintB (ac_data (L (ai_key g))) = Ok mint" "get_extension MintBase (group_ext I) (tlv_data mint) = Ok group"
    "unpack_mut PodMintB (ac_data (L' (ai_key g))) = Ok mint'" "get_extension MintBase (group_ext I) (tlv_data mint') = Ok group'"
    "base mint' = base mint"
    "\<forall>V. V \<noteq> TokenGroup \<longrightarrow> get_extension_bytes MintBase V (tlv_data mint') = get_extension_bytes MintBase V (tlv_data mint)"
    "L' (ai_key m) = (L (ai_key m))\<lparr>ac_data := mint_prefix (base p) @
       buffer (AList.update TokenGroupMember (ext_enc (member_ext I) (member_new I (ai_key m) (ai_key g) number)) es) n'\<rparr>"
    "wf_entries (AList.update TokenGroupMember (ext_enc (member_ext I) (member_new I (ai_key m) (ai_key g) number)) es)"
    "166 + length (buffer (AList.update TokenGroupMember
       (ext_enc (member_ext I) (member_new I (ai_key m) (ai_key g) number)) es) n') \<noteq> MULTISIG_LEN"
    "map_of es TokenGroupMember = None"
    "\<forall>k. k \<noteq> ai_key m \<longrightarrow> k \<noteq> ai_key g \<longrightarrow> L' k = L k"
proof -
  have E: "extension (member_ext I)" "EXT_TYPE (member_ext I) = TokenGroupMember"
    using assms(1) by (simp_all add: group_interface_def)
  obtain number L1 where h: "ai_key m = ai_key mm" "ai_is_signer ma"
    "m_mint_authority (base p) = coption_some (ai_key ma)" "ai_key m \<noteq> ai_key g"
    "update_group I g ga (group_increment_size I) L = Ok (number, L1)"
    "alloc_and_serialize rs PodMintB (member_ext I) (member_new I (ai_key mm) (ai_key g) number) False (ai_key m) L1 = Ok L'"
    using assms(3,6) by (auto simp: process_initialize_member_def res_simps split: if_splits)
  obtain mint mint' group group' where g:
    "unpack_mut PodMintB (ac_data (L (ai_key g))) = Ok mint"
    "get_extension MintBase (group_ext I) (tlv_data mint) = Ok group" "group_increment_size I group = Ok (number, group')"
    "ai_is_signer ga" "opt_key (group_update_authority I group) = Some (ai_key ga)"
    "L1 = set_data (ai_key g) (pack_state PodMintB mint') L"
    "unpack_mut PodMintB (ac_data (L1 (ai_key g))) = Ok mint'" "base mint' = base mint"
    "get_extension MintBase (group_ext I) (tlv_data mint') = Ok group'"
    "\<forall>V. V \<noteq> TokenGroup \<longrightarrow> get_extension_bytes MintBase V (tlv_data mint') = get_extension_bytes MintBase V (tlv_data mint)"
    by (rule update_group_effect [OF assms(1) h(5)])
  have u1: "unpack PodMintB (ac_data (L1 (ai_key m))) = Ok p" using assms(3) h(4) by (simp add: g(6))
  have "get_account_type (EXT_TYPE (member_ext I)) = Mint" by (simp add: E)
  from extension.alloc_and_serialize_effect [OF E(1) assms(2) this u1 assms(4,5) h(6), unfolded E(2)]
  obtain n' where a: "L' = set_data (ai_key m) (mint_prefix (base p) @ buffer (AList.update TokenGroupMember
       (ext_enc (member_ext I) (member_new I (ai_key mm) (ai_key g) number)) es) n') L1"
    "wf_entries (AList.update TokenGroupMember (ext_enc (member_ext I) (member_new I (ai_key mm) (ai_key g) number)) es)"
    "166 + length (buffer (AList.update TokenGroupMember
       (ext_enc (member_ext I) (member_new I (ai_key mm) (ai_key g) number)) es) n') =
      max (length (ac_data (L1 (ai_key m)))) (adjust_len_for_multisig (166 + length (entries_bytes
        (AList.update TokenGroupMember (ext_enc (member_ext I) (member_new I (ai_key mm) (ai_key g) number)) es))))"
    "False \<or> map_of es TokenGroupMember = None" by metis
  have lm: "max (length (ac_data (L1 (ai_key m)))) (adjust_len_for_multisig x) \<noteq> MULTISIG_LEN" for x
    using u1 adjust_len_not_multisig [of x] unfolding unpack_mint by (auto simp: max_def)
  show thesis
  proof (rule that [where mint = mint and mint' = mint' and group = group and group' = group'
        and number = number and n' = n'])
    show "unpack_mut PodMintB (ac_data (L' (ai_key g))) = Ok mint'" using g(7) h(4) by (simp add: a(1))
    show "L' (ai_key m) = (L (ai_key m))\<lparr>ac_data := mint_prefix (base p) @
       buffer (AList.update TokenGroupMember (ext_enc (member_ext I) (member_new I (ai_key m) (ai_key g) number)) es) n'\<rparr>"
      using h(1,4) by (simp add: a(1) g(6))
    show "\<forall>k. k \<noteq> ai_key m \<longrightarrow> k \<noteq> ai_key g \<longrightarrow> L' k = L k" by (simp add: a(1) g(6))
    show "166 + length (buffer (AList.update TokenGroupMember
       (ext_enc (member_ext I) (member_new I (ai_key m) (ai_key g) number)) es) n') \<noteq> MULTISIG_LEN"
      using a(3) lm h(1) by metis
  qed (use h g a in auto)
qed

text \<open>
  A mint becomes a member of a group only as its own mint authority and the update
  authority of the group sign, only once, and never of itself.  The group counts the new member with
  \<open>increment_size\<close>, whose number the member records together with its group; both mints keep their
  base and their other extensions, and no other account changes.
\<close>

theorem initialize_member_correct:
  assumes "group_interface I" "resizes rs"
    and "unpack PodMintB (ac_data (L (ai_key m))) = Ok p" "tlv_data p = buffer es n" "wf_entries es"
    and "process_initialize_member I rs (m # mm # ma # g # ga # rest) L = Ok L'"
  shows "\<exists>mint mint' group group' number p'.
    (ai_is_signer ma \<and> m_mint_authority (base p) = coption_some (ai_key ma)) \<and>
    (ai_is_signer ga \<and> opt_key (group_update_authority I group) = Some (ai_key ga)) \<and>
    ai_key g \<noteq> ai_key m \<and> map_of es TokenGroupMember = None \<and>
    unpack PodMintB (ac_data (L (ai_key g))) = Ok mint \<and> unpack PodMintB (ac_data (L' (ai_key g))) = Ok mint' \<and>
    get_extension MintBase (group_ext I) (tlv_data mint) = Ok group \<and>
    get_extension MintBase (group_ext I) (tlv_data mint') = Ok group' \<and>
    group_increment_size I group = Ok (number, group') \<and> base mint' = base mint \<and>
    (\<forall>V. V \<noteq> TokenGroup \<longrightarrow>
      get_extension_bytes MintBase V (tlv_data mint') = get_extension_bytes MintBase V (tlv_data mint)) \<and>
    unpack PodMintB (ac_data (L' (ai_key m))) = Ok p' \<and> base p' = base p \<and>
    get_extension MintBase (member_ext I) (tlv_data p') = Ok (member_new I (ai_key m) (ai_key g) number) \<and>
    (\<forall>V v. V \<noteq> TokenGroupMember \<longrightarrow> get_extension_bytes MintBase V (tlv_data p) = Ok v \<longrightarrow>
      get_extension_bytes MintBase V (tlv_data p') = Ok v) \<and>
    (\<forall>k. k \<noteq> ai_key m \<longrightarrow> k \<noteq> ai_key g \<longrightarrow> L' k = L k)"
proof -
  obtain mint mint' group group' number n' where r:
    "ai_key mm = ai_key m" "ai_is_signer ma" "m_mint_authority (base p) = coption_some (ai_key ma)"
    "ai_key g \<noteq> ai_key m" "ai_is_signer ga" "opt_key (group_update_authority I group) = Some (ai_key ga)"
    "group_increment_size I group = Ok (number, group')"
    "unpack_mut PodMintB (ac_data (L (ai_key g))) = Ok mint" "get_extension MintBase (group_ext I) (tlv_data mint) = Ok group"
    "unpack_mut PodMintB (ac_data (L' (ai_key g))) = Ok mint'" "get_extension MintBase (group_ext I) (tlv_data mint') = Ok group'"
    "base mint' = base mint"
    "\<forall>V. V \<noteq> TokenGroup \<longrightarrow> get_extension_bytes MintBase V (tlv_data mint') = get_extension_bytes MintBase V (tlv_data mint)"
    "L' (ai_key m) = (L (ai_key m))\<lparr>ac_data := mint_prefix (base p) @
       buffer (AList.update TokenGroupMember (ext_enc (member_ext I) (member_new I (ai_key m) (ai_key g) number)) es) n'\<rparr>"
    "wf_entries (AList.update TokenGroupMember (ext_enc (member_ext I) (member_new I (ai_key m) (ai_key g) number)) es)"
    "166 + length (buffer (AList.update TokenGroupMember
       (ext_enc (member_ext I) (member_new I (ai_key m) (ai_key g) number)) es) n') \<noteq> MULTISIG_LEN"
    "map_of es TokenGroupMember = None"
    "\<forall>k. k \<noteq> ai_key m \<longrightarrow> k \<noteq> ai_key g \<longrightarrow> L' k = L k"
    by (rule initialize_member_effect [OF assms])
  have E: "extension (member_ext I)" "EXT_TYPE (member_ext I) = TokenGroupMember"
    using assms(1) by (simp_all add: group_interface_def)
  define v where "v = member_new I (ai_key m) (ai_key g) number"
  let ?u = "AList.update TokenGroupMember (ext_enc (member_ext I) v) es"
  have i: "mint_is_initialized (base p)" using assms(3) unfolding unpack_mint by simp
  have p': "unpack PodMintB (ac_data (L' (ai_key m))) = Ok \<lparr>base = base p, tlv_data = buffer ?u n'\<rparr>"
    using unpack_prefix_Ok [OF i r(16)] by (simp add: r(14) v_def)
  have mv: "get_extension MintBase (member_ext I) (buffer ?u n') = Ok v"
    using r(15) by (intro get_extension_buffer [OF E(1)]) (simp_all add: E(2) v_def update_conv')
  have other: "get_extension_bytes MintBase V (buffer ?u n') = Ok w"
    if "V \<noteq> TokenGroupMember" "get_extension_bytes MintBase V (tlv_data p) = Ok w" for V w
  proof -
    have V: "get_account_type V = ACCOUNT_TYPE MintBase"
      using that(2) by (auto simp: get_extension_bytes_def split: if_splits)
    show ?thesis
      using that get_extension_bytes_buffer [OF r(15) V, of n'] get_extension_bytes_buffer [OF assms(5) V, of n]
      by (simp add: assms(4) v_def update_conv' split: option.splits if_splits)
  qed
  have gm: "unpack PodMintB (ac_data (L (ai_key g))) = Ok \<lparr>base = base mint, tlv_data = tlv_data mint\<rparr>"
    "unpack PodMintB (ac_data (L' (ai_key g))) = Ok \<lparr>base = base mint', tlv_data = tlv_data mint'\<rparr>"
    using r(8,10) by (simp_all add: unpack_eq)
  show ?thesis
    using r p' mv other gm
    by (intro exI [of _ "\<lparr>base = base mint, tlv_data = tlv_data mint\<rparr>"]
        exI [of _ "\<lparr>base = base mint', tlv_data = tlv_data mint'\<rparr>"] exI [of _ group] exI [of _ group'] exI [of _ number]
        exI [of _ "\<lparr>base = base p, tlv_data = buffer ?u n'\<rparr>"]) (simp add: v_def)
qed


section \<open>A concrete interface\<close>

text \<open>The two structs as the interface documents them: authority, mint, size, maximum; and mint, group, number.\<close>

record SampleGroup =
  sg_update_authority :: OptionalNonZeroPubkey
  sg_mint :: pubkey
  sg_size :: u64
  sg_max_size :: u64

record SampleMember =
  sm_mint :: pubkey
  sm_group :: pubkey
  sm_number :: u64

definition SampleGroupX :: "SampleGroup Extension" where
  "SampleGroupX = \<lparr>EXT_TYPE = TokenGroup, pod_len = 80,
     ext_enc = (\<lambda>g. to_le 32 (sg_update_authority g) @ to_le 32 (sg_mint g) @ to_le 8 (sg_size g) @ to_le 8 (sg_max_size g)),
     ext_dec = (\<lambda>bs. \<lparr>sg_update_authority = from_le (subslice 0 32 bs), sg_mint = from_le (subslice 32 32 bs),
       sg_size = from_le (subslice 64 8 bs), sg_max_size = from_le (subslice 72 8 bs)\<rparr>),
     ext_default = \<lparr>sg_update_authority = 0, sg_mint = 0, sg_size = 0, sg_max_size = 0\<rparr>\<rparr>"

definition SampleMemberX :: "SampleMember Extension" where
  "SampleMemberX = \<lparr>EXT_TYPE = TokenGroupMember, pod_len = 72,
     ext_enc = (\<lambda>m. to_le 32 (sm_mint m) @ to_le 32 (sm_group m) @ to_le 8 (sm_number m)),
     ext_dec = (\<lambda>bs. \<lparr>sm_mint = from_le (subslice 0 32 bs), sm_group = from_le (subslice 32 32 bs),
       sm_number = from_le (subslice 64 8 bs)\<rparr>),
     ext_default = \<lparr>sm_mint = 0, sm_group = 0, sm_number = 0\<rparr>\<rparr>"

interpretation sample_group: extension SampleGroupX
proof unfold_locales
  show "length (ext_enc SampleGroupX g) = pod_len SampleGroupX" for g by (simp add: SampleGroupX_def)
  show "ext_dec SampleGroupX (ext_enc SampleGroupX g) = g" for g
    by (simp add: SampleGroupX_def subslice_simps)
  show "ext_enc SampleGroupX (ext_dec SampleGroupX bs) = bs" if "length bs = pod_len SampleGroupX" for bs
    using that subslice_join [of 64 8 bs 8] subslice_join [of 32 32 bs 16] subslice_join [of 0 32 bs 48]
    by (simp add: SampleGroupX_def subslice_all)
qed

interpretation sample_member: extension SampleMemberX
proof unfold_locales
  show "length (ext_enc SampleMemberX g) = pod_len SampleMemberX" for g by (simp add: SampleMemberX_def)
  show "ext_dec SampleMemberX (ext_enc SampleMemberX g) = g" for g
    by (simp add: SampleMemberX_def subslice_simps)
  show "ext_enc SampleMemberX (ext_dec SampleMemberX bs) = bs" if "length bs = pod_len SampleMemberX" for bs
    using that subslice_join [of 32 32 bs 8] subslice_join [of 0 32 bs 40]
    by (simp add: SampleMemberX_def subslice_all)
qed

definition sample_interface :: "(SampleGroup, SampleMember) TokenGroupInterface" where
  "sample_interface = \<lparr>group_ext = SampleGroupX,
     group_new = (\<lambda>mint authority max_size. \<lparr>sg_update_authority = authority, sg_mint = mint, sg_size = 0, sg_max_size = max_size\<rparr>),
     group_update_authority = sg_update_authority,
     group_set_update_authority = (\<lambda>a g. g\<lparr>sg_update_authority := a\<rparr>),
     group_update_max_size = (\<lambda>n g. if n < sg_size g then Err (External 1) else Ok (g\<lparr>sg_max_size := n\<rparr>)),
     group_increment_size = (\<lambda>g. if sg_max_size g \<le> sg_size g then Err (External 2)
       else Ok (sg_size g + 1, g\<lparr>sg_size := sg_size g + 1\<rparr>)),
     member_ext = SampleMemberX, member_new = (\<lambda>m g n. \<lparr>sm_mint = m, sm_group = g, sm_number = n\<rparr>),
     immutable_group = External 3, incorrect_update_authority = External 4,
     incorrect_mint_authority = External 5, member_account_is_group_account = External 6\<rparr>"

lemma sample_group_interface: "group_interface sample_interface"
  unfolding group_interface_def sample_interface_def
  using sample_group.extension_axioms sample_member.extension_axioms
  by (simp add: SampleGroupX_def SampleMemberX_def)

definition demo_group :: SampleGroup where
  "demo_group = \<lparr>sg_update_authority = 77, sg_mint = 1, sg_size = 2, sg_max_size = 9\<rparr>"

definition group_entries :: "(ExtensionType \<times> bytes) list" where
  "group_entries = [(TokenGroup, ext_enc SampleGroupX demo_group)]"

definition member_entries :: "(ExtensionType \<times> bytes) list" where
  "member_entries = [(ExtensionType.GroupMemberPointer, ext_enc GroupMemberPointerX (ext_default GroupMemberPointerX))]"

definition group_ledger :: ledger where
  "group_ledger = demo_ledger
     (1 := \<lparr>ac_lamports = 10, ac_data = mint_prefix (plain_mint 30 150) @ buffer group_entries 0, ac_owner = token_program_id\<rparr>,
      2 := \<lparr>ac_lamports = 10, ac_data = mint_prefix (plain_mint 40 0) @ buffer member_entries 0, ac_owner = token_program_id\<rparr>)"

lemma sample_lengths [simp]:
  "length (ext_enc GroupMemberPointerX x) = 64" "length (ext_enc SampleGroupX g) = 80"
  "length (ext_enc SampleMemberX m) = 72"
  using gmp.length_enc [of x] by (simp_all add: GroupMemberPointerX_def SampleGroupX_def SampleMemberX_def)

lemma sample_entries:
  "wf_entries group_entries" "wf_entries member_entries"
  "166 + length (buffer group_entries 0) \<noteq> MULTISIG_LEN" "166 + length (buffer member_entries 0) \<noteq> MULTISIG_LEN"
  by (simp_all add: group_entries_def member_entries_def wf_entry_def MULTISIG_LEN_def)

lemma sample_extensions:
  "get_extension MintBase SampleGroupX (buffer group_entries 0) = Ok demo_group"
  "get_extension MintBase GroupMemberPointerX (buffer member_entries 0) = Ok (ext_default GroupMemberPointerX)"
  by (intro get_extension_buffer sample_group.extension_axioms gmp.extension_axioms sample_entries;
      simp add: group_entries_def member_entries_def SampleGroupX_def)+

theorem initialize_member_correct_witness:
  "\<exists>L'. process_initialize_member sample_interface resize_total
      [unsigned_key 2, unsigned_key 2, signed_key 40, unsigned_key 1, signed_key 77] group_ledger = Ok L' \<and>
    (\<exists>mint'. unpack PodMintB (ac_data (L' 1)) = Ok mint' \<and>
      get_extension MintBase SampleGroupX (tlv_data mint') = Ok (demo_group\<lparr>sg_size := 3\<rparr>)) \<and>
    (\<exists>p'. unpack PodMintB (ac_data (L' 2)) = Ok p' \<and>
      get_extension MintBase SampleMemberX (tlv_data p') = Ok \<lparr>sm_mint = 2, sm_group = 1, sm_number = 3\<rparr>)"
proof -
  have i: "mint_is_initialized (plain_mint 30 150)" "mint_is_initialized (plain_mint 40 0)" by simp_all
  have L: "ac_data (group_ledger 1) = mint_prefix (plain_mint 30 150) @ buffer group_entries 0"
    "ac_data (group_ledger 2) = mint_prefix (plain_mint 40 0) @ buffer member_entries 0"
    "ac_owner (group_ledger 2) = token_program_id"
    by (simp_all add: group_ledger_def)
  note u1 = unpack_mut_prefix_Ok [OF i(1) sample_entries(3), folded L(1)]
  note u2 = unpack_prefix_Ok [OF i(2) sample_entries(4), folded L(2)]
  obtain j where "get_extension_mut MintBase SampleGroupX (buffer group_entries 0) = Ok (demo_group, j)"
    using extension_mut_exists [OF sample_extensions(1)] by blast
  then have "\<exists>d. update_group sample_interface (unsigned_key 1) (signed_key 77)
      (group_increment_size sample_interface) group_ledger = Ok (3, set_data 1 d group_ledger)"
    using u1 by (simp add: update_group_def sample_interface_def demo_group_def check_update_authority_def opt_key_def)
      (rule exI, rule refl)
  then obtain d where up: "update_group sample_interface (unsigned_key 1) (signed_key 77)
      (group_increment_size sample_interface) group_ledger = Ok (3, set_data 1 d group_ledger)" by blast
  have d2: "ac_data (set_data 1 d group_ledger 2) = mint_prefix (plain_mint 40 0) @ buffer member_entries 0"
    using L(2) by simp
  obtain L' where s: "alloc_and_serialize resize_total PodMintB SampleMemberX \<lparr>sm_mint = 2, sm_group = 1, sm_number = 3\<rparr>
      False 2 (set_data 1 d group_ledger) = Ok L'"
    using sample_member.alloc_and_serialize_succeeds [where L = "set_data 1 d group_ledger" and k = 2 and overwr = False
        and v = "\<lparr>sm_mint = 2, sm_group = 1, sm_number = 3\<rparr>", OF d2 i(2) sample_entries(2,4)]
    by (auto simp: SampleMemberX_def member_entries_def)
  have c: "check_described_mint GroupMemberPointerX (incorrect_mint_authority sample_interface) (unsigned_key 2)
      (signed_key 40) group_ledger = Ok ()"
    using u2 L(3) sample_extensions(2) by (simp add: check_described_mint_def check_program_account_def)
  have p: "process_initialize_member sample_interface resize_total
      [unsigned_key 2, unsigned_key 2, signed_key 40, unsigned_key 1, signed_key 77] group_ledger = Ok L'"
    using s c up by (simp add: process_initialize_member_def) (simp add: sample_interface_def)
  have "unpack PodMintB (ac_data (group_ledger (ai_key (unsigned_key 2)))) = Ok \<lparr>base = plain_mint 40 0, tlv_data = buffer member_entries 0\<rparr>"
    using u2 by simp
  from initialize_member_correct [OF sample_group_interface resizes_total this _ sample_entries(2) p, of 0]
  show ?thesis using p u1 sample_extensions(1)
    by (auto simp: unpack_eq sample_interface_def demo_group_def split: if_splits)
qed

end
