(* ===== verification/Token_Metadata.thy ===== *)
theory Token_Metadata
  imports Token_Group
begin

text \<open>
  Token metadata stored in the mint it describes
  (src/program/src/extension/token_metadata/processor.rs).  The struct \<open>TokenMetadata\<close> with its
  variable-length layout, its methods and its errors belong to the token-metadata interface: they are
  the fields of \<open>TokenMetadataInterface\<close>.  Strings are their bytes.
\<close>

record ('md, 'field) TokenMetadataInterface =
  md_ext :: "'md VariableLen"
  md_new :: "bytes \<Rightarrow> bytes \<Rightarrow> bytes \<Rightarrow> OptionalNonZeroPubkey \<Rightarrow> pubkey \<Rightarrow> 'md"
  md_update_authority :: "'md \<Rightarrow> OptionalNonZeroPubkey"
  md_set_update_authority :: "OptionalNonZeroPubkey \<Rightarrow> 'md \<Rightarrow> 'md"
  md_update :: "'field \<Rightarrow> bytes \<Rightarrow> 'md \<Rightarrow> 'md"
  md_remove_key :: "bytes \<Rightarrow> 'md \<Rightarrow> bool \<times> 'md"
  md_get_slice :: "bytes \<Rightarrow> u64 option \<Rightarrow> u64 option \<Rightarrow> bytes option"
  immutable_metadata :: ProgramError
  md_incorrect_update_authority :: ProgramError
  md_incorrect_mint_authority :: ProgramError
  key_not_found :: ProgramError

datatype 'field TokenMetadataInstruction =
    InitializeMetadata bytes bytes bytes
  | UpdateField 'field bytes
  | RemoveKey bool bytes
  | UpdateAuthority OptionalNonZeroPubkey
  | Emit "u64 option" "u64 option"

definition md_check_update_authority ::
  "('md, 'field) TokenMetadataInterface \<Rightarrow> AccountInfo \<Rightarrow> OptionalNonZeroPubkey \<Rightarrow> unit result" where
  "md_check_update_authority I update_authority_info expected_update_authority =
     (if \<not> ai_is_signer update_authority_info then Err MissingRequiredSignature
      else and_then (ok_or (opt_key expected_update_authority) (immutable_metadata I)) (\<lambda>update_authority.
           if update_authority \<noteq> ai_key update_authority_info then Err (md_incorrect_update_authority I)
           else Ok ()))"

definition process_initialize_metadata ::
  "('md, 'field) TokenMetadataInterface \<Rightarrow> resize \<Rightarrow> AccountInfo list \<Rightarrow> bytes \<Rightarrow> bytes \<Rightarrow> bytes \<Rightarrow> ledger \<Rightarrow>
     ledger result" where
  "process_initialize_metadata I rs accounts nm symbol uri L =
     and_then (next_account_info accounts) (\<lambda>(metadata_info, iter).
     and_then (next_account_info iter) (\<lambda>(update_authority_info, iter).
     and_then (next_account_info iter) (\<lambda>(mint_info, iter).
     and_then (next_account_info iter) (\<lambda>(mint_authority_info, _).
     if ai_key metadata_info \<noteq> ai_key mint_info then TErr MintMismatch
     else and_then (check_described_mint MetadataPointerX (md_incorrect_mint_authority I) mint_info
            mint_authority_info L) (\<lambda>_.
          and_then (opt_key_try_from (Some (ai_key update_authority_info))) (\<lambda>update_authority.
          let token_metadata = md_new I nm symbol uri update_authority (ai_key mint_info)
          in alloc_and_serialize_variable_len_extension rs PodMintB (md_ext I) token_metadata False
               (ai_key metadata_info) L))))))"

text \<open>
  The steps the three updates share: read the metadata, check its update authority, change it, store
  it in place of the old one.
\<close>

definition read_metadata :: "('md, 'field) TokenMetadataInterface \<Rightarrow> AccountInfo \<Rightarrow> ledger \<Rightarrow> 'md result" where
  "read_metadata I metadata_info L =
     and_then (unpack PodMintB (ac_data (L (ai_key metadata_info)))) (\<lambda>mint.
     get_variable_len_extension MintBase (md_ext I) (tlv_data mint))"

definition process_update_field ::
  "('md, 'field) TokenMetadataInterface \<Rightarrow> resize \<Rightarrow> AccountInfo list \<Rightarrow> 'field \<Rightarrow> bytes \<Rightarrow> ledger \<Rightarrow> ledger result" where
  "process_update_field I rs accounts field v L =
     and_then (next_account_info accounts) (\<lambda>(metadata_info, iter).
     and_then (next_account_info iter) (\<lambda>(update_authority_info, _).
     and_then (read_metadata I metadata_info L) (\<lambda>token_metadata.
     and_then (md_check_update_authority I update_authority_info (md_update_authority I token_metadata)) (\<lambda>_.
     let token_metadata = md_update I field v token_metadata
     in alloc_and_serialize_variable_len_extension rs PodMintB (md_ext I) token_metadata True
          (ai_key metadata_info) L))))"

definition process_remove_key ::
  "('md, 'field) TokenMetadataInterface \<Rightarrow> resize \<Rightarrow> AccountInfo list \<Rightarrow> bool \<Rightarrow> bytes \<Rightarrow> ledger \<Rightarrow> ledger result" where
  "process_remove_key I rs accounts idempotent key L =
     and_then (next_account_info accounts) (\<lambda>(metadata_info, iter).
     and_then (next_account_info iter) (\<lambda>(update_authority_info, _).
     and_then (read_metadata I metadata_info L) (\<lambda>token_metadata.
     and_then (md_check_update_authority I update_authority_info (md_update_authority I token_metadata)) (\<lambda>_.
     let (removed, token_metadata) = md_remove_key I key token_metadata
     in if \<not> removed \<and> \<not> idempotent then Err (key_not_found I)
        else alloc_and_serialize_variable_len_extension rs PodMintB (md_ext I) token_metadata True
               (ai_key metadata_info) L))))"

definition process_update_authority ::
  "('md, 'field) TokenMetadataInterface \<Rightarrow> resize \<Rightarrow> AccountInfo list \<Rightarrow> OptionalNonZeroPubkey \<Rightarrow> ledger \<Rightarrow>
     ledger result" where
  "process_update_authority I rs accounts new_authority L =
     and_then (next_account_info accounts) (\<lambda>(metadata_info, iter).
     and_then (next_account_info iter) (\<lambda>(update_authority_info, _).
     and_then (read_metadata I metadata_info L) (\<lambda>token_metadata.
     and_then (md_check_update_authority I update_authority_info (md_update_authority I token_metadata)) (\<lambda>_.
     let token_metadata = md_set_update_authority I new_authority token_metadata
     in alloc_and_serialize_variable_len_extension rs PodMintB (md_ext I) token_metadata True
          (ai_key metadata_info) L))))"

text \<open>\<open>Emit\<close> changes nothing; what it sets as return data is its result.\<close>

definition process_emit ::
  "('md, 'field) TokenMetadataInterface \<Rightarrow> pubkey \<Rightarrow> AccountInfo list \<Rightarrow> u64 option \<Rightarrow> u64 option \<Rightarrow> ledger \<Rightarrow>
     bytes option result" where
  "process_emit I program_id accounts start stop L =
     and_then (next_account_info accounts) (\<lambda>(metadata_info, _).
     if ac_owner (L (ai_key metadata_info)) \<noteq> program_id then Err IllegalOwner
     else and_then (unpack PodMintB (ac_data (L (ai_key metadata_info)))) (\<lambda>state.
          and_then (get_extension_bytes MintBase (VL_TYPE (md_ext I)) (tlv_data state)) (\<lambda>metadata_bytes.
          Ok (md_get_slice I metadata_bytes start stop))))"

definition process_token_metadata_instruction ::
  "('md, 'field) TokenMetadataInterface \<Rightarrow> resize \<Rightarrow> pubkey \<Rightarrow> AccountInfo list \<Rightarrow>
     'field TokenMetadataInstruction \<Rightarrow> ledger \<Rightarrow> (ledger \<times> bytes option) result" where
  "process_token_metadata_instruction I rs program_id accounts instruction L =
     (case instruction of
        InitializeMetadata nm symbol uri \<Rightarrow>
          and_then (process_initialize_metadata I rs accounts nm symbol uri L) (\<lambda>L'. Ok (L', None))
      | UpdateField field v \<Rightarrow> and_then (process_update_field I rs accounts field v L) (\<lambda>L'. Ok (L', None))
      | RemoveKey idempotent key \<Rightarrow>
          and_then (process_remove_key I rs accounts idempotent key L) (\<lambda>L'. Ok (L', None))
      | UpdateAuthority new_authority \<Rightarrow>
          and_then (process_update_authority I rs accounts new_authority L) (\<lambda>L'. Ok (L', None))
      | Emit start stop \<Rightarrow> and_then (process_emit I program_id accounts start stop L) (\<lambda>d. Ok (L, d)))"

section \<open>Updates refine a change of the metadata\<close>

text \<open>The change of the metadata an instruction asks for; \<open>None\<close> when it is refused or is no update.\<close>

fun metadata_change ::
  "('md, 'field) TokenMetadataInterface \<Rightarrow> 'field TokenMetadataInstruction \<Rightarrow> 'md \<Rightarrow> 'md option" where
  "metadata_change I (UpdateField field v) md = Some (md_update I field v md)"
| "metadata_change I (RemoveKey idempotent key) md =
     (if fst (md_remove_key I key md) \<or> idempotent then Some (snd (md_remove_key I key md)) else None)"
| "metadata_change I (UpdateAuthority a) md = Some (md_set_update_authority I a md)"
| "metadata_change I _ md = None"

definition is_metadata_update :: "'field TokenMetadataInstruction \<Rightarrow> bool" where
  "is_metadata_update i = (case i of InitializeMetadata _ _ _ \<Rightarrow> False | Emit _ _ \<Rightarrow> False | _ \<Rightarrow> True)"

lemma md_check_update_authority_Ok [res_simps]:
  "md_check_update_authority I a k = Ok u \<longleftrightarrow> ai_is_signer a \<and> opt_key k = Some (ai_key a)"
  by (auto simp: md_check_update_authority_def res_simps)

definition metadata_interface :: "('md, 'field) TokenMetadataInterface \<Rightarrow> bool" where
  "metadata_interface I \<longleftrightarrow> packs_back (md_ext I) \<and> VL_TYPE (md_ext I) = TokenMetadata"

lemma metadata_update_store:
  assumes "is_metadata_update i"
    and "process_token_metadata_instruction I rs program_id (m # a # rest) i L = Ok (L', r)"
  obtains md md' where "read_metadata I m L = Ok md" "ai_is_signer a"
    "opt_key (md_update_authority I md) = Some (ai_key a)" "metadata_change I i md = Some md'"
    "alloc_and_serialize_variable_len_extension rs PodMintB (md_ext I) md' True (ai_key m) L = Ok L'"
  using assms
  by (cases i) (auto simp: process_token_metadata_instruction_def is_metadata_update_def process_update_field_def
      process_remove_key_def process_update_authority_def res_simps Let_def case_prod_beta split: if_splits)

lemma store_entry:
  assumes "resizes rs" "packs_back E" "VL_TYPE E = TokenMetadata"
    and "unpack PodMintB (ac_data (L k)) = Ok p" "tlv_data p = buffer es n" "wf_entries es"
    and "alloc_and_serialize_variable_len_extension rs PodMintB E v overwr k L = Ok L'"
  shows "\<exists>p'. unpack PodMintB (ac_data (L' k)) = Ok p' \<and> base p' = base p \<and>
      get_variable_len_extension MintBase E (tlv_data p') = Ok v \<and>
      (\<forall>V w. V \<noteq> TokenMetadata \<longrightarrow> get_extension_bytes MintBase V (tlv_data p) = Ok w \<longrightarrow>
        get_extension_bytes MintBase V (tlv_data p') = Ok w) \<and>
      (\<exists>es' n'. tlv_data p' = buffer es' n' \<and> wf_entries es')"
    and "\<forall>k'. k' \<noteq> k \<longrightarrow> L' k' = L k'" "overwr \<or> map_of es TokenMetadata = None"
proof -
  have t: "get_account_type (VL_TYPE E) = Mint" using assms(3) by simp
  obtain ys n' where r: "vl_unpack_from_slice E ys = Ok v"
    "L' = set_data k (mint_prefix (base p) @ buffer (AList.update (VL_TYPE E) ys es) n') L"
    "wf_entries (AList.update (VL_TYPE E) ys es)"
    "166 + length (buffer (AList.update (VL_TYPE E) ys es) n') =
      adjust_len_for_multisig (166 + length (entries_bytes (AList.update (VL_TYPE E) ys es)))"
    "overwr \<or> map_of es (VL_TYPE E) = None"
    by (rule alloc_and_serialize_variable_len_effect [OF assms(1,2) t assms(4-7)])
  let ?u = "AList.update (VL_TYPE E) ys es"
  have i: "mint_is_initialized (base p)" using assms(4) unfolding unpack_mint by simp
  have "166 + length (buffer ?u n') \<noteq> MULTISIG_LEN" unfolding r(4) by (rule adjust_len_not_multisig)
  note u = unpack_prefix_Ok [OF i this]
  have v: "get_variable_len_extension MintBase E (buffer ?u n') = Ok v"
    using get_extension_bytes_buffer [OF r(3), of "VL_TYPE E" MintBase n'] r(1) t
    by (simp add: get_variable_len_extension_def update_conv')
  have other: "get_extension_bytes MintBase V (buffer ?u n') = Ok w"
    if "V \<noteq> TokenMetadata" "get_extension_bytes MintBase V (tlv_data p) = Ok w" for V w
  proof -
    have V: "get_account_type V = ACCOUNT_TYPE MintBase"
      using that(2) by (auto simp: get_extension_bytes_def split: if_splits)
    show ?thesis
      using that get_extension_bytes_buffer [OF r(3) V, of n'] get_extension_bytes_buffer [OF assms(6) V, of n]
      by (simp add: assms(3,5) update_conv' split: option.splits if_splits)
  qed
  show "\<exists>p'. unpack PodMintB (ac_data (L' k)) = Ok p' \<and> base p' = base p \<and>
      get_variable_len_extension MintBase E (tlv_data p') = Ok v \<and>
      (\<forall>V w. V \<noteq> TokenMetadata \<longrightarrow> get_extension_bytes MintBase V (tlv_data p) = Ok w \<longrightarrow>
        get_extension_bytes MintBase V (tlv_data p') = Ok w) \<and>
      (\<exists>es' n'. tlv_data p' = buffer es' n' \<and> wf_entries es')"
    using u v other r(3)
    by (intro exI [of _ "\<lparr>base = base p, tlv_data = buffer ?u n'\<rparr>"]) (auto simp: r(2))
  show "\<forall>k'. k' \<noteq> k \<longrightarrow> L' k' = L k'" "overwr \<or> map_of es TokenMetadata = None"
    using r(2,5) assms(3) by simp_all
qed

text \<open>
  C19: an update of the metadata succeeds only with the signature of its update authority (and
  never once that authority is absent), and then the stored metadata goes through exactly the change
  the instruction asks for; the mint keeps its base and every other extension, its extension buffer
  stays well formed, and no other account changes.
\<close>

theorem metadata_update_correct:
  assumes "metadata_interface I" "resizes rs" "is_metadata_update i"
    and "unpack PodMintB (ac_data (L (ai_key m))) = Ok p" "tlv_data p = buffer es n" "wf_entries es"
    and "process_token_metadata_instruction I rs program_id (m # a # rest) i L = Ok (L', r)"
  shows "\<exists>md md' p'. read_metadata I m L = Ok md \<and> ai_is_signer a \<and>
      opt_key (md_update_authority I md) = Some (ai_key a) \<and>
      metadata_change I i md = Some md' \<and> read_metadata I m L' = Ok md' \<and>
      unpack PodMintB (ac_data (L' (ai_key m))) = Ok p' \<and> base p' = base p \<and>
      (\<exists>es' n'. tlv_data p' = buffer es' n' \<and> wf_entries es') \<and>
      (\<forall>V w. V \<noteq> TokenMetadata \<longrightarrow> get_extension_bytes MintBase V (tlv_data p) = Ok w \<longrightarrow>
        get_extension_bytes MintBase V (tlv_data p') = Ok w) \<and>
      (\<forall>k. k \<noteq> ai_key m \<longrightarrow> L' k = L k)"
proof -
  have E: "packs_back (md_ext I)" "VL_TYPE (md_ext I) = TokenMetadata"
    using assms(1) by (simp_all add: metadata_interface_def)
  obtain md md' where h: "read_metadata I m L = Ok md" "ai_is_signer a"
    "opt_key (md_update_authority I md) = Some (ai_key a)" "metadata_change I i md = Some md'"
    "alloc_and_serialize_variable_len_extension rs PodMintB (md_ext I) md' True (ai_key m) L = Ok L'"
    by (rule metadata_update_store [OF assms(3,7)])
  note s = store_entry [OF assms(2) E assms(4-6) h(5)]
  obtain p' where p': "unpack PodMintB (ac_data (L' (ai_key m))) = Ok p'" "base p' = base p"
    "get_variable_len_extension MintBase (md_ext I) (tlv_data p') = Ok md'"
    "\<forall>V w. V \<noteq> TokenMetadata \<longrightarrow> get_extension_bytes MintBase V (tlv_data p) = Ok w \<longrightarrow>
        get_extension_bytes MintBase V (tlv_data p') = Ok w"
    "\<exists>es' n'. tlv_data p' = buffer es' n' \<and> wf_entries es'"
    using s(1) by blast
  have "read_metadata I m L' = Ok md'" using p'(1,3) by (simp add: read_metadata_def)
  then show ?thesis
    using h(1-4) p'(1,2,4,5) s(2) by (intro exI [of _ md] exI [of _ md'] exI [of _ p'] conjI)
qed


section \<open>A concrete interface\<close>

text \<open>Metadata with an update authority and one string, stored as the key, eight bytes of length and the string.\<close>

record SampleMetadata =
  sd_update_authority :: OptionalNonZeroPubkey
  sd_uri :: bytes

definition SampleMetadataV :: "SampleMetadata VariableLen" where
  "SampleMetadataV = \<lparr>VL_TYPE = TokenMetadata, get_packed_len = (\<lambda>md. Ok (40 + length (sd_uri md))),
     vl_pack_into_slice = (\<lambda>md dst. if length dst < 40 + length (sd_uri md) then Err InvalidAccountData
       else Ok (to_le 32 (sd_update_authority md) @ to_le 8 (word_of_nat (length (sd_uri md)) :: u64) @ sd_uri md
         @ drop (40 + length (sd_uri md)) dst)),
     vl_unpack_from_slice = (\<lambda>src. let len = unat (from_le (subslice 32 8 src) :: u64)
       in if length src < 40 + len then Err InvalidAccountData
          else Ok \<lparr>sd_update_authority = from_le (subslice 0 32 src), sd_uri = subslice 40 len src\<rparr>)\<rparr>"

definition sample_metadata_interface :: "(SampleMetadata, unit) TokenMetadataInterface" where
  "sample_metadata_interface = \<lparr>md_ext = SampleMetadataV,
     md_new = (\<lambda>_ _ uri a _. \<lparr>sd_update_authority = a, sd_uri = uri\<rparr>),
     md_update_authority = sd_update_authority,
     md_set_update_authority = (\<lambda>a md. md\<lparr>sd_update_authority := a\<rparr>),
     md_update = (\<lambda>_ v md. md\<lparr>sd_uri := v\<rparr>),
     md_remove_key = (\<lambda>key md. (key = sd_uri md, if key = sd_uri md then md\<lparr>sd_uri := []\<rparr> else md)),
     md_get_slice = (\<lambda>bs _ _. Some bs),
     immutable_metadata = External 1, md_incorrect_update_authority = External 2,
     md_incorrect_mint_authority = External 3, key_not_found = External 4\<rparr>"

lemma packs_back_sample: "packs_back SampleMetadataV"
  by (auto simp: packs_back_def SampleMetadataV_def Let_def unat_of_nat subslice_simps)

lemma sample_metadata_interface: "metadata_interface sample_metadata_interface"
  by (simp add: metadata_interface_def sample_metadata_interface_def packs_back_sample)
    (simp add: SampleMetadataV_def)

definition metadata_entries :: "(ExtensionType \<times> bytes) list" where
  "metadata_entries = [(TokenMetadata, to_le 32 (77 :: pubkey) @ to_le 8 (3 :: u64) @ [1, 2, 3])]"

definition metadata_ledger :: ledger where
  "metadata_ledger = set_data 1 (mint_prefix (plain_mint 30 150) @ buffer metadata_entries 0) demo_ledger"

theorem metadata_update_correct_witness:
  "\<exists>L'. process_token_metadata_instruction sample_metadata_interface resize_total token_program_id
      [unsigned_key 1, signed_key 77] (UpdateField () [9, 9, 9, 9, 9]) metadata_ledger = Ok (L', None) \<and>
    read_metadata sample_metadata_interface (unsigned_key 1) L' = Ok \<lparr>sd_update_authority = 77, sd_uri = [9, 9, 9, 9, 9]\<rparr>"
proof -
  let ?md = "\<lparr>sd_update_authority = 77, sd_uri = [1, 2, 3]\<rparr>"
  let ?md' = "\<lparr>sd_update_authority = 77, sd_uri = [9, 9, 9, 9, 9]\<rparr>"
  have i: "mint_is_initialized (plain_mint 30 150)" by simp
  have wf: "wf_entries metadata_entries" "166 + length (buffer metadata_entries 0) \<noteq> MULTISIG_LEN"
    by (simp_all add: metadata_entries_def wf_entry_def MULTISIG_LEN_def)
  have d: "ac_data (metadata_ledger 1) = mint_prefix (plain_mint 30 150) @ buffer metadata_entries 0"
    by (simp add: metadata_ledger_def)
  note u = unpack_prefix_Ok [OF i wf(2), folded d]
  have "get_extension_bytes MintBase TokenMetadata (buffer metadata_entries 0) =
      Ok (to_le 32 (77 :: pubkey) @ to_le 8 (3 :: u64) @ [1, 2, 3])"
    using get_extension_bytes_buffer [OF wf(1), of TokenMetadata MintBase 0] by (simp add: metadata_entries_def)
  then have "get_variable_len_extension MintBase SampleMetadataV (buffer metadata_entries 0) = Ok ?md"
    by (simp add: get_variable_len_extension_def SampleMetadataV_def Let_def subslice_simps)
  then have md: "read_metadata sample_metadata_interface (unsigned_key 1) metadata_ledger = Ok ?md"
    using u by (simp add: read_metadata_def sample_metadata_interface_def)
  obtain L' where s: "alloc_and_serialize_variable_len_extension resize_total PodMintB SampleMetadataV ?md' True 1
      metadata_ledger = Ok L'"
    using alloc_and_serialize_variable_len_succeeds [where L = metadata_ledger and k = 1 and E = SampleMetadataV
        and overwr = True and v = ?md' and len = 45, OF d i wf]
    by (auto simp: SampleMetadataV_def)
  have p: "process_token_metadata_instruction sample_metadata_interface resize_total token_program_id
      [unsigned_key 1, signed_key 77] (UpdateField () [9, 9, 9, 9, 9]) metadata_ledger = Ok (L', None)"
    using md s by (simp add: process_token_metadata_instruction_def process_update_field_def
        md_check_update_authority_def opt_key_def) (simp add: sample_metadata_interface_def opt_key_def)
  have "unpack PodMintB (ac_data (metadata_ledger (ai_key (unsigned_key 1)))) =
      Ok \<lparr>base = plain_mint 30 150, tlv_data = buffer metadata_entries 0\<rparr>" using u by simp
  from metadata_update_correct [OF sample_metadata_interface resizes_total _ this _ wf(1) p, of 0]
  show ?thesis using p md by (auto simp: is_metadata_update_def sample_metadata_interface_def)
qed

end
