(* ===== verification/Reallocate.thy ===== *)
theory Reallocate
  imports Serialize
begin

text \<open>
  Growing a token account for new extensions (src/program/src/extension/reallocate.rs) and creating the
  native mint (\<open>process_create_native_mint\<close> of src/program/src/processor.rs).  The system program
  (\<open>transfer\<close>, \<open>allocate\<close>, \<open>assign\<close>) and \<open>AccountInfo::resize\<close> are parameters.
\<close>

section \<open>Reallocate\<close>

text \<open>Lamports for the larger rent-exempt reserve, taken from the payer.\<close>

definition top_up_reserve ::
  "Env \<Rightarrow> AccountInfo \<Rightarrow> AccountInfo \<Rightarrow> u64 \<Rightarrow> u64 \<Rightarrow> ledger \<Rightarrow> ledger result" where
  "top_up_reserve env payer_info token_account_info native_amount new_rent_exempt_reserve L =
     and_then (ok_or (checked_sub (ac_lamports (L (ai_key token_account_info))) native_amount) (token_error Overflow))
       (\<lambda>current_lamport_reserve.
     let lamports_diff = saturating_sub new_rent_exempt_reserve current_lamport_reserve
     in if lamports_diff > 0 then env_system_transfer env payer_info token_account_info lamports_diff L else Ok L)"

text \<open>The new reserve of a native account.\<close>

definition sync_reserve :: "pubkey \<Rightarrow> u64 option \<Rightarrow> u64 \<Rightarrow> ledger \<Rightarrow> ledger result" where
  "sync_reserve k native_token_amount new_rent_exempt_reserve L =
     (case native_token_amount of
        None \<Rightarrow> Ok L
      | Some amount \<Rightarrow>
          and_then (state_unpack_mut AccountP (ac_data (L k))) (\<lambda>token_account.
          and_then (ok_or (checked_add new_rent_exempt_reserve amount) (token_error Overflow)) (\<lambda>minimum_lamports.
          if ac_lamports (L k) < minimum_lamports then TErr InvalidState
          else and_then (pack_base AccountP (token_account\<lparr>base :=
                 (base token_account)\<lparr>sa_is_native := Some new_rent_exempt_reserve\<rparr>\<rparr>)) (\<lambda>token_account.
               Ok (set_data k (state_data AccountP token_account) L)))))"

definition process_reallocate ::
  "Env \<Rightarrow> resize \<Rightarrow> pubkey \<Rightarrow> AccountInfo list \<Rightarrow> ExtensionType list \<Rightarrow> ledger \<Rightarrow> ledger result" where
  "process_reallocate env rs program_id accounts new_extension_types L =
     and_then (next_account_info accounts) (\<lambda>(token_account_info, iter).
     and_then (next_account_info iter) (\<lambda>(payer_info, iter).
     and_then (next_account_info iter) (\<lambda>(system_program_info, iter).
     and_then (next_account_info iter) (\<lambda>(authority_info, rest).
     let k = ai_key token_account_info
     in and_then (state_unpack AccountP (ac_data (L k))) (\<lambda>account.
     and_then (validate_owner program_id L (sa_owner (base account)) authority_info (data_len L authority_info) rest)
       (\<lambda>_.
     let native_token_amount = (if sa_native (base account) then Some (sa_amount (base account)) else None)
     in and_then (get_extension_types (tlv_data account)) (\<lambda>current_extension_types.
     if \<exists>t\<in>set new_extension_types. get_account_type t \<noteq> AccountType.Account then TErr InvalidState
     else and_then (try_calculate_account_len AccountBase (current_extension_types @ new_extension_types))
       (\<lambda>needed_account_len.
     if length (ac_data (L k)) \<ge> needed_account_len then Ok L
     else and_then (rs k needed_account_len L) (\<lambda>L.
     and_then (env_rent env) (\<lambda>rent.
     let new_rent_exempt_reserve = minimum_balance rent needed_account_len
     in and_then (top_up_reserve env payer_info token_account_info
          (case native_token_amount of Some n \<Rightarrow> n | None \<Rightarrow> 0) new_rent_exempt_reserve L) (\<lambda>L.
     and_then (set_account_type AccountBase (ac_data (L k))) (\<lambda>d.
     sync_reserve k native_token_amount new_rent_exempt_reserve (set_data k d L)))))))))))))"

section \<open>The native mint\<close>

record SystemProgram =
  sys_allocate :: "AccountInfo \<Rightarrow> nat \<Rightarrow> ledger \<Rightarrow> ledger result"
  sys_assign :: "AccountInfo \<Rightarrow> pubkey \<Rightarrow> ledger \<Rightarrow> ledger result"

definition NATIVE_DECIMALS :: u8 where
  "NATIVE_DECIMALS = 9"

text \<open>\<open>Mint::default()\<close> and the provided method \<open>pack\<close> of the trait, which checks the length.\<close>

definition mint_default :: Mint where
  "mint_default = \<lparr>s_mint_authority = None, s_supply = 0, s_decimals = 0, s_is_initialized = False,
     s_freeze_authority = None\<rparr>"

definition pack_pack :: "'s Pack \<Rightarrow> 's \<Rightarrow> bytes \<Rightarrow> bytes result" where
  "pack_pack P s dst =
     (if length dst \<noteq> SIZE_OF (pk_state P) then Err InvalidAccountData else pk_pack_into_slice P s dst)"

definition process_create_native_mint :: "Env \<Rightarrow> SystemProgram \<Rightarrow> AccountInfo list \<Rightarrow> ledger \<Rightarrow> ledger result" where
  "process_create_native_mint env sys accounts L =
     and_then (next_account_info accounts) (\<lambda>(payer_info, iter).
     and_then (next_account_info iter) (\<lambda>(native_mint_info, iter).
     and_then (next_account_info iter) (\<lambda>(system_program_info, _).
     let k = ai_key native_mint_info
     in if k \<noteq> native_mint_id then TErr InvalidMint
        else and_then (env_rent env) (\<lambda>rent.
             let new_minimum_balance = minimum_balance rent (SIZE_OF (pk_state MintP));
                 lamports_diff = saturating_sub new_minimum_balance (ac_lamports (L k))
             in and_then (env_system_transfer env payer_info native_mint_info lamports_diff L) (\<lambda>L.
                and_then (sys_allocate sys native_mint_info (SIZE_OF (pk_state MintP)) L) (\<lambda>L.
                and_then (sys_assign sys native_mint_info token_program_id L) (\<lambda>L.
                and_then (pack_pack MintP (mint_default\<lparr>s_decimals := NATIVE_DECIMALS, s_is_initialized := True\<rparr>)
                  (ac_data (L k))) (\<lambda>d.
                Ok (set_data k d L)))))))))"

section \<open>What the code relies on\<close>

text \<open>A system transfer between two accounts moves lamports and nothing else.\<close>

definition system_transfers :: "Env \<Rightarrow> bool" where
  "system_transfers env \<longleftrightarrow> (\<forall>a b n L L'. env_system_transfer env a b n L = Ok L' \<longrightarrow> ai_key a \<noteq> ai_key b \<longrightarrow>
     (\<forall>k. ac_data (L' k) = ac_data (L k) \<and> ac_owner (L' k) = ac_owner (L k)) \<and>
     (\<forall>k. k \<noteq> ai_key a \<longrightarrow> k \<noteq> ai_key b \<longrightarrow> L' k = L k) \<and>
     unat (ac_lamports (L' (ai_key b))) = unat (ac_lamports (L (ai_key b))) + unat n)"

text \<open>Allocating gives an account zeroed data of the size, assigning gives it an owner.\<close>

definition system_allocates :: "SystemProgram \<Rightarrow> bool" where
  "system_allocates sys \<longleftrightarrow> (\<forall>a n p L L'.
     (sys_allocate sys a n L = Ok L' \<longrightarrow> ac_data (L (ai_key a)) = [] \<and> L' = set_data (ai_key a) (replicate n 0) L) \<and>
     (sys_assign sys a p L = Ok L' \<longrightarrow> L' = L(ai_key a := (L (ai_key a))\<lparr>ac_owner := p\<rparr>)))"

lemma system_transfersD:
  assumes "system_transfers env" "env_system_transfer env a b n L = Ok L'" "ai_key a \<noteq> ai_key b"
  shows "ac_data (L' k) = ac_data (L k)" "ac_owner (L' k) = ac_owner (L k)"
    "k \<noteq> ai_key a \<Longrightarrow> k \<noteq> ai_key b \<Longrightarrow> L' k = L k"
    "unat (ac_lamports (L' (ai_key b))) = unat (ac_lamports (L (ai_key b))) + unat n"
  using assms unfolding system_transfers_def by blast+

section \<open>The data of a token account\<close>

definition account_prefix :: "PodAccount \<Rightarrow> bytes" where
  "account_prefix a = enc_account a @ [account_type_code Account]"

lemma length_account_prefix [simp]: "length (account_prefix a) = 166"
  by (simp add: account_prefix_def)

lemma pack_state_account:
  "pack_state PodAccountB st =
     (if account_type st = [] then enc_account (base st) else enc_account (base st) @ account_type st @ tlv_data st)"
  by (simp add: pack_state_def PodAccountB_def base_lens BASE_ACCOUNT_LENGTH_def)

lemma unpack_mut_account:
  "unpack_mut PodAccountB d = Ok st \<longleftrightarrow> length d \<noteq> MULTISIG_LEN \<and> account_is_initialized (base st) \<and>
     (d = enc_account (base st) \<and> account_type st = [] \<and> tlv_data st = [] \<or>
      d = account_prefix (base st) @ tlv_data st \<and> account_type st = [account_type_code Account])"
  by (auto simp: account_base.unpack_mut_Ok pack_state_account tail_ok_def account_prefix_def)

lemma initialized_state_byte:
  assumes "account_is_initialized a"
  shows "enc_account a ! 108 \<noteq> 0"
proof -
  have "a_state (dec_account (enc_account a)) = enc_account a ! 108" by (simp only: dec_account_def PodAccount.select_convs)
  then have "enc_account a ! 108 = a_state a" by simp
  with assms show ?thesis by (auto simp: account_is_initialized_def)
qed

lemma set_account_type_account:
  assumes "account_is_initialized a" "166 + length x \<noteq> MULTISIG_LEN" "c = 0 \<or> c = account_type_code Account"
  shows "set_account_type AccountBase (enc_account a @ c # x) = Ok (account_prefix a @ x)"
proof -
  have i: "is_initialized_account (enc_account a) = Ok True"
    using initialized_state_byte [OF assms(1)] by (simp add: is_initialized_account_def BASE_lens)
  have a: "account_type_try_from 0 = Some AccountType.Uninitialized"
    "account_type_try_from (account_type_code Account) = Some Account"
    using account_type_try_from_Some [of 0 AccountType.Uninitialized]
      account_type_try_from_Some [of "account_type_code Account" Account] by simp_all
  have t: "type_and_tlv_indices AccountBase (c # x) = Ok (Some (0, 1))"
    by (simp add: type_and_tlv_indices_def base_lens BASE_ACCOUNT_LENGTH_def)
  show ?thesis
    using assms(2,3) i t a
    by (auto simp: set_account_type_def check_min_len_and_not_multisig_def Let_def check_account_type_def
        account_prefix_def ACCOUNT_LEN_def add.commute)
qed

text \<open>Growing the data of a token account and writing the type byte appends zeros to its extension buffer.\<close>

lemma grown_account:
  assumes "unpack_mut PodAccountB d = Ok st" "length d < n" "166 \<le> n" "n \<noteq> MULTISIG_LEN"
  obtains j where "set_account_type AccountBase (resize_value n d) = Ok (account_prefix (base st) @ tlv_data st @ replicate j 0)"
    "166 + length (tlv_data st) + j = n"
proof -
  have i: "account_is_initialized (base st)" using assms(1) unfolding unpack_mut_account by simp
  consider "d = enc_account (base st)" "tlv_data st = []" | "d = account_prefix (base st) @ tlv_data st"
    using assms(1) unfolding unpack_mut_account by blast
  then show thesis
  proof cases
    case 1
    have "replicate (n - 165) (0 :: u8) = 0 # replicate (n - 166) 0"
      using assms(3) by (cases "n - 165") auto
    then have "resize_value n d = enc_account (base st) @ 0 # replicate (n - 166) 0"
      using assms(2) 1 by (simp add: resize_value_def)
    then show ?thesis
      using set_account_type_account [OF i, of "replicate (n - 166) 0" 0] assms(3,4) 1(2)
      by (intro that [of "n - 166"]) auto
  next
    case 2
    let ?j = "n - 166 - length (tlv_data st)"
    have "resize_value n d = enc_account (base st) @ account_type_code Account # (tlv_data st @ replicate ?j 0)"
      using assms(2) by (simp add: 2 resize_value_def account_prefix_def)
    moreover have l: "166 + length (tlv_data st) + ?j = n" using assms(2) by (simp add: 2)
    ultimately show ?thesis
      using set_account_type_account [OF i, of "tlv_data st @ replicate ?j 0" "account_type_code Account"] assms(4)
      by (intro that [of ?j]) auto
  qed
qed


section \<open>What reallocating does\<close>

lemma top_up_reserve_Ok:
  assumes "system_transfers env" "ai_key payer \<noteq> ai_key t"
    and "top_up_reserve env payer t native_amount reserve L = Ok L'"
  shows "ac_data (L' k) = ac_data (L k)" "ac_owner (L' k) = ac_owner (L k)"
    "k \<noteq> ai_key payer \<Longrightarrow> k \<noteq> ai_key t \<Longrightarrow> L' k = L k"
    "unat reserve + unat native_amount \<le> unat (ac_lamports (L' (ai_key t)))"
proof -
  obtain c where c: "checked_sub (ac_lamports (L (ai_key t))) native_amount = Some c"
    and r: "(if saturating_sub reserve c > 0 then env_system_transfer env payer t (saturating_sub reserve c) L
      else Ok L) = Ok L'"
    using assms(3) by (auto simp: top_up_reserve_def res_simps Let_def)
  have l: "unat (ac_lamports (L (ai_key t))) = unat c + unat native_amount"
    using c by (auto simp: checked_sub_def unat_sub word_le_nat_alt split: if_splits)
  show "ac_data (L' k) = ac_data (L k)" "ac_owner (L' k) = ac_owner (L k)"
    "k \<noteq> ai_key payer \<Longrightarrow> k \<noteq> ai_key t \<Longrightarrow> L' k = L k"
    using r system_transfersD [OF assms(1) _ assms(2), of "saturating_sub reserve c" L L'] by (auto split: if_splits)
  show "unat reserve + unat native_amount \<le> unat (ac_lamports (L' (ai_key t)))"
  proof (cases "saturating_sub reserve c > 0")
    case True
    then have "unat (ac_lamports (L' (ai_key t))) = unat (ac_lamports (L (ai_key t))) + (unat reserve - unat c)"
      using r system_transfersD(4) [OF assms(1) _ assms(2), of "saturating_sub reserve c" L L']
      by (simp add: saturating_sub_unat)
    then show ?thesis using l by simp
  next
    case False
    then have "unat reserve \<le> unat c" using saturating_sub_unat [of reserve c] by (simp add: word_less_nat_alt)
    then show ?thesis using False r l by simp
  qed
qed

lemma sync_reserve_Ok:
  assumes "state_unpack AccountP (ac_data (L k)) = Ok st"
    and "sync_reserve k (if sa_native (base st) then Some (sa_amount (base st)) else None) reserve L = Ok L'"
  shows "state_unpack AccountP (ac_data (L' k)) =
      Ok (st\<lparr>base := (base st)\<lparr>sa_is_native := map_option (\<lambda>_. reserve) (sa_is_native (base st))\<rparr>\<rparr>)"
    "length (ac_data (L' k)) = length (ac_data (L k))"
    "L' = set_data k (ac_data (L' k)) L"
proof -
  have "state_unpack AccountP (ac_data (L' k)) =
      Ok (st\<lparr>base := (base st)\<lparr>sa_is_native := map_option (\<lambda>_. reserve) (sa_is_native (base st))\<rparr>\<rparr>) \<and>
    length (ac_data (L' k)) = length (ac_data (L k)) \<and> L' = set_data k (ac_data (L' k)) L"
  proof (cases "sa_native (base st)")
    case False
    then have "map_option (\<lambda>_. reserve) (sa_is_native (base st)) = sa_is_native (base st)"
      by (simp add: sa_native_def)
    then show ?thesis using False assms by (simp add: sync_reserve_def set_data_def)
  next
    case True
    then obtain m m' where m: "state_unpack_mut AccountP (ac_data (L k)) = Ok m"
      "pack_base AccountP (m\<lparr>base := (base m)\<lparr>sa_is_native := Some reserve\<rparr>\<rparr>) = Ok m'"
      "L' = set_data k (state_data AccountP m') L"
      using assms(2) by (auto simp: sync_reserve_def res_simps split: if_splits)
    have st: "st = \<lparr>base = base m, tlv_data = tlv_data m\<rparr>"
      using assms(1) m(1) by (simp add: packed_account.state_unpack_eq)
    have "pk_is_initialized AccountP (base m)"
      using m(1) unfolding packed_account.state_unpack_mut_Ok
      by (auto simp: packed_account.is_initialized unpack_mut_account)
    then have "pk_is_initialized AccountP ((base m)\<lparr>sa_is_native := Some reserve\<rparr>)"
      by (simp add: AccountP_def sa_initialized_def)
    note w = packed_account.state_unpack_pack_base [OF m(1) this m(2)]
    show ?thesis using w True by (auto simp: m(3) st sa_native_def)
  qed
  then show "state_unpack AccountP (ac_data (L' k)) =
      Ok (st\<lparr>base := (base st)\<lparr>sa_is_native := map_option (\<lambda>_. reserve) (sa_is_native (base st))\<rparr>\<rparr>)"
    "length (ac_data (L' k)) = length (ac_data (L k))" "L' = set_data k (ac_data (L' k)) L" by blast+
qed

lemma reallocate_grow:
  assumes "state_unpack AccountP d = Ok st" "length d < n" "n \<noteq> MULTISIG_LEN"
    and "set_account_type AccountBase (resize_value n d) = Ok d'"
  shows "\<exists>j. state_unpack AccountP d' = Ok \<lparr>base = base st, tlv_data = tlv_data st @ replicate j 0\<rparr> \<and> length d' = n"
proof -
  obtain q where q: "unpack_mut PodAccountB d = Ok q" "account_canonical (base q)"
    "st = \<lparr>base = account_view (base q), tlv_data = tlv_data q\<rparr>"
    using assms(1) unfolding packed_account.state_unpack_Ok unpack_eq by (auto simp: res_simps)
  have "165 \<le> length d" using q(1) unfolding unpack_mut_account by (auto simp: account_prefix_def)
  then have n: "166 \<le> n" using assms(2) by simp
  obtain j where j: "set_account_type AccountBase (resize_value n d) =
      Ok (account_prefix (base q) @ tlv_data q @ replicate j 0)" "166 + length (tlv_data q) + j = n"
    by (rule grown_account [OF q(1) assms(2) n assms(3)])
  have d': "d' = account_prefix (base q) @ tlv_data q @ replicate j 0" using assms(4) j(1) by simp
  have "unpack_mut PodAccountB d' = Ok \<lparr>base = base q, tlv_data = tlv_data q @ replicate j 0, account_type = [account_type_code Account]\<rparr>"
    using q(1) j(2) assms(3) unfolding unpack_mut_account by (auto simp: d')
  then show ?thesis
    using q(2) j(2) unfolding packed_account.state_unpack_Ok unpack_eq by (auto simp: q(3) d')
qed


text \<open>
  An account grown to \<open>needed\<close> bytes: its base state is the one before but for the new reserve, its
  extension buffer the one before followed by zeros, and its lamports cover reserve and balance.
\<close>

definition grown :: "Env \<Rightarrow> Account PodStateWithExtensions \<Rightarrow> nat \<Rightarrow> account \<Rightarrow> bool" where
  "grown env st needed ac \<longleftrightarrow> length (ac_data ac) = needed \<and>
     (\<exists>rent j. env_rent env = Ok rent \<and>
        state_unpack AccountP (ac_data ac) =
          Ok \<lparr>base = (base st)\<lparr>sa_is_native := map_option (\<lambda>_. minimum_balance rent needed) (sa_is_native (base st))\<rparr>,
              tlv_data = tlv_data st @ replicate j 0\<rparr> \<and>
        unat (minimum_balance rent needed) + (if sa_native (base st) then unat (sa_amount (base st)) else 0)
          \<le> unat (ac_lamports ac))"

text \<open>The steps of the code once the account is too short.\<close>

definition grow :: "Env \<Rightarrow> resize \<Rightarrow> AccountInfo \<Rightarrow> AccountInfo \<Rightarrow> u64 option \<Rightarrow> nat \<Rightarrow> ledger \<Rightarrow> ledger result" where
  "grow env rs payer t native needed L =
     and_then (rs (ai_key t) needed L) (\<lambda>L1. and_then (env_rent env) (\<lambda>rent.
     and_then (top_up_reserve env payer t (case native of Some n \<Rightarrow> n | None \<Rightarrow> 0) (minimum_balance rent needed) L1)
       (\<lambda>L2.
     and_then (set_account_type AccountBase (ac_data (L2 (ai_key t)))) (\<lambda>d'.
     sync_reserve (ai_key t) native (minimum_balance rent needed) (set_data (ai_key t) d' L2)))))"

lemma grow_grown:
  assumes "resizes rs" "system_transfers env" "ai_key payer \<noteq> ai_key t"
    and st: "state_unpack AccountP (ac_data (L (ai_key t))) = Ok st"
    and "length (ac_data (L (ai_key t))) < needed" "needed \<noteq> MULTISIG_LEN"
    and g: "grow env rs payer t (if sa_native (base st) then Some (sa_amount (base st)) else None) needed L = Ok L'"
  shows "grown env st needed (L' (ai_key t))" "k \<noteq> ai_key t \<Longrightarrow> k \<noteq> ai_key payer \<Longrightarrow> L' k = L k"
proof -
  let ?k = "ai_key t" and ?n = "if sa_native (base st) then Some (sa_amount (base st)) else None"
  obtain L1 rent L2 d' where r: "rs ?k needed L = Ok L1" "env_rent env = Ok rent"
    "top_up_reserve env payer t (case ?n of Some n \<Rightarrow> n | None \<Rightarrow> 0) (minimum_balance rent needed) L1 = Ok L2"
    "set_account_type AccountBase (ac_data (L2 ?k)) = Ok d'"
    "sync_reserve ?k ?n (minimum_balance rent needed) (set_data ?k d' L2) = Ok L'"
    using g unfolding grow_def and_then_Ok by blast
  note L1 = resizesD [OF assms(1) r(1)]
  note tu = top_up_reserve_Ok [OF assms(2,3) r(3)]
  have d2: "ac_data (L2 ?k) = resize_value needed (ac_data (L ?k))" using tu(1) [of ?k] by (simp add: L1)
  obtain j where j: "state_unpack AccountP d' = Ok \<lparr>base = base st, tlv_data = tlv_data st @ replicate j 0\<rparr>"
    "length d' = needed"
    using reallocate_grow [OF st _ assms(6) r(4) [unfolded d2]] assms(5) by auto
  define st1 where "st1 = \<lparr>base = base st, tlv_data = tlv_data st @ replicate j 0\<rparr>"
  define L3 where "L3 = set_data ?k d' L2"
  have u: "state_unpack AccountP (ac_data (L3 ?k)) = Ok st1" using j(1) by (simp add: L3_def st1_def)
  have "sync_reserve ?k (if sa_native (base st1) then Some (sa_amount (base st1)) else None)
      (minimum_balance rent needed) L3 = Ok L'"
    unfolding st1_def L3_def PodStateWithExtensions.select_convs by (rule r(5))
  note s = sync_reserve_Ok [OF u this]
  have "ac_lamports (L' ?k) = ac_lamports (L2 ?k)" by (subst s(3)) (simp add: L3_def)
  moreover have "length (ac_data (L' ?k)) = needed" using s(2) j(2) by (simp add: L3_def)
  ultimately show "grown env st needed (L' ?k)"
    using s(1) r(2) tu(4) unfolding grown_def by (auto simp: st1_def split: if_splits)
  show "L' k = L k" if "k \<noteq> ?k" "k \<noteq> ai_key payer"
    using that tu(3) [of k] by (subst s(3)) (simp add: L1 L3_def)
qed

lemma process_reallocate_Ok:
  assumes "state_unpack AccountP (ac_data (L (ai_key t))) = Ok st"
    and "process_reallocate env rs program_id (t # payer # sys # a # rest) ts L = Ok L'"
  obtains cur needed where "sa_owner (base st) = ai_key a" "owner_signed program_id L a rest"
    "get_extension_types (tlv_data st) = Ok cur" "\<forall>e\<in>set ts. get_account_type e = AccountType.Account"
    "try_calculate_account_len AccountBase (cur @ ts) = Ok needed"
    "(if needed \<le> length (ac_data (L (ai_key t))) then Ok L
      else grow env rs payer t (if sa_native (base st) then Some (sa_amount (base st)) else None) needed L) = Ok L'"
  using assms(2) that unfolding process_reallocate_def grow_def Let_def next_account_info_Cons and_then_simps prod.case
    assms(1) and_then_Ok [of "validate_owner program_id L (sa_owner (base st)) a (data_len L a) rest"]
    and_then_Ok [of "get_extension_types (tlv_data st)"]
    and_then_Ok [of "try_calculate_account_len AccountBase us" for us] validate_owner_Ok if_Err_Ok
  by blast

lemma reallocate_facts:
  assumes "resizes rs" "system_transfers env" "ai_key payer \<noteq> ai_key t"
    and "state_unpack AccountP (ac_data (L (ai_key t))) = Ok st"
    and "process_reallocate env rs program_id (t # payer # sys # a # rest) ts L = Ok L'"
  shows "sa_owner (base st) = ai_key a \<and> owner_signed program_id L a rest"
    and "\<forall>e\<in>set ts. get_account_type e = AccountType.Account"
    and "\<exists>cur needed. get_extension_types (tlv_data st) = Ok cur \<and>
      try_calculate_account_len AccountBase (cur @ ts) = Ok needed \<and>
      (L' = L \<and> needed \<le> length (ac_data (L (ai_key t))) \<or>
       length (ac_data (L (ai_key t))) < needed \<and> grown env st needed (L' (ai_key t)))"
    and "k \<noteq> ai_key t \<Longrightarrow> k \<noteq> ai_key payer \<Longrightarrow> L' k = L k"
proof -
  obtain cur needed where h: "sa_owner (base st) = ai_key a" "owner_signed program_id L a rest"
    "get_extension_types (tlv_data st) = Ok cur" "\<forall>e\<in>set ts. get_account_type e = AccountType.Account"
    "try_calculate_account_len AccountBase (cur @ ts) = Ok needed"
    and run: "(if needed \<le> length (ac_data (L (ai_key t))) then Ok L
      else grow env rs payer t (if sa_native (base st) then Some (sa_amount (base st)) else None) needed L) = Ok L'"
    by (rule process_reallocate_Ok [OF assms(4,5)])
  show "sa_owner (base st) = ai_key a \<and> owner_signed program_id L a rest"
    "\<forall>e\<in>set ts. get_account_type e = AccountType.Account" using h by blast+
  note g = grow_grown [where L = L and L' = L' and needed = needed, OF assms(1-4) _
    try_calculate_account_len_not_multisig [OF h(5)]]
  have "(L' = L \<and> needed \<le> length (ac_data (L (ai_key t))) \<or>
       length (ac_data (L (ai_key t))) < needed \<and> grown env st needed (L' (ai_key t))) \<and>
     (\<forall>k. k \<noteq> ai_key t \<longrightarrow> k \<noteq> ai_key payer \<longrightarrow> L' k = L k)"
    using run g by (cases "needed \<le> length (ac_data (L (ai_key t)))") auto
  then show "\<exists>cur needed. get_extension_types (tlv_data st) = Ok cur \<and>
      try_calculate_account_len AccountBase (cur @ ts) = Ok needed \<and>
      (L' = L \<and> needed \<le> length (ac_data (L (ai_key t))) \<or>
       length (ac_data (L (ai_key t))) < needed \<and> grown env st needed (L' (ai_key t)))"
    and "k \<noteq> ai_key t \<Longrightarrow> k \<noteq> ai_key payer \<Longrightarrow> L' k = L k"
    using h(3,5) by blast+
qed

text \<open>
  C20: reallocation needs the signature of the owner and asks only for account extensions.  It
  either leaves everything as it is, when the account is long enough, or makes the account exactly as
  long as all its extensions need: the base state is kept, but for the reserve of a native account,
  which becomes the new one; the old extension buffer is kept and followed by zeros; and the lamports
  cover the new rent-exempt reserve besides the native balance.  Only the payer changes besides.
\<close>

theorem reallocate_correct:
  assumes "resizes rs" "system_transfers env" "ai_key payer \<noteq> ai_key t"
    and "state_unpack AccountP (ac_data (L (ai_key t))) = Ok st"
    and "process_reallocate env rs program_id (t # payer # sys # a # rest) ts L = Ok L'"
  shows "(sa_owner (base st) = ai_key a \<and> owner_signed program_id L a rest) \<and>
    (\<forall>e\<in>set ts. get_account_type e = AccountType.Account) \<and>
    (\<exists>cur needed. get_extension_types (tlv_data st) = Ok cur \<and>
      try_calculate_account_len AccountBase (cur @ ts) = Ok needed \<and>
      (L' = L \<and> needed \<le> length (ac_data (L (ai_key t))) \<or>
       length (ac_data (L (ai_key t))) < needed \<and> grown env st needed (L' (ai_key t)))) \<and>
    (k \<noteq> ai_key t \<longrightarrow> k \<noteq> ai_key payer \<longrightarrow> L' k = L k)"
  using reallocate_facts [OF assms] by blast

text \<open>A system program that checks the funds, and rent of twelve lamports.\<close>

definition demo_system_transfer :: "AccountInfo \<Rightarrow> AccountInfo \<Rightarrow> u64 \<Rightarrow> ledger \<Rightarrow> ledger result" where
  "demo_system_transfer a b n L =
     and_then (ok_or (checked_sub (ac_lamports (L (ai_key a))) n) InsufficientFundsLamports) (\<lambda>x.
     let L1 = set_lamports (ai_key a) x L
     in and_then (ok_or (checked_add (ac_lamports (L1 (ai_key b))) n) InvalidArgument) (\<lambda>y.
        Ok (set_lamports (ai_key b) y L1)))"

definition rent_env :: Env where
  "rent_env = demo_env\<lparr>env_rent := Ok \<lparr>is_exempt = (\<lambda>l n. 12 \<le> l), minimum_balance = (\<lambda>n. 12)\<rparr>,
     env_system_transfer := demo_system_transfer\<rparr>"

lemma system_transfers_rent_env: "system_transfers rent_env"
  by (auto simp: system_transfers_def rent_env_def demo_system_transfer_def res_simps Let_def checked_add_unat)

theorem reallocate_correct_witness:
  "\<exists>L' st'. process_reallocate rent_env resize_total token_program_id
      [unsigned_key 11, signed_key 10, unsigned_key 0, signed_key 21] [MemoTransfer] demo_ledger = Ok L' \<and>
    state_unpack AccountP (ac_data (L' 11)) = Ok st' \<and> sa_amount (base st') = 50 \<and>
    length (ac_data (L' 11)) = 171 \<and> 12 \<le> unat (ac_lamports (L' 11))"
proof -
  let ?a = "plain_account 1 21 50"
  let ?st = "\<lparr>base = account_view ?a, tlv_data = []\<rparr>"
  have can: "account_canonical ?a"
    by (simp add: account_canonical_def plain_account_def coption_canonical_def coption_none_def account_state_try_from_def)
  have st: "state_unpack AccountP (ac_data (demo_ledger (ai_key (unsigned_key 11)))) = Ok ?st"
    using can unfolding packed_account.state_unpack_Ok unpack_eq by simp
  have nn: "\<not> sa_native (account_view ?a)" "sa_owner (account_view ?a) = 21" "sa_amount (account_view ?a) = 50"
    by (simp_all add: account_view_def sa_native_def)
  have ow: "validate_owner token_program_id demo_ledger 21 (signed_key 21) (data_len demo_ledger (signed_key 21)) [] = Ok ()"
    by (rule validate_owner_plain) (simp add: demo_ledger_def)
  have len: "try_calculate_account_len AccountBase [MemoTransfer] = Ok 171"
    by (simp add: try_calculate_account_len_def try_get_total_tlv_len_def try_get_tlv_len_def try_get_type_len_def
        add_type_and_length_to_len_def sized_def adjust_len_for_multisig_def BASE_lens MULTISIG_LEN_def)
  have types: "get_extension_types [] = Ok []"
    by (simp add: get_extension_types_def get_tlv_data_info_def get_tlv_data_info_from.simps)
  have "set_account_type AccountBase (resize_value 171 (enc_account ?a)) = Ok (account_prefix ?a @ replicate 5 0)"
  proof -
    have "resize_value 171 (enc_account ?a) = enc_account ?a @ 0 # replicate 5 0"
      by (simp add: resize_value_def numeral_eq_Suc)
    then show ?thesis using set_account_type_account [of ?a "replicate 5 0" 0] by (simp add: MULTISIG_LEN_def)
  qed
  then have "\<exists>L'. process_reallocate rent_env resize_total token_program_id
      [unsigned_key 11, signed_key 10, unsigned_key 0, signed_key 21] [MemoTransfer] demo_ledger = Ok L'"
    using st nn ow len types
    by (simp add: process_reallocate_def Let_def resize_total_def top_up_reserve_def checked_sub_def checked_add_def
        saturating_sub_def rent_env_def demo_system_transfer_def sync_reserve_def)
  then obtain L' where p: "process_reallocate rent_env resize_total token_program_id
      (unsigned_key 11 # signed_key 10 # unsigned_key 0 # signed_key 21 # []) [MemoTransfer] demo_ledger = Ok L'" by blast
  from reallocate_correct [THEN conjunct2, THEN conjunct2, THEN conjunct1, OF resizes_total system_transfers_rent_env _ st p]
  show ?thesis using p types len nn by (auto simp: rent_env_def grown_def)
qed


text \<open>
  The native mint is an initialized mint with nine decimals, no supply and no authorities, owned by the
  program and without extensions; it is created only at its own address.
\<close>

lemma create_native_mint_effect:
  assumes "system_allocates sys" "process_create_native_mint env sys (payer # m # s # rest) L = Ok L'"
  shows "ai_key m = native_mint_id" "ac_owner (L' native_mint_id) = token_program_id"
    and "state_unpack MintP (ac_data (L' native_mint_id)) =
      Ok \<lparr>base = mint_default\<lparr>s_decimals := 9, s_is_initialized := True\<rparr>, tlv_data = []\<rparr>"
proof -
  let ?s = "mint_default\<lparr>s_decimals := NATIVE_DECIMALS, s_is_initialized := True\<rparr>"
  have sz: "SIZE_OF (pk_state MintP) = 82" by (simp add: MintP_def MINT_LEN_def)
  obtain n L1 L2 L3 d where h: "ai_key m = native_mint_id" "env_system_transfer env payer m n L = Ok L1"
    "sys_allocate sys m 82 L1 = Ok L2" "sys_assign sys m token_program_id L2 = Ok L3"
    "pack_pack MintP ?s (ac_data (L3 (ai_key m))) = Ok d" "L' = set_data (ai_key m) d L3"
    using assms(2) by (auto simp: process_create_native_mint_def res_simps Let_def sz split: if_splits)
  have L2: "L2 = set_data (ai_key m) (replicate 82 0) L1"
    and L3: "L3 = L2(ai_key m := (L2 (ai_key m))\<lparr>ac_owner := token_program_id\<rparr>)"
    using assms(1) h(3,4) unfolding system_allocates_def by blast+
  show "ai_key m = native_mint_id" by (fact h(1))
  show "ac_owner (L' native_mint_id) = token_program_id" using h(1) by (simp add: h(6) L3)
  have "ac_data (L3 (ai_key m)) = replicate 82 0" by (simp add: L3 L2)
  then have d: "pk_pack_into_slice MintP ?s (replicate 82 0) = Ok d" using h(5) by (simp add: pack_pack_def sz)
  have u: "pk_unpack_from_slice MintP d = Ok ?s" "length d = 82"
    using packed_mint.unpack_pack [OF _ d] by (simp_all add: MINT_LEN_def)
  have "pk_is_initialized MintP ?s" by (simp add: MintP_def)
  with u have "pack_unpack MintP d = Ok ?s" by (simp add: pack_unpack_def pack_unpack_unchecked_def sz)
  then show "state_unpack MintP (ac_data (L' native_mint_id)) =
      Ok \<lparr>base = mint_default\<lparr>s_decimals := 9, s_is_initialized := True\<rparr>, tlv_data = []\<rparr>"
    using h(1) u(2) by (simp add: h(6) state_unpack_def check_min_len_and_not_multisig_def sz MULTISIG_LEN_def
        unpack_tlv_data_def type_and_tlv_indices_def NATIVE_DECIMALS_def)
qed

end
