(* ===== verification/Ui_Amount.thy ===== *)
theory Ui_Amount
  imports Extension_Scenario
begin

text \<open>
  Amounts as decimal strings: \<open>amount_to_ui_amount_string\<close>, its trimmed form and
  \<open>try_ui_amount_into_amount\<close> of src/program/src/lib.rs, and the instructions
  \<open>AmountToUiAmount\<close> and \<open>UiAmountToAmount\<close> of src/program/src/processor.rs, whose result is their return
  data.  A string is its bytes.  The conversions of interest-bearing and scaled mints compute in
  \<open>f64\<close> and are a parameter.
\<close>

section \<open>Decimal numbers\<close>

text \<open>\<open>u64::to_string\<close> and \<open>str::parse::<u64>\<close>: digits, most significant first, with an optional plus sign.\<close>

fun digits :: "nat \<Rightarrow> bytes" where
  "digits n = (if n < 10 then [word_of_nat (48 + n)] else digits (n div 10) @ [word_of_nat (48 + n mod 10)])"

declare digits.simps [simp del]

definition is_digit :: "u8 \<Rightarrow> bool" where
  "is_digit c \<longleftrightarrow> 48 \<le> c \<and> c \<le> 57"

fun digits_value :: "nat \<Rightarrow> bytes \<Rightarrow> nat" where
  "digits_value acc [] = acc"
| "digits_value acc (c # cs) = digits_value (10 * acc + (unat c - 48)) cs"

definition parse_u64 :: "bytes \<Rightarrow> u64 option" where
  "parse_u64 s =
     (let ds = (case s of [] \<Rightarrow> [] | c # cs \<Rightarrow> if c = 43 then cs else s)
      in if ds = [] \<or> \<not> list_all is_digit ds then None
         else if digits_value 0 ds < 2 ^ 64 then Some (word_of_nat (digits_value 0 ds)) else None)"

section \<open>Amounts as strings\<close>

definition trim_end_matches :: "u8 \<Rightarrow> bytes \<Rightarrow> bytes" where
  "trim_end_matches c s = rev (dropWhile (\<lambda>x. x = c) (rev s))"

definition amount_to_ui_amount_string :: "u64 \<Rightarrow> u8 \<Rightarrow> bytes" where
  "amount_to_ui_amount_string amount decimals =
     (let decimals = unat decimals
      in if decimals > 0
         then let ds = digits (unat amount); s = replicate (decimals + 1 - length ds) 48 @ ds
              in take (length s - decimals) s @ [46] @ drop (length s - decimals) s
         else digits (unat amount))"

definition trim_ui_amount_string :: "bytes \<Rightarrow> u8 \<Rightarrow> bytes" where
  "trim_ui_amount_string ui_amount decimals =
     (if decimals > 0 then trim_end_matches 46 (trim_end_matches 48 ui_amount) else ui_amount)"

definition amount_to_ui_amount_string_trimmed :: "u64 \<Rightarrow> u8 \<Rightarrow> bytes" where
  "amount_to_ui_amount_string_trimmed amount decimals =
     trim_ui_amount_string (amount_to_ui_amount_string amount decimals) decimals"

text \<open>\<open>str::split\<close> at a character: the parts, at least one.\<close>

fun split_on :: "u8 \<Rightarrow> bytes \<Rightarrow> bytes list" where
  "split_on c [] = [[]]"
| "split_on c (x # xs) =
     (if x = c then [] # split_on c xs
      else case split_on c xs of [] \<Rightarrow> [[x]] | p # ps \<Rightarrow> (x # p) # ps)"

definition try_ui_amount_into_amount :: "bytes \<Rightarrow> u8 \<Rightarrow> u64 result" where
  "try_ui_amount_into_amount ui_amount decimals =
     (let decimals = unat decimals; parts = split_on 46 ui_amount; amount_str = hd parts;
          after_decimal = trim_end_matches 48 (if length parts > 1 then parts ! 1 else [])
      in if amount_str = [] \<and> after_decimal = [] \<or> length parts > 2 \<or> length after_decimal > decimals
         then Err InvalidArgument
         else ok_or (parse_u64 (amount_str @ after_decimal @ replicate (decimals - length after_decimal) 48))
                InvalidArgument)"

section \<open>The instructions\<close>

record UiConversions =
  interest_amount_to_ui_amount :: "InterestBearingConfig \<Rightarrow> u64 \<Rightarrow> u8 \<Rightarrow> u64 \<Rightarrow> bytes option"
  interest_try_ui_amount_into_amount :: "InterestBearingConfig \<Rightarrow> bytes \<Rightarrow> u8 \<Rightarrow> u64 \<Rightarrow> u64 result"
  scaled_amount_to_ui_amount :: "ScaledUiAmountConfig \<Rightarrow> u64 \<Rightarrow> u8 \<Rightarrow> u64 \<Rightarrow> bytes option"
  scaled_try_ui_amount_into_amount :: "ScaledUiAmountConfig \<Rightarrow> bytes \<Rightarrow> u8 \<Rightarrow> u64 \<Rightarrow> u64 result"

definition process_amount_to_ui_amount ::
  "Env \<Rightarrow> UiConversions \<Rightarrow> AccountInfo list \<Rightarrow> u64 \<Rightarrow> ledger \<Rightarrow> bytes result" where
  "process_amount_to_ui_amount env C accounts amount L =
     and_then (next_account_info accounts) (\<lambda>(mint_info, _).
     and_then (check_program_account (ac_owner (L (ai_key mint_info)))) (\<lambda>_.
     and_then (map_err (\<lambda>_. token_error InvalidMint) (unpack PodMintB (ac_data (L (ai_key mint_info))))) (\<lambda>mint.
     case get_extension MintBase InterestBearingConfigX (tlv_data mint) of
       Ok e \<Rightarrow> and_then (env_clock env) (\<lambda>clock.
         ok_or (interest_amount_to_ui_amount C e amount (m_decimals (base mint)) (clk_unix_timestamp clock)) InvalidArgument)
     | Err _ \<Rightarrow> (case get_extension MintBase ScaledUiAmountConfigX (tlv_data mint) of
         Ok e \<Rightarrow> and_then (env_clock env) (\<lambda>clock.
           ok_or (scaled_amount_to_ui_amount C e amount (m_decimals (base mint)) (clk_unix_timestamp clock)) InvalidArgument)
       | Err _ \<Rightarrow> Ok (amount_to_ui_amount_string_trimmed amount (m_decimals (base mint)))))))"

definition process_ui_amount_to_amount ::
  "Env \<Rightarrow> UiConversions \<Rightarrow> AccountInfo list \<Rightarrow> bytes \<Rightarrow> ledger \<Rightarrow> bytes result" where
  "process_ui_amount_to_amount env C accounts ui_amount L =
     and_then (next_account_info accounts) (\<lambda>(mint_info, _).
     and_then (check_program_account (ac_owner (L (ai_key mint_info)))) (\<lambda>_.
     and_then (map_err (\<lambda>_. token_error InvalidMint) (unpack PodMintB (ac_data (L (ai_key mint_info))))) (\<lambda>mint.
     and_then (case get_extension MintBase InterestBearingConfigX (tlv_data mint) of
         Ok e \<Rightarrow> and_then (env_clock env) (\<lambda>clock.
           interest_try_ui_amount_into_amount C e ui_amount (m_decimals (base mint)) (clk_unix_timestamp clock))
       | Err _ \<Rightarrow> (case get_extension MintBase ScaledUiAmountConfigX (tlv_data mint) of
           Ok e \<Rightarrow> and_then (env_clock env) (\<lambda>clock.
             scaled_try_ui_amount_into_amount C e ui_amount (m_decimals (base mint)) (clk_unix_timestamp clock))
         | Err _ \<Rightarrow> try_ui_amount_into_amount ui_amount (m_decimals (base mint)))) (\<lambda>amount.
     Ok (to_le 8 amount)))))"

section \<open>Lemmas on digits\<close>

lemma digit_word: "n < 10 \<Longrightarrow> is_digit (word_of_nat (48 + n))" "n < 10 \<Longrightarrow> unat (word_of_nat (48 + n) :: u8) = 48 + n"
proof -
  assume n: "n < 10"
  then show u: "unat (word_of_nat (48 + n) :: u8) = 48 + n"
    by (intro unat_of_nat_eq) simp
  show "is_digit (word_of_nat (48 + n))"
    using n u by (simp only: is_digit_def word_le_nat_alt) simp
qed

lemma digits_value_append: "digits_value acc (xs @ ys) = digits_value (digits_value acc xs) ys"
  by (induction xs arbitrary: acc) simp_all

lemma digits_correct: "list_all is_digit (digits n) \<and> digits n \<noteq> [] \<and> digits_value 0 (digits n) = n"
proof (induction n rule: digits.induct)
  case (1 n)
  show ?case
  proof (cases "n < 10")
    case True
    then show ?thesis using digit_word [of n] by (simp add: digits.simps)
  next
    case False
    have "n mod 10 < 10" by simp
    note d = digit_word [OF this]
    have "10 * (n div 10) + n mod 10 = n" by simp
    with 1 [OF False] d False show ?thesis
      by (subst (1 2 3) digits.simps) (simp add: digits_value_append)
  qed
qed

lemma digits_value_zeros: "digits_value 0 (replicate k 48 @ xs) = digits_value 0 xs"
  by (induction k) simp_all

lemma split_on_none: "c \<notin> set xs \<Longrightarrow> split_on c xs = [xs]"
  by (induction xs) auto

lemma split_on_one: "c \<notin> set xs \<Longrightarrow> c \<notin> set ys \<Longrightarrow> split_on c (xs @ c # ys) = [xs, ys]"
  by (induction xs) (auto simp: split_on_none)

lemma is_digit_not_sign: "is_digit c \<Longrightarrow> c \<noteq> 43 \<and> c \<noteq> 46"
  by (auto simp: is_digit_def)

lemma trim_end_matches_append:
  "trim_end_matches c (xs @ ys) = (if trim_end_matches c ys = [] then trim_end_matches c xs else xs @ trim_end_matches c ys)"
  by (simp add: trim_end_matches_def dropWhile_append dropWhile_eq_Nil_conv)

lemma trim_end_matches_last: "x \<noteq> c \<Longrightarrow> trim_end_matches c (xs @ [x]) = xs @ [x]"
  by (simp add: trim_end_matches_def)

lemma trim_end_matches_none: "c \<notin> set xs \<Longrightarrow> trim_end_matches c xs = xs"
  by (cases xs rule: rev_cases) (auto simp: trim_end_matches_def)

lemma trim_end_matches_split:
  "xs = trim_end_matches c xs @ replicate (length xs - length (trim_end_matches c xs)) c"
proof (induction xs rule: rev_induct)
  case (snoc x xs)
  have "length (trim_end_matches c xs) \<le> length xs"
    using length_dropWhile_le [of "\<lambda>x. x = c" "rev xs"] by (simp add: trim_end_matches_def)
  then show ?case
    using snoc by (auto simp: trim_end_matches_def Suc_diff_le replicate_append_same [symmetric])
qed (simp add: trim_end_matches_def)

lemma trim_end_matches_idem: "trim_end_matches c (trim_end_matches c xs) = trim_end_matches c xs"
  by (simp add: trim_end_matches_def)

lemma set_trim_end_matches: "set (trim_end_matches c xs) \<subseteq> set xs"
  by (auto simp: trim_end_matches_def dest: set_dropWhileD)

lemma parse_digits:
  assumes "list_all is_digit ds" "ds \<noteq> []" "digits_value 0 ds < 2 ^ 64"
  shows "parse_u64 ds = Some (word_of_nat (digits_value 0 ds))"
proof (cases ds)
  case (Cons c cs)
  then have "c \<noteq> 43" using assms(1) is_digit_not_sign by auto
  then show ?thesis using assms Cons by (simp add: parse_u64_def)
qed (use assms in simp)


section \<open>Printing and reading back\<close>

lemma amount_string_parts:
  assumes "decimals > 0"
  obtains i f where "amount_to_ui_amount_string amount decimals = i @ 46 # f" "i \<noteq> []" "length f = unat decimals"
    "list_all is_digit i" "list_all is_digit f" "digits_value 0 (i @ f) = unat amount"
proof -
  let ?d = "unat decimals" and ?ds = "digits (unat amount)"
  define s where "s = replicate (?d + 1 - length ?ds) 48 @ ?ds"
  have d: "0 < ?d" using assms by (simp add: word_less_nat_alt)
  have l: "?d < length s" by (simp add: s_def)
  have a: "list_all is_digit s" "digits_value 0 s = unat amount"
    using digits_correct [of "unat amount"] by (auto simp: s_def digits_value_zeros list_all_iff is_digit_def)
  let ?i = "take (length s - ?d) s" and ?f = "drop (length s - ?d) s"
  show thesis
  proof (rule that [of ?i ?f])
    show "amount_to_ui_amount_string amount decimals = ?i @ 46 # ?f"
      using d by (simp add: amount_to_ui_amount_string_def Let_def s_def)
    show "list_all is_digit ?i" "list_all is_digit ?f"
      using a(1) by (auto simp: list_all_iff dest: in_set_takeD in_set_dropD)
  qed (use l a(2) in auto)
qed

lemma ui_amount_read_back:
  "try_ui_amount_into_amount (amount_to_ui_amount_string_trimmed amount decimals) decimals = Ok amount"
  "try_ui_amount_into_amount (amount_to_ui_amount_string amount decimals) decimals = Ok amount"
proof -
  have small: "unat amount < 2 ^ 64" using unat_less [of amount] by simp
  have both: "try_ui_amount_into_amount (amount_to_ui_amount_string_trimmed amount decimals) decimals = Ok amount \<and>
    try_ui_amount_into_amount (amount_to_ui_amount_string amount decimals) decimals = Ok amount"
  proof (cases "decimals > 0")
    case False
    let ?ds = "digits (unat amount)"
    have nd: "46 \<notin> set ?ds" using digits_correct [of "unat amount"] by (auto simp: list_all_iff is_digit_def)
    have "parse_u64 ?ds = Some amount"
      using parse_digits [of ?ds] digits_correct [of "unat amount"] small by simp
    then show ?thesis
      using False digits_correct [of "unat amount"] nd
      by (auto simp: amount_to_ui_amount_string_trimmed_def trim_ui_amount_string_def amount_to_ui_amount_string_def
          try_ui_amount_into_amount_def split_on_none trim_end_matches_def Let_def word_less_nat_alt)
  next
    case True
    obtain i f where s: "amount_to_ui_amount_string amount decimals = i @ 46 # f" "i \<noteq> []" "length f = unat decimals"
      "list_all is_digit i" "list_all is_digit f" "digits_value 0 (i @ f) = unat amount"
      by (rule amount_string_parts [OF True])
    define g where "g = trim_end_matches 48 f"
    have ni: "46 \<notin> set i" and nf: "46 \<notin> set f"
      using s(4,5) by (auto simp: list_all_iff is_digit_def)
    have ng: "46 \<notin> set g" using nf set_trim_end_matches [of 48 f] by (auto simp: g_def)
    have f: "f = g @ replicate (unat decimals - length g) 48"
      using trim_end_matches_split [of f 48] by (simp add: g_def s(3))
    have lg: "length g \<le> unat decimals" using f s(3) by (metis length_append le_add1)
    have g: "trim_end_matches 48 g = g" by (simp add: g_def trim_end_matches_idem)
    have p: "parse_u64 (i @ g @ replicate (unat decimals - length g) 48) = Some amount"
      using parse_digits [of "i @ f"] s(2,4-6) small f by simp
    have whole: "trim_end_matches 48 (46 # f) = 46 # g"
      using trim_end_matches_append [of 48 "[46]" f] by (cases "g = []") (auto simp: g_def trim_end_matches_def)
    have trimmed: "amount_to_ui_amount_string_trimmed amount decimals = (if g = [] then i else i @ 46 # g)"
      using True trim_end_matches_append [of 48 i "46 # f"] trim_end_matches_append [of 46 i "46 # g"] whole
        trim_end_matches_none [OF ni] trim_end_matches_none [of 46 "46 # g"] trim_end_matches_append [of 46 "[46]" g]
        trim_end_matches_none [OF ng]
      by (auto simp: amount_to_ui_amount_string_trimmed_def trim_ui_amount_string_def s(1)) (auto simp: trim_end_matches_def)
    have read: "try_ui_amount_into_amount (i @ 46 # x) decimals = Ok amount" if "46 \<notin> set x" "trim_end_matches 48 x = g" for x
      using that s(2) lg p by (simp add: try_ui_amount_into_amount_def split_on_one [OF ni that(1)] Let_def)
    have "try_ui_amount_into_amount i decimals = Ok amount" if "g = []"
      using that s(2) p by (simp add: try_ui_amount_into_amount_def split_on_none [OF ni] Let_def trim_end_matches_def)
    then show ?thesis
      using read [OF ng g] read [OF nf] trimmed s(1) g_def by (cases "g = []") auto
  qed
  then show "try_ui_amount_into_amount (amount_to_ui_amount_string_trimmed amount decimals) decimals = Ok amount"
    "try_ui_amount_into_amount (amount_to_ui_amount_string amount decimals) decimals = Ok amount" by simp_all
qed

text \<open>
  C22: an amount printed with the decimals of its mint, with or without trimming, is read back
  as the same amount, for every amount and every number of decimals.
\<close>

theorem ui_amount_roundtrip:
  "try_ui_amount_into_amount (amount_to_ui_amount_string_trimmed amount decimals) decimals = Ok amount \<and>
    try_ui_amount_into_amount (amount_to_ui_amount_string amount decimals) decimals = Ok amount"
  by (intro conjI ui_amount_read_back)

text \<open>The parser also takes a plus sign after the decimal point: \<open>.+5\<close> with two decimals is five units.\<close>

lemma plus_sign_accepted: "try_ui_amount_into_amount [46, 43, 53] 2 = Ok 5"
  by (simp add: try_ui_amount_into_amount_def trim_end_matches_def parse_u64_def is_digit_def Let_def) blast

end
