(* ===== verification/Ciphertext_Arithmetic.thy ===== *)
theory Ciphertext_Arithmetic
  imports Extension_Data
begin

text \<open>
  Arithmetic on ElGamal ciphertexts (src/confidential/ciphertext-arithmetic/src/lib.rs).  The curve25519
  syscalls of the runtime are a parameter; what the code relies on is that the points are an abelian group.
  Decryption is linear, so the operations on ciphertexts are the operations on what they decrypt to.
\<close>

section \<open>The code\<close>

text \<open>A \<open>PodRistrettoPoint\<close> and a \<open>PodScalar\<close> are \<open>[u8; 32]\<close>.\<close>

type_synonym point = "256 word"
type_synonym scalar = "256 word"

record Curve =
  add_ristretto :: "point \<Rightarrow> point \<Rightarrow> point option"
  subtract_ristretto :: "point \<Rightarrow> point \<Rightarrow> point option"
  multiply_ristretto :: "scalar \<Rightarrow> point \<Rightarrow> point option"

definition SHIFT_BITS :: nat where
  "SHIFT_BITS = 16"

definition G_POINT :: point where
  "G_POINT = from_le [226, 242, 174, 10, 106, 188, 78, 113, 168, 132, 169, 97, 197, 0, 81, 95, 88, 227, 11, 106, 165,
     130, 221, 141, 182, 166, 89, 69, 224, 141, 45, 118]"

definition u64_to_scalar :: "u64 \<Rightarrow> scalar" where
  "u64_to_scalar amount = from_le (to_le 8 amount @ replicate 24 0)"

definition elgamal_ciphertext_to_ristretto :: "ciphertext \<Rightarrow> point \<times> point" where
  "elgamal_ciphertext_to_ristretto c =
     (let ciphertext_bytes = to_le 64 c
      in (from_le (subslice 0 32 ciphertext_bytes), from_le (subslice 32 32 ciphertext_bytes)))"

definition ristretto_to_elgamal_ciphertext :: "point \<Rightarrow> point \<Rightarrow> ciphertext" where
  "ristretto_to_elgamal_ciphertext commitment handle = from_le (to_le 32 commitment @ to_le 32 handle)"

definition ct_add :: "Curve \<Rightarrow> ciphertext \<Rightarrow> ciphertext \<Rightarrow> ciphertext option" where
  "ct_add C left_ciphertext right_ciphertext =
     (let (left_commitment, left_handle) = elgamal_ciphertext_to_ristretto left_ciphertext;
          (right_commitment, right_handle) = elgamal_ciphertext_to_ristretto right_ciphertext
      in Option.bind (add_ristretto C left_commitment right_commitment) (\<lambda>result_commitment.
         Option.bind (add_ristretto C left_handle right_handle) (\<lambda>result_handle.
         Some (ristretto_to_elgamal_ciphertext result_commitment result_handle))))"

definition ct_multiply :: "Curve \<Rightarrow> scalar \<Rightarrow> ciphertext \<Rightarrow> ciphertext option" where
  "ct_multiply C scalar ciphertext =
     (let (commitment, handle) = elgamal_ciphertext_to_ristretto ciphertext
      in Option.bind (multiply_ristretto C scalar commitment) (\<lambda>result_commitment.
         Option.bind (multiply_ristretto C scalar handle) (\<lambda>result_handle.
         Some (ristretto_to_elgamal_ciphertext result_commitment result_handle))))"

definition add_with_lo_hi :: "Curve \<Rightarrow> ciphertext \<Rightarrow> ciphertext \<Rightarrow> ciphertext \<Rightarrow> ciphertext option" where
  "add_with_lo_hi C left_ciphertext right_ciphertext_lo right_ciphertext_hi =
     (let shift_scalar = u64_to_scalar (push_bit SHIFT_BITS 1)
      in Option.bind (ct_multiply C shift_scalar right_ciphertext_hi) (\<lambda>shifted_right_ciphertext_hi.
         Option.bind (ct_add C right_ciphertext_lo shifted_right_ciphertext_hi) (\<lambda>combined_right_ciphertext.
         ct_add C left_ciphertext combined_right_ciphertext)))"

definition ct_subtract :: "Curve \<Rightarrow> ciphertext \<Rightarrow> ciphertext \<Rightarrow> ciphertext option" where
  "ct_subtract C left_ciphertext right_ciphertext =
     (let (left_commitment, left_handle) = elgamal_ciphertext_to_ristretto left_ciphertext;
          (right_commitment, right_handle) = elgamal_ciphertext_to_ristretto right_ciphertext
      in Option.bind (subtract_ristretto C left_commitment right_commitment) (\<lambda>result_commitment.
         Option.bind (subtract_ristretto C left_handle right_handle) (\<lambda>result_handle.
         Some (ristretto_to_elgamal_ciphertext result_commitment result_handle))))"

definition subtract_with_lo_hi :: "Curve \<Rightarrow> ciphertext \<Rightarrow> ciphertext \<Rightarrow> ciphertext \<Rightarrow> ciphertext option" where
  "subtract_with_lo_hi C left_ciphertext right_ciphertext_lo right_ciphertext_hi =
     (let shift_scalar = u64_to_scalar (push_bit SHIFT_BITS 1)
      in Option.bind (ct_multiply C shift_scalar right_ciphertext_hi) (\<lambda>shifted_right_ciphertext_hi.
         Option.bind (ct_add C right_ciphertext_lo shifted_right_ciphertext_hi) (\<lambda>combined_right_ciphertext.
         ct_subtract C left_ciphertext combined_right_ciphertext)))"

definition add_to :: "Curve \<Rightarrow> ciphertext \<Rightarrow> u64 \<Rightarrow> ciphertext option" where
  "add_to C ciphertext amount =
     Option.bind (multiply_ristretto C (u64_to_scalar amount) G_POINT) (\<lambda>amount_point.
     let (commitment, handle) = elgamal_ciphertext_to_ristretto ciphertext
     in Option.bind (add_ristretto C commitment amount_point) (\<lambda>result_commitment.
        Some (ristretto_to_elgamal_ciphertext result_commitment handle)))"

definition subtract_from :: "Curve \<Rightarrow> ciphertext \<Rightarrow> u64 \<Rightarrow> ciphertext option" where
  "subtract_from C ciphertext amount =
     Option.bind (multiply_ristretto C (u64_to_scalar amount) G_POINT) (\<lambda>amount_point.
     let (commitment, handle) = elgamal_ciphertext_to_ristretto ciphertext
     in Option.bind (subtract_ristretto C commitment amount_point) (\<lambda>result_commitment.
        Some (ristretto_to_elgamal_ciphertext result_commitment handle)))"

section \<open>The group of points\<close>

primrec scale :: "nat \<Rightarrow> 'g::ab_group_add \<Rightarrow> 'g" where
  "scale 0 P = 0"
| "scale (Suc n) P = P + scale n P"

lemma scale_add: "scale (m + n) P = scale m P + scale n P"
  by (induction m) (simp_all add: algebra_simps)

lemma scale_point_add: "scale n (P + Q) = scale n P + scale n Q"
  by (induction n) (simp_all add: algebra_simps)

lemma scale_point_diff: "scale n (P - Q) = scale n P - scale n Q"
  by (induction n) (simp_all add: algebra_simps)

lemma scale_mult: "scale (m * n) P = scale m (scale n P)"
  by (induction m) (simp_all add: scale_add)

lemma scale_zero [simp]: "scale n 0 = 0"
  by (induction n) simp_all

text \<open>
  The documented behaviour of the syscalls: \<open>decode\<close> gives the group element of an encoding (None for
  bytes that are none), the operations succeed on encodings and compute in the group (a scalar of at most
  64 bits is canonical), and 32 zero bytes encode the neutral element.
\<close>

definition ristretto_group :: "Curve \<Rightarrow> (point \<Rightarrow> 'g::ab_group_add option) \<Rightarrow> bool" where
  "ristretto_group C decode \<longleftrightarrow>
     (\<forall>p q P Q. decode p = Some P \<longrightarrow> decode q = Some Q \<longrightarrow>
        (\<exists>r. add_ristretto C p q = Some r \<and> decode r = Some (P + Q)) \<and>
        (\<exists>r. subtract_ristretto C p q = Some r \<and> decode r = Some (P - Q)) \<and>
        (\<forall>s. unat s < 2 ^ 64 \<longrightarrow> (\<exists>r. multiply_ristretto C s p = Some r \<and> decode r = Some (scale (unat s) P)))) \<and>
     decode 0 = Some 0 \<and> decode G_POINT \<noteq> None"

lemma ristretto_groupD:
  assumes "ristretto_group C decode" "decode p = Some P" "decode q = Some Q"
  shows "\<exists>r. add_ristretto C p q = Some r \<and> decode r = Some (P + Q)"
    and "\<exists>r. subtract_ristretto C p q = Some r \<and> decode r = Some (P - Q)"
    and "unat s < 2 ^ 64 \<Longrightarrow> \<exists>r. multiply_ristretto C s p = Some r \<and> decode r = Some (scale (unat s) P)"
  using assms unfolding ristretto_group_def by blast+

section \<open>What a ciphertext decrypts to\<close>

text \<open>
  A ciphertext is a commitment \<open>x * G + r * H\<close> and a handle \<open>r * P\<close> for a key \<open>P\<close>; the holder of the
  secret \<open>s\<close> with \<open>s * P = H\<close> takes \<open>s\<close> times the handle off the commitment and keeps \<open>x * G\<close>.
\<close>

definition opens :: "(point \<Rightarrow> 'g::ab_group_add option) \<Rightarrow> nat \<Rightarrow> ciphertext \<Rightarrow> 'g \<Rightarrow> bool" where
  "opens decode s c M \<longleftrightarrow>
     (\<exists>P Q. decode (fst (elgamal_ciphertext_to_ristretto c)) = Some P \<and>
            decode (snd (elgamal_ciphertext_to_ristretto c)) = Some Q \<and> M = P - scale s Q)"

text \<open>The plain amount \<open>x\<close>, as the point \<open>x * G\<close>.\<close>

definition amount_point :: "(point \<Rightarrow> 'g::ab_group_add option) \<Rightarrow> nat \<Rightarrow> 'g" where
  "amount_point decode x = scale x (the (decode G_POINT))"

lemma amount_point_add: "amount_point decode (x + y) = amount_point decode x + amount_point decode y"
  by (simp add: amount_point_def scale_add)

lemma amount_point_times: "scale n (amount_point decode x) = amount_point decode (n * x)"
  by (simp add: amount_point_def scale_mult)

lemma elgamal_roundtrip [simp]:
  "elgamal_ciphertext_to_ristretto (ristretto_to_elgamal_ciphertext p q) = (p, q)"
  by (simp add: elgamal_ciphertext_to_ristretto_def ristretto_to_elgamal_ciphertext_def subslice_simps)

text \<open>Each operation on ciphertexts is the group operation on what they decrypt to.\<close>

lemma ct_add_opens:
  assumes "ristretto_group C decode" "opens decode s a A" "opens decode s b B"
  shows "\<exists>c. ct_add C a b = Some c \<and> opens decode s c (A + B)"
proof -
  obtain P Q R S where d: "decode (fst (elgamal_ciphertext_to_ristretto a)) = Some P"
      "decode (snd (elgamal_ciphertext_to_ristretto a)) = Some Q" "A = P - scale s Q"
      "decode (fst (elgamal_ciphertext_to_ristretto b)) = Some R"
      "decode (snd (elgamal_ciphertext_to_ristretto b)) = Some S" "B = R - scale s S"
    using assms(2,3) by (auto simp: opens_def)
  show ?thesis
    using ristretto_groupD(1) [OF assms(1) d(1,4)] ristretto_groupD(1) [OF assms(1) d(2,5)]
    by (auto simp: ct_add_def opens_def d(3,6) scale_point_add split_beta)
qed

lemma ct_subtract_opens:
  assumes "ristretto_group C decode" "opens decode s a A" "opens decode s b B"
  shows "\<exists>c. ct_subtract C a b = Some c \<and> opens decode s c (A - B)"
proof -
  obtain P Q R S where d: "decode (fst (elgamal_ciphertext_to_ristretto a)) = Some P"
      "decode (snd (elgamal_ciphertext_to_ristretto a)) = Some Q" "A = P - scale s Q"
      "decode (fst (elgamal_ciphertext_to_ristretto b)) = Some R"
      "decode (snd (elgamal_ciphertext_to_ristretto b)) = Some S" "B = R - scale s S"
    using assms(2,3) by (auto simp: opens_def)
  show ?thesis
    using ristretto_groupD(2) [OF assms(1) d(1,4)] ristretto_groupD(2) [OF assms(1) d(2,5)]
    by (auto simp: ct_subtract_def opens_def d(3,6) scale_point_diff split_beta)
qed

lemma ct_multiply_opens:
  assumes "ristretto_group C decode" "opens decode s a A" "unat n < 2 ^ 64"
  shows "\<exists>c. ct_multiply C n a = Some c \<and> opens decode s c (scale (unat n) A)"
proof -
  obtain P Q where d: "decode (fst (elgamal_ciphertext_to_ristretto a)) = Some P"
      "decode (snd (elgamal_ciphertext_to_ristretto a)) = Some Q" "A = P - scale s Q"
    using assms(2) by (auto simp: opens_def)
  have "scale s (scale (unat n) Q) = scale (unat n) (scale s Q)"
    by (metis scale_mult mult.commute)
  then show ?thesis
    using ristretto_groupD(3) [OF assms(1) d(1,1) assms(3)] ristretto_groupD(3) [OF assms(1) d(2,2) assms(3)]
    by (auto simp: ct_multiply_def opens_def d(3) scale_point_diff split_beta)
qed

lemma le_nat_zeros [simp]: "le_nat (replicate n 0) = 0" "le_nat (bs @ replicate n 0) = le_nat bs"
proof -
  show z: "le_nat (replicate n 0) = 0" by (induction n) simp_all
  show "le_nat (bs @ replicate n 0) = le_nat bs" by (induction bs) (simp_all add: z)
qed

lemma to_le_zero: "to_le n 0 = replicate n 0"
  using le_bytes_le_nat [of "replicate n 0"] by (simp add: to_le_def)

lemma unat_u64_to_scalar [simp]: "unat (u64_to_scalar n) = unat n"
proof -
  have "unat n < 2 ^ 64" using unat_less [of n] by simp
  moreover from this have "unat n < 2 ^ 256" by simp
  ultimately show ?thesis by (simp add: u64_to_scalar_def from_le_def to_le_def le_nat_le_bytes unat_of_nat unat_ucast_up)
qed

lemma lo_hi_opens:
  assumes "ristretto_group C decode" "opens decode s lo A" "opens decode s hi B"
  shows "\<exists>h c. ct_multiply C (u64_to_scalar (push_bit SHIFT_BITS 1)) hi = Some h \<and> ct_add C lo h = Some c \<and>
    opens decode s c (A + scale 65536 B)"
proof -
  have n: "unat (u64_to_scalar (push_bit SHIFT_BITS 1)) = 65536" by (simp add: SHIFT_BITS_def push_bit_eq_mult)
  obtain h where h: "ct_multiply C (u64_to_scalar (push_bit SHIFT_BITS 1)) hi = Some h" "opens decode s h (scale 65536 B)"
    using ct_multiply_opens [OF assms(1,3), of "u64_to_scalar (push_bit SHIFT_BITS 1)", unfolded n] by auto
  with ct_add_opens [OF assms(1,2) h(2)] show ?thesis by auto
qed

lemma add_with_lo_hi_opens:
  assumes "ristretto_group C decode" "opens decode s c M" "opens decode s lo A" "opens decode s hi B"
  shows "\<exists>c'. add_with_lo_hi C c lo hi = Some c' \<and> opens decode s c' (M + (A + scale 65536 B))"
proof -
  obtain h k where k: "ct_multiply C (u64_to_scalar (push_bit SHIFT_BITS 1)) hi = Some h" "ct_add C lo h = Some k"
    "opens decode s k (A + scale 65536 B)"
    using lo_hi_opens [OF assms(1,3,4)] by blast
  with ct_add_opens [OF assms(1,2) k(3)] show ?thesis by (simp add: add_with_lo_hi_def)
qed

lemma subtract_with_lo_hi_opens:
  assumes "ristretto_group C decode" "opens decode s c M" "opens decode s lo A" "opens decode s hi B"
  shows "\<exists>c'. subtract_with_lo_hi C c lo hi = Some c' \<and> opens decode s c' (M - (A + scale 65536 B))"
proof -
  obtain h k where k: "ct_multiply C (u64_to_scalar (push_bit SHIFT_BITS 1)) hi = Some h" "ct_add C lo h = Some k"
    "opens decode s k (A + scale 65536 B)"
    using lo_hi_opens [OF assms(1,3,4)] by blast
  with ct_subtract_opens [OF assms(1,2) k(3)] show ?thesis by (simp add: subtract_with_lo_hi_def)
qed

lemma amount_multiply:
  assumes "ristretto_group C decode"
  shows "\<exists>r. multiply_ristretto C (u64_to_scalar n) G_POINT = Some r \<and> decode r = Some (amount_point decode (unat n))"
proof -
  obtain g where "decode G_POINT = Some g" using assms by (auto simp: ristretto_group_def)
  then show ?thesis
    using ristretto_groupD(3) [OF assms \<open>decode G_POINT = Some g\<close> \<open>decode G_POINT = Some g\<close>, of "u64_to_scalar n"] unat_less [of n]
    by (simp add: amount_point_def)
qed

lemma add_to_opens:
  assumes "ristretto_group C decode" "opens decode s c M"
  shows "\<exists>c'. add_to C c n = Some c' \<and> opens decode s c' (M + amount_point decode (unat n))"
proof -
  obtain P Q where d: "decode (fst (elgamal_ciphertext_to_ristretto c)) = Some P"
      "decode (snd (elgamal_ciphertext_to_ristretto c)) = Some Q" "M = P - scale s Q"
    using assms(2) by (auto simp: opens_def)
  obtain r where r: "multiply_ristretto C (u64_to_scalar n) G_POINT = Some r" "decode r = Some (amount_point decode (unat n))"
    using amount_multiply [OF assms(1)] by blast
  show ?thesis
    using ristretto_groupD(1) [OF assms(1) d(1) r(2)] d(2)
    by (auto simp: add_to_def r(1) opens_def d(3) split_beta)
qed

lemma subtract_from_opens:
  assumes "ristretto_group C decode" "opens decode s c M"
  shows "\<exists>c'. subtract_from C c n = Some c' \<and> opens decode s c' (M - amount_point decode (unat n))"
proof -
  obtain P Q where d: "decode (fst (elgamal_ciphertext_to_ristretto c)) = Some P"
      "decode (snd (elgamal_ciphertext_to_ristretto c)) = Some Q" "M = P - scale s Q"
    using assms(2) by (auto simp: opens_def)
  obtain r where r: "multiply_ristretto C (u64_to_scalar n) G_POINT = Some r" "decode r = Some (amount_point decode (unat n))"
    using amount_multiply [OF assms(1)] by blast
  show ?thesis
    using ristretto_groupD(2) [OF assms(1) d(1) r(2)] d(2)
    by (auto simp: subtract_from_def r(1) opens_def d(3) split_beta)
qed

text \<open>The all-zero ciphertext is an encryption of zero under every key.\<close>

lemma zero_opens:
  assumes "ristretto_group C decode"
  shows "opens decode s 0 0"
proof -
  have "elgamal_ciphertext_to_ristretto 0 = (0, 0)"
    by (simp add: elgamal_ciphertext_to_ristretto_def to_le_zero subslice_def from_le_def)
  then show ?thesis using assms by (simp add: opens_def ristretto_group_def)
qed

lemma opens_unique: "opens decode s c M \<Longrightarrow> opens decode s c N \<Longrightarrow> M = N"
  by (auto simp: opens_def)

section \<open>A curve to evaluate with\<close>

text \<open>The group of 256-bit words, every word being the encoding of itself.\<close>

definition word_curve :: Curve where
  "word_curve = \<lparr>add_ristretto = (\<lambda>p q. Some (p + q)), subtract_ristretto = (\<lambda>p q. Some (p - q)),
     multiply_ristretto = (\<lambda>s p. Some (s * p))\<rparr>"

lemma scale_word: "scale n p = of_nat n * p" for p :: "'a::len word"
  by (induction n) (simp_all add: algebra_simps)

lemma word_curve_group: "ristretto_group word_curve Some"
  by (simp add: ristretto_group_def word_curve_def scale_word)

end
