(* ===== verification/Proof_Extraction.thy ===== *)
theory Proof_Extraction
  imports Ciphertext_Arithmetic Ledger
begin

text \<open>
  What the token program takes from zero-knowledge proofs (src/confidential/proof-extraction/src): where a
  proof context comes from, and the consistency checks between the contexts of the proofs of one
  instruction.  The ZK ElGamal proof program and its SDK are a parameter: the contexts are the records the
  code destructures, their reading from bytes and the splitting of grouped ciphertexts are functions of the
  parameter.
\<close>

section \<open>The proof program\<close>

datatype ProofType = ZeroCiphertext | CiphertextCiphertextEquality | PubkeyValidity | BatchedRangeProofU64 |
  BatchedRangeProofU128 | BatchedRangeProofU256 | CiphertextCommitmentEquality |
  GroupedCiphertext2HandlesValidity | BatchedGroupedCiphertext2HandlesValidity | PercentageWithCap |
  GroupedCiphertext3HandlesValidity | BatchedGroupedCiphertext3HandlesValidity | UninitializedProof

text \<open>The instructions the code names; any other instruction of the proof program equals none of them.\<close>

datatype ProofInstruction = VerifyZeroCiphertext | VerifyCiphertextCiphertextEquality | VerifyPubkeyValidity |
  VerifyBatchedRangeProofU64 | VerifyBatchedRangeProofU128 | VerifyBatchedRangeProofU256 |
  VerifyCiphertextCommitmentEquality | VerifyGroupedCiphertext2HandlesValidity |
  VerifyBatchedGroupedCiphertext2HandlesValidity | VerifyPercentageWithCap |
  VerifyGroupedCiphertext3HandlesValidity | VerifyBatchedGroupedCiphertext3HandlesValidity

type_synonym commitment = "256 word"
type_synonym grouped3 = "1024 word"
type_synonym grouped2 = "768 word"

record ZeroCiphertextProofContext =
  zc_pubkey :: pubkey
  zc_ciphertext :: ciphertext

record CiphertextCiphertextEqualityProofContext =
  cc_first_pubkey :: pubkey
  cc_second_pubkey :: pubkey
  cc_first_ciphertext :: ciphertext
  cc_second_ciphertext :: ciphertext

record CiphertextCommitmentEqualityProofContext =
  ce_pubkey :: pubkey
  ce_ciphertext :: ciphertext
  ce_commitment :: commitment

record BatchedRangeProofContext =
  rp_commitments :: "commitment list"
  rp_bit_lengths :: "u8 list"

record BatchedGroupedCiphertext3HandlesValidityProofContext =
  v3_first_pubkey :: pubkey
  v3_second_pubkey :: pubkey
  v3_third_pubkey :: pubkey
  v3_grouped_ciphertext_lo :: grouped3
  v3_grouped_ciphertext_hi :: grouped3

record BatchedGroupedCiphertext2HandlesValidityProofContext =
  v2_first_pubkey :: pubkey
  v2_second_pubkey :: pubkey
  v2_grouped_ciphertext_lo :: grouped2
  v2_grouped_ciphertext_hi :: grouped2

record PercentageWithCapProofContext =
  pw_percentage_commitment :: commitment
  pw_delta_commitment :: commitment
  pw_claimed_commitment :: commitment
  pw_max_value :: u64

text \<open>
  A kind of proof: its type, how its context is read from a context-state account (the type of the stored
  proof and the context) and from the data of a proof instruction.
\<close>

record 'u ZkProofData =
  PROOF_TYPE :: ProofType
  context_state :: "bytes \<Rightarrow> (u8 \<times> 'u) result"
  instruction_context :: "bytes \<Rightarrow> 'u option"

record ZkSdk =
  zk_curve :: Curve
  zk_program_id :: pubkey
  zk_proof_type_code :: "ProofType \<Rightarrow> u8"
  zk_instruction_type :: "bytes \<Rightarrow> ProofInstruction option"
  zk_get_instruction_relative :: "int \<Rightarrow> AccountInfo \<Rightarrow> ledger \<Rightarrow> (pubkey \<times> bytes) result"
  zk_pubkey_validity :: "pubkey ZkProofData"
  zk_zero_ciphertext :: "ZeroCiphertextProofContext ZkProofData"
  zk_ciphertext_equality :: "CiphertextCiphertextEqualityProofContext ZkProofData"
  zk_commitment_equality :: "CiphertextCommitmentEqualityProofContext ZkProofData"
  zk_range_u64 :: "BatchedRangeProofContext ZkProofData"
  zk_range_u128 :: "BatchedRangeProofContext ZkProofData"
  zk_range_u256 :: "BatchedRangeProofContext ZkProofData"
  zk_validity3 :: "BatchedGroupedCiphertext3HandlesValidityProofContext ZkProofData"
  zk_validity2 :: "BatchedGroupedCiphertext2HandlesValidityProofContext ZkProofData"
  zk_percentage :: "PercentageWithCapProofContext ZkProofData"
  zk_extract_commitment3 :: "grouped3 \<Rightarrow> commitment"
  zk_extract_commitment2 :: "grouped2 \<Rightarrow> commitment"
  zk_extract_ciphertext3 :: "grouped3 \<Rightarrow> nat \<Rightarrow> ciphertext option"
  zk_extract_ciphertext2 :: "grouped2 \<Rightarrow> nat \<Rightarrow> ciphertext option"

section \<open>Errors\<close>

datatype TokenProofExtractionError = ElGamalPubkeyMismatch | PedersenCommitmentMismatch |
  RangeProofLengthMismatch | FeeParametersMismatch | CurveArithmetic | CiphertextExtraction

primrec token_error_from_proof_extraction :: "TokenProofExtractionError \<Rightarrow> TokenError" where
  "token_error_from_proof_extraction ElGamalPubkeyMismatch = ConfidentialTransferElGamalPubkeyMismatch"
| "token_error_from_proof_extraction PedersenCommitmentMismatch = TokenError.PedersenCommitmentMismatch"
| "token_error_from_proof_extraction RangeProofLengthMismatch = TokenError.RangeProofLengthMismatch"
| "token_error_from_proof_extraction FeeParametersMismatch = TokenError.FeeParametersMismatch"
| "token_error_from_proof_extraction CurveArithmetic = CiphertextArithmeticFailed"
| "token_error_from_proof_extraction CiphertextExtraction = MalformedCiphertext"

text \<open>\<open>r.map_err(|e| -> TokenError { e.into() })?\<close>\<close>

definition extraction :: "TokenProofExtractionError + 'a \<Rightarrow> 'a result" where
  "extraction r = map_err (\<lambda>e. token_error (token_error_from_proof_extraction e)) r"

definition try_extract_ciphertext3 :: "ZkSdk \<Rightarrow> grouped3 \<Rightarrow> nat \<Rightarrow> TokenProofExtractionError + ciphertext" where
  "try_extract_ciphertext3 zk c index = ok_or (zk_extract_ciphertext3 zk c index) CiphertextExtraction"

definition try_extract_ciphertext2 :: "ZkSdk \<Rightarrow> grouped2 \<Rightarrow> nat \<Rightarrow> TokenProofExtractionError + ciphertext" where
  "try_extract_ciphertext2 zk c index = ok_or (zk_extract_ciphertext2 zk c index) CiphertextExtraction"

lemma extraction_Ok [res_simps]: "extraction r = Ok x \<longleftrightarrow> r = Ok x"
  by (simp add: extraction_def res_simps)

lemma extraction_simps [simp]:
  "extraction (Ok x) = Ok x" "extraction (Err e) = TErr (token_error_from_proof_extraction e)"
  by (simp_all add: extraction_def)

section \<open>Where a proof context comes from\<close>

definition check_zk_elgamal_proof_program_account :: "ZkSdk \<Rightarrow> pubkey \<Rightarrow> unit result" where
  "check_zk_elgamal_proof_program_account zk k = (if k \<noteq> zk_program_id zk then Err IncorrectProgramId else Ok ())"

fun zk_proof_type_to_instruction :: "ProofType \<Rightarrow> ProofInstruction result" where
  "zk_proof_type_to_instruction ZeroCiphertext = Ok VerifyZeroCiphertext"
| "zk_proof_type_to_instruction CiphertextCiphertextEquality = Ok VerifyCiphertextCiphertextEquality"
| "zk_proof_type_to_instruction PubkeyValidity = Ok VerifyPubkeyValidity"
| "zk_proof_type_to_instruction BatchedRangeProofU64 = Ok VerifyBatchedRangeProofU64"
| "zk_proof_type_to_instruction BatchedRangeProofU128 = Ok VerifyBatchedRangeProofU128"
| "zk_proof_type_to_instruction BatchedRangeProofU256 = Ok VerifyBatchedRangeProofU256"
| "zk_proof_type_to_instruction CiphertextCommitmentEquality = Ok VerifyCiphertextCommitmentEquality"
| "zk_proof_type_to_instruction GroupedCiphertext2HandlesValidity = Ok VerifyGroupedCiphertext2HandlesValidity"
| "zk_proof_type_to_instruction BatchedGroupedCiphertext2HandlesValidity =
     Ok VerifyBatchedGroupedCiphertext2HandlesValidity"
| "zk_proof_type_to_instruction PercentageWithCap = Ok VerifyPercentageWithCap"
| "zk_proof_type_to_instruction GroupedCiphertext3HandlesValidity = Ok VerifyGroupedCiphertext3HandlesValidity"
| "zk_proof_type_to_instruction BatchedGroupedCiphertext3HandlesValidity =
     Ok VerifyBatchedGroupedCiphertext3HandlesValidity"
| "zk_proof_type_to_instruction UninitializedProof = Err InvalidInstructionData"

definition decode_proof_instruction_context ::
  "ZkSdk \<Rightarrow> 'u ZkProofData \<Rightarrow> ProofInstruction \<Rightarrow> pubkey \<times> bytes \<Rightarrow> 'u result" where
  "decode_proof_instruction_context zk T expected instruction =
     (if fst instruction \<noteq> zk_program_id zk \<or> zk_instruction_type zk (snd instruction) \<noteq> Some expected
      then Err InvalidInstructionData
      else ok_or (instruction_context T (snd instruction)) InvalidInstructionData)"

text \<open>
  \<open>read\<close> is the borrow of the data of an account, which panics for the data the caller has borrowed
  mutably.  The rest of the account list is returned, as the code moves the iterator it is given.
\<close>

definition verify_and_extract_context ::
  "ZkSdk \<Rightarrow> 'u ZkProofData \<Rightarrow> (AccountInfo \<Rightarrow> bytes result) \<Rightarrow> ledger \<Rightarrow> AccountInfo list \<Rightarrow> int \<Rightarrow>
     AccountInfo option \<Rightarrow> ('u \<times> AccountInfo list) result" where
  "verify_and_extract_context zk T read L iter proof_instruction_offset sysvar_account_info =
     (if proof_instruction_offset = 0
      then and_then (next_account_info iter) (\<lambda>(context_state_account_info, iter).
           and_then (check_zk_elgamal_proof_program_account zk (ac_owner (L (ai_key context_state_account_info)))) (\<lambda>_.
           and_then (read context_state_account_info) (\<lambda>context_state_account_data.
           and_then (context_state T context_state_account_data) (\<lambda>(proof_type, proof_context).
           if proof_type \<noteq> zk_proof_type_code zk (PROOF_TYPE T) then Err InvalidInstructionData
           else Ok (proof_context, iter)))))
      else and_then (case sysvar_account_info of Some info \<Rightarrow> Ok (info, iter) | None \<Rightarrow> next_account_info iter)
             (\<lambda>(sysvar_account_info, iter).
           and_then (zk_get_instruction_relative zk proof_instruction_offset sysvar_account_info L) (\<lambda>zkp_instruction.
           and_then (zk_proof_type_to_instruction (PROOF_TYPE T)) (\<lambda>expected_proof_type.
           and_then (decode_proof_instruction_context zk T expected_proof_type zkp_instruction) (\<lambda>context.
           Ok (context, iter))))))"

text \<open>Nothing borrowed, and the data of one account borrowed mutably.\<close>

abbreviation read_any :: "ledger \<Rightarrow> AccountInfo \<Rightarrow> bytes result" where
  "read_any L \<equiv> (\<lambda>info. Ok (ac_data (L (ai_key info))))"

text \<open>
  A context is one the proof program vouches for: it is stored in an account of the proof program with the
  right proof type, or it is the context of a proof instruction of that type in the same transaction.
\<close>

definition proven_context :: "ZkSdk \<Rightarrow> 'u ZkProofData \<Rightarrow> ledger \<Rightarrow> 'u \<Rightarrow> bool" where
  "proven_context zk T L c \<longleftrightarrow>
     (\<exists>k. ac_owner (L k) = zk_program_id zk \<and>
        context_state T (ac_data (L k)) = Ok (zk_proof_type_code zk (PROOF_TYPE T), c)) \<or>
     (\<exists>offset sysvar data i. zk_get_instruction_relative zk offset sysvar L = Ok (zk_program_id zk, data) \<and>
        zk_proof_type_to_instruction (PROOF_TYPE T) = Ok i \<and> zk_instruction_type zk data = Some i \<and>
        instruction_context T data = Some c)"

definition borrows :: "(AccountInfo \<Rightarrow> bytes result) \<Rightarrow> ledger \<Rightarrow> bool" where
  "borrows read L \<longleftrightarrow> (\<forall>i d. read i = Ok d \<longrightarrow> d = ac_data (L (ai_key i)))"

lemma borrows_simps [simp]: "borrows (read_any L) L" "borrows (borrow_data k L) L"
  by (simp_all add: borrows_def res_simps)

lemma verify_and_extract_context_proven:
  assumes "verify_and_extract_context zk T read L iter offset sysvar = Ok (c, rest)" "borrows read L"
  shows "proven_context zk T L c"
proof (cases "offset = 0")
  case True
  with assms show ?thesis
    unfolding borrows_def
    by (auto simp: verify_and_extract_context_def proven_context_def res_simps
        check_zk_elgamal_proof_program_account_def split: if_splits)
next
  case False
  with assms(1) show ?thesis
    unfolding proven_context_def
    by (auto simp: verify_and_extract_context_def res_simps decode_proof_instruction_context_def
        split: if_splits option.splits prod.splits intro!: disjI2)
qed

section \<open>Consistency of the proofs of one instruction\<close>

text \<open>\<open>xs.iter().zip(ys).all(|(x, y)| x == y)\<close>\<close>

definition zip_all_eq :: "'a list \<Rightarrow> 'a list \<Rightarrow> bool" where
  "zip_all_eq xs ys = list_all (\<lambda>(x, y). x = y) (zip xs ys)"

lemma zip_all_eq_take: "length ys \<le> length xs \<Longrightarrow> zip_all_eq xs ys \<longleftrightarrow> take (length ys) xs = ys"
proof (induction ys arbitrary: xs)
  case (Cons y ys)
  then show ?case by (cases xs) (auto simp: zip_all_eq_def)
qed (simp add: zip_all_eq_def)

subsection \<open>Withdraw\<close>

record WithdrawProofContext =
  wp_source_pubkey :: pubkey
  wp_remaining_balance_ciphertext :: ciphertext

definition REMAINING_BALANCE_BIT_LENGTH :: u8 where
  "REMAINING_BALANCE_BIT_LENGTH = 64"

definition verify_and_extract_withdraw ::
  "CiphertextCommitmentEqualityProofContext \<Rightarrow> BatchedRangeProofContext \<Rightarrow>
     TokenProofExtractionError + WithdrawProofContext" where
  "verify_and_extract_withdraw equality_proof_context range_proof_context =
     (if rp_commitments range_proof_context ! 0 \<noteq> ce_commitment equality_proof_context
      then Err PedersenCommitmentMismatch
      else if rp_bit_lengths range_proof_context ! 0 \<noteq> REMAINING_BALANCE_BIT_LENGTH
      then Err RangeProofLengthMismatch
      else Ok \<lparr>wp_source_pubkey = ce_pubkey equality_proof_context,
                wp_remaining_balance_ciphertext = ce_ciphertext equality_proof_context\<rparr>)"

subsection \<open>Transfer, mint and burn\<close>

record TransferProofContext =
  tp_ciphertext_lo :: grouped3
  tp_ciphertext_hi :: grouped3
  tp_source :: pubkey
  tp_destination :: pubkey
  tp_auditor :: pubkey
  tp_new_source_ciphertext :: ciphertext

definition verify_and_extract_transfer ::
  "ZkSdk \<Rightarrow> CiphertextCommitmentEqualityProofContext \<Rightarrow> BatchedGroupedCiphertext3HandlesValidityProofContext \<Rightarrow>
     BatchedRangeProofContext \<Rightarrow> TokenProofExtractionError + TransferProofContext" where
  "verify_and_extract_transfer zk equality_proof_context validity_proof_context range_proof_context =
     (if ce_pubkey equality_proof_context \<noteq> v3_first_pubkey validity_proof_context
      then Err ElGamalPubkeyMismatch
      else if \<not> zip_all_eq (rp_commitments range_proof_context)
           [ce_commitment equality_proof_context,
            zk_extract_commitment3 zk (v3_grouped_ciphertext_lo validity_proof_context),
            zk_extract_commitment3 zk (v3_grouped_ciphertext_hi validity_proof_context)]
      then Err PedersenCommitmentMismatch
      else if \<not> zip_all_eq (rp_bit_lengths range_proof_context) [64, 16, 32, 16]
      then Err RangeProofLengthMismatch
      else Ok \<lparr>tp_ciphertext_lo = v3_grouped_ciphertext_lo validity_proof_context,
                tp_ciphertext_hi = v3_grouped_ciphertext_hi validity_proof_context,
                tp_source = ce_pubkey equality_proof_context,
                tp_destination = v3_second_pubkey validity_proof_context,
                tp_auditor = v3_third_pubkey validity_proof_context,
                tp_new_source_ciphertext = ce_ciphertext equality_proof_context\<rparr>)"

record MintProofContext =
  mp_mint_amount_ciphertext_lo :: grouped3
  mp_mint_amount_ciphertext_hi :: grouped3
  mp_destination :: pubkey
  mp_supply :: pubkey
  mp_auditor :: pubkey
  mp_new_supply_ciphertext :: ciphertext

definition verify_and_extract_mint ::
  "ZkSdk \<Rightarrow> CiphertextCommitmentEqualityProofContext \<Rightarrow> BatchedGroupedCiphertext3HandlesValidityProofContext \<Rightarrow>
     BatchedRangeProofContext \<Rightarrow> TokenProofExtractionError + MintProofContext" where
  "verify_and_extract_mint zk equality_proof_context validity_proof_context range_proof_context =
     (if ce_pubkey equality_proof_context \<noteq> v3_second_pubkey validity_proof_context
      then Err ElGamalPubkeyMismatch
      else if \<not> zip_all_eq (rp_commitments range_proof_context)
           [ce_commitment equality_proof_context,
            zk_extract_commitment3 zk (v3_grouped_ciphertext_lo validity_proof_context),
            zk_extract_commitment3 zk (v3_grouped_ciphertext_hi validity_proof_context)]
      then Err PedersenCommitmentMismatch
      else if \<not> zip_all_eq (rp_bit_lengths range_proof_context) [64, 16, 32, 16]
      then Err RangeProofLengthMismatch
      else Ok \<lparr>mp_mint_amount_ciphertext_lo = v3_grouped_ciphertext_lo validity_proof_context,
                mp_mint_amount_ciphertext_hi = v3_grouped_ciphertext_hi validity_proof_context,
                mp_destination = v3_first_pubkey validity_proof_context,
                mp_supply = ce_pubkey equality_proof_context,
                mp_auditor = v3_third_pubkey validity_proof_context,
                mp_new_supply_ciphertext = ce_ciphertext equality_proof_context\<rparr>)"

record BurnProofContext =
  bp_burn_amount_ciphertext_lo :: grouped3
  bp_burn_amount_ciphertext_hi :: grouped3
  bp_source :: pubkey
  bp_supply :: pubkey
  bp_auditor :: pubkey
  bp_remaining_balance_ciphertext :: ciphertext

definition verify_and_extract_burn ::
  "ZkSdk \<Rightarrow> CiphertextCommitmentEqualityProofContext \<Rightarrow> BatchedGroupedCiphertext3HandlesValidityProofContext \<Rightarrow>
     BatchedRangeProofContext \<Rightarrow> TokenProofExtractionError + BurnProofContext" where
  "verify_and_extract_burn zk equality_proof_context validity_proof_context range_proof_context =
     (if ce_pubkey equality_proof_context \<noteq> v3_first_pubkey validity_proof_context
      then Err ElGamalPubkeyMismatch
      else if \<not> zip_all_eq (rp_commitments range_proof_context)
           [ce_commitment equality_proof_context,
            zk_extract_commitment3 zk (v3_grouped_ciphertext_lo validity_proof_context),
            zk_extract_commitment3 zk (v3_grouped_ciphertext_hi validity_proof_context)]
      then Err PedersenCommitmentMismatch
      else if \<not> zip_all_eq (rp_bit_lengths range_proof_context) [64, 16, 32, 16]
      then Err RangeProofLengthMismatch
      else Ok \<lparr>bp_burn_amount_ciphertext_lo = v3_grouped_ciphertext_lo validity_proof_context,
                bp_burn_amount_ciphertext_hi = v3_grouped_ciphertext_hi validity_proof_context,
                bp_source = ce_pubkey equality_proof_context,
                bp_supply = v3_second_pubkey validity_proof_context,
                bp_auditor = v3_third_pubkey validity_proof_context,
                bp_remaining_balance_ciphertext = ce_ciphertext equality_proof_context\<rparr>)"

subsection \<open>Transfer with fee\<close>

record TransferWithFeeProofContext =
  fp_ciphertext_lo :: grouped3
  fp_ciphertext_hi :: grouped3
  fp_source :: pubkey
  fp_destination :: pubkey
  fp_auditor :: pubkey
  fp_withdraw_withheld_authority :: pubkey
  fp_new_source_ciphertext :: ciphertext
  fp_fee_ciphertext_lo :: grouped2
  fp_fee_ciphertext_hi :: grouped2

definition u16_to_scalar :: "u16 \<Rightarrow> scalar" where
  "u16_to_scalar amount = from_le (to_le 2 amount @ replicate 30 0)"

definition commitment_to_ristretto :: "commitment \<Rightarrow> point" where
  "commitment_to_ristretto c = from_le (to_le 32 c)"

definition combine_lo_hi_pedersen_points :: "Curve \<Rightarrow> point \<Rightarrow> point \<Rightarrow> point option" where
  "combine_lo_hi_pedersen_points C point_lo point_hi =
     Option.bind (multiply_ristretto C (u64_to_scalar 65536) point_hi) (add_ristretto C point_lo)"

definition verify_delta_commitment ::
  "Curve \<Rightarrow> commitment \<Rightarrow> commitment \<Rightarrow> commitment \<Rightarrow> commitment \<Rightarrow> u16 \<Rightarrow> TokenProofExtractionError + unit" where
  "verify_delta_commitment C transfer_amount_commitment_lo transfer_amount_commitment_hi fee_commitment
       proof_delta_commitment transfer_fee_basis_points =
     and_then (ok_or (combine_lo_hi_pedersen_points C (commitment_to_ristretto transfer_amount_commitment_lo)
       (commitment_to_ristretto transfer_amount_commitment_hi)) CurveArithmetic) (\<lambda>transfer_amount_point.
     and_then (ok_or (multiply_ristretto C (u16_to_scalar transfer_fee_basis_points) transfer_amount_point)
       CurveArithmetic) (\<lambda>scaled_transfer_amount_point.
     and_then (ok_or (multiply_ristretto C (u64_to_scalar 10000) (commitment_to_ristretto fee_commitment))
       CurveArithmetic) (\<lambda>scaled_fee_point.
     and_then (ok_or (subtract_ristretto C scaled_fee_point scaled_transfer_amount_point) CurveArithmetic)
       (\<lambda>expected_delta_commitment_point.
     if expected_delta_commitment_point \<noteq> commitment_to_ristretto proof_delta_commitment
     then Err CurveArithmetic else Ok ()))))"

definition verify_and_extract_transfer_with_fee ::
  "ZkSdk \<Rightarrow> CiphertextCommitmentEqualityProofContext \<Rightarrow> BatchedGroupedCiphertext3HandlesValidityProofContext \<Rightarrow>
     PercentageWithCapProofContext \<Rightarrow> BatchedGroupedCiphertext2HandlesValidityProofContext \<Rightarrow>
     BatchedRangeProofContext \<Rightarrow> u16 \<Rightarrow> u64 \<Rightarrow> TokenProofExtractionError + TransferWithFeeProofContext" where
  "verify_and_extract_transfer_with_fee zk equality_proof_context amount_validity_proof_context
       fee_sigma_proof_context fee_validity_proof_context range_proof_context expected_fee_rate_basis_points
       expected_maximum_fee =
     (let C = zk_curve zk;
          amount_lo = v3_grouped_ciphertext_lo amount_validity_proof_context;
          amount_hi = v3_grouped_ciphertext_hi amount_validity_proof_context;
          fee_lo = v2_grouped_ciphertext_lo fee_validity_proof_context;
          fee_hi = v2_grouped_ciphertext_hi fee_validity_proof_context;
          fee_commitment = pw_percentage_commitment fee_sigma_proof_context;
          claimed_commitment = pw_claimed_commitment fee_sigma_proof_context;
          amount_commitment_lo = zk_extract_commitment3 zk amount_lo;
          amount_commitment_hi = zk_extract_commitment3 zk amount_hi;
          fee_commitment_lo = zk_extract_commitment2 zk fee_lo;
          fee_commitment_hi = zk_extract_commitment2 zk fee_hi
      in if expected_maximum_fee \<noteq> pw_max_value fee_sigma_proof_context then Err FeeParametersMismatch
      else if v3_second_pubkey amount_validity_proof_context \<noteq> v2_first_pubkey fee_validity_proof_context
      then Err ElGamalPubkeyMismatch
      else
      and_then (ok_or (multiply_ristretto C (u64_to_scalar 9999) G_POINT) CurveArithmetic) (\<lambda>sub_one_commitment.
      and_then (ok_or (subtract_ristretto C sub_one_commitment (commitment_to_ristretto claimed_commitment))
        CurveArithmetic) (\<lambda>claimed_complement_commitment.
      and_then (ok_or (combine_lo_hi_pedersen_points C (commitment_to_ristretto amount_commitment_lo)
        (commitment_to_ristretto amount_commitment_hi)) CurveArithmetic) (\<lambda>transfer_amount_point.
      and_then (ok_or (subtract_ristretto C transfer_amount_point (commitment_to_ristretto fee_commitment))
        CurveArithmetic) (\<lambda>net_transfer_commitment_point.
      if \<not> zip_all_eq (rp_commitments range_proof_context)
           [ce_commitment equality_proof_context, amount_commitment_lo, amount_commitment_hi, claimed_commitment,
            claimed_complement_commitment, fee_commitment_lo, fee_commitment_hi, net_transfer_commitment_point]
      then Err PedersenCommitmentMismatch
      else if \<not> zip_all_eq (rp_bit_lengths range_proof_context) [64, 16, 32, 16, 16, 16, 32, 64]
      then Err RangeProofLengthMismatch
      else
      and_then (ok_or (combine_lo_hi_pedersen_points C (commitment_to_ristretto fee_commitment_lo)
        (commitment_to_ristretto fee_commitment_hi)) CurveArithmetic) (\<lambda>validity_proof_fee_point.
      if ce_pubkey equality_proof_context \<noteq> v3_first_pubkey amount_validity_proof_context
      then Err ElGamalPubkeyMismatch
      else if validity_proof_fee_point \<noteq> commitment_to_ristretto fee_commitment then Err FeeParametersMismatch
      else
      and_then (verify_delta_commitment C amount_commitment_lo amount_commitment_hi fee_commitment
        (pw_delta_commitment fee_sigma_proof_context) expected_fee_rate_basis_points) (\<lambda>_.
      Ok \<lparr>fp_ciphertext_lo = amount_lo, fp_ciphertext_hi = amount_hi,
           fp_source = ce_pubkey equality_proof_context,
           fp_destination = v3_second_pubkey amount_validity_proof_context,
           fp_auditor = v3_third_pubkey amount_validity_proof_context,
           fp_withdraw_withheld_authority = v2_second_pubkey fee_validity_proof_context,
           fp_new_source_ciphertext = ce_ciphertext equality_proof_context,
           fp_fee_ciphertext_lo = fee_lo, fp_fee_ciphertext_hi = fee_hi\<rparr>)))))))"

section \<open>The proofs of an instruction\<close>

text \<open>
  The functions of src/program/src/extension/confidential_transfer/verify_proof.rs and of
  confidential_mint_burn/verify_proof.rs.  The sysvar account is taken from the list once for all proofs.
\<close>

definition sysvar_account :: "bool \<Rightarrow> AccountInfo list \<Rightarrow> (AccountInfo option \<times> AccountInfo list) result" where
  "sysvar_account needed iter =
     (if needed then and_then (next_account_info iter) (\<lambda>(info, iter). Ok (Some info, iter)) else Ok (None, iter))"

definition verify_withdraw_proof ::
  "ZkSdk \<Rightarrow> (AccountInfo \<Rightarrow> bytes result) \<Rightarrow> ledger \<Rightarrow> AccountInfo list \<Rightarrow> int \<Rightarrow> int \<Rightarrow>
     (WithdrawProofContext \<times> AccountInfo list) result" where
  "verify_withdraw_proof zk read L iter equality_offset range_offset =
     and_then (sysvar_account (equality_offset \<noteq> 0 \<or> range_offset \<noteq> 0) iter) (\<lambda>(sysvar, iter).
     and_then (verify_and_extract_context zk (zk_commitment_equality zk) read L iter equality_offset sysvar)
       (\<lambda>(equality_proof_context, iter).
     and_then (verify_and_extract_context zk (zk_range_u64 zk) read L iter range_offset sysvar)
       (\<lambda>(range_proof_context, iter).
     and_then (extraction (verify_and_extract_withdraw equality_proof_context range_proof_context))
       (\<lambda>withdraw_proof_context. Ok (withdraw_proof_context, iter)))))"

definition verify_transfer_proof ::
  "ZkSdk \<Rightarrow> (AccountInfo \<Rightarrow> bytes result) \<Rightarrow> ledger \<Rightarrow> AccountInfo list \<Rightarrow> int \<Rightarrow> int \<Rightarrow> int \<Rightarrow>
     (TransferProofContext \<times> AccountInfo list) result" where
  "verify_transfer_proof zk read L iter equality_offset validity_offset range_offset =
     and_then (sysvar_account (equality_offset \<noteq> 0 \<or> validity_offset \<noteq> 0 \<or> range_offset \<noteq> 0) iter) (\<lambda>(sysvar, iter).
     and_then (verify_and_extract_context zk (zk_commitment_equality zk) read L iter equality_offset sysvar)
       (\<lambda>(equality_proof_context, iter).
     and_then (verify_and_extract_context zk (zk_validity3 zk) read L iter validity_offset sysvar)
       (\<lambda>(validity_proof_context, iter).
     and_then (verify_and_extract_context zk (zk_range_u128 zk) read L iter range_offset sysvar)
       (\<lambda>(range_proof_context, iter).
     and_then (extraction (verify_and_extract_transfer zk equality_proof_context validity_proof_context range_proof_context))
       (\<lambda>transfer_proof_context. Ok (transfer_proof_context, iter))))))"

definition verify_transfer_with_fee_proof ::
  "ZkSdk \<Rightarrow> (AccountInfo \<Rightarrow> bytes result) \<Rightarrow> ledger \<Rightarrow> AccountInfo list \<Rightarrow> int \<Rightarrow> int \<Rightarrow> int \<Rightarrow> int \<Rightarrow> int \<Rightarrow>
     TransferFee \<Rightarrow> (TransferWithFeeProofContext \<times> AccountInfo list) result" where
  "verify_transfer_with_fee_proof zk read L iter equality_offset amount_validity_offset fee_sigma_offset
       fee_validity_offset range_offset fee_parameters =
     and_then (sysvar_account (equality_offset \<noteq> 0 \<or> amount_validity_offset \<noteq> 0 \<or> fee_sigma_offset \<noteq> 0 \<or>
       fee_validity_offset \<noteq> 0 \<or> range_offset \<noteq> 0) iter) (\<lambda>(sysvar, iter).
     and_then (verify_and_extract_context zk (zk_commitment_equality zk) read L iter equality_offset sysvar)
       (\<lambda>(equality_proof_context, iter).
     and_then (verify_and_extract_context zk (zk_validity3 zk) read L iter amount_validity_offset sysvar)
       (\<lambda>(amount_validity_proof_context, iter).
     and_then (verify_and_extract_context zk (zk_percentage zk) read L iter fee_sigma_offset sysvar)
       (\<lambda>(fee_sigma_proof_context, iter).
     and_then (verify_and_extract_context zk (zk_validity2 zk) read L iter fee_validity_offset sysvar)
       (\<lambda>(fee_validity_proof_context, iter).
     and_then (verify_and_extract_context zk (zk_range_u256 zk) read L iter range_offset sysvar)
       (\<lambda>(range_proof_context, iter).
     and_then (extraction (verify_and_extract_transfer_with_fee zk equality_proof_context
         amount_validity_proof_context fee_sigma_proof_context fee_validity_proof_context range_proof_context
         (tf_transfer_fee_basis_points fee_parameters) (tf_maximum_fee fee_parameters)))
       (\<lambda>transfer_with_fee_proof_context. Ok (transfer_with_fee_proof_context, iter))))))))"

definition verify_mint_proof ::
  "ZkSdk \<Rightarrow> (AccountInfo \<Rightarrow> bytes result) \<Rightarrow> ledger \<Rightarrow> AccountInfo list \<Rightarrow> u8 \<Rightarrow> u8 \<Rightarrow> u8 \<Rightarrow>
     (MintProofContext \<times> AccountInfo list) result" where
  "verify_mint_proof zk read L iter equality_offset validity_offset range_offset =
     and_then (sysvar_account (equality_offset \<noteq> 0) iter) (\<lambda>(sysvar, iter).
     and_then (verify_and_extract_context zk (zk_commitment_equality zk) read L iter (sint equality_offset) sysvar)
       (\<lambda>(equality_proof_context, iter).
     and_then (verify_and_extract_context zk (zk_validity3 zk) read L iter (sint validity_offset) sysvar)
       (\<lambda>(validity_proof_context, iter).
     and_then (verify_and_extract_context zk (zk_range_u128 zk) read L iter (sint range_offset) sysvar)
       (\<lambda>(range_proof_context, iter).
     and_then (extraction (verify_and_extract_mint zk equality_proof_context validity_proof_context range_proof_context))
       (\<lambda>mint_proof_context. Ok (mint_proof_context, iter))))))"

definition verify_burn_proof ::
  "ZkSdk \<Rightarrow> (AccountInfo \<Rightarrow> bytes result) \<Rightarrow> ledger \<Rightarrow> AccountInfo list \<Rightarrow> u8 \<Rightarrow> u8 \<Rightarrow> u8 \<Rightarrow>
     (BurnProofContext \<times> AccountInfo list) result" where
  "verify_burn_proof zk read L iter equality_offset validity_offset range_offset =
     and_then (sysvar_account (equality_offset \<noteq> 0) iter) (\<lambda>(sysvar, iter).
     and_then (verify_and_extract_context zk (zk_commitment_equality zk) read L iter (sint equality_offset) sysvar)
       (\<lambda>(equality_proof_context, iter).
     and_then (verify_and_extract_context zk (zk_validity3 zk) read L iter (sint validity_offset) sysvar)
       (\<lambda>(validity_proof_context, iter).
     and_then (verify_and_extract_context zk (zk_range_u128 zk) read L iter (sint range_offset) sysvar)
       (\<lambda>(range_proof_context, iter).
     and_then (extraction (verify_and_extract_burn zk equality_proof_context validity_proof_context range_proof_context))
       (\<lambda>burn_proof_context. Ok (burn_proof_context, iter))))))"

section \<open>What the checked proofs say together\<close>

text \<open>A range proof context has eight commitments and bit lengths.\<close>

definition range_contexts :: "ZkSdk \<Rightarrow> bool" where
  "range_contexts zk \<longleftrightarrow> (\<forall>T L r. T \<in> {zk_range_u64 zk, zk_range_u128 zk, zk_range_u256 zk} \<longrightarrow>
     proven_context zk T L r \<longrightarrow> length (rp_commitments r) = 8 \<and> length (rp_bit_lengths r) = 8)"

text \<open>A range proof accepted by the proof program bounds the values committed to in the list by their bit lengths.\<close>

definition range_proven ::
  "ZkSdk \<Rightarrow> BatchedRangeProofContext ZkProofData \<Rightarrow> ledger \<Rightarrow> (commitment \<times> nat) list \<Rightarrow> bool" where
  "range_proven zk T L cs \<longleftrightarrow> (\<exists>r. proven_context zk T L r \<and>
     map fst cs = take (length cs) (rp_commitments r) \<and> map snd cs = take (length cs) (map unat (rp_bit_lengths r)))"

text \<open>
  The amounts \<open>lo\<close> and \<open>hi\<close> are well-formed encryptions for the three keys, of 16 and of 32 bits, and the
  new balance \<open>new_ciphertext\<close> under \<open>key\<close> is the encryption of a value of 64 bits.
\<close>

definition amounts_proven ::
  "ZkSdk \<Rightarrow> BatchedRangeProofContext ZkProofData \<Rightarrow> ledger \<Rightarrow> pubkey list \<Rightarrow> grouped3 \<Rightarrow> grouped3 \<Rightarrow> pubkey \<Rightarrow>
     ciphertext \<Rightarrow> bool" where
  "amounts_proven zk T L keys lo hi key new_ciphertext \<longleftrightarrow>
     (\<exists>e v cs. proven_context zk (zk_commitment_equality zk) L e \<and> proven_context zk (zk_validity3 zk) L v \<and>
        ce_pubkey e = key \<and> ce_ciphertext e = new_ciphertext \<and>
        [v3_first_pubkey v, v3_second_pubkey v, v3_third_pubkey v] = keys \<and>
        v3_grouped_ciphertext_lo v = lo \<and> v3_grouped_ciphertext_hi v = hi \<and>
        range_proven zk T L ([(ce_commitment e, 64), (zk_extract_commitment3 zk lo, 16),
          (zk_extract_commitment3 zk hi, 32)] @ cs))"

lemma range_provenI:
  assumes "range_contexts zk" "T = zk_range_u128 zk \<or> T = zk_range_u256 zk \<or> T = zk_range_u64 zk"
    and "proven_context zk T L r" "zip_all_eq (rp_commitments r) cs"
    "zip_all_eq (rp_bit_lengths r) ns" "length cs \<le> length ns" "length ns \<le> 8"
  shows "range_proven zk T L (zip cs (map unat ns))"
proof -
  have l: "length (rp_commitments r) = 8" "length (rp_bit_lengths r) = 8"
    using assms(1-3) unfolding range_contexts_def by blast+
  with assms(4-7) have t: "take (length cs) (rp_commitments r) = cs" "take (length ns) (rp_bit_lengths r) = ns"
    by (simp_all add: zip_all_eq_take)
  have "take (length cs) (rp_bit_lengths r) = take (length cs) ns"
    by (metis t(2) assms(6) take_take min.absorb1)
  then show ?thesis
    unfolding range_proven_def using assms(3,6) t(1)
    by (intro exI [of _ r]) (simp add: min_def take_map map_fst_zip_take map_snd_zip_take)
qed

lemma amounts_provenI:
  assumes "range_contexts zk" "T = zk_range_u128 zk \<or> T = zk_range_u256 zk \<or> T = zk_range_u64 zk"
    and "proven_context zk (zk_commitment_equality zk) L e" "proven_context zk (zk_validity3 zk) L v"
    "proven_context zk T L r"
    and "zip_all_eq (rp_commitments r) ([ce_commitment e, zk_extract_commitment3 zk (v3_grouped_ciphertext_lo v),
      zk_extract_commitment3 zk (v3_grouped_ciphertext_hi v)] @ cs)"
    and "zip_all_eq (rp_bit_lengths r) ([64, 16, 32] @ ns)" "length cs \<le> length ns" "length ns \<le> 5"
  shows "amounts_proven zk T L [v3_first_pubkey v, v3_second_pubkey v, v3_third_pubkey v]
    (v3_grouped_ciphertext_lo v) (v3_grouped_ciphertext_hi v) (ce_pubkey e) (ce_ciphertext e)"
  unfolding amounts_proven_def
  using assms(3,4) range_provenI [OF assms(1,2,5-7)] assms(8,9)
  by (intro exI [of _ e] exI [of _ v] exI [of _ "zip cs (map unat ns)"]) simp

lemma verify_transfer_proof_Ok:
  assumes "verify_transfer_proof zk read L iter a b c = Ok (p, rest)" "range_contexts zk" "borrows read L"
  shows "amounts_proven zk (zk_range_u128 zk) L [tp_source p, tp_destination p, tp_auditor p]
    (tp_ciphertext_lo p) (tp_ciphertext_hi p) (tp_source p) (tp_new_source_ciphertext p)"
proof -
  obtain e v r s i1 i2 i3 where h:
    "verify_and_extract_context zk (zk_commitment_equality zk) read L i1 a s = Ok (e, i2)"
    "verify_and_extract_context zk (zk_validity3 zk) read L i2 b s = Ok (v, i3)"
    "verify_and_extract_context zk (zk_range_u128 zk) read L i3 c s = Ok (r, rest)"
    "verify_and_extract_transfer zk e v r = Ok p"
    using assms(1) by (auto simp: verify_transfer_proof_def res_simps)
  note p = h(1-3) [THEN verify_and_extract_context_proven, OF assms(3)]
  show ?thesis
    using h(4) amounts_provenI [OF assms(2) _ p, of "[]" "[16]"]
    by (auto simp: verify_and_extract_transfer_def split: if_splits)
qed

lemma verify_mint_proof_Ok:
  assumes "verify_mint_proof zk read L iter a b c = Ok (p, rest)" "range_contexts zk" "borrows read L"
  shows "amounts_proven zk (zk_range_u128 zk) L [mp_destination p, mp_supply p, mp_auditor p]
    (mp_mint_amount_ciphertext_lo p) (mp_mint_amount_ciphertext_hi p) (mp_supply p) (mp_new_supply_ciphertext p)"
proof -
  obtain e v r s i1 i2 i3 where h:
    "verify_and_extract_context zk (zk_commitment_equality zk) read L i1 (sint a) s = Ok (e, i2)"
    "verify_and_extract_context zk (zk_validity3 zk) read L i2 (sint b) s = Ok (v, i3)"
    "verify_and_extract_context zk (zk_range_u128 zk) read L i3 (sint c) s = Ok (r, rest)"
    "verify_and_extract_mint zk e v r = Ok p"
    using assms(1) by (auto simp: verify_mint_proof_def res_simps)
  note p = h(1-3) [THEN verify_and_extract_context_proven, OF assms(3)]
  show ?thesis
    using h(4) amounts_provenI [OF assms(2) _ p, of "[]" "[16]"]
    by (auto simp: verify_and_extract_mint_def split: if_splits)
qed

lemma verify_burn_proof_Ok:
  assumes "verify_burn_proof zk read L iter a b c = Ok (p, rest)" "range_contexts zk" "borrows read L"
  shows "amounts_proven zk (zk_range_u128 zk) L [bp_source p, bp_supply p, bp_auditor p]
    (bp_burn_amount_ciphertext_lo p) (bp_burn_amount_ciphertext_hi p) (bp_source p) (bp_remaining_balance_ciphertext p)"
proof -
  obtain e v r s i1 i2 i3 where h:
    "verify_and_extract_context zk (zk_commitment_equality zk) read L i1 (sint a) s = Ok (e, i2)"
    "verify_and_extract_context zk (zk_validity3 zk) read L i2 (sint b) s = Ok (v, i3)"
    "verify_and_extract_context zk (zk_range_u128 zk) read L i3 (sint c) s = Ok (r, rest)"
    "verify_and_extract_burn zk e v r = Ok p"
    using assms(1) by (auto simp: verify_burn_proof_def res_simps)
  note p = h(1-3) [THEN verify_and_extract_context_proven, OF assms(3)]
  show ?thesis
    using h(4) amounts_provenI [OF assms(2) _ p, of "[]" "[16]"]
    by (auto simp: verify_and_extract_burn_def split: if_splits)
qed

end
