(* ===== verification/Confidential_Transfer.thy ===== *)
theory Confidential_Transfer
  imports Proof_Extraction Reallocate Instruction_Data
begin

unbundle bit_operations_syntax

text \<open>
  The handlers of confidential transfers (src/program/src/extension/confidential_transfer/processor.rs).
  Data the code holds mutably borrowed while it reads another account is written out as \<open>borrow_data\<close>:
  the mint during a deposit, a withdrawal and a transfer, the token account during a configuration.
\<close>

section \<open>Mint configuration\<close>

definition ct_process_initialize_mint ::
  "AccountInfo list \<Rightarrow> pubkey \<Rightarrow> PodBool \<Rightarrow> pubkey \<Rightarrow> ledger \<Rightarrow> ledger result" where
  "ct_process_initialize_mint accounts authority auto_approve_new_account auditor_encryption_pubkey L =
     and_then (next_account_info accounts) (\<lambda>(mint_info, _).
     and_then (check_program_account (ac_owner (L (ai_key mint_info)))) (\<lambda>_.
     initialize_extension PodMintB ConfidentialTransferMintX True
       (Ok \<lparr>ctm_authority = authority, ctm_auto_approve_new_accounts = auto_approve_new_account,
             ctm_auditor_elgamal_pubkey = auditor_encryption_pubkey\<rparr>) mint_info L))"

definition process_update_mint ::
  "AccountInfo list \<Rightarrow> PodBool \<Rightarrow> pubkey \<Rightarrow> ledger \<Rightarrow> ledger result" where
  "process_update_mint accounts auto_approve_new_account auditor_encryption_pubkey L =
     and_then (next_account_info accounts) (\<lambda>(mint_info, iter).
     and_then (next_account_info iter) (\<lambda>(authority_info, _).
     and_then (check_program_account (ac_owner (L (ai_key mint_info)))) (\<lambda>_.
     and_then (unpack_mut PodMintB (ac_data (L (ai_key mint_info)))) (\<lambda>mint.
     and_then (get_extension_mut MintBase ConfidentialTransferMintX (tlv_data mint)) (\<lambda>(e, _).
     and_then (ok_or (opt_key (ctm_authority e)) (token_error NoAuthorityExists)) (\<lambda>mint_authority.
     if \<not> ai_is_signer authority_info then Err MissingRequiredSignature
     else if mint_authority \<noteq> ai_key authority_info then TErr OwnerMismatch
     else Ok (set_data (ai_key mint_info) (pack_state PodMintB (mint\<lparr>tlv_data :=
            set_extension MintBase ConfidentialTransferMintX
              (e\<lparr>ctm_auto_approve_new_accounts := auto_approve_new_account,
                 ctm_auditor_elgamal_pubkey := auditor_encryption_pubkey\<rparr>) (tlv_data mint)\<rparr>)) L)))))))"

section \<open>Configuring an account\<close>

record ElGamalRegistry =
  reg_owner :: pubkey
  reg_elgamal_pubkey :: pubkey

definition ELGAMAL_REGISTRY_ACCOUNT_LEN :: nat where
  "ELGAMAL_REGISTRY_ACCOUNT_LEN = 64"

definition elgamal_registry_id :: pubkey where
  "elgamal_registry_id = 0x87a63ad65caaaab6f01ba0de850b603023d3388158d0377d3914d44ac910b80c"

definition dec_registry :: "bytes \<Rightarrow> ElGamalRegistry" where
  "dec_registry bs = \<lparr>reg_owner = from_le (subslice 0 32 bs), reg_elgamal_pubkey = from_le (subslice 32 32 bs)\<rparr>"

definition enc_registry :: "ElGamalRegistry \<Rightarrow> bytes" where
  "enc_registry r = to_le 32 (reg_owner r) @ to_le 32 (reg_elgamal_pubkey r)"

definition registry_from_bytes :: "bytes \<Rightarrow> ElGamalRegistry result" where
  "registry_from_bytes bs =
     (if length bs = ELGAMAL_REGISTRY_ACCOUNT_LEN then Ok (dec_registry bs) else Err PodCast)"

definition check_elgamal_registry_program_account :: "pubkey \<Rightarrow> unit result" where
  "check_elgamal_registry_program_account k = (if k \<noteq> elgamal_registry_id then Err IncorrectProgramId else Ok ())"

datatype ElGamalPubkeySource = ProofInstructionOffset int | Registry ElGamalRegistry

definition DEFAULT_MAXIMUM_PENDING_BALANCE_CREDIT_COUNTER :: u64 where
  "DEFAULT_MAXIMUM_PENDING_BALANCE_CREDIT_COUNTER = 65536"

text \<open>The state of an account just configured; all ciphertexts are zero.\<close>

definition configured_account :: "PodBool \<Rightarrow> pubkey \<Rightarrow> ae_ciphertext \<Rightarrow> u64 \<Rightarrow> ConfidentialTransferAccount" where
  "configured_account approved elgamal_pubkey decryptable_zero_balance maximum =
     \<lparr>cta_approved = approved, cta_elgamal_pubkey = elgamal_pubkey,
      cta_pending_balance_lo = 0, cta_pending_balance_hi = 0, cta_available_balance = 0,
      cta_decryptable_available_balance = decryptable_zero_balance,
      cta_allow_confidential_credits = pod_bool_from True,
      cta_allow_non_confidential_credits = pod_bool_from True,
      cta_pending_balance_credit_counter = 0, cta_maximum_pending_balance_credit_counter = maximum,
      cta_expected_pending_balance_credit_counter = 0, cta_actual_pending_balance_credit_counter = 0\<rparr>"

definition process_configure_account ::
  "ZkSdk \<Rightarrow> pubkey \<Rightarrow> AccountInfo list \<Rightarrow> ae_ciphertext \<Rightarrow> u64 \<Rightarrow> ElGamalPubkeySource \<Rightarrow> ledger \<Rightarrow> ledger result" where
  "process_configure_account zk program_id accounts decryptable_zero_balance maximum elgamal_pubkey_source L =
     and_then (next_account_info accounts) (\<lambda>(token_account_info, iter).
     and_then (next_account_info iter) (\<lambda>(mint_info, iter).
     and_then (case elgamal_pubkey_source of
                 ProofInstructionOffset offset \<Rightarrow>
                   verify_and_extract_context zk (zk_pubkey_validity zk) (read_any L) L iter offset None
               | Registry registry \<Rightarrow>
                   and_then (next_account_info iter) (\<lambda>(_, iter). Ok (reg_elgamal_pubkey registry, iter)))
       (\<lambda>(elgamal_pubkey, iter).
     and_then (check_program_account (ac_owner (L (ai_key token_account_info)))) (\<lambda>_.
     and_then (unpack_mut PodAccountB (ac_data (L (ai_key token_account_info)))) (\<lambda>token_account.
     if a_mint (base token_account) \<noteq> ai_key mint_info then TErr MintMismatch
     else
     and_then (case elgamal_pubkey_source of
                 ProofInstructionOffset _ \<Rightarrow>
                   and_then (next_account_info iter) (\<lambda>(authority_info, rest).
                   and_then (borrow_data (ai_key token_account_info) L authority_info) (\<lambda>d.
                   validate_owner program_id L (a_owner (base token_account)) authority_info (length d) rest))
               | Registry registry \<Rightarrow>
                   if reg_owner registry \<noteq> a_owner (base token_account) then TErr OwnerMismatch else Ok ()) (\<lambda>_.
     and_then (check_program_account (ac_owner (L (ai_key mint_info)))) (\<lambda>_.
     and_then (borrow_data (ai_key token_account_info) L mint_info) (\<lambda>mint_data.
     and_then (unpack PodMintB mint_data) (\<lambda>mint.
     and_then (get_extension MintBase ConfidentialTransferMintX (tlv_data mint)) (\<lambda>confidential_transfer_mint.
     and_then (init_extension AccountBase ConfidentialTransferAccountX False (tlv_data token_account)) (\<lambda>tlv.
     let tlv = set_extension AccountBase ConfidentialTransferAccountX
           (configured_account (ctm_auto_approve_new_accounts confidential_transfer_mint) elgamal_pubkey
              decryptable_zero_balance maximum) tlv
     in and_then (if is_ok (get_extension MintBase TransferFeeConfigX (tlv_data mint))
                  then and_then (init_extension AccountBase ConfidentialTransferFeeAmountX False tlv) (\<lambda>tlv.
                       Ok (set_extension AccountBase ConfidentialTransferFeeAmountX \<lparr>cfa_withheld_amount = 0\<rparr> tlv))
                  else Ok tlv) (\<lambda>tlv.
     Ok (set_data (ai_key token_account_info) (pack_state PodAccountB (token_account\<lparr>tlv_data := tlv\<rparr>)) L)))))))))))))"

definition reallocate_for_configure_account_with_registry ::
  "Env \<Rightarrow> resize \<Rightarrow> AccountInfo \<Rightarrow> AccountInfo \<Rightarrow> ledger \<Rightarrow> ledger result" where
  "reallocate_for_configure_account_with_registry env rs token_account_info payer_info L =
     (let k = ai_key token_account_info
      in and_then (unpack PodAccountB (ac_data (L k))) (\<lambda>account.
         and_then (get_extension_types (tlv_data account)) (\<lambda>types.
         let types = types @ [ExtensionType.ConfidentialTransferAccount];
             types = (if ExtensionType.TransferFeeAmount \<in> set types
                      then types @ [ExtensionType.ConfidentialTransferFeeAmount] else types)
         in and_then (try_calculate_account_len AccountBase types) (\<lambda>needed_account_len.
         if length (ac_data (L k)) \<ge> needed_account_len then Ok L
         else
         and_then (rs k needed_account_len L) (\<lambda>L.
         and_then (env_rent env) (\<lambda>rent.
         let lamports_diff = saturating_sub (minimum_balance rent needed_account_len) (ac_lamports (L k))
         in and_then (if lamports_diff > 0
                      then env_system_transfer env payer_info token_account_info lamports_diff L
                      else Ok L) (\<lambda>L.
         and_then (set_account_type AccountBase (ac_data (L k))) (\<lambda>d. Ok (set_data k d L)))))))))"

text \<open>
  The registry account belongs to the registry program, so its data is never that of the token account.
\<close>

definition process_configure_account_with_registry ::
  "ZkSdk \<Rightarrow> Env \<Rightarrow> resize \<Rightarrow> pubkey \<Rightarrow> AccountInfo list \<Rightarrow> ledger \<Rightarrow> ledger result" where
  "process_configure_account_with_registry zk env rs program_id accounts L =
     and_then (next_account_info accounts) (\<lambda>(token_account_info, iter).
     and_then (next_account_info iter) (\<lambda>(_, iter).
     and_then (next_account_info iter) (\<lambda>(elgamal_registry_account, iter).
     and_then (check_elgamal_registry_program_account (ac_owner (L (ai_key elgamal_registry_account)))) (\<lambda>_.
     and_then (case next_account_info iter of
                 Ok (payer_info, iter) \<Rightarrow>
                   and_then (next_account_info iter) (\<lambda>(system_program_info, _).
                   reallocate_for_configure_account_with_registry env rs token_account_info payer_info L)
               | Err _ \<Rightarrow> Ok L) (\<lambda>L.
     and_then (registry_from_bytes (ac_data (L (ai_key elgamal_registry_account)))) (\<lambda>registry.
     process_configure_account zk program_id accounts 0 DEFAULT_MAXIMUM_PENDING_BALANCE_CREDIT_COUNTER
       (Registry registry) L))))))"

definition process_approve_account :: "AccountInfo list \<Rightarrow> ledger \<Rightarrow> ledger result" where
  "process_approve_account accounts L =
     and_then (next_account_info accounts) (\<lambda>(token_account_info, iter).
     and_then (next_account_info iter) (\<lambda>(mint_info, iter).
     and_then (next_account_info iter) (\<lambda>(authority_info, _).
     and_then (check_program_account (ac_owner (L (ai_key token_account_info)))) (\<lambda>_.
     and_then (unpack_mut PodAccountB (ac_data (L (ai_key token_account_info)))) (\<lambda>token_account.
     if ai_key mint_info \<noteq> a_mint (base token_account) then TErr MintMismatch
     else
     and_then (check_program_account (ac_owner (L (ai_key mint_info)))) (\<lambda>_.
     and_then (borrow_data (ai_key token_account_info) L mint_info) (\<lambda>mint_data.
     and_then (unpack PodMintB mint_data) (\<lambda>mint.
     and_then (get_extension MintBase ConfidentialTransferMintX (tlv_data mint)) (\<lambda>confidential_transfer_mint.
     and_then (ok_or (opt_key (ctm_authority confidential_transfer_mint)) (token_error NoAuthorityExists))
       (\<lambda>mint_authority.
     if ai_is_signer authority_info \<and> ai_key authority_info = mint_authority
     then and_then (modify_extension AccountBase ConfidentialTransferAccountX
            (\<lambda>e. e\<lparr>cta_approved := pod_bool_from True\<rparr>) (tlv_data token_account)) (\<lambda>tlv.
          Ok (set_data (ai_key token_account_info) (pack_state PodAccountB (token_account\<lparr>tlv_data := tlv\<rparr>)) L))
     else Err MissingRequiredSignature))))))))))"

section \<open>Settings, and moving the pending balance\<close>

text \<open>
  Four handlers change the confidential state of an account its owner signs for; \<open>f\<close> is the change.
\<close>

definition update_confidential_account ::
  "(ConfidentialTransferAccount \<Rightarrow> ConfidentialTransferAccount result) \<Rightarrow> pubkey \<Rightarrow> AccountInfo \<Rightarrow> AccountInfo \<Rightarrow>
     AccountInfo list \<Rightarrow> ledger \<Rightarrow> ledger result" where
  "update_confidential_account f program_id token_account_info authority_info rest L =
     and_then (check_program_account (ac_owner (L (ai_key token_account_info)))) (\<lambda>_.
     and_then (unpack_mut PodAccountB (ac_data (L (ai_key token_account_info)))) (\<lambda>token_account.
     and_then (validate_owner program_id L (a_owner (base token_account)) authority_info
       (data_len L authority_info) rest) (\<lambda>_.
     and_then (get_extension_mut AccountBase ConfidentialTransferAccountX (tlv_data token_account)) (\<lambda>(e, _).
     and_then (f e) (\<lambda>e'.
     Ok (set_data (ai_key token_account_info) (pack_state PodAccountB (token_account\<lparr>tlv_data :=
       set_extension AccountBase ConfidentialTransferAccountX e' (tlv_data token_account)\<rparr>)) L))))))"

definition process_allow_confidential_credits ::
  "pubkey \<Rightarrow> AccountInfo list \<Rightarrow> bool \<Rightarrow> ledger \<Rightarrow> ledger result" where
  "process_allow_confidential_credits program_id accounts allow_confidential_credits L =
     and_then (next_account_info accounts) (\<lambda>(token_account_info, iter).
     and_then (next_account_info iter) (\<lambda>(authority_info, rest).
     update_confidential_account
       (\<lambda>e. Ok (e\<lparr>cta_allow_confidential_credits := pod_bool_from allow_confidential_credits\<rparr>))
       program_id token_account_info authority_info rest L))"

definition process_allow_non_confidential_credits ::
  "pubkey \<Rightarrow> AccountInfo list \<Rightarrow> bool \<Rightarrow> ledger \<Rightarrow> ledger result" where
  "process_allow_non_confidential_credits program_id accounts allow_non_confidential_credits L =
     and_then (next_account_info accounts) (\<lambda>(token_account_info, iter).
     and_then (next_account_info iter) (\<lambda>(authority_info, rest).
     update_confidential_account
       (\<lambda>e. Ok (e\<lparr>cta_allow_non_confidential_credits := pod_bool_from allow_non_confidential_credits\<rparr>))
       program_id token_account_info authority_info rest L))"

text \<open>The change made by \<open>ApplyPendingBalance\<close>.\<close>

definition apply_pending_balance ::
  "Curve \<Rightarrow> u64 \<Rightarrow> ae_ciphertext \<Rightarrow> ConfidentialTransferAccount \<Rightarrow> ConfidentialTransferAccount result" where
  "apply_pending_balance C expected_counter new_decryptable_available_balance e =
     and_then (ok_or (add_with_lo_hi C (cta_available_balance e) (cta_pending_balance_lo e) (cta_pending_balance_hi e))
       (token_error CiphertextArithmeticFailed)) (\<lambda>available_balance.
     Ok (e\<lparr>cta_available_balance := available_balance,
           cta_actual_pending_balance_credit_counter := cta_pending_balance_credit_counter e,
           cta_expected_pending_balance_credit_counter := expected_counter,
           cta_decryptable_available_balance := new_decryptable_available_balance,
           cta_pending_balance_credit_counter := 0,
           cta_pending_balance_lo := 0, cta_pending_balance_hi := 0\<rparr>))"

definition process_apply_pending_balance ::
  "ZkSdk \<Rightarrow> pubkey \<Rightarrow> AccountInfo list \<Rightarrow> u64 \<Rightarrow> ae_ciphertext \<Rightarrow> ledger \<Rightarrow> ledger result" where
  "process_apply_pending_balance zk program_id accounts expected_counter new_decryptable_available_balance L =
     and_then (next_account_info accounts) (\<lambda>(token_account_info, iter).
     and_then (next_account_info iter) (\<lambda>(authority_info, rest).
     update_confidential_account
       (apply_pending_balance (zk_curve zk) expected_counter new_decryptable_available_balance)
       program_id token_account_info authority_info rest L))"

text \<open>The change made by \<open>EmptyAccount\<close>, once the owner is validated.\<close>

definition empty_account ::
  "ZeroCiphertextProofContext \<Rightarrow> ConfidentialTransferAccount \<Rightarrow> ConfidentialTransferAccount result" where
  "empty_account proof_context e =
     (if cta_elgamal_pubkey e \<noteq> zc_pubkey proof_context then TErr ConfidentialTransferElGamalPubkeyMismatch
      else if cta_available_balance e \<noteq> zc_ciphertext proof_context then TErr ConfidentialTransferBalanceMismatch
      else let e' = e\<lparr>cta_available_balance := 0\<rparr> in and_then (cta_closable e') (\<lambda>_. Ok e'))"

text \<open>The length of the authority's data is read before the token account is borrowed.\<close>

definition process_empty_account ::
  "ZkSdk \<Rightarrow> pubkey \<Rightarrow> AccountInfo list \<Rightarrow> int \<Rightarrow> ledger \<Rightarrow> ledger result" where
  "process_empty_account zk program_id accounts proof_instruction_offset L =
     and_then (next_account_info accounts) (\<lambda>(token_account_info, iter).
     and_then (verify_and_extract_context zk (zk_zero_ciphertext zk) (read_any L) L iter proof_instruction_offset None)
       (\<lambda>(proof_context, iter).
     and_then (next_account_info iter) (\<lambda>(authority_info, rest).
     update_confidential_account (empty_account proof_context) program_id token_account_info authority_info rest L)))"

section \<open>Between the public and the confidential balance\<close>

definition MAXIMUM_DEPOSIT_TRANSFER_AMOUNT :: u64 where
  "MAXIMUM_DEPOSIT_TRANSFER_AMOUNT = 0xFFFF + push_bit 16 1 * 0xFFFFFFFF"

definition verify_and_split_deposit_amount :: "u64 \<Rightarrow> (u64 \<times> u64) result" where
  "verify_and_split_deposit_amount amount =
     (if amount > MAXIMUM_DEPOSIT_TRANSFER_AMOUNT then TErr MaximumDepositAmountExceeded
      else Ok (amount AND 0xFFFF, drop_bit 16 amount))"

text \<open>What a deposit and a withdrawal check of the account before they move anything.\<close>

definition check_conversion_account ::
  "pubkey \<Rightarrow> ledger \<Rightarrow> AccountInfo \<Rightarrow> AccountInfo \<Rightarrow> AccountInfo list \<Rightarrow> nat \<Rightarrow> PodAccount PodStateWithExtensionsMut \<Rightarrow>
     unit result" where
  "check_conversion_account program_id L mint_info authority_info rest authority_info_data_len account =
     (if is_ok (get_extension AccountBase NonTransferableAccountX (tlv_data account))
      then TErr TokenError.NonTransferable
      else
      and_then (validate_owner program_id L (a_owner (base account)) authority_info authority_info_data_len rest)
        (\<lambda>_.
      if account_is_frozen (base account) then TErr AccountFrozen
      else if a_mint (base account) \<noteq> ai_key mint_info then TErr MintMismatch
      else if account_is_native (base account) then TErr NativeNotSupported
      else Ok ()))"

text \<open>Crediting the pending balance; the syscalls are skipped for amounts of zero.\<close>

definition credit_deposit :: "Curve \<Rightarrow> u64 \<Rightarrow> ConfidentialTransferAccount \<Rightarrow> ConfidentialTransferAccount result" where
  "credit_deposit C amount e =
     and_then (valid_as_destination e) (\<lambda>_.
     and_then (verify_and_split_deposit_amount amount) (\<lambda>(amount_lo, amount_hi).
     and_then (if amount_lo > 0
               then ok_or (add_to C (cta_pending_balance_lo e) amount_lo) (token_error CiphertextArithmeticFailed)
               else Ok (cta_pending_balance_lo e)) (\<lambda>lo.
     and_then (if amount_hi > 0
               then ok_or (add_to C (cta_pending_balance_hi e) amount_hi) (token_error CiphertextArithmeticFailed)
               else Ok (cta_pending_balance_hi e)) (\<lambda>hi.
     increment_pending_balance_credit_counter (e\<lparr>cta_pending_balance_lo := lo, cta_pending_balance_hi := hi\<rparr>)))))"

definition process_deposit ::
  "ZkSdk \<Rightarrow> pubkey \<Rightarrow> AccountInfo list \<Rightarrow> u64 \<Rightarrow> u8 \<Rightarrow> ledger \<Rightarrow> ledger result" where
  "process_deposit zk program_id accounts amount expected_decimals L =
     and_then (next_account_info accounts) (\<lambda>(token_account_info, iter).
     and_then (next_account_info iter) (\<lambda>(mint_info, iter).
     and_then (next_account_info iter) (\<lambda>(authority_info, rest).
     and_then (check_program_account (ac_owner (L (ai_key mint_info)))) (\<lambda>_.
     and_then (unpack PodMintB (ac_data (L (ai_key mint_info)))) (\<lambda>mint.
     and_then (check_not_paused (tlv_data mint)) (\<lambda>_.
     if expected_decimals \<noteq> m_decimals (base mint) then TErr MintDecimalsMismatch
     else if is_ok (get_extension MintBase ConfidentialMintBurnX (tlv_data mint)) then TErr IllegalMintBurnConversion
     else
     and_then (check_program_account (ac_owner (L (ai_key token_account_info)))) (\<lambda>_.
     and_then (borrow_data (ai_key mint_info) L token_account_info) (\<lambda>token_account_data.
     and_then (unpack_mut PodAccountB token_account_data) (\<lambda>token_account.
     and_then (check_conversion_account program_id L mint_info authority_info rest (data_len L authority_info)
       token_account) (\<lambda>_.
     and_then (ok_or (checked_sub (a_amount (base token_account)) amount) (token_error Overflow)) (\<lambda>new_amount.
     and_then (get_extension_mut AccountBase ConfidentialTransferAccountX (tlv_data token_account)) (\<lambda>(e, _).
     and_then (credit_deposit (zk_curve zk) amount e) (\<lambda>e'.
     Ok (set_data (ai_key token_account_info) (pack_state PodAccountB
       (token_account\<lparr>base := (base token_account)\<lparr>a_amount := new_amount\<rparr>,
          tlv_data := set_extension AccountBase ConfidentialTransferAccountX e' (tlv_data token_account)\<rparr>)) L))))))))))))))"

text \<open>Debiting the available balance of a withdrawal.\<close>

definition debit_withdrawal ::
  "Curve \<Rightarrow> WithdrawProofContext \<Rightarrow> u64 \<Rightarrow> ae_ciphertext \<Rightarrow> ConfidentialTransferAccount \<Rightarrow>
     ConfidentialTransferAccount result" where
  "debit_withdrawal C proof_context amount new_decryptable_available_balance e =
     and_then (valid_as_source e) (\<lambda>_.
     if cta_elgamal_pubkey e \<noteq> wp_source_pubkey proof_context then TErr ConfidentialTransferElGamalPubkeyMismatch
     else
     and_then (if amount > 0
               then ok_or (subtract_from C (cta_available_balance e) amount) (token_error CiphertextArithmeticFailed)
               else Ok (cta_available_balance e)) (\<lambda>available_balance.
     if available_balance \<noteq> wp_remaining_balance_ciphertext proof_context
     then TErr ConfidentialTransferBalanceMismatch
     else Ok (e\<lparr>cta_available_balance := available_balance,
                cta_decryptable_available_balance := new_decryptable_available_balance\<rparr>)))"

definition process_withdraw ::
  "ZkSdk \<Rightarrow> pubkey \<Rightarrow> AccountInfo list \<Rightarrow> u64 \<Rightarrow> u8 \<Rightarrow> ae_ciphertext \<Rightarrow> int \<Rightarrow> int \<Rightarrow> ledger \<Rightarrow> ledger result" where
  "process_withdraw zk program_id accounts amount expected_decimals new_decryptable_available_balance
       equality_offset range_offset L =
     and_then (next_account_info accounts) (\<lambda>(token_account_info, iter).
     and_then (next_account_info iter) (\<lambda>(mint_info, iter).
     and_then (verify_withdraw_proof zk (read_any L) L iter equality_offset range_offset) (\<lambda>(proof_context, iter).
     and_then (next_account_info iter) (\<lambda>(authority_info, rest).
     and_then (check_program_account (ac_owner (L (ai_key mint_info)))) (\<lambda>_.
     and_then (unpack PodMintB (ac_data (L (ai_key mint_info)))) (\<lambda>mint.
     if expected_decimals \<noteq> m_decimals (base mint) then TErr MintDecimalsMismatch
     else if is_ok (get_extension MintBase ConfidentialMintBurnX (tlv_data mint)) then TErr IllegalMintBurnConversion
     else
     and_then (check_not_paused (tlv_data mint)) (\<lambda>_.
     and_then (check_program_account (ac_owner (L (ai_key token_account_info)))) (\<lambda>_.
     and_then (borrow_data (ai_key mint_info) L token_account_info) (\<lambda>token_account_data.
     and_then (unpack_mut PodAccountB token_account_data) (\<lambda>token_account.
     and_then (check_conversion_account program_id L mint_info authority_info rest (data_len L authority_info)
       token_account) (\<lambda>_.
     and_then (get_extension_mut AccountBase ConfidentialTransferAccountX (tlv_data token_account)) (\<lambda>(e, _).
     and_then (debit_withdrawal (zk_curve zk) proof_context amount new_decryptable_available_balance e) (\<lambda>e'.
     and_then (ok_or (checked_add (a_amount (base token_account)) amount) (token_error Overflow)) (\<lambda>new_amount.
     Ok (set_data (ai_key token_account_info) (pack_state PodAccountB
       (token_account\<lparr>base := (base token_account)\<lparr>a_amount := new_amount\<rparr>,
          tlv_data := set_extension AccountBase ConfidentialTransferAccountX e' (tlv_data token_account)\<rparr>)) L)))))))))))))))"

section \<open>Transfer\<close>

text \<open>\<open>check_auditor_ciphertext\<close> of src/program/src/lib.rs.\<close>

definition check_auditor_ciphertext :: "ciphertext \<Rightarrow> ciphertext \<Rightarrow> ciphertext \<Rightarrow> ciphertext \<Rightarrow> unit result" where
  "check_auditor_ciphertext instruction_lo instruction_hi proof_lo proof_hi =
     (if instruction_lo \<noteq> proof_lo then TErr ConfidentialTransferBalanceMismatch
      else if instruction_hi \<noteq> proof_hi then TErr ConfidentialTransferBalanceMismatch
      else Ok ())"

text \<open>The amounts of the auditor that the proofs hold, against those of the instruction.\<close>

definition check_auditor :: "ZkSdk \<Rightarrow> grouped3 \<Rightarrow> grouped3 \<Rightarrow> ciphertext \<Rightarrow> ciphertext \<Rightarrow> unit result" where
  "check_auditor zk proof_lo proof_hi auditor_lo auditor_hi =
     and_then (extraction (try_extract_ciphertext3 zk proof_lo 2)) (\<lambda>lo.
     and_then (extraction (try_extract_ciphertext3 zk proof_hi 2)) (\<lambda>hi.
     check_auditor_ciphertext auditor_lo auditor_hi lo hi))"

text \<open>
  The sending party.  The two functions of the code differ in the type of the proof context only; they
  read four fields of it.  The mint is borrowed all the time, so the length of the authority's data
  cannot be read from it.
\<close>

definition debit_source ::
  "ZkSdk \<Rightarrow> pubkey \<Rightarrow> grouped3 \<Rightarrow> grouped3 \<Rightarrow> ciphertext \<Rightarrow> ae_ciphertext \<Rightarrow> ConfidentialTransferAccount \<Rightarrow>
     ConfidentialTransferAccount result" where
  "debit_source zk source_pubkey lo hi new_source_ciphertext new_decryptable_available_balance e =
     and_then (valid_as_source e) (\<lambda>_.
     if source_pubkey \<noteq> cta_elgamal_pubkey e then TErr ConfidentialTransferElGamalPubkeyMismatch
     else
     and_then (extraction (try_extract_ciphertext3 zk lo 0)) (\<lambda>amount_lo.
     and_then (extraction (try_extract_ciphertext3 zk hi 0)) (\<lambda>amount_hi.
     and_then (ok_or (subtract_with_lo_hi (zk_curve zk) (cta_available_balance e) amount_lo amount_hi)
       (token_error CiphertextArithmeticFailed)) (\<lambda>new_source_available_balance.
     if new_source_available_balance \<noteq> new_source_ciphertext then TErr ConfidentialTransferBalanceMismatch
     else Ok (e\<lparr>cta_available_balance := new_source_available_balance,
                cta_decryptable_available_balance := new_decryptable_available_balance\<rparr>)))))"

definition process_source ::
  "pubkey \<Rightarrow> Env \<Rightarrow> AccountInfo \<Rightarrow> AccountInfo \<Rightarrow> AccountInfo \<Rightarrow> AccountInfo list \<Rightarrow>
     (ConfidentialTransferAccount \<Rightarrow> ConfidentialTransferAccount result) \<Rightarrow> ledger \<Rightarrow> ledger result" where
  "process_source program_id env source_account_info mint_info authority_info signers debit L =
     and_then (check_program_account (ac_owner (L (ai_key source_account_info)))) (\<lambda>_.
     and_then (borrow_data (ai_key mint_info) L authority_info) (\<lambda>authority_data.
     and_then (borrow_data (ai_key mint_info) L source_account_info) (\<lambda>token_account_data.
     and_then (unpack_mut PodAccountB token_account_data) (\<lambda>token_account.
     if is_ok (get_extension AccountBase NonTransferableAccountX (tlv_data token_account))
     then TErr TokenError.NonTransferable
     else
     and_then (validate_owner program_id L (a_owner (base token_account)) authority_info (length authority_data) signers)
       (\<lambda>_.
     if cpi_guard_enabled (tlv_data token_account) \<and> ai_key authority_info = a_owner (base token_account) \<and> env_in_cpi env
     then TErr CpiGuardTransferBlocked
     else if account_is_frozen (base token_account) then TErr AccountFrozen
     else if a_mint (base token_account) \<noteq> ai_key mint_info then TErr MintMismatch
     else
     and_then (get_extension_mut AccountBase ConfidentialTransferAccountX (tlv_data token_account)) (\<lambda>(e, _).
     and_then (debit e) (\<lambda>e'.
     Ok (set_data (ai_key source_account_info) (pack_state PodAccountB (token_account\<lparr>tlv_data :=
       set_extension AccountBase ConfidentialTransferAccountX e' (tlv_data token_account)\<rparr>)) L))))))))"

definition process_source_for_transfer ::
  "ZkSdk \<Rightarrow> pubkey \<Rightarrow> Env \<Rightarrow> AccountInfo \<Rightarrow> AccountInfo \<Rightarrow> AccountInfo \<Rightarrow> AccountInfo list \<Rightarrow>
     TransferProofContext \<Rightarrow> ae_ciphertext \<Rightarrow> ledger \<Rightarrow> ledger result" where
  "process_source_for_transfer zk program_id env source_account_info mint_info authority_info signers proof_context
       new_decryptable_available_balance L =
     process_source program_id env source_account_info mint_info authority_info signers
       (debit_source zk (tp_source proof_context) (tp_ciphertext_lo proof_context) (tp_ciphertext_hi proof_context)
          (tp_new_source_ciphertext proof_context) new_decryptable_available_balance) L"

definition process_source_for_transfer_with_fee ::
  "ZkSdk \<Rightarrow> pubkey \<Rightarrow> Env \<Rightarrow> AccountInfo \<Rightarrow> AccountInfo \<Rightarrow> AccountInfo \<Rightarrow> AccountInfo list \<Rightarrow>
     TransferWithFeeProofContext \<Rightarrow> ae_ciphertext \<Rightarrow> ledger \<Rightarrow> ledger result" where
  "process_source_for_transfer_with_fee zk program_id env source_account_info mint_info authority_info signers
       proof_context new_decryptable_available_balance L =
     process_source program_id env source_account_info mint_info authority_info signers
       (debit_source zk (fp_source proof_context) (fp_ciphertext_lo proof_context) (fp_ciphertext_hi proof_context)
          (fp_new_source_ciphertext proof_context) new_decryptable_available_balance) L"

text \<open>The receiving party: the amount is added to the pending balance.\<close>

definition credit_destination ::
  "ZkSdk \<Rightarrow> pubkey \<Rightarrow> grouped3 \<Rightarrow> grouped3 \<Rightarrow> ConfidentialTransferAccount \<Rightarrow> ConfidentialTransferAccount result" where
  "credit_destination zk destination_pubkey lo hi e =
     and_then (valid_as_destination e) (\<lambda>_.
     if destination_pubkey \<noteq> cta_elgamal_pubkey e then TErr ConfidentialTransferElGamalPubkeyMismatch
     else
     and_then (extraction (try_extract_ciphertext3 zk lo 1)) (\<lambda>amount_lo.
     and_then (extraction (try_extract_ciphertext3 zk hi 1)) (\<lambda>amount_hi.
     and_then (ok_or (ct_add (zk_curve zk) (cta_pending_balance_lo e) amount_lo)
       (token_error CiphertextArithmeticFailed)) (\<lambda>pending_lo.
     and_then (ok_or (ct_add (zk_curve zk) (cta_pending_balance_hi e) amount_hi)
       (token_error CiphertextArithmeticFailed)) (\<lambda>pending_hi.
     increment_pending_balance_credit_counter
       (e\<lparr>cta_pending_balance_lo := pending_lo, cta_pending_balance_hi := pending_hi\<rparr>))))))"

text \<open>\<open>credit\<close> changes the extensions of the destination.\<close>

definition process_destination ::
  "Env \<Rightarrow> AccountInfo \<Rightarrow> AccountInfo \<Rightarrow> (bytes \<Rightarrow> bytes result) \<Rightarrow> ledger \<Rightarrow> ledger result" where
  "process_destination env destination_account_info mint_info credit L =
     and_then (check_program_account (ac_owner (L (ai_key destination_account_info)))) (\<lambda>_.
     and_then (borrow_data (ai_key mint_info) L destination_account_info) (\<lambda>destination_token_account_data.
     and_then (unpack_mut PodAccountB destination_token_account_data) (\<lambda>destination_token_account.
     if account_is_frozen (base destination_token_account) then TErr AccountFrozen
     else if a_mint (base destination_token_account) \<noteq> ai_key mint_info then TErr MintMismatch
     else
     and_then (if memo_required AccountBase (tlv_data destination_token_account)
               then check_previous_sibling_instruction_is_memo env else Ok ()) (\<lambda>_.
     and_then (credit (tlv_data destination_token_account)) (\<lambda>tlv.
     Ok (set_data (ai_key destination_account_info)
       (pack_state PodAccountB (destination_token_account\<lparr>tlv_data := tlv\<rparr>)) L))))))"

definition process_destination_for_transfer ::
  "ZkSdk \<Rightarrow> Env \<Rightarrow> AccountInfo \<Rightarrow> AccountInfo \<Rightarrow> TransferProofContext \<Rightarrow> ledger \<Rightarrow> ledger result" where
  "process_destination_for_transfer zk env destination_account_info mint_info proof_context L =
     process_destination env destination_account_info mint_info (\<lambda>tlv.
       and_then (get_extension_mut AccountBase ConfidentialTransferAccountX tlv) (\<lambda>(e, _).
       and_then (credit_destination zk (tp_destination proof_context) (tp_ciphertext_lo proof_context)
         (tp_ciphertext_hi proof_context) e) (\<lambda>e.
       Ok (set_extension AccountBase ConfidentialTransferAccountX e tlv)))) L"

text \<open>The fee comes off the pending balance of the destination and is withheld for the withdraw authority.\<close>

definition withhold_confidential_fee ::
  "ZkSdk \<Rightarrow> TransferWithFeeProofContext \<Rightarrow> ConfidentialTransferAccount \<Rightarrow> bytes \<Rightarrow> bytes result" where
  "withhold_confidential_fee zk proof_context e tlv =
     and_then (extraction (try_extract_ciphertext2 zk (fp_fee_ciphertext_lo proof_context) 0)) (\<lambda>destination_fee_lo.
     and_then (extraction (try_extract_ciphertext2 zk (fp_fee_ciphertext_hi proof_context) 0)) (\<lambda>destination_fee_hi.
     and_then (ok_or (ct_subtract (zk_curve zk) (cta_pending_balance_lo e) destination_fee_lo)
       (token_error CiphertextArithmeticFailed)) (\<lambda>pending_lo.
     and_then (ok_or (ct_subtract (zk_curve zk) (cta_pending_balance_hi e) destination_fee_hi)
       (token_error CiphertextArithmeticFailed)) (\<lambda>pending_hi.
     let tlv = set_extension AccountBase ConfidentialTransferAccountX
           (e\<lparr>cta_pending_balance_lo := pending_lo, cta_pending_balance_hi := pending_hi\<rparr>) tlv
     in and_then (extraction (try_extract_ciphertext2 zk (fp_fee_ciphertext_lo proof_context) 1)) (\<lambda>authority_fee_lo.
        and_then (extraction (try_extract_ciphertext2 zk (fp_fee_ciphertext_hi proof_context) 1)) (\<lambda>authority_fee_hi.
        and_then (get_extension_mut AccountBase ConfidentialTransferFeeAmountX tlv) (\<lambda>(fee_amount, _).
        and_then (ok_or (add_with_lo_hi (zk_curve zk) (cfa_withheld_amount fee_amount) authority_fee_lo authority_fee_hi)
          (token_error CiphertextArithmeticFailed)) (\<lambda>withheld_amount.
        Ok (set_extension AccountBase ConfidentialTransferFeeAmountX
          (fee_amount\<lparr>cfa_withheld_amount := withheld_amount\<rparr>) tlv)))))))))"

definition process_destination_for_transfer_with_fee ::
  "ZkSdk \<Rightarrow> Env \<Rightarrow> AccountInfo \<Rightarrow> AccountInfo \<Rightarrow> TransferWithFeeProofContext \<Rightarrow> bool \<Rightarrow> ledger \<Rightarrow> ledger result" where
  "process_destination_for_transfer_with_fee zk env destination_account_info mint_info proof_context is_self_transfer L =
     process_destination env destination_account_info mint_info (\<lambda>tlv.
       and_then (get_extension_mut AccountBase ConfidentialTransferAccountX tlv) (\<lambda>(e, _).
       and_then (credit_destination zk (fp_destination proof_context) (fp_ciphertext_lo proof_context)
         (fp_ciphertext_hi proof_context) e) (\<lambda>e.
       if is_self_transfer then Ok (set_extension AccountBase ConfidentialTransferAccountX e tlv)
       else withhold_confidential_fee zk proof_context e tlv))) L"

text \<open>The transferring flags around the call of the hook; the amount is unknown, so \<open>u64::MAX\<close> is passed.\<close>

definition set_transferring_flag :: "AccountInfo \<Rightarrow> ledger \<Rightarrow> ledger result" where
  "set_transferring_flag info L =
     and_then (unpack_mut PodAccountB (ac_data (L (ai_key info)))) (\<lambda>st.
     and_then (set_transferring st) (\<lambda>st. Ok (set_data (ai_key info) (pack_state PodAccountB st) L)))"

definition confidential_hook_call ::
  "Env \<Rightarrow> pubkey option \<Rightarrow> AccountInfo \<Rightarrow> AccountInfo \<Rightarrow> AccountInfo \<Rightarrow> AccountInfo \<Rightarrow> AccountInfo list \<Rightarrow>
     ledger \<Rightarrow> ledger result" where
  "confidential_hook_call env hook source_account_info mint_info destination_account_info authority_info rest L =
     (case hook of
        None \<Rightarrow> Ok L
      | Some program_id \<Rightarrow>
          and_then (set_transferring_flag source_account_info L) (\<lambda>L.
          and_then (set_transferring_flag destination_account_info L) (\<lambda>L.
          and_then (env_invoke_execute env program_id
            ([source_account_info, mint_info, destination_account_info, authority_info] @ rest) (- 1) L) (\<lambda>L.
          and_then (unset_transferring source_account_info L) (\<lambda>L.
          unset_transferring destination_account_info L)))))"

definition ct_process_transfer ::
  "ZkSdk \<Rightarrow> pubkey \<Rightarrow> Env \<Rightarrow> AccountInfo list \<Rightarrow> ae_ciphertext \<Rightarrow> ciphertext \<Rightarrow> ciphertext \<Rightarrow> int \<Rightarrow> int \<Rightarrow>
     int option \<Rightarrow> int option \<Rightarrow> int \<Rightarrow> ledger \<Rightarrow> ledger result" where
  "ct_process_transfer zk program_id env accounts new_decryptable_available_balance auditor_lo auditor_hi
       equality_offset amount_validity_offset fee_sigma_offset fee_validity_offset range_offset L =
     and_then (next_account_info accounts) (\<lambda>(source_account_info, iter).
     and_then (next_account_info iter) (\<lambda>(mint_info, iter).
     and_then (next_account_info iter) (\<lambda>(destination_account_info, iter).
     and_then (check_program_account (ac_owner (L (ai_key mint_info)))) (\<lambda>_.
     and_then (unpack PodMintB (ac_data (L (ai_key mint_info)))) (\<lambda>mint.
     and_then (check_not_paused (tlv_data mint)) (\<lambda>_.
     and_then (get_extension MintBase ConfidentialTransferMintX (tlv_data mint)) (\<lambda>confidential_transfer_mint.
     and_then (case get_extension MintBase TransferFeeConfigX (tlv_data mint) of
         Err _ \<Rightarrow>
           and_then (verify_transfer_proof zk (borrow_data (ai_key mint_info) L) L iter equality_offset
             amount_validity_offset range_offset) (\<lambda>(proof_context, iter).
           and_then (next_account_info iter) (\<lambda>(authority_info, rest).
           if ctm_auditor_elgamal_pubkey confidential_transfer_mint \<noteq> tp_auditor proof_context
           then TErr ConfidentialTransferElGamalPubkeyMismatch
           else
           and_then (check_auditor zk (tp_ciphertext_lo proof_context) (tp_ciphertext_hi proof_context)
             auditor_lo auditor_hi) (\<lambda>_.
           and_then (process_source_for_transfer zk program_id env source_account_info mint_info authority_info rest
             proof_context new_decryptable_available_balance L) (\<lambda>L.
           and_then (process_destination_for_transfer zk env destination_account_info mint_info proof_context L) (\<lambda>L.
           Ok (authority_info, rest, L))))))
       | Ok transfer_fee_config \<Rightarrow>
           and_then (env_clock env) (\<lambda>clock.
           and_then (ok_or fee_sigma_offset InvalidInstructionData) (\<lambda>fee_sigma_offset.
           and_then (ok_or fee_validity_offset InvalidInstructionData) (\<lambda>fee_validity_offset.
           and_then (verify_transfer_with_fee_proof zk (borrow_data (ai_key mint_info) L) L iter equality_offset
             amount_validity_offset fee_sigma_offset fee_validity_offset range_offset
             (get_epoch_fee transfer_fee_config (clk_epoch clock))) (\<lambda>(proof_context, iter).
           and_then (next_account_info iter) (\<lambda>(authority_info, rest).
           if ctm_auditor_elgamal_pubkey confidential_transfer_mint \<noteq> fp_auditor proof_context
           then TErr ConfidentialTransferElGamalPubkeyMismatch
           else
           and_then (get_extension MintBase ConfidentialTransferFeeConfigX (tlv_data mint)) (\<lambda>fee_config.
           if fp_withdraw_withheld_authority proof_context \<noteq> ctf_withdraw_withheld_authority_elgamal_pubkey fee_config
           then TErr ConfidentialTransferElGamalPubkeyMismatch
           else
           and_then (check_auditor zk (fp_ciphertext_lo proof_context) (fp_ciphertext_hi proof_context)
             auditor_lo auditor_hi) (\<lambda>_.
           and_then (process_source_for_transfer_with_fee zk program_id env source_account_info mint_info authority_info
             rest proof_context new_decryptable_available_balance L) (\<lambda>L.
           and_then (process_destination_for_transfer_with_fee zk env destination_account_info mint_info proof_context
             (ai_key source_account_info = ai_key destination_account_info) L) (\<lambda>L.
           Ok (authority_info, rest, L)))))))))))
       (\<lambda>(authority_info, rest, L).
     confidential_hook_call env (get_program_id MintBase (tlv_data mint)) source_account_info mint_info
       destination_account_info authority_info rest L))))))))"

section \<open>Dispatch\<close>

datatype ConfidentialTransferInstruction = CtInitializeMint | CtUpdateMint | CtConfigureAccount | CtApproveAccount |
  CtEmptyAccount | CtDeposit | CtWithdraw | CtTransfer | CtApplyPendingBalance | CtEnableConfidentialCredits |
  CtDisableConfidentialCredits | CtEnableNonConfidentialCredits | CtDisableNonConfidentialCredits |
  CtTransferWithFee | CtConfigureAccountWithRegistry

definition confidential_transfer_variants :: "ConfidentialTransferInstruction list" where
  "confidential_transfer_variants = [CtInitializeMint, CtUpdateMint, CtConfigureAccount, CtApproveAccount,
     CtEmptyAccount, CtDeposit, CtWithdraw, CtTransfer, CtApplyPendingBalance, CtEnableConfidentialCredits,
     CtDisableConfidentialCredits, CtEnableNonConfidentialCredits, CtDisableNonConfidentialCredits,
     CtTransferWithFee, CtConfigureAccountWithRegistry]"

text \<open>The data of the instructions, read at the offsets of the packed structs; an offset is an \<open>i8\<close>.\<close>

definition dec_ct_initialize_mint :: "bytes \<Rightarrow> pubkey \<times> PodBool \<times> pubkey" where
  "dec_ct_initialize_mint bs = (from_le (subslice 0 32 bs), bs ! 32, from_le (subslice 33 32 bs))"

definition dec_update_mint :: "bytes \<Rightarrow> PodBool \<times> pubkey" where
  "dec_update_mint bs = (bs ! 0, from_le (subslice 1 32 bs))"

definition dec_configure_account :: "bytes \<Rightarrow> ae_ciphertext \<times> u64 \<times> int" where
  "dec_configure_account bs = (from_le (subslice 0 36 bs), from_le (subslice 36 8 bs), sint (bs ! 44))"

definition dec_empty_account :: "bytes \<Rightarrow> int" where
  "dec_empty_account bs = sint (bs ! 0)"

definition dec_deposit :: "bytes \<Rightarrow> u64 \<times> u8" where
  "dec_deposit bs = (from_le (subslice 0 8 bs), bs ! 8)"

definition dec_withdraw :: "bytes \<Rightarrow> u64 \<times> u8 \<times> ae_ciphertext \<times> int \<times> int" where
  "dec_withdraw bs = (from_le (subslice 0 8 bs), bs ! 8, from_le (subslice 9 36 bs), sint (bs ! 45), sint (bs ! 46))"

definition dec_ct_transfer :: "bytes \<Rightarrow> ae_ciphertext \<times> ciphertext \<times> ciphertext \<times> int \<times> int \<times> int" where
  "dec_ct_transfer bs = (from_le (subslice 0 36 bs), from_le (subslice 36 64 bs), from_le (subslice 100 64 bs),
     sint (bs ! 164), sint (bs ! 165), sint (bs ! 166))"

definition dec_apply_pending_balance :: "bytes \<Rightarrow> u64 \<times> ae_ciphertext" where
  "dec_apply_pending_balance bs = (from_le (subslice 0 8 bs), from_le (subslice 8 36 bs))"

definition dec_transfer_with_fee ::
  "bytes \<Rightarrow> ae_ciphertext \<times> ciphertext \<times> ciphertext \<times> int \<times> int \<times> int \<times> int \<times> int" where
  "dec_transfer_with_fee bs = (from_le (subslice 0 36 bs), from_le (subslice 36 64 bs), from_le (subslice 100 64 bs),
     sint (bs ! 164), sint (bs ! 165), sint (bs ! 166), sint (bs ! 167), sint (bs ! 168))"

text \<open>The program is built with the feature \<open>zk-ops\<close>.\<close>

definition process_confidential_transfer_instruction ::
  "ZkSdk \<Rightarrow> Env \<Rightarrow> resize \<Rightarrow> pubkey \<Rightarrow> AccountInfo list \<Rightarrow> bytes \<Rightarrow> ledger \<Rightarrow> ledger result" where
  "process_confidential_transfer_instruction zk env rs program_id accounts input L =
     and_then (check_program_account program_id) (\<lambda>_.
     and_then (decode_instruction_type confidential_transfer_variants input) (\<lambda>i. case i of
       CtInitializeMint \<Rightarrow> and_then (decode_instruction_data 65 dec_ct_initialize_mint input)
         (\<lambda>(authority, auto_approve, auditor). ct_process_initialize_mint accounts authority auto_approve auditor L)
     | CtUpdateMint \<Rightarrow> and_then (decode_instruction_data 33 dec_update_mint input)
         (\<lambda>(auto_approve, auditor). process_update_mint accounts auto_approve auditor L)
     | CtConfigureAccount \<Rightarrow> and_then (decode_instruction_data 45 dec_configure_account input)
         (\<lambda>(decryptable_zero_balance, maximum, offset).
         process_configure_account zk program_id accounts decryptable_zero_balance maximum (ProofInstructionOffset offset) L)
     | CtApproveAccount \<Rightarrow> process_approve_account accounts L
     | CtEmptyAccount \<Rightarrow> and_then (decode_instruction_data 1 dec_empty_account input)
         (\<lambda>offset. process_empty_account zk program_id accounts offset L)
     | CtDeposit \<Rightarrow> and_then (decode_instruction_data 9 dec_deposit input)
         (\<lambda>(amount, decimals). process_deposit zk program_id accounts amount decimals L)
     | CtWithdraw \<Rightarrow> and_then (decode_instruction_data 47 dec_withdraw input)
         (\<lambda>(amount, decimals, new_balance, equality_offset, range_offset).
         process_withdraw zk program_id accounts amount decimals new_balance equality_offset range_offset L)
     | CtTransfer \<Rightarrow> and_then (decode_instruction_data 167 dec_ct_transfer input)
         (\<lambda>(new_balance, auditor_lo, auditor_hi, equality_offset, validity_offset, range_offset).
         ct_process_transfer zk program_id env accounts new_balance auditor_lo auditor_hi equality_offset
           validity_offset None None range_offset L)
     | CtApplyPendingBalance \<Rightarrow> and_then (decode_instruction_data 44 dec_apply_pending_balance input)
         (\<lambda>(expected_counter, new_balance).
         process_apply_pending_balance zk program_id accounts expected_counter new_balance L)
     | CtEnableConfidentialCredits \<Rightarrow> process_allow_confidential_credits program_id accounts True L
     | CtDisableConfidentialCredits \<Rightarrow> process_allow_confidential_credits program_id accounts False L
     | CtEnableNonConfidentialCredits \<Rightarrow> process_allow_non_confidential_credits program_id accounts True L
     | CtDisableNonConfidentialCredits \<Rightarrow> process_allow_non_confidential_credits program_id accounts False L
     | CtTransferWithFee \<Rightarrow> and_then (decode_instruction_data 169 dec_transfer_with_fee input)
         (\<lambda>(new_balance, auditor_lo, auditor_hi, equality_offset, validity_offset, fee_sigma_offset,
            fee_validity_offset, range_offset).
         ct_process_transfer zk program_id env accounts new_balance auditor_lo auditor_hi equality_offset
           validity_offset (Some fee_sigma_offset) (Some fee_validity_offset) range_offset L)
     | CtConfigureAccountWithRegistry \<Rightarrow> process_configure_account_with_registry zk env rs program_id accounts L))"

end
