(* ===== verification/Confidential_Mint_Burn.thy ===== *)
theory Confidential_Mint_Burn
  imports Confidential_Transfer
begin

text \<open>
  The handlers of confidential minting and burning
  (src/program/src/extension/confidential_mint_burn/processor.rs).  The mint is borrowed mutably from the
  start, and minting and burning borrow the token account too: the length of the data of the authority, and
  the proof contexts, cannot be read from a borrowed account.
\<close>

section \<open>The supply\<close>

definition cmb_process_initialize_mint :: "AccountInfo list \<Rightarrow> pubkey \<Rightarrow> ae_ciphertext \<Rightarrow> ledger \<Rightarrow> ledger result" where
  "cmb_process_initialize_mint accounts supply_elgamal_pubkey decryptable_supply L =
     and_then (next_account_info accounts) (\<lambda>(mint_info, _).
     and_then (check_program_account (ac_owner (L (ai_key mint_info)))) (\<lambda>_.
     initialize_extension PodMintB ConfidentialMintBurnX True
       (Ok \<lparr>cmb_confidential_supply = 0, cmb_decryptable_supply = decryptable_supply,
             cmb_supply_elgamal_pubkey = supply_elgamal_pubkey, cmb_pending_burn = 0\<rparr>) mint_info L))"

text \<open>The checks of a rotation against its proof; the new key is the second key of the proof.\<close>

definition rotate_supply ::
  "CiphertextCiphertextEqualityProofContext \<Rightarrow> ConfidentialMintBurn \<Rightarrow> ConfidentialMintBurn result" where
  "rotate_supply proof_context b =
     (if cmb_supply_elgamal_pubkey b \<noteq> cc_first_pubkey proof_context
      then TErr ConfidentialTransferElGamalPubkeyMismatch
      else if cmb_confidential_supply b \<noteq> cc_first_ciphertext proof_context then Err InvalidInstructionData
      else if cmb_pending_burn b \<noteq> 0 then TErr PendingBalanceNonZero
      else Ok (b\<lparr>cmb_supply_elgamal_pubkey := cc_second_pubkey proof_context,
                 cmb_confidential_supply := cc_second_ciphertext proof_context\<rparr>))"

text \<open>The authority of the mint, with the mint borrowed.\<close>

definition check_mint_authority ::
  "pubkey \<Rightarrow> ledger \<Rightarrow> AccountInfo \<Rightarrow> PodMint \<Rightarrow> AccountInfo list \<Rightarrow> unit result" where
  "check_mint_authority program_id L mint_info mint iter =
     and_then (next_account_info iter) (\<lambda>(authority_info, rest).
     and_then (borrow_data (ai_key mint_info) L authority_info) (\<lambda>authority_data.
     and_then (coption_ok_or (m_mint_authority mint) (token_error NoAuthorityExists)) (\<lambda>authority.
     validate_owner program_id L authority authority_info (length authority_data) rest)))"

definition write_mint_burn ::
  "AccountInfo \<Rightarrow> PodMint PodStateWithExtensionsMut \<Rightarrow> ConfidentialMintBurn \<Rightarrow> ledger \<Rightarrow> ledger" where
  "write_mint_burn mint_info mint b L = set_data (ai_key mint_info) (pack_state PodMintB (mint\<lparr>tlv_data :=
     set_extension MintBase ConfidentialMintBurnX b (tlv_data mint)\<rparr>)) L"

text \<open>The data of the instruction names a new key, but the handler does not read it.\<close>

definition process_rotate_supply_elgamal_pubkey ::
  "ZkSdk \<Rightarrow> pubkey \<Rightarrow> AccountInfo list \<Rightarrow> pubkey \<times> int \<Rightarrow> ledger \<Rightarrow> ledger result" where
  "process_rotate_supply_elgamal_pubkey zk program_id accounts data L =
     and_then (next_account_info accounts) (\<lambda>(mint_info, iter).
     and_then (check_program_account (ac_owner (L (ai_key mint_info)))) (\<lambda>_.
     and_then (unpack_mut PodMintB (ac_data (L (ai_key mint_info)))) (\<lambda>mint.
     and_then (get_extension_mut MintBase ConfidentialMintBurnX (tlv_data mint)) (\<lambda>(b, _).
     and_then (verify_and_extract_context zk (zk_ciphertext_equality zk) (borrow_data (ai_key mint_info) L) L iter
       (snd data) None) (\<lambda>(proof_context, iter).
     and_then (rotate_supply proof_context b) (\<lambda>b'.
     and_then (check_mint_authority program_id L mint_info (base mint) iter) (\<lambda>_.
     Ok (write_mint_burn mint_info mint b' L))))))))"

definition process_update_decryptable_supply ::
  "pubkey \<Rightarrow> AccountInfo list \<Rightarrow> ae_ciphertext \<Rightarrow> ledger \<Rightarrow> ledger result" where
  "process_update_decryptable_supply program_id accounts new_decryptable_supply L =
     and_then (next_account_info accounts) (\<lambda>(mint_info, iter).
     and_then (check_program_account (ac_owner (L (ai_key mint_info)))) (\<lambda>_.
     and_then (unpack_mut PodMintB (ac_data (L (ai_key mint_info)))) (\<lambda>mint.
     and_then (get_extension_mut MintBase ConfidentialMintBurnX (tlv_data mint)) (\<lambda>(b, _).
     and_then (check_mint_authority program_id L mint_info (base mint) iter) (\<lambda>_.
     Ok (write_mint_burn mint_info mint (b\<lparr>cmb_decryptable_supply := new_decryptable_supply\<rparr>) L))))))"

definition apply_pending_burn :: "Curve \<Rightarrow> ConfidentialMintBurn \<Rightarrow> ConfidentialMintBurn result" where
  "apply_pending_burn C b =
     and_then (ok_or (ct_subtract C (cmb_confidential_supply b) (cmb_pending_burn b))
       (token_error CiphertextArithmeticFailed)) (\<lambda>supply.
     Ok (b\<lparr>cmb_confidential_supply := supply, cmb_pending_burn := 0\<rparr>))"

definition process_apply_pending_burn :: "ZkSdk \<Rightarrow> pubkey \<Rightarrow> AccountInfo list \<Rightarrow> ledger \<Rightarrow> ledger result" where
  "process_apply_pending_burn zk program_id accounts L =
     and_then (next_account_info accounts) (\<lambda>(mint_info, iter).
     and_then (check_program_account (ac_owner (L (ai_key mint_info)))) (\<lambda>_.
     and_then (unpack_mut PodMintB (ac_data (L (ai_key mint_info)))) (\<lambda>mint.
     and_then (get_extension_mut MintBase ConfidentialMintBurnX (tlv_data mint)) (\<lambda>(b, _).
     and_then (check_mint_authority program_id L mint_info (base mint) iter) (\<lambda>_.
     and_then (apply_pending_burn (zk_curve zk) b) (\<lambda>b'.
     Ok (write_mint_burn mint_info mint b' L)))))))"

section \<open>Minting\<close>

text \<open>The amount arrives in the pending balance of the destination.\<close>

definition credit_minted ::
  "ZkSdk \<Rightarrow> pubkey \<Rightarrow> MintProofContext \<Rightarrow> ciphertext \<Rightarrow> ciphertext \<Rightarrow> ConfidentialTransferAccount \<Rightarrow>
     ConfidentialTransferAccount result" where
  "credit_minted zk auditor_elgamal_pubkey proof_context auditor_lo auditor_hi e =
     and_then (valid_as_destination e) (\<lambda>_.
     if mp_destination proof_context \<noteq> cta_elgamal_pubkey e then Err InvalidInstructionData
     else if opt_key auditor_elgamal_pubkey \<noteq> None \<and> opt_key auditor_elgamal_pubkey \<noteq> Some (mp_auditor proof_context)
     then Err InvalidInstructionData
     else
     and_then (check_auditor zk (mp_mint_amount_ciphertext_lo proof_context) (mp_mint_amount_ciphertext_hi proof_context)
       auditor_lo auditor_hi) (\<lambda>_.
     and_then (extraction (try_extract_ciphertext3 zk (mp_mint_amount_ciphertext_lo proof_context) 0)) (\<lambda>amount_lo.
     and_then (ok_or (ct_add (zk_curve zk) (cta_pending_balance_lo e) amount_lo)
       (token_error CiphertextArithmeticFailed)) (\<lambda>pending_lo.
     and_then (extraction (try_extract_ciphertext3 zk (mp_mint_amount_ciphertext_hi proof_context) 0)) (\<lambda>amount_hi.
     and_then (ok_or (ct_add (zk_curve zk) (cta_pending_balance_hi e) amount_hi)
       (token_error CiphertextArithmeticFailed)) (\<lambda>pending_hi.
     increment_pending_balance_credit_counter
       (e\<lparr>cta_pending_balance_lo := pending_lo, cta_pending_balance_hi := pending_hi\<rparr>)))))))"

definition add_supply :: "ZkSdk \<Rightarrow> MintProofContext \<Rightarrow> ae_ciphertext \<Rightarrow> ConfidentialMintBurn \<Rightarrow> ConfidentialMintBurn result" where
  "add_supply zk proof_context new_decryptable_supply b =
     (if cmb_supply_elgamal_pubkey b \<noteq> mp_supply proof_context then Err InvalidInstructionData
      else
      and_then (map_err (\<lambda>_. InvalidAccountData)
        (try_extract_ciphertext3 zk (mp_mint_amount_ciphertext_lo proof_context) 1)) (\<lambda>amount_lo.
      and_then (map_err (\<lambda>_. InvalidAccountData)
        (try_extract_ciphertext3 zk (mp_mint_amount_ciphertext_hi proof_context) 1)) (\<lambda>amount_hi.
      and_then (ok_or (add_with_lo_hi (zk_curve zk) (cmb_confidential_supply b) amount_lo amount_hi)
        (token_error CiphertextArithmeticFailed)) (\<lambda>supply.
      if supply \<noteq> mp_new_supply_ciphertext proof_context then TErr ConfidentialTransferBalanceMismatch
      else Ok (b\<lparr>cmb_confidential_supply := supply, cmb_decryptable_supply := new_decryptable_supply\<rparr>)))))"

definition process_confidential_mint ::
  "ZkSdk \<Rightarrow> pubkey \<Rightarrow> AccountInfo list \<Rightarrow> ae_ciphertext \<Rightarrow> ciphertext \<Rightarrow> ciphertext \<Rightarrow> u8 \<Rightarrow> u8 \<Rightarrow> u8 \<Rightarrow>
     ledger \<Rightarrow> ledger result" where
  "process_confidential_mint zk program_id accounts new_decryptable_supply auditor_lo auditor_hi
       equality_offset validity_offset range_offset L =
     and_then (next_account_info accounts) (\<lambda>(token_account_info, iter).
     and_then (next_account_info iter) (\<lambda>(mint_info, iter).
     and_then (check_program_account (ac_owner (L (ai_key mint_info)))) (\<lambda>_.
     and_then (unpack_mut PodMintB (ac_data (L (ai_key mint_info)))) (\<lambda>mint.
     and_then (get_extension MintBase ConfidentialTransferMintX (tlv_data mint)) (\<lambda>confidential_transfer_mint.
     and_then (check_not_paused (tlv_data mint)) (\<lambda>_.
     and_then (get_extension_mut MintBase ConfidentialMintBurnX (tlv_data mint)) (\<lambda>(b, _).
     and_then (verify_mint_proof zk (borrow_data (ai_key mint_info) L) L iter equality_offset validity_offset
       range_offset) (\<lambda>(proof_context, iter).
     and_then (check_program_account (ac_owner (L (ai_key token_account_info)))) (\<lambda>_.
     and_then (borrow_data (ai_key mint_info) L token_account_info) (\<lambda>token_account_data.
     and_then (unpack_mut PodAccountB token_account_data) (\<lambda>token_account.
     and_then (next_account_info iter) (\<lambda>(authority_info, _).
     and_then (borrow_data (ai_key token_account_info) L authority_info) (\<lambda>_.
     and_then (check_mint_authority program_id L mint_info (base mint) iter) (\<lambda>_.
     if account_is_frozen (base token_account) then TErr AccountFrozen
     else if a_mint (base token_account) \<noteq> ai_key mint_info then TErr MintMismatch
     else if account_is_native (base token_account) then TErr NativeNotSupported
     else
     and_then (get_extension_mut AccountBase ConfidentialTransferAccountX (tlv_data token_account)) (\<lambda>(e, _).
     and_then (credit_minted zk (ctm_auditor_elgamal_pubkey confidential_transfer_mint) proof_context
       auditor_lo auditor_hi e) (\<lambda>e'.
     and_then (add_supply zk proof_context new_decryptable_supply b) (\<lambda>b'.
     Ok (write_mint_burn mint_info mint b'
       (set_data (ai_key token_account_info) (pack_state PodAccountB (token_account\<lparr>tlv_data :=
          set_extension AccountBase ConfidentialTransferAccountX e' (tlv_data token_account)\<rparr>)) L)))))))))))))))))))"

section \<open>Burning\<close>

definition debit_burned ::
  "ZkSdk \<Rightarrow> pubkey \<Rightarrow> BurnProofContext \<Rightarrow> ciphertext \<Rightarrow> ciphertext \<Rightarrow> ae_ciphertext \<Rightarrow> ConfidentialTransferAccount \<Rightarrow>
     ConfidentialTransferAccount result" where
  "debit_burned zk auditor_elgamal_pubkey proof_context auditor_lo auditor_hi new_decryptable_available_balance e =
     and_then (valid_as_source e) (\<lambda>_.
     if bp_source proof_context \<noteq> cta_elgamal_pubkey e then TErr ConfidentialTransferElGamalPubkeyMismatch
     else
     and_then (check_auditor zk (bp_burn_amount_ciphertext_lo proof_context) (bp_burn_amount_ciphertext_hi proof_context)
       auditor_lo auditor_hi) (\<lambda>_.
     and_then (extraction (try_extract_ciphertext3 zk (bp_burn_amount_ciphertext_lo proof_context) 0)) (\<lambda>amount_lo.
     and_then (extraction (try_extract_ciphertext3 zk (bp_burn_amount_ciphertext_hi proof_context) 0)) (\<lambda>amount_hi.
     and_then (ok_or (subtract_with_lo_hi (zk_curve zk) (cta_available_balance e) amount_lo amount_hi)
       (token_error CiphertextArithmeticFailed)) (\<lambda>new_source_available_balance.
     if new_source_available_balance \<noteq> bp_remaining_balance_ciphertext proof_context
     then TErr ConfidentialTransferBalanceMismatch
     else if opt_key auditor_elgamal_pubkey \<noteq> None \<and> opt_key auditor_elgamal_pubkey \<noteq> Some (bp_auditor proof_context)
     then Err InvalidInstructionData
     else Ok (e\<lparr>cta_available_balance := new_source_available_balance,
                cta_decryptable_available_balance := new_decryptable_available_balance\<rparr>))))))"

definition add_pending_burn :: "ZkSdk \<Rightarrow> BurnProofContext \<Rightarrow> ConfidentialMintBurn \<Rightarrow> ConfidentialMintBurn result" where
  "add_pending_burn zk proof_context b =
     (if cmb_supply_elgamal_pubkey b \<noteq> bp_supply proof_context then Err InvalidInstructionData
      else
      and_then (map_err (\<lambda>_. InvalidAccountData)
        (try_extract_ciphertext3 zk (bp_burn_amount_ciphertext_lo proof_context) 1)) (\<lambda>amount_lo.
      and_then (map_err (\<lambda>_. InvalidAccountData)
        (try_extract_ciphertext3 zk (bp_burn_amount_ciphertext_hi proof_context) 1)) (\<lambda>amount_hi.
      and_then (ok_or (add_with_lo_hi (zk_curve zk) (cmb_pending_burn b) amount_lo amount_hi)
        (token_error CiphertextArithmeticFailed)) (\<lambda>pending_burn.
      Ok (b\<lparr>cmb_pending_burn := pending_burn\<rparr>)))))"

definition process_confidential_burn ::
  "ZkSdk \<Rightarrow> pubkey \<Rightarrow> Env \<Rightarrow> AccountInfo list \<Rightarrow> ae_ciphertext \<Rightarrow> ciphertext \<Rightarrow> ciphertext \<Rightarrow> u8 \<Rightarrow> u8 \<Rightarrow> u8 \<Rightarrow>
     ledger \<Rightarrow> ledger result" where
  "process_confidential_burn zk program_id env accounts new_decryptable_available_balance auditor_lo auditor_hi
       equality_offset validity_offset range_offset L =
     and_then (next_account_info accounts) (\<lambda>(token_account_info, iter).
     and_then (next_account_info iter) (\<lambda>(mint_info, iter).
     and_then (check_program_account (ac_owner (L (ai_key mint_info)))) (\<lambda>_.
     and_then (unpack_mut PodMintB (ac_data (L (ai_key mint_info)))) (\<lambda>mint.
     and_then (get_extension MintBase ConfidentialTransferMintX (tlv_data mint)) (\<lambda>confidential_transfer_mint.
     and_then (check_not_paused (tlv_data mint)) (\<lambda>_.
     and_then (get_extension_mut MintBase ConfidentialMintBurnX (tlv_data mint)) (\<lambda>(b, _).
     and_then (verify_burn_proof zk (borrow_data (ai_key mint_info) L) L iter equality_offset validity_offset
       range_offset) (\<lambda>(proof_context, iter).
     and_then (check_program_account (ac_owner (L (ai_key token_account_info)))) (\<lambda>_.
     and_then (borrow_data (ai_key mint_info) L token_account_info) (\<lambda>token_account_data.
     and_then (unpack_mut PodAccountB token_account_data) (\<lambda>token_account.
     and_then (next_account_info iter) (\<lambda>(authority_info, rest).
     and_then (borrow_data (ai_key mint_info) L authority_info) (\<lambda>_.
     and_then (borrow_data (ai_key token_account_info) L authority_info) (\<lambda>authority_data.
     and_then (validate_owner program_id L (a_owner (base token_account)) authority_info (length authority_data) rest)
       (\<lambda>_.
     if ai_key authority_info = a_owner (base token_account) \<and> cpi_guard_enabled (tlv_data token_account) \<and> env_in_cpi env
     then TErr CpiGuardBurnBlocked
     else if account_is_frozen (base token_account) then TErr AccountFrozen
     else if a_mint (base token_account) \<noteq> ai_key mint_info then TErr MintMismatch
     else
     and_then (get_extension_mut AccountBase ConfidentialTransferAccountX (tlv_data token_account)) (\<lambda>(e, _).
     and_then (debit_burned zk (ctm_auditor_elgamal_pubkey confidential_transfer_mint) proof_context
       auditor_lo auditor_hi new_decryptable_available_balance e) (\<lambda>e'.
     and_then (add_pending_burn zk proof_context b) (\<lambda>b'.
     Ok (write_mint_burn mint_info mint b'
       (set_data (ai_key token_account_info) (pack_state PodAccountB (token_account\<lparr>tlv_data :=
          set_extension AccountBase ConfidentialTransferAccountX e' (tlv_data token_account)\<rparr>)) L))))))))))))))))))))"

section \<open>Dispatch\<close>

datatype ConfidentialMintBurnInstruction = MbInitializeMint | MbRotateSupplyElGamalPubkey |
  MbUpdateDecryptableSupply | MbMint | MbBurn | MbApplyPendingBurn

definition mint_burn_variants :: "ConfidentialMintBurnInstruction list" where
  "mint_burn_variants = [MbInitializeMint, MbRotateSupplyElGamalPubkey, MbUpdateDecryptableSupply, MbMint, MbBurn,
     MbApplyPendingBurn]"

definition dec_mb_initialize_mint :: "bytes \<Rightarrow> pubkey \<times> ae_ciphertext" where
  "dec_mb_initialize_mint bs = (from_le (subslice 0 32 bs), from_le (subslice 32 36 bs))"

definition dec_rotate_supply :: "bytes \<Rightarrow> pubkey \<times> int" where
  "dec_rotate_supply bs = (from_le (subslice 0 32 bs), sint (bs ! 32))"

definition dec_decryptable_supply :: "bytes \<Rightarrow> ae_ciphertext" where
  "dec_decryptable_supply bs = from_le (subslice 0 36 bs)"

text \<open>\<open>MintInstructionData\<close> and \<open>BurnInstructionData\<close> have the same layout.\<close>

definition dec_mint_data :: "bytes \<Rightarrow> ae_ciphertext \<times> ciphertext \<times> ciphertext \<times> u8 \<times> u8 \<times> u8" where
  "dec_mint_data bs = (from_le (subslice 0 36 bs), from_le (subslice 36 64 bs), from_le (subslice 100 64 bs),
     bs ! 164, bs ! 165, bs ! 166)"

definition dec_burn_data :: "bytes \<Rightarrow> ae_ciphertext \<times> ciphertext \<times> ciphertext \<times> u8 \<times> u8 \<times> u8" where
  "dec_burn_data bs = (from_le (subslice 0 36 bs), from_le (subslice 36 64 bs), from_le (subslice 100 64 bs),
     bs ! 164, bs ! 165, bs ! 166)"

definition process_mint_burn_instruction ::
  "ZkSdk \<Rightarrow> Env \<Rightarrow> pubkey \<Rightarrow> AccountInfo list \<Rightarrow> bytes \<Rightarrow> ledger \<Rightarrow> ledger result" where
  "process_mint_burn_instruction zk env program_id accounts input L =
     and_then (check_program_account program_id) (\<lambda>_.
     and_then (decode_instruction_type mint_burn_variants input) (\<lambda>i. case i of
       MbInitializeMint \<Rightarrow> and_then (decode_instruction_data 68 dec_mb_initialize_mint input)
         (\<lambda>(supply_elgamal_pubkey, decryptable_supply).
         cmb_process_initialize_mint accounts supply_elgamal_pubkey decryptable_supply L)
     | MbRotateSupplyElGamalPubkey \<Rightarrow> and_then (decode_instruction_data 33 dec_rotate_supply input)
         (\<lambda>data. process_rotate_supply_elgamal_pubkey zk program_id accounts data L)
     | MbUpdateDecryptableSupply \<Rightarrow> and_then (decode_instruction_data 36 dec_decryptable_supply input)
         (\<lambda>new_decryptable_supply. process_update_decryptable_supply program_id accounts new_decryptable_supply L)
     | MbMint \<Rightarrow> and_then (decode_instruction_data 167 dec_mint_data input)
         (\<lambda>(new_decryptable_supply, auditor_lo, auditor_hi, equality_offset, validity_offset, range_offset).
         process_confidential_mint zk program_id accounts new_decryptable_supply auditor_lo auditor_hi
           equality_offset validity_offset range_offset L)
     | MbBurn \<Rightarrow> and_then (decode_instruction_data 167 dec_burn_data input)
         (\<lambda>(new_decryptable_available_balance, auditor_lo, auditor_hi, equality_offset, validity_offset, range_offset).
         process_confidential_burn zk program_id env accounts new_decryptable_available_balance auditor_lo auditor_hi
           equality_offset validity_offset range_offset L)
     | MbApplyPendingBurn \<Rightarrow> process_apply_pending_burn zk program_id accounts L))"

end
