(* ===== verification/Confidential_Fee.thy ===== *)
theory Confidential_Fee
  imports Confidential_Transfer
begin

text \<open>
  The handlers of confidential transfer fees
  (src/program/src/extension/confidential_transfer_fee/processor.rs).  Unlike the handlers of
  confidential transfers, the initialisation does not check the owner of the mint account: the runtime
  refuses a write to an account of another program.
\<close>

definition process_initialize_confidential_transfer_fee_config ::
  "AccountInfo list \<Rightarrow> pubkey \<Rightarrow> pubkey \<Rightarrow> ledger \<Rightarrow> ledger result" where
  "process_initialize_confidential_transfer_fee_config accounts authority withdraw_withheld_authority_elgamal_pubkey L =
     and_then (next_account_info accounts) (\<lambda>(mint_account_info, _).
     initialize_extension PodMintB ConfidentialTransferFeeConfigX True
       (Ok \<lparr>ctf_authority = authority,
             ctf_withdraw_withheld_authority_elgamal_pubkey = withdraw_withheld_authority_elgamal_pubkey,
             ctf_harvest_to_mint_enabled = pod_bool_from True, ctf_withheld_amount = 0\<rparr>) mint_account_info L)"

section \<open>Withdrawing from the mint\<close>

text \<open>The withheld amount of the mint, re-encrypted for the destination by the proof.\<close>

definition credit_withheld ::
  "Curve \<Rightarrow> CiphertextCiphertextEqualityProofContext \<Rightarrow> ae_ciphertext \<Rightarrow> ConfidentialTransferFeeConfig \<Rightarrow>
     ConfidentialTransferAccount \<Rightarrow> ConfidentialTransferAccount result" where
  "credit_withheld C proof_context new_decryptable_available_balance config e =
     and_then (valid_as_destination e) (\<lambda>_.
     if cc_first_pubkey proof_context \<noteq> ctf_withdraw_withheld_authority_elgamal_pubkey config
     then TErr ConfidentialTransferElGamalPubkeyMismatch
     else if cc_second_pubkey proof_context \<noteq> cta_elgamal_pubkey e
     then TErr ConfidentialTransferElGamalPubkeyMismatch
     else if cc_first_ciphertext proof_context \<noteq> ctf_withheld_amount config
     then TErr ConfidentialTransferBalanceMismatch
     else
     and_then (ok_or (ct_add C (cta_available_balance e) (cc_second_ciphertext proof_context))
       (token_error CiphertextArithmeticFailed)) (\<lambda>available_balance.
     Ok (e\<lparr>cta_available_balance := available_balance,
           cta_decryptable_available_balance := new_decryptable_available_balance\<rparr>)))"

definition ctf_process_withdraw_withheld_tokens_from_mint ::
  "ZkSdk \<Rightarrow> pubkey \<Rightarrow> AccountInfo list \<Rightarrow> ae_ciphertext \<Rightarrow> int \<Rightarrow> ledger \<Rightarrow> ledger result" where
  "ctf_process_withdraw_withheld_tokens_from_mint zk program_id accounts new_decryptable_available_balance
       proof_instruction_offset L =
     and_then (next_account_info accounts) (\<lambda>(mint_account_info, iter).
     and_then (next_account_info iter) (\<lambda>(destination_account_info, iter).
     and_then (verify_and_extract_context zk (zk_ciphertext_equality zk) (read_any L) L iter
       proof_instruction_offset None) (\<lambda>(proof_context, iter).
     and_then (next_account_info iter) (\<lambda>(authority_info, rest).
     and_then (check_program_account (ac_owner (L (ai_key mint_account_info)))) (\<lambda>_.
     and_then (unpack_mut PodMintB (ac_data (L (ai_key mint_account_info)))) (\<lambda>mint.
     and_then (get_extension MintBase TransferFeeConfigX (tlv_data mint)) (\<lambda>transfer_fee_config.
     and_then (ok_or (opt_key (tfc_withdraw_withheld_authority transfer_fee_config)) (token_error NoAuthorityExists))
       (\<lambda>withdraw_withheld_authority.
     and_then (validate_owner program_id L withdraw_withheld_authority authority_info
       (data_len L authority_info) rest) (\<lambda>_.
     and_then (get_extension_mut MintBase ConfidentialTransferFeeConfigX (tlv_data mint)) (\<lambda>(config, _).
     and_then (check_program_account (ac_owner (L (ai_key destination_account_info)))) (\<lambda>_.
     and_then (borrow_data (ai_key mint_account_info) L destination_account_info) (\<lambda>destination_account_data.
     and_then (unpack_mut PodAccountB destination_account_data) (\<lambda>destination_account.
     if a_mint (base destination_account) \<noteq> ai_key mint_account_info then TErr MintMismatch
     else if account_is_frozen (base destination_account) then TErr AccountFrozen
     else
     and_then (get_extension_mut AccountBase ConfidentialTransferAccountX (tlv_data destination_account)) (\<lambda>(e, _).
     and_then (credit_withheld (zk_curve zk) proof_context new_decryptable_available_balance config e) (\<lambda>e'.
     Ok (set_data (ai_key mint_account_info) (pack_state PodMintB (mint\<lparr>tlv_data :=
          set_extension MintBase ConfidentialTransferFeeConfigX (config\<lparr>ctf_withheld_amount := 0\<rparr>) (tlv_data mint)\<rparr>))
       (set_data (ai_key destination_account_info) (pack_state PodAccountB (destination_account\<lparr>tlv_data :=
          set_extension AccountBase ConfidentialTransferAccountX e' (tlv_data destination_account)\<rparr>)) L)))))))))))))))))"

section \<open>Harvesting\<close>

text \<open>
  As for public fees, the inner result is what \<open>harvest_from_account\<close> returns and its callers match on, and
  the outer one is the panic of borrowing the mint twice.
\<close>

definition ctf_harvest_from_account ::
  "pubkey \<Rightarrow> AccountInfo \<Rightarrow> ledger \<Rightarrow> (TokenError + ciphertext \<times> ledger) result" where
  "ctf_harvest_from_account mint_key token_account_info L =
     and_then (borrow_data mint_key L token_account_info) (\<lambda>token_account_data. Ok (
       and_then (map_err (\<lambda>_. InvalidState) (unpack_mut PodAccountB token_account_data)) (\<lambda>token_account.
       if a_mint (base token_account) \<noteq> mint_key then Err MintMismatch
       else
       and_then (map_err (\<lambda>_. InvalidState) (check_program_account (ac_owner (L (ai_key token_account_info))))) (\<lambda>_.
       and_then (map_err (\<lambda>_. InvalidState)
         (get_extension_mut AccountBase ConfidentialTransferFeeAmountX (tlv_data token_account))) (\<lambda>(e, _).
       Ok (cfa_withheld_amount e, set_data (ai_key token_account_info) (pack_state PodAccountB
         (token_account\<lparr>tlv_data := set_extension AccountBase ConfidentialTransferFeeAmountX
            (e\<lparr>cfa_withheld_amount := 0\<rparr>) (tlv_data token_account)\<rparr>)) L))))))"

text \<open>The loop of the harvest to the mint; a failed harvest is logged and skipped.\<close>

fun ctf_harvest_loop ::
  "Curve \<Rightarrow> pubkey \<Rightarrow> AccountInfo list \<Rightarrow> ciphertext \<Rightarrow> ledger \<Rightarrow> (ciphertext \<times> ledger) result" where
  "ctf_harvest_loop C mint_key [] withheld_amount L = Ok (withheld_amount, L)"
| "ctf_harvest_loop C mint_key (token_account_info # rest) withheld_amount L =
     and_then (ctf_harvest_from_account mint_key token_account_info L) (\<lambda>r. case r of
         Inr (amount, L') \<Rightarrow>
           and_then (ok_or (ct_add C withheld_amount amount) (token_error CiphertextArithmeticFailed)) (\<lambda>withheld_amount.
           ctf_harvest_loop C mint_key rest withheld_amount L')
       | Inl _ \<Rightarrow> ctf_harvest_loop C mint_key rest withheld_amount L)"

definition ctf_process_harvest_withheld_tokens_to_mint :: "ZkSdk \<Rightarrow> AccountInfo list \<Rightarrow> ledger \<Rightarrow> ledger result" where
  "ctf_process_harvest_withheld_tokens_to_mint zk accounts L =
     and_then (next_account_info accounts) (\<lambda>(mint_account_info, token_account_infos).
     and_then (check_program_account (ac_owner (L (ai_key mint_account_info)))) (\<lambda>_.
     and_then (unpack_mut PodMintB (ac_data (L (ai_key mint_account_info)))) (\<lambda>mint.
     and_then (get_extension MintBase TransferFeeConfigX (tlv_data mint)) (\<lambda>_.
     and_then (get_extension_mut MintBase ConfidentialTransferFeeConfigX (tlv_data mint)) (\<lambda>(config, _).
     if \<not> pod_bool (ctf_harvest_to_mint_enabled config) then TErr HarvestToMintDisabled
     else
     and_then (ctf_harvest_loop (zk_curve zk) (ai_key mint_account_info) token_account_infos
       (ctf_withheld_amount config) L) (\<lambda>(withheld_amount, L').
     Ok (set_data (ai_key mint_account_info) (pack_state PodMintB (mint\<lparr>tlv_data :=
       set_extension MintBase ConfidentialTransferFeeConfigX (config\<lparr>ctf_withheld_amount := withheld_amount\<rparr>)
         (tlv_data mint)\<rparr>)) L')))))))"

section \<open>Withdrawing from accounts\<close>

text \<open>The loop keeps the destination unpacked and harvests it in place when it is in the list itself.\<close>

fun ctf_withdraw_loop ::
  "Curve \<Rightarrow> pubkey \<Rightarrow> pubkey \<Rightarrow> AccountInfo list \<Rightarrow> ciphertext \<Rightarrow> PodAccount PodStateWithExtensionsMut \<Rightarrow> ledger \<Rightarrow>
     (ciphertext \<times> PodAccount PodStateWithExtensionsMut \<times> ledger) result" where
  "ctf_withdraw_loop C mint_key destination_key [] aggregate_withheld_amount destination_account L =
     Ok (aggregate_withheld_amount, destination_account, L)"
| "ctf_withdraw_loop C mint_key destination_key (account_info # rest) aggregate_withheld_amount destination_account L =
     (if ai_key account_info = destination_key
      then and_then (map_err (\<lambda>_. token_error InvalidState)
             (get_extension_mut AccountBase ConfidentialTransferFeeAmountX (tlv_data destination_account))) (\<lambda>(e, _).
           and_then (ok_or (ct_add C aggregate_withheld_amount (cfa_withheld_amount e))
             (token_error CiphertextArithmeticFailed)) (\<lambda>aggregate_withheld_amount.
           ctf_withdraw_loop C mint_key destination_key rest aggregate_withheld_amount
             (destination_account\<lparr>tlv_data := set_extension AccountBase ConfidentialTransferFeeAmountX
                (e\<lparr>cfa_withheld_amount := 0\<rparr>) (tlv_data destination_account)\<rparr>) L))
      else and_then (ctf_harvest_from_account mint_key account_info L) (\<lambda>r. case r of
             Inr (amount, L') \<Rightarrow>
               and_then (ok_or (ct_add C aggregate_withheld_amount amount)
                 (token_error CiphertextArithmeticFailed)) (\<lambda>aggregate_withheld_amount.
               ctf_withdraw_loop C mint_key destination_key rest aggregate_withheld_amount destination_account L')
           | Inl _ \<Rightarrow> ctf_withdraw_loop C mint_key destination_key rest aggregate_withheld_amount
               destination_account L))"

definition ctf_process_withdraw_withheld_tokens_from_accounts ::
  "ZkSdk \<Rightarrow> pubkey \<Rightarrow> AccountInfo list \<Rightarrow> u8 \<Rightarrow> ae_ciphertext \<Rightarrow> int \<Rightarrow> ledger \<Rightarrow> ledger result" where
  "ctf_process_withdraw_withheld_tokens_from_accounts zk program_id accounts num_token_accounts
       new_decryptable_available_balance proof_instruction_offset L =
     and_then (next_account_info accounts) (\<lambda>(mint_account_info, iter).
     and_then (next_account_info iter) (\<lambda>(destination_account_info, iter).
     and_then (verify_and_extract_context zk (zk_ciphertext_equality zk) (read_any L) L iter
       proof_instruction_offset None) (\<lambda>(proof_context, iter).
     and_then (next_account_info iter) (\<lambda>(authority_info, account_infos).
     let num_signers = length account_infos - unat num_token_accounts
     in
     and_then (check_program_account (ac_owner (L (ai_key mint_account_info)))) (\<lambda>_.
     and_then (unpack_mut PodMintB (ac_data (L (ai_key mint_account_info)))) (\<lambda>mint.
     and_then (get_extension MintBase TransferFeeConfigX (tlv_data mint)) (\<lambda>transfer_fee_config.
     and_then (ok_or (opt_key (tfc_withdraw_withheld_authority transfer_fee_config)) (token_error NoAuthorityExists))
       (\<lambda>withdraw_withheld_authority.
     and_then (validate_owner program_id L withdraw_withheld_authority authority_info
       (data_len L authority_info) (take num_signers account_infos)) (\<lambda>_.
     and_then (check_program_account (ac_owner (L (ai_key destination_account_info)))) (\<lambda>_.
     and_then (borrow_data (ai_key mint_account_info) L destination_account_info) (\<lambda>destination_account_data.
     and_then (unpack_mut PodAccountB destination_account_data) (\<lambda>destination_account.
     if a_mint (base destination_account) \<noteq> ai_key mint_account_info then TErr MintMismatch
     else if account_is_frozen (base destination_account) then TErr AccountFrozen
     else
     and_then (get_extension AccountBase ConfidentialTransferAccountX (tlv_data destination_account)) (\<lambda>e.
     and_then (valid_as_destination e) (\<lambda>_.
     and_then (get_extension MintBase ConfidentialTransferFeeConfigX (tlv_data mint)) (\<lambda>config.
     if cc_first_pubkey proof_context \<noteq> ctf_withdraw_withheld_authority_elgamal_pubkey config
     then TErr ConfidentialTransferElGamalPubkeyMismatch
     else if cc_second_pubkey proof_context \<noteq> cta_elgamal_pubkey e
     then TErr ConfidentialTransferElGamalPubkeyMismatch
     else
     and_then (ctf_withdraw_loop (zk_curve zk) (ai_key mint_account_info) (ai_key destination_account_info)
       (drop num_signers account_infos) 0 destination_account L)
       (\<lambda>(aggregate_withheld_amount, destination_account, L').
     if cc_first_ciphertext proof_context \<noteq> aggregate_withheld_amount then TErr ConfidentialTransferBalanceMismatch
     else
     and_then (get_extension_mut AccountBase ConfidentialTransferAccountX (tlv_data destination_account)) (\<lambda>(e, _).
     and_then (ok_or (ct_add (zk_curve zk) (cta_available_balance e) (cc_second_ciphertext proof_context))
       InvalidInstructionData) (\<lambda>available_balance.
     Ok (set_data (ai_key destination_account_info) (pack_state PodAccountB (destination_account\<lparr>tlv_data :=
       set_extension AccountBase ConfidentialTransferAccountX
         (e\<lparr>cta_available_balance := available_balance,
            cta_decryptable_available_balance := new_decryptable_available_balance\<rparr>)
         (tlv_data destination_account)\<rparr>)) L')))))))))))))))))))"

section \<open>Switching the harvest on and off\<close>

definition set_harvest_to_mint :: "bool \<Rightarrow> pubkey \<Rightarrow> AccountInfo list \<Rightarrow> ledger \<Rightarrow> ledger result" where
  "set_harvest_to_mint enabled program_id accounts L =
     and_then (next_account_info accounts) (\<lambda>(mint_info, iter).
     and_then (next_account_info iter) (\<lambda>(authority_info, rest).
     and_then (check_program_account (ac_owner (L (ai_key mint_info)))) (\<lambda>_.
     and_then (unpack_mut PodMintB (ac_data (L (ai_key mint_info)))) (\<lambda>mint.
     and_then (get_extension_mut MintBase ConfidentialTransferFeeConfigX (tlv_data mint)) (\<lambda>(config, _).
     and_then (ok_or (opt_key (ctf_authority config)) (token_error NoAuthorityExists)) (\<lambda>authority.
     and_then (validate_owner program_id L authority authority_info (data_len L authority_info) rest) (\<lambda>_.
     Ok (set_data (ai_key mint_info) (pack_state PodMintB (mint\<lparr>tlv_data :=
       set_extension MintBase ConfidentialTransferFeeConfigX
         (config\<lparr>ctf_harvest_to_mint_enabled := pod_bool_from enabled\<rparr>) (tlv_data mint)\<rparr>)) L))))))))"

definition process_enable_harvest_to_mint :: "pubkey \<Rightarrow> AccountInfo list \<Rightarrow> ledger \<Rightarrow> ledger result" where
  "process_enable_harvest_to_mint program_id accounts L = set_harvest_to_mint True program_id accounts L"

definition process_disable_harvest_to_mint :: "pubkey \<Rightarrow> AccountInfo list \<Rightarrow> ledger \<Rightarrow> ledger result" where
  "process_disable_harvest_to_mint program_id accounts L = set_harvest_to_mint False program_id accounts L"

section \<open>Dispatch\<close>

datatype ConfidentialTransferFeeInstruction = CfInitializeConfidentialTransferFeeConfig |
  CfWithdrawWithheldTokensFromMint | CfWithdrawWithheldTokensFromAccounts | CfHarvestWithheldTokensToMint |
  CfEnableHarvestToMint | CfDisableHarvestToMint

definition confidential_fee_variants :: "ConfidentialTransferFeeInstruction list" where
  "confidential_fee_variants = [CfInitializeConfidentialTransferFeeConfig, CfWithdrawWithheldTokensFromMint,
     CfWithdrawWithheldTokensFromAccounts, CfHarvestWithheldTokensToMint, CfEnableHarvestToMint, CfDisableHarvestToMint]"

definition dec_initialize_fee_config :: "bytes \<Rightarrow> pubkey \<times> pubkey" where
  "dec_initialize_fee_config bs = (from_le (subslice 0 32 bs), from_le (subslice 32 32 bs))"

definition dec_withdraw_from_mint :: "bytes \<Rightarrow> int \<times> ae_ciphertext" where
  "dec_withdraw_from_mint bs = (sint (bs ! 0), from_le (subslice 1 36 bs))"

definition dec_withdraw_from_accounts :: "bytes \<Rightarrow> u8 \<times> int \<times> ae_ciphertext" where
  "dec_withdraw_from_accounts bs = (bs ! 0, sint (bs ! 1), from_le (subslice 2 36 bs))"

definition process_confidential_transfer_fee_instruction ::
  "ZkSdk \<Rightarrow> pubkey \<Rightarrow> AccountInfo list \<Rightarrow> bytes \<Rightarrow> ledger \<Rightarrow> ledger result" where
  "process_confidential_transfer_fee_instruction zk program_id accounts input L =
     and_then (check_program_account program_id) (\<lambda>_.
     and_then (decode_instruction_type confidential_fee_variants input) (\<lambda>i. case i of
       CfInitializeConfidentialTransferFeeConfig \<Rightarrow>
         and_then (decode_instruction_data 64 dec_initialize_fee_config input)
         (\<lambda>(authority, key). process_initialize_confidential_transfer_fee_config accounts authority key L)
     | CfWithdrawWithheldTokensFromMint \<Rightarrow> and_then (decode_instruction_data 37 dec_withdraw_from_mint input)
         (\<lambda>(offset, new_balance). ctf_process_withdraw_withheld_tokens_from_mint zk program_id accounts new_balance offset L)
     | CfWithdrawWithheldTokensFromAccounts \<Rightarrow> and_then (decode_instruction_data 38 dec_withdraw_from_accounts input)
         (\<lambda>(num_token_accounts, offset, new_balance).
         ctf_process_withdraw_withheld_tokens_from_accounts zk program_id accounts num_token_accounts new_balance offset L)
     | CfHarvestWithheldTokensToMint \<Rightarrow> ctf_process_harvest_withheld_tokens_to_mint zk accounts L
     | CfEnableHarvestToMint \<Rightarrow> process_enable_harvest_to_mint program_id accounts L
     | CfDisableHarvestToMint \<Rightarrow> process_disable_harvest_to_mint program_id accounts L))"

end
