(* ===== verification/Dispatch.thy ===== *)
theory Dispatch
  imports Fee_Processor Extension_Processors Instruction Token_Metadata Reallocate Ui_Amount
    Confidential_Mint_Burn Confidential_Fee
begin

text \<open>
  The entry of the program: \<open>Processor::process\<close> (src/program/src/processor.rs) decodes the instruction
  data (src/program/src/pod_instruction.rs) and calls one handler.  The result is the ledger together
  with the return data, if the instruction sets any.
\<close>

section \<open>Decoding\<close>

datatype PodTokenInstruction =
    InitializeMint | InitializeAccount | InitializeMultisig | Transfer | Approve | Revoke |
    SetAuthority | MintTo | Burn | CloseAccount | FreezeAccount | ThawAccount | TransferChecked |
    ApproveChecked | MintToChecked | BurnChecked | InitializeAccount2 | SyncNative |
    InitializeAccount3 | InitializeMultisig2 | InitializeMint2 | GetAccountDataSize |
    InitializeImmutableOwner | AmountToUiAmount | UiAmountToAmount | InitializeMintCloseAuthority |
    TransferFeeExtension | ConfidentialTransferExtension | DefaultAccountStateExtension |
    Reallocate | MemoTransferExtension | CreateNativeMint | InitializeNonTransferableMint |
    InterestBearingMintExtension | CpiGuardExtension | InitializePermanentDelegate |
    TransferHookExtension | ConfidentialTransferFeeExtension | WithdrawExcessLamports |
    MetadataPointerExtension | GroupPointerExtension | GroupMemberPointerExtension |
    ConfidentialMintBurnExtension | ScaledUiAmountExtension | PausableExtension

definition pod_variants :: "PodTokenInstruction list" where
  "pod_variants =
    [PodTokenInstruction.InitializeMint, PodTokenInstruction.InitializeAccount,
     PodTokenInstruction.InitializeMultisig, PodTokenInstruction.Transfer,
     PodTokenInstruction.Approve, PodTokenInstruction.Revoke, PodTokenInstruction.SetAuthority,
     PodTokenInstruction.MintTo, PodTokenInstruction.Burn, PodTokenInstruction.CloseAccount,
     PodTokenInstruction.FreezeAccount, PodTokenInstruction.ThawAccount,
     PodTokenInstruction.TransferChecked, PodTokenInstruction.ApproveChecked,
     PodTokenInstruction.MintToChecked, PodTokenInstruction.BurnChecked,
     PodTokenInstruction.InitializeAccount2, PodTokenInstruction.SyncNative,
     PodTokenInstruction.InitializeAccount3, PodTokenInstruction.InitializeMultisig2,
     PodTokenInstruction.InitializeMint2, PodTokenInstruction.GetAccountDataSize,
     PodTokenInstruction.InitializeImmutableOwner, PodTokenInstruction.AmountToUiAmount,
     PodTokenInstruction.UiAmountToAmount, PodTokenInstruction.InitializeMintCloseAuthority,
     PodTokenInstruction.TransferFeeExtension, PodTokenInstruction.ConfidentialTransferExtension,
     PodTokenInstruction.DefaultAccountStateExtension, PodTokenInstruction.Reallocate,
     PodTokenInstruction.MemoTransferExtension, PodTokenInstruction.CreateNativeMint,
     PodTokenInstruction.InitializeNonTransferableMint,
     PodTokenInstruction.InterestBearingMintExtension, PodTokenInstruction.CpiGuardExtension,
     PodTokenInstruction.InitializePermanentDelegate, PodTokenInstruction.TransferHookExtension,
     PodTokenInstruction.ConfidentialTransferFeeExtension,
     PodTokenInstruction.WithdrawExcessLamports, PodTokenInstruction.MetadataPointerExtension,
     PodTokenInstruction.GroupPointerExtension, PodTokenInstruction.GroupMemberPointerExtension,
     PodTokenInstruction.ConfidentialMintBurnExtension,
     PodTokenInstruction.ScaledUiAmountExtension, PodTokenInstruction.PausableExtension]"

text \<open>\<open>InitializeMintData\<close> and \<open>AmountCheckedData\<close>; the other structs have one field.\<close>

definition dec_initialize_mint :: "bytes \<Rightarrow> u8 \<times> pubkey" where
  "dec_initialize_mint bs = (bs ! 0, from_le (drop 1 bs))"

definition dec_amount_checked :: "bytes \<Rightarrow> u64 \<times> u8" where
  "dec_amount_checked bs = (from_le (take 8 bs), bs ! 8)"

definition pod_unpack_pubkey_option :: "bytes \<Rightarrow> pubkey PodCOption result" where
  "pod_unpack_pubkey_option input = (case input of
       [] \<Rightarrow> Err InvalidInstructionData
     | b # rest \<Rightarrow>
         if b = 0 then Ok coption_none
         else if b = 1 then (if length rest < 32 then Err InvalidInstructionData
                             else Ok (coption_some (from_le (take 32 rest))))
         else Err InvalidInstructionData)"

definition decode_instruction_data_with_coption_pubkey ::
  "nat \<Rightarrow> (bytes \<Rightarrow> 'a) \<Rightarrow> bytes \<Rightarrow> ('a \<times> pubkey PodCOption) result" where
  "decode_instruction_data_with_coption_pubkey n dec input_with_type =
     (if length input_with_type < n + 1 then Err InvalidInstructionData
      else and_then (pod_unpack_pubkey_option (drop (n + 1) input_with_type)) (\<lambda>pubkey.
           Ok (dec (subslice 1 n input_with_type), pubkey)))"

section \<open>The transfer fee instructions\<close>

definition process_transfer_fee_instruction ::
  "pubkey \<Rightarrow> Env \<Rightarrow> AccountInfo list \<Rightarrow> bytes \<Rightarrow> ledger \<Rightarrow> ledger result" where
  "process_transfer_fee_instruction program_id env accounts input L =
     and_then (unpack_transfer_fee_instruction input) (\<lambda>instruction.
     and_then (check_program_account program_id) (\<lambda>_.
     case instruction of
       InitializeTransferFeeConfig config_authority withdraw_authority rate maximum_fee \<Rightarrow>
         process_initialize_transfer_fee_config env accounts config_authority withdraw_authority rate maximum_fee L
     | TransferCheckedWithFee amount decimals fee \<Rightarrow>
         process_transfer program_id env accounts amount (CheckedWithFee decimals fee) L
     | WithdrawWithheldTokensFromMint \<Rightarrow> process_withdraw_withheld_tokens_from_mint program_id accounts L
     | WithdrawWithheldTokensFromAccounts n \<Rightarrow> process_withdraw_withheld_tokens_from_accounts program_id accounts n L
     | HarvestWithheldTokensToMint \<Rightarrow> process_harvest_withheld_tokens_to_mint accounts L
     | SetTransferFee rate maximum_fee \<Rightarrow> process_set_transfer_fee program_id env accounts rate maximum_fee L))"

section \<open>The processor\<close>

text \<open>
  What a call depends on besides its arguments: the runtime, the system program, the interfaces of the
  token-metadata and token-group crates with the readers of their instructions, and the ElGamal proof
  program with its proof data.
\<close>

record ('g, 'm, 'md, 'field) Runtime =
  rt_env :: Env
  rt_resize :: resize
  rt_system :: SystemProgram
  rt_ui :: UiConversions
  rt_metadata :: "('md, 'field) TokenMetadataInterface"
  rt_unpack_metadata :: "bytes \<Rightarrow> 'field TokenMetadataInstruction option"
  rt_group :: "('g, 'm) TokenGroupInterface"
  rt_unpack_group :: "bytes \<Rightarrow> TokenGroupInstruction option"
  rt_zk :: ZkSdk

text \<open>A handler that sets no return data.\<close>

definition quiet :: "ledger result \<Rightarrow> (ledger \<times> bytes option) result" where
  "quiet r = and_then r (\<lambda>L. Ok (L, None))"

primrec process_pod_instruction ::
  "('g, 'm, 'md, 'field) Runtime \<Rightarrow> pubkey \<Rightarrow> AccountInfo list \<Rightarrow> bytes \<Rightarrow> ledger \<Rightarrow> PodTokenInstruction \<Rightarrow>
     (ledger \<times> bytes option) result" where
  "process_pod_instruction R program_id accounts input L PodTokenInstruction.InitializeMint =
     and_then (decode_instruction_data_with_coption_pubkey 33 dec_initialize_mint input)
       (\<lambda>((decimals, mint_authority), freeze_authority).
       quiet (process_initialize_mint (rt_env R) accounts decimals mint_authority freeze_authority L))"
| "process_pod_instruction R program_id accounts input L PodTokenInstruction.InitializeAccount =
     quiet (process_initialize_account (rt_env R) accounts L)"
| "process_pod_instruction R program_id accounts input L PodTokenInstruction.InitializeMultisig =
     and_then (decode_instruction_data 1 from_le input) (\<lambda>m.
       quiet (process_initialize_multisig (rt_env R) accounts m L))"
| "process_pod_instruction R program_id accounts input L PodTokenInstruction.Transfer =
     and_then (decode_instruction_data 8 from_le input) (\<lambda>amount.
       quiet (process_transfer program_id (rt_env R) accounts amount TransferInstruction.Unchecked L))"
| "process_pod_instruction R program_id accounts input L PodTokenInstruction.Approve =
     and_then (decode_instruction_data 8 from_le input) (\<lambda>amount.
       quiet (process_approve program_id (rt_env R) accounts amount UncheckedVariant L))"
| "process_pod_instruction R program_id accounts input L PodTokenInstruction.Revoke =
     quiet (process_revoke program_id accounts L)"
| "process_pod_instruction R program_id accounts input L PodTokenInstruction.SetAuthority =
     and_then (decode_instruction_data_with_coption_pubkey 1 from_le input) (\<lambda>(t, new_authority).
     and_then (authority_type_from t) (\<lambda>authority_type.
       quiet (process_set_authority program_id (rt_env R) accounts authority_type new_authority L)))"
| "process_pod_instruction R program_id accounts input L PodTokenInstruction.MintTo =
     and_then (decode_instruction_data 8 from_le input) (\<lambda>amount.
       quiet (process_mint_to program_id accounts amount UncheckedVariant L))"
| "process_pod_instruction R program_id accounts input L PodTokenInstruction.Burn =
     and_then (decode_instruction_data 8 from_le input) (\<lambda>amount.
       quiet (process_burn program_id (rt_env R) accounts amount UncheckedVariant L))"
| "process_pod_instruction R program_id accounts input L PodTokenInstruction.CloseAccount =
     quiet (process_close_account program_id (rt_env R) accounts L)"
| "process_pod_instruction R program_id accounts input L PodTokenInstruction.FreezeAccount =
     quiet (process_toggle_freeze_account program_id accounts True L)"
| "process_pod_instruction R program_id accounts input L PodTokenInstruction.ThawAccount =
     quiet (process_toggle_freeze_account program_id accounts False L)"
| "process_pod_instruction R program_id accounts input L PodTokenInstruction.TransferChecked =
     and_then (decode_instruction_data 9 dec_amount_checked input) (\<lambda>(amount, decimals).
       quiet (process_transfer program_id (rt_env R) accounts amount (TransferInstruction.Checked decimals) L))"
| "process_pod_instruction R program_id accounts input L PodTokenInstruction.ApproveChecked =
     and_then (decode_instruction_data 9 dec_amount_checked input) (\<lambda>(amount, decimals).
       quiet (process_approve program_id (rt_env R) accounts amount (CheckedVariant decimals) L))"
| "process_pod_instruction R program_id accounts input L PodTokenInstruction.MintToChecked =
     and_then (decode_instruction_data 9 dec_amount_checked input) (\<lambda>(amount, decimals).
       quiet (process_mint_to program_id accounts amount (CheckedVariant decimals) L))"
| "process_pod_instruction R program_id accounts input L PodTokenInstruction.BurnChecked =
     and_then (decode_instruction_data 9 dec_amount_checked input) (\<lambda>(amount, decimals).
       quiet (process_burn program_id (rt_env R) accounts amount (CheckedVariant decimals) L))"
| "process_pod_instruction R program_id accounts input L PodTokenInstruction.InitializeAccount2 =
     and_then (decode_instruction_data 32 dec_key input) (\<lambda>key.
       quiet (process_initialize_account2 (rt_env R) accounts key L))"
| "process_pod_instruction R program_id accounts input L PodTokenInstruction.SyncNative =
     quiet (process_sync_native accounts L)"
| "process_pod_instruction R program_id accounts input L PodTokenInstruction.InitializeAccount3 =
     and_then (decode_instruction_data 32 dec_key input) (\<lambda>key.
       quiet (process_initialize_account3 (rt_env R) accounts key L))"
| "process_pod_instruction R program_id accounts input L PodTokenInstruction.InitializeMultisig2 =
     and_then (decode_instruction_data 1 from_le input) (\<lambda>m.
       quiet (process_initialize_multisig2 (rt_env R) accounts m L))"
| "process_pod_instruction R program_id accounts input L PodTokenInstruction.InitializeMint2 =
     and_then (decode_instruction_data_with_coption_pubkey 33 dec_initialize_mint input)
       (\<lambda>((decimals, mint_authority), freeze_authority).
       quiet (process_initialize_mint2 (rt_env R) accounts decimals mint_authority freeze_authority L))"
| "process_pod_instruction R program_id accounts input L PodTokenInstruction.GetAccountDataSize =
     and_then (unpack_extension_types (drop 1 input)) (\<lambda>ts.
     and_then (process_get_account_data_size accounts ts L) (\<lambda>n.
       Ok (L, Some (to_le 8 (word_of_nat n :: u64)))))"
| "process_pod_instruction R program_id accounts input L PodTokenInstruction.InitializeImmutableOwner =
     quiet (process_initialize_immutable_owner accounts L)"
| "process_pod_instruction R program_id accounts input L PodTokenInstruction.AmountToUiAmount =
     and_then (decode_instruction_data 8 from_le input) (\<lambda>amount.
     and_then (process_amount_to_ui_amount (rt_env R) (rt_ui R) accounts amount L) (\<lambda>d. Ok (L, Some d)))"
| "process_pod_instruction R program_id accounts input L PodTokenInstruction.UiAmountToAmount =
     (if \<not> valid_utf8 (drop 1 input) then TErr InvalidInstruction
      else and_then (process_ui_amount_to_amount (rt_env R) (rt_ui R) accounts (drop 1 input) L) (\<lambda>d. Ok (L, Some d)))"
| "process_pod_instruction R program_id accounts input L PodTokenInstruction.InitializeMintCloseAuthority =
     and_then (decode_instruction_data_with_coption_pubkey 0 (\<lambda>_. ()) input) (\<lambda>(_, close_authority).
       quiet (process_initialize_mint_close_authority accounts close_authority L))"
| "process_pod_instruction R program_id accounts input L PodTokenInstruction.TransferFeeExtension =
     quiet (process_transfer_fee_instruction program_id (rt_env R) accounts (drop 1 input) L)"
| "process_pod_instruction R program_id accounts input L PodTokenInstruction.ConfidentialTransferExtension =
     quiet (process_confidential_transfer_instruction (rt_zk R) (rt_env R) (rt_resize R) program_id accounts (drop 1 input) L)"
| "process_pod_instruction R program_id accounts input L PodTokenInstruction.DefaultAccountStateExtension =
     quiet (process_default_account_state_instruction program_id accounts (drop 1 input) L)"
| "process_pod_instruction R program_id accounts input L PodTokenInstruction.Reallocate =
     and_then (unpack_extension_types (drop 1 input)) (\<lambda>ts.
       quiet (process_reallocate (rt_env R) (rt_resize R) program_id accounts ts L))"
| "process_pod_instruction R program_id accounts input L PodTokenInstruction.MemoTransferExtension =
     quiet (process_memo_transfer_instruction program_id accounts (drop 1 input) L)"
| "process_pod_instruction R program_id accounts input L PodTokenInstruction.CreateNativeMint =
     quiet (process_create_native_mint (rt_env R) (rt_system R) accounts L)"
| "process_pod_instruction R program_id accounts input L PodTokenInstruction.InitializeNonTransferableMint =
     quiet (process_initialize_non_transferable_mint accounts L)"
| "process_pod_instruction R program_id accounts input L PodTokenInstruction.InterestBearingMintExtension =
     quiet (process_interest_bearing_instruction program_id (rt_env R) accounts (drop 1 input) L)"
| "process_pod_instruction R program_id accounts input L PodTokenInstruction.CpiGuardExtension =
     quiet (process_cpi_guard_instruction program_id (rt_env R) accounts (drop 1 input) L)"
| "process_pod_instruction R program_id accounts input L PodTokenInstruction.InitializePermanentDelegate =
     and_then (decode_instruction_data 32 dec_key input) (\<lambda>key.
       quiet (process_initialize_permanent_delegate accounts key L))"
| "process_pod_instruction R program_id accounts input L PodTokenInstruction.TransferHookExtension =
     quiet (process_transfer_hook_instruction program_id accounts (drop 1 input) L)"
| "process_pod_instruction R program_id accounts input L PodTokenInstruction.ConfidentialTransferFeeExtension =
     quiet (process_confidential_transfer_fee_instruction (rt_zk R) program_id accounts (drop 1 input) L)"
| "process_pod_instruction R program_id accounts input L PodTokenInstruction.WithdrawExcessLamports =
     quiet (process_withdraw_excess_lamports program_id (rt_env R) accounts L)"
| "process_pod_instruction R program_id accounts input L PodTokenInstruction.MetadataPointerExtension =
     quiet (process_metadata_pointer_instruction program_id accounts (drop 1 input) L)"
| "process_pod_instruction R program_id accounts input L PodTokenInstruction.GroupPointerExtension =
     quiet (process_group_pointer_instruction program_id accounts (drop 1 input) L)"
| "process_pod_instruction R program_id accounts input L PodTokenInstruction.GroupMemberPointerExtension =
     quiet (process_group_member_pointer_instruction program_id accounts (drop 1 input) L)"
| "process_pod_instruction R program_id accounts input L PodTokenInstruction.ConfidentialMintBurnExtension =
     quiet (process_mint_burn_instruction (rt_zk R) (rt_env R) program_id accounts (drop 1 input) L)"
| "process_pod_instruction R program_id accounts input L PodTokenInstruction.ScaledUiAmountExtension =
     quiet (process_scaled_ui_amount_instruction program_id (rt_env R) accounts (drop 1 input) L)"
| "process_pod_instruction R program_id accounts input L PodTokenInstruction.PausableExtension =
     quiet (process_pausable_instruction program_id accounts (drop 1 input) L)"

definition process ::
  "('g, 'm, 'md, 'field) Runtime \<Rightarrow> pubkey \<Rightarrow> AccountInfo list \<Rightarrow> bytes \<Rightarrow> ledger \<Rightarrow>
     (ledger \<times> bytes option) result" where
  "process R program_id accounts input L =
     (case decode_instruction_type pod_variants input of
        Ok t \<Rightarrow> process_pod_instruction R program_id accounts input L t
      | Err _ \<Rightarrow> (case rt_unpack_metadata R input of
          Some instruction \<Rightarrow>
            process_token_metadata_instruction (rt_metadata R) (rt_resize R) program_id accounts instruction L
        | None \<Rightarrow> (case rt_unpack_group R input of
            Some instruction \<Rightarrow>
              quiet (process_token_group_instruction (rt_group R) (rt_resize R) accounts instruction L)
          | None \<Rightarrow> TErr InvalidInstruction)))"

section \<open>What an instruction does\<close>

text \<open>
  The same dispatch on instruction values; \<open>rest\<close> are the bytes after the packed instruction, which the
  extension instructions pass on.
\<close>

definition pod_option :: "pubkey option \<Rightarrow> pubkey PodCOption" where
  "pod_option k = (case k of None \<Rightarrow> coption_none | Some v \<Rightarrow> coption_some v)"

primrec execute ::
  "('g, 'm, 'md, 'field) Runtime \<Rightarrow> pubkey \<Rightarrow> AccountInfo list \<Rightarrow> bytes \<Rightarrow> ledger \<Rightarrow> TokenInstruction \<Rightarrow>
     (ledger \<times> bytes option) result" where
  "execute R program_id accounts rest L (TokenInstruction.InitializeMint decimals mint_authority freeze_authority) =
     quiet (process_initialize_mint (rt_env R) accounts decimals mint_authority (pod_option freeze_authority) L)"
| "execute R program_id accounts rest L TokenInstruction.InitializeAccount =
     quiet (process_initialize_account (rt_env R) accounts L)"
| "execute R program_id accounts rest L (TokenInstruction.InitializeMultisig m) =
     quiet (process_initialize_multisig (rt_env R) accounts m L)"
| "execute R program_id accounts rest L (TokenInstruction.Transfer amount) =
     quiet (process_transfer program_id (rt_env R) accounts amount TransferInstruction.Unchecked L)"
| "execute R program_id accounts rest L (TokenInstruction.Approve amount) =
     quiet (process_approve program_id (rt_env R) accounts amount UncheckedVariant L)"
| "execute R program_id accounts rest L TokenInstruction.Revoke =
     quiet (process_revoke program_id accounts L)"
| "execute R program_id accounts rest L (TokenInstruction.SetAuthority authority_type new_authority) =
     quiet (process_set_authority program_id (rt_env R) accounts authority_type (pod_option new_authority) L)"
| "execute R program_id accounts rest L (TokenInstruction.MintTo amount) =
     quiet (process_mint_to program_id accounts amount UncheckedVariant L)"
| "execute R program_id accounts rest L (TokenInstruction.Burn amount) =
     quiet (process_burn program_id (rt_env R) accounts amount UncheckedVariant L)"
| "execute R program_id accounts rest L TokenInstruction.CloseAccount =
     quiet (process_close_account program_id (rt_env R) accounts L)"
| "execute R program_id accounts rest L TokenInstruction.FreezeAccount =
     quiet (process_toggle_freeze_account program_id accounts True L)"
| "execute R program_id accounts rest L TokenInstruction.ThawAccount =
     quiet (process_toggle_freeze_account program_id accounts False L)"
| "execute R program_id accounts rest L (TokenInstruction.TransferChecked amount decimals) =
     quiet (process_transfer program_id (rt_env R) accounts amount (TransferInstruction.Checked decimals) L)"
| "execute R program_id accounts rest L (TokenInstruction.ApproveChecked amount decimals) =
     quiet (process_approve program_id (rt_env R) accounts amount (CheckedVariant decimals) L)"
| "execute R program_id accounts rest L (TokenInstruction.MintToChecked amount decimals) =
     quiet (process_mint_to program_id accounts amount (CheckedVariant decimals) L)"
| "execute R program_id accounts rest L (TokenInstruction.BurnChecked amount decimals) =
     quiet (process_burn program_id (rt_env R) accounts amount (CheckedVariant decimals) L)"
| "execute R program_id accounts rest L (TokenInstruction.InitializeAccount2 key) =
     quiet (process_initialize_account2 (rt_env R) accounts key L)"
| "execute R program_id accounts rest L TokenInstruction.SyncNative =
     quiet (process_sync_native accounts L)"
| "execute R program_id accounts rest L (TokenInstruction.InitializeAccount3 key) =
     quiet (process_initialize_account3 (rt_env R) accounts key L)"
| "execute R program_id accounts rest L (TokenInstruction.InitializeMultisig2 m) =
     quiet (process_initialize_multisig2 (rt_env R) accounts m L)"
| "execute R program_id accounts rest L (TokenInstruction.InitializeMint2 decimals mint_authority freeze_authority) =
     quiet (process_initialize_mint2 (rt_env R) accounts decimals mint_authority (pod_option freeze_authority) L)"
| "execute R program_id accounts rest L (TokenInstruction.GetAccountDataSize ts) =
     and_then (process_get_account_data_size accounts ts L) (\<lambda>n.
       Ok (L, Some (to_le 8 (word_of_nat n :: u64))))"
| "execute R program_id accounts rest L TokenInstruction.InitializeImmutableOwner =
     quiet (process_initialize_immutable_owner accounts L)"
| "execute R program_id accounts rest L (TokenInstruction.AmountToUiAmount amount) =
     and_then (process_amount_to_ui_amount (rt_env R) (rt_ui R) accounts amount L) (\<lambda>d. Ok (L, Some d))"
| "execute R program_id accounts rest L (TokenInstruction.UiAmountToAmount ui_amount) =
     and_then (process_ui_amount_to_amount (rt_env R) (rt_ui R) accounts ui_amount L) (\<lambda>d. Ok (L, Some d))"
| "execute R program_id accounts rest L (TokenInstruction.InitializeMintCloseAuthority close_authority) =
     quiet (process_initialize_mint_close_authority accounts (pod_option close_authority) L)"
| "execute R program_id accounts rest L TokenInstruction.TransferFeeExtension =
     quiet (process_transfer_fee_instruction program_id (rt_env R) accounts rest L)"
| "execute R program_id accounts rest L TokenInstruction.ConfidentialTransferExtension =
     quiet (process_confidential_transfer_instruction (rt_zk R) (rt_env R) (rt_resize R) program_id accounts rest L)"
| "execute R program_id accounts rest L TokenInstruction.DefaultAccountStateExtension =
     quiet (process_default_account_state_instruction program_id accounts rest L)"
| "execute R program_id accounts rest L (TokenInstruction.Reallocate ts) =
     quiet (process_reallocate (rt_env R) (rt_resize R) program_id accounts ts L)"
| "execute R program_id accounts rest L TokenInstruction.MemoTransferExtension =
     quiet (process_memo_transfer_instruction program_id accounts rest L)"
| "execute R program_id accounts rest L TokenInstruction.CreateNativeMint =
     quiet (process_create_native_mint (rt_env R) (rt_system R) accounts L)"
| "execute R program_id accounts rest L TokenInstruction.InitializeNonTransferableMint =
     quiet (process_initialize_non_transferable_mint accounts L)"
| "execute R program_id accounts rest L TokenInstruction.InterestBearingMintExtension =
     quiet (process_interest_bearing_instruction program_id (rt_env R) accounts rest L)"
| "execute R program_id accounts rest L TokenInstruction.CpiGuardExtension =
     quiet (process_cpi_guard_instruction program_id (rt_env R) accounts rest L)"
| "execute R program_id accounts rest L (TokenInstruction.InitializePermanentDelegate key) =
     quiet (process_initialize_permanent_delegate accounts key L)"
| "execute R program_id accounts rest L TokenInstruction.TransferHookExtension =
     quiet (process_transfer_hook_instruction program_id accounts rest L)"
| "execute R program_id accounts rest L TokenInstruction.ConfidentialTransferFeeExtension =
     quiet (process_confidential_transfer_fee_instruction (rt_zk R) program_id accounts rest L)"
| "execute R program_id accounts rest L TokenInstruction.WithdrawExcessLamports =
     quiet (process_withdraw_excess_lamports program_id (rt_env R) accounts L)"
| "execute R program_id accounts rest L TokenInstruction.MetadataPointerExtension =
     quiet (process_metadata_pointer_instruction program_id accounts rest L)"
| "execute R program_id accounts rest L TokenInstruction.GroupPointerExtension =
     quiet (process_group_pointer_instruction program_id accounts rest L)"
| "execute R program_id accounts rest L TokenInstruction.GroupMemberPointerExtension =
     quiet (process_group_member_pointer_instruction program_id accounts rest L)"
| "execute R program_id accounts rest L TokenInstruction.ConfidentialMintBurnExtension =
     quiet (process_mint_burn_instruction (rt_zk R) (rt_env R) program_id accounts rest L)"
| "execute R program_id accounts rest L TokenInstruction.ScaledUiAmountExtension =
     quiet (process_scaled_ui_amount_instruction program_id (rt_env R) accounts rest L)"
| "execute R program_id accounts rest L TokenInstruction.PausableExtension =
     quiet (process_pausable_instruction program_id accounts rest L)"

text \<open>Instructions whose data must have exactly its length; the others ignore or pass on what follows.\<close>

primrec exact_length :: "TokenInstruction \<Rightarrow> bool" where
  "exact_length (TokenInstruction.InitializeMint a b c) = False"
| "exact_length TokenInstruction.InitializeAccount = False"
| "exact_length (TokenInstruction.InitializeMultisig a) = True"
| "exact_length (TokenInstruction.Transfer a) = True"
| "exact_length (TokenInstruction.Approve a) = True"
| "exact_length TokenInstruction.Revoke = False"
| "exact_length (TokenInstruction.SetAuthority a b) = False"
| "exact_length (TokenInstruction.MintTo a) = True"
| "exact_length (TokenInstruction.Burn a) = True"
| "exact_length TokenInstruction.CloseAccount = False"
| "exact_length TokenInstruction.FreezeAccount = False"
| "exact_length TokenInstruction.ThawAccount = False"
| "exact_length (TokenInstruction.TransferChecked a b) = True"
| "exact_length (TokenInstruction.ApproveChecked a b) = True"
| "exact_length (TokenInstruction.MintToChecked a b) = True"
| "exact_length (TokenInstruction.BurnChecked a b) = True"
| "exact_length (TokenInstruction.InitializeAccount2 a) = True"
| "exact_length TokenInstruction.SyncNative = False"
| "exact_length (TokenInstruction.InitializeAccount3 a) = True"
| "exact_length (TokenInstruction.InitializeMultisig2 a) = True"
| "exact_length (TokenInstruction.InitializeMint2 a b c) = False"
| "exact_length (TokenInstruction.GetAccountDataSize a) = True"
| "exact_length TokenInstruction.InitializeImmutableOwner = False"
| "exact_length (TokenInstruction.AmountToUiAmount a) = True"
| "exact_length (TokenInstruction.UiAmountToAmount a) = True"
| "exact_length (TokenInstruction.InitializeMintCloseAuthority a) = False"
| "exact_length TokenInstruction.TransferFeeExtension = False"
| "exact_length TokenInstruction.ConfidentialTransferExtension = False"
| "exact_length TokenInstruction.DefaultAccountStateExtension = False"
| "exact_length (TokenInstruction.Reallocate a) = True"
| "exact_length TokenInstruction.MemoTransferExtension = False"
| "exact_length TokenInstruction.CreateNativeMint = False"
| "exact_length TokenInstruction.InitializeNonTransferableMint = False"
| "exact_length TokenInstruction.InterestBearingMintExtension = False"
| "exact_length TokenInstruction.CpiGuardExtension = False"
| "exact_length (TokenInstruction.InitializePermanentDelegate a) = True"
| "exact_length TokenInstruction.TransferHookExtension = False"
| "exact_length TokenInstruction.ConfidentialTransferFeeExtension = False"
| "exact_length TokenInstruction.WithdrawExcessLamports = False"
| "exact_length TokenInstruction.MetadataPointerExtension = False"
| "exact_length TokenInstruction.GroupPointerExtension = False"
| "exact_length TokenInstruction.GroupMemberPointerExtension = False"
| "exact_length TokenInstruction.ConfidentialMintBurnExtension = False"
| "exact_length TokenInstruction.ScaledUiAmountExtension = False"
| "exact_length TokenInstruction.PausableExtension = False"

definition carries :: "bytes \<Rightarrow> TokenInstruction \<Rightarrow> bytes \<Rightarrow> bool" where
  "carries input i rest \<longleftrightarrow> unpack_token_instruction input = Ok i \<and> rest = drop (length (pack_token_instruction i)) input \<and>
     (exact_length i \<longrightarrow> rest = [])"

section \<open>Dispatch lemmas\<close>

text \<open>The discriminant of each variant.\<close>

primrec pod_tag :: "PodTokenInstruction \<Rightarrow> u8" where
  "pod_tag PodTokenInstruction.InitializeMint = 0"
| "pod_tag PodTokenInstruction.InitializeAccount = 1"
| "pod_tag PodTokenInstruction.InitializeMultisig = 2"
| "pod_tag PodTokenInstruction.Transfer = 3"
| "pod_tag PodTokenInstruction.Approve = 4"
| "pod_tag PodTokenInstruction.Revoke = 5"
| "pod_tag PodTokenInstruction.SetAuthority = 6"
| "pod_tag PodTokenInstruction.MintTo = 7"
| "pod_tag PodTokenInstruction.Burn = 8"
| "pod_tag PodTokenInstruction.CloseAccount = 9"
| "pod_tag PodTokenInstruction.FreezeAccount = 10"
| "pod_tag PodTokenInstruction.ThawAccount = 11"
| "pod_tag PodTokenInstruction.TransferChecked = 12"
| "pod_tag PodTokenInstruction.ApproveChecked = 13"
| "pod_tag PodTokenInstruction.MintToChecked = 14"
| "pod_tag PodTokenInstruction.BurnChecked = 15"
| "pod_tag PodTokenInstruction.InitializeAccount2 = 16"
| "pod_tag PodTokenInstruction.SyncNative = 17"
| "pod_tag PodTokenInstruction.InitializeAccount3 = 18"
| "pod_tag PodTokenInstruction.InitializeMultisig2 = 19"
| "pod_tag PodTokenInstruction.InitializeMint2 = 20"
| "pod_tag PodTokenInstruction.GetAccountDataSize = 21"
| "pod_tag PodTokenInstruction.InitializeImmutableOwner = 22"
| "pod_tag PodTokenInstruction.AmountToUiAmount = 23"
| "pod_tag PodTokenInstruction.UiAmountToAmount = 24"
| "pod_tag PodTokenInstruction.InitializeMintCloseAuthority = 25"
| "pod_tag PodTokenInstruction.TransferFeeExtension = 26"
| "pod_tag PodTokenInstruction.ConfidentialTransferExtension = 27"
| "pod_tag PodTokenInstruction.DefaultAccountStateExtension = 28"
| "pod_tag PodTokenInstruction.Reallocate = 29"
| "pod_tag PodTokenInstruction.MemoTransferExtension = 30"
| "pod_tag PodTokenInstruction.CreateNativeMint = 31"
| "pod_tag PodTokenInstruction.InitializeNonTransferableMint = 32"
| "pod_tag PodTokenInstruction.InterestBearingMintExtension = 33"
| "pod_tag PodTokenInstruction.CpiGuardExtension = 34"
| "pod_tag PodTokenInstruction.InitializePermanentDelegate = 35"
| "pod_tag PodTokenInstruction.TransferHookExtension = 36"
| "pod_tag PodTokenInstruction.ConfidentialTransferFeeExtension = 37"
| "pod_tag PodTokenInstruction.WithdrawExcessLamports = 38"
| "pod_tag PodTokenInstruction.MetadataPointerExtension = 39"
| "pod_tag PodTokenInstruction.GroupPointerExtension = 40"
| "pod_tag PodTokenInstruction.GroupMemberPointerExtension = 41"
| "pod_tag PodTokenInstruction.ConfidentialMintBurnExtension = 42"
| "pod_tag PodTokenInstruction.ScaledUiAmountExtension = 43"
| "pod_tag PodTokenInstruction.PausableExtension = 44"

lemma pod_variants_all: "t \<in> set pod_variants" "distinct pod_variants" "length pod_variants = 45"
  by (cases t; simp add: pod_variants_def) (simp_all add: pod_variants_def)

lemma pod_variants_tags: "map pod_tag pod_variants = map word_of_nat [0..<45]"
  by (simp add: pod_variants_def upt_rec)

lemma pod_tag_nth: "n < 45 \<Longrightarrow> pod_tag (pod_variants ! n) = word_of_nat n"
  using arg_cong [OF pod_variants_tags, of "\<lambda>xs. xs ! n"] by (simp add: pod_variants_all)

lemma decode_pod_type [res_simps]:
  "decode_instruction_type pod_variants input = Ok t \<longleftrightarrow> (\<exists>rest. input = pod_tag t # rest)"
proof
  assume h: "decode_instruction_type pod_variants input = Ok t"
  then obtain b rest where i: "input = b # rest" by (cases input) auto
  with h have b: "unat b < 45" "pod_variants ! unat b = t" by (simp_all add: pod_variants_all split: if_splits)
  then show "\<exists>rest. input = pod_tag t # rest" using i pod_tag_nth [OF b(1)] by auto
next
  obtain n where n: "n < 45" "t = pod_variants ! n"
    using pod_variants_all(1) [of t] by (metis in_set_conv_nth pod_variants_all(3))
  then have "unat (pod_tag t) = n" by (simp add: pod_tag_nth unat_of_nat)
  then show "\<exists>rest. input = pod_tag t # rest \<Longrightarrow> decode_instruction_type pod_variants input = Ok t"
    using n by (auto simp: pod_variants_all)
qed

lemma unknown_pod_type:
  "\<not> is_ok (decode_instruction_type pod_variants input) \<longleftrightarrow> input = [] \<or> 44 < hd input"
  by (cases input) (auto simp: word_less_nat_alt pod_variants_all)

lemma pod_option_simps [simp]: "pod_option None = coption_none" "pod_option (Some k) = coption_some k"
  by (simp_all add: pod_option_def)

lemma pod_unpack_pubkey_option_pack [simp]:
  "pod_unpack_pubkey_option (pack_pubkey_option k @ rest) = Ok (pod_option k)"
  by (cases k) (simp_all add: pod_unpack_pubkey_option_def pack_pubkey_option_def)

lemma pod_unpack_pubkey_option_Ok:
  "pod_unpack_pubkey_option input = Ok c \<longleftrightarrow> (\<exists>k rest. input = pack_pubkey_option k @ rest \<and> c = pod_option k)"
proof
  assume h: "pod_unpack_pubkey_option input = Ok c"
  then obtain b body where i: "input = b # body" by (cases input) (auto simp: pod_unpack_pubkey_option_def)
  show "\<exists>k rest. input = pack_pubkey_option k @ rest \<and> c = pod_option k"
  proof (cases "b = 0")
    case True
    then show ?thesis using h i
      by (intro exI [of _ None] exI [of _ body]) (simp add: pod_unpack_pubkey_option_def pack_pubkey_option_def)
  next
    case False
    then have b: "b = 1" "32 \<le> length body" "c = coption_some (from_le (take 32 body))"
      using h i by (auto simp: pod_unpack_pubkey_option_def split: if_splits)
    then show ?thesis using i to_le_take [of 32 body, where 'a = 256]
      by (intro exI [of _ "Some (from_le (take 32 body))"] exI [of _ "drop 32 body"])
        (simp add: pack_pubkey_option_def)
  qed
qed auto

lemma decode_coption_pack [simp]:
  "length d = n \<Longrightarrow> decode_instruction_data_with_coption_pubkey n dec (b # d @ pack_pubkey_option k @ rest) =
     Ok (dec d, pod_option k)"
  by (simp add: decode_instruction_data_with_coption_pubkey_def subslice_def)

lemma decode_coption_Ok:
  "decode_instruction_data_with_coption_pubkey n dec (b # input) = Ok (x, c) \<longleftrightarrow>
     (\<exists>d k rest. input = d @ pack_pubkey_option k @ rest \<and> length d = n \<and> x = dec d \<and> c = pod_option k)"
proof
  assume h: "decode_instruction_data_with_coption_pubkey n dec (b # input) = Ok (x, c)"
  then have l: "n \<le> length input" "x = dec (take n input)"
    and "pod_unpack_pubkey_option (drop n input) = Ok c"
    by (auto simp: decode_instruction_data_with_coption_pubkey_def res_simps subslice_def split: if_splits)
  then obtain k rest where k: "drop n input = pack_pubkey_option k @ rest" "c = pod_option k"
    by (auto simp: pod_unpack_pubkey_option_Ok)
  then have "input = take n input @ pack_pubkey_option k @ rest" using append_take_drop_id [of n input] by simp
  then show "\<exists>d k rest. input = d @ pack_pubkey_option k @ rest \<and> length d = n \<and> x = dec d \<and> c = pod_option k"
    using l k by (metis length_take min.absorb2)
qed (auto simp: decode_coption_pack)

lemma dec_fields [simp]:
  "dec_initialize_mint (decimals # to_le 32 k) = (decimals, k)"
  "dec_amount_checked (to_le 8 amount @ [decimals]) = (amount, decimals)"
  by (simp_all add: dec_initialize_mint_def dec_amount_checked_def nth_append)

lemma from_le_byte [simp]: "(from_le [m] :: u8) = m"
  by (simp add: from_le_def)

lemmas decode_coption_simps [simp] =
  decode_coption_pack [of "decimals # to_le 32 key" 33 for decimals and key :: pubkey, simplified]
  decode_coption_pack [of "[t]" 1 for t, simplified]
  decode_coption_pack [of "[]" 0, simplified]

lemma quiet_Ok [res_simps]: "quiet r = Ok x \<longleftrightarrow> (\<exists>L. r = Ok L \<and> x = (L, None))"
  by (auto simp: quiet_def and_then_Ok)

lemma carries_bytes:
  assumes "carries input i rest"
  shows "input = pack_token_instruction i @ rest" "wf_instruction i" "exact_length i \<longrightarrow> rest = []"
  using assms unpack_token_instruction_canonical [of input i] by (auto simp: carries_def elim: prefixE)

lemma process_carries:
  assumes "carries input i rest"
  shows "process R program_id accounts input L = execute R program_id accounts rest L i"
  using carries_bytes [OF assms] by (cases i) (simp_all add: process_def pod_variants_def)

lemma decode_amount_Ok: "decode_instruction_data 8 from_le (b # body) = Ok (amount :: u64) \<longleftrightarrow> body = to_le 8 amount"
  using to_le_from_le [of 8 body, where 'a = 64] by (auto simp: decode_instruction_data_Ok)

lemma decode_amount_checked_Ok:
  "decode_instruction_data 9 dec_amount_checked (b # body) = Ok (amount, decimals) \<longleftrightarrow> body = to_le 8 amount @ [decimals]"
proof
  assume h: "decode_instruction_data 9 dec_amount_checked (b # body) = Ok (amount, decimals)"
  then have l: "length body = 9" "amount = from_le (take 8 body)" "decimals = body ! 8"
    by (auto simp: decode_instruction_data_Ok dec_amount_checked_def)
  then have "body = take 8 body @ [body ! 8]"
    by (metis add.commute less_add_one nat_1_add_1 numeral_plus_numeral semiring_norm take_Suc_conv_app_nth take_all_iff order_refl Suc_eq_plus1 one_plus_numeral)
  then show "body = to_le 8 amount @ [decimals]" using l to_le_from_le [of 8 "take 8 body", where 'a = 64] by simp
qed (simp add: decode_instruction_data_Ok)

lemma decode_key_Ok: "decode_instruction_data 32 dec_key (b # body) = Ok k \<longleftrightarrow> body = to_le 32 k"
  using to_le_from_le [of 32 body, where 'a = 256] by (auto simp: decode_instruction_data_Ok dec_key_def)

lemma decode_m_Ok: "decode_instruction_data (Suc 0) from_le (b # body) = Ok (m :: u8) \<longleftrightarrow> body = [m]"
  by (auto simp: decode_instruction_data_Ok length_Suc_conv)

lemma decode_coption_mint_Ok:
  "decode_instruction_data_with_coption_pubkey 33 dec_initialize_mint (b # body) = Ok ((decimals, key), c) \<longleftrightarrow>
     (\<exists>k rest. body = decimals # to_le 32 key @ pack_pubkey_option k @ rest \<and> c = pod_option k)" (is "?l \<longleftrightarrow> ?r")
proof
  assume ?l
  then obtain d k rest where d: "body = d @ pack_pubkey_option k @ rest" "length d = 33"
    "(decimals, key) = dec_initialize_mint d" "c = pod_option k"
    by (auto simp: decode_coption_Ok)
  then obtain ys where "d = decimals # ys" "length ys = 32" "key = from_le ys"
    by (cases d) (auto simp: dec_initialize_mint_def)
  then show ?r using d to_le_from_le [of 32 ys, where 'a = 256] by auto
qed auto

lemma decode_coption_byte_Ok:
  "decode_instruction_data_with_coption_pubkey (Suc 0) from_le (b # body) = Ok (t :: u8, c) \<longleftrightarrow>
     (\<exists>k rest. body = t # pack_pubkey_option k @ rest \<and> c = pod_option k)" (is "?l \<longleftrightarrow> ?r")
proof
  show "?l \<Longrightarrow> ?r" by (fastforce simp: decode_coption_Ok length_Suc_conv)
qed auto

lemma decode_coption_unit_Ok:
  "decode_instruction_data_with_coption_pubkey 0 (\<lambda>_. ()) (b # body) = Ok (u, c) \<longleftrightarrow>
     (\<exists>k rest. body = pack_pubkey_option k @ rest \<and> c = pod_option k)"
  by (auto simp: decode_coption_Ok)

text \<open>What a decoder accepts, for each kind of data.\<close>

lemmas pod_decode_Ok = decode_amount_Ok decode_amount_checked_Ok decode_key_Ok decode_m_Ok decode_coption_mint_Ok
  decode_coption_byte_Ok decode_coption_unit_Ok unpack_extension_types_Ok

lemma process_pod_carries:
  assumes "process_pod_instruction R program_id accounts (pod_tag t # body) L t = Ok r"
  shows "\<exists>i rest. carries (pod_tag t # body) i rest"
  using assms
  by (cases t) (auto simp: and_then_Ok pod_decode_Ok carries_def unpack_token_instruction_def unpack_field_defs
      simp del: ex_simps split: if_splits)

lemma process_known:
  assumes "decode_instruction_type pod_variants input = Ok t"
  shows "process R program_id accounts input L = Ok r \<longleftrightarrow>
    (\<exists>i rest. carries input i rest \<and> execute R program_id accounts rest L i = Ok r)"
proof
  assume p: "process R program_id accounts input L = Ok r"
  then have "process_pod_instruction R program_id accounts input L t = Ok r" using assms by (simp add: process_def)
  moreover obtain body where "input = pod_tag t # body" using assms by (auto simp: decode_pod_type)
  ultimately obtain i rest where "carries input i rest" using process_pod_carries by metis
  then show "\<exists>i rest. carries input i rest \<and> execute R program_id accounts rest L i = Ok r"
    using p process_carries by metis
next
  assume "\<exists>i rest. carries input i rest \<and> execute R program_id accounts rest L i = Ok r"
  then show "process R program_id accounts input L = Ok r" using process_carries by metis
qed

lemma carries_known:
  assumes "carries input i rest"
  shows "input \<noteq> [] \<and> hd input \<le> 44"
  using carries_bytes(1) [OF assms] by (cases i) simp_all

section \<open>Property\<close>

text \<open>
  C16: the program accepts exactly the packed instructions, where those with data of a fixed or
  self-delimiting form must not be followed by other bytes, and does on each of them what the handler
  of that instruction does; only an input that starts with no known tag is offered to the metadata and
  then to the group interface.
\<close>

theorem process_dispatches:
  "process R program_id accounts input L = Ok r \<longleftrightarrow>
     (\<exists>i rest. carries input i rest \<and> execute R program_id accounts rest L i = Ok r) \<or>
     (input = [] \<or> 44 < hd input) \<and>
       ((\<exists>j. rt_unpack_metadata R input = Some j \<and>
           process_token_metadata_instruction (rt_metadata R) (rt_resize R) program_id accounts j L = Ok r) \<or>
        rt_unpack_metadata R input = None \<and>
          (\<exists>j L'. rt_unpack_group R input = Some j \<and> r = (L', None) \<and>
             process_token_group_instruction (rt_group R) (rt_resize R) accounts j L = Ok L'))"
    (is "_ \<longleftrightarrow> ?known \<or> ?unknown")
proof (cases "decode_instruction_type pod_variants input")
  case (Inr t)
  then have "(input = [] \<or> 44 < hd input) = False" using unknown_pod_type [of input] by simp
  then show ?thesis unfolding process_known [OF Inr] by simp
next
  case (Inl e)
  then have u: "input = [] \<or> 44 < hd input" using unknown_pod_type [of input] by simp
  have "process R program_id accounts input L = Ok r \<longleftrightarrow> ?unknown"
    using Inl u by (auto simp: process_def quiet_Ok split: option.splits)
  moreover have "\<not> carries input i rest" for i rest using carries_known [of input i rest] u by auto
  then have "\<not> ?known" by simp
  ultimately show ?thesis by (simp only: simp_thms)
qed

end
