(* ===== verification/Instruction_Builders.thy ===== *)
theory Instruction_Builders
  imports Dispatch
begin

text \<open>
  The client side: the functions that build the instructions of the program
  (src/interface/src/instruction.rs and the \<open>instruction.rs\<close> files of src/interface/src/extension).  An
  \<open>f64\<close> multiplier is its 64 bits.  The addresses of the rent sysvar and of the system program belong to
  other crates and are parameters.
\<close>

record AccountMeta =
  am_pubkey :: pubkey
  am_is_signer :: bool
  am_is_writable :: bool

record SolInstruction =
  ix_program_id :: pubkey
  ix_accounts :: "AccountMeta list"
  ix_data :: bytes

record BuilderIds =
  sysvar_rent_id :: pubkey
  builder_system_id :: pubkey

definition meta_new :: "pubkey \<Rightarrow> bool \<Rightarrow> AccountMeta" where
  "meta_new k signer = \<lparr>am_pubkey = k, am_is_signer = signer, am_is_writable = True\<rparr>"

definition meta_readonly :: "pubkey \<Rightarrow> bool \<Rightarrow> AccountMeta" where
  "meta_readonly k signer = \<lparr>am_pubkey = k, am_is_signer = signer, am_is_writable = False\<rparr>"

text \<open>The authority signs itself unless the signers of a multisignature account are given.\<close>

definition authority_metas :: "pubkey \<Rightarrow> pubkey list \<Rightarrow> AccountMeta list" where
  "authority_metas authority signers =
     meta_readonly authority (signers = []) # map (\<lambda>signer. meta_readonly signer True) signers"

section \<open>Token instructions\<close>

definition initialize_mint ::
  "pubkey \<Rightarrow> BuilderIds \<Rightarrow> pubkey \<Rightarrow> pubkey \<Rightarrow> pubkey option \<Rightarrow> u8 \<Rightarrow> SolInstruction result" where
  "initialize_mint tp ids mint mint_authority freeze decimals =
     and_then (check_spl_token_program_account tp) (\<lambda>_.
     Ok \<lparr>ix_program_id = tp,
       ix_accounts = [meta_new mint False, meta_readonly (sysvar_rent_id ids) False],
       ix_data = pack_token_instruction (TokenInstruction.InitializeMint decimals mint_authority freeze)\<rparr>)"

definition initialize_mint2 ::
  "pubkey \<Rightarrow> pubkey \<Rightarrow> pubkey \<Rightarrow> pubkey option \<Rightarrow> u8 \<Rightarrow> SolInstruction result" where
  "initialize_mint2 tp mint mint_authority freeze decimals =
     and_then (check_spl_token_program_account tp) (\<lambda>_.
     Ok \<lparr>ix_program_id = tp,
       ix_accounts = [meta_new mint False],
       ix_data = pack_token_instruction (TokenInstruction.InitializeMint2 decimals mint_authority freeze)\<rparr>)"

definition initialize_account ::
  "pubkey \<Rightarrow> BuilderIds \<Rightarrow> pubkey \<Rightarrow> pubkey \<Rightarrow> pubkey \<Rightarrow> SolInstruction result" where
  "initialize_account tp ids account mint own =
     and_then (check_spl_token_program_account tp) (\<lambda>_.
     Ok \<lparr>ix_program_id = tp,
       ix_accounts = [meta_new account False, meta_readonly mint False, meta_readonly own False, meta_readonly (sysvar_rent_id ids) False],
       ix_data = pack_token_instruction TokenInstruction.InitializeAccount\<rparr>)"

definition initialize_account2 ::
  "pubkey \<Rightarrow> BuilderIds \<Rightarrow> pubkey \<Rightarrow> pubkey \<Rightarrow> pubkey \<Rightarrow> SolInstruction result" where
  "initialize_account2 tp ids account mint own =
     and_then (check_spl_token_program_account tp) (\<lambda>_.
     Ok \<lparr>ix_program_id = tp,
       ix_accounts = [meta_new account False, meta_readonly mint False, meta_readonly (sysvar_rent_id ids) False],
       ix_data = pack_token_instruction (TokenInstruction.InitializeAccount2 own)\<rparr>)"

definition initialize_account3 ::
  "pubkey \<Rightarrow> pubkey \<Rightarrow> pubkey \<Rightarrow> pubkey \<Rightarrow> SolInstruction result" where
  "initialize_account3 tp account mint own =
     and_then (check_spl_token_program_account tp) (\<lambda>_.
     Ok \<lparr>ix_program_id = tp,
       ix_accounts = [meta_new account False, meta_readonly mint False],
       ix_data = pack_token_instruction (TokenInstruction.InitializeAccount3 own)\<rparr>)"

definition initialize_multisig ::
  "pubkey \<Rightarrow> BuilderIds \<Rightarrow> pubkey \<Rightarrow> pubkey list \<Rightarrow> u8 \<Rightarrow> SolInstruction result" where
  "initialize_multisig tp ids multisig signers m =
     and_then (check_spl_token_program_account tp) (\<lambda>_.
     if \<not> is_valid_signer_index (unat m) \<or> \<not> is_valid_signer_index (length signers) \<or> length signers < unat m
     then Err MissingRequiredSignature
     else Ok \<lparr>ix_program_id = tp,
       ix_accounts = [meta_new multisig False, meta_readonly (sysvar_rent_id ids) False] @ map (\<lambda>signer. meta_readonly signer False) signers,
       ix_data = pack_token_instruction (TokenInstruction.InitializeMultisig m)\<rparr>)"

definition initialize_multisig2 ::
  "pubkey \<Rightarrow> pubkey \<Rightarrow> pubkey list \<Rightarrow> u8 \<Rightarrow> SolInstruction result" where
  "initialize_multisig2 tp multisig signers m =
     and_then (check_spl_token_program_account tp) (\<lambda>_.
     if \<not> is_valid_signer_index (unat m) \<or> \<not> is_valid_signer_index (length signers) \<or> length signers < unat m
     then Err MissingRequiredSignature
     else Ok \<lparr>ix_program_id = tp,
       ix_accounts = [meta_new multisig False] @ map (\<lambda>signer. meta_readonly signer False) signers,
       ix_data = pack_token_instruction (TokenInstruction.InitializeMultisig2 m)\<rparr>)"

definition transfer ::
  "pubkey \<Rightarrow> pubkey \<Rightarrow> pubkey \<Rightarrow> pubkey \<Rightarrow> pubkey list \<Rightarrow> u64 \<Rightarrow> SolInstruction result" where
  "transfer tp source destination authority signers amount =
     and_then (check_spl_token_program_account tp) (\<lambda>_.
     Ok \<lparr>ix_program_id = tp,
       ix_accounts = [meta_new source False, meta_new destination False] @ authority_metas authority signers,
       ix_data = pack_token_instruction (TokenInstruction.Transfer amount)\<rparr>)"

definition approve ::
  "pubkey \<Rightarrow> pubkey \<Rightarrow> pubkey \<Rightarrow> pubkey \<Rightarrow> pubkey list \<Rightarrow> u64 \<Rightarrow> SolInstruction result" where
  "approve tp source delegate own signers amount =
     and_then (check_spl_token_program_account tp) (\<lambda>_.
     Ok \<lparr>ix_program_id = tp,
       ix_accounts = [meta_new source False, meta_readonly delegate False] @ authority_metas own signers,
       ix_data = pack_token_instruction (TokenInstruction.Approve amount)\<rparr>)"

definition revoke ::
  "pubkey \<Rightarrow> pubkey \<Rightarrow> pubkey \<Rightarrow> pubkey list \<Rightarrow> SolInstruction result" where
  "revoke tp source own signers =
     and_then (check_spl_token_program_account tp) (\<lambda>_.
     Ok \<lparr>ix_program_id = tp,
       ix_accounts = [meta_new source False] @ authority_metas own signers,
       ix_data = pack_token_instruction TokenInstruction.Revoke\<rparr>)"

definition set_authority ::
  "pubkey \<Rightarrow> pubkey \<Rightarrow> pubkey option \<Rightarrow> AuthorityType \<Rightarrow> pubkey \<Rightarrow> pubkey list \<Rightarrow> SolInstruction result" where
  "set_authority tp owned new_authority authority_type own signers =
     and_then (check_spl_token_program_account tp) (\<lambda>_.
     Ok \<lparr>ix_program_id = tp,
       ix_accounts = [meta_new owned False] @ authority_metas own signers,
       ix_data = pack_token_instruction (TokenInstruction.SetAuthority authority_type new_authority)\<rparr>)"

definition mint_to ::
  "pubkey \<Rightarrow> pubkey \<Rightarrow> pubkey \<Rightarrow> pubkey \<Rightarrow> pubkey list \<Rightarrow> u64 \<Rightarrow> SolInstruction result" where
  "mint_to tp mint account mint_authority signers amount =
     and_then (check_spl_token_program_account tp) (\<lambda>_.
     Ok \<lparr>ix_program_id = tp,
       ix_accounts = [meta_new mint False, meta_new account False] @ authority_metas mint_authority signers,
       ix_data = pack_token_instruction (TokenInstruction.MintTo amount)\<rparr>)"

definition burn ::
  "pubkey \<Rightarrow> pubkey \<Rightarrow> pubkey \<Rightarrow> pubkey \<Rightarrow> pubkey list \<Rightarrow> u64 \<Rightarrow> SolInstruction result" where
  "burn tp account mint authority signers amount =
     and_then (check_spl_token_program_account tp) (\<lambda>_.
     Ok \<lparr>ix_program_id = tp,
       ix_accounts = [meta_new account False, meta_new mint False] @ authority_metas authority signers,
       ix_data = pack_token_instruction (TokenInstruction.Burn amount)\<rparr>)"

definition close_account ::
  "pubkey \<Rightarrow> pubkey \<Rightarrow> pubkey \<Rightarrow> pubkey \<Rightarrow> pubkey list \<Rightarrow> SolInstruction result" where
  "close_account tp account destination own signers =
     and_then (check_spl_token_program_account tp) (\<lambda>_.
     Ok \<lparr>ix_program_id = tp,
       ix_accounts = [meta_new account False, meta_new destination False] @ authority_metas own signers,
       ix_data = pack_token_instruction TokenInstruction.CloseAccount\<rparr>)"

definition freeze_account ::
  "pubkey \<Rightarrow> pubkey \<Rightarrow> pubkey \<Rightarrow> pubkey \<Rightarrow> pubkey list \<Rightarrow> SolInstruction result" where
  "freeze_account tp account mint freeze_authority signers =
     and_then (check_spl_token_program_account tp) (\<lambda>_.
     Ok \<lparr>ix_program_id = tp,
       ix_accounts = [meta_new account False, meta_readonly mint False] @ authority_metas freeze_authority signers,
       ix_data = pack_token_instruction TokenInstruction.FreezeAccount\<rparr>)"

definition thaw_account ::
  "pubkey \<Rightarrow> pubkey \<Rightarrow> pubkey \<Rightarrow> pubkey \<Rightarrow> pubkey list \<Rightarrow> SolInstruction result" where
  "thaw_account tp account mint freeze_authority signers =
     and_then (check_spl_token_program_account tp) (\<lambda>_.
     Ok \<lparr>ix_program_id = tp,
       ix_accounts = [meta_new account False, meta_readonly mint False] @ authority_metas freeze_authority signers,
       ix_data = pack_token_instruction TokenInstruction.ThawAccount\<rparr>)"

definition transfer_checked ::
  "pubkey \<Rightarrow> pubkey \<Rightarrow> pubkey \<Rightarrow> pubkey \<Rightarrow> pubkey \<Rightarrow> pubkey list \<Rightarrow> u64 \<Rightarrow> u8 \<Rightarrow> SolInstruction result" where
  "transfer_checked tp source mint destination authority signers amount decimals =
     and_then (check_spl_token_program_account tp) (\<lambda>_.
     Ok \<lparr>ix_program_id = tp,
       ix_accounts = [meta_new source False, meta_readonly mint False, meta_new destination False] @ authority_metas authority signers,
       ix_data = pack_token_instruction (TokenInstruction.TransferChecked amount decimals)\<rparr>)"

definition approve_checked ::
  "pubkey \<Rightarrow> pubkey \<Rightarrow> pubkey \<Rightarrow> pubkey \<Rightarrow> pubkey \<Rightarrow> pubkey list \<Rightarrow> u64 \<Rightarrow> u8 \<Rightarrow> SolInstruction result" where
  "approve_checked tp source mint delegate own signers amount decimals =
     and_then (check_spl_token_program_account tp) (\<lambda>_.
     Ok \<lparr>ix_program_id = tp,
       ix_accounts = [meta_new source False, meta_readonly mint False, meta_readonly delegate False] @ authority_metas own signers,
       ix_data = pack_token_instruction (TokenInstruction.ApproveChecked amount decimals)\<rparr>)"

definition mint_to_checked ::
  "pubkey \<Rightarrow> pubkey \<Rightarrow> pubkey \<Rightarrow> pubkey \<Rightarrow> pubkey list \<Rightarrow> u64 \<Rightarrow> u8 \<Rightarrow> SolInstruction result" where
  "mint_to_checked tp mint account mint_authority signers amount decimals =
     and_then (check_spl_token_program_account tp) (\<lambda>_.
     Ok \<lparr>ix_program_id = tp,
       ix_accounts = [meta_new mint False, meta_new account False] @ authority_metas mint_authority signers,
       ix_data = pack_token_instruction (TokenInstruction.MintToChecked amount decimals)\<rparr>)"

definition burn_checked ::
  "pubkey \<Rightarrow> pubkey \<Rightarrow> pubkey \<Rightarrow> pubkey \<Rightarrow> pubkey list \<Rightarrow> u64 \<Rightarrow> u8 \<Rightarrow> SolInstruction result" where
  "burn_checked tp account mint authority signers amount decimals =
     and_then (check_spl_token_program_account tp) (\<lambda>_.
     Ok \<lparr>ix_program_id = tp,
       ix_accounts = [meta_new account False, meta_new mint False] @ authority_metas authority signers,
       ix_data = pack_token_instruction (TokenInstruction.BurnChecked amount decimals)\<rparr>)"

definition sync_native ::
  "pubkey \<Rightarrow> pubkey \<Rightarrow> SolInstruction result" where
  "sync_native tp account =
     and_then (check_spl_token_program_account tp) (\<lambda>_.
     Ok \<lparr>ix_program_id = tp,
       ix_accounts = [meta_new account False],
       ix_data = pack_token_instruction TokenInstruction.SyncNative\<rparr>)"

definition get_account_data_size ::
  "pubkey \<Rightarrow> pubkey \<Rightarrow> ExtensionType list \<Rightarrow> SolInstruction result" where
  "get_account_data_size tp mint types =
     and_then (check_spl_token_program_account tp) (\<lambda>_.
     Ok \<lparr>ix_program_id = tp,
       ix_accounts = [meta_readonly mint False],
       ix_data = pack_token_instruction (TokenInstruction.GetAccountDataSize types)\<rparr>)"

definition initialize_mint_close_authority ::
  "pubkey \<Rightarrow> pubkey \<Rightarrow> pubkey option \<Rightarrow> SolInstruction result" where
  "initialize_mint_close_authority tp mint close_authority =
     and_then (check_program_account tp) (\<lambda>_.
     Ok \<lparr>ix_program_id = tp,
       ix_accounts = [meta_new mint False],
       ix_data = pack_token_instruction (TokenInstruction.InitializeMintCloseAuthority close_authority)\<rparr>)"

definition initialize_immutable_owner ::
  "pubkey \<Rightarrow> pubkey \<Rightarrow> SolInstruction result" where
  "initialize_immutable_owner tp account =
     and_then (check_spl_token_program_account tp) (\<lambda>_.
     Ok \<lparr>ix_program_id = tp,
       ix_accounts = [meta_new account False],
       ix_data = pack_token_instruction TokenInstruction.InitializeImmutableOwner\<rparr>)"

definition amount_to_ui_amount ::
  "pubkey \<Rightarrow> pubkey \<Rightarrow> u64 \<Rightarrow> SolInstruction result" where
  "amount_to_ui_amount tp mint amount =
     and_then (check_spl_token_program_account tp) (\<lambda>_.
     Ok \<lparr>ix_program_id = tp,
       ix_accounts = [meta_readonly mint False],
       ix_data = pack_token_instruction (TokenInstruction.AmountToUiAmount amount)\<rparr>)"

definition ui_amount_to_amount ::
  "pubkey \<Rightarrow> pubkey \<Rightarrow> bytes \<Rightarrow> SolInstruction result" where
  "ui_amount_to_amount tp mint ui_amount =
     and_then (check_spl_token_program_account tp) (\<lambda>_.
     Ok \<lparr>ix_program_id = tp,
       ix_accounts = [meta_readonly mint False],
       ix_data = pack_token_instruction (TokenInstruction.UiAmountToAmount ui_amount)\<rparr>)"

definition reallocate ::
  "pubkey \<Rightarrow> BuilderIds \<Rightarrow> pubkey \<Rightarrow> pubkey \<Rightarrow> pubkey \<Rightarrow> pubkey list \<Rightarrow> ExtensionType list \<Rightarrow> SolInstruction result" where
  "reallocate tp ids account payer own signers types =
     and_then (check_program_account tp) (\<lambda>_.
     Ok \<lparr>ix_program_id = tp,
       ix_accounts = [meta_new account False, meta_new payer True, meta_readonly (builder_system_id ids) False] @ authority_metas own signers,
       ix_data = pack_token_instruction (TokenInstruction.Reallocate types)\<rparr>)"

definition create_native_mint ::
  "pubkey \<Rightarrow> BuilderIds \<Rightarrow> pubkey \<Rightarrow> SolInstruction result" where
  "create_native_mint tp ids payer =
     and_then (check_program_account tp) (\<lambda>_.
     Ok \<lparr>ix_program_id = tp,
       ix_accounts = [meta_new payer True, meta_new native_mint_id False, meta_readonly (builder_system_id ids) False],
       ix_data = pack_token_instruction TokenInstruction.CreateNativeMint\<rparr>)"

definition initialize_non_transferable_mint ::
  "pubkey \<Rightarrow> pubkey \<Rightarrow> SolInstruction result" where
  "initialize_non_transferable_mint tp mint =
     and_then (check_program_account tp) (\<lambda>_.
     Ok \<lparr>ix_program_id = tp,
       ix_accounts = [meta_new mint False],
       ix_data = pack_token_instruction TokenInstruction.InitializeNonTransferableMint\<rparr>)"

definition initialize_permanent_delegate ::
  "pubkey \<Rightarrow> pubkey \<Rightarrow> pubkey \<Rightarrow> SolInstruction result" where
  "initialize_permanent_delegate tp mint delegate =
     and_then (check_program_account tp) (\<lambda>_.
     Ok \<lparr>ix_program_id = tp,
       ix_accounts = [meta_new mint False],
       ix_data = pack_token_instruction (TokenInstruction.InitializePermanentDelegate delegate)\<rparr>)"

definition withdraw_excess_lamports ::
  "pubkey \<Rightarrow> pubkey \<Rightarrow> pubkey \<Rightarrow> pubkey \<Rightarrow> pubkey list \<Rightarrow> SolInstruction result" where
  "withdraw_excess_lamports tp source destination authority signers =
     and_then (check_program_account tp) (\<lambda>_.
     Ok \<lparr>ix_program_id = tp,
       ix_accounts = [meta_new source False, meta_new destination False] @ authority_metas authority signers,
       ix_data = pack_token_instruction TokenInstruction.WithdrawExcessLamports\<rparr>)"

section \<open>Transfer fee instructions\<close>

definition encode_instruction_data :: "TransferFeeInstruction \<Rightarrow> bytes" where
  "encode_instruction_data transfer_fee_instruction =
     pack_token_instruction TokenInstruction.TransferFeeExtension @ pack_transfer_fee_instruction transfer_fee_instruction"

definition initialize_transfer_fee_config ::
  "pubkey \<Rightarrow> pubkey \<Rightarrow> pubkey option \<Rightarrow> pubkey option \<Rightarrow> u16 \<Rightarrow> u64 \<Rightarrow> SolInstruction result" where
  "initialize_transfer_fee_config tp mint config_authority withdraw_authority rate maximum_fee =
     and_then (check_program_account tp) (\<lambda>_.
     Ok \<lparr>ix_program_id = tp,
       ix_accounts = [meta_new mint False],
       ix_data = encode_instruction_data (InitializeTransferFeeConfig config_authority withdraw_authority rate maximum_fee)\<rparr>)"

definition transfer_checked_with_fee ::
  "pubkey \<Rightarrow> pubkey \<Rightarrow> pubkey \<Rightarrow> pubkey \<Rightarrow> pubkey \<Rightarrow> pubkey list \<Rightarrow> u64 \<Rightarrow> u8 \<Rightarrow> u64 \<Rightarrow> SolInstruction result" where
  "transfer_checked_with_fee tp source mint destination authority signers amount decimals fee =
     and_then (check_program_account tp) (\<lambda>_.
     Ok \<lparr>ix_program_id = tp,
       ix_accounts = [meta_new source False, meta_readonly mint False, meta_new destination False] @ authority_metas authority signers,
       ix_data = encode_instruction_data (TransferCheckedWithFee amount decimals fee)\<rparr>)"

definition withdraw_withheld_tokens_from_mint ::
  "pubkey \<Rightarrow> pubkey \<Rightarrow> pubkey \<Rightarrow> pubkey \<Rightarrow> pubkey list \<Rightarrow> SolInstruction result" where
  "withdraw_withheld_tokens_from_mint tp mint destination authority signers =
     and_then (check_program_account tp) (\<lambda>_.
     Ok \<lparr>ix_program_id = tp,
       ix_accounts = [meta_new mint False, meta_new destination False] @ authority_metas authority signers,
       ix_data = encode_instruction_data WithdrawWithheldTokensFromMint\<rparr>)"

definition harvest_withheld_tokens_to_mint ::
  "pubkey \<Rightarrow> pubkey \<Rightarrow> pubkey list \<Rightarrow> SolInstruction result" where
  "harvest_withheld_tokens_to_mint tp mint sources =
     and_then (check_program_account tp) (\<lambda>_.
     Ok \<lparr>ix_program_id = tp,
       ix_accounts = [meta_new mint False] @ map (\<lambda>source. meta_new source False) sources,
       ix_data = encode_instruction_data HarvestWithheldTokensToMint\<rparr>)"

definition set_transfer_fee_instruction ::
  "pubkey \<Rightarrow> pubkey \<Rightarrow> pubkey \<Rightarrow> pubkey list \<Rightarrow> u16 \<Rightarrow> u64 \<Rightarrow> SolInstruction result" where
  "set_transfer_fee_instruction tp mint authority signers rate maximum_fee =
     and_then (check_program_account tp) (\<lambda>_.
     Ok \<lparr>ix_program_id = tp,
       ix_accounts = [meta_new mint False] @ authority_metas authority signers,
       ix_data = encode_instruction_data (SetTransferFee rate maximum_fee)\<rparr>)"

definition withdraw_withheld_tokens_from_accounts ::
  "pubkey \<Rightarrow> pubkey \<Rightarrow> pubkey \<Rightarrow> pubkey \<Rightarrow> pubkey list \<Rightarrow> pubkey list \<Rightarrow> SolInstruction result" where
  "withdraw_withheld_tokens_from_accounts tp mint destination authority signers sources =
     and_then (check_program_account tp) (\<lambda>_.
     if 256 \<le> length sources then Err InvalidInstructionData
     else Ok \<lparr>ix_program_id = tp,
       ix_accounts = [meta_readonly mint False, meta_new destination False] @ authority_metas authority signers @
         map (\<lambda>source. meta_new source False) sources,
       ix_data = encode_instruction_data (WithdrawWithheldTokensFromAccounts (word_of_nat (length sources)))\<rparr>)"

section \<open>Instructions of the other extensions\<close>

text \<open>\<open>IntoPrimitive\<close> of a field-less enum: the position of the variant.\<close>

definition into_primitive :: "'a list \<Rightarrow> 'a \<Rightarrow> u8" where
  "into_primitive variants v = word_of_nat (length (takeWhile (\<lambda>x. x \<noteq> v) variants))"

definition encode_instruction ::
  "pubkey \<Rightarrow> AccountMeta list \<Rightarrow> TokenInstruction \<Rightarrow> u8 \<Rightarrow> bytes \<Rightarrow> SolInstruction" where
  "encode_instruction tp accounts token_instruction_type instruction_type instruction_data =
     \<lparr>ix_program_id = tp, ix_accounts = accounts,
      ix_data = pack_token_instruction token_instruction_type @ instruction_type # instruction_data\<rparr>"

definition enable_cpi_guard ::
  "pubkey \<Rightarrow> pubkey \<Rightarrow> pubkey \<Rightarrow> pubkey list \<Rightarrow> SolInstruction result" where
  "enable_cpi_guard tp account own signers =
     and_then (check_program_account tp) (\<lambda>_.
     Ok (encode_instruction tp ([meta_new account False] @ authority_metas own signers)
       TokenInstruction.CpiGuardExtension (into_primitive [Enable, Disable] Enable) []))"

definition disable_cpi_guard ::
  "pubkey \<Rightarrow> pubkey \<Rightarrow> pubkey \<Rightarrow> pubkey list \<Rightarrow> SolInstruction result" where
  "disable_cpi_guard tp account own signers =
     and_then (check_program_account tp) (\<lambda>_.
     Ok (encode_instruction tp ([meta_new account False] @ authority_metas own signers)
       TokenInstruction.CpiGuardExtension (into_primitive [Enable, Disable] Disable) []))"

definition enable_required_transfer_memos ::
  "pubkey \<Rightarrow> pubkey \<Rightarrow> pubkey \<Rightarrow> pubkey list \<Rightarrow> SolInstruction result" where
  "enable_required_transfer_memos tp account own signers =
     and_then (check_program_account tp) (\<lambda>_.
     Ok (encode_instruction tp ([meta_new account False] @ authority_metas own signers)
       TokenInstruction.MemoTransferExtension (into_primitive [EnableMemo, DisableMemo] EnableMemo) []))"

definition disable_required_transfer_memos ::
  "pubkey \<Rightarrow> pubkey \<Rightarrow> pubkey \<Rightarrow> pubkey list \<Rightarrow> SolInstruction result" where
  "disable_required_transfer_memos tp account own signers =
     and_then (check_program_account tp) (\<lambda>_.
     Ok (encode_instruction tp ([meta_new account False] @ authority_metas own signers)
       TokenInstruction.MemoTransferExtension (into_primitive [EnableMemo, DisableMemo] DisableMemo) []))"

definition initialize_default_account_state ::
  "pubkey \<Rightarrow> pubkey \<Rightarrow> AccountState \<Rightarrow> SolInstruction result" where
  "initialize_default_account_state tp mint state =
     and_then (check_program_account tp) (\<lambda>_.
     Ok (encode_instruction tp ([meta_new mint False])
       TokenInstruction.DefaultAccountStateExtension (into_primitive [InitializeState, UpdateState] InitializeState) [account_state_code state]))"

definition update_default_account_state ::
  "pubkey \<Rightarrow> pubkey \<Rightarrow> pubkey \<Rightarrow> pubkey list \<Rightarrow> AccountState \<Rightarrow> SolInstruction result" where
  "update_default_account_state tp mint freeze_authority signers state =
     and_then (check_program_account tp) (\<lambda>_.
     Ok (encode_instruction tp ([meta_new mint False] @ authority_metas freeze_authority signers)
       TokenInstruction.DefaultAccountStateExtension (into_primitive [InitializeState, UpdateState] UpdateState) [account_state_code state]))"

definition initialize_pausable ::
  "pubkey \<Rightarrow> pubkey \<Rightarrow> pubkey \<Rightarrow> SolInstruction result" where
  "initialize_pausable tp mint authority =
     and_then (check_program_account tp) (\<lambda>_.
     Ok (encode_instruction tp ([meta_new mint False])
       TokenInstruction.PausableExtension (into_primitive [InitializePausable, PauseMint, Resume] InitializePausable) (to_le 32 authority)))"

definition pause ::
  "pubkey \<Rightarrow> pubkey \<Rightarrow> pubkey \<Rightarrow> pubkey list \<Rightarrow> SolInstruction result" where
  "pause tp mint authority signers =
     and_then (check_program_account tp) (\<lambda>_.
     Ok (encode_instruction tp ([meta_new mint False] @ authority_metas authority signers)
       TokenInstruction.PausableExtension (into_primitive [InitializePausable, PauseMint, Resume] PauseMint) []))"

definition resume ::
  "pubkey \<Rightarrow> pubkey \<Rightarrow> pubkey \<Rightarrow> pubkey list \<Rightarrow> SolInstruction result" where
  "resume tp mint authority signers =
     and_then (check_program_account tp) (\<lambda>_.
     Ok (encode_instruction tp ([meta_new mint False] @ authority_metas authority signers)
       TokenInstruction.PausableExtension (into_primitive [InitializePausable, PauseMint, Resume] Resume) []))"

definition initialize_transfer_hook ::
  "pubkey \<Rightarrow> pubkey \<Rightarrow> pubkey option \<Rightarrow> pubkey option \<Rightarrow> SolInstruction result" where
  "initialize_transfer_hook tp mint auth hook_program_id =
     and_then (check_program_account tp) (\<lambda>_.
     and_then (opt_key_try_from auth) (\<lambda>auth.
     and_then (opt_key_try_from hook_program_id) (\<lambda>hook_program_id.
     Ok (encode_instruction tp ([meta_new mint False])
       TokenInstruction.TransferHookExtension (into_primitive [InitializeHook, UpdateHook] InitializeHook) (to_le 32 auth @ to_le 32 hook_program_id)))))"

definition update_transfer_hook ::
  "pubkey \<Rightarrow> pubkey \<Rightarrow> pubkey \<Rightarrow> pubkey list \<Rightarrow> pubkey option \<Rightarrow> SolInstruction result" where
  "update_transfer_hook tp mint authority signers hook_program_id =
     and_then (check_program_account tp) (\<lambda>_.
     and_then (opt_key_try_from hook_program_id) (\<lambda>hook_program_id.
     Ok (encode_instruction tp ([meta_new mint False] @ authority_metas authority signers)
       TokenInstruction.TransferHookExtension (into_primitive [InitializeHook, UpdateHook] UpdateHook) (to_le 32 hook_program_id))))"

definition initialize_metadata_pointer ::
  "pubkey \<Rightarrow> pubkey \<Rightarrow> pubkey option \<Rightarrow> pubkey option \<Rightarrow> SolInstruction result" where
  "initialize_metadata_pointer tp mint auth metadata_address =
     and_then (check_program_account tp) (\<lambda>_.
     and_then (opt_key_try_from auth) (\<lambda>auth.
     and_then (opt_key_try_from metadata_address) (\<lambda>metadata_address.
     Ok (encode_instruction tp ([meta_new mint False])
       TokenInstruction.MetadataPointerExtension (into_primitive [InitializeMetadataPointer, UpdateMetadataPointer] InitializeMetadataPointer) (to_le 32 auth @ to_le 32 metadata_address)))))"

definition update_metadata_pointer ::
  "pubkey \<Rightarrow> pubkey \<Rightarrow> pubkey \<Rightarrow> pubkey list \<Rightarrow> pubkey option \<Rightarrow> SolInstruction result" where
  "update_metadata_pointer tp mint authority signers metadata_address =
     and_then (check_program_account tp) (\<lambda>_.
     and_then (opt_key_try_from metadata_address) (\<lambda>metadata_address.
     Ok (encode_instruction tp ([meta_new mint False] @ authority_metas authority signers)
       TokenInstruction.MetadataPointerExtension (into_primitive [InitializeMetadataPointer, UpdateMetadataPointer] UpdateMetadataPointer) (to_le 32 metadata_address))))"

definition initialize_group_pointer ::
  "pubkey \<Rightarrow> pubkey \<Rightarrow> pubkey option \<Rightarrow> pubkey option \<Rightarrow> SolInstruction result" where
  "initialize_group_pointer tp mint auth group_address =
     and_then (check_program_account tp) (\<lambda>_.
     and_then (opt_key_try_from auth) (\<lambda>auth.
     and_then (opt_key_try_from group_address) (\<lambda>group_address.
     Ok (encode_instruction tp ([meta_new mint False])
       TokenInstruction.GroupPointerExtension (into_primitive [InitializeGroupPointer, UpdateGroupPointer] InitializeGroupPointer) (to_le 32 auth @ to_le 32 group_address)))))"

definition update_group_pointer ::
  "pubkey \<Rightarrow> pubkey \<Rightarrow> pubkey \<Rightarrow> pubkey list \<Rightarrow> pubkey option \<Rightarrow> SolInstruction result" where
  "update_group_pointer tp mint authority signers group_address =
     and_then (check_program_account tp) (\<lambda>_.
     and_then (opt_key_try_from group_address) (\<lambda>group_address.
     Ok (encode_instruction tp ([meta_new mint False] @ authority_metas authority signers)
       TokenInstruction.GroupPointerExtension (into_primitive [InitializeGroupPointer, UpdateGroupPointer] UpdateGroupPointer) (to_le 32 group_address))))"

definition initialize_group_member_pointer ::
  "pubkey \<Rightarrow> pubkey \<Rightarrow> pubkey option \<Rightarrow> pubkey option \<Rightarrow> SolInstruction result" where
  "initialize_group_member_pointer tp mint auth member_address =
     and_then (check_program_account tp) (\<lambda>_.
     and_then (opt_key_try_from auth) (\<lambda>auth.
     and_then (opt_key_try_from member_address) (\<lambda>member_address.
     Ok (encode_instruction tp ([meta_new mint False])
       TokenInstruction.GroupMemberPointerExtension (into_primitive [InitializeGroupMemberPointer, UpdateGroupMemberPointer] InitializeGroupMemberPointer) (to_le 32 auth @ to_le 32 member_address)))))"

definition update_group_member_pointer ::
  "pubkey \<Rightarrow> pubkey \<Rightarrow> pubkey \<Rightarrow> pubkey list \<Rightarrow> pubkey option \<Rightarrow> SolInstruction result" where
  "update_group_member_pointer tp mint authority signers member_address =
     and_then (check_program_account tp) (\<lambda>_.
     and_then (opt_key_try_from member_address) (\<lambda>member_address.
     Ok (encode_instruction tp ([meta_new mint False] @ authority_metas authority signers)
       TokenInstruction.GroupMemberPointerExtension (into_primitive [InitializeGroupMemberPointer, UpdateGroupMemberPointer] UpdateGroupMemberPointer) (to_le 32 member_address))))"

definition initialize_interest_bearing_mint ::
  "pubkey \<Rightarrow> pubkey \<Rightarrow> pubkey option \<Rightarrow> u16 \<Rightarrow> SolInstruction result" where
  "initialize_interest_bearing_mint tp mint rate_auth rate =
     and_then (check_program_account tp) (\<lambda>_.
     and_then (opt_key_try_from rate_auth) (\<lambda>rate_auth.
     Ok (encode_instruction tp ([meta_new mint False])
       TokenInstruction.InterestBearingMintExtension (into_primitive [InitializeInterest, UpdateRate] InitializeInterest) (to_le 32 rate_auth @ to_le 2 rate))))"

definition update_rate_instruction ::
  "pubkey \<Rightarrow> pubkey \<Rightarrow> pubkey \<Rightarrow> pubkey list \<Rightarrow> u16 \<Rightarrow> SolInstruction result" where
  "update_rate_instruction tp mint rate_authority signers rate =
     and_then (check_program_account tp) (\<lambda>_.
     Ok (encode_instruction tp ([meta_new mint False] @ authority_metas rate_authority signers)
       TokenInstruction.InterestBearingMintExtension (into_primitive [InitializeInterest, UpdateRate] UpdateRate) (to_le 2 rate)))"

definition initialize_scaled_ui_amount ::
  "pubkey \<Rightarrow> pubkey \<Rightarrow> pubkey option \<Rightarrow> u64 \<Rightarrow> SolInstruction result" where
  "initialize_scaled_ui_amount tp mint auth multiplier =
     and_then (check_program_account tp) (\<lambda>_.
     and_then (opt_key_try_from auth) (\<lambda>auth.
     Ok (encode_instruction tp ([meta_new mint False])
       TokenInstruction.ScaledUiAmountExtension (into_primitive [InitializeScale, UpdateMultiplier] InitializeScale) (to_le 32 auth @ to_le 8 multiplier))))"

definition update_multiplier_instruction ::
  "pubkey \<Rightarrow> pubkey \<Rightarrow> pubkey \<Rightarrow> pubkey list \<Rightarrow> u64 \<Rightarrow> u64 \<Rightarrow> SolInstruction result" where
  "update_multiplier_instruction tp mint authority signers multiplier effective_timestamp =
     and_then (check_program_account tp) (\<lambda>_.
     Ok (encode_instruction tp ([meta_new mint False] @ authority_metas authority signers)
       TokenInstruction.ScaledUiAmountExtension (into_primitive [InitializeScale, UpdateMultiplier] UpdateMultiplier) (to_le 8 multiplier @ to_le 8 effective_timestamp)))"

section \<open>The built instructions reach their handlers\<close>

definition performs ::
  "pubkey \<Rightarrow> SolInstruction result \<Rightarrow>
     (('g, 'm, 'md, 'field) Runtime \<Rightarrow> AccountInfo list \<Rightarrow> ledger \<Rightarrow> (ledger \<times> bytes option) result) \<Rightarrow> bool" where
  "performs tp b h \<longleftrightarrow> (\<forall>ix. b = Ok ix \<longrightarrow> ix_program_id ix = tp \<and>
     (\<forall>R accounts L. process R tp accounts (ix_data ix) L = h R accounts L))"

definition key_or_zero :: "pubkey option \<Rightarrow> pubkey" where
  "key_or_zero k = (case k of None \<Rightarrow> 0 | Some v \<Rightarrow> v)"

lemma unpack_pack_transfer_fee_instruction [simp]:
  "unpack_transfer_fee_instruction (pack_transfer_fee_instruction i @ rest) = Ok i"
  "unpack_transfer_fee_instruction (pack_transfer_fee_instruction i) = Ok i"
proof -
  show u: "unpack_transfer_fee_instruction (pack_transfer_fee_instruction i @ rest) = Ok i" for rest
    by (cases i) (simp_all add: unpack_transfer_fee_instruction_def unpack_field_defs)
  show "unpack_transfer_fee_instruction (pack_transfer_fee_instruction i) = Ok i" using u [of "[]"] by simp
qed

lemma carries_packed: "wf_instruction i \<Longrightarrow> carries (pack_token_instruction i) i []"
  by (simp add: carries_def unpack_pack_token_instruction)

lemma carries_extension: "pack_token_instruction i = [b] \<Longrightarrow> \<not> exact_length i \<Longrightarrow> carries (b # rest) i rest"
  by (cases i) (auto simp: carries_def unpack_token_instruction_def pack_pubkey_option_def split: option.splits)

lemma performs_packed:
  assumes "wf_instruction i" "\<And>R accounts L. execute R tp accounts [] L i = h R accounts L"
  shows "performs tp (and_then m (\<lambda>_. Ok \<lparr>ix_program_id = tp, ix_accounts = as, ix_data = pack_token_instruction i\<rparr>)) h"
  by (auto simp: performs_def and_then_Ok process_carries [OF carries_packed [OF assms(1)]] assms(2))

lemma performs_packed_if:
  assumes "wf_instruction i" "\<And>R accounts L. execute R tp accounts [] L i = h R accounts L"
  shows "performs tp (and_then m (\<lambda>_. if c then Err e else Ok \<lparr>ix_program_id = tp, ix_accounts = as,
    ix_data = pack_token_instruction i\<rparr>)) h"
  by (auto simp: performs_def and_then_Ok process_carries [OF carries_packed [OF assms(1)]] assms(2))

text \<open>The nested instructions run once the program id is checked, as the builder did.\<close>

lemma performs_fee_if:
  assumes "\<And>R accounts L. check_program_account tp = Ok () \<Longrightarrow>
    quiet (process_transfer_fee_instruction tp (rt_env R) accounts (pack_transfer_fee_instruction i) L) = h R accounts L"
  shows "performs tp (and_then (check_program_account tp) (\<lambda>_. if c then Err e else Ok \<lparr>ix_program_id = tp, ix_accounts = as,
    ix_data = encode_instruction_data i\<rparr>)) h"
  using assms carries_extension [of TokenInstruction.TransferFeeExtension 26 "pack_transfer_fee_instruction i"]
  by (auto simp: performs_def and_then_Ok process_carries encode_instruction_data_def)

lemmas performs_fee = performs_fee_if [where c = False, simplified]

lemma performs_extension:
  assumes "pack_token_instruction i = [b]" "\<not> exact_length i"
    and "\<And>R accounts L. check_program_account tp = Ok () \<Longrightarrow> execute R tp accounts (code # data) L i = h R accounts L"
  shows "performs tp (and_then (check_program_account tp) (\<lambda>_. Ok (encode_instruction tp as i code data))) h"
  using assms(3) carries_extension [OF assms(1,2), of "code # data"]
  by (auto simp: performs_def and_then_Ok process_carries encode_instruction_def assms(1))

lemma performs_key:
  assumes "\<And>k. k = key_or_zero a \<Longrightarrow> performs tp (and_then m (\<lambda>_. f k)) h"
  shows "performs tp (and_then m (\<lambda>_. and_then (opt_key_try_from a) f)) h"
  using assms by (cases a) (auto simp: performs_def and_then_Ok opt_key_try_from_def key_or_zero_def split: if_splits)

lemma dec_extension_data [simp]:
  "dec_initialize_interest (to_le 32 k @ to_le 2 r) = (k, r)"
  "dec_initialize_scale (to_le 32 k @ to_le 8 x) = (k, x)"
  "dec_update_multiplier (to_le 8 x @ to_le 8 y) = (x, y)"
  by (simp_all add: dec_initialize_interest_def dec_initialize_scale_def dec_update_multiplier_def subslice_simps)

lemmas ext_defs = process_cpi_guard_instruction_def process_memo_transfer_instruction_def
  process_default_account_state_instruction_def decode_default_account_state_def process_pausable_instruction_def
  process_transfer_hook_instruction_def process_metadata_pointer_instruction_def
  process_group_pointer_instruction_def process_group_member_pointer_instruction_def
  process_interest_bearing_instruction_def process_scaled_ui_amount_instruction_def
  into_primitive_def try_from_primitive_def

lemma token_builders_perform:
  "performs tp (initialize_mint tp ids mint mint_authority freeze decimals) (\<lambda>R accounts L. quiet (process_initialize_mint (rt_env R) accounts decimals mint_authority (pod_option freeze) L))"
  "performs tp (initialize_mint2 tp mint mint_authority freeze decimals) (\<lambda>R accounts L. quiet (process_initialize_mint2 (rt_env R) accounts decimals mint_authority (pod_option freeze) L))"
  "performs tp (initialize_account tp ids account mint own) (\<lambda>R accounts L. quiet (process_initialize_account (rt_env R) accounts L))"
  "performs tp (initialize_account2 tp ids account mint own) (\<lambda>R accounts L. quiet (process_initialize_account2 (rt_env R) accounts own L))"
  "performs tp (initialize_account3 tp account mint own) (\<lambda>R accounts L. quiet (process_initialize_account3 (rt_env R) accounts own L))"
  "performs tp (transfer tp source destination authority signers amount) (\<lambda>R accounts L. quiet (process_transfer tp (rt_env R) accounts amount Unchecked L))"
  "performs tp (approve tp source delegate own signers amount) (\<lambda>R accounts L. quiet (process_approve tp (rt_env R) accounts amount UncheckedVariant L))"
  "performs tp (revoke tp source own signers) (\<lambda>R accounts L. quiet (process_revoke tp accounts L))"
  "performs tp (set_authority tp owned new_authority authority_type own signers) (\<lambda>R accounts L. quiet (process_set_authority tp (rt_env R) accounts authority_type (pod_option new_authority) L))"
  "performs tp (mint_to tp mint account mint_authority signers amount) (\<lambda>R accounts L. quiet (process_mint_to tp accounts amount UncheckedVariant L))"
  "performs tp (burn tp account mint authority signers amount) (\<lambda>R accounts L. quiet (process_burn tp (rt_env R) accounts amount UncheckedVariant L))"
  "performs tp (close_account tp account destination own signers) (\<lambda>R accounts L. quiet (process_close_account tp (rt_env R) accounts L))"
  "performs tp (freeze_account tp account mint freeze_authority signers) (\<lambda>R accounts L. quiet (process_toggle_freeze_account tp accounts True L))"
  "performs tp (thaw_account tp account mint freeze_authority signers) (\<lambda>R accounts L. quiet (process_toggle_freeze_account tp accounts False L))"
  "performs tp (transfer_checked tp source mint destination authority signers amount decimals) (\<lambda>R accounts L. quiet (process_transfer tp (rt_env R) accounts amount (Checked decimals) L))"
  "performs tp (approve_checked tp source mint delegate own signers amount decimals) (\<lambda>R accounts L. quiet (process_approve tp (rt_env R) accounts amount (CheckedVariant decimals) L))"
  "performs tp (mint_to_checked tp mint account mint_authority signers amount decimals) (\<lambda>R accounts L. quiet (process_mint_to tp accounts amount (CheckedVariant decimals) L))"
  "performs tp (burn_checked tp account mint authority signers amount decimals) (\<lambda>R accounts L. quiet (process_burn tp (rt_env R) accounts amount (CheckedVariant decimals) L))"
  "performs tp (sync_native tp account) (\<lambda>R accounts L. quiet (process_sync_native accounts L))"
  "performs tp (get_account_data_size tp mint types) (\<lambda>R accounts L. and_then (process_get_account_data_size accounts types L) (\<lambda>n. Ok (L, Some (to_le 8 (word_of_nat n :: u64)))))"
  "performs tp (initialize_mint_close_authority tp mint close_authority) (\<lambda>R accounts L. quiet (process_initialize_mint_close_authority accounts (pod_option close_authority) L))"
  "performs tp (initialize_immutable_owner tp account) (\<lambda>R accounts L. quiet (process_initialize_immutable_owner accounts L))"
  "performs tp (amount_to_ui_amount tp mint amount) (\<lambda>R accounts L. and_then (process_amount_to_ui_amount (rt_env R) (rt_ui R) accounts amount L) (\<lambda>d. Ok (L, Some d)))"
  "performs tp (reallocate tp ids account payer own signers types) (\<lambda>R accounts L. quiet (process_reallocate (rt_env R) (rt_resize R) tp accounts types L))"
  "performs tp (create_native_mint tp ids payer) (\<lambda>R accounts L. quiet (process_create_native_mint (rt_env R) (rt_system R) accounts L))"
  "performs tp (initialize_non_transferable_mint tp mint) (\<lambda>R accounts L. quiet (process_initialize_non_transferable_mint accounts L))"
  "performs tp (initialize_permanent_delegate tp mint delegate) (\<lambda>R accounts L. quiet (process_initialize_permanent_delegate accounts delegate L))"
  "performs tp (withdraw_excess_lamports tp source destination authority signers) (\<lambda>R accounts L. quiet (process_withdraw_excess_lamports tp (rt_env R) accounts L))"
  unfolding initialize_mint_def initialize_mint2_def initialize_account_def initialize_account2_def initialize_account3_def transfer_def approve_def revoke_def set_authority_def mint_to_def burn_def close_account_def freeze_account_def thaw_account_def transfer_checked_def approve_checked_def mint_to_checked_def burn_checked_def sync_native_def get_account_data_size_def initialize_mint_close_authority_def initialize_immutable_owner_def amount_to_ui_amount_def reallocate_def create_native_mint_def initialize_non_transferable_mint_def initialize_permanent_delegate_def withdraw_excess_lamports_def
  by (rule performs_packed; simp)+

lemma multisig_builders_perform:
  "performs tp (initialize_multisig tp ids multisig signers m) (\<lambda>R accounts L. quiet (process_initialize_multisig (rt_env R) accounts m L))"
  "performs tp (initialize_multisig2 tp multisig signers m) (\<lambda>R accounts L. quiet (process_initialize_multisig2 (rt_env R) accounts m L))"
  unfolding initialize_multisig_def initialize_multisig2_def
  by (rule performs_packed_if; simp)+

lemma fee_builders_perform:
  "performs tp (initialize_transfer_fee_config tp mint config_authority withdraw_authority rate maximum_fee) (\<lambda>R accounts L. quiet (process_initialize_transfer_fee_config (rt_env R) accounts config_authority withdraw_authority rate maximum_fee L))"
  "performs tp (transfer_checked_with_fee tp source mint destination authority signers amount decimals fee) (\<lambda>R accounts L. quiet (process_transfer tp (rt_env R) accounts amount (CheckedWithFee decimals fee) L))"
  "performs tp (withdraw_withheld_tokens_from_mint tp mint destination authority signers) (\<lambda>R accounts L. quiet (process_withdraw_withheld_tokens_from_mint tp accounts L))"
  "performs tp (harvest_withheld_tokens_to_mint tp mint sources) (\<lambda>R accounts L. quiet (process_harvest_withheld_tokens_to_mint accounts L))"
  "performs tp (set_transfer_fee_instruction tp mint authority signers rate maximum_fee) (\<lambda>R accounts L. quiet (process_set_transfer_fee tp (rt_env R) accounts rate maximum_fee L))"
  "performs tp (withdraw_withheld_tokens_from_accounts tp mint destination authority signers sources)
    (\<lambda>R accounts L. quiet (process_withdraw_withheld_tokens_from_accounts tp accounts (word_of_nat (length sources)) L))"
  unfolding initialize_transfer_fee_config_def transfer_checked_with_fee_def withdraw_withheld_tokens_from_mint_def harvest_withheld_tokens_to_mint_def set_transfer_fee_instruction_def withdraw_withheld_tokens_from_accounts_def append_Nil2
  by (rule performs_fee performs_fee_if; simp add: process_transfer_fee_instruction_def del: pack_transfer_fee_instruction.simps)+

lemma extension_builders_perform:
  "performs tp (enable_cpi_guard tp account own signers) (\<lambda>R accounts L. quiet (process_toggle_cpi_guard tp (rt_env R) accounts True L))"
  "performs tp (disable_cpi_guard tp account own signers) (\<lambda>R accounts L. quiet (process_toggle_cpi_guard tp (rt_env R) accounts False L))"
  "performs tp (enable_required_transfer_memos tp account own signers) (\<lambda>R accounts L. quiet (process_toggle_required_memo_transfers tp accounts True L))"
  "performs tp (disable_required_transfer_memos tp account own signers) (\<lambda>R accounts L. quiet (process_toggle_required_memo_transfers tp accounts False L))"
  "performs tp (initialize_default_account_state tp mint state) (\<lambda>R accounts L. quiet (process_initialize_default_account_state accounts state L))"
  "performs tp (update_default_account_state tp mint freeze_authority signers state) (\<lambda>R accounts L. quiet (process_update_default_account_state tp accounts state L))"
  "performs tp (initialize_pausable tp mint authority) (\<lambda>R accounts L. quiet (process_initialize_pausable accounts authority L))"
  "performs tp (pause tp mint authority signers) (\<lambda>R accounts L. quiet (process_toggle_pause tp accounts True L))"
  "performs tp (resume tp mint authority signers) (\<lambda>R accounts L. quiet (process_toggle_pause tp accounts False L))"
  "performs tp (initialize_transfer_hook tp mint auth hook_program_id) (\<lambda>R accounts L. quiet (process_initialize_transfer_hook tp accounts (key_or_zero auth) (key_or_zero hook_program_id) L))"
  "performs tp (update_transfer_hook tp mint authority signers hook_program_id) (\<lambda>R accounts L. quiet (process_update_transfer_hook tp accounts (key_or_zero hook_program_id) L))"
  "performs tp (initialize_metadata_pointer tp mint auth metadata_address) (\<lambda>R accounts L. quiet (process_initialize_metadata_pointer accounts (key_or_zero auth) (key_or_zero metadata_address) L))"
  "performs tp (update_metadata_pointer tp mint authority signers metadata_address) (\<lambda>R accounts L. quiet (process_update_metadata_pointer tp accounts (key_or_zero metadata_address) L))"
  "performs tp (initialize_group_pointer tp mint auth group_address) (\<lambda>R accounts L. quiet (process_initialize_group_pointer accounts (key_or_zero auth) (key_or_zero group_address) L))"
  "performs tp (update_group_pointer tp mint authority signers group_address) (\<lambda>R accounts L. quiet (process_update_group_pointer tp accounts (key_or_zero group_address) L))"
  "performs tp (initialize_group_member_pointer tp mint auth member_address) (\<lambda>R accounts L. quiet (process_initialize_group_member_pointer accounts (key_or_zero auth) (key_or_zero member_address) L))"
  "performs tp (update_group_member_pointer tp mint authority signers member_address) (\<lambda>R accounts L. quiet (process_update_group_member_pointer tp accounts (key_or_zero member_address) L))"
  "performs tp (initialize_interest_bearing_mint tp mint rate_auth rate) (\<lambda>R accounts L. quiet (process_initialize_interest_bearing (rt_env R) accounts (key_or_zero rate_auth) rate L))"
  "performs tp (update_rate_instruction tp mint rate_authority signers rate) (\<lambda>R accounts L. quiet (process_update_rate tp (rt_env R) accounts rate L))"
  "performs tp (initialize_scaled_ui_amount tp mint auth multiplier) (\<lambda>R accounts L. quiet (process_initialize_scaled_ui_amount accounts (key_or_zero auth) multiplier L))"
  "performs tp (update_multiplier_instruction tp mint authority signers multiplier effective_timestamp) (\<lambda>R accounts L. quiet (process_update_multiplier tp (rt_env R) accounts multiplier effective_timestamp L))"
  unfolding enable_cpi_guard_def disable_cpi_guard_def enable_required_transfer_memos_def disable_required_transfer_memos_def initialize_default_account_state_def update_default_account_state_def initialize_pausable_def pause_def resume_def initialize_transfer_hook_def update_transfer_hook_def initialize_metadata_pointer_def update_metadata_pointer_def initialize_group_pointer_def update_group_pointer_def initialize_group_member_pointer_def update_group_member_pointer_def initialize_interest_bearing_mint_def update_rate_instruction_def initialize_scaled_ui_amount_def update_multiplier_instruction_def
  by (((rule performs_key)+)?, rule performs_extension, simp, simp, simp add: ext_defs)+

section \<open>Property\<close>

text \<open>
  An instruction built by one of these client functions runs, when the program is called with its data,
  exactly the handler it is named after, with the arguments given to the client function, whatever the
  accounts, the ledger and the runtime are; it is addressed to the program it was built for.
\<close>

theorem builders_reach_handlers:
  "(performs tp (initialize_mint tp ids mint mint_authority freeze decimals) (\<lambda>R accounts L. quiet (process_initialize_mint (rt_env R) accounts decimals mint_authority (pod_option freeze) L))) \<and>
   (performs tp (initialize_mint2 tp mint mint_authority freeze decimals) (\<lambda>R accounts L. quiet (process_initialize_mint2 (rt_env R) accounts decimals mint_authority (pod_option freeze) L))) \<and>
   (performs tp (initialize_account tp ids account mint own) (\<lambda>R accounts L. quiet (process_initialize_account (rt_env R) accounts L))) \<and>
   (performs tp (initialize_account2 tp ids account mint own) (\<lambda>R accounts L. quiet (process_initialize_account2 (rt_env R) accounts own L))) \<and>
   (performs tp (initialize_account3 tp account mint own) (\<lambda>R accounts L. quiet (process_initialize_account3 (rt_env R) accounts own L))) \<and>
   (performs tp (transfer tp source destination authority signers amount) (\<lambda>R accounts L. quiet (process_transfer tp (rt_env R) accounts amount Unchecked L))) \<and>
   (performs tp (approve tp source delegate own signers amount) (\<lambda>R accounts L. quiet (process_approve tp (rt_env R) accounts amount UncheckedVariant L))) \<and>
   (performs tp (revoke tp source own signers) (\<lambda>R accounts L. quiet (process_revoke tp accounts L))) \<and>
   (performs tp (set_authority tp owned new_authority authority_type own signers) (\<lambda>R accounts L. quiet (process_set_authority tp (rt_env R) accounts authority_type (pod_option new_authority) L))) \<and>
   (performs tp (mint_to tp mint account mint_authority signers amount) (\<lambda>R accounts L. quiet (process_mint_to tp accounts amount UncheckedVariant L))) \<and>
   (performs tp (burn tp account mint authority signers amount) (\<lambda>R accounts L. quiet (process_burn tp (rt_env R) accounts amount UncheckedVariant L))) \<and>
   (performs tp (close_account tp account destination own signers) (\<lambda>R accounts L. quiet (process_close_account tp (rt_env R) accounts L))) \<and>
   (performs tp (freeze_account tp account mint freeze_authority signers) (\<lambda>R accounts L. quiet (process_toggle_freeze_account tp accounts True L))) \<and>
   (performs tp (thaw_account tp account mint freeze_authority signers) (\<lambda>R accounts L. quiet (process_toggle_freeze_account tp accounts False L))) \<and>
   (performs tp (transfer_checked tp source mint destination authority signers amount decimals) (\<lambda>R accounts L. quiet (process_transfer tp (rt_env R) accounts amount (Checked decimals) L))) \<and>
   (performs tp (approve_checked tp source mint delegate own signers amount decimals) (\<lambda>R accounts L. quiet (process_approve tp (rt_env R) accounts amount (CheckedVariant decimals) L))) \<and>
   (performs tp (mint_to_checked tp mint account mint_authority signers amount decimals) (\<lambda>R accounts L. quiet (process_mint_to tp accounts amount (CheckedVariant decimals) L))) \<and>
   (performs tp (burn_checked tp account mint authority signers amount decimals) (\<lambda>R accounts L. quiet (process_burn tp (rt_env R) accounts amount (CheckedVariant decimals) L))) \<and>
   (performs tp (sync_native tp account) (\<lambda>R accounts L. quiet (process_sync_native accounts L))) \<and>
   (performs tp (get_account_data_size tp mint types) (\<lambda>R accounts L. and_then (process_get_account_data_size accounts types L) (\<lambda>n. Ok (L, Some (to_le 8 (word_of_nat n :: u64)))))) \<and>
   (performs tp (initialize_mint_close_authority tp mint close_authority) (\<lambda>R accounts L. quiet (process_initialize_mint_close_authority accounts (pod_option close_authority) L))) \<and>
   (performs tp (initialize_immutable_owner tp account) (\<lambda>R accounts L. quiet (process_initialize_immutable_owner accounts L))) \<and>
   (performs tp (amount_to_ui_amount tp mint amount) (\<lambda>R accounts L. and_then (process_amount_to_ui_amount (rt_env R) (rt_ui R) accounts amount L) (\<lambda>d. Ok (L, Some d)))) \<and>
   (performs tp (reallocate tp ids account payer own signers types) (\<lambda>R accounts L. quiet (process_reallocate (rt_env R) (rt_resize R) tp accounts types L))) \<and>
   (performs tp (create_native_mint tp ids payer) (\<lambda>R accounts L. quiet (process_create_native_mint (rt_env R) (rt_system R) accounts L))) \<and>
   (performs tp (initialize_non_transferable_mint tp mint) (\<lambda>R accounts L. quiet (process_initialize_non_transferable_mint accounts L))) \<and>
   (performs tp (initialize_permanent_delegate tp mint delegate) (\<lambda>R accounts L. quiet (process_initialize_permanent_delegate accounts delegate L))) \<and>
   (performs tp (withdraw_excess_lamports tp source destination authority signers) (\<lambda>R accounts L. quiet (process_withdraw_excess_lamports tp (rt_env R) accounts L))) \<and>
   (performs tp (initialize_multisig tp ids multisig signers m) (\<lambda>R accounts L. quiet (process_initialize_multisig (rt_env R) accounts m L))) \<and>
   (performs tp (initialize_multisig2 tp multisig signers m) (\<lambda>R accounts L. quiet (process_initialize_multisig2 (rt_env R) accounts m L))) \<and>
   (performs tp (initialize_transfer_fee_config tp mint config_authority withdraw_authority rate maximum_fee) (\<lambda>R accounts L. quiet (process_initialize_transfer_fee_config (rt_env R) accounts config_authority withdraw_authority rate maximum_fee L))) \<and>
   (performs tp (transfer_checked_with_fee tp source mint destination authority signers amount decimals fee) (\<lambda>R accounts L. quiet (process_transfer tp (rt_env R) accounts amount (CheckedWithFee decimals fee) L))) \<and>
   (performs tp (withdraw_withheld_tokens_from_mint tp mint destination authority signers) (\<lambda>R accounts L. quiet (process_withdraw_withheld_tokens_from_mint tp accounts L))) \<and>
   (performs tp (harvest_withheld_tokens_to_mint tp mint sources) (\<lambda>R accounts L. quiet (process_harvest_withheld_tokens_to_mint accounts L))) \<and>
   (performs tp (set_transfer_fee_instruction tp mint authority signers rate maximum_fee) (\<lambda>R accounts L. quiet (process_set_transfer_fee tp (rt_env R) accounts rate maximum_fee L))) \<and>
   (performs tp (withdraw_withheld_tokens_from_accounts tp mint destination authority signers sources)
    (\<lambda>R accounts L. quiet (process_withdraw_withheld_tokens_from_accounts tp accounts (word_of_nat (length sources)) L))) \<and>
   (performs tp (enable_cpi_guard tp account own signers) (\<lambda>R accounts L. quiet (process_toggle_cpi_guard tp (rt_env R) accounts True L))) \<and>
   (performs tp (disable_cpi_guard tp account own signers) (\<lambda>R accounts L. quiet (process_toggle_cpi_guard tp (rt_env R) accounts False L))) \<and>
   (performs tp (enable_required_transfer_memos tp account own signers) (\<lambda>R accounts L. quiet (process_toggle_required_memo_transfers tp accounts True L))) \<and>
   (performs tp (disable_required_transfer_memos tp account own signers) (\<lambda>R accounts L. quiet (process_toggle_required_memo_transfers tp accounts False L))) \<and>
   (performs tp (initialize_default_account_state tp mint state) (\<lambda>R accounts L. quiet (process_initialize_default_account_state accounts state L))) \<and>
   (performs tp (update_default_account_state tp mint freeze_authority signers state) (\<lambda>R accounts L. quiet (process_update_default_account_state tp accounts state L))) \<and>
   (performs tp (initialize_pausable tp mint authority) (\<lambda>R accounts L. quiet (process_initialize_pausable accounts authority L))) \<and>
   (performs tp (pause tp mint authority signers) (\<lambda>R accounts L. quiet (process_toggle_pause tp accounts True L))) \<and>
   (performs tp (resume tp mint authority signers) (\<lambda>R accounts L. quiet (process_toggle_pause tp accounts False L))) \<and>
   (performs tp (initialize_transfer_hook tp mint auth hook_program_id) (\<lambda>R accounts L. quiet (process_initialize_transfer_hook tp accounts (key_or_zero auth) (key_or_zero hook_program_id) L))) \<and>
   (performs tp (update_transfer_hook tp mint authority signers hook_program_id) (\<lambda>R accounts L. quiet (process_update_transfer_hook tp accounts (key_or_zero hook_program_id) L))) \<and>
   (performs tp (initialize_metadata_pointer tp mint auth metadata_address) (\<lambda>R accounts L. quiet (process_initialize_metadata_pointer accounts (key_or_zero auth) (key_or_zero metadata_address) L))) \<and>
   (performs tp (update_metadata_pointer tp mint authority signers metadata_address) (\<lambda>R accounts L. quiet (process_update_metadata_pointer tp accounts (key_or_zero metadata_address) L))) \<and>
   (performs tp (initialize_group_pointer tp mint auth group_address) (\<lambda>R accounts L. quiet (process_initialize_group_pointer accounts (key_or_zero auth) (key_or_zero group_address) L))) \<and>
   (performs tp (update_group_pointer tp mint authority signers group_address) (\<lambda>R accounts L. quiet (process_update_group_pointer tp accounts (key_or_zero group_address) L))) \<and>
   (performs tp (initialize_group_member_pointer tp mint auth member_address) (\<lambda>R accounts L. quiet (process_initialize_group_member_pointer accounts (key_or_zero auth) (key_or_zero member_address) L))) \<and>
   (performs tp (update_group_member_pointer tp mint authority signers member_address) (\<lambda>R accounts L. quiet (process_update_group_member_pointer tp accounts (key_or_zero member_address) L))) \<and>
   (performs tp (initialize_interest_bearing_mint tp mint rate_auth rate) (\<lambda>R accounts L. quiet (process_initialize_interest_bearing (rt_env R) accounts (key_or_zero rate_auth) rate L))) \<and>
   (performs tp (update_rate_instruction tp mint rate_authority signers rate) (\<lambda>R accounts L. quiet (process_update_rate tp (rt_env R) accounts rate L))) \<and>
   (performs tp (initialize_scaled_ui_amount tp mint auth multiplier) (\<lambda>R accounts L. quiet (process_initialize_scaled_ui_amount accounts (key_or_zero auth) multiplier L))) \<and>
   (performs tp (update_multiplier_instruction tp mint authority signers multiplier effective_timestamp) (\<lambda>R accounts L. quiet (process_update_multiplier tp (rt_env R) accounts multiplier effective_timestamp L)))"
  by (intro conjI token_builders_perform multisig_builders_perform fee_builders_perform extension_builders_perform)

end
