(* ===== verification/Client_Transfer.thy ===== *)
theory Client_Transfer
  imports Instruction_Builders
begin

text \<open>
  From the client to the ledger: a checked transfer built by \<open>transfer_checked\<close>
  (src/interface/src/instruction.rs), passed to the program by the runtime and run by
  \<open>Processor::process\<close>, completes whenever its preconditions hold.
\<close>

text \<open>The accounts the runtime passes to the program for a built instruction.\<close>

definition account_infos :: "AccountMeta list \<Rightarrow> AccountInfo list" where
  "account_infos ms = map (\<lambda>m. \<lparr>ai_key = am_pubkey m, ai_is_signer = am_is_signer m\<rparr>) ms"

text \<open>A wallet account is no account of the token program.\<close>

lemma validate_owner_wallet:
  "ac_owner (L k) \<noteq> program_id \<Longrightarrow>
     validate_owner program_id L k (signed_key k) (data_len L (signed_key k)) rest = Ok ()"
  by (auto simp: validate_owner_Ok owner_signed_def Let_def)

definition plain_pair :: "ledger \<Rightarrow> pubkey \<Rightarrow> pubkey \<Rightarrow> pubkey \<Rightarrow> PodMint \<Rightarrow> PodAccount \<Rightarrow> PodAccount \<Rightarrow> bool" where
  "plain_pair L s m d mt sa da \<longleftrightarrow> s \<noteq> d \<and>
     ac_data (L m) = enc_mint mt \<and> mint_is_initialized mt \<and>
     ac_data (L s) = enc_account sa \<and> ac_data (L d) = enc_account da \<and>
     ac_owner (L s) = token_program_id \<and> ac_owner (L d) = token_program_id \<and>
     account_is_initialized sa \<and> account_is_initialized da \<and>
     \<not> account_is_frozen sa \<and> \<not> account_is_frozen da \<and> \<not> account_is_native sa \<and>
     a_mint sa = m \<and> a_mint da = m \<and> \<not> coption_is_some (a_delegate sa)"

text \<open>
  C21: a built checked transfer between two plain accounts of the mint, of an amount the source holds
  and the destination can take, authorized by the owner of the source with a wallet signature, always
  completes; the source then holds the amount less, the destination the amount more, and nothing else
  in the ledger differs.
\<close>

theorem checked_transfer_completes:
  fixes R :: "('g, 'm, 'md, 'field) Runtime"
  assumes "plain_pair L s m d mt sa da" "ac_owner (L (a_owner sa)) \<noteq> token_program_id"
    and "amount \<le> a_amount sa" "unat (a_amount da) + unat amount < 2 ^ 64"
  shows "\<exists>ix. transfer_checked token_program_id s m d (a_owner sa) [] amount (m_decimals mt) = Ok ix \<and>
    process R token_program_id (account_infos (ix_accounts ix)) (ix_data ix) L =
      Ok (set_data d (enc_account (da\<lparr>a_amount := a_amount da + amount\<rparr>))
           (set_data s (enc_account (sa\<lparr>a_amount := a_amount sa - amount\<rparr>)) L), None)"
proof -
  have ms: "m \<noteq> s"
    using assms(1) mint_pod.length_enc [of mt] account_pod.length_enc [of sa]
    by (auto simp: plain_pair_def base_lens dest: arg_cong [where f = length])
  obtain ix where ix: "transfer_checked token_program_id s m d (a_owner sa) [] amount (m_decimals mt) = Ok ix"
    "ix_accounts ix = [meta_new s False, meta_readonly m False, meta_new d False, meta_readonly (a_owner sa) True]"
    by (simp add: transfer_checked_def check_spl_token_program_account_def authority_metas_def)
  have "performs token_program_id (transfer_checked token_program_id s m d (a_owner sa) [] amount (m_decimals mt))
      (\<lambda>(R :: ('g, 'm, 'md, 'field) Runtime) accounts L. quiet (process_transfer token_program_id (rt_env R) accounts amount (Checked (m_decimals mt)) L))"
    by (rule token_builders_perform)
  then have "process R token_program_id (account_infos (ix_accounts ix)) (ix_data ix) L =
      quiet (process_transfer token_program_id (rt_env R)
        [unsigned_key s, unsigned_key m, unsigned_key d, signed_key (a_owner sa)] amount (Checked (m_decimals mt)) L)"
    using ix(1) by (simp add: performs_def ix(2) account_infos_def meta_new_def meta_readonly_def)
  moreover have "process_transfer token_program_id (rt_env R)
        [unsigned_key s, unsigned_key m, unsigned_key d, signed_key (a_owner sa)] amount (Checked (m_decimals mt)) L =
      Ok (set_data d (enc_account (da\<lparr>a_amount := a_amount da + amount\<rparr>))
           (set_data s (enc_account (sa\<lparr>a_amount := a_amount sa - amount\<rparr>)) L))"
    using assms ms
    by (simp add: try_borrow_data_def plain_pair_def transfer_eval validate_owner_wallet check_program_account_def checked_sub_def checked_add_def
       get_permanent_delegate_def get_program_id_def check_not_paused_def linorder_not_less Let_def)
  ultimately show ?thesis using ix(1) by (simp add: quiet_def)
qed

theorem checked_transfer_completes_witness:
  "\<forall>R :: (unit, unit, unit, unit) Runtime. \<exists>ix. transfer_checked token_program_id 10 1 11 20 [] 40 2 = Ok ix \<and>
    process R token_program_id (account_infos (ix_accounts ix)) (ix_data ix) demo_ledger =
      Ok (set_data 11 (enc_account (plain_account 1 21 90))
           (set_data 10 (enc_account (plain_account 1 20 60)) demo_ledger), None)"
proof
  fix R :: "(unit, unit, unit, unit) Runtime"
  have p: "plain_pair demo_ledger 10 1 11 (plain_mint 30 150) (plain_account 1 20 100) (plain_account 1 21 50)"
    by (simp add: plain_pair_def coption_none_def coption_is_some_def)
  have "ac_owner (demo_ledger 20) \<noteq> token_program_id" by (simp add: token_program_id_def)
  then show "\<exists>ix. transfer_checked token_program_id 10 1 11 20 [] 40 2 = Ok ix \<and>
    process R token_program_id (account_infos (ix_accounts ix)) (ix_data ix) demo_ledger =
      Ok (set_data 11 (enc_account (plain_account 1 21 90))
           (set_data 10 (enc_account (plain_account 1 20 60)) demo_ledger), None)"
    using checked_transfer_completes [OF p, of 40 R] by (simp add: plain_account_amount)
qed

end
