(* ===== verification/Confidential_Builders.thy ===== *)
theory Confidential_Builders
  imports Client_Transfer
begin

text \<open>
  The client side of the confidential extensions: the functions that build their instructions, with the
  zero-knowledge proofs they need (the \<open>instruction.rs\<close> files of
  src/interface/src/extension/confidential_transfer, confidential_transfer_fee and confidential_mint_burn, and
  \<open>process_proof_location\<close> of src/confidential/proof-extraction/src/instruction.rs).

  A proof is either verified by an instruction of the same transaction, at an offset from the built
  instruction, or was verified earlier and left its context in an account.  Offsets are \<open>NonZeroI8\<close>, here the
  byte; proof data is its bytes.  The encoding of proof instructions belongs to the SDK of the proof program
  and is a parameter, with the addresses of the sysvar of the instructions and of the system program.
\<close>

section \<open>Proof locations\<close>

datatype ProofLocation = InstructionOffset u8 bytes | ContextStateAccount pubkey

record ProofClient =
  encode_verify_proof :: "ProofInstruction \<Rightarrow> bytes \<Rightarrow> SolInstruction"
  sysvar_instructions_id :: pubkey
  pc_system_id :: pubkey

definition is_instruction_offset :: "ProofLocation \<Rightarrow> bool" where
  "is_instruction_offset l = (case l of InstructionOffset _ _ \<Rightarrow> True | ContextStateAccount _ \<Rightarrow> False)"

text \<open>The two results of matching on a location: the offset of the instruction data and the account added.\<close>

definition location_offset :: "ProofLocation \<Rightarrow> u8" where
  "location_offset l = (case l of InstructionOffset proof_instruction_offset _ \<Rightarrow> proof_instruction_offset
     | ContextStateAccount _ \<Rightarrow> 0)"

definition context_metas :: "ProofLocation \<Rightarrow> AccountMeta list" where
  "context_metas l = (case l of InstructionOffset _ _ \<Rightarrow> []
     | ContextStateAccount context_state_account \<Rightarrow> [meta_readonly context_state_account False])"

text \<open>An instruction with one proof: its sysvar or context account.\<close>

definition proof_metas :: "ProofClient \<Rightarrow> ProofLocation \<Rightarrow> AccountMeta list" where
  "proof_metas C l = (case l of InstructionOffset _ _ \<Rightarrow> [meta_readonly (sysvar_instructions_id C) False]
     | ContextStateAccount context_state_account \<Rightarrow> [meta_readonly context_state_account False])"

text \<open>An instruction with several: the sysvar once, before the context accounts.\<close>

definition proofs_metas :: "ProofClient \<Rightarrow> ProofLocation list \<Rightarrow> AccountMeta list" where
  "proofs_metas C ls =
     (if \<exists>l\<in>set ls. is_instruction_offset l then [meta_readonly (sysvar_instructions_id C) False] else []) @
     concat (map context_metas ls)"

text \<open>
  The proof instructions are appended in order; each must be the next one after the built instruction.
\<close>

definition append_proof ::
  "ProofClient \<Rightarrow> ProofInstruction \<Rightarrow> ProofLocation \<Rightarrow> SolInstruction list \<times> u8 \<Rightarrow> (SolInstruction list \<times> u8) result" where
  "append_proof C kind l = (\<lambda>(instructions, expected_instruction_offset). case l of
     InstructionOffset proof_instruction_offset proof_data \<Rightarrow>
       if proof_instruction_offset \<noteq> expected_instruction_offset then TErr InvalidProofInstructionOffset
       else Ok (instructions @ [encode_verify_proof C kind proof_data], expected_instruction_offset + 1)
   | ContextStateAccount _ \<Rightarrow> Ok (instructions, expected_instruction_offset))"

fun append_proofs ::
  "ProofClient \<Rightarrow> (ProofInstruction \<times> ProofLocation) list \<Rightarrow> SolInstruction list \<times> u8 \<Rightarrow> SolInstruction list result" where
  "append_proofs C [] s = Ok (fst s)"
| "append_proofs C ((kind, l) # rest) s = and_then (append_proof C kind l s) (append_proofs C rest)"

definition with_proofs ::
  "ProofClient \<Rightarrow> SolInstruction result \<Rightarrow> (ProofInstruction \<times> ProofLocation) list \<Rightarrow> SolInstruction list result" where
  "with_proofs C inner proofs = and_then inner (\<lambda>instruction. append_proofs C proofs ([instruction], 1))"

text \<open>\<open>process_proof_location\<close>: the accounts, the next expected offset and the proof instructions are updated.\<close>

definition process_proof_location ::
  "ProofClient \<Rightarrow> AccountMeta list \<Rightarrow> u8 \<Rightarrow> SolInstruction list \<Rightarrow> ProofLocation \<Rightarrow> bool \<Rightarrow> ProofInstruction \<Rightarrow>
     (u8 \<times> AccountMeta list \<times> u8 \<times> SolInstruction list) result" where
  "process_proof_location C accounts expected_instruction_offset proof_instructions proof_location
       push_sysvar_to_accounts proof_instruction_type =
     (case proof_location of
       InstructionOffset proof_instruction_offset proof_data \<Rightarrow>
         if proof_instruction_offset \<noteq> expected_instruction_offset then Err InvalidInstructionData
         else let accounts = (if push_sysvar_to_accounts
                              then accounts @ [meta_readonly (sysvar_instructions_id C) False] else accounts);
                  proof_instructions = proof_instructions @ [encode_verify_proof C proof_instruction_type proof_data]
              in if expected_instruction_offset = 127 then Err InvalidInstructionData
                 else Ok (proof_instruction_offset, accounts, expected_instruction_offset + 1, proof_instructions)
     | ContextStateAccount context_state_account \<Rightarrow>
         Ok (0, accounts @ [meta_readonly context_state_account False], expected_instruction_offset, proof_instructions))"

section \<open>Confidential transfers\<close>

definition ct_encode ::
  "pubkey \<Rightarrow> AccountMeta list \<Rightarrow> ConfidentialTransferInstruction \<Rightarrow> bytes \<Rightarrow> SolInstruction" where
  "ct_encode tp accounts instruction data =
     encode_instruction tp accounts TokenInstruction.ConfidentialTransferExtension
       (into_primitive confidential_transfer_variants instruction) data"

definition ct_initialize_mint ::
  "pubkey \<Rightarrow> pubkey \<Rightarrow> pubkey option \<Rightarrow> bool \<Rightarrow> pubkey option \<Rightarrow> SolInstruction result" where
  "ct_initialize_mint tp mint auth auto_approve_new_accounts auditor =
     and_then (check_program_account tp) (\<lambda>_.
     and_then (opt_key_try_from auth) (\<lambda>auth.
     and_then (opt_key_try_from auditor) (\<lambda>auditor.
     Ok (ct_encode tp [meta_new mint False] CtInitializeMint
       (to_le 32 auth @ pod_bool_from auto_approve_new_accounts # to_le 32 auditor)))))"

definition ct_update_mint ::
  "pubkey \<Rightarrow> pubkey \<Rightarrow> pubkey \<Rightarrow> pubkey list \<Rightarrow> bool \<Rightarrow> pubkey option \<Rightarrow> SolInstruction result" where
  "ct_update_mint tp mint authority signers auto_approve_new_accounts auditor =
     and_then (check_program_account tp) (\<lambda>_.
     and_then (opt_key_try_from auditor) (\<lambda>auditor.
     Ok (ct_encode tp ([meta_new mint False] @ authority_metas authority signers) CtUpdateMint
       (pod_bool_from auto_approve_new_accounts # to_le 32 auditor))))"

definition inner_configure_account ::
  "ProofClient \<Rightarrow> pubkey \<Rightarrow> pubkey \<Rightarrow> pubkey \<Rightarrow> ae_ciphertext \<Rightarrow> u64 \<Rightarrow> pubkey \<Rightarrow> pubkey list \<Rightarrow> ProofLocation \<Rightarrow>
     SolInstruction result" where
  "inner_configure_account C tp account mint decryptable_zero_balance maximum authority signers l =
     and_then (check_program_account tp) (\<lambda>_.
     Ok (ct_encode tp ([meta_new account False, meta_readonly mint False] @ proof_metas C l @
         authority_metas authority signers) CtConfigureAccount
       (to_le 36 decryptable_zero_balance @ to_le 8 maximum @ [location_offset l])))"

definition configure_account ::
  "ProofClient \<Rightarrow> pubkey \<Rightarrow> pubkey \<Rightarrow> pubkey \<Rightarrow> ae_ciphertext \<Rightarrow> u64 \<Rightarrow> pubkey \<Rightarrow> pubkey list \<Rightarrow> ProofLocation \<Rightarrow>
     SolInstruction list result" where
  "configure_account C tp account mint decryptable_zero_balance maximum authority signers l =
     with_proofs C (inner_configure_account C tp account mint decryptable_zero_balance maximum authority signers l)
       [(VerifyPubkeyValidity, l)]"

definition approve_account ::
  "pubkey \<Rightarrow> pubkey \<Rightarrow> pubkey \<Rightarrow> pubkey \<Rightarrow> pubkey list \<Rightarrow> SolInstruction result" where
  "approve_account tp account_to_approve mint authority signers =
     and_then (check_program_account tp) (\<lambda>_.
     Ok (ct_encode tp ([meta_new account_to_approve False, meta_readonly mint False] @ authority_metas authority signers)
       CtApproveAccount []))"

definition inner_empty_account ::
  "ProofClient \<Rightarrow> pubkey \<Rightarrow> pubkey \<Rightarrow> pubkey \<Rightarrow> pubkey list \<Rightarrow> ProofLocation \<Rightarrow> SolInstruction result" where
  "inner_empty_account C tp account authority signers l =
     and_then (check_program_account tp) (\<lambda>_.
     Ok (ct_encode tp ([meta_new account False] @ proof_metas C l @ authority_metas authority signers)
       CtEmptyAccount [location_offset l]))"

definition build_empty_account ::
  "ProofClient \<Rightarrow> pubkey \<Rightarrow> pubkey \<Rightarrow> pubkey \<Rightarrow> pubkey list \<Rightarrow> ProofLocation \<Rightarrow> SolInstruction list result" where
  "build_empty_account C tp account authority signers l =
     with_proofs C (inner_empty_account C tp account authority signers l) [(VerifyZeroCiphertext, l)]"

definition deposit ::
  "pubkey \<Rightarrow> pubkey \<Rightarrow> pubkey \<Rightarrow> u64 \<Rightarrow> u8 \<Rightarrow> pubkey \<Rightarrow> pubkey list \<Rightarrow> SolInstruction result" where
  "deposit tp account mint amount decimals authority signers =
     and_then (check_program_account tp) (\<lambda>_.
     Ok (ct_encode tp ([meta_new account False, meta_readonly mint False] @ authority_metas authority signers)
       CtDeposit (to_le 8 amount @ [decimals])))"

definition inner_withdraw ::
  "ProofClient \<Rightarrow> pubkey \<Rightarrow> pubkey \<Rightarrow> pubkey \<Rightarrow> u64 \<Rightarrow> u8 \<Rightarrow> ae_ciphertext \<Rightarrow> pubkey \<Rightarrow> pubkey list \<Rightarrow>
     ProofLocation \<Rightarrow> ProofLocation \<Rightarrow> SolInstruction result" where
  "inner_withdraw C tp account mint amount decimals new_balance authority signers equality_proof range_proof =
     and_then (check_program_account tp) (\<lambda>_.
     Ok (ct_encode tp ([meta_new account False, meta_readonly mint False] @ proofs_metas C [equality_proof, range_proof] @
         authority_metas authority signers) CtWithdraw
       (to_le 8 amount @ decimals # to_le 36 new_balance @ [location_offset equality_proof, location_offset range_proof])))"

definition withdraw ::
  "ProofClient \<Rightarrow> pubkey \<Rightarrow> pubkey \<Rightarrow> pubkey \<Rightarrow> u64 \<Rightarrow> u8 \<Rightarrow> ae_ciphertext \<Rightarrow> pubkey \<Rightarrow> pubkey list \<Rightarrow>
     ProofLocation \<Rightarrow> ProofLocation \<Rightarrow> SolInstruction list result" where
  "withdraw C tp account mint amount decimals new_balance authority signers equality_proof range_proof =
     with_proofs C (inner_withdraw C tp account mint amount decimals new_balance authority signers equality_proof range_proof)
       [(VerifyCiphertextCommitmentEquality, equality_proof), (VerifyBatchedRangeProofU64, range_proof)]"

definition inner_transfer ::
  "ProofClient \<Rightarrow> pubkey \<Rightarrow> pubkey \<Rightarrow> pubkey \<Rightarrow> pubkey \<Rightarrow> ae_ciphertext \<Rightarrow> ciphertext \<Rightarrow> ciphertext \<Rightarrow> pubkey \<Rightarrow>
     pubkey list \<Rightarrow> ProofLocation \<Rightarrow> ProofLocation \<Rightarrow> ProofLocation \<Rightarrow> SolInstruction result" where
  "inner_transfer C tp source mint destination new_balance auditor_lo auditor_hi authority signers
       equality_proof validity_proof range_proof =
     and_then (check_program_account tp) (\<lambda>_.
     Ok (ct_encode tp ([meta_new source False, meta_readonly mint False, meta_new destination False] @
         proofs_metas C [equality_proof, validity_proof, range_proof] @ authority_metas authority signers) CtTransfer
       (to_le 36 new_balance @ to_le 64 auditor_lo @ to_le 64 auditor_hi @
        [location_offset equality_proof, location_offset validity_proof, location_offset range_proof])))"

definition ct_transfer ::
  "ProofClient \<Rightarrow> pubkey \<Rightarrow> pubkey \<Rightarrow> pubkey \<Rightarrow> pubkey \<Rightarrow> ae_ciphertext \<Rightarrow> ciphertext \<Rightarrow> ciphertext \<Rightarrow> pubkey \<Rightarrow>
     pubkey list \<Rightarrow> ProofLocation \<Rightarrow> ProofLocation \<Rightarrow> ProofLocation \<Rightarrow> SolInstruction list result" where
  "ct_transfer C tp source mint destination new_balance auditor_lo auditor_hi authority signers
       equality_proof validity_proof range_proof =
     with_proofs C (inner_transfer C tp source mint destination new_balance auditor_lo auditor_hi authority signers
         equality_proof validity_proof range_proof)
       [(VerifyCiphertextCommitmentEquality, equality_proof),
        (VerifyBatchedGroupedCiphertext3HandlesValidity, validity_proof), (VerifyBatchedRangeProofU128, range_proof)]"

definition inner_apply_pending_balance ::
  "pubkey \<Rightarrow> pubkey \<Rightarrow> u64 \<Rightarrow> ae_ciphertext \<Rightarrow> pubkey \<Rightarrow> pubkey list \<Rightarrow> SolInstruction result" where
  "inner_apply_pending_balance tp account expected_counter new_balance authority signers =
     and_then (check_program_account tp) (\<lambda>_.
     Ok (ct_encode tp ([meta_new account False] @ authority_metas authority signers) CtApplyPendingBalance
       (to_le 8 expected_counter @ to_le 36 new_balance)))"

definition build_apply_pending_balance ::
  "pubkey \<Rightarrow> pubkey \<Rightarrow> u64 \<Rightarrow> ae_ciphertext \<Rightarrow> pubkey \<Rightarrow> pubkey list \<Rightarrow> SolInstruction result" where
  "build_apply_pending_balance tp account pending_balance_instructions new_balance authority signers =
     inner_apply_pending_balance tp account pending_balance_instructions new_balance authority signers"

definition enable_or_disable_balance_credits ::
  "ConfidentialTransferInstruction \<Rightarrow> pubkey \<Rightarrow> pubkey \<Rightarrow> pubkey \<Rightarrow> pubkey list \<Rightarrow> SolInstruction result" where
  "enable_or_disable_balance_credits instruction tp account authority signers =
     and_then (check_program_account tp) (\<lambda>_.
     Ok (ct_encode tp ([meta_new account False] @ authority_metas authority signers) instruction []))"

definition enable_confidential_credits :: "pubkey \<Rightarrow> pubkey \<Rightarrow> pubkey \<Rightarrow> pubkey list \<Rightarrow> SolInstruction result" where
  "enable_confidential_credits = enable_or_disable_balance_credits CtEnableConfidentialCredits"

definition disable_confidential_credits :: "pubkey \<Rightarrow> pubkey \<Rightarrow> pubkey \<Rightarrow> pubkey list \<Rightarrow> SolInstruction result" where
  "disable_confidential_credits = enable_or_disable_balance_credits CtDisableConfidentialCredits"

definition enable_non_confidential_credits :: "pubkey \<Rightarrow> pubkey \<Rightarrow> pubkey \<Rightarrow> pubkey list \<Rightarrow> SolInstruction result" where
  "enable_non_confidential_credits = enable_or_disable_balance_credits CtEnableNonConfidentialCredits"

definition disable_non_confidential_credits :: "pubkey \<Rightarrow> pubkey \<Rightarrow> pubkey \<Rightarrow> pubkey list \<Rightarrow> SolInstruction result" where
  "disable_non_confidential_credits = enable_or_disable_balance_credits CtDisableNonConfidentialCredits"

definition inner_transfer_with_fee ::
  "ProofClient \<Rightarrow> pubkey \<Rightarrow> pubkey \<Rightarrow> pubkey \<Rightarrow> pubkey \<Rightarrow> ae_ciphertext \<Rightarrow> ciphertext \<Rightarrow> ciphertext \<Rightarrow> pubkey \<Rightarrow>
     pubkey list \<Rightarrow> ProofLocation \<Rightarrow> ProofLocation \<Rightarrow> ProofLocation \<Rightarrow> ProofLocation \<Rightarrow> ProofLocation \<Rightarrow>
     SolInstruction result" where
  "inner_transfer_with_fee C tp source mint destination new_balance auditor_lo auditor_hi authority signers
       equality_proof validity_proof fee_sigma fee_validity range_proof =
     and_then (check_program_account tp) (\<lambda>_.
     Ok (ct_encode tp ([meta_new source False, meta_readonly mint False, meta_new destination False] @
         proofs_metas C [equality_proof, validity_proof, fee_sigma, fee_validity, range_proof] @ authority_metas authority signers)
       CtTransferWithFee
       (to_le 36 new_balance @ to_le 64 auditor_lo @ to_le 64 auditor_hi @
        [location_offset equality_proof, location_offset validity_proof, location_offset fee_sigma,
         location_offset fee_validity, location_offset range_proof])))"

definition transfer_with_fee ::
  "ProofClient \<Rightarrow> pubkey \<Rightarrow> pubkey \<Rightarrow> pubkey \<Rightarrow> pubkey \<Rightarrow> ae_ciphertext \<Rightarrow> ciphertext \<Rightarrow> ciphertext \<Rightarrow> pubkey \<Rightarrow>
     pubkey list \<Rightarrow> ProofLocation \<Rightarrow> ProofLocation \<Rightarrow> ProofLocation \<Rightarrow> ProofLocation \<Rightarrow> ProofLocation \<Rightarrow>
     SolInstruction list result" where
  "transfer_with_fee C tp source mint destination new_balance auditor_lo auditor_hi authority signers
       equality_proof validity_proof fee_sigma fee_validity range_proof =
     with_proofs C (inner_transfer_with_fee C tp source mint destination new_balance auditor_lo auditor_hi
         authority signers equality_proof validity_proof fee_sigma fee_validity range_proof)
       [(VerifyCiphertextCommitmentEquality, equality_proof),
        (VerifyBatchedGroupedCiphertext3HandlesValidity, validity_proof), (VerifyPercentageWithCap, fee_sigma),
        (VerifyBatchedGroupedCiphertext2HandlesValidity, fee_validity), (VerifyBatchedRangeProofU256, range_proof)]"

definition configure_account_with_registry ::
  "ProofClient \<Rightarrow> pubkey \<Rightarrow> pubkey \<Rightarrow> pubkey \<Rightarrow> pubkey \<Rightarrow> pubkey option \<Rightarrow> SolInstruction result" where
  "configure_account_with_registry C tp account mint elgamal_registry_account payer =
     and_then (check_program_account tp) (\<lambda>_.
     Ok (ct_encode tp ([meta_new account False, meta_readonly mint False,
           meta_readonly elgamal_registry_account False] @
         (case payer of Some payer \<Rightarrow> [meta_new payer True, meta_readonly (pc_system_id C) False] | None \<Rightarrow> []))
       CtConfigureAccountWithRegistry []))"

section \<open>Confidential transfer fees\<close>

definition cf_encode ::
  "pubkey \<Rightarrow> AccountMeta list \<Rightarrow> ConfidentialTransferFeeInstruction \<Rightarrow> bytes \<Rightarrow> SolInstruction" where
  "cf_encode tp accounts instruction data =
     encode_instruction tp accounts TokenInstruction.ConfidentialTransferFeeExtension
       (into_primitive confidential_fee_variants instruction) data"

definition initialize_confidential_transfer_fee_config ::
  "pubkey \<Rightarrow> pubkey \<Rightarrow> pubkey option \<Rightarrow> pubkey \<Rightarrow> SolInstruction result" where
  "initialize_confidential_transfer_fee_config tp mint auth withdraw_withheld_authority_elgamal_pubkey =
     and_then (check_program_account tp) (\<lambda>_.
     and_then (opt_key_try_from auth) (\<lambda>auth.
     Ok (cf_encode tp [meta_new mint False] CfInitializeConfidentialTransferFeeConfig
       (to_le 32 auth @ to_le 32 withdraw_withheld_authority_elgamal_pubkey))))"

definition inner_cf_withdraw_from_mint ::
  "ProofClient \<Rightarrow> pubkey \<Rightarrow> pubkey \<Rightarrow> pubkey \<Rightarrow> ae_ciphertext \<Rightarrow> pubkey \<Rightarrow> pubkey list \<Rightarrow> ProofLocation \<Rightarrow>
     SolInstruction result" where
  "inner_cf_withdraw_from_mint C tp mint destination new_balance authority signers l =
     and_then (check_program_account tp) (\<lambda>_.
     Ok (cf_encode tp ([meta_new mint False, meta_new destination False] @ proof_metas C l @
         authority_metas authority signers) CfWithdrawWithheldTokensFromMint
       (location_offset l # to_le 36 new_balance)))"

definition cf_withdraw_from_mint ::
  "ProofClient \<Rightarrow> pubkey \<Rightarrow> pubkey \<Rightarrow> pubkey \<Rightarrow> ae_ciphertext \<Rightarrow> pubkey \<Rightarrow> pubkey list \<Rightarrow> ProofLocation \<Rightarrow>
     SolInstruction list result" where
  "cf_withdraw_from_mint C tp mint destination new_balance authority signers l =
     with_proofs C (inner_cf_withdraw_from_mint C tp mint destination new_balance authority signers l)
       [(VerifyCiphertextCiphertextEquality, l)]"

definition inner_cf_withdraw_from_accounts ::
  "ProofClient \<Rightarrow> pubkey \<Rightarrow> pubkey \<Rightarrow> pubkey \<Rightarrow> ae_ciphertext \<Rightarrow> pubkey \<Rightarrow> pubkey list \<Rightarrow> pubkey list \<Rightarrow>
     ProofLocation \<Rightarrow> SolInstruction result" where
  "inner_cf_withdraw_from_accounts C tp mint destination new_balance authority signers sources l =
     and_then (check_program_account tp) (\<lambda>_.
     if 256 \<le> length sources then Err InvalidInstructionData
     else Ok (cf_encode tp ([meta_new mint False, meta_new destination False] @ proof_metas C l @
         authority_metas authority signers @ map (\<lambda>source. meta_new source False) sources)
       CfWithdrawWithheldTokensFromAccounts
       (word_of_nat (length sources) # location_offset l # to_le 36 new_balance)))"

definition cf_withdraw_from_accounts ::
  "ProofClient \<Rightarrow> pubkey \<Rightarrow> pubkey \<Rightarrow> pubkey \<Rightarrow> ae_ciphertext \<Rightarrow> pubkey \<Rightarrow> pubkey list \<Rightarrow> pubkey list \<Rightarrow>
     ProofLocation \<Rightarrow> SolInstruction list result" where
  "cf_withdraw_from_accounts C tp mint destination new_balance authority signers sources l =
     with_proofs C (inner_cf_withdraw_from_accounts C tp mint destination new_balance authority signers sources l)
       [(VerifyCiphertextCiphertextEquality, l)]"

definition cf_harvest_to_mint :: "pubkey \<Rightarrow> pubkey \<Rightarrow> pubkey list \<Rightarrow> SolInstruction result" where
  "cf_harvest_to_mint tp mint sources =
     and_then (check_program_account tp) (\<lambda>_.
     Ok (cf_encode tp (meta_new mint False # map (\<lambda>source. meta_new source False) sources)
       CfHarvestWithheldTokensToMint []))"

definition enable_harvest_to_mint :: "pubkey \<Rightarrow> pubkey \<Rightarrow> pubkey \<Rightarrow> pubkey list \<Rightarrow> SolInstruction result" where
  "enable_harvest_to_mint tp mint authority signers =
     and_then (check_program_account tp) (\<lambda>_.
     Ok (cf_encode tp ([meta_new mint False] @ authority_metas authority signers) CfEnableHarvestToMint []))"

definition disable_harvest_to_mint :: "pubkey \<Rightarrow> pubkey \<Rightarrow> pubkey \<Rightarrow> pubkey list \<Rightarrow> SolInstruction result" where
  "disable_harvest_to_mint tp mint authority signers =
     and_then (check_program_account tp) (\<lambda>_.
     Ok (cf_encode tp ([meta_new mint False] @ authority_metas authority signers) CfDisableHarvestToMint []))"

section \<open>Confidential mints and burns\<close>

definition mb_encode ::
  "pubkey \<Rightarrow> AccountMeta list \<Rightarrow> ConfidentialMintBurnInstruction \<Rightarrow> bytes \<Rightarrow> SolInstruction" where
  "mb_encode tp accounts instruction data =
     encode_instruction tp accounts TokenInstruction.ConfidentialMintBurnExtension
       (into_primitive mint_burn_variants instruction) data"

definition mb_initialize_mint :: "pubkey \<Rightarrow> pubkey \<Rightarrow> pubkey \<Rightarrow> ae_ciphertext \<Rightarrow> SolInstruction result" where
  "mb_initialize_mint tp mint supply_elgamal_pubkey decryptable_supply =
     and_then (check_program_account tp) (\<lambda>_.
     Ok (mb_encode tp [meta_new mint False] MbInitializeMint (to_le 32 supply_elgamal_pubkey @ to_le 36 decryptable_supply)))"

definition rotate_supply_elgamal_pubkey ::
  "ProofClient \<Rightarrow> pubkey \<Rightarrow> pubkey \<Rightarrow> pubkey \<Rightarrow> pubkey list \<Rightarrow> pubkey \<Rightarrow> ProofLocation \<Rightarrow> SolInstruction list result" where
  "rotate_supply_elgamal_pubkey C tp mint authority signers new_supply_elgamal_pubkey l =
     and_then (check_program_account tp) (\<lambda>_.
     and_then (process_proof_location C [meta_new mint False] 1 [] l True VerifyCiphertextCiphertextEquality)
       (\<lambda>(proof_instruction_offset, accounts, _, proof_instructions).
     Ok (mb_encode tp (accounts @ authority_metas authority signers) MbRotateSupplyElGamalPubkey
           (to_le 32 new_supply_elgamal_pubkey @ [proof_instruction_offset]) # proof_instructions)))"

definition update_decryptable_supply ::
  "pubkey \<Rightarrow> pubkey \<Rightarrow> pubkey \<Rightarrow> pubkey list \<Rightarrow> ae_ciphertext \<Rightarrow> SolInstruction result" where
  "update_decryptable_supply tp mint authority signers new_decryptable_supply =
     and_then (check_program_account tp) (\<lambda>_.
     Ok (mb_encode tp ([meta_new mint False] @ authority_metas authority signers) MbUpdateDecryptableSupply
       (to_le 36 new_decryptable_supply)))"

text \<open>The three proofs of a mint or a burn; only the first location adds the sysvar.\<close>

definition split_proofs ::
  "ProofClient \<Rightarrow> AccountMeta list \<Rightarrow> ProofLocation \<Rightarrow> ProofLocation \<Rightarrow> ProofLocation \<Rightarrow>
     (u8 \<times> u8 \<times> u8 \<times> AccountMeta list \<times> SolInstruction list) result" where
  "split_proofs C accounts equality_proof validity_proof range_proof =
     and_then (process_proof_location C accounts 1 [] equality_proof True VerifyCiphertextCommitmentEquality)
       (\<lambda>(equality_offset, accounts, expected, proof_instructions).
     and_then (process_proof_location C accounts expected proof_instructions validity_proof False
         VerifyBatchedGroupedCiphertext3HandlesValidity)
       (\<lambda>(validity_offset, accounts, expected, proof_instructions).
     and_then (process_proof_location C accounts expected proof_instructions range_proof False VerifyBatchedRangeProofU128)
       (\<lambda>(range_offset, accounts, expected, proof_instructions).
     Ok (equality_offset, validity_offset, range_offset, accounts, proof_instructions))))"

definition confidential_mint_with_split_proofs ::
  "ProofClient \<Rightarrow> pubkey \<Rightarrow> pubkey \<Rightarrow> pubkey \<Rightarrow> ciphertext \<Rightarrow> ciphertext \<Rightarrow> pubkey \<Rightarrow> pubkey list \<Rightarrow>
     ProofLocation \<Rightarrow> ProofLocation \<Rightarrow> ProofLocation \<Rightarrow> ae_ciphertext \<Rightarrow> SolInstruction list result" where
  "confidential_mint_with_split_proofs C tp account mint auditor_lo auditor_hi authority signers
       equality_proof validity_proof range_proof new_decryptable_supply =
     and_then (check_program_account tp) (\<lambda>_.
     and_then (split_proofs C [meta_new account False, meta_new mint False] equality_proof validity_proof range_proof)
       (\<lambda>(equality_offset, validity_offset, range_offset, accounts, proof_instructions).
     Ok (mb_encode tp (accounts @ authority_metas authority signers) MbMint
           (to_le 36 new_decryptable_supply @ to_le 64 auditor_lo @ to_le 64 auditor_hi @
            [equality_offset, validity_offset, range_offset]) # proof_instructions)))"

definition confidential_burn_with_split_proofs ::
  "ProofClient \<Rightarrow> pubkey \<Rightarrow> pubkey \<Rightarrow> pubkey \<Rightarrow> ae_ciphertext \<Rightarrow> ciphertext \<Rightarrow> ciphertext \<Rightarrow> pubkey \<Rightarrow> pubkey list \<Rightarrow>
     ProofLocation \<Rightarrow> ProofLocation \<Rightarrow> ProofLocation \<Rightarrow> SolInstruction list result" where
  "confidential_burn_with_split_proofs C tp account mint new_balance auditor_lo auditor_hi authority signers
       equality_proof validity_proof range_proof =
     and_then (check_program_account tp) (\<lambda>_.
     and_then (split_proofs C [meta_new account False, meta_new mint False] equality_proof validity_proof range_proof)
       (\<lambda>(equality_offset, validity_offset, range_offset, accounts, proof_instructions).
     Ok (mb_encode tp (accounts @ authority_metas authority signers) MbBurn
           (to_le 36 new_balance @ to_le 64 auditor_lo @ to_le 64 auditor_hi @
            [equality_offset, validity_offset, range_offset]) # proof_instructions)))"

definition build_apply_pending_burn :: "pubkey \<Rightarrow> pubkey \<Rightarrow> pubkey \<Rightarrow> pubkey list \<Rightarrow> SolInstruction result" where
  "build_apply_pending_burn tp mint authority signers =
     and_then (check_program_account tp) (\<lambda>_.
     Ok (mb_encode tp ([meta_new mint False] @ authority_metas authority signers) MbApplyPendingBurn []))"

section \<open>The built instructions reach their handlers\<close>

lemma dec_confidential_data [simp]:
  "dec_ct_initialize_mint (to_le 32 k @ b # to_le 32 k') = (k, b, k')"
  "dec_update_mint (b # to_le 32 k) = (b, k)"
  "dec_configure_account (to_le 36 z @ to_le 8 m @ [p]) = (z, m, sint p)"
  "dec_empty_account [p] = sint p"
  "dec_deposit (to_le 8 a @ [d]) = (a, d)"
  "dec_withdraw (to_le 8 a @ d # to_le 36 n @ [p, q]) = (a, d, n, sint p, sint q)"
  "dec_ct_transfer (to_le 36 n @ to_le 64 lo @ to_le 64 hi @ [p, q, r]) = (n, lo, hi, sint p, sint q, sint r)"
  "dec_apply_pending_balance (to_le 8 a @ to_le 36 n) = (a, n)"
  "dec_transfer_with_fee (to_le 36 n @ to_le 64 lo @ to_le 64 hi @ [p, q, r, s, t]) =
     (n, lo, hi, sint p, sint q, sint r, sint s, sint t)"
  "dec_initialize_fee_config (to_le 32 k @ to_le 32 k') = (k, k')"
  "dec_withdraw_from_mint (p # to_le 36 n) = (sint p, n)"
  "dec_withdraw_from_accounts (d # p # to_le 36 n) = (d, sint p, n)"
  "dec_mb_initialize_mint (to_le 32 k @ to_le 36 n) = (k, n)"
  "dec_rotate_supply (to_le 32 k @ [p]) = (k, sint p)"
  "dec_decryptable_supply (to_le 36 n) = n"
  "dec_mint_data (to_le 36 n @ to_le 64 lo @ to_le 64 hi @ [p, q, r]) = (n, lo, hi, p, q, r)"
  "dec_burn_data (to_le 36 n @ to_le 64 lo @ to_le 64 hi @ [p, q, r]) = (n, lo, hi, p, q, r)"
  by (simp_all add: dec_ct_initialize_mint_def dec_update_mint_def dec_configure_account_def dec_empty_account_def
      dec_deposit_def dec_withdraw_def dec_ct_transfer_def dec_apply_pending_balance_def dec_transfer_with_fee_def
      dec_initialize_fee_config_def dec_withdraw_from_mint_def dec_withdraw_from_accounts_def
      dec_mb_initialize_mint_def dec_rotate_supply_def dec_decryptable_supply_def dec_mint_data_def dec_burn_data_def
      subslice_simps nth_append)

text \<open>
  A built sequence does its work when its first instruction performs and every proof that comes as an
  instruction stands at the offset given in the data of the first.
\<close>

definition placed ::
  "ProofClient \<Rightarrow> SolInstruction list result \<Rightarrow> (ProofInstruction \<times> ProofLocation) list \<Rightarrow> bool" where
  "placed C b proofs \<longleftrightarrow> (\<forall>instructions kind offset proof_data. b = Ok instructions \<longrightarrow>
     (kind, InstructionOffset offset proof_data) \<in> set proofs \<longrightarrow>
     unat offset < length instructions \<and> instructions ! unat offset = encode_verify_proof C kind proof_data)"

definition performs_first ::
  "ProofClient \<Rightarrow> pubkey \<Rightarrow> SolInstruction list result \<Rightarrow> (ProofInstruction \<times> ProofLocation) list \<Rightarrow>
     (('g, 'm, 'md, 'field) Runtime \<Rightarrow> AccountInfo list \<Rightarrow> ledger \<Rightarrow> (ledger \<times> bytes option) result) \<Rightarrow> bool" where
  "performs_first C tp b proofs h \<longleftrightarrow> performs tp (and_then b (\<lambda>instructions. Ok (hd instructions))) h \<and> placed C b proofs"

lemma performs_firstD:
  assumes "performs_first C tp b proofs h" "b = Ok (ix # others)"
  shows "process R tp accounts (ix_data ix) L = h R accounts L"
  using assms by (auto simp: performs_first_def performs_def)

lemma append_proof_Ok:
  "append_proof C kind l (instructions, expected) = Ok s \<longleftrightarrow>
     (case l of InstructionOffset offset d \<Rightarrow> offset = expected \<and> s = (instructions @ [encode_verify_proof C kind d], expected + 1)
      | ContextStateAccount _ \<Rightarrow> s = (instructions, expected))"
  by (auto simp: append_proof_def split: ProofLocation.splits)

lemma append_proofs_prefix:
  "append_proofs C proofs (instructions, expected) = Ok r \<Longrightarrow> \<exists>more. r = instructions @ more"
proof (induction proofs arbitrary: instructions expected)
  case (Cons p proofs)
  obtain kind l where p: "p = (kind, l)" by (cases p)
  from Cons.prems p obtain built e where a: "append_proof C kind l (instructions, expected) = Ok (built, e)"
    and r: "append_proofs C proofs (built, e) = Ok r" by (auto simp: and_then_Ok)
  obtain more where "r = built @ more" using Cons.IH [OF r] by blast
  then show ?case using a by (auto simp: append_proof_Ok split: ProofLocation.splits)
qed simp

lemma append_proofs_placed:
  "append_proofs C proofs (instructions, expected) = Ok r \<Longrightarrow> unat expected = length instructions \<Longrightarrow>
   length instructions + length proofs < 256 \<Longrightarrow> (kind, InstructionOffset offset d) \<in> set proofs \<Longrightarrow>
   unat offset < length r \<and> r ! unat offset = encode_verify_proof C kind d"
proof (induction proofs arbitrary: instructions expected)
  case (Cons p proofs)
  obtain kind' l where p: "p = (kind', l)" by (cases p)
  from Cons.prems(1) p obtain built e where a: "append_proof C kind' l (instructions, expected) = Ok (built, e)"
    and r: "append_proofs C proofs (built, e) = Ok r" by (auto simp: and_then_Ok)
  have e: "unat e = length built" "length built + length proofs < 256"
    using a Cons.prems(2,3) unat_add_lem [of expected 1]
    by (auto simp: append_proof_Ok split: ProofLocation.splits)
  obtain more where m: "r = built @ more" using append_proofs_prefix [OF r] by blast
  show ?case
  proof (cases "p = (kind, InstructionOffset offset d)")
    case True
    then show ?thesis using a m p Cons.prems(2) by (auto simp: append_proof_Ok nth_append)
  next
    case False
    then show ?thesis using Cons.IH [OF r e] Cons.prems(4) by auto
  qed
qed simp

lemma with_proofs_performs:
  assumes "performs tp inner h" "length proofs < 255"
  shows "performs_first C tp (with_proofs C inner proofs) proofs h"
  using assms append_proofs_prefix [of C proofs "[i]" 1 for i]
  by (fastforce simp: performs_first_def performs_def placed_def with_proofs_def and_then_Ok
      dest: append_proofs_placed [where expected = 1])

lemma performs_confidential:
  assumes "pack_token_instruction i = [b]" "\<not> exact_length i"
    and "\<And>R accounts L. check_program_account tp = Ok () \<Longrightarrow> execute R tp accounts (code # data) L i = h R accounts L"
  shows "performs tp (and_then (check_program_account tp) (\<lambda>_. if c then Err e else Ok (encode_instruction tp as i code data))) h"
  using performs_extension [OF assms] by (simp add: performs_def and_then_Ok)

lemmas confidential_instruction_defs = process_confidential_transfer_instruction_def
  process_confidential_transfer_fee_instruction_def process_mint_burn_instruction_def ct_encode_def cf_encode_def
  mb_encode_def into_primitive_def try_from_primitive_def confidential_transfer_variants_def
  confidential_fee_variants_def mint_burn_variants_def

text \<open>The instructions without proofs.\<close>

lemma plain_confidential_builders_perform:
  "performs tp (ct_initialize_mint tp mint auth auto_approve auditor)
     (\<lambda>R accounts L. quiet (ct_process_initialize_mint accounts (key_or_zero auth) (pod_bool_from auto_approve) (key_or_zero auditor) L))"
  "performs tp (ct_update_mint tp mint authority signers auto_approve auditor)
     (\<lambda>R accounts L. quiet (process_update_mint accounts (pod_bool_from auto_approve) (key_or_zero auditor) L))"
  "performs tp (approve_account tp account mint authority signers)
     (\<lambda>R accounts L. quiet (process_approve_account accounts L))"
  "performs tp (deposit tp account mint amount decimals authority signers)
     (\<lambda>R accounts L. quiet (process_deposit (rt_zk R) tp accounts amount decimals L))"
  "performs tp (build_apply_pending_balance tp account counter new_balance authority signers)
     (\<lambda>R accounts L. quiet (process_apply_pending_balance (rt_zk R) tp accounts counter new_balance L))"
  "performs tp (enable_confidential_credits tp account authority signers)
     (\<lambda>R accounts L. quiet (process_allow_confidential_credits tp accounts True L))"
  "performs tp (disable_confidential_credits tp account authority signers)
     (\<lambda>R accounts L. quiet (process_allow_confidential_credits tp accounts False L))"
  "performs tp (enable_non_confidential_credits tp account authority signers)
     (\<lambda>R accounts L. quiet (process_allow_non_confidential_credits tp accounts True L))"
  "performs tp (disable_non_confidential_credits tp account authority signers)
     (\<lambda>R accounts L. quiet (process_allow_non_confidential_credits tp accounts False L))"
  "performs tp (configure_account_with_registry C tp account mint registry payer)
     (\<lambda>R accounts L. quiet (process_configure_account_with_registry (rt_zk R) (rt_env R) (rt_resize R) tp accounts L))"
  "performs tp (initialize_confidential_transfer_fee_config tp mint auth withdraw_key)
     (\<lambda>R accounts L. quiet (process_initialize_confidential_transfer_fee_config accounts (key_or_zero auth) withdraw_key L))"
  "performs tp (cf_harvest_to_mint tp mint sources)
     (\<lambda>R accounts L. quiet (ctf_process_harvest_withheld_tokens_to_mint (rt_zk R) accounts L))"
  "performs tp (enable_harvest_to_mint tp mint authority signers)
     (\<lambda>R accounts L. quiet (process_enable_harvest_to_mint tp accounts L))"
  "performs tp (disable_harvest_to_mint tp mint authority signers)
     (\<lambda>R accounts L. quiet (process_disable_harvest_to_mint tp accounts L))"
  "performs tp (mb_initialize_mint tp mint supply_key new_balance)
     (\<lambda>R accounts L. quiet (cmb_process_initialize_mint accounts supply_key new_balance L))"
  "performs tp (update_decryptable_supply tp mint authority signers new_balance)
     (\<lambda>R accounts L. quiet (process_update_decryptable_supply tp accounts new_balance L))"
  "performs tp (build_apply_pending_burn tp mint authority signers)
     (\<lambda>R accounts L. quiet (process_apply_pending_burn (rt_zk R) tp accounts L))"
  unfolding ct_initialize_mint_def ct_update_mint_def approve_account_def deposit_def build_apply_pending_balance_def
    inner_apply_pending_balance_def enable_confidential_credits_def disable_confidential_credits_def
    enable_non_confidential_credits_def disable_non_confidential_credits_def enable_or_disable_balance_credits_def
    configure_account_with_registry_def initialize_confidential_transfer_fee_config_def cf_harvest_to_mint_def
    enable_harvest_to_mint_def disable_harvest_to_mint_def mb_initialize_mint_def update_decryptable_supply_def
    build_apply_pending_burn_def ct_encode_def cf_encode_def mb_encode_def
  by (((rule performs_key)+)?, rule performs_extension, simp, simp, simp add: confidential_instruction_defs)+

text \<open>The instructions with proofs appended, by their inner instruction.\<close>

lemma inner_builders_perform:
  "performs tp (inner_configure_account C tp account mint zero_balance maximum authority signers l)
     (\<lambda>R accounts L. quiet (process_configure_account (rt_zk R) tp accounts zero_balance maximum
        (ProofInstructionOffset (sint (location_offset l))) L))"
  "performs tp (inner_empty_account C tp account authority signers l)
     (\<lambda>R accounts L. quiet (process_empty_account (rt_zk R) tp accounts (sint (location_offset l)) L))"
  "performs tp (inner_withdraw C tp account mint amount decimals new_balance authority signers equality_proof range_proof)
     (\<lambda>R accounts L. quiet (process_withdraw (rt_zk R) tp accounts amount decimals new_balance
        (sint (location_offset equality_proof)) (sint (location_offset range_proof)) L))"
  "performs tp (inner_transfer C tp source mint destination new_balance lo hi authority signers
       equality_proof validity_proof range_proof)
     (\<lambda>R accounts L. quiet (ct_process_transfer (rt_zk R) tp (rt_env R) accounts new_balance lo hi
        (sint (location_offset equality_proof)) (sint (location_offset validity_proof)) None None
        (sint (location_offset range_proof)) L))"
  "performs tp (inner_transfer_with_fee C tp source mint destination new_balance lo hi authority signers
       equality_proof validity_proof fee_sigma fee_validity range_proof)
     (\<lambda>R accounts L. quiet (ct_process_transfer (rt_zk R) tp (rt_env R) accounts new_balance lo hi
        (sint (location_offset equality_proof)) (sint (location_offset validity_proof))
        (Some (sint (location_offset fee_sigma))) (Some (sint (location_offset fee_validity)))
        (sint (location_offset range_proof)) L))"
  "performs tp (inner_cf_withdraw_from_mint C tp mint destination new_balance authority signers l)
     (\<lambda>R accounts L. quiet (ctf_process_withdraw_withheld_tokens_from_mint (rt_zk R) tp accounts new_balance
        (sint (location_offset l)) L))"
  unfolding inner_configure_account_def inner_empty_account_def inner_withdraw_def inner_transfer_def
    inner_transfer_with_fee_def inner_cf_withdraw_from_mint_def ct_encode_def cf_encode_def
  by (rule performs_extension, simp, simp, simp add: confidential_instruction_defs)+

lemma inner_withdraw_from_accounts_performs:
  "performs tp (inner_cf_withdraw_from_accounts C tp mint destination new_balance authority signers sources l)
     (\<lambda>R accounts L. quiet (ctf_process_withdraw_withheld_tokens_from_accounts (rt_zk R) tp accounts
        (word_of_nat (length sources)) new_balance (sint (location_offset l)) L))"
  unfolding inner_cf_withdraw_from_accounts_def cf_encode_def
  by (rule performs_confidential, simp, simp, simp add: confidential_instruction_defs)

text \<open>The mints and burns process the locations before the instruction is built.\<close>

lemma process_proof_location_Ok:
  "process_proof_location C accounts expected proofs l push kind = Ok (offset, accounts', expected', proofs') \<longleftrightarrow>
     offset = location_offset l \<and>
     accounts' = accounts @ (if push then proof_metas C l else context_metas l) \<and>
     (case l of InstructionOffset n d \<Rightarrow> n = expected \<and> expected \<noteq> 127 \<and> expected' = expected + 1 \<and>
        proofs' = proofs @ [encode_verify_proof C kind d]
      | ContextStateAccount _ \<Rightarrow> expected' = expected \<and> proofs' = proofs)"
  by (auto simp: process_proof_location_def location_offset_def proof_metas_def context_metas_def Let_def
      split: ProofLocation.splits)

lemma split_proofs_Ok:
  assumes "split_proofs C accounts e v r = Ok (eo, vo, ro, accounts', proofs)"
  shows "eo = location_offset e" "vo = location_offset v" "ro = location_offset r"
    "accounts' = accounts @ proof_metas C e @ context_metas v @ context_metas r"
    "append_proofs C [(VerifyCiphertextCommitmentEquality, e),
       (VerifyBatchedGroupedCiphertext3HandlesValidity, v), (VerifyBatchedRangeProofU128, r)] ([i], 1) = Ok (i # proofs)"
  using assms
  by (cases e; cases v; cases r; auto simp: split_proofs_def and_then_Ok process_proof_location_Ok append_proof_def
      proof_metas_def context_metas_def)+

lemma performs_mint_burn:
  assumes "\<And>R accounts L. check_program_account tp = Ok () \<Longrightarrow>
      execute R tp accounts (into_primitive mint_burn_variants i # data) L TokenInstruction.ConfidentialMintBurnExtension = h R accounts L"
    and "\<And>x. m = Ok x \<Longrightarrow> \<exists>as proofs'. f x = Ok (mb_encode tp as i data # proofs') \<and>
      append_proofs C proofs ([mb_encode tp as i data], 1) = Ok (mb_encode tp as i data # proofs')"
    and "length proofs < 255"
  shows "performs_first C tp (and_then (check_program_account tp) (\<lambda>_. and_then m f)) proofs h"
proof -
  have b: "\<exists>as proofs'. r = mb_encode tp as i data # proofs' \<and>
      append_proofs C proofs ([mb_encode tp as i data], 1) = Ok r"
    if "and_then (check_program_account tp) (\<lambda>_. and_then m f) = Ok r" for r
    using that assms(2) by (fastforce simp: and_then_Ok)
  show ?thesis
    using b assms(1,3) carries_extension [of TokenInstruction.ConfidentialMintBurnExtension 42
        "into_primitive mint_burn_variants i # data"]
    by (fastforce simp: performs_first_def performs_def placed_def and_then_Ok [of "and_then _ _"] mb_encode_def
        encode_instruction_def process_carries and_then_Ok [of "check_program_account tp"]
        dest: append_proofs_placed [where expected = 1])
qed

lemma rotate_builder_performs:
  "performs_first C tp (rotate_supply_elgamal_pubkey C tp mint authority signers new_key l)
     [(VerifyCiphertextCiphertextEquality, l)]
     (\<lambda>R accounts L. quiet (process_rotate_supply_elgamal_pubkey (rt_zk R) tp accounts (new_key, sint (location_offset l)) L))"
  unfolding rotate_supply_elgamal_pubkey_def
  by (rule performs_mint_burn [where i = MbRotateSupplyElGamalPubkey and data = "to_le 32 new_key @ [location_offset l]"])
    (auto simp: confidential_instruction_defs process_proof_location_Ok append_proof_def split: ProofLocation.splits)

lemma split_proofs_built:
  assumes "split_proofs C accounts e v r = Ok x"
  shows "\<exists>as proofs. x = (location_offset e, location_offset v, location_offset r, as, proofs) \<and>
    (\<forall>i. append_proofs C [(VerifyCiphertextCommitmentEquality, e),
       (VerifyBatchedGroupedCiphertext3HandlesValidity, v), (VerifyBatchedRangeProofU128, r)] ([i], 1) = Ok (i # proofs))"
proof -
  obtain eo vo ro as proofs where x: "x = (eo, vo, ro, as, proofs)" by (cases x)
  show ?thesis using split_proofs_Ok [OF assms [unfolded x]] x by blast
qed

lemma split_builders_perform:
  "performs_first C tp (confidential_mint_with_split_proofs C tp account mint lo hi authority signers e v r new_supply)
     [(VerifyCiphertextCommitmentEquality, e), (VerifyBatchedGroupedCiphertext3HandlesValidity, v), (VerifyBatchedRangeProofU128, r)]
     (\<lambda>R accounts L. quiet (process_confidential_mint (rt_zk R) tp accounts new_supply lo hi
        (location_offset e) (location_offset v) (location_offset r) L))"
  "performs_first C tp (confidential_burn_with_split_proofs C tp account mint new_balance lo hi authority signers e v r)
     [(VerifyCiphertextCommitmentEquality, e), (VerifyBatchedGroupedCiphertext3HandlesValidity, v), (VerifyBatchedRangeProofU128, r)]
     (\<lambda>R accounts L. quiet (process_confidential_burn (rt_zk R) tp (rt_env R) accounts new_balance lo hi
        (location_offset e) (location_offset v) (location_offset r) L))"
  unfolding confidential_mint_with_split_proofs_def confidential_burn_with_split_proofs_def
  by (rule performs_mint_burn [where i = MbMint
        and data = "to_le 36 new_supply @ to_le 64 lo @ to_le 64 hi @ [location_offset e, location_offset v, location_offset r]"],
      simp add: confidential_instruction_defs,
      fastforce dest!: split_proofs_built simp del: append_proofs.simps, simp)
    (rule performs_mint_burn [where i = MbBurn
        and data = "to_le 36 new_balance @ to_le 64 lo @ to_le 64 hi @ [location_offset e, location_offset v, location_offset r]"],
      simp add: confidential_instruction_defs,
      fastforce dest!: split_proofs_built simp del: append_proofs.simps, simp)

section \<open>Mixed proof locations of mints and burns\<close>

text \<open>\<open>get_instruction_relative\<close> reads no account but the sysvar of the instructions.\<close>

definition reads_sysvar_only :: "ProofClient \<Rightarrow> ZkSdk \<Rightarrow> bool" where
  "reads_sysvar_only C zk \<longleftrightarrow>
     (\<forall>offset info L. ai_key info \<noteq> sysvar_instructions_id C \<longrightarrow> \<not> is_ok (zk_get_instruction_relative zk offset info L))"

lemma context_without_sysvar:
  assumes "verify_and_extract_context zk T read L iter offset None = Ok (c, rest)" "reads_sysvar_only C zk"
    "sysvar_instructions_id C \<notin> ai_key ` set iter"
  shows "offset = 0" "sysvar_instructions_id C \<notin> ai_key ` set rest"
  using assms by (cases iter; auto simp: verify_and_extract_context_def res_simps reads_sysvar_only_def is_ok_iff
      split: if_splits)+

lemma mint_proof_without_sysvar:
  assumes "verify_mint_proof zk read L iter 0 vo ro = Ok x" "reads_sysvar_only C zk"
    "sysvar_instructions_id C \<notin> ai_key ` set iter"
  shows "vo = 0 \<and> ro = 0"
proof -
  obtain e v r iter1 iter2 iter3 where
    "verify_and_extract_context zk (zk_commitment_equality zk) read L iter (sint (0 :: u8)) None = Ok (e, iter1)"
    "verify_and_extract_context zk (zk_validity3 zk) read L iter1 (sint vo) None = Ok (v, iter2)"
    "verify_and_extract_context zk (zk_range_u128 zk) read L iter2 (sint ro) None = Ok (r, iter3)"
    using assms(1) by (auto simp: verify_mint_proof_def and_then_Ok sysvar_account_def)
  then show ?thesis using context_without_sysvar [OF _ assms(2)] assms(3)
    by (metis signed_0 signed_eq_0_iff)
qed

lemma burn_proof_without_sysvar:
  assumes "verify_burn_proof zk read L iter 0 vo ro = Ok x" "reads_sysvar_only C zk"
    "sysvar_instructions_id C \<notin> ai_key ` set iter"
  shows "vo = 0 \<and> ro = 0"
proof -
  obtain e v r iter1 iter2 iter3 where
    "verify_and_extract_context zk (zk_commitment_equality zk) read L iter (sint (0 :: u8)) None = Ok (e, iter1)"
    "verify_and_extract_context zk (zk_validity3 zk) read L iter1 (sint vo) None = Ok (v, iter2)"
    "verify_and_extract_context zk (zk_range_u128 zk) read L iter2 (sint ro) None = Ok (r, iter3)"
    using assms(1) by (auto simp: verify_burn_proof_def and_then_Ok sysvar_account_def)
  then show ?thesis using context_without_sysvar [OF _ assms(2)] assms(3)
    by (metis signed_0 signed_eq_0_iff)
qed

lemma mint_burn_without_sysvar:
  assumes "reads_sysvar_only C zk" "sysvar_instructions_id C \<notin> ai_key ` set accounts" "vo \<noteq> 0 \<or> ro \<noteq> 0"
  shows "process_confidential_mint zk tp accounts new_supply lo hi 0 vo ro L \<noteq> Ok L'"
    and "process_confidential_burn zk tp env accounts new_balance lo hi 0 vo ro L \<noteq> Ok L'"
proof -
  have s: "sysvar_instructions_id C \<notin> ai_key ` set iter2"
    if "next_account_info accounts = Ok (i, iter1)" "next_account_info iter1 = Ok (j, iter2)" for i iter1 j iter2
    using assms(2) that by (auto simp: next_account_info_Ok)
  show "process_confidential_mint zk tp accounts new_supply lo hi 0 vo ro L \<noteq> Ok L'"
    using mint_proof_without_sysvar [OF _ assms(1)] s assms(3)
    by (fastforce simp: process_confidential_mint_def and_then_Ok)
  show "process_confidential_burn zk tp env accounts new_balance lo hi 0 vo ro L \<noteq> Ok L'"
    using burn_proof_without_sysvar [OF _ assms(1)] s assms(3)
    by (fastforce simp: process_confidential_burn_def and_then_Ok)
qed

text \<open>The accounts and offsets a mint or burn builder chooses.\<close>

lemma split_proofs_offsets:
  assumes "split_proofs C accounts e v r = Ok x"
  shows "is_instruction_offset v \<Longrightarrow> location_offset v \<noteq> 0" "is_instruction_offset r \<Longrightarrow> location_offset r \<noteq> 0"
  using assms
  by (cases e; cases v; cases r; auto simp: split_proofs_def and_then_Ok process_proof_location_Ok
      is_instruction_offset_def location_offset_def)+

lemma split_mint_burn_Ok:
  assumes "b \<in> {confidential_mint_with_split_proofs C tp account mint lo hi authority signers e v r new_balance,
      confidential_burn_with_split_proofs C tp account mint new_balance lo hi authority signers e v r}"
    and "b = Ok (ix # proofs)"
  shows "ix_accounts ix = [meta_new account False, meta_new mint False] @ proof_metas C e @ context_metas v @
      context_metas r @ authority_metas authority signers"
    and "is_instruction_offset v \<Longrightarrow> location_offset v \<noteq> 0" "is_instruction_offset r \<Longrightarrow> location_offset r \<noteq> 0"
proof -
  obtain eo vo ro as where s: "split_proofs C [meta_new account False, meta_new mint False] e v r = Ok (eo, vo, ro, as, proofs)"
    and a: "ix_accounts ix = as @ authority_metas authority signers"
  proof -
    have "confidential_mint_with_split_proofs C tp account mint lo hi authority signers e v r new_balance = Ok (ix # proofs) \<or>
      confidential_burn_with_split_proofs C tp account mint new_balance lo hi authority signers e v r = Ok (ix # proofs)"
      using assms by auto
    then show thesis using that
      by (auto simp: confidential_mint_with_split_proofs_def confidential_burn_with_split_proofs_def and_then_Ok
          mb_encode_def encode_instruction_def)
  qed
  show "ix_accounts ix = [meta_new account False, meta_new mint False] @ proof_metas C e @ context_metas v @
      context_metas r @ authority_metas authority signers"
    using split_proofs_Ok(4) [OF s] a by simp
  show "is_instruction_offset v \<Longrightarrow> location_offset v \<noteq> 0" "is_instruction_offset r \<Longrightarrow> location_offset r \<noteq> 0"
    using split_proofs_offsets [OF s] by simp_all
qed

section \<open>Properties\<close>

text \<open>
  C28: an instruction of the confidential extensions built by a client function runs exactly the
  handler it is named after, with the arguments given to the function, whatever the accounts, the ledger and
  the runtime are; and every proof given to be verified in the same transaction stands in the built sequence at
  the offset that the handler is told.
\<close>

theorem confidential_builders_reach_handlers:
  "performs tp (ct_initialize_mint tp mint auth auto_approve auditor)
     (\<lambda>R accounts L. quiet (ct_process_initialize_mint accounts (key_or_zero auth) (pod_bool_from auto_approve) (key_or_zero auditor) L)) \<and>
   performs tp (ct_update_mint tp mint authority signers auto_approve auditor)
     (\<lambda>R accounts L. quiet (process_update_mint accounts (pod_bool_from auto_approve) (key_or_zero auditor) L)) \<and>
   performs tp (approve_account tp account mint authority signers)
     (\<lambda>R accounts L. quiet (process_approve_account accounts L)) \<and>
   performs tp (deposit tp account mint amount decimals authority signers)
     (\<lambda>R accounts L. quiet (process_deposit (rt_zk R) tp accounts amount decimals L)) \<and>
   performs tp (build_apply_pending_balance tp account counter new_balance authority signers)
     (\<lambda>R accounts L. quiet (process_apply_pending_balance (rt_zk R) tp accounts counter new_balance L)) \<and>
   performs tp (enable_confidential_credits tp account authority signers)
     (\<lambda>R accounts L. quiet (process_allow_confidential_credits tp accounts True L)) \<and>
   performs tp (disable_confidential_credits tp account authority signers)
     (\<lambda>R accounts L. quiet (process_allow_confidential_credits tp accounts False L)) \<and>
   performs tp (enable_non_confidential_credits tp account authority signers)
     (\<lambda>R accounts L. quiet (process_allow_non_confidential_credits tp accounts True L)) \<and>
   performs tp (disable_non_confidential_credits tp account authority signers)
     (\<lambda>R accounts L. quiet (process_allow_non_confidential_credits tp accounts False L)) \<and>
   performs tp (configure_account_with_registry C tp account mint registry payer)
     (\<lambda>R accounts L. quiet (process_configure_account_with_registry (rt_zk R) (rt_env R) (rt_resize R) tp accounts L)) \<and>
   performs tp (initialize_confidential_transfer_fee_config tp mint auth withdraw_key)
     (\<lambda>R accounts L. quiet (process_initialize_confidential_transfer_fee_config accounts (key_or_zero auth) withdraw_key L)) \<and>
   performs tp (cf_harvest_to_mint tp mint sources)
     (\<lambda>R accounts L. quiet (ctf_process_harvest_withheld_tokens_to_mint (rt_zk R) accounts L)) \<and>
   performs tp (enable_harvest_to_mint tp mint authority signers)
     (\<lambda>R accounts L. quiet (process_enable_harvest_to_mint tp accounts L)) \<and>
   performs tp (disable_harvest_to_mint tp mint authority signers)
     (\<lambda>R accounts L. quiet (process_disable_harvest_to_mint tp accounts L)) \<and>
   performs tp (mb_initialize_mint tp mint supply_key new_balance)
     (\<lambda>R accounts L. quiet (cmb_process_initialize_mint accounts supply_key new_balance L)) \<and>
   performs tp (update_decryptable_supply tp mint authority signers new_balance)
     (\<lambda>R accounts L. quiet (process_update_decryptable_supply tp accounts new_balance L)) \<and>
   performs tp (build_apply_pending_burn tp mint authority signers)
     (\<lambda>R accounts L. quiet (process_apply_pending_burn (rt_zk R) tp accounts L)) \<and>
   performs_first C tp (configure_account C tp account mint new_balance maximum authority signers e)
     [(VerifyPubkeyValidity, e)]
     (\<lambda>R accounts L. quiet (process_configure_account (rt_zk R) tp accounts new_balance maximum
        (ProofInstructionOffset (sint (location_offset e))) L)) \<and>
   performs_first C tp (build_empty_account C tp account authority signers e) [(VerifyZeroCiphertext, e)]
     (\<lambda>R accounts L. quiet (process_empty_account (rt_zk R) tp accounts (sint (location_offset e)) L)) \<and>
   performs_first C tp (withdraw C tp account mint amount decimals new_balance authority signers e r)
     [(VerifyCiphertextCommitmentEquality, e), (VerifyBatchedRangeProofU64, r)]
     (\<lambda>R accounts L. quiet (process_withdraw (rt_zk R) tp accounts amount decimals new_balance
        (sint (location_offset e)) (sint (location_offset r)) L)) \<and>
   performs_first C tp (ct_transfer C tp source mint destination new_balance lo hi authority signers e v r)
     [(VerifyCiphertextCommitmentEquality, e), (VerifyBatchedGroupedCiphertext3HandlesValidity, v), (VerifyBatchedRangeProofU128, r)]
     (\<lambda>R accounts L. quiet (ct_process_transfer (rt_zk R) tp (rt_env R) accounts new_balance lo hi
        (sint (location_offset e)) (sint (location_offset v)) None None (sint (location_offset r)) L)) \<and>
   performs_first C tp (transfer_with_fee C tp source mint destination new_balance lo hi authority signers e v s f r)
     [(VerifyCiphertextCommitmentEquality, e), (VerifyBatchedGroupedCiphertext3HandlesValidity, v),
      (VerifyPercentageWithCap, s), (VerifyBatchedGroupedCiphertext2HandlesValidity, f), (VerifyBatchedRangeProofU256, r)]
     (\<lambda>R accounts L. quiet (ct_process_transfer (rt_zk R) tp (rt_env R) accounts new_balance lo hi
        (sint (location_offset e)) (sint (location_offset v)) (Some (sint (location_offset s)))
        (Some (sint (location_offset f))) (sint (location_offset r)) L)) \<and>
   performs_first C tp (cf_withdraw_from_mint C tp mint destination new_balance authority signers e)
     [(VerifyCiphertextCiphertextEquality, e)]
     (\<lambda>R accounts L. quiet (ctf_process_withdraw_withheld_tokens_from_mint (rt_zk R) tp accounts new_balance
        (sint (location_offset e)) L)) \<and>
   performs_first C tp (cf_withdraw_from_accounts C tp mint destination new_balance authority signers sources e)
     [(VerifyCiphertextCiphertextEquality, e)]
     (\<lambda>R accounts L. quiet (ctf_process_withdraw_withheld_tokens_from_accounts (rt_zk R) tp accounts
        (word_of_nat (length sources)) new_balance (sint (location_offset e)) L)) \<and>
   performs_first C tp (rotate_supply_elgamal_pubkey C tp mint authority signers new_key e)
     [(VerifyCiphertextCiphertextEquality, e)]
     (\<lambda>R accounts L. quiet (process_rotate_supply_elgamal_pubkey (rt_zk R) tp accounts (new_key, sint (location_offset e)) L)) \<and>
   performs_first C tp (confidential_mint_with_split_proofs C tp account mint lo hi authority signers e v r new_balance)
     [(VerifyCiphertextCommitmentEquality, e), (VerifyBatchedGroupedCiphertext3HandlesValidity, v), (VerifyBatchedRangeProofU128, r)]
     (\<lambda>R accounts L. quiet (process_confidential_mint (rt_zk R) tp accounts new_balance lo hi
        (location_offset e) (location_offset v) (location_offset r) L)) \<and>
   performs_first C tp (confidential_burn_with_split_proofs C tp account mint new_balance lo hi authority signers e v r)
     [(VerifyCiphertextCommitmentEquality, e), (VerifyBatchedGroupedCiphertext3HandlesValidity, v), (VerifyBatchedRangeProofU128, r)]
     (\<lambda>R accounts L. quiet (process_confidential_burn (rt_zk R) tp (rt_env R) accounts new_balance lo hi
        (location_offset e) (location_offset v) (location_offset r) L))"
  unfolding configure_account_def build_empty_account_def withdraw_def ct_transfer_def transfer_with_fee_def
    cf_withdraw_from_mint_def cf_withdraw_from_accounts_def
  by (intro conjI plain_confidential_builders_perform rotate_builder_performs split_builders_perform
      with_proofs_performs inner_builders_perform inner_withdraw_from_accounts_performs) simp_all

text \<open>
  A confidential mint or burn built with its equality proof in a context account and one of
  the other proofs in the same transaction is rejected by the program on every ledger: neither the client
  function adds the sysvar of the instructions to the accounts nor does the program expect it there, so
  another account is read in its place.  The documentation of the instructions lists the sysvar whenever at
  least one proof is in the transaction, as the transfers do.
\<close>

theorem mixed_proof_locations_rejected:
  assumes "b \<in> {confidential_mint_with_split_proofs C tp account mint lo hi authority signers
        (ContextStateAccount k) v r new_balance,
      confidential_burn_with_split_proofs C tp account mint new_balance lo hi authority signers
        (ContextStateAccount k) v r}"
    and "b = Ok (ix # proofs)" "is_instruction_offset v \<or> is_instruction_offset r"
    and "map ai_key accounts = map am_pubkey (ix_accounts ix)"
    and "sysvar_instructions_id C \<notin> set ([account, mint, k, authority] @ signers @
      map am_pubkey (context_metas v @ context_metas r))"
    and "reads_sysvar_only C (rt_zk R)"
  shows "\<not> is_ok (process R tp accounts (ix_data ix) L)"
proof -
  note s = split_mint_burn_Ok [OF assms(1,2)]
  have k: "ai_key ` set accounts = am_pubkey ` set (ix_accounts ix)" using assms(4) by (metis list.set_map)
  have n: "sysvar_instructions_id C \<notin> ai_key ` set accounts"
    unfolding k s(1) using assms(5)
    by (auto simp: proof_metas_def authority_metas_def meta_new_def meta_readonly_def)
  have o: "location_offset v \<noteq> 0 \<or> location_offset r \<noteq> 0" using assms(3) s(2,3) by blast
  have z: "location_offset (ContextStateAccount k) = 0" by (simp add: location_offset_def)
  have "process R tp accounts (ix_data ix) L \<in>
    {quiet (process_confidential_mint (rt_zk R) tp accounts new_balance lo hi 0 (location_offset v) (location_offset r) L),
     quiet (process_confidential_burn (rt_zk R) tp (rt_env R) accounts new_balance lo hi 0 (location_offset v) (location_offset r) L)}"
    using assms(1,2)
      performs_firstD [OF split_builders_perform(1) [of C tp account mint lo hi authority signers "ContextStateAccount k" v r new_balance], of ix proofs R accounts L]
      performs_firstD [OF split_builders_perform(2) [of C tp account mint new_balance lo hi authority signers "ContextStateAccount k" v r], of ix proofs R accounts L]
    unfolding z by auto
  then show ?thesis using mint_burn_without_sysvar [OF assms(6) n o] by (auto simp: is_ok_iff quiet_Ok)
qed

definition demo_client :: ProofClient where
  "demo_client = \<lparr>encode_verify_proof = (\<lambda>kind d. \<lparr>ix_program_id = 500, ix_accounts = [], ix_data = d\<rparr>),
     sysvar_instructions_id = 99, pc_system_id = 0\<rparr>"

definition reads_99 :: "ZkSdk \<Rightarrow> ZkSdk" where
  "reads_99 zk = zk\<lparr>zk_get_instruction_relative :=
     (\<lambda>offset info L. if ai_key info = 99 then Ok (500, []) else Err InvalidArgument)\<rparr>"

theorem mixed_proof_locations_rejected_witness:
  "\<forall>R :: (unit, unit, unit, unit) Runtime. \<exists>ix proofs.
     confidential_mint_with_split_proofs demo_client token_program_id 10 1 0 0 20 []
       (ContextStateAccount 30) (InstructionOffset 1 []) (InstructionOffset 2 []) 0 = Ok (ix # proofs) \<and>
     \<not> is_ok (process (R\<lparr>rt_zk := reads_99 (rt_zk R)\<rparr>) token_program_id (account_infos (ix_accounts ix)) (ix_data ix) demo_ledger)"
proof
  fix R :: "(unit, unit, unit, unit) Runtime"
  let ?R = "R\<lparr>rt_zk := reads_99 (rt_zk R)\<rparr>"
  let ?b = "confidential_mint_with_split_proofs demo_client token_program_id 10 1 0 0 20 []
      (ContextStateAccount 30) (InstructionOffset 1 []) (InstructionOffset 2 []) 0"
  obtain ix proofs where b: "?b = Ok (ix # proofs)"
    by (auto simp: confidential_mint_with_split_proofs_def split_proofs_def process_proof_location_def
        check_program_account_def Let_def)
  have "reads_sysvar_only demo_client (rt_zk ?R)"
    by (simp add: reads_sysvar_only_def reads_99_def demo_client_def)
  then have "\<not> is_ok (process ?R token_program_id (account_infos (ix_accounts ix)) (ix_data ix) demo_ledger)"
    using b mixed_proof_locations_rejected [of ?b demo_client token_program_id 10 1 0 0 20 "[]" 30
        "InstructionOffset 1 []" "InstructionOffset 2 []" 0 ix proofs "account_infos (ix_accounts ix)" ?R demo_ledger]
    by (simp add: is_instruction_offset_def context_metas_def demo_client_def account_infos_def)
  with b show "\<exists>ix proofs. ?b = Ok (ix # proofs) \<and>
    \<not> is_ok (process ?R token_program_id (account_infos (ix_accounts ix)) (ix_data ix) demo_ledger)" by blast
qed

end
