(* ===== verification/Confidential_Scenario.thy ===== *)
theory Confidential_Scenario
  imports Confidential_Transfer Extension_Scenario
begin

text \<open>
  A concrete proof program and ledger the properties of the confidential handlers are applied to: points are
  256-bit words, the account 600 holds the proof contexts, and mint and accounts have the confidential
  extensions in a buffer of entries.
\<close>

section \<open>Extensions in a buffer of entries\<close>

context extension
begin

lemma get_extension_entries:
  assumes "wf_entries es" "get_account_type (EXT_TYPE E) = ACCOUNT_TYPE S" "map_of es (EXT_TYPE E) = Some (ext_enc E v)"
  shows "get_extension S E (buffer es n) = Ok v"
  using get_extension_bytes_buffer [OF assms(1,2), of n] assms(3) length_enc dec_enc
  by (simp add: get_extension_def pod_from_bytes_def)

end

lemma get_extension_buffer_missing:
  assumes "wf_entries es" "get_account_type (EXT_TYPE E) = ACCOUNT_TYPE S" "map_of es (EXT_TYPE E) = None"
  shows "\<exists>e. get_extension S E (buffer es n) = Err e"
  using get_extension_bytes_buffer [OF assms(1,2), of n] assms(3)
  by (auto simp: get_extension_def)

section \<open>The ledger\<close>

definition entries_ledger ::
  "(ExtensionType \<times> bytes) list \<Rightarrow> (ExtensionType \<times> bytes) list \<Rightarrow> (ExtensionType \<times> bytes) list \<Rightarrow> ledger" where
  "entries_ledger ms es fs =
     (set_data 1 (pack_state PodMintB (ext_mint (plain_mint 30 150) (buffer ms 0)))
       (set_data 10 (pack_state PodAccountB (ext_account (plain_account 1 20 100) (buffer es 0)))
         (set_data 11 (pack_state PodAccountB (ext_account (plain_account 1 21 50) (buffer fs 0))) demo_ledger)))
       (600 := \<lparr>ac_lamports = 10, ac_data = [], ac_owner = 500\<rparr>)"

lemma entries_ledger_owners [simp]:
  "ac_owner (entries_ledger ms es fs 1) = token_program_id" "ac_owner (entries_ledger ms es fs 10) = token_program_id"
  "ac_owner (entries_ledger ms es fs 11) = token_program_id" "ac_owner (entries_ledger ms es fs 600) = 500"
  "ac_owner (entries_ledger ms es fs 20) = 0" "ac_owner (entries_ledger ms es fs 21) = 0"
  "ac_owner (entries_ledger ms es fs 30) = 0"
  by (simp_all add: entries_ledger_def demo_ledger_def)

lemma entries_ledger_wallets [simp]:
  "ac_data (entries_ledger ms es fs 20) = []" "ac_data (entries_ledger ms es fs 21) = []"
  "ac_data (entries_ledger ms es fs 30) = []"
  by (simp_all add: entries_ledger_def demo_ledger_def)

lemma buffer_empty [simp]: "buffer [] 0 = []"
  by (simp add: buffer_def)

definition entries_fit :: "(ExtensionType \<times> bytes) list \<Rightarrow> bool" where
  "entries_fit es \<longleftrightarrow> wf_entries es \<and> length (entries_bytes es) \<noteq> 189"

lemma entries_ledger_states [simp]:
  "entries_fit ms \<Longrightarrow> unpack PodMintB (ac_data (entries_ledger ms es fs 1)) =
     Ok \<lparr>base = plain_mint 30 150, tlv_data = buffer ms 0\<rparr>"
  "entries_fit ms \<Longrightarrow> token_mint (ac_data (entries_ledger ms es fs 1)) = Ok (ext_mint (plain_mint 30 150) (buffer ms 0))"
  "entries_fit es \<Longrightarrow> token_account (ac_data (entries_ledger ms es fs 10)) =
     Ok (ext_account (plain_account 1 20 100) (buffer es 0))"
  "entries_fit fs \<Longrightarrow> token_account (ac_data (entries_ledger ms es fs 11)) =
     Ok (ext_account (plain_account 1 21 50) (buffer fs 0))"
  unfolding entries_fit_def
  by (simp_all add: entries_ledger_def unpack_ext_mint unpack_ext_account unpack_eq)

section \<open>The proof program\<close>

text \<open>A grouped ciphertext whose first 32 bytes are its commitment; all its handles are zero.\<close>

definition demo_extract :: "'a::len word \<Rightarrow> nat \<Rightarrow> ciphertext option" where
  "demo_extract g index = Some (ristretto_to_elgamal_ciphertext (ucast g) 0)"

definition demo_proof :: "ProofType \<Rightarrow> 'u \<Rightarrow> 'u ZkProofData" where
  "demo_proof T c = \<lparr>PROOF_TYPE = T, context_state = (\<lambda>_. Ok (1, c)), instruction_context = (\<lambda>_. None)\<rparr>"

text \<open>The contexts of a transfer, mint or burn of \<open>3 * G\<close> that leaves the balance or supply \<open>new\<close>.\<close>

definition demo_range :: "commitment \<Rightarrow> BatchedRangeProofContext" where
  "demo_range new = \<lparr>rp_commitments = [new, 3 * G_POINT, 0, 0, 0, 0, 0, 0],
     rp_bit_lengths = [64, 16, 32, 16, 0, 0, 0, 0]\<rparr>"

definition demo_zk :: "pubkey list \<Rightarrow> pubkey \<Rightarrow> point \<Rightarrow> ZkSdk" where
  "demo_zk keys key new = \<lparr>zk_curve = word_curve, zk_program_id = 500, zk_proof_type_code = (\<lambda>_. 1),
     zk_instruction_type = (\<lambda>_. None), zk_get_instruction_relative = (\<lambda>_ _ _. Err InvalidArgument),
     zk_pubkey_validity = demo_proof PubkeyValidity key,
     zk_zero_ciphertext = demo_proof ZeroCiphertext \<lparr>zc_pubkey = key, zc_ciphertext = 0\<rparr>,
     zk_ciphertext_equality = demo_proof CiphertextCiphertextEquality
       \<lparr>cc_first_pubkey = keys ! 0, cc_second_pubkey = key, cc_first_ciphertext = ristretto_to_elgamal_ciphertext new 0,
        cc_second_ciphertext = ristretto_to_elgamal_ciphertext new 0\<rparr>,
     zk_commitment_equality = demo_proof CiphertextCommitmentEquality
       \<lparr>ce_pubkey = key, ce_ciphertext = ristretto_to_elgamal_ciphertext new 0, ce_commitment = new\<rparr>,
     zk_range_u64 = demo_proof BatchedRangeProofU64 (demo_range new),
     zk_range_u128 = demo_proof BatchedRangeProofU128 (demo_range new),
     zk_range_u256 = demo_proof BatchedRangeProofU256 (demo_range new),
     zk_validity3 = demo_proof BatchedGroupedCiphertext3HandlesValidity
       \<lparr>v3_first_pubkey = keys ! 0, v3_second_pubkey = keys ! 1, v3_third_pubkey = keys ! 2,
        v3_grouped_ciphertext_lo = ucast (3 * G_POINT), v3_grouped_ciphertext_hi = 0\<rparr>,
     zk_validity2 = demo_proof BatchedGroupedCiphertext2HandlesValidity
       \<lparr>v2_first_pubkey = keys ! 0, v2_second_pubkey = keys ! 1,
        v2_grouped_ciphertext_lo = 0, v2_grouped_ciphertext_hi = 0\<rparr>,
     zk_percentage = demo_proof PercentageWithCap
       \<lparr>pw_percentage_commitment = 0, pw_delta_commitment = 0, pw_claimed_commitment = 0, pw_max_value = 0\<rparr>,
     zk_extract_commitment3 = ucast, zk_extract_commitment2 = ucast,
     zk_extract_ciphertext3 = demo_extract, zk_extract_ciphertext2 = demo_extract\<rparr>"

lemma demo_zk_curve [simp]: "zk_curve (demo_zk keys key new) = word_curve"
  by (simp add: demo_zk_def)

lemma demo_zk_group: "ristretto_group (zk_curve (demo_zk keys key new)) Some"
  by (simp add: word_curve_group)

lemma ucast_ucast_up [simp]: "ucast (ucast (x :: 256 word) :: 1024 word) = x"
  by (rule ucast_up_ucast_id) (simp add: is_up)

lemma demo_range_contexts: "range_contexts (demo_zk keys key new)"
  by (auto simp: range_contexts_def proven_context_def demo_zk_def demo_proof_def demo_range_def)

text \<open>With word points, a ciphertext with the handle zero decrypts to its commitment.\<close>

lemma opens_word [simp]: "opens Some s (ristretto_to_elgamal_ciphertext p 0) M \<longleftrightarrow> M = p"
  by (simp add: opens_def)

lemma zero_is_ristretto: "(0 :: ciphertext) = ristretto_to_elgamal_ciphertext 0 0"
  by (simp add: ristretto_to_elgamal_ciphertext_def to_le_zero from_le_def)

lemma opens_word_zero [simp]: "opens Some s 0 M \<longleftrightarrow> M = 0"
  by (simp add: zero_is_ristretto)

lemma word_arithmetic [simp]:
  "ct_add word_curve (ristretto_to_elgamal_ciphertext p 0) (ristretto_to_elgamal_ciphertext q 0) =
     Some (ristretto_to_elgamal_ciphertext (p + q) 0)"
  "ct_subtract word_curve (ristretto_to_elgamal_ciphertext p 0) (ristretto_to_elgamal_ciphertext q 0) =
     Some (ristretto_to_elgamal_ciphertext (p - q) 0)"
  "ct_multiply word_curve n (ristretto_to_elgamal_ciphertext p 0) = Some (ristretto_to_elgamal_ciphertext (n * p) 0)"
  by (simp_all add: ct_add_def ct_subtract_def ct_multiply_def word_curve_def)

text \<open>An account for the key \<open>key\<close> with \<open>x * G\<close> available.\<close>

definition demo_confidential :: "pubkey \<Rightarrow> point \<Rightarrow> ConfidentialTransferAccount" where
  "demo_confidential key available =
     (configured_account 1 key 0 100)\<lparr>cta_available_balance := ristretto_to_elgamal_ciphertext available 0\<rparr>"

lemma demo_valid [simp]:
  "valid_as_destination (demo_confidential key p) = Ok ()" "valid_as_source (demo_confidential key p) = Ok ()"
  by (simp_all add: valid_as_destination_def valid_as_source_def cta_is_approved_def demo_confidential_def
      configured_account_def checked_add_def pod_bool_def pod_bool_from_def)

definition account_entries :: "ConfidentialTransferAccount \<Rightarrow> (ExtensionType \<times> bytes) list" where
  "account_entries e = [(ExtensionType.ConfidentialTransferAccount, enc_ConfidentialTransferAccount e)]"

definition mint_entries :: "(ExtensionType \<times> bytes) list" where
  "mint_entries = [(ExtensionType.ConfidentialTransferMint,
     enc_ConfidentialTransferMint \<lparr>ctm_authority = 77, ctm_auto_approve_new_accounts = 1, ctm_auditor_elgamal_pubkey = 9\<rparr>)]"

lemma demo_entries_fit [simp]: "entries_fit (account_entries e)" "entries_fit mint_entries" "entries_fit []"
  by (simp_all add: entries_fit_def account_entries_def mint_entries_def wf_entry_def
      enc_ConfidentialTransferAccount_def enc_ConfidentialTransferMint_def)

lemma demo_account_get [simp]:
  "get_extension AccountBase ConfidentialTransferAccountX (buffer (account_entries e) n) = Ok e"
  by (rule cta.get_extension_entries)
     (use demo_entries_fit(1) [of e] in \<open>simp_all add: entries_fit_def account_entries_def ConfidentialTransferAccountX_def\<close>)

lemma demo_account_missing:
  assumes "EXT_TYPE E \<noteq> ExtensionType.ConfidentialTransferAccount" "get_account_type (EXT_TYPE E) = AccountType.Account"
  shows "\<exists>err. get_extension AccountBase E (buffer (account_entries e) n) = Err err"
  by (rule get_extension_buffer_missing)
     (use demo_entries_fit(1) [of e] assms in \<open>simp_all add: entries_fit_def account_entries_def\<close>)

end
