(* ===== verification/Elgamal_Registry.thy ===== *)
theory Elgamal_Registry
  imports Confidential_Builders Confidential_Scenario
begin

text \<open>
  The ElGamal registry program (src/confidential/elgamal-registry/src/processor.rs) and its instructions
  (src/confidential/elgamal-registry-interface/src): a wallet registers one encryption key at an address
  derived from it, and the token program configures accounts with it
  (\<open>process_configure_account_with_registry\<close>).  The derivation of program addresses is a parameter, as are the
  system program and the proof program.
\<close>

section \<open>Instructions\<close>

datatype RegistryInstruction = CreateRegistry u8 | UpdateRegistry u8

definition registry_unpack :: "bytes \<Rightarrow> RegistryInstruction result" where
  "registry_unpack input = (case input of
     [] \<Rightarrow> Err InvalidInstructionData
   | tag # rest \<Rightarrow>
       if tag = 0 then (case rest of [] \<Rightarrow> Err InvalidInstructionData
         | proof_instruction_offset # _ \<Rightarrow> Ok (CreateRegistry proof_instruction_offset))
       else if tag = 1 then (case rest of [] \<Rightarrow> Err InvalidInstructionData
         | proof_instruction_offset # _ \<Rightarrow> Ok (UpdateRegistry proof_instruction_offset))
       else Err InvalidInstructionData)"

definition registry_pack :: "RegistryInstruction \<Rightarrow> bytes" where
  "registry_pack i = (case i of
     CreateRegistry proof_instruction_offset \<Rightarrow> [0, proof_instruction_offset]
   | UpdateRegistry proof_instruction_offset \<Rightarrow> [1, proof_instruction_offset])"

text \<open>\<open>Pubkey::find_program_address\<close> with the seed of the registry: the address of a wallet and its bump.\<close>

type_synonym find_address = "pubkey \<Rightarrow> pubkey \<Rightarrow> pubkey \<times> u8"

definition get_elgamal_registry_address :: "find_address \<Rightarrow> pubkey \<Rightarrow> pubkey \<Rightarrow> pubkey" where
  "get_elgamal_registry_address pda wallet_address program_id = fst (pda wallet_address program_id)"

definition registry_append_zk_elgamal_proof ::
  "ProofClient \<Rightarrow> SolInstruction list \<Rightarrow> ProofLocation \<Rightarrow> SolInstruction list result" where
  "registry_append_zk_elgamal_proof C instructions l = (case l of
     InstructionOffset proof_instruction_offset proof_data \<Rightarrow>
       if proof_instruction_offset \<noteq> 1 then Err InvalidArgument
       else Ok (instructions @ [encode_verify_proof C VerifyPubkeyValidity proof_data])
   | ContextStateAccount _ \<Rightarrow> Ok instructions)"

definition create_registry :: "ProofClient \<Rightarrow> find_address \<Rightarrow> pubkey \<Rightarrow> ProofLocation \<Rightarrow> SolInstruction list result" where
  "create_registry C pda owner_address l =
     registry_append_zk_elgamal_proof C [\<lparr>ix_program_id = elgamal_registry_id,
       ix_accounts = [meta_new (get_elgamal_registry_address pda owner_address elgamal_registry_id) False,
           meta_readonly owner_address True, meta_readonly (pc_system_id C) False] @ proof_metas C l,
       ix_data = registry_pack (CreateRegistry (location_offset l))\<rparr>] l"

definition update_registry :: "ProofClient \<Rightarrow> find_address \<Rightarrow> pubkey \<Rightarrow> ProofLocation \<Rightarrow> SolInstruction list result" where
  "update_registry C pda owner_address l =
     registry_append_zk_elgamal_proof C [\<lparr>ix_program_id = elgamal_registry_id,
       ix_accounts = [meta_new (get_elgamal_registry_address pda owner_address elgamal_registry_id) False] @
           proof_metas C l @ [meta_readonly owner_address True],
       ix_data = registry_pack (UpdateRegistry (location_offset l))\<rparr>] l"

section \<open>The processor\<close>

definition create_pda_account ::
  "SystemProgram \<Rightarrow> Rent \<Rightarrow> nat \<Rightarrow> pubkey \<Rightarrow> AccountInfo \<Rightarrow> ledger \<Rightarrow> ledger result" where
  "create_pda_account sys rent space new_owner new_pda_account L =
     (let required_lamports = saturating_sub (minimum_balance rent space) (ac_lamports (L (ai_key new_pda_account)))
      in if 0 < required_lamports then Err AccountNotRentExempt
         else and_then (sys_allocate sys new_pda_account space L) (\<lambda>L. sys_assign sys new_pda_account new_owner L))"

definition process_create_registry_account ::
  "ZkSdk \<Rightarrow> Env \<Rightarrow> SystemProgram \<Rightarrow> find_address \<Rightarrow> pubkey \<Rightarrow> AccountInfo list \<Rightarrow> int \<Rightarrow> ledger \<Rightarrow> ledger result" where
  "process_create_registry_account zk env sys pda program_id accounts proof_instruction_offset L =
     and_then (next_account_info accounts) (\<lambda>(elgamal_registry_account_info, iter).
     and_then (next_account_info iter) (\<lambda>(wallet_account_info, iter).
     and_then (next_account_info iter) (\<lambda>(system_program_info, iter).
     if \<not> ai_is_signer wallet_account_info then Err MissingRequiredSignature
     else
     and_then (verify_and_extract_context zk (zk_pubkey_validity zk) (read_any L) L iter proof_instruction_offset None)
       (\<lambda>(pubkey, _).
     if fst (pda (ai_key wallet_account_info) program_id) \<noteq> ai_key elgamal_registry_account_info then Err InvalidSeeds
     else
     and_then (env_rent env) (\<lambda>rent.
     and_then (create_pda_account sys rent ELGAMAL_REGISTRY_ACCOUNT_LEN program_id elgamal_registry_account_info L) (\<lambda>L.
     and_then (registry_from_bytes (ac_data (L (ai_key elgamal_registry_account_info)))) (\<lambda>registry.
     Ok (set_data (ai_key elgamal_registry_account_info)
       (enc_registry (registry\<lparr>reg_owner := ai_key wallet_account_info, reg_elgamal_pubkey := pubkey\<rparr>)) L))))))))"

definition validate_registry_owner :: "AccountInfo \<Rightarrow> pubkey \<Rightarrow> unit result" where
  "validate_registry_owner owner_info expected_owner =
     (if expected_owner \<noteq> ai_key owner_info then Err InvalidAccountOwner
      else if \<not> ai_is_signer owner_info then Err MissingRequiredSignature else Ok ())"

definition validate_program_owner :: "account \<Rightarrow> pubkey \<Rightarrow> unit result" where
  "validate_program_owner registry program_id =
     (if ac_owner registry \<noteq> program_id then Err InvalidAccountOwner else Ok ())"

text \<open>The registry is mutably borrowed while the proof is read.\<close>

definition process_update_registry_account ::
  "ZkSdk \<Rightarrow> pubkey \<Rightarrow> AccountInfo list \<Rightarrow> int \<Rightarrow> ledger \<Rightarrow> ledger result" where
  "process_update_registry_account zk program_id accounts proof_instruction_offset L =
     and_then (next_account_info accounts) (\<lambda>(elgamal_registry_account_info, iter).
     let k = ai_key elgamal_registry_account_info
     in and_then (registry_from_bytes (ac_data (L k))) (\<lambda>registry.
     and_then (verify_and_extract_context zk (zk_pubkey_validity zk) (borrow_data k L) L iter proof_instruction_offset None)
       (\<lambda>(pubkey, iter).
     and_then (next_account_info iter) (\<lambda>(owner_info, _).
     and_then (validate_registry_owner owner_info (reg_owner registry)) (\<lambda>_.
     and_then (validate_program_owner (L k) program_id) (\<lambda>_.
     Ok (set_data k (enc_registry (registry\<lparr>reg_elgamal_pubkey := pubkey\<rparr>)) L)))))))"

definition process_registry_instruction ::
  "ZkSdk \<Rightarrow> Env \<Rightarrow> SystemProgram \<Rightarrow> find_address \<Rightarrow> pubkey \<Rightarrow> AccountInfo list \<Rightarrow> bytes \<Rightarrow> ledger \<Rightarrow> ledger result" where
  "process_registry_instruction zk env sys pda program_id accounts input L =
     and_then (registry_unpack input) (\<lambda>i. case i of
       CreateRegistry proof_instruction_offset \<Rightarrow>
         process_create_registry_account zk env sys pda program_id accounts (sint proof_instruction_offset) L
     | UpdateRegistry proof_instruction_offset \<Rightarrow>
         process_update_registry_account zk program_id accounts (sint proof_instruction_offset) L)"

section \<open>Effect of the operations\<close>

lemma registry_unpack_pack [simp]: "registry_unpack (registry_pack i @ rest) = Ok i"
  "registry_unpack (registry_pack i) = Ok i"
  by (cases i; simp add: registry_unpack_def registry_pack_def)+

lemma registry_from_enc [simp]: "registry_from_bytes (enc_registry r) = Ok r"
  by (cases r) (simp add: registry_from_bytes_def enc_registry_def dec_registry_def ELGAMAL_REGISTRY_ACCOUNT_LEN_def
      subslice_simps)

text \<open>The registry of an account of the program.\<close>

definition registered :: "pubkey \<Rightarrow> ledger \<Rightarrow> pubkey \<Rightarrow> ElGamalRegistry \<Rightarrow> bool" where
  "registered program_id L k r \<longleftrightarrow> ac_owner (L k) = program_id \<and> registry_from_bytes (ac_data (L k)) = Ok r"

lemma create_registry_effect:
  assumes "process_create_registry_account zk env sys pda program_id accounts offset L = Ok L'" "system_allocates sys"
  obtains wallet key where "wallet \<in> set accounts" "ai_is_signer wallet" "proven_context zk (zk_pubkey_validity zk) L key"
    "ac_data (L (fst (pda (ai_key wallet) program_id))) = []"
    "registered program_id L' (fst (pda (ai_key wallet) program_id)) \<lparr>reg_owner = ai_key wallet, reg_elgamal_pubkey = key\<rparr>"
    "\<And>j. j \<noteq> fst (pda (ai_key wallet) program_id) \<Longrightarrow> L' j = L j"
proof -
  obtain i wallet s iter key iter' rent L1 r where
    h: "accounts = i # wallet # s # iter" "ai_is_signer wallet"
      "verify_and_extract_context zk (zk_pubkey_validity zk) (read_any L) L iter offset None = Ok (key, iter')"
      "fst (pda (ai_key wallet) program_id) = ai_key i"
      "create_pda_account sys rent ELGAMAL_REGISTRY_ACCOUNT_LEN program_id i L = Ok L1"
      "L' = set_data (ai_key i) (enc_registry (r\<lparr>reg_owner := ai_key wallet, reg_elgamal_pubkey := key\<rparr>)) L1"
    using assms(1) by (auto simp: process_create_registry_account_def and_then_Ok next_account_info_Ok if_Err_Ok)
  obtain L2 where a: "sys_allocate sys i ELGAMAL_REGISTRY_ACCOUNT_LEN L = Ok L2" "sys_assign sys i program_id L2 = Ok L1"
    using h(5) by (auto simp: create_pda_account_def and_then_Ok Let_def split: if_splits)
  have L2: "ac_data (L (ai_key i)) = []" "L2 = set_data (ai_key i) (replicate ELGAMAL_REGISTRY_ACCOUNT_LEN 0) L"
    and L1: "L1 = L2(ai_key i := (L2 (ai_key i))\<lparr>ac_owner := program_id\<rparr>)"
    using a assms(2) unfolding system_allocates_def by blast+
  have r: "r\<lparr>reg_owner := ai_key wallet, reg_elgamal_pubkey := key\<rparr> =
      \<lparr>reg_owner = ai_key wallet, reg_elgamal_pubkey = key\<rparr>" by (cases r) simp
  show thesis
  proof (rule that)
    show "wallet \<in> set accounts" "ai_is_signer wallet" using h(1,2) by simp_all
    show "proven_context zk (zk_pubkey_validity zk) L key"
      using verify_and_extract_context_proven [OF h(3)] by simp
    show "ac_data (L (fst (pda (ai_key wallet) program_id))) = []" using h(4) L2(1) by simp
    show "registered program_id L' (fst (pda (ai_key wallet) program_id))
        \<lparr>reg_owner = ai_key wallet, reg_elgamal_pubkey = key\<rparr>"
      using h(4) by (simp add: registered_def h(6) r L1)
    show "L' j = L j" if "j \<noteq> fst (pda (ai_key wallet) program_id)" for j
      using that h(4) by (simp add: h(6) L1 L2(2) set_data_def)
  qed
qed

lemma validate_registry_Ok [res_simps]:
  "validate_registry_owner o_info k = Ok x \<longleftrightarrow> k = ai_key o_info \<and> ai_is_signer o_info"
  "validate_program_owner acc p = Ok x \<longleftrightarrow> ac_owner acc = p"
  by (auto simp: validate_registry_owner_def validate_program_owner_def)

lemma update_registry_effect:
  assumes "process_update_registry_account zk program_id accounts offset L = Ok L'"
  obtains k wallet key r where "wallet \<in> set accounts" "ai_is_signer wallet" "ai_key wallet = reg_owner r"
    "proven_context zk (zk_pubkey_validity zk) L key" "registered program_id L k r"
    "L' = set_data k (enc_registry (r\<lparr>reg_elgamal_pubkey := key\<rparr>)) L"
proof -
  obtain i iter where a: "accounts = i # iter"
    using assms by (cases accounts) (auto simp: process_update_registry_account_def next_account_info_def res_simps)
  obtain r where r: "registry_from_bytes (ac_data (L (ai_key i))) = Ok r"
    using assms unfolding process_update_registry_account_def a by (auto simp: next_account_info_def and_then_Ok Let_def)
  obtain key iter' where v:
      "verify_and_extract_context zk (zk_pubkey_validity zk) (borrow_data (ai_key i) L) L iter offset None = Ok (key, iter')"
    using assms unfolding process_update_registry_account_def a
    by (auto simp: next_account_info_def and_then_Ok Let_def r)
  have rest: "and_then (next_account_info iter') (\<lambda>(owner_info, _).
     and_then (validate_registry_owner owner_info (reg_owner r)) (\<lambda>_.
     and_then (validate_program_owner (L (ai_key i)) program_id) (\<lambda>_.
     Ok (set_data (ai_key i) (enc_registry (r\<lparr>reg_elgamal_pubkey := key\<rparr>)) L)))) = Ok L'"
    using assms unfolding process_update_registry_account_def a
    by (simp add: next_account_info_def Let_def r v)
  obtain wallet rest' where h: "iter' = wallet # rest'" "reg_owner r = ai_key wallet" "ai_is_signer wallet"
      "ac_owner (L (ai_key i)) = program_id"
      "L' = set_data (ai_key i) (enc_registry (r\<lparr>reg_elgamal_pubkey := key\<rparr>)) L"
    using rest by (cases iter') (auto simp: next_account_info_def and_then_Ok validate_registry_Ok)
  have "set iter' \<subseteq> set iter"
    using v by (cases iter) (auto simp: verify_and_extract_context_def res_simps split: if_splits)
  then have "wallet \<in> set accounts" using h(1) a by auto
  moreover have "proven_context zk (zk_pubkey_validity zk) L key"
    using verify_and_extract_context_proven [OF v] by simp
  ultimately show thesis using h r by (intro that [of wallet r key "ai_key i"]) (simp_all add: registered_def)
qed

section \<open>The registry over time\<close>

text \<open>
  What can happen to the ledger: an instruction of the registry program, or anything outside of it, which
  cannot change the data of accounts the program owns and can only hand it accounts whose data is zero, as the
  runtime guarantees.
\<close>

definition outside_step :: "pubkey \<Rightarrow> ledger \<Rightarrow> ledger \<Rightarrow> bool" where
  "outside_step program_id L L' \<longleftrightarrow>
     (\<forall>k. (ac_owner (L k) = program_id \<longrightarrow> ac_owner (L' k) = program_id \<and> ac_data (L' k) = ac_data (L k)) \<and>
        (ac_owner (L k) \<noteq> program_id \<longrightarrow> ac_owner (L' k) = program_id \<longrightarrow> set (ac_data (L' k)) \<subseteq> {0}))"

inductive registry_reachable ::
  "ZkSdk \<Rightarrow> Env \<Rightarrow> SystemProgram \<Rightarrow> find_address \<Rightarrow> pubkey \<Rightarrow> ledger \<Rightarrow> bool"
  for zk env sys pda program_id where
  start: "(\<And>k. ac_owner (L k) \<noteq> program_id) \<Longrightarrow> registry_reachable zk env sys pda program_id L"
| instruction: "registry_reachable zk env sys pda program_id L \<Longrightarrow>
     process_registry_instruction zk env sys pda program_id accounts input L = Ok L' \<Longrightarrow>
     registry_reachable zk env sys pda program_id L'"
| outside: "registry_reachable zk env sys pda program_id L \<Longrightarrow> outside_step program_id L L' \<Longrightarrow>
     registry_reachable zk env sys pda program_id L'"

lemma le_nat_all_zero: "set bs \<subseteq> {0} \<Longrightarrow> le_nat bs = 0"
  by (induction bs) auto

lemma from_le_all_zero: "set bs \<subseteq> {0} \<Longrightarrow> from_le bs = 0"
  by (simp add: from_le_def le_nat_all_zero)

lemma zero_registry:
  assumes "registry_from_bytes bs = Ok r" "set bs \<subseteq> {0}"
  shows "reg_owner r = 0"
proof -
  have "set (take 32 bs) \<subseteq> {0}" using set_take_subset assms(2) by (rule subset_trans)
  then show ?thesis using assms(1)
    by (auto simp: registry_from_bytes_def dec_registry_def subslice_def from_le_all_zero split: if_splits)
qed

text \<open>The two instructions as one step: who signed, what was there and what is there afterwards.\<close>

lemma registry_instruction_cases:
  assumes "process_registry_instruction zk env sys pda program_id accounts input L = Ok L'" "system_allocates sys"
  obtains (create) wallet key where "wallet \<in> set accounts" "ai_is_signer wallet"
      "proven_context zk (zk_pubkey_validity zk) L key" "ac_data (L (fst (pda (ai_key wallet) program_id))) = []"
      "registered program_id L' (fst (pda (ai_key wallet) program_id)) \<lparr>reg_owner = ai_key wallet, reg_elgamal_pubkey = key\<rparr>"
      "\<And>j. j \<noteq> fst (pda (ai_key wallet) program_id) \<Longrightarrow> L' j = L j"
  | (update) k wallet key r where "wallet \<in> set accounts" "ai_is_signer wallet" "ai_key wallet = reg_owner r"
      "proven_context zk (zk_pubkey_validity zk) L key" "registered program_id L k r"
      "L' = set_data k (enc_registry (r\<lparr>reg_elgamal_pubkey := key\<rparr>)) L"
proof -
  obtain i where i: "(case i of CreateRegistry n \<Rightarrow>
        process_create_registry_account zk env sys pda program_id accounts (sint n) L
      | UpdateRegistry n \<Rightarrow> process_update_registry_account zk program_id accounts (sint n) L) = Ok L'"
    using assms(1) by (auto simp: process_registry_instruction_def and_then_Ok)
  show thesis
  proof (cases i)
    case (CreateRegistry n)
    then have c: "process_create_registry_account zk env sys pda program_id accounts (sint n) L = Ok L'" using i by simp
    show thesis by (rule create_registry_effect [OF c assms(2)]) (rule create)
  next
    case (UpdateRegistry n)
    then have u: "process_update_registry_account zk program_id accounts (sint n) L = Ok L'" using i by simp
    show thesis by (rule update_registry_effect [OF u]) (rule update)
  qed
qed

lemma registered_unique: "registered p L k r \<Longrightarrow> registered p L k s \<Longrightarrow> r = s"
  by (simp add: registered_def)

lemma registered_not_empty: "registered p L k r \<Longrightarrow> ac_data (L k) \<noteq> []"
  by (auto simp: registered_def registry_from_bytes_def ELGAMAL_REGISTRY_ACCOUNT_LEN_def)

lemma registered_set_data [simp]:
  "registered p (set_data k (enc_registry s) L) k r \<longleftrightarrow> ac_owner (L k) = p \<and> r = s"
  "j \<noteq> k \<Longrightarrow> registered p (set_data k d L) j r = registered p L j r"
  by (auto simp: registered_def)

text \<open>
  An entry that was ever created is at the address of its owner, and its key was proven valid when it was
  registered.
\<close>

definition registry_inv ::
  "ZkSdk \<Rightarrow> Env \<Rightarrow> SystemProgram \<Rightarrow> find_address \<Rightarrow> pubkey \<Rightarrow> ledger \<Rightarrow> bool" where
  "registry_inv zk env sys pda program_id L \<longleftrightarrow>
     (\<forall>k r. registered program_id L k r \<longrightarrow> reg_owner r \<noteq> 0 \<longrightarrow> k = fst (pda (reg_owner r) program_id) \<and>
        (\<exists>L0. registry_reachable zk env sys pda program_id L0 \<and>
           proven_context zk (zk_pubkey_validity zk) L0 (reg_elgamal_pubkey r)))"

lemma registry_inv_outside:
  assumes "registry_inv zk env sys pda program_id L" "outside_step program_id L L'"
  shows "registry_inv zk env sys pda program_id L'"
proof -
  have "registered program_id L k r" if "registered program_id L' k r" "reg_owner r \<noteq> 0" for k r
  proof (cases "ac_owner (L k) = program_id")
    case True
    then show ?thesis using assms(2) that(1) by (simp add: outside_step_def registered_def)
  next
    case False
    then have "set (ac_data (L' k)) \<subseteq> {0}" using assms(2) that(1) by (simp add: outside_step_def registered_def)
    then show ?thesis using that zero_registry by (auto simp: registered_def)
  qed
  then show ?thesis using assms(1) unfolding registry_inv_def by blast
qed

lemma registry_inv_instruction:
  assumes "registry_inv zk env sys pda program_id L" "registry_reachable zk env sys pda program_id L"
    and "process_registry_instruction zk env sys pda program_id accounts input L = Ok L'" "system_allocates sys"
  shows "registry_inv zk env sys pda program_id L'"
  using assms(3,4)
proof (cases rule: registry_instruction_cases)
  case (create wallet key)
  show ?thesis unfolding registry_inv_def
  proof (intro allI impI)
    fix k r assume r: "registered program_id L' k r" "reg_owner r \<noteq> 0"
    show "k = fst (pda (reg_owner r) program_id) \<and> (\<exists>L0. registry_reachable zk env sys pda program_id L0 \<and>
        proven_context zk (zk_pubkey_validity zk) L0 (reg_elgamal_pubkey r))"
    proof (cases "k = fst (pda (ai_key wallet) program_id)")
      case True
      then have "r = \<lparr>reg_owner = ai_key wallet, reg_elgamal_pubkey = key\<rparr>"
        using registered_unique r(1) create(5) by simp
      then show ?thesis using True create(3) assms(2) by auto
    next
      case False
      then have "registered program_id L k r" using create(6) r(1) by (simp add: registered_def)
      then show ?thesis using assms(1) r(2) by (simp add: registry_inv_def)
    qed
  qed
next
  case (update j wallet key s)
  show ?thesis unfolding registry_inv_def
  proof (intro allI impI)
    fix k r assume r: "registered program_id L' k r" "reg_owner r \<noteq> 0"
    show "k = fst (pda (reg_owner r) program_id) \<and> (\<exists>L0. registry_reachable zk env sys pda program_id L0 \<and>
        proven_context zk (zk_pubkey_validity zk) L0 (reg_elgamal_pubkey r))"
    proof (cases "k = j")
      case True
      then have s: "r = s\<lparr>reg_elgamal_pubkey := key\<rparr>" using r(1) by (simp add: update(6))
      then have "j = fst (pda (reg_owner s) program_id)"
        using assms(1) update(5) r(2) by (simp add: registry_inv_def)
      then show ?thesis using True s update(4) assms(2) by auto
    next
      case False
      then have "registered program_id L k r" using r(1) by (simp add: update(6))
      then show ?thesis using assms(1) r(2) by (simp add: registry_inv_def)
    qed
  qed
qed

lemma registry_reachable_inv:
  assumes "registry_reachable zk env sys pda program_id L" "system_allocates sys"
  shows "registry_inv zk env sys pda program_id L"
  using assms(1)
proof (induction rule: registry_reachable.induct)
  case (start L)
  then show ?case by (simp add: registry_inv_def registered_def)
next
  case (instruction L accounts input L')
  then show ?case using registry_inv_instruction [OF _ _ _ assms(2)] by blast
next
  case (outside L L')
  then show ?case using registry_inv_outside by blast
qed

section \<open>What the registry promises\<close>

text \<open>
  C30: an instruction of the registry program changes a registered entry only if the wallet that
  owns it signed, keeps its owner, and stores a key that the proof program vouches for; every other account of
  the program keeps its data.
\<close>

theorem registered_key_changes_signed:
  assumes "process_registry_instruction zk env sys pda program_id accounts input L = Ok L'" "system_allocates sys"
    and "registered program_id L k r"
  shows "\<exists>r'. registered program_id L' k r' \<and> reg_owner r' = reg_owner r \<and>
    (r' \<noteq> r \<longrightarrow> (\<exists>wallet\<in>set accounts. ai_is_signer wallet \<and> ai_key wallet = reg_owner r) \<and>
       proven_context zk (zk_pubkey_validity zk) L (reg_elgamal_pubkey r') \<and> (\<forall>j. j \<noteq> k \<longrightarrow> L' j = L j))"
  using assms(1,2)
proof (cases rule: registry_instruction_cases)
  case (create wallet key)
  then have "L' k = L k" using registered_not_empty [OF assms(3)] by metis
  then show ?thesis using assms(3) by (intro exI [of _ r]) (simp add: registered_def)
next
  case (update j wallet key s)
  show ?thesis
  proof (cases "j = k")
    case True
    then have "s = r" using registered_unique update(5) assms(3) by blast
    then show ?thesis using update assms(3) True
      by (intro exI [of _ "r\<lparr>reg_elgamal_pubkey := key\<rparr>"]) (auto simp: registered_def)
  next
    case False
    then show ?thesis using assms(3) update(6) by (intro exI [of _ r]) simp
  qed
qed

text \<open>Configuring an account from a registry entry.\<close>

lemma set_confidential_account:
  assumes "init_extension AccountBase ConfidentialTransferAccountX False tlv0 = Ok tlv1"
    and "(if fee then and_then (init_extension AccountBase ConfidentialTransferFeeAmountX False
             (set_extension AccountBase ConfidentialTransferAccountX e tlv1)) (\<lambda>tlv.
           Ok (set_extension AccountBase ConfidentialTransferFeeAmountX w tlv))
         else Ok (set_extension AccountBase ConfidentialTransferAccountX e tlv1)) = Ok tlv2"
  shows "get_extension AccountBase ConfidentialTransferAccountX tlv2 = Ok e" "length tlv2 = length tlv0"
proof -
  note i = cta.init_extension_Ok [OF assms(1)]
  have s: "get_extension AccountBase ConfidentialTransferAccountX
      (set_extension AccountBase ConfidentialTransferAccountX e tlv1) = Ok e"
    by (rule cta.get_set_same [OF i(1)])
  have types: "EXT_TYPE ConfidentialTransferAccountX \<noteq> EXT_TYPE ConfidentialTransferFeeAmountX"
    by (simp add: ConfidentialTransferAccountX_def ConfidentialTransferFeeAmountX_def)
  show "get_extension AccountBase ConfidentialTransferAccountX tlv2 = Ok e"
    using assms(2) s cta.init_extension_other cfa.init_extension_other [OF _ types s] cfa.get_set_other [OF types]
    by (auto simp: and_then_Ok split: if_splits)
  show "length tlv2 = length tlv0"
    using assms(2) i(2) cfa.init_extension_Ok(2)
    by (auto simp: and_then_Ok cta.length_set_extension cfa.length_set_extension split: if_splits)
qed

lemma configure_from_registry:
  assumes "process_configure_account zk program_id (t # m # r # rest) z maximum (Registry reg) L = Ok L'"
    and "token_account (ac_data (L (ai_key t))) = Ok st"
  obtains st' e where "reg_owner reg = a_owner (base st)" "ac_owner (L (ai_key t)) = token_program_id"
    "token_account (ac_data (L' (ai_key t))) = Ok st'" "base st' = base st"
    "get_extension AccountBase ConfidentialTransferAccountX (tlv_data st') = Ok e"
    "cta_elgamal_pubkey e = reg_elgamal_pubkey reg" "\<And>j. j \<noteq> ai_key t \<Longrightarrow> L' j = L j"
    "\<And>j. ac_owner (L' j) = ac_owner (L j)"
proof -
  obtain e tlv1 tlv2 fee where h: "reg_owner reg = a_owner (base st)" "check_program_account (ac_owner (L (ai_key t))) = Ok ()"
      "init_extension AccountBase ConfidentialTransferAccountX False (tlv_data st) = Ok tlv1"
      "(if fee then and_then (init_extension AccountBase ConfidentialTransferFeeAmountX False
             (set_extension AccountBase ConfidentialTransferAccountX e tlv1)) (\<lambda>tlv.
           Ok (set_extension AccountBase ConfidentialTransferFeeAmountX \<lparr>cfa_withheld_amount = 0\<rparr> tlv))
         else Ok (set_extension AccountBase ConfidentialTransferAccountX e tlv1)) = Ok tlv2"
      "cta_elgamal_pubkey e = reg_elgamal_pubkey reg"
      "L' = set_data (ai_key t) (pack_state PodAccountB (st\<lparr>tlv_data := tlv2\<rparr>)) L"
    using assms(1) unfolding process_configure_account_def
    by (auto simp: assms(2) and_then_Ok if_Err_Ok if_Ok_Err Let_def configured_account_def simp del: if_split)
  note s = set_confidential_account [OF h(3,4)]
  have w: "token_account (pack_state PodAccountB (st\<lparr>tlv_data := tlv2\<rparr>)) = Ok (st\<lparr>tlv_data := tlv2\<rparr>)"
    using assms(2) s(2) token_account_initialized [OF assms(2)] by (intro token_account_write(1)) simp_all
  show thesis using h w s(1) that [of "st\<lparr>tlv_data := tlv2\<rparr>" e]
    by (auto simp: check_program_account_def set_data_def split: if_splits)
qed

text \<open>The fourth account, when there is one, pays for the room the confidential extensions need.\<close>

definition payers :: "AccountInfo list \<Rightarrow> pubkey set" where
  "payers rest = (case rest of [] \<Rightarrow> {} | payer # _ \<Rightarrow> {ai_key payer})"

lemma reallocate_for_configure_effect:
  assumes env: "resizes rs" "system_transfers env" "ai_key payer \<noteq> ai_key t"
    and st: "token_account (ac_data (L (ai_key t))) = Ok st"
    and run: "reallocate_for_configure_account_with_registry env rs t payer L = Ok L'"
  obtains st' where "token_account (ac_data (L' (ai_key t))) = Ok st'" "base st' = base st"
    "\<And>k. ac_owner (L' k) = ac_owner (L k)" "\<And>k. k \<noteq> ai_key t \<Longrightarrow> ac_data (L' k) = ac_data (L k)"
    "\<And>k. k \<noteq> ai_key t \<Longrightarrow> k \<noteq> ai_key payer \<Longrightarrow> L' k = L k"
proof -
  let ?k = "ai_key t" and ?d = "ac_data (L (ai_key t))"
  obtain types n where n: "try_calculate_account_len AccountBase types = Ok n"
    and g: "(if n \<le> length ?d then Ok L else
      and_then (rs ?k n L) (\<lambda>L. and_then (env_rent env) (\<lambda>rent.
      and_then (if saturating_sub (minimum_balance rent n) (ac_lamports (L ?k)) > 0
                then env_system_transfer env payer t (saturating_sub (minimum_balance rent n) (ac_lamports (L ?k))) L
                else Ok L) (\<lambda>L.
      and_then (set_account_type AccountBase (ac_data (L ?k))) (\<lambda>d. Ok (set_data ?k d L)))))) = Ok L'"
    using run unfolding reallocate_for_configure_account_with_registry_def and_then_Ok Let_def by blast
  show thesis
  proof (cases "n \<le> length ?d")
    case True
    then show ?thesis using g st by (intro that [of st]) simp_all
  next
    case False
    obtain L1 and rent :: Rent and L2 d where h: "rs ?k n L = Ok L1"
      "(if saturating_sub (minimum_balance rent n) (ac_lamports (L1 ?k)) > 0
        then env_system_transfer env payer t (saturating_sub (minimum_balance rent n) (ac_lamports (L1 ?k))) L1
        else Ok L1) = Ok L2"
      "set_account_type AccountBase (ac_data (L2 ?k)) = Ok d" "set_data ?k d L2 = L'"
      using g unfolding if_not_P [OF False] and_then_Ok sum.inject(2) by (elim exE conjE) (rule that, assumption+)
    note eq = h(4)
    note r1 = resizesD [OF env(1) h(1)]
    have r2: "ac_data (L2 j) = ac_data (L1 j)" "ac_owner (L2 j) = ac_owner (L1 j)"
      "j \<noteq> ?k \<Longrightarrow> j \<noteq> ai_key payer \<Longrightarrow> L2 j = L1 j" for j
      using h(2) system_transfersD [OF env(2) _ env(3), of _ L1 L2] by (auto split: if_splits)
    have len: "length ?d < n" "n \<noteq> MULTISIG_LEN"
      using False try_calculate_account_len_not_multisig [OF n] by simp_all
    have "165 \<le> length ?d" using st unfolding unpack_mut_account by auto
    with len have "166 \<le> n" by simp
    with len obtain i where
      "set_account_type AccountBase (resize_value n ?d) = Ok (account_prefix (base st) @ tlv_data st @ replicate i 0)"
      and l: "166 + length (tlv_data st) + i = n"
      by (elim grown_account [OF st]) simp_all
    then have d1: "d = account_prefix (base st) @ tlv_data st @ replicate i 0"
      using h(3) r2(1) [of ?k] by (simp add: r1)
    then have d: "d = account_prefix (base st) @ tlv_data st @ replicate i 0" "length d = n" using l by simp_all
    let ?st = "\<lparr>base = base st, tlv_data = tlv_data st @ replicate i 0, account_type = [account_type_code Account]\<rparr>"
    have "account_is_initialized (base st)" using st unfolding unpack_mut_account by simp
    then have "token_account d = Ok ?st"
      using d len(2) unfolding unpack_mut_account by simp
    then show ?thesis using r2 by (intro that [of ?st]) (simp_all add: eq [symmetric] r1 set_data_def)
  qed
qed

text \<open>
  C29: in every state the registry program can reach, configuring a token account from a registry entry,
  with or without a payer for the room it needs, uses an entry of the registry program for the owner of the token
  account and stores in the account the key registered there.  Unless the owner is the zero key, the entry is at
  the address derived from the owner and its key was proven valid when it was registered.  The token account keeps
  its base state and the other accounts their data and owner, and all but the payer keep their lamports.
\<close>

theorem configured_key_is_registered:
  assumes "registry_reachable zk env sys pda elgamal_registry_id L" "system_allocates sys"
    and "resizes rs" "system_transfers env" "ai_key t \<notin> payers rest"
    and "process_configure_account_with_registry zk env rs program_id (t # m # r # rest) L = Ok L'"
    and "token_account (ac_data (L (ai_key t))) = Ok st"
  shows "\<exists>reg st' e. registered elgamal_registry_id L (ai_key r) reg \<and> reg_owner reg = a_owner (base st) \<and>
    token_account (ac_data (L' (ai_key t))) = Ok st' \<and> base st' = base st \<and>
    get_extension AccountBase ConfidentialTransferAccountX (tlv_data st') = Ok e \<and>
    cta_elgamal_pubkey e = reg_elgamal_pubkey reg \<and>
    (a_owner (base st) \<noteq> 0 \<longrightarrow>
      ai_key r = get_elgamal_registry_address pda (a_owner (base st)) elgamal_registry_id \<and>
      (\<exists>L0. registry_reachable zk env sys pda elgamal_registry_id L0 \<and>
         proven_context zk (zk_pubkey_validity zk) L0 (cta_elgamal_pubkey e))) \<and>
    (\<forall>j. ac_owner (L' j) = ac_owner (L j) \<and> (j \<noteq> ai_key t \<longrightarrow> ac_data (L' j) = ac_data (L j)) \<and>
      (j \<noteq> ai_key t \<longrightarrow> j \<notin> payers rest \<longrightarrow> L' j = L j))"
proof -
  obtain reg L1 where h: "ac_owner (L (ai_key r)) = elgamal_registry_id"
      "(case rest of payer # sys # _ \<Rightarrow> reallocate_for_configure_account_with_registry env rs t payer L
         | [_] \<Rightarrow> Err NotEnoughAccountKeys | [] \<Rightarrow> Ok L) = Ok L1"
      "registry_from_bytes (ac_data (L1 (ai_key r))) = Ok reg"
      "process_configure_account zk program_id (t # m # r # rest) 0 DEFAULT_MAXIMUM_PENDING_BALANCE_CREDIT_COUNTER
         (Registry reg) L1 = Ok L'"
    using assms(6) unfolding process_configure_account_with_registry_def
    by (auto simp: and_then_Ok check_elgamal_registry_program_account_def next_account_info_def
        split: if_splits list.splits)
  have "\<exists>st1. token_account (ac_data (L1 (ai_key t))) = Ok st1 \<and> base st1 = base st \<and>
     (\<forall>j. ac_owner (L1 j) = ac_owner (L j) \<and> (j \<noteq> ai_key t \<longrightarrow> ac_data (L1 j) = ac_data (L j)) \<and>
       (j \<noteq> ai_key t \<longrightarrow> j \<notin> payers rest \<longrightarrow> L1 j = L j))"
  proof (cases rest)
    case Nil
    then show ?thesis using h(2) assms(7) by simp
  next
    case (Cons payer more)
    then have p: "reallocate_for_configure_account_with_registry env rs t payer L = Ok L1" "ai_key payer \<noteq> ai_key t"
      using h(2) assms(5) by (auto simp: payers_def split: list.splits)
    show ?thesis
      by (rule reallocate_for_configure_effect [OF assms(3,4) p(2) assms(7) p(1)]) (auto simp: Cons payers_def)
  qed
  then obtain st1 where s: "token_account (ac_data (L1 (ai_key t))) = Ok st1" "base st1 = base st"
    "\<And>j. ac_owner (L1 j) = ac_owner (L j)" "\<And>j. j \<noteq> ai_key t \<Longrightarrow> ac_data (L1 j) = ac_data (L j)"
    "\<And>j. j \<noteq> ai_key t \<Longrightarrow> j \<notin> payers rest \<Longrightarrow> L1 j = L j"
    by blast
  obtain st' e where c: "reg_owner reg = a_owner (base st1)" "ac_owner (L1 (ai_key t)) = token_program_id"
      "token_account (ac_data (L' (ai_key t))) = Ok st'" "base st' = base st1"
      "get_extension AccountBase ConfidentialTransferAccountX (tlv_data st') = Ok e"
      "cta_elgamal_pubkey e = reg_elgamal_pubkey reg" "\<And>j. j \<noteq> ai_key t \<Longrightarrow> L' j = L1 j"
      "\<And>j. ac_owner (L' j) = ac_owner (L1 j)"
    by (rule configure_from_registry [OF h(4) s(1)]) (rule that)
  have neq: "ai_key r \<noteq> ai_key t" using h(1) c(2) s(3) by (auto simp: elgamal_registry_id_def token_program_id_def)
  then have g: "registered elgamal_registry_id L (ai_key r) reg" using h(1,3) s(4) by (simp add: registered_def)
  have "ai_key r = fst (pda (a_owner (base st)) elgamal_registry_id) \<and>
      (\<exists>L0. registry_reachable zk env sys pda elgamal_registry_id L0 \<and>
         proven_context zk (zk_pubkey_validity zk) L0 (cta_elgamal_pubkey e))" if "a_owner (base st) \<noteq> 0"
    using registry_reachable_inv [OF assms(1,2)] g that unfolding registry_inv_def s(2) [symmetric] c(1) [symmetric] c(6)
    by blast
  then show ?thesis
    unfolding get_elgamal_registry_address_def using g c(1,3-8) s(2-5) by (intro exI [of _ reg] exI [of _ st'] exI [of _ e]) simp
qed

section \<open>A concrete registration\<close>

definition registry_env :: Env where
  "registry_env = demo_env\<lparr>env_system_transfer := demo_system_transfer\<rparr>"

lemma registry_env_transfers: "system_transfers registry_env"
  by (auto simp: system_transfers_def registry_env_def demo_system_transfer_def res_simps Let_def checked_add_unat)

definition demo_sys :: SystemProgram where
  "demo_sys = \<lparr>sys_allocate = (\<lambda>info n L. if ac_data (L (ai_key info)) = []
        then Ok (set_data (ai_key info) (replicate n 0) L) else Err InvalidArgument),
     sys_assign = (\<lambda>info p L. Ok (L(ai_key info := (L (ai_key info))\<lparr>ac_owner := p\<rparr>)))\<rparr>"

lemma demo_sys_allocates: "system_allocates demo_sys"
  by (auto simp: system_allocates_def demo_sys_def split: if_splits)

definition demo_pda :: find_address where
  "demo_pda = (\<lambda>wallet program_id. (wallet + 1000, 255))"

definition registry_demo :: ledger where
  "registry_demo = (set_data 10 (pack_state PodAccountB (ext_account (plain_account 1 20 100) (replicate 299 0)))
     (entries_ledger mint_entries [] []))(1020 := \<lparr>ac_lamports = 1, ac_data = [], ac_owner = 0\<rparr>)"

definition registered_demo :: ledger where
  "registered_demo = registry_demo(1020 := \<lparr>ac_lamports = 1,
     ac_data = enc_registry \<lparr>reg_owner = 20, reg_elgamal_pubkey = 5\<rparr>, ac_owner = elgamal_registry_id\<rparr>)"

lemma registry_demo_unowned: "ac_owner (registry_demo k) \<noteq> elgamal_registry_id"
  by (simp add: registry_demo_def entries_ledger_def demo_ledger_def set_data_def elgamal_registry_id_def
      token_program_id_def)

lemma registry_demo_create:
  "process_registry_instruction (demo_zk [] 5 0) registry_env demo_sys demo_pda elgamal_registry_id
     [unsigned_key 1020, signed_key 20, unsigned_key 0, unsigned_key 600] [0, 0] registry_demo = Ok registered_demo"
proof -
  have c: "verify_and_extract_context (demo_zk [] 5 0) (zk_pubkey_validity (demo_zk [] 5 0)) (read_any registry_demo)
      registry_demo [unsigned_key 600] 0 None = Ok (5, [])"
    by (simp add: verify_and_extract_context_def registry_demo_def entries_ledger_def demo_zk_def demo_proof_def
        check_zk_elgamal_proof_program_account_def)
  have z: "registry_from_bytes (replicate 64 0) = Ok r \<Longrightarrow> r\<lparr>reg_owner := 20, reg_elgamal_pubkey := 5\<rparr> =
      \<lparr>reg_owner = 20, reg_elgamal_pubkey = 5\<rparr>" for r by (cases r) simp
  have "\<exists>r. registry_from_bytes (replicate 64 0) = Ok r"
    by (simp add: registry_from_bytes_def ELGAMAL_REGISTRY_ACCOUNT_LEN_def)
  then obtain r where r: "registry_from_bytes (replicate 64 0) = Ok r" ..
  have "registry_unpack [0, 0] = Ok (CreateRegistry 0)" by (simp add: registry_unpack_def)
  moreover have "create_pda_account demo_sys \<lparr>is_exempt = (\<lambda>l n. True), minimum_balance = (\<lambda>n. 1)\<rparr>
      ELGAMAL_REGISTRY_ACCOUNT_LEN elgamal_registry_id (unsigned_key 1020) registry_demo =
      Ok (registry_demo(1020 := \<lparr>ac_lamports = 1, ac_data = replicate 64 0, ac_owner = elgamal_registry_id\<rparr>))"
    by (simp add: create_pda_account_def registry_demo_def demo_sys_def saturating_sub_def set_data_def
        ELGAMAL_REGISTRY_ACCOUNT_LEN_def)
  ultimately show ?thesis
    by (simp add: process_registry_instruction_def process_create_registry_account_def c demo_pda_def registry_env_def demo_env_def
        r z [OF r] registered_demo_def set_data_def)
qed

lemma registered_demo_reachable:
  "registry_reachable (demo_zk [] 5 0) registry_env demo_sys demo_pda elgamal_registry_id registered_demo"
  by (rule registry_reachable.instruction [OF registry_reachable.start registry_demo_create])
     (rule registry_demo_unowned)

text \<open>A zeroed buffer has room for a first entry.\<close>

context extension
begin

lemma init_zero_room:
  assumes "get_account_type (EXT_TYPE E) = ACCOUNT_TYPE S" "pod_len E < 2 ^ 16"
  shows "\<exists>t. init_extension S E overwr (replicate (4 + pod_len E) 0) = Ok t"
proof -
  let ?z = "replicate (4 + pod_len E) 0 :: bytes"
  have vu: "EXT_TYPE E \<noteq> ExtensionType.Uninitialized" using assms(1) by (cases S) auto
  then have "extension_type_code (EXT_TYPE E) \<noteq> 0" by (cases "EXT_TYPE E") simp_all
  then have "get_extension_indices (EXT_TYPE E) True ?z = Ok (get_tlv_indices 0)"
    by (simp add: get_extension_indices_def get_extension_indices_from.simps u16_at_zero_buffer Let_def)
  then show ?thesis
    using assms vu type_of_zero_buffer [of "4 + pod_len E"]
    by (simp add: init_extension_def alloc_def add_type_and_length_to_len_def length_try_from_def Let_def)
qed

end

lemma registered_demo_room:
  "\<exists>tlv. init_extension AccountBase ConfidentialTransferAccountX False (replicate 299 0) = Ok tlv"
  using cta.init_zero_room [of AccountBase False] by (simp add: ConfidentialTransferAccountX_def)

lemma registered_demo_states [simp]:
  "ac_owner (registered_demo 10) = token_program_id" "ac_owner (registered_demo 1) = token_program_id"
  "token_account (ac_data (registered_demo 10)) = Ok (ext_account (plain_account 1 20 100) (replicate 299 0))"
  "unpack PodMintB (ac_data (registered_demo 1)) = Ok \<lparr>base = plain_mint 30 150, tlv_data = buffer mint_entries 0\<rparr>"
  "registered_demo 1020 = \<lparr>ac_lamports = 1,
     ac_data = enc_registry \<lparr>reg_owner = 20, reg_elgamal_pubkey = 5\<rparr>, ac_owner = elgamal_registry_id\<rparr>"
  by (simp_all add: registered_demo_def registry_demo_def unpack_ext_account)

lemma registered_demo_configure:
  "\<exists>L'. process_configure_account_with_registry (demo_zk [] 5 0) registry_env rs token_program_id
     [unsigned_key 10, unsigned_key 1, unsigned_key 1020] registered_demo = Ok L'"
proof -
  obtain tlv where "init_extension AccountBase ConfidentialTransferAccountX False (replicate 299 0) = Ok tlv"
    using registered_demo_room by blast
  moreover obtain e where "get_extension MintBase TransferFeeConfigX (buffer mint_entries 0) = Err e"
    using get_extension_buffer_missing [of mint_entries TransferFeeConfigX MintBase 0]
    by (auto simp: mint_entries_def TransferFeeConfigX_def wf_entry_def enc_ConfidentialTransferMint_def)
  moreover have "get_extension MintBase ConfidentialTransferMintX (buffer mint_entries 0) =
      Ok \<lparr>ctm_authority = 77, ctm_auto_approve_new_accounts = 1, ctm_auditor_elgamal_pubkey = 9\<rparr>"
    by (rule ctm.get_extension_entries)
       (use demo_entries_fit(2) in \<open>simp_all add: entries_fit_def mint_entries_def ConfidentialTransferMintX_def\<close>)
  ultimately show ?thesis
    by (simp add: process_configure_account_with_registry_def process_configure_account_def next_account_info_def
        check_elgamal_registry_program_account_def check_program_account_def borrow_data_def try_borrow_data_def
        plain_account_def Let_def)
qed

theorem configured_key_is_registered_witness:
  "\<exists>L' st' e. process_configure_account_with_registry (demo_zk [] 5 0) registry_env resize_total token_program_id
     [unsigned_key 10, unsigned_key 1, unsigned_key 1020] registered_demo = Ok L' \<and>
     token_account (ac_data (L' 10)) = Ok st' \<and>
     get_extension AccountBase ConfidentialTransferAccountX (tlv_data st') = Ok e \<and> cta_elgamal_pubkey e = 5"
proof -
  obtain L' where L': "process_configure_account_with_registry (demo_zk [] 5 0) registry_env resize_total token_program_id
     [unsigned_key 10, unsigned_key 1, unsigned_key 1020] registered_demo = Ok L'"
    using registered_demo_configure by blast
  have "token_account (ac_data (registered_demo (ai_key (unsigned_key 10)))) =
      Ok (ext_account (plain_account 1 20 100) (replicate 299 0))" by simp
  from configured_key_is_registered [OF registered_demo_reachable demo_sys_allocates resizes_total
      registry_env_transfers _ L' this]
  obtain reg st' e where "registered elgamal_registry_id registered_demo 1020 reg"
    "token_account (ac_data (L' 10)) = Ok st'"
    "get_extension AccountBase ConfidentialTransferAccountX (tlv_data st') = Ok e"
    "cta_elgamal_pubkey e = reg_elgamal_pubkey reg"
    by (auto simp: plain_account_def payers_def)
  moreover from this(1) have "reg_elgamal_pubkey reg = 5" by (auto simp: registered_def)
  ultimately show ?thesis using L' by auto
qed

lemma registered_demo_update:
  "process_registry_instruction (demo_zk [] 6 0) registry_env demo_sys demo_pda elgamal_registry_id
     [unsigned_key 1020, unsigned_key 600, signed_key 20] [1, 0] registered_demo =
   Ok (set_data 1020 (enc_registry \<lparr>reg_owner = 20, reg_elgamal_pubkey = 6\<rparr>) registered_demo)"
proof -
  have "verify_and_extract_context (demo_zk [] 6 0) (zk_pubkey_validity (demo_zk [] 6 0)) (borrow_data 1020 registered_demo)
      registered_demo [unsigned_key 600, signed_key 20] 0 None = Ok (6, [signed_key 20])"
    by (simp add: verify_and_extract_context_def registered_demo_def registry_demo_def entries_ledger_def demo_zk_def
        demo_proof_def borrow_data_def try_borrow_data_def check_zk_elgamal_proof_program_account_def)
  then show ?thesis
    by (simp add: process_registry_instruction_def registry_unpack_def process_update_registry_account_def
        validate_registry_owner_def validate_program_owner_def Let_def)
qed

theorem registered_key_changes_signed_witness:
  "\<exists>r'. registered elgamal_registry_id
     (set_data 1020 (enc_registry \<lparr>reg_owner = 20, reg_elgamal_pubkey = 6\<rparr>) registered_demo) 1020 r' \<and> reg_owner r' = 20"
  using registered_key_changes_signed [OF registered_demo_update demo_sys_allocates, of 1020
      "\<lparr>reg_owner = 20, reg_elgamal_pubkey = 5\<rparr>"]
  by (auto simp: registered_def)

end
