(* ===== verification/Confidential_Laws.thy ===== *)
theory Confidential_Laws
  imports Confidential_Scenario
begin

text \<open>
  What confidential balances are worth: the ciphertexts of an account are read with the secret of its key,
  and the handlers of src/program/src/extension/confidential_transfer/processor.rs are shown to move value
  between the public, the pending and the available balance, and between accounts, without making or
  losing any.
\<close>

section \<open>Accounts with a confidential balance\<close>

definition confidential_account ::
  "ledger \<Rightarrow> pubkey \<Rightarrow> PodAccount PodStateWithExtensionsMut \<Rightarrow> ConfidentialTransferAccount \<Rightarrow> bool" where
  "confidential_account L k st e \<longleftrightarrow> token_account (ac_data (L k)) = Ok st \<and>
     get_extension AccountBase ConfidentialTransferAccountX (tlv_data st) = Ok e"

lemma confidential_account_unique:
  "confidential_account L k st e \<Longrightarrow> confidential_account L k st' e' \<Longrightarrow> st' = st \<and> e' = e"
  by (simp add: confidential_account_def)

lemma confidential_account_write:
  assumes "token_account d = Ok st" "get_extension AccountBase ConfidentialTransferAccountX (tlv_data st) = Ok e"
    and "account_is_initialized (base st')" "account_type st' = account_type st"
    and "tlv_data st' = set_extension AccountBase ConfidentialTransferAccountX e' (tlv_data st)"
  shows "confidential_account (set_data k (pack_state PodAccountB st') L) k st' e'"
  using token_account_write [OF assms(1,3,4)] cta.get_set_same [OF assms(2)] assms(5)
  by (simp add: confidential_account_def)

text \<open>
  What an account is worth, as a point: the public balance, the available balance and the pending balance,
  whose high part counts \<open>2 ^ 16\<close> times.
\<close>

definition confidential_value ::
  "(point \<Rightarrow> 'g::ab_group_add option) \<Rightarrow> nat \<Rightarrow> ConfidentialTransferAccount \<Rightarrow> 'g \<Rightarrow> bool" where
  "confidential_value decode s e M \<longleftrightarrow>
     (\<exists>A lo hi. opens decode s (cta_available_balance e) A \<and> opens decode s (cta_pending_balance_lo e) lo \<and>
        opens decode s (cta_pending_balance_hi e) hi \<and> M = A + (lo + scale 65536 hi))"

definition worth :: "(point \<Rightarrow> 'g::ab_group_add option) \<Rightarrow> nat \<Rightarrow> ledger \<Rightarrow> pubkey \<Rightarrow> 'g \<Rightarrow> bool" where
  "worth decode s L k M \<longleftrightarrow>
     (\<exists>st e V. confidential_account L k st e \<and> confidential_value decode s e V \<and>
        M = amount_point decode (unat (a_amount (base st))) + V)"

lemma worth_unique: "worth decode s L k M \<Longrightarrow> worth decode s L k N \<Longrightarrow> M = N"
  by (fastforce simp: worth_def confidential_value_def confidential_account_def dest: opens_unique)

text \<open>The account \<open>k\<close> changes its balance and its confidential state, and nothing else changes.\<close>

definition confidential_step ::
  "ledger \<Rightarrow> ledger \<Rightarrow> pubkey \<Rightarrow> u64 \<Rightarrow> ConfidentialTransferAccount \<Rightarrow> u64 \<Rightarrow> ConfidentialTransferAccount \<Rightarrow> bool" where
  "confidential_step L L' k x e x' e' \<longleftrightarrow>
     (\<exists>st st'. confidential_account L k st e \<and> confidential_account L' k st' e' \<and> a_amount (base st) = x \<and>
        base st' = (base st)\<lparr>a_amount := x'\<rparr>) \<and>
     (\<forall>j. j \<noteq> k \<longrightarrow> L' j = L j) \<and> ac_lamports (L' k) = ac_lamports (L k) \<and> ac_owner (L' k) = ac_owner (L k)"

lemma confidential_step_worth:
  assumes "confidential_step L L' k x e x' e'" "worth decode s L k M"
    and "\<And>V. confidential_value decode s e V \<Longrightarrow>
      \<exists>V'. confidential_value decode s e' V' \<and>
        amount_point decode (unat x') + V' = amount_point decode (unat x) + V + D"
  shows "worth decode s L' k (M + D)"
proof -
  obtain st st' where a: "confidential_account L k st e" "confidential_account L' k st' e'"
    "a_amount (base st) = x" "a_amount (base st') = x'"
    using assms(1) by (auto simp: confidential_step_def)
  obtain V where v: "confidential_value decode s e V" "M = amount_point decode (unat x) + V"
    using assms(2) a(1,3) by (auto simp: worth_def dest: confidential_account_unique [OF a(1)])
  from assms(3) [OF v(1)] obtain V' where "confidential_value decode s e' V'"
    "amount_point decode (unat x') + V' = M + D"
    using v(2) by auto
  then show ?thesis unfolding worth_def using a(2,4) by metis
qed

text \<open>A handler that writes the confidential state of an unpacked account makes such a step.\<close>

lemma confidential_step_write:
  assumes "token_account (ac_data (L k)) = Ok st"
    and "get_extension_mut AccountBase ConfidentialTransferAccountX (tlv_data st) = Ok (e, i)"
    and "L' = set_data k (pack_state PodAccountB (st\<lparr>base := (base st)\<lparr>a_amount := x'\<rparr>, tlv_data :=
      set_extension AccountBase ConfidentialTransferAccountX e' (tlv_data st)\<rparr>)) L"
  shows "confidential_account L k st e" "confidential_step L L' k (a_amount (base st)) e x' e'"
proof -
  note g = get_extension_mut_Ok_get [OF assms(2)]
  let ?st' = "st\<lparr>base := (base st)\<lparr>a_amount := x'\<rparr>, tlv_data :=
      set_extension AccountBase ConfidentialTransferAccountX e' (tlv_data st)\<rparr>"
  show c: "confidential_account L k st e" using assms(1) g by (simp add: confidential_account_def)
  have "confidential_account L' k ?st' e'"
    unfolding assms(3) using token_account_initialized [OF assms(1)]
    by (intro confidential_account_write [OF assms(1) g]) simp_all
  with c show "confidential_step L L' k (a_amount (base st)) e x' e'"
    unfolding confidential_step_def by (intro conjI exI [of _ st] exI [of _ ?st']) (auto simp: assms(3))
qed

text \<open>The same when the balance stays.\<close>

lemma confidential_step_store:
  assumes "token_account (ac_data (L k)) = Ok st"
    and "get_extension_mut AccountBase ConfidentialTransferAccountX (tlv_data st) = Ok (e, i)"
    and "L' = set_data k (pack_state PodAccountB (st\<lparr>tlv_data :=
      set_extension AccountBase ConfidentialTransferAccountX e' (tlv_data st)\<rparr>)) L"
  shows "confidential_account L k st e" "confidential_step L L' k (a_amount (base st)) e (a_amount (base st)) e'"
  using confidential_step_write [where x' = "a_amount (base st)", of L k st e i L' e', OF assms(1,2)] assms(3) by simp_all

section \<open>Settings, applying the pending balance, emptying\<close>

lemma update_confidential_account_Ok:
  assumes "update_confidential_account f program_id t a rest L = Ok L'"
  obtains st e e' where "confidential_account L (ai_key t) st e" "f e = Ok e'"
    "confidential_step L L' (ai_key t) (a_amount (base st)) e (a_amount (base st)) e'"
    "a_owner (base st) = ai_key a" "owner_signed program_id L a rest"
proof -
  obtain st e i e' where h: "token_account (ac_data (L (ai_key t))) = Ok st"
    "get_extension_mut AccountBase ConfidentialTransferAccountX (tlv_data st) = Ok (e, i)" "f e = Ok e'"
    "a_owner (base st) = ai_key a" "owner_signed program_id L a rest"
    "L' = set_data (ai_key t) (pack_state PodAccountB (st\<lparr>tlv_data :=
      set_extension AccountBase ConfidentialTransferAccountX e' (tlv_data st)\<rparr>)) L"
    using assms by (auto simp: update_confidential_account_def res_simps)
  show ?thesis using that confidential_step_store [of L "ai_key t", OF h(1,2,6)] h(3-5) by blast
qed

lemma apply_pending_balance_value:
  assumes "ristretto_group C decode" "apply_pending_balance C n d e = Ok e'" "confidential_value decode s e V"
  shows "confidential_value decode s e' V"
proof -
  obtain A lo hi where o: "opens decode s (cta_available_balance e) A" "opens decode s (cta_pending_balance_lo e) lo"
    "opens decode s (cta_pending_balance_hi e) hi" "V = A + (lo + scale 65536 hi)"
    using assms(3) by (auto simp: confidential_value_def)
  show ?thesis
    using add_with_lo_hi_opens [OF assms(1) o(1-3)] assms(2) zero_opens [OF assms(1), of s] o(4)
    unfolding confidential_value_def
    by (auto simp: apply_pending_balance_def res_simps) (metis add.right_neutral scale_zero)
qed

section \<open>Deposits and withdrawals\<close>

lemma split_deposit_amount:
  assumes "verify_and_split_deposit_amount n = Ok (lo, hi)"
  shows "unat lo + 65536 * unat hi = unat n" "unat lo < 2 ^ 16" "unat hi < 2 ^ 32"
proof -
  have lo: "unat (n AND 0xFFFF) = unat n mod 65536"
  proof -
    have "n AND 0xFFFF = take_bit 16 n" by (simp add: take_bit_eq_mask mask_eq_exp_minus_1)
    then show ?thesis by (simp add: take_bit_eq_mod unat_mod)
  qed
  have hi: "unat (drop_bit 16 n) = unat n div 65536" by (simp add: drop_bit_eq_div unat_div)
  have "n \<le> MAXIMUM_DEPOSIT_TRANSFER_AMOUNT" and e: "lo = n AND 0xFFFF" "hi = drop_bit 16 n"
    using assms by (auto simp: verify_and_split_deposit_amount_def not_less split: if_splits)
  then have "unat n < 2 ^ 48"
    by (simp add: MAXIMUM_DEPOSIT_TRANSFER_AMOUNT_def word_le_nat_alt)
  then show "unat lo + 65536 * unat hi = unat n" "unat lo < 2 ^ 16" "unat hi < 2 ^ 32"
    using lo hi by (simp_all add: e div_less_iff_less_mult)
qed

lemma credit_amount:
  assumes "ristretto_group C decode" "opens decode s c M"
    and "(if n > 0 then ok_or (add_to C c n) (token_error CiphertextArithmeticFailed) else Ok c) = Ok c'"
  shows "opens decode s c' (M + amount_point decode (unat n))"
proof (cases "n > 0")
  case True
  with assms(3) add_to_opens [OF assms(1,2), of n] show ?thesis by (auto simp: res_simps)
next
  case False
  then have "n = 0" by (simp add: not_less)
  with assms(2,3) show ?thesis by (simp add: amount_point_def)
qed

lemma increment_counter_Ok:
  "increment_pending_balance_credit_counter e = Ok e' \<Longrightarrow>
     e' = e\<lparr>cta_pending_balance_credit_counter := cta_pending_balance_credit_counter e + 1\<rparr>"
  by (auto simp: increment_pending_balance_credit_counter_def res_simps checked_add_Some)

lemma credit_deposit_value:
  assumes "ristretto_group C decode" "credit_deposit C n e = Ok e'" "confidential_value decode s e V"
  shows "confidential_value decode s e' (V + amount_point decode (unat n))"
proof -
  obtain A lo hi where o: "opens decode s (cta_available_balance e) A" "opens decode s (cta_pending_balance_lo e) lo"
    "opens decode s (cta_pending_balance_hi e) hi" "V = A + (lo + scale 65536 hi)"
    using assms(3) by (auto simp: confidential_value_def)
  obtain nl nh cl ch where c: "verify_and_split_deposit_amount n = Ok (nl, nh)"
    "(if nl > 0 then ok_or (add_to C (cta_pending_balance_lo e) nl) (token_error CiphertextArithmeticFailed)
      else Ok (cta_pending_balance_lo e)) = Ok cl"
    "(if nh > 0 then ok_or (add_to C (cta_pending_balance_hi e) nh) (token_error CiphertextArithmeticFailed)
      else Ok (cta_pending_balance_hi e)) = Ok ch"
    "increment_pending_balance_credit_counter (e\<lparr>cta_pending_balance_lo := cl, cta_pending_balance_hi := ch\<rparr>) = Ok e'"
    using assms(2) by (auto simp: credit_deposit_def and_then_Ok)
  have "amount_point decode (unat n) = amount_point decode (unat nl) + scale 65536 (amount_point decode (unat nh))"
    using split_deposit_amount(1) [OF c(1)] by (metis amount_point_add amount_point_times)
  then have "V + amount_point decode (unat n) = A + ((lo + amount_point decode (unat nl)) +
      scale 65536 (hi + amount_point decode (unat nh)))"
    by (simp add: o(4) scale_point_add algebra_simps)
  then show ?thesis
    unfolding confidential_value_def
    using o(1) credit_amount [OF assms(1) o(2) c(2)] credit_amount [OF assms(1) o(3) c(3)] increment_counter_Ok [OF c(4)]
    by auto
qed

lemma process_deposit_Ok:
  assumes "process_deposit zk program_id (t # m # a # rest) n decimals L = Ok L'"
  obtains x e x' e' mint where "confidential_step L L' (ai_key t) x e x' e'" "checked_sub x n = Some x'"
    "credit_deposit (zk_curve zk) n e = Ok e'" "unpack PodMintB (ac_data (L (ai_key m))) = Ok mint"
    "check_not_paused (tlv_data mint) = Ok ()" "owner_signed program_id L a rest"
    "\<exists>st. confidential_account L (ai_key t) st e \<and> a_owner (base st) = ai_key a \<and> \<not> account_is_frozen (base st) \<and>
      a_mint (base st) = ai_key m"
proof -
  obtain mint st x' e i e' where h: "unpack PodMintB (ac_data (L (ai_key m))) = Ok mint"
    "check_not_paused (tlv_data mint) = Ok ()" "token_account (ac_data (L (ai_key t))) = Ok st"
    "check_conversion_account program_id L m a rest (data_len L a) st = Ok ()"
    "checked_sub (a_amount (base st)) n = Some x'"
    "get_extension_mut AccountBase ConfidentialTransferAccountX (tlv_data st) = Ok (e, i)"
    "credit_deposit (zk_curve zk) n e = Ok e'"
    "L' = set_data (ai_key t) (pack_state PodAccountB (st\<lparr>base := (base st)\<lparr>a_amount := x'\<rparr>, tlv_data :=
      set_extension AccountBase ConfidentialTransferAccountX e' (tlv_data st)\<rparr>)) L"
    using assms by (auto simp: process_deposit_def res_simps split: if_splits)
  note c = confidential_step_write [of L "ai_key t", OF h(3,6,8)]
  show ?thesis
    by (rule that [OF c(2) h(5,7,1,2)]) (use h(4) c(1) in \<open>auto simp: check_conversion_account_def res_simps\<close>)
qed

lemma debit_withdrawal_value:
  assumes "ristretto_group C decode" "debit_withdrawal C p n d e = Ok e'" "confidential_value decode s e V"
  shows "confidential_value decode s e' (V - amount_point decode (unat n))"
proof -
  obtain A lo hi where o: "opens decode s (cta_available_balance e) A" "opens decode s (cta_pending_balance_lo e) lo"
    "opens decode s (cta_pending_balance_hi e) hi" "V = A + (lo + scale 65536 hi)"
    using assms(3) by (auto simp: confidential_value_def)
  obtain c where c: "(if n > 0 then ok_or (subtract_from C (cta_available_balance e) n) (token_error CiphertextArithmeticFailed)
      else Ok (cta_available_balance e)) = Ok c"
    "e' = e\<lparr>cta_available_balance := c, cta_decryptable_available_balance := d\<rparr>"
    using assms(2) by (auto simp: debit_withdrawal_def and_then_Ok split: if_splits)
  have "opens decode s c (A - amount_point decode (unat n))"
  proof (cases "n > 0")
    case True
    with c(1) subtract_from_opens [OF assms(1) o(1), of n] show ?thesis by (auto simp: res_simps)
  next
    case False
    then have "n = 0" by (simp add: not_less)
    with o(1) c(1) show ?thesis by (simp add: amount_point_def)
  qed
  then show ?thesis
    unfolding confidential_value_def using o c(2)
    by (intro exI [of _ "A - amount_point decode (unat n)"] exI [of _ lo] exI [of _ hi]) (simp add: algebra_simps)
qed

lemma process_withdraw_Ok:
  assumes "process_withdraw zk program_id (t # m # accounts) n decimals d eo ro L = Ok L'"
  obtains p a rest x e x' e' where "verify_withdraw_proof zk (read_any L) L accounts eo ro = Ok (p, a # rest)"
    "confidential_step L L' (ai_key t) x e x' e'" "checked_add x n = Some x'"
    "debit_withdrawal (zk_curve zk) p n d e = Ok e'" "owner_signed program_id L a rest"
    "\<exists>st. confidential_account L (ai_key t) st e \<and> a_owner (base st) = ai_key a \<and> \<not> account_is_frozen (base st) \<and>
      a_mint (base st) = ai_key m"
proof -
  obtain p a rest mint st x' e i e' where h:
    "verify_withdraw_proof zk (read_any L) L accounts eo ro = Ok (p, a # rest)"
    "unpack PodMintB (ac_data (L (ai_key m))) = Ok mint" "token_account (ac_data (L (ai_key t))) = Ok st"
    "check_conversion_account program_id L m a rest (data_len L a) st = Ok ()"
    "checked_add (a_amount (base st)) n = Some x'"
    "get_extension_mut AccountBase ConfidentialTransferAccountX (tlv_data st) = Ok (e, i)"
    "debit_withdrawal (zk_curve zk) p n d e = Ok e'"
    "L' = set_data (ai_key t) (pack_state PodAccountB (st\<lparr>base := (base st)\<lparr>a_amount := x'\<rparr>, tlv_data :=
      set_extension AccountBase ConfidentialTransferAccountX e' (tlv_data st)\<rparr>)) L"
    using assms by (auto simp: process_withdraw_def res_simps split: if_splits)
  note c = confidential_step_write [of L "ai_key t", OF h(3,6,8)]
  show ?thesis
    by (rule that [OF h(1) c(2) h(5,7)]) (use h(4) c(1) in \<open>auto simp: check_conversion_account_def res_simps\<close>)
qed

text \<open>
  What a conversion promises: the account is worth as much as before, the account \<open>a\<close> of the instruction is its
  owner and signed, itself or by the accounts \<open>rest\<close> after it, and no other account changes.
\<close>

definition value_kept ::
  "(point \<Rightarrow> 'g::ab_group_add option) \<Rightarrow> nat \<Rightarrow> pubkey \<Rightarrow> AccountInfo \<Rightarrow> AccountInfo list \<Rightarrow> ledger \<Rightarrow> ledger \<Rightarrow>
     pubkey \<Rightarrow> 'g \<Rightarrow> bool" where
  "value_kept decode s program_id a rest L L' k M \<longleftrightarrow> worth decode s L' k M \<and> (\<forall>j. j \<noteq> k \<longrightarrow> L' j = L j) \<and>
     (\<exists>st e. confidential_account L k st e \<and> a_owner (base st) = ai_key a \<and> owner_signed program_id L a rest)"

lemma value_keptI:
  assumes "confidential_step L L' k x e x' e'" "worth decode s L' k M" "confidential_account L k st e"
    "a_owner (base st) = ai_key a" "owner_signed program_id L a rest"
  shows "value_kept decode s program_id a rest L L' k M"
  using assms unfolding value_kept_def confidential_step_def by blast

lemma deposit_worth:
  assumes "ristretto_group (zk_curve zk) decode" "process_deposit zk program_id (t # m # a # rest) n decimals L = Ok L'"
    and "worth decode s L (ai_key t) M"
  shows "value_kept decode s program_id a rest L L' (ai_key t) M"
proof (rule process_deposit_Ok [OF assms(2)])
  fix x e x' e'
  assume h: "confidential_step L L' (ai_key t) x e x' e'" "checked_sub x n = Some x'"
    "credit_deposit (zk_curve zk) n e = Ok e'" "owner_signed program_id L a rest"
    "\<exists>st. confidential_account L (ai_key t) st e \<and> a_owner (base st) = ai_key a \<and> \<not> account_is_frozen (base st) \<and>
      a_mint (base st) = ai_key m"
  have "amount_point decode (unat x) = amount_point decode (unat x') + amount_point decode (unat n)"
    using checked_sub_unat [OF h(2)] by (metis amount_point_add)
  note eq = this
  have "worth decode s L' (ai_key t) (M + 0)"
  proof (rule confidential_step_worth [OF h(1) assms(3)])
    fix V assume "confidential_value decode s e V"
    from credit_deposit_value [OF assms(1) h(3) this] eq
    show "\<exists>V'. confidential_value decode s e' V' \<and>
        amount_point decode (unat x') + V' = amount_point decode (unat x) + V + 0"
      by (intro exI [of _ "V + amount_point decode (unat n)"]) (simp add: algebra_simps)
  qed
  then show ?thesis using h(1,4,5) value_keptI by fastforce
qed

lemma withdraw_worth:
  assumes "ristretto_group (zk_curve zk) decode"
    and "process_withdraw zk program_id (t # m # accounts) n decimals d eo ro L = Ok L'"
    and "worth decode s L (ai_key t) M"
  shows "\<exists>p a rest. verify_withdraw_proof zk (read_any L) L accounts eo ro = Ok (p, a # rest) \<and>
    value_kept decode s program_id a rest L L' (ai_key t) M"
proof (rule process_withdraw_Ok [OF assms(2)])
  fix p a rest x e x' e'
  assume v: "verify_withdraw_proof zk (read_any L) L accounts eo ro = Ok (p, a # rest)"
  assume h: "confidential_step L L' (ai_key t) x e x' e'" "checked_add x n = Some x'"
    "debit_withdrawal (zk_curve zk) p n d e = Ok e'" "owner_signed program_id L a rest"
    "\<exists>st. confidential_account L (ai_key t) st e \<and> a_owner (base st) = ai_key a \<and> \<not> account_is_frozen (base st) \<and>
      a_mint (base st) = ai_key m"
  have "amount_point decode (unat x') = amount_point decode (unat x) + amount_point decode (unat n)"
    using checked_add_unat [OF h(2)] by (simp add: amount_point_add)
  note eq = this
  have "worth decode s L' (ai_key t) (M + 0)"
  proof (rule confidential_step_worth [OF h(1) assms(3)])
    fix V assume "confidential_value decode s e V"
    from debit_withdrawal_value [OF assms(1) h(3) this] eq
    show "\<exists>V'. confidential_value decode s e' V' \<and>
        amount_point decode (unat x') + V' = amount_point decode (unat x) + V + 0"
      by (intro exI [of _ "V - amount_point decode (unat n)"]) (simp add: algebra_simps)
  qed
  then have "value_kept decode s program_id a rest L L' (ai_key t) M" using h(1,4,5) value_keptI by fastforce
  with v show ?thesis by blast
qed

lemma apply_pending_balance_worth:
  assumes "ristretto_group (zk_curve zk) decode"
    and "process_apply_pending_balance zk program_id (t # a # rest) n d L = Ok L'" "worth decode s L (ai_key t) M"
  shows "value_kept decode s program_id a rest L L' (ai_key t) M"
proof -
  have "update_confidential_account (apply_pending_balance (zk_curve zk) n d) program_id t a rest L = Ok L'"
    using assms(2) by (simp add: process_apply_pending_balance_def)
  then show ?thesis
  proof (rule update_confidential_account_Ok)
    fix st e e'
    assume h: "apply_pending_balance (zk_curve zk) n d e = Ok e'"
      "confidential_step L L' (ai_key t) (a_amount (base st)) e (a_amount (base st)) e'"
      "confidential_account L (ai_key t) st e" "a_owner (base st) = ai_key a" "owner_signed program_id L a rest"
    have "worth decode s L' (ai_key t) M"
      using confidential_step_worth [OF h(2) assms(3), of 0] apply_pending_balance_value [OF assms(1) h(1), of s]
      by auto
    then show ?thesis by (rule value_keptI [OF h(2) _ h(3-5)])
  qed
qed

section \<open>Property: conversions keep the value\<close>

text \<open>
  C23: a deposit, a withdrawal and the application of the pending balance leave the account worth exactly
  what it was worth: the public balance plus what the available and the pending ciphertexts decrypt to.  No other
  account changes, and the account the instruction names as the authority, after the proof accounts of a withdrawal, is
  the owner and signed, itself or by the accounts after it.
\<close>

theorem conversion_keeps_value:
  assumes "ristretto_group (zk_curve zk) decode" "worth decode s L (ai_key t) M"
    and "process_deposit zk program_id (t # m # a # rest) n decimals L = Ok L' \<or>
      process_withdraw zk program_id (t # m # accounts) n decimals d equality_offset range_offset L = Ok L' \<or>
      process_apply_pending_balance zk program_id (t # a # rest) counter d L = Ok L'"
  shows "((process_deposit zk program_id (t # m # a # rest) n decimals L = Ok L' \<or>
       process_apply_pending_balance zk program_id (t # a # rest) counter d L = Ok L') \<and>
      value_kept decode s program_id a rest L L' (ai_key t) M) \<or>
    (process_withdraw zk program_id (t # m # accounts) n decimals d equality_offset range_offset L = Ok L' \<and>
      (\<exists>p a rest. verify_withdraw_proof zk (read_any L) L accounts equality_offset range_offset = Ok (p, a # rest) \<and>
         value_kept decode s program_id a rest L L' (ai_key t) M))"
  using assms(3)
proof (elim disjE)
  assume run: "process_deposit zk program_id (t # m # a # rest) n decimals L = Ok L'"
  show ?thesis by (intro disjI1 conjI deposit_worth [OF assms(1) run assms(2)]) (rule run)
next
  assume run: "process_withdraw zk program_id (t # m # accounts) n decimals d equality_offset range_offset L = Ok L'"
  show ?thesis by (intro disjI2 conjI withdraw_worth [OF assms(1) run assms(2)]) (rule run)
next
  assume run: "process_apply_pending_balance zk program_id (t # a # rest) counter d L = Ok L'"
  have "value_kept decode s program_id a rest L L' (ai_key t) M"
    by (rule apply_pending_balance_worth [OF assms(1) run assms(2)])
  with run show ?thesis by simp
qed

definition deposit_ledger :: ledger where
  "deposit_ledger = entries_ledger [] [] (account_entries (demo_confidential 5 (10 * G_POINT)))"

lemma demo_credit_deposit: "\<exists>e'. credit_deposit word_curve 30 (demo_confidential key p) = Ok e'"
  using demo_valid(1) [of key p]
  by (simp add: credit_deposit_def verify_and_split_deposit_amount_def MAXIMUM_DEPOSIT_TRANSFER_AMOUNT_def add_to_def
      word_curve_def increment_pending_balance_credit_counter_def checked_add_def demo_confidential_def
      configured_account_def split_beta)

lemma demo_deposit:
  "\<exists>L'. process_deposit (demo_zk [] 5 0) token_program_id [unsigned_key 11, unsigned_key 1, signed_key 21] 30 2
     deposit_ledger = Ok L'"
proof -
  let ?e = "demo_confidential 5 (10 * G_POINT)"
  obtain i where i: "get_extension_mut AccountBase ConfidentialTransferAccountX (buffer (account_entries ?e) 0) = Ok (?e, i)"
    using extension_mut_exists [OF demo_account_get] by blast
  obtain err where m: "get_extension AccountBase NonTransferableAccountX (buffer (account_entries ?e) 0) = Err err"
    using demo_account_missing [of NonTransferableAccountX] by auto
  have v: "validate_owner token_program_id deposit_ledger 21 (signed_key 21) (data_len deposit_ledger (signed_key 21)) [] = Ok ()"
    by (rule validate_owner_plain) (simp add: deposit_ledger_def)
  obtain e' where "credit_deposit word_curve 30 ?e = Ok e'" using demo_credit_deposit by blast
  then show ?thesis
    using v i m
    by (simp add: process_deposit_def deposit_ledger_def check_conversion_account_def borrow_data_def
        check_program_account_def check_not_paused_def checked_sub_def)
qed

theorem conversion_keeps_value_witness:
  "\<exists>L'. process_deposit (demo_zk [] 5 0) token_program_id [unsigned_key 11, unsigned_key 1, signed_key 21] 30 2
     deposit_ledger = Ok L' \<and> worth Some 7 L' 11 (60 * G_POINT)"
proof -
  obtain L' where l: "process_deposit (demo_zk [] 5 0) token_program_id [unsigned_key 11, unsigned_key 1, signed_key 21] 30 2
     deposit_ledger = Ok L'" using demo_deposit by blast
  have w: "worth Some 7 deposit_ledger (ai_key (unsigned_key 11)) (60 * G_POINT)"
    unfolding worth_def confidential_value_def confidential_account_def
    by (simp add: deposit_ledger_def demo_confidential_def configured_account_def amount_point_def scale_word plain_account_def)
  show ?thesis
    using conversion_keeps_value [OF demo_zk_group w disjI1, OF l] l by (auto simp: value_kept_def)
qed

end
