(* ===== verification/Confidential_Conservation.thy ===== *)
theory Confidential_Conservation
  imports Confidential_Laws
begin

text \<open>
  Confidential transfers (\<open>process_transfer\<close> of
  src/program/src/extension/confidential_transfer/processor.rs) move value between two accounts: what the
  source loses, decrypted with its secret, is what the destination gains, decrypted with its own.  The proof
  program is trusted for what its validity proofs say, that a grouped ciphertext decrypts to the same amount
  for each of its keys.
\<close>

section \<open>What a validity proof says\<close>

text \<open>\<open>secret s k\<close>: \<open>s\<close> is the secret of the ElGamal key \<open>k\<close>.\<close>

definition validity_sound ::
  "ZkSdk \<Rightarrow> (point \<Rightarrow> 'g::ab_group_add option) \<Rightarrow> (nat \<Rightarrow> pubkey \<Rightarrow> bool) \<Rightarrow> bool" where
  "validity_sound zk decode secret \<longleftrightarrow>
     (\<forall>L v. proven_context zk (zk_validity3 zk) L v \<longrightarrow>
       (\<exists>X Y. \<forall>i s c. i < 3 \<longrightarrow> secret s ([v3_first_pubkey v, v3_second_pubkey v, v3_third_pubkey v] ! i) \<longrightarrow>
          (zk_extract_ciphertext3 zk (v3_grouped_ciphertext_lo v) i = Some c \<longrightarrow> opens decode s c X) \<and>
          (zk_extract_ciphertext3 zk (v3_grouped_ciphertext_hi v) i = Some c \<longrightarrow> opens decode s c Y)))"

text \<open>The amounts \<open>X\<close> and \<open>Y\<close> of two grouped ciphertexts, for three keys.\<close>

definition amounts ::
  "ZkSdk \<Rightarrow> (point \<Rightarrow> 'g::ab_group_add option) \<Rightarrow> (nat \<Rightarrow> pubkey \<Rightarrow> bool) \<Rightarrow> pubkey list \<Rightarrow> grouped3 \<Rightarrow> grouped3 \<Rightarrow>
     'g \<Rightarrow> 'g \<Rightarrow> bool" where
  "amounts zk decode secret keys lo hi X Y \<longleftrightarrow>
     (\<forall>i s c. i < 3 \<longrightarrow> secret s (keys ! i) \<longrightarrow>
        (zk_extract_ciphertext3 zk lo i = Some c \<longrightarrow> opens decode s c X) \<and>
        (zk_extract_ciphertext3 zk hi i = Some c \<longrightarrow> opens decode s c Y))"

lemma amounts_exist:
  assumes "validity_sound zk decode secret" "amounts_proven zk T L keys lo hi key new"
  obtains X Y where "amounts zk decode secret keys lo hi X Y"
proof -
  obtain v where v: "proven_context zk (zk_validity3 zk) L v"
    "[v3_first_pubkey v, v3_second_pubkey v, v3_third_pubkey v] = keys"
    "v3_grouped_ciphertext_lo v = lo" "v3_grouped_ciphertext_hi v = hi"
    using assms(2) unfolding amounts_proven_def by blast
  show thesis
    using assms(1) v that unfolding validity_sound_def amounts_def by metis
qed

lemma amountsD:
  assumes "amounts zk decode secret keys lo hi X Y" "i < 3" "secret s (keys ! i)"
  shows "try_extract_ciphertext3 zk lo i = Ok c \<Longrightarrow> opens decode s c X"
    and "try_extract_ciphertext3 zk hi i = Ok c \<Longrightarrow> opens decode s c Y"
  using assms by (auto simp: amounts_def try_extract_ciphertext3_def res_simps)

section \<open>The two parties\<close>

lemma available_debit:
  assumes "ristretto_group C decode" "subtract_with_lo_hi C (cta_available_balance e) cl ch = Some c"
    and "opens decode s cl X" "opens decode s ch Y" "confidential_value decode s e V"
  shows "confidential_value decode s (e\<lparr>cta_available_balance := c, cta_decryptable_available_balance := d\<rparr>)
    (V - (X + scale 65536 Y))"
proof -
  obtain A l h where o: "opens decode s (cta_available_balance e) A" "opens decode s (cta_pending_balance_lo e) l"
    "opens decode s (cta_pending_balance_hi e) h" "V = A + (l + scale 65536 h)"
    using assms(5) by (auto simp: confidential_value_def)
  from subtract_with_lo_hi_opens [OF assms(1) o(1) assms(3,4)] assms(2)
  have "opens decode s c (A - (X + scale 65536 Y))" by auto
  then show ?thesis
    unfolding confidential_value_def using o
    by (intro exI [of _ "A - (X + scale 65536 Y)"] exI [of _ l] exI [of _ h]) (simp add: algebra_simps)
qed

lemma pending_credit:
  assumes "ristretto_group C decode" "ct_add C (cta_pending_balance_lo e) cl = Some pl"
    and "ct_add C (cta_pending_balance_hi e) ch = Some ph"
    and "increment_pending_balance_credit_counter (e\<lparr>cta_pending_balance_lo := pl, cta_pending_balance_hi := ph\<rparr>) = Ok e'"
    and "opens decode s cl X" "opens decode s ch Y" "confidential_value decode s e V"
  shows "confidential_value decode s e' (V + (X + scale 65536 Y))"
proof -
  obtain A l h where o: "opens decode s (cta_available_balance e) A" "opens decode s (cta_pending_balance_lo e) l"
    "opens decode s (cta_pending_balance_hi e) h" "V = A + (l + scale 65536 h)"
    using assms(7) by (auto simp: confidential_value_def)
  have "opens decode s pl (l + X)" "opens decode s ph (h + Y)"
    using ct_add_opens [OF assms(1) o(2) assms(5)] ct_add_opens [OF assms(1) o(3) assms(6)] assms(2,3) by auto
  then show ?thesis
    unfolding confidential_value_def using o increment_counter_Ok [OF assms(4)]
    by (intro exI [of _ A] exI [of _ "l + X"] exI [of _ "h + Y"]) (simp add: scale_point_add algebra_simps)
qed

lemma debit_source_value:
  assumes "ristretto_group (zk_curve zk) decode" "debit_source zk k lo hi new d e = Ok e'"
    and "amounts zk decode secret keys lo hi X Y" "secret s (keys ! 0)" "confidential_value decode s e V"
  shows "confidential_value decode s e' (V - (X + scale 65536 Y))"
proof -
  obtain cl ch c where c: "try_extract_ciphertext3 zk lo 0 = Ok cl" "try_extract_ciphertext3 zk hi 0 = Ok ch"
    "subtract_with_lo_hi (zk_curve zk) (cta_available_balance e) cl ch = Some c"
    "e' = e\<lparr>cta_available_balance := c, cta_decryptable_available_balance := d\<rparr>"
    using assms(2) by (auto simp: debit_source_def res_simps split: if_splits)
  show ?thesis
    unfolding c(4) using amountsD [OF assms(3), of 0 s] assms(4) c(1,2)
    by (intro available_debit [OF assms(1) c(3) _ _ assms(5)]) simp_all
qed

lemma credit_destination_value:
  assumes "ristretto_group (zk_curve zk) decode" "credit_destination zk k lo hi e = Ok e'"
    and "amounts zk decode secret keys lo hi X Y" "secret s (keys ! 1)" "confidential_value decode s e V"
  shows "confidential_value decode s e' (V + (X + scale 65536 Y))"
proof -
  obtain cl ch pl ph where c: "try_extract_ciphertext3 zk lo 1 = Ok cl" "try_extract_ciphertext3 zk hi 1 = Ok ch"
    "ct_add (zk_curve zk) (cta_pending_balance_lo e) cl = Some pl"
    "ct_add (zk_curve zk) (cta_pending_balance_hi e) ch = Some ph"
    "increment_pending_balance_credit_counter (e\<lparr>cta_pending_balance_lo := pl, cta_pending_balance_hi := ph\<rparr>) = Ok e'"
    using assms(2) by (auto simp: credit_destination_def res_simps split: if_splits)
  show ?thesis
    using amountsD [OF assms(3), of 1 s] assms(4) c(1,2)
    by (intro pending_credit [OF assms(1) c(3-5) _ _ assms(5)]) simp_all
qed

text \<open>What the source side checks, and its step.\<close>

definition may_send ::
  "pubkey \<Rightarrow> Env \<Rightarrow> ledger \<Rightarrow> AccountInfo \<Rightarrow> AccountInfo list \<Rightarrow> pubkey \<Rightarrow> pubkey \<Rightarrow>
     PodAccount PodStateWithExtensionsMut \<Rightarrow> bool" where
  "may_send program_id env L a rest k mint st \<longleftrightarrow>
     a_owner (base st) = ai_key a \<and> owner_signed program_id L a rest \<and>
     \<not> account_is_frozen (base st) \<and> a_mint (base st) = mint \<and> ac_owner (L k) = token_program_id \<and>
     \<not> is_ok (get_extension AccountBase NonTransferableAccountX (tlv_data st)) \<and>
     \<not> (cpi_guard_enabled (tlv_data st) \<and> env_in_cpi env)"

definition may_receive :: "Env \<Rightarrow> ledger \<Rightarrow> pubkey \<Rightarrow> pubkey \<Rightarrow> PodAccount PodStateWithExtensionsMut \<Rightarrow> bool" where
  "may_receive env L k mint st \<longleftrightarrow>
     \<not> account_is_frozen (base st) \<and> a_mint (base st) = mint \<and> ac_owner (L k) = token_program_id \<and>
     (memo_required AccountBase (tlv_data st) \<longrightarrow> check_previous_sibling_instruction_is_memo env = Ok ())"

lemma process_source_Ok:
  assumes "process_source program_id env s m a signers debit L = Ok L'"
  obtains st e e' where "confidential_account L (ai_key s) st e" "debit e = Ok e'"
    "confidential_step L L' (ai_key s) (a_amount (base st)) e (a_amount (base st)) e'"
    "may_send program_id env L a signers (ai_key s) (ai_key m) st" "ai_key s \<noteq> ai_key m"
proof -
  obtain st e i e' where h: "token_account (ac_data (L (ai_key s))) = Ok st"
    "get_extension_mut AccountBase ConfidentialTransferAccountX (tlv_data st) = Ok (e, i)" "debit e = Ok e'"
    "validate_owner program_id L (a_owner (base st)) a (data_len L a) signers = Ok ()" "ai_key s \<noteq> ai_key m"
    "\<not> is_ok (get_extension AccountBase NonTransferableAccountX (tlv_data st))"
    "\<not> (cpi_guard_enabled (tlv_data st) \<and> ai_key a = a_owner (base st) \<and> env_in_cpi env)"
    "\<not> account_is_frozen (base st)" "a_mint (base st) = ai_key m" "ac_owner (L (ai_key s)) = token_program_id"
    "L' = set_data (ai_key s) (pack_state PodAccountB (st\<lparr>tlv_data :=
      set_extension AccountBase ConfidentialTransferAccountX e' (tlv_data st)\<rparr>)) L"
    using assms by (auto simp: process_source_def and_then_Ok borrow_Ok check_program_account_Ok if_Err_Ok data_len_def)
  note c = confidential_step_store [of L "ai_key s", OF h(1,2,11)]
  have "may_send program_id env L a signers (ai_key s) (ai_key m) st"
    using h(4,6-10) unfolding may_send_def validate_owner_Ok by auto
  then show thesis by (rule that [OF c(1) h(3) c(2) _ h(5)])
qed

lemma process_destination_Ok:
  assumes "process_destination env d m credit L = Ok L'"
  obtains st tlv where "token_account (ac_data (L (ai_key d))) = Ok st" "credit (tlv_data st) = Ok tlv"
    "L' = set_data (ai_key d) (pack_state PodAccountB (st\<lparr>tlv_data := tlv\<rparr>)) L" "ai_key d \<noteq> ai_key m"
    "may_receive env L (ai_key d) (ai_key m) st"
  using assms by (auto simp: process_destination_def may_receive_def res_simps split: if_splits)

section \<open>The hook\<close>

text \<open>The flags and the hook leave the confidential state of the token accounts alone.\<close>

definition keeps_confidential :: "ledger \<Rightarrow> ledger \<Rightarrow> bool" where
  "keeps_confidential L L' \<longleftrightarrow> (\<forall>k. ac_owner (L k) = token_program_id \<longrightarrow>
     ac_owner (L' k) = token_program_id \<and>
     (\<forall>st e. confidential_account L k st e \<longrightarrow> (\<exists>st'. confidential_account L' k st' e \<and> base st' = base st)))"

lemma keeps_confidential_refl: "keeps_confidential L L"
  by (auto simp: keeps_confidential_def)

lemma keeps_confidential_trans [trans]:
  assumes "keeps_confidential L L'" "keeps_confidential L' L''"
  shows "keeps_confidential L L''"
  using assms unfolding keeps_confidential_def by metis

lemma keeps_confidential_worth:
  assumes "keeps_confidential L L'" "ac_owner (L k) = token_program_id" "worth decode s L k M"
  shows "worth decode s L' k M"
  using assms unfolding keeps_confidential_def worth_def by metis

lemma flag_keeps_confidential:
  assumes "token_account (ac_data (L k)) = Ok st"
    and "modify_extension AccountBase TransferHookAccountX f (tlv_data st) = Ok tlv"
  shows "keeps_confidential L (set_data k (pack_state PodAccountB (st\<lparr>tlv_data := tlv\<rparr>)) L)"
proof -
  have "token_account (pack_state PodAccountB (st\<lparr>tlv_data := tlv\<rparr>)) = Ok (st\<lparr>tlv_data := tlv\<rparr>)"
    using token_account_initialized [OF assms(1)] tha.modify_extension_Ok(2) [OF assms(2)]
    by (intro token_account_write [OF assms(1)]) simp_all
  moreover have "get_extension AccountBase ConfidentialTransferAccountX tlv =
      get_extension AccountBase ConfidentialTransferAccountX (tlv_data st)"
    by (rule tha.modify_extension_other [OF assms(2)]) (simp add: TransferHookAccountX_def ConfidentialTransferAccountX_def)
  ultimately show ?thesis
    using assms(1) by (auto simp: keeps_confidential_def confidential_account_def set_data_def)
qed

lemma hook_keeps_confidential:
  assumes "confidential_hook_call env hook s m d a rest L = Ok L'" "hook_keeps_data env"
  shows "keeps_confidential L L'"
proof (cases hook)
  case None
  with assms(1) show ?thesis by (simp add: confidential_hook_call_def keeps_confidential_refl)
next
  case (Some p)
  then obtain L1 L2 L3 L4 where st: "set_transferring_flag s L = Ok L1" "set_transferring_flag d L1 = Ok L2"
    and ex: "env_invoke_execute env p ([s, m, d, a] @ rest) (- 1) L2 = Ok L3"
    and un: "unset_transferring s L3 = Ok L4" "unset_transferring d L4 = Ok L'"
    using assms(1) by (auto simp: confidential_hook_call_def and_then_Ok)
  have flag: "keeps_confidential K K'" if "set_transferring_flag i K = Ok K' \<or> unset_transferring i K = Ok K'" for i K K'
    using that flag_keeps_confidential
    by (auto simp: set_transferring_flag_def set_transferring_def unset_transferring_def and_then_Ok)
  have "keeps_confidential L2 L3"
    using assms(2) ex unfolding hook_keeps_data_def keeps_confidential_def confidential_account_def by metis
  then show ?thesis
    using flag st un keeps_confidential_trans by metis
qed

section \<open>Transfers without a fee\<close>

lemma process_destination_for_transfer_Ok:
  assumes "process_destination_for_transfer zk env d m p L = Ok L'"
  obtains st e e' where "confidential_account L (ai_key d) st e" "ai_key d \<noteq> ai_key m"
    "credit_destination zk (tp_destination p) (tp_ciphertext_lo p) (tp_ciphertext_hi p) e = Ok e'"
    "confidential_step L L' (ai_key d) (a_amount (base st)) e (a_amount (base st)) e'"
    "may_receive env L (ai_key d) (ai_key m) st"
proof -
  have "process_destination env d m (\<lambda>tlv.
       and_then (get_extension_mut AccountBase ConfidentialTransferAccountX tlv) (\<lambda>(e, _).
       and_then (credit_destination zk (tp_destination p) (tp_ciphertext_lo p) (tp_ciphertext_hi p) e) (\<lambda>e.
       Ok (set_extension AccountBase ConfidentialTransferAccountX e tlv)))) L = Ok L'"
    using assms by (simp add: process_destination_for_transfer_def)
  then show thesis
  proof (rule process_destination_Ok)
    fix st tlv
    assume h: "token_account (ac_data (L (ai_key d))) = Ok st" "ai_key d \<noteq> ai_key m"
      "L' = set_data (ai_key d) (pack_state PodAccountB (st\<lparr>tlv_data := tlv\<rparr>)) L"
      "may_receive env L (ai_key d) (ai_key m) st"
    assume "and_then (get_extension_mut AccountBase ConfidentialTransferAccountX (tlv_data st)) (\<lambda>(e, _).
       and_then (credit_destination zk (tp_destination p) (tp_ciphertext_lo p) (tp_ciphertext_hi p) e) (\<lambda>e.
       Ok (set_extension AccountBase ConfidentialTransferAccountX e (tlv_data st)))) = Ok tlv"
    then obtain e i e' where c: "get_extension_mut AccountBase ConfidentialTransferAccountX (tlv_data st) = Ok (e, i)"
      "credit_destination zk (tp_destination p) (tp_ciphertext_lo p) (tp_ciphertext_hi p) e = Ok e'"
      "tlv = set_extension AccountBase ConfidentialTransferAccountX e' (tlv_data st)"
      by (auto simp: and_then_Ok)
    note a = confidential_step_store [of L "ai_key d", OF h(1) c(1) h(3) [unfolded c(3)]]
    show thesis by (rule that [OF a(1) h(2) c(2) a(2) h(4)])
  qed
qed

text \<open>A step that changes what its account is worth by \<open>D\<close>.\<close>

lemma confidential_step_shift:
  assumes "confidential_step L L' k x e x e'" "worth decode s L k M"
    and "\<And>V. confidential_value decode s e V \<Longrightarrow> confidential_value decode s e' (V + D)"
  shows "worth decode s L' k (M + D)"
  using confidential_step_worth [OF assms(1,2), of D] assms(3) by (metis add.assoc)

lemma confidential_step_other:
  assumes "confidential_step L L' k x e x' e'" "j \<noteq> k"
  shows "L' j = L j"
  using assms by (simp add: confidential_step_def)

lemma confidential_step_owner:
  assumes "confidential_step L L' k x e x' e'"
  shows "ac_owner (L' j) = ac_owner (L j)"
  using assms by (cases "j = k") (auto simp: confidential_step_def)

lemma transfer_without_fee_Ok:
  assumes "ct_process_transfer zk program_id env (s # m # d # accounts) b alo ahi eo vo fso fvo ro L = Ok L'"
    and "unpack PodMintB (ac_data (L (ai_key m))) = Ok mint"
    and "\<not> is_ok (get_extension MintBase TransferFeeConfigX (tlv_data mint))"
  obtains p a rest L1 L2 where
    "verify_transfer_proof zk (borrow_data (ai_key m) L) L accounts eo vo ro = Ok (p, a # rest)"
    "process_source program_id env s m a rest (debit_source zk (tp_source p) (tp_ciphertext_lo p)
       (tp_ciphertext_hi p) (tp_new_source_ciphertext p) b) L = Ok L1"
    "process_destination_for_transfer zk env d m p L1 = Ok L2"
    "confidential_hook_call env (get_program_id MintBase (tlv_data mint)) s m d a rest L2 = Ok L'"
    "check_not_paused (tlv_data mint) = Ok ()"
proof -
  obtain err where f: "get_extension MintBase TransferFeeConfigX (tlv_data mint) = Err err"
    using assms(3) by (cases "get_extension MintBase TransferFeeConfigX (tlv_data mint)") simp_all
  show thesis
    using assms(1)
    by (simp add: ct_process_transfer_def assms(2) f and_then_Ok process_source_for_transfer_def if_Err_Ok split_beta
          next_account_info_Ok)
       (blast intro: that)
qed

text \<open>
  What a transfer promises: a proven amount \<open>X + 2 ^ 16 * Y\<close>, encrypted for both parties, leaves the one
  account and arrives in the other.
\<close>

definition confidentially_moved ::
  "ZkSdk \<Rightarrow> (point \<Rightarrow> 'g::ab_group_add option) \<Rightarrow> (nat \<Rightarrow> pubkey \<Rightarrow> bool) \<Rightarrow> nat \<Rightarrow> nat \<Rightarrow> ledger \<Rightarrow> ledger \<Rightarrow>
     pubkey \<Rightarrow> ConfidentialTransferAccount \<Rightarrow> pubkey \<Rightarrow> ConfidentialTransferAccount \<Rightarrow> 'g \<Rightarrow> 'g \<Rightarrow> bool" where
  "confidentially_moved zk decode secret ss sd L L' s es d ed M N \<longleftrightarrow>
     (\<exists>X Y auditor lo hi new.
        let keys = [cta_elgamal_pubkey es, cta_elgamal_pubkey ed, auditor] in
        amounts_proven zk (zk_range_u128 zk) L keys lo hi (cta_elgamal_pubkey es) new \<and>
        amounts zk decode secret keys lo hi X Y \<and>
        worth decode ss L' s (M - (X + scale 65536 Y)) \<and> worth decode sd L' d (N + (X + scale 65536 Y)))"

lemma transfer_parts_move:
  assumes group: "ristretto_group (zk_curve zk) decode"
    and A: "amounts zk decode secret [tp_source p, tp_destination p, tp_auditor p] (tp_ciphertext_lo p) (tp_ciphertext_hi p) X Y"
    and source: "process_source program_id env s m a rest (debit_source zk (tp_source p) (tp_ciphertext_lo p)
       (tp_ciphertext_hi p) (tp_new_source_ciphertext p) b) L = Ok L1"
    and destination: "process_destination_for_transfer zk env d m p L1 = Ok L2" and neq: "ai_key s \<noteq> ai_key d"
    and es: "confidential_account L (ai_key s) src es" "secret ss (cta_elgamal_pubkey es)" "worth decode ss L (ai_key s) M"
    and ed: "confidential_account L (ai_key d) dst ed" "secret sd (cta_elgamal_pubkey ed)" "worth decode sd L (ai_key d) N"
  shows "tp_source p = cta_elgamal_pubkey es" "tp_destination p = cta_elgamal_pubkey ed"
    and "worth decode ss L2 (ai_key s) (M - (X + scale 65536 Y))" "worth decode sd L2 (ai_key d) (N + (X + scale 65536 Y))"
    and "may_send program_id env L a rest (ai_key s) (ai_key m) src" "may_receive env L (ai_key d) (ai_key m) dst"
    and "ac_owner (L2 k) = ac_owner (L k)"
proof -
  obtain e1 where c1: "debit_source zk (tp_source p) (tp_ciphertext_lo p) (tp_ciphertext_hi p) (tp_new_source_ciphertext p) b es = Ok e1"
    "confidential_step L L1 (ai_key s) (a_amount (base src)) es (a_amount (base src)) e1"
    and send: "may_send program_id env L a rest (ai_key s) (ai_key m) src"
    by (rule process_source_Ok [OF source]) (use confidential_account_unique [OF es(1)] in blast)
  have d1: "L1 (ai_key d) = L (ai_key d)" by (rule confidential_step_other [OF c1(2)]) (use neq in simp)
  then have ed1: "confidential_account L1 (ai_key d) dst ed" using ed(1) by (simp add: confidential_account_def)
  obtain e2 where c2: "credit_destination zk (tp_destination p) (tp_ciphertext_lo p) (tp_ciphertext_hi p) ed = Ok e2"
    "confidential_step L1 L2 (ai_key d) (a_amount (base dst)) ed (a_amount (base dst)) e2"
    and receive: "may_receive env L1 (ai_key d) (ai_key m) dst"
    by (rule process_destination_for_transfer_Ok [OF destination]) (use confidential_account_unique [OF ed1] in blast)
  have worth_cong: "worth decode t K k V = worth decode t K' k V" if "K k = K' k" for t K K' k V
    using that by (simp add: worth_def confidential_account_def)
  show k: "tp_source p = cta_elgamal_pubkey es" "tp_destination p = cta_elgamal_pubkey ed"
    using c1(1) c2(1) by (auto simp: debit_source_def credit_destination_def res_simps split: if_splits)
  have "worth decode ss L1 (ai_key s) (M + - (X + scale 65536 Y))"
    by (rule confidential_step_shift [OF c1(2) es(3)])
       (use debit_source_value [OF group c1(1) A] es(2) k in \<open>simp del: minus_add_distrib\<close>)
  then show "worth decode ss L2 (ai_key s) (M - (X + scale 65536 Y))"
    using worth_cong [of L2 _ L1, OF confidential_step_other [OF c2(2) neq]] by (simp del: minus_add_distrib)
  show "worth decode sd L2 (ai_key d) (N + (X + scale 65536 Y))"
    by (rule confidential_step_shift [OF c2(2)])
       (use credit_destination_value [OF group c2(1) A] ed(2,3) k worth_cong [of L1 _ L, OF d1] in simp_all)
  show "may_send program_id env L a rest (ai_key s) (ai_key m) src" by (rule send)
  show "may_receive env L (ai_key d) (ai_key m) dst" using receive d1 by (simp add: may_receive_def)
  show "ac_owner (L2 k) = ac_owner (L k)"
    by (simp add: confidential_step_owner [OF c2(2)] confidential_step_owner [OF c1(2)])
qed

section \<open>Property: a transfer conserves value\<close>


text \<open>The keys 5 and 6 with their secrets, and a transfer of \<open>3 * G\<close> out of \<open>10 * G\<close>.\<close>

definition demo_secret :: "nat \<Rightarrow> pubkey \<Rightarrow> bool" where
  "demo_secret s k \<longleftrightarrow> s = unat k"

definition demo_transfer_zk :: ZkSdk where
  "demo_transfer_zk = demo_zk [5, 6, 9] 5 (7 * G_POINT)"

definition demo_transfer_ledger :: ledger where
  "demo_transfer_ledger = entries_ledger mint_entries (account_entries (demo_confidential 5 (10 * G_POINT)))
     (account_entries (demo_confidential 6 0))"

lemma demo_validity_sound: "validity_sound (demo_zk keys key new) Some secret"
proof -
  have "validity_sound (demo_zk keys key new) Some (\<lambda>_ _. True)"
    unfolding validity_sound_def proven_context_def
    by (intro allI impI exI [of _ "3 * G_POINT"] exI [of _ 0])
       (auto simp: demo_zk_def demo_proof_def demo_extract_def)
  then show ?thesis unfolding validity_sound_def by blast
qed

lemma demo_mint_get [simp]:
  "get_extension MintBase ConfidentialTransferMintX (buffer mint_entries 0) =
     Ok \<lparr>ctm_authority = 77, ctm_auto_approve_new_accounts = 1, ctm_auditor_elgamal_pubkey = 9\<rparr>"
  by (rule ctm.get_extension_entries)
     (use demo_entries_fit(2) in \<open>simp_all add: entries_fit_def mint_entries_def ConfidentialTransferMintX_def\<close>)

lemma demo_mint_missing:
  assumes "EXT_TYPE E \<noteq> ExtensionType.ConfidentialTransferMint" "get_account_type (EXT_TYPE E) = AccountType.Mint"
  shows "\<exists>err. get_extension MintBase E (buffer mint_entries 0) = Err err"
  by (rule get_extension_buffer_missing)
     (use demo_entries_fit(2) assms in \<open>simp_all add: entries_fit_def mint_entries_def\<close>)

abbreviation demo_proof_context :: TransferProofContext where
  "demo_proof_context \<equiv> \<lparr>tp_ciphertext_lo = ucast (3 * G_POINT), tp_ciphertext_hi = 0, tp_source = 5,
     tp_destination = 6, tp_auditor = 9, tp_new_source_ciphertext = ristretto_to_elgamal_ciphertext (7 * G_POINT) 0\<rparr>"

lemma demo_transfer_proof:
  assumes "ac_owner (L 600) = 500"
  shows "verify_transfer_proof demo_transfer_zk (borrow_data 1 L) L
    [unsigned_key 600, unsigned_key 600, unsigned_key 600, signed_key 20] 0 0 0 = Ok (demo_proof_context, [signed_key 20])"
  using assms
  by (simp add: verify_transfer_proof_def verify_and_extract_context_def verify_and_extract_transfer_def
      sysvar_account_def check_zk_elgamal_proof_program_account_def zip_all_eq_def borrow_data_def
      demo_transfer_zk_def demo_zk_def demo_proof_def demo_range_def)

lemma demo_extracts [simp]:
  "try_extract_ciphertext3 demo_transfer_zk g i = Ok (ristretto_to_elgamal_ciphertext (ucast g) 0)"
  "zk_curve demo_transfer_zk = word_curve"
  by (simp_all add: demo_transfer_zk_def try_extract_ciphertext3_def) (simp add: demo_zk_def demo_extract_def)

lemma demo_confidential_simps [simp]:
  "cta_elgamal_pubkey (demo_confidential key p) = key"
  "cta_available_balance (demo_confidential key p) = ristretto_to_elgamal_ciphertext p 0"
  "cta_pending_balance_lo (demo_confidential key p) = ristretto_to_elgamal_ciphertext 0 0"
  "cta_pending_balance_hi (demo_confidential key p) = ristretto_to_elgamal_ciphertext 0 0"
  "cta_pending_balance_credit_counter (demo_confidential key p) = 0"
  "cta_maximum_pending_balance_credit_counter (demo_confidential key p) = 100"
  by (simp_all add: demo_confidential_def configured_account_def zero_is_ristretto)

lemma demo_transfer_checks:
  "check_auditor demo_transfer_zk (ucast (3 * G_POINT)) 0 (ristretto_to_elgamal_ciphertext (3 * G_POINT) 0) 0 = Ok ()"
  "\<exists>e'. debit_source demo_transfer_zk 5 (ucast (3 * G_POINT)) 0 (ristretto_to_elgamal_ciphertext (7 * G_POINT) 0) 0
     (demo_confidential 5 (10 * G_POINT)) = Ok e'"
  "\<exists>e'. credit_destination demo_transfer_zk 6 (ucast (3 * G_POINT)) 0 (demo_confidential 6 0) = Ok e'"
  by (simp_all add: check_auditor_def check_auditor_ciphertext_def zero_is_ristretto debit_source_def
      credit_destination_def subtract_with_lo_hi_def increment_pending_balance_credit_counter_def checked_add_def)

abbreviation demo_transfer_result :: "ledger result" where
  "demo_transfer_result \<equiv> ct_process_transfer demo_transfer_zk token_program_id demo_env
     [unsigned_key 10, unsigned_key 1, unsigned_key 11, unsigned_key 600, unsigned_key 600, unsigned_key 600, signed_key 20]
     0 (ristretto_to_elgamal_ciphertext (3 * G_POINT) 0) 0 0 0 None None 0 demo_transfer_ledger"

lemma demo_transfer_source:
  "\<exists>st. process_source_for_transfer demo_transfer_zk token_program_id demo_env (unsigned_key 10) (unsigned_key 1)
     (signed_key 20) [] demo_proof_context 0 demo_transfer_ledger = Ok (set_data 10 st demo_transfer_ledger)"
proof -
  let ?e = "demo_confidential 5 (10 * G_POINT)"
  obtain i where i: "get_extension_mut AccountBase ConfidentialTransferAccountX (buffer (account_entries ?e) 0) = Ok (?e, i)"
    using extension_mut_exists [OF demo_account_get] by blast
  obtain err err' where m: "get_extension AccountBase NonTransferableAccountX (buffer (account_entries ?e) 0) = Err err"
    "get_extension AccountBase CpiGuardX (buffer (account_entries ?e) 0) = Err err'"
    using demo_account_missing [of NonTransferableAccountX ?e 0] demo_account_missing [of CpiGuardX ?e 0] by auto
  have v: "validate_owner token_program_id demo_transfer_ledger 20 (signed_key 20) 0 [] = Ok ()"
    using validate_owner_plain [of demo_transfer_ledger 20 token_program_id "[]"]
    by (simp add: data_len_def demo_transfer_ledger_def)
  from demo_transfer_checks(2) obtain e' where "debit_source demo_transfer_zk 5 (ucast (3 * G_POINT)) 0
     (ristretto_to_elgamal_ciphertext (7 * G_POINT) 0) 0 ?e = Ok e'" ..
  then show ?thesis
    using v i m
    by (simp add: process_source_for_transfer_def process_source_def demo_transfer_ledger_def borrow_data_def
        check_program_account_def cpi_guard_enabled_def) blast
qed

lemma demo_transfer_destination:
  "\<exists>L'. process_destination_for_transfer demo_transfer_zk demo_env (unsigned_key 11) (unsigned_key 1)
     demo_proof_context (set_data 10 st demo_transfer_ledger) = Ok L'"
proof -
  let ?e = "demo_confidential 6 0"
  obtain i where i: "get_extension_mut AccountBase ConfidentialTransferAccountX (buffer (account_entries ?e) 0) = Ok (?e, i)"
    using extension_mut_exists [OF demo_account_get] by blast
  obtain err where m: "get_extension AccountBase MemoTransferX (buffer (account_entries ?e) 0) = Err err"
    using demo_account_missing [of MemoTransferX] by auto
  from demo_transfer_checks(3) obtain e' where "credit_destination demo_transfer_zk 6 (ucast (3 * G_POINT)) 0 ?e = Ok e'" ..
  then show ?thesis
    using i m
    by (simp add: process_destination_for_transfer_def process_destination_def demo_transfer_ledger_def borrow_data_def
        check_program_account_def memo_required_def)
qed

lemma demo_transfer_succeeds: "\<exists>L'. demo_transfer_result = Ok L'"
proof -
  obtain err err' err'' where m: "get_extension MintBase TransferFeeConfigX (buffer mint_entries 0) = Err err"
    "get_extension MintBase PausableConfigX (buffer mint_entries 0) = Err err'"
    "get_extension MintBase TransferHookX (buffer mint_entries 0) = Err err''"
    using demo_mint_missing [of TransferFeeConfigX] demo_mint_missing [of PausableConfigX]
      demo_mint_missing [of TransferHookX] by auto
  obtain st where s: "process_source_for_transfer demo_transfer_zk token_program_id demo_env (unsigned_key 10) (unsigned_key 1)
     (signed_key 20) [] demo_proof_context 0 demo_transfer_ledger = Ok (set_data 10 st demo_transfer_ledger)"
    using demo_transfer_source by blast
  have u: "unpack PodMintB (ac_data (demo_transfer_ledger 1)) = Ok \<lparr>base = plain_mint 30 150, tlv_data = buffer mint_entries 0\<rparr>"
    "ac_owner (demo_transfer_ledger 1) = token_program_id" "ac_owner (demo_transfer_ledger 600) = 500"
    by (simp_all add: demo_transfer_ledger_def)
  show ?thesis
    using s demo_transfer_destination [of st] m demo_transfer_proof [of demo_transfer_ledger, OF u(3)] demo_transfer_checks(1) u
    by (auto simp: ct_process_transfer_def check_program_account_def check_not_paused_def
        confidential_hook_call_def get_program_id_def)
qed


end
