(* ===== verification/Confidential_Supply.thy ===== *)
theory Confidential_Supply
  imports Confidential_Conservation Confidential_Mint_Burn
begin

text \<open>
  The confidential supply of a mint
  (src/program/src/extension/confidential_mint_burn/processor.rs): what is outstanding, the supply less the
  burns not yet applied, changes with a mint or a burn by exactly the amount that an account gains or
  loses, and by nothing else.
\<close>

section \<open>The outstanding supply\<close>

definition mint_burn_state ::
  "ledger \<Rightarrow> pubkey \<Rightarrow> PodMint PodStateWithExtensionsMut \<Rightarrow> ConfidentialMintBurn \<Rightarrow> bool" where
  "mint_burn_state L m mint b \<longleftrightarrow> token_mint (ac_data (L m)) = Ok mint \<and>
     get_extension MintBase ConfidentialMintBurnX (tlv_data mint) = Ok b"

definition supply_value ::
  "(point \<Rightarrow> 'g::ab_group_add option) \<Rightarrow> nat \<Rightarrow> ConfidentialMintBurn \<Rightarrow> 'g \<Rightarrow> bool" where
  "supply_value decode s b Q \<longleftrightarrow>
     (\<exists>S P. opens decode s (cmb_confidential_supply b) S \<and> opens decode s (cmb_pending_burn b) P \<and> Q = S - P)"

definition outstanding ::
  "(point \<Rightarrow> 'g::ab_group_add option) \<Rightarrow> nat \<Rightarrow> ledger \<Rightarrow> pubkey \<Rightarrow> 'g \<Rightarrow> bool" where
  "outstanding decode s L m Q \<longleftrightarrow> (\<exists>mint b. mint_burn_state L m mint b \<and> supply_value decode s b Q)"

lemma mint_burn_state_unique: "mint_burn_state L m mint b \<Longrightarrow> mint_burn_state L m mint' b' \<Longrightarrow> mint' = mint \<and> b' = b"
  by (simp add: mint_burn_state_def)

lemma outstanding_unique: "outstanding decode s L m Q \<Longrightarrow> outstanding decode s L m R \<Longrightarrow> Q = R"
  by (fastforce simp: outstanding_def supply_value_def mint_burn_state_def dest: opens_unique)

lemma write_mint_burn_state:
  assumes "token_mint (ac_data (L (ai_key m))) = Ok mint"
    and "get_extension_mut MintBase ConfidentialMintBurnX (tlv_data mint) = Ok (b, i)"
  shows "mint_burn_state L (ai_key m) mint b"
    and "\<exists>tlv. mint_burn_state (write_mint_burn m mint b' K) (ai_key m) (mint\<lparr>tlv_data := tlv\<rparr>) b'"
    and "k \<noteq> ai_key m \<Longrightarrow> write_mint_burn m mint b' K k = K k"
proof -
  note g = get_extension_mut_Ok_get [OF assms(2)]
  let ?tlv = "set_extension MintBase ConfidentialMintBurnX b' (tlv_data mint)"
  show "mint_burn_state L (ai_key m) mint b" using assms(1) g by (simp add: mint_burn_state_def)
  have "token_mint (pack_state PodMintB (mint\<lparr>tlv_data := ?tlv\<rparr>)) = Ok (mint\<lparr>tlv_data := ?tlv\<rparr>)"
    using token_mint_initialized [OF assms(1)] by (intro token_mint_write [OF assms(1)]) simp_all
  then have "mint_burn_state (write_mint_burn m mint b' K) (ai_key m) (mint\<lparr>tlv_data := ?tlv\<rparr>) b'"
    using cmb.get_set_same [OF g, of b'] by (simp add: mint_burn_state_def write_mint_burn_def)
  then show "\<exists>tlv. mint_burn_state (write_mint_burn m mint b' K) (ai_key m) (mint\<lparr>tlv_data := tlv\<rparr>) b'" by blast
  show "k \<noteq> ai_key m \<Longrightarrow> write_mint_burn m mint b' K k = K k" by (simp add: write_mint_burn_def)
qed

text \<open>
  The account \<open>a\<close> that follows the proof accounts is the authority of the mint, or the owner of an account, and
  signed, itself or by the accounts after it.
\<close>

definition mint_authorized :: "pubkey \<Rightarrow> ledger \<Rightarrow> AccountInfo \<Rightarrow> AccountInfo list \<Rightarrow> PodMint \<Rightarrow> bool" where
  "mint_authorized program_id L a rest mint \<longleftrightarrow>
     coption (m_mint_authority mint) = Some (ai_key a) \<and> owner_signed program_id L a rest"

lemma check_mint_authority_Ok:
  assumes "check_mint_authority program_id L m mint iter = Ok ()"
  obtains a rest where "iter = a # rest" "mint_authorized program_id L a rest mint"
proof -
  obtain a rest k where h: "iter = a # rest" "coption (m_mint_authority mint) = Some k"
    "validate_owner program_id L k a (data_len L a) rest = Ok ()"
    using assms
    by (auto simp: check_mint_authority_def and_then_Ok borrow_Ok coption_ok_or_eq ok_or_Ok data_len_def
        next_account_info_Ok)
  then show thesis using that unfolding mint_authorized_def validate_owner_Ok by auto
qed

section \<open>Minting and burning\<close>

lemma add_supply_value:
  assumes "ristretto_group (zk_curve zk) decode" "add_supply zk p d b = Ok b'"
    and "amounts zk decode secret keys (mp_mint_amount_ciphertext_lo p) (mp_mint_amount_ciphertext_hi p) X Y"
    and "secret s (keys ! 1)" "supply_value decode s b Q"
  shows "supply_value decode s b' (Q + (X + scale 65536 Y))"
proof -
  obtain S P where o: "opens decode s (cmb_confidential_supply b) S" "opens decode s (cmb_pending_burn b) P" "Q = S - P"
    using assms(5) by (auto simp: supply_value_def)
  obtain cl ch c where c: "try_extract_ciphertext3 zk (mp_mint_amount_ciphertext_lo p) 1 = Ok cl"
    "try_extract_ciphertext3 zk (mp_mint_amount_ciphertext_hi p) 1 = Ok ch"
    "add_with_lo_hi (zk_curve zk) (cmb_confidential_supply b) cl ch = Some c"
    "b' = b\<lparr>cmb_confidential_supply := c, cmb_decryptable_supply := d\<rparr>"
    using assms(2) by (auto simp: add_supply_def res_simps split: if_splits)
  have "opens decode s c (S + (X + scale 65536 Y))"
    using add_with_lo_hi_opens [OF assms(1) o(1)] amountsD [OF assms(3), of 1 s] assms(4) c(1-3) by fastforce
  then show ?thesis
    unfolding supply_value_def using o(2,3) c(4)
    by (intro exI [of _ "S + (X + scale 65536 Y)"] exI [of _ P]) (simp add: algebra_simps)
qed

lemma add_pending_burn_value:
  assumes "ristretto_group (zk_curve zk) decode" "add_pending_burn zk p b = Ok b'"
    and "amounts zk decode secret keys (bp_burn_amount_ciphertext_lo p) (bp_burn_amount_ciphertext_hi p) X Y"
    and "secret s (keys ! 1)" "supply_value decode s b Q"
  shows "supply_value decode s b' (Q - (X + scale 65536 Y))"
proof -
  obtain S P where o: "opens decode s (cmb_confidential_supply b) S" "opens decode s (cmb_pending_burn b) P" "Q = S - P"
    using assms(5) by (auto simp: supply_value_def)
  obtain cl ch c where c: "try_extract_ciphertext3 zk (bp_burn_amount_ciphertext_lo p) 1 = Ok cl"
    "try_extract_ciphertext3 zk (bp_burn_amount_ciphertext_hi p) 1 = Ok ch"
    "add_with_lo_hi (zk_curve zk) (cmb_pending_burn b) cl ch = Some c" "b' = b\<lparr>cmb_pending_burn := c\<rparr>"
    using assms(2) by (auto simp: add_pending_burn_def res_simps split: if_splits)
  have "opens decode s c (P + (X + scale 65536 Y))"
    using add_with_lo_hi_opens [OF assms(1) o(2)] amountsD [OF assms(3), of 1 s] assms(4) c(1-3) by fastforce
  then show ?thesis
    unfolding supply_value_def using o(1,3) c(4)
    by (intro exI [of _ S] exI [of _ "P + (X + scale 65536 Y)"]) (simp add: algebra_simps)
qed

lemma credit_minted_value:
  assumes "ristretto_group (zk_curve zk) decode" "credit_minted zk auditor p alo ahi e = Ok e'"
    and "amounts zk decode secret keys (mp_mint_amount_ciphertext_lo p) (mp_mint_amount_ciphertext_hi p) X Y"
    and "secret s (keys ! 0)" "confidential_value decode s e V"
  shows "confidential_value decode s e' (V + (X + scale 65536 Y))"
proof -
  obtain cl ch pl ph where c: "try_extract_ciphertext3 zk (mp_mint_amount_ciphertext_lo p) 0 = Ok cl"
    "try_extract_ciphertext3 zk (mp_mint_amount_ciphertext_hi p) 0 = Ok ch"
    "ct_add (zk_curve zk) (cta_pending_balance_lo e) cl = Some pl"
    "ct_add (zk_curve zk) (cta_pending_balance_hi e) ch = Some ph"
    "increment_pending_balance_credit_counter (e\<lparr>cta_pending_balance_lo := pl, cta_pending_balance_hi := ph\<rparr>) = Ok e'"
    using assms(2) by (auto simp: credit_minted_def res_simps split: if_splits)
  show ?thesis
    using amountsD [OF assms(3), of 0 s] assms(4) c(1,2)
    by (intro pending_credit [OF assms(1) c(3-5) _ _ assms(5)]) simp_all
qed

lemma debit_burned_value:
  assumes "ristretto_group (zk_curve zk) decode" "debit_burned zk auditor p alo ahi d e = Ok e'"
    and "amounts zk decode secret keys (bp_burn_amount_ciphertext_lo p) (bp_burn_amount_ciphertext_hi p) X Y"
    and "secret s (keys ! 0)" "confidential_value decode s e V"
  shows "confidential_value decode s e' (V - (X + scale 65536 Y))"
proof -
  obtain cl ch c where c: "try_extract_ciphertext3 zk (bp_burn_amount_ciphertext_lo p) 0 = Ok cl"
    "try_extract_ciphertext3 zk (bp_burn_amount_ciphertext_hi p) 0 = Ok ch"
    "subtract_with_lo_hi (zk_curve zk) (cta_available_balance e) cl ch = Some c"
    "e' = e\<lparr>cta_available_balance := c, cta_decryptable_available_balance := d\<rparr>"
    using assms(2) by (auto simp: debit_burned_def res_simps split: if_splits)
  show ?thesis
    unfolding c(4) using amountsD [OF assms(3), of 0 s] assms(4) c(1,2)
    by (intro available_debit [OF assms(1) c(3) _ _ assms(5)]) simp_all
qed

lemma process_confidential_mint_Ok:
  assumes "process_confidential_mint zk program_id (t # m # accounts) d alo ahi eo vo ro L = Ok L'"
  obtains p a rest mint b b' st e e' auditor L1 where
    "verify_mint_proof zk (borrow_data (ai_key m) L) L accounts eo vo ro = Ok (p, a # rest)"
    "mint_burn_state L (ai_key m) mint b" "add_supply zk p d b = Ok b'" "L' = write_mint_burn m mint b' L1"
    "confidential_account L (ai_key t) st e" "credit_minted zk auditor p alo ahi e = Ok e'"
    "confidential_step L L1 (ai_key t) (a_amount (base st)) e (a_amount (base st)) e'"
    "mint_authorized program_id L a rest (base mint)" "ai_key t \<noteq> ai_key m"
    "\<exists>i. get_extension_mut MintBase ConfidentialMintBurnX (tlv_data mint) = Ok (b, i)"
proof -
  obtain p iter mint b i b' st e j e' auditor where h:
    "verify_mint_proof zk (borrow_data (ai_key m) L) L accounts eo vo ro = Ok (p, iter)"
    "token_mint (ac_data (L (ai_key m))) = Ok mint"
    "get_extension_mut MintBase ConfidentialMintBurnX (tlv_data mint) = Ok (b, i)"
    "check_mint_authority program_id L m (base mint) iter = Ok ()" "ai_key t \<noteq> ai_key m"
    "token_account (ac_data (L (ai_key t))) = Ok st"
    "get_extension_mut AccountBase ConfidentialTransferAccountX (tlv_data st) = Ok (e, j)"
    "credit_minted zk auditor p alo ahi e = Ok e'" "add_supply zk p d b = Ok b'"
    "L' = write_mint_burn m mint b' (set_data (ai_key t) (pack_state PodAccountB (st\<lparr>tlv_data :=
      set_extension AccountBase ConfidentialTransferAccountX e' (tlv_data st)\<rparr>)) L)"
    using assms
    by (auto simp: process_confidential_mint_def and_then_Ok borrow_Ok if_Err_Ok)
  note c = confidential_step_store [of L "ai_key t", OF h(6,7) refl]
  obtain a rest where a: "iter = a # rest" "mint_authorized program_id L a rest (base mint)"
    by (rule check_mint_authority_Ok [OF h(4)])
  show thesis
    by (rule that [OF h(1) [unfolded a(1)] _ h(9,10) c(1) h(8) c(2) a(2) h(5) exI, OF _ h(3)])
       (rule write_mint_burn_state(1) [of L m, OF h(2,3)])
qed

lemma process_confidential_burn_Ok:
  assumes "process_confidential_burn zk program_id env (t # m # accounts) d alo ahi eo vo ro L = Ok L'"
  obtains p a rest mint b b' st e e' auditor L1 where
    "verify_burn_proof zk (borrow_data (ai_key m) L) L accounts eo vo ro = Ok (p, a # rest)"
    "mint_burn_state L (ai_key m) mint b" "add_pending_burn zk p b = Ok b'" "L' = write_mint_burn m mint b' L1"
    "confidential_account L (ai_key t) st e" "debit_burned zk auditor p alo ahi d e = Ok e'"
    "confidential_step L L1 (ai_key t) (a_amount (base st)) e (a_amount (base st)) e'"
    "a_owner (base st) = ai_key a \<and> owner_signed program_id L a rest" "ai_key t \<noteq> ai_key m"
    "\<exists>i. get_extension_mut MintBase ConfidentialMintBurnX (tlv_data mint) = Ok (b, i)"
proof -
  obtain p a rest mint b i b' st e j e' auditor where h:
    "verify_burn_proof zk (borrow_data (ai_key m) L) L accounts eo vo ro = Ok (p, a # rest)"
    "token_mint (ac_data (L (ai_key m))) = Ok mint"
    "get_extension_mut MintBase ConfidentialMintBurnX (tlv_data mint) = Ok (b, i)"
    "validate_owner program_id L (a_owner (base st)) a (data_len L a) rest = Ok ()" "ai_key t \<noteq> ai_key m"
    "token_account (ac_data (L (ai_key t))) = Ok st"
    "get_extension_mut AccountBase ConfidentialTransferAccountX (tlv_data st) = Ok (e, j)"
    "debit_burned zk auditor p alo ahi d e = Ok e'" "add_pending_burn zk p b = Ok b'"
    "L' = write_mint_burn m mint b' (set_data (ai_key t) (pack_state PodAccountB (st\<lparr>tlv_data :=
      set_extension AccountBase ConfidentialTransferAccountX e' (tlv_data st)\<rparr>)) L)"
    using assms
    by (auto simp: process_confidential_burn_def and_then_Ok borrow_Ok if_Err_Ok data_len_def next_account_info_Ok)
  note c = confidential_step_store [of L "ai_key t", OF h(6,7) refl]
  have own: "a_owner (base st) = ai_key a \<and> owner_signed program_id L a rest"
    using h(4) unfolding validate_owner_Ok by simp
  show thesis
    by (rule that [OF h(1) _ h(9,10) c(1) h(8) c(2) own h(5) exI, OF _ h(3)])
       (rule write_mint_burn_state(1) [of L m, OF h(2,3)])
qed

text \<open>An account step and a supply step that change what they are worth by \<open>D\<close> do so together.\<close>

lemma supply_follows:
  assumes "confidential_step L L1 (ai_key t) x e x e'" "worth decode ss L (ai_key t) M"
    and "\<And>V. confidential_value decode ss e V \<Longrightarrow> confidential_value decode ss e' (V + D)"
    and "\<exists>i. get_extension_mut MintBase ConfidentialMintBurnX (tlv_data mint) = Ok (b, i)"
    and "mint_burn_state L (ai_key m) mint b" "outstanding decode sm L (ai_key m) Q"
    and "\<And>Q. supply_value decode sm b Q \<Longrightarrow> supply_value decode sm b' (Q + D)"
    and "L' = write_mint_burn m mint b' L1" "ai_key t \<noteq> ai_key m"
  shows "worth decode ss L' (ai_key t) (M + D)" "outstanding decode sm L' (ai_key m) (Q + D)"
proof -
  obtain i where i: "get_extension_mut MintBase ConfidentialMintBurnX (tlv_data mint) = Ok (b, i)"
    using assms(4) by blast
  note w = write_mint_burn_state [OF _ i, of L m]
  have mint: "token_mint (ac_data (L (ai_key m))) = Ok mint" using assms(5) by (simp add: mint_burn_state_def)
  have "worth decode ss L1 (ai_key t) (M + D)" by (rule confidential_step_shift [OF assms(1-3)])
  then show "worth decode ss L' (ai_key t) (M + D)"
    using w(3) [OF mint assms(9)] by (simp add: worth_def confidential_account_def assms(8))
  obtain mint' b2 where q: "mint_burn_state L (ai_key m) mint' b2" "supply_value decode sm b2 Q"
    using assms(6) by (auto simp: outstanding_def)
  with mint_burn_state_unique [OF assms(5) q(1)] assms(7) have "supply_value decode sm b' (Q + D)" by simp
  then show "outstanding decode sm L' (ai_key m) (Q + D)"
    using w(2) [OF mint, of b' L1] unfolding outstanding_def assms(8) by blast
qed

section \<open>Property: the supply follows the balances\<close>

text \<open>An amount \<open>A\<close> that a validity proof encrypts for the keys and a range proof bounds.\<close>

definition proven_amount ::
  "ZkSdk \<Rightarrow> (point \<Rightarrow> 'g::ab_group_add option) \<Rightarrow> (nat \<Rightarrow> pubkey \<Rightarrow> bool) \<Rightarrow> ledger \<Rightarrow> pubkey \<Rightarrow> pubkey \<Rightarrow> 'g \<Rightarrow> bool" where
  "proven_amount zk decode secret L first second A \<longleftrightarrow>
     (\<exists>X Y auditor lo hi key new. amounts_proven zk (zk_range_u128 zk) L [first, second, auditor] lo hi key new \<and>
        amounts zk decode secret [first, second, auditor] lo hi X Y \<and> A = X + scale 65536 Y)"

lemma confidential_mint_supply:
  assumes "ristretto_group (zk_curve zk) decode" "range_contexts zk" "validity_sound zk decode secret"
    and "process_confidential_mint zk program_id (t # m # accounts) d alo ahi eo vo ro L = Ok L'"
    and "confidential_account L (ai_key t) st e" "secret ss (cta_elgamal_pubkey e)" "worth decode ss L (ai_key t) M"
    and "mint_burn_state L (ai_key m) mint b" "secret sm (cmb_supply_elgamal_pubkey b)" "outstanding decode sm L (ai_key m) Q"
  shows "\<exists>A. proven_amount zk decode secret L (cta_elgamal_pubkey e) (cmb_supply_elgamal_pubkey b) A \<and>
    worth decode ss L' (ai_key t) (M + A) \<and> outstanding decode sm L' (ai_key m) (Q + A) \<and>
    (\<exists>p a rest. verify_mint_proof zk (borrow_data (ai_key m) L) L accounts eo vo ro = Ok (p, a # rest) \<and>
       mint_authorized program_id L a rest (base mint))"
proof (rule process_confidential_mint_Ok [OF assms(4)])
  fix p a rest mint2 b2 b' st2 e2 e' auditor L1
  assume h: "verify_mint_proof zk (borrow_data (ai_key m) L) L accounts eo vo ro = Ok (p, a # rest)"
    "mint_burn_state L (ai_key m) mint2 b2" "add_supply zk p d b2 = Ok b'" "L' = write_mint_burn m mint2 b' L1"
    "confidential_account L (ai_key t) st2 e2" "credit_minted zk auditor p alo ahi e2 = Ok e'"
    "confidential_step L L1 (ai_key t) (a_amount (base st2)) e2 (a_amount (base st2)) e'"
    "mint_authorized program_id L a rest (base mint2)" "ai_key t \<noteq> ai_key m"
    "\<exists>i. get_extension_mut MintBase ConfidentialMintBurnX (tlv_data mint2) = Ok (b2, i)"
  have eq: "mint2 = mint" "b2 = b" "e2 = e" "st2 = st"
    using mint_burn_state_unique [OF assms(8) h(2)] confidential_account_unique [OF assms(5) h(5)] by simp_all
  note proven = verify_mint_proof_Ok [OF h(1) assms(2) borrows_simps(2)]
  obtain X Y where A: "amounts zk decode secret [mp_destination p, mp_supply p, mp_auditor p]
      (mp_mint_amount_ciphertext_lo p) (mp_mint_amount_ciphertext_hi p) X Y"
    by (rule amounts_exist [OF assms(3) proven])
  have k: "mp_destination p = cta_elgamal_pubkey e" "mp_supply p = cmb_supply_elgamal_pubkey b"
    using h(3,6) by (auto simp: eq credit_minted_def add_supply_def res_simps split: if_splits)
  have "worth decode ss L' (ai_key t) (M + (X + scale 65536 Y))"
    "outstanding decode sm L' (ai_key m) (Q + (X + scale 65536 Y))"
    by (rule supply_follows [OF h(7) assms(7) _ h(10,2) assms(10) _ h(4,9)],
        rule credit_minted_value [OF assms(1) h(6) A], use assms(6) k eq in simp_all,
        rule add_supply_value [OF assms(1) h(3) A], use assms(9) k eq in simp_all)+
  then show ?thesis
    using proven A h(1,8) unfolding proven_amount_def k eq by blast
qed

lemma confidential_burn_supply:
  assumes "ristretto_group (zk_curve zk) decode" "range_contexts zk" "validity_sound zk decode secret"
    and "process_confidential_burn zk program_id env (t # m # accounts) d alo ahi eo vo ro L = Ok L'"
    and "confidential_account L (ai_key t) st e" "secret ss (cta_elgamal_pubkey e)" "worth decode ss L (ai_key t) M"
    and "mint_burn_state L (ai_key m) mint b" "secret sm (cmb_supply_elgamal_pubkey b)" "outstanding decode sm L (ai_key m) Q"
  shows "\<exists>A. proven_amount zk decode secret L (cta_elgamal_pubkey e) (cmb_supply_elgamal_pubkey b) A \<and>
    worth decode ss L' (ai_key t) (M - A) \<and> outstanding decode sm L' (ai_key m) (Q - A) \<and>
    (\<exists>p a rest. verify_burn_proof zk (borrow_data (ai_key m) L) L accounts eo vo ro = Ok (p, a # rest) \<and>
       a_owner (base st) = ai_key a \<and> owner_signed program_id L a rest)"
proof (rule process_confidential_burn_Ok [OF assms(4)])
  fix p a rest mint2 b2 b' st2 e2 e' auditor L1
  assume h: "verify_burn_proof zk (borrow_data (ai_key m) L) L accounts eo vo ro = Ok (p, a # rest)"
    "mint_burn_state L (ai_key m) mint2 b2" "add_pending_burn zk p b2 = Ok b'" "L' = write_mint_burn m mint2 b' L1"
    "confidential_account L (ai_key t) st2 e2" "debit_burned zk auditor p alo ahi d e2 = Ok e'"
    "confidential_step L L1 (ai_key t) (a_amount (base st2)) e2 (a_amount (base st2)) e'"
    "a_owner (base st2) = ai_key a \<and> owner_signed program_id L a rest" "ai_key t \<noteq> ai_key m"
    "\<exists>i. get_extension_mut MintBase ConfidentialMintBurnX (tlv_data mint2) = Ok (b2, i)"
  have eq: "mint2 = mint" "b2 = b" "e2 = e" "st2 = st"
    using mint_burn_state_unique [OF assms(8) h(2)] confidential_account_unique [OF assms(5) h(5)] by simp_all
  note proven = verify_burn_proof_Ok [OF h(1) assms(2) borrows_simps(2)]
  obtain X Y where A: "amounts zk decode secret [bp_source p, bp_supply p, bp_auditor p]
      (bp_burn_amount_ciphertext_lo p) (bp_burn_amount_ciphertext_hi p) X Y"
    by (rule amounts_exist [OF assms(3) proven])
  have k: "bp_source p = cta_elgamal_pubkey e" "bp_supply p = cmb_supply_elgamal_pubkey b"
    using h(3,6) by (auto simp: eq debit_burned_def add_pending_burn_def res_simps split: if_splits)
  have "confidential_value decode ss e2 V \<Longrightarrow> confidential_value decode ss e' (V + - (X + scale 65536 Y))"
    "supply_value decode sm b2 Q \<Longrightarrow> supply_value decode sm b' (Q + - (X + scale 65536 Y))" for V Q
    using debit_burned_value [OF assms(1) h(6) A] add_pending_burn_value [OF assms(1) h(3) A] assms(6,9) k eq
    by (simp_all del: minus_add_distrib)
  from supply_follows [OF h(7) assms(7) this(1) h(10,2) assms(10) this(2) h(4,9)]
  have "worth decode ss L' (ai_key t) (M - (X + scale 65536 Y))"
    "outstanding decode sm L' (ai_key m) (Q - (X + scale 65536 Y))"
    by (simp_all del: minus_add_distrib)
  then show ?thesis
    using proven A h(1,8) unfolding proven_amount_def k eq by blast
qed

text \<open>
  C25: a confidential mint adds to what the destination is worth the proven amount that it adds to the
  outstanding supply of the mint; a confidential burn takes the same proven amount from both.  The account after the
  proof accounts is the mint authority or the owner and signed, itself or by the accounts after it.
\<close>

theorem confidential_supply_follows_balances:
  assumes "ristretto_group (zk_curve zk) decode" "range_contexts zk" "validity_sound zk decode secret"
    and "confidential_account L (ai_key t) st e" "secret ss (cta_elgamal_pubkey e)" "worth decode ss L (ai_key t) M"
    and "mint_burn_state L (ai_key m) mint b" "secret sm (cmb_supply_elgamal_pubkey b)" "outstanding decode sm L (ai_key m) Q"
    and "process_confidential_mint zk program_id (t # m # accounts) d alo ahi eo vo ro L = Ok L' \<or>
      process_confidential_burn zk program_id env (t # m # accounts) d alo ahi eo vo ro L = Ok L'"
  shows "\<exists>A. proven_amount zk decode secret L (cta_elgamal_pubkey e) (cmb_supply_elgamal_pubkey b) A \<and>
    (process_confidential_mint zk program_id (t # m # accounts) d alo ahi eo vo ro L = Ok L' \<and>
       worth decode ss L' (ai_key t) (M + A) \<and> outstanding decode sm L' (ai_key m) (Q + A) \<and>
       (\<exists>p a rest. verify_mint_proof zk (borrow_data (ai_key m) L) L accounts eo vo ro = Ok (p, a # rest) \<and>
          mint_authorized program_id L a rest (base mint)) \<or>
     process_confidential_burn zk program_id env (t # m # accounts) d alo ahi eo vo ro L = Ok L' \<and>
       worth decode ss L' (ai_key t) (M - A) \<and> outstanding decode sm L' (ai_key m) (Q - A) \<and>
       (\<exists>p a rest. verify_burn_proof zk (borrow_data (ai_key m) L) L accounts eo vo ro = Ok (p, a # rest) \<and>
          a_owner (base st) = ai_key a \<and> owner_signed program_id L a rest))"
  using assms(10)
proof
  assume "process_confidential_mint zk program_id (t # m # accounts) d alo ahi eo vo ro L = Ok L'"
  from confidential_mint_supply [OF assms(1-3) this assms(4-9)] this show ?thesis by blast
next
  assume "process_confidential_burn zk program_id env (t # m # accounts) d alo ahi eo vo ro L = Ok L'"
  from confidential_burn_supply [OF assms(1-3) this assms(4-9)] this show ?thesis by blast
qed

text \<open>A mint with \<open>40 * G\<close> outstanding under the key 8 mints \<open>3 * G\<close> to the account 11, whose key is 6.\<close>

definition demo_supply :: ConfidentialMintBurn where
  "demo_supply = \<lparr>cmb_confidential_supply = ristretto_to_elgamal_ciphertext (40 * G_POINT) 0, cmb_decryptable_supply = 0,
     cmb_supply_elgamal_pubkey = 8, cmb_pending_burn = 0\<rparr>"

definition supply_entries :: "(ExtensionType \<times> bytes) list" where
  "supply_entries = mint_entries @ [(ExtensionType.ConfidentialMintBurn, enc_ConfidentialMintBurn demo_supply)]"

definition demo_mint_zk :: ZkSdk where
  "demo_mint_zk = demo_zk [6, 8, 9] 8 (43 * G_POINT)"

definition demo_supply_ledger :: ledger where
  "demo_supply_ledger = entries_ledger supply_entries [] (account_entries (demo_confidential 6 0))"

lemma supply_entries_fit [simp]: "entries_fit supply_entries"
  by (simp add: entries_fit_def supply_entries_def mint_entries_def wf_entry_def
      enc_ConfidentialMintBurn_def enc_ConfidentialTransferMint_def)

lemma supply_entries_get [simp]:
  "get_extension MintBase ConfidentialTransferMintX (buffer supply_entries 0) =
     Ok \<lparr>ctm_authority = 77, ctm_auto_approve_new_accounts = 1, ctm_auditor_elgamal_pubkey = 9\<rparr>"
  "get_extension MintBase ConfidentialMintBurnX (buffer supply_entries 0) = Ok demo_supply"
proof -
  have wf: "wf_entries supply_entries" using supply_entries_fit by (simp add: entries_fit_def)
  show "get_extension MintBase ConfidentialTransferMintX (buffer supply_entries 0) =
     Ok \<lparr>ctm_authority = 77, ctm_auto_approve_new_accounts = 1, ctm_auditor_elgamal_pubkey = 9\<rparr>"
    by (rule ctm.get_extension_entries [OF wf])
       (simp_all add: supply_entries_def mint_entries_def ConfidentialTransferMintX_def)
  show "get_extension MintBase ConfidentialMintBurnX (buffer supply_entries 0) = Ok demo_supply"
    by (rule cmb.get_extension_entries [OF wf])
       (simp_all add: supply_entries_def mint_entries_def ConfidentialMintBurnX_def)
qed

abbreviation demo_mint_context :: MintProofContext where
  "demo_mint_context \<equiv> \<lparr>mp_mint_amount_ciphertext_lo = ucast (3 * G_POINT), mp_mint_amount_ciphertext_hi = 0,
     mp_destination = 6, mp_supply = 8, mp_auditor = 9,
     mp_new_supply_ciphertext = ristretto_to_elgamal_ciphertext (43 * G_POINT) 0\<rparr>"

lemma demo_mint_proof:
  "verify_mint_proof demo_mint_zk (borrow_data 1 demo_supply_ledger) demo_supply_ledger
    [unsigned_key 600, unsigned_key 600, unsigned_key 600, signed_key 30] 0 0 0 = Ok (demo_mint_context, [signed_key 30])"
  by (simp add: verify_mint_proof_def verify_and_extract_context_def verify_and_extract_mint_def
      sysvar_account_def check_zk_elgamal_proof_program_account_def zip_all_eq_def borrow_data_def
      demo_mint_zk_def demo_zk_def demo_proof_def demo_range_def demo_supply_ledger_def)

lemma demo_mint_extracts [simp]:
  "try_extract_ciphertext3 demo_mint_zk g i = Ok (ristretto_to_elgamal_ciphertext (ucast g) 0)"
  "zk_curve demo_mint_zk = word_curve"
  by (simp_all add: demo_mint_zk_def try_extract_ciphertext3_def) (simp add: demo_zk_def demo_extract_def)

lemma demo_mint_parts:
  "\<exists>e'. credit_minted demo_mint_zk 9 demo_mint_context (ristretto_to_elgamal_ciphertext (3 * G_POINT) 0) 0
     (demo_confidential 6 0) = Ok e'"
  "\<exists>b'. add_supply demo_mint_zk demo_mint_context 0 demo_supply = Ok b'"
  by (simp_all add: credit_minted_def add_supply_def check_auditor_def check_auditor_ciphertext_def zero_is_ristretto
      add_with_lo_hi_def increment_pending_balance_credit_counter_def checked_add_def demo_supply_def opt_key_def)

abbreviation demo_mint_result :: "ledger result" where
  "demo_mint_result \<equiv> process_confidential_mint demo_mint_zk token_program_id
     [unsigned_key 11, unsigned_key 1, unsigned_key 600, unsigned_key 600, unsigned_key 600, signed_key 30]
     0 (ristretto_to_elgamal_ciphertext (3 * G_POINT) 0) 0 0 0 0 demo_supply_ledger"

lemma demo_mint_states:
  "token_mint (ac_data (demo_supply_ledger 1)) = Ok (ext_mint (plain_mint 30 150) (buffer supply_entries 0))"
  "token_account (ac_data (demo_supply_ledger 11)) =
     Ok (ext_account (plain_account 1 21 50) (buffer (account_entries (demo_confidential 6 0)) 0))"
  "ac_owner (demo_supply_ledger 1) = token_program_id" "ac_owner (demo_supply_ledger 11) = token_program_id"
  "ac_data (demo_supply_ledger 30) = []"
  by (simp_all add: demo_supply_ledger_def)

lemma demo_mint_succeeds: "\<exists>L'. demo_mint_result = Ok L'"
proof -
  obtain i where i: "get_extension_mut MintBase ConfidentialMintBurnX (buffer supply_entries 0) = Ok (demo_supply, i)"
    using extension_mut_exists [OF supply_entries_get(2)] by blast
  obtain j where j: "get_extension_mut AccountBase ConfidentialTransferAccountX (buffer (account_entries (demo_confidential 6 0)) 0) =
      Ok (demo_confidential 6 0, j)"
    using extension_mut_exists [OF demo_account_get] by blast
  have "\<exists>err. get_extension MintBase PausableConfigX (buffer supply_entries 0) = Err err"
    by (rule get_extension_buffer_missing)
       (use supply_entries_fit in \<open>simp_all add: entries_fit_def supply_entries_def mint_entries_def\<close>)
  then obtain err where m: "get_extension MintBase PausableConfigX (buffer supply_entries 0) = Err err" ..
  have v: "check_mint_authority token_program_id demo_supply_ledger (unsigned_key 1) (plain_mint 30 150) [signed_key 30] = Ok ()"
    using validate_owner_plain [of demo_supply_ledger 30 token_program_id "[]"]
    by (simp add: check_mint_authority_def demo_mint_states borrow_data_def data_len_def coption_ok_or_def plain_mint_def
        coption_some_def)
  obtain e' b' where "credit_minted demo_mint_zk 9 demo_mint_context (ristretto_to_elgamal_ciphertext (3 * G_POINT) 0) 0
      (demo_confidential 6 0) = Ok e'" "add_supply demo_mint_zk demo_mint_context 0 demo_supply = Ok b'"
    using demo_mint_parts by blast
  then show ?thesis
    using i j m v demo_mint_proof
    by (simp add: process_confidential_mint_def demo_mint_states check_program_account_def check_not_paused_def
        borrow_data_def)
qed

theorem confidential_supply_follows_balances_witness:
  "\<exists>L' A. demo_mint_result = Ok L' \<and>
     proven_amount demo_mint_zk Some demo_secret demo_supply_ledger 6 8 A"
proof -
  obtain L' where l: "demo_mint_result = Ok L'" using demo_mint_succeeds ..
  note hyps = demo_zk_group [of "[6, 8, 9]" 8 "43 * G_POINT", folded demo_mint_zk_def]
    demo_range_contexts [of "[6, 8, 9]" 8 "43 * G_POINT", folded demo_mint_zk_def]
    demo_validity_sound [of "[6, 8, 9]" 8 "43 * G_POINT" demo_secret, folded demo_mint_zk_def]
  have c: "confidential_account demo_supply_ledger (ai_key (unsigned_key 11))
      (ext_account (plain_account 1 21 50) (buffer (account_entries (demo_confidential 6 0)) 0)) (demo_confidential 6 0)"
    "mint_burn_state demo_supply_ledger (ai_key (unsigned_key 1))
      (ext_mint (plain_mint 30 150) (buffer supply_entries 0)) demo_supply"
    by (simp_all add: confidential_account_def mint_burn_state_def demo_mint_states)
  have w: "worth Some 6 demo_supply_ledger (ai_key (unsigned_key 11)) (50 * G_POINT)"
    "outstanding Some 8 demo_supply_ledger (ai_key (unsigned_key 1)) (40 * G_POINT)"
    unfolding worth_def confidential_value_def confidential_account_def outstanding_def mint_burn_state_def supply_value_def
    by (simp_all add: demo_mint_states amount_point_def scale_word plain_account_def demo_supply_def)
  have k: "demo_secret 6 (cta_elgamal_pubkey (demo_confidential 6 0))" "demo_secret 8 (cmb_supply_elgamal_pubkey demo_supply)"
    by (simp_all add: demo_secret_def demo_supply_def)
  show ?thesis
    using confidential_supply_follows_balances [OF hyps c(1) k(1) w(1) c(2) k(2) w(2) disjI1, OF l] l
    by (auto simp: demo_supply_def)
qed

section \<open>Property: managing the supply keeps it\<close>

text \<open>What a ciphertext equality proof says: both ciphertexts decrypt to the same amount.\<close>

definition equality_sound ::
  "ZkSdk \<Rightarrow> (point \<Rightarrow> 'g::ab_group_add option) \<Rightarrow> (nat \<Rightarrow> pubkey \<Rightarrow> bool) \<Rightarrow> bool" where
  "equality_sound zk decode secret \<longleftrightarrow>
     (\<forall>L c s s' X. proven_context zk (zk_ciphertext_equality zk) L c \<longrightarrow> secret s (cc_first_pubkey c) \<longrightarrow>
        secret s' (cc_second_pubkey c) \<longrightarrow> opens decode s (cc_first_ciphertext c) X \<longrightarrow>
        opens decode s' (cc_second_ciphertext c) X)"

text \<open>The handlers that manage the supply: each unpacks, checks the mint authority and writes one state.\<close>

definition supply_step ::
  "pubkey \<Rightarrow> ledger \<Rightarrow> ledger \<Rightarrow> AccountInfo \<Rightarrow> ConfidentialMintBurn \<Rightarrow> ConfidentialMintBurn \<Rightarrow> bool" where
  "supply_step program_id L L' m b b' \<longleftrightarrow>
     (\<exists>mint tlv a rest. mint_burn_state L (ai_key m) mint b \<and> mint_authorized program_id L a rest (base mint) \<and>
        mint_burn_state L' (ai_key m) (mint\<lparr>tlv_data := tlv\<rparr>) b') \<and> (\<forall>k. k \<noteq> ai_key m \<longrightarrow> L' k = L k)"

lemma supply_stepI:
  assumes "token_mint (ac_data (L (ai_key m))) = Ok mint"
    and "get_extension_mut MintBase ConfidentialMintBurnX (tlv_data mint) = Ok (b, i)"
    and "check_mint_authority program_id L m (base mint) iter = Ok ()"
  shows "supply_step program_id L (write_mint_burn m mint b' L) m b b'"
  by (rule check_mint_authority_Ok [OF assms(3)])
     (use write_mint_burn_state [of L m, OF assms(1,2)] in \<open>unfold supply_step_def, blast\<close>)

lemma process_rotate_supply_Ok:
  assumes "process_rotate_supply_elgamal_pubkey zk program_id (m # accounts) data L = Ok L'"
  shows "\<exists>b b' c. supply_step program_id L L' m b b' \<and> rotate_supply c b = Ok b' \<and>
    proven_context zk (zk_ciphertext_equality zk) L c"
proof -
  obtain mint b i c iter b' where h: "token_mint (ac_data (L (ai_key m))) = Ok mint"
    "get_extension_mut MintBase ConfidentialMintBurnX (tlv_data mint) = Ok (b, i)"
    "verify_and_extract_context zk (zk_ciphertext_equality zk) (borrow_data (ai_key m) L) L accounts (snd data) None =
       Ok (c, iter)"
    "rotate_supply c b = Ok b'" "check_mint_authority program_id L m (base mint) iter = Ok ()"
    "L' = write_mint_burn m mint b' L"
    using assms by (auto simp: process_rotate_supply_elgamal_pubkey_def and_then_Ok)
  show ?thesis
    using supply_stepI [OF h(1,2,5)] h(4,6) verify_and_extract_context_proven [OF h(3) borrows_simps(2)] by blast
qed

lemma process_apply_pending_burn_Ok:
  assumes "process_apply_pending_burn zk program_id (m # accounts) L = Ok L'"
  shows "\<exists>b b'. supply_step program_id L L' m b b' \<and> apply_pending_burn (zk_curve zk) b = Ok b'"
proof -
  obtain mint b i b' where h: "token_mint (ac_data (L (ai_key m))) = Ok mint"
    "get_extension_mut MintBase ConfidentialMintBurnX (tlv_data mint) = Ok (b, i)"
    "apply_pending_burn (zk_curve zk) b = Ok b'" "check_mint_authority program_id L m (base mint) accounts = Ok ()"
    "L' = write_mint_burn m mint b' L"
    using assms by (auto simp: process_apply_pending_burn_def and_then_Ok)
  show ?thesis using supply_stepI [OF h(1,2,4)] h(3,5) by blast
qed

lemma process_update_decryptable_supply_Ok:
  assumes "process_update_decryptable_supply program_id (m # accounts) d L = Ok L'"
  shows "\<exists>b. supply_step program_id L L' m b (b\<lparr>cmb_decryptable_supply := d\<rparr>)"
proof -
  obtain mint b i where h: "token_mint (ac_data (L (ai_key m))) = Ok mint"
    "get_extension_mut MintBase ConfidentialMintBurnX (tlv_data mint) = Ok (b, i)"
    "check_mint_authority program_id L m (base mint) accounts = Ok ()"
    "L' = write_mint_burn m mint (b\<lparr>cmb_decryptable_supply := d\<rparr>) L"
    using assms by (auto simp: process_update_decryptable_supply_def and_then_Ok)
  show ?thesis using supply_stepI [OF h(1-3)] h(4) by blast
qed

lemma rotate_supply_value:
  assumes "rotate_supply c b = Ok b'" "equality_sound zk decode secret" "ristretto_group (zk_curve zk) decode"
    and "proven_context zk (zk_ciphertext_equality zk) L c" "secret s (cmb_supply_elgamal_pubkey b)"
    and "secret s' (cmb_supply_elgamal_pubkey b')" "supply_value decode s b Q"
  shows "supply_value decode s' b' Q"
proof -
  have b: "cmb_supply_elgamal_pubkey b = cc_first_pubkey c" "cmb_confidential_supply b = cc_first_ciphertext c"
    "cmb_pending_burn b = 0" "b' = b\<lparr>cmb_supply_elgamal_pubkey := cc_second_pubkey c,
      cmb_confidential_supply := cc_second_ciphertext c\<rparr>"
    using assms(1) by (auto simp: rotate_supply_def split: if_splits)
  obtain S where o: "opens decode s (cc_first_ciphertext c) S" "Q = S"
    using assms(7) zero_opens [OF assms(3), of s] by (auto simp: supply_value_def b dest: opens_unique)
  have "opens decode s' (cc_second_ciphertext c) S"
    using assms(2,4-6) o(1) unfolding equality_sound_def b by auto
  then show ?thesis
    unfolding supply_value_def using zero_opens [OF assms(3), of s'] o(2) b(3,4) by force
qed

lemma apply_pending_burn_supply_value:
  assumes "apply_pending_burn C b = Ok b'" "ristretto_group C decode" "supply_value decode s b Q"
  shows "supply_value decode s b' Q"
proof -
  obtain S P where o: "opens decode s (cmb_confidential_supply b) S" "opens decode s (cmb_pending_burn b) P" "Q = S - P"
    using assms(3) by (auto simp: supply_value_def)
  obtain c where c: "ct_subtract C (cmb_confidential_supply b) (cmb_pending_burn b) = Some c"
    "b' = b\<lparr>cmb_confidential_supply := c, cmb_pending_burn := 0\<rparr>"
    using assms(1) by (auto simp: apply_pending_burn_def res_simps)
  have "opens decode s c (S - P)" using ct_subtract_opens [OF assms(2) o(1,2)] c(1) by auto
  then show ?thesis unfolding supply_value_def using c(2) o(3) zero_opens [OF assms(2), of s] by force
qed

text \<open>
  The outstanding supply stays: it is \<open>Q\<close> for the secret of the supply key, the new one where the key
  changes, and the mint authority signed.
\<close>

definition supply_kept ::
  "(point \<Rightarrow> 'g::ab_group_add option) \<Rightarrow> (nat \<Rightarrow> pubkey \<Rightarrow> bool) \<Rightarrow> nat \<Rightarrow> pubkey \<Rightarrow> ledger \<Rightarrow> ledger \<Rightarrow> AccountInfo \<Rightarrow> 'g \<Rightarrow> bool" where
  "supply_kept decode secret s program_id L L' m Q \<longleftrightarrow>
     (\<exists>b b'. supply_step program_id L L' m b b' \<and>
        (if cmb_supply_elgamal_pubkey b' = cmb_supply_elgamal_pubkey b then outstanding decode s L' (ai_key m) Q
         else \<forall>s'. secret s' (cmb_supply_elgamal_pubkey b') \<longrightarrow> outstanding decode s' L' (ai_key m) Q))"

lemma supply_keptI:
  assumes "supply_step program_id L L' m b b'" "outstanding decode s L (ai_key m) Q"
    and "\<And>s'. supply_value decode s b Q \<Longrightarrow> s' = s \<and> cmb_supply_elgamal_pubkey b' = cmb_supply_elgamal_pubkey b \<or>
      secret s' (cmb_supply_elgamal_pubkey b') \<Longrightarrow> supply_value decode s' b' Q"
  shows "supply_kept decode secret s program_id L L' m Q"
proof -
  obtain mint tlv where m: "mint_burn_state L (ai_key m) mint b" "mint_burn_state L' (ai_key m) (mint\<lparr>tlv_data := tlv\<rparr>) b'"
    using assms(1) by (auto simp: supply_step_def)
  have "supply_value decode s b Q"
    using assms(2) m(1) by (auto simp: outstanding_def dest: mint_burn_state_unique [OF m(1)])
  then have "outstanding decode s' L' (ai_key m) Q"
    if "s' = s \<and> cmb_supply_elgamal_pubkey b' = cmb_supply_elgamal_pubkey b \<or> secret s' (cmb_supply_elgamal_pubkey b')" for s'
    using assms(3) m(2) that unfolding outstanding_def by blast
  then show ?thesis unfolding supply_kept_def using assms(1) by (metis (full_types))
qed

lemma supply_kept_sameI:
  assumes "supply_step program_id L L' m b b'" "outstanding decode s L (ai_key m) Q"
    and "cmb_supply_elgamal_pubkey b' = cmb_supply_elgamal_pubkey b"
    and "supply_value decode s b Q \<Longrightarrow> supply_value decode s b' Q"
  shows "supply_kept decode secret s program_id L L' m Q"
proof -
  obtain mint tlv where m: "mint_burn_state L (ai_key m) mint b" "mint_burn_state L' (ai_key m) (mint\<lparr>tlv_data := tlv\<rparr>) b'"
    using assms(1) by (auto simp: supply_step_def)
  have "supply_value decode s b Q"
    using assms(2) m(1) by (auto simp: outstanding_def dest: mint_burn_state_unique [OF m(1)])
  then have "outstanding decode s L' (ai_key m) Q" using assms(4) m(2) unfolding outstanding_def by blast
  then show ?thesis unfolding supply_kept_def using assms(1,3) by metis
qed

text \<open>
  Rotating the key of the supply, applying the pending burns and updating the decryptable supply
  need the signature of the mint authority and leave the outstanding supply as it was; a rotation
  re-encrypts it for the new key.
\<close>

theorem supply_management_keeps_supply:
  assumes "ristretto_group (zk_curve zk) decode" "equality_sound zk decode secret"
    and "mint_burn_state L (ai_key m) mint b" "secret s (cmb_supply_elgamal_pubkey b)" "outstanding decode s L (ai_key m) Q"
    and "process_rotate_supply_elgamal_pubkey zk program_id (m # accounts) data L = Ok L' \<or>
      process_apply_pending_burn zk program_id (m # accounts) L = Ok L' \<or>
      process_update_decryptable_supply program_id (m # accounts) d L = Ok L'"
  shows "supply_kept decode secret s program_id L L' m Q"
proof -
  have same: "b2 = b" if "supply_step program_id L L' m b2 b'" for b2 b'
    using that assms(3) by (auto simp: supply_step_def dest: mint_burn_state_unique)
  from assms(6) show ?thesis
  proof (elim disjE)
    assume "process_rotate_supply_elgamal_pubkey zk program_id (m # accounts) data L = Ok L'"
    from process_rotate_supply_Ok [OF this] obtain b' c where c: "supply_step program_id L L' m b b'"
      "rotate_supply c b = Ok b'" "proven_context zk (zk_ciphertext_equality zk) L c"
      using same by blast
    show ?thesis
      by (rule supply_keptI [OF c(1) assms(5)], rule rotate_supply_value [OF c(2) assms(2,1) c(3) assms(4)])
         (use assms(4) in auto)
  next
    assume "process_apply_pending_burn zk program_id (m # accounts) L = Ok L'"
    from process_apply_pending_burn_Ok [OF this] obtain b' where b: "supply_step program_id L L' m b b'"
      "apply_pending_burn (zk_curve zk) b = Ok b'"
      using same by blast
    show ?thesis
      by (rule supply_kept_sameI [OF b(1) assms(5) _ apply_pending_burn_supply_value [OF b(2) assms(1)]])
         (use b(2) in \<open>auto simp: apply_pending_burn_def res_simps\<close>)
  next
    assume "process_update_decryptable_supply program_id (m # accounts) d L = Ok L'"
    from process_update_decryptable_supply_Ok [OF this] have u: "supply_step program_id L L' m b (b\<lparr>cmb_decryptable_supply := d\<rparr>)"
      using same by blast
    show ?thesis
      by (rule supply_kept_sameI [OF u assms(5)]) (simp_all add: supply_value_def)
  qed
qed

text \<open>The demo mint moves its supply from the key 8 to the key 10.\<close>

lemma demo_equality_sound: "equality_sound (demo_zk keys key new) Some secret"
  unfolding equality_sound_def proven_context_def by (auto simp: demo_zk_def demo_proof_def)

abbreviation demo_rotation :: "ledger result" where
  "demo_rotation \<equiv> process_rotate_supply_elgamal_pubkey (demo_zk [8] 10 (40 * G_POINT)) token_program_id
     [unsigned_key 1, unsigned_key 600, signed_key 30] (10, 0) demo_supply_ledger"

lemma demo_rotation_succeeds: "\<exists>L'. demo_rotation = Ok L'"
proof -
  let ?zk = "demo_zk [8] 10 (40 * G_POINT)"
  obtain i where i: "get_extension_mut MintBase ConfidentialMintBurnX (buffer supply_entries 0) = Ok (demo_supply, i)"
    using extension_mut_exists [OF supply_entries_get(2)] by blast
  have v: "check_mint_authority token_program_id demo_supply_ledger (unsigned_key 1) (plain_mint 30 150) [signed_key 30] = Ok ()"
    using validate_owner_plain [of demo_supply_ledger 30 token_program_id "[]"]
    by (simp add: check_mint_authority_def demo_mint_states borrow_data_def data_len_def coption_ok_or_def plain_mint_def
        coption_some_def)
  have c: "verify_and_extract_context ?zk (zk_ciphertext_equality ?zk) (borrow_data 1 demo_supply_ledger) demo_supply_ledger
      [unsigned_key 600, signed_key 30] 0 None = Ok (\<lparr>cc_first_pubkey = 8, cc_second_pubkey = 10,
        cc_first_ciphertext = ristretto_to_elgamal_ciphertext (40 * G_POINT) 0,
        cc_second_ciphertext = ristretto_to_elgamal_ciphertext (40 * G_POINT) 0\<rparr>, [signed_key 30])"
    by (simp add: verify_and_extract_context_def check_zk_elgamal_proof_program_account_def borrow_data_def
        demo_zk_def demo_proof_def demo_supply_ledger_def)
  show ?thesis
    using i v c
    by (simp add: process_rotate_supply_elgamal_pubkey_def demo_mint_states check_program_account_def
        rotate_supply_def demo_supply_def)
qed

theorem supply_management_keeps_supply_witness:
  "\<exists>L'. demo_rotation = Ok L' \<and>
     supply_kept Some demo_secret 8 token_program_id demo_supply_ledger L' (unsigned_key 1) (40 * G_POINT)"
proof -
  obtain L' where l: "demo_rotation = Ok L'" using demo_rotation_succeeds ..
  have c: "mint_burn_state demo_supply_ledger (ai_key (unsigned_key 1))
      (ext_mint (plain_mint 30 150) (buffer supply_entries 0)) demo_supply"
    by (simp add: mint_burn_state_def demo_mint_states)
  have w: "outstanding Some 8 demo_supply_ledger (ai_key (unsigned_key 1)) (40 * G_POINT)"
    unfolding outstanding_def mint_burn_state_def supply_value_def by (simp add: demo_mint_states demo_supply_def)
  have k: "demo_secret 8 (cmb_supply_elgamal_pubkey demo_supply)"
    by (simp add: demo_secret_def demo_supply_def)
  show ?thesis
    using supply_management_keeps_supply [of "demo_zk [8] 10 (40 * G_POINT)" Some demo_secret,
      OF demo_zk_group demo_equality_sound c k w disjI1, OF l] l by blast
qed

end
