(* ===== verification/Confidential_Fee_Laws.thy ===== *)
theory Confidential_Fee_Laws
  imports Confidential_Supply Confidential_Fee Fee_Processor
begin

text \<open>
  Confidential fees (src/program/src/extension/confidential_transfer_fee/processor.rs) are conserved: what
  a harvest takes off the accounts is added to the mint, and a withdrawal gives the destination what was
  withheld on the mint or on the accounts.  All withheld amounts are encrypted for the key of the withdraw
  authority, so one secret reads them.
\<close>

section \<open>Withheld amounts\<close>

definition opened :: "(point \<Rightarrow> 'g::ab_group_add option) \<Rightarrow> nat \<Rightarrow> ciphertext \<Rightarrow> 'g" where
  "opened decode s c =
     (let (commitment, handle) = elgamal_ciphertext_to_ristretto c
      in case (decode commitment, decode handle) of (Some P, Some Q) \<Rightarrow> P - scale s Q | _ \<Rightarrow> 0)"

lemma opens_opened: "opens decode s c M \<Longrightarrow> opened decode s c = M"
  by (auto simp: opens_def opened_def split_beta)

definition fee_of :: "(point \<Rightarrow> 'g::ab_group_add option) \<Rightarrow> nat \<Rightarrow> bytes \<Rightarrow> 'g" where
  "fee_of decode s tlv =
     (case get_extension AccountBase ConfidentialTransferFeeAmountX tlv of
        Ok e \<Rightarrow> opened decode s (cfa_withheld_amount e) | Err _ \<Rightarrow> 0)"

definition withheld_fee :: "(point \<Rightarrow> 'g::ab_group_add option) \<Rightarrow> nat \<Rightarrow> bytes \<Rightarrow> 'g" where
  "withheld_fee decode s d = (case token_account d of Ok st \<Rightarrow> fee_of decode s (tlv_data st) | Err _ \<Rightarrow> 0)"

text \<open>The amount withheld on an account, if there is one, is an encryption.\<close>

definition fee_opens :: "(point \<Rightarrow> 'g::ab_group_add option) \<Rightarrow> nat \<Rightarrow> bytes \<Rightarrow> bool" where
  "fee_opens decode s tlv \<longleftrightarrow>
     (\<forall>e. get_extension AccountBase ConfidentialTransferFeeAmountX tlv = Ok e \<longrightarrow>
        opens decode s (cfa_withheld_amount e) (opened decode s (cfa_withheld_amount e)))"

definition withheld_opens :: "(point \<Rightarrow> 'g::ab_group_add option) \<Rightarrow> nat \<Rightarrow> bytes \<Rightarrow> bool" where
  "withheld_opens decode s d \<longleftrightarrow> (\<forall>st. token_account d = Ok st \<longrightarrow> fee_opens decode s (tlv_data st))"

text \<open>A harvest keeps everything of a token account but the amount withheld.\<close>

definition keeps_account :: "account \<Rightarrow> account \<Rightarrow> bool" where
  "keeps_account a a' \<longleftrightarrow> ac_lamports a' = ac_lamports a \<and> ac_owner a' = ac_owner a \<and>
     (\<forall>st. token_account (ac_data a) = Ok st \<longrightarrow> (\<exists>st'. token_account (ac_data a') = Ok st' \<and> base st' = base st \<and>
        account_type st' = account_type st \<and> length (tlv_data st') = length (tlv_data st) \<and>
        (\<forall>V. V \<noteq> ExtensionType.ConfidentialTransferFeeAmount \<longrightarrow>
           get_extension_bytes AccountBase V (tlv_data st') = get_extension_bytes AccountBase V (tlv_data st)) \<and>
        get_extension AccountBase ConfidentialTransferAccountX (tlv_data st') =
          get_extension AccountBase ConfidentialTransferAccountX (tlv_data st)))"

lemma keeps_account_refl: "keeps_account a a"
  by (simp add: keeps_account_def)

lemma keeps_account_trans: "keeps_account a b \<Longrightarrow> keeps_account b c \<Longrightarrow> keeps_account a c"
  unfolding keeps_account_def by metis

text \<open>Clearing the amount withheld in the extensions of an account.\<close>

lemma clear_withheld:
  assumes "get_extension_mut AccountBase ConfidentialTransferFeeAmountX tlv = Ok (e, i)"
    and "tlv' = set_extension AccountBase ConfidentialTransferFeeAmountX (e\<lparr>cfa_withheld_amount := 0\<rparr>) tlv"
    and "ristretto_group C decode"
  shows "fee_of decode s tlv' = 0" "fee_of decode s tlv = opened decode s (cfa_withheld_amount e)"
    and "fee_opens decode s tlv'" "length tlv' = length tlv"
    and "fee_opens decode s tlv \<Longrightarrow> opens decode s (cfa_withheld_amount e) (fee_of decode s tlv)"
    and "get_extension AccountBase ConfidentialTransferAccountX tlv' =
      get_extension AccountBase ConfidentialTransferAccountX tlv"
    and "V \<noteq> ExtensionType.ConfidentialTransferFeeAmount \<Longrightarrow>
      get_extension_bytes AccountBase V tlv' = get_extension_bytes AccountBase V tlv"
proof -
  note g = get_extension_mut_Ok_get [OF assms(1)]
  have g': "get_extension AccountBase ConfidentialTransferFeeAmountX tlv' = Ok (e\<lparr>cfa_withheld_amount := 0\<rparr>)"
    unfolding assms(2) by (rule cfa.get_set_same [OF g])
  show "fee_of decode s tlv' = 0" "fee_of decode s tlv = opened decode s (cfa_withheld_amount e)"
    "fee_opens decode s tlv'"
    using g g' zero_opens [OF assms(3), of s] opens_opened [OF zero_opens [OF assms(3), of s]]
    by (simp_all add: fee_of_def fee_opens_def)
  show "length tlv' = length tlv" by (simp add: assms(2))
  show "fee_opens decode s tlv \<Longrightarrow> opens decode s (cfa_withheld_amount e) (fee_of decode s tlv)"
    using g by (simp add: fee_opens_def fee_of_def)
  show "get_extension AccountBase ConfidentialTransferAccountX tlv' =
      get_extension AccountBase ConfidentialTransferAccountX tlv"
    unfolding assms(2)
    by (rule cfa.get_set_other) (simp add: ConfidentialTransferFeeAmountX_def ConfidentialTransferAccountX_def)
  show "get_extension_bytes AccountBase V tlv' = get_extension_bytes AccountBase V tlv"
    if "V \<noteq> ExtensionType.ConfidentialTransferFeeAmount"
    unfolding assms(2) by (rule cfa.get_set_other_bytes) (use that in \<open>simp add: ConfidentialTransferFeeAmountX_def\<close>)
qed

section \<open>Harvesting one account\<close>

lemma harvest_one:
  assumes "ctf_harvest_from_account m i L = Ok (Inr (c, L'))" "ristretto_group C decode"
    and "withheld_opens decode s (ac_data (L (ai_key i)))"
  shows "opens decode s c (withheld_fee decode s (ac_data (L (ai_key i))))"
    and "withheld_fee decode s (ac_data (L' (ai_key i))) = 0" "withheld_opens decode s (ac_data (L' (ai_key i)))"
    and "keeps_account (L (ai_key i)) (L' (ai_key i))" "k \<noteq> ai_key i \<Longrightarrow> L' k = L k" "ai_key i \<noteq> m"
proof -
  obtain st e j where h: "ai_key i \<noteq> m" "token_account (ac_data (L (ai_key i))) = Ok st"
    "get_extension_mut AccountBase ConfidentialTransferFeeAmountX (tlv_data st) = Ok (e, j)" "c = cfa_withheld_amount e"
    "L' = set_data (ai_key i) (pack_state PodAccountB (st\<lparr>tlv_data :=
      set_extension AccountBase ConfidentialTransferFeeAmountX (e\<lparr>cfa_withheld_amount := 0\<rparr>) (tlv_data st)\<rparr>)) L"
    using assms(1) by (auto simp: ctf_harvest_from_account_def res_simps split: if_splits)
  let ?tlv = "set_extension AccountBase ConfidentialTransferFeeAmountX (e\<lparr>cfa_withheld_amount := 0\<rparr>) (tlv_data st)"
  note w = clear_withheld [OF h(3) refl assms(2)]
  have t: "token_account (pack_state PodAccountB (st\<lparr>tlv_data := ?tlv\<rparr>)) = Ok (st\<lparr>tlv_data := ?tlv\<rparr>)"
    using token_account_initialized [OF h(2)] w(4) by (intro token_account_write [OF h(2)]) simp_all
  show "opens decode s c (withheld_fee decode s (ac_data (L (ai_key i))))"
    using w(5) [of s] assms(3) h(2) by (simp add: h(4) withheld_fee_def withheld_opens_def)
  show "withheld_fee decode s (ac_data (L' (ai_key i))) = 0" "withheld_opens decode s (ac_data (L' (ai_key i)))"
    "keeps_account (L (ai_key i)) (L' (ai_key i))"
    using t w(1,3,4,6,7) h(2) by (simp_all add: h(5) withheld_fee_def withheld_opens_def keeps_account_def)
  show "k \<noteq> ai_key i \<Longrightarrow> L' k = L k" "ai_key i \<noteq> m" using h(1,5) by simp_all
qed

section \<open>The loops\<close>

definition total_fees :: "(point \<Rightarrow> 'g::ab_group_add option) \<Rightarrow> nat \<Rightarrow> pubkey set \<Rightarrow> ledger \<Rightarrow> 'g" where
  "total_fees decode s A L = (\<Sum>k\<in>A. withheld_fee decode s (ac_data (L k)))"

text \<open>The accounts of \<open>A\<close> keep all but their withheld amounts, the others change in nothing.\<close>

definition only_harvested :: "(point \<Rightarrow> 'g::ab_group_add option) \<Rightarrow> nat \<Rightarrow> pubkey set \<Rightarrow> ledger \<Rightarrow> ledger \<Rightarrow> bool" where
  "only_harvested decode s A L L' \<longleftrightarrow>
     (\<forall>k\<in>A. keeps_account (L k) (L' k) \<and> withheld_opens decode s (ac_data (L' k))) \<and> (\<forall>k. k \<notin> A \<longrightarrow> L' k = L k)"

lemma only_harvested_trans:
  "only_harvested decode s A L L1 \<Longrightarrow> only_harvested decode s A L1 L2 \<Longrightarrow> only_harvested decode s A L L2"
  unfolding only_harvested_def using keeps_account_trans by metis

lemma harvest_one_total:
  assumes "ctf_harvest_from_account m i L = Ok (Inr (c, L'))" "ristretto_group C decode"
    and "finite A" "ai_key i \<in> A" "\<forall>k\<in>A. withheld_opens decode s (ac_data (L k))"
  shows "\<exists>W. opens decode s c W \<and> total_fees decode s A L = W + total_fees decode s A L'"
    and "only_harvested decode s A L L'"
proof -
  note h = harvest_one [OF assms(1,2), of s]
  have op: "withheld_opens decode s (ac_data (L (ai_key i)))" using assms(4,5) by blast
  have "(\<Sum>k\<in>A - {ai_key i}. withheld_fee decode s (ac_data (L' k))) =
      (\<Sum>k\<in>A - {ai_key i}. withheld_fee decode s (ac_data (L k)))"
    by (rule sum.cong) (simp_all add: h(5) [OF op])
  then have "total_fees decode s A L = withheld_fee decode s (ac_data (L (ai_key i))) + total_fees decode s A L'"
    unfolding total_fees_def sum.remove [OF assms(3,4)] using h(2) [OF op] by simp
  then show "\<exists>W. opens decode s c W \<and> total_fees decode s A L = W + total_fees decode s A L'"
    using h(1) [OF op] by blast
  show "only_harvested decode s A L L'"
    unfolding only_harvested_def
    using h(3-5) [OF op] assms(4,5) keeps_account_refl by metis
qed

lemma harvest_loop_total:
  assumes "ctf_harvest_loop C m accounts w L = Ok (w', L')" "ristretto_group C decode" "opens decode s w W"
    and "finite A" "ai_key ` set accounts \<subseteq> A" "\<forall>k\<in>A. withheld_opens decode s (ac_data (L k))"
  shows "(\<exists>W'. opens decode s w' W' \<and> W' + total_fees decode s A L' = W + total_fees decode s A L) \<and>
    only_harvested decode s A L L'"
  using assms
proof (induction accounts arbitrary: w W L)
  case Nil
  then show ?case by (auto simp: only_harvested_def keeps_account_refl)
next
  case (Cons i rest)
  obtain r where r: "ctf_harvest_from_account m i L = Ok r"
    using Cons.prems(1) by (auto simp: and_then_Ok)
  show ?case
  proof (cases r)
    case (Inl e)
    with Cons.prems(1) r have "ctf_harvest_loop C m rest w L = Ok (w', L')" by simp
    from Cons.IH [OF this] Cons.prems(2-) show ?thesis by simp
  next
    case (Inr p)
    obtain c L1 where p: "p = (c, L1)" by fastforce
    with Cons.prems(1) r Inr obtain w1 where w1: "ct_add C w c = Some w1" "ctf_harvest_loop C m rest w1 L1 = Ok (w', L')"
      by (auto simp: res_simps)
    have i: "ai_key i \<in> A" using Cons.prems(5) by simp
    note h = harvest_one_total [OF r [unfolded Inr p] Cons.prems(2,4) i Cons.prems(6)]
    from h(1) obtain V where V: "opens decode s c V" "total_fees decode s A L = V + total_fees decode s A L1" by blast
    have o: "opens decode s w1 (W + V)" using ct_add_opens [OF Cons.prems(2,3) V(1)] w1(1) by auto
    have "\<forall>k\<in>A. withheld_opens decode s (ac_data (L1 k))" using h(2) by (simp add: only_harvested_def)
    from Cons.IH [OF w1(2) Cons.prems(2) o Cons.prems(4) _ this] Cons.prems(5)
    show ?thesis using only_harvested_trans [OF h(2)] V(2) by (auto simp: algebra_simps)
  qed
qed

text \<open>The unpacked destination, of which only the withheld amount may change.\<close>

definition destination_kept ::
  "PodAccount PodStateWithExtensionsMut \<Rightarrow> PodAccount PodStateWithExtensionsMut \<Rightarrow> bool" where
  "destination_kept st st' \<longleftrightarrow> base st' = base st \<and> account_type st' = account_type st \<and>
     length (tlv_data st') = length (tlv_data st) \<and>
     get_extension AccountBase ConfidentialTransferAccountX (tlv_data st') =
       get_extension AccountBase ConfidentialTransferAccountX (tlv_data st)"

lemma destination_kept_trans: "destination_kept a b \<Longrightarrow> destination_kept b c \<Longrightarrow> destination_kept a c"
  by (simp add: destination_kept_def)

lemma withdraw_loop_total:
  assumes "ctf_withdraw_loop C m d accounts w st L = Ok (w', st', L')" "ristretto_group C decode" "opens decode s w W"
    and "finite A" "ai_key ` set accounts \<subseteq> insert d A" "\<forall>k\<in>A. withheld_opens decode s (ac_data (L k))"
    and "fee_opens decode s (tlv_data st)"
  shows "(\<exists>W'. opens decode s w' W' \<and> W' + fee_of decode s (tlv_data st') + total_fees decode s A L' =
      W + fee_of decode s (tlv_data st) + total_fees decode s A L) \<and>
    only_harvested decode s A L L' \<and> destination_kept st st' \<and> fee_opens decode s (tlv_data st')"
  using assms
proof (induction accounts arbitrary: w W st L)
  case Nil
  then show ?case by (auto simp: only_harvested_def keeps_account_refl destination_kept_def)
next
  case (Cons i rest)
  show ?case
  proof (cases "ai_key i = d")
    case True
    then obtain e j w1 where h: "get_extension_mut AccountBase ConfidentialTransferFeeAmountX (tlv_data st) = Ok (e, j)"
      "ct_add C w (cfa_withheld_amount e) = Some w1"
      "ctf_withdraw_loop C m d rest w1 (st\<lparr>tlv_data := set_extension AccountBase ConfidentialTransferFeeAmountX
        (e\<lparr>cfa_withheld_amount := 0\<rparr>) (tlv_data st)\<rparr>) L = Ok (w', st', L')"
      using Cons.prems(1) by (auto simp: res_simps)
    let ?st = "st\<lparr>tlv_data := set_extension AccountBase ConfidentialTransferFeeAmountX
        (e\<lparr>cfa_withheld_amount := 0\<rparr>) (tlv_data st)\<rparr>"
    note c = clear_withheld [OF h(1) refl Cons.prems(2)]
    have o: "opens decode s w1 (W + fee_of decode s (tlv_data st))"
      using ct_add_opens [OF Cons.prems(2,3) c(5) [OF Cons.prems(7)]] h(2) by auto
    have k: "destination_kept st ?st" using c(4,6) by (simp add: destination_kept_def)
    from Cons.IH [OF h(3) Cons.prems(2) o Cons.prems(4) _ Cons.prems(6)] Cons.prems(5) c(1,3)
    show ?thesis using destination_kept_trans [OF k] by (auto simp: algebra_simps)
  next
    case False
    with Cons.prems(5) have i: "ai_key i \<in> A" by simp
    obtain r where r: "ctf_harvest_from_account m i L = Ok r"
      using Cons.prems(1) False by (auto simp: and_then_Ok)
    show ?thesis
    proof (cases r)
      case (Inl e)
      with Cons.prems(1) r False have "ctf_withdraw_loop C m d rest w st L = Ok (w', st', L')" by simp
      from Cons.IH [OF this] Cons.prems(2-) show ?thesis by simp
    next
      case (Inr p)
      obtain c L1 where p: "p = (c, L1)" by fastforce
      with Cons.prems(1) r Inr False obtain w1 where w1: "ct_add C w c = Some w1"
        "ctf_withdraw_loop C m d rest w1 st L1 = Ok (w', st', L')"
        by (auto simp: res_simps)
      note h = harvest_one_total [OF r [unfolded Inr p] Cons.prems(2,4) i Cons.prems(6)]
      from h(1) obtain V where V: "opens decode s c V" "total_fees decode s A L = V + total_fees decode s A L1" by blast
      have o: "opens decode s w1 (W + V)" using ct_add_opens [OF Cons.prems(2,3) V(1)] w1(1) by auto
      have "\<forall>k\<in>A. withheld_opens decode s (ac_data (L1 k))" using h(2) by (simp add: only_harvested_def)
      from Cons.IH [OF w1(2) Cons.prems(2) o Cons.prems(4) _ this Cons.prems(7)] Cons.prems(5)
      show ?thesis using only_harvested_trans [OF h(2)] V(2) by (auto simp: algebra_simps)
    qed
  qed
qed

section \<open>The amount withheld on the mint\<close>

definition mint_fee_state ::
  "ledger \<Rightarrow> pubkey \<Rightarrow> PodMint PodStateWithExtensionsMut \<Rightarrow> ConfidentialTransferFeeConfig \<Rightarrow> bool" where
  "mint_fee_state L m mint c \<longleftrightarrow> token_mint (ac_data (L m)) = Ok mint \<and>
     get_extension MintBase ConfidentialTransferFeeConfigX (tlv_data mint) = Ok c"

lemma mint_fee_state_unique: "mint_fee_state L m mint c \<Longrightarrow> mint_fee_state L m mint' c' \<Longrightarrow> mint' = mint \<and> c' = c"
  by (simp add: mint_fee_state_def)

lemma write_mint_fee_state:
  assumes "token_mint (ac_data (L m)) = Ok mint"
    and "get_extension_mut MintBase ConfidentialTransferFeeConfigX (tlv_data mint) = Ok (c, i)"
  shows "mint_fee_state L m mint c"
    and "mint_fee_state (set_data m (pack_state PodMintB (mint\<lparr>tlv_data :=
      set_extension MintBase ConfidentialTransferFeeConfigX c' (tlv_data mint)\<rparr>)) K) m (mint\<lparr>tlv_data :=
      set_extension MintBase ConfidentialTransferFeeConfigX c' (tlv_data mint)\<rparr>) c'"
proof -
  note g = get_extension_mut_Ok_get [OF assms(2)]
  show "mint_fee_state L m mint c" using assms(1) g by (simp add: mint_fee_state_def)
  let ?tlv = "set_extension MintBase ConfidentialTransferFeeConfigX c' (tlv_data mint)"
  have "token_mint (pack_state PodMintB (mint\<lparr>tlv_data := ?tlv\<rparr>)) = Ok (mint\<lparr>tlv_data := ?tlv\<rparr>)"
    using token_mint_initialized [OF assms(1)] by (intro token_mint_write [OF assms(1)]) simp_all
  then show "mint_fee_state (set_data m (pack_state PodMintB (mint\<lparr>tlv_data := ?tlv\<rparr>)) K) m (mint\<lparr>tlv_data := ?tlv\<rparr>) c'"
    using ctf.get_set_same [OF g, of c'] by (simp add: mint_fee_state_def)
qed

section \<open>Property: harvesting conserves the fees\<close>

text \<open>The mint keeps everything but its confidential fee configuration.\<close>

definition keeps_mint ::
  "account \<Rightarrow> PodMint PodStateWithExtensionsMut \<Rightarrow> account \<Rightarrow> PodMint PodStateWithExtensionsMut \<Rightarrow> bool" where
  "keeps_mint a mint a' mint' \<longleftrightarrow> ac_lamports a' = ac_lamports a \<and> ac_owner a' = ac_owner a \<and>
     base mint' = base mint \<and> account_type mint' = account_type mint \<and>
     length (tlv_data mint') = length (tlv_data mint) \<and>
     (\<forall>V. V \<noteq> ExtensionType.ConfidentialTransferFeeConfig \<longrightarrow>
        get_extension_bytes MintBase V (tlv_data mint') = get_extension_bytes MintBase V (tlv_data mint))"

lemma harvest_loop_mint:
  assumes "ctf_harvest_loop C m accounts w L = Ok (w', L')"
  shows "L' m = L m"
  using assms
proof (induction accounts arbitrary: w L)
  case (Cons i rest)
  then show ?case
    by (auto simp: ctf_harvest_from_account_def res_simps split: if_splits sum.splits)
qed simp

lemma process_harvest_Ok:
  assumes "ctf_process_harvest_withheld_tokens_to_mint zk (m # accounts) L = Ok L'"
  obtains mint c w' L1 mint' where "mint_fee_state L (ai_key m) mint c"
    "ctf_harvest_loop (zk_curve zk) (ai_key m) accounts (ctf_withheld_amount c) L = Ok (w', L1)"
    "L' = set_data (ai_key m) (pack_state PodMintB mint') L1" "pod_bool (ctf_harvest_to_mint_enabled c)"
    "mint_fee_state L' (ai_key m) mint' (c\<lparr>ctf_withheld_amount := w'\<rparr>)"
    "keeps_mint (L (ai_key m)) mint (L' (ai_key m)) mint'"
proof -
  obtain mint c i w' L1 where h: "token_mint (ac_data (L (ai_key m))) = Ok mint"
    "get_extension_mut MintBase ConfidentialTransferFeeConfigX (tlv_data mint) = Ok (c, i)"
    "ctf_harvest_loop (zk_curve zk) (ai_key m) accounts (ctf_withheld_amount c) L = Ok (w', L1)"
    "pod_bool (ctf_harvest_to_mint_enabled c)"
    "L' = set_data (ai_key m) (pack_state PodMintB (mint\<lparr>tlv_data := set_extension MintBase ConfidentialTransferFeeConfigX
       (c\<lparr>ctf_withheld_amount := w'\<rparr>) (tlv_data mint)\<rparr>)) L1"
    using assms by (auto simp: ctf_process_harvest_withheld_tokens_to_mint_def and_then_Ok if_Err_Ok)
  note w = write_mint_fee_state [of L "ai_key m", OF h(1,2)]
  have k: "keeps_mint (L (ai_key m)) mint (L' (ai_key m)) (mint\<lparr>tlv_data := set_extension MintBase
      ConfidentialTransferFeeConfigX (c\<lparr>ctf_withheld_amount := w'\<rparr>) (tlv_data mint)\<rparr>)"
  proof -
    have "EXT_TYPE ConfidentialTransferFeeConfigX = ExtensionType.ConfidentialTransferFeeConfig"
      by (simp add: ConfidentialTransferFeeConfigX_def)
    then show ?thesis
      using harvest_loop_mint [OF h(3)] ctf.get_set_other_bytes by (simp add: keeps_mint_def h(5))
  qed
  show thesis by (rule that [OF w(1) h(3,5,4) _ k]) (use w(2) h(5) in simp)
qed

text \<open>
  C26: harvesting confidential fees, permissionless but switched on by the fee authority, adds to the
  amount withheld on the mint exactly what it takes off the harvested accounts, and changes nothing else:
  the accounts and the mint keep their base state, lamports and owner and all their other extensions, and no
  other account changes.
\<close>

theorem confidential_harvest_conserves:
  assumes "ristretto_group (zk_curve zk) decode" "finite A" "ai_key m \<notin> A" "ai_key ` set accounts \<subseteq> A"
    and "\<forall>k\<in>A. withheld_opens decode s (ac_data (L k))"
    and "mint_fee_state L (ai_key m) mint c" "opens decode s (ctf_withheld_amount c) W"
    and "ctf_process_harvest_withheld_tokens_to_mint zk (m # accounts) L = Ok L'"
  shows "\<exists>mint' w' W'. mint_fee_state L' (ai_key m) mint' (c\<lparr>ctf_withheld_amount := w'\<rparr>) \<and>
    keeps_mint (L (ai_key m)) mint (L' (ai_key m)) mint' \<and>
    opens decode s w' W' \<and> W' + total_fees decode s A L' = W + total_fees decode s A L \<and>
    (\<forall>k\<in>A. keeps_account (L k) (L' k)) \<and> (\<forall>k. k \<notin> A \<longrightarrow> k \<noteq> ai_key m \<longrightarrow> L' k = L k) \<and>
    pod_bool (ctf_harvest_to_mint_enabled c)"
proof (rule process_harvest_Ok [OF assms(8)])
  fix mint2 c2 w' L1 mint'
  assume h: "mint_fee_state L (ai_key m) mint2 c2"
    "ctf_harvest_loop (zk_curve zk) (ai_key m) accounts (ctf_withheld_amount c2) L = Ok (w', L1)"
    "L' = set_data (ai_key m) (pack_state PodMintB mint') L1" "pod_bool (ctf_harvest_to_mint_enabled c2)"
    "mint_fee_state L' (ai_key m) mint' (c2\<lparr>ctf_withheld_amount := w'\<rparr>)"
    "keeps_mint (L (ai_key m)) mint2 (L' (ai_key m)) mint'"
  have eq: "mint2 = mint" "c2 = c" using mint_fee_state_unique [OF assms(6) h(1)] by simp_all
  from harvest_loop_total [OF h(2) assms(1) assms(7) [folded eq(2)] assms(2,4,5)] obtain W' where
    w: "opens decode s w' W'" "W' + total_fees decode s A L1 = W + total_fees decode s A L" "only_harvested decode s A L L1"
    by blast
  have same: "L' k = L1 k" if "k \<noteq> ai_key m" for k using that by (simp add: h(3))
  have "L' k = L1 k" if "k \<in> A" for k by (rule same) (use that assms(3) in blast)
  then have "total_fees decode s A L' = total_fees decode s A L1"
    unfolding total_fees_def by (intro sum.cong) simp_all
  then show ?thesis
    using h(4-6) w same assms(3) unfolding eq only_harvested_def by metis
qed

section \<open>Withdrawing\<close>

lemma verify_and_extract_context_rest:
  assumes "verify_and_extract_context zk T read L iter offset sysvar = Ok (c, iter')"
  shows "set iter' \<subseteq> set iter"
proof -
  have next_rest: "set r \<subseteq> set l" if "next_account_info l = Ok (i, r)" for l i r
    using that by (cases l) (auto simp: next_account_info_def)
  show ?thesis
    using assms
    by (auto simp: verify_and_extract_context_def and_then_Ok split: if_splits option.splits dest!: next_rest)
qed

text \<open>
  The account \<open>a\<close> that follows the proof accounts is the withdraw authority of the mint and signed, itself or
  by the accounts \<open>signers\<close> after it.
\<close>

definition fee_authorized ::
  "pubkey \<Rightarrow> ledger \<Rightarrow> AccountInfo \<Rightarrow> AccountInfo list \<Rightarrow> PodMint PodStateWithExtensionsMut \<Rightarrow> bool" where
  "fee_authorized program_id L a signers mint \<longleftrightarrow>
     (\<exists>x. get_extension MintBase TransferFeeConfigX (tlv_data mint) = Ok x \<and>
        opt_key (tfc_withdraw_withheld_authority x) = Some (ai_key a) \<and> owner_signed program_id L a signers)"

definition after_fee_proof ::
  "ZkSdk \<Rightarrow> ledger \<Rightarrow> AccountInfo list \<Rightarrow> int \<Rightarrow> AccountInfo \<Rightarrow> AccountInfo list \<Rightarrow> bool" where
  "after_fee_proof zk L accounts offset a rest \<longleftrightarrow>
     (\<exists>p. verify_and_extract_context zk (zk_ciphertext_equality zk) (read_any L) L accounts offset None = Ok (p, a # rest))"

lemma withdraw_from_mint_Ok:
  assumes "ctf_process_withdraw_withheld_tokens_from_mint zk program_id (m # d # accounts) b offset L = Ok L'"
  obtains p a rest mint mint' c st e e' L1 where "proven_context zk (zk_ciphertext_equality zk) L p"
    "after_fee_proof zk L accounts offset a rest" "fee_authorized program_id L a rest mint"
    "mint_fee_state L (ai_key m) mint c" "ai_key d \<noteq> ai_key m"
    "credit_withheld (zk_curve zk) p b c e = Ok e'" "confidential_account L (ai_key d) st e"
    "confidential_step L L1 (ai_key d) (a_amount (base st)) e (a_amount (base st)) e'"
    "L1 = set_data (ai_key d) (pack_state PodAccountB (st\<lparr>tlv_data :=
       set_extension AccountBase ConfidentialTransferAccountX e' (tlv_data st)\<rparr>)) L"
    "L' = set_data (ai_key m) (pack_state PodMintB mint') L1"
    "mint_fee_state L' (ai_key m) mint' (c\<lparr>ctf_withheld_amount := 0\<rparr>)"
proof -
  obtain p a rest mint x c i st e j e' where h:
    "verify_and_extract_context zk (zk_ciphertext_equality zk) (read_any L) L accounts offset None = Ok (p, a # rest)"
    "token_mint (ac_data (L (ai_key m))) = Ok mint"
    "get_extension MintBase TransferFeeConfigX (tlv_data mint) = Ok x"
    "opt_key (tfc_withdraw_withheld_authority x) = Some (ai_key a)" "owner_signed program_id L a rest"
    "get_extension_mut MintBase ConfidentialTransferFeeConfigX (tlv_data mint) = Ok (c, i)" "ai_key d \<noteq> ai_key m"
    "token_account (ac_data (L (ai_key d))) = Ok st"
    "get_extension_mut AccountBase ConfidentialTransferAccountX (tlv_data st) = Ok (e, j)"
    "credit_withheld (zk_curve zk) p b c e = Ok e'"
    "L' = set_data (ai_key m) (pack_state PodMintB (mint\<lparr>tlv_data :=
          set_extension MintBase ConfidentialTransferFeeConfigX (c\<lparr>ctf_withheld_amount := 0\<rparr>) (tlv_data mint)\<rparr>))
       (set_data (ai_key d) (pack_state PodAccountB (st\<lparr>tlv_data :=
          set_extension AccountBase ConfidentialTransferAccountX e' (tlv_data st)\<rparr>)) L)"
    using assms
    by (auto simp: ctf_process_withdraw_withheld_tokens_from_mint_def and_then_Ok borrow_Ok if_Err_Ok ok_or_Ok
        validate_owner_Ok next_account_info_Ok)
  have au: "after_fee_proof zk L accounts offset a rest" "fee_authorized program_id L a rest mint"
    using h(1,3-5) unfolding fee_authorized_def after_fee_proof_def by blast+
  note proven = verify_and_extract_context_proven [OF h(1) borrows_simps(1)]
  note st = confidential_step_store [of L "ai_key d", OF h(8,9) refl]
  note w = write_mint_fee_state [of L "ai_key m", OF h(2,6)]
  show thesis by (rule that [OF proven au(1,2) w(1) h(7,10) st(1,2) refl h(11)]) (simp add: h(11) w(2))
qed

lemma withdraw_from_accounts_Ok:
  assumes "ctf_process_withdraw_withheld_tokens_from_accounts zk program_id (m # d # accounts) n b offset L = Ok L'"
  obtains p a rest mint c st st' w infos e available L1 where "proven_context zk (zk_ciphertext_equality zk) L p"
    "after_fee_proof zk L accounts offset a rest"
    "fee_authorized program_id L a (take (length rest - unat n) rest) mint" "mint_fee_state L (ai_key m) mint c" "ai_key d \<noteq> ai_key m"
    "token_account (ac_data (L (ai_key d))) = Ok st" "set infos \<subseteq> set accounts"
    "ctf_withdraw_loop (zk_curve zk) (ai_key m) (ai_key d) infos 0 st L = Ok (w, st', L1)"
    "get_extension AccountBase ConfidentialTransferAccountX (tlv_data st) = Ok e"
    "cc_first_pubkey p = ctf_withdraw_withheld_authority_elgamal_pubkey c" "cc_second_pubkey p = cta_elgamal_pubkey e"
    "cc_first_ciphertext p = w"
    "\<exists>e2 j. get_extension_mut AccountBase ConfidentialTransferAccountX (tlv_data st') = Ok (e2, j) \<and>
      ct_add (zk_curve zk) (cta_available_balance e2) (cc_second_ciphertext p) = Some available \<and>
      L' = set_data (ai_key d) (pack_state PodAccountB (st'\<lparr>tlv_data := set_extension AccountBase
        ConfidentialTransferAccountX (e2\<lparr>cta_available_balance := available,
          cta_decryptable_available_balance := b\<rparr>) (tlv_data st')\<rparr>)) L1"
proof -
  obtain p iter a infos mint x c st e w st' L1 e2 j available where h:
    "verify_and_extract_context zk (zk_ciphertext_equality zk) (read_any L) L accounts offset None = Ok (p, iter)"
    "next_account_info iter = Ok (a, infos)" "token_mint (ac_data (L (ai_key m))) = Ok mint"
    "get_extension MintBase TransferFeeConfigX (tlv_data mint) = Ok x"
    "opt_key (tfc_withdraw_withheld_authority x) = Some (ai_key a)"
    "owner_signed program_id L a (take (length infos - unat n) infos)"
    "get_extension MintBase ConfidentialTransferFeeConfigX (tlv_data mint) = Ok c" "ai_key d \<noteq> ai_key m"
    "token_account (ac_data (L (ai_key d))) = Ok st"
    "get_extension AccountBase ConfidentialTransferAccountX (tlv_data st) = Ok e"
    "cc_first_pubkey p = ctf_withdraw_withheld_authority_elgamal_pubkey c" "cc_second_pubkey p = cta_elgamal_pubkey e"
    "ctf_withdraw_loop (zk_curve zk) (ai_key m) (ai_key d) (drop (length infos - unat n) infos) 0 st L = Ok (w, st', L1)"
    "cc_first_ciphertext p = w"
    "get_extension_mut AccountBase ConfidentialTransferAccountX (tlv_data st') = Ok (e2, j)"
    "ct_add (zk_curve zk) (cta_available_balance e2) (cc_second_ciphertext p) = Some available"
    "L' = set_data (ai_key d) (pack_state PodAccountB (st'\<lparr>tlv_data := set_extension AccountBase
        ConfidentialTransferAccountX (e2\<lparr>cta_available_balance := available,
          cta_decryptable_available_balance := b\<rparr>) (tlv_data st')\<rparr>)) L1"
    using assms
    by (auto simp: ctf_process_withdraw_withheld_tokens_from_accounts_def and_then_Ok borrow_Ok if_Err_Ok ok_or_Ok
        validate_owner_Ok Let_def)
  have au: "after_fee_proof zk L accounts offset a infos"
    "fee_authorized program_id L a (take (length infos - unat n) infos) mint"
    using h(1,2,4-6) unfolding fee_authorized_def after_fee_proof_def next_account_info_Ok by blast+
  have s: "set (drop (length infos - unat n) infos) \<subseteq> set accounts"
    using verify_and_extract_context_rest [OF h(1)] h(2)
    by (cases iter) (auto simp: next_account_info_def dest: in_set_dropD)
  have mint: "mint_fee_state L (ai_key m) mint c" using h(3,7) by (simp add: mint_fee_state_def)
  note proven = verify_and_extract_context_proven [OF h(1) borrows_simps(1)]
  show thesis
    by (rule that [OF proven au(1,2) mint h(8,9) s h(13,10-12,14)]) (use h(15-17) in blast)
qed

lemma available_credit:
  assumes "ristretto_group C decode" "ct_add C (cta_available_balance e) c = Some available" "opens decode s c X"
    and "confidential_value decode s e V"
  shows "confidential_value decode s (e\<lparr>cta_available_balance := available, cta_decryptable_available_balance := b\<rparr>) (V + X)"
proof -
  obtain A l h where o: "opens decode s (cta_available_balance e) A" "opens decode s (cta_pending_balance_lo e) l"
    "opens decode s (cta_pending_balance_hi e) h" "V = A + (l + scale 65536 h)"
    using assms(4) by (auto simp: confidential_value_def)
  have "opens decode s available (A + X)"
    using ct_add_opens [OF assms(1) o(1) assms(3)] assms(2) by auto
  then show ?thesis
    unfolding confidential_value_def using o
    by (intro exI [of _ "A + X"] exI [of _ l] exI [of _ h]) (simp add: algebra_simps)
qed

lemma equality_soundD:
  assumes "equality_sound zk decode secret" "proven_context zk (zk_ciphertext_equality zk) L p"
    and "secret s (cc_first_pubkey p)" "secret s' (cc_second_pubkey p)" "opens decode s (cc_first_ciphertext p) X"
  shows "opens decode s' (cc_second_ciphertext p) X"
  using assms unfolding equality_sound_def by blast

text \<open>
  What is held for the withdraw authority and by the destination: withheld on the mint, withheld on the
  accounts, and what the destination is worth.
\<close>

definition fees_and_worth ::
  "(point \<Rightarrow> 'g::ab_group_add option) \<Rightarrow> nat \<Rightarrow> nat \<Rightarrow> ledger \<Rightarrow> pubkey \<Rightarrow> pubkey \<Rightarrow> pubkey set \<Rightarrow> 'g \<Rightarrow> bool" where
  "fees_and_worth decode s sd L m d A T \<longleftrightarrow>
     (\<exists>mint c W M. mint_fee_state L m mint c \<and> opens decode s (ctf_withheld_amount c) W \<and> worth decode sd L d M \<and>
        T = W + total_fees decode s A L + M)"

lemma fees_and_worthD:
  assumes "fees_and_worth decode s sd L m d A T" "mint_fee_state L m mint c"
  shows "\<exists>W M. opens decode s (ctf_withheld_amount c) W \<and> worth decode sd L d M \<and> T = W + total_fees decode s A L + M"
  using assms mint_fee_state_unique unfolding fees_and_worth_def by metis

lemma fee_of_store: "fee_of decode s (set_extension AccountBase ConfidentialTransferAccountX e tlv) = fee_of decode s tlv"
proof -
  have "get_extension AccountBase ConfidentialTransferFeeAmountX (set_extension AccountBase ConfidentialTransferAccountX e tlv) =
      get_extension AccountBase ConfidentialTransferFeeAmountX tlv"
    by (rule cta.get_set_other) (simp add: ConfidentialTransferFeeAmountX_def ConfidentialTransferAccountX_def)
  then show ?thesis by (simp add: fee_of_def)
qed

text \<open>Storing the confidential state of an account that kept its shape.\<close>

lemma stored_account:
  assumes "token_account d = Ok st" "destination_kept st st'"
  shows "token_account (pack_state PodAccountB (st'\<lparr>tlv_data :=
      set_extension AccountBase ConfidentialTransferAccountX e (tlv_data st')\<rparr>)) = Ok (st'\<lparr>tlv_data :=
      set_extension AccountBase ConfidentialTransferAccountX e (tlv_data st')\<rparr>)"
    and "withheld_fee decode s (pack_state PodAccountB (st'\<lparr>tlv_data :=
      set_extension AccountBase ConfidentialTransferAccountX e (tlv_data st')\<rparr>)) = fee_of decode s (tlv_data st')"
proof -
  show t: "token_account (pack_state PodAccountB (st'\<lparr>tlv_data :=
      set_extension AccountBase ConfidentialTransferAccountX e (tlv_data st')\<rparr>)) = Ok (st'\<lparr>tlv_data :=
      set_extension AccountBase ConfidentialTransferAccountX e (tlv_data st')\<rparr>)"
    using token_account_initialized [OF assms(1)] assms(2)
    by (intro token_account_write [OF assms(1)]) (simp_all add: destination_kept_def)
  then show "withheld_fee decode s (pack_state PodAccountB (st'\<lparr>tlv_data :=
      set_extension AccountBase ConfidentialTransferAccountX e (tlv_data st')\<rparr>)) = fee_of decode s (tlv_data st')"
    by (simp add: withheld_fee_def fee_of_store)
qed

lemma withdraw_from_mint_conserves:
  assumes "ristretto_group (zk_curve zk) decode" "equality_sound zk decode secret"
    and "ctf_process_withdraw_withheld_tokens_from_mint zk program_id (m # d # accounts) b offset L = Ok L'"
    and "mint_fee_state L (ai_key m) mint c" "secret s (ctf_withdraw_withheld_authority_elgamal_pubkey c)"
    and "confidential_account L (ai_key d) dst e" "secret sd (cta_elgamal_pubkey e)"
    and "ai_key m \<notin> A" "fees_and_worth decode s sd L (ai_key m) (ai_key d) A T"
  shows "fees_and_worth decode s sd L' (ai_key m) (ai_key d) A T \<and>
    (\<exists>a rest. after_fee_proof zk L accounts offset a rest \<and> fee_authorized program_id L a rest mint)"
proof (rule withdraw_from_mint_Ok [OF assms(3)])
  fix p a0 rest mint2 mint' c2 st e2 e' L1
  assume auth: "after_fee_proof zk L accounts offset a0 rest" "fee_authorized program_id L a0 rest mint2"
  assume h: "proven_context zk (zk_ciphertext_equality zk) L p"
    "mint_fee_state L (ai_key m) mint2 c2" "ai_key d \<noteq> ai_key m" "credit_withheld (zk_curve zk) p b c2 e2 = Ok e'"
    "confidential_account L (ai_key d) st e2"
    "confidential_step L L1 (ai_key d) (a_amount (base st)) e2 (a_amount (base st)) e'"
    "L1 = set_data (ai_key d) (pack_state PodAccountB (st\<lparr>tlv_data :=
       set_extension AccountBase ConfidentialTransferAccountX e' (tlv_data st)\<rparr>)) L"
    "L' = set_data (ai_key m) (pack_state PodMintB mint') L1"
    "mint_fee_state L' (ai_key m) mint' (c2\<lparr>ctf_withheld_amount := 0\<rparr>)"
  have eq: "mint2 = mint" "c2 = c" "st = dst" "e2 = e"
    using mint_fee_state_unique [OF assms(4) h(2)] confidential_account_unique [OF assms(6) h(5)] by simp_all
  obtain W M where t: "opens decode s (ctf_withheld_amount c) W" "worth decode sd L (ai_key d) M"
    "T = W + total_fees decode s A L + M"
    using fees_and_worthD [OF assms(9,4)] by blast
  obtain available where a: "cc_first_pubkey p = ctf_withdraw_withheld_authority_elgamal_pubkey c"
    "cc_second_pubkey p = cta_elgamal_pubkey e" "cc_first_ciphertext p = ctf_withheld_amount c"
    "ct_add (zk_curve zk) (cta_available_balance e) (cc_second_ciphertext p) = Some available"
    "e' = e\<lparr>cta_available_balance := available, cta_decryptable_available_balance := b\<rparr>"
    using h(4) by (auto simp: eq credit_withheld_def res_simps split: if_splits)
  have o: "opens decode sd (cc_second_ciphertext p) W"
    by (rule equality_soundD [OF assms(2) h(1)]) (use a assms(5,7) t(1) in simp_all)
  have "worth decode sd L1 (ai_key d) (M + W)"
    by (rule confidential_step_shift [OF h(6) t(2)]) (use available_credit [OF assms(1) a(4) o] eq a(5) in simp)
  then have "worth decode sd L' (ai_key d) (M + W)"
    using h(3) by (simp add: h(8) worth_def confidential_account_def)
  moreover have "withheld_fee decode s (ac_data (L' k)) = withheld_fee decode s (ac_data (L k))" if "k \<in> A" for k
  proof -
    have st: "token_account (ac_data (L (ai_key d))) = Ok st" using h(5) by (simp add: confidential_account_def)
    have "destination_kept st st" by (simp add: destination_kept_def)
    note stored_account(2) [OF st this, of decode s e']
    moreover have "k \<noteq> ai_key m" using that assms(8) by blast
    ultimately show ?thesis
      using st by (cases "k = ai_key d") (simp_all add: h(7,8) withheld_fee_def)
  qed
  then have "total_fees decode s A L' = total_fees decode s A L"
    unfolding total_fees_def by (rule sum.cong [OF refl])
  moreover have "opens decode s (ctf_withheld_amount (c2\<lparr>ctf_withheld_amount := 0\<rparr>)) 0"
    using zero_opens [OF assms(1)] by simp
  ultimately have "fees_and_worth decode s sd L' (ai_key m) (ai_key d) A T"
    unfolding fees_and_worth_def using h(9) t(3) eq
    by (intro conjI exI [of _ mint'] exI [of _ "c2\<lparr>ctf_withheld_amount := 0\<rparr>"] exI [of _ 0] exI [of _ "M + W"])
       (simp_all add: algebra_simps)
  then show ?thesis using auth eq by blast
qed


lemma withdraw_from_accounts_conserves:
  assumes "ristretto_group (zk_curve zk) decode" "equality_sound zk decode secret"
    and "ctf_process_withdraw_withheld_tokens_from_accounts zk program_id (m # d # accounts) n b offset L = Ok L'"
    and "mint_fee_state L (ai_key m) mint c" "secret s (ctf_withdraw_withheld_authority_elgamal_pubkey c)"
    and "confidential_account L (ai_key d) dst e" "secret sd (cta_elgamal_pubkey e)"
    and "finite A" "ai_key m \<notin> A" "ai_key d \<in> A" "ai_key ` set accounts \<subseteq> A"
    and "\<forall>k\<in>A. withheld_opens decode s (ac_data (L k))" "fees_and_worth decode s sd L (ai_key m) (ai_key d) A T"
  shows "fees_and_worth decode s sd L' (ai_key m) (ai_key d) A T \<and>
    (\<exists>a rest. after_fee_proof zk L accounts offset a rest \<and>
      fee_authorized program_id L a (take (length rest - unat n) rest) mint)"
proof (rule withdraw_from_accounts_Ok [OF assms(3)])
  fix p a0 rest mint2 c2 st st' w infos e2 available L1
  assume auth: "after_fee_proof zk L accounts offset a0 rest"
    "fee_authorized program_id L a0 (take (length rest - unat n) rest) mint2"
  assume h: "proven_context zk (zk_ciphertext_equality zk) L p"
    "mint_fee_state L (ai_key m) mint2 c2" "ai_key d \<noteq> ai_key m"
    "token_account (ac_data (L (ai_key d))) = Ok st" "set infos \<subseteq> set accounts"
    "ctf_withdraw_loop (zk_curve zk) (ai_key m) (ai_key d) infos 0 st L = Ok (w, st', L1)"
    "get_extension AccountBase ConfidentialTransferAccountX (tlv_data st) = Ok e2"
    "cc_first_pubkey p = ctf_withdraw_withheld_authority_elgamal_pubkey c2" "cc_second_pubkey p = cta_elgamal_pubkey e2"
    "cc_first_ciphertext p = w"
    "\<exists>e3 j. get_extension_mut AccountBase ConfidentialTransferAccountX (tlv_data st') = Ok (e3, j) \<and>
      ct_add (zk_curve zk) (cta_available_balance e3) (cc_second_ciphertext p) = Some available \<and>
      L' = set_data (ai_key d) (pack_state PodAccountB (st'\<lparr>tlv_data := set_extension AccountBase
        ConfidentialTransferAccountX (e3\<lparr>cta_available_balance := available,
          cta_decryptable_available_balance := b\<rparr>) (tlv_data st')\<rparr>)) L1"
  have eq: "mint2 = mint" "c2 = c" "st = dst" "e2 = e"
    using mint_fee_state_unique [OF assms(4) h(2)] assms(6) h(4,7) by (simp_all add: confidential_account_def)
  obtain W M where t: "opens decode s (ctf_withheld_amount c) W" "worth decode sd L (ai_key d) M"
    "T = W + total_fees decode s A L + M"
    using fees_and_worthD [OF assms(13,4)] by blast
  let ?B = "A - {ai_key d}"
  have sub: "ai_key ` set infos \<subseteq> insert (ai_key d) ?B" by (rule order_trans [OF image_mono [OF h(5)]]) (use assms(11) in auto)
  have fin: "finite ?B" "\<forall>k\<in>?B. withheld_opens decode s (ac_data (L k))"
    "fee_opens decode s (tlv_data st)"
    using assms(8,10,12) h(4) by (auto simp: withheld_opens_def)
  from withdraw_loop_total [OF h(6) assms(1) zero_opens [OF assms(1)] fin(1) sub fin(2,3)] obtain X where
    l: "opens decode s w X" "X + fee_of decode s (tlv_data st') + total_fees decode s ?B L1 =
      fee_of decode s (tlv_data st) + total_fees decode s ?B L"
    "only_harvested decode s ?B L L1" "destination_kept st st'"
    by auto
  have o: "opens decode sd (cc_second_ciphertext p) X"
    by (rule equality_soundD [OF assms(2) h(1)]) (use h(8-10) assms(5,7) l(1) eq in simp_all)
  have e3: "get_extension AccountBase ConfidentialTransferAccountX (tlv_data st') = Ok e"
    using l(4) h(7) eq by (simp add: destination_kept_def)
  let ?e = "e\<lparr>cta_available_balance := available, cta_decryptable_available_balance := b\<rparr>"
  from h(11) obtain e3 j where g: "get_extension_mut AccountBase ConfidentialTransferAccountX (tlv_data st') = Ok (e3, j)"
    "ct_add (zk_curve zk) (cta_available_balance e3) (cc_second_ciphertext p) = Some available"
    "L' = set_data (ai_key d) (pack_state PodAccountB (st'\<lparr>tlv_data := set_extension AccountBase
        ConfidentialTransferAccountX (e3\<lparr>cta_available_balance := available,
          cta_decryptable_available_balance := b\<rparr>) (tlv_data st')\<rparr>)) L1"
    by blast
  have "e3 = e" using get_extension_mut_Ok_get [OF g(1)] e3 by simp
  with g have a: "ct_add (zk_curve zk) (cta_available_balance e) (cc_second_ciphertext p) = Some available"
    and L': "L' = set_data (ai_key d) (pack_state PodAccountB (st'\<lparr>tlv_data := set_extension AccountBase
        ConfidentialTransferAccountX ?e (tlv_data st')\<rparr>)) L1"
    by simp_all
  note s = stored_account [OF h(4) l(4)]
  obtain V where v: "confidential_value decode sd e V" "M = amount_point decode (unat (a_amount (base dst))) + V"
    using t(2) by (auto simp: worth_def dest: confidential_account_unique [OF assms(6)])
  have "confidential_account L' (ai_key d) (st'\<lparr>tlv_data := set_extension AccountBase
        ConfidentialTransferAccountX ?e (tlv_data st')\<rparr>) ?e"
    using s(1) [of ?e] cta.get_set_same [OF e3, of ?e] by (simp add: confidential_account_def L')
  moreover have "base st' = base dst" using l(4) eq by (simp add: destination_kept_def)
  ultimately have "worth decode sd L' (ai_key d) (amount_point decode (unat (a_amount (base dst))) + (V + X))"
    unfolding worth_def using available_credit [OF assms(1) a o v(1), of b] by fastforce
  then have "worth decode sd L' (ai_key d) (M + X)" using v(2) by (simp add: add.assoc)
  moreover have "L' (ai_key m) = L (ai_key m)"
    using l(3) h(3) assms(9) by (auto simp: L' only_harvested_def)
  then have "mint_fee_state L' (ai_key m) mint c" using assms(4) by (simp add: mint_fee_state_def)
  moreover have "total_fees decode s A L' = fee_of decode s (tlv_data st') + total_fees decode s ?B L1"
    unfolding total_fees_def sum.remove [OF assms(8,10)] by (simp add: L' s(2))
  moreover have "total_fees decode s A L = fee_of decode s (tlv_data st) + total_fees decode s ?B L"
    unfolding total_fees_def sum.remove [OF assms(8,10)] by (simp add: withheld_fee_def h(4))
  ultimately have "fees_and_worth decode s sd L' (ai_key m) (ai_key d) A T"
    unfolding fees_and_worth_def using t(1,3) l(2) eq
    by (intro conjI exI [of _ mint] exI [of _ c] exI [of _ W] exI [of _ "M + X"]) (simp_all add: algebra_simps)
  then show ?thesis using auth eq by blast
qed

section \<open>Property: withdrawing conserves the fees\<close>

text \<open>
  C27: withdrawing confidential fees, from the mint or from accounts, needs the signature of the
  withdraw authority, the account after the proof accounts (itself, or for a multisig the accounts between it and
  the listed token accounts), and moves value without making or losing any: what is withheld on the mint, what is
  withheld on the accounts and what the destination is worth add up to the same total.
\<close>

theorem confidential_fee_withdrawal_conserves:
  assumes "ristretto_group (zk_curve zk) decode" "equality_sound zk decode secret"
    and "mint_fee_state L (ai_key m) mint c" "secret s (ctf_withdraw_withheld_authority_elgamal_pubkey c)"
    and "confidential_account L (ai_key d) dst e" "secret sd (cta_elgamal_pubkey e)"
    and "finite A" "ai_key m \<notin> A" "ai_key d \<in> A" "ai_key ` set accounts \<subseteq> A"
    and "\<forall>k\<in>A. withheld_opens decode s (ac_data (L k))" "fees_and_worth decode s sd L (ai_key m) (ai_key d) A T"
    and "ctf_process_withdraw_withheld_tokens_from_mint zk program_id (m # d # accounts) b offset L = Ok L' \<or>
      ctf_process_withdraw_withheld_tokens_from_accounts zk program_id (m # d # accounts) n b offset L = Ok L'"
  shows "fees_and_worth decode s sd L' (ai_key m) (ai_key d) A T \<and>
    (\<exists>a rest. after_fee_proof zk L accounts offset a rest \<and>
       (ctf_process_withdraw_withheld_tokens_from_mint zk program_id (m # d # accounts) b offset L = Ok L' \<and>
          fee_authorized program_id L a rest mint \<or>
        ctf_process_withdraw_withheld_tokens_from_accounts zk program_id (m # d # accounts) n b offset L = Ok L' \<and>
          fee_authorized program_id L a (take (length rest - unat n) rest) mint))"
  using assms(13)
proof
  assume "ctf_process_withdraw_withheld_tokens_from_mint zk program_id (m # d # accounts) b offset L = Ok L'"
  from withdraw_from_mint_conserves [OF assms(1,2) this assms(3-6,8,12)] this show ?thesis by blast
next
  assume "ctf_process_withdraw_withheld_tokens_from_accounts zk program_id (m # d # accounts) n b offset L = Ok L'"
  from withdraw_from_accounts_conserves [OF assms(1,2) this assms(3-12)] this show ?thesis by blast
qed

section \<open>A mint with confidential fees\<close>

text \<open>The fee key is 12; \<open>2 * G\<close> is withheld on the mint and \<open>4 * G\<close> on the account 10.\<close>

definition demo_fees :: ConfidentialTransferFeeConfig where
  "demo_fees = \<lparr>ctf_authority = 77, ctf_withdraw_withheld_authority_elgamal_pubkey = 12,
     ctf_harvest_to_mint_enabled = 1, ctf_withheld_amount = ristretto_to_elgamal_ciphertext (2 * G_POINT) 0\<rparr>"

definition fee_entries :: "(ExtensionType \<times> bytes) list" where
  "fee_entries = [(ExtensionType.TransferFeeConfig, enc_TransferFeeConfig demo_fee_config),
     (ExtensionType.ConfidentialTransferFeeConfig, enc_ConfidentialTransferFeeConfig demo_fees)]"

definition withheld_entries :: "(ExtensionType \<times> bytes) list" where
  "withheld_entries = [(ExtensionType.ConfidentialTransferFeeAmount,
     enc_ConfidentialTransferFeeAmount \<lparr>cfa_withheld_amount = ristretto_to_elgamal_ciphertext (4 * G_POINT) 0\<rparr>)]"

definition demo_fees_ledger :: ledger where
  "demo_fees_ledger = entries_ledger fee_entries withheld_entries (account_entries (demo_confidential 6 0))"

lemma fee_entries_fit [simp]: "entries_fit fee_entries" "entries_fit withheld_entries"
  using tfc.length_enc [of demo_fee_config]
  by (simp_all add: TransferFeeConfigX_def entries_fit_def fee_entries_def withheld_entries_def wf_entry_def
      enc_ConfidentialTransferFeeConfig_def enc_ConfidentialTransferFeeAmount_def)

lemma fee_entries_get [simp]:
  "get_extension MintBase TransferFeeConfigX (buffer fee_entries 0) = Ok demo_fee_config"
  "get_extension MintBase ConfidentialTransferFeeConfigX (buffer fee_entries 0) = Ok demo_fees"
  "get_extension AccountBase ConfidentialTransferFeeAmountX (buffer withheld_entries 0) =
     Ok \<lparr>cfa_withheld_amount = ristretto_to_elgamal_ciphertext (4 * G_POINT) 0\<rparr>"
proof -
  have wf: "wf_entries fee_entries" "wf_entries withheld_entries"
    using fee_entries_fit by (simp_all add: entries_fit_def)
  show "get_extension MintBase TransferFeeConfigX (buffer fee_entries 0) = Ok demo_fee_config"
    by (rule tfc.get_extension_entries [OF wf(1)]) (simp_all add: fee_entries_def TransferFeeConfigX_def)
  show "get_extension MintBase ConfidentialTransferFeeConfigX (buffer fee_entries 0) = Ok demo_fees"
    by (rule ctf.get_extension_entries [OF wf(1)]) (simp_all add: fee_entries_def ConfidentialTransferFeeConfigX_def)
  show "get_extension AccountBase ConfidentialTransferFeeAmountX (buffer withheld_entries 0) =
     Ok \<lparr>cfa_withheld_amount = ristretto_to_elgamal_ciphertext (4 * G_POINT) 0\<rparr>"
    by (rule cfa.get_extension_entries [OF wf(2)]) (simp_all add: withheld_entries_def ConfidentialTransferFeeAmountX_def)
qed

lemma demo_fees_states:
  "token_mint (ac_data (demo_fees_ledger 1)) = Ok (ext_mint (plain_mint 30 150) (buffer fee_entries 0))"
  "token_account (ac_data (demo_fees_ledger 10)) = Ok (ext_account (plain_account 1 20 100) (buffer withheld_entries 0))"
  "token_account (ac_data (demo_fees_ledger 11)) =
     Ok (ext_account (plain_account 1 21 50) (buffer (account_entries (demo_confidential 6 0)) 0))"
  "ac_owner (demo_fees_ledger 1) = token_program_id" "ac_owner (demo_fees_ledger 10) = token_program_id"
  "ac_owner (demo_fees_ledger 11) = token_program_id" "ac_owner (demo_fees_ledger 600) = 500"
  by (simp_all add: demo_fees_ledger_def)

lemma opened_word [simp]: "opened Some s (ristretto_to_elgamal_ciphertext p 0) = p"
  by (rule opens_opened) simp

lemma demo_fees_open:
  "withheld_opens Some s (ac_data (demo_fees_ledger 10))" "withheld_opens Some s (ac_data (demo_fees_ledger 11))"
  "withheld_opens Some s (ac_data (demo_fees_ledger 600))" "withheld_opens Some s (ac_data (demo_fees_ledger 77))"
proof -
  have "\<exists>err. get_extension AccountBase ConfidentialTransferFeeAmountX (buffer (account_entries (demo_confidential 6 0)) 0) = Err err"
    by (rule demo_account_missing) (simp_all add: ConfidentialTransferFeeAmountX_def)
  then show "withheld_opens Some s (ac_data (demo_fees_ledger 10))" "withheld_opens Some s (ac_data (demo_fees_ledger 11))"
    by (auto simp: withheld_opens_def demo_fees_states fee_opens_def)
  have "ac_data (demo_fees_ledger 600) = []" "ac_data (demo_fees_ledger 77) = []"
    by (simp_all add: demo_fees_ledger_def entries_ledger_def demo_ledger_def)
  then show "withheld_opens Some s (ac_data (demo_fees_ledger 600))" "withheld_opens Some s (ac_data (demo_fees_ledger 77))"
    by (simp_all add: withheld_opens_def unpack_mut_def check_min_len_and_not_multisig_def ACCOUNT_LEN_def)
qed

lemma demo_fees_no_withheld:
  "withheld_fee Some s (ac_data (demo_fees_ledger 11)) = 0" "withheld_fee Some s (ac_data (demo_fees_ledger 600)) = 0"
  "withheld_fee Some s (ac_data (demo_fees_ledger 77)) = 0"
proof -
  have "\<exists>err. get_extension AccountBase ConfidentialTransferFeeAmountX (buffer (account_entries (demo_confidential 6 0)) 0) = Err err"
    by (rule demo_account_missing) (simp_all add: ConfidentialTransferFeeAmountX_def)
  then show "withheld_fee Some s (ac_data (demo_fees_ledger 11)) = 0"
    by (auto simp: withheld_fee_def demo_fees_states fee_of_def)
  have "ac_data (demo_fees_ledger 600) = []" "ac_data (demo_fees_ledger 77) = []"
    by (simp_all add: demo_fees_ledger_def entries_ledger_def demo_ledger_def)
  then show "withheld_fee Some s (ac_data (demo_fees_ledger 600)) = 0" "withheld_fee Some s (ac_data (demo_fees_ledger 77)) = 0"
    by (simp_all add: withheld_fee_def unpack_mut_def check_min_len_and_not_multisig_def ACCOUNT_LEN_def)
qed

abbreviation demo_confidential_harvest :: "ledger result" where
  "demo_confidential_harvest \<equiv> ctf_process_harvest_withheld_tokens_to_mint (demo_zk [] 0 0)
     [unsigned_key 1, unsigned_key 10] demo_fees_ledger"

lemma demo_confidential_harvest_succeeds: "\<exists>L'. demo_confidential_harvest = Ok L'"
proof -
  obtain i j where i: "get_extension_mut MintBase ConfidentialTransferFeeConfigX (buffer fee_entries 0) = Ok (demo_fees, i)"
    "get_extension_mut AccountBase ConfidentialTransferFeeAmountX (buffer withheld_entries 0) =
       Ok (\<lparr>cfa_withheld_amount = ristretto_to_elgamal_ciphertext (4 * G_POINT) 0\<rparr>, j)"
    using extension_mut_exists [OF fee_entries_get(2)] extension_mut_exists [OF fee_entries_get(3)] by blast
  show ?thesis
    using i
    by (simp add: ctf_process_harvest_withheld_tokens_to_mint_def ctf_harvest_from_account_def demo_fees_states
        check_program_account_def borrow_data_def demo_fees_def pod_bool_def)
qed

lemma demo_mint_fee_state:
  "mint_fee_state demo_fees_ledger (ai_key (unsigned_key 1)) (ext_mint (plain_mint 30 150) (buffer fee_entries 0)) demo_fees"
  by (simp add: mint_fee_state_def demo_fees_states)

lemma demo_fees_withheld: "opens Some s (ctf_withheld_amount demo_fees) (2 * G_POINT)"
  by (simp add: demo_fees_def)

theorem confidential_harvest_conserves_witness:
  "\<exists>L' mint' w' W'. demo_confidential_harvest = Ok L' \<and>
     mint_fee_state L' 1 mint' (demo_fees\<lparr>ctf_withheld_amount := w'\<rparr>) \<and> opens Some 12 w' W' \<and>
     W' + total_fees Some 12 {10} L' = 6 * G_POINT"
proof -
  obtain L' where l: "demo_confidential_harvest = Ok L'" using demo_confidential_harvest_succeeds ..
  have "total_fees Some 12 {10} demo_fees_ledger = 4 * G_POINT"
    by (simp add: total_fees_def withheld_fee_def fee_of_def demo_fees_states)
  moreover have "\<forall>k\<in>{10}. withheld_opens Some 12 (ac_data (demo_fees_ledger k))" by (simp add: demo_fees_open)
  ultimately show ?thesis
    using confidential_harvest_conserves [of "demo_zk [] 0 0" Some "{10}" "unsigned_key 1" "[unsigned_key 10]" 12 demo_fees_ledger,
        OF demo_zk_group _ _ _ _ demo_mint_fee_state demo_fees_withheld l] l
    by auto
qed

text \<open>The withdraw authority 77 moves the \<open>2 * G\<close> of the mint to the account 11.\<close>

abbreviation demo_fee_zk :: ZkSdk where
  "demo_fee_zk \<equiv> demo_zk [12] 6 (2 * G_POINT)"

abbreviation demo_fee_withdrawal :: "ledger result" where
  "demo_fee_withdrawal \<equiv> ctf_process_withdraw_withheld_tokens_from_mint demo_fee_zk token_program_id
     [unsigned_key 1, unsigned_key 11, unsigned_key 600, signed_key 77] 0 0 demo_fees_ledger"

lemma demo_fee_withdrawal_succeeds: "\<exists>L'. demo_fee_withdrawal = Ok L'"
proof -
  let ?e = "demo_confidential 6 0"
  obtain i j where i: "get_extension_mut MintBase ConfidentialTransferFeeConfigX (buffer fee_entries 0) = Ok (demo_fees, i)"
    "get_extension_mut AccountBase ConfidentialTransferAccountX (buffer (account_entries ?e) 0) = Ok (?e, j)"
    using extension_mut_exists [OF fee_entries_get(2)] extension_mut_exists [OF demo_account_get] by blast
  have c: "verify_and_extract_context demo_fee_zk (zk_ciphertext_equality demo_fee_zk) (read_any demo_fees_ledger) demo_fees_ledger
      [unsigned_key 600, signed_key 77] 0 None = Ok (\<lparr>cc_first_pubkey = 12, cc_second_pubkey = 6,
        cc_first_ciphertext = ristretto_to_elgamal_ciphertext (2 * G_POINT) 0,
        cc_second_ciphertext = ristretto_to_elgamal_ciphertext (2 * G_POINT) 0\<rparr>, [signed_key 77])"
    by (simp add: verify_and_extract_context_def check_zk_elgamal_proof_program_account_def demo_zk_def demo_proof_def
        demo_fees_states)
  have v: "validate_owner token_program_id demo_fees_ledger 77 (signed_key 77) (data_len demo_fees_ledger (signed_key 77)) [] = Ok ()"
    by (rule validate_owner_plain) (simp add: demo_fees_ledger_def entries_ledger_def demo_ledger_def)
  have w: "\<exists>e'. credit_withheld word_curve \<lparr>cc_first_pubkey = 12, cc_second_pubkey = 6,
        cc_first_ciphertext = ristretto_to_elgamal_ciphertext (2 * G_POINT) 0,
        cc_second_ciphertext = ristretto_to_elgamal_ciphertext (2 * G_POINT) 0\<rparr> 0 demo_fees ?e = Ok e'"
    by (simp add: credit_withheld_def demo_fees_def)
  show ?thesis
    using i c v w
    by (auto simp: ctf_process_withdraw_withheld_tokens_from_mint_def demo_fees_states check_program_account_def
        borrow_data_def opt_key_def)
qed

theorem confidential_fee_withdrawal_conserves_witness:
  "\<exists>L'. demo_fee_withdrawal = Ok L' \<and> fees_and_worth Some 12 6 L' 1 11 {11, 600, 77} (52 * G_POINT)"
proof -
  obtain L' where l: "demo_fee_withdrawal = Ok L'" using demo_fee_withdrawal_succeeds ..
  have c: "confidential_account demo_fees_ledger (ai_key (unsigned_key 11))
      (ext_account (plain_account 1 21 50) (buffer (account_entries (demo_confidential 6 0)) 0)) (demo_confidential 6 0)"
    by (simp add: confidential_account_def demo_fees_states)
  have k: "demo_secret 12 (ctf_withdraw_withheld_authority_elgamal_pubkey demo_fees)"
    "demo_secret 6 (cta_elgamal_pubkey (demo_confidential 6 0))"
    by (simp_all add: demo_secret_def demo_fees_def)
  have o: "\<forall>k\<in>{11, 600, 77}. withheld_opens Some 12 (ac_data (demo_fees_ledger k))"
    by (simp add: demo_fees_open)
  have w: "worth Some 6 demo_fees_ledger 11 (50 * G_POINT)"
    unfolding worth_def confidential_value_def confidential_account_def
    by (simp add: demo_fees_states amount_point_def scale_word plain_account_def)
  have z: "total_fees Some 12 {11, 600, 77} demo_fees_ledger = 0"
    using demo_fees_no_withheld by (simp add: total_fees_def)
  have t: "fees_and_worth Some 12 6 demo_fees_ledger (ai_key (unsigned_key 1)) (ai_key (unsigned_key 11)) {11, 600, 77} (52 * G_POINT)"
    unfolding fees_and_worth_def using demo_mint_fee_state demo_fees_withheld w z by fastforce
  show ?thesis
    using confidential_fee_withdrawal_conserves [of demo_fee_zk Some demo_secret demo_fees_ledger "unsigned_key 1" _ demo_fees 12
        "unsigned_key 11" _ "demo_confidential 6 0" 6 "{11, 600, 77}" "[unsigned_key 600, signed_key 77]",
        OF demo_zk_group demo_equality_sound demo_mint_fee_state k(1) c k(2) _ _ _ _ o t disjI1, OF _ _ _ _ l] l
    by simp
qed

end
