(* ===== verification/Proof_Generation.thy ===== *)
theory Proof_Generation
  imports Proof_Extraction
begin

unbundle bit_operations_syntax

text \<open>
  The client side of the zero-knowledge proofs (src/confidential/proof-generation/src): splitting amounts,
  encrypting them, computing the new balance or supply, and asking the SDK for the proofs.  The SDK is a
  parameter: its commitments, openings and ciphertexts are groups, and a proof is what a constructor returns,
  with the context it was made for.  The randomness the code draws (\<open>PedersenOpening::new_rand\<close>, \<open>Pedersen::new\<close>)
  is an argument, one opening for each draw.
\<close>

section \<open>The SDK\<close>

type_synonym aes_key = "128 word"

text \<open>The errors of a proof constructor, opaque to the code.\<close>

datatype ProofGenerationError = ProofGenerationError nat

record 'u ProofData =
  context_data :: 'u
  pd_bytes :: bytes

text \<open>
  \<open>'g\<close>: commitments and decryption handles, \<open>'o\<close>: openings, \<open>'c\<close>: ciphertexts, \<open>'k\<close>: key pairs.  A grouped
  ciphertext is its commitment and its handles.
\<close>

type_synonym 'g Grouped = "'g \<times> 'g list"

record ('g, 'o, 'c, 'k) ProofSdk =
  keypair_pubkey :: "'k \<Rightarrow> pubkey"
  pedersen_with :: "u64 \<Rightarrow> 'o \<Rightarrow> 'g"
  encrypt_with :: "pubkey list \<Rightarrow> u64 \<Rightarrow> 'o \<Rightarrow> 'g Grouped"
  to_elgamal_ciphertext :: "'g Grouped \<Rightarrow> nat \<Rightarrow> 'c option"
  elgamal_encode :: "u64 \<Rightarrow> 'c"
  ae_decrypt :: "aes_key \<Rightarrow> ae_ciphertext \<Rightarrow> u64 option"
  new_equality :: "'k \<Rightarrow> 'c \<Rightarrow> 'g \<Rightarrow> 'o \<Rightarrow> u64 \<Rightarrow>
    ProofGenerationError + CiphertextCommitmentEqualityProofContext ProofData"
  new_validity3 :: "pubkey \<Rightarrow> pubkey \<Rightarrow> pubkey \<Rightarrow> 'g Grouped \<Rightarrow> 'g Grouped \<Rightarrow> u64 \<Rightarrow> u64 \<Rightarrow> 'o \<Rightarrow> 'o \<Rightarrow>
    ProofGenerationError + BatchedGroupedCiphertext3HandlesValidityProofContext ProofData"
  new_validity2 :: "pubkey \<Rightarrow> pubkey \<Rightarrow> 'g Grouped \<Rightarrow> 'g Grouped \<Rightarrow> u64 \<Rightarrow> u64 \<Rightarrow> 'o \<Rightarrow> 'o \<Rightarrow>
    ProofGenerationError + BatchedGroupedCiphertext2HandlesValidityProofContext ProofData"
  new_range_u64 :: "'g list \<Rightarrow> u64 list \<Rightarrow> nat list \<Rightarrow> 'o list \<Rightarrow>
    ProofGenerationError + BatchedRangeProofContext ProofData"
  new_range_u128 :: "'g list \<Rightarrow> u64 list \<Rightarrow> nat list \<Rightarrow> 'o list \<Rightarrow>
    ProofGenerationError + BatchedRangeProofContext ProofData"
  new_range_u256 :: "'g list \<Rightarrow> u64 list \<Rightarrow> nat list \<Rightarrow> 'o list \<Rightarrow>
    ProofGenerationError + BatchedRangeProofContext ProofData"
  new_percentage :: "'g \<Rightarrow> 'o \<Rightarrow> u64 \<Rightarrow> 'g \<Rightarrow> 'o \<Rightarrow> u64 \<Rightarrow> 'g \<Rightarrow> 'o \<Rightarrow> u64 \<Rightarrow>
    ProofGenerationError + PercentageWithCapProofContext ProofData"

section \<open>Errors\<close>

text \<open>\<open>GenerationPanicked\<close> is the panic of an \<open>unwrap\<close>.\<close>

datatype TokenProofGenerationError = ProofGeneration ProofGenerationError | NotEnoughFunds |
  IllegalAmountBitLength | FeeCalculation | CiphertextExtraction | GenerationPanicked

type_synonym 'a generated = "TokenProofGenerationError + 'a"

definition unwrap :: "'a option \<Rightarrow> 'a generated" where
  "unwrap v = ok_or v GenerationPanicked"

text \<open>\<open>r.map_err(TokenProofGenerationError::from)?\<close>\<close>

definition inner_proof :: "ProofGenerationError + 'a \<Rightarrow> 'a generated" where
  "inner_proof r = map_err TokenProofGenerationError.ProofGeneration r"

section \<open>Splitting and combining (lib.rs)\<close>

definition TRANSFER_AMOUNT_LO_BITS :: nat where "TRANSFER_AMOUNT_LO_BITS = 16"

definition TRANSFER_AMOUNT_HI_BITS :: nat where "TRANSFER_AMOUNT_HI_BITS = 32"

definition GEN_REMAINING_BALANCE_BIT_LENGTH :: nat where "GEN_REMAINING_BALANCE_BIT_LENGTH = 64"

definition RANGE_PROOF_PADDING_BIT_LENGTH :: nat where "RANGE_PROOF_PADDING_BIT_LENGTH = 16"

definition checked_shl :: "u64 \<Rightarrow> nat \<Rightarrow> u64 option" where
  "checked_shl a n = (if n < 64 then Some (push_bit n a) else None)"

definition checked_shr :: "u64 \<Rightarrow> nat \<Rightarrow> u64 option" where
  "checked_shr a n = (if n < 64 then Some (drop_bit n a) else None)"

definition try_split_u64 :: "u64 \<Rightarrow> nat \<Rightarrow> (u64 \<times> u64) option" where
  "try_split_u64 amount bit_length =
     (if bit_length = 0 then Some (0, amount)
      else if bit_length \<le> 63
      then let bit_length_complement = 64 - bit_length
           in Option.bind (Option.bind (checked_shl amount bit_length_complement)
                (\<lambda>x. checked_shr x bit_length_complement)) (\<lambda>lo.
              Option.bind (checked_shr amount bit_length) (\<lambda>hi. Some (lo, hi)))
      else if bit_length = 64 then Some (amount, 0) else None)"

definition try_combine_lo_hi_u64 :: "u64 \<Rightarrow> u64 \<Rightarrow> nat \<Rightarrow> u64 option" where
  "try_combine_lo_hi_u64 amount_lo amount_hi bit_length =
     (if bit_length = 0 then Some amount_hi
      else if bit_length \<le> 63
      then Option.bind (checked_shl amount_hi bit_length) (\<lambda>x. checked_add x amount_hi)
      else if bit_length = 64 then Some amount_lo else None)"

text \<open>
  The same code combines ciphertexts, commitments and openings; \<open>x * Scalar::from(n)\<close> is the \<open>n\<close>-fold sum.
\<close>

definition try_combine_lo_hi :: "'a::ab_group_add \<Rightarrow> 'a \<Rightarrow> nat \<Rightarrow> 'a option" where
  "try_combine_lo_hi lo hi bit_length =
     Option.bind (checked_shl 1 bit_length) (\<lambda>two_power. Some (lo + scale (unat two_power) hi))"

section \<open>The validity proof and the ciphertexts of the auditor\<close>

record CiphertextValidityProofWithAuditorCiphertext =
  va_proof_data :: "BatchedGroupedCiphertext3HandlesValidityProofContext ProofData"
  va_ciphertext_lo :: ciphertext
  va_ciphertext_hi :: ciphertext

definition validity_with_auditor ::
  "ZkSdk \<Rightarrow> BatchedGroupedCiphertext3HandlesValidityProofContext ProofData \<Rightarrow>
     CiphertextValidityProofWithAuditorCiphertext generated" where
  "validity_with_auditor zk proof_data =
     and_then (ok_or (zk_extract_ciphertext3 zk (v3_grouped_ciphertext_lo (context_data proof_data)) 2)
       TokenProofGenerationError.CiphertextExtraction) (\<lambda>lo.
     and_then (ok_or (zk_extract_ciphertext3 zk (v3_grouped_ciphertext_hi (context_data proof_data)) 2)
       TokenProofGenerationError.CiphertextExtraction) (\<lambda>hi.
     Ok \<lparr>va_proof_data = proof_data, va_ciphertext_lo = lo, va_ciphertext_hi = hi\<rparr>))"

section \<open>Withdraw\<close>

record WithdrawProofData =
  wd_equality_proof_data :: "CiphertextCommitmentEqualityProofContext ProofData"
  wd_range_proof_data :: "BatchedRangeProofContext ProofData"

definition withdraw_proof_data ::
  "('g, 'o, 'c::ab_group_add, 'k) ProofSdk \<Rightarrow> 'o \<Rightarrow> 'c \<Rightarrow> u64 \<Rightarrow> u64 \<Rightarrow> 'k \<Rightarrow> WithdrawProofData generated" where
  "withdraw_proof_data S opening current_available_balance current_balance withdraw_amount elgamal_keypair =
     and_then (ok_or (checked_sub current_balance withdraw_amount) NotEnoughFunds) (\<lambda>remaining_balance.
     let remaining_balance_commitment = pedersen_with S remaining_balance opening;
         remaining_balance_ciphertext = current_available_balance - elgamal_encode S withdraw_amount
     in and_then (inner_proof (new_equality S elgamal_keypair remaining_balance_ciphertext
          remaining_balance_commitment opening remaining_balance)) (\<lambda>equality_proof_data.
        and_then (inner_proof (new_range_u64 S [remaining_balance_commitment] [remaining_balance]
          [GEN_REMAINING_BALANCE_BIT_LENGTH] [opening])) (\<lambda>range_proof_data.
        Ok \<lparr>wd_equality_proof_data = equality_proof_data, wd_range_proof_data = range_proof_data\<rparr>)))"

section \<open>Transfer, mint and burn\<close>

text \<open>The three kinds of proofs are the same record in the code, under three names.\<close>

record SplitProofData =
  sp_equality_proof_data :: "CiphertextCommitmentEqualityProofContext ProofData"
  sp_validity_proof_data :: CiphertextValidityProofWithAuditorCiphertext
  sp_range_proof_data :: "BatchedRangeProofContext ProofData"

text \<open>The openings drawn: for the low and the high part, the new balance or supply, and the padding.\<close>

record 'o SplitOpenings =
  opening_lo :: 'o
  opening_hi :: 'o
  opening_new :: 'o
  opening_padding :: 'o

definition transfer_split_proof_data ::
  "ZkSdk \<Rightarrow> ('g, 'o, 'c::ab_group_add, 'k) ProofSdk \<Rightarrow> 'o SplitOpenings \<Rightarrow> 'c \<Rightarrow> ae_ciphertext \<Rightarrow> u64 \<Rightarrow> 'k \<Rightarrow>
     aes_key \<Rightarrow> pubkey \<Rightarrow> pubkey option \<Rightarrow> SplitProofData generated" where
  "transfer_split_proof_data zk S R current_available_balance current_decryptable_available_balance
       transfer_amount source_elgamal_keypair aes_key destination_elgamal_pubkey auditor =
     (let auditor_elgamal_pubkey = (case auditor of Some k \<Rightarrow> k | None \<Rightarrow> 0);
          source_elgamal_pubkey = keypair_pubkey S source_elgamal_keypair;
          pubkeys = [source_elgamal_pubkey, destination_elgamal_pubkey, auditor_elgamal_pubkey]
      in and_then (ok_or (try_split_u64 transfer_amount TRANSFER_AMOUNT_LO_BITS) IllegalAmountBitLength)
        (\<lambda>(transfer_amount_lo, transfer_amount_hi).
      let grouped_ciphertext_lo = encrypt_with S pubkeys transfer_amount_lo (opening_lo R);
          grouped_ciphertext_hi = encrypt_with S pubkeys transfer_amount_hi (opening_hi R)
      in and_then (ok_or (ae_decrypt S aes_key current_decryptable_available_balance) IllegalAmountBitLength)
        (\<lambda>current_decrypted_available_balance.
      and_then (ok_or (checked_sub current_decrypted_available_balance transfer_amount) NotEnoughFunds)
        (\<lambda>new_decrypted_available_balance.
      let new_available_balance_commitment = pedersen_with S new_decrypted_available_balance (opening_new R)
      in and_then (unwrap (to_elgamal_ciphertext S grouped_ciphertext_lo 0)) (\<lambda>source_ciphertext_lo.
      and_then (unwrap (to_elgamal_ciphertext S grouped_ciphertext_hi 0)) (\<lambda>source_ciphertext_hi.
      and_then (ok_or (try_combine_lo_hi source_ciphertext_lo source_ciphertext_hi TRANSFER_AMOUNT_LO_BITS)
        IllegalAmountBitLength) (\<lambda>combined_ciphertext.
      and_then (inner_proof (new_equality S source_elgamal_keypair (current_available_balance - combined_ciphertext)
        new_available_balance_commitment (opening_new R) new_decrypted_available_balance)) (\<lambda>equality_proof_data.
      and_then (inner_proof (new_validity3 S source_elgamal_pubkey destination_elgamal_pubkey auditor_elgamal_pubkey
        grouped_ciphertext_lo grouped_ciphertext_hi transfer_amount_lo transfer_amount_hi
        (opening_lo R) (opening_hi R))) (\<lambda>validity_proof_data.
      and_then (validity_with_auditor zk validity_proof_data) (\<lambda>validity_proof_data_with_ciphertext.
      and_then (inner_proof (new_range_u128 S
        [new_available_balance_commitment, fst grouped_ciphertext_lo, fst grouped_ciphertext_hi,
         pedersen_with S 0 (opening_padding R)]
        [new_decrypted_available_balance, transfer_amount_lo, transfer_amount_hi, 0]
        [GEN_REMAINING_BALANCE_BIT_LENGTH, TRANSFER_AMOUNT_LO_BITS, TRANSFER_AMOUNT_HI_BITS, RANGE_PROOF_PADDING_BIT_LENGTH]
        [opening_new R, opening_lo R, opening_hi R, opening_padding R])) (\<lambda>range_proof_data.
      Ok \<lparr>sp_equality_proof_data = equality_proof_data,
           sp_validity_proof_data = validity_proof_data_with_ciphertext,
           sp_range_proof_data = range_proof_data\<rparr>)))))))))))"

definition mint_split_proof_data ::
  "ZkSdk \<Rightarrow> ('g, 'o, 'c::ab_group_add, 'k) ProofSdk \<Rightarrow> 'o SplitOpenings \<Rightarrow> 'c \<Rightarrow> u64 \<Rightarrow> u64 \<Rightarrow> 'k \<Rightarrow> pubkey \<Rightarrow>
     pubkey option \<Rightarrow> SplitProofData generated" where
  "mint_split_proof_data zk S R current_supply_ciphertext mint_amount current_supply supply_elgamal_keypair
       destination_elgamal_pubkey auditor =
     (let auditor_elgamal_pubkey = (case auditor of Some k \<Rightarrow> k | None \<Rightarrow> 0);
          supply_elgamal_pubkey = keypair_pubkey S supply_elgamal_keypair;
          pubkeys = [destination_elgamal_pubkey, supply_elgamal_pubkey, auditor_elgamal_pubkey]
      in and_then (ok_or (try_split_u64 mint_amount TRANSFER_AMOUNT_LO_BITS) IllegalAmountBitLength)
        (\<lambda>(mint_amount_lo, mint_amount_hi).
      let grouped_ciphertext_lo = encrypt_with S pubkeys mint_amount_lo (opening_lo R);
          grouped_ciphertext_hi = encrypt_with S pubkeys mint_amount_hi (opening_hi R)
      in and_then (unwrap (to_elgamal_ciphertext S grouped_ciphertext_lo 1)) (\<lambda>supply_ciphertext_lo.
      and_then (unwrap (to_elgamal_ciphertext S grouped_ciphertext_hi 1)) (\<lambda>supply_ciphertext_hi.
      and_then (ok_or (try_combine_lo_hi supply_ciphertext_lo supply_ciphertext_hi TRANSFER_AMOUNT_LO_BITS)
        IllegalAmountBitLength) (\<lambda>combined_ciphertext.
      and_then (ok_or (checked_add current_supply mint_amount) IllegalAmountBitLength) (\<lambda>new_supply.
      let new_supply_commitment = pedersen_with S new_supply (opening_new R)
      in and_then (inner_proof (new_equality S supply_elgamal_keypair (current_supply_ciphertext + combined_ciphertext)
        new_supply_commitment (opening_new R) new_supply)) (\<lambda>equality_proof_data.
      and_then (inner_proof (new_validity3 S destination_elgamal_pubkey supply_elgamal_pubkey auditor_elgamal_pubkey
        grouped_ciphertext_lo grouped_ciphertext_hi mint_amount_lo mint_amount_hi
        (opening_lo R) (opening_hi R))) (\<lambda>validity_proof_data.
      and_then (validity_with_auditor zk validity_proof_data) (\<lambda>validity_proof_data_with_ciphertext.
      and_then (inner_proof (new_range_u128 S
        [new_supply_commitment, fst grouped_ciphertext_lo, fst grouped_ciphertext_hi,
         pedersen_with S 0 (opening_padding R)]
        [new_supply, mint_amount_lo, mint_amount_hi, 0]
        [GEN_REMAINING_BALANCE_BIT_LENGTH, TRANSFER_AMOUNT_LO_BITS, TRANSFER_AMOUNT_HI_BITS, RANGE_PROOF_PADDING_BIT_LENGTH]
        [opening_new R, opening_lo R, opening_hi R, opening_padding R])) (\<lambda>range_proof_data.
      Ok \<lparr>sp_equality_proof_data = equality_proof_data,
           sp_validity_proof_data = validity_proof_data_with_ciphertext,
           sp_range_proof_data = range_proof_data\<rparr>))))))))))"

definition burn_split_proof_data ::
  "ZkSdk \<Rightarrow> ('g, 'o, 'c::ab_group_add, 'k) ProofSdk \<Rightarrow> 'o SplitOpenings \<Rightarrow> 'c \<Rightarrow> ae_ciphertext \<Rightarrow> u64 \<Rightarrow> 'k \<Rightarrow>
     aes_key \<Rightarrow> pubkey \<Rightarrow> pubkey option \<Rightarrow> SplitProofData generated" where
  "burn_split_proof_data zk S R current_available_balance_ciphertext current_decryptable_available_balance
       burn_amount source_elgamal_keypair source_aes_key supply_elgamal_pubkey auditor =
     (let auditor_elgamal_pubkey = (case auditor of Some k \<Rightarrow> k | None \<Rightarrow> 0);
          source_elgamal_pubkey = keypair_pubkey S source_elgamal_keypair;
          pubkeys = [source_elgamal_pubkey, supply_elgamal_pubkey, auditor_elgamal_pubkey]
      in and_then (ok_or (try_split_u64 burn_amount TRANSFER_AMOUNT_LO_BITS) IllegalAmountBitLength)
        (\<lambda>(burn_amount_lo, burn_amount_hi).
      let grouped_ciphertext_lo = encrypt_with S pubkeys burn_amount_lo (opening_lo R);
          grouped_ciphertext_hi = encrypt_with S pubkeys burn_amount_hi (opening_hi R)
      in and_then (ok_or (ae_decrypt S source_aes_key current_decryptable_available_balance) IllegalAmountBitLength)
        (\<lambda>current_decrypted_available_balance.
      and_then (unwrap (to_elgamal_ciphertext S grouped_ciphertext_lo 0)) (\<lambda>source_ciphertext_lo.
      and_then (unwrap (to_elgamal_ciphertext S grouped_ciphertext_hi 0)) (\<lambda>source_ciphertext_hi.
      and_then (ok_or (try_combine_lo_hi source_ciphertext_lo source_ciphertext_hi TRANSFER_AMOUNT_LO_BITS)
        IllegalAmountBitLength) (\<lambda>combined_ciphertext.
      and_then (ok_or (checked_sub current_decrypted_available_balance burn_amount) NotEnoughFunds)
        (\<lambda>remaining_balance.
      let new_available_balance_commitment = pedersen_with S remaining_balance (opening_new R)
      in and_then (inner_proof (new_equality S source_elgamal_keypair
        (current_available_balance_ciphertext - combined_ciphertext)
        new_available_balance_commitment (opening_new R) remaining_balance)) (\<lambda>equality_proof_data.
      and_then (inner_proof (new_validity3 S source_elgamal_pubkey supply_elgamal_pubkey auditor_elgamal_pubkey
        grouped_ciphertext_lo grouped_ciphertext_hi burn_amount_lo burn_amount_hi
        (opening_lo R) (opening_hi R))) (\<lambda>validity_proof_data.
      and_then (validity_with_auditor zk validity_proof_data) (\<lambda>validity_proof_data_with_ciphertext.
      and_then (inner_proof (new_range_u128 S
        [new_available_balance_commitment, fst grouped_ciphertext_lo, fst grouped_ciphertext_hi,
         pedersen_with S 0 (opening_padding R)]
        [remaining_balance, burn_amount_lo, burn_amount_hi, 0]
        [GEN_REMAINING_BALANCE_BIT_LENGTH, TRANSFER_AMOUNT_LO_BITS, TRANSFER_AMOUNT_HI_BITS, RANGE_PROOF_PADDING_BIT_LENGTH]
        [opening_new R, opening_lo R, opening_hi R, opening_padding R])) (\<lambda>range_proof_data.
      Ok \<lparr>sp_equality_proof_data = equality_proof_data,
           sp_validity_proof_data = validity_proof_data_with_ciphertext,
           sp_range_proof_data = range_proof_data\<rparr>)))))))))))"

section \<open>Transfer with fee\<close>

definition GEN_MAX_FEE_BASIS_POINTS :: u64 where "GEN_MAX_FEE_BASIS_POINTS = 10000"

definition MAX_FEE_BASIS_POINTS_SUB_ONE :: u64 where "MAX_FEE_BASIS_POINTS_SUB_ONE = 9999"

definition GEN_ONE_IN_BASIS_POINTS :: u128 where "GEN_ONE_IN_BASIS_POINTS = ucast GEN_MAX_FEE_BASIS_POINTS"

definition FEE_AMOUNT_LO_BITS :: nat where "FEE_AMOUNT_LO_BITS = 16"

definition FEE_AMOUNT_HI_BITS :: nat where "FEE_AMOUNT_HI_BITS = 32"

definition DELTA_BIT_LENGTH :: nat where "DELTA_BIT_LENGTH = 16"

definition NET_TRANSFER_AMOUNT_BIT_LENGTH :: nat where "NET_TRANSFER_AMOUNT_BIT_LENGTH = 64"

text \<open>The fee rounded up, and how much more it is than the exact rate, in ten-thousandths.\<close>

definition gen_calculate_fee :: "u64 \<Rightarrow> u16 \<Rightarrow> (u64 \<times> u64) option" where
  "gen_calculate_fee transfer_amount fee_rate_basis_points =
     Option.bind (checked_mul (ucast transfer_amount) (ucast fee_rate_basis_points)) (\<lambda>numerator.
     Option.bind (checked_add numerator GEN_ONE_IN_BASIS_POINTS) (\<lambda>x.
     Option.bind (checked_sub x 1) (\<lambda>x.
     Option.bind (checked_div x GEN_ONE_IN_BASIS_POINTS) (\<lambda>fee.
     Option.bind (checked_mul fee GEN_ONE_IN_BASIS_POINTS) (\<lambda>y.
     Option.bind (checked_sub y numerator) (\<lambda>delta_fee.
     Some (ucast fee, ucast delta_fee)))))))"

text \<open>The fee asked for and the difference claimed: with the capped fee, a difference of zero.\<close>

definition capped_fee :: "u64 \<Rightarrow> u64 \<times> u64 \<Rightarrow> u64 \<times> u64" where
  "capped_fee maximum_fee = (\<lambda>(raw_fee_amount, raw_delta_fee).
     if maximum_fee < raw_fee_amount then (maximum_fee, 0) else (raw_fee_amount, raw_delta_fee))"

definition compute_delta_commitment_and_opening ::
  "'g::ab_group_add \<times> 'o::ab_group_add \<Rightarrow> 'g \<times> 'o \<Rightarrow> u16 \<Rightarrow> 'g \<times> 'o" where
  "compute_delta_commitment_and_opening combined combined_fee fee_rate_basis_points =
     (scale (unat GEN_MAX_FEE_BASIS_POINTS) (fst combined_fee) - scale (unat fee_rate_basis_points) (fst combined),
      scale (unat GEN_MAX_FEE_BASIS_POINTS) (snd combined_fee) - scale (unat fee_rate_basis_points) (snd combined))"

record TransferWithFeeProofData =
  wf_equality_proof_data :: "CiphertextCommitmentEqualityProofContext ProofData"
  wf_amount_validity_proof_data :: CiphertextValidityProofWithAuditorCiphertext
  wf_percentage_proof_data :: "PercentageWithCapProofContext ProofData"
  wf_fee_validity_proof_data :: "BatchedGroupedCiphertext2HandlesValidityProofContext ProofData"
  wf_range_proof_data :: "BatchedRangeProofContext ProofData"

text \<open>The openings drawn besides those of a transfer (whose padding is not used).\<close>

record 'o FeeOpenings =
  opening_fee_lo :: 'o
  opening_fee_hi :: 'o
  opening_claimed :: 'o

text \<open>The part of the function from the fee on, given the commitments to the amount and to the new balance.\<close>

definition fee_split_proof_data ::
  "('g::ab_group_add, 'o::ab_group_add, 'c, 'k) ProofSdk \<Rightarrow> 'o SplitOpenings \<Rightarrow> 'o FeeOpenings \<Rightarrow> 'g Grouped \<Rightarrow> 'g Grouped \<Rightarrow>
     u64 \<times> u64 \<Rightarrow> u64 \<Rightarrow> u64 \<Rightarrow> pubkey \<Rightarrow> pubkey \<Rightarrow> u16 \<Rightarrow> u64 \<Rightarrow>
     (PercentageWithCapProofContext ProofData \<times> BatchedGroupedCiphertext2HandlesValidityProofContext ProofData \<times>
      BatchedRangeProofContext ProofData) generated" where
  "fee_split_proof_data S R F grouped_ciphertext_lo grouped_ciphertext_hi amounts transfer_amount
       new_decrypted_available_balance destination_elgamal_pubkey withdraw_withheld_authority_elgamal_pubkey
       fee_rate_basis_points maximum_fee =
     (let (transfer_amount_lo, transfer_amount_hi) = amounts;
          new_available_balance_commitment = pedersen_with S new_decrypted_available_balance (opening_new R)
      in and_then (ok_or (gen_calculate_fee transfer_amount fee_rate_basis_points) TokenProofGenerationError.FeeCalculation)
        (\<lambda>raw_fee.
      let (fee_amount, claimed_delta_fee) = capped_fee maximum_fee raw_fee
      in and_then (ok_or (checked_sub transfer_amount fee_amount) TokenProofGenerationError.FeeCalculation)
        (\<lambda>net_transfer_amount.
      and_then (ok_or (try_split_u64 fee_amount FEE_AMOUNT_LO_BITS) IllegalAmountBitLength)
        (\<lambda>(fee_amount_lo, fee_amount_hi).
      let fee_pubkeys = [destination_elgamal_pubkey, withdraw_withheld_authority_elgamal_pubkey];
          fee_ciphertext_lo = encrypt_with S fee_pubkeys fee_amount_lo (opening_fee_lo F);
          fee_ciphertext_hi = encrypt_with S fee_pubkeys fee_amount_hi (opening_fee_hi F)
      in and_then (ok_or (try_combine_lo_hi (fst grouped_ciphertext_lo) (fst grouped_ciphertext_hi) TRANSFER_AMOUNT_LO_BITS)
        IllegalAmountBitLength) (\<lambda>combined_transfer_amount_commitment.
      and_then (ok_or (try_combine_lo_hi (opening_lo R) (opening_hi R) TRANSFER_AMOUNT_LO_BITS)
        IllegalAmountBitLength) (\<lambda>combined_transfer_amount_opening.
      and_then (ok_or (try_combine_lo_hi (fst fee_ciphertext_lo) (fst fee_ciphertext_hi) FEE_AMOUNT_LO_BITS)
        IllegalAmountBitLength) (\<lambda>combined_fee_commitment.
      and_then (ok_or (try_combine_lo_hi (opening_fee_lo F) (opening_fee_hi F) FEE_AMOUNT_LO_BITS)
        IllegalAmountBitLength) (\<lambda>combined_fee_opening.
      let net_transfer_amount_commitment = combined_transfer_amount_commitment - combined_fee_commitment;
          net_transfer_amount_opening = combined_transfer_amount_opening - combined_fee_opening;
          claimed_commitment = pedersen_with S claimed_delta_fee (opening_claimed F);
          (delta_commitment, delta_opening) = compute_delta_commitment_and_opening
            (combined_transfer_amount_commitment, combined_transfer_amount_opening)
            (combined_fee_commitment, combined_fee_opening) fee_rate_basis_points
      in and_then (inner_proof (new_percentage S combined_fee_commitment combined_fee_opening fee_amount
        delta_commitment delta_opening claimed_delta_fee claimed_commitment (opening_claimed F) maximum_fee))
        (\<lambda>percentage_with_cap_proof_data.
      and_then (inner_proof (new_validity2 S destination_elgamal_pubkey withdraw_withheld_authority_elgamal_pubkey
        (encrypt_with S fee_pubkeys fee_amount_lo (opening_fee_lo F)) (encrypt_with S fee_pubkeys fee_amount_hi (opening_fee_hi F))
        fee_amount_lo fee_amount_hi (opening_fee_lo F) (opening_fee_hi F))) (\<lambda>fee_ciphertext_validity_proof_data.
      and_then (ok_or (checked_sub MAX_FEE_BASIS_POINTS_SUB_ONE claimed_delta_fee) TokenProofGenerationError.FeeCalculation)
        (\<lambda>delta_fee_complement.
      let claimed_complement_commitment = pedersen_with S MAX_FEE_BASIS_POINTS_SUB_ONE 0 - claimed_commitment;
          claimed_complement_opening = 0 - opening_claimed F
      in and_then (inner_proof (new_range_u256 S
        [new_available_balance_commitment, fst grouped_ciphertext_lo, fst grouped_ciphertext_hi, claimed_commitment,
         claimed_complement_commitment, fst fee_ciphertext_lo, fst fee_ciphertext_hi, net_transfer_amount_commitment]
        [new_decrypted_available_balance, transfer_amount_lo, transfer_amount_hi, claimed_delta_fee,
         delta_fee_complement, fee_amount_lo, fee_amount_hi, net_transfer_amount]
        [GEN_REMAINING_BALANCE_BIT_LENGTH, TRANSFER_AMOUNT_LO_BITS, TRANSFER_AMOUNT_HI_BITS, DELTA_BIT_LENGTH,
         DELTA_BIT_LENGTH, FEE_AMOUNT_LO_BITS, FEE_AMOUNT_HI_BITS, NET_TRANSFER_AMOUNT_BIT_LENGTH]
        [opening_new R, opening_lo R, opening_hi R, opening_claimed F, claimed_complement_opening,
         opening_fee_lo F, opening_fee_hi F, net_transfer_amount_opening])) (\<lambda>range_proof_data.
      Ok (percentage_with_cap_proof_data, fee_ciphertext_validity_proof_data, range_proof_data)))))))))))))"

definition transfer_with_fee_split_proof_data ::
  "ZkSdk \<Rightarrow> ('g::ab_group_add, 'o::ab_group_add, 'c::ab_group_add, 'k) ProofSdk \<Rightarrow> 'o SplitOpenings \<Rightarrow> 'o FeeOpenings \<Rightarrow>
     'c \<Rightarrow> ae_ciphertext \<Rightarrow> u64 \<Rightarrow> 'k \<Rightarrow> aes_key \<Rightarrow> pubkey \<Rightarrow> pubkey option \<Rightarrow> pubkey \<Rightarrow> u16 \<Rightarrow> u64 \<Rightarrow>
     TransferWithFeeProofData generated" where
  "transfer_with_fee_split_proof_data zk S R F current_available_balance current_decryptable_available_balance
       transfer_amount source_elgamal_keypair aes_key destination_elgamal_pubkey auditor
       withdraw_withheld_authority_elgamal_pubkey fee_rate_basis_points maximum_fee =
     (let auditor_elgamal_pubkey = (case auditor of Some k \<Rightarrow> k | None \<Rightarrow> 0);
          source_elgamal_pubkey = keypair_pubkey S source_elgamal_keypair;
          pubkeys = [source_elgamal_pubkey, destination_elgamal_pubkey, auditor_elgamal_pubkey]
      in and_then (ok_or (try_split_u64 transfer_amount TRANSFER_AMOUNT_LO_BITS) IllegalAmountBitLength)
        (\<lambda>(transfer_amount_lo, transfer_amount_hi).
      let grouped_ciphertext_lo = encrypt_with S pubkeys transfer_amount_lo (opening_lo R);
          grouped_ciphertext_hi = encrypt_with S pubkeys transfer_amount_hi (opening_hi R)
      in and_then (ok_or (ae_decrypt S aes_key current_decryptable_available_balance) IllegalAmountBitLength)
        (\<lambda>current_decrypted_available_balance.
      and_then (ok_or (checked_sub current_decrypted_available_balance transfer_amount) NotEnoughFunds)
        (\<lambda>new_decrypted_available_balance.
      and_then (unwrap (to_elgamal_ciphertext S grouped_ciphertext_lo 0)) (\<lambda>source_ciphertext_lo.
      and_then (unwrap (to_elgamal_ciphertext S grouped_ciphertext_hi 0)) (\<lambda>source_ciphertext_hi.
      and_then (ok_or (try_combine_lo_hi source_ciphertext_lo source_ciphertext_hi TRANSFER_AMOUNT_LO_BITS)
        IllegalAmountBitLength) (\<lambda>combined_ciphertext.
      and_then (inner_proof (new_equality S source_elgamal_keypair (current_available_balance - combined_ciphertext)
        (pedersen_with S new_decrypted_available_balance (opening_new R)) (opening_new R) new_decrypted_available_balance))
        (\<lambda>equality_proof_data.
      and_then (inner_proof (new_validity3 S source_elgamal_pubkey destination_elgamal_pubkey auditor_elgamal_pubkey
        grouped_ciphertext_lo grouped_ciphertext_hi transfer_amount_lo transfer_amount_hi
        (opening_lo R) (opening_hi R))) (\<lambda>validity_proof_data.
      and_then (validity_with_auditor zk validity_proof_data) (\<lambda>validity_proof_data_with_ciphertext.
      and_then (fee_split_proof_data S R F grouped_ciphertext_lo grouped_ciphertext_hi
        (transfer_amount_lo, transfer_amount_hi) transfer_amount new_decrypted_available_balance
        destination_elgamal_pubkey withdraw_withheld_authority_elgamal_pubkey fee_rate_basis_points maximum_fee)
        (\<lambda>(percentage_with_cap_proof_data, fee_ciphertext_validity_proof_data, range_proof_data).
      Ok \<lparr>wf_equality_proof_data = equality_proof_data,
           wf_amount_validity_proof_data = validity_proof_data_with_ciphertext,
           wf_percentage_proof_data = percentage_with_cap_proof_data,
           wf_fee_validity_proof_data = fee_ciphertext_validity_proof_data,
           wf_range_proof_data = range_proof_data\<rparr>)))))))))))"

end
