(* ===== verification/Proof_Acceptance.thy ===== *)
theory Proof_Acceptance
  imports Proof_Generation Confidential_Mint_Burn
begin

text \<open>
  Client and program agree on the proofs: what src/confidential/proof-generation generates passes the checks of
  src/confidential/proof-extraction and of the handlers, and whoever has the balance can always generate it.
  The documented behaviour of the SDK is stated in four hypotheses: how it encodes, how it encrypts, what
  contexts it records, and that a proof of a true statement can be made.
\<close>

section \<open>What the code relies on\<close>

record ('g, 'c) Encodings =
  enc_point :: "'g \<Rightarrow> point"
  dec_point :: "point \<Rightarrow> 'g option"
  enc_ciphertext :: "'c \<Rightarrow> ciphertext"
  enc_grouped3 :: "'g Grouped \<Rightarrow> grouped3"
  enc_grouped2 :: "'g Grouped \<Rightarrow> grouped2"
  ciphertext_parts :: "'c \<Rightarrow> 'g \<times> 'g"

definition enc_parts :: "('g, 'c) Encodings \<Rightarrow> 'g \<Rightarrow> 'g \<Rightarrow> ciphertext" where
  "enc_parts E P A = ristretto_to_elgamal_ciphertext (enc_point E P) (enc_point E A)"

text \<open>
  Points have one encoding, and ciphertexts are pairs of points with the operations on each part.
\<close>

definition sdk_encodes :: "ZkSdk \<Rightarrow> ('g::ab_group_add, 'c::ab_group_add) Encodings \<Rightarrow> bool" where
  "sdk_encodes zk E \<longleftrightarrow> ristretto_group (zk_curve zk) (dec_point E) \<and>
     (\<forall>p P. dec_point E p = Some P \<longleftrightarrow> p = enc_point E P) \<and>
     (\<forall>c. enc_ciphertext E c = enc_parts E (fst (ciphertext_parts E c)) (snd (ciphertext_parts E c))) \<and>
     (\<forall>a b. fst (ciphertext_parts E (a + b)) = fst (ciphertext_parts E a) + fst (ciphertext_parts E b) \<and>
        snd (ciphertext_parts E (a + b)) = snd (ciphertext_parts E a) + snd (ciphertext_parts E b))"

text \<open>
  A Pedersen commitment is \<open>x * G\<close> plus a linear function of the opening; encrypting commits to the amount and
  adds one handle for each key, and the secret of a key takes the opening off again; the encoded grouped
  ciphertext holds the commitment and one ciphertext for each handle.
\<close>

definition sdk_encrypts ::
  "ZkSdk \<Rightarrow> ('g::ab_group_add, 'o::ab_group_add, 'c::ab_group_add, 'k) ProofSdk \<Rightarrow> ('g, 'c) Encodings \<Rightarrow> ('k \<Rightarrow> nat) \<Rightarrow> bool" where
  "sdk_encrypts zk S E secret \<longleftrightarrow>
     (\<exists>H. (\<forall>r s. H (r + s) = H r + H s) \<and>
        (\<forall>x r. pedersen_with S x r = amount_point (dec_point E) (unat x) + H r)) \<and>
     (\<forall>ks x r. \<exists>hs. length hs = length ks \<and> encrypt_with S ks x r = (pedersen_with S x r, hs) \<and>
        (\<forall>i k. i < length ks \<longrightarrow> ks ! i = keypair_pubkey S k \<longrightarrow>
           pedersen_with S x r - scale (secret k) (hs ! i) = amount_point (dec_point E) (unat x)) \<and>
        (\<forall>i<length ks. \<exists>c. to_elgamal_ciphertext S (encrypt_with S ks x r) i = Some c \<and>
           ciphertext_parts E c = (pedersen_with S x r, hs ! i)) \<and>
        (length ks = 3 \<longrightarrow>
           zk_extract_commitment3 zk (enc_grouped3 E (encrypt_with S ks x r)) = enc_point E (pedersen_with S x r) \<and>
           (\<forall>i<3. zk_extract_ciphertext3 zk (enc_grouped3 E (encrypt_with S ks x r)) i =
              Some (enc_parts E (pedersen_with S x r) (hs ! i)))) \<and>
        (length ks = 2 \<longrightarrow>
           zk_extract_commitment2 zk (enc_grouped2 E (encrypt_with S ks x r)) = enc_point E (pedersen_with S x r) \<and>
           (\<forall>i<2. zk_extract_ciphertext2 zk (enc_grouped2 E (encrypt_with S ks x r)) i =
              Some (enc_parts E (pedersen_with S x r) (hs ! i))))) \<and>
     (\<forall>x. ciphertext_parts E (elgamal_encode S x) = (amount_point (dec_point E) (unat x), 0))"

text \<open>A proof records what it was made for; the context of a range proof has eight places, unused ones zero.\<close>

definition range_context :: "('g, 'c) Encodings \<Rightarrow> 'g list \<Rightarrow> nat list \<Rightarrow> BatchedRangeProofContext" where
  "range_context E Ps bs = \<lparr>rp_commitments = map (enc_point E) Ps @ replicate (8 - length Ps) 0,
     rp_bit_lengths = map of_nat bs @ replicate (8 - length bs) 0\<rparr>"

definition sdk_records ::
  "('g, 'o, 'c, 'k) ProofSdk \<Rightarrow> ('g, 'c) Encodings \<Rightarrow> bool" where
  "sdk_records S E \<longleftrightarrow>
     (\<forall>k c P r x d. new_equality S k c P r x = Ok d \<longrightarrow>
        context_data d = \<lparr>ce_pubkey = keypair_pubkey S k, ce_ciphertext = enc_ciphertext E c, ce_commitment = enc_point E P\<rparr>) \<and>
     (\<forall>a b c lo hi x y r s d. new_validity3 S a b c lo hi x y r s = Ok d \<longrightarrow>
        context_data d = \<lparr>v3_first_pubkey = a, v3_second_pubkey = b, v3_third_pubkey = c,
          v3_grouped_ciphertext_lo = enc_grouped3 E lo, v3_grouped_ciphertext_hi = enc_grouped3 E hi\<rparr>) \<and>
     (\<forall>a b lo hi x y r s d. new_validity2 S a b lo hi x y r s = Ok d \<longrightarrow>
        context_data d = \<lparr>v2_first_pubkey = a, v2_second_pubkey = b,
          v2_grouped_ciphertext_lo = enc_grouped2 E lo, v2_grouped_ciphertext_hi = enc_grouped2 E hi\<rparr>) \<and>
     (\<forall>new\<in>{new_range_u64 S, new_range_u128 S, new_range_u256 S}. \<forall>Ps xs bs rs d. new Ps xs bs rs = Ok d \<longrightarrow>
        context_data d = range_context E Ps bs) \<and>
     (\<forall>P r x D dr dx C cr m d. new_percentage S P r x D dr dx C cr m = Ok d \<longrightarrow>
        context_data d = \<lparr>pw_percentage_commitment = enc_point E P, pw_delta_commitment = enc_point E D,
          pw_claimed_commitment = enc_point E C, pw_max_value = m\<rparr>)"

text \<open>A true statement can be proved; a range proof takes at most eight amounts of one to 64 bits.\<close>

definition in_ranges ::
  "('g, 'o, 'c, 'k) ProofSdk \<Rightarrow> nat \<Rightarrow> 'g list \<Rightarrow> u64 list \<Rightarrow> nat list \<Rightarrow> 'o list \<Rightarrow> bool" where
  "in_ranges S bits Ps xs bs rs \<longleftrightarrow>
     length Ps \<le> 8 \<and> length xs = length Ps \<and> length bs = length Ps \<and> length rs = length Ps \<and> sum_list bs = bits \<and>
     (\<forall>i<length Ps. 0 < bs ! i \<and> bs ! i \<le> 64 \<and> Ps ! i = pedersen_with S (xs ! i) (rs ! i) \<and>
        unat (xs ! i) < 2 ^ (bs ! i))"

definition sdk_proves ::
  "('g::ab_group_add, 'o::ab_group_add, 'c::ab_group_add, 'k) ProofSdk \<Rightarrow> ('g, 'c) Encodings \<Rightarrow> ('k \<Rightarrow> nat) \<Rightarrow> bool" where
  "sdk_proves S E secret \<longleftrightarrow>
     (\<forall>k c r x. fst (ciphertext_parts E c) - scale (secret k) (snd (ciphertext_parts E c)) =
          amount_point (dec_point E) (unat x) \<longrightarrow> is_ok (new_equality S k c (pedersen_with S x r) r x)) \<and>
     (\<forall>a b c x y r s. is_ok (new_validity3 S a b c (encrypt_with S [a, b, c] x r) (encrypt_with S [a, b, c] y s) x y r s)) \<and>
     (\<forall>a b x y r s. is_ok (new_validity2 S a b (encrypt_with S [a, b] x r) (encrypt_with S [a, b] y s) x y r s)) \<and>
     (\<forall>Ps xs bs rs. (in_ranges S 64 Ps xs bs rs \<longrightarrow> is_ok (new_range_u64 S Ps xs bs rs)) \<and>
        (in_ranges S 128 Ps xs bs rs \<longrightarrow> is_ok (new_range_u128 S Ps xs bs rs)) \<and>
        (in_ranges S 256 Ps xs bs rs \<longrightarrow> is_ok (new_range_u256 S Ps xs bs rs))) \<and>
     (\<forall>r x D dr dx cr m. x \<le> m \<and> (x = m \<or> D = pedersen_with S dx dr) \<longrightarrow>
        is_ok (new_percentage S (pedersen_with S x r) r x D dr dx (pedersen_with S dx cr) cr m))"

definition sdk_behaves ::
  "ZkSdk \<Rightarrow> ('g::ab_group_add, 'o::ab_group_add, 'c::ab_group_add, 'k) ProofSdk \<Rightarrow> ('g, 'c) Encodings \<Rightarrow> ('k \<Rightarrow> nat) \<Rightarrow> bool" where
  "sdk_behaves zk S E secret \<longleftrightarrow> sdk_encodes zk E \<and> sdk_encrypts zk S E secret \<and> sdk_records S E \<and> sdk_proves S E secret"

section \<open>Splitting\<close>

lemma split_low:
  assumes "0 < b" "b < 64"
  shows "unat (drop_bit (64 - b) (push_bit (64 - b) x :: u64)) = unat x mod 2 ^ b"
proof -
  have "unat x * 2 ^ (64 - b) mod 2 ^ 64 = (unat x mod 2 ^ b) * 2 ^ (64 - b)"
    using assms mult_mod_left [of "unat x" "2 ^ b" "2 ^ (64 - b)"] by (simp flip: power_add)
  moreover have "unat (drop_bit (64 - b) (push_bit (64 - b) x)) = unat x * 2 ^ (64 - b) mod 2 ^ 64 div 2 ^ (64 - b)"
    unfolding unat_drop_bit_eq unsigned_push_bit_eq by (simp add: drop_bit_eq_div push_bit_eq_mult take_bit_eq_mod)
  ultimately show ?thesis by simp
qed

lemma unat_drop_bit_div: "unat (drop_bit n x :: u64) = unat x div 2 ^ n"
  unfolding unat_drop_bit_eq by (simp add: drop_bit_eq_div)

lemma try_split_u64_correct:
  assumes "b \<le> 64"
  shows "\<exists>lo hi. try_split_u64 x b = Some (lo, hi) \<and> unat lo = unat x mod 2 ^ b \<and> unat hi = unat x div 2 ^ b"
proof -
  consider "b = 0" | "0 < b \<and> b < 64" | "b = 64" using assms by linarith
  then show ?thesis
  proof cases
    case 3
    then show ?thesis using unat_less [of x] by (simp add: try_split_u64_def)
  next
    case 2
    then show ?thesis using split_low [of b x] unat_drop_bit_div [of b x]
      by (simp add: try_split_u64_def Let_def checked_shl_def checked_shr_def)
  qed (simp add: try_split_u64_def)
qed

lemma split_transfer_amount:
  obtains lo hi where "try_split_u64 x TRANSFER_AMOUNT_LO_BITS = Some (lo, hi)" "unat lo < 2 ^ 16"
    "unat x = unat lo + 65536 * unat hi" "unat x < 2 ^ 48 \<Longrightarrow> unat hi < 2 ^ 32"
  using try_split_u64_correct [of 16 x] by (auto simp: TRANSFER_AMOUNT_LO_BITS_def intro!: less_mult_imp_div_less)

lemma try_combine_lo_hi_16 [simp]: "try_combine_lo_hi lo hi TRANSFER_AMOUNT_LO_BITS = Some (lo + scale 65536 hi)"
  by (simp add: try_combine_lo_hi_def TRANSFER_AMOUNT_LO_BITS_def checked_shl_def push_bit_eq_mult)

section \<open>The same arithmetic on both sides\<close>

lemma scale_minus: "scale n (- P) = - scale n P"
  using scale_point_diff [of n 0 P] by simp


lemma sdk_encodes_point:
  assumes "sdk_encodes zk E"
  shows "dec_point E (enc_point E P) = Some P" "dec_point E p = Some P \<Longrightarrow> p = enc_point E P"
  using assms unfolding sdk_encodes_def by blast+

lemma sdk_encodes_group: "sdk_encodes zk E \<Longrightarrow> ristretto_group (zk_curve zk) (dec_point E)"
  by (simp add: sdk_encodes_def)

lemma point_operations:
  assumes "sdk_encodes zk E"
  shows "add_ristretto (zk_curve zk) (enc_point E P) (enc_point E Q) = Some (enc_point E (P + Q))"
    and "subtract_ristretto (zk_curve zk) (enc_point E P) (enc_point E Q) = Some (enc_point E (P - Q))"
    and "unat s < 2 ^ 64 \<Longrightarrow> multiply_ristretto (zk_curve zk) s (enc_point E P) = Some (enc_point E (scale (unat s) P))"
    and "multiply_ristretto (zk_curve zk) (u64_to_scalar n) G_POINT = Some (enc_point E (amount_point (dec_point E) (unat n)))"
proof -
  note g = sdk_encodes_group [OF assms] and e = sdk_encodes_point [OF assms]
  show "add_ristretto (zk_curve zk) (enc_point E P) (enc_point E Q) = Some (enc_point E (P + Q))"
    "subtract_ristretto (zk_curve zk) (enc_point E P) (enc_point E Q) = Some (enc_point E (P - Q))"
    "unat s < 2 ^ 64 \<Longrightarrow> multiply_ristretto (zk_curve zk) s (enc_point E P) = Some (enc_point E (scale (unat s) P))"
    using ristretto_groupD [OF g e(1) [of P] e(1) [of Q]] e(2) by blast+
  show "multiply_ristretto (zk_curve zk) (u64_to_scalar n) G_POINT = Some (enc_point E (amount_point (dec_point E) (unat n)))"
    using amount_multiply [OF g, of n] e(2) by blast
qed

lemma enc_parts_pair [simp]: "elgamal_ciphertext_to_ristretto (enc_parts E P A) = (enc_point E P, enc_point E A)"
  by (simp add: enc_parts_def)

lemma ciphertext_operations:
  assumes "sdk_encodes zk E"
  shows "ct_add (zk_curve zk) (enc_parts E P A) (enc_parts E Q B) = Some (enc_parts E (P + Q) (A + B))"
    and "ct_subtract (zk_curve zk) (enc_parts E P A) (enc_parts E Q B) = Some (enc_parts E (P - Q) (A - B))"
    and "unat s < 2 ^ 64 \<Longrightarrow> ct_multiply (zk_curve zk) s (enc_parts E P A) =
      Some (enc_parts E (scale (unat s) P) (scale (unat s) A))"
  by (simp_all add: ct_add_def ct_subtract_def ct_multiply_def point_operations [OF assms] enc_parts_def)

lemma lo_hi_operations:
  assumes "sdk_encodes zk E"
  shows "add_with_lo_hi (zk_curve zk) (enc_parts E P A) (enc_parts E Q B) (enc_parts E R C) =
      Some (enc_parts E (P + (Q + scale 65536 R)) (A + (B + scale 65536 C)))"
    and "subtract_with_lo_hi (zk_curve zk) (enc_parts E P A) (enc_parts E Q B) (enc_parts E R C) =
      Some (enc_parts E (P - (Q + scale 65536 R)) (A - (B + scale 65536 C)))"
    and "subtract_from (zk_curve zk) (enc_parts E P A) n =
      Some (enc_parts E (P - amount_point (dec_point E) (unat n)) A)"
    and "combine_lo_hi_pedersen_points (zk_curve zk) (enc_point E Q) (enc_point E R) =
      Some (enc_point E (Q + scale 65536 R))"
  by (simp_all add: add_with_lo_hi_def subtract_with_lo_hi_def subtract_from_def ciphertext_operations [OF assms]
      SHIFT_BITS_def push_bit_eq_mult point_operations [OF assms] combine_lo_hi_pedersen_points_def flip: enc_parts_def)

lemma ciphertext_parts_linear:
  assumes "sdk_encodes zk E"
  shows "ciphertext_parts E (a + b) = (fst (ciphertext_parts E a) + fst (ciphertext_parts E b),
      snd (ciphertext_parts E a) + snd (ciphertext_parts E b))"
    and "ciphertext_parts E (a - b) = (fst (ciphertext_parts E a) - fst (ciphertext_parts E b),
      snd (ciphertext_parts E a) - snd (ciphertext_parts E b))"
    and "ciphertext_parts E (scale n a) = (scale n (fst (ciphertext_parts E a)), scale n (snd (ciphertext_parts E a)))"
proof -
  have p: "fst (ciphertext_parts E (a + b)) = fst (ciphertext_parts E a) + fst (ciphertext_parts E b)"
    "snd (ciphertext_parts E (a + b)) = snd (ciphertext_parts E a) + snd (ciphertext_parts E b)" for a b
    using assms unfolding sdk_encodes_def by blast+
  show "ciphertext_parts E (a + b) = (fst (ciphertext_parts E a) + fst (ciphertext_parts E b),
      snd (ciphertext_parts E a) + snd (ciphertext_parts E b))" using p by (simp add: prod_eq_iff)
  show "ciphertext_parts E (a - b) = (fst (ciphertext_parts E a) - fst (ciphertext_parts E b),
      snd (ciphertext_parts E a) - snd (ciphertext_parts E b))"
    using p [of "a - b" b] by (simp add: prod_eq_iff)
  have "fst (ciphertext_parts E 0) = 0 \<and> snd (ciphertext_parts E 0) = 0" using p [of 0 0] by simp
  then show "ciphertext_parts E (scale n a) = (scale n (fst (ciphertext_parts E a)), scale n (snd (ciphertext_parts E a)))"
    by (induction n) (simp_all add: prod_eq_iff p)
qed

lemma enc_ciphertext_parts: "sdk_encodes zk E \<Longrightarrow>
    enc_ciphertext E c = enc_parts E (fst (ciphertext_parts E c)) (snd (ciphertext_parts E c))"
  by (simp add: sdk_encodes_def)

text \<open>The ciphertext \<open>c\<close> decrypts to the amount \<open>n\<close> with the secret \<open>s\<close>; an encoded ciphertext holds it.\<close>

definition plain :: "('g::ab_group_add, 'c) Encodings \<Rightarrow> nat \<Rightarrow> 'c \<Rightarrow> nat \<Rightarrow> bool" where
  "plain E s c n \<longleftrightarrow>
     fst (ciphertext_parts E c) - scale s (snd (ciphertext_parts E c)) = amount_point (dec_point E) n"

definition holds :: "('g::ab_group_add, 'c) Encodings \<Rightarrow> nat \<Rightarrow> ciphertext \<Rightarrow> nat \<Rightarrow> bool" where
  "holds E s ct n \<longleftrightarrow> (\<exists>c. ct = enc_ciphertext E c \<and> plain E s c n)"

lemma holdsI: "plain E s c n \<Longrightarrow> holds E s (enc_ciphertext E c) n"
  by (auto simp: holds_def)

section \<open>Encrypted amounts\<close>

lemma encrypt_withE:
  assumes "sdk_behaves zk S E secret"
  obtains hs where "encrypt_with S ks x r = (pedersen_with S x r, hs)" "length hs = length ks"
    "\<And>i k. i < length ks \<Longrightarrow> ks ! i = keypair_pubkey S k \<Longrightarrow>
       pedersen_with S x r - scale (secret k) (hs ! i) = amount_point (dec_point E) (unat x)"
    "\<And>i. i < length ks \<Longrightarrow> \<exists>c. to_elgamal_ciphertext S (encrypt_with S ks x r) i = Some c \<and>
       ciphertext_parts E c = (pedersen_with S x r, hs ! i)"
    "\<And>i. length ks = 3 \<Longrightarrow> i < 3 \<Longrightarrow> zk_extract_ciphertext3 zk (enc_grouped3 E (encrypt_with S ks x r)) i =
       Some (enc_parts E (pedersen_with S x r) (hs ! i))"
    "\<And>i. length ks = 2 \<Longrightarrow> i < 2 \<Longrightarrow> zk_extract_ciphertext2 zk (enc_grouped2 E (encrypt_with S ks x r)) i =
       Some (enc_parts E (pedersen_with S x r) (hs ! i))"
proof -
  have "sdk_encrypts zk S E secret" using assms by (simp add: sdk_behaves_def)
  from this [unfolded sdk_encrypts_def, THEN conjunct2, THEN conjunct1, rule_format, of ks x r]
  show thesis using that by blast
qed

lemma encrypted_commitment:
  assumes "sdk_behaves zk S E secret"
  shows "fst (encrypt_with S ks x r) = pedersen_with S x r"
    "length ks = 3 \<Longrightarrow> zk_extract_commitment3 zk (enc_grouped3 E (encrypt_with S ks x r)) = enc_point E (pedersen_with S x r)"
    "length ks = 2 \<Longrightarrow> zk_extract_commitment2 zk (enc_grouped2 E (encrypt_with S ks x r)) = enc_point E (pedersen_with S x r)"
proof -
  have "sdk_encrypts zk S E secret" using assms by (simp add: sdk_behaves_def)
  note e = this [unfolded sdk_encrypts_def, THEN conjunct2, THEN conjunct1, rule_format, of ks x r]
  show "fst (encrypt_with S ks x r) = pedersen_with S x r" using e by force
  show "length ks = 3 \<Longrightarrow> zk_extract_commitment3 zk (enc_grouped3 E (encrypt_with S ks x r)) = enc_point E (pedersen_with S x r)"
    using e by blast
  show "length ks = 2 \<Longrightarrow> zk_extract_commitment2 zk (enc_grouped2 E (encrypt_with S ks x r)) = enc_point E (pedersen_with S x r)"
    using e by blast
qed

text \<open>
  An amount encrypted in two parts for some keys, as the holder of one of them reads it: the combined
  ciphertext decrypts to the amount, and it is what the program computes from the grouped ciphertexts.
\<close>

definition encrypted_amount ::
  "ZkSdk \<Rightarrow> ('g::ab_group_add, 'o, 'c::ab_group_add, 'k) ProofSdk \<Rightarrow> ('g, 'c) Encodings \<Rightarrow> nat \<Rightarrow> 'g Grouped \<Rightarrow> 'g Grouped \<Rightarrow>
     'c \<Rightarrow> 'c \<Rightarrow> 'g \<Rightarrow> 'g \<Rightarrow> bool" where
  "encrypted_amount zk S E i glo ghi clo chi P A \<longleftrightarrow>
     to_elgamal_ciphertext S glo i = Some clo \<and> to_elgamal_ciphertext S ghi i = Some chi \<and>
     ciphertext_parts E (clo + scale 65536 chi) = (P, A) \<and>
     (\<exists>lo hi. zk_extract_ciphertext3 zk (enc_grouped3 E glo) i = Some lo \<and>
        zk_extract_ciphertext3 zk (enc_grouped3 E ghi) i = Some hi \<and>
        (\<forall>Q B. subtract_with_lo_hi (zk_curve zk) (enc_parts E Q B) lo hi = Some (enc_parts E (Q - P) (B - A)) \<and>
           add_with_lo_hi (zk_curve zk) (enc_parts E Q B) lo hi = Some (enc_parts E (Q + P) (B + A))))"

lemma encrypted_amountE:
  assumes "sdk_behaves zk S E secret" "length ks = 3" "i < 3" "ks ! i = keypair_pubkey S k"
    and "unat x = unat lo + 65536 * unat hi"
  obtains clo chi P A where "encrypted_amount zk S E i (encrypt_with S ks lo r) (encrypt_with S ks hi s) clo chi P A"
    "P - scale (secret k) A = amount_point (dec_point E) (unat x)"
proof -
  have E: "sdk_encodes zk E" using assms(1) by (simp add: sdk_behaves_def)
  obtain hs where hs: "encrypt_with S ks lo r = (pedersen_with S lo r, hs)"
    "pedersen_with S lo r - scale (secret k) (hs ! i) = amount_point (dec_point E) (unat lo)"
    "\<exists>c. to_elgamal_ciphertext S (encrypt_with S ks lo r) i = Some c \<and> ciphertext_parts E c = (pedersen_with S lo r, hs ! i)"
    "zk_extract_ciphertext3 zk (enc_grouped3 E (encrypt_with S ks lo r)) i = Some (enc_parts E (pedersen_with S lo r) (hs ! i))"
    using encrypt_withE [OF assms(1), of ks lo r] assms(2-4) by metis
  obtain hs' where hs': "encrypt_with S ks hi s = (pedersen_with S hi s, hs')"
    "pedersen_with S hi s - scale (secret k) (hs' ! i) = amount_point (dec_point E) (unat hi)"
    "\<exists>c. to_elgamal_ciphertext S (encrypt_with S ks hi s) i = Some c \<and> ciphertext_parts E c = (pedersen_with S hi s, hs' ! i)"
    "zk_extract_ciphertext3 zk (enc_grouped3 E (encrypt_with S ks hi s)) i = Some (enc_parts E (pedersen_with S hi s) (hs' ! i))"
    using encrypt_withE [OF assms(1), of ks hi s] assms(2-4) by metis
  obtain clo where clo: "to_elgamal_ciphertext S (encrypt_with S ks lo r) i = Some clo"
    "ciphertext_parts E clo = (pedersen_with S lo r, hs ! i)" using hs(3) by blast
  obtain chi where chi: "to_elgamal_ciphertext S (encrypt_with S ks hi s) i = Some chi"
    "ciphertext_parts E chi = (pedersen_with S hi s, hs' ! i)" using hs'(3) by blast
  let ?P = "pedersen_with S lo r + scale 65536 (pedersen_with S hi s)" and ?A = "hs ! i + scale 65536 (hs' ! i)"
  show thesis
  proof (rule that)
    show "encrypted_amount zk S E i (encrypt_with S ks lo r) (encrypt_with S ks hi s) clo chi ?P ?A"
      unfolding encrypted_amount_def using clo chi
      by (simp add: ciphertext_parts_linear [OF E] hs(4) hs'(4) lo_hi_operations [OF E])
    have "scale (secret k) (scale 65536 (hs' ! i)) = scale 65536 (scale (secret k) (hs' ! i))"
      by (metis scale_mult mult.commute)
    then have "?P - scale (secret k) ?A = (pedersen_with S lo r - scale (secret k) (hs ! i)) +
        scale 65536 (pedersen_with S hi s - scale (secret k) (hs' ! i))"
      by (simp add: scale_point_add scale_point_diff)
    also have "\<dots> = amount_point (dec_point E) (unat x)"
      by (simp add: hs(2) hs'(2) amount_point_times amount_point_add assms(5))
    finally show "?P - scale (secret k) ?A = amount_point (dec_point E) (unat x)" .
  qed
qed

section \<open>Making the proofs\<close>

lemma sdk_behavesD:
  assumes "sdk_behaves zk S E secret"
  shows "sdk_encodes zk E" "sdk_encrypts zk S E secret" "sdk_records S E" "sdk_proves S E secret"
  using assms by (simp_all add: sdk_behaves_def)

lemma make_equality:
  assumes "sdk_behaves zk S E secret"
    and "fst (ciphertext_parts E c) - scale (secret k) (snd (ciphertext_parts E c)) = amount_point (dec_point E) (unat x)"
  obtains d where "new_equality S k c (pedersen_with S x r) r x = Ok d"
    "context_data d = \<lparr>ce_pubkey = keypair_pubkey S k, ce_ciphertext = enc_ciphertext E c,
       ce_commitment = enc_point E (pedersen_with S x r)\<rparr>"
  using sdk_behavesD(4) [OF assms(1), unfolded sdk_proves_def, THEN conjunct1, rule_format, OF assms(2), of r]
    sdk_behavesD(3) [OF assms(1), unfolded sdk_records_def, THEN conjunct1, rule_format]
  unfolding is_ok_iff by fast

lemma make_validity3:
  assumes "sdk_behaves zk S E secret"
  obtains d where "new_validity3 S a b c (encrypt_with S [a, b, c] x r) (encrypt_with S [a, b, c] y s) x y r s = Ok d"
    "context_data d = \<lparr>v3_first_pubkey = a, v3_second_pubkey = b, v3_third_pubkey = c,
       v3_grouped_ciphertext_lo = enc_grouped3 E (encrypt_with S [a, b, c] x r),
       v3_grouped_ciphertext_hi = enc_grouped3 E (encrypt_with S [a, b, c] y s)\<rparr>"
  using sdk_behavesD(4) [OF assms(1), unfolded sdk_proves_def, THEN conjunct2, THEN conjunct1, rule_format, of a b c x r y s]
    sdk_behavesD(3) [OF assms(1), unfolded sdk_records_def, THEN conjunct2, THEN conjunct1, rule_format]
  unfolding is_ok_iff by fast

lemma make_validity2:
  assumes "sdk_behaves zk S E secret"
  obtains d where "new_validity2 S a b (encrypt_with S [a, b] x r) (encrypt_with S [a, b] y s) x y r s = Ok d"
    "context_data d = \<lparr>v2_first_pubkey = a, v2_second_pubkey = b,
       v2_grouped_ciphertext_lo = enc_grouped2 E (encrypt_with S [a, b] x r),
       v2_grouped_ciphertext_hi = enc_grouped2 E (encrypt_with S [a, b] y s)\<rparr>"
  using sdk_behavesD(4) [OF assms(1), unfolded sdk_proves_def, THEN conjunct2, THEN conjunct2, THEN conjunct1,
      rule_format, of a b x r y s]
    sdk_behavesD(3) [OF assms(1), unfolded sdk_records_def, THEN conjunct2, THEN conjunct2, THEN conjunct1, rule_format]
  unfolding is_ok_iff by fast

lemma make_range:
  assumes "sdk_behaves zk S E secret"
  shows "in_ranges S 64 Ps xs bs rs \<Longrightarrow> \<exists>d. new_range_u64 S Ps xs bs rs = Ok d \<and> context_data d = range_context E Ps bs"
    and "in_ranges S 128 Ps xs bs rs \<Longrightarrow> \<exists>d. new_range_u128 S Ps xs bs rs = Ok d \<and> context_data d = range_context E Ps bs"
    and "in_ranges S 256 Ps xs bs rs \<Longrightarrow> \<exists>d. new_range_u256 S Ps xs bs rs = Ok d \<and> context_data d = range_context E Ps bs"
proof -
  note m = sdk_behavesD(4) [OF assms, unfolded sdk_proves_def is_ok_iff, THEN conjunct2, THEN conjunct2, THEN conjunct2,
      THEN conjunct1, rule_format, of Ps xs bs rs]
  note r = sdk_behavesD(3) [OF assms, unfolded sdk_records_def, THEN conjunct2, THEN conjunct2, THEN conjunct2,
      THEN conjunct1, rule_format]
  show "in_ranges S 64 Ps xs bs rs \<Longrightarrow> \<exists>d. new_range_u64 S Ps xs bs rs = Ok d \<and> context_data d = range_context E Ps bs"
    using m r [of "new_range_u64 S"] by fast
  show "in_ranges S 128 Ps xs bs rs \<Longrightarrow> \<exists>d. new_range_u128 S Ps xs bs rs = Ok d \<and> context_data d = range_context E Ps bs"
    using m r [of "new_range_u128 S"] by fast
  show "in_ranges S 256 Ps xs bs rs \<Longrightarrow> \<exists>d. new_range_u256 S Ps xs bs rs = Ok d \<and> context_data d = range_context E Ps bs"
    using m r [of "new_range_u256 S"] by fast
qed

lemma make_percentage:
  assumes "sdk_behaves zk S E secret" "x \<le> m" "x = m \<or> D = pedersen_with S dx dr"
  obtains d where "new_percentage S (pedersen_with S x r) r x D dr dx (pedersen_with S dx cr) cr m = Ok d"
    "context_data d = \<lparr>pw_percentage_commitment = enc_point E (pedersen_with S x r), pw_delta_commitment = enc_point E D,
       pw_claimed_commitment = enc_point E (pedersen_with S dx cr), pw_max_value = m\<rparr>"
proof -
  have "\<exists>d. new_percentage S (pedersen_with S x r) r x D dr dx (pedersen_with S dx cr) cr m = Ok d"
    using sdk_behavesD(4) [OF assms(1), unfolded sdk_proves_def is_ok_iff, THEN conjunct2, THEN conjunct2, THEN conjunct2,
      THEN conjunct2, rule_format, of x m D dx dr r cr] assms(2,3) by simp
  then show thesis
    using that sdk_behavesD(3) [OF assms(1), unfolded sdk_records_def, THEN conjunct2, THEN conjunct2, THEN conjunct2,
      THEN conjunct2, rule_format] by fast
qed

lemma in_ranges_list:
  "in_ranges S b [] [] [] [] \<longleftrightarrow> b = 0"
  "in_ranges S b (P # Ps) (x # xs) (n # ns) (r # rs) \<longleftrightarrow> n \<le> b \<and> 0 < n \<and> n \<le> 64 \<and> length Ps \<le> 7 \<and>
     P = pedersen_with S x r \<and> unat x < 2 ^ n \<and> in_ranges S (b - n) Ps xs ns rs"
  by (auto simp: in_ranges_def All_less_Suc2)

lemma unat_u64_range [simp]: "unat (x :: u64) < 2 ^ 64" "unat (x :: u64) < 18446744073709551616"
  using unat_less [of x] by simp_all

lemma split_range_proof:
  assumes "sdk_behaves zk S E secret" "unat lo < 2 ^ 16" "unat hi < 2 ^ 32"
  obtains d where "new_range_u128 S
      [pedersen_with S y t, pedersen_with S lo r, pedersen_with S hi s, pedersen_with S 0 u] [y, lo, hi, 0]
      [GEN_REMAINING_BALANCE_BIT_LENGTH, TRANSFER_AMOUNT_LO_BITS, TRANSFER_AMOUNT_HI_BITS, RANGE_PROOF_PADDING_BIT_LENGTH]
      [t, r, s, u] = Ok d"
    "zip_all_eq (rp_commitments (context_data d))
       [enc_point E (pedersen_with S y t), enc_point E (pedersen_with S lo r), enc_point E (pedersen_with S hi s)]"
    "zip_all_eq (rp_bit_lengths (context_data d)) [64, 16, 32, 16]"
proof -
  have "in_ranges S 128 [pedersen_with S y t, pedersen_with S lo r, pedersen_with S hi s, pedersen_with S 0 u] [y, lo, hi, 0]
      [GEN_REMAINING_BALANCE_BIT_LENGTH, TRANSFER_AMOUNT_LO_BITS, TRANSFER_AMOUNT_HI_BITS, RANGE_PROOF_PADDING_BIT_LENGTH]
      [t, r, s, u]"
    using assms(2,3) by (simp add: in_ranges_list GEN_REMAINING_BALANCE_BIT_LENGTH_def TRANSFER_AMOUNT_LO_BITS_def
        TRANSFER_AMOUNT_HI_BITS_def RANGE_PROOF_PADDING_BIT_LENGTH_def)
  from make_range(2) [OF assms(1) this] show thesis
    using that by (auto simp: range_context_def zip_all_eq_def GEN_REMAINING_BALANCE_BIT_LENGTH_def
        TRANSFER_AMOUNT_LO_BITS_def TRANSFER_AMOUNT_HI_BITS_def RANGE_PROOF_PADDING_BIT_LENGTH_def)
qed

section \<open>Transfers\<close>

lemma debited_value:
  assumes "sdk_encodes zk E" "fst (ciphertext_parts E c) - scale s (snd (ciphertext_parts E c)) = amount_point (dec_point E) (m + n)"
    and "ciphertext_parts E d = (P, A)" "P - scale s A = amount_point (dec_point E) m"
  shows "fst (ciphertext_parts E (c - d)) - scale s (snd (ciphertext_parts E (c - d))) = amount_point (dec_point E) n"
proof -
  have "fst (ciphertext_parts E (c - d)) - scale s (snd (ciphertext_parts E (c - d))) =
      (fst (ciphertext_parts E c) - scale s (snd (ciphertext_parts E c))) - (P - scale s A)"
    by (simp add: ciphertext_parts_linear [OF assms(1)] assms(3) scale_point_diff)
  then show ?thesis by (simp add: assms(2,4) amount_point_add)
qed

lemma credited_value:
  assumes "sdk_encodes zk E" "fst (ciphertext_parts E c) - scale s (snd (ciphertext_parts E c)) = amount_point (dec_point E) m"
    and "ciphertext_parts E d = (P, A)" "P - scale s A = amount_point (dec_point E) n"
  shows "fst (ciphertext_parts E (c + d)) - scale s (snd (ciphertext_parts E (c + d))) = amount_point (dec_point E) (m + n)"
proof -
  have "fst (ciphertext_parts E (c + d)) - scale s (snd (ciphertext_parts E (c + d))) =
      (fst (ciphertext_parts E c) - scale s (snd (ciphertext_parts E c))) + (P - scale s A)"
    by (simp add: ciphertext_parts_linear [OF assms(1)] assms(3) scale_point_add)
  then show ?thesis by (simp add: assms(2,4) amount_point_add)
qed

lemma auditor_accepted:
  assumes "sdk_behaves zk S E secret" "length ks = 3"
  shows "\<exists>lo hi. zk_extract_ciphertext3 zk (enc_grouped3 E (encrypt_with S ks x r)) 2 = Some lo \<and>
    zk_extract_ciphertext3 zk (enc_grouped3 E (encrypt_with S ks y s)) 2 = Some hi"
proof -
  have "\<exists>c. zk_extract_ciphertext3 zk (enc_grouped3 E (encrypt_with S ks x r)) 2 = Some c" for x r
  proof -
    obtain hs where "zk_extract_ciphertext3 zk (enc_grouped3 E (encrypt_with S ks x r)) i =
       Some (enc_parts E (pedersen_with S x r) (hs ! i))" if "i < 3" for i
      by (rule encrypt_withE [OF assms(1), of ks x r]) (use assms(2) that in blast)
    from this [of 2] show ?thesis by simp
  qed
  then show ?thesis by blast
qed

lemma validity_with_auditor_Ok:
  "validity_with_auditor zk d = Ok v \<longleftrightarrow>
     va_proof_data v = d \<and> zk_extract_ciphertext3 zk (v3_grouped_ciphertext_lo (context_data d)) 2 = Some (va_ciphertext_lo v) \<and>
     zk_extract_ciphertext3 zk (v3_grouped_ciphertext_hi (context_data d)) 2 = Some (va_ciphertext_hi v)"
  by (cases v) (auto simp: validity_with_auditor_def and_then_Ok ok_or_Ok)

text \<open>
  The proofs of a transfer, a mint or a burn of the amount in the parts \<open>lo\<close> and \<open>hi\<close>, encrypted for three keys,
  after which the ciphertext \<open>c\<close> of the key pair \<open>k\<close> holds \<open>y\<close>.
\<close>

definition split_made ::
  "ZkSdk \<Rightarrow> ('g, 'o, 'c, 'k) ProofSdk \<Rightarrow> ('g, 'c) Encodings \<Rightarrow> 'o SplitOpenings \<Rightarrow> 'k \<Rightarrow> 'c \<Rightarrow> u64 \<Rightarrow> pubkey list \<Rightarrow> u64 \<Rightarrow> u64 \<Rightarrow>
     SplitProofData \<Rightarrow> bool" where
  "split_made zk S E R k c y ks lo hi p \<longleftrightarrow>
     (let eq = sp_equality_proof_data p; au = sp_validity_proof_data p; va = va_proof_data au; rg = sp_range_proof_data p;
          glo = encrypt_with S ks lo (opening_lo R); ghi = encrypt_with S ks hi (opening_hi R)
      in new_equality S k c (pedersen_with S y (opening_new R)) (opening_new R) y = Ok eq \<and>
         context_data eq = \<lparr>ce_pubkey = keypair_pubkey S k, ce_ciphertext = enc_ciphertext E c,
           ce_commitment = enc_point E (pedersen_with S y (opening_new R))\<rparr> \<and>
         new_validity3 S (ks ! 0) (ks ! 1) (ks ! 2) glo ghi lo hi (opening_lo R) (opening_hi R) = Ok va \<and>
         context_data va = \<lparr>v3_first_pubkey = ks ! 0, v3_second_pubkey = ks ! 1, v3_third_pubkey = ks ! 2,
           v3_grouped_ciphertext_lo = enc_grouped3 E glo, v3_grouped_ciphertext_hi = enc_grouped3 E ghi\<rparr> \<and>
         validity_with_auditor zk va = Ok au \<and>
         check_auditor zk (enc_grouped3 E glo) (enc_grouped3 E ghi) (va_ciphertext_lo au) (va_ciphertext_hi au) = Ok () \<and>
         fst glo = pedersen_with S lo (opening_lo R) \<and> fst ghi = pedersen_with S hi (opening_hi R) \<and>
         zk_extract_commitment3 zk (enc_grouped3 E glo) = enc_point E (pedersen_with S lo (opening_lo R)) \<and>
         zk_extract_commitment3 zk (enc_grouped3 E ghi) = enc_point E (pedersen_with S hi (opening_hi R)) \<and>
         new_range_u128 S
           [pedersen_with S y (opening_new R), pedersen_with S lo (opening_lo R), pedersen_with S hi (opening_hi R),
            pedersen_with S 0 (opening_padding R)] [y, lo, hi, 0]
           [GEN_REMAINING_BALANCE_BIT_LENGTH, TRANSFER_AMOUNT_LO_BITS, TRANSFER_AMOUNT_HI_BITS, RANGE_PROOF_PADDING_BIT_LENGTH]
           [opening_new R, opening_lo R, opening_hi R, opening_padding R] = Ok rg \<and>
         zip_all_eq (rp_commitments (context_data rg)) [enc_point E (pedersen_with S y (opening_new R)),
           enc_point E (pedersen_with S lo (opening_lo R)), enc_point E (pedersen_with S hi (opening_hi R))] \<and>
         zip_all_eq (rp_bit_lengths (context_data rg)) [64, 16, 32, 16])"

lemma split_proofs_made:
  assumes B: "sdk_behaves zk S E secret" and s: "unat lo < 2 ^ 16" "unat hi < 2 ^ 32" and ks: "ks = [k1, k2, k3]"
    and v: "fst (ciphertext_parts E c) - scale (secret k) (snd (ciphertext_parts E c)) = amount_point (dec_point E) (unat y)"
  obtains p where "split_made zk S E R k c y ks lo hi p"
proof -
  obtain eq where eq: "new_equality S k c (pedersen_with S y (opening_new R)) (opening_new R) y = Ok eq"
    "context_data eq = \<lparr>ce_pubkey = keypair_pubkey S k, ce_ciphertext = enc_ciphertext E c,
       ce_commitment = enc_point E (pedersen_with S y (opening_new R))\<rparr>"
    by (rule make_equality [OF B v])
  obtain va where va: "new_validity3 S k1 k2 k3 (encrypt_with S [k1, k2, k3] lo (opening_lo R))
      (encrypt_with S [k1, k2, k3] hi (opening_hi R)) lo hi (opening_lo R) (opening_hi R) = Ok va"
    "context_data va = \<lparr>v3_first_pubkey = k1, v3_second_pubkey = k2, v3_third_pubkey = k3,
       v3_grouped_ciphertext_lo = enc_grouped3 E (encrypt_with S [k1, k2, k3] lo (opening_lo R)),
       v3_grouped_ciphertext_hi = enc_grouped3 E (encrypt_with S [k1, k2, k3] hi (opening_hi R))\<rparr>"
    by (rule make_validity3 [OF B])
  obtain au where au: "validity_with_auditor zk va = Ok au"
    using auditor_accepted [OF B, of "[k1, k2, k3]" lo "opening_lo R" hi "opening_hi R"]
    by (auto simp: validity_with_auditor_def va(2))
  obtain rg where rg: "new_range_u128 S
      [pedersen_with S y (opening_new R), pedersen_with S lo (opening_lo R), pedersen_with S hi (opening_hi R),
       pedersen_with S 0 (opening_padding R)] [y, lo, hi, 0]
      [GEN_REMAINING_BALANCE_BIT_LENGTH, TRANSFER_AMOUNT_LO_BITS, TRANSFER_AMOUNT_HI_BITS, RANGE_PROOF_PADDING_BIT_LENGTH]
      [opening_new R, opening_lo R, opening_hi R, opening_padding R] = Ok rg"
    "zip_all_eq (rp_commitments (context_data rg)) [enc_point E (pedersen_with S y (opening_new R)),
       enc_point E (pedersen_with S lo (opening_lo R)), enc_point E (pedersen_with S hi (opening_hi R))]"
    "zip_all_eq (rp_bit_lengths (context_data rg)) [64, 16, 32, 16]"
    by (rule split_range_proof [OF B s])
  note h = validity_with_auditor_Ok [THEN iffD1, OF au]
  have "check_auditor zk (enc_grouped3 E (encrypt_with S [k1, k2, k3] lo (opening_lo R)))
      (enc_grouped3 E (encrypt_with S [k1, k2, k3] hi (opening_hi R))) (va_ciphertext_lo au) (va_ciphertext_hi au) = Ok ()"
    using h by (simp add: check_auditor_def check_auditor_ciphertext_def try_extract_ciphertext3_def va(2))
  then have "split_made zk S E R k c y ks lo hi \<lparr>sp_equality_proof_data = eq, sp_validity_proof_data = au, sp_range_proof_data = rg\<rparr>"
    using h by (simp add: split_made_def ks eq va au rg encrypted_commitment [OF B])
  then show thesis by (rule that)
qed

text \<open>The new balance after an amount was taken off, and how the program computes it.\<close>

lemma debit_made:
  assumes B: "sdk_behaves zk S E secret"
    and o: "plain E (secret k) available (unat balance)"
    and le: "amount \<le> balance" and lt: "unat amount < 2 ^ 48" and ks: "ks = [keypair_pubkey S k, k2, k3]"
  obtains lo hi clo chi p where
    "try_split_u64 amount TRANSFER_AMOUNT_LO_BITS = Some (lo, hi)"
    "to_elgamal_ciphertext S (encrypt_with S ks lo (opening_lo R)) 0 = Some clo"
    "to_elgamal_ciphertext S (encrypt_with S ks hi (opening_hi R)) 0 = Some chi"
    "split_made zk S E R k (available - (clo + scale 65536 chi)) (balance - amount) ks lo hi p"
    "\<exists>clo' chi'. zk_extract_ciphertext3 zk (enc_grouped3 E (encrypt_with S ks lo (opening_lo R))) 0 = Some clo' \<and>
       zk_extract_ciphertext3 zk (enc_grouped3 E (encrypt_with S ks hi (opening_hi R))) 0 = Some chi' \<and>
       subtract_with_lo_hi (zk_curve zk) (enc_ciphertext E available) clo' chi' =
         Some (enc_ciphertext E (available - (clo + scale 65536 chi)))"
    "holds E (secret k) (enc_ciphertext E (available - (clo + scale 65536 chi))) (unat (balance - amount))"
    "unat lo < 2 ^ 16" "unat hi < 2 ^ 32" "unat amount = unat lo + 65536 * unat hi"
proof -
  note E = sdk_behavesD(1) [OF B]
  obtain lo hi where s: "try_split_u64 amount TRANSFER_AMOUNT_LO_BITS = Some (lo, hi)" "unat lo < 2 ^ 16"
    "unat amount = unat lo + 65536 * unat hi" "unat hi < 2 ^ 32"
    using split_transfer_amount [of amount] lt by blast
  obtain clo chi P A where c: "encrypted_amount zk S E 0 (encrypt_with S ks lo (opening_lo R)) (encrypt_with S ks hi (opening_hi R)) clo chi P A"
    "P - scale (secret k) A = amount_point (dec_point E) (unat amount)"
    by (rule encrypted_amountE [OF B _ _ _ s(3), of ks 0 k "opening_lo R" "opening_hi R"]) (simp_all add: ks that)
  note ea = c(1) [unfolded encrypted_amount_def]
  have y: "unat balance = unat amount + unat (balance - amount)" using le by (simp add: unat_sub word_le_nat_alt)
  let ?c = "available - (clo + scale 65536 chi)"
  have v: "fst (ciphertext_parts E ?c) - scale (secret k) (snd (ciphertext_parts E ?c)) =
      amount_point (dec_point E) (unat (balance - amount))"
    using debited_value [OF E o [unfolded plain_def y]] c by (auto simp: encrypted_amount_def)
  have new: "enc_ciphertext E ?c = enc_parts E (fst (ciphertext_parts E available) - P) (snd (ciphertext_parts E available) - A)"
    using ea by (simp add: enc_ciphertext_parts [OF E] ciphertext_parts_linear(2) [OF E])
  obtain p where p: "split_made zk S E R k ?c (balance - amount) ks lo hi p"
    by (rule split_proofs_made [OF B s(2,4) ks v])
  show thesis
  proof (rule that [OF s(1) _ _ p _ _ s(2,4,3)])
    show "holds E (secret k) (enc_ciphertext E ?c) (unat (balance - amount))"
      using v by (intro holdsI) (simp add: plain_def)
  qed (use ea in \<open>auto simp: new enc_ciphertext_parts [OF E, of available]\<close>)
qed

text \<open>
  Whoever can decrypt the available balance of a confidential account can generate the proofs of a transfer of any
  amount of at most 48 bits within the balance, and the program accepts them: the three contexts are consistent,
  they name the keys of the parties, the auditor ciphertexts the client sends are those of the proof, and debiting
  the source succeeds and leaves an encryption of the rest.
\<close>

lemma transfer_proofs_accepted:
  assumes "sdk_behaves zk S E secret"
    and "cta_available_balance e = enc_ciphertext E available" "cta_elgamal_pubkey e = keypair_pubkey S k"
    and "plain E (secret k) available (unat balance)"
    and "ae_decrypt S aes_key (cta_decryptable_available_balance e) = Some balance"
    and "valid_as_source e = Ok ()" "amount \<le> balance" "unat amount < 2 ^ 48"
    and "a = (case auditor of Some a \<Rightarrow> a | None \<Rightarrow> 0)"
  shows "\<exists>p lo hi new. transfer_split_proof_data zk S R available (cta_decryptable_available_balance e) amount k aes_key dest auditor = Ok p \<and>
    verify_and_extract_transfer zk (context_data (sp_equality_proof_data p))
      (context_data (va_proof_data (sp_validity_proof_data p))) (context_data (sp_range_proof_data p)) =
      Ok \<lparr>tp_ciphertext_lo = enc_grouped3 E (encrypt_with S [keypair_pubkey S k, dest, a] lo (opening_lo R)),
          tp_ciphertext_hi = enc_grouped3 E (encrypt_with S [keypair_pubkey S k, dest, a] hi (opening_hi R)),
          tp_source = keypair_pubkey S k, tp_destination = dest, tp_auditor = a, tp_new_source_ciphertext = new\<rparr> \<and>
    check_auditor zk (enc_grouped3 E (encrypt_with S [keypair_pubkey S k, dest, a] lo (opening_lo R)))
      (enc_grouped3 E (encrypt_with S [keypair_pubkey S k, dest, a] hi (opening_hi R)))
      (va_ciphertext_lo (sp_validity_proof_data p)) (va_ciphertext_hi (sp_validity_proof_data p)) = Ok () \<and>
    debit_source zk (keypair_pubkey S k) (enc_grouped3 E (encrypt_with S [keypair_pubkey S k, dest, a] lo (opening_lo R)))
      (enc_grouped3 E (encrypt_with S [keypair_pubkey S k, dest, a] hi (opening_hi R))) new z e =
      Ok (e\<lparr>cta_available_balance := new, cta_decryptable_available_balance := z\<rparr>) \<and>
    holds E (secret k) new (unat (balance - amount)) \<and>
    unat lo < 2 ^ 16 \<and> unat hi < 2 ^ 32 \<and> unat amount = unat lo + 65536 * unat hi"
proof -
  let ?ks = "[keypair_pubkey S k, dest, a]"
  obtain lo hi clo chi p where h:
    "try_split_u64 amount TRANSFER_AMOUNT_LO_BITS = Some (lo, hi)"
    "to_elgamal_ciphertext S (encrypt_with S ?ks lo (opening_lo R)) 0 = Some clo"
    "to_elgamal_ciphertext S (encrypt_with S ?ks hi (opening_hi R)) 0 = Some chi"
    and m: "split_made zk S E R k (available - (clo + scale 65536 chi)) (balance - amount) ?ks lo hi p"
    and x: "\<exists>clo' chi'. zk_extract_ciphertext3 zk (enc_grouped3 E (encrypt_with S ?ks lo (opening_lo R))) 0 = Some clo' \<and>
       zk_extract_ciphertext3 zk (enc_grouped3 E (encrypt_with S ?ks hi (opening_hi R))) 0 = Some chi' \<and>
       subtract_with_lo_hi (zk_curve zk) (enc_ciphertext E available) clo' chi' =
         Some (enc_ciphertext E (available - (clo + scale 65536 chi)))"
    and o: "holds E (secret k) (enc_ciphertext E (available - (clo + scale 65536 chi))) (unat (balance - amount))"
    and s: "unat lo < 2 ^ 16" "unat hi < 2 ^ 32" "unat amount = unat lo + 65536 * unat hi"
    by (rule debit_made [OF assms(1) assms(4,7,8) refl])
  note m = m [unfolded split_made_def Let_def, simplified]
  have "transfer_split_proof_data zk S R available (cta_decryptable_available_balance e) amount k aes_key dest auditor = Ok p"
    using assms(7) m by (simp add: transfer_split_proof_data_def Let_def assms(9) [symmetric] h assms(5) checked_sub_def unwrap_def inner_proof_def)
  moreover have "debit_source zk (keypair_pubkey S k) (enc_grouped3 E (encrypt_with S ?ks lo (opening_lo R)))
      (enc_grouped3 E (encrypt_with S ?ks hi (opening_hi R))) (enc_ciphertext E (available - (clo + scale 65536 chi))) z e =
      Ok (e\<lparr>cta_available_balance := enc_ciphertext E (available - (clo + scale 65536 chi)), cta_decryptable_available_balance := z\<rparr>)"
    using x by (auto simp: debit_source_def assms(2,3,6) try_extract_ciphertext3_def)
  ultimately show ?thesis using o m s
    by (intro exI [of _ p] exI [of _ lo] exI [of _ hi] exI [of _ "enc_ciphertext E (available - (clo + scale 65536 chi))"])
       (simp add: verify_and_extract_transfer_def)
qed

section \<open>Withdrawals, burns and mints\<close>

lemma withdraw_proofs_accepted:
  assumes B: "sdk_behaves zk S E secret"
    and "cta_available_balance e = enc_ciphertext E available" "cta_elgamal_pubkey e = keypair_pubkey S k"
    and o: "plain E (secret k) available (unat balance)"
    and "valid_as_source e = Ok ()" "amount \<le> balance"
  shows "\<exists>p ctx e'. withdraw_proof_data S r available balance amount k = Ok p \<and>
    verify_and_extract_withdraw (context_data (wd_equality_proof_data p)) (context_data (wd_range_proof_data p)) = Ok ctx \<and>
    debit_withdrawal (zk_curve zk) ctx amount z e = Ok e' \<and>
    holds E (secret k) (cta_available_balance e') (unat (balance - amount))"
proof -
  note E = sdk_behavesD(1) [OF B]
  let ?c = "available - elgamal_encode S amount" and ?y = "balance - amount"
  have enc: "ciphertext_parts E (elgamal_encode S amount) = (amount_point (dec_point E) (unat amount), 0)"
    using sdk_behavesD(2) [OF B, unfolded sdk_encrypts_def, THEN conjunct2, THEN conjunct2] by blast
  have y: "unat balance = unat amount + unat ?y" using assms(6) by (simp add: unat_sub word_le_nat_alt)
  have v: "fst (ciphertext_parts E ?c) - scale (secret k) (snd (ciphertext_parts E ?c)) = amount_point (dec_point E) (unat ?y)"
    using debited_value [OF E o [unfolded plain_def y] enc] by simp
  obtain eq where eq: "new_equality S k ?c (pedersen_with S ?y r) r ?y = Ok eq"
    "context_data eq = \<lparr>ce_pubkey = keypair_pubkey S k, ce_ciphertext = enc_ciphertext E ?c,
       ce_commitment = enc_point E (pedersen_with S ?y r)\<rparr>"
    by (rule make_equality [OF B v])
  have "in_ranges S 64 [pedersen_with S ?y r] [?y] [GEN_REMAINING_BALANCE_BIT_LENGTH] [r]"
    by (simp add: in_ranges_list GEN_REMAINING_BALANCE_BIT_LENGTH_def)
  then obtain rg where rg: "new_range_u64 S [pedersen_with S ?y r] [?y] [GEN_REMAINING_BALANCE_BIT_LENGTH] [r] = Ok rg"
    "context_data rg = range_context E [pedersen_with S ?y r] [GEN_REMAINING_BALANCE_BIT_LENGTH]"
    using make_range(1) [OF B] by blast
  define p where "p = \<lparr>wd_equality_proof_data = eq, wd_range_proof_data = rg\<rparr>"
  define ctx where "ctx = \<lparr>wp_source_pubkey = keypair_pubkey S k, wp_remaining_balance_ciphertext = enc_ciphertext E ?c\<rparr>"
  have new: "enc_ciphertext E ?c = enc_parts E (fst (ciphertext_parts E available) - amount_point (dec_point E) (unat amount))
      (snd (ciphertext_parts E available))"
    by (simp add: enc_ciphertext_parts [OF E] ciphertext_parts_linear(2) [OF E] enc)
  have "withdraw_proof_data S r available balance amount k = Ok p"
    using assms(6) by (simp add: withdraw_proof_data_def Let_def checked_sub_def inner_proof_def eq(1) rg(1) p_def)
  moreover have "verify_and_extract_withdraw (context_data (wd_equality_proof_data p)) (context_data (wd_range_proof_data p)) = Ok ctx"
    by (simp add: verify_and_extract_withdraw_def p_def ctx_def eq(2) rg(2) range_context_def REMAINING_BALANCE_BIT_LENGTH_def
        GEN_REMAINING_BALANCE_BIT_LENGTH_def)
  moreover have "(if amount > 0 then ok_or (subtract_from (zk_curve zk) (cta_available_balance e) amount)
      (token_error CiphertextArithmeticFailed) else Ok (cta_available_balance e)) = Ok (enc_ciphertext E ?c)"
    unfolding new assms(2) enc_ciphertext_parts [OF E, of available] lo_hi_operations(3) [OF E]
    by (auto simp: amount_point_def word_neq_0_conv [symmetric])
  then have "debit_withdrawal (zk_curve zk) ctx amount z e =
      Ok (e\<lparr>cta_available_balance := enc_ciphertext E ?c, cta_decryptable_available_balance := z\<rparr>)"
    by (simp add: debit_withdrawal_def assms(3,5) ctx_def)
  ultimately show ?thesis using holdsI [of E "secret k" ?c] v by (auto simp: plain_def)
qed

lemma burn_proofs_accepted:
  assumes B: "sdk_behaves zk S E secret"
    and "cta_available_balance e = enc_ciphertext E available" "cta_elgamal_pubkey e = keypair_pubkey S k"
    and "plain E (secret k) available (unat balance)"
    and "ae_decrypt S aes_key (cta_decryptable_available_balance e) = Some balance"
    and "valid_as_source e = Ok ()" "amount \<le> balance" "unat amount < 2 ^ 48"
  shows "\<exists>p ctx e'. burn_split_proof_data zk S R available (cta_decryptable_available_balance e) amount k aes_key
      supply_key (opt_key auditor) = Ok p \<and>
    verify_and_extract_burn zk (context_data (sp_equality_proof_data p))
      (context_data (va_proof_data (sp_validity_proof_data p))) (context_data (sp_range_proof_data p)) = Ok ctx \<and>
    bp_supply ctx = supply_key \<and>
    debit_burned zk auditor ctx (va_ciphertext_lo (sp_validity_proof_data p))
      (va_ciphertext_hi (sp_validity_proof_data p)) z e = Ok e' \<and>
    holds E (secret k) (cta_available_balance e') (unat (balance - amount))"
proof -
  obtain a where a: "a = (case opt_key auditor of Some a \<Rightarrow> a | None \<Rightarrow> 0)" by simp
  have au: "opt_key auditor = None \<or> opt_key auditor = Some a" using a by (cases "opt_key auditor") auto
  let ?ks = "[keypair_pubkey S k, supply_key, a]"
  obtain lo hi clo chi p where h:
    "try_split_u64 amount TRANSFER_AMOUNT_LO_BITS = Some (lo, hi)"
    "to_elgamal_ciphertext S (encrypt_with S ?ks lo (opening_lo R)) 0 = Some clo"
    "to_elgamal_ciphertext S (encrypt_with S ?ks hi (opening_hi R)) 0 = Some chi"
    and m: "split_made zk S E R k (available - (clo + scale 65536 chi)) (balance - amount) ?ks lo hi p"
    and x: "\<exists>clo' chi'. zk_extract_ciphertext3 zk (enc_grouped3 E (encrypt_with S ?ks lo (opening_lo R))) 0 = Some clo' \<and>
       zk_extract_ciphertext3 zk (enc_grouped3 E (encrypt_with S ?ks hi (opening_hi R))) 0 = Some chi' \<and>
       subtract_with_lo_hi (zk_curve zk) (enc_ciphertext E available) clo' chi' =
         Some (enc_ciphertext E (available - (clo + scale 65536 chi)))"
    and o: "holds E (secret k) (enc_ciphertext E (available - (clo + scale 65536 chi))) (unat (balance - amount))"
    and s: "unat lo < 2 ^ 16" "unat hi < 2 ^ 32" "unat amount = unat lo + 65536 * unat hi"
    by (rule debit_made [OF B assms(4,7,8) refl])
  note m = m [unfolded split_made_def Let_def, simplified]
  have "burn_split_proof_data zk S R available (cta_decryptable_available_balance e) amount k aes_key supply_key (opt_key auditor) = Ok p"
    using assms(7) m by (simp add: burn_split_proof_data_def Let_def a [symmetric] h assms(5) checked_sub_def unwrap_def inner_proof_def)
  moreover define ctx where "ctx = \<lparr>bp_burn_amount_ciphertext_lo = enc_grouped3 E (encrypt_with S ?ks lo (opening_lo R)),
    bp_burn_amount_ciphertext_hi = enc_grouped3 E (encrypt_with S ?ks hi (opening_hi R)), bp_source = keypair_pubkey S k,
    bp_supply = supply_key, bp_auditor = a,
    bp_remaining_balance_ciphertext = enc_ciphertext E (available - (clo + scale 65536 chi))\<rparr>"
  have "verify_and_extract_burn zk (context_data (sp_equality_proof_data p))
      (context_data (va_proof_data (sp_validity_proof_data p))) (context_data (sp_range_proof_data p)) = Ok ctx"
    using m by (simp add: verify_and_extract_burn_def ctx_def)
  moreover have "debit_burned zk auditor ctx (va_ciphertext_lo (sp_validity_proof_data p))
      (va_ciphertext_hi (sp_validity_proof_data p)) z e =
      Ok (e\<lparr>cta_available_balance := enc_ciphertext E (available - (clo + scale 65536 chi)), cta_decryptable_available_balance := z\<rparr>)"
    using x m au by (auto simp: debit_burned_def assms(2,3,6) ctx_def try_extract_ciphertext3_def)
  ultimately show ?thesis using o by (auto simp: ctx_def)
qed

text \<open>
  Whoever can decrypt the confidential supply can generate the proofs of a mint that keeps the supply within 64 bits,
  and the program accepts them and stores an encryption of the increased supply.
\<close>

lemma mint_proofs_accepted:
  assumes "sdk_behaves zk S E secret"
    and "cmb_confidential_supply b = enc_ciphertext E supply_ct" "cmb_supply_elgamal_pubkey b = keypair_pubkey S k"
    and "plain E (secret k) supply_ct (unat current_supply)"
    and "unat current_supply + unat amount < 2 ^ 64" "unat amount < 2 ^ 48"
    and "a = (case auditor of Some a \<Rightarrow> a | None \<Rightarrow> 0)"
  shows "\<exists>p lo hi new. mint_split_proof_data zk S R supply_ct amount current_supply k dest auditor = Ok p \<and>
    verify_and_extract_mint zk (context_data (sp_equality_proof_data p))
      (context_data (va_proof_data (sp_validity_proof_data p))) (context_data (sp_range_proof_data p)) =
      Ok \<lparr>mp_mint_amount_ciphertext_lo = enc_grouped3 E (encrypt_with S [dest, keypair_pubkey S k, a] lo (opening_lo R)),
          mp_mint_amount_ciphertext_hi = enc_grouped3 E (encrypt_with S [dest, keypair_pubkey S k, a] hi (opening_hi R)),
          mp_destination = dest, mp_supply = keypair_pubkey S k, mp_auditor = a, mp_new_supply_ciphertext = new\<rparr> \<and>
    check_auditor zk (enc_grouped3 E (encrypt_with S [dest, keypair_pubkey S k, a] lo (opening_lo R)))
      (enc_grouped3 E (encrypt_with S [dest, keypair_pubkey S k, a] hi (opening_hi R)))
      (va_ciphertext_lo (sp_validity_proof_data p)) (va_ciphertext_hi (sp_validity_proof_data p)) = Ok () \<and>
    add_supply zk \<lparr>mp_mint_amount_ciphertext_lo = enc_grouped3 E (encrypt_with S [dest, keypair_pubkey S k, a] lo (opening_lo R)),
        mp_mint_amount_ciphertext_hi = enc_grouped3 E (encrypt_with S [dest, keypair_pubkey S k, a] hi (opening_hi R)),
        mp_destination = dest, mp_supply = keypair_pubkey S k, mp_auditor = a, mp_new_supply_ciphertext = new\<rparr> z b =
      Ok (b\<lparr>cmb_confidential_supply := new, cmb_decryptable_supply := z\<rparr>) \<and>
    holds E (secret k) new (unat current_supply + unat amount) \<and>
    unat lo < 2 ^ 16 \<and> unat hi < 2 ^ 32 \<and> unat amount = unat lo + 65536 * unat hi"
proof -
  note B = assms(1) and E = sdk_behavesD(1) [OF assms(1)]
  let ?ks = "[dest, keypair_pubkey S k, a]" and ?y = "current_supply + amount"
  obtain lo hi where s: "try_split_u64 amount TRANSFER_AMOUNT_LO_BITS = Some (lo, hi)" "unat lo < 2 ^ 16"
    "unat amount = unat lo + 65536 * unat hi" "unat hi < 2 ^ 32"
    using split_transfer_amount [of amount] assms(6) by blast
  obtain clo chi P A where c: "encrypted_amount zk S E 1 (encrypt_with S ?ks lo (opening_lo R)) (encrypt_with S ?ks hi (opening_hi R)) clo chi P A"
    "P - scale (secret k) A = amount_point (dec_point E) (unat amount)"
    by (rule encrypted_amountE [OF B _ _ _ s(3), of ?ks 1 k "opening_lo R" "opening_hi R"]) (simp_all add: that)
  note ea = c(1) [unfolded encrypted_amount_def]
  have y: "unat ?y = unat current_supply + unat amount" using assms(5) by (simp add: unat_word_ariths)
  let ?c = "supply_ct + (clo + scale 65536 chi)"
  have v: "fst (ciphertext_parts E ?c) - scale (secret k) (snd (ciphertext_parts E ?c)) = amount_point (dec_point E) (unat ?y)"
    unfolding y using credited_value [OF E assms(4) [unfolded plain_def]] c
    by (auto simp: encrypted_amount_def)
  have new: "enc_ciphertext E ?c = enc_parts E (fst (ciphertext_parts E supply_ct) + P) (snd (ciphertext_parts E supply_ct) + A)"
    using ea by (simp add: enc_ciphertext_parts [OF E] ciphertext_parts_linear(1) [OF E])
  obtain p where m: "split_made zk S E R k ?c ?y ?ks lo hi p"
    by (rule split_proofs_made [OF B s(2,4) refl v])
  note m = m [unfolded split_made_def Let_def, simplified]
  have "mint_split_proof_data zk S R supply_ct amount current_supply k dest auditor = Ok p"
    using m ea assms(5) by (simp add: mint_split_proof_data_def Let_def assms(7) [symmetric] s(1) checked_add_def unwrap_def inner_proof_def)
  moreover have "add_supply zk \<lparr>mp_mint_amount_ciphertext_lo = enc_grouped3 E (encrypt_with S ?ks lo (opening_lo R)),
    mp_mint_amount_ciphertext_hi = enc_grouped3 E (encrypt_with S ?ks hi (opening_hi R)), mp_destination = dest,
    mp_supply = keypair_pubkey S k, mp_auditor = a, mp_new_supply_ciphertext = enc_ciphertext E ?c\<rparr> z b =
      Ok (b\<lparr>cmb_confidential_supply := enc_ciphertext E ?c, cmb_decryptable_supply := z\<rparr>)"
    using ea by (auto simp: add_supply_def assms(2,3) try_extract_ciphertext3_def new enc_ciphertext_parts [OF E, of supply_ct])
  ultimately show ?thesis using m s(2-4) holdsI [of E "secret k" ?c] v unfolding y
    by (intro exI [of _ p] exI [of _ lo] exI [of _ hi] exI [of _ "enc_ciphertext E ?c"])
       (simp add: verify_and_extract_mint_def plain_def)
qed

section \<open>The fee\<close>

lemma unat_ucast_u128 [simp]: "unat (ucast (x :: u64) :: u128) = unat x" "unat (ucast (r :: u16) :: u128) = unat r"
  by (simp_all add: unat_ucast_up)

lemma ceil_10000: "(n + 9999) div 10000 * 10000 \<ge> n" "(n + 9999) div 10000 * 10000 < n + 10000"
  "n \<le> m * 10000 \<Longrightarrow> (n + 9999) div 10000 \<le> m" for n m :: nat
proof -
  have "(n + 9999) mod 10000 < 10000" by simp
  then show "(n + 9999) div 10000 * 10000 \<ge> n" "(n + 9999) div 10000 * 10000 < n + 10000"
    using div_mult_mod_eq [of "n + 9999" 10000] by linarith+
  show "n \<le> m * 10000 \<Longrightarrow> (n + 9999) div 10000 \<le> m"
    using less_mult_imp_div_less [of "n + 9999" "m + 1" 10000] by simp
qed

lemma gen_calculate_fee_correct:
  assumes "unat r \<le> 10000"
  shows "\<exists>f d. gen_calculate_fee x r = Some (f, d) \<and> unat f = (unat x * unat r + 9999) div 10000 \<and>
    unat f * 10000 = unat x * unat r + unat d \<and> unat d < 10000 \<and> unat f \<le> unat x"
proof -
  define n where "n = unat x * unat r"
  define c where "c = (n + 9999) div 10000"
  have nx: "n \<le> unat x * 10000" using assms by (simp add: n_def)
  have x: "unat x \<le> 18446744073709551615" using unat_u64_range(2) [of x] by linarith
  have n128: "n < 2 ^ 78" using nx x by simp
  have fx: "c \<le> unat x" using ceil_10000(3) [OF nx] by (simp add: c_def)
  have f1: "n \<le> c * 10000" "c * 10000 < n + 10000" using ceil_10000(1,2) [of n] by (simp_all add: c_def)
  define a :: u128 where "a = ucast x * ucast r"
  have a: "unat a = n" using n128 by (simp add: a_def unat_word_ariths n_def)
  have one: "unat GEN_ONE_IN_BASIS_POINTS = 10000"
    by (simp add: GEN_ONE_IN_BASIS_POINTS_def GEN_MAX_FEE_BASIS_POINTS_def)
  define b :: u128 where "b = a + GEN_ONE_IN_BASIS_POINTS"
  have b: "unat b = n + 10000" using n128 by (simp add: b_def unat_word_ariths a one)
  have b1: "unat (b - 1) = n + 9999" "1 \<le> b" using b by (simp_all add: unat_sub word_le_nat_alt)
  define q :: u128 where "q = (b - 1) div GEN_ONE_IN_BASIS_POINTS"
  have q: "unat q = c" by (simp add: q_def unat_div b1 one c_def)
  define y :: u128 where "y = q * GEN_ONE_IN_BASIS_POINTS"
  have y: "unat y = c * 10000" using f1(2) n128 by (simp add: y_def unat_word_ariths q one)
  have d: "unat (y - a) = c * 10000 - n" "a \<le> y" using f1(1) by (simp_all add: unat_sub word_le_nat_alt y a)
  have z: "GEN_ONE_IN_BASIS_POINTS \<noteq> 0" using one by auto
  have s: "checked_mul (ucast x) (ucast r) = Some a" "checked_add a GEN_ONE_IN_BASIS_POINTS = Some b"
    "checked_sub b 1 = Some (b - 1)" "checked_div (b - 1) GEN_ONE_IN_BASIS_POINTS = Some q"
    "checked_mul q GEN_ONE_IN_BASIS_POINTS = Some y" "checked_sub y a = Some (y - a)"
    using n128 f1 b1(2) d(2) z
    by (simp_all add: checked_mul_def checked_add_def checked_sub_def checked_div_def a one q a_def [symmetric]
        b_def [symmetric] q_def [symmetric] y_def [symmetric] n_def [symmetric])
  have "gen_calculate_fee x r = Some (ucast q, ucast (y - a))"
    by (simp add: gen_calculate_fee_def s)
  moreover have "unat (ucast q :: u64) = c" using fx x by (simp add: unsigned_ucast_eq take_bit_eq_mod q)
  moreover have "unat (ucast (y - a) :: u64) = c * 10000 - n" using f1(2) by (simp add: unsigned_ucast_eq take_bit_eq_mod d)
  ultimately show ?thesis using f1 fx by (simp add: c_def n_def)
qed

text \<open>Sums and differences of commitments are commitments to sums and differences.\<close>

lemma pedersenE:
  assumes "sdk_behaves zk S E secret"
  obtains H where "\<And>x r. pedersen_with S x r = amount_point (dec_point E) (unat x) + H r" "\<And>r s. H (r + s) = H r + H s"
    "\<And>r s. H (r - s) = H r - H s" "\<And>n r. H (scale n r) = scale n (H r)" "H 0 = 0"
proof -
  obtain H where H: "\<And>x r. pedersen_with S x r = amount_point (dec_point E) (unat x) + H r" "\<And>r s. H (r + s) = H r + H s"
    using sdk_behavesD(2) [OF assms, unfolded sdk_encrypts_def, THEN conjunct1] by blast
  have z: "H 0 = 0" using H(2) [of 0 0] by simp
  moreover have "H (r - s) = H r - H s" for r s using H(2) [of "r - s" s] by (simp add: eq_diff_eq)
  moreover have "H (scale n r) = scale n (H r)" for n r by (induction n) (simp_all add: z H(2))
  ultimately show thesis using that H by blast
qed

lemma pedersen_combine:
  assumes "sdk_behaves zk S E secret" "unat x = unat lo + 65536 * unat hi"
  shows "pedersen_with S lo r + scale 65536 (pedersen_with S hi s) = pedersen_with S x (r + scale 65536 s)"
proof -
  obtain H where H: "\<And>x r. pedersen_with S x r = amount_point (dec_point E) (unat x) + H r"
    "\<And>r s. H (r + s) = H r + H s" "\<And>n r. H (scale n r) = scale n (H r)"
    by (rule pedersenE [OF assms(1)]) (rule that)
  show ?thesis by (simp add: H assms(2) amount_point_add amount_point_times scale_point_add add_ac)
qed

lemma group_diff_add: "(a + b) - (c + d) = (a - c) + (b - d)" for a b c d :: "'a::ab_group_add"
  by (simp add: algebra_simps)

lemma pedersen_diff:
  assumes "sdk_behaves zk S E secret" "y \<le> x"
  shows "pedersen_with S x r - pedersen_with S y s = pedersen_with S (x - y) (r - s)"
proof -
  obtain H where H: "\<And>x r. pedersen_with S x r = amount_point (dec_point E) (unat x) + H r" "\<And>r s. H (r - s) = H r - H s"
    by (rule pedersenE [OF assms(1)]) (rule that)
  have x: "unat x = unat (x - y) + unat y" using assms(2) by (simp add: unat_sub word_le_nat_alt)
  have "amount_point (dec_point E) (unat x) - amount_point (dec_point E) (unat y) = amount_point (dec_point E) (unat (x - y))"
    by (subst x) (simp add: amount_point_add)
  then show ?thesis by (simp add: H group_diff_add)
qed

lemma pedersen_delta:
  assumes "sdk_behaves zk S E secret" "unat f * 10000 = unat x * n + unat d"
  shows "scale 10000 (pedersen_with S f r) - scale n (pedersen_with S x s) =
    pedersen_with S d (scale 10000 r - scale n s)"
proof -
  obtain H where H: "\<And>x r. pedersen_with S x r = amount_point (dec_point E) (unat x) + H r"
    "\<And>r s. H (r - s) = H r - H s" "\<And>n r. H (scale n r) = scale n (H r)"
    by (rule pedersenE [OF assms(1)]) (rule that)
  have e: "10000 * unat f = n * unat x + unat d" using assms(2) by (simp add: mult.commute)
  have "scale 10000 (amount_point (dec_point E) (unat f)) - scale n (amount_point (dec_point E) (unat x)) =
      amount_point (dec_point E) (unat d)"
    by (simp add: amount_point_times e amount_point_add)
  then show ?thesis by (simp add: H scale_point_add group_diff_add)
qed

lemma pedersen_zero:
  assumes "sdk_behaves zk S E secret"
  shows "pedersen_with S x 0 = amount_point (dec_point E) (unat x)"
  by (rule pedersenE [OF assms]) simp

lemma capped_fee_correct:
  assumes "gen_calculate_fee x r = Some raw" "capped_fee m raw = (f, d)" "unat r \<le> 10000"
  shows "f \<le> m" "f \<le> x" "unat d < 10000" "f = m \<or> unat f * 10000 = unat x * unat r + unat d"
    "unat f = min ((unat x * unat r + 9999) div 10000) (unat m)"
proof -
  obtain f0 d0 where h: "raw = (f0, d0)" "unat f0 = (unat x * unat r + 9999) div 10000"
    "unat f0 * 10000 = unat x * unat r + unat d0" "unat d0 < 10000" "unat f0 \<le> unat x"
    using gen_calculate_fee_correct [OF assms(3), of x] assms(1) by auto
  show "f \<le> m" "f \<le> x" "unat d < 10000" "f = m \<or> unat f * 10000 = unat x * unat r + unat d"
    "unat f = min ((unat x * unat r + 9999) div 10000) (unat m)"
    using assms(2) h by (auto simp: capped_fee_def word_le_nat_alt word_less_nat_alt min_def split: if_splits)
qed

lemma unat_u16_to_scalar [simp]: "unat (u16_to_scalar n) = unat n"
proof -
  have "unat n < 65536" using unat_less [of n] by simp
  moreover from this have "unat n < 2 ^ 256" by simp
  ultimately show ?thesis
    by (simp add: u16_to_scalar_def from_le_def to_le_def le_nat_le_bytes unat_of_nat unat_ucast_up)
qed

lemma commitment_to_ristretto_id [simp]: "commitment_to_ristretto c = c"
  by (simp add: commitment_to_ristretto_def)

text \<open>The proofs about the fee of an amount in the parts \<open>lo\<close> and \<open>hi\<close>.\<close>

definition fee_range_points :: "('g::ab_group_add, 'o::ab_group_add, 'c, 'k) ProofSdk \<Rightarrow> 'o SplitOpenings \<Rightarrow> 'o FeeOpenings \<Rightarrow> u64 \<Rightarrow> u64 \<Rightarrow> u64 \<Rightarrow>
     u64 \<Rightarrow> u64 \<Rightarrow> u64 \<Rightarrow> u64 \<Rightarrow> u64 \<Rightarrow> 'g list" where
  "fee_range_points S R F y x lo hi f flo fhi d =
     [pedersen_with S y (opening_new R), pedersen_with S lo (opening_lo R), pedersen_with S hi (opening_hi R),
      pedersen_with S d (opening_claimed F), pedersen_with S (MAX_FEE_BASIS_POINTS_SUB_ONE - d) (0 - opening_claimed F),
      pedersen_with S flo (opening_fee_lo F), pedersen_with S fhi (opening_fee_hi F),
      pedersen_with S (x - f) ((opening_lo R + scale 65536 (opening_hi R)) - (opening_fee_lo F + scale 65536 (opening_fee_hi F)))]"

lemma fee_range_proof:
  assumes "sdk_behaves zk S E secret" "unat lo < 2 ^ 16" "unat hi < 2 ^ 32" "unat flo < 2 ^ 16" "unat fhi < 2 ^ 32" "unat d < 10000"
  shows "\<exists>rg. new_range_u256 S (fee_range_points S R F y x lo hi f flo fhi d)
      [y, lo, hi, d, MAX_FEE_BASIS_POINTS_SUB_ONE - d, flo, fhi, x - f]
      [GEN_REMAINING_BALANCE_BIT_LENGTH, TRANSFER_AMOUNT_LO_BITS, TRANSFER_AMOUNT_HI_BITS, DELTA_BIT_LENGTH,
       DELTA_BIT_LENGTH, FEE_AMOUNT_LO_BITS, FEE_AMOUNT_HI_BITS, NET_TRANSFER_AMOUNT_BIT_LENGTH]
      [opening_new R, opening_lo R, opening_hi R, opening_claimed F, 0 - opening_claimed F,
       opening_fee_lo F, opening_fee_hi F,
       (opening_lo R + scale 65536 (opening_hi R)) - (opening_fee_lo F + scale 65536 (opening_fee_hi F))] = Ok rg \<and>
    context_data rg = \<lparr>rp_commitments = map (enc_point E) (fee_range_points S R F y x lo hi f flo fhi d),
      rp_bit_lengths = [64, 16, 32, 16, 16, 16, 32, 64]\<rparr>"
proof -
  have "unat (MAX_FEE_BASIS_POINTS_SUB_ONE - d) \<le> 9999"
    using assms(6) by (simp add: MAX_FEE_BASIS_POINTS_SUB_ONE_def unat_sub word_le_nat_alt)
  then have "in_ranges S 256 (fee_range_points S R F y x lo hi f flo fhi d)
      [y, lo, hi, d, MAX_FEE_BASIS_POINTS_SUB_ONE - d, flo, fhi, x - f] [64, 16, 32, 16, 16, 16, 32, 64]
      [opening_new R, opening_lo R, opening_hi R, opening_claimed F, 0 - opening_claimed F,
       opening_fee_lo F, opening_fee_hi F,
       (opening_lo R + scale 65536 (opening_hi R)) - (opening_fee_lo F + scale 65536 (opening_fee_hi F))]"
    using assms(2-6) by (simp add: in_ranges_list fee_range_points_def)
  from make_range(3) [OF assms(1) this] show ?thesis
    by (simp add: range_context_def fee_range_points_def GEN_REMAINING_BALANCE_BIT_LENGTH_def TRANSFER_AMOUNT_LO_BITS_def
        TRANSFER_AMOUNT_HI_BITS_def DELTA_BIT_LENGTH_def FEE_AMOUNT_LO_BITS_def FEE_AMOUNT_HI_BITS_def
        NET_TRANSFER_AMOUNT_BIT_LENGTH_def)
qed

lemma encrypted_fee_commitment:
  assumes "sdk_behaves zk S E secret"
  shows "fst (encrypt_with S [a, b] x r) = pedersen_with S x r"
    "zk_extract_commitment2 zk (enc_grouped2 E (encrypt_with S [a, b] x r)) = enc_point E (pedersen_with S x r)"
  by (simp_all add: encrypted_commitment [OF assms])

lemma fee_proofs_made:
  fixes F :: "'o::ab_group_add FeeOpenings"
  assumes B: "sdk_behaves zk S E secret" and s: "unat lo < 2 ^ 16" "unat hi < 2 ^ 32" "unat x = unat lo + 65536 * unat hi"
    and lt: "unat x < 2 ^ 48" and rate: "unat rate \<le> 10000"
    and g: "fst glo = pedersen_with S lo (opening_lo R)" "fst ghi = pedersen_with S hi (opening_hi R)"
  obtains pc fv rg f flo fhi d where
    "fee_split_proof_data S R F glo ghi (lo, hi) x y dest wwa rate m = Ok (pc, fv, rg)"
    "f \<le> x" "unat f = min ((unat x * unat rate + 9999) div 10000) (unat m)" "unat f = unat flo + 65536 * unat fhi" "try_split_u64 f FEE_AMOUNT_LO_BITS = Some (flo, fhi)"
    "context_data pc = \<lparr>pw_percentage_commitment = enc_point E (pedersen_with S f (opening_fee_lo F + scale 65536 (opening_fee_hi F))),
       pw_delta_commitment = enc_point E (scale 10000 (pedersen_with S f (opening_fee_lo F + scale 65536 (opening_fee_hi F))) -
         scale (unat rate) (pedersen_with S x (opening_lo R + scale 65536 (opening_hi R)))),
       pw_claimed_commitment = enc_point E (pedersen_with S d (opening_claimed F)), pw_max_value = m\<rparr>"
    "context_data fv = \<lparr>v2_first_pubkey = dest, v2_second_pubkey = wwa,
       v2_grouped_ciphertext_lo = enc_grouped2 E (encrypt_with S [dest, wwa] flo (opening_fee_lo F)),
       v2_grouped_ciphertext_hi = enc_grouped2 E (encrypt_with S [dest, wwa] fhi (opening_fee_hi F))\<rparr>"
    "context_data rg = \<lparr>rp_commitments = map (enc_point E) (fee_range_points S R F y x lo hi f flo fhi d),
       rp_bit_lengths = [64, 16, 32, 16, 16, 16, 32, 64]\<rparr>" "unat d < 10000"
proof -
  let ?ra = "opening_lo R + scale 65536 (opening_hi R)" and ?rf = "opening_fee_lo F + scale 65536 (opening_fee_hi F)"
  obtain raw where raw: "gen_calculate_fee x rate = Some raw"
    using gen_calculate_fee_correct [OF rate, of x] by auto
  obtain f d where fd: "capped_fee m raw = (f, d)" by (cases "capped_fee m raw")
  note c = capped_fee_correct [OF raw fd rate]
  have "unat f < 2 ^ 48" using c(2) lt by (simp add: word_le_nat_alt)
  then obtain flo fhi where fs: "try_split_u64 f TRANSFER_AMOUNT_LO_BITS = Some (flo, fhi)" "unat flo < 2 ^ 16"
    "unat f = unat flo + 65536 * unat fhi" "unat fhi < 2 ^ 32"
    using split_transfer_amount [of f] by metis
  have bits: "FEE_AMOUNT_LO_BITS = TRANSFER_AMOUNT_LO_BITS" by (simp add: FEE_AMOUNT_LO_BITS_def TRANSFER_AMOUNT_LO_BITS_def)
  have x: "pedersen_with S lo (opening_lo R) + scale 65536 (pedersen_with S hi (opening_hi R)) = pedersen_with S x ?ra"
    by (rule pedersen_combine [OF B s(3)])
  have f: "pedersen_with S flo (opening_fee_lo F) + scale 65536 (pedersen_with S fhi (opening_fee_hi F)) = pedersen_with S f ?rf"
    by (rule pedersen_combine [OF B fs(3)])
  let ?D = "scale 10000 (pedersen_with S f ?rf) - scale (unat rate) (pedersen_with S x ?ra)"
    and ?dr = "scale 10000 ?rf - scale (unat rate) ?ra"
  have D: "f = m \<or> ?D = pedersen_with S d ?dr" using c(4) pedersen_delta [OF B, of f x "unat rate" d] by blast
  obtain pc where pc: "new_percentage S (pedersen_with S f ?rf) ?rf f ?D ?dr d (pedersen_with S d (opening_claimed F)) (opening_claimed F) m = Ok pc"
    "context_data pc = \<lparr>pw_percentage_commitment = enc_point E (pedersen_with S f ?rf), pw_delta_commitment = enc_point E ?D,
       pw_claimed_commitment = enc_point E (pedersen_with S d (opening_claimed F)), pw_max_value = m\<rparr>"
    by (rule make_percentage [OF B c(1) D])
  obtain fv where fv: "new_validity2 S dest wwa (encrypt_with S [dest, wwa] flo (opening_fee_lo F))
      (encrypt_with S [dest, wwa] fhi (opening_fee_hi F)) flo fhi (opening_fee_lo F) (opening_fee_hi F) = Ok fv"
    "context_data fv = \<lparr>v2_first_pubkey = dest, v2_second_pubkey = wwa,
       v2_grouped_ciphertext_lo = enc_grouped2 E (encrypt_with S [dest, wwa] flo (opening_fee_lo F)),
       v2_grouped_ciphertext_hi = enc_grouped2 E (encrypt_with S [dest, wwa] fhi (opening_fee_hi F))\<rparr>"
    by (rule make_validity2 [OF B])
  obtain rg where rg: "new_range_u256 S (fee_range_points S R F y x lo hi f flo fhi d)
      [y, lo, hi, d, MAX_FEE_BASIS_POINTS_SUB_ONE - d, flo, fhi, x - f]
      [GEN_REMAINING_BALANCE_BIT_LENGTH, TRANSFER_AMOUNT_LO_BITS, TRANSFER_AMOUNT_HI_BITS, DELTA_BIT_LENGTH,
       DELTA_BIT_LENGTH, FEE_AMOUNT_LO_BITS, FEE_AMOUNT_HI_BITS, NET_TRANSFER_AMOUNT_BIT_LENGTH]
      [opening_new R, opening_lo R, opening_hi R, opening_claimed F, 0 - opening_claimed F,
       opening_fee_lo F, opening_fee_hi F, ?ra - ?rf] = Ok rg"
    "context_data rg = \<lparr>rp_commitments = map (enc_point E) (fee_range_points S R F y x lo hi f flo fhi d),
       rp_bit_lengths = [64, 16, 32, 16, 16, 16, 32, 64]\<rparr>"
    using fee_range_proof [OF B s(1,2) fs(2,4) c(3)] by blast
  have d: "d \<le> MAX_FEE_BASIS_POINTS_SUB_ONE" using c(3) by (simp add: MAX_FEE_BASIS_POINTS_SUB_ONE_def word_le_nat_alt)
  have cc: "pedersen_with S MAX_FEE_BASIS_POINTS_SUB_ONE 0 - pedersen_with S d (opening_claimed F) =
      pedersen_with S (MAX_FEE_BASIS_POINTS_SUB_ONE - d) (0 - opening_claimed F)"
    by (rule pedersen_diff [OF B d])
  have net: "pedersen_with S x ?ra - pedersen_with S f ?rf = pedersen_with S (x - f) (?ra - ?rf)"
    by (rule pedersen_diff [OF B c(2)])
  have tenk: "unat GEN_MAX_FEE_BASIS_POINTS = 10000" by (simp add: GEN_MAX_FEE_BASIS_POINTS_def)
  have "fee_split_proof_data S R F glo ghi (lo, hi) x y dest wwa rate m = Ok (pc, fv, rg)"
    using c(2) d fs(1) rg(1) unfolding fee_split_proof_data_def fee_range_points_def
    by (simp only: Let_def split raw ok_or_simps and_then_simps fd checked_sub_def if_True bits
        g try_combine_lo_hi_16 x f net cc encrypted_fee_commitment [OF B] compute_delta_commitment_and_opening_def
        fst_conv snd_conv tenk pc(1) fv(1) inner_proof_def map_err_simps)
  then show thesis by (rule that [OF _ c(2,5) fs(3) fs(1) [folded bits] pc(2) fv(2) rg(2) c(3)])
qed

lemma fee_contexts_accepted:
  fixes F :: "'o::ab_group_add FeeOpenings"
  assumes B: "sdk_behaves zk S E secret" and s: "unat x = unat lo + 65536 * unat hi" "unat f = unat flo + 65536 * unat fhi"
    and c: "f \<le> x" "unat d < 10000"
    and g: "zk_extract_commitment3 zk glo = enc_point E (pedersen_with S lo (opening_lo R))"
      "zk_extract_commitment3 zk ghi = enc_point E (pedersen_with S hi (opening_hi R))"
  shows "verify_and_extract_transfer_with_fee zk
     \<lparr>ce_pubkey = kp, ce_ciphertext = new_ct, ce_commitment = enc_point E (pedersen_with S y (opening_new R))\<rparr>
     \<lparr>v3_first_pubkey = kp, v3_second_pubkey = dest, v3_third_pubkey = a, v3_grouped_ciphertext_lo = glo, v3_grouped_ciphertext_hi = ghi\<rparr>
     \<lparr>pw_percentage_commitment = enc_point E (pedersen_with S f (opening_fee_lo F + scale 65536 (opening_fee_hi F))),
       pw_delta_commitment = enc_point E (scale 10000 (pedersen_with S f (opening_fee_lo F + scale 65536 (opening_fee_hi F))) -
         scale (unat rate) (pedersen_with S x (opening_lo R + scale 65536 (opening_hi R)))),
       pw_claimed_commitment = enc_point E (pedersen_with S d (opening_claimed F)), pw_max_value = m\<rparr>
     \<lparr>v2_first_pubkey = dest, v2_second_pubkey = wwa,
       v2_grouped_ciphertext_lo = enc_grouped2 E (encrypt_with S [dest, wwa] flo (opening_fee_lo F)),
       v2_grouped_ciphertext_hi = enc_grouped2 E (encrypt_with S [dest, wwa] fhi (opening_fee_hi F))\<rparr>
     \<lparr>rp_commitments = map (enc_point E) (fee_range_points S R F y x lo hi f flo fhi d),
       rp_bit_lengths = [64, 16, 32, 16, 16, 16, 32, 64]\<rparr> rate m =
   Ok \<lparr>fp_ciphertext_lo = glo, fp_ciphertext_hi = ghi, fp_source = kp, fp_destination = dest, fp_auditor = a,
       fp_withdraw_withheld_authority = wwa, fp_new_source_ciphertext = new_ct,
       fp_fee_ciphertext_lo = enc_grouped2 E (encrypt_with S [dest, wwa] flo (opening_fee_lo F)),
       fp_fee_ciphertext_hi = enc_grouped2 E (encrypt_with S [dest, wwa] fhi (opening_fee_hi F))\<rparr>"
proof -
  note E = sdk_behavesD(1) [OF B]
  let ?ra = "opening_lo R + scale 65536 (opening_hi R)" and ?rf = "opening_fee_lo F + scale 65536 (opening_fee_hi F)"
  have d: "d \<le> MAX_FEE_BASIS_POINTS_SUB_ONE" using c(2) by (simp add: MAX_FEE_BASIS_POINTS_SUB_ONE_def word_le_nat_alt)
  have g9: "multiply_ristretto (zk_curve zk) (u64_to_scalar 9999) G_POINT = Some (enc_point E (pedersen_with S MAX_FEE_BASIS_POINTS_SUB_ONE 0))"
    using point_operations(4) [OF E, of 9999] by (simp add: pedersen_zero [OF B] MAX_FEE_BASIS_POINTS_SUB_ONE_def)
  have sc: "unat (u64_to_scalar 10000) < 2 ^ 64" "unat (u16_to_scalar rate) < 2 ^ 64"
    using unat_less [of rate] by simp_all
  show ?thesis
    unfolding verify_and_extract_transfer_with_fee_def verify_delta_commitment_def Let_def
    by (simp add: g encrypted_fee_commitment [OF B] g9 point_operations(2) [OF E] lo_hi_operations(4) [OF E]
        pedersen_combine [OF B s(1)] pedersen_combine [OF B s(2)] pedersen_diff [OF B d, simplified]
        pedersen_diff [OF B c(1)] zip_all_eq_def fee_range_points_def point_operations(3) [OF E sc(1)] point_operations(3) [OF E sc(2)])
qed

text \<open>
  With a fee of at most 10000 basis points, the same holds of a transfer with fee: the five proofs can be made for
  any amount of at most 48 bits within the balance, the program accepts them with the fee parameters of the mint,
  debiting the source leaves an encryption of the rest, and the fee encrypted for the destination and for the
  withdraw authority is the one the interface calculates.
\<close>

lemma transfer_with_fee_proofs_accepted:
  fixes S :: "('g::ab_group_add, 'o::ab_group_add, 'c::ab_group_add, 'k) ProofSdk" and FO :: "'o FeeOpenings"
  assumes "sdk_behaves zk S E secret"
    and "cta_available_balance e = enc_ciphertext E available" "cta_elgamal_pubkey e = keypair_pubkey S k"
    and "plain E (secret k) available (unat balance)"
    and "ae_decrypt S aes_key (cta_decryptable_available_balance e) = Some balance"
    and "valid_as_source e = Ok ()" "amount \<le> balance" "unat amount < 2 ^ 48"
    and "tf_transfer_fee_basis_points F \<le> MAX_FEE_BASIS_POINTS"
    and "a = (case auditor of Some a \<Rightarrow> a | None \<Rightarrow> 0)"
  shows "\<exists>p lo hi flo fhi fee new. transfer_with_fee_split_proof_data zk S R FO available (cta_decryptable_available_balance e) amount k
      aes_key dest auditor wwa (tf_transfer_fee_basis_points F) (tf_maximum_fee F) = Ok p \<and>
    verify_and_extract_transfer_with_fee zk (context_data (wf_equality_proof_data p))
      (context_data (va_proof_data (wf_amount_validity_proof_data p))) (context_data (wf_percentage_proof_data p))
      (context_data (wf_fee_validity_proof_data p)) (context_data (wf_range_proof_data p))
      (tf_transfer_fee_basis_points F) (tf_maximum_fee F) =
      Ok \<lparr>fp_ciphertext_lo = enc_grouped3 E (encrypt_with S [keypair_pubkey S k, dest, a] lo (opening_lo R)), fp_ciphertext_hi = enc_grouped3 E (encrypt_with S [keypair_pubkey S k, dest, a] hi (opening_hi R)),
          fp_source = keypair_pubkey S k, fp_destination = dest, fp_auditor = a, fp_withdraw_withheld_authority = wwa,
          fp_new_source_ciphertext = new,
          fp_fee_ciphertext_lo = enc_grouped2 E (encrypt_with S [dest, wwa] flo (opening_fee_lo FO)),
          fp_fee_ciphertext_hi = enc_grouped2 E (encrypt_with S [dest, wwa] fhi (opening_fee_hi FO))\<rparr> \<and>
    check_auditor zk (enc_grouped3 E (encrypt_with S [keypair_pubkey S k, dest, a] lo (opening_lo R))) (enc_grouped3 E (encrypt_with S [keypair_pubkey S k, dest, a] hi (opening_hi R)))
      (va_ciphertext_lo (wf_amount_validity_proof_data p)) (va_ciphertext_hi (wf_amount_validity_proof_data p)) = Ok () \<and>
    debit_source zk (keypair_pubkey S k) (enc_grouped3 E (encrypt_with S [keypair_pubkey S k, dest, a] lo (opening_lo R))) (enc_grouped3 E (encrypt_with S [keypair_pubkey S k, dest, a] hi (opening_hi R))) new z e =
      Ok (e\<lparr>cta_available_balance := new, cta_decryptable_available_balance := z\<rparr>) \<and>
    holds E (secret k) new (unat (balance - amount)) \<and>
    unat lo < 2 ^ 16 \<and> unat hi < 2 ^ 32 \<and> unat amount = unat lo + 65536 * unat hi \<and>
    calculate_fee F amount = Some fee \<and> try_split_u64 fee FEE_AMOUNT_LO_BITS = Some (flo, fhi)"
proof -
  note B = assms(1) and E = sdk_behavesD(1) [OF assms(1)]
  let ?rate = "tf_transfer_fee_basis_points F" and ?m = "tf_maximum_fee F"
  let ?ks = "[keypair_pubkey S k, dest, a]"
  obtain lo hi clo chi q where h:
    "try_split_u64 amount TRANSFER_AMOUNT_LO_BITS = Some (lo, hi)"
    "to_elgamal_ciphertext S (encrypt_with S ?ks lo (opening_lo R)) 0 = Some clo"
    "to_elgamal_ciphertext S (encrypt_with S ?ks hi (opening_hi R)) 0 = Some chi"
    and m: "split_made zk S E R k (available - (clo + scale 65536 chi)) (balance - amount) ?ks lo hi q"
    and x: "\<exists>clo' chi'. zk_extract_ciphertext3 zk (enc_grouped3 E (encrypt_with S ?ks lo (opening_lo R))) 0 = Some clo' \<and>
       zk_extract_ciphertext3 zk (enc_grouped3 E (encrypt_with S ?ks hi (opening_hi R))) 0 = Some chi' \<and>
       subtract_with_lo_hi (zk_curve zk) (enc_ciphertext E available) clo' chi' =
         Some (enc_ciphertext E (available - (clo + scale 65536 chi)))"
    and o: "holds E (secret k) (enc_ciphertext E (available - (clo + scale 65536 chi))) (unat (balance - amount))"
    and s: "unat lo < 2 ^ 16" "unat hi < 2 ^ 32" "unat amount = unat lo + 65536 * unat hi"
    by (rule debit_made [OF B assms(4,7,8) refl])
  have rate: "unat ?rate \<le> 10000" using assms(9) by (simp add: MAX_FEE_BASIS_POINTS_def word_le_nat_alt)
  note m = m [unfolded split_made_def Let_def, simplified]
  have g: "fst (encrypt_with S ?ks lo (opening_lo R)) = pedersen_with S lo (opening_lo R)"
    "fst (encrypt_with S ?ks hi (opening_hi R)) = pedersen_with S hi (opening_hi R)" using m by simp_all
  obtain pc fv rg f flo fhi d where fp:
    "fee_split_proof_data S R FO (encrypt_with S ?ks lo (opening_lo R)) (encrypt_with S ?ks hi (opening_hi R)) (lo, hi)
       amount (balance - amount) dest wwa ?rate ?m = Ok (pc, fv, rg)"
    "f \<le> amount" "unat f = min ((unat amount * unat ?rate + 9999) div 10000) (unat ?m)" "unat f = unat flo + 65536 * unat fhi" "try_split_u64 f FEE_AMOUNT_LO_BITS = Some (flo, fhi)"
    "context_data pc = \<lparr>pw_percentage_commitment = enc_point E (pedersen_with S f (opening_fee_lo FO + scale 65536 (opening_fee_hi FO))),
       pw_delta_commitment = enc_point E (scale 10000 (pedersen_with S f (opening_fee_lo FO + scale 65536 (opening_fee_hi FO))) -
         scale (unat ?rate) (pedersen_with S amount (opening_lo R + scale 65536 (opening_hi R)))),
       pw_claimed_commitment = enc_point E (pedersen_with S d (opening_claimed FO)), pw_max_value = ?m\<rparr>"
    "context_data fv = \<lparr>v2_first_pubkey = dest, v2_second_pubkey = wwa,
       v2_grouped_ciphertext_lo = enc_grouped2 E (encrypt_with S [dest, wwa] flo (opening_fee_lo FO)),
       v2_grouped_ciphertext_hi = enc_grouped2 E (encrypt_with S [dest, wwa] fhi (opening_fee_hi FO))\<rparr>"
    "context_data rg = \<lparr>rp_commitments = map (enc_point E) (fee_range_points S R FO (balance - amount) amount lo hi f flo fhi d),
       rp_bit_lengths = [64, 16, 32, 16, 16, 16, 32, 64]\<rparr>" "unat d < 10000"
    by (rule fee_proofs_made [OF B s assms(8) rate g])
  define p where "p = \<lparr>wf_equality_proof_data = sp_equality_proof_data q, wf_amount_validity_proof_data = sp_validity_proof_data q,
    wf_percentage_proof_data = pc, wf_fee_validity_proof_data = fv, wf_range_proof_data = rg\<rparr>"
  define ctx where "ctx = \<lparr>fp_ciphertext_lo = enc_grouped3 E (encrypt_with S ?ks lo (opening_lo R)),
    fp_ciphertext_hi = enc_grouped3 E (encrypt_with S ?ks hi (opening_hi R)), fp_source = keypair_pubkey S k,
    fp_destination = dest, fp_auditor = a, fp_withdraw_withheld_authority = wwa,
    fp_new_source_ciphertext = enc_ciphertext E (available - (clo + scale 65536 chi)),
    fp_fee_ciphertext_lo = enc_grouped2 E (encrypt_with S [dest, wwa] flo (opening_fee_lo FO)),
    fp_fee_ciphertext_hi = enc_grouped2 E (encrypt_with S [dest, wwa] fhi (opening_fee_hi FO))\<rparr>"
  have "transfer_with_fee_split_proof_data zk S R FO available (cta_decryptable_available_balance e) amount k
      aes_key dest auditor wwa ?rate ?m = Ok p"
    using assms(7) m fp(1) by (simp add: transfer_with_fee_split_proof_data_def Let_def assms(10) [symmetric] h assms(5)
        checked_sub_def unwrap_def inner_proof_def p_def)
  moreover have "verify_and_extract_transfer_with_fee zk (context_data (wf_equality_proof_data p))
      (context_data (va_proof_data (wf_amount_validity_proof_data p))) (context_data (wf_percentage_proof_data p))
      (context_data (wf_fee_validity_proof_data p)) (context_data (wf_range_proof_data p)) ?rate ?m = Ok ctx"
    using m by (simp add: p_def ctx_def fp(6-8) fee_contexts_accepted [OF B s(3) fp(4,2,9)])
  moreover have "debit_source zk (fp_source ctx) (fp_ciphertext_lo ctx) (fp_ciphertext_hi ctx) (fp_new_source_ciphertext ctx) z e =
      Ok (e\<lparr>cta_available_balance := fp_new_source_ciphertext ctx, cta_decryptable_available_balance := z\<rparr>)"
    using x by (auto simp: debit_source_def assms(2,3,6) ctx_def try_extract_ciphertext3_def)
  moreover have "calculate_fee F amount = Some f"
    using calculate_fee_Some [OF assms(9), of amount] fp(3) by (auto simp: fee_spec_def word_unat_eq_iff)
  ultimately show ?thesis using o m s fp(5) unfolding ctx_def
    by (intro exI [of _ p] exI [of _ lo] exI [of _ hi] exI [of _ flo] exI [of _ fhi] exI [of _ f]
          exI [of _ "enc_ciphertext E (available - (clo + scale 65536 chi))"]) (simp add: p_def)
qed

end
