(* ===== verification/Account_Info.thy ===== *)
theory Account_Info
  imports Proof_Generation
begin

text \<open>
  What a client reads from the confidential extensions and computes with its keys
  (src/program/src/extension/confidential_transfer/account_info.rs, confidential_transfer_fee/account_info.rs and
  confidential_mint_burn/account_info.rs): decrypted balances, new decryptable balances and the proofs of each
  instruction.  The part of the SDK these functions call beyond the generation of proofs is the record
  \<open>ClientSdk\<close>.
\<close>

type_synonym nonce = "96 word"

record ('g, 'o, 'c, 'k, 's) ClientSdk =
  proof_sdk :: "('g, 'o, 'c, 'k) ProofSdk"
  keypair_secret :: "'k \<Rightarrow> 's"
  elgamal_try_from :: "ciphertext \<Rightarrow> 'c option"
  ae_valid :: "ae_ciphertext \<Rightarrow> bool"
  ae_encrypt :: "aes_key \<Rightarrow> nonce \<Rightarrow> u64 \<Rightarrow> ae_ciphertext"
  decrypt_u32 :: "'s \<Rightarrow> 'c \<Rightarrow> u64 option"
  pubkey_encrypt_with :: "pubkey \<Rightarrow> u64 \<Rightarrow> 'o \<Rightarrow> 'c"
  new_zero_ciphertext :: "'k \<Rightarrow> 'c \<Rightarrow> ProofGenerationError + ZeroCiphertextProofContext ProofData"
  new_ciphertext_equality :: "'k \<Rightarrow> pubkey \<Rightarrow> 'c \<Rightarrow> 'c \<Rightarrow> 'o \<Rightarrow> u64 \<Rightarrow>
    ProofGenerationError + CiphertextCiphertextEqualityProofContext ProofData"

section \<open>Errors\<close>

text \<open>The result of a client function; \<open>ClientPanicked\<close> is the panic of an \<open>unwrap\<close>.\<close>

datatype ClientError = ClientError TokenError | ClientPanicked

type_synonym 'a client = "ClientError + 'a"

definition token_error_of_generation :: "TokenProofGenerationError \<Rightarrow> ClientError" where
  "token_error_of_generation e = (case e of
     TokenProofGenerationError.ProofGeneration _ \<Rightarrow> ClientError TokenError.ProofGeneration
   | NotEnoughFunds \<Rightarrow> ClientError InsufficientFunds
   | IllegalAmountBitLength \<Rightarrow> ClientError IllegalBitLength
   | TokenProofGenerationError.FeeCalculation \<Rightarrow> ClientError TokenError.FeeCalculation
   | TokenProofGenerationError.CiphertextExtraction \<Rightarrow> ClientError MalformedCiphertext
   | GenerationPanicked \<Rightarrow> ClientPanicked)"

definition or_error :: "'a option \<Rightarrow> TokenError \<Rightarrow> 'a client" where
  "or_error v e = ok_or v (ClientError e)"

definition ciphertext_from :: "('g, 'o, 'c, 'k, 's) ClientSdk \<Rightarrow> ciphertext \<Rightarrow> 'c client" where
  "ciphertext_from C c = or_error (elgamal_try_from C c) MalformedCiphertext"

text \<open>An \<open>AeCiphertext\<close> is represented by its bytes.\<close>

definition ae_from :: "('g, 'o, 'c, 'k, 's) ClientSdk \<Rightarrow> ae_ciphertext \<Rightarrow> ae_ciphertext client" where
  "ae_from C c = (if ae_valid C c then Ok c else Err (ClientError MalformedCiphertext))"

section \<open>Decrypting\<close>

definition PENDING_BALANCE_LO_BIT_LENGTH :: nat where "PENDING_BALANCE_LO_BIT_LENGTH = 16"

definition combine_balances :: "u64 \<Rightarrow> u64 \<Rightarrow> u64 option" where
  "combine_balances balance_lo balance_hi =
     Option.bind (checked_shl balance_hi PENDING_BALANCE_LO_BIT_LENGTH) (\<lambda>x. checked_add x balance_lo)"

definition decrypted_pending_balance :: "('g, 'o, 'c, 'k, 's) ClientSdk \<Rightarrow> 's \<Rightarrow> ciphertext \<Rightarrow> u64 client" where
  "decrypted_pending_balance C elgamal_secret_key pending_balance =
     and_then (ciphertext_from C pending_balance) (\<lambda>pending_balance.
     or_error (decrypt_u32 C elgamal_secret_key pending_balance) AccountDecryption)"

definition decrypted_available_balance :: "('g, 'o, 'c, 'k, 's) ClientSdk \<Rightarrow> aes_key \<Rightarrow> ae_ciphertext \<Rightarrow> u64 client" where
  "decrypted_available_balance C aes_key decryptable_available_balance =
     and_then (ae_from C decryptable_available_balance) (\<lambda>decryptable_available_balance.
     or_error (ae_decrypt (proof_sdk C) aes_key decryptable_available_balance) AccountDecryption)"

section \<open>Emptying an account\<close>

record EmptyAccountAccountInfo =
  ea_available_balance :: ciphertext

definition empty_account_info :: "ConfidentialTransferAccount \<Rightarrow> EmptyAccountAccountInfo" where
  "empty_account_info account = \<lparr>ea_available_balance = cta_available_balance account\<rparr>"

definition empty_account_proof_data ::
  "('g, 'o, 'c, 'k, 's) ClientSdk \<Rightarrow> EmptyAccountAccountInfo \<Rightarrow> 'k \<Rightarrow> ZeroCiphertextProofContext ProofData client" where
  "empty_account_proof_data C self elgamal_keypair =
     and_then (ciphertext_from C (ea_available_balance self)) (\<lambda>available_balance.
     map_err (\<lambda>_. ClientError TokenError.ProofGeneration) (new_zero_ciphertext C elgamal_keypair available_balance))"

section \<open>Applying the pending balance\<close>

record ApplyPendingBalanceAccountInfo =
  ap_pending_balance_credit_counter :: u64
  ap_pending_balance_lo :: ciphertext
  ap_pending_balance_hi :: ciphertext
  ap_decryptable_available_balance :: ae_ciphertext

definition apply_pending_info :: "ConfidentialTransferAccount \<Rightarrow> ApplyPendingBalanceAccountInfo" where
  "apply_pending_info account = \<lparr>ap_pending_balance_credit_counter = cta_pending_balance_credit_counter account,
     ap_pending_balance_lo = cta_pending_balance_lo account, ap_pending_balance_hi = cta_pending_balance_hi account,
     ap_decryptable_available_balance = cta_decryptable_available_balance account\<rparr>"

definition get_pending_balance :: "('g, 'o, 'c, 'k, 's) ClientSdk \<Rightarrow> ApplyPendingBalanceAccountInfo \<Rightarrow> 's \<Rightarrow> u64 client" where
  "get_pending_balance C self elgamal_secret_key =
     and_then (decrypted_pending_balance C elgamal_secret_key (ap_pending_balance_lo self)) (\<lambda>decrypted_lo.
     and_then (decrypted_pending_balance C elgamal_secret_key (ap_pending_balance_hi self)) (\<lambda>decrypted_hi.
     or_error (combine_balances decrypted_lo decrypted_hi) AccountDecryption))"

definition new_decryptable_applied ::
  "('g, 'o, 'c, 'k, 's) ClientSdk \<Rightarrow> nonce \<Rightarrow> ApplyPendingBalanceAccountInfo \<Rightarrow> 's \<Rightarrow> aes_key \<Rightarrow> ae_ciphertext client" where
  "new_decryptable_applied C nonce self elgamal_secret_key aes_key =
     and_then (decrypted_pending_balance C elgamal_secret_key (ap_pending_balance_lo self)) (\<lambda>decrypted_pending_balance_lo.
     and_then (decrypted_pending_balance C elgamal_secret_key (ap_pending_balance_hi self)) (\<lambda>decrypted_pending_balance_hi.
     and_then (or_error (combine_balances decrypted_pending_balance_lo decrypted_pending_balance_hi) AccountDecryption)
       (\<lambda>pending_balance.
     and_then (decrypted_available_balance C aes_key (ap_decryptable_available_balance self)) (\<lambda>current_available_balance.
     and_then (ok_or (checked_add current_available_balance pending_balance) ClientPanicked)
       (\<lambda>new_decrypted_available_balance.
     Ok (ae_encrypt C aes_key nonce new_decrypted_available_balance))))))"

definition has_pending_balance :: "ApplyPendingBalanceAccountInfo \<Rightarrow> bool" where
  "has_pending_balance self \<longleftrightarrow> ap_pending_balance_credit_counter self > 0"

definition get_available_balance :: "('g, 'o, 'c, 'k, 's) ClientSdk \<Rightarrow> ApplyPendingBalanceAccountInfo \<Rightarrow> aes_key \<Rightarrow> u64 client" where
  "get_available_balance C self aes_key = decrypted_available_balance C aes_key (ap_decryptable_available_balance self)"

definition get_total_balance ::
  "('g, 'o, 'c, 'k, 's) ClientSdk \<Rightarrow> ApplyPendingBalanceAccountInfo \<Rightarrow> 's \<Rightarrow> aes_key \<Rightarrow> u64 client" where
  "get_total_balance C self elgamal_secret_key aes_key =
     and_then (get_pending_balance C self elgamal_secret_key) (\<lambda>pending.
     and_then (get_available_balance C self aes_key) (\<lambda>available.
     or_error (checked_add pending available) Overflow))"

section \<open>Withdrawals and transfers\<close>

text \<open>\<open>WithdrawAccountInfo\<close>, \<open>TransferAccountInfo\<close> and \<open>BurnAccountInfo\<close> are one struct with one constructor.\<close>

record BalanceAccountInfo =
  bi_available_balance :: ciphertext
  bi_decryptable_available_balance :: ae_ciphertext

definition balance_info :: "ConfidentialTransferAccount \<Rightarrow> BalanceAccountInfo" where
  "balance_info account = \<lparr>bi_available_balance = cta_available_balance account,
     bi_decryptable_available_balance = cta_decryptable_available_balance account\<rparr>"

definition withdraw_info_proof_data ::
  "('g, 'o, 'c::ab_group_add, 'k, 's) ClientSdk \<Rightarrow> 'o \<Rightarrow> BalanceAccountInfo \<Rightarrow> u64 \<Rightarrow> 'k \<Rightarrow> aes_key \<Rightarrow> WithdrawProofData client" where
  "withdraw_info_proof_data C opening self withdraw_amount elgamal_keypair aes_key =
     and_then (ciphertext_from C (bi_available_balance self)) (\<lambda>current_available_balance.
     and_then (decrypted_available_balance C aes_key (bi_decryptable_available_balance self))
       (\<lambda>current_decrypted_available_balance.
     map_err token_error_of_generation (withdraw_proof_data (proof_sdk C) opening current_available_balance
       current_decrypted_available_balance withdraw_amount elgamal_keypair)))"

text \<open>The new decryptable balance; a withdrawal or a transfer fails with \<open>InsufficientFunds\<close>, a burn with \<open>Overflow\<close>.\<close>

definition new_decryptable_debited ::
  "('g, 'o, 'c, 'k, 's) ClientSdk \<Rightarrow> nonce \<Rightarrow> TokenError \<Rightarrow> BalanceAccountInfo \<Rightarrow> u64 \<Rightarrow> aes_key \<Rightarrow> ae_ciphertext client" where
  "new_decryptable_debited C nonce underflow self amount aes_key =
     and_then (decrypted_available_balance C aes_key (bi_decryptable_available_balance self))
       (\<lambda>current_decrypted_available_balance.
     and_then (or_error (checked_sub current_decrypted_available_balance amount) underflow)
       (\<lambda>new_decrypted_available_balance.
     Ok (ae_encrypt C aes_key nonce new_decrypted_available_balance)))"

definition transfer_info_proof_data ::
  "ZkSdk \<Rightarrow> ('g, 'o, 'c::ab_group_add, 'k, 's) ClientSdk \<Rightarrow> 'o SplitOpenings \<Rightarrow> BalanceAccountInfo \<Rightarrow> u64 \<Rightarrow> 'k \<Rightarrow> aes_key \<Rightarrow>
     pubkey \<Rightarrow> pubkey option \<Rightarrow> SplitProofData client" where
  "transfer_info_proof_data zk C R self transfer_amount source_elgamal_keypair aes_key destination_elgamal_pubkey auditor =
     and_then (ciphertext_from C (bi_available_balance self)) (\<lambda>current_available_balance.
     and_then (ae_from C (bi_decryptable_available_balance self)) (\<lambda>current_decryptable_available_balance.
     map_err token_error_of_generation (transfer_split_proof_data zk (proof_sdk C) R current_available_balance
       current_decryptable_available_balance transfer_amount source_elgamal_keypair aes_key
       destination_elgamal_pubkey auditor)))"

definition transfer_with_fee_info_proof_data ::
  "ZkSdk \<Rightarrow> ('g::ab_group_add, 'o::ab_group_add, 'c::ab_group_add, 'k, 's) ClientSdk \<Rightarrow> 'o SplitOpenings \<Rightarrow> 'o FeeOpenings \<Rightarrow>
     BalanceAccountInfo \<Rightarrow> u64 \<Rightarrow> 'k \<Rightarrow> aes_key \<Rightarrow> pubkey \<Rightarrow> pubkey option \<Rightarrow> pubkey \<Rightarrow> u16 \<Rightarrow> u64 \<Rightarrow>
     TransferWithFeeProofData client" where
  "transfer_with_fee_info_proof_data zk C R F self transfer_amount source_elgamal_keypair aes_key
       destination_elgamal_pubkey auditor withdraw_withheld_authority_elgamal_pubkey fee_rate_basis_points maximum_fee =
     and_then (ciphertext_from C (bi_available_balance self)) (\<lambda>current_available_balance.
     and_then (ae_from C (bi_decryptable_available_balance self)) (\<lambda>current_decryptable_available_balance.
     map_err token_error_of_generation (transfer_with_fee_split_proof_data zk (proof_sdk C) R F
       current_available_balance current_decryptable_available_balance transfer_amount source_elgamal_keypair
       aes_key destination_elgamal_pubkey auditor withdraw_withheld_authority_elgamal_pubkey
       fee_rate_basis_points maximum_fee)))"

definition burn_info_proof_data ::
  "ZkSdk \<Rightarrow> ('g, 'o, 'c::ab_group_add, 'k, 's) ClientSdk \<Rightarrow> 'o SplitOpenings \<Rightarrow> BalanceAccountInfo \<Rightarrow> u64 \<Rightarrow> 'k \<Rightarrow> aes_key \<Rightarrow>
     pubkey \<Rightarrow> pubkey option \<Rightarrow> SplitProofData client" where
  "burn_info_proof_data zk C R self burn_amount source_elgamal_keypair aes_key supply_elgamal_pubkey auditor =
     and_then (ciphertext_from C (bi_available_balance self)) (\<lambda>current_available_balance_ciphertext.
     and_then (ae_from C (bi_decryptable_available_balance self)) (\<lambda>current_decryptable_available_balance.
     map_err token_error_of_generation (burn_split_proof_data zk (proof_sdk C) R current_available_balance_ciphertext
       current_decryptable_available_balance burn_amount source_elgamal_keypair aes_key
       supply_elgamal_pubkey auditor)))"

section \<open>The supply of a mint\<close>

record SupplyAccountInfo =
  sa_current_supply :: ciphertext
  sa_decryptable_supply :: ae_ciphertext
  sa_supply_elgamal_pubkey :: pubkey

definition supply_info :: "ConfidentialMintBurn \<Rightarrow> SupplyAccountInfo" where
  "supply_info mint_burn = \<lparr>sa_current_supply = cmb_confidential_supply mint_burn,
     sa_decryptable_supply = cmb_decryptable_supply mint_burn,
     sa_supply_elgamal_pubkey = cmb_supply_elgamal_pubkey mint_burn\<rparr>"

text \<open>The opening is the one \<open>ElGamalPubkey::encrypt\<close> draws.\<close>

definition decrypted_current_supply ::
  "('g, 'o, 'c::ab_group_add, 'k, 's) ClientSdk \<Rightarrow> 'o \<Rightarrow> SupplyAccountInfo \<Rightarrow> aes_key \<Rightarrow> 'k \<Rightarrow> u64 client" where
  "decrypted_current_supply C opening self aes_key elgamal_keypair =
     and_then (ae_from C (sa_decryptable_supply self)) (\<lambda>decryptable_supply.
     and_then (or_error (ae_decrypt (proof_sdk C) aes_key decryptable_supply) AccountDecryption)
       (\<lambda>current_decryptable_supply.
     let decryptable_supply_ciphertext =
       pubkey_encrypt_with C (keypair_pubkey (proof_sdk C) elgamal_keypair) current_decryptable_supply opening
     in and_then (ciphertext_from C (sa_current_supply self)) (\<lambda>current_supply.
     let supply_delta_ciphertext = decryptable_supply_ciphertext - current_supply
     in and_then (or_error (decrypt_u32 C (keypair_secret C elgamal_keypair) supply_delta_ciphertext) AccountDecryption)
       (\<lambda>decryptable_to_current_diff.
     or_error (checked_sub current_decryptable_supply decryptable_to_current_diff) Overflow))))"

definition rotate_supply_proof_data ::
  "('g, 'o, 'c::ab_group_add, 'k, 's) ClientSdk \<Rightarrow> 'o \<Rightarrow> 'o \<Rightarrow> SupplyAccountInfo \<Rightarrow> 'k \<Rightarrow> pubkey \<Rightarrow> aes_key \<Rightarrow>
     CiphertextCiphertextEqualityProofContext ProofData client" where
  "rotate_supply_proof_data C opening new_supply_opening self current_supply_elgamal_keypair new_supply_elgamal_pubkey
       aes_key =
     and_then (decrypted_current_supply C opening self aes_key current_supply_elgamal_keypair) (\<lambda>current_supply.
     let new_supply_ciphertext = pubkey_encrypt_with C new_supply_elgamal_pubkey current_supply new_supply_opening
     in and_then (ciphertext_from C (sa_current_supply self)) (\<lambda>current_supply_ciphertext.
     map_err (\<lambda>_. ClientError TokenError.ProofGeneration)
       (new_ciphertext_equality C current_supply_elgamal_keypair new_supply_elgamal_pubkey current_supply_ciphertext
         new_supply_ciphertext new_supply_opening current_supply)))"

definition mint_info_proof_data ::
  "ZkSdk \<Rightarrow> ('g, 'o, 'c::ab_group_add, 'k, 's) ClientSdk \<Rightarrow> 'o \<Rightarrow> 'o SplitOpenings \<Rightarrow> SupplyAccountInfo \<Rightarrow> u64 \<Rightarrow> 'k \<Rightarrow> aes_key \<Rightarrow>
     pubkey \<Rightarrow> pubkey option \<Rightarrow> SplitProofData client" where
  "mint_info_proof_data zk C opening R self mint_amount supply_elgamal_keypair aes_key destination_elgamal_pubkey auditor =
     and_then (ciphertext_from C (sa_current_supply self)) (\<lambda>current_supply_ciphertext.
     and_then (decrypted_current_supply C opening self aes_key supply_elgamal_keypair) (\<lambda>current_supply.
     map_err token_error_of_generation (mint_split_proof_data zk (proof_sdk C) R current_supply_ciphertext mint_amount
       current_supply supply_elgamal_keypair destination_elgamal_pubkey auditor)))"

definition new_decryptable_supply ::
  "('g, 'o, 'c::ab_group_add, 'k, 's) ClientSdk \<Rightarrow> 'o \<Rightarrow> nonce \<Rightarrow> SupplyAccountInfo \<Rightarrow> u64 \<Rightarrow> 'k \<Rightarrow> aes_key \<Rightarrow> ae_ciphertext client" where
  "new_decryptable_supply C opening nonce self mint_amount elgamal_keypair aes_key =
     and_then (decrypted_current_supply C opening self aes_key elgamal_keypair) (\<lambda>current_decrypted_supply.
     and_then (or_error (checked_add current_decrypted_supply mint_amount) Overflow) (\<lambda>new_decrypted_available_balance.
     Ok (ae_encrypt C aes_key nonce new_decrypted_available_balance)))"

section \<open>Withheld fees\<close>

definition withheld_tokens_proof_data ::
  "('g, 'o, 'c, 'k, 's) ClientSdk \<Rightarrow> 'o \<Rightarrow> ciphertext \<Rightarrow> 'k \<Rightarrow> pubkey \<Rightarrow>
     CiphertextCiphertextEqualityProofContext ProofData client" where
  "withheld_tokens_proof_data C destination_opening withheld_amount withdraw_withheld_authority_elgamal_keypair
       destination_elgamal_pubkey =
     and_then (ciphertext_from C withheld_amount) (\<lambda>withheld_amount_in_mint.
     and_then (or_error (decrypt_u32 C (keypair_secret C withdraw_withheld_authority_elgamal_keypair) withheld_amount_in_mint)
       AccountDecryption) (\<lambda>decrypted_withheld_amount_in_mint.
     let destination_ciphertext =
       pubkey_encrypt_with C destination_elgamal_pubkey decrypted_withheld_amount_in_mint destination_opening
     in map_err (\<lambda>_. ClientError TokenError.ProofGeneration)
       (new_ciphertext_equality C withdraw_withheld_authority_elgamal_keypair destination_elgamal_pubkey
         withheld_amount_in_mint destination_ciphertext destination_opening decrypted_withheld_amount_in_mint)))"

end
