(* ===== verification/Client_Consistency.thy ===== *)
theory Client_Consistency
  imports Proof_Acceptance Account_Info
begin

text \<open>
  The client functions of the confidential extensions and the handlers of the program together: what a client
  computes from the state of its account (the decrypted balances, the proofs, the new decryptable balance) is
  accepted by the program and describes the state the program leaves.
\<close>

section \<open>What the client relies on\<close>

definition client_decrypts ::
  "('g::ab_group_add, 'o::ab_group_add, 'c::ab_group_add, 'k, 's) ClientSdk \<Rightarrow> ('g, 'c) Encodings \<Rightarrow> ('k \<Rightarrow> nat) \<Rightarrow> bool" where
  "client_decrypts C E secret \<longleftrightarrow>
     (\<forall>c. elgamal_try_from C (enc_ciphertext E c) = Some c) \<and>
     (\<forall>P. \<exists>c. ciphertext_parts E c = (P, 0)) \<and>
     (\<forall>key n x. ae_valid C (ae_encrypt C key n x) \<and> ae_decrypt (proof_sdk C) key (ae_encrypt C key n x) = Some x) \<and>
     (\<forall>k c x. plain E (secret k) c (unat x) \<and> unat x < 2 ^ 32 \<longrightarrow> decrypt_u32 C (keypair_secret C k) c = Some x) \<and>
     (\<forall>k x r. plain E (secret k) (pubkey_encrypt_with C (keypair_pubkey (proof_sdk C) k) x r) (unat x))"

definition client_behaves ::
  "ZkSdk \<Rightarrow> ('g::ab_group_add, 'o::ab_group_add, 'c::ab_group_add, 'k, 's) ClientSdk \<Rightarrow> ('g, 'c) Encodings \<Rightarrow> ('k \<Rightarrow> nat) \<Rightarrow> bool" where
  "client_behaves zk C E secret \<longleftrightarrow> sdk_behaves zk (proof_sdk C) E secret \<and> client_decrypts C E secret"

lemma client_behavesD:
  assumes "client_behaves zk C E secret"
  shows "sdk_behaves zk (proof_sdk C) E secret" "sdk_encodes zk E"
    and "ciphertext_from C (enc_ciphertext E c) = Ok c"
    and "ae_valid C (ae_encrypt C key n x)" "ae_decrypt (proof_sdk C) key (ae_encrypt C key n x) = Some x"
    and "plain E (secret k) c (unat x) \<Longrightarrow> unat x < 2 ^ 32 \<Longrightarrow> decrypt_u32 C (keypair_secret C k) c = Some x"
    and "plain E (secret k) (pubkey_encrypt_with C (keypair_pubkey (proof_sdk C) k) x r) (unat x)"
  using assms by (simp_all add: client_behaves_def client_decrypts_def ciphertext_from_def or_error_def sdk_behaves_def)

section \<open>Ciphertexts that hold amounts\<close>

lemma enc_point_zero: "sdk_encodes zk E \<Longrightarrow> enc_point E 0 = 0"
  using sdk_encodes_group [of zk E] sdk_encodes_point(2) [of zk E 0 0] by (simp add: ristretto_group_def)

lemma ristretto_zero: "ristretto_to_elgamal_ciphertext 0 0 = 0"
  by (simp add: ristretto_to_elgamal_ciphertext_def to_le_zero from_le_def)

text \<open>The all-zero ciphertext holds zero, for every key.\<close>

lemma holds_zero:
  assumes "client_behaves zk C E secret"
  shows "holds E s 0 0"
proof -
  note E = client_behavesD(2) [OF assms]
  obtain c where c: "ciphertext_parts E c = (0, 0)"
    using assms unfolding client_behaves_def client_decrypts_def by blast
  have "plain E s c 0" by (simp add: plain_def c amount_point_def)
  moreover have "enc_ciphertext E c = 0"
    by (simp add: enc_ciphertext_parts [OF E] c enc_parts_def enc_point_zero [OF E] ristretto_zero)
  ultimately show ?thesis using holdsI by metis
qed

lemma plain_add:
  assumes "sdk_encodes zk E" "plain E s c m" "plain E s d n"
  shows "plain E s (c + d) (m + n)"
  using credited_value [OF assms(1) assms(2) [unfolded plain_def], of d "fst (ciphertext_parts E d)" "snd (ciphertext_parts E d)" n]
    assms(3) by (simp add: plain_def)

lemma plain_diff:
  assumes "sdk_encodes zk E" "plain E s c (m + n)" "plain E s d m"
  shows "plain E s (c - d) n"
  using debited_value [OF assms(1) assms(2) [unfolded plain_def], of d "fst (ciphertext_parts E d)" "snd (ciphertext_parts E d)"]
    assms(3) by (simp add: plain_def)

lemma plain_scale:
  assumes "sdk_encodes zk E" "plain E s c n"
  shows "plain E s (scale m c) (m * n)"
proof -
  have "scale s (scale m (snd (ciphertext_parts E c))) = scale m (scale s (snd (ciphertext_parts E c)))"
    by (metis scale_mult mult.commute)
  then show ?thesis
    using assms(2) by (simp add: plain_def ciphertext_parts_linear(3) [OF assms(1)] flip: scale_point_diff amount_point_times)
qed

lemma enc_ciphertext_operations:
  assumes "sdk_encodes zk E"
  shows "ct_add (zk_curve zk) (enc_ciphertext E c) (enc_ciphertext E d) = Some (enc_ciphertext E (c + d))"
    and "ct_subtract (zk_curve zk) (enc_ciphertext E c) (enc_ciphertext E d) = Some (enc_ciphertext E (c - d))"
    and "add_with_lo_hi (zk_curve zk) (enc_ciphertext E c) (enc_ciphertext E d) (enc_ciphertext E f) =
      Some (enc_ciphertext E (c + (d + scale 65536 f)))"
  by (simp_all add: enc_ciphertext_parts [OF assms] ciphertext_operations [OF assms] lo_hi_operations [OF assms]
      ciphertext_parts_linear [OF assms])

lemma holds_add:
  assumes "sdk_encodes zk E" "holds E s a m" "holds E s b n"
  obtains c where "ct_add (zk_curve zk) a b = Some c" "holds E s c (m + n)"
  using assms(2,3) plain_add [OF assms(1)] enc_ciphertext_operations(1) [OF assms(1)]
  unfolding holds_def by metis

lemma holds_add_lo_hi:
  assumes "sdk_encodes zk E" "holds E s a m" "holds E s b n" "holds E s d p"
  obtains c where "add_with_lo_hi (zk_curve zk) a b d = Some c" "holds E s c (m + (n + 65536 * p))"
proof -
  obtain a' b' d' where h: "a = enc_ciphertext E a'" "plain E s a' m" "b = enc_ciphertext E b'" "plain E s b' n"
    "d = enc_ciphertext E d'" "plain E s d' p" using assms(2-4) unfolding holds_def by blast
  have "plain E s (a' + (b' + scale 65536 d')) (m + (n + 65536 * p))"
    using h by (intro plain_add [OF assms(1)] plain_scale [OF assms(1)])
  then show thesis using that enc_ciphertext_operations(3) [OF assms(1)] h(1,3,5) holdsI by metis
qed

section \<open>The client's view of an account\<close>

definition decodes :: "('g, 'o, 'c, 'k, 's) ClientSdk \<Rightarrow> aes_key \<Rightarrow> ae_ciphertext \<Rightarrow> nat \<Rightarrow> bool" where
  "decodes C key d n \<longleftrightarrow> ae_valid C d \<and> (\<exists>x. ae_decrypt (proof_sdk C) key d = Some x \<and> unat x = n)"

text \<open>
  The account belongs to the key pair \<open>k\<close>: its available ciphertext and the decryptable balance both say
  \<open>available\<close>, its pending ciphertexts hold \<open>lo\<close> and \<open>hi\<close>.
\<close>

definition client_view ::
  "('g::ab_group_add, 'o, 'c, 'k, 's) ClientSdk \<Rightarrow> ('g, 'c) Encodings \<Rightarrow> ('k \<Rightarrow> nat) \<Rightarrow> 'k \<Rightarrow> aes_key \<Rightarrow>
     ConfidentialTransferAccount \<Rightarrow> nat \<Rightarrow> nat \<Rightarrow> nat \<Rightarrow> bool" where
  "client_view C E secret k key e lo hi available \<longleftrightarrow>
     cta_elgamal_pubkey e = keypair_pubkey (proof_sdk C) k \<and>
     holds E (secret k) (cta_available_balance e) available \<and>
     decodes C key (cta_decryptable_available_balance e) available \<and>
     holds E (secret k) (cta_pending_balance_lo e) lo \<and> holds E (secret k) (cta_pending_balance_hi e) hi"

lemma decodes_encrypt: "client_behaves zk C E secret \<Longrightarrow> decodes C key (ae_encrypt C key n x) (unat x)"
  using client_behavesD(4,5) [of zk C E secret] by (auto simp: decodes_def)

lemma decodesD: "decodes C key d (unat x) \<Longrightarrow> decrypted_available_balance C key d = Ok x"
  by (auto simp: decodes_def decrypted_available_balance_def ae_from_def or_error_def word_unat_eq_iff)

lemma decodes_word:
  assumes "decodes C key d n"
  obtains x where "unat x = n" "decodes C key d (unat x)" "ae_valid C d" "ae_decrypt (proof_sdk C) key d = Some x"
  using assms that by (auto simp: decodes_def)

lemma decrypted_pending:
  assumes "client_behaves zk C E secret" "holds E (secret k) ct n" "n < 2 ^ 32"
  shows "decrypted_pending_balance C (keypair_secret C k) ct = Ok (of_nat n)"
proof -
  obtain c where c: "ct = enc_ciphertext E c" "plain E (secret k) c n" using assms(2) by (auto simp: holds_def)
  have n: "unat (of_nat n :: u64) = n" using assms(3) by (simp add: unat_of_nat_eq)
  show ?thesis
    using client_behavesD(6) [OF assms(1), of k c "of_nat n"] c(2) assms(3)
    by (simp add: decrypted_pending_balance_def c(1) client_behavesD(3) [OF assms(1)] n or_error_def)
qed

lemma combine_balances_Some:
  assumes "unat lo + 65536 * unat hi < 2 ^ 64"
  shows "combine_balances lo hi = Some (65536 * hi + lo)"
proof -
  have "unat (65536 * hi) = 65536 * unat hi" using assms by (simp add: unat_word_ariths)
  moreover have "push_bit 16 hi = 65536 * hi" by (simp add: push_bit_eq_mult mult.commute)
  ultimately show ?thesis using assms
    by (simp add: combine_balances_def PENDING_BALANCE_LO_BIT_LENGTH_def checked_shl_def checked_add_def)
qed

lemma combine_pending:
  assumes "lo < 2 ^ 32" "hi < 2 ^ 32"
  shows "combine_balances (of_nat lo) (of_nat hi) = Some (of_nat (lo + 65536 * hi))"
proof -
  have "unat (of_nat lo :: u64) = lo" "unat (of_nat hi :: u64) = hi" using assms by (simp_all add: unat_of_nat_eq)
  then show ?thesis using combine_balances_Some [of "of_nat lo" "of_nat hi"] assms by (simp add: add.commute)
qed

section \<open>Applying the pending balance\<close>

lemma decodes_Ok:
  assumes "decodes C key d n"
  shows "decrypted_available_balance C key d = Ok (of_nat n)" "n < 2 ^ 64" "ae_valid C d"
    "ae_decrypt (proof_sdk C) key d = Some (of_nat n)"
  using assms decodesD [of C key d] unat_less by (auto simp: decodes_def)

lemma view_decrypts:
  assumes "client_behaves zk C E secret" "client_view C E secret k key e lo hi available"
  shows "lo < 2 ^ 32 \<Longrightarrow> decrypted_pending_balance C (keypair_secret C k) (cta_pending_balance_lo e) = Ok (of_nat lo)"
    "hi < 2 ^ 32 \<Longrightarrow> decrypted_pending_balance C (keypair_secret C k) (cta_pending_balance_hi e) = Ok (of_nat hi)"
    "decrypted_available_balance C key (cta_decryptable_available_balance e) = Ok (of_nat available)" "available < 2 ^ 64"
    "ae_valid C (cta_decryptable_available_balance e)"
    "ae_decrypt (proof_sdk C) key (cta_decryptable_available_balance e) = Some (of_nat available)"
  using assms(2) decrypted_pending [OF assms(1), of k _ lo] decrypted_pending [OF assms(1), of k _ hi]
    decodes_Ok [of C key "cta_decryptable_available_balance e" available]
  unfolding client_view_def by blast+

lemma get_pending_balance_Ok:
  assumes "client_behaves zk C E secret" "client_view C E secret k key e lo hi available" "lo < 2 ^ 32" "hi < 2 ^ 32"
  shows "get_pending_balance C (apply_pending_info e) (keypair_secret C k) = Ok (of_nat (lo + 65536 * hi))"
  using view_decrypts(1,2) [OF assms(1,2)] assms(3,4) combine_pending [OF assms(3,4)]
  by (simp add: get_pending_balance_def apply_pending_info_def or_error_def)

lemma checked_add_of_nat:
  assumes "m + n < 2 ^ 64"
  shows "checked_add (of_nat m) (of_nat n :: u64) = Some (of_nat (m + n))"
proof -
  have "unat (of_nat m :: u64) = m" "unat (of_nat n :: u64) = n"
    using assms unat_of_nat_eq [of m, where 'a = 64] unat_of_nat_eq [of n, where 'a = 64] by simp_all
  then show ?thesis using assms by (simp add: checked_add_def)
qed

lemma get_total_balance_Ok:
  assumes "client_behaves zk C E secret" "client_view C E secret k key e lo hi available" "lo < 2 ^ 32" "hi < 2 ^ 32"
    and "available + (lo + 65536 * hi) < 2 ^ 64"
  shows "get_total_balance C (apply_pending_info e) (keypair_secret C k) key = Ok (of_nat (available + (lo + 65536 * hi)))"
proof -
  have s: "(lo + 65536 * hi) + available < 2 ^ 64" using assms(5) by simp
  have "get_available_balance C (apply_pending_info e) key = Ok (of_nat available)"
    using view_decrypts(3) [OF assms(1,2)] by (simp add: get_available_balance_def apply_pending_info_def)
  then show ?thesis
    unfolding get_total_balance_def get_pending_balance_Ok [OF assms(1-4)]
    by (simp only: and_then_simps or_error_def checked_add_of_nat [OF s] ok_or_simps add.commute [of available])
qed

text \<open>
  C35: applying the pending balance.  If the parts of the pending balance are below \<open>2 ^ 32\<close> and the total
  fits in 64 bits, the client computes a new decryptable balance without error or panic, the program accepts the
  instruction, and afterwards the available ciphertext and the decryptable balance both say the old total, nothing
  is pending, and the total the client reads is the same before and after.
\<close>

theorem apply_pending_consistent:
  assumes "client_behaves zk C E secret" "client_view C E secret k key e lo hi available" "lo < 2 ^ 32" "hi < 2 ^ 32"
    and "available + (lo + 65536 * hi) < 2 ^ 64"
  shows "\<exists>d e'. new_decryptable_applied C nonce (apply_pending_info e) (keypair_secret C k) key = Ok d \<and>
    apply_pending_balance (zk_curve zk) (ap_pending_balance_credit_counter (apply_pending_info e)) d e = Ok e' \<and>
    client_view C E secret k key e' 0 0 (available + (lo + 65536 * hi)) \<and>
    \<not> has_pending_balance (apply_pending_info e') \<and>
    get_total_balance C (apply_pending_info e) (keypair_secret C k) key =
      get_total_balance C (apply_pending_info e') (keypair_secret C k) key"
proof -
  note E = client_behavesD(2) [OF assms(1)]
  note v = assms(2) [unfolded client_view_def]
  let ?n = "available + (lo + 65536 * hi)"
  have n: "unat (of_nat ?n :: u64) = ?n" by (rule unat_of_nat_eq) (use assms(5) in simp)
  obtain c where c: "add_with_lo_hi (zk_curve zk) (cta_available_balance e) (cta_pending_balance_lo e)
      (cta_pending_balance_hi e) = Some c" "holds E (secret k) c (available + (lo + 65536 * hi))"
    using v holds_add_lo_hi [OF E] by blast
  define d where "d = ae_encrypt C key nonce (of_nat ?n)"
  define e' where "e' = e\<lparr>cta_available_balance := c,
    cta_actual_pending_balance_credit_counter := cta_pending_balance_credit_counter e,
    cta_expected_pending_balance_credit_counter := cta_pending_balance_credit_counter e,
    cta_decryptable_available_balance := d, cta_pending_balance_credit_counter := 0,
    cta_pending_balance_lo := 0, cta_pending_balance_hi := 0\<rparr>"
  have "new_decryptable_applied C nonce (apply_pending_info e) (keypair_secret C k) key = Ok d"
    using view_decrypts [OF assms(1,2)] assms(3,4) combine_pending [OF assms(3,4)] checked_add_of_nat [OF assms(5)]
    by (simp add: new_decryptable_applied_def apply_pending_info_def or_error_def d_def)
  moreover have "apply_pending_balance (zk_curve zk) (ap_pending_balance_credit_counter (apply_pending_info e)) d e = Ok e'"
    by (simp add: apply_pending_balance_def apply_pending_info_def c(1) e'_def)
  moreover have view: "client_view C E secret k key e' 0 0 (available + (lo + 65536 * hi))"
    using v c(2) decodes_encrypt [OF assms(1), of key nonce "of_nat ?n", unfolded n]
    by (simp add: client_view_def e'_def d_def holds_zero [OF assms(1)] del: of_nat_add of_nat_mult)
  moreover have "\<not> has_pending_balance (apply_pending_info e')"
    by (simp add: has_pending_balance_def apply_pending_info_def e'_def)
  ultimately show ?thesis
    using get_total_balance_Ok [OF assms] get_total_balance_Ok [OF assms(1) view] assms(5) by auto
qed

section \<open>Encrypted parts\<close>

lemma encrypted_part:
  assumes "client_behaves zk C E secret" "length ks = 3" "i < 3" "ks ! i = keypair_pubkey (proof_sdk C) k"
  obtains c where "try_extract_ciphertext3 zk (enc_grouped3 E (encrypt_with (proof_sdk C) ks x r)) i = Ok c"
    "holds E (secret k) c (unat x)"
proof -
  note E = client_behavesD(2) [OF assms(1)]
  obtain hs where h: "pedersen_with (proof_sdk C) x r - scale (secret k) (hs ! i) = amount_point (dec_point E) (unat x)"
    "\<exists>c. to_elgamal_ciphertext (proof_sdk C) (encrypt_with (proof_sdk C) ks x r) i = Some c \<and>
       ciphertext_parts E c = (pedersen_with (proof_sdk C) x r, hs ! i)"
    "zk_extract_ciphertext3 zk (enc_grouped3 E (encrypt_with (proof_sdk C) ks x r)) i =
       Some (enc_parts E (pedersen_with (proof_sdk C) x r) (hs ! i))"
    using encrypt_withE [OF client_behavesD(1) [OF assms(1)], of ks x r] assms(2-4) by metis
  then obtain c where "ciphertext_parts E c = (pedersen_with (proof_sdk C) x r, hs ! i)" by blast
  then have "enc_parts E (pedersen_with (proof_sdk C) x r) (hs ! i) = enc_ciphertext E c" "plain E (secret k) c (unat x)"
    using h(1) by (simp_all add: enc_ciphertext_parts [OF E] plain_def)
  then show thesis using that [of "enc_ciphertext E c"] h(3) holdsI [of E "secret k" c "unat x"]
    by (simp add: try_extract_ciphertext3_def)
qed

lemma encrypted_fee_part:
  assumes "client_behaves zk C E secret" "length ks = 2" "i < 2" "ks ! i = keypair_pubkey (proof_sdk C) k"
  obtains c where "try_extract_ciphertext2 zk (enc_grouped2 E (encrypt_with (proof_sdk C) ks x r)) i = Ok c"
    "holds E (secret k) c (unat x)"
proof -
  note E = client_behavesD(2) [OF assms(1)]
  obtain hs where h: "pedersen_with (proof_sdk C) x r - scale (secret k) (hs ! i) = amount_point (dec_point E) (unat x)"
    "\<exists>c. to_elgamal_ciphertext (proof_sdk C) (encrypt_with (proof_sdk C) ks x r) i = Some c \<and>
       ciphertext_parts E c = (pedersen_with (proof_sdk C) x r, hs ! i)"
    "zk_extract_ciphertext2 zk (enc_grouped2 E (encrypt_with (proof_sdk C) ks x r)) i =
       Some (enc_parts E (pedersen_with (proof_sdk C) x r) (hs ! i))"
    using encrypt_withE [OF client_behavesD(1) [OF assms(1)], of ks x r] assms(2-4) by metis
  then obtain c where "ciphertext_parts E c = (pedersen_with (proof_sdk C) x r, hs ! i)" by blast
  then have "enc_parts E (pedersen_with (proof_sdk C) x r) (hs ! i) = enc_ciphertext E c" "plain E (secret k) c (unat x)"
    using h(1) by (simp_all add: enc_ciphertext_parts [OF E] plain_def)
  then show thesis using that [of "enc_ciphertext E c"] h(3) holdsI [of E "secret k" c "unat x"]
    by (simp add: try_extract_ciphertext2_def)
qed

text \<open>The receiving account, credited with an amount of which the part \<open>i\<close> is encrypted for its key.\<close>

lemma pending_credited:
  assumes "client_behaves zk C E secret" "client_view C E secret k key f lo hi available" "valid_as_destination f = Ok ()"
    and "length ks = 3" "i < 3" "ks ! i = keypair_pubkey (proof_sdk C) k"
  obtains cx cy pl ph c where
    "try_extract_ciphertext3 zk (enc_grouped3 E (encrypt_with (proof_sdk C) ks x r)) i = Ok cx"
    "try_extract_ciphertext3 zk (enc_grouped3 E (encrypt_with (proof_sdk C) ks y s)) i = Ok cy"
    "ct_add (zk_curve zk) (cta_pending_balance_lo f) cx = Some pl" "ct_add (zk_curve zk) (cta_pending_balance_hi f) cy = Some ph"
    "checked_add (cta_pending_balance_credit_counter f) 1 = Some c"
    "client_view C E secret k key (f\<lparr>cta_pending_balance_lo := pl, cta_pending_balance_hi := ph,
       cta_pending_balance_credit_counter := c\<rparr>) (lo + unat x) (hi + unat y) available"
proof -
  note E = client_behavesD(2) [OF assms(1)] and v = assms(2) [unfolded client_view_def]
  obtain cx where cx: "try_extract_ciphertext3 zk (enc_grouped3 E (encrypt_with (proof_sdk C) ks x r)) i = Ok cx"
    "holds E (secret k) cx (unat x)" using encrypted_part [OF assms(1,4-6)] by auto
  obtain cy where cy: "try_extract_ciphertext3 zk (enc_grouped3 E (encrypt_with (proof_sdk C) ks y s)) i = Ok cy"
    "holds E (secret k) cy (unat y)" using encrypted_part [OF assms(1,4-6)] by auto
  obtain pl where pl: "ct_add (zk_curve zk) (cta_pending_balance_lo f) cx = Some pl" "holds E (secret k) pl (lo + unat x)"
    using v cx(2) holds_add [OF E] by blast
  obtain ph where ph: "ct_add (zk_curve zk) (cta_pending_balance_hi f) cy = Some ph" "holds E (secret k) ph (hi + unat y)"
    using v cy(2) holds_add [OF E] by blast
  obtain c where "checked_add (cta_pending_balance_credit_counter f) 1 = Some c"
    using assms(3) by (auto simp: valid_as_destination_def and_then_Ok ok_or_Ok split: if_splits)
  then show thesis by (rule that [OF cx(1) cy(1) pl(1) ph(1)]) (use v pl(2) ph(2) in \<open>simp add: client_view_def\<close>)
qed

lemma credited_view:
  assumes "client_behaves zk C E secret" "client_view C E secret k key f lo hi available" "valid_as_destination f = Ok ()"
    and "length ks = 3" "ks ! 1 = keypair_pubkey (proof_sdk C) k"
  obtains f' where "credit_destination zk (keypair_pubkey (proof_sdk C) k) (enc_grouped3 E (encrypt_with (proof_sdk C) ks x r))
      (enc_grouped3 E (encrypt_with (proof_sdk C) ks y s)) f = Ok f'"
    "client_view C E secret k key f' (lo + unat x) (hi + unat y) available"
proof -
  obtain cx cy pl ph c where h:
    "try_extract_ciphertext3 zk (enc_grouped3 E (encrypt_with (proof_sdk C) ks x r)) 1 = Ok cx"
    "try_extract_ciphertext3 zk (enc_grouped3 E (encrypt_with (proof_sdk C) ks y s)) 1 = Ok cy"
    "ct_add (zk_curve zk) (cta_pending_balance_lo f) cx = Some pl" "ct_add (zk_curve zk) (cta_pending_balance_hi f) cy = Some ph"
    "checked_add (cta_pending_balance_credit_counter f) 1 = Some c"
    and v: "client_view C E secret k key (f\<lparr>cta_pending_balance_lo := pl, cta_pending_balance_hi := ph,
       cta_pending_balance_credit_counter := c\<rparr>) (lo + unat x) (hi + unat y) available"
    by (rule pending_credited [OF assms(1-4) _ assms(5), of x r y s, OF one_less_numeral_iff [THEN iffD2]]) (simp, rule that)
  have "credit_destination zk (keypair_pubkey (proof_sdk C) k) (enc_grouped3 E (encrypt_with (proof_sdk C) ks x r))
      (enc_grouped3 E (encrypt_with (proof_sdk C) ks y s)) f =
      Ok (f\<lparr>cta_pending_balance_lo := pl, cta_pending_balance_hi := ph, cta_pending_balance_credit_counter := c\<rparr>)"
    using assms(2) by (simp add: client_view_def credit_destination_def assms(3) h [simplified] extraction_def
        increment_pending_balance_credit_counter_def)
  then show thesis using v by (rule that)
qed

section \<open>Transfers\<close>

lemma new_decryptable_debited_Ok:
  assumes "client_behaves zk C E secret" "client_view C E secret k key e lo hi available" "unat amount \<le> available"
  shows "new_decryptable_debited C nonce underflow (balance_info e) amount key =
      Ok (ae_encrypt C key nonce (of_nat (available - unat amount)))"
    and "decodes C key (ae_encrypt C key nonce (of_nat (available - unat amount))) (available - unat amount)"
    and "of_nat (available - unat amount) = of_nat available - amount" "amount \<le> of_nat available"
    and "unat (of_nat available :: u64) = available"
proof -
  note d = view_decrypts(3,4) [OF assms(1,2)]
  show a: "unat (of_nat available :: u64) = available" by (rule unat_of_nat_eq) (use d(2) in simp)
  show w: "of_nat (available - unat amount) = of_nat available - amount" using assms(3) by (simp add: of_nat_diff)
  show le: "amount \<le> of_nat available" using assms(3) a by (simp add: word_le_nat_alt)
  show "new_decryptable_debited C nonce underflow (balance_info e) amount key =
      Ok (ae_encrypt C key nonce (of_nat (available - unat amount)))"
    using d(1) le by (simp add: new_decryptable_debited_def balance_info_def checked_sub_def or_error_def w)
  have "unat (of_nat available - amount) = available - unat amount" using le by (simp add: unat_sub a)
  then show "decodes C key (ae_encrypt C key nonce (of_nat (available - unat amount))) (available - unat amount)"
    using decodes_encrypt [OF assms(1), of key nonce "of_nat available - amount"] by (simp add: w)
qed

text \<open>
  C31: a confidential transfer from end to end.  If the client of the source knows its balance and the
  client of the destination its own, an amount of at most 48 bits within the balance can be sent: the client makes
  the proofs and the new decryptable balance from the state of its account alone, the program accepts the proofs,
  debits the source and credits the destination and the source's two balances agree on the rest.  The parts of the
  destination's pending balance grow by the low sixteen bits of the amount and by the rest of it, and while both parts
  stay in the range of 32 bits its client decrypts a pending balance grown by exactly the amount.
\<close>

theorem client_transfer_completes:
  assumes "client_behaves zk C E secret"
    and "client_view C E secret k key e lo hi available" "client_view C E secret k' key' f lo' hi' available'"
    and "valid_as_source e = Ok ()" "valid_as_destination f = Ok ()" "unat amount \<le> available" "unat amount < 2 ^ 48"
  shows "\<exists>p d ctx e' f'. transfer_info_proof_data zk C R (balance_info e) amount k key (cta_elgamal_pubkey f) auditor = Ok p \<and>
    new_decryptable_debited C nonce InsufficientFunds (balance_info e) amount key = Ok d \<and>
    verify_and_extract_transfer zk (context_data (sp_equality_proof_data p))
      (context_data (va_proof_data (sp_validity_proof_data p))) (context_data (sp_range_proof_data p)) = Ok ctx \<and>
    tp_auditor ctx = (case auditor of Some a \<Rightarrow> a | None \<Rightarrow> 0) \<and>
    check_auditor zk (tp_ciphertext_lo ctx) (tp_ciphertext_hi ctx) (va_ciphertext_lo (sp_validity_proof_data p))
      (va_ciphertext_hi (sp_validity_proof_data p)) = Ok () \<and>
    debit_source zk (tp_source ctx) (tp_ciphertext_lo ctx) (tp_ciphertext_hi ctx) (tp_new_source_ciphertext ctx) d e = Ok e' \<and>
    credit_destination zk (tp_destination ctx) (tp_ciphertext_lo ctx) (tp_ciphertext_hi ctx) f = Ok f' \<and>
    client_view C E secret k key e' lo hi (available - unat amount) \<and>
    client_view C E secret k' key' f' (lo' + unat amount mod 65536) (hi' + unat amount div 65536) available' \<and>
    (lo' + unat amount mod 65536 < 2 ^ 32 \<longrightarrow> hi' + unat amount div 65536 < 2 ^ 32 \<longrightarrow>
      get_pending_balance C (apply_pending_info f') (keypair_secret C k') = Ok (of_nat (lo' + 65536 * hi' + unat amount)))"
proof -
  note v = assms(2) [unfolded client_view_def] and v' = assms(3) [unfolded client_view_def]
  note d1 = new_decryptable_debited_Ok(1) [OF assms(1,2,6), of nonce InsufficientFunds]
    and d2 = new_decryptable_debited_Ok(2) [OF assms(1,2,6), of nonce]
    and d3 = new_decryptable_debited_Ok(4,5) [OF assms(1,2,6)]
  note i = view_decrypts [OF assms(1,2)]
  obtain c where c: "cta_available_balance e = enc_ciphertext E c" "plain E (secret k) c available"
    using v by (auto simp: holds_def)
  obtain a where a: "a = (case auditor of Some a \<Rightarrow> a | None \<Rightarrow> 0)" by simp
  let ?d = "ae_encrypt C key nonce (of_nat (available - unat amount))"
    and ?S = "proof_sdk C" and ?ks = "[keypair_pubkey (proof_sdk C) k, cta_elgamal_pubkey f, a]"
  obtain p x y new where p: "transfer_split_proof_data zk ?S R c (cta_decryptable_available_balance e) amount k key (cta_elgamal_pubkey f) auditor = Ok p"
    "verify_and_extract_transfer zk (context_data (sp_equality_proof_data p))
      (context_data (va_proof_data (sp_validity_proof_data p))) (context_data (sp_range_proof_data p)) =
      Ok \<lparr>tp_ciphertext_lo = enc_grouped3 E (encrypt_with ?S ?ks x (opening_lo R)),
          tp_ciphertext_hi = enc_grouped3 E (encrypt_with ?S ?ks y (opening_hi R)),
          tp_source = keypair_pubkey ?S k, tp_destination = cta_elgamal_pubkey f, tp_auditor = a, tp_new_source_ciphertext = new\<rparr>"
    "check_auditor zk (enc_grouped3 E (encrypt_with ?S ?ks x (opening_lo R))) (enc_grouped3 E (encrypt_with ?S ?ks y (opening_hi R)))
      (va_ciphertext_lo (sp_validity_proof_data p)) (va_ciphertext_hi (sp_validity_proof_data p)) = Ok ()"
    "debit_source zk (keypair_pubkey ?S k) (enc_grouped3 E (encrypt_with ?S ?ks x (opening_lo R)))
      (enc_grouped3 E (encrypt_with ?S ?ks y (opening_hi R))) new ?d e =
      Ok (e\<lparr>cta_available_balance := new, cta_decryptable_available_balance := ?d\<rparr>)"
    "holds E (secret k) new (unat (of_nat available - amount))" "unat x < 2 ^ 16" "unat amount = unat x + 65536 * unat y"
    using transfer_proofs_accepted [OF client_behavesD(1) [OF assms(1)] c(1), of k "of_nat available" key amount a auditor R
        "cta_elgamal_pubkey f" ?d] v c(2) d3 i(6) assms(4,7) a by auto
  obtain f' where f': "credit_destination zk (cta_elgamal_pubkey f) (enc_grouped3 E (encrypt_with ?S ?ks x (opening_lo R)))
      (enc_grouped3 E (encrypt_with ?S ?ks y (opening_hi R))) f = Ok f'"
    "client_view C E secret k' key' f' (lo' + unat x) (hi' + unat y) available'"
    using credited_view [OF assms(1,3,5), of ?ks x "opening_lo R" y "opening_hi R"] v' by auto
  have "transfer_info_proof_data zk C R (balance_info e) amount k key (cta_elgamal_pubkey f) auditor = Ok p"
    by (simp add: transfer_info_proof_data_def balance_info_def c(1) client_behavesD(3) [OF assms(1)] ae_from_def i(5) p(1))
  moreover have "client_view C E secret k key
      (e\<lparr>cta_available_balance := new, cta_decryptable_available_balance := ?d\<rparr>) lo hi (available - unat amount)"
    using v d2 p(5) d3 by (simp add: client_view_def unat_sub)
  moreover have xy: "unat x = unat amount mod 65536" "unat y = unat amount div 65536" using p(6) unfolding p(7) by simp_all
  moreover have "get_pending_balance C (apply_pending_info f') (keypair_secret C k') = Ok (of_nat (lo' + 65536 * hi' + unat amount))"
    if "lo' + unat amount mod 65536 < 2 ^ 32" "hi' + unat amount div 65536 < 2 ^ 32"
  proof -
    have "lo' + unat x + 65536 * (hi' + unat y) = lo' + 65536 * hi' + unat amount" using p(7) by simp
    then show ?thesis
      using get_pending_balance_Ok [OF assms(1) f'(2)] that unfolding xy by metis
  qed
  ultimately show ?thesis
    using d1 p(2-4) f' a
    by (intro exI [of _ p] exI [of _ ?d] exI [of _ "\<lparr>tp_ciphertext_lo = enc_grouped3 E (encrypt_with ?S ?ks x (opening_lo R)),
          tp_ciphertext_hi = enc_grouped3 E (encrypt_with ?S ?ks y (opening_hi R)),
          tp_source = keypair_pubkey ?S k, tp_destination = cta_elgamal_pubkey f, tp_auditor = a, tp_new_source_ciphertext = new\<rparr>"]
        exI [of _ "e\<lparr>cta_available_balance := new, cta_decryptable_available_balance := ?d\<rparr>"] exI [of _ f']) simp
qed

end
