(* ===== verification/Client_Supply.thy ===== *)
theory Client_Supply
  imports Client_Consistency
begin

text \<open>
  The client functions about the supply of a confidential mint, about withheld fees and about emptying an account,
  together with the handlers that check their proofs.
\<close>

section \<open>Reading the supply\<close>

text \<open>The decryptable supply may be behind the ciphertext: burns applied to the supply do not change it.\<close>

definition supply_view ::
  "('g::ab_group_add, 'o, 'c, 'k, 's) ClientSdk \<Rightarrow> ('g, 'c) Encodings \<Rightarrow> ('k \<Rightarrow> nat) \<Rightarrow> 'k \<Rightarrow> aes_key \<Rightarrow>
     ConfidentialMintBurn \<Rightarrow> nat \<Rightarrow> nat \<Rightarrow> bool" where
  "supply_view C E secret k key b outstanding known \<longleftrightarrow>
     cmb_supply_elgamal_pubkey b = keypair_pubkey (proof_sdk C) k \<and>
     holds E (secret k) (cmb_confidential_supply b) outstanding \<and> decodes C key (cmb_decryptable_supply b) known \<and>
     outstanding \<le> known"

lemma decrypted_current_supply_Ok:
  assumes "client_behaves zk C E secret" "supply_view C E secret k key b outstanding known" "known - outstanding < 2 ^ 32"
  shows "decrypted_current_supply C opening (supply_info b) key k = Ok (of_nat outstanding)"
proof -
  note E = client_behavesD(2) [OF assms(1)] and v = assms(2) [unfolded supply_view_def]
  note d = decodes_Ok [of C key "cmb_decryptable_supply b" known]
  obtain c where c: "cmb_confidential_supply b = enc_ciphertext E c" "plain E (secret k) c outstanding"
    using v by (auto simp: holds_def)
  let ?e = "pubkey_encrypt_with C (keypair_pubkey (proof_sdk C) k) (of_nat known) opening"
  have known: "unat (of_nat known :: u64) = known" by (rule unat_of_nat_eq) (use d(2) v in simp)
  have diff: "unat (of_nat (known - outstanding) :: u64) = known - outstanding"
    by (rule unat_of_nat_eq) (use assms(3) in simp)
  have "plain E (secret k) ?e (outstanding + (known - outstanding))"
    using client_behavesD(7) [OF assms(1), of k "of_nat known" "opening"] v by (simp add: known)
  then have "plain E (secret k) (?e - c) (known - outstanding)" by (rule plain_diff [OF E _ c(2)])
  then have u: "decrypt_u32 C (keypair_secret C k) (?e - c) = Some (of_nat (known - outstanding))"
    using client_behavesD(6) [OF assms(1), of k "?e - c" "of_nat (known - outstanding)"] assms(3) by (simp only: diff)
  have le: "of_nat (known - outstanding) \<le> (of_nat known :: u64)" using known diff by (simp add: word_le_nat_alt)
  have "of_nat known - of_nat (known - outstanding) = (of_nat outstanding :: u64)" using v by (simp add: of_nat_diff)
  then show ?thesis
    using v d u le by (simp add: decrypted_current_supply_def supply_info_def ae_from_def or_error_def Let_def c(1)
        client_behavesD(3) [OF assms(1)] checked_sub_def del: of_nat_diff)
qed

section \<open>Minting\<close>

text \<open>
  C34: a confidential mint from end to end.  If the holder of the supply key can read the supply, the mint
  keeps it within 64 bits and the destination accepts credits, then the proofs and the new decryptable supply are
  computed from the extension alone, the program accepts them, the supply ciphertext and the decryptable supply both
  say the new supply, and the pending balance of the destination has grown by exactly the amount.
\<close>

theorem client_mint_completes:
  assumes "client_behaves zk C E secret" "supply_view C E secret k key b outstanding known" "known - outstanding < 2 ^ 32"
    and "client_view C E secret k' key' f lo hi available" "valid_as_destination f = Ok ()"
    and "outstanding + unat amount < 2 ^ 64" "unat amount < 2 ^ 48"
  shows "\<exists>p d ctx f' b' x y.
    mint_info_proof_data zk C opening R (supply_info b) amount k key (cta_elgamal_pubkey f) (opt_key auditor) = Ok p \<and>
    new_decryptable_supply C opening' nonce (supply_info b) amount k key = Ok d \<and>
    verify_and_extract_mint zk (context_data (sp_equality_proof_data p))
      (context_data (va_proof_data (sp_validity_proof_data p))) (context_data (sp_range_proof_data p)) = Ok ctx \<and>
    credit_minted zk auditor ctx (va_ciphertext_lo (sp_validity_proof_data p))
      (va_ciphertext_hi (sp_validity_proof_data p)) f = Ok f' \<and>
    add_supply zk ctx d b = Ok b' \<and>
    supply_view C E secret k key b' (outstanding + unat amount) (outstanding + unat amount) \<and>
    client_view C E secret k' key' f' (lo + x) (hi + y) available \<and> x + 65536 * y = unat amount"
proof -
  note v = assms(2) [unfolded supply_view_def] and v' = assms(4) [unfolded client_view_def]
  let ?S = "proof_sdk C" and ?n = "outstanding + unat amount" and ?y = "of_nat outstanding + amount"
  obtain c where c: "cmb_confidential_supply b = enc_ciphertext E c" "plain E (secret k) c outstanding"
    using v by (auto simp: holds_def)
  obtain a where a: "a = (case opt_key auditor of Some a \<Rightarrow> a | None \<Rightarrow> 0)" by simp
  have au: "opt_key auditor = None \<or> opt_key auditor = Some a" using a by (cases "opt_key auditor") auto
  have o: "unat (of_nat outstanding :: u64) = outstanding" by (rule unat_of_nat_eq) (use assms(6) in simp)
  have y: "unat ?y = ?n" using assms(6) by (simp add: unat_word_ariths o)
  let ?d = "ae_encrypt C key nonce ?y" and ?ks = "[cta_elgamal_pubkey f, keypair_pubkey ?S k, a]"
  obtain p xl xh new where p: "mint_split_proof_data zk ?S R c amount (of_nat outstanding) k (cta_elgamal_pubkey f) (opt_key auditor) = Ok p"
    "verify_and_extract_mint zk (context_data (sp_equality_proof_data p))
      (context_data (va_proof_data (sp_validity_proof_data p))) (context_data (sp_range_proof_data p)) =
      Ok \<lparr>mp_mint_amount_ciphertext_lo = enc_grouped3 E (encrypt_with ?S ?ks xl (opening_lo R)),
          mp_mint_amount_ciphertext_hi = enc_grouped3 E (encrypt_with ?S ?ks xh (opening_hi R)),
          mp_destination = cta_elgamal_pubkey f, mp_supply = keypair_pubkey ?S k, mp_auditor = a, mp_new_supply_ciphertext = new\<rparr>"
    "check_auditor zk (enc_grouped3 E (encrypt_with ?S ?ks xl (opening_lo R))) (enc_grouped3 E (encrypt_with ?S ?ks xh (opening_hi R)))
      (va_ciphertext_lo (sp_validity_proof_data p)) (va_ciphertext_hi (sp_validity_proof_data p)) = Ok ()"
    "add_supply zk \<lparr>mp_mint_amount_ciphertext_lo = enc_grouped3 E (encrypt_with ?S ?ks xl (opening_lo R)),
          mp_mint_amount_ciphertext_hi = enc_grouped3 E (encrypt_with ?S ?ks xh (opening_hi R)),
          mp_destination = cta_elgamal_pubkey f, mp_supply = keypair_pubkey ?S k, mp_auditor = a, mp_new_supply_ciphertext = new\<rparr> ?d b =
      Ok (b\<lparr>cmb_confidential_supply := new, cmb_decryptable_supply := ?d\<rparr>)"
    "holds E (secret k) new ?n" "unat amount = unat xl + 65536 * unat xh"
    using mint_proofs_accepted [OF client_behavesD(1) [OF assms(1)] c(1), of k "of_nat outstanding" amount a "opt_key auditor" R
        "cta_elgamal_pubkey f" ?d] v c(2) assms(6,7) a by (auto simp: o)
  obtain cx cy pl ph n where h:
    "try_extract_ciphertext3 zk (enc_grouped3 E (encrypt_with ?S ?ks xl (opening_lo R))) 0 = Ok cx"
    "try_extract_ciphertext3 zk (enc_grouped3 E (encrypt_with ?S ?ks xh (opening_hi R))) 0 = Ok cy"
    "ct_add (zk_curve zk) (cta_pending_balance_lo f) cx = Some pl" "ct_add (zk_curve zk) (cta_pending_balance_hi f) cy = Some ph"
    "checked_add (cta_pending_balance_credit_counter f) 1 = Some n"
    and f': "client_view C E secret k' key' (f\<lparr>cta_pending_balance_lo := pl, cta_pending_balance_hi := ph,
       cta_pending_balance_credit_counter := n\<rparr>) (lo + unat xl) (hi + unat xh) available"
    by (rule pending_credited [OF assms(1,4,5), of ?ks 0 xl "opening_lo R" xh "opening_hi R"]) (use v' in simp_all)
  have "mint_info_proof_data zk C opening R (supply_info b) amount k key (cta_elgamal_pubkey f) (opt_key auditor) = Ok p"
    by (simp add: mint_info_proof_data_def decrypted_current_supply_Ok [OF assms(1-3)] p(1))
       (simp add: supply_info_def c(1) client_behavesD(3) [OF assms(1)] p(1))
  moreover have "new_decryptable_supply C opening' nonce (supply_info b) amount k key = Ok ?d"
    using assms(6) by (simp add: new_decryptable_supply_def decrypted_current_supply_Ok [OF assms(1-3)] checked_add_def o or_error_def)
  moreover have "credit_minted zk auditor \<lparr>mp_mint_amount_ciphertext_lo = enc_grouped3 E (encrypt_with ?S ?ks xl (opening_lo R)),
          mp_mint_amount_ciphertext_hi = enc_grouped3 E (encrypt_with ?S ?ks xh (opening_hi R)),
          mp_destination = cta_elgamal_pubkey f, mp_supply = keypair_pubkey ?S k, mp_auditor = a, mp_new_supply_ciphertext = new\<rparr>
      (va_ciphertext_lo (sp_validity_proof_data p)) (va_ciphertext_hi (sp_validity_proof_data p)) f =
      Ok (f\<lparr>cta_pending_balance_lo := pl, cta_pending_balance_hi := ph, cta_pending_balance_credit_counter := n\<rparr>)"
    using au by (auto simp: credit_minted_def assms(5) p(3) h extraction_def increment_pending_balance_credit_counter_def)
  moreover have "supply_view C E secret k key (b\<lparr>cmb_confidential_supply := new, cmb_decryptable_supply := ?d\<rparr>) ?n ?n"
    using v p(5) decodes_encrypt [OF assms(1), of key nonce ?y] by (simp add: supply_view_def y)
  ultimately show ?thesis using p(2,4,6) f' by (metis (no_types, lifting))
qed

section \<open>Changing the supply key, taking out withheld fees, emptying an account\<close>

text \<open>The two proof constructors these instructions use: what they record and when they succeed.\<close>

definition client_proves ::
  "('g::ab_group_add, 'o, 'c::ab_group_add, 'k, 's) ClientSdk \<Rightarrow> ('g, 'c) Encodings \<Rightarrow> ('k \<Rightarrow> nat) \<Rightarrow> bool" where
  "client_proves C E secret \<longleftrightarrow>
     (\<forall>k pk c d r x p. new_ciphertext_equality C k pk c d r x = Ok p \<longrightarrow>
        context_data p = \<lparr>cc_first_pubkey = keypair_pubkey (proof_sdk C) k, cc_second_pubkey = pk,
          cc_first_ciphertext = enc_ciphertext E c, cc_second_ciphertext = enc_ciphertext E d\<rparr>) \<and>
     (\<forall>k pk c r x. plain E (secret k) c (unat x) \<longrightarrow>
        is_ok (new_ciphertext_equality C k pk c (pubkey_encrypt_with C pk x r) r x)) \<and>
     (\<forall>k c p. new_zero_ciphertext C k c = Ok p \<longrightarrow>
        context_data p = \<lparr>zc_pubkey = keypair_pubkey (proof_sdk C) k, zc_ciphertext = enc_ciphertext E c\<rparr>) \<and>
     (\<forall>k c. plain E (secret k) c 0 \<longrightarrow> is_ok (new_zero_ciphertext C k c))"

lemma make_ciphertext_equality:
  assumes "client_proves C E secret" "plain E (secret k) c (unat x)"
  obtains p where "new_ciphertext_equality C k pk c (pubkey_encrypt_with C pk x r) r x = Ok p"
    "context_data p = \<lparr>cc_first_pubkey = keypair_pubkey (proof_sdk C) k, cc_second_pubkey = pk,
       cc_first_ciphertext = enc_ciphertext E c, cc_second_ciphertext = enc_ciphertext E (pubkey_encrypt_with C pk x r)\<rparr>"
  using assms(1) [unfolded client_proves_def is_ok_iff, THEN conjunct2, THEN conjunct1, rule_format, OF assms(2), of pk r]
    assms(1) [unfolded client_proves_def, THEN conjunct1, rule_format] by fast

text \<open>
  The owner of the supply key can move the supply to another key when no burns are pending: the proof is accepted,
  and the new holder reads the same supply.
\<close>

lemma rotate_proof_accepted:
  assumes "client_behaves zk C E secret" "client_proves C E secret"
    and "supply_view C E secret k key b outstanding known" "known - outstanding < 2 ^ 32" "cmb_pending_burn b = 0"
  shows "\<exists>p b'. rotate_supply_proof_data C s r (supply_info b) k (keypair_pubkey (proof_sdk C) k') key = Ok p \<and>
    rotate_supply (context_data p) b = Ok b' \<and> supply_view C E secret k' key b' outstanding known"
proof -
  note v = assms(3) [unfolded supply_view_def] and E = client_behavesD(2) [OF assms(1)]
  obtain c where c: "cmb_confidential_supply b = enc_ciphertext E c" "plain E (secret k) c outstanding"
    using v by (auto simp: holds_def)
  have "known < 2 ^ 64" using decodes_Ok(2) v by blast
  then have o: "unat (of_nat outstanding :: u64) = outstanding" using v by (intro unat_of_nat_eq) simp
  let ?pk = "keypair_pubkey (proof_sdk C) k'"
  let ?d = "pubkey_encrypt_with C ?pk (of_nat outstanding) r"
  obtain p where p: "new_ciphertext_equality C k ?pk c ?d r (of_nat outstanding) = Ok p"
    "context_data p = \<lparr>cc_first_pubkey = keypair_pubkey (proof_sdk C) k, cc_second_pubkey = ?pk,
       cc_first_ciphertext = enc_ciphertext E c, cc_second_ciphertext = enc_ciphertext E ?d\<rparr>"
    by (rule make_ciphertext_equality [OF assms(2), of k c "of_nat outstanding" ?pk r]) (use c(2) o in simp_all)
  have "rotate_supply_proof_data C s r (supply_info b) k ?pk key = Ok p"
    by (simp add: rotate_supply_proof_data_def decrypted_current_supply_Ok [OF assms(1,3,4)])
       (simp add: supply_info_def c(1) client_behavesD(3) [OF assms(1)] p(1))
  moreover have "rotate_supply (context_data p) b = Ok (b\<lparr>cmb_supply_elgamal_pubkey := ?pk, cmb_confidential_supply := enc_ciphertext E ?d\<rparr>)"
    using v by (simp add: rotate_supply_def p(2) c(1) assms(5))
  moreover have "holds E (secret k') (enc_ciphertext E ?d) outstanding"
    using client_behavesD(7) [OF assms(1), of k' "of_nat outstanding" r] by (intro holdsI) (simp add: o)
  ultimately show ?thesis using v by (auto simp: supply_view_def)
qed

text \<open>
  The withdraw authority can take withheld fees below \<open>2 ^ 32\<close> out of a mint or an account: the proof names the
  stored ciphertext, and its second ciphertext holds the same amount for the destination.
\<close>

lemma withheld_proof_made:
  assumes "client_behaves zk C E secret" "client_proves C E secret" "holds E (secret k) ct n" "n < 2 ^ 32"
  shows "\<exists>p. withheld_tokens_proof_data C r ct k (keypair_pubkey (proof_sdk C) k') = Ok p \<and>
    cc_first_pubkey (context_data p) = keypair_pubkey (proof_sdk C) k \<and>
    cc_second_pubkey (context_data p) = keypair_pubkey (proof_sdk C) k' \<and>
    cc_first_ciphertext (context_data p) = ct \<and> holds E (secret k') (cc_second_ciphertext (context_data p)) n"
proof -
  obtain c where c: "ct = enc_ciphertext E c" "plain E (secret k) c n" using assms(3) by (auto simp: holds_def)
  have n: "unat (of_nat n :: u64) = n" by (rule unat_of_nat_eq) (use assms(4) in simp)
  let ?pk = "keypair_pubkey (proof_sdk C) k'"
  obtain p where p: "new_ciphertext_equality C k ?pk c (pubkey_encrypt_with C ?pk (of_nat n) r) r (of_nat n) = Ok p"
    "context_data p = \<lparr>cc_first_pubkey = keypair_pubkey (proof_sdk C) k, cc_second_pubkey = ?pk,
       cc_first_ciphertext = enc_ciphertext E c, cc_second_ciphertext = enc_ciphertext E (pubkey_encrypt_with C ?pk (of_nat n) r)\<rparr>"
    by (rule make_ciphertext_equality [OF assms(2), of k c "of_nat n" ?pk r]) (use c(2) n in simp_all)
  have "decrypt_u32 C (keypair_secret C k) c = Some (of_nat n)"
    using client_behavesD(6) [OF assms(1), of k c "of_nat n"] c(2) assms(4) by (simp only: n)
  then have "withheld_tokens_proof_data C r ct k ?pk = Ok p"
    by (simp add: withheld_tokens_proof_data_def c(1) client_behavesD(3) [OF assms(1)] or_error_def p(1))
  moreover have "holds E (secret k') (cc_second_ciphertext (context_data p)) n"
    using client_behavesD(7) [OF assms(1), of k' "of_nat n" r] by (simp add: p(2) n holdsI)
  ultimately show ?thesis by (simp add: p(2) c(1))
qed

text \<open>An account whose balances are zero can be emptied.\<close>

lemma empty_account_accepted:
  assumes "client_behaves zk C E secret" "client_proves C E secret" "client_view C E secret k key e lo hi 0"
    and "cta_pending_balance_lo e = 0" "cta_pending_balance_hi e = 0"
  shows "\<exists>p e'. empty_account_proof_data C (empty_account_info e) k = Ok p \<and>
    empty_account (context_data p) e = Ok e' \<and> cta_closable e' = Ok ()"
proof -
  obtain c where c: "cta_available_balance e = enc_ciphertext E c" "plain E (secret k) c 0"
    using assms(3) by (auto simp: client_view_def holds_def)
  obtain p where p: "new_zero_ciphertext C k c = Ok p"
    "context_data p = \<lparr>zc_pubkey = keypair_pubkey (proof_sdk C) k, zc_ciphertext = enc_ciphertext E c\<rparr>"
    using assms(2) [unfolded client_proves_def is_ok_iff, THEN conjunct2, THEN conjunct2, THEN conjunct2, rule_format, OF c(2)]
      assms(2) [unfolded client_proves_def, THEN conjunct2, THEN conjunct2, THEN conjunct1, rule_format] by fast
  have "empty_account_proof_data C (empty_account_info e) k = Ok p"
    by (simp add: empty_account_proof_data_def empty_account_info_def c(1) client_behavesD(3) [OF assms(1)] p(1))
  then show ?thesis using assms(3-5)
    by (simp add: p(2) c(1) empty_account_def Let_def cta_closable_def client_view_def)
qed

end
