(* ===== verification/Client_Fee.thy ===== *)
theory Client_Fee
  imports Client_Consistency
begin

text \<open>
  Confidential transfers with a fee from end to end, and what the destination can read afterwards.  The fee is taken
  off the two parts of the pending balance separately, so a part can hold a negative amount.
\<close>

text \<open>The ciphertext holds the difference of two amounts.\<close>

definition holds_diff :: "('g::ab_group_add, 'c) Encodings \<Rightarrow> nat \<Rightarrow> ciphertext \<Rightarrow> nat \<Rightarrow> nat \<Rightarrow> bool" where
  "holds_diff E s ct m n \<longleftrightarrow> (\<exists>c. ct = enc_ciphertext E c \<and>
     fst (ciphertext_parts E c) - scale s (snd (ciphertext_parts E c)) =
       amount_point (dec_point E) m - amount_point (dec_point E) n)"

lemma holds_diff_subtract:
  assumes "sdk_encodes zk E" "holds E s a m" "holds E s b n"
  obtains c where "ct_subtract (zk_curve zk) a b = Some c" "holds_diff E s c m n"
proof -
  obtain a' b' where h: "a = enc_ciphertext E a'" "plain E s a' m" "b = enc_ciphertext E b'" "plain E s b' n"
    using assms(2,3) by (auto simp: holds_def)
  have "fst (ciphertext_parts E (a' - b')) - scale s (snd (ciphertext_parts E (a' - b'))) =
      (fst (ciphertext_parts E a') - scale s (snd (ciphertext_parts E a'))) -
      (fst (ciphertext_parts E b') - scale s (snd (ciphertext_parts E b')))"
    by (simp add: ciphertext_parts_linear [OF assms(1)] scale_point_diff)
  then have "holds_diff E s (enc_ciphertext E (a' - b')) m n"
    using h(2,4) unfolding holds_diff_def by (intro exI [of _ "a' - b'"]) (simp add: plain_def)
  then show thesis using that enc_ciphertext_operations(2) [OF assms(1), of a' b'] h(1,3) by simp
qed

lemma holds_diff_holds:
  assumes "holds_diff E s ct (m + n) n"
  shows "holds E s ct m"
  using assms by (auto simp: holds_diff_def holds_def plain_def amount_point_add)

section \<open>The fee at the destination\<close>

lemma withhold_view:
  fixes C :: "('g::ab_group_add, 'o::ab_group_add, 'c::ab_group_add, 'k, 's) ClientSdk"
  assumes "client_behaves zk C E secret" "get_extension AccountBase ConfidentialTransferAccountX tlv = Ok f0"
    and "get_extension AccountBase ConfidentialTransferFeeAmountX tlv = Ok g" "holds E (secret w) (cfa_withheld_amount g) withheld_fees"
    and "holds E (secret k) (cta_pending_balance_lo f) lo" "holds E (secret k) (cta_pending_balance_hi f) hi"
    and "fp_fee_ciphertext_lo ctx = enc_grouped2 E (encrypt_with (proof_sdk C) [keypair_pubkey (proof_sdk C) k, keypair_pubkey (proof_sdk C) w] flo r)"
    and "fp_fee_ciphertext_hi ctx = enc_grouped2 E (encrypt_with (proof_sdk C) [keypair_pubkey (proof_sdk C) k, keypair_pubkey (proof_sdk C) w] fhi s)"
  obtains tlv' pl ph u where "withhold_confidential_fee zk ctx f tlv = Ok tlv'"
    "get_extension AccountBase ConfidentialTransferAccountX tlv' = Ok (f\<lparr>cta_pending_balance_lo := pl, cta_pending_balance_hi := ph\<rparr>)"
    "holds_diff E (secret k) pl lo (unat flo)" "holds_diff E (secret k) ph hi (unat fhi)"
    "get_extension AccountBase ConfidentialTransferFeeAmountX tlv' = Ok (g\<lparr>cfa_withheld_amount := u\<rparr>)"
    "holds E (secret w) u (withheld_fees + (unat flo + 65536 * unat fhi))"
proof -
  note E = client_behavesD(2) [OF assms(1)]
  let ?ks = "[keypair_pubkey (proof_sdk C) k, keypair_pubkey (proof_sdk C) w]"
  obtain dl where dl: "try_extract_ciphertext2 zk (fp_fee_ciphertext_lo ctx) 0 = Ok dl" "holds E (secret k) dl (unat flo)"
    unfolding assms(7) using encrypted_fee_part [OF assms(1), of ?ks 0 k] by auto
  obtain dh where dh: "try_extract_ciphertext2 zk (fp_fee_ciphertext_hi ctx) 0 = Ok dh" "holds E (secret k) dh (unat fhi)"
    unfolding assms(8) using encrypted_fee_part [OF assms(1), of ?ks 0 k] by auto
  obtain wl where wl: "try_extract_ciphertext2 zk (fp_fee_ciphertext_lo ctx) 1 = Ok wl" "holds E (secret w) wl (unat flo)"
    unfolding assms(7) using encrypted_fee_part [OF assms(1), of ?ks 1 w] by auto
  obtain wh where wh: "try_extract_ciphertext2 zk (fp_fee_ciphertext_hi ctx) 1 = Ok wh" "holds E (secret w) wh (unat fhi)"
    unfolding assms(8) using encrypted_fee_part [OF assms(1), of ?ks 1 w] by auto
  obtain pl where pl: "ct_subtract (zk_curve zk) (cta_pending_balance_lo f) dl = Some pl" "holds_diff E (secret k) pl lo (unat flo)"
    using holds_diff_subtract [OF E assms(5) dl(2)] .
  obtain ph where ph: "ct_subtract (zk_curve zk) (cta_pending_balance_hi f) dh = Some ph" "holds_diff E (secret k) ph hi (unat fhi)"
    using holds_diff_subtract [OF E assms(6) dh(2)] .
  obtain u where u: "add_with_lo_hi (zk_curve zk) (cfa_withheld_amount g) wl wh = Some u"
    "holds E (secret w) u (withheld_fees + (unat flo + 65536 * unat fhi))"
    using holds_add_lo_hi [OF E assms(4) wl(2) wh(2)] .
  let ?f = "f\<lparr>cta_pending_balance_lo := pl, cta_pending_balance_hi := ph\<rparr>"
  let ?t = "set_extension AccountBase ConfidentialTransferAccountX ?f tlv"
  have other: "EXT_TYPE ConfidentialTransferFeeAmountX \<noteq> EXT_TYPE ConfidentialTransferAccountX"
    by (simp add: ConfidentialTransferFeeAmountX_def ConfidentialTransferAccountX_def)
  have t: "get_extension AccountBase ConfidentialTransferAccountX ?t = Ok ?f"
    "get_extension AccountBase ConfidentialTransferFeeAmountX ?t = Ok g"
    using cta.get_set_same [OF assms(2)] cta.get_set_other [OF other] assms(3) by simp_all
  let ?g = "g\<lparr>cfa_withheld_amount := u\<rparr>"
  let ?t' = "set_extension AccountBase ConfidentialTransferFeeAmountX ?g ?t"
  have t': "get_extension AccountBase ConfidentialTransferFeeAmountX ?t' = Ok ?g"
    "get_extension AccountBase ConfidentialTransferAccountX ?t' = Ok ?f"
    using cfa.get_set_same [OF t(2)] cfa.get_set_other [OF other [symmetric]] t(1) by simp_all
  obtain i where i: "get_extension_mut AccountBase ConfidentialTransferFeeAmountX ?t = Ok (g, i)"
    using t(2) by (auto simp: get_extension_mut_eq and_then_Ok)
  have "withhold_confidential_fee zk ctx f tlv = Ok ?t'"
    unfolding withhold_confidential_fee_def Let_def
    by (simp only: dl(1) dh(1) wl(1) wh(1) pl(1) ph(1) i u(1) extraction_def map_err_simps and_then_simps ok_or_simps split)
  then show thesis by (rule that [OF _ t'(2) pl(2) ph(2) t'(1) u(2)])
qed

section \<open>From end to end\<close>

text \<open>
  The destination's extensions after a transfer with fee, as its client and the withdraw authority see them: the
  parts \<open>x\<close> and \<open>y\<close> of the amount are added and the parts of the fee taken off, part by part.
\<close>

definition fee_received ::
  "('g::ab_group_add, 'o, 'c, 'k, 's) ClientSdk \<Rightarrow> ('g, 'c) Encodings \<Rightarrow> ('k \<Rightarrow> nat) \<Rightarrow> 'k \<Rightarrow> 'k \<Rightarrow> bytes \<Rightarrow>
     nat \<Rightarrow> nat \<Rightarrow> nat \<Rightarrow> nat \<Rightarrow> nat \<Rightarrow> bool" where
  "fee_received C E secret k w tlv lo flo hi fhi withheld_fees \<longleftrightarrow>
     (\<exists>f g. get_extension AccountBase ConfidentialTransferAccountX tlv = Ok f \<and>
        get_extension AccountBase ConfidentialTransferFeeAmountX tlv = Ok g \<and>
        holds_diff E (secret k) (cta_pending_balance_lo f) lo flo \<and> holds_diff E (secret k) (cta_pending_balance_hi f) hi fhi \<and>
        holds E (secret w) (cfa_withheld_amount g) withheld_fees)"

lemma fee_transfer_made:
  fixes C :: "('g::ab_group_add, 'o::ab_group_add, 'c::ab_group_add, 'k, 's) ClientSdk"
  assumes "client_behaves zk C E secret" "client_view C E secret k key e lo hi available"
    and "get_extension AccountBase ConfidentialTransferAccountX tlv = Ok f" "client_view C E secret k' key' f lo' hi' available'"
    and "get_extension AccountBase ConfidentialTransferFeeAmountX tlv = Ok g" "holds E (secret w) (cfa_withheld_amount g) withheld_fees"
    and "valid_as_source e = Ok ()" "valid_as_destination f = Ok ()" "unat amount \<le> available" "unat amount < 2 ^ 48"
    and "tf_transfer_fee_basis_points F \<le> MAX_FEE_BASIS_POINTS"
  shows "\<exists>p d ctx e' f' tlv' x y fee. transfer_with_fee_info_proof_data zk C R FO (balance_info e) amount k key (cta_elgamal_pubkey f)
      auditor (keypair_pubkey (proof_sdk C) w) (tf_transfer_fee_basis_points F) (tf_maximum_fee F) = Ok p \<and>
    new_decryptable_debited C nonce InsufficientFunds (balance_info e) amount key = Ok d \<and>
    verify_and_extract_transfer_with_fee zk (context_data (wf_equality_proof_data p))
      (context_data (va_proof_data (wf_amount_validity_proof_data p))) (context_data (wf_percentage_proof_data p))
      (context_data (wf_fee_validity_proof_data p)) (context_data (wf_range_proof_data p))
      (tf_transfer_fee_basis_points F) (tf_maximum_fee F) = Ok ctx \<and>
    fp_withdraw_withheld_authority ctx = keypair_pubkey (proof_sdk C) w \<and>
    check_auditor zk (fp_ciphertext_lo ctx) (fp_ciphertext_hi ctx) (va_ciphertext_lo (wf_amount_validity_proof_data p))
      (va_ciphertext_hi (wf_amount_validity_proof_data p)) = Ok () \<and>
    debit_source zk (fp_source ctx) (fp_ciphertext_lo ctx) (fp_ciphertext_hi ctx) (fp_new_source_ciphertext ctx) d e = Ok e' \<and>
    credit_destination zk (fp_destination ctx) (fp_ciphertext_lo ctx) (fp_ciphertext_hi ctx) f = Ok f' \<and>
    withhold_confidential_fee zk ctx f' tlv = Ok tlv' \<and>
    client_view C E secret k key e' lo hi (available - unat amount) \<and>
    x < 2 ^ 16 \<and> x + 65536 * y = unat amount \<and> calculate_fee F amount = Some fee \<and>
    fee_received C E secret k' w tlv' (lo' + x) (unat fee mod 65536) (hi' + y) (unat fee div 65536) (withheld_fees + unat fee)"
proof -
  note v = assms(2) [unfolded client_view_def] and v' = assms(4) [unfolded client_view_def]
  note d1 = new_decryptable_debited_Ok(1) [OF assms(1,2,9), of nonce InsufficientFunds]
    and d2 = new_decryptable_debited_Ok(2) [OF assms(1,2,9), of nonce]
    and d3 = new_decryptable_debited_Ok(4,5) [OF assms(1,2,9)]
  note i = view_decrypts [OF assms(1,2)]
  obtain c where c: "cta_available_balance e = enc_ciphertext E c" "plain E (secret k) c available"
    using v by (auto simp: holds_def)
  obtain a where a: "a = (case auditor of Some a \<Rightarrow> a | None \<Rightarrow> 0)" by simp
  let ?d = "ae_encrypt C key nonce (of_nat (available - unat amount))"
    and ?S = "proof_sdk C" and ?ks = "[keypair_pubkey (proof_sdk C) k, cta_elgamal_pubkey f, a]"
    and ?w = "keypair_pubkey (proof_sdk C) w"
  obtain p x y flo fhi fee new where p: "transfer_with_fee_split_proof_data zk ?S R FO c (cta_decryptable_available_balance e) amount k key
      (cta_elgamal_pubkey f) auditor ?w (tf_transfer_fee_basis_points F) (tf_maximum_fee F) = Ok p"
    "verify_and_extract_transfer_with_fee zk (context_data (wf_equality_proof_data p))
      (context_data (va_proof_data (wf_amount_validity_proof_data p))) (context_data (wf_percentage_proof_data p))
      (context_data (wf_fee_validity_proof_data p)) (context_data (wf_range_proof_data p))
      (tf_transfer_fee_basis_points F) (tf_maximum_fee F) =
      Ok \<lparr>fp_ciphertext_lo = enc_grouped3 E (encrypt_with ?S ?ks x (opening_lo R)),
          fp_ciphertext_hi = enc_grouped3 E (encrypt_with ?S ?ks y (opening_hi R)),
          fp_source = keypair_pubkey ?S k, fp_destination = cta_elgamal_pubkey f, fp_auditor = a, fp_withdraw_withheld_authority = ?w,
          fp_new_source_ciphertext = new,
          fp_fee_ciphertext_lo = enc_grouped2 E (encrypt_with ?S [cta_elgamal_pubkey f, ?w] flo (opening_fee_lo FO)),
          fp_fee_ciphertext_hi = enc_grouped2 E (encrypt_with ?S [cta_elgamal_pubkey f, ?w] fhi (opening_fee_hi FO))\<rparr>"
    "check_auditor zk (enc_grouped3 E (encrypt_with ?S ?ks x (opening_lo R))) (enc_grouped3 E (encrypt_with ?S ?ks y (opening_hi R)))
      (va_ciphertext_lo (wf_amount_validity_proof_data p)) (va_ciphertext_hi (wf_amount_validity_proof_data p)) = Ok ()"
    "debit_source zk (keypair_pubkey ?S k) (enc_grouped3 E (encrypt_with ?S ?ks x (opening_lo R)))
      (enc_grouped3 E (encrypt_with ?S ?ks y (opening_hi R))) new ?d e =
      Ok (e\<lparr>cta_available_balance := new, cta_decryptable_available_balance := ?d\<rparr>)"
    "holds E (secret k) new (unat (of_nat available - amount))" "unat x < 2 ^ 16" "unat amount = unat x + 65536 * unat y"
    "calculate_fee F amount = Some fee" "try_split_u64 fee FEE_AMOUNT_LO_BITS = Some (flo, fhi)"
    using transfer_with_fee_proofs_accepted [OF client_behavesD(1) [OF assms(1)] c(1), of k "of_nat available" key amount F a auditor
        R FO "cta_elgamal_pubkey f" ?w ?d] v c(2) d3 i(6) assms(7,10,11) a by auto
  have fee: "unat flo = unat fee mod 65536" "unat fhi = unat fee div 65536"
    using p(9) try_split_u64_correct [of 16 fee] by (auto simp: FEE_AMOUNT_LO_BITS_def)
  define ctx where "ctx = \<lparr>fp_ciphertext_lo = enc_grouped3 E (encrypt_with ?S ?ks x (opening_lo R)),
          fp_ciphertext_hi = enc_grouped3 E (encrypt_with ?S ?ks y (opening_hi R)),
          fp_source = keypair_pubkey ?S k, fp_destination = cta_elgamal_pubkey f, fp_auditor = a, fp_withdraw_withheld_authority = ?w,
          fp_new_source_ciphertext = new,
          fp_fee_ciphertext_lo = enc_grouped2 E (encrypt_with ?S [cta_elgamal_pubkey f, ?w] flo (opening_fee_lo FO)),
          fp_fee_ciphertext_hi = enc_grouped2 E (encrypt_with ?S [cta_elgamal_pubkey f, ?w] fhi (opening_fee_hi FO))\<rparr>"
  obtain f' where f': "credit_destination zk (cta_elgamal_pubkey f) (enc_grouped3 E (encrypt_with ?S ?ks x (opening_lo R)))
      (enc_grouped3 E (encrypt_with ?S ?ks y (opening_hi R))) f = Ok f'"
    "client_view C E secret k' key' f' (lo' + unat x) (hi' + unat y) available'"
    using credited_view [OF assms(1,4,8), of ?ks x "opening_lo R" y "opening_hi R"] v' by auto
  obtain tlv' pl ph u where t: "withhold_confidential_fee zk ctx f' tlv = Ok tlv'"
    "get_extension AccountBase ConfidentialTransferAccountX tlv' = Ok (f'\<lparr>cta_pending_balance_lo := pl, cta_pending_balance_hi := ph\<rparr>)"
    "holds_diff E (secret k') pl (lo' + unat x) (unat flo)" "holds_diff E (secret k') ph (hi' + unat y) (unat fhi)"
    "get_extension AccountBase ConfidentialTransferFeeAmountX tlv' = Ok (g\<lparr>cfa_withheld_amount := u\<rparr>)"
    "holds E (secret w) u (withheld_fees + (unat flo + 65536 * unat fhi))"
    using f'(2) v' unfolding client_view_def
    by (elim conjE) (rule withhold_view [OF assms(1,3,5,6), of k' f' "lo' + unat x" "hi' + unat y" ctx flo "opening_fee_lo FO"
        fhi "opening_fee_hi FO"], simp_all add: ctx_def)
  have "transfer_with_fee_info_proof_data zk C R FO (balance_info e) amount k key (cta_elgamal_pubkey f)
      auditor ?w (tf_transfer_fee_basis_points F) (tf_maximum_fee F) = Ok p"
    by (simp add: transfer_with_fee_info_proof_data_def balance_info_def c(1) client_behavesD(3) [OF assms(1)] ae_from_def i(5) p(1))
  moreover have "client_view C E secret k key
      (e\<lparr>cta_available_balance := new, cta_decryptable_available_balance := ?d\<rparr>) lo hi (available - unat amount)"
    using v d2 p(5) d3 by (simp add: client_view_def unat_sub)
  moreover have "fee_received C E secret k' w tlv' (lo' + unat x) (unat fee mod 65536) (hi' + unat y) (unat fee div 65536)
      (withheld_fees + unat fee)"
    using t(2-6) mod_mult_div_eq [of "unat fee" 65536] by (simp add: fee_received_def fee)
  ultimately show ?thesis
    using d1 p(2-4,6-8) f'(1) t(1)
    by (intro exI [of _ p] exI [of _ ?d] exI [of _ ctx]
        exI [of _ "e\<lparr>cta_available_balance := new, cta_decryptable_available_balance := ?d\<rparr>"] exI [of _ f'] exI [of _ tlv']
        exI [of _ "unat x"] exI [of _ "unat y"] exI [of _ fee]) (simp add: ctx_def)
qed

text \<open>
  C32: a confidential transfer with fee from end to end.  From the state of its account alone the client
  of the source makes five proofs and a new decryptable balance, the program accepts them, the two balances of the
  source agree on the rest, the withheld fees grow by the fee the interface calculates, and if the parts of the
  pending balance of the destination stay in range, its client reads a pending balance grown by the amount less
  the fee.
\<close>

theorem client_fee_transfer_completes:
  fixes C :: "('g::ab_group_add, 'o::ab_group_add, 'c::ab_group_add, 'k, 's) ClientSdk"
  assumes "client_behaves zk C E secret" "client_view C E secret k key e lo hi available"
    and "get_extension AccountBase ConfidentialTransferAccountX tlv = Ok f" "client_view C E secret k' key' f lo' hi' available'"
    and "get_extension AccountBase ConfidentialTransferFeeAmountX tlv = Ok g" "holds E (secret w) (cfa_withheld_amount g) withheld_fees"
    and "valid_as_source e = Ok ()" "valid_as_destination f = Ok ()" "unat amount \<le> available" "unat amount < 2 ^ 48"
    and "tf_transfer_fee_basis_points F \<le> MAX_FEE_BASIS_POINTS" "calculate_fee F amount = Some fee"
    and "unat fee mod 65536 \<le> lo' + unat amount mod 65536" "lo' + unat amount mod 65536 < 2 ^ 32"
    and "unat fee div 65536 \<le> hi' + unat amount div 65536" "hi' + unat amount div 65536 < 2 ^ 32"
  shows "\<exists>p d ctx e' f' tlv' f'' g''. transfer_with_fee_info_proof_data zk C R FO (balance_info e) amount k key (cta_elgamal_pubkey f)
      auditor (keypair_pubkey (proof_sdk C) w) (tf_transfer_fee_basis_points F) (tf_maximum_fee F) = Ok p \<and>
    new_decryptable_debited C nonce InsufficientFunds (balance_info e) amount key = Ok d \<and>
    verify_and_extract_transfer_with_fee zk (context_data (wf_equality_proof_data p))
      (context_data (va_proof_data (wf_amount_validity_proof_data p))) (context_data (wf_percentage_proof_data p))
      (context_data (wf_fee_validity_proof_data p)) (context_data (wf_range_proof_data p))
      (tf_transfer_fee_basis_points F) (tf_maximum_fee F) = Ok ctx \<and>
    debit_source zk (fp_source ctx) (fp_ciphertext_lo ctx) (fp_ciphertext_hi ctx) (fp_new_source_ciphertext ctx) d e = Ok e' \<and>
    credit_destination zk (fp_destination ctx) (fp_ciphertext_lo ctx) (fp_ciphertext_hi ctx) f = Ok f' \<and>
    withhold_confidential_fee zk ctx f' tlv = Ok tlv' \<and>
    client_view C E secret k key e' lo hi (available - unat amount) \<and>
    get_extension AccountBase ConfidentialTransferAccountX tlv' = Ok f'' \<and>
    get_extension AccountBase ConfidentialTransferFeeAmountX tlv' = Ok g'' \<and>
    get_pending_balance C (apply_pending_info f'') (keypair_secret C k') =
      Ok (of_nat ((lo' + 65536 * hi') + (unat amount - unat fee))) \<and>
    holds E (secret w) (cfa_withheld_amount g'') (withheld_fees + unat fee)"
proof -
  obtain p d ctx e' f' tlv' x y fee' where h: "transfer_with_fee_info_proof_data zk C R FO (balance_info e) amount k key (cta_elgamal_pubkey f)
      auditor (keypair_pubkey (proof_sdk C) w) (tf_transfer_fee_basis_points F) (tf_maximum_fee F) = Ok p"
    "new_decryptable_debited C nonce InsufficientFunds (balance_info e) amount key = Ok d"
    "verify_and_extract_transfer_with_fee zk (context_data (wf_equality_proof_data p))
      (context_data (va_proof_data (wf_amount_validity_proof_data p))) (context_data (wf_percentage_proof_data p))
      (context_data (wf_fee_validity_proof_data p)) (context_data (wf_range_proof_data p))
      (tf_transfer_fee_basis_points F) (tf_maximum_fee F) = Ok ctx"
    "debit_source zk (fp_source ctx) (fp_ciphertext_lo ctx) (fp_ciphertext_hi ctx) (fp_new_source_ciphertext ctx) d e = Ok e'"
    "credit_destination zk (fp_destination ctx) (fp_ciphertext_lo ctx) (fp_ciphertext_hi ctx) f = Ok f'"
    "withhold_confidential_fee zk ctx f' tlv = Ok tlv'" "client_view C E secret k key e' lo hi (available - unat amount)"
    and xy: "x < 2 ^ 16" "x + 65536 * y = unat amount" "calculate_fee F amount = Some fee'"
    and r: "fee_received C E secret k' w tlv' (lo' + x) (unat fee' mod 65536) (hi' + y) (unat fee' div 65536) (withheld_fees + unat fee')"
    using fee_transfer_made [OF assms(1-11), of R FO auditor nonce] by fast
  have fee': "fee' = fee" using xy(3) assms(12) by simp
  have split: "x = unat amount mod 65536" "y = unat amount div 65536" using xy(1) unfolding xy(2) [symmetric] by simp_all
  define m where "m = (lo' + x) - unat fee mod 65536"
  define n where "n = (hi' + y) - unat fee div 65536"
  have mn: "lo' + x = m + unat fee mod 65536" "hi' + y = n + unat fee div 65536" "m < 2 ^ 32" "n < 2 ^ 32"
    using assms(13-16) by (simp_all add: m_def n_def split)
  obtain f'' g'' where t: "get_extension AccountBase ConfidentialTransferAccountX tlv' = Ok f''"
    "get_extension AccountBase ConfidentialTransferFeeAmountX tlv' = Ok g''"
    "holds E (secret k') (cta_pending_balance_lo f'') m" "holds E (secret k') (cta_pending_balance_hi f'') n"
    "holds E (secret w) (cfa_withheld_amount g'') (withheld_fees + unat fee)"
    using r unfolding fee' fee_received_def mn(1,2) by (blast dest: holds_diff_holds)
  have le: "unat fee \<le> unat amount"
    using calculate_fee_Some [OF assms(11), of amount] assms(11,12) fee_spec_le [of "bps F" "cap F" "unat amount"]
    by (auto simp: word_le_nat_alt MAX_FEE_BASIS_POINTS_def)
  have "m + 65536 * n + unat fee = (lo' + x) + 65536 * (hi' + y)"
    unfolding mn(1,2) distrib_left using mod_mult_div_eq [of "unat fee" 65536] by linarith
  then have v: "m + 65536 * n = (lo' + 65536 * hi') + (unat amount - unat fee)" using xy(2) le unfolding distrib_left by linarith
  have "get_pending_balance C (apply_pending_info f'') (keypair_secret C k') = Ok (of_nat (m + 65536 * n))"
    using decrypted_pending [OF assms(1) t(3) mn(3)] decrypted_pending [OF assms(1) t(4) mn(4)] combine_pending [OF mn(3,4)]
    by (simp add: get_pending_balance_def apply_pending_info_def or_error_def)
  with h t(1,2,5) show ?thesis unfolding v by fast
qed

section \<open>Fees that make the pending balance unreadable\<close>

text \<open>
  Decryption finds only what the ciphertext holds, and the order of the base point is beyond the sums at hand.
\<close>

definition decrypts_only ::
  "('g::ab_group_add, 'o, 'c::ab_group_add, 'k, 's) ClientSdk \<Rightarrow> ('g, 'c) Encodings \<Rightarrow> ('k \<Rightarrow> nat) \<Rightarrow> bool" where
  "decrypts_only C E secret \<longleftrightarrow>
     (\<forall>k c x. decrypt_u32 C (keypair_secret C k) c = Some x \<longrightarrow> plain E (secret k) c (unat x) \<and> unat x < 2 ^ 32) \<and>
     (\<forall>n. 0 < n \<and> n < 2 ^ 33 \<longrightarrow> amount_point (dec_point E) n \<noteq> 0)"

lemma negative_undecryptable:
  fixes C :: "('g::ab_group_add, 'o::ab_group_add, 'c::ab_group_add, 'k, 's) ClientSdk"
  assumes "client_behaves zk C E secret" "decrypts_only C E secret" "holds_diff E (secret k) ct m n" "m < n" "n < 2 ^ 32"
  shows "decrypted_pending_balance C (keypair_secret C k) ct = Err (ClientError AccountDecryption)"
proof -
  obtain c where c: "ct = enc_ciphertext E c" "fst (ciphertext_parts E c) - scale (secret k) (snd (ciphertext_parts E c)) =
      amount_point (dec_point E) m - amount_point (dec_point E) n"
    using assms(3) by (auto simp: holds_diff_def)
  have "decrypt_u32 C (keypair_secret C k) c = None"
  proof (rule ccontr)
    assume "decrypt_u32 C (keypair_secret C k) c \<noteq> None"
    then obtain x where "decrypt_u32 C (keypair_secret C k) c = Some x" by blast
    then have x: "plain E (secret k) c (unat x)" "unat x < 2 ^ 32"
      using assms(2) [unfolded decrypts_only_def, THEN conjunct1, rule_format] by auto
    have e: "amount_point (dec_point E) (unat x) = amount_point (dec_point E) m - amount_point (dec_point E) n"
      using x(1) unfolding plain_def c(2) by (rule sym)
    have "amount_point (dec_point E) (unat x + n) = amount_point (dec_point E) m"
      unfolding amount_point_add e by simp
    moreover have "amount_point (dec_point E) (unat x + n) =
        amount_point (dec_point E) (unat x + (n - m)) + amount_point (dec_point E) m"
      unfolding amount_point_add [symmetric] using assms(4) by (intro arg_cong [of _ _ "amount_point (dec_point E)"]) simp
    ultimately have "amount_point (dec_point E) (unat x + (n - m)) = 0" by simp
    moreover have "0 < unat x + (n - m)" "unat x + (n - m) < 2 ^ 33" using x(2) assms(4,5) by simp_all
    ultimately show False using assms(2) [unfolded decrypts_only_def, THEN conjunct2, rule_format, of "unat x + (n - m)"] by blast
  qed
  then show ?thesis
    by (simp add: decrypted_pending_balance_def c(1) client_behavesD(3) [OF assms(1)] or_error_def)
qed

text \<open>
  C33: a confidential transfer with fee can leave the destination with a pending balance its client cannot
  read.  If the low 16 bits of the fee exceed the low part pending at the destination together with the low 16 bits
  of the amount, the program accepts the transfer, and then the client of the destination gets a decryption error
  from reading the pending balance and from computing the new decryptable balance it needs to apply it.
\<close>

theorem fee_can_strand_pending_balance:
  fixes C :: "('g::ab_group_add, 'o::ab_group_add, 'c::ab_group_add, 'k, 's) ClientSdk"
  assumes "client_behaves zk C E secret" "decrypts_only C E secret" "client_view C E secret k key e lo hi available"
    and "get_extension AccountBase ConfidentialTransferAccountX tlv = Ok f" "client_view C E secret k' key' f lo' hi' available'"
    and "get_extension AccountBase ConfidentialTransferFeeAmountX tlv = Ok g" "holds E (secret w) (cfa_withheld_amount g) withheld_fees"
    and "valid_as_source e = Ok ()" "valid_as_destination f = Ok ()" "unat amount \<le> available" "unat amount < 2 ^ 48"
    and "tf_transfer_fee_basis_points F \<le> MAX_FEE_BASIS_POINTS" "calculate_fee F amount = Some fee"
    and "lo' + unat amount mod 65536 < unat fee mod 65536"
  shows "\<exists>p ctx e' f' tlv' f''. transfer_with_fee_info_proof_data zk C R FO (balance_info e) amount k key (cta_elgamal_pubkey f)
      auditor (keypair_pubkey (proof_sdk C) w) (tf_transfer_fee_basis_points F) (tf_maximum_fee F) = Ok p \<and>
    verify_and_extract_transfer_with_fee zk (context_data (wf_equality_proof_data p))
      (context_data (va_proof_data (wf_amount_validity_proof_data p))) (context_data (wf_percentage_proof_data p))
      (context_data (wf_fee_validity_proof_data p)) (context_data (wf_range_proof_data p))
      (tf_transfer_fee_basis_points F) (tf_maximum_fee F) = Ok ctx \<and>
    debit_source zk (fp_source ctx) (fp_ciphertext_lo ctx) (fp_ciphertext_hi ctx) (fp_new_source_ciphertext ctx) d e = Ok e' \<and>
    credit_destination zk (fp_destination ctx) (fp_ciphertext_lo ctx) (fp_ciphertext_hi ctx) f = Ok f' \<and>
    withhold_confidential_fee zk ctx f' tlv = Ok tlv' \<and>
    get_extension AccountBase ConfidentialTransferAccountX tlv' = Ok f'' \<and>
    get_pending_balance C (apply_pending_info f'') (keypair_secret C k') = Err (ClientError AccountDecryption) \<and>
    new_decryptable_applied C nonce (apply_pending_info f'') (keypair_secret C k') key' = Err (ClientError AccountDecryption)"
proof -
  obtain p d' ctx e' f' tlv' x y fee' where h: "transfer_with_fee_info_proof_data zk C R FO (balance_info e) amount k key (cta_elgamal_pubkey f)
      auditor (keypair_pubkey (proof_sdk C) w) (tf_transfer_fee_basis_points F) (tf_maximum_fee F) = Ok p"
    "verify_and_extract_transfer_with_fee zk (context_data (wf_equality_proof_data p))
      (context_data (va_proof_data (wf_amount_validity_proof_data p))) (context_data (wf_percentage_proof_data p))
      (context_data (wf_fee_validity_proof_data p)) (context_data (wf_range_proof_data p))
      (tf_transfer_fee_basis_points F) (tf_maximum_fee F) = Ok ctx"
    "debit_source zk (fp_source ctx) (fp_ciphertext_lo ctx) (fp_ciphertext_hi ctx) (fp_new_source_ciphertext ctx) d' e = Ok e'"
    "credit_destination zk (fp_destination ctx) (fp_ciphertext_lo ctx) (fp_ciphertext_hi ctx) f = Ok f'"
    "withhold_confidential_fee zk ctx f' tlv = Ok tlv'"
    and xy: "x < 2 ^ 16" "x + 65536 * y = unat amount" "calculate_fee F amount = Some fee'"
    and r: "fee_received C E secret k' w tlv' (lo' + x) (unat fee' mod 65536) (hi' + y) (unat fee' div 65536) (withheld_fees + unat fee')"
    using fee_transfer_made [OF assms(1,3-12), of R FO auditor nonce] by fast
  have fee': "fee' = fee" using xy(3) assms(13) by simp
  have split: "x = unat amount mod 65536" using xy(1) unfolding xy(2) [symmetric] by simp
  obtain f'' where t: "get_extension AccountBase ConfidentialTransferAccountX tlv' = Ok f''"
    "holds_diff E (secret k') (cta_pending_balance_lo f'') (lo' + x) (unat fee mod 65536)"
    using r unfolding fee' fee_received_def by blast
  have "unat fee mod 65536 < 65536" by simp
  then have "decrypted_pending_balance C (keypair_secret C k') (cta_pending_balance_lo f'') = Err (ClientError AccountDecryption)"
    using negative_undecryptable [OF assms(1,2) t(2)] assms(14) unfolding split by simp
  then have "get_pending_balance C (apply_pending_info f'') (keypair_secret C k') = Err (ClientError AccountDecryption)"
    "new_decryptable_applied C nonce (apply_pending_info f'') (keypair_secret C k') key' = Err (ClientError AccountDecryption)"
    by (simp_all add: get_pending_balance_def new_decryptable_applied_def apply_pending_info_def)
  moreover have "\<exists>e'. debit_source zk (fp_source ctx) (fp_ciphertext_lo ctx) (fp_ciphertext_hi ctx) (fp_new_source_ciphertext ctx) d e = Ok e'"
    using h(3) by (auto simp: debit_source_def res_simps split: if_splits)
  ultimately show ?thesis using h(1,2,4,5) t(1) by fast
qed

end
