(* ===== verification/Client_Scenario.thy ===== *)
theory Client_Scenario
  imports Client_Supply Client_Fee Confidential_Scenario
begin

text \<open>
  A concrete SDK for the properties of the client functions: points are 256-bit words, the handles of a ciphertext
  and the secrets of the keys are zero, a key pair is its public key, a proof is its context, and an amount
  decrypts by multiplication with the number that takes the base point to 2.
\<close>

definition demo_pedersen :: "u64 \<Rightarrow> 256 word \<Rightarrow> 256 word" where
  "demo_pedersen x r = of_nat (unat x) * G_POINT"

definition demo_context :: "'u \<Rightarrow> ProofGenerationError + 'u ProofData" where
  "demo_context c = Ok \<lparr>context_data = c, pd_bytes = []\<rparr>"

definition demo_range_context :: "256 word list \<Rightarrow> u64 list \<Rightarrow> nat list \<Rightarrow> 256 word list \<Rightarrow>
    ProofGenerationError + BatchedRangeProofContext ProofData" where
  "demo_range_context Ps xs bs rs = demo_context \<lparr>rp_commitments = Ps @ replicate (8 - length Ps) 0,
     rp_bit_lengths = map of_nat bs @ replicate (8 - length bs) 0\<rparr>"

definition demo_sdk :: "(256 word, 256 word, 256 word, pubkey) ProofSdk" where
  "demo_sdk = \<lparr>keypair_pubkey = (\<lambda>k. k), pedersen_with = demo_pedersen,
     encrypt_with = (\<lambda>ks x r. (demo_pedersen x r, replicate (length ks) 0)),
     to_elgamal_ciphertext = (\<lambda>g i. Some (fst g)),
     elgamal_encode = (\<lambda>x. of_nat (unat x) * G_POINT),
     ae_decrypt = (\<lambda>_ c. Some (ucast c)),
     new_equality = (\<lambda>k c P r x. demo_context
       \<lparr>ce_pubkey = k, ce_ciphertext = ristretto_to_elgamal_ciphertext c 0, ce_commitment = P\<rparr>),
     new_validity3 = (\<lambda>a b c lo hi x y r s. demo_context
       \<lparr>v3_first_pubkey = a, v3_second_pubkey = b, v3_third_pubkey = c,
        v3_grouped_ciphertext_lo = ucast (fst lo), v3_grouped_ciphertext_hi = ucast (fst hi)\<rparr>),
     new_validity2 = (\<lambda>a b lo hi x y r s. demo_context
       \<lparr>v2_first_pubkey = a, v2_second_pubkey = b,
        v2_grouped_ciphertext_lo = ucast (fst lo), v2_grouped_ciphertext_hi = ucast (fst hi)\<rparr>),
     new_range_u64 = demo_range_context, new_range_u128 = demo_range_context, new_range_u256 = demo_range_context,
     new_percentage = (\<lambda>P r x D dr dx C cr m. demo_context
       \<lparr>pw_percentage_commitment = P, pw_delta_commitment = D, pw_claimed_commitment = C, pw_max_value = m\<rparr>)\<rparr>"

definition demo_encodings :: "(256 word, 256 word) Encodings" where
  "demo_encodings = \<lparr>enc_point = (\<lambda>p. p), dec_point = Some, enc_ciphertext = (\<lambda>c. ristretto_to_elgamal_ciphertext c 0),
     enc_grouped3 = (\<lambda>g. ucast (fst g)), enc_grouped2 = (\<lambda>g. ucast (fst g)), ciphertext_parts = (\<lambda>c. (c, 0))\<rparr>"

definition client_zk :: ZkSdk where
  "client_zk = demo_zk [0, 0, 0] 0 0"

lemma ucast_768 [simp]: "ucast (ucast (x :: 256 word) :: 768 word) = x"
  by (rule ucast_up_ucast_id) (simp add: is_up)

lemma demo_encodes: "sdk_encodes client_zk demo_encodings"
  by (simp add: sdk_encodes_def client_zk_def demo_encodings_def enc_parts_def word_curve_group)

lemma demo_encrypts: "sdk_encrypts client_zk demo_sdk demo_encodings (\<lambda>_. 0)"
  unfolding sdk_encrypts_def
proof (intro conjI allI)
  show "\<exists>H. (\<forall>r s. H (r + s) = H r + H s) \<and>
      (\<forall>x r. pedersen_with demo_sdk x r = amount_point (dec_point demo_encodings) (unat x) + H r)"
    by (rule exI [of _ "\<lambda>_. 0"])
       (simp add: demo_sdk_def demo_pedersen_def demo_encodings_def amount_point_def scale_word)
  show "\<exists>hs. length hs = length ks \<and> encrypt_with demo_sdk ks x r = (pedersen_with demo_sdk x r, hs) \<and>
        (\<forall>i k. i < length ks \<longrightarrow> ks ! i = keypair_pubkey demo_sdk k \<longrightarrow>
           pedersen_with demo_sdk x r - scale 0 (hs ! i) = amount_point (dec_point demo_encodings) (unat x)) \<and>
        (\<forall>i<length ks. \<exists>c. to_elgamal_ciphertext demo_sdk (encrypt_with demo_sdk ks x r) i = Some c \<and>
           ciphertext_parts demo_encodings c = (pedersen_with demo_sdk x r, hs ! i)) \<and>
        (length ks = 3 \<longrightarrow>
           zk_extract_commitment3 client_zk (enc_grouped3 demo_encodings (encrypt_with demo_sdk ks x r)) =
             enc_point demo_encodings (pedersen_with demo_sdk x r) \<and>
           (\<forall>i<3. zk_extract_ciphertext3 client_zk (enc_grouped3 demo_encodings (encrypt_with demo_sdk ks x r)) i =
              Some (enc_parts demo_encodings (pedersen_with demo_sdk x r) (hs ! i)))) \<and>
        (length ks = 2 \<longrightarrow>
           zk_extract_commitment2 client_zk (enc_grouped2 demo_encodings (encrypt_with demo_sdk ks x r)) =
             enc_point demo_encodings (pedersen_with demo_sdk x r) \<and>
           (\<forall>i<2. zk_extract_ciphertext2 client_zk (enc_grouped2 demo_encodings (encrypt_with demo_sdk ks x r)) i =
              Some (enc_parts demo_encodings (pedersen_with demo_sdk x r) (hs ! i))))" for ks x r
    by (rule exI [of _ "replicate (length ks) 0"])
       (simp add: demo_sdk_def demo_pedersen_def demo_encodings_def amount_point_def scale_word client_zk_def demo_zk_def
         demo_extract_def enc_parts_def)
  show "ciphertext_parts demo_encodings (elgamal_encode demo_sdk x) = (amount_point (dec_point demo_encodings) (unat x), 0)" for x
    by (simp add: demo_sdk_def demo_encodings_def amount_point_def scale_word)
qed

lemma demo_records: "sdk_records demo_sdk demo_encodings"
  by (auto simp: sdk_records_def demo_sdk_def demo_encodings_def demo_context_def demo_range_context_def range_context_def)

lemma demo_proves: "sdk_proves demo_sdk demo_encodings (\<lambda>_. 0)"
  by (simp add: sdk_proves_def demo_sdk_def demo_context_def demo_range_context_def is_ok_def)

lemma demo_behaves: "sdk_behaves client_zk demo_sdk demo_encodings (\<lambda>_. 0)"
  by (simp add: sdk_behaves_def demo_encodes demo_encrypts demo_records demo_proves)

section \<open>The client\<close>

definition demo_decrypt :: "256 word \<Rightarrow> u64 option" where
  "demo_decrypt c = (let x = ucast (drop_bit 1 (c * 53791545944753546064705739233432210807919838030128131458580118491175880763281)) :: u64
     in if unat x < 2 ^ 32 \<and> ucast x * G_POINT = c then Some x else None)"

definition demo_client :: "(256 word, 256 word, 256 word, pubkey, pubkey) ClientSdk" where
  "demo_client = \<lparr>proof_sdk = demo_sdk, keypair_secret = (\<lambda>k. k),
     elgamal_try_from = (\<lambda>ct. Some (fst (elgamal_ciphertext_to_ristretto ct))), ae_valid = (\<lambda>_. True),
     ae_encrypt = (\<lambda>key n x. ucast x), decrypt_u32 = (\<lambda>_. demo_decrypt), pubkey_encrypt_with = (\<lambda>_. demo_pedersen),
     new_zero_ciphertext = (\<lambda>k c. demo_context \<lparr>zc_pubkey = k, zc_ciphertext = ristretto_to_elgamal_ciphertext c 0\<rparr>),
     new_ciphertext_equality = (\<lambda>k pk c d r x. demo_context \<lparr>cc_first_pubkey = k, cc_second_pubkey = pk,
       cc_first_ciphertext = ristretto_to_elgamal_ciphertext c 0, cc_second_ciphertext = ristretto_to_elgamal_ciphertext d 0\<rparr>)\<rparr>"

lemma G_POINT_inverse: "G_POINT * 53791545944753546064705739233432210807919838030128131458580118491175880763281 = 2"
  by (simp add: G_POINT_def from_le_def)

lemma multiple_of_base: "drop_bit 1 (ucast x * G_POINT * 53791545944753546064705739233432210807919838030128131458580118491175880763281) = (ucast x :: 256 word)" for x :: u64
proof -
  have x: "unat (ucast x :: 256 word) = unat x" by (simp add: unat_ucast_up)
  have "unat x \<le> 18446744073709551615" using unat_u64_range(2) [of x] by linarith
  then have "unat (ucast x * 2 :: 256 word) = unat x * 2" by (simp add: unat_word_ariths x)
  then show ?thesis
    unfolding mult.assoc G_POINT_inverse word_unat_eq_iff unat_drop_bit_eq by (simp add: drop_bit_eq_div x)
qed

lemma ucast_points [simp]: "ucast (ucast (x :: u64) :: 256 word) = x"
  by (rule ucast_up_ucast_id) (simp add: is_up)

lemma demo_decrypt_amount: "unat x < 2 ^ 32 \<Longrightarrow> demo_decrypt (ucast x * G_POINT) = Some x"
  unfolding demo_decrypt_def Let_def multiple_of_base by simp

lemma demo_decrypt_Some: "demo_decrypt c = Some x \<Longrightarrow> ucast x * G_POINT = c \<and> unat x < 2 ^ 32"
  by (auto simp: demo_decrypt_def Let_def split: if_splits)

lemma ucast_ae [simp]: "ucast (ucast (x :: u64) :: ae_ciphertext) = x"
  by (rule ucast_up_ucast_id) (simp add: is_up)

lemma demo_client_decrypts: "client_decrypts demo_client demo_encodings (\<lambda>_. 0)"
  unfolding client_decrypts_def
  by (simp add: demo_client_def demo_encodings_def demo_sdk_def plain_def amount_point_def scale_word demo_pedersen_def)
     (simp add: demo_decrypt_amount)

lemma demo_client_behaves: "client_behaves client_zk demo_client demo_encodings (\<lambda>_. 0)"
  using demo_behaves demo_client_decrypts by (simp add: client_behaves_def demo_client_def)

lemma demo_decrypts_only: "decrypts_only demo_client demo_encodings (\<lambda>_. 0)"
  unfolding decrypts_only_def
proof (intro conjI allI impI)
  show "plain demo_encodings 0 c (unat x)" "unat x < 2 ^ 32"
    if "decrypt_u32 demo_client (keypair_secret demo_client k) c = Some x" for k c x
    using that demo_decrypt_Some [of c x]
    by (simp_all add: demo_client_def plain_def demo_encodings_def amount_point_def scale_word)
  show "amount_point (dec_point demo_encodings) n \<noteq> 0" if "0 < n \<and> n < 2 ^ 33" for n
  proof
    assume "amount_point (dec_point demo_encodings) n = 0"
    then have "of_nat n * G_POINT = 0" by (simp add: demo_encodings_def amount_point_def scale_word)
    moreover have n: "unat (of_nat n :: u64) = n" using that by (intro unat_of_nat_eq) simp
    then have "of_nat n = (ucast (of_nat n :: u64) :: 256 word)" by (metis of_nat_unat)
    ultimately have "ucast (of_nat n :: u64) = (0 :: 256 word)" using multiple_of_base [of "of_nat n"] by simp
    then have "(of_nat n :: u64) = 0" by (metis ucast_points unsigned_0)
    then show False using that n by simp
  qed
qed

lemma demo_client_proves: "client_proves demo_client demo_encodings (\<lambda>_. 0)"
  by (simp add: client_proves_def demo_client_def demo_sdk_def demo_encodings_def demo_context_def is_ok_def)

section \<open>The properties applied\<close>

definition demo_openings :: "256 word SplitOpenings" where
  "demo_openings = \<lparr>opening_lo = 1, opening_hi = 2, opening_new = 3, opening_padding = 4\<rparr>"

definition demo_fee_openings :: "256 word FeeOpenings" where
  "demo_fee_openings = \<lparr>opening_fee_lo = 5, opening_fee_hi = 6, opening_claimed = 7\<rparr>"

text \<open>An account of the key \<open>key\<close>, with \<open>x\<close> available and nothing pending.\<close>

definition client_account :: "pubkey \<Rightarrow> u64 \<Rightarrow> ConfidentialTransferAccount" where
  "client_account key x = (demo_confidential key (ucast x * G_POINT))\<lparr>cta_decryptable_available_balance := ucast x\<rparr>"

lemma demo_holds [simp]: "holds demo_encodings 0 (ristretto_to_elgamal_ciphertext (ucast (x :: u64) * G_POINT) 0) (unat x)"
  unfolding holds_def
  by (rule exI [of _ "ucast x * G_POINT"]) (simp add: demo_encodings_def plain_def amount_point_def scale_word)

lemma demo_view: "client_view demo_client demo_encodings (\<lambda>_. 0) key aes (client_account key x) 0 0 (unat x)"
  using holds_zero [OF demo_client_behaves, of 0]
  by (simp add: client_view_def client_account_def demo_confidential_def configured_account_def decodes_def)
     (simp add: demo_client_def demo_sdk_def)

lemma client_account_valid [simp]:
  "valid_as_source (client_account key x) = Ok ()" "valid_as_destination (client_account key x) = Ok ()"
  by (simp_all add: client_account_def valid_as_destination_def valid_as_source_def cta_is_approved_def demo_confidential_def
      configured_account_def checked_add_def pod_bool_def pod_bool_from_def)

text \<open>The account of the key 5 with ten available sends three to the key 6.\<close>

theorem client_transfer_completes_witness:
  "\<exists>p f'. transfer_info_proof_data client_zk demo_client demo_openings (balance_info (client_account 5 10)) 3 5 0
     (cta_elgamal_pubkey (client_account 6 0)) (Some 9) = Ok p \<and>
     get_pending_balance demo_client (apply_pending_info f') (keypair_secret demo_client 6) = Ok 3"
  using client_transfer_completes [OF demo_client_behaves demo_view [of 5 0 10] demo_view [of 6 0 0], of 3 demo_openings "Some 9"]
  by fastforce

text \<open>An account with seven pending, five of them in the high part.\<close>

definition pending_account :: ConfidentialTransferAccount where
  "pending_account = (client_account 5 10)\<lparr>cta_pending_balance_lo := ristretto_to_elgamal_ciphertext (ucast (2 :: u64) * G_POINT) 0,
     cta_pending_balance_hi := ristretto_to_elgamal_ciphertext (ucast (5 :: u64) * G_POINT) 0\<rparr>"

lemma pending_view: "client_view demo_client demo_encodings (\<lambda>_. 0) 5 0 pending_account 2 5 10"
  using demo_view [of 5 0 10] demo_holds [of 2] demo_holds [of 5]
  by (simp add: client_view_def pending_account_def)

theorem apply_pending_consistent_witness:
  "\<exists>d. new_decryptable_applied demo_client 0 (apply_pending_info pending_account) (keypair_secret demo_client 5) 0 = Ok d"
  using apply_pending_consistent [OF demo_client_behaves pending_view, of 0] by fastforce

text \<open>A mint of the key 5 of which ten tokens exist; its decryptable supply still says twelve.\<close>

definition client_mint :: ConfidentialMintBurn where
  "client_mint = \<lparr>cmb_confidential_supply = ristretto_to_elgamal_ciphertext (ucast (10 :: u64) * G_POINT) 0,
     cmb_decryptable_supply = 12, cmb_supply_elgamal_pubkey = 5, cmb_pending_burn = 0\<rparr>"

lemma mint_view: "supply_view demo_client demo_encodings (\<lambda>_. 0) 5 0 client_mint 10 12"
  using demo_holds [of 10]
  by (simp add: supply_view_def client_mint_def decodes_def) (simp add: demo_client_def demo_sdk_def)

theorem client_mint_completes_witness:
  "\<exists>p. mint_info_proof_data client_zk demo_client 1 demo_openings (supply_info client_mint) 3 5 0
     (cta_elgamal_pubkey (client_account 6 0)) (opt_key 9) = Ok p"
  using client_mint_completes [OF demo_client_behaves mint_view _ demo_view [of 6 0 0], of 3 1 demo_openings 9]
  by fastforce

section \<open>Fees\<close>

definition fee_account_entries :: "pubkey \<Rightarrow> u64 \<Rightarrow> (ExtensionType \<times> bytes) list" where
  "fee_account_entries key x =
     [(ExtensionType.ConfidentialTransferAccount, enc_ConfidentialTransferAccount (client_account key x)),
      (ExtensionType.ConfidentialTransferFeeAmount, enc_ConfidentialTransferFeeAmount
        \<lparr>cfa_withheld_amount = ristretto_to_elgamal_ciphertext (ucast (4 :: u64) * G_POINT) 0\<rparr>)]"

lemma fee_account_get:
  "get_extension AccountBase ConfidentialTransferAccountX (buffer (fee_account_entries key x) n) = Ok (client_account key x)"
  "get_extension AccountBase ConfidentialTransferFeeAmountX (buffer (fee_account_entries key x) n) =
     Ok \<lparr>cfa_withheld_amount = ristretto_to_elgamal_ciphertext (ucast (4 :: u64) * G_POINT) 0\<rparr>"
proof -
  have wf: "wf_entries (fee_account_entries key x)"
    by (simp add: fee_account_entries_def wf_entry_def enc_ConfidentialTransferAccount_def enc_ConfidentialTransferFeeAmount_def)
  show "get_extension AccountBase ConfidentialTransferAccountX (buffer (fee_account_entries key x) n) = Ok (client_account key x)"
    by (rule cta.get_extension_entries [OF wf]) (simp_all add: fee_account_entries_def ConfidentialTransferAccountX_def)
  show "get_extension AccountBase ConfidentialTransferFeeAmountX (buffer (fee_account_entries key x) n) =
     Ok \<lparr>cfa_withheld_amount = ristretto_to_elgamal_ciphertext (ucast (4 :: u64) * G_POINT) 0\<rparr>"
    by (rule cfa.get_extension_entries [OF wf]) (simp_all add: fee_account_entries_def ConfidentialTransferFeeAmountX_def)
qed

lemma fee_account_withheld:
  "holds demo_encodings 0 (cfa_withheld_amount \<lparr>cfa_withheld_amount = ristretto_to_elgamal_ciphertext (ucast (4 :: u64) * G_POINT) 0\<rparr>) 4"
  using demo_holds [of 4] by simp

text \<open>A fee of one percent, at most a thousand.\<close>

definition one_percent :: TransferFee where
  "one_percent = \<lparr>tf_epoch = 0, tf_maximum_fee = 1000, tf_transfer_fee_basis_points = 100\<rparr>"

lemma one_percent_valid: "tf_transfer_fee_basis_points one_percent \<le> MAX_FEE_BASIS_POINTS"
  by (simp add: one_percent_def MAX_FEE_BASIS_POINTS_def)

lemma one_percent_fees: "calculate_fee one_percent 200 = Some 2" "calculate_fee one_percent 65536 = Some 656"
  using calculate_fee_Some [OF one_percent_valid, of 200] calculate_fee_Some [OF one_percent_valid, of 65536]
  by (auto simp: one_percent_def fee_spec_def word_unat_eq_iff)

text \<open>A hundred and ninety-eight of two hundred tokens reach the destination.\<close>

theorem client_fee_transfer_completes_witness:
  "\<exists>f. get_pending_balance demo_client (apply_pending_info f) (keypair_secret demo_client 6) = Ok 198"
  using client_fee_transfer_completes [OF demo_client_behaves demo_view [of 5 0 1000] fee_account_get(1) [of 6 0 0] demo_view [of 6 0 0]
      fee_account_get(2) [of 6 0 0] fee_account_withheld, where amount = 200 and F = one_percent and fee = 2 and
      R = demo_openings and FO = demo_fee_openings and auditor = "Some 9" and w = 7 and nonce = 0] one_percent_valid one_percent_fees
  by fastforce

text \<open>Of 65536 tokens, the fee is 656: the low part of the pending balance would be -656.\<close>

theorem fee_can_strand_pending_balance_witness:
  "\<exists>f e. get_pending_balance demo_client (apply_pending_info f) (keypair_secret demo_client 6) = Err (ClientError AccountDecryption) \<and>
    new_decryptable_applied demo_client 0 (apply_pending_info f) (keypair_secret demo_client 6) 0 = Err e"
  using fee_can_strand_pending_balance [OF demo_client_behaves demo_decrypts_only demo_view [of 5 0 100000]
      fee_account_get(1) [of 6 0 0] demo_view [of 6 0 0]
      fee_account_get(2) [of 6 0 0] fee_account_withheld, where amount = 65536 and F = one_percent and fee = 656 and
      R = demo_openings and FO = demo_fee_openings and auditor = "Some 9" and w = 7 and nonce = 0] one_percent_valid one_percent_fees
  by fastforce

end
