(* ===== verification/Oft_Codec.thy ===== *)
theory Oft_Codec
  imports Prelude
begin

text \<open>
  The messages of the omnichain token program (src/layerzero/programs/oft/src): the transfer message
  (\<open>msg_codec.rs\<close>) and the message composed for the receiver (\<open>compose_msg_codec.rs\<close>), both with
  big-endian numbers at fixed offsets.  Reading a slice past the end of a message panics, which is the
  result \<open>None\<close> here.
\<close>

section \<open>Big-endian numbers and slices\<close>

definition to_be :: "nat \<Rightarrow> 'a::len word \<Rightarrow> bytes" where
  "to_be n w = rev (to_le n w)"

definition from_be :: "bytes \<Rightarrow> 'a::len word" where
  "from_be bs = from_le (rev bs)"

text \<open>\<open>message[from..to]\<close>\<close>

definition slice_range :: "nat \<Rightarrow> nat \<Rightarrow> bytes \<Rightarrow> bytes option" where
  "slice_range i j bs = (if i \<le> j \<and> j \<le> length bs then Some (subslice i (j - i) bs) else None)"

lemma length_to_be [simp]: "length (to_be n w) = n"
  by (simp add: to_be_def)

lemma from_be_to_be: "LENGTH('a) = 8 * n \<Longrightarrow> from_be (to_be n w) = (w :: 'a::len word)"
  by (simp add: from_be_def to_be_def from_le_to_le)

lemma to_be_from_be: "LENGTH('a) = 8 * n \<Longrightarrow> length bs = n \<Longrightarrow> to_be n (from_be bs :: 'a::len word) = bs"
  by (simp add: from_be_def to_be_def to_le_from_le)

interpretation u64_be_pod: pod 8 "to_be 8" "from_be :: bytes \<Rightarrow> u64"
  by unfold_locales (simp_all add: from_be_to_be to_be_from_be)

interpretation u32_be_pod: pod 4 "to_be 4" "from_be :: bytes \<Rightarrow> u32"
  by unfold_locales (simp_all add: from_be_to_be to_be_from_be)

section \<open>The transfer message\<close>

definition SEND_TO_OFFSET :: nat where "SEND_TO_OFFSET = 0"
definition SEND_AMOUNT_SD_OFFSET :: nat where "SEND_AMOUNT_SD_OFFSET = 32"
definition COMPOSE_MSG_OFFSET :: nat where "COMPOSE_MSG_OFFSET = 40"

definition msg_encode :: "bytes \<Rightarrow> u64 \<Rightarrow> pubkey \<Rightarrow> bytes option \<Rightarrow> bytes" where
  "msg_encode send_to amount_sd sender compose_msg =
     (case compose_msg of
        Some msg \<Rightarrow> send_to @ to_be 8 amount_sd @ to_le 32 sender @ msg
      | None \<Rightarrow> send_to @ to_be 8 amount_sd)"

definition msg_send_to :: "bytes \<Rightarrow> bytes option" where
  "msg_send_to message = slice_range SEND_TO_OFFSET SEND_AMOUNT_SD_OFFSET message"

definition msg_amount_sd :: "bytes \<Rightarrow> u64 option" where
  "msg_amount_sd message = map_option from_be (slice_range SEND_AMOUNT_SD_OFFSET COMPOSE_MSG_OFFSET message)"

definition msg_compose_msg :: "bytes \<Rightarrow> bytes option" where
  "msg_compose_msg message =
     (if length message > COMPOSE_MSG_OFFSET then Some (drop COMPOSE_MSG_OFFSET message) else None)"

section \<open>The composed message\<close>

definition NONCE_OFFSET :: nat where "NONCE_OFFSET = 0"
definition SRC_EID_OFFSET :: nat where "SRC_EID_OFFSET = 8"
definition AMOUNT_LD_OFFSET :: nat where "AMOUNT_LD_OFFSET = 12"
definition COMPOSE_FROM_OFFSET :: nat where "COMPOSE_FROM_OFFSET = 20"
definition COMPOSED_MSG_OFFSET :: nat where "COMPOSED_MSG_OFFSET = 52"

definition compose_encode :: "u64 \<Rightarrow> u32 \<Rightarrow> u64 \<Rightarrow> bytes \<Rightarrow> bytes" where
  "compose_encode nonce src_eid amount_ld compose_msg =
     to_be 8 nonce @ to_be 4 src_eid @ to_be 8 amount_ld @ compose_msg"

definition compose_nonce :: "bytes \<Rightarrow> u64 option" where
  "compose_nonce message = map_option from_be (slice_range NONCE_OFFSET SRC_EID_OFFSET message)"

definition compose_src_eid :: "bytes \<Rightarrow> u32 option" where
  "compose_src_eid message = map_option from_be (slice_range SRC_EID_OFFSET AMOUNT_LD_OFFSET message)"

definition compose_amount_ld :: "bytes \<Rightarrow> u64 option" where
  "compose_amount_ld message = map_option from_be (slice_range AMOUNT_LD_OFFSET COMPOSE_FROM_OFFSET message)"

definition compose_compose_from :: "bytes \<Rightarrow> bytes option" where
  "compose_compose_from message = slice_range COMPOSE_FROM_OFFSET COMPOSED_MSG_OFFSET message"

definition compose_compose_msg :: "bytes \<Rightarrow> bytes" where
  "compose_compose_msg message =
     (if length message > COMPOSED_MSG_OFFSET then drop COMPOSED_MSG_OFFSET message else [])"

lemmas msg_defs = SEND_TO_OFFSET_def SEND_AMOUNT_SD_OFFSET_def COMPOSE_MSG_OFFSET_def
  NONCE_OFFSET_def SRC_EID_OFFSET_def AMOUNT_LD_OFFSET_def COMPOSE_FROM_OFFSET_def COMPOSED_MSG_OFFSET_def
  msg_encode_def msg_send_to_def msg_amount_sd_def msg_compose_msg_def
  compose_encode_def compose_nonce_def compose_src_eid_def compose_amount_ld_def compose_compose_from_def
  compose_compose_msg_def slice_range_def

section \<open>What is read is what was written\<close>

lemma msg_read:
  assumes "length to = 32"
  shows "msg_send_to (msg_encode to amount sender c) = Some to"
    and "msg_amount_sd (msg_encode to amount sender c) = Some amount"
    and "msg_compose_msg (msg_encode to amount sender c) = map_option (\<lambda>m. to_le 32 sender @ m) c"
    and "length (msg_encode to amount sender c) = (case c of None \<Rightarrow> 40 | Some m \<Rightarrow> 72 + length m)"
  using assms by (auto simp: msg_defs subslice_simps u64_be_pod.dec_enc split: option.splits)

lemma compose_read:
  "compose_nonce (compose_encode nonce eid amount m) = Some nonce"
  "compose_src_eid (compose_encode nonce eid amount m) = Some eid"
  "compose_amount_ld (compose_encode nonce eid amount m) = Some amount"
  "length from = 32 \<Longrightarrow> compose_compose_from (compose_encode nonce eid amount (from @ m)) = Some from"
  "length from = 32 \<Longrightarrow> compose_compose_msg (compose_encode nonce eid amount (from @ m)) = m"
  by (auto simp: msg_defs subslice_simps u64_be_pod.dec_enc u32_be_pod.dec_enc)

text \<open>A message with an address, an amount and possibly a composed part is determined by what is read from it.\<close>

lemma msg_encode_inj:
  assumes "length to = 32" "length to' = 32" "msg_encode to a s c = msg_encode to' a' s' c'"
  shows "to = to'" "a = a'" "c = c'" "c \<noteq> None \<Longrightarrow> s = s'"
proof -
  note r = msg_read [OF assms(1), of a s c, unfolded assms(3)] msg_read [OF assms(2), of a' s' c']
  show "to = to'" "a = a'" using r(1,2,5,6) by simp_all
  have m: "map_option (\<lambda>m. to_le 32 s @ m) c = map_option (\<lambda>m. to_le 32 s' @ m) c'" using r(3,7) by simp
  then show "c = c'" by (cases c; cases c') auto
  show "s = s'" if "c \<noteq> None"
    using m that pubkey_pod.enc_inj by (cases c; cases c') auto
qed

text \<open>
  C38: a transfer message is read back as it was written by its sender, whatever follows it: the
  receiver, the amount in shared decimals, and, when there is a composed part, the key of the sender followed by
  it; the composed message delivered to the receiver gives back the nonce, the source chain, the amount, the
  sender and the payload.
\<close>

theorem oft_messages_roundtrip:
  assumes "length to = 32"
  shows "msg_send_to (msg_encode to amount sender c) = Some to \<and>
    msg_amount_sd (msg_encode to amount sender c) = Some amount \<and>
    msg_compose_msg (msg_encode to amount sender c) = map_option (\<lambda>m. to_le 32 sender @ m) c \<and>
    (\<forall>m nonce eid amount_ld. msg_compose_msg (msg_encode to amount sender c) = Some m \<longrightarrow>
       (let d = compose_encode nonce eid amount_ld m
        in compose_nonce d = Some nonce \<and> compose_src_eid d = Some eid \<and> compose_amount_ld d = Some amount_ld \<and>
           compose_compose_from d = Some (to_le 32 sender) \<and> Some (compose_compose_msg d) = c))"
  using msg_read [OF assms] by (auto simp: compose_read Let_def)

theorem oft_messages_roundtrip_witness:
  "msg_amount_sd (msg_encode (replicate 32 1) 123456789 7 (Some [1, 2, 3])) = Some 123456789"
  using oft_messages_roundtrip [of "replicate 32 1" 123456789 7 "Some [1, 2, 3]"] by simp

end
