(* ===== verification/Oft_State.thy ===== *)
theory Oft_State
  imports Oft_Codec Ledger
begin

text \<open>
  The state of the omnichain token program (src/layerzero/programs/oft/src/state) and the operations on it:
  the store of a token, the configuration of a remote chain with its rate limiters, and the errors
  (\<open>errors.rs\<close>).  The program is built with overflow checks, so arithmetic that leaves 64 bits panics.
\<close>

section \<open>Errors\<close>

datatype OFTError =
    Unauthorized | InvalidSender | InvalidDecimals | SlippageExceeded | InvalidTokenDest
  | RateLimitExceeded | InvalidFee | InvalidMintAuthority | Paused

text \<open>The error codes of the account framework that the constraints of the program and the writing back of its accounts can raise.\<close>

datatype AnchorError =
    AccountNotInitialized | AccountOwnedByWrongProgram | AccountNotSigner | InvalidProgramId
  | ConstraintSeeds | ConstraintAddress | ConstraintTokenOwner | ConstraintTokenMint
  | ConstraintTokenTokenProgram | ConstraintMintTokenProgram | ConstraintAssociated | AccountDidNotSerialize

datatype OftFailure = Oft OFTError | Anchor AnchorError | Program ProgramError

type_synonym 'a oft_result = "OftFailure + 'a"

text \<open>\<open>?\<close> on a result of the token program converts the error; arithmetic and slices panic.\<close>

definition lift :: "'a result \<Rightarrow> 'a oft_result" where
  "lift r = map_err Program r"

definition or_panic :: "'a option \<Rightarrow> 'a oft_result" where
  "or_panic v = ok_or v (Program Panicked)"

lemma lift_Ok [res_simps]: "lift r = Ok x \<longleftrightarrow> r = Ok x"
  by (simp add: lift_def res_simps)

lemma or_panic_Ok [res_simps]: "or_panic v = Ok x \<longleftrightarrow> v = Some x"
  by (simp add: or_panic_def res_simps)

lemma lift_simps [simp]: "lift (Ok x) = Ok x" "lift (Err e) = Err (Program e)"
  by (simp_all add: lift_def)

lemma or_panic_simps [simp]: "or_panic (Some x) = Ok x" "or_panic None = Err (Program Panicked)"
  by (simp_all add: or_panic_def)

section \<open>The store\<close>

datatype OFTType = Native | Adapter

record OFTStore =
  oft_type :: OFTType
  ld2sd_rate :: u64
  oft_token_mint :: pubkey
  oft_token_escrow :: pubkey
  oft_endpoint_program :: pubkey
  oft_bump :: u8
  tvl_ld :: u64
  oft_admin :: pubkey
  default_fee_bps :: u16
  oft_paused :: bool
  oft_pauser :: "pubkey option"
  oft_unpauser :: "pubkey option"

definition ld2sd :: "OFTStore \<Rightarrow> u64 \<Rightarrow> u64 oft_result" where
  "ld2sd self amount_ld = or_panic (checked_div amount_ld (ld2sd_rate self))"

definition sd2ld :: "OFTStore \<Rightarrow> u64 \<Rightarrow> u64 oft_result" where
  "sd2ld self amount_sd = or_panic (checked_mul amount_sd (ld2sd_rate self))"

definition remove_dust :: "OFTStore \<Rightarrow> u64 \<Rightarrow> u64 oft_result" where
  "remove_dust self amount_ld =
     (if ld2sd_rate self = 0 then Err (Program Panicked)
      else or_panic (checked_sub amount_ld (amount_ld mod ld2sd_rate self)))"

record LzReceiveTypesAccounts =
  lrt_oft_store :: pubkey
  lrt_token_mint :: pubkey

section \<open>Rate limiters\<close>

record RateLimiter =
  capacity :: u64
  tokens :: u64
  refill_per_second :: u64
  last_refill_time :: u64

definition RateLimiter_default :: RateLimiter where
  "RateLimiter_default = \<lparr>capacity = 0, tokens = 0, refill_per_second = 0, last_refill_time = 0\<rparr>"

definition saturating_mul :: "'a::len word \<Rightarrow> 'a word \<Rightarrow> 'a word" where
  "saturating_mul a b = (if unat a * unat b < 2 ^ LENGTH('a) then a * b else - 1)"

text \<open>\<open>Clock::get()?.unix_timestamp.try_into().unwrap()\<close>: the timestamp is signed and must not be negative.\<close>

definition current_time :: "Env \<Rightarrow> u64 oft_result" where
  "current_time env = and_then (lift (env_clock env)) (\<lambda>clock.
     if sint (clk_unix_timestamp clock) < 0 then Err (Program Panicked) else Ok (clk_unix_timestamp clock))"

definition refill :: "Env \<Rightarrow> u64 \<Rightarrow> RateLimiter \<Rightarrow> RateLimiter oft_result" where
  "refill env extra_tokens self =
     and_then (current_time env) (\<lambda>current_time.
     let new_tokens = (if current_time > last_refill_time self
           then saturating_add extra_tokens
             (saturating_mul (current_time - last_refill_time self) (refill_per_second self))
           else extra_tokens)
     in Ok (self\<lparr>tokens := min (capacity self) (saturating_add (tokens self) new_tokens),
                 last_refill_time := current_time\<rparr>))"

definition set_rate :: "Env \<Rightarrow> u64 \<Rightarrow> RateLimiter \<Rightarrow> RateLimiter oft_result" where
  "set_rate env rate self = and_then (refill env 0 self) (\<lambda>self. Ok (self\<lparr>refill_per_second := rate\<rparr>))"

definition set_capacity :: "Env \<Rightarrow> u64 \<Rightarrow> RateLimiter \<Rightarrow> RateLimiter oft_result" where
  "set_capacity env new_capacity self = and_then (current_time env) (\<lambda>now.
     Ok (self\<lparr>capacity := new_capacity, tokens := new_capacity, last_refill_time := now\<rparr>))"

definition try_consume :: "Env \<Rightarrow> u64 \<Rightarrow> RateLimiter \<Rightarrow> RateLimiter oft_result" where
  "try_consume env amount self = and_then (refill env 0 self) (\<lambda>self.
     case checked_sub (tokens self) amount of
       Some new_tokens \<Rightarrow> Ok (self\<lparr>tokens := new_tokens\<rparr>)
     | None \<Rightarrow> Err (Oft RateLimitExceeded))"

section \<open>The configuration of a remote chain\<close>

record EnforcedOptions =
  eo_send :: bytes
  eo_send_and_call :: bytes

record PeerConfig =
  peer_address :: bytes
  enforced_options :: EnforcedOptions
  outbound_rate_limiter :: "RateLimiter option"
  inbound_rate_limiter :: "RateLimiter option"
  peer_fee_bps :: "u16 option"
  peer_bump :: u8

definition PeerConfig_default :: PeerConfig where
  "PeerConfig_default = \<lparr>peer_address = replicate 32 0, enforced_options = \<lparr>eo_send = [], eo_send_and_call = []\<rparr>,
     outbound_rate_limiter = None, inbound_rate_limiter = None, peer_fee_bps = None, peer_bump = 0\<rparr>"

definition get_enforced_options :: "EnforcedOptions \<Rightarrow> bytes option \<Rightarrow> bytes" where
  "get_enforced_options self composed_msg = (if composed_msg = None then eo_send self else eo_send_and_call self)"

definition combine_options ::
  "(bytes \<Rightarrow> bytes \<Rightarrow> bytes oft_result) \<Rightarrow> EnforcedOptions \<Rightarrow> bytes option \<Rightarrow> bytes \<Rightarrow> bytes oft_result" where
  "combine_options oapp_combine self compose_msg extra_options =
     oapp_combine (get_enforced_options self compose_msg) extra_options"

section \<open>Amounts\<close>

lemma ld2sd_Ok [res_simps]: "ld2sd s x = Ok y \<longleftrightarrow> ld2sd_rate s \<noteq> 0 \<and> y = x div ld2sd_rate s"
  by (auto simp: ld2sd_def res_simps checked_div_def)

lemma sd2ld_unat: "sd2ld s x = Ok y \<Longrightarrow> unat y = unat x * unat (ld2sd_rate s)"
  by (auto simp: sd2ld_def res_simps dest: checked_mul_unat)

lemma remove_dust_Ok:
  "remove_dust s x = Ok y \<longleftrightarrow> ld2sd_rate s \<noteq> 0 \<and> unat y = unat x - unat x mod unat (ld2sd_rate s)"
proof -
  have "x mod ld2sd_rate s \<le> x" by (simp add: word_le_nat_alt unat_mod)
  moreover from this have "unat (x - x mod ld2sd_rate s) = unat x - unat x mod unat (ld2sd_rate s)"
    by (simp add: unat_sub unat_mod)
  ultimately show ?thesis
    by (auto simp: remove_dust_def res_simps checked_sub_Some intro: word_eqI_unat)
qed

lemma remove_dust_total: "ld2sd_rate s \<noteq> 0 \<Longrightarrow> \<exists>y. remove_dust s x = Ok y"
  by (auto simp: remove_dust_def checked_sub_def word_le_nat_alt unat_mod)

text \<open>The part below the rate is what sending drops: the rest is a multiple of the rate and the largest such.\<close>

lemma remove_dust_dvd:
  assumes "remove_dust s x = Ok y"
  shows "unat (ld2sd_rate s) dvd unat y" "y \<le> x" "unat x < unat y + unat (ld2sd_rate s)"
proof -
  have y: "unat y = unat x - unat x mod unat (ld2sd_rate s)" and r: "0 < unat (ld2sd_rate s)"
    using assms by (auto simp: remove_dust_Ok unat_gt_0)
  show "unat (ld2sd_rate s) dvd unat y" by (simp add: y dvd_minus_mod)
  show "y \<le> x" by (simp add: word_le_nat_alt y)
  show "unat x < unat y + unat (ld2sd_rate s)"
    using mod_less_divisor [OF r, of "unat x"] mod_less_eq_dividend [of "unat x" "unat (ld2sd_rate s)"]
    unfolding y by linarith
qed

lemma ld2sd_exact:
  assumes "ld2sd s x = Ok y" "unat (ld2sd_rate s) dvd unat x"
  shows "unat y * unat (ld2sd_rate s) = unat x" "sd2ld s y = Ok x"
proof -
  show u: "unat y * unat (ld2sd_rate s) = unat x"
    using assms by (simp add: res_simps unat_div)
  then have "unat y * unat (ld2sd_rate s) < 2 ^ 64" using unat_less [of x] by simp
  then have "checked_mul y (ld2sd_rate s) = Some (y * ld2sd_rate s)" by (simp add: checked_mul_def)
  moreover have "y * ld2sd_rate s = x"
    using checked_mul_unat [OF calculation] u by (intro word_eqI_unat) simp
  ultimately show "sd2ld s y = Ok x" by (simp add: sd2ld_def)
qed

end
