(* ===== verification/Oft_Limits.thy ===== *)
theory Oft_Limits
  imports Oft_State Scenario
begin

text \<open>
  What a rate limiter guarantees over time (\<open>RateLimiter\<close> of
  src/layerzero/programs/oft/src/state/peer_config.rs): however consumption, refunds of the other direction and
  failed attempts are interleaved, what passed is bounded by the tokens at the start, the refunds and the time.
\<close>

section \<open>One operation\<close>

lemma saturating_add_le: "unat (saturating_add a b) \<le> unat a + unat b" for a b :: "'a::len word"
  by (simp add: saturating_add_unat)

lemma saturating_mul_le: "unat (saturating_mul a b) \<le> unat a * unat b" for a b :: "'a::len word"
proof (cases "unat a * unat b < 2 ^ LENGTH('a)")
  case True
  then have "checked_mul a b = Some (a * b)" by (simp add: checked_mul_def)
  then show ?thesis using True checked_mul_unat [of a b "a * b"] by (simp add: saturating_mul_def)
next
  case False
  moreover have "unat (- 1 :: 'a word) < 2 ^ LENGTH('a)" by (rule unat_less)
  ultimately have "unat (- 1 :: 'a word) \<le> unat a * unat b" by linarith
  then show ?thesis using False by (simp add: saturating_mul_def)
qed

text \<open>The configuration of a limiter is its capacity and its rate.\<close>

definition same_limits :: "RateLimiter \<Rightarrow> RateLimiter \<Rightarrow> bool" where
  "same_limits l l' \<longleftrightarrow> capacity l' = capacity l \<and> refill_per_second l' = refill_per_second l"

lemma same_limits_trans: "same_limits a b \<Longrightarrow> same_limits b c \<Longrightarrow> same_limits a c"
  by (simp add: same_limits_def)

lemma refill_Ok:
  assumes "refill env extra l = Ok l'"
  shows "same_limits l l'" "tokens l' \<le> capacity l'" "current_time env = Ok (last_refill_time l')"
    and "last_refill_time l \<le> last_refill_time l' \<Longrightarrow> unat (tokens l') \<le> unat (tokens l) + unat extra +
      unat (refill_per_second l) * (unat (last_refill_time l') - unat (last_refill_time l))"
proof -
  obtain now where n: "current_time env = Ok now"
    using assms by (auto simp: refill_def res_simps)
  define new where "new = (if now > last_refill_time l
      then saturating_add extra (saturating_mul (now - last_refill_time l) (refill_per_second l)) else extra)"
  have l': "l' = l\<lparr>tokens := min (capacity l) (saturating_add (tokens l) new), last_refill_time := now\<rparr>"
    using assms n by (simp add: refill_def new_def Let_def)
  show "same_limits l l'" "tokens l' \<le> capacity l'" "current_time env = Ok (last_refill_time l')"
    by (simp_all add: l' n same_limits_def)
  assume "last_refill_time l \<le> last_refill_time l'"
  then have le: "last_refill_time l \<le> now" by (simp add: l')
  have "unat new \<le> unat extra + unat (refill_per_second l) * (unat now - unat (last_refill_time l))"
  proof (cases "now > last_refill_time l")
    case True
    have "unat new \<le> unat extra + unat (saturating_mul (now - last_refill_time l) (refill_per_second l))"
      using True saturating_add_le by (simp add: new_def)
    also have "unat (saturating_mul (now - last_refill_time l) (refill_per_second l)) \<le>
        unat (now - last_refill_time l) * unat (refill_per_second l)" by (rule saturating_mul_le)
    finally show ?thesis using le by (simp add: unat_sub word_le_nat_alt mult.commute)
  qed (simp add: new_def)
  moreover have "unat (tokens l') \<le> unat (tokens l) + unat new"
    using saturating_add_le [of "tokens l" new] by (simp add: l' unat_min)
  ultimately show "unat (tokens l') \<le> unat (tokens l) + unat extra +
      unat (refill_per_second l) * (unat (last_refill_time l') - unat (last_refill_time l))"
    by (simp add: l')
qed

lemma try_consume_Ok:
  assumes "try_consume env amount l = Ok l'"
  obtains l1 where "refill env 0 l = Ok l1" "l' = l1\<lparr>tokens := tokens l'\<rparr>"
    "unat (tokens l') + unat amount = unat (tokens l1)"
proof -
  obtain l1 where l1: "refill env 0 l = Ok l1" using assms by (auto simp: try_consume_def res_simps)
  then obtain n where n: "checked_sub (tokens l1) amount = Some n" "l' = l1\<lparr>tokens := n\<rparr>"
    using assms by (auto simp: try_consume_def split: option.splits)
  then show thesis using checked_sub_unat [OF n(1)] by (intro that [OF l1]) simp_all
qed

text \<open>What the limiter admits: after the refill there are enough tokens.\<close>

lemma try_consume_iff:
  "is_ok (try_consume env amount l) \<longleftrightarrow> (\<exists>l1. refill env 0 l = Ok l1 \<and> amount \<le> tokens l1)"
  by (cases "refill env 0 l") (auto simp: try_consume_def checked_sub_def split: option.splits)

section \<open>Sequences of operations\<close>

datatype LimiterOp = Consume u64 | Refund u64

definition limiter_op :: "Env \<Rightarrow> LimiterOp \<Rightarrow> RateLimiter \<Rightarrow> RateLimiter oft_result" where
  "limiter_op env op l = (case op of
     Consume amount \<Rightarrow> try_consume env amount l | Refund amount \<Rightarrow> refill env amount l)"

definition consumed :: "LimiterOp \<Rightarrow> nat" where
  "consumed op = (case op of Consume amount \<Rightarrow> unat amount | Refund _ \<Rightarrow> 0)"

definition refunded :: "LimiterOp \<Rightarrow> nat" where
  "refunded op = (case op of Consume _ \<Rightarrow> 0 | Refund amount \<Rightarrow> unat amount)"

definition at_time :: "Env \<Rightarrow> u64 \<Rightarrow> Env" where
  "at_time env t = env\<lparr>env_clock := Ok \<lparr>clk_epoch = 0, clk_unix_timestamp = t\<rparr>\<rparr>"

text \<open>
  A failed operation aborts its instruction and leaves the limiter as it was.  The result is the limiter, what
  was consumed and what was refunded.
\<close>

fun limiter_run :: "Env \<Rightarrow> (u64 \<times> LimiterOp) list \<Rightarrow> RateLimiter \<Rightarrow> RateLimiter \<times> nat \<times> nat" where
  "limiter_run env [] l = (l, 0, 0)"
| "limiter_run env ((t, op) # ops) l =
     (case limiter_op (at_time env t) op l of
        Ok l1 \<Rightarrow> (let (l2, c, r) = limiter_run env ops l1 in (l2, consumed op + c, refunded op + r))
      | Err _ \<Rightarrow> limiter_run env ops l)"

lemma limiter_op_bound:
  assumes "limiter_op env op l = Ok l'" "last_refill_time l \<le> last_refill_time l'"
  shows "same_limits l l' \<and> tokens l' \<le> capacity l' \<and> consumed op + unat (tokens l') \<le> unat (tokens l) + refunded op +
    unat (refill_per_second l) * (unat (last_refill_time l') - unat (last_refill_time l))"
proof (cases op)
  case (Consume amount)
  then obtain l1 where l1: "refill env 0 l = Ok l1" "l' = l1\<lparr>tokens := tokens l'\<rparr>"
    "unat (tokens l') + unat amount = unat (tokens l1)"
    using assms(1) by (auto simp: limiter_op_def elim: try_consume_Ok)
  have t: "last_refill_time l' = last_refill_time l1" "capacity l' = capacity l1"
    "refill_per_second l' = refill_per_second l1" by (subst l1(2), simp)+
  then have "same_limits l l'" "tokens l' \<le> capacity l'"
    using refill_Ok(1,2) [OF l1(1)] l1(3) by (auto simp: same_limits_def word_le_nat_alt)
  moreover have "unat (tokens l1) \<le> unat (tokens l) + unat (refill_per_second l) * (unat (last_refill_time l') - unat (last_refill_time l))"
    using refill_Ok(4) [OF l1(1)] assms(2) t by simp
  ultimately show ?thesis using l1(3) Consume by (simp add: consumed_def refunded_def)
next
  case (Refund amount)
  then show ?thesis
    using refill_Ok [of env amount l l'] assms by (simp add: limiter_op_def consumed_def refunded_def)
qed

lemma limiter_op_time: "limiter_op (at_time env t) op l = Ok l' \<Longrightarrow> last_refill_time l' = t"
proof -
  have r: "last_refill_time l1 = t" if "refill (at_time env t) x l = Ok l1" for x l1
    using refill_Ok(3) [OF that] by (simp add: current_time_def at_time_def split: if_splits)
  assume "limiter_op (at_time env t) op l = Ok l'"
  then show ?thesis
    using r by (cases op) (auto simp: limiter_op_def try_consume_def and_then_Ok split: option.splits)
qed

lemma limiter_run_bound:
  assumes "limiter_run env ops l = (l', c, r)" "sorted (last_refill_time l # map fst ops)" "tokens l \<le> capacity l"
  shows "same_limits l l' \<and> tokens l' \<le> capacity l' \<and> last_refill_time l \<le> last_refill_time l' \<and>
    c + unat (tokens l') \<le> unat (tokens l) + r +
      unat (refill_per_second l) * (unat (last_refill_time l') - unat (last_refill_time l))"
  using assms
proof (induction ops arbitrary: l l' c r)
  case Nil
  then show ?case by (simp add: same_limits_def)
next
  case (Cons a ops)
  obtain t op where a: "a = (t, op)" by (cases a)
  show ?case
  proof (cases "limiter_op (at_time env t) op l")
    case (Inl e)
    then show ?thesis using Cons.IH [of l] Cons.prems a by auto
  next
    case (Inr l1)
    have t: "last_refill_time l1 = t" by (rule limiter_op_time [OF Inr])
    obtain c1 r1 where run: "limiter_run env ops l1 = (l', c1, r1)" "c = consumed op + c1" "r = refunded op + r1"
      using Cons.prems(1) by (auto simp: a Inr split: prod.splits)
    have le: "last_refill_time l \<le> last_refill_time l1" using Cons.prems(2) by (simp add: a t)
    note s = limiter_op_bound [OF Inr le]
    have r: "same_limits l1 l' \<and> tokens l' \<le> capacity l' \<and> last_refill_time l1 \<le> last_refill_time l' \<and>
      c1 + unat (tokens l') \<le> unat (tokens l1) + r1 +
        unat (refill_per_second l1) * (unat (last_refill_time l') - unat (last_refill_time l1))"
      using Cons.prems(2) s by (intro Cons.IH [OF run(1)]) (auto simp: a t)
    let ?q = "unat (refill_per_second l)"
    have "?q * (unat (last_refill_time l1) - unat (last_refill_time l)) +
        ?q * (unat (last_refill_time l') - unat (last_refill_time l1)) =
        ?q * (unat (last_refill_time l') - unat (last_refill_time l))"
      using le r by (simp add: word_le_nat_alt flip: add_mult_distrib2)
    moreover have "refill_per_second l1 = refill_per_second l" using s by (simp add: same_limits_def)
    ultimately show ?thesis using s r le run(2,3) by (auto intro: same_limits_trans)
  qed
qed

text \<open>
  C37: over any sequence of consumptions and refunds at times that do not go back, failed ones included,
  what was consumed is at most the tokens at the start plus what was refunded plus the rate times the time that
  passed; the tokens never exceed the capacity, and the capacity and the rate stay.
\<close>

theorem rate_limiter_bound:
  assumes "limiter_run env ops l = (l', c, r)" "sorted (last_refill_time l # map fst ops)" "tokens l \<le> capacity l"
  shows "c \<le> unat (capacity l) + r +
      unat (refill_per_second l) * (unat (last_refill_time l') - unat (last_refill_time l)) \<and>
    c + unat (tokens l') \<le> unat (tokens l) + r +
      unat (refill_per_second l) * (unat (last_refill_time l') - unat (last_refill_time l)) \<and>
    tokens l' \<le> capacity l' \<and> same_limits l l'"
proof -
  have "unat (tokens l) \<le> unat (capacity l)" using assms(3) by (simp add: word_le_nat_alt)
  then show ?thesis using limiter_run_bound [OF assms] by auto
qed

theorem rate_limiter_bound_witness:
  "limiter_run demo_env [(10, Consume 5), (10, Consume 5), (12, Refund 1), (12, Consume 4)]
     \<lparr>capacity = 8, tokens = 8, refill_per_second = 1, last_refill_time = 10\<rparr> =
     (\<lparr>capacity = 8, tokens = 2, refill_per_second = 1, last_refill_time = 12\<rparr>, 9, 1) \<and> (9::nat) \<le> 8 + 1 + 1 * (12 - 10)"
proof -
  let ?l = "\<lparr>capacity = 8, tokens = 8, refill_per_second = 1, last_refill_time = 10\<rparr>"
  have r: "limiter_run demo_env [(10, Consume 5), (10, Consume 5), (12, Refund 1), (12, Consume 4)] ?l =
     (\<lparr>capacity = 8, tokens = 2, refill_per_second = 1, last_refill_time = 12\<rparr>, 9, 1)"
    by (simp add: limiter_op_def try_consume_def refill_def current_time_def at_time_def demo_env_def consumed_def
        refunded_def checked_sub_def saturating_add_def saturating_mul_def Let_def min_def)
  then show ?thesis using rate_limiter_bound [OF r] by simp
qed

end
