(* ===== verification/Oft_Fee.thy ===== *)
theory Oft_Fee
  imports Oft_State Packed_State Scenario
begin

text \<open>
  The amounts of a cross-chain transfer (src/layerzero/programs/oft/src/instructions/quote_send.rs): what leaves
  the sender, what arrives at the other side and what the program keeps, given the transfer fee of the mint, the
  fee of the program and the precision the two sides share.
\<close>

section \<open>Definitions\<close>

definition ONE_IN_BASIS_POINTS_OFT :: u128 where "ONE_IN_BASIS_POINTS_OFT = ucast MAX_FEE_BASIS_POINTS"

definition oft_calculate_fee :: "u64 \<Rightarrow> u16 \<Rightarrow> u16 option \<Rightarrow> u64 oft_result" where
  "oft_calculate_fee pre_fee_amount default_bps fee_bps =
     (let final_fee_bps = (case fee_bps of Some v \<Rightarrow> (ucast v :: u128) | None \<Rightarrow> ucast default_bps)
      in if final_fee_bps = 0 \<or> pre_fee_amount = 0 then Ok 0
         else and_then (or_panic (checked_mul (ucast pre_fee_amount) final_fee_bps)) (\<lambda>fee.
              Ok (ucast (fee div ONE_IN_BASIS_POINTS_OFT))))"

definition oft_ceil_div :: "u128 \<Rightarrow> u128 \<Rightarrow> u128 option" where
  "oft_ceil_div numerator denominator =
     Option.bind (checked_add numerator denominator) (\<lambda>s.
     Option.bind (checked_sub s 1) (\<lambda>d. checked_div d denominator))"

definition oft_calculate_pre_fee_amount :: "TransferFee \<Rightarrow> u64 \<Rightarrow> u64 option" where
  "oft_calculate_pre_fee_amount fee post_fee_amount =
     (let maximum_fee = tf_maximum_fee fee;
          transfer_fee_basis_points = (ucast (tf_transfer_fee_basis_points fee) :: u128)
      in if transfer_fee_basis_points = 0 then Some post_fee_amount
         else if post_fee_amount = 0 then Some 0
         else if transfer_fee_basis_points = ONE_IN_BASIS_POINTS_OFT
         then checked_add maximum_fee post_fee_amount
         else Option.bind (checked_mul (ucast post_fee_amount) ONE_IN_BASIS_POINTS_OFT) (\<lambda>numerator.
              Option.bind (checked_sub ONE_IN_BASIS_POINTS_OFT transfer_fee_basis_points) (\<lambda>denominator.
              Option.bind (oft_ceil_div numerator denominator) (\<lambda>raw_pre_fee_amount.
              Option.bind (checked_sub raw_pre_fee_amount (ucast post_fee_amount)) (\<lambda>raw_fee.
              if raw_fee \<ge> ucast maximum_fee then checked_add post_fee_amount maximum_fee
              else if unat raw_pre_fee_amount < 2 ^ 64 then Some (ucast raw_pre_fee_amount) else None)))))"

definition get_post_fee_amount_ld :: "Env \<Rightarrow> ledger \<Rightarrow> pubkey \<Rightarrow> u64 \<Rightarrow> u64 oft_result" where
  "get_post_fee_amount_ld env L token_mint amount_ld =
     and_then (lift (state_unpack MintP (ac_data (L token_mint)))) (\<lambda>token_mint_ext.
     case get_extension MintBase TransferFeeConfigX (tlv_data token_mint_ext) of
       Ok transfer_fee_config \<Rightarrow>
         and_then (lift (env_clock env)) (\<lambda>clock.
           ok_or (calculate_post_fee_amount (get_epoch_fee transfer_fee_config (clk_epoch clock)) amount_ld)
             (Program InvalidArgument))
     | Err _ \<Rightarrow> Ok amount_ld)"

definition get_pre_fee_amount_ld :: "Env \<Rightarrow> ledger \<Rightarrow> pubkey \<Rightarrow> u64 \<Rightarrow> u64 oft_result" where
  "get_pre_fee_amount_ld env L token_mint amount_ld =
     and_then (lift (state_unpack MintP (ac_data (L token_mint)))) (\<lambda>token_mint_ext.
     case get_extension MintBase TransferFeeConfigX (tlv_data token_mint_ext) of
       Ok transfer_fee_config \<Rightarrow>
         and_then (lift (env_clock env)) (\<lambda>clock.
           ok_or (oft_calculate_pre_fee_amount (get_epoch_fee transfer_fee_config (clk_epoch clock)) amount_ld)
             (Program InvalidArgument))
     | Err _ \<Rightarrow> Ok amount_ld)"

text \<open>The result is what is sent, what is received and the fee of the program.\<close>

definition compute_fee_and_adjust_amount ::
  "Env \<Rightarrow> ledger \<Rightarrow> u64 \<Rightarrow> OFTStore \<Rightarrow> pubkey \<Rightarrow> u16 option \<Rightarrow> (u64 \<times> u64 \<times> u64) oft_result" where
  "compute_fee_and_adjust_amount env L amount_ld oft_store token_mint fee_bps =
     (if oft_type oft_store = Adapter
      then and_then (get_post_fee_amount_ld env L token_mint amount_ld) (\<lambda>post.
           and_then (remove_dust oft_store post) (\<lambda>amount_received_ld.
           and_then (get_pre_fee_amount_ld env L token_mint amount_received_ld) (\<lambda>amount_sent_ld.
           and_then (oft_calculate_fee amount_received_ld (default_fee_bps oft_store) fee_bps) (\<lambda>fee.
           and_then (remove_dust oft_store fee) (\<lambda>oft_fee_ld.
           and_then (or_panic (checked_sub amount_received_ld oft_fee_ld)) (\<lambda>amount_received_ld.
             Ok (amount_sent_ld, amount_received_ld, oft_fee_ld)))))))
      else and_then (remove_dust oft_store amount_ld) (\<lambda>amount_sent_ld.
           and_then (oft_calculate_fee amount_sent_ld (default_fee_bps oft_store) fee_bps) (\<lambda>fee.
           and_then (remove_dust oft_store fee) (\<lambda>oft_fee_ld.
           and_then (or_panic (checked_sub amount_sent_ld oft_fee_ld)) (\<lambda>amount_received_ld.
             Ok (amount_sent_ld, amount_received_ld, oft_fee_ld))))))"

section \<open>The copied inverse fee\<close>

text \<open>The copy of the inverse fee computes what the token program's own function computes.\<close>

lemma oft_calculate_pre_fee_amount_eq: "oft_calculate_pre_fee_amount = calculate_pre_fee_amount"
  by (intro ext) (simp only: oft_calculate_pre_fee_amount_def calculate_pre_fee_amount_def
      ONE_IN_BASIS_POINTS_OFT_def ONE_IN_BASIS_POINTS_def oft_ceil_div_def ceil_div_def u64_try_from_def)

section \<open>The fee of the mint\<close>

text \<open>The transfer fee in force, if the mint has one, and the functions in terms of it.\<close>

definition mint_fee :: "Env \<Rightarrow> ledger \<Rightarrow> pubkey \<Rightarrow> TransferFee option oft_result" where
  "mint_fee env L token_mint =
     and_then (lift (state_unpack MintP (ac_data (L token_mint)))) (\<lambda>token_mint_ext.
     case get_extension MintBase TransferFeeConfigX (tlv_data token_mint_ext) of
       Ok c \<Rightarrow> and_then (lift (env_clock env)) (\<lambda>clock. Ok (Some (get_epoch_fee c (clk_epoch clock))))
     | Err _ \<Rightarrow> Ok None)"

definition fee_rate_ok :: "TransferFee option \<Rightarrow> bool" where
  "fee_rate_ok f = (case f of None \<Rightarrow> True | Some F \<Rightarrow> tf_transfer_fee_basis_points F \<le> MAX_FEE_BASIS_POINTS)"

lemma fee_amounts_eq:
  "get_post_fee_amount_ld env L m x = and_then (mint_fee env L m) (\<lambda>f. case f of None \<Rightarrow> Ok x
     | Some F \<Rightarrow> ok_or (calculate_post_fee_amount F x) (Program InvalidArgument))"
  "get_pre_fee_amount_ld env L m x = and_then (mint_fee env L m) (\<lambda>f. case f of None \<Rightarrow> Ok x
     | Some F \<Rightarrow> ok_or (calculate_pre_fee_amount F x) (Program InvalidArgument))"
  by (cases "state_unpack MintP (ac_data (L m))"; cases "env_clock env";
      simp add: get_post_fee_amount_ld_def get_pre_fee_amount_ld_def mint_fee_def oft_calculate_pre_fee_amount_eq
        split: sum.split)+

lemma fee_amounts_Ok:
  "get_post_fee_amount_ld env L m x = Ok y \<longleftrightarrow>
     (\<exists>f. mint_fee env L m = Ok f \<and> (case f of None \<Rightarrow> y = x | Some F \<Rightarrow> calculate_post_fee_amount F x = Some y))"
  "get_pre_fee_amount_ld env L m x = Ok y \<longleftrightarrow>
     (\<exists>f. mint_fee env L m = Ok f \<and> (case f of None \<Rightarrow> y = x | Some F \<Rightarrow> calculate_pre_fee_amount F x = Some y))"
  by (auto simp: fee_amounts_eq and_then_Ok ok_or_Ok split: option.splits)

text \<open>Grossing up what would arrive of an amount gives at most the amount, and exactly that much arrives of it.\<close>

lemma post_of_pre:
  assumes "tf_transfer_fee_basis_points F \<le> MAX_FEE_BASIS_POINTS"
    and "calculate_post_fee_amount F x = Some y" "p \<le> y" "calculate_pre_fee_amount F p = Some s"
  shows "calculate_post_fee_amount F s = Some p" "s \<le> x"
proof -
  have b: "bps F \<le> 10000" using assms(1) by (simp add: word_le_nat_alt MAX_FEE_BASIS_POINTS_def)
  have s: "unat s = pre_spec (bps F) (cap F) (unat p)"
    using assms(4) by (auto simp: calculate_pre_fee_amount_eq [OF assms(1)] Let_def unat_of_nat_eq split: if_splits)
  show "calculate_post_fee_amount F s = Some p"
    by (simp add: calculate_post_fee_amount_eq [OF assms(1)] s post_pre [OF b])
  have "post_spec (bps F) (cap F) (unat x) < 2 ^ 64"
    using unat_less [of x] by (simp add: post_spec_def less_imp_diff_less)
  then have "unat y = post_spec (bps F) (cap F) (unat x)"
    using assms(2) by (auto simp: calculate_post_fee_amount_eq [OF assms(1)] unat_of_nat_eq)
  then have "unat p \<le> post_spec (bps F) (cap F) (unat x)" using assms(3) by (simp add: word_le_nat_alt)
  then have "unat s \<le> unat x" using pre_post_galois [OF b] by (simp add: s)
  then show "s \<le> x" by (simp add: word_le_nat_alt)
qed

lemma adjusted_amounts:
  assumes "get_post_fee_amount_ld env L m amount = Ok y" "p \<le> y" "get_pre_fee_amount_ld env L m p = Ok sent"
    and "\<And>f. mint_fee env L m = Ok f \<Longrightarrow> fee_rate_ok f"
  shows "get_post_fee_amount_ld env L m sent = Ok p" "sent \<le> amount"
proof -
  obtain f where f: "mint_fee env L m = Ok f" using assms(1) by (auto simp: fee_amounts_Ok)
  have "get_post_fee_amount_ld env L m sent = Ok p \<and> sent \<le> amount"
  proof (cases f)
    case None
    then show ?thesis using assms(1-3) f by (simp add: fee_amounts_eq)
  next
    case (Some F)
    then have r: "tf_transfer_fee_basis_points F \<le> MAX_FEE_BASIS_POINTS"
      using assms(4) [OF f] by (simp add: fee_rate_ok_def)
    have "calculate_post_fee_amount F amount = Some y" "calculate_pre_fee_amount F p = Some sent"
      using assms(1,3) f Some by (simp_all add: fee_amounts_eq ok_or_Ok)
    then show ?thesis using post_of_pre [OF r _ assms(2)] f Some by (simp add: fee_amounts_eq)
  qed
  then show "get_post_fee_amount_ld env L m sent = Ok p" "sent \<le> amount" by simp_all
qed

section \<open>The fee of the program\<close>

definition final_bps :: "OFTStore \<Rightarrow> u16 option \<Rightarrow> nat" where
  "final_bps st fee_bps = (case fee_bps of Some b \<Rightarrow> unat b | None \<Rightarrow> unat (default_fee_bps st))"

definition bps128 :: "OFTStore \<Rightarrow> u16 option \<Rightarrow> u128" where
  "bps128 st fee_bps = (case fee_bps of Some v \<Rightarrow> ucast v | None \<Rightarrow> ucast (default_fee_bps st))"

lemma unat_bps128: "unat (bps128 st b) = final_bps st b" "final_bps st b < 2 ^ 16"
  using unat_less [where 'a = 16] by (cases b; simp add: bps128_def final_bps_def unat_ucast_up)+

lemma oft_calculate_fee_eq:
  "oft_calculate_fee x (default_fee_bps st) b =
     Ok (if bps128 st b = 0 \<or> x = 0 then 0 else ucast ((ucast x * bps128 st b) div ONE_IN_BASIS_POINTS_OFT))"
proof -
  have x: "unat (ucast x :: u128) = unat x" "unat x < 2 ^ 64" using unat_less [of x] by (simp_all add: unat_ucast_up)
  have "unat x * final_bps st b < 2 ^ 64 * 2 ^ 16" using x(2) unat_bps128(2) by (intro mult_strict_mono) auto
  then have "checked_mul (ucast x :: u128) (bps128 st b) = Some (ucast x * bps128 st b)"
    by (simp add: checked_mul_def x(1) unat_bps128(1))
  then show ?thesis by (simp add: oft_calculate_fee_def bps128_def Let_def)
qed

lemma oft_calculate_fee_Ok:
  assumes "final_bps st b \<le> 10000"
  shows "\<exists>f. oft_calculate_fee x (default_fee_bps st) b = Ok f \<and> unat f = unat x * final_bps st b div 10000 \<and> f \<le> x"
proof -
  have x: "unat (ucast x :: u128) = unat x" "unat x < 2 ^ 64" using unat_less [of x] by (simp_all add: unat_ucast_up)
  have "unat x * final_bps st b < 2 ^ 64 * 2 ^ 16" using x(2) unat_bps128(2) by (intro mult_strict_mono) auto
  then have n: "unat (ucast x * bps128 st b) = unat x * final_bps st b"
    using checked_mul_unat [of "ucast x" "bps128 st b"] by (simp add: checked_mul_def x(1) unat_bps128(1))
  let ?f = "ucast ((ucast x * bps128 st b) div ONE_IN_BASIS_POINTS_OFT) :: u64"
  have d: "unat ((ucast x * bps128 st b) div ONE_IN_BASIS_POINTS_OFT) = unat x * final_bps st b div 10000"
    by (simp add: unat_div n ONE_IN_BASIS_POINTS_OFT_def MAX_FEE_BASIS_POINTS_def)
  have "unat x * final_bps st b \<le> unat x * 10000" using assms by simp
  then have "unat x * final_bps st b div 10000 \<le> unat x * 10000 div 10000" by (rule div_le_mono)
  then have le: "unat x * final_bps st b div 10000 \<le> unat x" by simp
  then have f: "unat ?f = unat x * final_bps st b div 10000"
    using d x(2) by (simp add: unsigned_ucast_eq take_bit_nat_eq_self)
  have "final_bps st b = 0 \<or> unat x = 0" if "bps128 st b = 0 \<or> x = 0"
    using that unat_bps128(1) [of st b] by auto
  moreover have "?f \<le> x" using f le by (simp only: word_le_nat_alt)
  ultimately show ?thesis
    using f by (cases "bps128 st b = 0 \<or> x = 0") (auto simp only: oft_calculate_fee_eq if_True if_False, auto)
qed

section \<open>The amounts of a transfer\<close>

text \<open>What reaches the program or is burned when an amount is sent.\<close>

definition arriving :: "Env \<Rightarrow> ledger \<Rightarrow> OFTStore \<Rightarrow> pubkey \<Rightarrow> u64 \<Rightarrow> u64 oft_result" where
  "arriving env L st m x = (if oft_type st = Adapter then get_post_fee_amount_ld env L m x else Ok x)"

definition amounts_ok :: "OFTStore \<Rightarrow> nat \<Rightarrow> u64 \<Rightarrow> u64 \<Rightarrow> u64 \<Rightarrow> bool" where
  "amounts_ok st b p received fee \<longleftrightarrow> unat received + unat fee = unat p \<and>
     unat (ld2sd_rate st) dvd unat received \<and> unat (ld2sd_rate st) dvd unat fee \<and>
     unat fee * 10000 \<le> unat p * b"

lemma program_fee_split:
  assumes "unat (ld2sd_rate st) dvd unat p" "final_bps st b \<le> 10000"
    and "oft_calculate_fee p (default_fee_bps st) b = Ok f" "remove_dust st f = Ok fee"
    and "checked_sub p fee = Some received"
  shows "amounts_ok st (final_bps st b) p received fee"
proof -
  have f: "unat f = unat p * final_bps st b div 10000"
    using oft_calculate_fee_Ok [OF assms(2), of p] assms(3) by auto
  have s: "unat received + unat fee = unat p" using checked_sub_unat [OF assms(5)] .
  have d: "unat (ld2sd_rate st) dvd unat fee" "unat fee \<le> unat f"
    using remove_dust_dvd [OF assms(4)] by (simp_all add: word_le_nat_alt)
  then have "unat (ld2sd_rate st) dvd unat received" using s assms(1) by (metis dvd_add_left_iff)
  moreover have "unat fee * 10000 \<le> unat p * final_bps st b"
    using d(2) unfolding f by (meson div_times_less_eq_dividend le_trans mult_le_mono1)
  ultimately show ?thesis using s d(1) by (simp add: amounts_ok_def)
qed

lemma compute_fee_effect:
  assumes "compute_fee_and_adjust_amount env L amount st m b = Ok (sent, received, fee)"
    and "final_bps st b \<le> 10000" "\<And>f. mint_fee env L m = Ok f \<Longrightarrow> fee_rate_ok f"
  obtains p where "arriving env L st m sent = Ok p" "amounts_ok st (final_bps st b) p received fee" "sent \<le> amount"
proof (cases "oft_type st = Adapter")
  case True
  obtain y p f where h: "get_post_fee_amount_ld env L m amount = Ok y" "remove_dust st y = Ok p"
      "get_pre_fee_amount_ld env L m p = Ok sent" "oft_calculate_fee p (default_fee_bps st) b = Ok f"
      "remove_dust st f = Ok fee" "checked_sub p fee = Some received"
    using assms(1) True by (auto simp: compute_fee_and_adjust_amount_def and_then_Ok or_panic_Ok)
  note d = remove_dust_dvd [OF h(2)]
  note a = adjusted_amounts [OF h(1) d(2) h(3) assms(3)]
  show thesis
    using a True program_fee_split [OF d(1) assms(2) h(4-6)] by (intro that [of p]) (simp_all add: arriving_def)
next
  case False
  obtain f where h: "remove_dust st amount = Ok sent" "oft_calculate_fee sent (default_fee_bps st) b = Ok f"
      "remove_dust st f = Ok fee" "checked_sub sent fee = Some received"
    using assms(1) False by (auto simp: compute_fee_and_adjust_amount_def and_then_Ok or_panic_Ok)
  note d = remove_dust_dvd [OF h(1)]
  show thesis
    using False d(2) program_fee_split [OF d(1) assms(2) h(2-4)] by (intro that [of sent]) (simp_all add: arriving_def)
qed

text \<open>
  C36: with fee rates of at most 100 percent, what is received on the other side plus the fee of the
  program is exactly what arrives of the amount sent after the mint's own transfer fee; both are multiples of the
  precision the sides share, the program's fee is at most its rate of what arrives, and never more is taken
  from the sender than was asked for.
\<close>

theorem oft_amounts_correct:
  assumes "compute_fee_and_adjust_amount env L amount st m b = Ok (sent, received, fee)"
    and "final_bps st b \<le> 10000" "\<forall>f. mint_fee env L m = Ok f \<longrightarrow> fee_rate_ok f"
  shows "\<exists>p. arriving env L st m sent = Ok p \<and> unat received + unat fee = unat p \<and>
    unat (ld2sd_rate st) dvd unat received \<and> unat (ld2sd_rate st) dvd unat fee \<and>
    unat fee * 10000 \<le> unat p * final_bps st b \<and> sent \<le> amount"
proof -
  obtain p where "arriving env L st m sent = Ok p" "amounts_ok st (final_bps st b) p received fee" "sent \<le> amount"
    by (rule compute_fee_effect [OF assms(1,2)]) (use assms(3) in blast)+
  then show ?thesis by (auto simp: amounts_ok_def)
qed

lemma plain_mint_unpacks:
  "state_unpack MintP (enc_mint (plain_mint au s)) = Ok \<lparr>base = mint_view (plain_mint au s), tlv_data = []\<rparr>"
  by (simp add: packed_mint.state_unpack_Ok)
    (simp add: mint_canonical_def coption_canonical_def plain_mint_def coption_some_def pod_bool_from_def)

definition demo_store :: OFTStore where
  "demo_store = \<lparr>oft_type = Adapter, ld2sd_rate = 10, oft_token_mint = 1, oft_token_escrow = 11,
     oft_endpoint_program = 50, oft_bump = 255, tvl_ld = 0, oft_admin = 60, default_fee_bps = 1000,
     oft_paused = False, oft_pauser = None, oft_unpauser = None\<rparr>"

lemma demo_mint_fee: "mint_fee demo_env demo_ledger 1 = Ok None"
  by (simp add: mint_fee_def plain_mint_unpacks)

theorem oft_amounts_correct_witness:
  "compute_fee_and_adjust_amount demo_env demo_ledger 1239 demo_store 1 None = Ok (1230, 1110, 120) \<and>
   (\<exists>p. arriving demo_env demo_ledger demo_store 1 1230 = Ok p \<and> unat (1110 :: u64) + unat (120 :: u64) = unat p)"
proof -
  have c: "compute_fee_and_adjust_amount demo_env demo_ledger 1239 demo_store 1 None = Ok (1230, 1110, 120)"
    by (simp add: compute_fee_and_adjust_amount_def demo_store_def fee_amounts_eq demo_mint_fee remove_dust_def
        oft_calculate_fee_def ONE_IN_BASIS_POINTS_OFT_def MAX_FEE_BASIS_POINTS_def checked_sub_def checked_mul_def
        word_le_nat_alt Let_def)
  then show ?thesis
    using oft_amounts_correct [OF c] by (auto simp: demo_mint_fee fee_rate_ok_def final_bps_def demo_store_def)
qed

end
