(* ===== verification/Oft_Context.thy ===== *)
theory Oft_Context
  imports Oft_Fee Client_Transfer
begin

text \<open>
  What the instructions of the omnichain token program work on: its own accounts, the ledger of the token
  program and the endpoint.  The account framework reads and writes the program's own accounts as typed values,
  so they are maps from addresses to values here.  The endpoint and its client library, the derivation of
  addresses, the creation of accounts and the older token program are outside of the repository and parameters;
  calls into the Token-2022 program are calls of its \<open>process\<close> with the account flags the runtime passes on.
\<close>

section \<open>Messages to the endpoint\<close>

record MessagingFee =
  mf_native_fee :: u64
  mf_lz_token_fee :: u64

record MessagingReceipt =
  mr_guid :: bytes
  mr_nonce :: u64
  mr_fee :: MessagingFee

record EndpointSendParams =
  es_dst_eid :: u32
  es_receiver :: bytes
  es_message :: bytes
  es_options :: bytes
  es_native_fee :: u64
  es_lz_token_fee :: u64

record QuoteParams =
  eq_sender :: pubkey
  eq_dst_eid :: u32
  eq_receiver :: bytes
  eq_message :: bytes
  eq_pay_in_lz_token :: bool
  eq_options :: bytes

record ClearParams =
  ec_receiver :: pubkey
  ec_src_eid :: u32
  ec_sender :: bytes
  ec_nonce :: u64
  ec_guid :: bytes
  ec_message :: bytes

record SendComposeParams =
  sc_to :: pubkey
  sc_guid :: bytes
  sc_index :: u16
  sc_message :: bytes

record LzReceiveParams =
  rp_src_eid :: u32
  rp_sender :: bytes
  rp_nonce :: u64
  rp_guid :: bytes
  rp_message :: bytes

record LzAccount =
  la_pubkey :: pubkey
  la_is_signer :: bool
  la_is_writable :: bool

section \<open>The environment\<close>

text \<open>
  The endpoint: each call gets the endpoint program of the store, the program's own account as sender with the
  seeds it signs with, and the accounts passed on; it may change the ledger and its own state \<open>'e\<close>.
\<close>

record 'e Endpoint =
  ep_register_oapp :: "pubkey \<Rightarrow> pubkey \<Rightarrow> AccountInfo list \<Rightarrow> bytes list \<Rightarrow> pubkey \<Rightarrow> ledger \<times> 'e \<Rightarrow> (ledger \<times> 'e) oft_result"
  ep_set_delegate :: "pubkey \<Rightarrow> pubkey \<Rightarrow> AccountInfo list \<Rightarrow> bytes list \<Rightarrow> pubkey \<Rightarrow> ledger \<times> 'e \<Rightarrow> (ledger \<times> 'e) oft_result"
  ep_quote :: "pubkey \<Rightarrow> AccountInfo list \<Rightarrow> QuoteParams \<Rightarrow> ledger \<times> 'e \<Rightarrow> MessagingFee oft_result"
  ep_send :: "pubkey \<Rightarrow> pubkey \<Rightarrow> AccountInfo list \<Rightarrow> bytes list \<Rightarrow> EndpointSendParams \<Rightarrow> ledger \<times> 'e \<Rightarrow>
    (MessagingReceipt \<times> ledger \<times> 'e) oft_result"
  ep_clear :: "pubkey \<Rightarrow> pubkey \<Rightarrow> AccountInfo list \<Rightarrow> bytes list \<Rightarrow> ClearParams \<Rightarrow> ledger \<times> 'e \<Rightarrow> (ledger \<times> 'e) oft_result"
  ep_send_compose :: "pubkey \<Rightarrow> pubkey \<Rightarrow> AccountInfo list \<Rightarrow> bytes list \<Rightarrow> SendComposeParams \<Rightarrow> ledger \<times> 'e \<Rightarrow>
    (ledger \<times> 'e) oft_result"
  ep_clear_min_accounts_len :: nat
  ep_accounts_for_clear :: "pubkey \<Rightarrow> pubkey \<Rightarrow> u32 \<Rightarrow> bytes \<Rightarrow> u64 \<Rightarrow> LzAccount list"
  ep_accounts_for_send_compose :: "pubkey \<Rightarrow> pubkey \<Rightarrow> pubkey \<Rightarrow> bytes \<Rightarrow> u16 \<Rightarrow> bytes \<Rightarrow> LzAccount list"
  ep_combine_options :: "bytes \<Rightarrow> bytes \<Rightarrow> bytes oft_result"
  ep_assert_type_3 :: "bytes \<Rightarrow> unit oft_result"
  ep_id :: pubkey
  ep_event_seed :: bytes
  ep_lz_receive_types_seed :: bytes

record ('g, 'm, 'd, 'f, 'e) OftEnv =
  oe_runtime :: "('g, 'm, 'd, 'f) Runtime"
  oe_endpoint :: "'e Endpoint"
  oe_program_id :: pubkey
  oe_create_address :: "bytes list \<Rightarrow> pubkey option"
  oe_find_address :: "bytes list \<Rightarrow> pubkey \<times> u8"
  oe_associated_address :: "pubkey \<Rightarrow> pubkey \<Rightarrow> pubkey \<Rightarrow> pubkey"
  oe_associated_token_id :: pubkey
  oe_spl_token :: "AccountInfo list \<Rightarrow> bytes \<Rightarrow> ledger \<Rightarrow> ledger result"
  oe_create_account :: "AccountInfo \<Rightarrow> pubkey \<Rightarrow> nat \<Rightarrow> ledger \<Rightarrow> ledger oft_result"
  oe_init_token_account :: "AccountInfo \<Rightarrow> pubkey \<Rightarrow> pubkey \<Rightarrow> pubkey \<Rightarrow> pubkey \<Rightarrow> ledger \<Rightarrow> ledger oft_result"
  oe_init_associated :: "AccountInfo \<Rightarrow> pubkey \<Rightarrow> pubkey \<Rightarrow> pubkey \<Rightarrow> pubkey \<Rightarrow> ledger \<Rightarrow> ledger oft_result"

abbreviation oft_clock :: "('g, 'm, 'd, 'f, 'e) OftEnv \<Rightarrow> Env" where
  "oft_clock E \<equiv> rt_env (oe_runtime E)"

abbreviation oft_system_id :: "('g, 'm, 'd, 'f, 'e) OftEnv \<Rightarrow> pubkey" where
  "oft_system_id E \<equiv> system_program_id (env_ids (oft_clock E))"

section \<open>State\<close>

datatype OftEvent =
    OFTSent bytes u32 pubkey u64 u64
  | OFTReceived bytes u32 pubkey u64

record 'e OftState =
  os_ledger :: ledger
  os_stores :: "pubkey \<Rightarrow> OFTStore option"
  os_peers :: "pubkey \<Rightarrow> PeerConfig option"
  os_receive_types :: "pubkey \<Rightarrow> LzReceiveTypesAccounts option"
  os_endpoint :: 'e
  os_events :: "OftEvent list"

text \<open>\<open>b"OFT"\<close> and \<open>b"Peer"\<close>\<close>

definition OFT_SEED :: bytes where "OFT_SEED = [79, 70, 84]"
definition PEER_SEED :: bytes where "PEER_SEED = [80, 101, 101, 114]"

definition store_seeds :: "pubkey \<Rightarrow> bytes list" where
  "store_seeds token_escrow = [OFT_SEED, to_le 32 token_escrow]"

definition peer_seeds :: "pubkey \<Rightarrow> u32 \<Rightarrow> bytes list" where
  "peer_seeds oft_store eid = [PEER_SEED, to_le 32 oft_store, to_be 4 eid]"

section \<open>Accounts and their constraints\<close>

definition load_signer :: "AccountInfo \<Rightarrow> unit oft_result" where
  "load_signer i = ensure (ai_is_signer i) (Anchor AccountNotSigner)"

definition load_store :: "'e OftState \<Rightarrow> AccountInfo \<Rightarrow> OFTStore oft_result" where
  "load_store s i = ok_or (os_stores s (ai_key i)) (Anchor AccountNotInitialized)"

definition load_peer :: "'e OftState \<Rightarrow> AccountInfo \<Rightarrow> PeerConfig oft_result" where
  "load_peer s i = ok_or (os_peers s (ai_key i)) (Anchor AccountNotInitialized)"

definition token_programs :: "pubkey list" where
  "token_programs = [token_program_id, inline_spl_token_id]"

definition load_token_account :: "pubkey \<Rightarrow> ledger \<Rightarrow> AccountInfo \<Rightarrow> Account oft_result" where
  "load_token_account system L i =
     (let a = L (ai_key i)
      in if ac_owner a = system \<and> ac_lamports a = 0 then Err (Anchor AccountNotInitialized)
         else if ac_owner a \<notin> set token_programs then Err (Anchor AccountOwnedByWrongProgram)
         else and_then (lift (state_unpack AccountP (ac_data a))) (\<lambda>st. Ok (base st)))"

definition load_mint :: "pubkey \<Rightarrow> ledger \<Rightarrow> AccountInfo \<Rightarrow> Mint oft_result" where
  "load_mint system L i =
     (let a = L (ai_key i)
      in if ac_owner a = system \<and> ac_lamports a = 0 then Err (Anchor AccountNotInitialized)
         else if ac_owner a \<notin> set token_programs then Err (Anchor AccountOwnedByWrongProgram)
         else and_then (lift (state_unpack MintP (ac_data a))) (\<lambda>st. Ok (base st)))"

definition load_token_program :: "AccountInfo \<Rightarrow> unit oft_result" where
  "load_token_program i = ensure (ai_key i \<in> set token_programs) (Anchor InvalidProgramId)"

definition check_seeds :: "('g, 'm, 'd, 'f, 'e) OftEnv \<Rightarrow> bytes list \<Rightarrow> u8 \<Rightarrow> AccountInfo \<Rightarrow> unit oft_result" where
  "check_seeds E seeds bump i =
     ensure (oe_create_address E (seeds @ [[bump]]) = Some (ai_key i)) (Anchor ConstraintSeeds)"

definition check_address :: "pubkey \<Rightarrow> AccountInfo \<Rightarrow> unit oft_result" where
  "check_address k i = ensure (ai_key i = k) (Anchor ConstraintAddress)"

definition check_has_one_admin :: "OFTStore \<Rightarrow> AccountInfo \<Rightarrow> unit oft_result" where
  "check_has_one_admin st admin = ensure (oft_admin st = ai_key admin) (Oft Unauthorized)"

text \<open>\<open>token::authority\<close>, \<open>token::mint\<close> and \<open>token::token_program\<close>; a destination may have any authority.\<close>

definition check_token_account ::
  "ledger \<Rightarrow> AccountInfo \<Rightarrow> Account \<Rightarrow> pubkey option \<Rightarrow> AccountInfo \<Rightarrow> AccountInfo \<Rightarrow> unit oft_result" where
  "check_token_account L i a authority mint_info token_program =
     and_then (ensure (authority = None \<or> authority = Some (sa_owner a)) (Anchor ConstraintTokenOwner)) (\<lambda>_.
     and_then (ensure (sa_mint a = ai_key mint_info) (Anchor ConstraintTokenMint)) (\<lambda>_.
     ensure (ac_owner (L (ai_key i)) = ai_key token_program) (Anchor ConstraintTokenTokenProgram)))"

definition check_mint_program :: "ledger \<Rightarrow> AccountInfo \<Rightarrow> AccountInfo \<Rightarrow> unit oft_result" where
  "check_mint_program L mint_info token_program =
     ensure (ac_owner (L (ai_key mint_info)) = ai_key token_program) (Anchor ConstraintMintTokenProgram)"

section \<open>Calls of the token program\<close>

text \<open>
  Entries of one instruction with the same key share their flags; a signature must come from the caller or from
  an address of the calling program.  The previous instruction at the same level is what the memo check sees.
\<close>

definition cpi_infos :: "AccountMeta list \<Rightarrow> AccountInfo list" where
  "cpi_infos ms = map (\<lambda>m. \<lparr>ai_key = am_pubkey m,
     ai_is_signer = (\<exists>m'\<in>set ms. am_pubkey m' = am_pubkey m \<and> am_is_signer m')\<rparr>) ms"

definition in_cpi :: "pubkey option \<Rightarrow> ('g, 'm, 'd, 'f) Runtime \<Rightarrow> ('g, 'm, 'd, 'f) Runtime" where
  "in_cpi sibling R = R\<lparr>rt_env := (rt_env R)\<lparr>env_in_cpi := True, env_sibling := sibling\<rparr>\<rparr>"

definition privilege_escalation :: ProgramError where "privilege_escalation = External 0"

definition invoke_signed ::
  "('g, 'm, 'd, 'f, 'e) OftEnv \<Rightarrow> pubkey option \<Rightarrow> pubkey list \<Rightarrow> SolInstruction result \<Rightarrow> ledger \<Rightarrow> ledger oft_result" where
  "invoke_signed E sibling signers ix L =
     and_then (lift ix) (\<lambda>ix.
     if \<exists>m\<in>set (ix_accounts ix). am_is_signer m \<and> am_pubkey m \<notin> set signers
     then Err (Program privilege_escalation)
     else if ix_program_id ix = token_program_id
     then and_then (lift (process (in_cpi sibling (oe_runtime E)) token_program_id (cpi_infos (ix_accounts ix))
            (ix_data ix) L)) (\<lambda>(L, _). Ok L)
     else lift (oe_spl_token E (cpi_infos (ix_accounts ix)) (ix_data ix) L))"

text \<open>The address the program signs for with the seeds of its store.\<close>

definition pda_signer :: "('g, 'm, 'd, 'f, 'e) OftEnv \<Rightarrow> bytes list \<Rightarrow> u8 \<Rightarrow> pubkey list" where
  "pda_signer E seeds bump =
     (case oe_create_address E (seeds @ [[bump]]) of Some k \<Rightarrow> [k] | None \<Rightarrow> [])"

text \<open>\<open>ctx.remaining_accounts[i]\<close> and slices of it\<close>

definition nth_account :: "AccountInfo list \<Rightarrow> nat \<Rightarrow> AccountInfo oft_result" where
  "nth_account xs i = or_panic (if i < length xs then Some (xs ! i) else None)"

definition accounts_to :: "AccountInfo list \<Rightarrow> nat \<Rightarrow> AccountInfo list oft_result" where
  "accounts_to xs n = or_panic (if n \<le> length xs then Some (take n xs) else None)"

definition accounts_from :: "AccountInfo list \<Rightarrow> nat \<Rightarrow> AccountInfo list oft_result" where
  "accounts_from xs n = or_panic (if n \<le> length xs then Some (drop n xs) else None)"

end
