(* ===== verification/Oft_Send.thy ===== *)
theory Oft_Send
  imports Oft_Context
begin

text \<open>
  Quoting and sending (src/layerzero/programs/oft/src/instructions: \<open>quote_oft.rs\<close>, \<open>quote_send.rs\<close>,
  \<open>send.rs\<close>).  The accounts of an instruction are a record; loading them and checking their constraints is one
  definition, \<open>apply\<close> is the other.
\<close>

section \<open>Quotes\<close>

record QuoteCtx =
  qx_oft_store :: AccountInfo
  qx_peer :: AccountInfo
  qx_mint :: AccountInfo
  qx_remaining :: "AccountInfo list"

record QuoteOFTParams =
  qp_dst_eid :: u32
  qp_to :: bytes
  qp_amount_ld :: u64
  qp_min_amount_ld :: u64
  qp_options :: bytes
  qp_compose_msg :: "bytes option"
  qp_pay_in_lz_token :: bool

datatype FeeDescription = TransferFeeDescription | CrossChainFeeDescription

record OFTReceipt =
  or_amount_sent_ld :: u64
  or_amount_received_ld :: u64

record QuoteOFTResult =
  qr_limits :: "u64 \<times> u64"
  qr_fee_details :: "(u64 \<times> FeeDescription) list"
  qr_receipt :: OFTReceipt

definition quote_accounts ::
  "('g, 'm, 'd, 'f, 'e) OftEnv \<Rightarrow> QuoteCtx \<Rightarrow> u32 \<Rightarrow> 'e OftState \<Rightarrow> (OFTStore \<times> PeerConfig) oft_result" where
  "quote_accounts E x dst_eid s =
     and_then (load_store s (qx_oft_store x)) (\<lambda>st.
     and_then (load_peer s (qx_peer x)) (\<lambda>peer.
     and_then (load_mint (oft_system_id E) (os_ledger s) (qx_mint x)) (\<lambda>_.
     and_then (check_seeds E (store_seeds (oft_token_escrow st)) (oft_bump st) (qx_oft_store x)) (\<lambda>_.
     and_then (check_seeds E (peer_seeds (ai_key (qx_oft_store x)) dst_eid) (peer_bump peer) (qx_peer x)) (\<lambda>_.
     and_then (check_address (oft_token_mint st) (qx_mint x)) (\<lambda>_. Ok (st, peer)))))))"

definition quote_oft ::
  "('g, 'm, 'd, 'f, 'e) OftEnv \<Rightarrow> QuoteCtx \<Rightarrow> QuoteOFTParams \<Rightarrow> 'e OftState \<Rightarrow> QuoteOFTResult oft_result" where
  "quote_oft E x params s =
     and_then (quote_accounts E x (qp_dst_eid params) s) (\<lambda>(st, peer).
     if oft_paused st then Err (Oft Paused)
     else
     and_then (compute_fee_and_adjust_amount (oft_clock E) (os_ledger s) (qp_amount_ld params) st
       (ai_key (qx_mint x)) (peer_fee_bps peer)) (\<lambda>(amount_sent_ld, amount_received_ld, oft_fee_ld).
     if amount_received_ld < qp_min_amount_ld params then Err (Oft SlippageExceeded)
     else
     and_then (or_panic (checked_add amount_received_ld oft_fee_ld)) (\<lambda>accounted.
     and_then (if accounted < amount_sent_ld
               then and_then (or_panic (checked_sub amount_sent_ld oft_fee_ld)) (\<lambda>v.
                    and_then (or_panic (checked_sub v amount_received_ld)) (\<lambda>v. Ok [(v, TransferFeeDescription)]))
               else Ok []) (\<lambda>oft_fee_details.
     Ok \<lparr>qr_limits = (0, 0xffffffffffffffff),
          qr_fee_details = oft_fee_details @ (if oft_fee_ld > 0 then [(oft_fee_ld, CrossChainFeeDescription)] else []),
          qr_receipt = \<lparr>or_amount_sent_ld = amount_sent_ld, or_amount_received_ld = amount_received_ld\<rparr>\<rparr>))))"

definition quote_send ::
  "('g, 'm, 'd, 'f, 'e) OftEnv \<Rightarrow> QuoteCtx \<Rightarrow> QuoteOFTParams \<Rightarrow> 'e OftState \<Rightarrow> MessagingFee oft_result" where
  "quote_send E x params s =
     and_then (quote_accounts E x (qp_dst_eid params) s) (\<lambda>(st, peer).
     if oft_paused st then Err (Oft Paused)
     else
     and_then (compute_fee_and_adjust_amount (oft_clock E) (os_ledger s) (qp_amount_ld params) st
       (ai_key (qx_mint x)) (peer_fee_bps peer)) (\<lambda>(_, amount_received_ld, _).
     if amount_received_ld < qp_min_amount_ld params then Err (Oft SlippageExceeded)
     else
     and_then (combine_options (ep_combine_options (oe_endpoint E)) (enforced_options peer)
       (qp_compose_msg params) (qp_options params)) (\<lambda>options.
     ep_quote (oe_endpoint E) (oft_endpoint_program st) (qx_remaining x)
       \<lparr>eq_sender = ai_key (qx_oft_store x), eq_dst_eid = qp_dst_eid params, eq_receiver = peer_address peer,
        eq_message = msg_encode (qp_to params) amount_received_ld 0 (qp_compose_msg params),
        eq_pay_in_lz_token = qp_pay_in_lz_token params, eq_options = options\<rparr>
       (os_ledger s, os_endpoint s))))"

section \<open>Sending\<close>

record SendCtx =
  sx_signer :: AccountInfo
  sx_peer :: AccountInfo
  sx_oft_store :: AccountInfo
  sx_source :: AccountInfo
  sx_escrow :: AccountInfo
  sx_mint :: AccountInfo
  sx_token_program :: AccountInfo
  sx_remaining :: "AccountInfo list"

record SendParams =
  sp_dst_eid :: u32
  sp_to :: bytes
  sp_amount_ld :: u64
  sp_min_amount_ld :: u64
  sp_options :: bytes
  sp_compose_msg :: "bytes option"
  sp_native_fee :: u64
  sp_lz_token_fee :: u64

definition send_accounts ::
  "('g, 'm, 'd, 'f, 'e) OftEnv \<Rightarrow> SendCtx \<Rightarrow> SendParams \<Rightarrow> 'e OftState \<Rightarrow> (PeerConfig \<times> OFTStore \<times> Mint) oft_result" where
  "send_accounts E x params s =
     (let L = os_ledger s; sys = oft_system_id E in
     and_then (load_signer (sx_signer x)) (\<lambda>_.
     and_then (load_peer s (sx_peer x)) (\<lambda>peer.
     and_then (load_store s (sx_oft_store x)) (\<lambda>st.
     and_then (load_token_account sys L (sx_source x)) (\<lambda>source.
     and_then (load_token_account sys L (sx_escrow x)) (\<lambda>escrow.
     and_then (load_mint sys L (sx_mint x)) (\<lambda>mint.
     and_then (load_token_program (sx_token_program x)) (\<lambda>_.
     and_then (check_seeds E (peer_seeds (ai_key (sx_oft_store x)) (sp_dst_eid params)) (peer_bump peer) (sx_peer x)) (\<lambda>_.
     and_then (check_seeds E (store_seeds (oft_token_escrow st)) (oft_bump st) (sx_oft_store x)) (\<lambda>_.
     and_then (check_token_account L (sx_source x) source (Some (ai_key (sx_signer x))) (sx_mint x) (sx_token_program x)) (\<lambda>_.
     and_then (check_address (oft_token_escrow st) (sx_escrow x)) (\<lambda>_.
     and_then (check_token_account L (sx_escrow x) escrow (Some (ai_key (sx_oft_store x))) (sx_mint x) (sx_token_program x)) (\<lambda>_.
     and_then (check_address (oft_token_mint st) (sx_mint x)) (\<lambda>_.
     and_then (check_mint_program L (sx_mint x) (sx_token_program x)) (\<lambda>_.
     Ok (peer, st, mint))))))))))))))))"

text \<open>The limiters of a peer when an amount goes out, and when it comes in.\<close>

definition limit_with :: "(RateLimiter \<Rightarrow> RateLimiter oft_result) \<Rightarrow> RateLimiter option \<Rightarrow> RateLimiter option oft_result" where
  "limit_with f l = (case l of Some rate_limiter \<Rightarrow> and_then (f rate_limiter) (\<lambda>l. Ok (Some l)) | None \<Rightarrow> Ok None)"

definition limit_outbound :: "Env \<Rightarrow> u64 \<Rightarrow> PeerConfig \<Rightarrow> PeerConfig oft_result" where
  "limit_outbound env amount peer =
     and_then (limit_with (try_consume env amount) (outbound_rate_limiter peer)) (\<lambda>o'.
     and_then (limit_with (refill env amount) (inbound_rate_limiter peer)) (\<lambda>i'.
     Ok (peer\<lparr>outbound_rate_limiter := o', inbound_rate_limiter := i'\<rparr>)))"

definition limit_inbound :: "Env \<Rightarrow> u64 \<Rightarrow> PeerConfig \<Rightarrow> PeerConfig oft_result" where
  "limit_inbound env amount peer =
     and_then (limit_with (try_consume env amount) (inbound_rate_limiter peer)) (\<lambda>i'.
     and_then (limit_with (refill env amount) (outbound_rate_limiter peer)) (\<lambda>o'.
     Ok (peer\<lparr>outbound_rate_limiter := o', inbound_rate_limiter := i'\<rparr>)))"

text \<open>Moving the tokens: locked in the escrow, or burned with the fee moved there.\<close>

definition send_tokens ::
  "('g, 'm, 'd, 'f, 'e) OftEnv \<Rightarrow> SendCtx \<Rightarrow> OFTStore \<Rightarrow> u8 \<Rightarrow> u64 \<Rightarrow> u64 \<Rightarrow> u64 \<Rightarrow> ledger \<Rightarrow> (OFTStore \<times> ledger) oft_result" where
  "send_tokens E x st decimals amount_sent_ld amount_received_ld oft_fee_ld L =
     (let tp = ai_key (sx_token_program x); source = ai_key (sx_source x); mint = ai_key (sx_mint x);
          escrow = ai_key (sx_escrow x); signer = ai_key (sx_signer x)
      in if oft_type st = Adapter
      then and_then (or_panic (checked_add (tvl_ld st) amount_received_ld)) (\<lambda>tvl.
           and_then (invoke_signed E None [signer]
             (transfer_checked tp source mint escrow signer [] amount_sent_ld decimals) L) (\<lambda>L.
           Ok (st\<lparr>tvl_ld := tvl\<rparr>, L)))
      else and_then (or_panic (checked_sub amount_sent_ld oft_fee_ld)) (\<lambda>burned.
           and_then (invoke_signed E None [signer] (burn tp source mint signer [] burned) L) (\<lambda>L.
           and_then (if oft_fee_ld > 0
             then invoke_signed E (Some tp) [signer]
               (transfer_checked tp source mint escrow signer [] oft_fee_ld decimals) L
             else Ok L) (\<lambda>L. Ok (st, L)))))"

definition oft_send ::
  "('g, 'm, 'd, 'f, 'e) OftEnv \<Rightarrow> SendCtx \<Rightarrow> SendParams \<Rightarrow> 'e OftState \<Rightarrow>
     (MessagingReceipt \<times> OFTReceipt \<times> 'e OftState) oft_result" where
  "oft_send E x params s =
     and_then (send_accounts E x params s) (\<lambda>(peer, st, mint).
     if oft_paused st then Err (Oft Paused)
     else
     and_then (compute_fee_and_adjust_amount (oft_clock E) (os_ledger s) (sp_amount_ld params) st
       (ai_key (sx_mint x)) (peer_fee_bps peer)) (\<lambda>(amount_sent_ld, amount_received_ld, oft_fee_ld).
     if amount_received_ld < sp_min_amount_ld params then Err (Oft SlippageExceeded)
     else
     and_then (limit_outbound (oft_clock E) amount_received_ld peer) (\<lambda>peer.
     and_then (send_tokens E x st (s_decimals mint) amount_sent_ld amount_received_ld oft_fee_ld (os_ledger s))
       (\<lambda>(st, L).
     and_then (nth_account (sx_remaining x) 1) (\<lambda>sender.
     if ai_key (sx_oft_store x) \<noteq> ai_key sender then Err (Oft InvalidSender)
     else
     and_then (ld2sd st amount_received_ld) (\<lambda>amount_sd.
     and_then (combine_options (ep_combine_options (oe_endpoint E)) (enforced_options peer)
       (sp_compose_msg params) (sp_options params)) (\<lambda>options.
     and_then (ep_send (oe_endpoint E) (oft_endpoint_program st) (ai_key (sx_oft_store x)) (sx_remaining x)
         (store_seeds (ai_key (sx_escrow x)) @ [[oft_bump st]])
         \<lparr>es_dst_eid = sp_dst_eid params, es_receiver = peer_address peer,
          es_message = msg_encode (sp_to params) amount_sd (ai_key (sx_signer x)) (sp_compose_msg params),
          es_options = options, es_native_fee = sp_native_fee params, es_lz_token_fee = sp_lz_token_fee params\<rparr>
         (L, os_endpoint s)) (\<lambda>(msg_receipt, L, e).
     Ok (msg_receipt, \<lparr>or_amount_sent_ld = amount_sent_ld, or_amount_received_ld = amount_received_ld\<rparr>,
       s\<lparr>os_ledger := L, os_endpoint := e,
         os_stores := (os_stores s)(ai_key (sx_oft_store x) := Some st),
         os_peers := (os_peers s)(ai_key (sx_peer x) := Some peer),
         os_events := os_events s @ [OFTSent (mr_guid msg_receipt) (sp_dst_eid params) (ai_key (sx_source x))
           amount_sent_ld amount_received_ld]\<rparr>)))))))))"

end
