(* ===== verification/Oft_Receive.thy ===== *)
theory Oft_Receive
  imports Oft_Send
begin

text \<open>
  Receiving (src/layerzero/programs/oft/src/instructions: \<open>lz_receive.rs\<close>, \<open>lz_receive_types.rs\<close>): a message is
  cleared at the endpoint, the amount is released from the escrow or minted, and a composed message is handed on.
\<close>

record LzReceiveCtx =
  rx_payer :: AccountInfo
  rx_peer :: AccountInfo
  rx_oft_store :: AccountInfo
  rx_escrow :: AccountInfo
  rx_to_address :: AccountInfo
  rx_dest :: AccountInfo
  rx_mint :: AccountInfo
  rx_mint_authority :: "AccountInfo option"
  rx_token_program :: AccountInfo
  rx_associated_token_program :: AccountInfo
  rx_system_program :: AccountInfo
  rx_remaining :: "AccountInfo list"

text \<open>\<open>init_if_needed\<close>: an account the system program owns is created as the associated account first.\<close>

definition receive_dest ::
  "('g, 'm, 'd, 'f, 'e) OftEnv \<Rightarrow> LzReceiveCtx \<Rightarrow> ledger \<Rightarrow> (Account \<times> ledger) oft_result" where
  "receive_dest E x L =
     and_then (if ac_owner (L (ai_key (rx_dest x))) = oft_system_id E
       then oe_init_associated E (rx_payer x) (ai_key (rx_dest x)) (ai_key (rx_mint x)) (ai_key (rx_to_address x))
         (ai_key (rx_token_program x)) L
       else Ok L) (\<lambda>L.
     and_then (load_token_account (oft_system_id E) L (rx_dest x)) (\<lambda>dest.
     and_then (check_token_account L (rx_dest x) dest (Some (ai_key (rx_to_address x))) (rx_mint x) (rx_token_program x)) (\<lambda>_.
     and_then (ensure (oe_associated_address E (ai_key (rx_to_address x)) (ai_key (rx_mint x)) (ai_key (rx_token_program x)) =
       ai_key (rx_dest x)) (Anchor ConstraintAssociated)) (\<lambda>_. Ok (dest, L)))))"

definition receive_accounts ::
  "('g, 'm, 'd, 'f, 'e) OftEnv \<Rightarrow> LzReceiveCtx \<Rightarrow> LzReceiveParams \<Rightarrow> 'e OftState \<Rightarrow>
     (PeerConfig \<times> OFTStore \<times> Mint \<times> ledger) oft_result" where
  "receive_accounts E x params s =
     (let L = os_ledger s; sys = oft_system_id E in
     and_then (load_signer (rx_payer x)) (\<lambda>_.
     and_then (load_peer s (rx_peer x)) (\<lambda>peer.
     and_then (load_store s (rx_oft_store x)) (\<lambda>st.
     and_then (load_token_account sys L (rx_escrow x)) (\<lambda>escrow.
     and_then (load_mint sys L (rx_mint x)) (\<lambda>mint.
     and_then (load_token_program (rx_token_program x)) (\<lambda>_.
     and_then (ensure (ai_key (rx_associated_token_program x) = oe_associated_token_id E) (Anchor InvalidProgramId)) (\<lambda>_.
     and_then (ensure (ai_key (rx_system_program x) = sys) (Anchor InvalidProgramId)) (\<lambda>_.
     and_then (receive_dest E x L) (\<lambda>(_, L).
     and_then (check_seeds E (peer_seeds (ai_key (rx_oft_store x)) (rp_src_eid params)) (peer_bump peer) (rx_peer x)) (\<lambda>_.
     and_then (ensure (peer_address peer = rp_sender params) (Oft InvalidSender)) (\<lambda>_.
     and_then (check_seeds E (store_seeds (oft_token_escrow st)) (oft_bump st) (rx_oft_store x)) (\<lambda>_.
     and_then (check_address (oft_token_escrow st) (rx_escrow x)) (\<lambda>_.
     and_then (check_token_account L (rx_escrow x) escrow (Some (ai_key (rx_oft_store x))) (rx_mint x) (rx_token_program x)) (\<lambda>_.
     and_then (or_panic (msg_send_to (rp_message params))) (\<lambda>to_address.
     and_then (ensure (ai_key (rx_to_address x) = from_le to_address) (Oft InvalidTokenDest)) (\<lambda>_.
     and_then (check_address (oft_token_mint st) (rx_mint x)) (\<lambda>_.
     and_then (check_mint_program L (rx_mint x) (rx_token_program x)) (\<lambda>_.
     and_then (case rx_mint_authority x of
         Some mint_authority \<Rightarrow> ensure (s_mint_authority mint = Some (ai_key mint_authority)) (Oft InvalidMintAuthority)
       | None \<Rightarrow> Ok ()) (\<lambda>_.
     Ok (peer, st, mint, L)))))))))))))))))))))"

text \<open>Releasing the tokens; the result also has the amount that reaches the receiver.\<close>

definition receive_tokens ::
  "('g, 'm, 'd, 'f, 'e) OftEnv \<Rightarrow> LzReceiveCtx \<Rightarrow> OFTStore \<Rightarrow> u8 \<Rightarrow> u64 \<Rightarrow> ledger \<Rightarrow> (OFTStore \<times> ledger \<times> u64) oft_result" where
  "receive_tokens E x st decimals amount_received_ld L =
     (let tp = ai_key (rx_token_program x); dest = ai_key (rx_dest x); mint = ai_key (rx_mint x);
          escrow = ai_key (rx_escrow x); store = ai_key (rx_oft_store x);
          signers = ai_key (rx_payer x) # pda_signer E (store_seeds escrow) (oft_bump st);
          sibling = Some (oft_endpoint_program st)
      in if oft_type st = Adapter
      then and_then (or_panic (checked_sub (tvl_ld st) amount_received_ld)) (\<lambda>tvl.
           and_then (invoke_signed E sibling signers
             (transfer_checked tp escrow mint dest store [] amount_received_ld decimals) L) (\<lambda>L.
           and_then (get_post_fee_amount_ld (oft_clock E) L mint amount_received_ld) (\<lambda>received.
           Ok (st\<lparr>tvl_ld := tvl\<rparr>, L, received))))
      else case rx_mint_authority x of
        Some mint_authority \<Rightarrow>
          and_then (invoke_signed E sibling signers
            (mint_to tp mint dest (ai_key mint_authority) [store] amount_received_ld) L) (\<lambda>L.
          Ok (st, L, amount_received_ld))
      | None \<Rightarrow> Err (Oft InvalidMintAuthority))"

definition lz_receive ::
  "('g, 'm, 'd, 'f, 'e) OftEnv \<Rightarrow> LzReceiveCtx \<Rightarrow> LzReceiveParams \<Rightarrow> 'e OftState \<Rightarrow> 'e OftState oft_result" where
  "lz_receive E x params s =
     and_then (receive_accounts E x params s) (\<lambda>(peer, st, mint, L).
     if oft_paused st then Err (Oft Paused)
     else
     let store = ai_key (rx_oft_store x); seeds = store_seeds (ai_key (rx_escrow x)) @ [[oft_bump st]];
         ep = oe_endpoint E in
     and_then (accounts_to (rx_remaining x) (ep_clear_min_accounts_len ep)) (\<lambda>accounts_for_clear.
     and_then (ep_clear ep (oft_endpoint_program st) store accounts_for_clear seeds
       \<lparr>ec_receiver = store, ec_src_eid = rp_src_eid params, ec_sender = rp_sender params, ec_nonce = rp_nonce params,
        ec_guid = rp_guid params, ec_message = rp_message params\<rparr> (L, os_endpoint s)) (\<lambda>(L, e).
     and_then (or_panic (msg_amount_sd (rp_message params))) (\<lambda>amount_sd.
     and_then (sd2ld st amount_sd) (\<lambda>amount_received_ld.
     and_then (limit_inbound (oft_clock E) amount_received_ld peer) (\<lambda>peer.
     and_then (receive_tokens E x st (s_decimals mint) amount_received_ld L) (\<lambda>(st, L, amount_received_ld).
     and_then (case msg_compose_msg (rp_message params) of
         Some message \<Rightarrow>
           and_then (accounts_from (rx_remaining x) (ep_clear_min_accounts_len ep)) (\<lambda>accounts.
           ep_send_compose ep (oft_endpoint_program st) store accounts seeds
             \<lparr>sc_to = ai_key (rx_to_address x), sc_guid = rp_guid params, sc_index = 0,
              sc_message = compose_encode (rp_nonce params) (rp_src_eid params) amount_received_ld message\<rparr> (L, e))
       | None \<Rightarrow> Ok (L, e)) (\<lambda>(L, e).
     Ok (s\<lparr>os_ledger := L, os_endpoint := e,
         os_stores := (os_stores s)(store := Some st),
         os_peers := (os_peers s)(ai_key (rx_peer x) := Some peer),
         os_events := os_events s @ [OFTReceived (rp_guid params) (rp_src_eid params) (ai_key (rx_to_address x))
           amount_received_ld]\<rparr>)))))))))"

section \<open>The accounts a message needs\<close>

record LzReceiveTypesCtx =
  tx_oft_store :: AccountInfo
  tx_mint :: AccountInfo

definition lz_account :: "pubkey \<Rightarrow> bool \<Rightarrow> bool \<Rightarrow> LzAccount" where
  "lz_account k signer writable = \<lparr>la_pubkey = k, la_is_signer = signer, la_is_writable = writable\<rparr>"

definition lz_receive_types ::
  "('g, 'm, 'd, 'f, 'e) OftEnv \<Rightarrow> LzReceiveTypesCtx \<Rightarrow> LzReceiveParams \<Rightarrow> 'e OftState \<Rightarrow> LzAccount list oft_result" where
  "lz_receive_types E x params s =
     and_then (load_store s (tx_oft_store x)) (\<lambda>st.
     and_then (load_mint (oft_system_id E) (os_ledger s) (tx_mint x)) (\<lambda>mint.
     and_then (check_seeds E (store_seeds (oft_token_escrow st)) (oft_bump st) (tx_oft_store x)) (\<lambda>_.
     and_then (check_address (oft_token_mint st) (tx_mint x)) (\<lambda>_.
     and_then (or_panic (msg_send_to (rp_message params))) (\<lambda>to.
     let store = ai_key (tx_oft_store x); ep = oe_endpoint E; to_address = from_le to;
         peer = fst (oe_find_address E (peer_seeds store (rp_src_eid params)));
         tp = ac_owner (os_ledger s (ai_key (tx_mint x)));
         token_dest = oe_associated_address E to_address (oft_token_mint st) tp;
         mint_authority = (case s_mint_authority mint of Some k \<Rightarrow> k | None \<Rightarrow> oe_program_id E);
         accounts = [lz_account 0 True True, lz_account peer False True, lz_account store False True,
           lz_account (oft_token_escrow st) False True, lz_account to_address False False,
           lz_account token_dest False True, lz_account (ai_key (tx_mint x)) False True,
           lz_account mint_authority False False, lz_account tp False False,
           lz_account (oe_associated_token_id E) False False, lz_account (oft_system_id E) False False,
           lz_account (fst (oe_find_address E [ep_event_seed ep])) False False,
           lz_account (oe_program_id E) False False] @
           ep_accounts_for_clear ep (oft_endpoint_program st) store (rp_src_eid params) (rp_sender params) (rp_nonce params)
     in case msg_compose_msg (rp_message params) of
          Some message \<Rightarrow>
            and_then (or_panic (msg_amount_sd (rp_message params))) (\<lambda>amount_sd.
            and_then (sd2ld st amount_sd) (\<lambda>amount_ld.
            and_then (if oft_type st = Native then Ok amount_ld
                      else get_post_fee_amount_ld (oft_clock E) (os_ledger s) (ai_key (tx_mint x)) amount_ld) (\<lambda>amount_received_ld.
            Ok (accounts @ ep_accounts_for_send_compose ep (oft_endpoint_program st) store to_address (rp_guid params) 0
              (compose_encode (rp_nonce params) (rp_src_eid params) amount_received_ld message)))))
        | None \<Rightarrow> Ok accounts)))))"

end
