(* ===== verification/Oft_Admin.thy ===== *)
theory Oft_Admin
  imports Oft_Receive
begin

text \<open>
  Creating and administrating a store (src/layerzero/programs/oft/src/instructions: \<open>init_oft.rs\<close>,
  \<open>set_oft_config.rs\<close>, \<open>set_peer_config.rs\<close>, \<open>set_pause.rs\<close>, \<open>withdraw_fee.rs\<close>).
\<close>

section \<open>Creating a store\<close>

record InitOFTCtx =
  nx_payer :: AccountInfo
  nx_oft_store :: AccountInfo
  nx_lz_receive_types_accounts :: AccountInfo
  nx_mint :: AccountInfo
  nx_escrow :: AccountInfo
  nx_token_program :: AccountInfo
  nx_system_program :: AccountInfo
  nx_remaining :: "AccountInfo list"

record InitOFTParams =
  ip_oft_type :: OFTType
  ip_admin :: pubkey
  ip_shared_decimals :: u8
  ip_endpoint_program :: "pubkey option"

text \<open>\<open>8 + INIT_SPACE\<close> of the three accounts of the program\<close>

definition OFT_STORE_SPACE :: nat where
  "OFT_STORE_SPACE = 8 + (1 + 8 + 32 + 32 + 32 + 1 + 8 + 32 + 2 + 1 + 33 + 33)"

definition LZ_RECEIVE_TYPES_SPACE :: nat where "LZ_RECEIVE_TYPES_SPACE = 8 + (32 + 32)"

definition PEER_CONFIG_SPACE :: nat where
  "PEER_CONFIG_SPACE = 8 + (32 + ((4 + 512) + (4 + 1024)) + (1 + 32) + (1 + 32) + (1 + 2) + 1)"

text \<open>The accounts: the bump of the store, the mint and the ledger with the created accounts.\<close>

definition init_accounts ::
  "('g, 'm, 'd, 'f, 'e) OftEnv \<Rightarrow> InitOFTCtx \<Rightarrow> 'e OftState \<Rightarrow> (u8 \<times> Mint \<times> ledger) oft_result" where
  "init_accounts E x s =
     (let (store, bump) = oe_find_address E (store_seeds (ai_key (nx_escrow x)));
          (types, _) = oe_find_address E
            [ep_lz_receive_types_seed (oe_endpoint E), to_le 32 (ai_key (nx_oft_store x))] in
     and_then (load_signer (nx_payer x)) (\<lambda>_.
     and_then (ensure (store = ai_key (nx_oft_store x)) (Anchor ConstraintSeeds)) (\<lambda>_.
     and_then (oe_create_account E (nx_payer x) (ai_key (nx_oft_store x)) OFT_STORE_SPACE (os_ledger s)) (\<lambda>L.
     and_then (ensure (types = ai_key (nx_lz_receive_types_accounts x)) (Anchor ConstraintSeeds)) (\<lambda>_.
     and_then (oe_create_account E (nx_payer x) (ai_key (nx_lz_receive_types_accounts x)) LZ_RECEIVE_TYPES_SPACE L) (\<lambda>L.
     and_then (load_mint (oft_system_id E) L (nx_mint x)) (\<lambda>mint.
     and_then (load_signer (nx_escrow x)) (\<lambda>_.
     and_then (oe_init_token_account E (nx_payer x) (ai_key (nx_escrow x)) (ai_key (nx_mint x))
       (ai_key (nx_oft_store x)) (ai_key (nx_token_program x)) L) (\<lambda>L.
     and_then (load_token_program (nx_token_program x)) (\<lambda>_.
     and_then (ensure (ai_key (nx_system_program x) = oft_system_id E) (Anchor InvalidProgramId)) (\<lambda>_.
     and_then (check_mint_program L (nx_mint x) (nx_token_program x)) (\<lambda>_.
     Ok (bump, mint, L)))))))))))))"

text \<open>\<open>10u64.pow(e)\<close>, which panics when the power does not fit\<close>

definition pow10 :: "nat \<Rightarrow> u64 oft_result" where
  "pow10 e = or_panic (if 10 ^ e < (2 :: nat) ^ 64 then Some (word_of_nat (10 ^ e)) else None)"

definition init_oft ::
  "('g, 'm, 'd, 'f, 'e) OftEnv \<Rightarrow> InitOFTCtx \<Rightarrow> InitOFTParams \<Rightarrow> 'e OftState \<Rightarrow> 'e OftState oft_result" where
  "init_oft E x params s =
     and_then (init_accounts E x s) (\<lambda>(bump, mint, L).
     if s_decimals mint < ip_shared_decimals params then Err (Oft InvalidDecimals)
     else
     and_then (pow10 (unat (s_decimals mint - ip_shared_decimals params))) (\<lambda>rate.
     let store = ai_key (nx_oft_store x);
         endpoint = (case ip_endpoint_program params of Some k \<Rightarrow> k | None \<Rightarrow> ep_id (oe_endpoint E));
         st = \<lparr>oft_type = ip_oft_type params, ld2sd_rate = rate, oft_token_mint = ai_key (nx_mint x),
           oft_token_escrow = ai_key (nx_escrow x), oft_endpoint_program = endpoint, oft_bump = bump, tvl_ld = 0,
           oft_admin = ip_admin params, default_fee_bps = 0, oft_paused = False, oft_pauser = None, oft_unpauser = None\<rparr> in
     and_then (ep_register_oapp (oe_endpoint E) endpoint store (nx_remaining x)
       (store_seeds (ai_key (nx_escrow x)) @ [[bump]]) (ip_admin params) (L, os_endpoint s)) (\<lambda>(L, e).
     Ok (s\<lparr>os_ledger := L, os_endpoint := e,
         os_stores := (os_stores s)(store := Some st),
         os_receive_types := (os_receive_types s)(ai_key (nx_lz_receive_types_accounts x) :=
           Some \<lparr>lrt_oft_store = store, lrt_token_mint = ai_key (nx_mint x)\<rparr>)\<rparr>))))"

section \<open>Configuration\<close>

record AdminCtx =
  ax_admin :: AccountInfo
  ax_oft_store :: AccountInfo
  ax_remaining :: "AccountInfo list"

datatype SetOFTConfigParams =
    SetAdmin pubkey | SetDelegate pubkey | SetDefaultFee u16 | SetPaused bool
  | SetPauser "pubkey option" | SetUnpauser "pubkey option"

definition admin_accounts :: "('g, 'm, 'd, 'f, 'e) OftEnv \<Rightarrow> AdminCtx \<Rightarrow> 'e OftState \<Rightarrow> OFTStore oft_result" where
  "admin_accounts E x s =
     and_then (load_signer (ax_admin x)) (\<lambda>_.
     and_then (load_store s (ax_oft_store x)) (\<lambda>st.
     and_then (check_has_one_admin st (ax_admin x)) (\<lambda>_.
     and_then (check_seeds E (store_seeds (oft_token_escrow st)) (oft_bump st) (ax_oft_store x)) (\<lambda>_. Ok st))))"

definition put_store :: "AccountInfo \<Rightarrow> OFTStore \<Rightarrow> 'e OftState \<Rightarrow> 'e OftState" where
  "put_store i st s = s\<lparr>os_stores := (os_stores s)(ai_key i := Some st)\<rparr>"

definition set_oft_config ::
  "('g, 'm, 'd, 'f, 'e) OftEnv \<Rightarrow> AdminCtx \<Rightarrow> SetOFTConfigParams \<Rightarrow> 'e OftState \<Rightarrow> 'e OftState oft_result" where
  "set_oft_config E x params s =
     and_then (admin_accounts E x s) (\<lambda>st.
     case params of
       SetAdmin admin \<Rightarrow> Ok (put_store (ax_oft_store x) (st\<lparr>oft_admin := admin\<rparr>) s)
     | SetDelegate delegate \<Rightarrow>
         and_then (ep_set_delegate (oe_endpoint E) (oft_endpoint_program st) (ai_key (ax_oft_store x)) (ax_remaining x)
           (store_seeds (oft_token_escrow st) @ [[oft_bump st]]) delegate (os_ledger s, os_endpoint s)) (\<lambda>(L, e).
         Ok (put_store (ax_oft_store x) st (s\<lparr>os_ledger := L, os_endpoint := e\<rparr>)))
     | SetDefaultFee fee_bps \<Rightarrow>
         if fee_bps < MAX_FEE_BASIS_POINTS
         then Ok (put_store (ax_oft_store x) (st\<lparr>default_fee_bps := fee_bps\<rparr>) s) else Err (Oft InvalidFee)
     | SetPaused v \<Rightarrow> Ok (put_store (ax_oft_store x) (st\<lparr>oft_paused := v\<rparr>) s)
     | SetPauser v \<Rightarrow> Ok (put_store (ax_oft_store x) (st\<lparr>oft_pauser := v\<rparr>) s)
     | SetUnpauser v \<Rightarrow> Ok (put_store (ax_oft_store x) (st\<lparr>oft_unpauser := v\<rparr>) s))"

definition is_valid_signer :: "pubkey \<Rightarrow> OFTStore \<Rightarrow> bool \<Rightarrow> bool" where
  "is_valid_signer signer oft_store v =
     (if v then oft_pauser oft_store = Some signer else oft_unpauser oft_store = Some signer)"

text \<open>\<open>ax_admin\<close> is the signer here, the pauser or the unpauser.\<close>

definition set_pause ::
  "('g, 'm, 'd, 'f, 'e) OftEnv \<Rightarrow> AdminCtx \<Rightarrow> bool \<Rightarrow> 'e OftState \<Rightarrow> 'e OftState oft_result" where
  "set_pause E x v s =
     and_then (load_signer (ax_admin x)) (\<lambda>_.
     and_then (load_store s (ax_oft_store x)) (\<lambda>st.
     and_then (ensure (is_valid_signer (ai_key (ax_admin x)) st v) (Oft Unauthorized)) (\<lambda>_.
     and_then (check_seeds E (store_seeds (oft_token_escrow st)) (oft_bump st) (ax_oft_store x)) (\<lambda>_.
     Ok (put_store (ax_oft_store x) (st\<lparr>oft_paused := v\<rparr>) s)))))"

section \<open>Remote chains\<close>

record SetPeerConfigCtx =
  px_admin :: AccountInfo
  px_peer :: AccountInfo
  px_oft_store :: AccountInfo
  px_system_program :: AccountInfo

record RateLimitParams =
  rl_refill_per_second :: "u64 option"
  rl_capacity :: "u64 option"

datatype PeerConfigParam =
    PeerAddress bytes | FeeBps "u16 option" | SetEnforcedOptions bytes bytes
  | OutboundRateLimit "RateLimitParams option" | InboundRateLimit "RateLimitParams option"

definition update_rate_limiter ::
  "Env \<Rightarrow> RateLimiter option \<Rightarrow> RateLimitParams option \<Rightarrow> RateLimiter option oft_result" where
  "update_rate_limiter env rate_limiter params =
     (case params of
        Some param \<Rightarrow>
          let limiter = (case rate_limiter of Some l \<Rightarrow> l | None \<Rightarrow> RateLimiter_default) in
          and_then (case rl_capacity param of Some c \<Rightarrow> set_capacity env c limiter | None \<Rightarrow> Ok limiter) (\<lambda>limiter.
          and_then (case rl_refill_per_second param of Some r \<Rightarrow> set_rate env r limiter | None \<Rightarrow> Ok limiter) (\<lambda>limiter.
          Ok (Some limiter)))
      | None \<Rightarrow> Ok None)"

definition peer_accounts ::
  "('g, 'm, 'd, 'f, 'e) OftEnv \<Rightarrow> SetPeerConfigCtx \<Rightarrow> u32 \<Rightarrow> 'e OftState \<Rightarrow> (PeerConfig \<times> u8 \<times> ledger) oft_result" where
  "peer_accounts E x remote_eid s =
     (let (k, bump) = oe_find_address E (peer_seeds (ai_key (px_oft_store x)) remote_eid) in
     and_then (load_signer (px_admin x)) (\<lambda>_.
     and_then (ensure (k = ai_key (px_peer x)) (Anchor ConstraintSeeds)) (\<lambda>_.
     and_then (case os_peers s (ai_key (px_peer x)) of
         Some peer \<Rightarrow> Ok (peer, os_ledger s)
       | None \<Rightarrow> and_then (oe_create_account E (px_admin x) (ai_key (px_peer x)) PEER_CONFIG_SPACE (os_ledger s))
           (\<lambda>L. Ok (PeerConfig_default, L))) (\<lambda>(peer, L).
     and_then (load_store s (px_oft_store x)) (\<lambda>st.
     and_then (ensure (ai_key (px_system_program x) = oft_system_id E) (Anchor InvalidProgramId)) (\<lambda>_.
     and_then (check_has_one_admin st (px_admin x)) (\<lambda>_.
     and_then (check_seeds E (store_seeds (oft_token_escrow st)) (oft_bump st) (px_oft_store x)) (\<lambda>_.
     Ok (peer, bump, L)))))))))"

definition apply_peer_config ::
  "('g, 'm, 'd, 'f, 'e) OftEnv \<Rightarrow> PeerConfigParam \<Rightarrow> PeerConfig \<Rightarrow> PeerConfig oft_result" where
  "apply_peer_config E config peer = (case config of
       PeerAddress a \<Rightarrow> Ok (peer\<lparr>peer_address := a\<rparr>)
     | FeeBps fee_bps \<Rightarrow>
         (case fee_bps of
            Some b \<Rightarrow> if b < MAX_FEE_BASIS_POINTS then Ok (peer\<lparr>peer_fee_bps := fee_bps\<rparr>) else Err (Oft InvalidFee)
          | None \<Rightarrow> Ok (peer\<lparr>peer_fee_bps := fee_bps\<rparr>))
     | SetEnforcedOptions send send_and_call \<Rightarrow>
         and_then (ep_assert_type_3 (oe_endpoint E) send) (\<lambda>_.
         and_then (ep_assert_type_3 (oe_endpoint E) send_and_call) (\<lambda>_.
         Ok (peer\<lparr>enforced_options := \<lparr>eo_send = send, eo_send_and_call = send_and_call\<rparr>\<rparr>)))
     | OutboundRateLimit p \<Rightarrow>
         and_then (update_rate_limiter (oft_clock E) (outbound_rate_limiter peer) p) (\<lambda>l.
         Ok (peer\<lparr>outbound_rate_limiter := l\<rparr>))
     | InboundRateLimit p \<Rightarrow>
         and_then (update_rate_limiter (oft_clock E) (inbound_rate_limiter peer) p) (\<lambda>l.
         Ok (peer\<lparr>inbound_rate_limiter := l\<rparr>)))"

text \<open>
  The peer is written back when the instruction ends, in the borsh encoding of its present length.  Only here can
  that length grow; it fails when the options no longer fit into the space the account was created with.
\<close>

definition peer_config_size :: "PeerConfig \<Rightarrow> nat" where
  "peer_config_size p =
     32 + (4 + length (eo_send (enforced_options p))) + (4 + length (eo_send_and_call (enforced_options p))) +
     (case outbound_rate_limiter p of Some _ \<Rightarrow> 1 + 32 | None \<Rightarrow> 1) +
     (case inbound_rate_limiter p of Some _ \<Rightarrow> 1 + 32 | None \<Rightarrow> 1) +
     (case peer_fee_bps p of Some _ \<Rightarrow> 1 + 2 | None \<Rightarrow> 1) + 1"

definition set_peer_config ::
  "('g, 'm, 'd, 'f, 'e) OftEnv \<Rightarrow> SetPeerConfigCtx \<Rightarrow> u32 \<Rightarrow> PeerConfigParam \<Rightarrow> 'e OftState \<Rightarrow> 'e OftState oft_result" where
  "set_peer_config E x remote_eid config s =
     and_then (peer_accounts E x remote_eid s) (\<lambda>(peer, bump, L).
     and_then (apply_peer_config E config peer) (\<lambda>peer.
     and_then (ensure (8 + peer_config_size peer \<le> PEER_CONFIG_SPACE) (Anchor AccountDidNotSerialize)) (\<lambda>_.
     Ok (s\<lparr>os_ledger := L, os_peers := (os_peers s)(ai_key (px_peer x) := Some (peer\<lparr>peer_bump := bump\<rparr>))\<rparr>))))"

section \<open>Fees\<close>

record WithdrawFeeCtx =
  wx_admin :: AccountInfo
  wx_oft_store :: AccountInfo
  wx_mint :: AccountInfo
  wx_escrow :: AccountInfo
  wx_dest :: AccountInfo
  wx_token_program :: AccountInfo

definition withdraw_accounts ::
  "('g, 'm, 'd, 'f, 'e) OftEnv \<Rightarrow> WithdrawFeeCtx \<Rightarrow> 'e OftState \<Rightarrow> (OFTStore \<times> Mint \<times> Account) oft_result" where
  "withdraw_accounts E x s =
     (let L = os_ledger s; sys = oft_system_id E in
     and_then (load_signer (wx_admin x)) (\<lambda>_.
     and_then (load_store s (wx_oft_store x)) (\<lambda>st.
     and_then (load_mint sys L (wx_mint x)) (\<lambda>mint.
     and_then (load_token_account sys L (wx_escrow x)) (\<lambda>escrow.
     and_then (load_token_account sys L (wx_dest x)) (\<lambda>dest.
     and_then (load_token_program (wx_token_program x)) (\<lambda>_.
     and_then (check_has_one_admin st (wx_admin x)) (\<lambda>_.
     and_then (check_seeds E (store_seeds (oft_token_escrow st)) (oft_bump st) (wx_oft_store x)) (\<lambda>_.
     and_then (check_address (oft_token_mint st) (wx_mint x)) (\<lambda>_.
     and_then (check_mint_program L (wx_mint x) (wx_token_program x)) (\<lambda>_.
     and_then (check_address (oft_token_escrow st) (wx_escrow x)) (\<lambda>_.
     and_then (check_token_account L (wx_escrow x) escrow (Some (ai_key (wx_oft_store x))) (wx_mint x) (wx_token_program x)) (\<lambda>_.
     and_then (check_token_account L (wx_dest x) dest None (wx_mint x) (wx_token_program x)) (\<lambda>_.
     Ok (st, mint, escrow)))))))))))))))"

definition withdraw_fee ::
  "('g, 'm, 'd, 'f, 'e) OftEnv \<Rightarrow> WithdrawFeeCtx \<Rightarrow> u64 \<Rightarrow> 'e OftState \<Rightarrow> 'e OftState oft_result" where
  "withdraw_fee E x fee_ld s =
     and_then (withdraw_accounts E x s) (\<lambda>(st, mint, escrow).
     and_then (or_panic (checked_sub (sa_amount escrow) (tvl_ld st))) (\<lambda>fees.
     if fees < fee_ld then Err (Oft InvalidFee)
     else
     and_then (invoke_signed E None (ai_key (wx_admin x) # pda_signer E (store_seeds (ai_key (wx_escrow x))) (oft_bump st))
       (transfer_checked (ai_key (wx_token_program x)) (ai_key (wx_escrow x)) (ai_key (wx_mint x)) (ai_key (wx_dest x))
         (ai_key (wx_oft_store x)) [] fee_ld (s_decimals mint)) (os_ledger s)) (\<lambda>L.
     Ok (s\<lparr>os_ledger := L\<rparr>))))"

end
