(* ===== verification/Oft_Tokens.thy ===== *)
theory Oft_Tokens
  imports Oft_Admin
begin

text \<open>
  The token program seen from the bridge: what a successful transfer, burn or mint of the cross-program calls does
  to balances and supply, through the instruction builders, the dispatch and the handlers of the token program.
\<close>

section \<open>Balances and supplies\<close>

definition balance_of :: "ledger \<Rightarrow> pubkey \<Rightarrow> nat" where
  "balance_of L k = (case token_account (ac_data (L k)) of Ok st \<Rightarrow> unat (a_amount (base st)) | Err _ \<Rightarrow> 0)"

definition owner_of :: "ledger \<Rightarrow> pubkey \<Rightarrow> pubkey option" where
  "owner_of L k = (case token_account (ac_data (L k)) of Ok st \<Rightarrow> Some (a_owner (base st)) | Err _ \<Rightarrow> None)"

definition supply_in :: "ledger \<Rightarrow> pubkey \<Rightarrow> nat" where
  "supply_in L k = (case token_mint (ac_data (L k)) of Ok st \<Rightarrow> unat (m_supply (base st)) | Err _ \<Rightarrow> 0)"

lemma balance_of_Ok:
  "token_account (ac_data (L k)) = Ok st \<Longrightarrow> balance_of L k = unat (a_amount (base st))"
  "token_account (ac_data (L k)) = Ok st \<Longrightarrow> owner_of L k = Some (a_owner (base st))"
  by (simp_all add: balance_of_def owner_of_def)

lemma supply_in_Ok: "token_mint (ac_data (L k)) = Ok st \<Longrightarrow> supply_in L k = unat (m_supply (base st))"
  by (simp add: supply_in_def)

text \<open>The accounts the program loads, in terms of the token program's own view.\<close>

lemma loaded_account:
  assumes "load_token_account sys L i = Ok a"
  obtains st where "token_account (ac_data (L (ai_key i))) = Ok st" "a = account_view (base st)"
  using assms
  by (auto simp: load_token_account_def Let_def and_then_Ok lift_Ok packed_account.state_unpack_Ok unpack_eq res_simps
      split: if_splits)

lemma loaded_mint:
  assumes "load_mint sys L i = Ok m"
  obtains st where "token_mint (ac_data (L (ai_key i))) = Ok st" "mint_canonical (base st)" "m = mint_view (base st)"
    "state_unpack MintP (ac_data (L (ai_key i))) = Ok \<lparr>base = m, tlv_data = tlv_data st\<rparr>"
proof -
  obtain u where u: "state_unpack MintP (ac_data (L (ai_key i))) = Ok u" "m = base u"
    using assms by (auto simp: load_mint_def Let_def and_then_Ok lift_Ok split: if_splits)
  then obtain p where p: "unpack PodMintB (ac_data (L (ai_key i))) = Ok p" "mint_canonical (base p)"
    "u = \<lparr>base = mint_view (base p), tlv_data = tlv_data p\<rparr>" by (auto simp: packed_mint.state_unpack_Ok)
  then obtain st where "token_mint (ac_data (L (ai_key i))) = Ok st" "p = \<lparr>base = base st, tlv_data = tlv_data st\<rparr>"
    by (auto simp: unpack_eq and_then_Ok)
  then show thesis using p u by (intro that) auto
qed

lemma account_view_simps [simp]:
  "sa_amount (account_view b) = a_amount b" "sa_owner (account_view b) = a_owner b" "sa_mint (account_view b) = a_mint b"
  by (simp_all add: account_view_def)

section \<open>Cross-program calls\<close>

lemma in_cpi_env [simp]:
  "env_clock (rt_env (in_cpi sib R)) = env_clock (rt_env R)"
  "env_invoke_execute (rt_env (in_cpi sib R)) = env_invoke_execute (rt_env R)"
  by (simp_all add: in_cpi_def)

lemma hook_in_cpi [simp]: "hook_keeps_data (rt_env (in_cpi sib R)) = hook_keeps_data (rt_env R)"
  by (simp add: hook_keeps_data_def)

lemma invoke_signed_performs:
  assumes "invoke_signed E sib signers b L = Ok L'" "b = Ok ix" "ix_program_id ix = token_program_id"
    and "performs token_program_id b (\<lambda>R accounts L. quiet (h R accounts L))"
  shows "h (in_cpi sib (oe_runtime E)) (cpi_infos (ix_accounts ix)) L = Ok L'"
    and "\<forall>m\<in>set (ix_accounts ix). am_is_signer m \<longrightarrow> am_pubkey m \<in> set signers"
proof -
  have p: "process R token_program_id accounts (ix_data ix) L = quiet (h R accounts L)" for R accounts L
    using assms(2,4) by (simp add: performs_def)
  show "h (in_cpi sib (oe_runtime E)) (cpi_infos (ix_accounts ix)) L = Ok L'"
    "\<forall>m\<in>set (ix_accounts ix). am_is_signer m \<longrightarrow> am_pubkey m \<in> set signers"
    using assms(1-3) by (auto simp: invoke_signed_def p quiet_def and_then_Ok lift_Ok split: if_splits)
qed

text \<open>One lemma per call: the handler of the token program ran on accounts with these keys.\<close>

lemma invoke_transfer:
  assumes "invoke_signed E sib signers (transfer_checked token_program_id s m d a [] amount dec) L = Ok L'"
  obtains si mi di ai where
    "process_transfer token_program_id (rt_env (in_cpi sib (oe_runtime E)))
       (transfer_accounts (Checked dec) si mi di ai []) amount (Checked dec) L = Ok L'"
    "ai_key si = s" "ai_key mi = m" "ai_key di = d" "ai_key ai = a" "a \<in> set signers"
proof -
  obtain ix where ix: "transfer_checked token_program_id s m d a [] amount dec = Ok ix" "ix_program_id ix = token_program_id"
    "ix_accounts ix = [meta_new s False, meta_readonly m False, meta_new d False, meta_readonly a True]"
    by (simp add: transfer_checked_def check_spl_token_program_account_def authority_metas_def)
  have "performs token_program_id (transfer_checked token_program_id s m d a [] amount dec)
      (\<lambda>R accounts L. quiet (process_transfer token_program_id (rt_env R) accounts amount (Checked dec) L))"
    by (rule token_builders_perform)
  note i = invoke_signed_performs [OF assms ix(1,2) this]
  have "a \<in> set signers" using i(2) by (simp add: ix(3) meta_readonly_def)
  then show thesis
    using i(1) by (intro that) (auto simp: ix(3) cpi_infos_def transfer_accounts_def meta_new_def meta_readonly_def)
qed

lemma invoke_burn:
  assumes "invoke_signed E sib signers (burn token_program_id s m a [] amount) L = Ok L'"
  obtains si mi ai where
    "process_burn token_program_id (rt_env (in_cpi sib (oe_runtime E))) [si, mi, ai] amount UncheckedVariant L = Ok L'"
    "ai_key si = s" "ai_key mi = m" "ai_key ai = a" "a \<in> set signers"
proof -
  obtain ix where ix: "burn token_program_id s m a [] amount = Ok ix" "ix_program_id ix = token_program_id"
    "ix_accounts ix = [meta_new s False, meta_new m False, meta_readonly a True]"
    by (simp add: burn_def check_spl_token_program_account_def authority_metas_def)
  have "performs token_program_id (burn token_program_id s m a [] amount)
      (\<lambda>R accounts L. quiet (process_burn token_program_id (rt_env R) accounts amount UncheckedVariant L))"
    by (rule token_builders_perform)
  note i = invoke_signed_performs [OF assms ix(1,2) this]
  have "a \<in> set signers" using i(2) by (simp add: ix(3) meta_readonly_def)
  then show thesis
    using i(1) by (intro that) (auto simp: ix(3) cpi_infos_def meta_new_def meta_readonly_def)
qed

lemma invoke_mint_to:
  assumes "invoke_signed E sib signers (mint_to token_program_id m d a [k] amount) L = Ok L'"
  obtains mi di ai ki where
    "process_mint_to token_program_id [mi, di, ai, ki] amount UncheckedVariant L = Ok L'"
    "ai_key mi = m" "ai_key di = d" "ai_key ai = a" "ai_key ki = k" "k \<in> set signers"
proof -
  obtain ix where ix: "mint_to token_program_id m d a [k] amount = Ok ix" "ix_program_id ix = token_program_id"
    "ix_accounts ix = [meta_new m False, meta_new d False, meta_readonly a False, meta_readonly k True]"
    by (simp add: mint_to_def check_spl_token_program_account_def authority_metas_def)
  have "performs token_program_id (mint_to token_program_id m d a [k] amount)
      (\<lambda>R accounts L. quiet (process_mint_to token_program_id accounts amount UncheckedVariant L))"
    by (rule token_builders_perform)
  note i = invoke_signed_performs [OF assms ix(1,2) this]
  have "k \<in> set signers" using i(2) by (simp add: ix(3) meta_readonly_def)
  then show thesis
    using i(1) by (intro that) (auto simp: ix(3) cpi_infos_def meta_new_def meta_readonly_def)
qed

section \<open>Transfers\<close>

text \<open>The fee of a checked transfer is the fee of the mint that the program reads as well.\<close>

lemma transfer_fee_agrees:
  assumes "transfer_mint_checks env L s src (mint_arg (Checked dec) mi) amount = Ok (fee, pd, hook)"
    and "state_unpack MintP (ac_data (L (ai_key mi))) = Ok u" "\<And>f. mint_fee env L (ai_key mi) = Ok f \<Longrightarrow> fee_rate_ok f"
  obtains p where "get_post_fee_amount_ld env L (ai_key mi) amount = Ok p" "unat p + unat fee = unat amount"
proof -
  obtain mint where m: "unpack PodMintB (ac_data (L (ai_key mi))) = Ok mint" and
    f: "(case get_extension MintBase TransferFeeConfigX (tlv_data mint) of
           Ok c \<Rightarrow> and_then (env_clock env) (\<lambda>clock. ok_or (calculate_epoch_fee c (clk_epoch clock) amount) (token_error Overflow))
         | Err _ \<Rightarrow> Ok 0) = Ok fee"
    using assms(1) by (auto simp: transfer_mint_checks_def mint_arg_def and_then_Ok borrow_Ok split: if_splits)
  have u: "tlv_data u = tlv_data mint" using assms(2) m by (auto simp: packed_mint.state_unpack_Ok)
  show thesis
  proof (cases "get_extension MintBase TransferFeeConfigX (tlv_data mint)")
    case (Inl e)
    then have "mint_fee env L (ai_key mi) = Ok None" using assms(2) u by (simp add: mint_fee_def)
    then show thesis using f Inl by (intro that [of amount]) (simp_all add: fee_amounts_eq)
  next
    case (Inr c)
    then obtain clock where c: "env_clock env = Ok clock" "calculate_epoch_fee c (clk_epoch clock) amount = Some fee"
      using f by (auto simp: and_then_Ok ok_or_Ok)
    let ?F = "get_epoch_fee c (clk_epoch clock)"
    have mf: "mint_fee env L (ai_key mi) = Ok (Some ?F)" using assms(2) u Inr c(1) by (simp add: mint_fee_def)
    then have r: "tf_transfer_fee_basis_points ?F \<le> MAX_FEE_BASIS_POINTS" using assms(3) by (auto simp: fee_rate_ok_def)
    have cf: "calculate_fee ?F amount = Some fee" using c(2) by (simp add: calculate_epoch_fee_def)
    have "bps ?F \<le> 10000" using r by (simp add: word_le_nat_alt MAX_FEE_BASIS_POINTS_def)
    then have "fee \<le> amount"
      using calculate_fee_Some [OF r, of amount] cf fee_spec_le by (simp add: word_le_nat_alt)
    then show thesis
      using mf cf by (intro that [of "amount - fee"])
        (simp_all add: fee_amounts_eq calculate_post_fee_amount_def checked_sub_def unat_sub word_le_nat_alt)
  qed
qed

definition moves :: "ledger \<Rightarrow> pubkey \<Rightarrow> pubkey \<Rightarrow> nat \<Rightarrow> nat \<Rightarrow> ledger \<Rightarrow> bool" where
  "moves L s d x y L' \<longleftrightarrow>
     (if s = d then L' = L
      else balance_of L' s + x = balance_of L s \<and> balance_of L' d = balance_of L d + y \<and>
        owner_of L' s = owner_of L s \<and> owner_of L' d = owner_of L d \<and>
        (\<forall>k. k \<noteq> s \<longrightarrow> k \<noteq> d \<longrightarrow> ac_owner (L k) = token_program_id \<longrightarrow> L' k = L k))"

lemma self_transfer:
  assumes "process_transfer program_id env (transfer_accounts ti s m d a rest) amount ti L = Ok L'" "ai_key s = ai_key d"
  shows "L' = L"
proof -
  obtain src src1 pd fee hook where "token_account (ac_data (L (ai_key s))) = Ok src"
    "transfer_authority program_id env L src a rest amount True pd = Ok src1"
    "transfer_settle env L s (mint_arg ti m) d a rest amount src1 fee hook = Ok L'"
    using assms unfolding process_transfer_Ok by auto
  then have "src1 = src" "L' = set_data (ai_key s) (pack_state PodAccountB src1) L"
    "pack_state PodAccountB src = ac_data (L (ai_key s))"
    using transfer_authority_Ok(6) [of program_id env L src a rest amount True] token_account_pack assms(2)
    by (auto simp: transfer_settle_def res_simps split: if_splits)
  then show ?thesis by (simp add: set_data_def)
qed

lemma transfer_moves:
  assumes "invoke_signed E sib signers (transfer_checked token_program_id s m d a [] amount dec) L = Ok L'"
    and "hook_keeps_data (oft_clock E)" "state_unpack MintP (ac_data (L m)) = Ok u"
    and "\<And>f. mint_fee (oft_clock E) L m = Ok f \<Longrightarrow> fee_rate_ok f"
  obtains p where "get_post_fee_amount_ld (oft_clock E) L m amount = Ok p \<or> s = d" "moves L s d (unat amount) (unat p) L'"
proof -
  let ?env = "rt_env (in_cpi sib (oe_runtime E))"
  obtain si mi di ai where t: "process_transfer token_program_id ?env (transfer_accounts (Checked dec) si mi di ai [])
       amount (Checked dec) L = Ok L'" and k: "ai_key si = s" "ai_key mi = m" "ai_key di = d"
    by (rule invoke_transfer [OF assms(1)])
  have eq: "mint_fee ?env L m = mint_fee (oft_clock E) L m"
    "get_post_fee_amount_ld ?env L m amount = get_post_fee_amount_ld (oft_clock E) L m amount"
    by (simp_all only: mint_fee_def get_post_fee_amount_ld_def in_cpi_env)
  show thesis
  proof (cases "s = d")
    case True
    then show thesis using self_transfer [OF t] k by (intro that) (auto simp: moves_def)
  next
    case False
    obtain src dst src' dst' fee pd hook where e:
      "token_account (ac_data (L s)) = Ok src" "token_account (ac_data (L d)) = Ok dst"
      "token_account (ac_data (L' s)) = Ok src'" "token_account (ac_data (L' d)) = Ok dst'"
      "transfer_mint_checks ?env L si src (mint_arg (Checked dec) mi) amount = Ok (fee, pd, hook)"
      "moved src dst src' dst' amount fee"
      "\<And>k. k \<noteq> s \<Longrightarrow> k \<noteq> d \<Longrightarrow> ac_owner (L k) = token_program_id \<Longrightarrow> L' k = L k"
    proof (rule process_transfer_effect [OF t, unfolded k, OF False])
      show "hook_keeps_data (rt_env (in_cpi sib (oe_runtime E)))" using assms(2) by simp
    qed (rule that, assumption+)
    obtain p where p: "get_post_fee_amount_ld (oft_clock E) L m amount = Ok p" "unat p + unat fee = unat amount"
      using transfer_fee_agrees [OF e(5)] assms(3,4) by (auto simp: k eq)
    show thesis
      using e p(2) False
      by (intro that [OF disjI1 [OF p(1)]]) (auto simp: moves_def balance_of_Ok moved_def same_identity_def)
  qed
qed

section \<open>Burning and minting\<close>

definition same_mint :: "ledger \<Rightarrow> ledger \<Rightarrow> pubkey \<Rightarrow> bool" where
  "same_mint L L' m \<longleftrightarrow> (\<exists>st st'. token_mint (ac_data (L m)) = Ok st \<and> token_mint (ac_data (L' m)) = Ok st' \<and>
     tlv_data st' = tlv_data st \<and> base st' = (base st)\<lparr>m_supply := m_supply (base st')\<rparr>)"

lemma burn_and_mint_owner:
  "process_burn program_id env (s # m # a # rest) amount variant L = Ok L' \<Longrightarrow> ac_owner (L' k) = ac_owner (L k)"
  "process_mint_to program_id (m # d # a # rest) amount variant L = Ok L' \<Longrightarrow> ac_owner (L' k) = ac_owner (L k)"
  by (auto simp: process_burn_def process_mint_to_def res_simps)

lemma burn_effect:
  assumes "invoke_signed E sib signers (burn token_program_id s m a [] amount) L = Ok L'"
  shows "balance_of L' s + unat amount = balance_of L s" "owner_of L' s = owner_of L s"
    "supply_in L' m + unat amount = supply_in L m" "same_mint L L' m" "s \<noteq> m"
    "\<And>k. k \<noteq> s \<Longrightarrow> k \<noteq> m \<Longrightarrow> L' k = L k" "\<And>k. ac_owner (L' k) = ac_owner (L k)"
proof -
  obtain si mi ai where t: "process_burn token_program_id (rt_env (in_cpi sib (oe_runtime E))) [si, mi, ai] amount UncheckedVariant L = Ok L'"
    and k: "ai_key si = s" "ai_key mi = m" by (rule invoke_burn [OF assms])
  obtain src mint src' mint' where e:
    "token_account (ac_data (L s)) = Ok src" "token_mint (ac_data (L m)) = Ok mint"
    "token_account (ac_data (L' s)) = Ok src'" "token_mint (ac_data (L' m)) = Ok mint'" "s \<noteq> m"
    "same_identity (base src) (base src')" "tlv_data mint' = tlv_data mint"
    "unat (a_amount (base src')) + unat amount = unat (a_amount (base src))"
    "base mint' = (base mint)\<lparr>m_supply := m_supply (base mint')\<rparr>"
    "unat (m_supply (base mint')) + unat amount = unat (m_supply (base mint))"
    "\<And>k. k \<noteq> s \<Longrightarrow> k \<noteq> m \<Longrightarrow> L' k = L k"
    by (rule process_burn_effect [OF t, unfolded k]) (rule that, assumption+)
  show "balance_of L' s + unat amount = balance_of L s" "owner_of L' s = owner_of L s"
    using e(1,3,6,8) by (simp_all add: balance_of_Ok same_identity_def)
  show "supply_in L' m + unat amount = supply_in L m" using e(2,4,10) by (simp add: supply_in_Ok)
  show "same_mint L L' m" using e(2,4,7,9) unfolding same_mint_def by blast
  show "s \<noteq> m" by (rule e(5))
  show "L' k = L k" if "k \<noteq> s" "k \<noteq> m" for k using e(11) that by blast
  show "ac_owner (L' k) = ac_owner (L k)" for k by (rule burn_and_mint_owner(1) [OF t])
qed

lemma mint_to_effect:
  assumes "invoke_signed E sib signers (mint_to token_program_id m d a [k] amount) L = Ok L'"
  shows "balance_of L' d = balance_of L d + unat amount" "owner_of L' d = owner_of L d"
    "supply_in L' m = supply_in L m + unat amount" "same_mint L L' m" "d \<noteq> m" "k \<in> set signers"
    "\<And>j. j \<noteq> d \<Longrightarrow> j \<noteq> m \<Longrightarrow> L' j = L j" "\<And>j. ac_owner (L' j) = ac_owner (L j)"
proof -
  obtain mi di ai ki where t: "process_mint_to token_program_id [mi, di, ai, ki] amount UncheckedVariant L = Ok L'"
    and k: "ai_key mi = m" "ai_key di = d" and s: "k \<in> set signers" by (rule invoke_mint_to [OF assms])
  obtain dst mint dst' mint' where e:
    "token_account (ac_data (L d)) = Ok dst" "token_mint (ac_data (L m)) = Ok mint"
    "token_account (ac_data (L' d)) = Ok dst'" "token_mint (ac_data (L' m)) = Ok mint'" "d \<noteq> m"
    "same_identity (base dst) (base dst')" "tlv_data mint' = tlv_data mint"
    "unat (a_amount (base dst')) = unat (a_amount (base dst)) + unat amount"
    "base mint' = (base mint)\<lparr>m_supply := m_supply (base mint')\<rparr>"
    "unat (m_supply (base mint')) = unat (m_supply (base mint)) + unat amount"
    "\<And>k. k \<noteq> d \<Longrightarrow> k \<noteq> m \<Longrightarrow> L' k = L k"
    by (rule process_mint_to_effect [OF t, unfolded k]) (rule that, assumption+)
  show "balance_of L' d = balance_of L d + unat amount" "owner_of L' d = owner_of L d"
    using e(1,3,6,8) by (simp_all add: balance_of_Ok same_identity_def)
  show "supply_in L' m = supply_in L m + unat amount" using e(2,4,10) by (simp add: supply_in_Ok)
  show "same_mint L L' m" using e(2,4,7,9) unfolding same_mint_def by blast
  show "d \<noteq> m" "k \<in> set signers" by (rule e(5), rule s)
  show "L' j = L j" if "j \<noteq> d" "j \<noteq> m" for j using e(11) that by blast
  show "ac_owner (L' j) = ac_owner (L j)" for j by (rule burn_and_mint_owner(2) [OF t])
qed

text \<open>The parts of a mint the amounts depend on survive burning and minting.\<close>

lemma same_mint_unpack:
  assumes "same_mint L L' m" "state_unpack MintP (ac_data (L m)) = Ok u"
  obtains u' where "state_unpack MintP (ac_data (L' m)) = Ok u'" "tlv_data u' = tlv_data u"
proof -
  obtain st st' where s: "token_mint (ac_data (L m)) = Ok st" "token_mint (ac_data (L' m)) = Ok st'"
    "tlv_data st' = tlv_data st" "base st' = (base st)\<lparr>m_supply := m_supply (base st')\<rparr>"
    using assms(1) by (auto simp: same_mint_def)
  have c: "mint_canonical (base st') = mint_canonical (base st)"
    by (subst s(4)) (simp add: mint_canonical_def)
  show thesis
    using assms(2) s c by (intro that [of "\<lparr>base = mint_view (base st'), tlv_data = tlv_data st'\<rparr>"])
      (auto simp: packed_mint.state_unpack_Ok unpack_eq)
qed

lemma mint_fee_cong:
  "state_unpack MintP (ac_data (L m)) = Ok u \<Longrightarrow> state_unpack MintP (ac_data (L' m)) = Ok u' \<Longrightarrow>
     tlv_data u' = tlv_data u \<Longrightarrow> mint_fee env L' m = mint_fee env L m"
  by (simp add: mint_fee_def)

end
