(* ===== verification/Oft_Effects.thy ===== *)
theory Oft_Effects
  imports Oft_Tokens
begin

text \<open>
  What sending, receiving and withdrawing fees do to the store, the escrow, the supply and the messages, given
  what the endpoint and the creation of accounts leave alone.
\<close>

section \<open>What is relied on\<close>

text \<open>The endpoint does not touch the accounts in \<open>K\<close>; it is used with the escrow and the mint of a store.\<close>

definition endpoint_leaves :: "'e Endpoint \<Rightarrow> pubkey set \<Rightarrow> bool" where
  "endpoint_leaves ep K \<longleftrightarrow>
     (\<forall>p k as ss a L e L' e'. ep_set_delegate ep p k as ss a (L, e) = Ok (L', e') \<longrightarrow> (\<forall>j\<in>K. L' j = L j)) \<and>
     (\<forall>p k as ss a L e r L' e'. ep_send ep p k as ss a (L, e) = Ok (r, L', e') \<longrightarrow> (\<forall>j\<in>K. L' j = L j)) \<and>
     (\<forall>p k as ss a L e L' e'. ep_clear ep p k as ss a (L, e) = Ok (L', e') \<longrightarrow> (\<forall>j\<in>K. L' j = L j)) \<and>
     (\<forall>p k as ss a L e L' e'. ep_send_compose ep p k as ss a (L, e) = Ok (L', e') \<longrightarrow> (\<forall>j\<in>K. L' j = L j)) \<and>
     (\<forall>p k as ss a L e L' e'. ep_register_oapp ep p k as ss a (L, e) = Ok (L', e') \<longrightarrow> (\<forall>j\<in>K. L' j = L j))"

lemma endpoint_leavesD:
  assumes "endpoint_leaves ep K" "j \<in> K"
  shows "ep_set_delegate ep p k as ss a1 (L, e) = Ok (L', e') \<Longrightarrow> L' j = L j"
    and "ep_send ep p k as ss a2 (L, e) = Ok (r, L', e') \<Longrightarrow> L' j = L j"
    and "ep_clear ep p k as ss a3 (L, e) = Ok (L', e') \<Longrightarrow> L' j = L j"
    and "ep_send_compose ep p k as ss a4 (L, e) = Ok (L', e') \<Longrightarrow> L' j = L j"
    and "ep_register_oapp ep p k as ss a5 (L, e) = Ok (L', e') \<Longrightarrow> L' j = L j"
proof -
  note h = assms(1) [unfolded endpoint_leaves_def]
  show "ep_set_delegate ep p k as ss a1 (L, e) = Ok (L', e') \<Longrightarrow> L' j = L j"
    using h [THEN conjunct1] assms(2) by blast
  show "ep_send ep p k as ss a2 (L, e) = Ok (r, L', e') \<Longrightarrow> L' j = L j"
    using h [THEN conjunct2, THEN conjunct1] assms(2) by blast
  show "ep_clear ep p k as ss a3 (L, e) = Ok (L', e') \<Longrightarrow> L' j = L j"
    using h [THEN conjunct2, THEN conjunct2, THEN conjunct1] assms(2) by blast
  show "ep_send_compose ep p k as ss a4 (L, e) = Ok (L', e') \<Longrightarrow> L' j = L j"
    using h [THEN conjunct2, THEN conjunct2, THEN conjunct2, THEN conjunct1] assms(2) by blast
  show "ep_register_oapp ep p k as ss a5 (L, e) = Ok (L', e') \<Longrightarrow> L' j = L j"
    using h [THEN conjunct2, THEN conjunct2, THEN conjunct2, THEN conjunct2] assms(2) by blast
qed

text \<open>Creating accounts does not touch accounts in use: those a token program has and those with data.\<close>

definition creates :: "('g, 'm, 'd, 'f, 'e) OftEnv \<Rightarrow> ledger \<Rightarrow> ledger \<Rightarrow> bool" where
  "creates E L L' \<longleftrightarrow> (\<exists>p a n. oe_create_account E p a n L = Ok L') \<or> (\<exists>p a m w t. oe_init_token_account E p a m w t L = Ok L')"

definition creation_keeps :: "('g, 'm, 'd, 'f, 'e) OftEnv \<Rightarrow> bool" where
  "creation_keeps E \<longleftrightarrow>
     (\<forall>p a m w t L L'. oe_init_associated E p a m w t L = Ok L' \<longrightarrow>
        (\<forall>k. ac_owner (L k) \<in> set token_programs \<or> ac_data (L k) \<noteq> [] \<longrightarrow> L' k = L k)) \<and>
     (\<forall>L L'. creates E L L' \<longrightarrow>
        (\<forall>k. ac_owner (L k) \<in> set token_programs \<or> ac_data (L k) \<noteq> [] \<longrightarrow> L' k = L k))"

text \<open>The mint of a store, as the program can read it, with transfer fees of at most 100 percent.\<close>

definition mint_ok :: "ledger \<Rightarrow> pubkey \<Rightarrow> bool" where
  "mint_ok L m \<longleftrightarrow> ac_owner (L m) = token_program_id \<and>
     (\<forall>u c. state_unpack MintP (ac_data (L m)) = Ok u \<longrightarrow> get_extension MintBase TransferFeeConfigX (tlv_data u) = Ok c \<longrightarrow>
        tf_transfer_fee_basis_points (tfc_older_transfer_fee c) \<le> MAX_FEE_BASIS_POINTS \<and>
        tf_transfer_fee_basis_points (tfc_newer_transfer_fee c) \<le> MAX_FEE_BASIS_POINTS)"

lemma mint_ok_fee: "mint_ok L m \<Longrightarrow> mint_fee env L m = Ok f \<Longrightarrow> fee_rate_ok f"
proof -
  assume m: "mint_ok L m" and f: "mint_fee env L m = Ok f"
  obtain u where u: "state_unpack MintP (ac_data (L m)) = Ok u"
    using f by (auto simp: mint_fee_def and_then_Ok lift_Ok)
  show "fee_rate_ok f"
  proof (cases "get_extension MintBase TransferFeeConfigX (tlv_data u)")
    case (Inl e)
    then show ?thesis using f u by (auto simp: mint_fee_def fee_rate_ok_def)
  next
    case (Inr c)
    then have "\<exists>e. f = Some (get_epoch_fee c e)"
      using f u by (auto simp: mint_fee_def and_then_Ok)
    then show ?thesis using m u Inr by (auto simp: mint_ok_def fee_rate_ok_def get_epoch_fee_def)
  qed
qed

lemma mint_ok_same: "mint_ok L m \<Longrightarrow> L' m = L m \<Longrightarrow> mint_ok L' m"
  by (simp add: mint_ok_def)

section \<open>Loaded accounts\<close>

lemma ensure_oft_Ok: "ensure c e = Ok u \<longleftrightarrow> c" for e :: OftFailure
  by (rule ensure_Ok)

lemmas account_checks = load_signer_def load_store_def load_peer_def load_token_program_def check_seeds_def
  check_address_def check_has_one_admin_def check_token_account_def check_mint_program_def

lemmas load_simps = and_then_Ok ensure_oft_Ok ok_or_Ok or_panic_Ok option.inject sum.inject option.distinct simp_thms

lemma send_accounts_Ok:
  assumes "send_accounts E x params s = Ok (peer, st, mint)"
  obtains src esc mst where
    "ai_is_signer (sx_signer x)" "os_peers s (ai_key (sx_peer x)) = Some peer" "os_stores s (ai_key (sx_oft_store x)) = Some st"
    "oe_create_address E (peer_seeds (ai_key (sx_oft_store x)) (sp_dst_eid params) @ [[peer_bump peer]]) = Some (ai_key (sx_peer x))"
    "ai_key (sx_escrow x) = oft_token_escrow st" "ai_key (sx_mint x) = oft_token_mint st"
    "token_account (ac_data (os_ledger s (ai_key (sx_source x)))) = Ok src" "a_owner (base src) = ai_key (sx_signer x)"
    "token_account (ac_data (os_ledger s (oft_token_escrow st))) = Ok esc" "a_owner (base esc) = ai_key (sx_oft_store x)"
    "token_mint (ac_data (os_ledger s (oft_token_mint st))) = Ok mst"
    "state_unpack MintP (ac_data (os_ledger s (oft_token_mint st))) = Ok \<lparr>base = mint, tlv_data = tlv_data mst\<rparr>"
    "ac_owner (os_ledger s (oft_token_escrow st)) = ai_key (sx_token_program x)"
    "ac_owner (os_ledger s (oft_token_mint st)) = ai_key (sx_token_program x)"
proof -
  let ?L = "os_ledger s" and ?sys = "oft_system_id E"
  obtain source escrow where h: "ai_is_signer (sx_signer x)" "os_peers s (ai_key (sx_peer x)) = Some peer"
      "os_stores s (ai_key (sx_oft_store x)) = Some st"
      "load_token_account ?sys ?L (sx_source x) = Ok source" "load_token_account ?sys ?L (sx_escrow x) = Ok escrow"
      "load_mint ?sys ?L (sx_mint x) = Ok mint"
      "oe_create_address E (peer_seeds (ai_key (sx_oft_store x)) (sp_dst_eid params) @ [[peer_bump peer]]) = Some (ai_key (sx_peer x))"
      "sa_owner source = ai_key (sx_signer x)" "ai_key (sx_escrow x) = oft_token_escrow st"
      "sa_owner escrow = ai_key (sx_oft_store x)" "ac_owner (?L (ai_key (sx_escrow x))) = ai_key (sx_token_program x)"
      "ai_key (sx_mint x) = oft_token_mint st" "ac_owner (?L (ai_key (sx_mint x))) = ai_key (sx_token_program x)"
    using assms unfolding send_accounts_def Let_def account_checks
    by (simp only: load_simps) (elim exE conjE, simp only: prod.inject)
  obtain src where src: "token_account (ac_data (?L (ai_key (sx_source x)))) = Ok src" "source = account_view (base src)"
    by (rule loaded_account [OF h(4)])
  obtain esc where esc: "token_account (ac_data (?L (ai_key (sx_escrow x)))) = Ok esc" "escrow = account_view (base esc)"
    by (rule loaded_account [OF h(5)])
  obtain mst where mst: "token_mint (ac_data (?L (ai_key (sx_mint x)))) = Ok mst"
    "state_unpack MintP (ac_data (?L (ai_key (sx_mint x)))) = Ok \<lparr>base = mint, tlv_data = tlv_data mst\<rparr>"
    by (rule loaded_mint [OF h(6)])
  show thesis using h src esc mst by (intro that) auto
qed

lemma account_mint_disjoint:
  assumes "token_account (ac_data (L k)) = Ok a" "token_mint (ac_data (L m)) = Ok b"
  shows "k \<noteq> m"
  using unpack_disjoint assms by blast

section \<open>Sending\<close>

lemma limit_outbound_same:
  "limit_outbound env amount peer = Ok peer' \<Longrightarrow> peer_address peer' = peer_address peer \<and> peer_fee_bps peer' = peer_fee_bps peer \<and>
     peer_bump peer' = peer_bump peer \<and> enforced_options peer' = enforced_options peer"
  "limit_inbound env amount peer = Ok peer' \<Longrightarrow> peer_address peer' = peer_address peer \<and> peer_fee_bps peer' = peer_fee_bps peer \<and>
     peer_bump peer' = peer_bump peer \<and> enforced_options peer' = enforced_options peer"
  by (auto simp: limit_outbound_def limit_inbound_def and_then_Ok)

text \<open>The effect of moving the tokens on the store, the escrow and the supply.\<close>

definition sent_tokens :: "OFTStore \<Rightarrow> ledger \<Rightarrow> u64 \<Rightarrow> u64 \<Rightarrow> OFTStore \<Rightarrow> ledger \<Rightarrow> bool" where
  "sent_tokens st L received fee st' L' \<longleftrightarrow>
     (let e = oft_token_escrow st; m = oft_token_mint st in
      if oft_type st = Adapter
      then (\<exists>t. st' = st\<lparr>tvl_ld := t\<rparr> \<and> unat t = unat (tvl_ld st) + unat received) \<and>
        balance_of L' e = balance_of L e + unat received + unat fee \<and> L' m = L m
      else st' = st \<and> balance_of L' e \<ge> balance_of L e \<and> supply_in L' m + unat received = supply_in L m \<and>
        same_mint L L' m \<and> ac_owner (L' m) = ac_owner (L m))"

lemma moves_out:
  assumes "moves L s d x y L'"
  shows "s \<noteq> d \<Longrightarrow> balance_of L' d = balance_of L d + y" "s \<noteq> d \<Longrightarrow> balance_of L' s + x = balance_of L s"
    and "k \<noteq> s \<Longrightarrow> k \<noteq> d \<Longrightarrow> ac_owner (L k) = token_program_id \<Longrightarrow> L' k = L k"
  using assms by (auto simp: moves_def split: if_splits)

lemma send_tokens_effect:
  assumes "send_tokens E x st dec sent received fee L = Ok (st', L')"
    and "ai_key (sx_escrow x) = oft_token_escrow st" "ai_key (sx_mint x) = oft_token_mint st"
    and "ai_key (sx_token_program x) = token_program_id" "ai_key (sx_source x) \<noteq> oft_token_escrow st"
    and "ai_key (sx_source x) \<noteq> oft_token_mint st" "oft_token_escrow st \<noteq> oft_token_mint st"
    and "hook_keeps_data (oft_clock E)" "mint_ok L (oft_token_mint st)"
    and "state_unpack MintP (ac_data (L (oft_token_mint st))) = Ok u"
    and "ac_owner (L (oft_token_escrow st)) = token_program_id"
    and "arriving (oft_clock E) L st (oft_token_mint st) sent = Ok p" "unat received + unat fee = unat p"
  shows "sent_tokens st L received fee st' L'"
proof (cases "oft_type st = Adapter")
  case True
  let ?e = "oft_token_escrow st" and ?m = "oft_token_mint st" and ?s = "ai_key (sx_source x)"
  obtain t where t: "checked_add (tvl_ld st) received = Some t" "st' = st\<lparr>tvl_ld := t\<rparr>"
    and c: "invoke_signed E None [ai_key (sx_signer x)]
      (transfer_checked token_program_id ?s ?m ?e (ai_key (sx_signer x)) [] sent dec) L = Ok L'"
    using assms(1) True by (auto simp: send_tokens_def assms(2-4) Let_def and_then_Ok or_panic_Ok)
  obtain q where q: "get_post_fee_amount_ld (oft_clock E) L ?m sent = Ok q \<or> ?s = ?e" "moves L ?s ?e (unat sent) (unat q) L'"
    by (rule transfer_moves [OF c assms(8,10)]) (use mint_ok_fee [OF assms(9)] in blast)+
  have "q = p" using q(1) assms(5,12) True by (auto simp: arriving_def)
  then have "balance_of L' ?e = balance_of L ?e + unat received + unat fee"
    using moves_out(1) [OF q(2) assms(5)] assms(13) by simp
  moreover have "L' ?m = L ?m"
    using moves_out(3) [OF q(2), of ?m] assms(6,7,9) by (auto simp: mint_ok_def)
  ultimately show ?thesis using True t checked_add_unat [OF t(1)] by (auto simp: sent_tokens_def Let_def)
next
  case False
  let ?e = "oft_token_escrow st" and ?m = "oft_token_mint st" and ?s = "ai_key (sx_source x)" and ?a = "ai_key (sx_signer x)"
  obtain burned L1 where b: "checked_sub sent fee = Some burned" "st' = st"
    and c: "invoke_signed E None [?a] (burn token_program_id ?s ?m ?a [] burned) L = Ok L1"
    and f: "(if fee > 0 then invoke_signed E (Some token_program_id) [?a]
      (transfer_checked token_program_id ?s ?m ?e ?a [] fee dec) L1 else Ok L1) = Ok L'"
    using assms(1) False by (auto simp: send_tokens_def assms(2-4) Let_def and_then_Ok or_panic_Ok)
  note be = burn_effect [OF c]
  have e1: "L1 ?e = L ?e" using be(6) [of ?e] assms(5,7) by auto
  obtain u1 where u1: "state_unpack MintP (ac_data (L1 ?m)) = Ok u1" "tlv_data u1 = tlv_data u"
    by (rule same_mint_unpack [OF be(4) assms(10)])
  have "p = sent" using assms(12) False by (simp add: arriving_def)
  then have r: "unat burned = unat received" using checked_sub_unat [OF b(1)] assms(13) by simp
  note own = be(7)
  have "balance_of L' ?e \<ge> balance_of L ?e \<and> L' ?m = L1 ?m"
  proof (cases "fee > 0")
    case True
    then have t: "invoke_signed E (Some token_program_id) [?a] (transfer_checked token_program_id ?s ?m ?e ?a [] fee dec) L1 = Ok L'"
      using f by simp
    have fr: "fee_rate_ok g" if "mint_fee (oft_clock E) L1 ?m = Ok g" for g
      using that mint_fee_cong [of L ?m u L1 u1, OF assms(10) u1] mint_ok_fee [OF assms(9)] by simp
    obtain q :: u64 where q: "moves L1 ?s ?e (unat fee) (unat q) L'"
      by (rule transfer_moves [OF t assms(8) u1(1) fr]) (assumption, rule that)
    show ?thesis
      using moves_out(1) [OF q assms(5)] moves_out(3) [OF q, of ?m] e1 assms(6,7,9) own
      by (auto simp: balance_of_def mint_ok_def)
  next
    case False
    then show ?thesis using f e1 by (simp add: balance_of_def)
  qed
  then show ?thesis
    using False b(2) be(3,4) r own
    by (auto simp: sent_tokens_def Let_def supply_in_def same_mint_def)
qed

section \<open>Receiving\<close>

lemma receive_dest_Ok:
  assumes "receive_dest E x L = Ok (a, L')"
  shows "creation_keeps E \<Longrightarrow> ac_owner (L k) \<in> set token_programs \<Longrightarrow> L' k = L k"
    and "\<exists>st. token_account (ac_data (L' (ai_key (rx_dest x)))) = Ok st"
proof -
  have h: "load_token_account (oft_system_id E) L' (rx_dest x) = Ok a"
    "(if ac_owner (L (ai_key (rx_dest x))) = oft_system_id E
       then oe_init_associated E (rx_payer x) (ai_key (rx_dest x)) (ai_key (rx_mint x)) (ai_key (rx_to_address x))
         (ai_key (rx_token_program x)) L
       else Ok L) = Ok L'"
    using assms unfolding receive_dest_def check_token_account_def by (auto simp only: load_simps prod.inject)
  show "\<exists>st. token_account (ac_data (L' (ai_key (rx_dest x)))) = Ok st"
    by (rule loaded_account [OF h(1)]) blast
  show "L' k = L k" if "creation_keeps E" "ac_owner (L k) \<in> set token_programs"
    using h(2) that unfolding creation_keeps_def by (auto split: if_splits)
qed

lemma loaded_owner:
  "load_token_account sys L i = Ok a \<Longrightarrow> ac_owner (L (ai_key i)) \<in> set token_programs"
  "load_mint sys L i = Ok b \<Longrightarrow> ac_owner (L (ai_key i)) \<in> set token_programs"
  by (auto simp: load_token_account_def load_mint_def Let_def split: if_splits)

lemma receive_accounts_Ok:
  assumes "receive_accounts E x params s = Ok (peer, st, mint, L)" "creation_keeps E"
  obtains esc mst dst where
    "os_peers s (ai_key (rx_peer x)) = Some peer" "os_stores s (ai_key (rx_oft_store x)) = Some st"
    "ai_key (rx_escrow x) = oft_token_escrow st" "ai_key (rx_mint x) = oft_token_mint st"
    "peer_address peer = rp_sender params"
    "L (oft_token_escrow st) = os_ledger s (oft_token_escrow st)" "L (oft_token_mint st) = os_ledger s (oft_token_mint st)"
    "token_account (ac_data (L (oft_token_escrow st))) = Ok esc" "a_owner (base esc) = ai_key (rx_oft_store x)"
    "token_account (ac_data (L (ai_key (rx_dest x)))) = Ok dst"
    "token_mint (ac_data (L (oft_token_mint st))) = Ok mst"
    "state_unpack MintP (ac_data (L (oft_token_mint st))) = Ok \<lparr>base = mint, tlv_data = tlv_data mst\<rparr>"
    "ac_owner (L (oft_token_mint st)) = ai_key (rx_token_program x)"
proof -
  let ?L = "os_ledger s" and ?sys = "oft_system_id E"
  obtain escrow dest where h: "os_peers s (ai_key (rx_peer x)) = Some peer"
      "os_stores s (ai_key (rx_oft_store x)) = Some st"
      "load_token_account ?sys ?L (rx_escrow x) = Ok escrow" "load_mint ?sys ?L (rx_mint x) = Ok mint"
      "receive_dest E x ?L = Ok (dest, L)" "peer_address peer = rp_sender params"
      "ai_key (rx_escrow x) = oft_token_escrow st" "sa_owner escrow = ai_key (rx_oft_store x)"
      "ai_key (rx_mint x) = oft_token_mint st" "ac_owner (L (ai_key (rx_mint x))) = ai_key (rx_token_program x)"
    using assms(1) unfolding receive_accounts_def Let_def account_checks
    by (simp only: load_simps split_paired_Ex prod.case) (elim exE conjE, simp only: prod.inject)
  note kp = receive_dest_Ok(1) [OF h(5) assms(2)]
  have L: "L (ai_key (rx_escrow x)) = ?L (ai_key (rx_escrow x))" "L (ai_key (rx_mint x)) = ?L (ai_key (rx_mint x))"
    by (rule kp [OF loaded_owner(1) [OF h(3)]], rule kp [OF loaded_owner(2) [OF h(4)]])
  obtain esc where esc: "token_account (ac_data (?L (ai_key (rx_escrow x)))) = Ok esc" "escrow = account_view (base esc)"
    by (rule loaded_account [OF h(3)])
  obtain mst where mst: "token_mint (ac_data (?L (ai_key (rx_mint x)))) = Ok mst"
    "state_unpack MintP (ac_data (?L (ai_key (rx_mint x)))) = Ok \<lparr>base = mint, tlv_data = tlv_data mst\<rparr>"
    by (rule loaded_mint [OF h(4)])
  obtain dst where "token_account (ac_data (L (ai_key (rx_dest x)))) = Ok dst"
    using receive_dest_Ok(2) [OF h(5)] by blast
  then show thesis using h esc mst L by (intro that) auto
qed

text \<open>The effect of releasing the tokens; the destination may be the escrow itself.\<close>

definition received_tokens :: "OFTStore \<Rightarrow> ledger \<Rightarrow> u64 \<Rightarrow> OFTStore \<Rightarrow> ledger \<Rightarrow> bool" where
  "received_tokens st L amount st' L' \<longleftrightarrow>
     (let e = oft_token_escrow st; m = oft_token_mint st in
      if oft_type st = Adapter
      then (\<exists>t. st' = st\<lparr>tvl_ld := t\<rparr> \<and> unat t + unat amount = unat (tvl_ld st)) \<and>
        balance_of L e \<le> balance_of L' e + unat amount \<and> L' m = L m
      else st' = st \<and> balance_of L e \<le> balance_of L' e \<and> supply_in L' m = supply_in L m + unat amount \<and>
        same_mint L L' m \<and> ac_owner (L' m) = ac_owner (L m))"

lemma receive_tokens_effect:
  assumes "receive_tokens E x st dec amount L = Ok (st', L', received)"
    and "ai_key (rx_escrow x) = oft_token_escrow st" "ai_key (rx_mint x) = oft_token_mint st"
    and "ai_key (rx_token_program x) = token_program_id"
    and "ai_key (rx_dest x) \<noteq> oft_token_mint st" "oft_token_escrow st \<noteq> oft_token_mint st"
    and "hook_keeps_data (oft_clock E)" "mint_ok L (oft_token_mint st)"
    and "state_unpack MintP (ac_data (L (oft_token_mint st))) = Ok u"
  shows "received_tokens st L amount st' L'"
proof (cases "oft_type st = Adapter")
  case True
  let ?e = "oft_token_escrow st" and ?m = "oft_token_mint st" and ?d = "ai_key (rx_dest x)"
  obtain t where t: "checked_sub (tvl_ld st) amount = Some t" "st' = st\<lparr>tvl_ld := t\<rparr>"
    and c: "invoke_signed E (Some (oft_endpoint_program st))
      (ai_key (rx_payer x) # pda_signer E (store_seeds ?e) (oft_bump st))
      (transfer_checked token_program_id ?e ?m ?d (ai_key (rx_oft_store x)) [] amount dec) L = Ok L'"
    using assms(1) True by (auto simp: receive_tokens_def assms(2-4) Let_def and_then_Ok or_panic_Ok)
  obtain q :: u64 where q: "moves L ?e ?d (unat amount) (unat q) L'"
    by (rule transfer_moves [OF c assms(7,9) mint_ok_fee [OF assms(8)]]) (assumption, rule that)
  have "balance_of L ?e \<le> balance_of L' ?e + unat amount"
    using q moves_out(2) [OF q] by (cases "?e = ?d") (auto simp: moves_def)
  moreover have "L' ?m = L ?m"
    using q moves_out(3) [OF q, of ?m] assms(5,6,8) by (cases "?e = ?d") (auto simp: mint_ok_def moves_def)
  ultimately show ?thesis using True t checked_sub_unat [OF t(1)] by (auto simp: received_tokens_def Let_def)
next
  case False
  let ?e = "oft_token_escrow st" and ?m = "oft_token_mint st" and ?d = "ai_key (rx_dest x)"
  obtain a where b: "st' = st"
    and c: "invoke_signed E (Some (oft_endpoint_program st))
      (ai_key (rx_payer x) # pda_signer E (store_seeds ?e) (oft_bump st))
      (mint_to token_program_id ?m ?d a [ai_key (rx_oft_store x)] amount) L = Ok L'"
    using assms(1) False
    by (auto simp: receive_tokens_def assms(2-4) Let_def and_then_Ok or_panic_Ok split: option.splits)
  note me = mint_to_effect [OF c]
  have "balance_of L ?e \<le> balance_of L' ?e"
    using me(1) me(7) [of ?e] assms(6) by (cases "?e = ?d") (auto simp: balance_of_def)
  then show ?thesis using False b me(3,4) me(8) [of ?m] by (auto simp: received_tokens_def Let_def)
qed

end
