(* ===== verification/Oft_Bridge.thy ===== *)
theory Oft_Bridge
  imports Oft_Effects
begin

text \<open>
  The bridge as a whole: a store on one chain with the messages its endpoint accepted and handed over, as a step
  relation over the program's instructions interleaved with everything else that happens on the chain, and what
  every reachable state keeps.
\<close>

section \<open>The endpoint's record of messages\<close>

text \<open>The messages the endpoint took from a store and the messages it cleared for it, oldest first.\<close>

record 'e EndpointView =
  ev_sent :: "'e \<Rightarrow> bytes list"
  ev_cleared :: "'e \<Rightarrow> bytes list"

definition same_messages :: "'e EndpointView \<Rightarrow> 'e \<Rightarrow> 'e \<Rightarrow> bool" where
  "same_messages v e e' \<longleftrightarrow> ev_sent v e' = ev_sent v e \<and> ev_cleared v e' = ev_cleared v e"

definition endpoint_records :: "'e Endpoint \<Rightarrow> pubkey \<Rightarrow> 'e EndpointView \<Rightarrow> bool" where
  "endpoint_records ep k v \<longleftrightarrow>
     (\<forall>p as ss a L e L' e'. ep_set_delegate ep p k as ss a (L, e) = Ok (L', e') \<longrightarrow> same_messages v e e') \<and>
     (\<forall>p as ss a L e r L' e'. ep_send ep p k as ss a (L, e) = Ok (r, L', e') \<longrightarrow>
        ev_sent v e' = ev_sent v e @ [es_message a] \<and> ev_cleared v e' = ev_cleared v e) \<and>
     (\<forall>p as ss a L e L' e'. ep_clear ep p k as ss a (L, e) = Ok (L', e') \<longrightarrow>
        ev_sent v e' = ev_sent v e \<and> ev_cleared v e' = ev_cleared v e @ [ec_message a]) \<and>
     (\<forall>p as ss a L e L' e'. ep_send_compose ep p k as ss a (L, e) = Ok (L', e') \<longrightarrow> same_messages v e e') \<and>
     (\<forall>p as ss a L e L' e'. ep_register_oapp ep p k as ss a (L, e) = Ok (L', e') \<longrightarrow> same_messages v e e')"

lemma endpoint_recordsD:
  assumes "endpoint_records ep k v"
  shows "ep_set_delegate ep p k as ss a1 (L, e) = Ok (L', e') \<Longrightarrow> same_messages v e e'"
    and "ep_send ep p k as ss a2 (L, e) = Ok (r, L', e') \<Longrightarrow>
      ev_sent v e' = ev_sent v e @ [es_message a2] \<and> ev_cleared v e' = ev_cleared v e"
    and "ep_clear ep p k as ss a3 (L, e) = Ok (L', e') \<Longrightarrow>
      ev_sent v e' = ev_sent v e \<and> ev_cleared v e' = ev_cleared v e @ [ec_message a3]"
    and "ep_send_compose ep p k as ss a4 (L, e) = Ok (L', e') \<Longrightarrow> same_messages v e e'"
    and "ep_register_oapp ep p k as ss a5 (L, e) = Ok (L', e') \<Longrightarrow> same_messages v e e'"
proof -
  note h = assms [unfolded endpoint_records_def]
  show "ep_set_delegate ep p k as ss a1 (L, e) = Ok (L', e') \<Longrightarrow> same_messages v e e'"
    using h [THEN conjunct1] by blast
  show "ep_send ep p k as ss a2 (L, e) = Ok (r, L', e') \<Longrightarrow>
      ev_sent v e' = ev_sent v e @ [es_message a2] \<and> ev_cleared v e' = ev_cleared v e"
    using h [THEN conjunct2, THEN conjunct1] by blast
  show "ep_clear ep p k as ss a3 (L, e) = Ok (L', e') \<Longrightarrow>
      ev_sent v e' = ev_sent v e \<and> ev_cleared v e' = ev_cleared v e @ [ec_message a3]"
    using h [THEN conjunct2, THEN conjunct2, THEN conjunct1] by blast
  show "ep_send_compose ep p k as ss a4 (L, e) = Ok (L', e') \<Longrightarrow> same_messages v e e'"
    using h [THEN conjunct2, THEN conjunct2, THEN conjunct2, THEN conjunct1] by blast
  show "ep_register_oapp ep p k as ss a5 (L, e) = Ok (L', e') \<Longrightarrow> same_messages v e e'"
    using h [THEN conjunct2, THEN conjunct2, THEN conjunct2, THEN conjunct2] by blast
qed

text \<open>What the messages carry, in shared decimals.\<close>

definition message_amount :: "bytes \<Rightarrow> nat" where
  "message_amount m = (case msg_amount_sd m of Some a \<Rightarrow> unat a | None \<Rightarrow> 0)"

definition messages_amount :: "bytes list \<Rightarrow> nat" where
  "messages_amount ms = sum_list (map message_amount ms)"

lemma messages_amount_simps [simp]:
  "messages_amount [] = 0" "messages_amount (ms @ ms') = messages_amount ms + messages_amount ms'"
  "messages_amount [m] = message_amount m"
  by (simp_all add: messages_amount_def)

section \<open>The invariant\<close>

text \<open>What never changes of a store.\<close>

definition same_token :: "OFTStore \<Rightarrow> OFTStore \<Rightarrow> bool" where
  "same_token st st' \<longleftrightarrow> oft_type st' = oft_type st \<and> ld2sd_rate st' = ld2sd_rate st \<and>
     oft_token_mint st' = oft_token_mint st \<and> oft_token_escrow st' = oft_token_escrow st"

text \<open>
  The books of a store: what is locked or the supply, against the messages.  The number \<open>g\<close> is what was issued
  of the token otherwise than by the bridge.
\<close>

definition books :: "OFTStore \<Rightarrow> 'e EndpointView \<Rightarrow> ledger \<Rightarrow> 'e \<Rightarrow> int \<Rightarrow> bool" where
  "books st v L e g \<longleftrightarrow>
     (let rate = unat (ld2sd_rate st); sent = rate * messages_amount (ev_sent v e);
          cleared = rate * messages_amount (ev_cleared v e) in
      unat (tvl_ld st) \<le> balance_of L (oft_token_escrow st) \<and>
      (if oft_type st = Adapter then unat (tvl_ld st) + cleared = sent
       else int (supply_in L (oft_token_mint st)) + int sent = int cleared + g))"

definition fee_ok :: "u16 \<Rightarrow> bool" where "fee_ok b \<longleftrightarrow> unat b \<le> 10000"

definition peers_ok :: "(pubkey \<Rightarrow> PeerConfig option) \<Rightarrow> bool" where
  "peers_ok peers \<longleftrightarrow> (\<forall>p peer b. peers p = Some peer \<longrightarrow> peer_fee_bps peer = Some b \<longrightarrow> fee_ok b)"

definition bridge_ok :: "OFTStore \<Rightarrow> pubkey \<Rightarrow> 'e EndpointView \<Rightarrow> 'e OftState \<times> int \<Rightarrow> bool" where
  "bridge_ok st0 k v = (\<lambda>(s, g). peers_ok (os_peers s) \<and>
     (case os_stores s k of None \<Rightarrow> False
      | Some st \<Rightarrow> same_token st0 st \<and> fee_ok (default_fee_bps st) \<and> mint_ok (os_ledger s) (oft_token_mint st0) \<and>
          books st v (os_ledger s) (os_endpoint s) g))"

text \<open>What is relied on of everything outside of the repository, for the escrow and the mint of a store.\<close>

definition bridge_env :: "OFTStore \<Rightarrow> pubkey \<Rightarrow> 'e EndpointView \<Rightarrow> ('g, 'm, 'd, 'f, 'e) OftEnv \<Rightarrow> bool" where
  "bridge_env st0 k v E \<longleftrightarrow> hook_keeps_data (oft_clock E) \<and> creation_keeps E \<and>
     endpoint_leaves (oe_endpoint E) {oft_token_escrow st0, oft_token_mint st0} \<and> endpoint_records (oe_endpoint E) k v"

section \<open>Steps\<close>

text \<open>
  Anything else on the chain: it does not take from the escrow, which belongs to the store, keeps the mint well
  formed and does not talk to the endpoint for the store.
\<close>

definition elsewhere :: "OFTStore \<Rightarrow> pubkey \<Rightarrow> 'e EndpointView \<Rightarrow> 'e OftState \<Rightarrow> 'e OftState \<Rightarrow> bool" where
  "elsewhere st0 k v s s' \<longleftrightarrow> os_stores s' k = os_stores s k \<and> (peers_ok (os_peers s) \<longrightarrow> peers_ok (os_peers s')) \<and>
     same_messages v (os_endpoint s) (os_endpoint s') \<and>
     balance_of (os_ledger s) (oft_token_escrow st0) \<le> balance_of (os_ledger s') (oft_token_escrow st0) \<and>
     (mint_ok (os_ledger s) (oft_token_mint st0) \<longrightarrow> mint_ok (os_ledger s') (oft_token_mint st0))"

text \<open>
  The environments of the steps differ in the clock and the like.  The address of a store is derived from the
  program and has no private key, so it is not the signer of a transfer.
\<close>

inductive oft_step ::
  "('g, 'm, 'd, 'f, 'e) OftEnv set \<Rightarrow> OFTStore \<Rightarrow> pubkey \<Rightarrow> 'e EndpointView \<Rightarrow> 'e OftState \<times> int \<Rightarrow> 'e OftState \<times> int \<Rightarrow> bool"
  for Es st0 k v where
  step_send: "E \<in> Es \<Longrightarrow> oft_send E x params s = Ok (r, rc, s') \<Longrightarrow> ai_key (sx_oft_store x) = k \<Longrightarrow>
    ai_key (sx_signer x) \<noteq> k \<Longrightarrow> length (sp_to params) = 32 \<Longrightarrow> oft_step Es st0 k v (s, g) (s', g)"
| step_receive: "E \<in> Es \<Longrightarrow> lz_receive E rx rp s = Ok s' \<Longrightarrow> ai_key (rx_oft_store rx) = k \<Longrightarrow>
    oft_step Es st0 k v (s, g) (s', g)"
| step_config: "E \<in> Es \<Longrightarrow> set_oft_config E ax c s = Ok s' \<Longrightarrow> ai_key (ax_oft_store ax) = k \<Longrightarrow>
    oft_step Es st0 k v (s, g) (s', g)"
| step_pause: "E \<in> Es \<Longrightarrow> set_pause E ax b s = Ok s' \<Longrightarrow> ai_key (ax_oft_store ax) = k \<Longrightarrow>
    oft_step Es st0 k v (s, g) (s', g)"
| step_peer: "E \<in> Es \<Longrightarrow> set_peer_config E px eid pc s = Ok s' \<Longrightarrow> ai_key (px_oft_store px) = k \<Longrightarrow>
    oft_step Es st0 k v (s, g) (s', g)"
| step_withdraw: "E \<in> Es \<Longrightarrow> withdraw_fee E wx amount s = Ok s' \<Longrightarrow> ai_key (wx_oft_store wx) = k \<Longrightarrow>
    oft_step Es st0 k v (s, g) (s', g)"
| step_elsewhere: "elsewhere st0 k v s s' \<Longrightarrow>
    oft_step Es st0 k v (s, g) (s', g + int (supply_in (os_ledger s') (oft_token_mint st0)) -
      int (supply_in (os_ledger s) (oft_token_mint st0)))"

section \<open>Sending\<close>

lemma bridge_okD:
  assumes "bridge_ok st0 k v (s, g)"
  obtains st where "os_stores s k = Some st" "same_token st0 st" "fee_ok (default_fee_bps st)"
    "mint_ok (os_ledger s) (oft_token_mint st0)" "books st v (os_ledger s) (os_endpoint s) g" "peers_ok (os_peers s)"
  using assms by (auto simp: bridge_ok_def split: option.splits)

lemma send_unfold:
  assumes "oft_send E x params s = Ok (r, rc, s')"
  obtains peer st mint sent received fee peer' st' L1 sd opts L2 e2 ac where
    "send_accounts E x params s = Ok (peer, st, mint)"
    "compute_fee_and_adjust_amount (oft_clock E) (os_ledger s) (sp_amount_ld params) st (ai_key (sx_mint x)) (peer_fee_bps peer) =
       Ok (sent, received, fee)" "\<not> oft_paused st" "sp_min_amount_ld params \<le> received"
    "limit_outbound (oft_clock E) received peer = Ok peer'"
    "send_tokens E x st (s_decimals mint) sent received fee (os_ledger s) = Ok (st', L1)" "ld2sd st' received = Ok sd"
    "ep_send (oe_endpoint E) (oft_endpoint_program st') (ai_key (sx_oft_store x)) (sx_remaining x)
       (store_seeds (ai_key (sx_escrow x)) @ [[oft_bump st']])
       \<lparr>es_dst_eid = sp_dst_eid params, es_receiver = peer_address peer',
        es_message = msg_encode (sp_to params) sd (ai_key (sx_signer x)) (sp_compose_msg params),
        es_options = opts, es_native_fee = sp_native_fee params, es_lz_token_fee = sp_lz_token_fee params\<rparr>
       (L1, os_endpoint s) = Ok (r, L2, e2)"
    "rc = \<lparr>or_amount_sent_ld = sent, or_amount_received_ld = received\<rparr>"
    "s' = s\<lparr>os_ledger := L2, os_endpoint := e2,
         os_stores := (os_stores s)(ai_key (sx_oft_store x) := Some st'),
         os_peers := (os_peers s)(ai_key (sx_peer x) := Some peer'),
         os_events := os_events s @ [OFTSent (mr_guid r) (sp_dst_eid params) (ai_key (sx_source x)) sent received]\<rparr>"
proof -
  obtain peer st mint where a: "send_accounts E x params s = Ok (peer, st, mint)"
    using assms by (auto simp: oft_send_def and_then_Ok)
  obtain sent received fee where c: "compute_fee_and_adjust_amount (oft_clock E) (os_ledger s) (sp_amount_ld params) st
       (ai_key (sx_mint x)) (peer_fee_bps peer) = Ok (sent, received, fee)" "\<not> oft_paused st" "\<not> received < sp_min_amount_ld params"
    using assms by (auto simp: oft_send_def a and_then_Ok split: if_splits)
  obtain peer' st' L1 where t: "limit_outbound (oft_clock E) received peer = Ok peer'"
    "send_tokens E x st (s_decimals mint) sent received fee (os_ledger s) = Ok (st', L1)"
    using assms c(2,3) by (auto simp: oft_send_def a c(1) and_then_Ok)
  show thesis
    using assms c(2,3) t by (auto simp: oft_send_def a c(1) and_then_Ok not_less split: if_splits intro!: that [OF a c(1)])
qed

lemma same_mint_sym: "same_mint L L' m \<Longrightarrow> same_mint L' L m"
proof -
  assume "same_mint L L' m"
  then obtain st st' where s: "token_mint (ac_data (L m)) = Ok st" "token_mint (ac_data (L' m)) = Ok st'"
    "tlv_data st' = tlv_data st" "base st' = (base st)\<lparr>m_supply := m_supply (base st')\<rparr>"
    by (auto simp: same_mint_def)
  have "base st = (base st')\<lparr>m_supply := m_supply (base st)\<rparr>" by (subst s(4)) simp
  then show ?thesis using s(1-3) by (auto simp: same_mint_def)
qed

lemma same_mint_mint_ok:
  assumes "mint_ok L m" "same_mint L L' m" "ac_owner (L' m) = ac_owner (L m)"
  shows "mint_ok L' m"
  unfolding mint_ok_def
proof (intro conjI allI impI)
  show "ac_owner (L' m) = token_program_id" using assms(1,3) by (simp add: mint_ok_def)
  fix u c assume u: "state_unpack MintP (ac_data (L' m)) = Ok u" "get_extension MintBase TransferFeeConfigX (tlv_data u) = Ok c"
  obtain u' where "state_unpack MintP (ac_data (L m)) = Ok u'" "tlv_data u' = tlv_data u"
    by (rule same_mint_unpack [OF same_mint_sym [OF assms(2)] u(1)])
  then show "tf_transfer_fee_basis_points (tfc_older_transfer_fee c) \<le> MAX_FEE_BASIS_POINTS"
    "tf_transfer_fee_basis_points (tfc_newer_transfer_fee c) \<le> MAX_FEE_BASIS_POINTS"
    using assms(1) u(2) by (auto simp: mint_ok_def)
qed

lemma peers_ok_upd:
  "peers_ok peers \<Longrightarrow> peers p = Some q \<Longrightarrow> peer_fee_bps q' = peer_fee_bps q \<Longrightarrow> peers_ok (peers(p' := Some q'))"
  unfolding peers_ok_def by (metis fun_upd_apply option.inject)

lemma final_bps_ok:
  "fee_ok (default_fee_bps st) \<Longrightarrow> peers_ok peers \<Longrightarrow> peers p = Some peer \<Longrightarrow> final_bps st (peer_fee_bps peer) \<le> 10000"
  by (auto simp: final_bps_def fee_ok_def peers_ok_def split: option.splits)

lemma balance_cong: "L' k = L k \<Longrightarrow> balance_of L' k = balance_of L k"
  and supply_cong: "L' k = L k \<Longrightarrow> supply_in L' k = supply_in L k"
  by (simp_all add: balance_of_def supply_in_def)

text \<open>The books after tokens left for a message that carries them.\<close>

lemma books_arith:
  "S1 + x = S \<Longrightarrow> r * y = x \<Longrightarrow> int S + int (r * a) = int (r * c) + g \<Longrightarrow> int S1 + int (r * (a + y)) = int (r * c) + g"
  by (auto simp: distrib_left)

lemma books_sent:
  assumes "books st v L e g" "sent_tokens st L received fee st' L1"
    and "L2 (oft_token_escrow st) = L1 (oft_token_escrow st)" "L2 (oft_token_mint st) = L1 (oft_token_mint st)"
    and "ev_sent v e2 = ev_sent v e @ [m]" "ev_cleared v e2 = ev_cleared v e"
    and "unat (ld2sd_rate st) * message_amount m = unat received"
  shows "books st' v L2 e2 g" "same_token st st'" "default_fee_bps st' = default_fee_bps st"
    "mint_ok L (oft_token_mint st) \<Longrightarrow> mint_ok L2 (oft_token_mint st)"
proof -
  note s = assms(2) [unfolded sent_tokens_def Let_def]
  show "same_token st st'" "default_fee_bps st' = default_fee_bps st"
    using s by (auto simp: same_token_def split: if_splits)
  show "mint_ok L2 (oft_token_mint st)" if "mint_ok L (oft_token_mint st)"
    using s that assms(4) by (auto intro: mint_ok_same same_mint_mint_ok split: if_splits)
  note c = balance_cong [of L2 "oft_token_escrow st" L1, OF assms(3)] supply_cong [of L2 "oft_token_mint st" L1, OF assms(4)]
  show "books st' v L2 e2 g"
  proof (cases "oft_type st = Adapter")
    case True
    then obtain t where "st' = st\<lparr>tvl_ld := t\<rparr>" "unat t = unat (tvl_ld st) + unat received"
      "balance_of L1 (oft_token_escrow st) = balance_of L (oft_token_escrow st) + unat received + unat fee" using s by auto
    then show ?thesis using True assms(1,5-7) c by (simp add: books_def Let_def add_mult_distrib2)
  next
    case False
    then have u: "supply_in L1 (oft_token_mint st) + unat received = supply_in L (oft_token_mint st)" "st' = st"
      "balance_of L (oft_token_escrow st) \<le> balance_of L1 (oft_token_escrow st)" using s by auto
    show ?thesis
      using books_arith [OF u(1) assms(7)] False assms(1,5,6) c u(2,3)
      by (simp only: books_def Let_def if_False messages_amount_simps) linarith
  qed
qed

lemma books_same_token: "same_token st0 st \<Longrightarrow> oft_token_mint st0 = oft_token_mint st \<and> oft_token_escrow st0 = oft_token_escrow st"
  by (simp add: same_token_def)

lemma bridge_envD:
  assumes "bridge_env st0 k v E" "same_token st0 st"
  shows "hook_keeps_data (oft_clock E)" "creation_keeps E"
    "endpoint_leaves (oe_endpoint E) {oft_token_escrow st, oft_token_mint st}" "endpoint_records (oe_endpoint E) k v"
  using assms by (simp_all add: bridge_env_def same_token_def)

lemma bridge_okI:
  assumes "os_stores s' k = Some st'" "same_token st0 st" "same_token st st'" "fee_ok (default_fee_bps st')"
    "mint_ok (os_ledger s') (oft_token_mint st)" "books st' v (os_ledger s') (os_endpoint s') g" "peers_ok (os_peers s')"
  shows "bridge_ok st0 k v (s', g)"
  using assms by (simp add: bridge_ok_def same_token_def)

lemma send_preserves:
  assumes env: "bridge_env st0 k v E" and inv: "bridge_ok st0 k v (s, g)" and ok: "oft_send E x params s = Ok (r, rc, s')"
    and "ai_key (sx_oft_store x) = k" "ai_key (sx_signer x) \<noteq> k" "length (sp_to params) = 32"
  shows "bridge_ok st0 k v (s', g)"
proof -
  obtain peer st mint sent received fee peer' st' L1 sd opts L2 e2 where
    a: "send_accounts E x params s = Ok (peer, st, mint)" and
    c: "compute_fee_and_adjust_amount (oft_clock E) (os_ledger s) (sp_amount_ld params) st (ai_key (sx_mint x)) (peer_fee_bps peer) =
       Ok (sent, received, fee)" and
    lo: "limit_outbound (oft_clock E) received peer = Ok peer'" and
    t: "send_tokens E x st (s_decimals mint) sent received fee (os_ledger s) = Ok (st', L1)" and
    sd: "ld2sd st' received = Ok sd" and
    ep: "ep_send (oe_endpoint E) (oft_endpoint_program st') (ai_key (sx_oft_store x)) (sx_remaining x)
       (store_seeds (ai_key (sx_escrow x)) @ [[oft_bump st']])
       \<lparr>es_dst_eid = sp_dst_eid params, es_receiver = peer_address peer',
        es_message = msg_encode (sp_to params) sd (ai_key (sx_signer x)) (sp_compose_msg params),
        es_options = opts, es_native_fee = sp_native_fee params, es_lz_token_fee = sp_lz_token_fee params\<rparr>
       (L1, os_endpoint s) = Ok (r, L2, e2)" and
    s': "s' = s\<lparr>os_ledger := L2, os_endpoint := e2,
         os_stores := (os_stores s)(ai_key (sx_oft_store x) := Some st'),
         os_peers := (os_peers s)(ai_key (sx_peer x) := Some peer'),
         os_events := os_events s @ [OFTSent (mr_guid r) (sp_dst_eid params) (ai_key (sx_source x)) sent received]\<rparr>"
    by (rule send_unfold [OF ok])
  obtain src esc mst where l: "os_peers s (ai_key (sx_peer x)) = Some peer" "os_stores s k = Some st"
      "ai_key (sx_escrow x) = oft_token_escrow st" "ai_key (sx_mint x) = oft_token_mint st"
      "token_account (ac_data (os_ledger s (ai_key (sx_source x)))) = Ok src" "a_owner (base src) = ai_key (sx_signer x)"
      "token_account (ac_data (os_ledger s (oft_token_escrow st))) = Ok esc" "a_owner (base esc) = k"
      "token_mint (ac_data (os_ledger s (oft_token_mint st))) = Ok mst"
      "state_unpack MintP (ac_data (os_ledger s (oft_token_mint st))) = Ok \<lparr>base = mint, tlv_data = tlv_data mst\<rparr>"
      "ac_owner (os_ledger s (oft_token_escrow st)) = ai_key (sx_token_program x)"
      "ac_owner (os_ledger s (oft_token_mint st)) = ai_key (sx_token_program x)"
    by (rule send_accounts_Ok [OF a, unfolded assms(4)]) (rule that, assumption+)
  have i: "same_token st0 st" "fee_ok (default_fee_bps st)" "mint_ok (os_ledger s) (oft_token_mint st0)"
    "books st v (os_ledger s) (os_endpoint s) g" "peers_ok (os_peers s)"
    using inv l(2) by (simp_all add: bridge_ok_def)
  note k = books_same_token [OF i(1)]
  have m: "mint_ok (os_ledger s) (oft_token_mint st)" using i(3) k by simp
  have tp: "ai_key (sx_token_program x) = token_program_id" using m l(12) by (simp add: mint_ok_def)
  obtain p where p: "arriving (oft_clock E) (os_ledger s) st (oft_token_mint st) sent = Ok p"
    "amounts_ok st (final_bps st (peer_fee_bps peer)) p received fee"
    by (rule compute_fee_effect [OF c final_bps_ok [OF i(2,5) l(1)]])
      (simp only: l(4), erule mint_ok_fee [OF m], rule that, simp only: l(4))
  have so: "sent_tokens st (os_ledger s) received fee st' L1"
  proof (rule send_tokens_effect [OF t l(3,4) tp])
    show "ai_key (sx_source x) \<noteq> oft_token_escrow st"
    proof
      assume eq: "ai_key (sx_source x) = oft_token_escrow st"
      have "src = esc" using l(5) l(7) unfolding eq by simp
      then show False using l(6,8) assms(5) by simp
    qed
    show "ai_key (sx_source x) \<noteq> oft_token_mint st" by (rule account_mint_disjoint [of "os_ledger s" _ src _ mst, OF l(5,9)])
    show "oft_token_escrow st \<noteq> oft_token_mint st" by (rule account_mint_disjoint [of "os_ledger s" _ esc _ mst, OF l(7,9)])
    show "unat received + unat fee = unat p" using p(2) by (simp add: amounts_ok_def)
    show "hook_keeps_data (oft_clock E)" by (rule bridge_envD(1) [OF env i(1)])
    show "ac_owner (os_ledger s (oft_token_escrow st)) = token_program_id" by (simp only: l(11) tp)
  qed (rule m l(10) p(1))+
  have rt: "ld2sd_rate st' = ld2sd_rate st" using so by (auto simp: sent_tokens_def Let_def split: if_splits)
  have am: "unat (ld2sd_rate st) * message_amount (msg_encode (sp_to params) sd (ai_key (sx_signer x)) (sp_compose_msg params)) = unat received"
    using ld2sd_exact(1) [OF sd] p(2) msg_read(2) [OF assms(6)] rt
    by (simp add: message_amount_def amounts_ok_def mult.commute)
  have lv: "L2 (oft_token_escrow st) = L1 (oft_token_escrow st)" "L2 (oft_token_mint st) = L1 (oft_token_mint st)"
    using endpoint_leavesD(2) [OF bridge_envD(3) [OF env i(1)] _ ep] by simp_all
  have rc: "ev_sent v e2 = ev_sent v (os_endpoint s) @ [msg_encode (sp_to params) sd (ai_key (sx_signer x)) (sp_compose_msg params)]"
    "ev_cleared v e2 = ev_cleared v (os_endpoint s)"
    using endpoint_recordsD(2) [OF bridge_envD(4) [OF env i(1)] ep [unfolded assms(4)]] by simp_all
  note b = books_sent [OF i(4) so lv rc am]
  have f: "peer_fee_bps peer' = peer_fee_bps peer" using limit_outbound_same(1) [OF lo] by simp
  show ?thesis
  proof (rule bridge_okI [OF _ i(1) b(2)])
    show "os_stores s' k = Some st'" by (simp add: s' assms(4))
    show "fee_ok (default_fee_bps st')" using b(3) i(2) by simp
    show "mint_ok (os_ledger s') (oft_token_mint st)" using b(4) [OF m] by (simp add: s')
    show "books st' v (os_ledger s') (os_endpoint s') g" using b(1) by (simp add: s')
    show "peers_ok (os_peers s')" using peers_ok_upd [OF i(5) l(1) f] by (simp add: s')
  qed
qed

section \<open>Receiving\<close>

lemma receive_unfold:
  assumes "lz_receive E x params s = Ok s'"
  obtains peer st mint L ac L1 e1 sd amount peer' st' L2 received L3 e3 ev where
    "receive_accounts E x params s = Ok (peer, st, mint, L)"
    "ep_clear (oe_endpoint E) (oft_endpoint_program st) (ai_key (rx_oft_store x)) ac
       (store_seeds (ai_key (rx_escrow x)) @ [[oft_bump st]])
       \<lparr>ec_receiver = ai_key (rx_oft_store x), ec_src_eid = rp_src_eid params, ec_sender = rp_sender params,
        ec_nonce = rp_nonce params, ec_guid = rp_guid params, ec_message = rp_message params\<rparr> (L, os_endpoint s) = Ok (L1, e1)"
    "msg_amount_sd (rp_message params) = Some sd" "sd2ld st sd = Ok amount"
    "limit_inbound (oft_clock E) amount peer = Ok peer'"
    "receive_tokens E x st (s_decimals mint) amount L1 = Ok (st', L2, received)"
    "L3 = L2 \<and> e3 = e1 \<or> (\<exists>as ss a. ep_send_compose (oe_endpoint E) (oft_endpoint_program st')
       (ai_key (rx_oft_store x)) as ss a (L2, e1) = Ok (L3, e3))"
    "s' = s\<lparr>os_ledger := L3, os_endpoint := e3,
         os_stores := (os_stores s)(ai_key (rx_oft_store x) := Some st'),
         os_peers := (os_peers s)(ai_key (rx_peer x) := Some peer'), os_events := ev\<rparr>"
proof -
  obtain peer st mint L where a: "receive_accounts E x params s = Ok (peer, st, mint, L)"
    using assms by (auto simp: lz_receive_def and_then_Ok)
  obtain ac L1 e1 where c: "\<not> oft_paused st" "ep_clear (oe_endpoint E) (oft_endpoint_program st) (ai_key (rx_oft_store x)) ac
       (store_seeds (ai_key (rx_escrow x)) @ [[oft_bump st]])
       \<lparr>ec_receiver = ai_key (rx_oft_store x), ec_src_eid = rp_src_eid params, ec_sender = rp_sender params,
        ec_nonce = rp_nonce params, ec_guid = rp_guid params, ec_message = rp_message params\<rparr> (L, os_endpoint s) = Ok (L1, e1)"
    "accounts_to (rx_remaining x) (ep_clear_min_accounts_len (oe_endpoint E)) = Ok ac"
    using assms by (auto simp: lz_receive_def a Let_def and_then_Ok split: if_splits)
  obtain sd amount peer' st' L2 received where d:
    "msg_amount_sd (rp_message params) = Some sd" "sd2ld st sd = Ok amount"
    "limit_inbound (oft_clock E) amount peer = Ok peer'"
    "receive_tokens E x st (s_decimals mint) amount L1 = Ok (st', L2, received)"
    using assms c(1) by (auto simp: lz_receive_def a c(2,3) Let_def and_then_Ok or_panic_Ok)
  show thesis
  proof (cases "msg_compose_msg (rp_message params)")
    case None
    then show ?thesis
      using assms c(1) d
      by (auto simp: lz_receive_def a c(2,3) Let_def and_then_Ok or_panic_Ok intro!: that [OF a c(2) d])
  next
    case (Some message)
    then obtain as L3 e3 where cm: "ep_send_compose (oe_endpoint E) (oft_endpoint_program st') (ai_key (rx_oft_store x)) as
        (store_seeds (ai_key (rx_escrow x)) @ [[oft_bump st]])
        \<lparr>sc_to = ai_key (rx_to_address x), sc_guid = rp_guid params, sc_index = 0,
         sc_message = compose_encode (rp_nonce params) (rp_src_eid params) received message\<rparr> (L2, e1) = Ok (L3, e3)"
      "accounts_from (rx_remaining x) (ep_clear_min_accounts_len (oe_endpoint E)) = Ok as"
      using assms c(1) d by (auto simp: lz_receive_def a c(2,3) Let_def and_then_Ok or_panic_Ok)
    then have "\<exists>as ss a. ep_send_compose (oe_endpoint E) (oft_endpoint_program st') (ai_key (rx_oft_store x)) as ss a (L2, e1) =
        Ok (L3, e3)" by blast
    then show ?thesis
      using assms c(1) d Some
      by (auto simp: lz_receive_def a c(2,3) cm Let_def and_then_Ok or_panic_Ok
          simp del: split_paired_Ex intro!: that [OF a c(2) d disjI2])
  qed
qed

lemma books_arith_in:
  "S1 = S + x \<Longrightarrow> r * y = x \<Longrightarrow> int S + int (r * a) = int (r * c) + g \<Longrightarrow> int S1 + int (r * a) = int (r * (c + y)) + g"
  by (auto simp: distrib_left)

lemma books_received:
  assumes "books st v L e g" "received_tokens st L1 amount st' L2"
    and "L1 (oft_token_escrow st) = L (oft_token_escrow st)" "L1 (oft_token_mint st) = L (oft_token_mint st)"
    and "L3 (oft_token_escrow st) = L2 (oft_token_escrow st)" "L3 (oft_token_mint st) = L2 (oft_token_mint st)"
    and "ev_sent v e' = ev_sent v e" "ev_cleared v e' = ev_cleared v e @ [m]"
    and "unat (ld2sd_rate st) * message_amount m = unat amount"
  shows "books st' v L3 e' g" "same_token st st'" "default_fee_bps st' = default_fee_bps st"
    "mint_ok L (oft_token_mint st) \<Longrightarrow> mint_ok L3 (oft_token_mint st)"
proof -
  note s = assms(2) [unfolded received_tokens_def Let_def]
  show "same_token st st'" "default_fee_bps st' = default_fee_bps st"
    using s by (auto simp: same_token_def split: if_splits)
  show "mint_ok L3 (oft_token_mint st)" if "mint_ok L (oft_token_mint st)"
    using s mint_ok_same [of L "oft_token_mint st" L1, OF that assms(4)] assms(6) by (auto intro: mint_ok_same same_mint_mint_ok split: if_splits)
  note c = balance_cong [of L3 "oft_token_escrow st" L2, OF assms(5)] supply_cong [of L3 "oft_token_mint st" L2, OF assms(6)]
    balance_cong [of L1 "oft_token_escrow st" L, OF assms(3)] supply_cong [of L1 "oft_token_mint st" L, OF assms(4)]
  show "books st' v L3 e' g"
  proof (cases "oft_type st = Adapter")
    case True
    then obtain t where "st' = st\<lparr>tvl_ld := t\<rparr>" "unat t + unat amount = unat (tvl_ld st)"
      "balance_of L1 (oft_token_escrow st) \<le> balance_of L2 (oft_token_escrow st) + unat amount" using s by auto
    then show ?thesis using True assms(1,7-9) c by (simp add: books_def Let_def add_mult_distrib2)
  next
    case False
    then have u: "supply_in L2 (oft_token_mint st) = supply_in L (oft_token_mint st) + unat amount" "st' = st"
      "balance_of L (oft_token_escrow st) \<le> balance_of L2 (oft_token_escrow st)" using s c by auto
    show ?thesis
      using books_arith_in [OF u(1) assms(9)] False assms(1,7,8) c u(2,3)
      by (simp only: books_def Let_def if_False messages_amount_simps) linarith
  qed
qed

lemma receive_preserves:
  assumes env: "bridge_env st0 k v E" and inv: "bridge_ok st0 k v (s, g)" and ok: "lz_receive E x params s = Ok s'"
    and "ai_key (rx_oft_store x) = k"
  shows "bridge_ok st0 k v (s', g)"
proof -
  obtain peer st mint L ac L1 e1 sd amount peer' st' L2 received L3 e3 ev where
    a: "receive_accounts E x params s = Ok (peer, st, mint, L)" and
    c: "ep_clear (oe_endpoint E) (oft_endpoint_program st) (ai_key (rx_oft_store x)) ac
       (store_seeds (ai_key (rx_escrow x)) @ [[oft_bump st]])
       \<lparr>ec_receiver = ai_key (rx_oft_store x), ec_src_eid = rp_src_eid params, ec_sender = rp_sender params,
        ec_nonce = rp_nonce params, ec_guid = rp_guid params, ec_message = rp_message params\<rparr> (L, os_endpoint s) = Ok (L1, e1)" and
    d: "msg_amount_sd (rp_message params) = Some sd" "sd2ld st sd = Ok amount" and
    li: "limit_inbound (oft_clock E) amount peer = Ok peer'" and
    t: "receive_tokens E x st (s_decimals mint) amount L1 = Ok (st', L2, received)" and
    cp: "L3 = L2 \<and> e3 = e1 \<or> (\<exists>as ss a. ep_send_compose (oe_endpoint E) (oft_endpoint_program st')
       (ai_key (rx_oft_store x)) as ss a (L2, e1) = Ok (L3, e3))" and
    s': "s' = s\<lparr>os_ledger := L3, os_endpoint := e3,
         os_stores := (os_stores s)(ai_key (rx_oft_store x) := Some st'),
         os_peers := (os_peers s)(ai_key (rx_peer x) := Some peer'), os_events := ev\<rparr>"
    by (rule receive_unfold [OF ok])
  have ck: "creation_keeps E" using env by (simp add: bridge_env_def)
  obtain esc mst dst where l: "os_peers s (ai_key (rx_peer x)) = Some peer" "os_stores s k = Some st"
    "ai_key (rx_escrow x) = oft_token_escrow st" "ai_key (rx_mint x) = oft_token_mint st"
    "L (oft_token_escrow st) = os_ledger s (oft_token_escrow st)" "L (oft_token_mint st) = os_ledger s (oft_token_mint st)"
    "token_account (ac_data (L (oft_token_escrow st))) = Ok esc"
    "token_account (ac_data (L (ai_key (rx_dest x)))) = Ok dst"
    "token_mint (ac_data (L (oft_token_mint st))) = Ok mst"
    "state_unpack MintP (ac_data (L (oft_token_mint st))) = Ok \<lparr>base = mint, tlv_data = tlv_data mst\<rparr>"
    "ac_owner (L (oft_token_mint st)) = ai_key (rx_token_program x)"
    by (rule receive_accounts_Ok [OF a ck, unfolded assms(4)]) (rule that, assumption+)
  have i: "same_token st0 st" "fee_ok (default_fee_bps st)" "mint_ok (os_ledger s) (oft_token_mint st0)"
    "books st v (os_ledger s) (os_endpoint s) g" "peers_ok (os_peers s)"
    using inv l(2) by (simp_all add: bridge_ok_def)
  note k = books_same_token [OF i(1)] and en = bridge_envD [OF env i(1)]
  have m: "mint_ok (os_ledger s) (oft_token_mint st)" using i(3) k by simp
  have tp: "ai_key (rx_token_program x) = token_program_id" using m l(6,11) by (simp add: mint_ok_def)
  have e1: "L1 (oft_token_escrow st) = L (oft_token_escrow st)" "L1 (oft_token_mint st) = L (oft_token_mint st)"
    using endpoint_leavesD(3) [OF en(3) _ c] by simp_all
  have r1: "ev_sent v e1 = ev_sent v (os_endpoint s)" "ev_cleared v e1 = ev_cleared v (os_endpoint s) @ [rp_message params]"
    using endpoint_recordsD(3) [OF en(4) c [unfolded assms(4)]] by simp_all
  have e3: "L3 (oft_token_escrow st) = L2 (oft_token_escrow st)" "L3 (oft_token_mint st) = L2 (oft_token_mint st)"
    using cp endpoint_leavesD(4) [OF en(3)] by auto
  have r3: "ev_sent v e3 = ev_sent v (os_endpoint s)" "ev_cleared v e3 = ev_cleared v (os_endpoint s) @ [rp_message params]"
    using cp r1 endpoint_recordsD(4) [OF en(4)] assms(4) by (auto simp: same_messages_def)
  have so: "received_tokens st L1 amount st' L2"
  proof (rule receive_tokens_effect [OF t l(3,4) tp])
    show "ai_key (rx_dest x) \<noteq> oft_token_mint st" by (rule account_mint_disjoint [of L _ dst _ mst, OF l(8,9)])
    show "oft_token_escrow st \<noteq> oft_token_mint st" by (rule account_mint_disjoint [of L _ esc _ mst, OF l(7,9)])
    show "mint_ok L1 (oft_token_mint st)" by (rule mint_ok_same [OF m]) (simp only: e1(2) l(6))
    show "state_unpack MintP (ac_data (L1 (oft_token_mint st))) = Ok \<lparr>base = mint, tlv_data = tlv_data mst\<rparr>"
      by (simp only: e1(2) l(10))
  qed (rule en(1))
  have am: "unat (ld2sd_rate st) * message_amount (rp_message params) = unat amount"
    using sd2ld_unat [OF d(2)] d(1) by (simp add: message_amount_def mult.commute)
  have e0: "L1 (oft_token_escrow st) = os_ledger s (oft_token_escrow st)" "L1 (oft_token_mint st) = os_ledger s (oft_token_mint st)"
    by (simp_all only: e1 l(5,6))
  note b = books_received [OF i(4) so e0 e3 r3 am]
  have f: "peer_fee_bps peer' = peer_fee_bps peer" using limit_outbound_same(2) [OF li] by simp
  show ?thesis
  proof (rule bridge_okI [OF _ i(1) b(2)])
    show "os_stores s' k = Some st'" by (simp add: s' assms(4))
    show "fee_ok (default_fee_bps st')" using b(3) i(2) by simp
    show "mint_ok (os_ledger s') (oft_token_mint st)" using b(4) [OF m] by (simp add: s')
    show "books st' v (os_ledger s') (os_endpoint s') g" using b(1) by (simp add: s')
    show "peers_ok (os_peers s')" using peers_ok_upd [OF i(5) l(1) f] by (simp add: s')
  qed
qed

end
