(* ===== verification/Oft_Books.thy ===== *)
theory Oft_Books
  imports Oft_Bridge
begin

text \<open>
  Fees, administration and creation keep the books of a store, so every reachable state has them; and the books of
  two stores that exchange messages back every token one of them issued.
\<close>

section \<open>Withdrawing fees\<close>

lemma withdraw_accounts_Ok:
  assumes "withdraw_accounts E x s = Ok (st, mint, escrow)"
  obtains esc mst dst where
    "os_stores s (ai_key (wx_oft_store x)) = Some st" "ai_is_signer (wx_admin x)" "oft_admin st = ai_key (wx_admin x)"
    "ai_key (wx_escrow x) = oft_token_escrow st" "ai_key (wx_mint x) = oft_token_mint st"
    "token_account (ac_data (os_ledger s (oft_token_escrow st))) = Ok esc" "escrow = account_view (base esc)"
    "token_account (ac_data (os_ledger s (ai_key (wx_dest x)))) = Ok dst"
    "token_mint (ac_data (os_ledger s (oft_token_mint st))) = Ok mst"
    "state_unpack MintP (ac_data (os_ledger s (oft_token_mint st))) = Ok \<lparr>base = mint, tlv_data = tlv_data mst\<rparr>"
    "ac_owner (os_ledger s (oft_token_mint st)) = ai_key (wx_token_program x)"
proof -
  let ?L = "os_ledger s" and ?sys = "oft_system_id E"
  obtain dest where h: "ai_is_signer (wx_admin x)" "os_stores s (ai_key (wx_oft_store x)) = Some st"
      "load_mint ?sys ?L (wx_mint x) = Ok mint" "load_token_account ?sys ?L (wx_escrow x) = Ok escrow"
      "load_token_account ?sys ?L (wx_dest x) = Ok dest" "oft_admin st = ai_key (wx_admin x)"
      "ai_key (wx_mint x) = oft_token_mint st" "ac_owner (?L (ai_key (wx_mint x))) = ai_key (wx_token_program x)"
      "ai_key (wx_escrow x) = oft_token_escrow st"
    using assms unfolding withdraw_accounts_def Let_def account_checks
    by (simp only: load_simps) (elim exE conjE, simp only: prod.inject)
  obtain esc where esc: "token_account (ac_data (?L (ai_key (wx_escrow x)))) = Ok esc" "escrow = account_view (base esc)"
    by (rule loaded_account [OF h(4)])
  obtain dst where dst: "token_account (ac_data (?L (ai_key (wx_dest x)))) = Ok dst"
    by (rule loaded_account [OF h(5)])
  obtain mst where mst: "token_mint (ac_data (?L (ai_key (wx_mint x)))) = Ok mst"
    "state_unpack MintP (ac_data (?L (ai_key (wx_mint x)))) = Ok \<lparr>base = mint, tlv_data = tlv_data mst\<rparr>"
    by (rule loaded_mint [OF h(3)])
  show thesis using h esc dst mst by (intro that) auto
qed

lemma books_cong:
  assumes "books st v L e g" "same_token st st'" "tvl_ld st' = tvl_ld st" "same_messages v e e'"
    and "unat (tvl_ld st) \<le> balance_of L' (oft_token_escrow st)"
    and "supply_in L' (oft_token_mint st) = supply_in L (oft_token_mint st)"
  shows "books st' v L' e' g"
  using assms
  by (cases "oft_type st = Adapter") (simp_all add: books_def same_token_def same_messages_def Let_def)

lemma books_le: "books st v L e g \<Longrightarrow> unat (tvl_ld st) \<le> balance_of L (oft_token_escrow st)"
  by (simp add: books_def Let_def)

lemma same_refl [simp]: "same_token st st" "same_messages v e e"
  by (simp_all add: same_token_def same_messages_def)

lemma same_token_trans: "same_token a b \<Longrightarrow> same_token b c \<Longrightarrow> same_token a c"
  by (simp add: same_token_def)

lemma withdraw_preserves:
  assumes env: "bridge_env st0 k v E" and inv: "bridge_ok st0 k v (s, g)" and ok: "withdraw_fee E x amount s = Ok s'"
    and "ai_key (wx_oft_store x) = k"
  shows "bridge_ok st0 k v (s', g)"
proof -
  obtain st mint escrow where a: "withdraw_accounts E x s = Ok (st, mint, escrow)"
    using ok by (auto simp: withdraw_fee_def and_then_Ok)
  obtain esc mst dst where l: "os_stores s k = Some st"
    "ai_key (wx_escrow x) = oft_token_escrow st" "ai_key (wx_mint x) = oft_token_mint st"
    "token_account (ac_data (os_ledger s (oft_token_escrow st))) = Ok esc" "escrow = account_view (base esc)"
    "token_account (ac_data (os_ledger s (ai_key (wx_dest x)))) = Ok dst"
    "token_mint (ac_data (os_ledger s (oft_token_mint st))) = Ok mst"
    "state_unpack MintP (ac_data (os_ledger s (oft_token_mint st))) = Ok \<lparr>base = mint, tlv_data = tlv_data mst\<rparr>"
    "ac_owner (os_ledger s (oft_token_mint st)) = ai_key (wx_token_program x)"
    by (rule withdraw_accounts_Ok [OF a, unfolded assms(4)]) (rule that, assumption+)
  have i: "same_token st0 st" "fee_ok (default_fee_bps st)" "mint_ok (os_ledger s) (oft_token_mint st0)"
    "books st v (os_ledger s) (os_endpoint s) g" "peers_ok (os_peers s)"
    using inv l(1) by (simp_all add: bridge_ok_def)
  note k = books_same_token [OF i(1)] and en = bridge_envD [OF env i(1)]
  let ?e = "oft_token_escrow st" and ?m = "oft_token_mint st" and ?d = "ai_key (wx_dest x)" and ?L = "os_ledger s"
  have m: "mint_ok ?L ?m" using i(3) k by simp
  have tp: "ai_key (wx_token_program x) = token_program_id" using m l(9) by (simp add: mint_ok_def)
  obtain fees L' where f: "checked_sub (a_amount (base esc)) (tvl_ld st) = Some fees" "amount \<le> fees"
    and c: "invoke_signed E None (ai_key (wx_admin x) # pda_signer E (store_seeds ?e) (oft_bump st))
      (transfer_checked token_program_id ?e ?m ?d k [] amount (s_decimals mint)) ?L = Ok L'"
    and s': "s' = s\<lparr>os_ledger := L'\<rparr>"
    using ok by (auto simp: withdraw_fee_def a l(2,3,5) tp assms(4) and_then_Ok or_panic_Ok not_less split: if_splits)
  obtain q :: u64 where q: "moves ?L ?e ?d (unat amount) (unat q) L'"
    by (rule transfer_moves [OF c en(1) l(8) mint_ok_fee [OF m]]) (assumption, rule that)
  have ne: "?e \<noteq> ?m" by (rule account_mint_disjoint [of ?L _ esc _ mst, OF l(4,7)])
  have nd: "?d \<noteq> ?m" by (rule account_mint_disjoint [of ?L _ dst _ mst, OF l(6,7)])
  have "unat (tvl_ld st) + unat amount \<le> balance_of ?L ?e"
    using checked_sub_unat [OF f(1)] f(2) l(4) by (simp add: balance_of_def word_le_nat_alt)
  then have b: "unat (tvl_ld st) \<le> balance_of L' ?e"
    using q moves_out(2) [OF q] by (cases "?e = ?d") (auto simp: moves_def)
  have lm: "L' ?m = ?L ?m"
    using q moves_out(3) [OF q, of ?m] m ne nd by (cases "?e = ?d") (auto simp: mint_ok_def moves_def)
  show ?thesis
  proof (rule bridge_okI [OF _ i(1) _ i(2)])
    show "os_stores s' k = Some st" by (simp add: s' l(1))
    show "same_token st st" by simp
    show "mint_ok (os_ledger s') ?m" using mint_ok_same [of ?L ?m L', OF m lm] by (simp add: s')
    show "books st v (os_ledger s') (os_endpoint s') g"
      using books_cong [OF i(4) _ _ _ b] supply_cong [of L' ?m ?L, OF lm] by (simp add: s')
    show "peers_ok (os_peers s')" using i(5) by (simp add: s')
  qed
qed

section \<open>Administration\<close>

lemma bridge_ok_store_upd:
  assumes "bridge_ok st0 k v (s, g)" "os_stores s k = Some st" "ai_key i = k"
    and "same_token st st'" "tvl_ld st' = tvl_ld st" "fee_ok (default_fee_bps st) \<longrightarrow> fee_ok (default_fee_bps st')"
  shows "bridge_ok st0 k v (put_store i st' s, g)"
proof -
  have i: "same_token st0 st" "fee_ok (default_fee_bps st)" "mint_ok (os_ledger s) (oft_token_mint st0)"
    "books st v (os_ledger s) (os_endpoint s) g" "peers_ok (os_peers s)"
    using assms(1,2) by (simp_all add: bridge_ok_def)
  have "books st' v (os_ledger s) (os_endpoint s) g"
    by (rule books_cong [OF i(4) assms(4,5) _ books_le [OF i(4)]]) simp_all
  then show ?thesis
    using i assms(3,6) same_token_trans [OF i(1) assms(4)] by (simp add: bridge_ok_def put_store_def)
qed

lemma bridge_ok_ledger:
  assumes "bridge_ok st0 k v (s, g)" "same_messages v (os_endpoint s) e"
    and "balance_of (os_ledger s) (oft_token_escrow st0) \<le> balance_of L (oft_token_escrow st0)"
    and "L (oft_token_mint st0) = os_ledger s (oft_token_mint st0)" "peers_ok (os_peers s) \<longrightarrow> peers_ok peers"
  shows "bridge_ok st0 k v (s\<lparr>os_ledger := L, os_endpoint := e, os_peers := peers\<rparr>, g)"
proof -
  obtain st where i: "os_stores s k = Some st" "same_token st0 st" "fee_ok (default_fee_bps st)"
    "mint_ok (os_ledger s) (oft_token_mint st0)" "books st v (os_ledger s) (os_endpoint s) g" "peers_ok (os_peers s)"
    by (rule bridge_okD [OF assms(1)])
  note c = assms(3) supply_cong [of L "oft_token_mint st0" "os_ledger s", OF assms(4)]
  have "books st v L e g"
    using c books_same_token [OF i(2)] books_le [OF i(5)] by (intro books_cong [OF i(5) _ _ assms(2)]) simp_all
  then show ?thesis
    using i assms(5) mint_ok_same [of "os_ledger s" "oft_token_mint st0" L, OF i(4) assms(4)] by (simp add: bridge_ok_def)
qed

lemma admin_accounts_Ok:
  "admin_accounts E x s = Ok st \<Longrightarrow>
     os_stores s (ai_key (ax_oft_store x)) = Some st \<and> ai_is_signer (ax_admin x) \<and> oft_admin st = ai_key (ax_admin x)"
  unfolding admin_accounts_def account_checks by (simp only: load_simps) auto

lemma config_preserves:
  assumes env: "bridge_env st0 k v E" and inv: "bridge_ok st0 k v (s, g)" and ok: "set_oft_config E x c s = Ok s'"
    and k: "ai_key (ax_oft_store x) = k"
  shows "bridge_ok st0 k v (s', g)"
proof -
  obtain st where a: "admin_accounts E x s = Ok st" using ok by (auto simp: set_oft_config_def and_then_Ok)
  note st = admin_accounts_Ok [OF a, THEN conjunct1, unfolded k]
  note u = bridge_ok_store_upd [OF inv st k]
  have f: "b < MAX_FEE_BASIS_POINTS \<Longrightarrow> fee_ok b" for b
    by (simp add: fee_ok_def MAX_FEE_BASIS_POINTS_def word_less_nat_alt)
  have d: "bridge_ok st0 k v (put_store (ax_oft_store x) st (s\<lparr>os_ledger := L, os_endpoint := e\<rparr>), g)"
    if ep: "ep_set_delegate (oe_endpoint E) p k as ss b (os_ledger s, os_endpoint s) = Ok (L, e)" for p as ss b L e
  proof -
    have en: "endpoint_leaves (oe_endpoint E) {oft_token_escrow st0, oft_token_mint st0}" "endpoint_records (oe_endpoint E) k v"
      using env by (simp_all add: bridge_env_def)
    have "bridge_ok st0 k v (s\<lparr>os_ledger := L, os_endpoint := e, os_peers := os_peers s\<rparr>, g)"
      by (rule bridge_ok_ledger [OF inv])
        (use endpoint_leavesD(1) [OF en(1) _ ep] endpoint_recordsD(1) [OF en(2) ep] in \<open>simp_all add: balance_of_def\<close>)
    then show ?thesis using st k by (intro bridge_ok_store_upd [where st = st]) simp_all
  qed
  show ?thesis
    using ok d [folded k] f
    by (auto simp: set_oft_config_def a k and_then_Ok same_token_def intro!: u split: SetOFTConfigParams.splits if_splits)
qed

lemma pause_preserves:
  assumes "bridge_ok st0 k v (s, g)" "set_pause E x b s = Ok s'" "ai_key (ax_oft_store x) = k"
  shows "bridge_ok st0 k v (s', g)"
proof -
  obtain st where "os_stores s (ai_key (ax_oft_store x)) = Some st" "s' = put_store (ax_oft_store x) (st\<lparr>oft_paused := b\<rparr>) s"
    using assms(2) unfolding set_pause_def account_checks by (simp only: load_simps) auto
  then show ?thesis using bridge_ok_store_upd [OF assms(1)] assms(3) by (simp add: same_token_def)
qed

lemma apply_peer_config_fee:
  assumes "apply_peer_config E c peer = Ok peer'" "\<And>b. peer_fee_bps peer = Some b \<Longrightarrow> fee_ok b" "peer_fee_bps peer' = Some b"
  shows "fee_ok b"
  using assms
  by (auto simp: apply_peer_config_def and_then_Ok fee_ok_def MAX_FEE_BASIS_POINTS_def word_less_nat_alt
      split: PeerConfigParam.splits option.splits if_splits)

lemma peer_accounts_Ok:
  assumes "peer_accounts E x eid s = Ok (peer, bump, L)"
  shows "(case os_peers s (ai_key (px_peer x)) of
       Some peer \<Rightarrow> Ok (peer, os_ledger s)
     | None \<Rightarrow> and_then (oe_create_account E (px_admin x) (ai_key (px_peer x)) PEER_CONFIG_SPACE (os_ledger s))
         (\<lambda>L. Ok (PeerConfig_default, L))) = Ok (peer, L)"
    and "ai_is_signer (px_admin x)"
    and "\<exists>st. os_stores s (ai_key (px_oft_store x)) = Some st \<and> oft_admin st = ai_key (px_admin x)"
proof -
  obtain k b where f: "oe_find_address E (peer_seeds (ai_key (px_oft_store x)) eid) = (k, b)" by fastforce
  note h = assms [unfolded peer_accounts_def f Let_def prod.case account_checks]
  show "(case os_peers s (ai_key (px_peer x)) of
       Some peer \<Rightarrow> Ok (peer, os_ledger s)
     | None \<Rightarrow> and_then (oe_create_account E (px_admin x) (ai_key (px_peer x)) PEER_CONFIG_SPACE (os_ledger s))
         (\<lambda>L. Ok (PeerConfig_default, L))) = Ok (peer, L)"
    using h by (simp only: load_simps split_paired_Ex prod.case prod.inject) auto
  show "ai_is_signer (px_admin x)"
    "\<exists>st. os_stores s (ai_key (px_oft_store x)) = Some st \<and> oft_admin st = ai_key (px_admin x)"
    using h by (simp_all only: load_simps split_paired_Ex prod.case prod.inject) auto
qed

lemma in_use_kept:
  assumes "creation_keeps E" "creates E L L'"
  shows "balance_of L k \<le> balance_of L' k" "ac_owner (L k) = token_program_id \<Longrightarrow> L' k = L k"
proof -
  have kp: "L' k = L k" if "ac_owner (L k) \<in> set token_programs \<or> ac_data (L k) \<noteq> []"
    using assms that unfolding creation_keeps_def by blast
  then show "L' k = L k" if "ac_owner (L k) = token_program_id" using that by (simp add: token_programs_def)
  show "balance_of L k \<le> balance_of L' k"
  proof (cases "ac_data (L k) = []")
    case True
    then show ?thesis
      by (simp add: balance_of_def unpack_mut_def check_min_len_and_not_multisig_def base_lens and_then_def)
  next
    case False
    then show ?thesis using kp by (simp add: balance_of_def)
  qed
qed

lemma peer_preserves:
  assumes env: "bridge_env st0 k v E" and inv: "bridge_ok st0 k v (s, g)" and ok: "set_peer_config E x eid c s = Ok s'"
  shows "bridge_ok st0 k v (s', g)"
proof -
  obtain peer bump L peer' where a: "peer_accounts E x eid s = Ok (peer, bump, L)" "apply_peer_config E c peer = Ok peer'"
    and s': "s' = s\<lparr>os_ledger := L, os_peers := (os_peers s)(ai_key (px_peer x) := Some (peer'\<lparr>peer_bump := bump\<rparr>))\<rparr>"
    using ok by (auto simp: set_peer_config_def and_then_Ok)
  note p = peer_accounts_Ok(1) [OF a(1)]
  obtain st where i: "os_stores s k = Some st" "same_token st0 st" "fee_ok (default_fee_bps st)"
    "mint_ok (os_ledger s) (oft_token_mint st0)" "books st v (os_ledger s) (os_endpoint s) g" "peers_ok (os_peers s)"
    by (rule bridge_okD [OF inv])
  have f: "fee_ok b" if "peer_fee_bps peer = Some b" for b
    using p i(6) that by (auto simp: peers_ok_def and_then_Ok PeerConfig_default_def split: option.splits)
  have pk: "peers_ok ((os_peers s)(ai_key (px_peer x) := Some (peer'\<lparr>peer_bump := bump\<rparr>)))"
    using i(6) apply_peer_config_fee [OF a(2) f] by (auto simp: peers_ok_def)
  have ck: "creation_keeps E" using env by (simp add: bridge_env_def)
  have L: "L = os_ledger s \<or> creates E (os_ledger s) L"
    using p by (auto simp: and_then_Ok creates_def split: option.splits)
  then have "balance_of (os_ledger s) (oft_token_escrow st0) \<le> balance_of L (oft_token_escrow st0)"
    "L (oft_token_mint st0) = os_ledger s (oft_token_mint st0)"
    using in_use_kept [OF ck] i(4) by (auto simp: mint_ok_def)
  then have "bridge_ok st0 k v (s\<lparr>os_ledger := L, os_endpoint := os_endpoint s,
      os_peers := (os_peers s)(ai_key (px_peer x) := Some (peer'\<lparr>peer_bump := bump\<rparr>))\<rparr>, g)"
    using pk by (intro bridge_ok_ledger [OF inv]) simp_all
  then show ?thesis by (simp add: s')
qed

section \<open>Every step\<close>

lemma elsewhere_preserves:
  assumes inv: "bridge_ok st0 k v (s, g)" and el: "elsewhere st0 k v s s'"
  shows "bridge_ok st0 k v (s', g + int (supply_in (os_ledger s') (oft_token_mint st0)) -
    int (supply_in (os_ledger s) (oft_token_mint st0)))"
proof -
  obtain st where i: "os_stores s k = Some st" "same_token st0 st" "fee_ok (default_fee_bps st)"
    "mint_ok (os_ledger s) (oft_token_mint st0)" "books st v (os_ledger s) (os_endpoint s) g" "peers_ok (os_peers s)"
    by (rule bridge_okD [OF inv])
  have "books st v (os_ledger s') (os_endpoint s') (g + int (supply_in (os_ledger s') (oft_token_mint st0)) -
      int (supply_in (os_ledger s) (oft_token_mint st0)))"
    using i(2,5) el
    by (cases "oft_type st = Adapter")
      (simp_all add: books_def elsewhere_def same_messages_def same_token_def Let_def)
  then show ?thesis using i el by (simp add: bridge_ok_def elsewhere_def)
qed

lemma step_preserves:
  assumes "oft_step Es st0 k v a b" "bridge_ok st0 k v a" "\<forall>E\<in>Es. bridge_env st0 k v E"
  shows "bridge_ok st0 k v b"
  using assms
proof cases
  case (step_send E x params s r rc s' g)
  then show ?thesis using send_preserves assms(2,3) by blast
next
  case (step_receive E rx rp s s' g)
  then show ?thesis using receive_preserves assms(2,3) by blast
next
  case (step_config E ax c s s' g)
  then show ?thesis using config_preserves assms(2,3) by blast
next
  case (step_pause E ax b s s' g)
  then show ?thesis using pause_preserves assms(2) by blast
next
  case (step_peer E px eid pc s s' g)
  then show ?thesis using peer_preserves assms(2,3) by blast
next
  case (step_withdraw E wx amount s s' g)
  then show ?thesis using withdraw_preserves assms(2,3) by blast
next
  case (step_elsewhere s s' g)
  then show ?thesis using elsewhere_preserves assms(2) by blast
qed

lemma steps_preserve:
  assumes "(oft_step Es st0 k v)\<^sup>*\<^sup>* a b" "bridge_ok st0 k v a" "\<forall>E\<in>Es. bridge_env st0 k v E"
  shows "bridge_ok st0 k v b"
  using assms by (induction rule: rtranclp_induct) (auto intro: step_preserves)

section \<open>Creation\<close>

lemma init_accounts_Ok:
  assumes "init_accounts E x s = Ok (bump, mint, L)"
  obtains L1 L2 where "load_mint (oft_system_id E) L2 (nx_mint x) = Ok mint"
    "oe_create_account E (nx_payer x) (ai_key (nx_oft_store x)) OFT_STORE_SPACE (os_ledger s) = Ok L1"
    "oe_create_account E (nx_payer x) (ai_key (nx_lz_receive_types_accounts x)) LZ_RECEIVE_TYPES_SPACE L1 = Ok L2"
    "oe_init_token_account E (nx_payer x) (ai_key (nx_escrow x)) (ai_key (nx_mint x)) (ai_key (nx_oft_store x))
       (ai_key (nx_token_program x)) L2 = Ok L"
proof -
  obtain a b c d where f: "oe_find_address E (store_seeds (ai_key (nx_escrow x))) = (a, b)"
    "oe_find_address E [ep_lz_receive_types_seed (oe_endpoint E), to_le 32 (ai_key (nx_oft_store x))] = (c, d)" by fastforce
  note h = assms [unfolded init_accounts_def f Let_def prod.case account_checks]
  show thesis
    using h by (simp only: load_simps split_paired_Ex prod.case prod.inject) (elim exE conjE, rule that, simp_all)
qed

lemma pow10_Ok: "pow10 n = Ok r \<Longrightarrow> unat r = 10 ^ n"
  by (auto simp: pow10_def or_panic_Ok simp del: of_nat_power split: if_splits intro!: unat_of_nat_eq)

lemma init_oft_Ok:
  assumes "init_oft E x params s = Ok s'" "creation_keeps E" "mint_ok (os_ledger s) (ai_key (nx_mint x))"
    and "endpoint_leaves (oe_endpoint E) {ai_key (nx_escrow x), ai_key (nx_mint x)}"
    and "endpoint_records (oe_endpoint E) (ai_key (nx_oft_store x)) v"
  obtains st mint where "os_stores s' (ai_key (nx_oft_store x)) = Some st" "tvl_ld st = 0" "default_fee_bps st = 0"
    "oft_type st = ip_oft_type params" "oft_admin st = ip_admin params" "\<not> oft_paused st"
    "oft_token_mint st = ai_key (nx_mint x)" "oft_token_escrow st = ai_key (nx_escrow x)"
    "state_unpack MintP (ac_data (os_ledger s (ai_key (nx_mint x)))) = Ok mint"
    "ip_shared_decimals params \<le> s_decimals (base mint)"
    "unat (ld2sd_rate st) = 10 ^ (unat (s_decimals (base mint)) - unat (ip_shared_decimals params))"
    "os_ledger s' (ai_key (nx_mint x)) = os_ledger s (ai_key (nx_mint x))"
    "same_messages v (os_endpoint s) (os_endpoint s')" "os_peers s' = os_peers s"
proof -
  let ?m = "ai_key (nx_mint x)" and ?k = "ai_key (nx_oft_store x)"
  obtain bump mint L where a: "init_accounts E x s = Ok (bump, mint, L)"
    using assms(1) by (auto simp: init_oft_def and_then_Ok)
  obtain L1 L2 where l: "load_mint (oft_system_id E) L2 (nx_mint x) = Ok mint"
    "oe_create_account E (nx_payer x) ?k OFT_STORE_SPACE (os_ledger s) = Ok L1"
    "oe_create_account E (nx_payer x) (ai_key (nx_lz_receive_types_accounts x)) LZ_RECEIVE_TYPES_SPACE L1 = Ok L2"
    "oe_init_token_account E (nx_payer x) (ai_key (nx_escrow x)) ?m ?k (ai_key (nx_token_program x)) L2 = Ok L"
    by (rule init_accounts_Ok [OF a])
  have o: "ac_owner (os_ledger s ?m) = token_program_id" using assms(3) by (simp add: mint_ok_def)
  have c: "creates E (os_ledger s) L1" "creates E L1 L2" "creates E L2 L"
    using l(2-4) unfolding creates_def by blast+
  have m1: "L1 ?m = os_ledger s ?m" by (rule in_use_kept(2) [OF assms(2) c(1) o])
  have m2: "L2 ?m = L1 ?m" by (rule in_use_kept(2) [OF assms(2) c(2)]) (simp only: m1 o)
  have m3: "L ?m = L2 ?m" by (rule in_use_kept(2) [OF assms(2) c(3)]) (simp only: m2 m1 o)
  obtain u where u: "state_unpack MintP (ac_data (L2 ?m)) = Ok u" "base u = mint"
    using l(1) by (auto simp: load_mint_def Let_def and_then_Ok lift_Ok split: if_splits)
  obtain rate ep st L' e where d: "\<not> s_decimals mint < ip_shared_decimals params"
      "pow10 (unat (s_decimals mint - ip_shared_decimals params)) = Ok rate"
    and st: "st = \<lparr>oft_type = ip_oft_type params, ld2sd_rate = rate, oft_token_mint = ?m,
           oft_token_escrow = ai_key (nx_escrow x), oft_endpoint_program = ep, oft_bump = bump, tvl_ld = 0,
           oft_admin = ip_admin params, default_fee_bps = 0, oft_paused = False, oft_pauser = None, oft_unpauser = None\<rparr>"
    and r: "ep_register_oapp (oe_endpoint E) ep ?k (nx_remaining x) (store_seeds (ai_key (nx_escrow x)) @ [[bump]])
       (ip_admin params) (L, os_endpoint s) = Ok (L', e)"
    and s': "s' = s\<lparr>os_ledger := L', os_endpoint := e, os_stores := (os_stores s)(?k := Some st),
         os_receive_types := (os_receive_types s)(ai_key (nx_lz_receive_types_accounts x) :=
           Some \<lparr>lrt_oft_store = ?k, lrt_token_mint = ?m\<rparr>)\<rparr>"
    using assms(1) by (auto simp: init_oft_def a and_then_Ok Let_def split: if_splits)
  have "L' ?m = L ?m" using endpoint_leavesD(5) [OF assms(4) _ r] by simp
  moreover have "same_messages v (os_endpoint s) e" by (rule endpoint_recordsD(5) [OF assms(5) r])
  ultimately show thesis
    using d u m1 m2 m3 pow10_Ok [OF d(2)] st
    by (intro that [of st u]) (simp_all add: s' unat_sub word_le_nat_alt not_less)
qed

end
