(* ===== verification/Oft_Accounts.thy ===== *)
theory Oft_Accounts
  imports Oft_Books "HOL-Library.Multiset"
begin

text \<open>
  What the books of a bridge mean: on one chain, whatever happens there; for two chains whose stores exchange
  messages, every token the one issued is backed by tokens the other locked.
\<close>

section \<open>Runs\<close>

definition bridge_run ::
  "('g, 'm, 'd, 'f, 'e) OftEnv set \<Rightarrow> OFTStore \<Rightarrow> pubkey \<Rightarrow> 'e EndpointView \<Rightarrow> 'e OftState \<times> int \<Rightarrow> 'e OftState \<times> int \<Rightarrow> bool" where
  "bridge_run Es st0 k v a b \<longleftrightarrow> bridge_ok st0 k v a \<and> (\<forall>E\<in>Es. bridge_env st0 k v E) \<and> (oft_step Es st0 k v)\<^sup>*\<^sup>* a b"

lemma bridge_run_books:
  assumes "bridge_run Es st0 k v a (s, g)"
  obtains st where "os_stores s k = Some st" "same_token st0 st" "books st v (os_ledger s) (os_endpoint s) g"
proof -
  have "bridge_ok st0 k v (s, g)" using assms steps_preserve unfolding bridge_run_def by blast
  then show thesis by (rule bridge_okD) (rule that)
qed

section \<open>Messages in flight\<close>

text \<open>The amounts of the messages that were sent and not cleared at the other side.\<close>

definition in_flight :: "bytes list \<Rightarrow> bytes list \<Rightarrow> nat" where
  "in_flight sent cleared = \<Sum>\<^sub># (image_mset message_amount (mset sent - mset cleared))"

lemma messages_amount_mset: "messages_amount ms = \<Sum>\<^sub># (image_mset message_amount (mset ms))"
  by (simp add: messages_amount_def flip: sum_mset_sum_list)

lemma messages_in_flight:
  assumes "mset cleared \<subseteq># mset sent"
  shows "messages_amount sent = messages_amount cleared + in_flight sent cleared"
proof -
  have "image_mset message_amount (mset sent) =
      image_mset message_amount (mset cleared) + image_mset message_amount (mset sent - mset cleared)"
    using assms by (simp flip: image_mset_union)
  then show ?thesis by (simp add: messages_amount_mset in_flight_def)
qed

lemma message_in_flight: "m \<in># mset sent - mset cleared \<Longrightarrow> message_amount m \<le> in_flight sent cleared"
  unfolding in_flight_def by (auto dest: multi_member_split)

text \<open>The messages two stores exchange: neither side clears what the other did not send, or clears it twice.\<close>

definition exchange :: "bytes list \<Rightarrow> bytes list \<Rightarrow> bytes list \<Rightarrow> bytes list \<Rightarrow> bool" where
  "exchange sent1 cleared1 sent2 cleared2 \<longleftrightarrow> mset cleared2 \<subseteq># mset sent1 \<and> mset cleared1 \<subseteq># mset sent2"

lemma backing:
  fixes r1 r2 tvl :: nat
  assumes "exchange sent1 cleared1 sent2 cleared2"
    and "tvl + r1 * messages_amount cleared1 = r1 * messages_amount sent1"
    and "int S + int (r2 * messages_amount sent2) = int (r2 * messages_amount cleared2) + g"
  shows "int r2 * int tvl = int r1 * (int S - g) + int r1 * int r2 * int (in_flight sent1 cleared2 + in_flight sent2 cleared1)"
proof -
  let ?f1 = "in_flight sent1 cleared2" and ?f2 = "in_flight sent2 cleared1"
  have m: "messages_amount sent1 = messages_amount cleared2 + ?f1" "messages_amount sent2 = messages_amount cleared1 + ?f2"
    using assms(1) messages_in_flight by (auto simp: exchange_def)
  have "int tvl + int r1 * int (messages_amount cleared1) = int r1 * (int (messages_amount cleared2) + int ?f1)"
    using assms(2) unfolding m(1) by (simp flip: of_nat_add of_nat_mult)
  then have t: "int tvl = int r1 * (int (messages_amount cleared2) + int ?f1 - int (messages_amount cleared1))"
    by (simp add: algebra_simps)
  have s: "int S - g = int r2 * (int (messages_amount cleared2) - int (messages_amount cleared1) - int ?f2)"
    using assms(3) unfolding m(2) by (simp add: algebra_simps)
  show ?thesis unfolding t s by (simp add: algebra_simps)
qed

section \<open>Properties\<close>

text \<open>
  The books of a store.  In every state reached by the instructions of the program, interleaved with
  anything else on the chain, the tokens an adapter has locked are the amounts of all messages it sent less those
  of all messages it cleared, and the escrow holds at least as much; the supply of a native token is what was
  issued elsewhere plus the amounts of the messages cleared less those of the messages sent.
\<close>

theorem bridge_books:
  assumes "bridge_run Es st0 k v a (s, g)"
  shows "\<exists>st. os_stores s k = Some st \<and> same_token st0 st \<and>
    unat (tvl_ld st) \<le> balance_of (os_ledger s) (oft_token_escrow st0) \<and>
    (let rate = unat (ld2sd_rate st0); sent = rate * messages_amount (ev_sent v (os_endpoint s));
         cleared = rate * messages_amount (ev_cleared v (os_endpoint s)) in
     if oft_type st0 = Adapter then unat (tvl_ld st) + cleared = sent
     else int (supply_in (os_ledger s) (oft_token_mint st0)) + int sent = int cleared + g)"
proof -
  obtain st where b: "os_stores s k = Some st" "same_token st0 st" "books st v (os_ledger s) (os_endpoint s) g"
    by (rule bridge_run_books [OF assms])
  have e: "ld2sd_rate st0 = ld2sd_rate st" "oft_type st0 = oft_type st"
    "oft_token_mint st0 = oft_token_mint st" "oft_token_escrow st0 = oft_token_escrow st"
    using b(2) by (simp_all add: same_token_def)
  show ?thesis using b unfolding e books_def Let_def by blast
qed

text \<open>
  A created store starts with balanced books: nothing is locked, whatever supply the mint has was
  issued elsewhere, and the rate is ten to the power of the decimals the sides do not share, at least one.
\<close>

theorem init_oft_books:
  assumes "init_oft E x params s = Ok s'" "creation_keeps E" "mint_ok (os_ledger s) (ai_key (nx_mint x))"
    and "endpoint_leaves (oe_endpoint E) {ai_key (nx_escrow x), ai_key (nx_mint x)}"
    and "endpoint_records (oe_endpoint E) (ai_key (nx_oft_store x)) v" "peers_ok (os_peers s)"
    and "ev_sent v (os_endpoint s) = []" "ev_cleared v (os_endpoint s) = []"
  shows "\<exists>st mint. os_stores s' (ai_key (nx_oft_store x)) = Some st \<and>
    bridge_ok st (ai_key (nx_oft_store x)) v (s', int (supply_in (os_ledger s) (ai_key (nx_mint x)))) \<and>
    oft_type st = ip_oft_type params \<and> oft_admin st = ip_admin params \<and> tvl_ld st = 0 \<and>
    state_unpack MintP (ac_data (os_ledger s (ai_key (nx_mint x)))) = Ok mint \<and>
    unat (ld2sd_rate st) = 10 ^ (unat (s_decimals (base mint)) - unat (ip_shared_decimals params))"
proof -
  obtain st mint where h: "os_stores s' (ai_key (nx_oft_store x)) = Some st" "tvl_ld st = 0" "default_fee_bps st = 0"
    "oft_type st = ip_oft_type params" "oft_admin st = ip_admin params" "\<not> oft_paused st"
    "oft_token_mint st = ai_key (nx_mint x)" "oft_token_escrow st = ai_key (nx_escrow x)"
    "state_unpack MintP (ac_data (os_ledger s (ai_key (nx_mint x)))) = Ok mint"
    "ip_shared_decimals params \<le> s_decimals (base mint)"
    "unat (ld2sd_rate st) = 10 ^ (unat (s_decimals (base mint)) - unat (ip_shared_decimals params))"
    "os_ledger s' (ai_key (nx_mint x)) = os_ledger s (ai_key (nx_mint x))"
    "same_messages v (os_endpoint s) (os_endpoint s')" "os_peers s' = os_peers s"
    by (rule init_oft_Ok [OF assms(1-5)])
  note c = supply_cong [of "os_ledger s'" "ai_key (nx_mint x)" "os_ledger s", OF h(12)]
  have "books st v (os_ledger s') (os_endpoint s') (int (supply_in (os_ledger s) (ai_key (nx_mint x))))"
    using h(2,7,13) c assms(7,8) by (simp add: books_def same_messages_def Let_def)
  moreover have "mint_ok (os_ledger s') (ai_key (nx_mint x))"
    by (rule mint_ok_same [of "os_ledger s" _ "os_ledger s'", OF assms(3) h(12)])
  ultimately have "bridge_ok st (ai_key (nx_oft_store x)) v (s', int (supply_in (os_ledger s) (ai_key (nx_mint x))))"
    using h assms(6) by (simp add: bridge_ok_def fee_ok_def)
  then show ?thesis using h by blast
qed

lemma bridge_run_pair:
  assumes "bridge_run Es1 st1 k1 v1 a1 (s1, g1)" "bridge_run Es2 st2 k2 v2 a2 (s2, g2)"
    and "oft_type st1 = Adapter" "oft_type st2 = Native"
    and "exchange (ev_sent v1 (os_endpoint s1)) (ev_cleared v1 (os_endpoint s1))
      (ev_sent v2 (os_endpoint s2)) (ev_cleared v2 (os_endpoint s2))"
  obtains t1 where "os_stores s1 k1 = Some t1" "ld2sd_rate t1 = ld2sd_rate st1"
    "unat (tvl_ld t1) \<le> balance_of (os_ledger s1) (oft_token_escrow st1)"
    "int (unat (ld2sd_rate st2)) * int (unat (tvl_ld t1)) =
      int (unat (ld2sd_rate st1)) * (int (supply_in (os_ledger s2) (oft_token_mint st2)) - g2) +
      int (unat (ld2sd_rate st1)) * int (unat (ld2sd_rate st2)) *
        int (in_flight (ev_sent v1 (os_endpoint s1)) (ev_cleared v2 (os_endpoint s2)) +
             in_flight (ev_sent v2 (os_endpoint s2)) (ev_cleared v1 (os_endpoint s1)))"
proof -
  obtain t1 where t1: "os_stores s1 k1 = Some t1" "same_token st1 t1" "books t1 v1 (os_ledger s1) (os_endpoint s1) g1"
    by (rule bridge_run_books [OF assms(1)])
  obtain t2 where t2: "same_token st2 t2" "books t2 v2 (os_ledger s2) (os_endpoint s2) g2"
    by (rule bridge_run_books [OF assms(2)])
  have e: "ld2sd_rate st1 = ld2sd_rate t1" "oft_type t1 = Adapter" "oft_token_escrow st1 = oft_token_escrow t1"
    "ld2sd_rate st2 = ld2sd_rate t2" "oft_type t2 \<noteq> Adapter" "oft_token_mint st2 = oft_token_mint t2"
    using t1(2) t2(1) assms(3,4) by (simp_all add: same_token_def)
  have b: "unat (tvl_ld t1) \<le> balance_of (os_ledger s1) (oft_token_escrow t1)"
    "unat (tvl_ld t1) + unat (ld2sd_rate t1) * messages_amount (ev_cleared v1 (os_endpoint s1)) =
      unat (ld2sd_rate t1) * messages_amount (ev_sent v1 (os_endpoint s1))"
    using t1(3) e(2) by (simp_all add: books_def Let_def)
  have c: "int (supply_in (os_ledger s2) (oft_token_mint t2)) + int (unat (ld2sd_rate t2) * messages_amount (ev_sent v2 (os_endpoint s2))) =
      int (unat (ld2sd_rate t2) * messages_amount (ev_cleared v2 (os_endpoint s2))) + g2"
    using t2(2) e(5) by (simp only: books_def Let_def if_False)
  show thesis
    by (rule that [OF t1(1) e(1) [symmetric], unfolded e, OF b(1) backing [OF assms(5) b(2) c]])
qed

text \<open>
  A message the other side sent and that is still in flight can always be paid out: the amount it stands
  for does not overflow, taking it from what the adapter has locked does not underflow, and the escrow holds it.
\<close>

lemma message_in_flight_covered:
  assumes "bridge_run Es1 st1 k1 v1 a1 (s1, g1)" "bridge_run Es2 st2 k2 v2 a2 (s2, g2)"
    and "oft_type st1 = Adapter" "oft_type st2 = Native"
    and "exchange (ev_sent v1 (os_endpoint s1)) (ev_cleared v1 (os_endpoint s1))
      (ev_sent v2 (os_endpoint s2)) (ev_cleared v2 (os_endpoint s2))"
    and "g2 \<le> int (supply_in (os_ledger s2) (oft_token_mint st2))" "ld2sd_rate st2 \<noteq> 0"
    and "m \<in># mset (ev_sent v2 (os_endpoint s2)) - mset (ev_cleared v1 (os_endpoint s1))" "msg_amount_sd m = Some sd"
    and store: "os_stores s1 k1 = Some u"
  shows "\<exists>amount tvl. sd2ld u sd = Ok amount \<and>
    unat amount = unat sd * unat (ld2sd_rate st1) \<and> checked_sub (tvl_ld u) amount = Some tvl \<and>
    unat amount \<le> balance_of (os_ledger s1) (oft_token_escrow st1)"
proof -
  let ?S = "int (supply_in (os_ledger s2) (oft_token_mint st2))"
  obtain t1 where t: "os_stores s1 k1 = Some t1" "ld2sd_rate t1 = ld2sd_rate st1"
    "unat (tvl_ld t1) \<le> balance_of (os_ledger s1) (oft_token_escrow st1)"
    and b: "int (unat (ld2sd_rate st2)) * int (unat (tvl_ld t1)) = int (unat (ld2sd_rate st1)) * (?S - g2) +
      int (unat (ld2sd_rate st1)) * int (unat (ld2sd_rate st2)) *
        int (in_flight (ev_sent v1 (os_endpoint s1)) (ev_cleared v2 (os_endpoint s2)) +
             in_flight (ev_sent v2 (os_endpoint s2)) (ev_cleared v1 (os_endpoint s1)))"
    by (rule bridge_run_pair [OF assms(1-5)])
  let ?f = "in_flight (ev_sent v1 (os_endpoint s1)) (ev_cleared v2 (os_endpoint s2)) +
    in_flight (ev_sent v2 (os_endpoint s2)) (ev_cleared v1 (os_endpoint s1))"
  have sd: "unat sd \<le> ?f" using message_in_flight [OF assms(8)] assms(9) by (simp add: message_amount_def)
  have "0 \<le> int (unat (ld2sd_rate st1)) * (?S - g2)" using assms(6) by simp
  then have "int (unat (ld2sd_rate st2)) * (int (unat (ld2sd_rate st1)) * int ?f) \<le>
      int (unat (ld2sd_rate st2)) * int (unat (tvl_ld t1))"
    using b by (simp only: mult.commute mult.left_commute)
  moreover have "0 < int (unat (ld2sd_rate st2))" using assms(7) unat_gt_0 [of "ld2sd_rate st2"] by linarith
  ultimately have "int (unat (ld2sd_rate st1)) * int ?f \<le> int (unat (tvl_ld t1))"
    by (simp only: mult_le_cancel_left_pos)
  then have "int (unat (ld2sd_rate st1) * ?f) \<le> int (unat (tvl_ld t1))" by (simp only: of_nat_mult)
  then have f: "unat (ld2sd_rate st1) * ?f \<le> unat (tvl_ld t1)" by (simp only: of_nat_le_iff)
  have le: "unat sd * unat (ld2sd_rate st1) \<le> unat (tvl_ld t1)"
    using le_trans [OF mult_le_mono2 [OF sd] f] by (simp only: mult.commute)
  then have "checked_mul sd (ld2sd_rate t1) = Some (sd * ld2sd_rate t1)"
    using unat_less [of "tvl_ld t1"] by (simp add: checked_mul_def t(2))
  then have a: "sd2ld t1 sd = Ok (sd * ld2sd_rate t1)" "unat (sd * ld2sd_rate t1) = unat sd * unat (ld2sd_rate st1)"
    using checked_mul_unat [of sd "ld2sd_rate t1"] by (simp_all add: sd2ld_def t(2))
  moreover have "u = t1" using store t(1) by simp
  ultimately show ?thesis using t le by (auto simp: checked_sub_def word_le_nat_alt)
qed


end
