(* ===== verification/Oft_Authority.thy ===== *)
theory Oft_Authority
  imports Oft_Accounts
begin

text \<open>
  What users and owners of a bridge rely on: a quote says what a send does, and only the keys a store names
  change its configuration or take its fees.
\<close>

section \<open>Quotes\<close>

lemma send_accounts_quote:
  assumes "send_accounts E x params s = Ok (peer, st, mint)"
    and "ai_key (qx_oft_store q) = ai_key (sx_oft_store x)" "ai_key (qx_peer q) = ai_key (sx_peer x)"
    and "ai_key (qx_mint q) = ai_key (sx_mint x)"
  shows "quote_accounts E q (sp_dst_eid params) s = Ok (st, peer)"
proof -
  obtain source escrow where h: "os_peers s (ai_key (sx_peer x)) = Some peer" "os_stores s (ai_key (sx_oft_store x)) = Some st"
      "load_mint (oft_system_id E) (os_ledger s) (sx_mint x) = Ok mint"
      "oe_create_address E (peer_seeds (ai_key (sx_oft_store x)) (sp_dst_eid params) @ [[peer_bump peer]]) = Some (ai_key (sx_peer x))"
      "oe_create_address E (store_seeds (oft_token_escrow st) @ [[oft_bump st]]) = Some (ai_key (sx_oft_store x))"
      "ai_key (sx_mint x) = oft_token_mint st"
    using assms(1) unfolding send_accounts_def Let_def account_checks
    by (simp only: load_simps) (elim exE conjE, simp only: prod.inject)
  have m: "load_mint (oft_system_id E) (os_ledger s) (qx_mint q) = Ok mint"
    using h(3) by (simp only: load_mint_def assms(4))
  show ?thesis
    unfolding quote_accounts_def account_checks assms(2-4) m by (simp add: h ensure_def and_then_def ok_or_def)
qed

lemma arriving_le: "arriving env L st m x = Ok p \<Longrightarrow> p \<le> x"
  by (auto simp: arriving_def fee_amounts_Ok calculate_post_fee_amount_def checked_sub_def word_le_nat_alt
      bind_eq_Some_conv unat_sub split: if_splits option.splits)

lemma checked_split:
  fixes a b c :: u64
  assumes "unat a + unat b \<le> unat c"
  shows "checked_add a b = Some (a + b)" "unat (a + b) = unat a + unat b"
    "checked_sub c b = Some (c - b)" "checked_sub (c - b) a = Some (c - b - a)" "unat (c - b - a) = unat c - unat b - unat a"
proof -
  have l: "unat a + unat b < 2 ^ LENGTH(64)" using assms unat_less [of c] by (rule order_le_less_trans)
  then show s: "unat (a + b) = unat a + unat b" by (simp only: unat_add_lem [symmetric])
  then show "checked_add a b = Some (a + b)" using l by (simp only: checked_add_def if_True)
  have b: "b \<le> c" using assms by (simp add: word_le_nat_alt)
  then show "checked_sub c b = Some (c - b)" by (simp add: checked_sub_def)
  have u: "unat (c - b) = unat c - unat b" using b by (simp add: unat_sub)
  then have a: "a \<le> c - b" using assms by (simp add: word_le_nat_alt)
  then show "checked_sub (c - b) a = Some (c - b - a)" by (simp add: checked_sub_def)
  show "unat (c - b - a) = unat c - unat b - unat a" using a by (simp add: unat_sub u)
qed

definition fee_total :: "(u64 \<times> FeeDescription) list \<Rightarrow> nat" where
  "fee_total fs = sum_list (map (unat \<circ> fst) fs)"

text \<open>
  A quote for the amounts of a send that succeeds succeeds as well, and its receipt is the receipt of the
  send; the listed fees add up to the difference between what is sent and what is received.
\<close>

theorem quote_oft_of_send:
  assumes "oft_send E x params s = Ok (r, rc, s')"
    and "ai_key (qx_oft_store q) = ai_key (sx_oft_store x)" "ai_key (qx_peer q) = ai_key (sx_peer x)"
    and "ai_key (qx_mint q) = ai_key (sx_mint x)" "qp_dst_eid qp = sp_dst_eid params"
    and "qp_amount_ld qp = sp_amount_ld params" "qp_min_amount_ld qp = sp_min_amount_ld params"
    and "bridge_ok st0 (ai_key (sx_oft_store x)) v (s, g)"
  shows "\<exists>res. quote_oft E q qp s = Ok res \<and> qr_receipt res = rc \<and>
    unat (or_amount_received_ld rc) + fee_total (qr_fee_details res) = unat (or_amount_sent_ld rc)"
proof -
  obtain peer st mint sent received fee where
    a: "send_accounts E x params s = Ok (peer, st, mint)" and
    c: "compute_fee_and_adjust_amount (oft_clock E) (os_ledger s) (sp_amount_ld params) st (ai_key (sx_mint x)) (peer_fee_bps peer) =
       Ok (sent, received, fee)" and
    np: "\<not> oft_paused st" "sp_min_amount_ld params \<le> received" and
    rc: "rc = \<lparr>or_amount_sent_ld = sent, or_amount_received_ld = received\<rparr>"
    by (rule send_unfold [OF assms(1)])
  have l: "os_peers s (ai_key (sx_peer x)) = Some peer" "os_stores s (ai_key (sx_oft_store x)) = Some st"
      "ai_key (sx_mint x) = oft_token_mint st"
    by (rule send_accounts_Ok [OF a], assumption)+
  have i: "same_token st0 st" "fee_ok (default_fee_bps st)" "mint_ok (os_ledger s) (oft_token_mint st0)" "peers_ok (os_peers s)"
    using assms(8) l(2) by (simp_all add: bridge_ok_def)
  have m: "mint_ok (os_ledger s) (ai_key (sx_mint x))" using i(1,3) l(3) by (simp add: same_token_def)
  obtain p where p: "arriving (oft_clock E) (os_ledger s) st (ai_key (sx_mint x)) sent = Ok p"
    "amounts_ok st (final_bps st (peer_fee_bps peer)) p received fee"
    by (rule compute_fee_effect [OF c final_bps_ok [OF i(2,4) l(1)]]) (erule mint_ok_fee [OF m], rule that)
  have le: "unat received + unat fee \<le> unat sent"
    using p(2) arriving_le [OF p(1)] by (simp add: amounts_ok_def word_le_nat_alt)
  note k = checked_split [OF le]
  have q: "quote_oft E q qp s = Ok \<lparr>qr_limits = (0, 0xffffffffffffffff),
      qr_fee_details = (if received + fee < sent then [(sent - fee - received, TransferFeeDescription)] else []) @
        (if fee > 0 then [(fee, CrossChainFeeDescription)] else []), qr_receipt = rc\<rparr>"
    using send_accounts_quote [OF a assms(2-4)] np
    by (simp add: quote_oft_def assms(4-7) c k rc not_less)
  show ?thesis
    unfolding q using le by (auto simp: fee_total_def rc k word_less_nat_alt)
qed

section \<open>Who may do what\<close>

definition is_admin :: "'e OftState \<Rightarrow> AccountInfo \<Rightarrow> AccountInfo \<Rightarrow> bool" where
  "is_admin s store signer \<longleftrightarrow> ai_is_signer signer \<and>
     (\<exists>st. os_stores s (ai_key store) = Some st \<and> oft_admin st = ai_key signer)"

text \<open>
  What the owner of a store configures: everything but the amount that is locked; of a peer, everything but the tokens in
  its rate limiters.  The stores of \<open>K\<close> and the peers of \<open>P\<close> may change.
\<close>

definition settings_kept :: "pubkey set \<Rightarrow> pubkey set \<Rightarrow> 'e OftState \<Rightarrow> 'e OftState \<Rightarrow> bool" where
  "settings_kept K P s s' \<longleftrightarrow>
     (\<forall>k. k \<notin> K \<longrightarrow> map_option (\<lambda>st. st\<lparr>tvl_ld := 0\<rparr>) (os_stores s' k) = map_option (\<lambda>st. st\<lparr>tvl_ld := 0\<rparr>) (os_stores s k)) \<and>
     (\<forall>p. p \<notin> P \<longrightarrow> map_option (\<lambda>q. (peer_address q, enforced_options q, peer_fee_bps q)) (os_peers s' p) =
        map_option (\<lambda>q. (peer_address q, enforced_options q, peer_fee_bps q)) (os_peers s p))"

abbreviation same_settings :: "'e OftState \<Rightarrow> 'e OftState \<Rightarrow> bool" where
  "same_settings \<equiv> settings_kept {} {}"

lemma tokens_settings:
  "send_tokens E x st dec sent received fee L = Ok (st', L') \<Longrightarrow> st'\<lparr>tvl_ld := 0\<rparr> = st\<lparr>tvl_ld := 0\<rparr>"
  "receive_tokens E y st dec amount L = Ok (st', L', n) \<Longrightarrow> st'\<lparr>tvl_ld := 0\<rparr> = st\<lparr>tvl_ld := 0\<rparr>"
  by (auto simp: send_tokens_def receive_tokens_def and_then_Ok or_panic_Ok Let_def split: if_splits option.splits)

lemma same_settingsI:
  assumes "os_stores s k = Some st" "st'\<lparr>tvl_ld := 0\<rparr> = st\<lparr>tvl_ld := 0\<rparr>" "os_peers s p = Some q"
    and "peer_address q' = peer_address q" "enforced_options q' = enforced_options q" "peer_fee_bps q' = peer_fee_bps q"
    and "os_stores s' = (os_stores s)(k := Some st')" "os_peers s' = (os_peers s)(p := Some q')"
  shows "same_settings s s'"
  using assms by (simp add: settings_kept_def)

lemma send_settings:
  assumes "oft_send E x params s = Ok (r, rc, s')"
  shows "same_settings s s'"
proof -
  obtain peer st mint sent received fee peer' st' L1 L2 e2 where
    a: "send_accounts E x params s = Ok (peer, st, mint)" and
    lo: "limit_outbound (oft_clock E) received peer = Ok peer'" and
    t: "send_tokens E x st (s_decimals mint) sent received fee (os_ledger s) = Ok (st', L1)" and
    s': "s' = s\<lparr>os_ledger := L2, os_endpoint := e2,
         os_stores := (os_stores s)(ai_key (sx_oft_store x) := Some st'),
         os_peers := (os_peers s)(ai_key (sx_peer x) := Some peer'),
         os_events := os_events s @ [OFTSent (mr_guid r) (sp_dst_eid params) (ai_key (sx_source x)) sent received]\<rparr>"
    by (rule send_unfold [OF assms])
  have l: "os_peers s (ai_key (sx_peer x)) = Some peer" "os_stores s (ai_key (sx_oft_store x)) = Some st"
    by (rule send_accounts_Ok [OF a], assumption)+
  show ?thesis
    by (rule same_settingsI [OF l(2) tokens_settings(1) [OF t] l(1)]) (use limit_outbound_same(1) [OF lo] in \<open>simp_all add: s'\<close>)
qed

lemma receive_accounts_loaded:
  assumes "receive_accounts E x params s = Ok (peer, st, mint, L)"
  shows "os_peers s (ai_key (rx_peer x)) = Some peer" "os_stores s (ai_key (rx_oft_store x)) = Some st"
  using assms unfolding receive_accounts_def Let_def account_checks
  by (simp_all only: load_simps split_paired_Ex prod.case prod.inject) blast+

lemma receive_settings:
  assumes "lz_receive E x params s = Ok s'"
  shows "same_settings s s'"
proof -
  obtain peer st mint L L1 amount peer' st' L2 received L3 e3 ev where
    a: "receive_accounts E x params s = Ok (peer, st, mint, L)" and
    li: "limit_inbound (oft_clock E) amount peer = Ok peer'" and
    t: "receive_tokens E x st (s_decimals mint) amount L1 = Ok (st', L2, received)" and
    s': "s' = s\<lparr>os_ledger := L3, os_endpoint := e3,
         os_stores := (os_stores s)(ai_key (rx_oft_store x) := Some st'),
         os_peers := (os_peers s)(ai_key (rx_peer x) := Some peer'), os_events := ev\<rparr>"
    by (rule receive_unfold [OF assms])
  note l = receive_accounts_loaded [OF a]
  show ?thesis
    by (rule same_settingsI [OF l(2) tokens_settings(2) [OF t] l(1)]) (use limit_outbound_same(2) [OF li] in \<open>simp_all add: s'\<close>)
qed

text \<open>The account of a peer is the one derived from the store and the chain it is configured for.\<close>

definition own_peer :: "('g, 'm, 'd, 'f, 'e) OftEnv \<Rightarrow> pubkey \<Rightarrow> u32 \<Rightarrow> pubkey" where
  "own_peer E store eid = fst (oe_find_address E (peer_seeds store eid))"

lemma config_operation:
  assumes "set_oft_config E ax c s = Ok s'"
  shows "is_admin s (ax_oft_store ax) (ax_admin ax)" "settings_kept {ai_key (ax_oft_store ax)} {} s s'"
proof -
  obtain st where a: "admin_accounts E ax s = Ok st" using assms by (auto simp: set_oft_config_def and_then_Ok)
  then show "is_admin s (ax_oft_store ax) (ax_admin ax)" using admin_accounts_Ok by (auto simp: is_admin_def)
  show "settings_kept {ai_key (ax_oft_store ax)} {} s s'"
    using assms by (cases c) (auto simp: set_oft_config_def a and_then_Ok put_store_def settings_kept_def split: if_splits)
qed

lemma peer_accounts_own:
  assumes "peer_accounts E x eid s = Ok r"
  shows "ai_key (px_peer x) = own_peer E (ai_key (px_oft_store x)) eid"
proof -
  obtain k b where f: "oe_find_address E (peer_seeds (ai_key (px_oft_store x)) eid) = (k, b)" by fastforce
  note h = assms [unfolded peer_accounts_def f Let_def prod.case account_checks]
  have "k = ai_key (px_peer x)" using h by (simp only: load_simps split_paired_Ex prod.case)
  then show ?thesis by (simp add: own_peer_def f)
qed

lemma peer_operation:
  assumes "set_peer_config E px eid pc s = Ok s'"
  shows "is_admin s (px_oft_store px) (px_admin px)"
    and "settings_kept {} {own_peer E (ai_key (px_oft_store px)) eid} s s'"
proof -
  obtain peer bump L where a: "peer_accounts E px eid s = Ok (peer, bump, L)"
    using assms by (auto simp: set_peer_config_def and_then_Ok)
  then show "is_admin s (px_oft_store px) (px_admin px)"
    using peer_accounts_Ok(2,3) by (auto simp: is_admin_def)
  show "settings_kept {} {own_peer E (ai_key (px_oft_store px)) eid} s s'"
    using assms peer_accounts_own [OF a] by (auto simp: set_peer_config_def a and_then_Ok settings_kept_def)
qed

lemma withdraw_operation:
  assumes "withdraw_fee E wx amount s = Ok s'"
  shows "is_admin s (wx_oft_store wx) (wx_admin wx)" "same_settings s s'"
proof -
  obtain st mint escrow L where a: "withdraw_accounts E wx s = Ok (st, mint, escrow)" "s' = s\<lparr>os_ledger := L\<rparr>"
    using assms by (auto simp: withdraw_fee_def and_then_Ok split: if_splits)
  have "os_stores s (ai_key (wx_oft_store wx)) = Some st" "ai_is_signer (wx_admin wx)" "oft_admin st = ai_key (wx_admin wx)"
    by (rule withdraw_accounts_Ok [OF a(1)], assumption)+
  then show "is_admin s (wx_oft_store wx) (wx_admin wx)" "same_settings s s'"
    by (auto simp: is_admin_def a(2) settings_kept_def)
qed

lemma pause_operation:
  assumes "set_pause E ax b s = Ok s'"
  shows "ai_is_signer (ax_admin ax) \<and> (\<exists>st. os_stores s (ai_key (ax_oft_store ax)) = Some st \<and>
    (if b then oft_pauser st else oft_unpauser st) = Some (ai_key (ax_admin ax)) \<and>
    s' = s\<lparr>os_stores := (os_stores s)(ai_key (ax_oft_store ax) \<mapsto> st\<lparr>oft_paused := b\<rparr>)\<rparr>)"
proof -
  have "ai_is_signer (ax_admin ax) \<and> (\<exists>st. os_stores s (ai_key (ax_oft_store ax)) = Some st \<and>
    is_valid_signer (ai_key (ax_admin ax)) st b \<and> put_store (ax_oft_store ax) (st\<lparr>oft_paused := b\<rparr>) s = s')"
    using assms unfolding set_pause_def account_checks by (simp only: load_simps) blast
  then show ?thesis by (cases b) (auto simp: is_valid_signer_def put_store_def)
qed


end
