(* ===== verification/Oft_Scenario.thy ===== *)
theory Oft_Scenario
  imports Oft_Authority
begin

text \<open>
  A small bridge the properties are applied to: an adapter for the mint of the demonstration ledger whose store has
  the address 21 and the escrow 11, an endpoint that keeps lists of messages, and a send of 100 by the owner 20.
\<close>

definition demo_endpoint :: "(bytes list \<times> bytes list) Endpoint" where
  "demo_endpoint = \<lparr>ep_register_oapp = (\<lambda>_ _ _ _ _ s. Ok s), ep_set_delegate = (\<lambda>_ _ _ _ _ s. Ok s),
     ep_quote = (\<lambda>_ _ _ _. Ok \<lparr>mf_native_fee = 0, mf_lz_token_fee = 0\<rparr>),
     ep_send = (\<lambda>_ _ _ _ a (L, sent, cleared). Ok (\<lparr>mr_guid = [], mr_nonce = 1,
       mr_fee = \<lparr>mf_native_fee = 0, mf_lz_token_fee = 0\<rparr>\<rparr>, L, sent @ [es_message a], cleared)),
     ep_clear = (\<lambda>_ _ _ _ a (L, sent, cleared). Ok (L, sent, cleared @ [ec_message a])),
     ep_send_compose = (\<lambda>_ _ _ _ _ s. Ok s), ep_clear_min_accounts_len = 0,
     ep_accounts_for_clear = (\<lambda>_ _ _ _ _. []), ep_accounts_for_send_compose = (\<lambda>_ _ _ _ _ _. []),
     ep_combine_options = (\<lambda>a b. Ok (a @ b)), ep_assert_type_3 = (\<lambda>_. Ok ()), ep_id = 50,
     ep_event_seed = [], ep_lz_receive_types_seed = []\<rparr>"

definition demo_view :: "(bytes list \<times> bytes list) EndpointView" where
  "demo_view = \<lparr>ev_sent = fst, ev_cleared = snd\<rparr>"

definition demo_address :: "bytes list \<Rightarrow> pubkey" where
  "demo_address seeds = (if hd seeds = OFT_SEED then 21 else if hd seeds = PEER_SEED then 40 else 41)"

definition demo_oft :: "('g, 'm, 'd, 'f) Runtime \<Rightarrow> ('g, 'm, 'd, 'f, bytes list \<times> bytes list) OftEnv" where
  "demo_oft R = \<lparr>oe_runtime = R\<lparr>rt_env := demo_env\<rparr>, oe_endpoint = demo_endpoint, oe_program_id = 51,
     oe_create_address = (\<lambda>seeds. Some (demo_address seeds)), oe_find_address = (\<lambda>seeds. (demo_address seeds, 255)),
     oe_associated_address = (\<lambda>_ _ _. 10), oe_associated_token_id = 52, oe_spl_token = (\<lambda>_ _ _. Err InvalidArgument),
     oe_create_account = (\<lambda>_ _ _ L. Ok L), oe_init_token_account = (\<lambda>_ _ _ _ _ L. Ok L),
     oe_init_associated = (\<lambda>_ _ _ _ _ L. Ok L)\<rparr>"

definition demo_peer :: PeerConfig where
  "demo_peer = PeerConfig_default\<lparr>peer_address := replicate 32 9, peer_bump := 255\<rparr>"

definition demo_bridge :: "(bytes list \<times> bytes list) OftState" where
  "demo_bridge = \<lparr>os_ledger = demo_ledger, os_stores = [21 \<mapsto> demo_store], os_peers = [40 \<mapsto> demo_peer],
     os_receive_types = Map.empty, os_endpoint = ([], []), os_events = []\<rparr>"

lemma demo_oft_simps [simp]:
  "oe_runtime (demo_oft R) = R\<lparr>rt_env := demo_env\<rparr>" "oe_endpoint (demo_oft R) = demo_endpoint"
  "oe_create_address (demo_oft R) seeds = Some (demo_address seeds)"
  "oe_find_address (demo_oft R) seeds = (demo_address seeds, 255)"
  "oe_create_account (demo_oft R) p a n L = Ok L" "oe_init_token_account (demo_oft R) p a m w t L = Ok L"
  "oe_init_associated (demo_oft R) p a m w t L = Ok L"
  by (simp_all add: demo_oft_def)

lemma demo_addresses [simp]: "demo_address (store_seeds e @ xs) = 21" "demo_address (peer_seeds k eid @ xs) = 40"
  "demo_address (store_seeds e) = 21" "demo_address (peer_seeds k eid) = 40"
  by (simp_all add: demo_address_def store_seeds_def peer_seeds_def OFT_SEED_def PEER_SEED_def)

lemma demo_mint_ok: "mint_ok demo_ledger 1"
  by (simp add: mint_ok_def plain_mint_unpacks)

lemma demo_bridge_env: "bridge_env st 21 demo_view (demo_oft R)"
  by (auto simp: bridge_env_def hook_keeps_data_def demo_env_def creation_keeps_def creates_def endpoint_leaves_def
      endpoint_records_def demo_endpoint_def demo_view_def)

lemma demo_bridge_ok: "bridge_ok demo_store 21 demo_view (demo_bridge, 0)"
  by (simp add: bridge_ok_def demo_bridge_def peers_ok_def demo_peer_def PeerConfig_default_def fee_ok_def demo_mint_ok
      books_def demo_view_def demo_store_def Let_def)

section \<open>A send\<close>

lemma plain_account_unpacks:
  "state_unpack AccountP (enc_account (plain_account m ow x)) = Ok \<lparr>base = account_view (plain_account m ow x), tlv_data = []\<rparr>"
  by (simp add: packed_account.state_unpack_Ok unpack_eq)
    (simp add: account_canonical_def coption_canonical_def plain_account_def coption_none_def account_state_try_from_def)

definition demo_send_ctx :: SendCtx where
  "demo_send_ctx = \<lparr>sx_signer = signed_key 20, sx_peer = unsigned_key 40, sx_oft_store = unsigned_key 21,
     sx_source = unsigned_key 10, sx_escrow = unsigned_key 11, sx_mint = unsigned_key 1,
     sx_token_program = unsigned_key token_program_id, sx_remaining = [unsigned_key 50, unsigned_key 21]\<rparr>"

definition demo_send_params :: SendParams where
  "demo_send_params = \<lparr>sp_dst_eid = 7, sp_to = replicate 32 1, sp_amount_ld = 100, sp_min_amount_ld = 80,
     sp_options = [], sp_compose_msg = None, sp_native_fee = 0, sp_lz_token_fee = 0\<rparr>"

lemma demo_send_accounts: "send_accounts (demo_oft R) demo_send_ctx demo_send_params demo_bridge =
    Ok (demo_peer, demo_store, mint_view (plain_mint 30 150))"
  by (simp add: send_accounts_def account_checks demo_send_ctx_def demo_send_params_def demo_bridge_def demo_store_def
      load_token_account_def load_mint_def token_programs_def plain_account_unpacks plain_mint_unpacks ensure_def Let_def)

lemma demo_amounts:
  "compute_fee_and_adjust_amount demo_env demo_ledger 100 demo_store 1 None = Ok (100, 90, 10)"
  by (simp add: compute_fee_and_adjust_amount_def demo_store_def fee_amounts_eq demo_mint_fee remove_dust_def
      oft_calculate_fee_def ONE_IN_BASIS_POINTS_OFT_def MAX_FEE_BASIS_POINTS_def checked_sub_def checked_mul_def
      word_le_nat_alt Let_def)

definition demo_sent_ledger :: ledger where
  "demo_sent_ledger = set_data 11 (enc_account (plain_account 1 21 150))
     (set_data 10 (enc_account (plain_account 1 20 0)) demo_ledger)"

lemma demo_call:
  fixes R :: "('g, 'm, 'd, 'f) Runtime"
  shows "invoke_signed (demo_oft R) None [20] (transfer_checked token_program_id 10 1 11 20 [] 100 2) demo_ledger = Ok demo_sent_ledger"
proof -
  obtain ix where ix: "transfer_checked token_program_id 10 1 11 20 [] 100 2 = Ok ix" "ix_program_id ix = token_program_id"
    "ix_accounts ix = [meta_new 10 False, meta_readonly 1 False, meta_new 11 False, meta_readonly 20 True]"
    by (simp add: transfer_checked_def check_spl_token_program_account_def authority_metas_def)
  have "performs token_program_id (transfer_checked token_program_id 10 1 11 20 [] 100 2)
      (\<lambda>(R :: ('g, 'm, 'd, 'f) Runtime) accounts L. quiet (process_transfer token_program_id (rt_env R) accounts 100 (Checked 2) L))"
    by (rule token_builders_perform)
  then have p: "process R token_program_id accounts (ix_data ix) L =
      quiet (process_transfer token_program_id (rt_env R) accounts 100 (Checked 2) L)" for R :: "('g, 'm, 'd, 'f) Runtime" and accounts L
    using ix(1) by (simp add: performs_def)
  have "process_transfer token_program_id (demo_env\<lparr>env_in_cpi := True, env_sibling := None\<rparr>)
      [unsigned_key 10, unsigned_key 1, unsigned_key 11, signed_key 20] 100 (Checked 2) demo_ledger = Ok demo_sent_ledger"
    by (simp add: transfer_eval demo_sent_ledger_def plain_account_amount validate_owner_plain try_borrow_data_def
        check_program_account_def checked_sub_def checked_add_def word_less_nat_alt word_le_nat_alt
        get_permanent_delegate_def get_program_id_def check_not_paused_def coption_none_def coption_is_some_def Let_def)
  then show ?thesis
    by (simp add: invoke_signed_def ix p in_cpi_def cpi_infos_def meta_new_def meta_readonly_def quiet_def)
qed

definition demo_message :: bytes where
  "demo_message = msg_encode (replicate 32 1) 9 20 None"

definition demo_sent :: "(bytes list \<times> bytes list) OftState" where
  "demo_sent = demo_bridge\<lparr>os_ledger := demo_sent_ledger, os_endpoint := ([demo_message], []),
     os_stores := [21 \<mapsto> demo_store\<lparr>tvl_ld := 90\<rparr>], os_peers := [40 \<mapsto> demo_peer],
     os_events := [OFTSent [] 7 10 100 90]\<rparr>"

definition demo_receipt :: MessagingReceipt where
  "demo_receipt = \<lparr>mr_guid = [], mr_nonce = 1, mr_fee = \<lparr>mf_native_fee = 0, mf_lz_token_fee = 0\<rparr>\<rparr>"

lemma demo_send: "oft_send (demo_oft R) demo_send_ctx demo_send_params demo_bridge =
    Ok (demo_receipt, \<lparr>or_amount_sent_ld = 100, or_amount_received_ld = 90\<rparr>, demo_sent)"
proof -
  have p: "limit_outbound demo_env 90 demo_peer = Ok demo_peer" "peer_fee_bps demo_peer = None"
    by (simp_all add: limit_outbound_def limit_with_def demo_peer_def PeerConfig_default_def)
  have t: "send_tokens (demo_oft R) demo_send_ctx demo_store 2 100 90 10 demo_ledger =
      Ok (demo_store\<lparr>tvl_ld := 90\<rparr>, demo_sent_ledger)"
    using demo_call [of R]
    by (simp add: send_tokens_def demo_send_ctx_def demo_store_def checked_add_def Let_def)
  have s: "s_decimals (mint_view (plain_mint 30 150)) = 2" by (simp add: mint_view_def)
  have k: "ai_key (sx_mint demo_send_ctx) = 1" "sp_amount_ld demo_send_params = 100" "sp_min_amount_ld demo_send_params = 80"
    "os_ledger demo_bridge = demo_ledger" "oft_paused demo_store = False"
    by (simp_all add: demo_send_ctx_def demo_send_params_def demo_bridge_def demo_store_def)
  show ?thesis
    unfolding oft_send_def demo_send_accounts
    using demo_amounts p t
    by (simp add: k s)
      (simp add: demo_send_ctx_def demo_send_params_def demo_bridge_def nth_account_def ld2sd_def checked_div_def
        demo_store_def combine_options_def get_enforced_options_def demo_endpoint_def demo_receipt_def demo_sent_def
        demo_message_def demo_peer_def PeerConfig_default_def)
qed

section \<open>Runs\<close>

text \<open>The adapter after the send, and a native token elsewhere that took the message in and sent one back.\<close>

definition demo_return :: bytes where
  "demo_return = msg_encode (replicate 32 2) 4 20 None"

definition native_store :: OFTStore where
  "native_store = demo_store\<lparr>oft_type := Native\<rparr>"

definition native_bridge :: "(bytes list \<times> bytes list) OftState" where
  "native_bridge = demo_bridge\<lparr>os_stores := [21 \<mapsto> native_store], os_endpoint := ([demo_return], [demo_message])\<rparr>"

lemma demo_message_amounts [simp]: "msg_amount_sd demo_return = Some 4"
  "message_amount demo_message = 9" "message_amount demo_return = 4"
  by (simp_all add: message_amount_def demo_message_def demo_return_def msg_read(2))

lemma demo_run:
  fixes R :: "('g, 'm, 'd, 'f) Runtime"
  shows "bridge_run {demo_oft R} demo_store 21 demo_view (demo_bridge, 0) (demo_sent, 0)"
proof -
  have "oft_step {demo_oft R} demo_store 21 demo_view (demo_bridge, 0) (demo_sent, 0)"
    by (rule step_send [OF _ demo_send]) (simp_all add: demo_send_ctx_def demo_send_params_def)
  then show ?thesis using demo_bridge_ok demo_bridge_env unfolding bridge_run_def by auto
qed

lemma native_bridge_env: "bridge_env native_store 21 demo_view (demo_oft R)"
  using demo_bridge_env [of demo_store R] by (simp add: bridge_env_def native_store_def)

lemma native_supply: "supply_in (os_ledger native_bridge) 1 = 150"
  by (simp add: native_bridge_def demo_bridge_def supply_in_def)

lemma native_bridge_ok: "bridge_ok native_store 21 demo_view (native_bridge, 100)"
  using native_supply
  by (simp add: bridge_ok_def native_bridge_def demo_bridge_def peers_ok_def demo_peer_def PeerConfig_default_def fee_ok_def
      demo_mint_ok books_def demo_view_def demo_store_def native_store_def Let_def)

lemma native_run:
  fixes R :: "('g, 'm, 'd, 'f) Runtime"
  shows "bridge_run {demo_oft R} native_store 21 demo_view (native_bridge, 100) (native_bridge, 100)"
  using native_bridge_ok native_bridge_env unfolding bridge_run_def by auto

lemma demo_exchange:
  "exchange (ev_sent demo_view (os_endpoint demo_sent)) (ev_cleared demo_view (os_endpoint demo_sent))
     (ev_sent demo_view (os_endpoint native_bridge)) (ev_cleared demo_view (os_endpoint native_bridge))"
  by (simp add: exchange_def demo_view_def demo_sent_def native_bridge_def)

lemma demo_types: "oft_type demo_store = Adapter" "oft_type native_store = Native"
  by (simp_all add: demo_store_def native_store_def)

theorem bridge_books_of_send:
  "\<forall>R :: (unit, unit, unit, unit) Runtime.
     bridge_run {demo_oft R} demo_store 21 demo_view (demo_bridge, 0) (demo_sent, 0) \<and>
     (\<exists>st. os_stores demo_sent 21 = Some st \<and> unat (tvl_ld st) \<le> balance_of (os_ledger demo_sent) 11)"
proof
  fix R :: "(unit, unit, unit, unit) Runtime"
  show "bridge_run {demo_oft R} demo_store 21 demo_view (demo_bridge, 0) (demo_sent, 0) \<and>
     (\<exists>st. os_stores demo_sent 21 = Some st \<and> unat (tvl_ld st) \<le> balance_of (os_ledger demo_sent) 11)"
    using demo_run [of R] bridge_books [OF demo_run [of R]] by (auto simp: demo_store_def)
qed


text \<open>The admin 60 pauses the store of the demonstration bridge, and the send of the owner 20 changes no setting.\<close>

definition demo_admin_ctx :: AdminCtx where
  "demo_admin_ctx = \<lparr>ax_admin = signed_key 60, ax_oft_store = unsigned_key 21, ax_remaining = []\<rparr>"


end
