(* ===== verification/Spec2Isabelle.thy ===== *)
theory Spec2Isabelle
  imports Elgamal_Registry Confidential_Fee_Laws Client_Scenario Oft_Limits Oft_Scenario
begin

text \<open>
  A verification development for the Token-2022 program: the on-chain program (src/program), its interface
  (src/interface), the confidential crates (src/confidential), the client functions that build instructions, and
  the omnichain token program that bridges its tokens (src/layerzero/programs/oft).

  \<^bold>\<open>The program.\<close>  One entry point, \<open>Processor::process\<close>, decodes an instruction and runs its handler on a list
  of accounts.  Mints and token accounts are byte arrays: a base struct of fixed layout, an account-type byte and
  a buffer of type-length-value entries, the extensions, which change what the handlers must check and keep
  (fees, hooks, pausing, CPI guard, encrypted balances, groups, metadata).  State is shared only through the
  accounts; other programs are called through the runtime.

  \<^bold>\<open>The model.\<close>  An account (\<open>account\<close> in Ledger) has lamports, data and an owner; a \<open>ledger\<close> is a function from
  keys to accounts, so two entries of the account list with one key are one account, as with the shared
  \<open>RefCell\<close> of the runtime, and reading an account whose data is already mutably borrowed is the error that
  \<open>borrow_data\<close> and \<open>try_borrow_data\<close> give.  A handler is a function \<open>accounts, arguments, ledger\<close> to
  \<open>ledger result\<close>; an error discards the changes.  \<open>result\<close> is a sum with \<open>ProgramError\<close> (Token_Error), where
  \<open>Custom\<close> carries the codes of \<open>TokenError\<close>; a panic is the value \<open>Panicked\<close>.  Integers are words of their
  width and checked arithmetic is written out; \<open>usize\<close> is a natural number, as account data is far below its
  bound.  Public keys, curve points and ciphertexts are words of their size.

  \<^bold>\<open>Theories, in the order of the code.\<close>

  Data.  Prelude: result, checked and saturating arithmetic, little-endian bytes, the locale \<open>pod\<close> of types with
  a fixed layout.  Token_Error: src/interface/src/error.rs.  Pod_State, Packed_State: pod.rs and state.rs, the same
  states as plain-old-data and as structs, shown to be two views of the same bytes.  Extension_Type, Tlv, Tlv_Laws,
  Tlv_Entries, State_With_Extensions, Extension_Data, Serialize: extension/mod.rs and the structs of the extensions.
  The lemmas of Tlv_Laws hold for every buffer, well formed or not: what is written through an extension is read
  back and no other extension changes.  Tlv_Entries refines the buffer by an association list of entries.
  The locale \<open>extension\<close> is interpreted for every extension (\<open>cta\<close>, \<open>tfa\<close>, \<open>cg\<close> and so on), \<open>base_pod\<close> and
  \<open>packed\<close> for the base states, \<open>authority_field\<close> for every extension with an authority.

  Public tokens.  Transfer_Fee: the fee arithmetic of extension/transfer_fee/mod.rs.  Ledger: accounts, runtime and
  \<open>validate_owner\<close>.  Token_Transfer, Supply, Authority, Lifecycle, Initialization: the handlers of
  src/program/src/processor.rs.  Fee_Processor, Extension_Update, Extension_Processors, Token_Group, Token_Metadata,
  Reallocate: the processors under src/program/src/extension.  Ui_Amount: amounts as decimal strings.

  Encrypted balances.  Ciphertext_Arithmetic, Proof_Extraction: the crates of these names under src/confidential.
  Confidential_Transfer, Confidential_Mint_Burn, Confidential_Fee: the three confidential processors.
  Confidential_Laws, Confidential_Conservation, Confidential_Supply, Confidential_Fee_Laws: what their operations
  do to the encrypted values.  Elgamal_Registry: the registry program of src/confidential/elgamal-registry.

  Instructions.  Instruction, Instruction_Data: the wire format.  Dispatch: \<open>Processor::process\<close>.
  Instruction_Builders, Confidential_Builders: the functions of the \<open>instruction.rs\<close> files that clients call.
  Client_Transfer: a transfer from the built instruction to the ledger.

  The client of the encrypted balances.  Proof_Generation: src/confidential/proof-generation, from splitting an
  amount to the proofs of a transfer, withdrawal, mint or burn.  Account_Info: the \<open>account_info.rs\<close> files, what a
  client decrypts and encrypts with its keys.  Proof_Acceptance: the generated proofs pass the checks of
  Proof_Extraction and of the handlers.  Client_Consistency, Client_Supply, Client_Fee: client and handlers
  together, from the state of an account to the state the program leaves.

  The bridge.  Oft_Codec, Oft_State, Oft_Limits, Oft_Fee, Oft_Context, Oft_Send, Oft_Receive, Oft_Admin: the omnichain
  token program of src/layerzero/programs/oft, which calls the token program: message formats, stores, peers and rate
  limiters, amounts and fees, quotes and sending, receiving, creation and administration.  Oft_Tokens, Oft_Effects: what
  its calls of the token program do to balances and supplies, from the effect lemmas of the handlers.  Oft_Bridge: a
  store as a step relation (\<open>oft_step\<close>) over its instructions interleaved with everything else on the chain, and the
  books every step keeps (Oft_Books).  Oft_Accounts: the books of every run and of two chains that exchange messages.
  Oft_Authority: quotes, and who may change what.

  Scenario, Extension_Scenario, Confidential_Scenario, Client_Scenario, Oft_Scenario: concrete ledgers, a concrete
  proof program, a concrete SDK and a concrete bridge at which the properties are instantiated.

  \<^bold>\<open>What the lemmas show.\<close>  For each handler an effect lemma: what a success implies about signers and accounts,
  and which ledger it leaves.  From these: a transfer conserves balances plus withheld fees; minting and burning
  keep the supply equal to the holdings; harvesting and withdrawing fees conserve them; authorities change
  only as the present authority signs; nothing is initialized twice; a paused mint is idle.  For encrypted
  balances, decryption is a homomorphism (\<open>opens\<close>), and the sum of what accounts, mint and fees are worth is
  conserved by transfers, deposits, withdrawals, mints, burns and fee collection, given what the proofs state.
  Conversely, whoever can decrypt a balance can always make the proofs, the program accepts them, and the encrypted
  and the decryptable balance (\<open>client_view\<close>, \<open>supply_view\<close>) stay in agreement; the exception is a fee that makes a
  part of the pending balance negative.  For instructions: packing and unpacking are inverse, \<open>process\<close> runs the handler that belongs to the instruction, and
  each built instruction runs the handler its function is named after.  For the registry: in every
  reachable state a registered key is at the address of its wallet and was proven valid.  For the bridge: what an
  adapter has locked is what its messages carried away, and is exactly the supply the bridge issued on the other chain
  plus what is in flight, so that every message in flight can be paid out; only the keys a store names change it.

  \<^bold>\<open>Loops.\<close>  The walks over the buffer (\<open>get_extension_indices_from\<close>, \<open>get_tlv_data_info_from\<close>) are functions with a
  termination proof by the bytes that are left, so no fuel is used anywhere.  The loops over accounts and signers
  are recursions over their list.

  \<^bold>\<open>Parameters.\<close>  What is not part of the repository is an argument: the runtime (\<open>Env\<close>: sysvars, call depth, sibling
  instruction, system transfer, the call of a transfer hook), account resizing (\<open>resize\<close>), the system program
  (\<open>SystemProgram\<close>), the curve (\<open>Curve\<close>), the proof program (\<open>ZkSdk\<close>) and the SDK of the client (\<open>ProofSdk\<close>, \<open>ClientSdk\<close>, with the random
  openings and nonces as arguments), the group and metadata
  interfaces, the encoding of proof instructions (\<open>ProofClient\<close>), the derivation of program addresses
  (\<open>find_address\<close>), the endpoint of the bridge (\<open>Endpoint\<close>, \<open>OftEnv\<close>), \<open>f64\<close> arithmetic of displayed amounts.  What a property relies on is a named hypothesis:
  \<open>hook_keeps_data\<close> (a hook cannot write data the token program owns), \<open>resizes\<close>, \<open>system_transfers\<close> and
  \<open>system_allocates\<close> (what these calls do to an account), \<open>packs_back\<close>, \<open>group_interface\<close>, \<open>metadata_interface\<close> (decoding
  inverts encoding), \<open>ristretto_group\<close> (points form an abelian group), \<open>range_contexts\<close> (a verified range context has
  eight entries), \<open>validity_sound\<close>, \<open>equality_sound\<close> (a verified proof states a fact about plaintexts),
  \<open>sdk_behaves\<close> and \<open>client_behaves\<close> (encoding, commitments, encryption and decryption are what they are documented to
  be, and a proof of a true statement can be made), \<open>client_proves\<close>, \<open>decrypts_only\<close>,
  \<open>endpoint_leaves\<close>, \<open>endpoint_records\<close> and \<open>creation_keeps\<close> (the endpoint does not touch escrow and mint and keeps
  account of the messages, creating accounts leaves the accounts in use alone), \<open>exchange\<close> (a message is cleared only if it was sent, and
  once),
  \<open>reads_sysvar_only\<close> (instructions are read only from their sysvar), \<open>outside_step\<close> (only the owner of an account
  changes its data).  Each property with such a hypothesis is instantiated at a concrete function.

  \<^bold>\<open>Not modelled.\<close>  The command line and RPC clients (src/clients: input and output around the instruction
  builders), the JSON serialization of instructions, the entry point (calls \<open>process\<close> and logs), log messages,
  compute units, the texts of error messages, the resolution of the additional accounts of a hook (a library the source calls),
  the version numbers \<open>oft_version\<close> returns.  The accounts of the bridge are values: of their byte encoding only the size is
  modelled, where it can outgrow the account (\<open>peer_config_size\<close>).
\<close>

end
